(* ===== verification/Memra_Prelude.thy ===== *)
theory Memra_Prelude
  imports Complex_Main "HOL-Library.Sublist" "HOL-Library.List_Lexorder" "HOL-Library.Word"
begin

unbundle bit_operations_syntax

text \<open>
  Shared vocabulary of the development: Rust strings, results and SQL tables.

  A Rust \<open>str\<close> is a sequence of Unicode scalar values; it is modelled as the list of its
  code points (\<open>ustr\<close>), and its bytes are the value of \<open>utf8\<close>. A SQLite table is the list
  of its rows in insertion order, a primary key is a projection of the row, and the
  statements the program issues are the row functions below. A statement can also fail
  for reasons outside the program (a locked or full database): every operation that
  issues SQL takes a \<open>faults\<close> argument that says which statements fail and how.
\<close>

named_theorems table_simps \<open>equations of the keyed row functions\<close>

section \<open>Results\<close>

type_synonym ('e, 'a) result = "'e + 'a"

abbreviation Ok :: "'a \<Rightarrow> ('e, 'a) result" where "Ok \<equiv> Inr"
abbreviation Err :: "'e \<Rightarrow> ('e, 'a) result" where "Err \<equiv> Inl"

text \<open>Rust's \<open>?\<close> operator.\<close>

definition and_then :: "('e, 'a) result \<Rightarrow> ('a \<Rightarrow> ('e, 'b) result) \<Rightarrow> ('e, 'b) result" where
  "and_then r f = (case r of Inl e \<Rightarrow> Inl e | Inr x \<Rightarrow> f x)"

lemma and_then_simps [simp]:
  "and_then (Inl e) f = Inl e"
  "and_then (Inr x) f = f x"
  by (simp_all add: and_then_def)

lemma and_then_Inr_iff: "and_then r f = Inr y \<longleftrightarrow> (\<exists>x. r = Inr x \<and> f x = Inr y)"
  by (cases r) auto

section \<open>Strings\<close>

type_synonym rchar = int
type_synonym ustr = "rchar list"

text \<open>An ASCII literal of the source.\<close>

definition lit :: "string \<Rightarrow> ustr" where
  "lit s = map of_char s"

lemma lit_simps [simp]: "lit [] = []" "lit (c # s) = of_char c # lit s"
  by (simp_all add: lit_def)

lemma lit_inject: "lit s = lit t \<longleftrightarrow> s = t"
  unfolding lit_def by (rule inj_map_eq_map) (rule injI, simp)

text \<open>The Unicode scalar values (\<open>char\<close> of Rust).\<close>

definition is_scalar :: "rchar \<Rightarrow> bool" where
  "is_scalar c \<longleftrightarrow> 0 \<le> c \<and> c < 0x110000 \<and> \<not> (0xD800 \<le> c \<and> c \<le> 0xDFFF)"

definition valid_ustr :: "ustr \<Rightarrow> bool" where
  "valid_ustr t \<longleftrightarrow> list_all is_scalar t"

definition is_ascii_uppercase :: "rchar \<Rightarrow> bool" where
  "is_ascii_uppercase c \<longleftrightarrow> 65 \<le> c \<and> c \<le> 90"

definition is_ascii_lowercase :: "rchar \<Rightarrow> bool" where
  "is_ascii_lowercase c \<longleftrightarrow> 97 \<le> c \<and> c \<le> 122"

definition is_ascii_digit :: "rchar \<Rightarrow> bool" where
  "is_ascii_digit c \<longleftrightarrow> 48 \<le> c \<and> c \<le> 57"

definition is_ascii_alphanumeric :: "rchar \<Rightarrow> bool" where
  "is_ascii_alphanumeric c \<longleftrightarrow>
     is_ascii_uppercase c \<or> is_ascii_lowercase c \<or> is_ascii_digit c"

definition char_to_ascii_lowercase :: "rchar \<Rightarrow> rchar" where
  "char_to_ascii_lowercase c = (if is_ascii_uppercase c then c + 32 else c)"

definition to_ascii_lowercase :: "ustr \<Rightarrow> ustr" where
  "to_ascii_lowercase t = map char_to_ascii_lowercase t"

definition eq_ignore_ascii_case :: "ustr \<Rightarrow> ustr \<Rightarrow> bool" where
  "eq_ignore_ascii_case a b \<longleftrightarrow> to_ascii_lowercase a = to_ascii_lowercase b"

lemma char_to_ascii_lowercase_idem [simp]:
  "char_to_ascii_lowercase (char_to_ascii_lowercase c) = char_to_ascii_lowercase c"
  by (simp add: char_to_ascii_lowercase_def is_ascii_uppercase_def)

lemma to_ascii_lowercase_idem [simp]:
  "to_ascii_lowercase (to_ascii_lowercase t) = to_ascii_lowercase t"
  by (simp add: to_ascii_lowercase_def)

lemma to_ascii_lowercase_simps [simp]:
  "to_ascii_lowercase [] = []"
  "to_ascii_lowercase (c # t) = char_to_ascii_lowercase c # to_ascii_lowercase t"
  "to_ascii_lowercase (s @ t) = to_ascii_lowercase s @ to_ascii_lowercase t"
  by (simp_all add: to_ascii_lowercase_def)

text \<open>\<open>char::is_whitespace\<close>: the Unicode \<open>White_Space\<close> property.\<close>

definition is_whitespace :: "rchar \<Rightarrow> bool" where
  "is_whitespace c \<longleftrightarrow>
     (9 \<le> c \<and> c \<le> 13) \<or> c = 0x20 \<or> c = 0x85 \<or> c = 0xA0 \<or> c = 0x1680 \<or>
     (0x2000 \<le> c \<and> c \<le> 0x200A) \<or> c = 0x2028 \<or> c = 0x2029 \<or> c = 0x202F \<or>
     c = 0x205F \<or> c = 0x3000"

definition trim_start :: "ustr \<Rightarrow> ustr" where
  "trim_start t = dropWhile is_whitespace t"

definition trim :: "ustr \<Rightarrow> ustr" where
  "trim t = rev (dropWhile is_whitespace (rev (dropWhile is_whitespace t)))"

lemma trim_Nil [simp]: "trim [] = []"
  by (simp add: trim_def)

lemma trim_eq_Nil: "trim t = [] \<longleftrightarrow> list_all is_whitespace t"
proof -
  have "trim t = [] \<longleftrightarrow> (\<forall>c \<in> set (dropWhile is_whitespace t). is_whitespace c)"
    by (simp add: trim_def)
  also have "\<dots> \<longleftrightarrow> dropWhile is_whitespace t = []"
    by (metis dropWhile_eq_Nil_conv hd_dropWhile list.set_sel(1) set_dropWhileD)
  finally show ?thesis
    by (simp add: list_all_iff)
qed

lemma dropWhile_none: "\<forall>c \<in> set t. \<not> P c \<Longrightarrow> dropWhile P t = t"
  by (cases t) auto

lemma trim_no_space: "list_all (\<lambda>c. \<not> is_whitespace c) t \<Longrightarrow> trim t = t"
  by (simp add: trim_def list_all_iff dropWhile_none)

lemma trim_padded:
  assumes "list_all (\<lambda>c. \<not> is_whitespace c) t" "t \<noteq> []"
    and "list_all is_whitespace pre" "list_all is_whitespace post"
  shows "trim (pre @ t @ post) = t"
proof -
  have pre: "dropWhile is_whitespace (pre @ s) = dropWhile is_whitespace s" for s
    using assms(3) by (simp add: dropWhile_append2 list_all_iff)
  have post: "dropWhile is_whitespace (rev post @ s) = dropWhile is_whitespace s" for s
    using assms(4) by (subst dropWhile_append2) (auto simp: list_all_iff)
  obtain c cs where "t = c # cs" using assms(2) by (cases t) auto
  with assms(1) have t: "dropWhile is_whitespace (t @ post) = t @ post" by simp
  have r: "dropWhile is_whitespace (rev t) = rev t"
    using assms(1) by (intro dropWhile_none) (simp add: list_all_iff)
  show ?thesis by (simp add: trim_def pre t post r)
qed

text \<open>\<open>str::contains\<close>, as the scan for a starting position.\<close>

fun starts_with :: "ustr \<Rightarrow> ustr \<Rightarrow> bool" where
  "starts_with t [] = True"
| "starts_with [] (p # ps) = False"
| "starts_with (c # t) (p # ps) = (c = p \<and> starts_with t ps)"

fun contains :: "ustr \<Rightarrow> ustr \<Rightarrow> bool" where
  "contains [] p = (p = [])"
| "contains (c # t) p = (starts_with (c # t) p \<or> contains t p)"

lemma starts_with_prefix: "starts_with t p = prefix p t"
  by (induction t p rule: starts_with.induct) auto

lemma contains_sublist: "contains t p = sublist p t"
  by (induction t) (auto simp: starts_with_prefix sublist_Cons_right)

definition strip_prefix :: "ustr \<Rightarrow> ustr \<Rightarrow> ustr option" where
  "strip_prefix t p = (if starts_with t p then Some (drop (length p) t) else None)"

lemma strip_prefix_append [simp]: "strip_prefix (p @ t) p = Some t"
  by (simp add: strip_prefix_def starts_with_prefix)

text \<open>\<open>str::split_once\<close> on one character.\<close>

fun split_once :: "rchar \<Rightarrow> ustr \<Rightarrow> (ustr \<times> ustr) option" where
  "split_once d [] = None"
| "split_once d (c # t) =
     (if c = d then Some ([], t)
      else map_option (\<lambda>(a, b). (c # a, b)) (split_once d t))"

lemma split_once_append:
  "d \<notin> set a \<Longrightarrow> split_once d (a @ d # b) = Some (a, b)"
  by (induction a) auto

lemma split_once_Some:
  "split_once d t = Some (a, b) \<longleftrightarrow> t = a @ d # b \<and> d \<notin> set a"
proof
  show "split_once d t = Some (a, b) \<Longrightarrow> t = a @ d # b \<and> d \<notin> set a"
    by (induction t arbitrary: a) (auto split: if_splits)
qed (auto simp: split_once_append)

lemma split_once_None: "split_once d t = None \<longleftrightarrow> d \<notin> set t"
  by (induction t) auto

text \<open>\<open>split\<close> on characters, \<open>split_whitespace\<close> and \<open>join\<close>.\<close>

fun split_on :: "(rchar \<Rightarrow> bool) \<Rightarrow> ustr \<Rightarrow> ustr list" where
  "split_on P [] = [[]]"
| "split_on P (c # t) =
     (if P c then [] # split_on P t
      else (case split_on P t of [] \<Rightarrow> [[c]] | p # ps \<Rightarrow> (c # p) # ps))"

definition split_whitespace :: "ustr \<Rightarrow> ustr list" where
  "split_whitespace t = filter (\<lambda>p. p \<noteq> []) (split_on is_whitespace t)"

fun join_with :: "ustr \<Rightarrow> ustr list \<Rightarrow> ustr" where
  "join_with sep [] = []"
| "join_with sep [t] = t"
| "join_with sep (t # ts) = t @ sep @ join_with sep ts"

text \<open>\<open>format!\<close> of an unsigned integer.\<close>

fun show_nat :: "nat \<Rightarrow> ustr" where
  "show_nat n = (if n < 10 then [48 + int n] else show_nat (n div 10) @ [48 + int (n mod 10)])"

declare show_nat.simps [simp del]

lemma show_nat_not_Nil [simp]: "show_nat n \<noteq> []"
  by (subst show_nat.simps) simp

lemma show_nat_digits: "list_all is_ascii_digit (show_nat n)"
proof (induction n rule: show_nat.induct)
  case (1 n)
  show ?case
  proof (cases "n < 10")
    case True
    then show ?thesis by (subst show_nat.simps) (simp add: is_ascii_digit_def)
  next
    case False
    have "is_ascii_digit (48 + int (n mod 10))"
      by (simp add: is_ascii_digit_def)
    with False "1.IH" show ?thesis by (subst show_nat.simps) simp
  qed
qed

section \<open>UTF-8\<close>

type_synonym u8 = "8 word"
type_synonym bytes = "u8 list"

definition byte :: "int \<Rightarrow> u8" where
  "byte a = word_of_int a"

definition utf8_char :: "rchar \<Rightarrow> bytes" where
  "utf8_char c =
     (if c < 0x80 then [byte c]
      else if c < 0x800 then [byte (0xC0 + c div 64), byte (0x80 + c mod 64)]
      else if c < 0x10000 then
        [byte (0xE0 + c div 4096), byte (0x80 + c div 64 mod 64),
         byte (0x80 + c mod 64)]
      else
        [byte (0xF0 + c div 262144), byte (0x80 + c div 4096 mod 64),
         byte (0x80 + c div 64 mod 64), byte (0x80 + c mod 64)])"

definition utf8 :: "ustr \<Rightarrow> bytes" where
  "utf8 t = concat (map utf8_char t)"

text \<open>\<open>str::len\<close> counts bytes.\<close>

definition byte_len :: "ustr \<Rightarrow> nat" where
  "byte_len t = length (utf8 t)"

lemma utf8_simps [simp]: "utf8 [] = []" "utf8 (c # t) = utf8_char c @ utf8 t"
  "utf8 (s @ t) = utf8 s @ utf8 t"
  by (simp_all add: utf8_def)

lemma utf8_char_not_Nil [simp]: "utf8_char c \<noteq> []"
  by (simp add: utf8_char_def)

text \<open>The first byte of a scalar value says how many bytes follow.\<close>

definition lead_len :: "u8 \<Rightarrow> nat" where
  "lead_len b = (if uint b < 0x80 then 1 else if uint b < 0xE0 then 2 else if uint b < 0xF0 then 3 else 4)"

lemma uint_u8: "0 \<le> a \<Longrightarrow> a < 256 \<Longrightarrow> uint (byte a) = a"
  by (simp add: byte_def uint_word_of_int)

lemma u8_eq_iff:
  assumes "0 \<le> a" "a < 256" "0 \<le> b" "b < 256"
  shows "byte a = byte b \<longleftrightarrow> a = b"
  using assms uint_u8 by metis

lemma lead_len_utf8_char: "is_scalar c \<Longrightarrow> lead_len (hd (utf8_char c)) = length (utf8_char c)"
proof -
  assume c: "is_scalar c"
  then have r: "0 \<le> c" "c < 0x110000" by (auto simp: is_scalar_def)
  consider "c < 0x80" | "0x80 \<le> c" "c < 0x800" | "0x800 \<le> c" "c < 0x10000" | "0x10000 \<le> c"
    by linarith
  then show ?thesis
  proof cases
    case 1
    with r show ?thesis by (simp add: utf8_char_def lead_len_def uint_u8)
  next
    case 2
    then have "2 \<le> c div 64" "c div 64 < 32" by auto
    with 2 show ?thesis by (simp add: utf8_char_def lead_len_def uint_u8)
  next
    case 3
    then have "0 \<le> c div 4096" "c div 4096 < 16" by auto
    with 3 show ?thesis by (simp add: utf8_char_def lead_len_def uint_u8)
  next
    case 4
    with r have "0 \<le> c div 262144" "c div 262144 < 5" by auto
    with 4 show ?thesis by (simp add: utf8_char_def lead_len_def uint_u8)
  qed
qed

lemma digits64:
  assumes "c div 64 = d div 64" "c mod 64 = d mod 64"
  shows "c = (d::int)"
  using assms by (metis div_mod_decomp_int)

lemma div_div_64: "(c::int) div 64 div 64 = c div 4096" "c div 4096 div 64 = c div 262144"
  using zdiv_zmult2_eq [of 64 c 64] zdiv_zmult2_eq [of 64 c 4096] by simp_all

lemma utf8_char_4:
  "0x10000 \<le> c \<Longrightarrow> utf8_char c =
     [byte (240 + c div 262144), byte (128 + c div 4096 mod 64),
      byte (128 + c div 64 mod 64), byte (128 + c mod 64)]"
  unfolding utf8_char_def by simp

lemma utf8_char_3:
  "0x800 \<le> c \<Longrightarrow> c < 0x10000 \<Longrightarrow> utf8_char c =
     [byte (224 + c div 4096), byte (128 + c div 64 mod 64), byte (128 + c mod 64)]"
  unfolding utf8_char_def by simp

lemma byte_cont_eq: "byte (128 + x mod 64) = byte (128 + y mod 64) \<Longrightarrow> x mod 64 = y mod 64"
proof -
  have "0 \<le> x mod 64" "x mod 64 < 64" "0 \<le> y mod 64" "y mod 64 < 64" by simp_all
  then show "byte (128 + x mod 64) = byte (128 + y mod 64) \<Longrightarrow> x mod 64 = y mod 64"
    by (subst (asm) u8_eq_iff) linarith+
qed

lemma utf8_char_inj:
  assumes "is_scalar c" "is_scalar d" and eq: "utf8_char c = utf8_char d"
  shows "c = d"
proof -
  have r: "0 \<le> c" "c < 0x110000" "0 \<le> d" "d < 0x110000"
    using assms by (auto simp: is_scalar_def)
  have b: "0 \<le> x div k" "x div k * k \<le> x" if "0 \<le> x" "0 < k" for x k :: int
    using that by (simp_all add: pos_imp_zdiv_nonneg_iff minus_mod_eq_div_mult [symmetric])
  have len: "length (utf8_char c) = length (utf8_char d)" using eq by simp
  consider "c < 0x80" "d < 0x80"
    | "0x80 \<le> c" "c < 0x800" "0x80 \<le> d" "d < 0x800"
    | "0x800 \<le> c" "c < 0x10000" "0x800 \<le> d" "d < 0x10000"
    | "0x10000 \<le> c" "0x10000 \<le> d"
    using len by (auto simp: utf8_char_def split: if_splits)
  then show ?thesis
  proof cases
    case 1
    with eq r show ?thesis by (simp add: utf8_char_def u8_eq_iff)
  next
    case 2
    then have "c div 64 < 32" "d div 64 < 32" by auto
    with 2 eq r b [of c 64] b [of d 64] show ?thesis
      by (auto simp: utf8_char_def u8_eq_iff intro: digits64 [of c d])
  next
    case 3
    then have "c div 4096 < 16" "d div 4096 < 16" by auto
    have q: "byte (224 + c div 4096) = byte (224 + d div 4096)"
        "byte (128 + c div 64 mod 64) = byte (128 + d div 64 mod 64)"
        "byte (128 + c mod 64) = byte (128 + d mod 64)"
      using eq unfolding utf8_char_3 [OF 3(1,2)] utf8_char_3 [OF 3(3,4)] by blast+
    have e1: "c div 4096 = d div 4096"
      using q(1) b(1) [of c 4096] b(1) [of d 4096] r \<open>c div 4096 < 16\<close> \<open>d div 4096 < 16\<close>
      by (subst (asm) u8_eq_iff) simp_all
    note e = e1 q(2,3) [THEN byte_cont_eq]
    have "c div 64 = d div 64"
      by (rule digits64) (simp_all only: div_div_64 e)
    from this e(3) show ?thesis by (rule digits64)
  next
    case 4
    with r have t: "c div 262144 < 5" "d div 262144 < 5" by auto
    have q: "byte (240 + c div 262144) = byte (240 + d div 262144)"
        "byte (128 + c div 4096 mod 64) = byte (128 + d div 4096 mod 64)"
        "byte (128 + c div 64 mod 64) = byte (128 + d div 64 mod 64)"
        "byte (128 + c mod 64) = byte (128 + d mod 64)"
      using eq unfolding utf8_char_4 [OF 4(1)] utf8_char_4 [OF 4(2)] by blast+
    have e1: "c div 262144 = d div 262144"
      using q(1) 4 r b [of c 262144] b [of d 262144] t
      by (subst (asm) u8_eq_iff) simp_all
    note e = e1 q(2-4) [THEN byte_cont_eq]
    have "c div 4096 = d div 4096"
      by (rule digits64) (simp_all only: div_div_64 e)
    note d4 = this
    have "c div 64 = d div 64"
      by (rule digits64) (simp_all only: div_div_64 e d4)
    from this e(4) show ?thesis by (rule digits64)
  qed
qed

lemma utf8_char_prefix_free:
  assumes "is_scalar c" "is_scalar d" and eq: "utf8_char c @ x = utf8_char d @ y"
  shows "c = d \<and> x = y"
proof -
  have "hd (utf8_char c) = hd (utf8_char d)"
    using eq by (metis hd_append2 utf8_char_not_Nil)
  then have "length (utf8_char c) = length (utf8_char d)"
    using lead_len_utf8_char assms(1,2) by metis
  with eq have "utf8_char c = utf8_char d" "x = y" by auto
  with utf8_char_inj assms(1,2) show ?thesis by blast
qed

lemma utf8_inject:
  "valid_ustr s \<Longrightarrow> valid_ustr t \<Longrightarrow> utf8 s = utf8 t \<longleftrightarrow> s = t"
proof (induction s arbitrary: t)
  case Nil
  then show ?case by (cases t) auto
next
  case (Cons c s)
  then show ?case
    by (cases t) (auto simp: valid_ustr_def dest: utf8_char_prefix_free)
qed

section \<open>Keyed tables\<close>

text \<open>
  The row functions the SQL statements of the program are translated to. \<open>key\<close> is the
  primary-key column; \<open>keys_ok\<close> is what SQLite guarantees of such a table.
\<close>

definition keys_ok :: "('r \<Rightarrow> 'k) \<Rightarrow> 'r list \<Rightarrow> bool" where
  "keys_ok key rows \<longleftrightarrow> distinct (map key rows)"

definition row_get :: "('r \<Rightarrow> 'k) \<Rightarrow> 'k \<Rightarrow> 'r list \<Rightarrow> 'r option" where
  "row_get key k rows = find (\<lambda>r. key r = k) rows"

definition row_delete :: "('r \<Rightarrow> bool) \<Rightarrow> 'r list \<Rightarrow> 'r list" where
  "row_delete P rows = filter (\<lambda>r. \<not> P r) rows"

definition row_update :: "('r \<Rightarrow> bool) \<Rightarrow> ('r \<Rightarrow> 'r) \<Rightarrow> 'r list \<Rightarrow> 'r list" where
  "row_update P f rows = map (\<lambda>r. if P r then f r else r) rows"

definition row_count :: "('r \<Rightarrow> bool) \<Rightarrow> 'r list \<Rightarrow> nat" where
  "row_count P rows = length (filter P rows)"

lemma row_get_simps [simp]:
  "row_get key k [] = None"
  "row_get key k (r # rows) = (if key r = k then Some r else row_get key k rows)"
  by (simp_all add: row_get_def)

lemma row_get_None: "row_get key k rows = None \<longleftrightarrow> k \<notin> key ` set rows"
  by (induction rows) auto

lemma row_get_SomeD: "row_get key k rows = Some r \<Longrightarrow> r \<in> set rows \<and> key r = k"
  by (induction rows) (auto split: if_splits)

lemma row_get_in: "keys_ok key rows \<Longrightarrow> r \<in> set rows \<Longrightarrow> row_get key (key r) rows = Some r"
  by (induction rows) (auto simp: keys_ok_def)

lemma row_get_append [table_simps]:
  "row_get key k (rows @ more) =
     (case row_get key k rows of None \<Rightarrow> row_get key k more | Some r \<Rightarrow> Some r)"
  by (induction rows) auto

lemma row_get_delete_key [table_simps]:
  "row_get key k (row_delete (\<lambda>r. key r = k') rows) = (if k = k' then None else row_get key k rows)"
  by (induction rows) (auto simp: row_delete_def)

lemma row_get_delete:
  "keys_ok key rows \<Longrightarrow>
   row_get key k (row_delete P rows) =
     (case row_get key k rows of None \<Rightarrow> None | Some r \<Rightarrow> if P r then None else Some r)"
proof (induction rows)
  case (Cons a rows)
  then show ?case
    using row_get_None [of key k "row_delete P rows"]
    by (auto simp: row_delete_def keys_ok_def split: option.splits)
qed (simp add: row_delete_def)

lemma row_get_update:
  assumes "\<And>r. key (f r) = key r"
  shows "row_get key k (row_update P f rows) =
     map_option (\<lambda>r. if P r then f r else r) (row_get key k rows)"
  using assms by (induction rows) (auto simp: row_update_def)

lemma row_get_update_key:
  assumes "\<And>r. key (f r) = key r"
  shows "row_get key k (row_update (\<lambda>r. key r = k') f rows) =
     (if k = k' then map_option f (row_get key k rows) else row_get key k rows)"
  using assms by (induction rows) (auto simp: row_update_def)

lemma row_find:
  "keys_ok key rows \<Longrightarrow>
   find (\<lambda>r. key r = k \<and> P r) rows =
     (case row_get key k rows of None \<Rightarrow> None | Some r \<Rightarrow> if P r then Some r else None)"
proof (induction rows)
  case (Cons a rows)
  then show ?case
    using row_get_None [of key "key a" rows] by (auto simp: keys_ok_def)
qed simp

lemma keys_ok_delete [intro]: "keys_ok key rows \<Longrightarrow> keys_ok key (row_delete P rows)"
  by (simp add: keys_ok_def row_delete_def distinct_map_filter)

lemma keys_ok_update [intro]:
  assumes "\<And>r. key (f r) = key r" and "keys_ok key rows"
  shows "keys_ok key (row_update P f rows)"
proof -
  have "map key (row_update P f rows) = map key rows"
    using assms(1) by (simp add: row_update_def)
  with assms(2) show ?thesis by (simp add: keys_ok_def)
qed

lemma keys_ok_insert [intro]:
  "keys_ok key rows \<Longrightarrow> row_get key (key r) rows = None \<Longrightarrow> keys_ok key (rows @ [r])"
  by (auto simp: keys_ok_def row_get_None)

lemma keys_ok_Nil [simp, intro]: "keys_ok key []"
  by (simp add: keys_ok_def)

lemma row_count_0: "row_count P rows = 0 \<longleftrightarrow> (\<forall>r \<in> set rows. \<not> P r)"
  by (simp add: row_count_def filter_empty_conv)

text \<open>The statements that fail, and the error SQLite gives for each of them.\<close>

type_synonym sql_error = ustr
type_synonym 'stmt faults = "'stmt \<Rightarrow> sql_error option"

definition no_faults :: "'stmt faults" where
  "no_faults s = None"

lemma no_faults_simp [simp]: "no_faults s = None"
  by (simp add: no_faults_def)

text \<open>
  Code that runs statements on a connection: it returns the database it leaves, with an error
  or a value. A statement that fails leaves the database as it was; what earlier
  statements of the same call did stays until a transaction is rolled back.
\<close>

type_synonym ('s, 'e, 'a) op = "'s \<Rightarrow> 's \<times> ('e, 'a) result"

definition op_return :: "'a \<Rightarrow> ('s, 'e, 'a) op" where
  "op_return x s = (s, Ok x)"

definition op_fail :: "'e \<Rightarrow> ('s, 'e, 'a) op" where
  "op_fail e s = (s, Err e)"

definition op_bind :: "('s, 'e, 'a) op \<Rightarrow> ('a \<Rightarrow> ('s, 'e, 'b) op) \<Rightarrow> ('s, 'e, 'b) op" where
  "op_bind m f s = (case m s of (s', Inl e) \<Rightarrow> (s', Inl e) | (s', Inr x) \<Rightarrow> f x s')"

definition op_map_err :: "('e \<Rightarrow> 'f) \<Rightarrow> ('s, 'e, 'a) op \<Rightarrow> ('s, 'f, 'a) op" where
  "op_map_err h m s = (case m s of (s', Inl e) \<Rightarrow> (s', Inl (h e)) | (s', Inr x) \<Rightarrow> (s', Inr x))"

definition sql_exec :: "sql_error option \<Rightarrow> ('s \<Rightarrow> 's \<times> 'a) \<Rightarrow> ('s, sql_error, 'a) op" where
  "sql_exec fault f s =
     (case fault of Some e \<Rightarrow> (s, Err e) | None \<Rightarrow> (case f s of (s', x) \<Rightarrow> (s', Ok x)))"

definition sql_query :: "sql_error option \<Rightarrow> ('s \<Rightarrow> 'a) \<Rightarrow> ('s, sql_error, 'a) op" where
  "sql_query fault f = sql_exec fault (\<lambda>s. (s, f s))"

named_theorems op_simps \<open>running code that issues statements\<close>

lemma op_return_simp [op_simps]: "op_return x s = (s, Ok x)"
  by (simp add: op_return_def)

lemma op_fail_simp [op_simps]: "op_fail e s = (s, Err e)"
  by (simp add: op_fail_def)

lemma sql_exec_simps [op_simps]:
  "sql_exec None f s = (fst (f s), Ok (snd (f s)))"
  "sql_exec (Some e) f s = (s, Err e)"
  by (simp_all add: sql_exec_def case_prod_beta)

lemma sql_query_simps [op_simps]:
  "sql_query None g s = (s, Ok (g s))"
  "sql_query (Some e) g s = (s, Err e)"
  by (simp_all add: sql_query_def sql_exec_def)

lemma op_bind_Ok: "m s = (s', Ok x) \<Longrightarrow> op_bind m f s = f x s'"
  by (simp add: op_bind_def)

lemma op_bind_Err: "m s = (s', Err e) \<Longrightarrow> op_bind m f s = (s', Err e)"
  by (simp add: op_bind_def)

lemma op_bind_cases:
  "op_bind m f s = (case snd (m s) of Inl e \<Rightarrow> (fst (m s), Inl e) | Inr x \<Rightarrow> f x (fst (m s)))"
  by (cases "m s"; cases "snd (m s)") (simp_all add: op_bind_def)

lemma op_bind_simps [op_simps]:
  "op_bind (sql_exec None g) f s = f (snd (g s)) (fst (g s))"
  "op_bind (sql_exec (Some e) g) f s = (s, Err e)"
  "op_bind (sql_query None h) f s = f (h s) s"
  "op_bind (sql_query (Some e) h) f s = (s, Err e)"
  "op_bind (op_return x) f s = f x s"
  "op_bind (op_fail e) f s = (s, Err e)"
  by (simp_all add: op_bind_def op_simps)

lemma op_bind_assoc: "op_bind (op_bind m f) g s = op_bind m (\<lambda>x. op_bind (f x) g) s"
  by (auto simp: op_bind_def split: prod.splits sum.splits)

lemma op_map_err_simps [op_simps]:
  "m s = (s', Ok x) \<Longrightarrow> op_map_err h m s = (s', Ok x)"
  "m s = (s', Err e) \<Longrightarrow> op_map_err h m s = (s', Err (h e))"
  by (simp_all add: op_map_err_def)

text \<open>An operation keeps \<open>P\<close> of the database, whether it fails or not.\<close>

definition op_keeps :: "('s \<Rightarrow> bool) \<Rightarrow> ('s, 'e, 'a) op \<Rightarrow> bool" where
  "op_keeps P m \<longleftrightarrow> (\<forall>s. P s \<longrightarrow> P (fst (m s)))"

named_theorems keeps_intros \<open>operations that keep a property of the database\<close>

lemma op_keepsD: "op_keeps P m \<Longrightarrow> P s \<Longrightarrow> P (fst (m s))"
  by (simp add: op_keeps_def)

lemma op_keeps_return [keeps_intros]: "op_keeps P (op_return x)"
  by (simp add: op_keeps_def op_return_def)

lemma op_keeps_fail [keeps_intros]: "op_keeps P (op_fail e)"
  by (simp add: op_keeps_def op_fail_def)

lemma op_keeps_bind [keeps_intros]:
  "op_keeps P m \<Longrightarrow> (\<And>x. op_keeps P (f x)) \<Longrightarrow> op_keeps P (op_bind m f)"
  by (auto simp: op_keeps_def op_bind_cases split: sum.splits)

lemma op_keeps_map_err [keeps_intros]: "op_keeps P m \<Longrightarrow> op_keeps P (op_map_err h m)"
  by (auto simp: op_keeps_def op_map_err_def split: prod.splits sum.splits)

lemma op_keeps_exec: "(\<And>s. P s \<Longrightarrow> P (fst (f s))) \<Longrightarrow> op_keeps P (sql_exec fault f)"
  by (auto simp: op_keeps_def sql_exec_def split: option.splits prod.splits) (metis fst_conv)

lemma op_keeps_query [keeps_intros]: "op_keeps P (sql_query fault f)"
  by (simp add: sql_query_def op_keeps_exec)

lemma op_keeps_If [keeps_intros]: "op_keeps P m \<Longrightarrow> op_keeps P m' \<Longrightarrow> op_keeps P (if b then m else m')"
  by simp

lemma op_keeps_case_option [keeps_intros]:
  "op_keeps P m \<Longrightarrow> (\<And>x. op_keeps P (f x)) \<Longrightarrow> op_keeps P (case z of None \<Rightarrow> m | Some x \<Rightarrow> f x)"
  by (cases z) simp_all

text \<open>A \<open>for\<close> loop over statements.\<close>

fun op_each :: "('b \<Rightarrow> ('s, 'e, unit) op) \<Rightarrow> 'b list \<Rightarrow> ('s, 'e, unit) op" where
  "op_each f [] = op_return ()"
| "op_each f (x # xs) = op_bind (f x) (\<lambda>_. op_each f xs)"

lemma op_keeps_each [keeps_intros]: "(\<And>x. op_keeps P (f x)) \<Longrightarrow> op_keeps P (op_each f xs)"
  by (induction xs) (simp_all add: keeps_intros)

text \<open>The effects of an operation that succeeds.\<close>

lemma op_bind_OkE:
  assumes "op_bind m f s = (s', Ok y)"
  obtains x s1 where "m s = (s1, Ok x)" "f x s1 = (s', Ok y)"
  using assms by (auto simp: op_bind_def split: prod.splits sum.splits)

lemma op_map_err_Ok: "op_map_err h m s = (s', Ok x) \<longleftrightarrow> m s = (s', Ok x)"
  by (auto simp: op_map_err_def split: prod.splits sum.splits)

lemma sql_query_Ok: "sql_query flt g s = (s', Ok x) \<longleftrightarrow> flt = None \<and> s' = s \<and> x = g s"
  by (auto simp: sql_query_def sql_exec_def split: option.splits)

lemma sql_exec_Ok: "sql_exec flt g s = (s', Ok x) \<longleftrightarrow> flt = None \<and> g s = (s', x)"
  by (auto simp: sql_exec_def split: option.splits prod.splits)

lemma op_return_Ok: "op_return x s = (s', Ok y) \<longleftrightarrow> s' = s \<and> y = x"
  by (auto simp: op_return_def)

lemma op_fail_Ok: "op_fail e s \<noteq> (s', Ok y)"
  by (simp add: op_fail_def)

lemmas op_success = op_map_err_Ok sql_query_Ok op_return_Ok op_fail_Ok

section \<open>Machine integers\<close>

text \<open>\<open>i64\<close> arithmetic of a release build wraps around.\<close>

definition i64_wrap :: "int \<Rightarrow> int" where
  "i64_wrap n = (n + 2 ^ 63) mod 2 ^ 64 - 2 ^ 63"

lemma i64_wrap_id: "- (2 ^ 63) \<le> n \<Longrightarrow> n < 2 ^ 63 \<Longrightarrow> i64_wrap n = n"
  by (simp add: i64_wrap_def)

end
