(* ===== verification/Json_Value.thy ===== *)
theory Json_Value
  imports Memra_Prelude
begin

text \<open>
  \<open>serde_json::Value\<close> and the accessors the program uses on it. An object is the list
  of its entries, one per key; a number is an integer or a finite double, the latter
  kept as its exact rational value. Parsing and printing belong to serde_json: where
  the program parses bytes, the parser is an argument of the definitions.
\<close>

datatype json =
    JNull
  | JBool bool
  | JInt int
  | JFloat rat
  | JStr ustr
  | JArr "json list"
  | JObj "(ustr \<times> json) list"

fun json_get :: "json \<Rightarrow> ustr \<Rightarrow> json option" where
  "json_get (JObj kvs) k = map_of kvs k"
| "json_get _ k = None"

fun as_str :: "json \<Rightarrow> ustr option" where
  "as_str (JStr s) = Some s"
| "as_str _ = None"

fun as_bool :: "json \<Rightarrow> bool option" where
  "as_bool (JBool b) = Some b"
| "as_bool _ = None"

fun as_array :: "json \<Rightarrow> json list option" where
  "as_array (JArr xs) = Some xs"
| "as_array _ = None"

text \<open>\<open>as_i64\<close>: an integer within the range of \<open>i64\<close>.\<close>

fun as_i64 :: "json \<Rightarrow> int option" where
  "as_i64 (JInt n) = (if - (2 ^ 63) \<le> n \<and> n < 2 ^ 63 then Some n else None)"
| "as_i64 _ = None"

text \<open>\<open>serde_json::Map\<close>: \<open>insert\<close> replaces the value of a key or adds the key.\<close>

type_synonym json_map = "(ustr \<times> json) list"

fun map_insert :: "ustr \<Rightarrow> json \<Rightarrow> json_map \<Rightarrow> json_map" where
  "map_insert k v [] = [(k, v)]"
| "map_insert k v ((k', v') # m) = (if k' = k then (k, v) # m else (k', v') # map_insert k v m)"

lemma map_of_map_insert [simp]: "map_of (map_insert k v m) = (map_of m)(k \<mapsto> v)"
  by (induction m) auto

lemma keys_map_insert: "set (map fst (map_insert k v m)) = insert k (set (map fst m))"
proof (induction m)
  case (Cons e m)
  then show ?case by (cases e) (auto simp del: set_map)
qed simp

lemma distinct_map_insert:
  "distinct (map fst m) \<Longrightarrow> distinct (map fst (map_insert k v m))"
proof (induction m)
  case (Cons e m)
  obtain k' v' where "e = (k', v')" by fastforce
  with Cons show ?case
    using keys_map_insert [of k v m] by (auto simp del: set_map)
qed simp

end
