(* ===== verification/Audit_Log.thy ===== *)
theory Audit_Log
  imports Json_Value "HOL-Library.Multiset"
begin

text \<open>
  The audit logger of \<open>memra-server/src/audit/mod.rs\<close>. The audit directory is the list
  of its files, a JSONL file is the list of the events written to it, and the failures
  of the file system are a predicate on its operations. Dates are day numbers; the
  calendar parser of chrono is an argument.
\<close>

section \<open>Events\<close>

record audit_event =
  ts :: ustr
  event_type :: ustr
  ev_actor_id :: "ustr option"
  ev_session_id :: "ustr option"
  ev_project_id :: "ustr option"
  req_id :: "ustr option"
  src_ip :: "ustr option"
  ev_result :: ustr
  ev_fields :: json_map

text \<open>What \<open>AuditEvent::new\<close> reads from its environment: the clock and a variable.\<close>

record audit_env =
  env_now :: ustr
  env_project_id :: "ustr option"

definition audit_event_new :: "audit_env \<Rightarrow> ustr \<Rightarrow> ustr \<Rightarrow> audit_event" where
  "audit_event_new env ty res =
     \<lparr>ts = env_now env, event_type = ty, ev_actor_id = None, ev_session_id = None,
      ev_project_id = env_project_id env, req_id = None, src_ip = Some (lit ''stdio''),
      ev_result = res, ev_fields = []\<rparr>"

definition with_actor :: "ustr \<Rightarrow> audit_event \<Rightarrow> audit_event" where
  "with_actor a ev = ev\<lparr>ev_actor_id := Some a\<rparr>"

definition with_session_id :: "ustr \<Rightarrow> audit_event \<Rightarrow> audit_event" where
  "with_session_id s ev = ev\<lparr>ev_session_id := Some s\<rparr>"

definition with_field :: "ustr \<Rightarrow> json \<Rightarrow> audit_event \<Rightarrow> audit_event" where
  "with_field k v ev = ev\<lparr>ev_fields := map_insert k v (ev_fields ev)\<rparr>"

lemmas audit_event_defs =
  audit_event_new_def with_actor_def with_session_id_def with_field_def

section \<open>The directory\<close>

datatype fs_op = MkDir | OpenAppend ustr | WriteLine ustr | Rename ustr ustr
  | ReadDir | ReadEntry ustr | RemoveFile ustr

datatype audit_error = AuditIo fs_op | AuditSerialize | InvalidDate ustr

record audit_dir =
  dir_exists :: bool
  files :: "(ustr \<times> audit_event list) list"

definition AUDIT_FILE_NAME :: ustr where "AUDIT_FILE_NAME = lit ''audit.jsonl''"
definition AUDIT_RETENTION_DAYS :: int where "AUDIT_RETENTION_DAYS = 90"

fun put_file :: "ustr \<Rightarrow> 'a \<Rightarrow> (ustr \<times> 'a) list \<Rightarrow> (ustr \<times> 'a) list" where
  "put_file n c [] = [(n, c)]"
| "put_file n c ((m, d) # fs) = (if m = n then (n, c) # fs else (m, d) # put_file n c fs)"

lemma map_of_put_file [simp]: "map_of (put_file n c fs) = (map_of fs)(n \<mapsto> c)"
  by (induction fs) auto

definition create_dir_all :: "(fs_op \<Rightarrow> bool) \<Rightarrow> audit_dir \<Rightarrow> (audit_error, audit_dir) result" where
  "create_dir_all io d = (if io MkDir then Ok (d\<lparr>dir_exists := True\<rparr>) else Err (AuditIo MkDir))"

definition audit_append ::
  "(fs_op \<Rightarrow> bool) \<Rightarrow> audit_event \<Rightarrow> audit_dir \<Rightarrow> audit_dir \<times> (audit_error, unit) result" where
  "audit_append io ev d =
     (case create_dir_all io d of
        Inl e \<Rightarrow> (d, Err e)
      | Inr d1 \<Rightarrow>
          if \<not> io (OpenAppend AUDIT_FILE_NAME) then (d1, Err (AuditIo (OpenAppend AUDIT_FILE_NAME)))
          else
            let old = (case map_of (files d1) AUDIT_FILE_NAME of None \<Rightarrow> [] | Some evs \<Rightarrow> evs);
                opened = d1\<lparr>files := put_file AUDIT_FILE_NAME old (files d1)\<rparr>
            in if \<not> io (WriteLine AUDIT_FILE_NAME)
               then (opened, Err (AuditIo (WriteLine AUDIT_FILE_NAME)))
               else (d1\<lparr>files := put_file AUDIT_FILE_NAME (old @ [ev]) (files d1)\<rparr>, Ok ()))"

definition rotated_name :: "ustr \<Rightarrow> ustr" where
  "rotated_name date = lit ''audit-'' @ date @ lit ''.jsonl''"

definition rotate_current ::
  "(fs_op \<Rightarrow> bool) \<Rightarrow> ustr \<Rightarrow> audit_dir \<Rightarrow> audit_dir \<times> (audit_error, ustr) result" where
  "rotate_current io date d =
     (case create_dir_all io d of
        Inl e \<Rightarrow> (d, Err e)
      | Inr d1 \<Rightarrow>
          let rotated = rotated_name date
          in case map_of (files d1) AUDIT_FILE_NAME of
               None \<Rightarrow> (d1, Ok rotated)
             | Some evs \<Rightarrow>
                 if \<not> io (Rename AUDIT_FILE_NAME rotated)
                 then (d1, Err (AuditIo (Rename AUDIT_FILE_NAME rotated)))
                 else (d1\<lparr>files := put_file rotated evs
                            (filter (\<lambda>f. fst f \<noteq> AUDIT_FILE_NAME) (files d1))\<rparr>, Ok rotated))"

definition strip_suffix :: "ustr \<Rightarrow> ustr \<Rightarrow> ustr option" where
  "strip_suffix t s = map_option rev (strip_prefix (rev t) (rev s))"

lemma strip_suffix_append [simp]: "strip_suffix (t @ s) s = Some t"
  by (simp add: strip_suffix_def)

definition rotated_log_date :: "(ustr \<Rightarrow> int option) \<Rightarrow> ustr \<Rightarrow> int option" where
  "rotated_log_date parse_day name =
     Option.bind (strip_prefix name (lit ''audit-''))
       (\<lambda>rest. Option.bind (strip_suffix rest (lit ''.jsonl'')) parse_day)"

text \<open>
  The loop over the directory entries; it stops at the first entry that cannot be read
  or removed, and keeps what it removed before.
\<close>

fun sweep_entries ::
  "(fs_op \<Rightarrow> bool) \<Rightarrow> (ustr \<Rightarrow> int option) \<Rightarrow> int \<Rightarrow> ustr list \<Rightarrow> nat \<Rightarrow> audit_dir \<Rightarrow>
   audit_dir \<times> (audit_error, nat) result" where
  "sweep_entries io parse_day today [] removed d = (d, Ok removed)"
| "sweep_entries io parse_day today (n # ns) removed d =
     (if \<not> io (ReadEntry n) then (d, Err (AuditIo (ReadEntry n)))
      else case rotated_log_date parse_day n of
        None \<Rightarrow> sweep_entries io parse_day today ns removed d
      | Some date \<Rightarrow>
          if today - date > AUDIT_RETENTION_DAYS then
            if \<not> io (RemoveFile n) then (d, Err (AuditIo (RemoveFile n)))
            else sweep_entries io parse_day today ns (removed + 1)
                   (d\<lparr>files := filter (\<lambda>f. fst f \<noteq> n) (files d)\<rparr>)
          else sweep_entries io parse_day today ns removed d)"

definition sweep_old_rotated_logs ::
  "(fs_op \<Rightarrow> bool) \<Rightarrow> (ustr \<Rightarrow> int option) \<Rightarrow> ustr \<Rightarrow> audit_dir \<Rightarrow>
   audit_dir \<times> (audit_error, nat) result" where
  "sweep_old_rotated_logs io parse_day today_str d =
     (case parse_day today_str of
        None \<Rightarrow> (d, Err (InvalidDate today_str))
      | Some today \<Rightarrow>
          if \<not> dir_exists d then (d, Ok 0)
          else if \<not> io ReadDir then (d, Err (AuditIo ReadDir))
          else sweep_entries io parse_day today (map fst (files d)) 0 d)"

section \<open>Lemmas\<close>

definition stale :: "(ustr \<Rightarrow> int option) \<Rightarrow> int \<Rightarrow> ustr \<Rightarrow> bool" where
  "stale parse_day today n \<longleftrightarrow>
     (\<exists>date. rotated_log_date parse_day n = Some date \<and> AUDIT_RETENTION_DAYS < today - date)"

lemma sweep_entries_ok:
  assumes "\<And>op. io op"
  shows "sweep_entries io parse_day today ns removed d =
     (d\<lparr>files := filter (\<lambda>f. \<not> (fst f \<in> set ns \<and> stale parse_day today (fst f))) (files d)\<rparr>,
      Ok (removed + length (filter (stale parse_day today) ns)))"
proof (induction ns arbitrary: removed d)
  case (Cons n ns)
  have f: "filter (\<lambda>f. \<not> (fst f \<in> set ns \<and> stale parse_day today (fst f)))
             (filter (\<lambda>f. fst f \<noteq> n) (files d)) =
           filter (\<lambda>f. \<not> (fst f \<in> set (n # ns) \<and> stale parse_day today (fst f))) (files d)"
    if "stale parse_day today n"
    using that by (auto intro!: filter_cong)
  have g: "filter (\<lambda>f. \<not> (fst f \<in> set ns \<and> stale parse_day today (fst f))) (files d) =
           filter (\<lambda>f. \<not> (fst f \<in> set (n # ns) \<and> stale parse_day today (fst f))) (files d)"
    if "\<not> stale parse_day today n"
    using that by (intro filter_cong) auto
  show ?case
  proof (cases "stale parse_day today n")
    case True
    then obtain date where "rotated_log_date parse_day n = Some date"
        "AUDIT_RETENTION_DAYS < today - date"
      by (auto simp: stale_def)
    with True assms Cons f [OF True] show ?thesis by simp
  next
    case False
    then have "sweep_entries io parse_day today (n # ns) removed d =
        sweep_entries io parse_day today ns removed d"
      using assms by (auto simp: stale_def split: option.splits)
    with False Cons g [OF False] show ?thesis by simp
  qed
qed simp

lemma current_log_not_rotated: "rotated_log_date parse_day AUDIT_FILE_NAME = None"
  by (simp add: rotated_log_date_def AUDIT_FILE_NAME_def strip_prefix_def)

definition all_events :: "audit_dir \<Rightarrow> audit_event list" where
  "all_events d = concat (map snd (files d))"

section \<open>Properties\<close>

text \<open>
  with a working file system the retention sweep removes exactly the rotated logs
  older than ninety days, reports how many it removed, and never touches the current
  log.
\<close>

theorem sweep_removes_exactly_stale_logs:
  assumes "\<And>op. io op" and "dir_exists d" and "parse_day today_str = Some today"
  shows "sweep_old_rotated_logs io parse_day today_str d =
      (d\<lparr>files := filter (\<lambda>f. \<not> stale parse_day today (fst f)) (files d)\<rparr>,
       Ok (length (filter (\<lambda>f. stale parse_day today (fst f)) (files d)))) \<and>
    map_of (files (fst (sweep_old_rotated_logs io parse_day today_str d))) AUDIT_FILE_NAME =
      map_of (files d) AUDIT_FILE_NAME"
proof -
  have "filter (\<lambda>f. \<not> (fst f \<in> set (map fst (files d)) \<and> stale parse_day today (fst f))) (files d) =
      filter (\<lambda>f. \<not> stale parse_day today (fst f)) (files d)"
    by (intro filter_cong) auto
  then have s: "sweep_old_rotated_logs io parse_day today_str d =
      (d\<lparr>files := filter (\<lambda>f. \<not> stale parse_day today (fst f)) (files d)\<rparr>,
       Ok (length (filter (\<lambda>f. stale parse_day today (fst f)) (files d))))"
    using assms by (simp add: sweep_old_rotated_logs_def sweep_entries_ok filter_map o_def)
  have keep: "\<not> stale parse_day today AUDIT_FILE_NAME"
    by (simp add: stale_def current_log_not_rotated)
  have "map_of (filter (\<lambda>f. \<not> stale parse_day today (fst f)) fs) AUDIT_FILE_NAME =
      map_of fs AUDIT_FILE_NAME" for fs :: "(ustr \<times> audit_event list) list"
    using keep by (induction fs) auto
  with s show ?thesis
    by simp
qed

theorem sweep_removes_exactly_stale_logs_witness:
  "snd (sweep_old_rotated_logs (\<lambda>_. True) (\<lambda>s. if s = lit ''D'' then Some 100 else Some 0) (lit ''D'')
     \<lparr>dir_exists = True, files = [(lit ''audit-E.jsonl'', []), (lit ''audit.jsonl'', [])]\<rparr>) = Ok 1"
  using sweep_removes_exactly_stale_logs
    [of "\<lambda>_. True" "\<lparr>dir_exists = True, files = [(lit ''audit-E.jsonl'', []), (lit ''audit.jsonl'', [])]\<rparr>"
        "\<lambda>s. if s = lit ''D'' then Some 100 else Some 0" "lit ''D''" 100]
  by (simp add: stale_def rotated_log_date_def strip_prefix_def strip_suffix_def AUDIT_RETENTION_DAYS_def)

lemma map_of_filter_key:
  "map_of (filter (\<lambda>f. fst f \<noteq> k) fs) n = (if n = k then None else map_of fs n)"
  by (induction fs) auto

text \<open>
  rotating the log under a date that has no rotated log yet moves every event: no
  event is lost and the current log is gone.
\<close>

theorem rotation_keeps_every_event:
  assumes "\<And>op. io op" and "map_of (files d) (rotated_name date) = None"
    and "distinct (map fst (files d))"
  shows "\<exists>d'. rotate_current io date d = (d', Ok (rotated_name date)) \<and>
      mset (all_events d') = mset (all_events d) \<and> map_of (files d') AUDIT_FILE_NAME = None"
proof (cases "map_of (files d) AUDIT_FILE_NAME")
  case None
  with assms show ?thesis by (simp add: rotate_current_def create_dir_all_def all_events_def)
next
  case (Some evs)
  have ne: "rotated_name date \<noteq> AUDIT_FILE_NAME"
    by (simp add: rotated_name_def AUDIT_FILE_NAME_def)
  let ?rest = "filter (\<lambda>f. fst f \<noteq> AUDIT_FILE_NAME) (files d)"
  have put: "map_of fs n = None \<Longrightarrow> put_file n c fs = fs @ [(n, c)]"
    for fs n and c :: "audit_event list"
    by (induction fs) (auto split: if_splits)
  have none: "map_of ?rest n = (if n = AUDIT_FILE_NAME then None else map_of (files d) n)" for n
    by (rule map_of_filter_key)
  have split: "map_of fs n = Some c \<Longrightarrow> distinct (map fst fs) \<Longrightarrow>
      mset (concat (map snd fs)) = mset c + mset (concat (map snd (filter (\<lambda>f. fst f \<noteq> n) fs)))"
    for fs n and c :: "audit_event list"
  proof (induction fs)
    case (Cons f fs)
    show ?case
    proof (cases "fst f = n")
      case True
      with Cons.prems have "filter (\<lambda>f. fst f \<noteq> n) fs = fs"
        by (auto simp: filter_id_conv image_iff)
      with True Cons.prems show ?thesis by (cases f) simp
    next
      case False
      with Cons show ?thesis by (cases f) simp
    qed
  qed simp
  from Some assms ne put [of ?rest] none [of "rotated_name date"] split [OF Some]
  show ?thesis
    by (simp add: rotate_current_def create_dir_all_def all_events_def none Let_def)
qed

theorem rotation_keeps_every_event_witness:
  "fst (rotate_current (\<lambda>_. True) (lit ''D'')
     \<lparr>dir_exists = True, files = [(lit ''audit.jsonl'', [])]\<rparr>) =
   \<lparr>dir_exists = True, files = [(lit ''audit-D.jsonl'', [])]\<rparr>"
  using rotation_keeps_every_event
    [of "\<lambda>_. True" "\<lparr>dir_exists = True, files = [(lit ''audit.jsonl'', [])]\<rparr>" "lit ''D''"]
  by (simp add: rotate_current_def create_dir_all_def AUDIT_FILE_NAME_def rotated_name_def Let_def)

text \<open>
  A second rotation under the same date replaces the first rotated log: the rename
  overwrites it, and its events are gone.
\<close>

lemma second_rotation_overwrites:
  assumes "\<And>op. io op" and "map_of (files d) AUDIT_FILE_NAME = Some evs"
  shows "map_of (files (fst (rotate_current io date d))) (rotated_name date) = Some evs"
  using assms by (simp add: rotate_current_def create_dir_all_def Let_def)

end
