(* ===== verification/Http_Types.thy ===== *)
theory Http_Types
  imports Audit_Log
begin

text \<open>
  What the transport layer sees of a request and a response. A header value is modelled
  by what \<open>HeaderValue::to_str\<close> gives: its text, or \<open>None\<close> when it is not visible ASCII.
  A body is the result of reading it up to the body limit. The request extensions the
  middlewares use are the authenticated actor and the session id. The world every
  middleware can touch holds the audit log; later components extend it.
\<close>

record actor =
  actor_id :: ustr
  key_name :: "ustr option"
  key_hash :: ustr

type_synonym header_map = "(ustr \<times> ustr option) list"

record request =
  headers :: header_map
  body :: "(ustr, bytes) result"
  ext_actor :: "actor option"
  ext_session :: "ustr option"

record response =
  status :: nat
  resp_headers :: header_map
  resp_body :: "(ustr, bytes) result"

record audit_world =
  audit :: audit_dir
  audit_io :: "fs_op \<Rightarrow> bool"
  env :: audit_env

text \<open>The rest of the stack, as a middleware sees it.\<close>

type_synonym 'w handler = "request \<Rightarrow> 'w \<Rightarrow> 'w \<times> response"

definition log_event :: "audit_event \<Rightarrow> 'a audit_world_scheme \<Rightarrow> 'a audit_world_scheme" where
  "log_event ev w = w\<lparr>audit := fst (audit_append (audit_io w) ev (audit w))\<rparr>"

definition text_response :: "nat \<Rightarrow> ustr \<Rightarrow> response" where
  "text_response st msg =
     \<lparr>status = st, resp_headers = [(lit ''content-type'', Some (lit ''text/plain; charset=utf-8''))],
      resp_body = Ok (utf8 msg)\<rparr>"

definition is_success :: "nat \<Rightarrow> bool" where
  "is_success st \<longleftrightarrow> 200 \<le> st \<and> st < 300"

lemma status_text_response [simp]: "status (text_response st msg) = st"
  by (simp add: text_response_def)

end
