(* ===== verification/Auth.thy ===== *)
theory Auth
  imports Http_Types
begin

text \<open>
  Bearer authentication of \<open>transport/auth.rs\<close>: the key table built from the
  configuration, the constant-time comparison, the header parser and the middleware.
  The digest (blake3 in hexadecimal) is an argument.
\<close>

section \<open>Configuration and key table\<close>

record api_key_config =
  cfg_name :: "ustr option"
  cfg_key_hash :: ustr
  cfg_actor_id :: ustr
  cfg_created_at :: ustr
  cfg_revoked_at :: "ustr option"

record api_key_entry =
  entry_name :: "ustr option"
  entry_key_hash :: ustr
  entry_actor_id :: ustr
  entry_revoked :: bool

datatype auth_error = InvalidAuthorizationHeader | MissingBearerToken | InvalidApiKey
  | ActorMismatch ustr ustr

definition auth_error_text :: "auth_error \<Rightarrow> ustr" where
  "auth_error_text e =
     (case e of
        InvalidAuthorizationHeader \<Rightarrow> lit ''invalid authorization header''
      | MissingBearerToken \<Rightarrow> lit ''missing bearer token''
      | InvalidApiKey \<Rightarrow> lit ''invalid API key''
      | ActorMismatch expected got \<Rightarrow>
          lit ''actor hint mismatch: expected '' @ expected @ lit '', got '' @ got)"

definition normalize_key_hash :: "ustr \<Rightarrow> ustr" where
  "normalize_key_hash h =
     (case strip_prefix h (lit ''blake3:'') of
        Some rest \<Rightarrow> to_ascii_lowercase rest
      | None \<Rightarrow> to_ascii_lowercase h)"

definition entry_from_config :: "api_key_config \<Rightarrow> api_key_entry" where
  "entry_from_config c =
     \<lparr>entry_name = cfg_name c, entry_key_hash = normalize_key_hash (cfg_key_hash c),
      entry_actor_id = cfg_actor_id c, entry_revoked = (cfg_revoked_at c \<noteq> None)\<rparr>"

definition authenticator_from_config :: "api_key_config list \<Rightarrow> api_key_entry list" where
  "authenticator_from_config cs = map entry_from_config cs"

section \<open>Constant-time comparison\<close>

definition byte_at_or_zero :: "bytes \<Rightarrow> nat \<Rightarrow> u8" where
  "byte_at_or_zero bs i = (if i < length bs then bs ! i else 0)"

fun xor_loop :: "bytes \<Rightarrow> bytes \<Rightarrow> nat list \<Rightarrow> 64 word \<Rightarrow> 64 word" where
  "xor_loop l r [] diff = diff"
| "xor_loop l r (i # is) diff =
     xor_loop l r is (diff OR ucast (byte_at_or_zero l i XOR byte_at_or_zero r i))"

definition constant_time_eq :: "ustr \<Rightarrow> ustr \<Rightarrow> bool" where
  "constant_time_eq left right =
     (let l = utf8 left; r = utf8 right;
          max_len = max (length l) (length r);
          diff = of_nat (length l) XOR of_nat (length r)
      in xor_loop l r [0..<max_len] diff = 0)"

section \<open>Authentication\<close>

definition bearer_token_from_header :: "ustr \<Rightarrow> (auth_error, ustr) result" where
  "bearer_token_from_header authorization =
     (case split_once 0x20 authorization of
        None \<Rightarrow> Err InvalidAuthorizationHeader
      | Some (scheme, token) \<Rightarrow>
          if \<not> eq_ignore_ascii_case scheme (lit ''Bearer'') then Err InvalidAuthorizationHeader
          else
            let token = trim token
            in if token = [] then Err MissingBearerToken else Ok token)"

fun scan_keys ::
  "ustr \<Rightarrow> api_key_entry list \<Rightarrow> api_key_entry option \<Rightarrow> bool \<Rightarrow> api_key_entry option \<times> bool" where
  "scan_keys h [] matched dup = (matched, dup)"
| "scan_keys h (k # ks) matched dup =
     (if constant_time_eq (entry_key_hash k) h then
        (case matched of
           Some m \<Rightarrow> scan_keys h ks matched True
         | None \<Rightarrow> scan_keys h ks (Some k) dup)
      else scan_keys h ks matched dup)"

definition authenticate_token ::
  "(bytes \<Rightarrow> ustr) \<Rightarrow> api_key_entry list \<Rightarrow> ustr \<Rightarrow> (auth_error, actor) result" where
  "authenticate_token blake3_hex keys token =
     (let token_hash = blake3_hex (utf8 token)
      in case scan_keys token_hash keys None False of
           (matched, duplicate) \<Rightarrow>
             if duplicate then Err InvalidApiKey
             else
               (case matched of
                  None \<Rightarrow> Err InvalidApiKey
                | Some key \<Rightarrow>
                    if entry_revoked key then Err InvalidApiKey
                    else Ok \<lparr>actor_id = entry_actor_id key, key_name = entry_name key,
                             key_hash = entry_key_hash key\<rparr>))"

definition authenticate_authorization_header ::
  "(bytes \<Rightarrow> ustr) \<Rightarrow> api_key_entry list \<Rightarrow> ustr \<Rightarrow> (auth_error, actor) result" where
  "authenticate_authorization_header blake3_hex keys authorization =
     and_then (bearer_token_from_header authorization) (authenticate_token blake3_hex keys)"

definition verify_actor_hint :: "actor \<Rightarrow> ustr option \<Rightarrow> (auth_error, unit) result" where
  "verify_actor_hint a hint =
     (case hint of
        None \<Rightarrow> Ok ()
      | Some h \<Rightarrow> if h = actor_id a then Ok () else Err (ActorMismatch (actor_id a) h))"

definition ACTOR_HINT_HEADER :: ustr where "ACTOR_HINT_HEADER = lit ''x-ma-actor-id''"
definition AUTHORIZATION :: ustr where "AUTHORIZATION = lit ''authorization''"

definition actor_hint_of :: "request \<Rightarrow> ustr option" where
  "actor_hint_of req = Option.bind (map_of (headers req) ACTOR_HINT_HEADER) (\<lambda>v. v)"

definition auth_middleware ::
  "(bytes \<Rightarrow> ustr) \<Rightarrow> api_key_entry list \<Rightarrow> 'a audit_world_scheme handler \<Rightarrow>
   'a audit_world_scheme handler" where
  "auth_middleware blake3_hex keys next req w =
     (if keys = [] then
        (w, text_response 401 (lit ''HTTP auth is not configured; run ma admin add-key first''))
      else case map_of (headers req) AUTHORIZATION of
        None \<Rightarrow> (w, text_response 401 (lit ''missing Authorization header''))
      | Some None \<Rightarrow> (w, text_response 401 (lit ''invalid Authorization header encoding''))
      | Some (Some authorization) \<Rightarrow>
          (case authenticate_authorization_header blake3_hex keys authorization of
             Inl e \<Rightarrow> (w, text_response 401 (auth_error_text e))
           | Inr a \<Rightarrow>
               (case verify_actor_hint a (actor_hint_of req) of
                  Inl e \<Rightarrow>
                    (log_event
                       (with_field (lit ''error'') (JStr (auth_error_text e))
                         (with_field (lit ''hint'')
                            (JStr (case actor_hint_of req of None \<Rightarrow> [] | Some h \<Rightarrow> h))
                           (with_field (lit ''actor_id'') (JStr (actor_id a))
                             (audit_event_new (env w) (lit ''actor_mismatch'') (lit ''rejected'')))))
                       w,
                     text_response 403 (auth_error_text e))
                | Inr _ \<Rightarrow> next (req\<lparr>ext_actor := Some a\<rparr>) w)))"

section \<open>The comparison is equality\<close>

lemma ucast_u8_eq_0: "ucast (x :: u8) = (0 :: 64 word) \<longleftrightarrow> x = 0"
  using bit_imp_le_length [of x] by (fastforce simp: bit_eq_iff bit_simps)

lemma xor_eq_0: "x XOR y = 0 \<longleftrightarrow> x = (y :: 'a :: len word)"
  by (metis bit.xor_left_self word_bw_same(3) xor.right_neutral)

lemma xor_loop_eq_0:
  "xor_loop l r is diff = 0 \<longleftrightarrow>
   diff = 0 \<and> (\<forall>i \<in> set is. byte_at_or_zero l i = byte_at_or_zero r i)"
proof (induction "is" arbitrary: diff)
  case (Cons i "is")
  show ?case
    unfolding xor_loop.simps Cons.IH by (auto simp: or_eq_0_iff ucast_u8_eq_0 xor_eq_0)
qed simp

text \<open>A string Rust can hold: scalar values, and fewer than \<open>2 ^ 64\<close> bytes.\<close>

definition rust_str :: "ustr \<Rightarrow> bool" where
  "rust_str t \<longleftrightarrow> valid_ustr t \<and> length (utf8 t) < 2 ^ 64"

lemma constant_time_eq_iff:
  assumes "rust_str a" "rust_str b"
  shows "constant_time_eq a b \<longleftrightarrow> a = b"
proof
  assume "constant_time_eq a b"
  then have len: "of_nat (length (utf8 a)) = (of_nat (length (utf8 b)) :: 64 word)"
    and eq: "\<forall>i < max (length (utf8 a)) (length (utf8 b)).
               byte_at_or_zero (utf8 a) i = byte_at_or_zero (utf8 b) i"
    by (auto simp: constant_time_eq_def Let_def xor_loop_eq_0 xor_eq_0)
  from len assms have "length (utf8 a) = length (utf8 b)"
    by (simp add: rust_str_def word_of_nat_eq_iff take_bit_nat_eq_self)
  with eq have "utf8 a = utf8 b"
    by (intro nth_equalityI) (auto simp: byte_at_or_zero_def)
  with assms show "a = b" by (simp add: rust_str_def utf8_inject)
qed (simp add: constant_time_eq_def Let_def xor_loop_eq_0)

text \<open>What the loop over all keys computes: the first match, and whether there is another.\<close>

lemma scan_keys_eq:
  "scan_keys h ks m d =
     (case m of Some k \<Rightarrow> Some k | None \<Rightarrow> find (\<lambda>k. constant_time_eq (entry_key_hash k) h) ks,
      d \<or> 2 \<le> (if m = None then 0 else 1) +
              length (filter (\<lambda>k. constant_time_eq (entry_key_hash k) h) ks))"
proof (induction ks arbitrary: m d)
  case (Cons k ks)
  then show ?case by (cases m) (auto simp: Suc_le_eq)
qed (auto split: option.splits)

definition key_matches :: "ustr \<Rightarrow> api_key_entry list \<Rightarrow> api_key_entry list" where
  "key_matches h ks = filter (\<lambda>k. entry_key_hash k = h) ks"

definition entry_actor :: "api_key_entry \<Rightarrow> actor" where
  "entry_actor k =
     \<lparr>actor_id = entry_actor_id k, key_name = entry_name k, key_hash = entry_key_hash k\<rparr>"

definition keys_ok_strs :: "api_key_entry list \<Rightarrow> bool" where
  "keys_ok_strs ks \<longleftrightarrow> (\<forall>k \<in> set ks. rust_str (entry_key_hash k))"

lemma filter_ct_eq:
  assumes "keys_ok_strs ks" "rust_str h"
  shows "filter (\<lambda>k. constant_time_eq (entry_key_hash k) h) ks = key_matches h ks"
  using assms by (auto simp: key_matches_def keys_ok_strs_def constant_time_eq_iff intro!: filter_cong)

lemma find_filter: "find P xs = (case filter P xs of [] \<Rightarrow> None | x # _ \<Rightarrow> Some x)"
  by (induction xs) auto

lemma authenticate_token_iff:
  assumes "keys_ok_strs keys" "rust_str (blake3_hex (utf8 token))"
  shows "authenticate_token blake3_hex keys token = Ok a \<longleftrightarrow>
    (\<exists>k. key_matches (blake3_hex (utf8 token)) keys = [k] \<and> \<not> entry_revoked k \<and> a = entry_actor k)"
proof (cases "key_matches (blake3_hex (utf8 token)) keys")
  case Nil
  then show ?thesis
    by (simp add: authenticate_token_def scan_keys_eq find_filter filter_ct_eq [OF assms])
next
  case (Cons k ks)
  then show ?thesis
    by (cases ks)
       (auto simp: authenticate_token_def scan_keys_eq find_filter filter_ct_eq [OF assms] entry_actor_def)
qed

section \<open>Properties\<close>

text \<open>
  the branch-free comparison of two strings (the length difference or-ed with the
  xor of every byte pair) is equality.
\<close>

theorem constant_time_eq_is_equality:
  assumes "rust_str a" "rust_str b"
  shows "constant_time_eq a b \<longleftrightarrow> a = b"
  by (rule constant_time_eq_iff [OF assms])

theorem constant_time_eq_is_equality_witness:
  "constant_time_eq (lit ''abc'') (lit ''abc'') \<and> \<not> constant_time_eq (lit ''abc'') (lit ''ab'')"
proof -
  have "rust_str (lit ''abc'')" "rust_str (lit ''ab'')"
    by (simp_all add: rust_str_def valid_ustr_def is_scalar_def utf8_char_def)
  then show ?thesis
    using constant_time_eq_is_equality [of "lit ''abc''" "lit ''abc''"]
      constant_time_eq_is_equality [of "lit ''abc''" "lit ''ab''"]
    by simp
qed

text \<open>
  C30: a token authenticates exactly when one entry of the key table has its digest and
  that entry is not revoked; the actor is that entry's. A digest configured twice
  authenticates nobody, whether or not one of the duplicates is revoked.
\<close>

theorem authenticate_token_sound_complete:
  assumes "keys_ok_strs keys" "rust_str (blake3_hex (utf8 token))"
  shows "authenticate_token blake3_hex keys token = Ok a \<longleftrightarrow>
    (\<exists>k. key_matches (blake3_hex (utf8 token)) keys = [k] \<and> \<not> entry_revoked k \<and> a = entry_actor k)"
  using assms by (rule authenticate_token_iff [where blake3_hex = blake3_hex])

theorem authenticate_token_sound_complete_witness:
  "authenticate_token (map uint)
     [\<lparr>entry_name = None, entry_key_hash = lit ''t'', entry_actor_id = lit ''alice'', entry_revoked = False\<rparr>]
     (lit ''t'') =
   Ok \<lparr>actor_id = lit ''alice'', key_name = None, key_hash = lit ''t''\<rparr>"
proof -
  let ?k = "\<lparr>entry_name = None, entry_key_hash = lit ''t'', entry_actor_id = lit ''alice'', entry_revoked = False\<rparr>"
  have u: "map uint (utf8 (lit ''t'')) = lit ''t''"
    by (simp add: utf8_char_def uint_u8)
  have "rust_str (lit ''t'')"
    by (simp add: rust_str_def valid_ustr_def is_scalar_def utf8_char_def)
  then show ?thesis
    using authenticate_token_sound_complete [of "[?k]" "map uint" "lit ''t''" "entry_actor ?k"]
    by (simp add: keys_ok_strs_def u key_matches_def entry_actor_def del: lit_simps)
qed

text \<open>
  a bearer header round-trips: the scheme in any letter case, one space, and a token
  without white space give that token back, whatever blanks surround it.
\<close>

theorem bearer_header_roundtrip:
  assumes scheme: "to_ascii_lowercase scheme = lit ''bearer''"
    and token: "list_all (\<lambda>c. \<not> is_whitespace c) token" "token \<noteq> []"
    and pad: "list_all is_whitespace pre" "list_all is_whitespace post"
  shows "bearer_token_from_header (scheme @ lit '' '' @ pre @ token @ post) = Ok token"
proof -
  have "0x20 \<notin> set scheme"
  proof
    assume "0x20 \<in> set scheme"
    then have "char_to_ascii_lowercase 0x20 \<in> set (to_ascii_lowercase scheme)"
      by (auto simp: to_ascii_lowercase_def)
    then show False by (simp add: scheme char_to_ascii_lowercase_def is_ascii_uppercase_def)
  qed
  moreover have "to_ascii_lowercase (lit ''Bearer'') = lit ''bearer''"
    by (simp add: char_to_ascii_lowercase_def is_ascii_uppercase_def)
  moreover have "trim (pre @ token @ post) = token"
    using token pad by (rule trim_padded)
  ultimately show ?thesis
    using scheme token(2) split_once_append [of "0x20" scheme "pre @ token @ post"]
    by (simp add: bearer_token_from_header_def eq_ignore_ascii_case_def Let_def)
qed

theorem bearer_header_roundtrip_witness:
  "bearer_token_from_header (lit ''BEARER  tok '') = Ok (lit ''tok'')"
  using bearer_header_roundtrip [of "lit ''BEARER''" "lit ''tok''" "lit '' ''" "lit '' ''"]
  by (simp add: char_to_ascii_lowercase_def is_ascii_uppercase_def is_whitespace_def)

text \<open>
  C12: the authentication middleware either forwards the request, with the actor of the
  one live key whose digest the bearer token has, and only when the actor hint is absent,
  unreadable or that actor's id; or it answers 401 or 403 itself, whatever handler
  stands behind it.
\<close>

theorem auth_middleware_gate:
  assumes "keys_ok_strs keys" "\<And>bs. rust_str (blake3_hex bs)"
  shows "(\<exists>authorization token k.
      map_of (headers req) AUTHORIZATION = Some (Some authorization) \<and>
      bearer_token_from_header authorization = Ok token \<and>
      key_matches (blake3_hex (utf8 token)) keys = [k] \<and> \<not> entry_revoked k \<and>
      actor_hint_of req \<in> {None, Some (entry_actor_id k)} \<and>
      auth_middleware blake3_hex keys next req w = next (req\<lparr>ext_actor := Some (entry_actor k)\<rparr>) w) \<or>
    (status (snd (auth_middleware blake3_hex keys next req w)) \<in> {401, 403} \<and>
     (\<forall>other. auth_middleware blake3_hex keys other req w = auth_middleware blake3_hex keys next req w))"
proof -
  have tok: "authenticate_token blake3_hex keys token = Ok a \<Longrightarrow>
      \<exists>k. key_matches (blake3_hex (utf8 token)) keys = [k] \<and> \<not> entry_revoked k \<and> a = entry_actor k"
    for token a
    using authenticate_token_iff [of keys blake3_hex] assms by blast
  show ?thesis
  proof (cases "keys = []")
    case False
    show ?thesis
    proof (cases "map_of (headers req) AUTHORIZATION")
      case (Some v)
      show ?thesis
      proof (cases v)
        case authz: (Some authorization)
        show ?thesis
        proof (cases "authenticate_authorization_header blake3_hex keys authorization")
          case (Inr a)
          then obtain token where t: "bearer_token_from_header authorization = Ok token"
              "authenticate_token blake3_hex keys token = Ok a"
            by (auto simp: authenticate_authorization_header_def and_then_Inr_iff)
          from tok [OF t(2)] obtain k where k: "key_matches (blake3_hex (utf8 token)) keys = [k]"
              "\<not> entry_revoked k" "a = entry_actor k" by blast
          show ?thesis
          proof (cases "actor_hint_of req \<in> {None, Some (entry_actor_id k)}")
            case True
            then have "auth_middleware blake3_hex keys next req w =
                next (req\<lparr>ext_actor := Some (entry_actor k)\<rparr>) w"
              using False Some authz Inr k
              by (auto simp: auth_middleware_def verify_actor_hint_def entry_actor_def)
            with True Some authz t(1) k show ?thesis by blast
          next
            case hint: False
            then show ?thesis
              using False Some authz Inr k
              by (auto simp: auth_middleware_def verify_actor_hint_def entry_actor_def)
          qed
        qed (use False Some authz in \<open>simp add: auth_middleware_def\<close>)
      qed (use False Some in \<open>simp add: auth_middleware_def\<close>)
    qed (use False in \<open>simp add: auth_middleware_def\<close>)
  qed (simp add: auth_middleware_def)
qed

theorem auth_middleware_gate_witness:
  "status (snd (auth_middleware (\<lambda>_. []) [] (\<lambda>req w. (w, text_response 200 []))
     \<lparr>headers = [], body = Ok [], ext_actor = None, ext_session = None\<rparr> 
     \<lparr>audit = \<lparr>dir_exists = True, files = []\<rparr>, audit_io = (\<lambda>_. True),
      env = \<lparr>env_now = [], env_project_id = None\<rparr>\<rparr>)) = 401"
  using auth_middleware_gate [of "[]" "\<lambda>_. []" "\<lparr>headers = [], body = Ok [], ext_actor = None, ext_session = None\<rparr>"
      "\<lambda>req w. (w, text_response 200 [])"
      "\<lparr>audit = \<lparr>dir_exists = True, files = []\<rparr>, audit_io = (\<lambda>_. True),
        env = \<lparr>env_now = [], env_project_id = None\<rparr>\<rparr>"]
  by (simp add: auth_middleware_def keys_ok_strs_def rust_str_def valid_ustr_def)

end
