(* ===== verification/Session_Ids.thy ===== *)
theory Session_Ids
  imports Auth
begin

text \<open>
  Session identifiers of \<open>transport/session.rs\<close>: the validator of the
  \<open>X-MA-Session-Id\<close> header and the middleware that resolves the session of a request.
  The system clock (nanoseconds since the epoch) is an argument.
\<close>

datatype session_id_error = SidEmpty | SidTooLong | SidInvalidChar

definition session_id_error_text :: "session_id_error \<Rightarrow> ustr" where
  "session_id_error_text e =
     (case e of
        SidEmpty \<Rightarrow> lit ''session_id is empty''
      | SidTooLong \<Rightarrow> lit ''session_id exceeds 128 characters''
      | SidInvalidChar \<Rightarrow>
          lit ''session_id contains invalid characters (allowed: [a-zA-Z0-9_:-])'')"

definition SESSION_ID_HEADER :: ustr where "SESSION_ID_HEADER = lit ''x-ma-session-id''"

definition session_char_ok :: "rchar \<Rightarrow> bool" where
  "session_char_ok c \<longleftrightarrow> is_ascii_alphanumeric c \<or> c = 95 \<or> c = 45 \<or> c = 58"

definition validate_session_id :: "ustr \<Rightarrow> (session_id_error, ustr) result" where
  "validate_session_id value =
     (if value = [] then Err SidEmpty
      else if byte_len value > 128 then Err SidTooLong
      else if \<not> list_all session_char_ok value then Err SidInvalidChar
      else Ok value)"

definition fallback_session_id :: "nat \<Rightarrow> ustr \<Rightarrow> ustr" where
  "fallback_session_id nanos actor = lit ''http-fallback:'' @ actor @ lit ''-'' @ show_nat nanos"

definition session_actor :: "request \<Rightarrow> ustr" where
  "session_actor req =
     (case ext_actor req of Some a \<Rightarrow> actor_id a | None \<Rightarrow> lit ''unknown'')"

definition session_middleware ::
  "nat \<Rightarrow> 'a audit_world_scheme handler \<Rightarrow> 'a audit_world_scheme handler" where
  "session_middleware nanos next req w =
     (let fallback = fallback_session_id nanos (session_actor req);
          invalid = (\<lambda>got err.
            log_event
              (with_field (lit ''error'') (JStr err)
                (with_field (lit ''got'') (JStr got)
                  (with_session_id fallback
                    (audit_event_new (env w) (lit ''session_id_invalid'') (lit ''fallback''))))) w)
      in case (case map_of (headers req) SESSION_ID_HEADER of
             None \<Rightarrow> (fallback, w)
           | Some (Some s) \<Rightarrow>
               (case validate_session_id s of
                  Inr v \<Rightarrow> (lit ''http:'' @ v, w)
                | Inl e \<Rightarrow> (fallback, invalid s (session_id_error_text e)))
           | Some None \<Rightarrow>
               (fallback, invalid (lit ''<non-utf8>'') (lit ''header value is not valid UTF-8'')))
         of (sid, w') \<Rightarrow> next (req\<lparr>ext_session := Some sid\<rparr>) w')"

section \<open>Lemmas\<close>

lemma session_char_ascii: "session_char_ok c \<Longrightarrow> 0 \<le> c \<and> c < 0x80 \<and> \<not> is_whitespace c"
  by (auto simp: session_char_ok_def is_ascii_alphanumeric_def is_ascii_uppercase_def
      is_ascii_lowercase_def is_ascii_digit_def is_whitespace_def)

lemma utf8_ascii: "list_all (\<lambda>c. 0 \<le> c \<and> c < 0x80) t \<Longrightarrow> length (utf8 t) = length t"
  by (induction t) (auto simp: utf8_char_def)

lemma validate_session_id_Ok:
  "validate_session_id s = Ok v \<longleftrightarrow>
     v = s \<and> s \<noteq> [] \<and> length s \<le> 128 \<and> list_all session_char_ok s"
proof -
  have "list_all session_char_ok s \<Longrightarrow> byte_len s = length s"
    unfolding byte_len_def
    by (rule utf8_ascii) (auto simp: list_all_iff dest: session_char_ascii)
  then show ?thesis by (auto simp: validate_session_id_def)
qed

text \<open>The session id a request resolves to, as a function of its header and actor.\<close>

definition resolved_session :: "nat \<Rightarrow> request \<Rightarrow> ustr" where
  "resolved_session nanos req =
     (case map_of (headers req) SESSION_ID_HEADER of
        Some (Some s) \<Rightarrow>
          (case validate_session_id s of
             Inr v \<Rightarrow> lit ''http:'' @ v
           | Inl _ \<Rightarrow> fallback_session_id nanos (session_actor req))
      | _ \<Rightarrow> fallback_session_id nanos (session_actor req))"

lemma log_event_frame [simp]:
  "audit_io (log_event ev w) = audit_io w" "env (log_event ev w) = env w"
  by (simp_all add: log_event_def)

lemma session_middleware_forwards:
  "\<exists>w'. session_middleware nanos next req w =
          next (req\<lparr>ext_session := Some (resolved_session nanos req)\<rparr>) w' \<and>
        w' \<in> {w, w\<lparr>audit := audit w'\<rparr>}"
  by (auto simp: session_middleware_def resolved_session_def log_event_def Let_def
      split: option.splits sum.splits)

section \<open>Properties\<close>

text \<open>
  the session middleware never rejects a request: it hands it on with exactly one
  session id, \<open>http:\<close> followed by the header when the header is valid and an
  \<open>http-fallback:\<close> id of the actor otherwise, and changes nothing but the audit log.
\<close>

theorem session_middleware_never_rejects:
  "\<exists>a. session_middleware nanos next req w =
         next (req\<lparr>ext_session := Some (resolved_session nanos req)\<rparr>) (w\<lparr>audit := a\<rparr>)"
proof -
  obtain w' where "session_middleware nanos next req w =
      next (req\<lparr>ext_session := Some (resolved_session nanos req)\<rparr>) w'"
    and "w' = w \<or> w' = w\<lparr>audit := audit w'\<rparr>"
    using session_middleware_forwards [of nanos "next" req w] by auto
  moreover have "w = w\<lparr>audit := audit w\<rparr>" by simp
  ultimately show ?thesis by metis
qed

text \<open>
  The two kinds of session id never collide: an id taken from a header is never a
  fallback id, nor a \<open>stdio:\<close> id of the process, and two headers give the same id only
  if they are the same.
\<close>

lemma session_namespaces_disjoint:
  "lit ''http:'' @ v \<noteq> fallback_session_id nanos actor \<and>
   lit ''http:'' @ v \<noteq> lit ''stdio:'' @ p \<and>
   fallback_session_id nanos actor \<noteq> lit ''stdio:'' @ p \<and>
   (lit ''http:'' @ v = lit ''http:'' @ v' \<longleftrightarrow> v = v')"
  by (simp add: fallback_session_id_def)

end
