(* ===== verification/Write_Tokens.thy ===== *)
theory Write_Tokens
  imports Session_Ids
begin

text \<open>
  Write tokens: the \<open>session_tokens\<close> table of \<open>storage/session_tokens_writer.rs\<close>, the
  endpoint that issues tokens (\<open>transport/session_open.rs\<close>) and the check the service
  makes before a governed write (\<open>service.rs\<close>). Timestamps are ISO 8601 strings compared
  lexicographically, as in the code; the formatter of chrono is an argument, from
  seconds to strings.
\<close>

section \<open>The table\<close>

record token_row =
  token_hash :: ustr
  tok_session_id :: ustr
  tok_actor_id :: ustr
  issued_at :: ustr
  expires_at :: ustr
  revoked_at :: "ustr option"

datatype token_stmt = InsertToken | PrepareToken | SelectToken | RevokeTokens | SweepTokens

datatype validate_result =
    Valid ustr ustr ustr
  | NotFound
  | Expired ustr
  | Revoked ustr
  | TokActorMismatch ustr ustr

definition unique_violation :: sql_error where
  "unique_violation = lit ''UNIQUE constraint failed: session_tokens.token_hash''"

fun eq_loop :: "bytes \<Rightarrow> bytes \<Rightarrow> nat list \<Rightarrow> 64 word \<Rightarrow> 64 word" where
  "eq_loop left right [] diff = diff"
| "eq_loop left right (i # is) diff =
     (let l = (if i < length left then left ! i else 0);
          r = (if i < length right then right ! i else 0)
      in eq_loop left right is (diff OR ucast (l XOR r)))"

definition token_hash_eq :: "ustr \<Rightarrow> ustr \<Rightarrow> bool" where
  "token_hash_eq a b =
     (let left = utf8 a; right = utf8 b
      in eq_loop left right [0..<max (length left) (length right)]
           (of_nat (length left) XOR of_nat (length right)) = 0)"

definition issue_token ::
  "token_stmt faults \<Rightarrow> ustr \<Rightarrow> ustr \<Rightarrow> ustr \<Rightarrow> ustr \<Rightarrow> ustr \<Rightarrow> token_row list \<Rightarrow>
   (sql_error, token_row list) result" where
  "issue_token flt h sid aid issued expires rows =
     (case flt InsertToken of
        Some e \<Rightarrow> Err e
      | None \<Rightarrow>
          if row_get token_hash h rows \<noteq> None then Err unique_violation
          else Ok (rows @ [\<lparr>token_hash = h, tok_session_id = sid, tok_actor_id = aid,
                            issued_at = issued, expires_at = expires, revoked_at = None\<rparr>]))"

definition validate_token ::
  "token_stmt faults \<Rightarrow> ustr \<Rightarrow> ustr \<Rightarrow> ustr \<Rightarrow> token_row list \<Rightarrow>
   (sql_error, validate_result) result" where
  "validate_token flt h expected_actor now rows =
     (case flt PrepareToken of
        Some e \<Rightarrow> Err e
      | None \<Rightarrow>
         (case flt SelectToken of
            Some e \<Rightarrow> Err e
          | None \<Rightarrow>
             (case row_get token_hash h rows of
                None \<Rightarrow> Ok NotFound
              | Some r \<Rightarrow>
                  if \<not> token_hash_eq h (token_hash r) then Ok NotFound
                  else
                   (case revoked_at r of
                      Some t \<Rightarrow> Ok (Revoked t)
                    | None \<Rightarrow>
                        if expires_at r < now then Ok (Expired (expires_at r))
                        else if tok_actor_id r \<noteq> expected_actor
                        then Ok (TokActorMismatch (tok_actor_id r) expected_actor)
                        else Ok (Valid (tok_actor_id r) (tok_session_id r) (expires_at r))))))"

definition revoke_tokens_for_session ::
  "token_stmt faults \<Rightarrow> ustr \<Rightarrow> ustr \<Rightarrow> token_row list \<Rightarrow>
   (sql_error, token_row list \<times> ustr list) result" where
  "revoke_tokens_for_session flt sid stamp rows =
     (case flt RevokeTokens of
        Some e \<Rightarrow> Err e
      | None \<Rightarrow>
          let hit = (\<lambda>r. tok_session_id r = sid \<and> revoked_at r = None)
          in Ok (row_update hit (\<lambda>r. r\<lparr>revoked_at := Some stamp\<rparr>) rows,
                 map tok_actor_id (filter hit rows)))"

definition sweep_expired_tokens ::
  "token_stmt faults \<Rightarrow> ustr \<Rightarrow> token_row list \<Rightarrow> (sql_error, token_row list \<times> nat) result" where
  "sweep_expired_tokens flt cutoff rows =
     (case flt SweepTokens of
        Some e \<Rightarrow> Err e
      | None \<Rightarrow> Ok (row_delete (\<lambda>r. expires_at r < cutoff) rows,
                   row_count (\<lambda>r. expires_at r < cutoff) rows))"

section \<open>Issuing over HTTP\<close>

record token_world = audit_world +
  tokens :: "token_row list"
  token_faults :: "token_stmt faults"

record session_open_request =
  so_session_id :: ustr
  so_agent :: "ustr option"
  so_ttl_seconds :: "nat option"

record session_open_response =
  write_token :: ustr
  so_expires_at :: ustr

definition MAX_TTL_SECONDS :: nat where "MAX_TTL_SECONDS = 86400"

definition HEX :: "rchar list" where "HEX = lit ''0123456789abcdef''"

fun bytes_to_hex :: "bytes \<Rightarrow> ustr" where
  "bytes_to_hex [] = []"
| "bytes_to_hex (b # bs) =
     HEX ! unat (drop_bit 4 b) # HEX ! unat (b AND 15) # bytes_to_hex bs"

definition generate_secret :: "(ustr, bytes) result \<Rightarrow> (ustr, ustr) result" where
  "generate_secret filled = and_then filled (\<lambda>bs. Ok (bytes_to_hex bs))"

definition session_open_handler ::
  "(bytes \<Rightarrow> ustr) \<Rightarrow> (int \<Rightarrow> ustr) \<Rightarrow> (ustr, bytes) result \<Rightarrow> int \<Rightarrow> actor \<Rightarrow> session_open_request \<Rightarrow>
   'a token_world_scheme \<Rightarrow> 'a token_world_scheme \<times> (nat \<times> ustr, session_open_response) result" where
  "session_open_handler blake3_hex rfc3339 filled now a req w =
     (if so_session_id req = [] then (w, Err (400, lit ''session_id is required''))
      else case validate_session_id (so_session_id req) of
        Inl e \<Rightarrow> (w, Err (400, lit ''invalid session_id: '' @ session_id_error_text e))
      | Inr _ \<Rightarrow>
          let ttl_seconds = (case so_ttl_seconds req of None \<Rightarrow> 3600 | Some t \<Rightarrow> t)
          in if ttl_seconds = 0 \<or> ttl_seconds > MAX_TTL_SECONDS
             then (w, Err (400, lit ''ttl_seconds must be between 1 and '' @ show_nat MAX_TTL_SECONDS))
             else
               case generate_secret filled of
                 Inl e \<Rightarrow> (w, Err (500, lit ''token generation failed''))
               | Inr secret \<Rightarrow>
                   let token_hash = blake3_hex (utf8 secret);
                       issued = rfc3339 now;
                       expires = rfc3339 (now + int ttl_seconds)
                   in case issue_token (token_faults w) token_hash (so_session_id req)
                             (actor_id a) issued expires (tokens w) of
                        Inl e \<Rightarrow> (w, Err (500, lit ''token storage failed''))
                      | Inr rows \<Rightarrow>
                          (log_event
                             (with_field (lit ''expires_at'') (JStr expires)
                               (with_actor (actor_id a)
                                 (with_session_id (lit ''http:'' @ so_session_id req)
                                   (audit_event_new (env w) (lit ''session_token_issued'') (lit ''ok'')))))
                             (w\<lparr>tokens := rows\<rparr>),
                           Ok \<lparr>write_token = secret, so_expires_at = expires\<rparr>))"

section \<open>Checking before a governed write\<close>

datatype write_token_error =
    WtMissing
  | WtExpired ustr
  | WtRevoked ustr
  | WtActorMismatch ustr
  | WtSessionMismatch ustr ustr
  | WtDbError sql_error

definition WRITE_TOKEN_HEADER :: ustr where "WRITE_TOKEN_HEADER = lit ''x-ma-write-token''"

definition stdio_session_id :: "ustr \<Rightarrow> ustr" where
  "stdio_session_id process_session = lit ''stdio:'' @ process_session"

definition resolve_session_id :: "ustr \<Rightarrow> request option \<Rightarrow> ustr" where
  "resolve_session_id process_session parts =
     (case parts of
        Some req \<Rightarrow>
          (case ext_session req of Some sid \<Rightarrow> sid | None \<Rightarrow> stdio_session_id process_session)
      | None \<Rightarrow> stdio_session_id process_session)"

definition token_failed :: "'a token_world_scheme \<Rightarrow> ustr \<Rightarrow> actor \<Rightarrow> audit_event" where
  "token_failed w why a =
     with_actor (actor_id a) (audit_event_new (env w) (lit ''session_token_validation_failed'') why)"

definition require_write_token_from_parts ::
  "(bytes \<Rightarrow> ustr) \<Rightarrow> ustr \<Rightarrow> ustr \<Rightarrow> request \<Rightarrow> actor \<Rightarrow> 'a token_world_scheme \<Rightarrow>
   'a token_world_scheme \<times> (write_token_error, unit) result" where
  "require_write_token_from_parts blake3_hex process_session now req a w =
     (case map_of (headers req) WRITE_TOKEN_HEADER of
        None \<Rightarrow> (w, Err WtMissing)
      | Some None \<Rightarrow> (w, Err WtMissing)
      | Some (Some token_secret) \<Rightarrow>
          if token_secret = [] then (w, Err WtMissing)
          else
            let request_session = (case ext_session req of
                    Some s \<Rightarrow> s | None \<Rightarrow> stdio_session_id process_session)
            in case validate_token (token_faults w) (blake3_hex (utf8 token_secret)) (actor_id a) now (tokens w) of
                 Inl e \<Rightarrow> (w, Err (WtDbError e))
               | Inr (Valid _ stored_session _) \<Rightarrow>
                   if stored_session \<noteq> request_session then
                     (log_event
                        (with_field (lit ''stored_session_id'') (JStr stored_session)
                          (with_session_id request_session (token_failed w (lit ''session_mismatch'') a))) w,
                      Err (WtSessionMismatch stored_session request_session))
                   else
                     (log_event
                        (with_session_id stored_session
                          (with_actor (actor_id a)
                            (audit_event_new (env w) (lit ''session_token_validated'') (lit ''ok'')))) w,
                      Ok ())
               | Inr NotFound \<Rightarrow>
                   (log_event (token_failed w (lit ''not_found'') a) w, Err WtMissing)
               | Inr (Expired e) \<Rightarrow>
                   (log_event (with_field (lit ''expires_at'') (JStr e)
                      (token_failed w (lit ''expired'') a)) w, Err (WtExpired e))
               | Inr (Revoked e) \<Rightarrow>
                   (log_event (with_field (lit ''revoked_at'') (JStr e)
                      (token_failed w (lit ''revoked'') a)) w, Err (WtRevoked e))
               | Inr (TokActorMismatch stored _) \<Rightarrow>
                   (log_event (with_field (lit ''stored_actor'') (JStr stored)
                      (token_failed w (lit ''actor_mismatch'') a)) w, Err (WtActorMismatch stored)))"

definition require_write_token ::
  "(bytes \<Rightarrow> ustr) \<Rightarrow> ustr \<Rightarrow> ustr \<Rightarrow> request option \<Rightarrow> actor \<Rightarrow> 'a token_world_scheme \<Rightarrow>
   'a token_world_scheme \<times> (write_token_error, unit) result" where
  "require_write_token blake3_hex process_session now parts a w =
     (case parts of
        None \<Rightarrow> (w, Ok ())
      | Some req \<Rightarrow> require_write_token_from_parts blake3_hex process_session now req a w)"

section \<open>The token store as an interface\<close>

text \<open>
  What the issuing endpoint and the write check rely on: a token is accepted for one
  session, actor and time; issuing adds exactly one token and refuses a hash that is
  present; revoking a session ends exactly its tokens; a sweep up to the present time
  changes no answer.
\<close>

datatype ('h, 's, 'a, 't) token_op =
    Issue 'h 's 'a 't
  | Revoke 's 't
  | Sweep 't

fun token_step ::
  "('h \<Rightarrow> 's \<Rightarrow> 'a \<Rightarrow> 't \<Rightarrow> 'db \<Rightarrow> 'db option) \<Rightarrow> ('s \<Rightarrow> 't \<Rightarrow> 'db \<Rightarrow> 'db) \<Rightarrow> ('t \<Rightarrow> 'db \<Rightarrow> 'db) \<Rightarrow>
   ('h, 's, 'a, 't) token_op \<Rightarrow> 'db \<Rightarrow> 'db" where
  "token_step issue revoke sweep (Issue h s a e) db =
     (case issue h s a e db of None \<Rightarrow> db | Some db' \<Rightarrow> db')"
| "token_step issue revoke sweep (Revoke s t) db = revoke s t db"
| "token_step issue revoke sweep (Sweep c) db = sweep c db"

fun token_run ::
  "('h \<Rightarrow> 's \<Rightarrow> 'a \<Rightarrow> 't \<Rightarrow> 'db \<Rightarrow> 'db option) \<Rightarrow> ('s \<Rightarrow> 't \<Rightarrow> 'db \<Rightarrow> 'db) \<Rightarrow> ('t \<Rightarrow> 'db \<Rightarrow> 'db) \<Rightarrow>
   ('h, 's, 'a, 't) token_op list \<Rightarrow> 'db \<Rightarrow> 'db" where
  "token_run issue revoke sweep [] db = db"
| "token_run issue revoke sweep (x # xs) db =
     token_run issue revoke sweep xs (token_step issue revoke sweep x db)"

fun issues_hash :: "'h \<Rightarrow> ('h, 's, 'a, 't) token_op \<Rightarrow> bool" where
  "issues_hash h (Issue h' s a e) = (h' = h)"
| "issues_hash h _ = False"

fun harmless_for :: "'s \<Rightarrow> 't :: linorder \<Rightarrow> ('h, 's, 'a, 't) token_op \<Rightarrow> bool" where
  "harmless_for s now (Issue _ _ _ _) = True"
| "harmless_for s now (Revoke s' t) = (s' \<noteq> s)"
| "harmless_for s now (Sweep c) = (c \<le> now)"

locale token_store =
  fixes issue :: "'h \<Rightarrow> 's \<Rightarrow> 'a \<Rightarrow> 't :: linorder \<Rightarrow> 'db \<Rightarrow> 'db option"
    and revoke :: "'s \<Rightarrow> 't \<Rightarrow> 'db \<Rightarrow> 'db"
    and sweep :: "'t \<Rightarrow> 'db \<Rightarrow> 'db"
    and accepts :: "'h \<Rightarrow> 'a \<Rightarrow> 't \<Rightarrow> 'db \<Rightarrow> 's option"
    and present :: "'h \<Rightarrow> 'db \<Rightarrow> bool"
    and inv :: "'db \<Rightarrow> bool"
  assumes inv_issue: "inv db \<Longrightarrow> issue h s a e db = Some db' \<Longrightarrow> inv db'"
    and inv_revoke: "inv db \<Longrightarrow> inv (revoke s t db)"
    and inv_sweep: "inv db \<Longrightarrow> inv (sweep c db)"
    and issue_absent: "issue h s a e db = Some db' \<Longrightarrow> \<not> present h db"
    and accepts_present: "accepts h a now db = Some s \<Longrightarrow> present h db"
    and accepts_issue: "inv db \<Longrightarrow> issue h s a e db = Some db' \<Longrightarrow>
      accepts h' a' now db' =
        (if h' = h then (if a' = a \<and> now \<le> e then Some s else None) else accepts h' a' now db)"
    and accepts_revoke: "inv db \<Longrightarrow>
      accepts h a now (revoke s t db) =
        (if accepts h a now db = Some s then None else accepts h a now db)"
    and accepts_sweep: "inv db \<Longrightarrow> c \<le> now \<Longrightarrow>
      accepts h a now (sweep c db) = accepts h a now db"
    and accepts_sweep_sub: "inv db \<Longrightarrow>
      accepts h a now (sweep c db) = None \<or> accepts h a now (sweep c db) = accepts h a now db"
begin

lemma inv_step: "inv db \<Longrightarrow> inv (token_step issue revoke sweep x db)"
  by (cases x) (auto intro: inv_revoke inv_sweep inv_issue split: option.splits)

lemma refused_stays_refused:
  assumes "inv db" "\<forall>a now. accepts h a now db = None" "\<forall>x \<in> set xs. \<not> issues_hash h x"
  shows "accepts h a now (token_run issue revoke sweep xs db) = None"
  using assms
proof (induction xs arbitrary: db)
  case (Cons x xs)
  have "\<forall>a now. accepts h a now (token_step issue revoke sweep x db) = None"
  proof (cases x)
    case (Issue h' s a e)
    with Cons.prems show ?thesis
      by (auto simp: accepts_issue split: option.splits)
  next
    case (Revoke s t)
    with Cons.prems show ?thesis by (simp add: accepts_revoke)
  next
    case (Sweep c)
    with Cons.prems accepts_sweep_sub [of db h] show ?thesis by (metis token_step.simps(3))
  qed
  with Cons inv_step [of db x] show ?case by simp
qed simp

lemma accepted_stays_accepted:
  assumes "inv db" "accepts h a now db = Some s" "\<forall>x \<in> set xs. harmless_for s now x"
  shows "accepts h a now (token_run issue revoke sweep xs db) = Some s"
  using assms
proof (induction xs arbitrary: db)
  case (Cons x xs)
  have "accepts h a now (token_step issue revoke sweep x db) = Some s"
  proof (cases x)
    case (Issue h' s' a' e)
    show ?thesis
    proof (cases "issue h' s' a' e db")
      case (Some db')
      with accepts_present [OF Cons.prems(2)] issue_absent have "h \<noteq> h'" by blast
      with Some Issue Cons.prems show ?thesis by (simp add: accepts_issue)
    qed (use Issue Cons.prems in simp)
  next
    case (Revoke s' t)
    with Cons.prems show ?thesis by (auto simp: accepts_revoke)
  next
    case (Sweep c)
    with Cons.prems show ?thesis by (simp add: accepts_sweep)
  qed
  with Cons inv_step [of db x] show ?case by simp
qed simp

lemma revoked_forever:
  assumes "inv db" "\<And>a now s'. accepts h a now db = Some s' \<Longrightarrow> s' = s"
    and "\<forall>x \<in> set xs. \<not> issues_hash h x"
  shows "accepts h a now (token_run issue revoke sweep xs (revoke s t db)) = None"
proof (rule refused_stays_refused)
  show "inv (revoke s t db)" using assms(1) by (rule inv_revoke)
  show "\<forall>a now. accepts h a now (revoke s t db) = None"
  proof (intro allI)
    fix a now
    show "accepts h a now (revoke s t db) = None"
      using assms(2) [of a now] by (cases "accepts h a now db") (auto simp: accepts_revoke [OF assms(1)])
  qed
  show "\<forall>x \<in> set xs. \<not> issues_hash h x" by fact
qed

end

section \<open>The table provides the interface\<close>

definition accepted_session :: "ustr \<Rightarrow> ustr \<Rightarrow> ustr \<Rightarrow> token_row list \<Rightarrow> ustr option" where
  "accepted_session h a now rows =
     (case validate_token no_faults h a now rows of
        Inr (Valid _ s _) \<Rightarrow> Some s
      | _ \<Rightarrow> None)"

definition issue_ok ::
  "ustr \<Rightarrow> ustr \<Rightarrow> ustr \<Rightarrow> ustr \<Rightarrow> ustr \<Rightarrow> token_row list \<Rightarrow> token_row list option" where
  "issue_ok issued h sid aid expires rows =
     (case issue_token no_faults h sid aid issued expires rows of Inl _ \<Rightarrow> None | Inr t \<Rightarrow> Some t)"

definition revoke_ok :: "ustr \<Rightarrow> ustr \<Rightarrow> token_row list \<Rightarrow> token_row list" where
  "revoke_ok sid stamp rows =
     (case revoke_tokens_for_session no_faults sid stamp rows of Inl _ \<Rightarrow> rows | Inr (t, _) \<Rightarrow> t)"

definition sweep_ok :: "ustr \<Rightarrow> token_row list \<Rightarrow> token_row list" where
  "sweep_ok cutoff rows =
     (case sweep_expired_tokens no_faults cutoff rows of Inl _ \<Rightarrow> rows | Inr (t, _) \<Rightarrow> t)"

definition tokens_ok :: "token_row list \<Rightarrow> bool" where
  "tokens_ok rows \<longleftrightarrow> keys_ok token_hash rows"

lemma eq_loop_xor_loop: "eq_loop l r is d = xor_loop l r is d"
  by (induction "is" arbitrary: d) (simp_all add: byte_at_or_zero_def Let_def)

lemma token_hash_eq_constant_time_eq: "token_hash_eq a b = constant_time_eq a b"
  by (simp add: token_hash_eq_def constant_time_eq_def eq_loop_xor_loop Let_def)

lemma token_hash_eq_refl [simp]: "token_hash_eq h h"
  by (simp add: token_hash_eq_constant_time_eq constant_time_eq_def Let_def xor_loop_eq_0)

text \<open>The verdict on a row, once it is found.\<close>

lemma accepted_session_eq:
  "accepted_session h a now rows =
     (case row_get token_hash h rows of
        None \<Rightarrow> None
      | Some r \<Rightarrow>
          if revoked_at r = None \<and> now \<le> expires_at r \<and> tok_actor_id r = a
          then Some (tok_session_id r) else None)"
  by (auto simp: accepted_session_def validate_token_def not_less dest!: row_get_SomeD
      split: option.splits)

lemma issue_ok_Some:
  "issue_ok issued h sid aid expires rows = Some rows' \<longleftrightarrow>
     row_get token_hash h rows = None \<and>
     rows' = rows @ [\<lparr>token_hash = h, tok_session_id = sid, tok_actor_id = aid,
                      issued_at = issued, expires_at = expires, revoked_at = None\<rparr>]"
  by (auto simp: issue_ok_def issue_token_def split: option.splits)

lemma revoke_ok_eq:
  "revoke_ok sid stamp rows =
     row_update (\<lambda>r. tok_session_id r = sid \<and> revoked_at r = None) (\<lambda>r. r\<lparr>revoked_at := Some stamp\<rparr>) rows"
  by (simp add: revoke_ok_def revoke_tokens_for_session_def Let_def)

lemma sweep_ok_eq: "sweep_ok cutoff rows = row_delete (\<lambda>r. expires_at r < cutoff) rows"
  by (simp add: sweep_ok_def sweep_expired_tokens_def)

interpretation tok: token_store
  "issue_ok issued" revoke_ok sweep_ok accepted_session
  "\<lambda>h rows. row_get token_hash h rows \<noteq> None" tokens_ok
  for issued
proof
  fix db db' h h' s a a' e now t c
  show "tokens_ok db \<Longrightarrow> issue_ok issued h s a e db = Some db' \<Longrightarrow> tokens_ok db'"
    by (auto simp: issue_ok_Some tokens_ok_def)
  show "tokens_ok db \<Longrightarrow> tokens_ok (revoke_ok s t db)"
    by (auto simp: revoke_ok_eq tokens_ok_def)
  show "tokens_ok db \<Longrightarrow> tokens_ok (sweep_ok c db)"
    by (auto simp: sweep_ok_eq tokens_ok_def)
  show "issue_ok issued h s a e db = Some db' \<Longrightarrow> \<not> row_get token_hash h db \<noteq> None"
    by (simp add: issue_ok_Some)
  show "accepted_session h a now db = Some s \<Longrightarrow> row_get token_hash h db \<noteq> None"
    by (auto simp: accepted_session_eq split: option.splits)
  show "tokens_ok db \<Longrightarrow> issue_ok issued h s a e db = Some db' \<Longrightarrow>
      accepted_session h' a' now db' =
        (if h' = h then (if a' = a \<and> now \<le> e then Some s else None) else accepted_session h' a' now db)"
    by (auto simp: issue_ok_Some accepted_session_eq row_get_append split: option.splits)
  show "tokens_ok db \<Longrightarrow> accepted_session h a now (revoke_ok s t db) =
      (if accepted_session h a now db = Some s then None else accepted_session h a now db)"
    by (auto simp: revoke_ok_eq accepted_session_eq row_get_update split: option.splits if_splits)
  show "tokens_ok db \<Longrightarrow> c \<le> now \<Longrightarrow> accepted_session h a now (sweep_ok c db) = accepted_session h a now db"
    by (auto simp: sweep_ok_eq accepted_session_eq tokens_ok_def row_get_delete split: option.splits)
  show "tokens_ok db \<Longrightarrow> accepted_session h a now (sweep_ok c db) = None \<or>
      accepted_session h a now (sweep_ok c db) = accepted_session h a now db"
    by (auto simp: sweep_ok_eq accepted_session_eq tokens_ok_def row_get_delete split: option.splits)
qed

section \<open>Lemmas on the endpoint and the check\<close>

text \<open>
  What the code relies on of \<open>to_rfc3339_opts(Secs, true)\<close>: in the years 0000 to 9999, which it writes
  with four digits, the texts are ordered as the times are.
\<close>

definition four_digit_year :: "int \<Rightarrow> bool" where
  "four_digit_year t \<longleftrightarrow> - 62167219200 \<le> t \<and> t \<le> 253402300799"

definition rfc3339_ordered :: "(int \<Rightarrow> ustr) \<Rightarrow> bool" where
  "rfc3339_ordered rfc3339 \<longleftrightarrow>
     (\<forall>x y. four_digit_year x \<longrightarrow> four_digit_year y \<longrightarrow> (rfc3339 x \<le> rfc3339 y \<longleftrightarrow> x \<le> y))"

lemma rfc3339_le:
  "rfc3339_ordered rfc3339 \<Longrightarrow> four_digit_year x \<Longrightarrow> four_digit_year y \<Longrightarrow> rfc3339 x \<le> rfc3339 y \<longleftrightarrow> x \<le> y"
  unfolding rfc3339_ordered_def by blast

definition effective_ttl :: "session_open_request \<Rightarrow> nat" where
  "effective_ttl req = (case so_ttl_seconds req of None \<Rightarrow> 3600 | Some t \<Rightarrow> t)"

lemma tokens_log_event [simp]:
  "tokens (log_event ev w) = tokens w" "token_faults (log_event ev w) = token_faults w"
  by (simp_all add: log_event_def)

lemma session_open_Ok:
  assumes "session_open_handler blake3_hex rfc3339 filled now a req w = (w', Ok resp)"
  obtains bs where "filled = Ok bs" "write_token resp = bytes_to_hex bs"
    "so_expires_at resp = rfc3339 (now + int (effective_ttl req))"
    "0 < effective_ttl req" "effective_ttl req \<le> MAX_TTL_SECONDS"
    "validate_session_id (so_session_id req) = Ok (so_session_id req)"
    "row_get token_hash (blake3_hex (utf8 (bytes_to_hex bs))) (tokens w) = None"
    "tokens w' = tokens w @ [\<lparr>token_hash = blake3_hex (utf8 (bytes_to_hex bs)),
        tok_session_id = so_session_id req, tok_actor_id = actor_id a, issued_at = rfc3339 now,
        expires_at = rfc3339 (now + int (effective_ttl req)), revoked_at = None\<rparr>]"
    "token_faults w' = token_faults w"
  using assms
  by (auto simp: session_open_handler_def Let_def generate_secret_def issue_token_def and_then_def
      effective_ttl_def validate_session_id_Ok split: if_splits sum.splits option.splits)

lemma accepted_after_open:
  assumes "session_open_handler blake3_hex rfc3339 (Ok bs) now a req w = (w', Ok resp)"
  shows "row_get token_hash (blake3_hex (utf8 (write_token resp))) (tokens w') =
     Some \<lparr>token_hash = blake3_hex (utf8 (write_token resp)),
        tok_session_id = so_session_id req, tok_actor_id = actor_id a, issued_at = rfc3339 now,
        expires_at = rfc3339 (now + int (effective_ttl req)), revoked_at = None\<rparr>"
  by (rule session_open_Ok [OF assms]) (auto simp: row_get_append)

lemma opened_facts:
  assumes "session_open_handler blake3_hex rfc3339 (Ok bs) now a req w = (w', Ok resp)"
  shows "token_faults w' = token_faults w" "write_token resp = bytes_to_hex bs"
    "validate_session_id (so_session_id req) = Ok (so_session_id req)"
  by (rule session_open_Ok [OF assms]; simp)+

lemma bytes_to_hex_Nil [simp]: "bytes_to_hex bs = [] \<longleftrightarrow> bs = []"
  by (cases bs) auto

lemma validate_after_open:
  assumes opened: "session_open_handler blake3_hex rfc3339 (Ok bs) now a open_req w = (w', Ok resp)"
    and fmt: "rfc3339_ordered rfc3339" "four_digit_year t" "four_digit_year (now + int (effective_ttl open_req))"
    and env: "token_faults w = no_faults"
    and time: "t \<le> now + int (effective_ttl open_req)"
  shows "validate_token (token_faults w') (blake3_hex (utf8 (write_token resp))) (actor_id a)
      (rfc3339 t) (tokens w') =
    Ok (Valid (actor_id a) (so_session_id open_req) (rfc3339 (now + int (effective_ttl open_req))))"
proof -
  have "\<not> rfc3339 (now + int (effective_ttl open_req)) < rfc3339 t"
    using time rfc3339_le [OF fmt] rfc3339_le [OF fmt(1,3,2)] by (simp add: not_less)
  then show ?thesis
    by (simp add: validate_token_def opened_facts(1) [OF opened] env accepted_after_open [OF opened])
qed

lemma require_after_open:
  assumes opened: "session_open_handler blake3_hex rfc3339 (Ok bs) now a open_req w = (w', Ok resp)"
    and fmt: "rfc3339_ordered rfc3339" "four_digit_year t" "four_digit_year (now + int (effective_ttl open_req))"
    and env: "token_faults w = no_faults" "bs \<noteq> []"
    and time: "t \<le> now + int (effective_ttl open_req)"
    and sent: "map_of (headers req) WRITE_TOKEN_HEADER = Some (Some (write_token resp))"
      "ext_session req = Some sid"
  shows "snd (require_write_token_from_parts blake3_hex process_session (rfc3339 t) req a w') =
     (if so_session_id open_req = sid then Ok () else Err (WtSessionMismatch (so_session_id open_req) sid))"
proof -
  have "write_token resp \<noteq> []" using env(2) opened_facts(2) [OF opened] by simp
  then show ?thesis
    using sent validate_after_open [OF opened fmt env(1) time]
    by (simp add: require_write_token_from_parts_def Let_def)
qed

lemma HEX_nth: "n < 16 \<Longrightarrow> m < 16 \<Longrightarrow> HEX ! n = HEX ! m \<longleftrightarrow> n = m"
proof -
  assume "n < 16" "m < 16"
  moreover have "distinct HEX" "length HEX = 16" by (simp_all add: HEX_def)
  ultimately show ?thesis by (simp add: nth_eq_iff_index_eq)
qed

lemma nibbles_bound: "unat (drop_bit 4 b) < 16" "unat (b AND 15) < 16" for b :: u8
proof -
  have "unat (drop_bit 4 b) = unat b div 16"
    unfolding unsigned_drop_bit_eq
    by (simp add: drop_bit_eq_div take_bit_nat_eq_self unsigned_less [where 'a = nat and 'b = 8, simplified])
  moreover have "unat b < 256" using unsigned_less [of b, where 'a = nat] by simp
  ultimately show "unat (drop_bit 4 b) < 16" by simp
  have "unat (b AND 15) \<le> unat (15 :: u8)"
    by (rule word_and_le1 [THEN word_le_nat_alt [THEN iffD1]])
  then show "unat (b AND 15) < 16" by simp
qed

lemma nibbles_eq: "drop_bit 4 a = drop_bit 4 b \<Longrightarrow> a AND 15 = b AND 15 \<Longrightarrow> a = b" for a b :: u8
proof -
  assume "drop_bit 4 a = drop_bit 4 b" "a AND 15 = b AND 15"
  moreover have "x AND 15 = take_bit 4 x" for x :: u8
    by (simp add: take_bit_eq_mask mask_eq_exp_minus_1)
  ultimately show "a = b" by (metis bits_ident)
qed

lemma bytes_to_hex_inject: "bytes_to_hex as = bytes_to_hex bs \<longleftrightarrow> as = bs"
proof (induction "as" arbitrary: bs)
  case Nil
  then show ?case by (cases bs) auto
next
  case (Cons a "as")
  show ?case
  proof (cases bs)
    case (Cons b bs')
    have "HEX ! unat (drop_bit 4 a) = HEX ! unat (drop_bit 4 b) \<longleftrightarrow> drop_bit 4 a = drop_bit 4 b"
      "HEX ! unat (a AND 15) = HEX ! unat (b AND 15) \<longleftrightarrow> a AND 15 = b AND 15"
      by (simp_all add: HEX_nth nibbles_bound word_unat_eq_iff)
    then show ?thesis using Cons Cons.IH nibbles_eq by auto
  qed simp
qed

lemma length_bytes_to_hex [simp]: "length (bytes_to_hex bs) = 2 * length bs"
  by (induction bs) auto

lemma bytes_to_hex_chars: "set (bytes_to_hex bs) \<subseteq> set HEX"
proof (induction bs)
  case (Cons b bs)
  have "length HEX = 16" by (simp add: HEX_def)
  with Cons show ?case by (auto simp: nibbles_bound)
qed simp

section \<open>Properties\<close>

text \<open>
  C22: the lifetime of an issued token: the table accepts it for its actor and session
  at every second up to and including issue time plus the requested lifetime, which is
  between one second and a day, and at no later second and for no other actor. The expiry and
  the time of the check are in years of four digits.
\<close>

theorem issued_token_lifetime:
  assumes opened: "session_open_handler blake3_hex rfc3339 (Ok bs) now a req w = (w', Ok resp)"
    and fmt: "rfc3339_ordered rfc3339" "four_digit_year t" "four_digit_year (now + int (effective_ttl req))"
  shows "0 < effective_ttl req \<and> effective_ttl req \<le> 86400 \<and>
    accepted_session (blake3_hex (utf8 (write_token resp))) who (rfc3339 t) (tokens w') =
      (if who = actor_id a \<and> t \<le> now + int (effective_ttl req) then Some (so_session_id req) else None)"
proof -
  have "0 < effective_ttl req \<and> effective_ttl req \<le> 86400"
    by (rule session_open_Ok [OF opened]) (simp add: MAX_TTL_SECONDS_def)
  moreover have "accepted_session (blake3_hex (utf8 (write_token resp))) who (rfc3339 t) (tokens w') =
      (if who = actor_id a \<and> t \<le> now + int (effective_ttl req) then Some (so_session_id req) else None)"
    using accepted_after_open [OF opened] by (auto simp: accepted_session_eq rfc3339_le [OF fmt])
  ultimately show ?thesis by simp
qed

definition demo_world :: token_world where
  "demo_world =
     \<lparr>audit = \<lparr>dir_exists = True, files = []\<rparr>, audit_io = (\<lambda>_. True),
      env = \<lparr>env_now = [], env_project_id = None\<rparr>, tokens = [], token_faults = no_faults\<rparr>"

definition demo_actor :: actor where
  "demo_actor = \<lparr>actor_id = lit ''alice'', key_name = None, key_hash = []\<rparr>"

definition demo_open :: "ustr \<Rightarrow> session_open_request" where
  "demo_open sid = \<lparr>so_session_id = sid, so_agent = None, so_ttl_seconds = Some 60\<rparr>"

definition demo_opened ::
  "ustr \<Rightarrow> token_world \<times> (nat \<times> ustr, session_open_response) result" where
  "demo_opened sid = session_open_handler (map uint) (\<lambda>t. [t]) (Ok [255]) 0 demo_actor (demo_open sid) demo_world"

lemma demo_hash: "map uint (utf8 (lit ''ff'')) = lit ''ff''"
  by (simp add: utf8_char_def uint_u8)

lemma demo_opened_Ok:
  assumes "validate_session_id sid = Ok sid"
  shows "\<exists>w'. demo_opened sid = (w', Ok \<lparr>write_token = lit ''ff'', so_expires_at = [60]\<rparr>)"
proof -
  have "bytes_to_hex [255] = lit ''ff''" by (simp add: HEX_def drop_bit_eq_div)
  moreover have "sid \<noteq> []" using assms by (simp add: validate_session_id_Ok)
  ultimately show ?thesis
    using assms
    by (simp add: demo_opened_def session_open_handler_def demo_open_def demo_world_def
        generate_secret_def issue_token_def MAX_TTL_SECONDS_def Let_def)
qed

lemma demo_fmt: "rfc3339_ordered (\<lambda>t. [t])"
  by (auto simp: rfc3339_ordered_def le_less)

theorem issued_token_lifetime_witness:
  "\<exists>w'. fst (demo_opened (lit ''s'')) = w' \<and>
     accepted_session (lit ''ff'') (lit ''alice'') [60] (tokens w') = Some (lit ''s'') \<and>
     accepted_session (lit ''ff'') (lit ''alice'') [61] (tokens w') = None"
proof -
  have "validate_session_id (lit ''s'') = Ok (lit ''s'')"
    by (simp add: validate_session_id_Ok session_char_ok_def is_ascii_alphanumeric_def is_ascii_lowercase_def)
  then obtain w' where w': "demo_opened (lit ''s'') = (w', Ok \<lparr>write_token = lit ''ff'', so_expires_at = [60]\<rparr>)"
    using demo_opened_Ok by blast
  have "four_digit_year (0 + int (effective_ttl (demo_open (lit ''s''))))"
    by (simp add: four_digit_year_def demo_open_def effective_ttl_def)
  then show ?thesis
    using issued_token_lifetime [OF w' [unfolded demo_opened_def] demo_fmt, of 60 "lit ''alice''"]
      issued_token_lifetime [OF w' [unfolded demo_opened_def] demo_fmt, of 61 "lit ''alice''"] w'
    by (simp add: utf8_char_def uint_u8 demo_open_def effective_ttl_def demo_actor_def four_digit_year_def)
qed

text \<open>
  C39: what the write check accepts. A token opened for session \<open>s\<close>, sent back by the same
  actor within its lifetime on a request whose session header is the valid id \<open>h\<close>, while the
  token table answers, passes exactly when \<open>s\<close> is \<open>http:\<close> followed by \<open>h\<close>, and is a session
  mismatch otherwise.
\<close>

theorem write_token_session_binding:
  assumes opened: "session_open_handler blake3_hex rfc3339 (Ok bs) now a open_req w = (w', Ok resp)"
    and fmt: "rfc3339_ordered rfc3339" "four_digit_year t" "four_digit_year (now + int (effective_ttl open_req))"
    and env: "token_faults w = no_faults" "bs \<noteq> []"
    and sent: "map_of (headers req) WRITE_TOKEN_HEADER = Some (Some (write_token resp))"
      "map_of (headers req) SESSION_ID_HEADER = Some (Some h)" "validate_session_id h = Ok h"
    and time: "t \<le> now + int (effective_ttl open_req)"
  shows "snd (require_write_token_from_parts blake3_hex process_session (rfc3339 t)
           (req\<lparr>ext_session := Some (resolved_session nanos req)\<rparr>) a w') =
     (if so_session_id open_req = lit ''http:'' @ h then Ok ()
      else Err (WtSessionMismatch (so_session_id open_req) (lit ''http:'' @ h)))"
proof -
  have "resolved_session nanos req = lit ''http:'' @ h"
    using sent by (simp add: resolved_session_def)
  then show ?thesis
    using require_after_open [OF opened fmt env time, of "req\<lparr>ext_session := Some (lit ''http:'' @ h)\<rparr>"] sent(1)
    by (simp del: lit_simps)
qed

definition demo_request :: "ustr \<Rightarrow> request" where
  "demo_request h =
     \<lparr>headers = [(WRITE_TOKEN_HEADER, Some (lit ''ff'')), (SESSION_ID_HEADER, Some h)],
      body = Ok [], ext_actor = Some demo_actor, ext_session = None\<rparr>"

lemma demo_sid: "validate_session_id (lit ''s'') = Ok (lit ''s'')"
    "validate_session_id (lit ''http:s'') = Ok (lit ''http:s'')"
  by (simp_all add: validate_session_id_Ok session_char_ok_def is_ascii_alphanumeric_def
      is_ascii_lowercase_def is_ascii_uppercase_def is_ascii_digit_def)

theorem write_token_session_binding_witness:
  "snd (require_write_token_from_parts (map uint) [] [60]
     ((demo_request (lit ''s''))\<lparr>ext_session := Some (resolved_session 0 (demo_request (lit ''s'')))\<rparr>)
     demo_actor (fst (demo_opened (lit ''http:s'')))) = Ok ()"
proof -
  obtain w' where w': "demo_opened (lit ''http:s'') = (w', Ok \<lparr>write_token = lit ''ff'', so_expires_at = [60]\<rparr>)"
    using demo_opened_Ok demo_sid(2) by blast
  show ?thesis
    using write_token_session_binding
      [OF w' [unfolded demo_opened_def] demo_fmt, of 60 "demo_request (lit ''s'')" "lit ''s''" "[]" 0] demo_sid(1) w'
    by (simp add: demo_world_def demo_request_def WRITE_TOKEN_HEADER_def SESSION_ID_HEADER_def
        demo_open_def effective_ttl_def four_digit_year_def)
qed

text \<open>
  a token opened for a session id is never accepted on requests that carry this very
  id in their session header: the header is prefixed with \<open>http:\<close> before the comparison
  and the id stored with the token is not, so the check always reports a mismatch.
\<close>

theorem token_for_its_own_header_rejected:
  assumes opened: "session_open_handler blake3_hex rfc3339 (Ok bs) now a open_req w = (w', Ok resp)"
    and fmt: "rfc3339_ordered rfc3339" "four_digit_year t" "four_digit_year (now + int (effective_ttl open_req))"
    and env: "token_faults w = no_faults" "bs \<noteq> []"
    and sent: "map_of (headers req) WRITE_TOKEN_HEADER = Some (Some (write_token resp))"
      "map_of (headers req) SESSION_ID_HEADER = Some (Some (so_session_id open_req))"
    and time: "t \<le> now + int (effective_ttl open_req)"
  shows "snd (require_write_token_from_parts blake3_hex process_session (rfc3339 t)
           (req\<lparr>ext_session := Some (resolved_session nanos req)\<rparr>) a w') =
     Err (WtSessionMismatch (so_session_id open_req) (lit ''http:'' @ so_session_id open_req))"
proof -
  let ?sid = "so_session_id open_req"
  have "resolved_session nanos req = lit ''http:'' @ ?sid"
    using sent opened_facts(3) [OF opened] by (simp add: resolved_session_def)
  moreover have "length ?sid \<noteq> length (lit ''http:'' @ ?sid)" by simp
  then have "?sid \<noteq> lit ''http:'' @ ?sid" by metis
  ultimately show ?thesis
    using require_after_open [OF opened fmt env time, of "req\<lparr>ext_session := Some (lit ''http:'' @ ?sid)\<rparr>"] sent(1)
    by (simp del: lit_simps)
qed

theorem token_for_its_own_header_rejected_witness:
  "snd (require_write_token_from_parts (map uint) [] [60]
     ((demo_request (lit ''s''))\<lparr>ext_session := Some (resolved_session 0 (demo_request (lit ''s'')))\<rparr>)
     demo_actor (fst (demo_opened (lit ''s'')))) = Err (WtSessionMismatch (lit ''s'') (lit ''http:s''))"
proof -
  obtain w' where w': "demo_opened (lit ''s'') = (w', Ok \<lparr>write_token = lit ''ff'', so_expires_at = [60]\<rparr>)"
    using demo_opened_Ok demo_sid(1) by blast
  show ?thesis
    using token_for_its_own_header_rejected
      [OF w' [unfolded demo_opened_def] demo_fmt, of 60 "demo_request (lit ''s'')" "[]" 0] w'
    by (simp add: demo_world_def demo_request_def WRITE_TOKEN_HEADER_def SESSION_ID_HEADER_def
        demo_open_def effective_ttl_def four_digit_year_def)
qed

text \<open>
  revocation is final: once the tokens of a session are revoked, a token of that
  session is accepted for no actor at no time, whatever tokens are issued, revoked or
  swept afterwards.
\<close>

theorem revoked_session_stays_revoked:
  assumes "tokens_ok rows" and "row_get token_hash h rows = Some r" and "tok_session_id r = sid"
    and "\<forall>x \<in> set ops. \<not> issues_hash h x"
  shows "accepted_session h a now
     (token_run (issue_ok issued) revoke_ok sweep_ok ops (revoke_ok sid stamp rows)) = None"
proof (rule tok.revoked_forever [OF assms(1) _ assms(4)])
  show "accepted_session h a now rows = Some s' \<Longrightarrow> s' = sid" for a now s'
    using assms(2,3) by (auto simp: accepted_session_eq split: if_splits)
qed

definition demo_row :: token_row where
  "demo_row = \<lparr>token_hash = lit ''h'', tok_session_id = lit ''s'', tok_actor_id = lit ''alice'',
     issued_at = lit ''1'', expires_at = lit ''5'', revoked_at = None\<rparr>"

theorem revoked_session_stays_revoked_witness:
  "accepted_session (lit ''h'') (lit ''alice'') (lit ''2'') [demo_row] = Some (lit ''s'') \<and>
   accepted_session (lit ''h'') (lit ''alice'') (lit ''2'')
     (token_run (issue_ok []) revoke_ok sweep_ok [Sweep (lit ''0'')] (revoke_ok (lit ''s'') (lit ''1'') [demo_row])) = None"
  using revoked_session_stays_revoked [of "[demo_row]" "lit ''h''" demo_row "lit ''s''" "[Sweep (lit ''0'')]"]
  by (simp add: tokens_ok_def keys_ok_def demo_row_def accepted_session_eq)

text \<open>
  an accepted token stays accepted for its actor at a given time through any issuing,
  any sweep up to that time and any revocation of other sessions.
\<close>

theorem accepted_token_undisturbed:
  assumes "tokens_ok rows" and "accepted_session h a now rows = Some sid"
    and "\<forall>x \<in> set ops. harmless_for sid now x"
  shows "accepted_session h a now (token_run (issue_ok issued) revoke_ok sweep_ok ops rows) = Some sid"
  using assms by (rule tok.accepted_stays_accepted)

theorem accepted_token_undisturbed_witness:
  "accepted_session (lit ''h'') (lit ''alice'') (lit ''2'')
     (token_run (issue_ok []) revoke_ok sweep_ok [Revoke (lit ''z'') (lit ''1''), Sweep (lit ''2'')] [demo_row]) =
   Some (lit ''s'')"
  using accepted_token_undisturbed [of "[demo_row]" "lit ''h''" "lit ''alice''" "lit ''2''" "lit ''s''"
      "[Revoke (lit ''z'') (lit ''1''), Sweep (lit ''2'')]"]
  by (simp add: tokens_ok_def keys_ok_def demo_row_def accepted_session_eq)

text \<open>
  A secret is two lower-case hexadecimal digits per random byte, and two secrets are
  equal only if their random bytes are: rendering loses no entropy.
\<close>

lemma secret_rendering:
  "length (bytes_to_hex bs) = 2 * length bs \<and> set (bytes_to_hex bs) \<subseteq> set (lit ''0123456789abcdef'') \<and>
   (bytes_to_hex bs = bytes_to_hex cs \<longleftrightarrow> bs = cs)"
  using bytes_to_hex_chars [of bs] by (simp add: bytes_to_hex_inject HEX_def)

end
