(* ===== verification/Admission.thy ===== *)
theory Admission
  imports Json_Value
begin

text \<open>
  The write admission gate of \<open>transport/admission.rs\<close>: a fixed-window rate limit and a
  semaphore of in-flight writes, and the classifier that says which request bodies are
  write tool calls. An \<open>Instant\<close> is a number of nanoseconds; the code reads the clock up
  to three times in one call, so a call takes three readings. A semaphore permit is
  returned by \<open>drop_permit\<close>, the drop of a \<open>WritePermit\<close>.
\<close>

section \<open>State and constants\<close>

definition DEFAULT_WRITE_QUEUE_LIMIT :: nat where "DEFAULT_WRITE_QUEUE_LIMIT = 64"
definition DEFAULT_WRITE_RATE_LIMIT_PER_MINUTE :: "32 word" where
  "DEFAULT_WRITE_RATE_LIMIT_PER_MINUTE = 600"
definition WRITE_RETRY_AFTER_SECONDS :: nat where "WRITE_RETRY_AFTER_SECONDS = 2"

definition WRITE_TOOL_NAMES :: "ustr list" where
  "WRITE_TOOL_NAMES =
     [lit ''add_rule'', lit ''propose_change'', lit ''approve_change'',
      lit ''save_checkpoint'', lit ''report_outcome'']"

type_synonym instant = nat

record rate_limit_state =
  window_started_at :: instant
  used :: "32 word"

record write_admission =
  queue_limit :: nat
  in_flight :: nat
  rate_limit :: rate_limit_state
  lock_poisoned :: bool
  writes_per_minute :: "32 word"

datatype write_admission_error = QueueFull | RateLimited nat

record clock =
  at_reset_check :: instant
  at_window_start :: instant
  at_retry_after :: instant

definition with_limits :: "nat \<Rightarrow> 32 word \<Rightarrow> instant \<Rightarrow> write_admission" where
  "with_limits queue wpm now =
     \<lparr>queue_limit = queue, in_flight = 0,
      rate_limit = \<lparr>window_started_at = now, used = 0\<rparr>,
      lock_poisoned = False, writes_per_minute = wpm\<rparr>"

definition new_admission :: "nat \<Rightarrow> instant \<Rightarrow> write_admission" where
  "new_admission limit now = with_limits limit DEFAULT_WRITE_RATE_LIMIT_PER_MINUTE now"

section \<open>Operations\<close>

definition nanos_per_sec :: nat where "nanos_per_sec = 1000000000"

definition elapsed :: "rate_limit_state \<Rightarrow> instant \<Rightarrow> nat" where
  "elapsed st now = now - window_started_at st"

definition reset_if_expired :: "clock \<Rightarrow> rate_limit_state \<Rightarrow> rate_limit_state" where
  "reset_if_expired c st =
     (if elapsed st (at_reset_check c) \<ge> 60 * nanos_per_sec
      then \<lparr>window_started_at = at_window_start c, used = 0\<rparr> else st)"

definition retry_after_seconds :: "instant \<Rightarrow> rate_limit_state \<Rightarrow> nat" where
  "retry_after_seconds now st = 60 - elapsed st now div nanos_per_sec"

definition check_rate_limit ::
  "clock \<Rightarrow> write_admission \<Rightarrow> write_admission \<times> (write_admission_error, unit) result" where
  "check_rate_limit c a =
     (if lock_poisoned a then (a, Err QueueFull)
      else
        let st = reset_if_expired c (rate_limit a)
        in if used st \<ge> writes_per_minute a
           then (a\<lparr>rate_limit := st\<rparr>, Err (RateLimited (retry_after_seconds (at_retry_after c) st)))
           else (a\<lparr>rate_limit := st\<lparr>used := used st + 1\<rparr>\<rparr>, Ok ()))"

definition try_enter ::
  "clock \<Rightarrow> write_admission \<Rightarrow> write_admission \<times> (write_admission_error, unit) result" where
  "try_enter c a =
     (case check_rate_limit c a of
        (a', Inl e) \<Rightarrow> (a', Err e)
      | (a', Inr _) \<Rightarrow>
          if in_flight a' < queue_limit a' then (a'\<lparr>in_flight := in_flight a' + 1\<rparr>, Ok ())
          else (a', Err QueueFull))"

definition drop_permit :: "write_admission \<Rightarrow> write_admission" where
  "drop_permit a = a\<lparr>in_flight := in_flight a - 1\<rparr>"

definition write_admission_error_json :: "write_admission_error \<Rightarrow> json" where
  "write_admission_error_json e =
     (case e of
        QueueFull \<Rightarrow> JObj [(lit ''error'', JStr (lit ''WriteQueueFull'')),
                         (lit ''retry_after_seconds'', JInt (int WRITE_RETRY_AFTER_SECONDS))]
      | RateLimited n \<Rightarrow> JObj [(lit ''error'', JStr (lit ''WriteRateLimited'')),
                             (lit ''retry_after_seconds'', JInt (int n))])"

definition is_write_tool_call_value :: "json \<Rightarrow> bool" where
  "is_write_tool_call_value v =
     (case Option.bind (json_get v (lit ''method'')) as_str of
        None \<Rightarrow> False
      | Some method \<Rightarrow>
          if method \<noteq> lit ''tools/call'' then False
          else
            (case Option.bind (Option.bind (json_get v (lit ''params''))
                     (\<lambda>params. json_get params (lit ''name''))) as_str of
               None \<Rightarrow> False
             | Some name \<Rightarrow> name \<in> set WRITE_TOOL_NAMES))"

definition is_write_tool_call_body :: "(bytes \<Rightarrow> json option) \<Rightarrow> bytes \<Rightarrow> bool" where
  "is_write_tool_call_body from_slice body =
     (case from_slice body of
        None \<Rightarrow> False
      | Some (JArr items) \<Rightarrow> list_ex is_write_tool_call_value items
      | Some other \<Rightarrow> is_write_tool_call_value other)"

section \<open>Runs of the gate\<close>

datatype gate_event = Enter clock | Leave

fun gate_step :: "write_admission \<Rightarrow> gate_event \<Rightarrow> write_admission" where
  "gate_step a (Enter c) = fst (try_enter c a)"
| "gate_step a Leave = drop_permit a"

fun gate_run :: "write_admission \<Rightarrow> gate_event list \<Rightarrow> write_admission" where
  "gate_run a [] = a"
| "gate_run a (e # es) = gate_run (gate_step a e) es"

fun admits :: "write_admission \<Rightarrow> gate_event \<Rightarrow> bool" where
  "admits a (Enter c) = (snd (try_enter c a) = Ok ())"
| "admits a Leave = False"

fun admitted :: "write_admission \<Rightarrow> gate_event list \<Rightarrow> nat" where
  "admitted a [] = 0"
| "admitted a (e # es) = (if admits a e then 1 else 0) + admitted (gate_step a e) es"

definition gate_ok :: "write_admission \<Rightarrow> bool" where
  "gate_ok a \<longleftrightarrow> in_flight a \<le> queue_limit a \<and> used (rate_limit a) \<le> writes_per_minute a"

text \<open>The readings of one call come from a monotone clock.\<close>

definition clock_between :: "instant \<Rightarrow> instant \<Rightarrow> clock \<Rightarrow> bool" where
  "clock_between lo hi c \<longleftrightarrow>
     lo \<le> at_reset_check c \<and> at_reset_check c \<le> at_window_start c \<and>
     at_window_start c \<le> at_retry_after c \<and> at_retry_after c < hi"

fun event_between :: "instant \<Rightarrow> instant \<Rightarrow> gate_event \<Rightarrow> bool" where
  "event_between lo hi (Enter c) = clock_between lo hi c"
| "event_between lo hi Leave = True"

lemma with_limits_ok [simp]: "gate_ok (with_limits q w now)"
  by (simp add: gate_ok_def with_limits_def)

lemma used_step: "u < (w :: 32 word) \<Longrightarrow> u + 1 \<le> w \<and> unat (u + 1) = unat u + 1"
proof -
  assume "u < w"
  then have "unat u < unat w" by (simp add: word_less_nat_alt)
  then have "unat u + 1 < 2 ^ 32"
    using unsigned_less [of w, where 'a = nat] by simp
  then have s: "unat (u + 1) = unat u + 1"
    by (simp add: unat_word_ariths)
  with \<open>unat u < unat w\<close> show ?thesis
    by (simp add: word_le_nat_alt)
qed

lemma check_rate_limit_cases:
  obtains (poisoned) "lock_poisoned a" "check_rate_limit c a = (a, Err QueueFull)"
  | (limited) "\<not> lock_poisoned a"
      "writes_per_minute a \<le> used (reset_if_expired c (rate_limit a))"
      "check_rate_limit c a = (a\<lparr>rate_limit := reset_if_expired c (rate_limit a)\<rparr>,
         Err (RateLimited (retry_after_seconds (at_retry_after c) (reset_if_expired c (rate_limit a)))))"
  | (passed) "\<not> lock_poisoned a"
      "used (reset_if_expired c (rate_limit a)) < writes_per_minute a"
      "check_rate_limit c a =
        (a\<lparr>rate_limit := (reset_if_expired c (rate_limit a))
             \<lparr>used := used (reset_if_expired c (rate_limit a)) + 1\<rparr>\<rparr>, Ok ())"
  by (cases "lock_poisoned a";
      cases "writes_per_minute a \<le> used (reset_if_expired c (rate_limit a))")
     (auto simp: check_rate_limit_def Let_def)

lemma gate_step_ok: "gate_ok a \<Longrightarrow> gate_ok (gate_step a e)"
proof (cases e)
  case (Enter c)
  assume ok: "gate_ok a"
  have r: "used (reset_if_expired c (rate_limit a)) \<le> writes_per_minute a"
    using ok by (simp add: reset_if_expired_def gate_ok_def)
  show ?thesis
  proof (cases rule: check_rate_limit_cases [of a c])
    case passed
    from used_step [OF passed(2)] ok passed show ?thesis
      by (simp add: Enter try_enter_def gate_ok_def)
  qed (use ok r in \<open>simp_all add: Enter try_enter_def gate_ok_def\<close>)
qed (auto simp: gate_ok_def drop_permit_def)

lemma gate_run_ok: "gate_ok a \<Longrightarrow> gate_ok (gate_run a es)"
  by (induction es arbitrary: a) (auto intro: gate_step_ok)

lemma gate_step_limits [simp]:
  "queue_limit (gate_step a e) = queue_limit a"
  "writes_per_minute (gate_step a e) = writes_per_minute a"
  by (cases e; auto simp: try_enter_def check_rate_limit_def Let_def drop_permit_def
        split: prod.splits sum.splits if_splits)+

section \<open>How many writes one minute admits\<close>

text \<open>What is left of the current window's allowance.\<close>

definition budget :: "write_admission \<Rightarrow> nat" where
  "budget a = unat (writes_per_minute a) - unat (used (rate_limit a))"

definition expired :: "write_admission \<Rightarrow> clock \<Rightarrow> bool" where
  "expired a c \<longleftrightarrow> 60 * nanos_per_sec \<le> elapsed (rate_limit a) (at_reset_check c)"

definition admit_count :: "write_admission \<Rightarrow> gate_event \<Rightarrow> nat" where
  "admit_count a e = (if admits a e then 1 else 0)"

lemma admitted_Cons [simp]: "admitted a (e # es) = admit_count a e + admitted (gate_step a e) es"
  by (simp add: admit_count_def)

declare admitted.simps(2) [simp del]

lemma enter_same_window:
  assumes "\<not> expired a c"
  shows "window_started_at (rate_limit (gate_step a (Enter c))) = window_started_at (rate_limit a)"
    and "admit_count a (Enter c) + budget (gate_step a (Enter c)) \<le> budget a"
proof -
  have r: "reset_if_expired c (rate_limit a) = rate_limit a"
    using assms by (simp add: reset_if_expired_def expired_def)
  show "window_started_at (rate_limit (gate_step a (Enter c))) = window_started_at (rate_limit a)"
    by (cases rule: check_rate_limit_cases [of a c]) (simp_all add: try_enter_def r)
  show "admit_count a (Enter c) + budget (gate_step a (Enter c)) \<le> budget a"
  proof (cases rule: check_rate_limit_cases [of a c])
    case passed
    from passed(2) have "used (rate_limit a) < writes_per_minute a" by (simp add: r)
    moreover from this have "unat (used (rate_limit a)) < unat (writes_per_minute a)"
      by (simp add: word_less_nat_alt)
    ultimately show ?thesis
      using passed used_step [of "used (rate_limit a)" "writes_per_minute a"]
      by (auto simp: try_enter_def r budget_def admit_count_def)
  qed (simp_all add: try_enter_def r budget_def admit_count_def)
qed

lemma enter_new_window:
  assumes "expired a c"
  shows "lock_poisoned a \<or>
           window_started_at (rate_limit (gate_step a (Enter c))) = at_window_start c"
    and "admit_count a (Enter c) + budget (gate_step a (Enter c)) \<le> unat (writes_per_minute a)"
proof -
  have r: "reset_if_expired c (rate_limit a) = \<lparr>window_started_at = at_window_start c, used = 0\<rparr>"
    using assms by (simp add: reset_if_expired_def expired_def)
  show "lock_poisoned a \<or>
          window_started_at (rate_limit (gate_step a (Enter c))) = at_window_start c"
    by (cases rule: check_rate_limit_cases [of a c]) (simp_all add: try_enter_def r)
  show "admit_count a (Enter c) + budget (gate_step a (Enter c)) \<le> unat (writes_per_minute a)"
  proof (cases rule: check_rate_limit_cases [of a c])
    case passed
    then have "0 < writes_per_minute a" by (simp add: r)
    moreover from this have "0 < unat (writes_per_minute a)"
      by (simp add: word_less_nat_alt)
    ultimately show ?thesis
      using passed used_step [of 0 "writes_per_minute a"]
      by (auto simp: try_enter_def r budget_def admit_count_def)
  qed (simp_all add: try_enter_def r budget_def admit_count_def)
qed

lemma leave_window [simp]:
  "rate_limit (gate_step a Leave) = rate_limit a" "admit_count a Leave = 0"
  "budget (gate_step a Leave) = budget a"
  by (simp_all add: drop_permit_def admit_count_def budget_def)

lemma poisoned_no_admit: "lock_poisoned a \<Longrightarrow> admit_count a e = 0 \<and> lock_poisoned (gate_step a e)"
  by (cases e) (auto simp: admit_count_def try_enter_def check_rate_limit_def drop_permit_def)

lemma poisoned_run: "lock_poisoned a \<Longrightarrow> admitted a es = 0"
  by (induction es arbitrary: a) (auto simp: poisoned_no_admit)

lemma admitted_one_window:
  assumes "lo \<le> window_started_at (rate_limit a)"
    and "\<forall>e \<in> set es. event_between lo (lo + 60 * nanos_per_sec) e"
  shows "admitted a es \<le> budget a"
  using assms
proof (induction es arbitrary: a)
  case (Cons e es)
  show ?case
  proof (cases e)
    case (Enter c)
    from Cons.prems have "\<not> expired a c"
      by (auto simp: Enter expired_def elapsed_def clock_between_def)
    note w = enter_same_window [OF this]
    from Cons.prems w(1) have "admitted (gate_step a e) es \<le> budget (gate_step a e)"
      by (intro Cons.IH) (simp_all add: Enter del: gate_step.simps)
    with w(2) show ?thesis by (simp add: Enter del: gate_step.simps)
  next
    case Leave
    with Cons.IH [of "gate_step a e"] Cons.prems show ?thesis by (simp del: gate_step.simps(2))
  qed
qed simp

lemma admitted_two_windows:
  assumes "\<forall>e \<in> set es. event_between lo (lo + 60 * nanos_per_sec) e"
  shows "admitted a es \<le> budget a + unat (writes_per_minute a)"
  using assms
proof (induction es arbitrary: a)
  case (Cons e es)
  show ?case
  proof (cases e)
    case (Enter c)
    show ?thesis
    proof (cases "expired a c")
      case True
      note w = enter_new_window [OF True]
      show ?thesis
      proof (cases "lock_poisoned a")
        case False
        with w(1) Cons.prems have "admitted (gate_step a e) es \<le> budget (gate_step a e)"
          by (intro admitted_one_window [of lo])
             (auto simp: Enter clock_between_def simp del: gate_step.simps)
        with w(2) show ?thesis by (simp add: Enter del: gate_step.simps)
      qed (metis poisoned_run zero_le)
    next
      case False
      have "admitted (gate_step a e) es \<le> budget (gate_step a e) + unat (writes_per_minute a)"
        using Cons.IH [of "gate_step a e"] Cons.prems by simp
      with enter_same_window(2) [OF False] show ?thesis
        by (simp add: Enter del: gate_step.simps)
    qed
  next
    case Leave
    with Cons.IH [of "gate_step a e"] Cons.prems show ?thesis by (simp del: gate_step.simps(2))
  qed
qed simp

lemma budget_le: "budget a \<le> unat (writes_per_minute a)"
  by (simp add: budget_def)

lemma elapsed_le_seconds: "60 * nanos_per_sec \<le> t + (60 - t div nanos_per_sec) * nanos_per_sec"
proof (cases "t div nanos_per_sec \<le> 60")
  case True
  have "t div nanos_per_sec * nanos_per_sec \<le> t" by simp
  with True show ?thesis by (simp add: nanos_per_sec_def)
next
  case False
  then have "60 * nanos_per_sec \<le> t div nanos_per_sec * nanos_per_sec" by simp
  also have "\<dots> \<le> t" by simp
  finally show ?thesis by simp
qed

section \<open>Properties\<close>

text \<open>
  C25: from a fresh gate, after any sequence of attempts and returned permits, no more
  than \<open>queue_limit\<close> writes are in flight and the window counter has not passed
  \<open>writes_per_minute\<close> (so its \<open>u32\<close> increment never wraps).
\<close>

theorem admission_gate_invariant:
  "in_flight (gate_run (with_limits q w t0) es) \<le> q \<and>
   used (rate_limit (gate_run (with_limits q w t0) es)) \<le> w"
proof -
  have limits: "queue_limit (gate_run a es) = queue_limit a \<and>
      writes_per_minute (gate_run a es) = writes_per_minute a" for a
    by (induction es arbitrary: a) (simp_all del: gate_step.simps)
  show ?thesis
    using gate_run_ok [OF with_limits_ok, of q w t0 es] limits [of "with_limits q w t0"]
    by (simp add: gate_ok_def with_limits_def)
qed

text \<open>
  the fixed window admits at most twice the configured rate in any sixty seconds: in
  every run of the gate, started in any state, whose clock readings lie within one
  minute, at most \<open>2 * writes_per_minute\<close> attempts get a permit.
\<close>

theorem admitted_in_a_minute:
  assumes "\<forall>e \<in> set es. event_between lo (lo + 60 * nanos_per_sec) e"
  shows "admitted a es \<le> 2 * unat (writes_per_minute a)"
  using admitted_two_windows [OF assms, of a] budget_le [of a] by simp

theorem admitted_in_a_minute_witness:
  "admitted (with_limits 2 1 0)
     [Enter \<lparr>at_reset_check = 0, at_window_start = 0, at_retry_after = 0\<rparr>] \<le> 2 * unat (1 :: 32 word)"
  using admitted_in_a_minute
    [of "[Enter \<lparr>at_reset_check = 0, at_window_start = 0, at_retry_after = 0\<rparr>]" 0 "with_limits 2 1 0"]
  by (simp add: clock_between_def nanos_per_sec_def with_limits_def)

text \<open>
  the \<open>retry_after\<close> of a rate-limited answer is at most sixty seconds and is long
  enough: with a clock that does not run backwards, an attempt made that many seconds
  after the rejection, with nothing in between, passes the rate check whenever the
  configured rate is not zero.
\<close>

theorem retry_after_suffices:
  assumes limited: "check_rate_limit c a = (a', Err (RateLimited n))"
    and clock: "clock_between (window_started_at (rate_limit a)) hi c"
    and later: "at_retry_after c + n * nanos_per_sec \<le> at_reset_check c'"
    and rate: "0 < writes_per_minute a"
  shows "n \<le> 60 \<and> snd (check_rate_limit c' a') = Ok ()"
proof (cases rule: check_rate_limit_cases [of a c])
  case limited': limited
  let ?st = "reset_if_expired c (rate_limit a)"
  from limited limited'(3) have a': "a' = a\<lparr>rate_limit := ?st\<rparr>"
    and n: "n = 60 - elapsed ?st (at_retry_after c) div nanos_per_sec"
    by (auto simp: retry_after_seconds_def)
  have start: "window_started_at ?st \<le> at_retry_after c"
    using clock by (simp add: clock_between_def reset_if_expired_def)
  have "60 * nanos_per_sec \<le> elapsed ?st (at_retry_after c) + n * nanos_per_sec"
    unfolding n by (rule elapsed_le_seconds)
  also have "\<dots> \<le> elapsed ?st (at_reset_check c')"
    using later start by (simp add: elapsed_def)
  finally have "used (reset_if_expired c' (rate_limit a')) = 0"
    by (simp add: a' reset_if_expired_def)
  moreover have "writes_per_minute a \<noteq> 0" using rate by auto
  ultimately show ?thesis
    using limited'(1) by (simp add: n a' check_rate_limit_def Let_def)
qed (use limited in simp_all)

theorem retry_after_suffices_witness:
  "snd (check_rate_limit
          \<lparr>at_reset_check = 60000000005, at_window_start = 60000000005, at_retry_after = 60000000005\<rparr>
          (fst (check_rate_limit \<lparr>at_reset_check = 5, at_window_start = 5, at_retry_after = 5\<rparr>
                  ((with_limits 2 1 0)\<lparr>rate_limit := \<lparr>window_started_at = 0, used = 1\<rparr>\<rparr>)))) = Ok ()"
  using retry_after_suffices
    [of "\<lparr>at_reset_check = 5, at_window_start = 5, at_retry_after = 5\<rparr>"
        "(with_limits 2 1 0)\<lparr>rate_limit := \<lparr>window_started_at = 0, used = 1\<rparr>\<rparr>"
        "(with_limits 2 1 0)\<lparr>rate_limit := \<lparr>window_started_at = 0, used = 1\<rparr>\<rparr>" 60 6
        "\<lparr>at_reset_check = 60000000005, at_window_start = 60000000005, at_retry_after = 60000000005\<rparr>"]
  by (simp add: clock_between_def nanos_per_sec_def with_limits_def check_rate_limit_def
      reset_if_expired_def elapsed_def retry_after_seconds_def)

end
