(* ===== verification/Idempotency.thy ===== *)
theory Idempotency
  imports Write_Tokens Admission
begin

text \<open>
  The idempotency ledger and middleware of \<open>transport/idempotency.rs\<close>. A request with a
  write tool call must carry a key; the first request with a key runs the handler, a
  repeated one gets the stored response, and a response outside 2xx frees the key.
  The libraries the code calls (serde_json, the http crate's parsers, blake3) are the
  fields of \<open>http_lib\<close>.
\<close>

section \<open>The ledger\<close>

record cached_response =
  c_status :: nat
  c_headers_json :: ustr
  c_body :: bytes

record ledger_row =
  lr_key :: ustr
  lr_request_hash :: ustr
  lr_status :: "nat option"
  lr_headers_json :: "ustr option"
  lr_body :: "bytes option"
  lr_created_at :: int
  lr_expires_at :: int

datatype ledger_call = BeginCall | StoreCall | ReleaseCall | SweepCall

datatype ledger_stmt = LockConn ledger_call | DeleteExpired ledger_call
  | SelectEntry | InsertEntry | UpdateEntry | DeleteEntry

datatype idempotency_outcome = New | Replay cached_response | InProgress

datatype idempotency_error = MissingKey | InvalidKey | KeyConflict | KeyNotFound | Poisoned
  | SqliteErr sql_error

definition IDEMPOTENCY_TTL_SECONDS :: int where "IDEMPOTENCY_TTL_SECONDS = 24 * 60 * 60"
definition IDEMPOTENCY_KEY_HEADER :: ustr where "IDEMPOTENCY_KEY_HEADER = lit ''idempotency-key''"

definition sweep_expired_inner ::
  "sql_error option \<Rightarrow> int \<Rightarrow> ledger_row list \<Rightarrow> ledger_row list \<times> (idempotency_error, nat) result" where
  "sweep_expired_inner fault now_unix rows =
     (case fault of
        Some e \<Rightarrow> (rows, Err (SqliteErr e))
      | None \<Rightarrow> (row_delete (\<lambda>r. lr_expires_at r \<le> now_unix) rows,
                 Ok (row_count (\<lambda>r. lr_expires_at r \<le> now_unix) rows)))"

definition begin_request ::
  "ledger_stmt faults \<Rightarrow> ustr \<Rightarrow> ustr \<Rightarrow> int \<Rightarrow> ledger_row list \<Rightarrow>
   ledger_row list \<times> (idempotency_error, idempotency_outcome) result" where
  "begin_request flt key req_hash now_unix rows =
     (if flt (LockConn BeginCall) \<noteq> None then (rows, Err Poisoned)
      else case sweep_expired_inner (flt (DeleteExpired BeginCall)) now_unix rows of
        (rows1, Inl e) \<Rightarrow> (rows1, Err e)
      | (rows1, Inr _) \<Rightarrow>
         (case flt SelectEntry of
            Some e \<Rightarrow> (rows1, Err (SqliteErr e))
          | None \<Rightarrow>
             (case row_get lr_key key rows1 of
                Some existing \<Rightarrow>
                  if lr_request_hash existing \<noteq> req_hash then (rows1, Err KeyConflict)
                  else (case (lr_status existing, lr_headers_json existing, lr_body existing) of
                      (Some st, Some hs, Some b) \<Rightarrow>
                        (rows1, Ok (Replay \<lparr>c_status = st, c_headers_json = hs, c_body = b\<rparr>))
                    | _ \<Rightarrow> (rows1, Ok InProgress))
              | None \<Rightarrow>
                 (case flt InsertEntry of
                    Some e \<Rightarrow> (rows1, Err (SqliteErr e))
                  | None \<Rightarrow>
                      (rows1 @ [\<lparr>lr_key = key, lr_request_hash = req_hash, lr_status = None,
                                 lr_headers_json = None, lr_body = None,
                                 lr_created_at = now_unix,
                                 lr_expires_at = now_unix + IDEMPOTENCY_TTL_SECONDS\<rparr>],
                       Ok New)))))"

definition store_response ::
  "ledger_stmt faults \<Rightarrow> ustr \<Rightarrow> cached_response \<Rightarrow> ledger_row list \<Rightarrow>
   ledger_row list \<times> (idempotency_error, unit) result" where
  "store_response flt key c rows =
     (if flt (LockConn StoreCall) \<noteq> None then (rows, Err Poisoned)
      else case flt UpdateEntry of
        Some e \<Rightarrow> (rows, Err (SqliteErr e))
      | None \<Rightarrow>
          let updated = row_count (\<lambda>r. lr_key r = key) rows;
              rows' = row_update (\<lambda>r. lr_key r = key)
                 (\<lambda>r. r\<lparr>lr_status := Some (c_status c), lr_headers_json := Some (c_headers_json c),
                       lr_body := Some (c_body c)\<rparr>) rows
          in if updated = 0 then (rows', Err KeyNotFound) else (rows', Ok ()))"

definition release_failed ::
  "ledger_stmt faults \<Rightarrow> ustr \<Rightarrow> ledger_row list \<Rightarrow>
   ledger_row list \<times> (idempotency_error, unit) result" where
  "release_failed flt key rows =
     (if flt (LockConn ReleaseCall) \<noteq> None then (rows, Err Poisoned)
      else case flt DeleteEntry of
        Some e \<Rightarrow> (rows, Err (SqliteErr e))
      | None \<Rightarrow> (row_delete (\<lambda>r. lr_key r = key) rows, Ok ()))"

definition sweep_expired_ledger ::
  "ledger_stmt faults \<Rightarrow> int \<Rightarrow> ledger_row list \<Rightarrow>
   ledger_row list \<times> (idempotency_error, nat) result" where
  "sweep_expired_ledger flt now_unix rows =
     (if flt (LockConn SweepCall) \<noteq> None then (rows, Err Poisoned)
      else sweep_expired_inner (flt (DeleteExpired SweepCall)) now_unix rows)"

section \<open>The middleware\<close>

record http_lib =
  from_slice :: "bytes \<Rightarrow> json option"
  json_from_str :: "ustr \<Rightarrow> json option"
  json_to_string :: "json \<Rightarrow> ustr option"
  parse_header_name :: "ustr \<Rightarrow> ustr option"
  header_value_ok :: "ustr \<Rightarrow> bool"
  status_from_u16 :: "nat \<Rightarrow> nat option"
  blake3_hex :: "bytes \<Rightarrow> ustr"

record idem_world = token_world +
  ledger :: "ledger_row list"
  ledger_faults :: "ledger_stmt faults"
  idem_project_id :: ustr

definition idempotency_error_text :: "idempotency_error \<Rightarrow> ustr" where
  "idempotency_error_text e =
     (case e of
        MissingKey \<Rightarrow> lit ''missing Idempotency-Key header''
      | InvalidKey \<Rightarrow> lit ''invalid Idempotency-Key header''
      | KeyConflict \<Rightarrow> lit ''Idempotency-Key reused with a different request body''
      | KeyNotFound \<Rightarrow> lit ''idempotency key has no pending ledger row''
      | Poisoned \<Rightarrow> lit ''idempotency ledger mutex poisoned''
      | SqliteErr t \<Rightarrow> lit ''idempotency ledger SQLite error: '' @ t)"

definition idempotency_error_response :: "idempotency_error \<Rightarrow> response" where
  "idempotency_error_response e =
     text_response
       (case e of
          MissingKey \<Rightarrow> 400 | InvalidKey \<Rightarrow> 400
        | KeyConflict \<Rightarrow> 409 | KeyNotFound \<Rightarrow> 409
        | Poisoned \<Rightarrow> 500 | SqliteErr _ \<Rightarrow> 500)
       (idempotency_error_text e)"

definition require_idempotency_key ::
  "header_map \<Rightarrow> bool \<Rightarrow> (idempotency_error, ustr option) result" where
  "require_idempotency_key hdrs is_write =
     (if \<not> is_write then Ok None
      else case map_of hdrs IDEMPOTENCY_KEY_HEADER of
        None \<Rightarrow> Err MissingKey
      | Some None \<Rightarrow> Err InvalidKey
      | Some (Some v) \<Rightarrow>
          let key = trim v in if key = [] then Err MissingKey else Ok (Some key))"

definition scoped_idempotency_key :: "http_lib \<Rightarrow> actor option \<Rightarrow> ustr \<Rightarrow> ustr \<Rightarrow> ustr" where
  "scoped_idempotency_key L ext project_id raw_key =
     (let actor_id = (case ext of Some a \<Rightarrow> actor_id a | None \<Rightarrow> lit ''anonymous'');
          project_hash = blake3_hex L (utf8 project_id);
          actor_hash = blake3_hex L (utf8 actor_id)
      in lit ''v2:'' @ project_hash @ lit '':'' @ actor_hash @ lit '':'' @ raw_key)"

definition headers_to_json :: "http_lib \<Rightarrow> header_map \<Rightarrow> ustr" where
  "headers_to_json L hdrs =
     (case json_to_string L
             (JArr (concat (map (\<lambda>(n, v). case v of None \<Rightarrow> [] | Some s \<Rightarrow> [JArr [JStr n, JStr s]]) hdrs))) of
        Some s \<Rightarrow> s | None \<Rightarrow> lit ''[]'')"

definition header_insert :: "ustr \<Rightarrow> ustr option \<Rightarrow> header_map \<Rightarrow> header_map" where
  "header_insert n v hdrs = filter (\<lambda>h. fst h \<noteq> n) hdrs @ [(n, v)]"

fun json_index :: "json \<Rightarrow> nat \<Rightarrow> json option" where
  "json_index (JArr xs) i = (if i < length xs then Some (xs ! i) else None)"
| "json_index _ i = None"

fun restore_pairs :: "http_lib \<Rightarrow> json list \<Rightarrow> header_map \<Rightarrow> header_map" where
  "restore_pairs L [] hdrs = hdrs"
| "restore_pairs L (pair # pairs) hdrs =
     restore_pairs L pairs
       (case Option.bind (json_index pair 0) as_str of
          None \<Rightarrow> hdrs
        | Some name \<Rightarrow>
           (case Option.bind (json_index pair 1) as_str of
              None \<Rightarrow> hdrs
            | Some value \<Rightarrow>
               (case parse_header_name L name of
                  None \<Rightarrow> hdrs
                | Some name' \<Rightarrow>
                    if header_value_ok L value then header_insert name' (Some value) hdrs else hdrs)))"

definition restore_headers :: "http_lib \<Rightarrow> header_map \<Rightarrow> ustr \<Rightarrow> header_map" where
  "restore_headers L hdrs headers_json =
     (case json_from_str L headers_json of
        Some (JArr pairs) \<Rightarrow> restore_pairs L pairs hdrs
      | _ \<Rightarrow> hdrs)"

definition replay_response :: "http_lib \<Rightarrow> cached_response \<Rightarrow> response" where
  "replay_response L c =
     \<lparr>status = (case status_from_u16 L (c_status c) of Some s \<Rightarrow> s | None \<Rightarrow> 200),
      resp_headers = restore_headers L [] (c_headers_json c), resp_body = Ok (c_body c)\<rparr>"

definition cache_response ::
  "http_lib \<Rightarrow> ledger_stmt faults \<Rightarrow> ustr \<Rightarrow> response \<Rightarrow> ledger_row list \<Rightarrow> ledger_row list \<times> response" where
  "cache_response L flt key resp rows =
     (case resp_body resp of
        Inl e \<Rightarrow>
          (fst (release_failed flt key rows),
           text_response 500 (lit ''failed to read response body: '' @ e))
      | Inr body_bytes \<Rightarrow>
          if is_success (status resp) then
            (case store_response flt key
                    \<lparr>c_status = status resp, c_headers_json = headers_to_json L (resp_headers resp),
                     c_body = body_bytes\<rparr> rows of
               (rows', Inl e) \<Rightarrow> (fst (release_failed flt key rows'), resp)
             | (rows', Inr _) \<Rightarrow> (rows', resp))
          else (fst (release_failed flt key rows), resp))"

definition idempotency_middleware ::
  "http_lib \<Rightarrow> int \<Rightarrow> 'a idem_world_scheme handler \<Rightarrow> 'a idem_world_scheme handler" where
  "idempotency_middleware L now_unix next req w =
     (case body req of
        Inl e \<Rightarrow> (w, text_response 400 (lit ''failed to read request body: '' @ e))
      | Inr body_bytes \<Rightarrow>
          (case require_idempotency_key (headers req)
                  (is_write_tool_call_body (from_slice L) body_bytes) of
             Inl e \<Rightarrow> (w, idempotency_error_response e)
           | Inr None \<Rightarrow> next req w
           | Inr (Some key) \<Rightarrow>
               let scoped_key = scoped_idempotency_key L (ext_actor req) (idem_project_id w) key;
                   hash = blake3_hex L body_bytes
               in case begin_request (ledger_faults w) scoped_key hash now_unix (ledger w) of
                    (rows, Inr New) \<Rightarrow>
                      (case next req (w\<lparr>ledger := rows\<rparr>) of
                         (w', resp) \<Rightarrow>
                           (case cache_response L (ledger_faults w') scoped_key resp (ledger w') of
                              (rows', resp') \<Rightarrow> (w'\<lparr>ledger := rows'\<rparr>, resp')))
                  | (rows, Inr (Replay c)) \<Rightarrow> (w\<lparr>ledger := rows\<rparr>, replay_response L c)
                  | (rows, Inr InProgress) \<Rightarrow>
                      (w\<lparr>ledger := rows\<rparr>,
                       text_response 409 (lit ''Idempotency-Key request is already in progress''))
                  | (rows, Inl e) \<Rightarrow> (w\<lparr>ledger := rows\<rparr>, idempotency_error_response e)))"

section \<open>What the ledger promises\<close>

text \<open>The requests the middleware lets through to the handler: key, start time, fate.\<close>

datatype run_state = Running | Succeeded | Failed | Dropped

type_synonym 'k run = "'k \<times> int \<times> run_state"

definition spaced :: "int \<Rightarrow> 'k run list \<Rightarrow> bool" where
  "spaced ttl runs \<longleftrightarrow>
     (\<forall>i j k t r t' r'. i < j \<longrightarrow> j < length runs \<longrightarrow> runs ! i = (k, t, r) \<longrightarrow> runs ! j = (k, t', r') \<longrightarrow>
        r \<noteq> Failed \<longrightarrow> r' \<noteq> Failed \<longrightarrow> t + ttl \<le> t')"

lemma spaced_Nil [simp]: "spaced ttl []"
  by (simp add: spaced_def)

lemma spaced_append:
  assumes "spaced ttl runs"
    and "\<And>t' r'. (k, t', r') \<in> set runs \<Longrightarrow> r' \<noteq> Failed \<Longrightarrow> t' + ttl \<le> t"
  shows "spaced ttl (runs @ [(k, t, r)])"
  unfolding spaced_def
proof (intro allI impI)
  fix i j k1 t1 r1 t2 r2
  assume a: "i < j" "j < length (runs @ [(k, t, r)])" "(runs @ [(k, t, r)]) ! i = (k1, t1, r1)"
    "(runs @ [(k, t, r)]) ! j = (k1, t2, r2)" "r1 \<noteq> Failed" "r2 \<noteq> Failed"
  show "t1 + ttl \<le> t2"
  proof (cases "j < length runs")
    case True
    with a have "runs ! i = (k1, t1, r1)" "runs ! j = (k1, t2, r2)"
      by (simp_all add: nth_append)
    with True a assms(1) show ?thesis
      unfolding spaced_def by blast
  next
    case False
    with a have "j = length runs" "i < length runs" by auto
    with a have "runs ! i = (k1, t1, r1)" "k1 = k" "t2 = t" by (auto simp: nth_append)
    with \<open>i < length runs\<close> a assms(2) show ?thesis by (metis nth_mem)
  qed
qed

lemma spaced_update:
  assumes "spaced ttl runs" "i < length runs" "runs ! i = (k, t, Running)"
  shows "spaced ttl (runs[i := (k, t, r)])"
  unfolding spaced_def
proof (intro allI impI)
  fix m n k1 t1 r1 t2 r2
  let ?u = "runs[i := (k, t, r)]"
  assume a: "m < n" "n < length ?u" "?u ! m = (k1, t1, r1)" "?u ! n = (k1, t2, r2)"
    "r1 \<noteq> Failed" "r2 \<noteq> Failed"
  have orig: "\<exists>r0. runs ! x = (k1, tx, r0) \<and> r0 \<noteq> Failed"
    if "?u ! x = (k1, tx, rx)" "rx \<noteq> Failed" "x < length runs" for x tx rx
    using that assms(3) by (cases "x = i") auto
  obtain p q where "runs ! m = (k1, t1, p)" "p \<noteq> Failed" "runs ! n = (k1, t2, q)" "q \<noteq> Failed"
    using orig [of m t1 r1] orig [of n t2 r2] a by auto
  with a assms(1) show "t1 + ttl \<le> t2"
    unfolding spaced_def by (metis length_list_update)
qed

locale lease_ledger =
  fixes begin_op :: "'f \<Rightarrow> 'k \<Rightarrow> 'h \<Rightarrow> int \<Rightarrow> 'l \<Rightarrow> 'l \<times> bool"
    and finish_op :: "'f \<Rightarrow> 'k \<Rightarrow> 'r \<Rightarrow> 'l \<Rightarrow> 'l \<times> bool"
    and stores :: "'f \<Rightarrow> bool"
    and sweep_op :: "'f \<Rightarrow> int \<Rightarrow> 'l \<Rightarrow> 'l"
    and lease :: "'l \<Rightarrow> 'k \<Rightarrow> int option"
    and inv :: "'l \<Rightarrow> bool"
    and ttl :: int
  assumes ttl_pos: "0 < ttl"
    and begin_inv: "inv l \<Longrightarrow> inv (fst (begin_op f k h now l))"
    and begin_new: "inv l \<Longrightarrow> snd (begin_op f k h now l) \<Longrightarrow> lease l k = Some e \<Longrightarrow> e \<le> now"
    and begin_lease: "inv l \<Longrightarrow> now < e \<Longrightarrow>
          lease (fst (begin_op f k h now l)) k' = Some e \<longleftrightarrow>
          (if snd (begin_op f k h now l) \<and> k' = k then e = now + ttl else lease l k' = Some e)"
    and finish_inv: "inv l \<Longrightarrow> inv (fst (finish_op f k r l))"
    and finish_other: "inv l \<Longrightarrow> k' \<noteq> k \<Longrightarrow> lease (fst (finish_op f k r l)) k' = lease l k'"
    and finish_keeps: "inv l \<Longrightarrow> stores f \<Longrightarrow> lease l k = Some e \<Longrightarrow> snd (finish_op f k r l) \<Longrightarrow>
          lease (fst (finish_op f k r l)) k = Some e"
    and sweep_inv: "inv l \<Longrightarrow> inv (sweep_op f now l)"
    and sweep_lease: "inv l \<Longrightarrow> now < e \<Longrightarrow> lease (sweep_op f now l) k = Some e \<longleftrightarrow> lease l k = Some e"
begin

definition serving_ok :: "int \<Rightarrow> 'l \<Rightarrow> 'k run list \<Rightarrow> bool" where
  "serving_ok now l runs \<longleftrightarrow> inv l \<and> spaced ttl runs \<and>
     (\<forall>(k, t, r) \<in> set runs. t \<le> now \<and>
        (r \<noteq> Failed \<longrightarrow> now < t + ttl \<longrightarrow> lease l k = Some (t + ttl)))"

lemma serving_okD:
  assumes "serving_ok now l runs"
  shows "inv l" "spaced ttl runs"
    and "(k, t, r) \<in> set runs \<Longrightarrow> t \<le> now"
    and "(k, t, r) \<in> set runs \<Longrightarrow> r \<noteq> Failed \<Longrightarrow> now < t + ttl \<Longrightarrow> lease l k = Some (t + ttl)"
  using assms unfolding serving_ok_def by fastforce+

lemma serving_okI:
  assumes "inv l" "spaced ttl runs"
    and "\<And>k t r. (k, t, r) \<in> set runs \<Longrightarrow> t \<le> now"
    and "\<And>k t r. (k, t, r) \<in> set runs \<Longrightarrow> r \<noteq> Failed \<Longrightarrow> now < t + ttl \<Longrightarrow> lease l k = Some (t + ttl)"
  shows "serving_ok now l runs"
  using assms unfolding serving_ok_def by fast

lemma clock_ok: "serving_ok now l runs \<Longrightarrow> now \<le> now' \<Longrightarrow> serving_ok now' l runs"
  by (rule serving_okI) (auto dest: serving_okD(1,2) serving_okD(3,4) order_trans)

lemma begin_ok:
  assumes "serving_ok now l runs" and "begin_op f k h now l = (l', b)"
  shows "serving_ok now l' (if b then runs @ [(k, now, Running)] else runs)"
proof (rule serving_okI)
  note ok = serving_okD [OF assms(1)]
  note op = begin_inv [OF ok(1), of f k h now] begin_new [OF ok(1), of f k h now]
    begin_lease [OF ok(1), of now _ f k h]
  have l': "l' = fst (begin_op f k h now l)" "b = snd (begin_op f k h now l)"
    using assms(2) by simp_all
  show "inv l'" using op(1) l' by simp
  show "spaced ttl (if b then runs @ [(k, now, Running)] else runs)"
  proof (cases b)
    case True
    have "t' + ttl \<le> now" if "(k, t', r') \<in> set runs" "r' \<noteq> Failed" for t' r'
      using ok(4) [OF that] op(2) True l' by (meson linorder_not_le)
    with ok(2) True show ?thesis by (simp add: spaced_append)
  qed (use ok(2) in simp)
  fix k1 t r
  assume r: "(k1, t, r) \<in> set (if b then runs @ [(k, now, Running)] else runs)"
  show "t \<le> now" using r ok(3) by (auto split: if_splits)
  assume fresh: "r \<noteq> Failed" "now < t + ttl"
  show "lease l' k1 = Some (t + ttl)"
  proof (cases "(k1, t, r) \<in> set runs")
    case True
    then have "lease l k1 = Some (t + ttl)" using ok(4) fresh by blast
    moreover from this have "\<not> (b \<and> k1 = k)"
      using op(2) l' fresh by (meson linorder_not_le)
    ultimately show ?thesis using op(3) [OF fresh(2), of k1] l' by (metis (no_types))
  next
    case False
    with r have "b" "k1 = k" "t = now" by (auto split: if_splits)
    then show ?thesis using op(3) [OF fresh(2)] l' by simp
  qed
qed

lemma finish_ok:
  assumes "serving_ok now l runs" and "i < length runs" and "runs ! i = (k, t, Running)"
    and "now < t + ttl" and "stores f" and "finish_op f k r l = (l', b)"
  shows "serving_ok now l' (runs[i := (k, t, if b then Succeeded else Failed)])"
proof (rule serving_okI)
  note ok = serving_okD [OF assms(1)]
  have l': "l' = fst (finish_op f k r l)" "b = snd (finish_op f k r l)"
    using assms(6) by simp_all
  have mem: "(k, t, Running) \<in> set runs" using assms(2,3) by (metis nth_mem)
  then have lk: "lease l k = Some (t + ttl)" "t \<le> now"
    using ok(3,4) assms(4) by blast+
  show "inv l'" using finish_inv [OF ok(1)] l' by simp
  show "spaced ttl (runs[i := (k, t, if b then Succeeded else Failed)])"
    using ok(2) assms(2,3) by (rule spaced_update)
  fix k1 t1 r1
  assume r: "(k1, t1, r1) \<in> set (runs[i := (k, t, if b then Succeeded else Failed)])"
  then have old: "(k1, t1, r1) \<in> set runs \<or> (k1, t1, r1) = (k, t, if b then Succeeded else Failed)"
    using set_update_subset_insert by fastforce
  then show "t1 \<le> now" using ok(3) lk by auto
  assume fresh: "r1 \<noteq> Failed" "now < t1 + ttl"
  show "lease l' k1 = Some (t1 + ttl)"
  proof (cases "k1 = k")
    case False
    with old ok(4) fresh finish_other [OF ok(1) False, of f r] l' show ?thesis by auto
  next
    case True
    have same: "t1 = t"
      using old lk(1) ok(4) [OF _ fresh] True by auto
    have "b"
    proof (rule ccontr)
      assume "\<not> b"
      then obtain j where j: "j < length runs" "j \<noteq> i" "runs ! j = (k, t, r1)"
        using r True same fresh assms(2)
        by (auto simp: in_set_conv_nth nth_list_update split: if_splits)
      then have "t + ttl \<le> t"
        using ok(2) assms(2,3) fresh unfolding spaced_def
        by (cases "j < i") (metis run_state.distinct(3), metis linorder_neqE_nat run_state.distinct(3))
      with ttl_pos show False by simp
    qed
    with finish_keeps [OF ok(1) assms(5) lk(1), of r] l' True same show ?thesis by simp
  qed
qed

lemma drop_ok:
  assumes "serving_ok now l runs" and "i < length runs" and "runs ! i = (k, t, Running)"
  shows "serving_ok now l (runs[i := (k, t, Dropped)])"
proof (rule serving_okI)
  note ok = serving_okD [OF assms(1)]
  have mem: "(k, t, Running) \<in> set runs" using assms(2,3) by (metis nth_mem)
  show "inv l" by (rule ok)
  show "spaced ttl (runs[i := (k, t, Dropped)])" using ok(2) assms(2,3) by (rule spaced_update)
  fix k1 t1 r1
  assume "(k1, t1, r1) \<in> set (runs[i := (k, t, Dropped)])"
  then have old: "(k1, t1, r1) \<in> set runs \<or> (k1, t1, r1) = (k, t, Dropped)"
    using set_update_subset_insert by fastforce
  then show "t1 \<le> now" using ok(3) mem by blast
  assume "r1 \<noteq> Failed" "now < t1 + ttl"
  with old ok(4) mem show "lease l k1 = Some (t1 + ttl)" by blast
qed

lemma sweep_ok: "serving_ok now l runs \<Longrightarrow> serving_ok now (sweep_op f now l) runs"
  by (rule serving_okI) (simp_all add: sweep_inv sweep_lease serving_okD)

end

section \<open>The ledger keeps the promise\<close>

definition ledger_ok :: "ledger_row list \<Rightarrow> bool" where
  "ledger_ok rows \<longleftrightarrow> keys_ok lr_key rows"

definition lease_of :: "ledger_row list \<Rightarrow> ustr \<Rightarrow> int option" where
  "lease_of rows k = map_option lr_expires_at (row_get lr_key k rows)"

definition begin_is_new ::
  "ledger_stmt faults \<Rightarrow> ustr \<Rightarrow> ustr \<Rightarrow> int \<Rightarrow> ledger_row list \<Rightarrow> ledger_row list \<times> bool" where
  "begin_is_new flt k h now rows =
     (case begin_request flt k h now rows of (rows', out) \<Rightarrow> (rows', out = Ok New))"

definition finish_delivers ::
  "ledger_stmt faults \<Rightarrow> ustr \<Rightarrow> http_lib \<times> response \<Rightarrow> ledger_row list \<Rightarrow> ledger_row list \<times> bool" where
  "finish_delivers flt k r rows =
     (case cache_response (fst r) flt k (snd r) rows of (rows', resp') \<Rightarrow> (rows', is_success (status resp')))"

definition stores_ok :: "ledger_stmt faults \<Rightarrow> bool" where
  "stores_ok flt \<longleftrightarrow> flt (LockConn StoreCall) = None \<and> flt UpdateEntry = None"

lemmas begin_cases = begin_request_def sweep_expired_inner_def

lemma begin_request_New:
  "begin_request flt k h now rows = (rows', Ok New) \<longleftrightarrow>
     flt (LockConn BeginCall) = None \<and> flt (DeleteExpired BeginCall) = None \<and>
     flt SelectEntry = None \<and> flt InsertEntry = None \<and>
     row_get lr_key k (row_delete (\<lambda>r. lr_expires_at r \<le> now) rows) = None \<and>
     rows' = row_delete (\<lambda>r. lr_expires_at r \<le> now) rows @
       [\<lparr>lr_key = k, lr_request_hash = h, lr_status = None, lr_headers_json = None, lr_body = None,
         lr_created_at = now, lr_expires_at = now + IDEMPOTENCY_TTL_SECONDS\<rparr>]"
  by (auto simp: begin_cases split: option.splits)

lemma begin_request_not_New:
  assumes "begin_request flt k h now rows = (rows', out)" "out \<noteq> Ok New"
  shows "rows' = rows \<or> rows' = row_delete (\<lambda>r. lr_expires_at r \<le> now) rows"
  using assms by (auto simp: begin_cases split: option.splits if_splits)

lemma lease_of_swept:
  "keys_ok lr_key rows \<Longrightarrow> now < e \<Longrightarrow>
   lease_of (row_delete (\<lambda>r. lr_expires_at r \<le> now) rows) k = Some e \<longleftrightarrow> lease_of rows k = Some e"
  by (auto simp: lease_of_def row_get_delete split: option.splits)

lemma lease_of_append:
  "lease_of (rows @ [r]) k =
     (case lease_of rows k of None \<Rightarrow> if lr_key r = k then Some (lr_expires_at r) else None | Some e \<Rightarrow> Some e)"
  by (simp add: lease_of_def row_get_append split: option.splits)

lemma lease_of_release [table_simps]:
  "lease_of (fst (release_failed flt k rows)) k' =
     (if k' = k \<and> flt (LockConn ReleaseCall) = None \<and> flt DeleteEntry = None then None else lease_of rows k')"
  by (simp add: release_failed_def lease_of_def row_get_delete_key split: option.splits)

lemma ledger_ok_release: "ledger_ok rows \<Longrightarrow> ledger_ok (fst (release_failed flt k rows))"
  by (simp add: release_failed_def ledger_ok_def keys_ok_delete split: option.splits)

lemma lease_of_store [table_simps]:
  "lease_of (fst (store_response flt k c rows)) k' = lease_of rows k'"
  by (cases "row_get lr_key k' rows")
    (auto simp: store_response_def lease_of_def row_get_update Let_def split: option.splits)

lemma ledger_ok_store: "ledger_ok rows \<Longrightarrow> ledger_ok (fst (store_response flt k c rows))"
  by (auto simp: store_response_def ledger_ok_def Let_def intro!: keys_ok_update split: option.splits)

lemma row_count_lease: "row_count (\<lambda>r. lr_key r = k) rows = 0 \<longleftrightarrow> lease_of rows k = None"
  by (auto simp: row_count_0 lease_of_def row_get_None)

lemma store_response_Ok:
  "stores_ok flt \<Longrightarrow> lease_of rows k \<noteq> None \<Longrightarrow> snd (store_response flt k c rows) = Ok ()"
  by (simp add: store_response_def stores_ok_def Let_def row_count_lease)

definition cached_of :: "http_lib \<Rightarrow> response \<Rightarrow> bytes \<Rightarrow> cached_response" where
  "cached_of L resp b =
     \<lparr>c_status = status resp, c_headers_json = headers_to_json L (resp_headers resp), c_body = b\<rparr>"

text \<open>The three ways a response leaves the ledger.\<close>

lemma cache_response_failed:
  assumes "\<not> (\<exists>b. resp_body resp = Ok b \<and> is_success (status resp))"
  shows "fst (cache_response L flt k resp rows) = fst (release_failed flt k rows)"
    and "\<not> is_success (status (snd (cache_response L flt k resp rows)))"
  using assms by (cases "resp_body resp"; auto simp: cache_response_def is_success_def simp del: lit_simps)+

lemma cache_response_stored:
  assumes "resp_body resp = Ok b" "is_success (status resp)"
    and "snd (store_response flt k (cached_of L resp b) rows) = Ok ()"
  shows "cache_response L flt k resp rows = (fst (store_response flt k (cached_of L resp b) rows), resp)"
  using assms
  by (cases "store_response flt k (cached_of L resp b) rows") (simp add: cache_response_def cached_of_def)

lemma cache_response_unstored:
  assumes "resp_body resp = Ok b" "is_success (status resp)"
    and "snd (store_response flt k (cached_of L resp b) rows) = Err e"
  shows "cache_response L flt k resp rows =
    (fst (release_failed flt k (fst (store_response flt k (cached_of L resp b) rows))), resp)"
  using assms
  by (cases "store_response flt k (cached_of L resp b) rows") (simp add: cache_response_def cached_of_def)

lemma cache_response_cases:
  obtains "fst (cache_response L flt k resp rows) = fst (release_failed flt k rows)"
      "\<not> is_success (status (snd (cache_response L flt k resp rows)))"
  | c where "fst (cache_response L flt k resp rows) =
        fst (release_failed flt k (fst (store_response flt k c rows)))"
      "snd (store_response flt k c rows) \<noteq> Ok ()"
  | c where "fst (cache_response L flt k resp rows) = fst (store_response flt k c rows)"
      "snd (store_response flt k c rows) = Ok ()"
proof (cases "\<exists>b. resp_body resp = Ok b \<and> is_success (status resp)")
  case False
  then show ?thesis using cache_response_failed that(1) by blast
next
  case True
  then obtain b where b: "resp_body resp = Ok b" "is_success (status resp)" by blast
  show ?thesis
  proof (cases "snd (store_response flt k (cached_of L resp b) rows)")
    case (Inl e)
    with cache_response_unstored [OF b Inl] that(2) show ?thesis by simp
  next
    case (Inr u)
    with cache_response_stored [OF b, of flt k L rows] that(3) show ?thesis by simp
  qed
qed

lemma cache_response_ledger_ok: "ledger_ok rows \<Longrightarrow> ledger_ok (fst (cache_response L flt k resp rows))"
  by (rule cache_response_cases [of L flt k resp rows]) (simp_all add: ledger_ok_release ledger_ok_store)

lemma cache_response_other:
  "k' \<noteq> k \<Longrightarrow> lease_of (fst (cache_response L flt k resp rows)) k' = lease_of rows k'"
  by (rule cache_response_cases [of L flt k resp rows]) (simp_all add: table_simps)

lemma cache_response_keeps:
  assumes "stores_ok flt" "lease_of rows k = Some e"
    and "is_success (status (snd (cache_response L flt k resp rows)))"
  shows "lease_of (fst (cache_response L flt k resp rows)) k = Some e"
  by (rule cache_response_cases [of L flt k resp rows])
    (use assms store_response_Ok [OF assms(1), of rows k] in \<open>simp_all add: table_simps\<close>)

interpretation led: lease_ledger begin_is_new finish_delivers stores_ok
  "\<lambda>flt now rows. fst (sweep_expired_ledger flt now rows)" lease_of ledger_ok IDEMPOTENCY_TTL_SECONDS
proof (unfold_locales, goal_cases)
  case 1
  show ?case by (simp add: IDEMPOTENCY_TTL_SECONDS_def)
next
  case (2 l f k h now)
  then show ?case
    by (auto simp: begin_is_new_def begin_cases ledger_ok_def keys_ok_delete intro!: keys_ok_insert
        split: option.splits)
next
  case (3 l f k h now e)
  then show ?case
    by (auto simp: begin_is_new_def begin_request_New ledger_ok_def lease_of_def row_get_delete
        split: prod.splits option.splits if_splits)
next
  case (4 l now e f k h k')
  obtain l' out where b: "begin_request f k h now l = (l', out)" by (cases "begin_request f k h now l")
  show ?case
  proof (cases "out = Ok New")
    case True
    with b have "l' = row_delete (\<lambda>r. lr_expires_at r \<le> now) l @
       [\<lparr>lr_key = k, lr_request_hash = h, lr_status = None, lr_headers_json = None, lr_body = None,
         lr_created_at = now, lr_expires_at = now + IDEMPOTENCY_TTL_SECONDS\<rparr>]"
      and n: "lease_of (row_delete (\<lambda>r. lr_expires_at r \<le> now) l) k = None"
      by (simp_all add: begin_request_New lease_of_def)
    with 4 True b show ?thesis
      using lease_of_swept [of l now e k']
      by (cases "k' = k") (auto simp: begin_is_new_def lease_of_append ledger_ok_def split: option.splits)
  next
    case False
    with begin_request_not_New [OF b] 4 show ?thesis
      by (auto simp: begin_is_new_def b ledger_ok_def lease_of_swept)
  qed
next
  case (5 l f k r)
  then show ?case by (simp add: finish_delivers_def case_prod_beta cache_response_ledger_ok)
next
  case (6 l k' k f r)
  then show ?case by (simp add: finish_delivers_def case_prod_beta cache_response_other)
next
  case (7 l f k e r)
  then show ?case by (simp add: finish_delivers_def case_prod_beta cache_response_keeps)
next
  case (8 l f now)
  then show ?case
    by (simp add: sweep_expired_ledger_def sweep_expired_inner_def ledger_ok_def keys_ok_delete split: option.splits)
next
  case (9 l now e f k)
  then show ?case
    by (simp add: sweep_expired_ledger_def sweep_expired_inner_def ledger_ok_def lease_of_swept split: option.splits)
qed

section \<open>A sample library\<close>

definition demo_lib :: http_lib where
  "demo_lib =
     \<lparr>from_slice = (\<lambda>_. Some (JObj [(lit ''method'', JStr (lit ''tools/call'')),
         (lit ''params'', JObj [(lit ''name'', JStr (lit ''add_rule''))])])),
      json_from_str = (\<lambda>_. Some (JArr [JArr [JStr (lit ''etag''), JStr (lit ''1'')]])),
      json_to_string = (\<lambda>_. Some (lit ''[[etag,1]]'')),
      parse_header_name = Some,
      header_value_ok = (\<lambda>_. True),
      status_from_u16 = (\<lambda>n. if 100 \<le> n \<and> n < 1000 then Some n else None),
      blake3_hex = (\<lambda>bs. map uint (take 64 (bs @ replicate 64 0)))\<rparr>"

definition demo_response :: response where
  "demo_response = \<lparr>status = 200, resp_headers = [(lit ''etag'', Some (lit ''1''))], resp_body = Ok [7]\<rparr>"

definition demo_write :: "ustr option \<Rightarrow> request" where
  "demo_write key = \<lparr>headers = (case key of None \<Rightarrow> [] | Some k \<Rightarrow> [(IDEMPOTENCY_KEY_HEADER, Some k)]),
     body = Ok [1], ext_actor = None, ext_session = None\<rparr>"

definition demo_idem_world :: "idem_world" where
  "demo_idem_world = \<lparr>audit = \<lparr>dir_exists = True, files = []\<rparr>, audit_io = (\<lambda>_. True),
     env = \<lparr>env_now = [], env_project_id = None\<rparr>, tokens = [], token_faults = no_faults,
     ledger = [], ledger_faults = no_faults, idem_project_id = lit ''p''\<rparr>"

lemma demo_is_write: "is_write_tool_call_body (from_slice demo_lib) b"
  by (simp add: is_write_tool_call_body_def demo_lib_def is_write_tool_call_value_def WRITE_TOOL_NAMES_def
      del: lit_simps)
    simp

section \<open>Concurrent requests\<close>

text \<open>
  The interleavings of the requests of one server: time passes, a write request asks the
  ledger (under any fault), a running handler answers, a request is cancelled while its
  handler runs, the ledger is swept. Handlers run concurrently, the ledger operations are
  atomic (the connection mutex).
\<close>

record serving =
  s_ledger :: "ledger_row list"
  s_clock :: int
  s_runs :: "ustr run list"

inductive serve_step :: "http_lib \<Rightarrow> serving \<Rightarrow> serving \<Rightarrow> bool" for L where
  clock: "s_clock s \<le> t \<Longrightarrow> serve_step L s (s\<lparr>s_clock := t\<rparr>)"
| arrive: "begin_request flt k h (s_clock s) (s_ledger s) = (rows, out) \<Longrightarrow>
    serve_step L s (s\<lparr>s_ledger := rows,
      s_runs := (if out = Ok New then s_runs s @ [(k, s_clock s, Running)] else s_runs s)\<rparr>)"
| answer: "i < length (s_runs s) \<Longrightarrow> s_runs s ! i = (k, t, Running) \<Longrightarrow>
    s_clock s < t + IDEMPOTENCY_TTL_SECONDS \<Longrightarrow> stores_ok flt \<Longrightarrow>
    cache_response L flt k resp (s_ledger s) = (rows, resp') \<Longrightarrow>
    serve_step L s (s\<lparr>s_ledger := rows,
      s_runs := (s_runs s)[i := (k, t, if is_success (status resp') then Succeeded else Failed)]\<rparr>)"
| cancel: "i < length (s_runs s) \<Longrightarrow> s_runs s ! i = (k, t, Running) \<Longrightarrow>
    serve_step L s (s\<lparr>s_runs := (s_runs s)[i := (k, t, Dropped)]\<rparr>)"
| sweep: "sweep_expired_ledger flt (s_clock s) (s_ledger s) = (rows, out) \<Longrightarrow>
    serve_step L s (s\<lparr>s_ledger := rows\<rparr>)"

definition serve_start :: "int \<Rightarrow> serving" where
  "serve_start t = \<lparr>s_ledger = [], s_clock = t, s_runs = []\<rparr>"

inductive served :: "http_lib \<Rightarrow> serving \<Rightarrow> bool" for L where
  start: "served L (serve_start t)"
| step: "served L s \<Longrightarrow> serve_step L s s' \<Longrightarrow> served L s'"

inductive_cases serve_stepE: "serve_step L s s'"

lemma served_ok: "served L s \<Longrightarrow> led.serving_ok (s_clock s) (s_ledger s) (s_runs s)"
proof (induction rule: served.induct)
  case (start t)
  show ?case by (rule led.serving_okI) (simp_all add: serve_start_def ledger_ok_def)
next
  case (step s s')
  from step.hyps(2) show ?case
  proof (cases rule: serve_step.cases)
    case (clock t)
    with led.clock_ok [OF step.IH] show ?thesis by simp
  next
    case (arrive flt k h rows out)
    then have "begin_is_new flt k h (s_clock s) (s_ledger s) = (rows, out = Ok New)"
      by (simp add: begin_is_new_def)
    from led.begin_ok [OF step.IH this] arrive show ?thesis by simp
  next
    case (answer i k t flt resp rows resp')
    then have "finish_delivers flt k (L, resp) (s_ledger s) = (rows, is_success (status resp'))"
      by (simp add: finish_delivers_def)
    from led.finish_ok [OF step.IH answer(2-5) this] answer show ?thesis by simp
  next
    case (cancel i k t)
    with led.drop_ok [OF step.IH cancel(2,3)] show ?thesis by simp
  next
    case (sweep flt rows out)
    with led.sweep_ok [OF step.IH, of flt] show ?thesis by simp
  qed
qed

text \<open>
  C4. At most one execution of a write per key and day: under every interleaving and every
  fault of the ledger but in storing a response, if the handlers answer within 24 hours,
  two requests of the same key whose handlers ran and did not fail started at least 24
  hours apart. In particular two handlers of one key never run at once.
\<close>

theorem writes_run_once_per_day:
  assumes "served L s" and "i < j" and "j < length (s_runs s)"
    and "s_runs s ! i = (k, t, r)" and "s_runs s ! j = (k, t', r')"
    and "r \<noteq> Failed" and "r' \<noteq> Failed"
  shows "t + IDEMPOTENCY_TTL_SECONDS \<le> t'"
  using led.serving_okD(2) [OF served_ok [OF assms(1)]] assms(2-) unfolding spaced_def by blast

lemma served_step_eq: "served L s \<Longrightarrow> serve_step L s s1 \<Longrightarrow> s2 = s1 \<Longrightarrow> served L s2"
  by (simp add: served.step)

theorem writes_run_once_per_day_witness:
  "\<exists>s. served demo_lib s \<and> s_runs s = [(lit ''k'', 0, Succeeded), (lit ''k'', 86400, Running)] \<and>
     0 + IDEMPOTENCY_TTL_SECONDS \<le> 86400"
proof -
  define r1 where "r1 = \<lparr>lr_key = lit ''k'', lr_request_hash = [], lr_status = None, lr_headers_json = None,
     lr_body = None, lr_created_at = 0, lr_expires_at = 86400\<rparr>"
  define r2 where "r2 = r1\<lparr>lr_status := Some 200, lr_headers_json := Some (lit ''[[etag,1]]''), lr_body := Some [7]\<rparr>"
  define r3 where "r3 = r1\<lparr>lr_created_at := 86400, lr_expires_at := 172800\<rparr>"
  have b1: "begin_request no_faults (lit ''k'') [] 0 [] = ([r1], Ok New)"
    by (simp add: begin_request_New row_delete_def r1_def IDEMPOTENCY_TTL_SECONDS_def)
  have c1: "cache_response demo_lib no_faults (lit ''k'') demo_response [r1] = ([r2], demo_response)"
    by (simp add: cache_response_def demo_response_def is_success_def store_response_def row_count_def
        row_update_def r1_def r2_def headers_to_json_def demo_lib_def)
  have b2: "begin_request no_faults (lit ''k'') [] 86400 [r2] = ([r3], Ok New)"
    by (simp add: begin_request_New row_delete_def r1_def r2_def r3_def IDEMPOTENCY_TTL_SECONDS_def)
  have s1: "served demo_lib \<lparr>s_ledger = [r1], s_clock = 0, s_runs = [(lit ''k'', 0, Running)]\<rparr>"
    by (rule served_step_eq [OF served.start [of _ 0] serve_step.arrive
          [where flt = no_faults and k = "lit ''k''" and h = "[]" and rows = "[r1]" and out = "Ok New"]])
      (use b1 in \<open>simp_all add: serve_start_def\<close>)
  have s2: "served demo_lib \<lparr>s_ledger = [r2], s_clock = 0, s_runs = [(lit ''k'', 0, Succeeded)]\<rparr>"
    by (rule served_step_eq [OF s1 serve_step.answer [where i = 0 and k = "lit ''k''" and t = 0
            and flt = no_faults and resp = demo_response and rows = "[r2]" and resp' = demo_response]])
      (use c1 in \<open>simp_all add: IDEMPOTENCY_TTL_SECONDS_def stores_ok_def demo_response_def is_success_def\<close>)
  have s3: "served demo_lib \<lparr>s_ledger = [r2], s_clock = 86400, s_runs = [(lit ''k'', 0, Succeeded)]\<rparr>"
    by (rule served_step_eq [OF s2 serve_step.clock [where t = 86400]]) simp_all
  define s where "s = \<lparr>s_ledger = [r3], s_clock = 86400,
     s_runs = [(lit ''k'', 0, Succeeded), (lit ''k'', 86400, Running)]\<rparr>"
  have s4: "served demo_lib s"
    unfolding s_def
    by (rule served_step_eq [OF s3 serve_step.arrive
          [where flt = no_faults and k = "lit ''k''" and h = "[]" and rows = "[r3]" and out = "Ok New"]])
      (use b2 in simp_all)
  have "0 + IDEMPOTENCY_TTL_SECONDS \<le> 86400"
    by (rule writes_run_once_per_day [OF s4, of 0 1 "lit ''k''" _ Succeeded _ Running])
      (simp_all add: s_def)
  with s4 show ?thesis by (intro exI [of _ s]) (simp add: s_def)
qed

section \<open>One request\<close>

lemma idempotency_middleware_New:
  assumes "body req = Ok b"
    and "require_idempotency_key (headers req) (is_write_tool_call_body (from_slice L) b) = Ok (Some key)"
    and "begin_request (ledger_faults w) (scoped_idempotency_key L (ext_actor req) (idem_project_id w) key)
           (blake3_hex L b) now (ledger w) = (rows, Ok New)"
    and "next req (w\<lparr>ledger := rows\<rparr>) = (w', resp)"
  shows "idempotency_middleware L now next req w =
    (w'\<lparr>ledger := fst (cache_response L (ledger_faults w')
           (scoped_idempotency_key L (ext_actor req) (idem_project_id w) key) resp (ledger w'))\<rparr>,
     snd (cache_response L (ledger_faults w')
           (scoped_idempotency_key L (ext_actor req) (idem_project_id w) key) resp (ledger w')))"
  using assms by (simp add: idempotency_middleware_def case_prod_beta Let_def)

text \<open>
  A write without a usable key is refused before anything happens: a tool call that
  writes, sent without the header, with a header that is not readable text or with a blank
  one, is answered 400 and neither the handler runs nor the ledger changes.
\<close>

theorem write_without_key_refused:
  assumes "body req = Ok b" and "is_write_tool_call_body (from_slice L) b"
    and "\<And>v. map_of (headers req) IDEMPOTENCY_KEY_HEADER = Some (Some v) \<Longrightarrow> trim v = []"
  shows "fst (idempotency_middleware L now next req w) = w \<and>
    status (snd (idempotency_middleware L now next req w)) = 400"
proof -
  from assms(3) have "require_idempotency_key (headers req) True = Err MissingKey \<or>
      require_idempotency_key (headers req) True = Err InvalidKey"
    by (auto simp: require_idempotency_key_def Let_def split: option.splits)
  with assms(1,2) show ?thesis
    by (auto simp: idempotency_middleware_def idempotency_error_response_def simp del: lit_simps)
qed

theorem write_without_key_refused_witness:
  "status (snd (idempotency_middleware demo_lib 0 (\<lambda>req w. (w, demo_response)) (demo_write None) demo_idem_world)) = 400 \<and>
   status (snd (idempotency_middleware demo_lib 0 (\<lambda>req w. (w, demo_response)) (demo_write (Some [32])) demo_idem_world)) = 400"
  using write_without_key_refused [of "demo_write None" "[1]" demo_lib 0 "\<lambda>req w. (w, demo_response)" demo_idem_world, OF _ demo_is_write]
    write_without_key_refused [of "demo_write (Some [32])" "[1]" demo_lib 0 "\<lambda>req w. (w, demo_response)" demo_idem_world, OF _ demo_is_write]
  by (simp add: demo_write_def trim_def is_whitespace_def del: lit_simps)

lemma cache_response_delivers_resp:
  "resp_body resp = Ok b \<Longrightarrow> snd (cache_response L flt k resp rows) = resp"
  by (simp add: cache_response_def split: prod.splits sum.splits)

text \<open>
  The response a caller gets is the handler's, whatever the ledger does: if its body
  can be read, storing and releasing can fail in any way and the caller still gets status,
  headers and body of the handler; and once the ledger works again the key is either
  answered (2xx) or free (anything else).
\<close>

theorem cache_response_delivers:
  assumes "resp_body resp = Ok b"
  shows "snd (cache_response L flt k resp rows) = resp \<and>
    (stores_ok flt \<longrightarrow> is_success (status resp) \<longrightarrow> row_get lr_key k rows \<noteq> None \<longrightarrow>
       (\<exists>r. row_get lr_key k (fst (cache_response L flt k resp rows)) = Some r \<and>
            lr_status r = Some (status resp) \<and> lr_body r = Some b \<and>
            lr_headers_json r = Some (headers_to_json L (resp_headers resp)))) \<and>
    (flt (LockConn ReleaseCall) = None \<longrightarrow> flt DeleteEntry = None \<longrightarrow> \<not> is_success (status resp) \<longrightarrow>
       row_get lr_key k (fst (cache_response L flt k resp rows)) = None)"
proof (intro conjI impI)
  show "snd (cache_response L flt k resp rows) = resp"
    using assms by (rule cache_response_delivers_resp)
next
  assume a: "stores_ok flt" "is_success (status resp)" "row_get lr_key k rows \<noteq> None"
  then have st: "snd (store_response flt k (cached_of L resp b) rows) = Ok ()"
    by (intro store_response_Ok) (simp_all add: lease_of_def)
  from a(3) obtain r where r: "row_get lr_key k rows = Some r" "lr_key r = k"
    using row_get_SomeD by fastforce
  have "fst (store_response flt k (cached_of L resp b) rows) =
      row_update (\<lambda>r. lr_key r = k) (\<lambda>r. r\<lparr>lr_status := Some (status resp),
        lr_headers_json := Some (headers_to_json L (resp_headers resp)), lr_body := Some b\<rparr>) rows"
    using a(1) by (simp add: store_response_def stores_ok_def Let_def cached_of_def)
  with r show "\<exists>r. row_get lr_key k (fst (cache_response L flt k resp rows)) = Some r \<and>
      lr_status r = Some (status resp) \<and> lr_body r = Some b \<and>
      lr_headers_json r = Some (headers_to_json L (resp_headers resp))"
    by (simp add: cache_response_stored [OF assms a(2) st] row_get_update)
next
  assume "flt (LockConn ReleaseCall) = None" "flt DeleteEntry = None" "\<not> is_success (status resp)"
  then show "row_get lr_key k (fst (cache_response L flt k resp rows)) = None"
    using assms by (simp add: cache_response_def release_failed_def row_get_delete_key)
qed

theorem cache_response_delivers_witness:
  "snd (cache_response demo_lib (\<lambda>s. Some []) (lit ''k'') demo_response []) = demo_response"
  using cache_response_delivers [of demo_response "[7]" demo_lib "\<lambda>s. Some []" "lit ''k''" "[]"]
  by (simp add: demo_response_def)

section \<open>Replay\<close>

definition header_pairs :: "header_map \<Rightarrow> json list" where
  "header_pairs hdrs =
     concat (map (\<lambda>(n, v). case v of None \<Rightarrow> [] | Some s \<Rightarrow> [JArr [JStr n, JStr s]]) hdrs)"

text \<open>Headers that survive storing: readable values, one value per name, names the parser accepts.\<close>

definition plain_headers :: "http_lib \<Rightarrow> header_map \<Rightarrow> bool" where
  "plain_headers L hdrs \<longleftrightarrow> distinct (map fst hdrs) \<and>
     list_all (\<lambda>(n, v). v \<noteq> None \<and> header_value_ok L (the v) \<and> parse_header_name L n = Some n) hdrs"

lemma header_insert_fresh: "n \<notin> fst ` set hdrs \<Longrightarrow> header_insert n v hdrs = hdrs @ [(n, v)]"
  by (auto simp: header_insert_def filter_id_conv)

lemma restore_pairs_plain:
  "plain_headers L hdrs \<Longrightarrow> fst ` set hdrs \<inter> fst ` set acc = {} \<Longrightarrow>
   restore_pairs L (header_pairs hdrs) acc = acc @ hdrs"
proof (induction hdrs arbitrary: acc)
  case (Cons h hdrs)
  obtain n s where h: "h = (n, Some s)" "header_value_ok L s" "parse_header_name L n = Some n"
    using Cons.prems(1) by (cases h) (auto simp: plain_headers_def)
  have p: "plain_headers L hdrs" "n \<notin> fst ` set hdrs" "n \<notin> fst ` set acc"
    using Cons.prems by (auto simp: plain_headers_def h)
  with Cons.prems(2) have "fst ` set hdrs \<inter> fst ` set (acc @ [(n, Some s)]) = {}" by auto
  from Cons.IH [OF p(1) this] p(3) h show ?case
    by (simp add: header_pairs_def header_insert_fresh)
qed (simp add: header_pairs_def)

text \<open>The row of an answered key.\<close>

definition answered :: "http_lib \<Rightarrow> ustr \<Rightarrow> response \<Rightarrow> bytes \<Rightarrow> int \<Rightarrow> ledger_row \<Rightarrow> bool" where
  "answered L h resp b expires r \<longleftrightarrow>
     lr_request_hash r = h \<and> lr_status r = Some (status resp) \<and> lr_body r = Some b \<and>
     lr_headers_json r = Some (headers_to_json L (resp_headers resp)) \<and> lr_expires_at r = expires"

lemma begin_request_answered:
  assumes "row_get lr_key k rows = Some r" and "answered L h resp b e r" and "now < e"
    and "keys_ok lr_key rows"
  shows "begin_request no_faults k h now rows =
    (row_delete (\<lambda>r. lr_expires_at r \<le> now) rows, Ok (Replay (cached_of L resp b)))"
  using assms by (simp add: begin_cases row_get_delete answered_def cached_of_def)

lemma cache_response_answers:
  assumes "begin_request no_faults k h now rows = (rows1, Ok New)"
    and "resp_body resp = Ok b" "is_success (status resp)"
  obtains r where "row_get lr_key k (fst (cache_response L no_faults k resp rows1)) = Some r"
    "answered L h resp b (now + IDEMPOTENCY_TTL_SECONDS) r"
proof -
  let ?r = "\<lparr>lr_key = k, lr_request_hash = h, lr_status = None, lr_headers_json = None, lr_body = None,
         lr_created_at = now, lr_expires_at = now + IDEMPOTENCY_TTL_SECONDS\<rparr>"
  have r: "row_get lr_key k rows1 = Some ?r"
    using assms(1) by (auto simp: begin_request_New row_get_append)
  then have st: "snd (store_response no_faults k (cached_of L resp b) rows1) = Ok ()"
    by (intro store_response_Ok) (simp_all add: lease_of_def stores_ok_def)
  have "fst (store_response no_faults k (cached_of L resp b) rows1) =
      row_update (\<lambda>r. lr_key r = k) (\<lambda>r. r\<lparr>lr_status := Some (status resp),
        lr_headers_json := Some (headers_to_json L (resp_headers resp)), lr_body := Some b\<rparr>) rows1"
    by (simp add: store_response_def Let_def cached_of_def)
  with r have "row_get lr_key k (fst (cache_response L no_faults k resp rows1)) =
      Some (?r\<lparr>lr_status := Some (status resp),
        lr_headers_json := Some (headers_to_json L (resp_headers resp)), lr_body := Some b\<rparr>)"
    by (simp add: cache_response_stored [OF assms(2,3) st] row_get_update)
  then show thesis by (rule that) (simp add: answered_def)
qed

text \<open>
  C9. A retry gets the first answer: when a write of a key has been answered 2xx, the same
  request sent again within 24 hours of the first is answered with the same status, body and
  headers, without the handler running, whatever other requests did to other keys meanwhile;
  the only effect is that expired rows are swept. The handler leaves the ledger alone, the
  response's headers have one readable value per name, and the JSON library reads back
  what it wrote.
\<close>

theorem retry_replays_first_answer:
  assumes req: "body req = Ok b"
      "require_idempotency_key (headers req) (is_write_tool_call_body (from_slice L) b) = Ok (Some key)"
    and K: "K = scoped_idempotency_key L (ext_actor req) (idem_project_id w) key"
    and world: "ledger_faults w = no_faults" "row_get lr_key K (ledger w) = None" "keys_ok lr_key (ledger w)"
    and handler: "\<And>v. ledger (fst (next req v)) = ledger v \<and> ledger_faults (fst (next req v)) = ledger_faults v"
    and first: "idempotency_middleware L now next req w = (w1, r1)" "resp_body r1 = Ok rb" "is_success (status r1)"
    and later: "now \<le> now2" "now2 < now + IDEMPOTENCY_TTL_SECONDS" "ledger_faults w2 = no_faults"
      "idem_project_id w2 = idem_project_id w" "keys_ok lr_key (ledger w2)"
      "row_get lr_key K (ledger w2) = row_get lr_key K (ledger w1)"
    and lib: "plain_headers L (resp_headers r1)" "status_from_u16 L (status r1) = Some (status r1)"
      "json_from_str L (headers_to_json L (resp_headers r1)) = Some (JArr (header_pairs (resp_headers r1)))"
  shows "idempotency_middleware L now2 next' req w2 =
    (w2\<lparr>ledger := row_delete (\<lambda>r. lr_expires_at r \<le> now2) (ledger w2)\<rparr>, r1)"
proof -
  have nf: "row_get lr_key K (row_delete (\<lambda>r. lr_expires_at r \<le> now) (ledger w)) = None"
    using world by (simp add: row_get_delete)
  obtain rows where b1: "begin_request no_faults K (blake3_hex L b) now (ledger w) = (rows, Ok New)"
    using nf by (auto simp: begin_request_New)
  obtain w' resp where n: "next req (w\<lparr>ledger := rows\<rparr>) = (w', resp)" by fastforce
  have w': "ledger w' = rows" "ledger_faults w' = no_faults"
    using handler [of "w\<lparr>ledger := rows\<rparr>"] n world by simp_all
  have mw: "w1 = w'\<lparr>ledger := fst (cache_response L no_faults K resp rows)\<rparr>"
      "r1 = snd (cache_response L no_faults K resp rows)"
    using idempotency_middleware_New [OF req, of w now rows "next" w' resp] b1 n w' first(1) world(1) K
    by simp_all
  have succ: "\<exists>b. resp_body resp = Ok b \<and> is_success (status resp)"
    using cache_response_failed(2) [of resp L no_faults K rows] first(3) mw(2) by blast
  then obtain b' where b': "resp_body resp = Ok b'" "is_success (status resp)" by blast
  then have r1: "r1 = resp" "b' = rb"
    using mw(2) cache_response_delivers_resp [OF b'(1), of L no_faults K rows] first(2) by auto
  obtain r where r: "row_get lr_key K (ledger w2) = Some r"
      "answered L (blake3_hex L b) r1 rb (now + IDEMPOTENCY_TTL_SECONDS) r"
    using cache_response_answers [OF b1 b', of L] later(6) mw(1) r1 by auto
  have b2: "begin_request no_faults K (blake3_hex L b) now2 (ledger w2) =
    (row_delete (\<lambda>r. lr_expires_at r \<le> now2) (ledger w2), Ok (Replay (cached_of L r1 rb)))"
    by (rule begin_request_answered [OF r later(2,5)])
  have rep: "replay_response L (cached_of L r1 rb) = r1"
    using lib first(2) restore_pairs_plain [OF lib(1), of "[]"]
    by (simp add: replay_response_def cached_of_def restore_headers_def)
  show ?thesis
    using req later(3,4) b2 rep K by (simp add: idempotency_middleware_def Let_def)
qed

theorem retry_replays_first_answer_witness:
  "\<exists>w1. idempotency_middleware demo_lib 0 (\<lambda>req w. (w, demo_response)) (demo_write (Some (lit ''k''))) demo_idem_world
      = (w1, demo_response) \<and>
    idempotency_middleware demo_lib 60 (\<lambda>req w. (w, text_response 500 [])) (demo_write (Some (lit ''k''))) w1
      = (w1, demo_response)"
proof -
  let ?req = "demo_write (Some (lit ''k''))"
  let ?K = "scoped_idempotency_key demo_lib (ext_actor ?req) (idem_project_id demo_idem_world) (lit ''k'')"
  let ?h = "blake3_hex demo_lib [1]"
  let ?next = "\<lambda>req (w :: idem_world). (w, demo_response)"
  define row where "row = \<lparr>lr_key = ?K, lr_request_hash = ?h, lr_status = Some 200,
     lr_headers_json = Some (lit ''[[etag,1]]''), lr_body = Some [7 :: 8 word], lr_created_at = 0, lr_expires_at = 86400\<rparr>"
  define row0 where "row0 = row\<lparr>lr_status := None, lr_headers_json := None, lr_body := None\<rparr>"
  have key: "require_idempotency_key (headers ?req) (is_write_tool_call_body (from_slice demo_lib) [1]) =
      Ok (Some (lit ''k''))"
    by (simp add: demo_is_write require_idempotency_key_def demo_write_def Let_def trim_def is_whitespace_def)
  have b1: "begin_request no_faults ?K ?h 0 [] = ([row0], Ok New)"
    unfolding begin_request_New
    by (simp add: row_delete_def row_def row0_def IDEMPOTENCY_TTL_SECONDS_def)
  have c1: "cache_response demo_lib no_faults ?K demo_response [row0] = ([row], demo_response)"
  proof -
    have "headers_to_json demo_lib (resp_headers demo_response) = lit ''[[etag,1]]''"
      by (simp add: headers_to_json_def demo_lib_def)
    then show ?thesis
      by (simp add: cache_response_def demo_response_def is_success_def store_response_def row_count_def
          row_update_def row_def row0_def del: lit_simps)
  qed
  let ?w1 = "demo_idem_world\<lparr>ledger := [row]\<rparr>"
  have first: "idempotency_middleware demo_lib 0 ?next ?req demo_idem_world = (?w1, demo_response)"
    using idempotency_middleware_New [of ?req "[1]" demo_lib "lit ''k''" demo_idem_world 0 "[row0]" ?next, OF _ key] b1 c1
    by (simp add: demo_idem_world_def demo_write_def del: lit_simps)
  have "idempotency_middleware demo_lib 60 (\<lambda>req w. (w, text_response 500 [])) ?req ?w1 =
      (?w1\<lparr>ledger := row_delete (\<lambda>r. lr_expires_at r \<le> 60) (ledger ?w1)\<rparr>, demo_response)"
    by (rule retry_replays_first_answer [OF _ key refl _ _ _ _ first, where rb = "[7]"])
      (simp_all add: demo_write_def demo_idem_world_def demo_response_def is_success_def IDEMPOTENCY_TTL_SECONDS_def
        keys_ok_def plain_headers_def demo_lib_def header_pairs_def)
  then show ?thesis using first by (auto simp: row_delete_def row_def)
qed

section \<open>Scope of a key\<close>

lemma append_eq_length: "length a = length b \<Longrightarrow> a @ c = b @ d \<longleftrightarrow> a = b \<and> c = d"
  by (rule append_eq_append_conv) simp

text \<open>
  Keys of different callers never meet: with a hash of fixed length that separates the
  two project ids and the two actor ids at hand, the ledger keys of two requests are equal
  only if project, actor and the key the client sent are equal.
\<close>

theorem scoped_key_injective:
  assumes "length (blake3_hex L (utf8 p)) = 64" "length (blake3_hex L (utf8 p')) = 64"
    and "length (blake3_hex L (utf8 (actor_id a))) = 64" "length (blake3_hex L (utf8 (actor_id a'))) = 64"
    and "blake3_hex L (utf8 p) = blake3_hex L (utf8 p') \<Longrightarrow> p = p'"
    and "blake3_hex L (utf8 (actor_id a)) = blake3_hex L (utf8 (actor_id a')) \<Longrightarrow> actor_id a = actor_id a'"
  shows "scoped_idempotency_key L (Some a) p k = scoped_idempotency_key L (Some a') p' k' \<longleftrightarrow>
    p = p' \<and> actor_id a = actor_id a' \<and> k = k'"
  using assms by (auto simp: scoped_idempotency_key_def Let_def append_eq_length)

theorem scoped_key_injective_witness:
  "scoped_idempotency_key demo_lib (Some \<lparr>actor_id = lit ''a'', key_name = None, key_hash = []\<rparr>) (lit ''p'') (lit ''k'') \<noteq>
   scoped_idempotency_key demo_lib (Some \<lparr>actor_id = lit ''b'', key_name = None, key_hash = []\<rparr>) (lit ''p'') (lit ''k'')"
proof -
  have len: "length (blake3_hex demo_lib b) = 64" for b
    by (simp add: demo_lib_def)
  show ?thesis
    using scoped_key_injective [of demo_lib "lit ''p''" "lit ''p''" "\<lparr>actor_id = lit ''a'', key_name = None, key_hash = []\<rparr>"
        "\<lparr>actor_id = lit ''b'', key_name = None, key_hash = []\<rparr>" "lit ''k''" "lit ''k''", OF len len len len]
    by (simp add: demo_lib_def utf8_char_def uint_u8)
qed

end
