(* ===== verification/Float64.thy ===== *)
theory Float64
  imports Complex_Main
begin

text \<open>
  Finite \<open>f64\<close> arithmetic: a double is the rational number it denotes, and an operation is
  the exact one followed by \<open>round64\<close>, IEEE 754 round-to-nearest, ties-to-even, with 53 bits
  and the subnormal range. Infinities and NaN are outside the model: the program's
  confidences and strengths stay within [0, 1], which the theorems that use this prove.
\<close>

type_synonym f64 = rat

section \<open>Binary logarithm\<close>

fun nlog2 :: "nat \<Rightarrow> nat" where
  "nlog2 n = (if n < 2 then 0 else Suc (nlog2 (n div 2)))"

declare nlog2.simps [simp del]

lemma nlog2_bounds: "0 < n \<Longrightarrow> 2 ^ nlog2 n \<le> n \<and> n < 2 ^ Suc (nlog2 n)"
proof (induction n rule: nlog2.induct)
  case (1 n)
  show ?case
  proof (cases "n < 2")
    case True
    with "1.prems" show ?thesis by (subst (1 2) nlog2.simps) simp
  next
    case False
    then have "2 ^ nlog2 (n div 2) \<le> n div 2 \<and> n div 2 < 2 ^ Suc (nlog2 (n div 2))"
      using "1.IH" by simp
    with False show ?thesis by (subst (1 2) nlog2.simps) auto
  qed
qed

definition two_pow :: "int \<Rightarrow> rat" where
  "two_pow e = (if 0 \<le> e then 2 ^ nat e else 1 / 2 ^ nat (- e))"

lemma two_pow_powi: "two_pow e = 2 powi e"
  unfolding two_pow_def power_int_def by (simp add: inverse_eq_divide power_one_over)

lemma two_pow_pos [simp]: "0 < two_pow e" "0 \<le> two_pow e" "two_pow e \<noteq> 0"
  by (simp_all add: two_pow_def)

lemma two_pow_add: "two_pow (a + b) = two_pow a * two_pow b"
  by (simp add: two_pow_powi power_int_add)

lemma two_pow_strict: "a < b \<Longrightarrow> two_pow a < two_pow b"
  unfolding two_pow_powi by (rule power_int_strict_increasing) simp_all

lemma two_pow_less: "a < b \<longleftrightarrow> two_pow a < two_pow b"
  using two_pow_strict [of a b] two_pow_strict [of b a] by (cases a b rule: linorder_cases) auto

lemma two_pow_le: "a \<le> b \<longleftrightarrow> two_pow a \<le> two_pow b"
  using two_pow_less [of b a] by (simp add: not_less [symmetric])

lemma two_pow_mult: "a \<le> b \<Longrightarrow> \<exists>k. two_pow b = of_int k * two_pow a"
  using two_pow_add [of a "b - a"]
  by (intro exI [of _ "2 ^ nat (b - a)"]) (simp add: two_pow_def mult.commute)

definition ilog2 :: "rat \<Rightarrow> int" where
  "ilog2 x =
     (let (p, q) = quotient_of x;
          e = int (nlog2 (nat p)) - int (nlog2 (nat q))
      in if two_pow e \<le> x then e else e - 1)"

lemma ilog2_bounds:
  assumes "0 < x"
  shows "two_pow (ilog2 x) \<le> x" "x < two_pow (ilog2 x + 1)"
proof -
  obtain p q where pq: "quotient_of x = (p, q)" by fastforce
  have q: "0 < q" using quotient_of_denom_pos [OF pq] .
  have x: "x = of_int p / of_int q" using quotient_of_div [OF pq] .
  then have p: "0 < p" using assms q by (simp add: zero_less_divide_iff)
  define m n where "m = nlog2 (nat p)" and "n = nlog2 (nat q)"
  have nat_bounds: "(2::rat) ^ nlog2 (nat z) \<le> of_int z \<and> of_int z < (2::rat) ^ Suc (nlog2 (nat z))"
    if "0 < z" for z
  proof -
    have "(2::nat) ^ nlog2 (nat z) \<le> nat z" "nat z < 2 ^ Suc (nlog2 (nat z))"
      using nlog2_bounds [of "nat z"] that by auto
    then have "(of_nat (2 ^ nlog2 (nat z)) :: rat) \<le> of_nat (nat z)"
        "(of_nat (nat z) :: rat) < of_nat (2 ^ Suc (nlog2 (nat z)))"
      by (simp_all only: of_nat_le_iff of_nat_less_iff)
    with that show ?thesis by simp
  qed
  have b: "2 ^ m \<le> (of_int p :: rat)" "of_int p < (2::rat) ^ Suc m"
      "2 ^ n \<le> (of_int q :: rat)" "of_int q < (2::rat) ^ Suc n"
    using nat_bounds p q unfolding m_def n_def by blast+
  have e: "two_pow (int a - int b) = 2 ^ a / 2 ^ b" for a b
    by (simp add: two_pow_powi power_int_diff)
  have "x \<le> of_int p / 2 ^ n"
    unfolding x using b p by (intro divide_left_mono) (simp_all add: q)
  also have "\<dots> < 2 ^ Suc m / 2 ^ n"
    using b by (intro divide_strict_right_mono) simp_all
  also have "\<dots> = two_pow (int m - int n + 1)"
    using e [of "Suc m" n] by (simp add: algebra_simps)
  finally have up: "x < two_pow (int m - int n + 1)" .
  have "two_pow (int m - int n - 1) = 2 ^ m / 2 ^ Suc n"
    using e [of m "Suc n"] by (simp add: algebra_simps)
  also have "\<dots> \<le> of_int p / 2 ^ Suc n"
    using b by (intro divide_right_mono) simp_all
  also have "\<dots> \<le> x"
    unfolding x using b p q by (intro divide_left_mono) simp_all
  finally have low: "two_pow (int m - int n - 1) \<le> x" .
  show "two_pow (ilog2 x) \<le> x" "x < two_pow (ilog2 x + 1)"
    using up low by (auto simp: ilog2_def pq Let_def m_def n_def)
qed

lemma ilog2_unique:
  assumes "two_pow e \<le> x" "x < two_pow (e + 1)"
  shows "ilog2 x = e"
proof -
  have pos: "0 < x" using assms(1) two_pow_pos(1) [of e] by linarith
  have "two_pow e < two_pow (ilog2 x + 1)" "two_pow (ilog2 x) < two_pow (e + 1)"
    using assms ilog2_bounds [OF pos] by linarith+
  then show ?thesis by (simp add: two_pow_less [symmetric])
qed

lemma ilog2_mono: "0 < x \<Longrightarrow> x \<le> y \<Longrightarrow> ilog2 x \<le> ilog2 y"
proof -
  assume a: "0 < x" "x \<le> y"
  then have "two_pow (ilog2 x) < two_pow (ilog2 y + 1)"
    using ilog2_bounds(1) [of x] ilog2_bounds(2) [of y] by linarith
  then show ?thesis by (simp add: two_pow_less [symmetric])
qed

section \<open>Rounding to an integer\<close>

definition round_half_even :: "rat \<Rightarrow> int" where
  "round_half_even y =
     (let f = \<lfloor>y\<rfloor>; d = y - of_int f
      in if d < 1 / 2 then f else if 1 / 2 < d then f + 1 else if even f then f else f + 1)"

lemma round_half_even_of_int [simp]: "round_half_even (of_int k) = k"
  by (simp add: round_half_even_def)

lemma round_half_even_range: "\<lfloor>y\<rfloor> \<le> round_half_even y \<and> round_half_even y \<le> \<lfloor>y\<rfloor> + 1"
  by (simp add: round_half_even_def Let_def)

lemma round_half_even_mono: "y \<le> z \<Longrightarrow> round_half_even y \<le> round_half_even z"
proof -
  assume le: "y \<le> z"
  show ?thesis
  proof (cases "\<lfloor>y\<rfloor> = \<lfloor>z\<rfloor>")
    case True
    with le show ?thesis by (auto simp: round_half_even_def Let_def)
  next
    case False
    with le have "\<lfloor>y\<rfloor> + 1 \<le> \<lfloor>z\<rfloor>" using floor_mono [OF le] by linarith
    with round_half_even_range [of y] round_half_even_range [of z] show ?thesis by linarith
  qed
qed

section \<open>Rounding to a double\<close>

definition ulp_exp :: "rat \<Rightarrow> int" where
  "ulp_exp x = max (ilog2 x - 52) (- 1074)"

definition round_pos :: "rat \<Rightarrow> f64" where
  "round_pos x = of_int (round_half_even (x / two_pow (ulp_exp x))) * two_pow (ulp_exp x)"

definition round64 :: "rat \<Rightarrow> f64" where
  "round64 x = (if x = 0 then 0 else if 0 < x then round_pos x else - round_pos (- x))"

definition is_f64 :: "rat \<Rightarrow> bool" where
  "is_f64 x \<longleftrightarrow> round64 x = x"

lemma grid_mono: "0 < u \<Longrightarrow> x \<le> y \<Longrightarrow>
    of_int (round_half_even (x / u)) * u \<le> of_int (round_half_even (y / u)) * (u :: rat)"
  by (intro mult_right_mono) (simp_all add: round_half_even_mono divide_right_mono)

lemma grid_fixed: "0 < u \<Longrightarrow> of_int (round_half_even (of_int k * u / u)) * u = of_int k * (u :: rat)"
  by simp

lemma round_pos_binade:
  assumes "0 < x"
  shows "0 \<le> round_pos x" "round_pos x \<le> two_pow (max (ilog2 x + 1) (- 1074))"
    and "- 1074 \<le> ilog2 x \<Longrightarrow> two_pow (ilog2 x) \<le> round_pos x"
proof -
  let ?e = "ulp_exp x" and ?l = "ilog2 x"
  show "0 \<le> round_pos x"
    using grid_mono [of "two_pow ?e" 0 x] assms round_half_even_of_int [of 0]
    by (simp add: round_pos_def)
  have "?e \<le> max (?l + 1) (- 1074)" by (auto simp: ulp_exp_def)
  then obtain k where k: "two_pow (max (?l + 1) (- 1074)) = of_int k * two_pow ?e"
    using two_pow_mult by blast
  have "x \<le> two_pow (max (?l + 1) (- 1074))"
    using ilog2_bounds(2) [OF assms] two_pow_le [of "?l + 1" "max (?l + 1) (- 1074)"] by simp
  from grid_mono [OF two_pow_pos(1) this, of ?e]
  show "round_pos x \<le> two_pow (max (?l + 1) (- 1074))"
    by (simp add: round_pos_def k)
  assume "- 1074 \<le> ?l"
  then have "?e \<le> ?l" by (simp add: ulp_exp_def)
  then obtain j where j: "two_pow ?l = of_int j * two_pow ?e" using two_pow_mult by blast
  from grid_mono [OF two_pow_pos(1) ilog2_bounds(1) [OF assms], of ?e]
  show "two_pow ?l \<le> round_pos x" by (simp add: round_pos_def j)
qed

lemma round_pos_mono:
  assumes "0 < x" "x \<le> y"
  shows "round_pos x \<le> round_pos y"
proof (cases "ulp_exp x = ulp_exp y")
  case True
  with assms(2) show ?thesis by (simp add: round_pos_def grid_mono)
next
  case False
  have le: "ilog2 x \<le> ilog2 y" using ilog2_mono [OF assms] .
  with False have l: "ilog2 x < ilog2 y" "- 1074 < ilog2 y - 52"
    by (auto simp: ulp_exp_def split: if_splits)
  have "round_pos x \<le> two_pow (max (ilog2 x + 1) (- 1074))"
    using round_pos_binade(2) [OF assms(1)] .
  also have "\<dots> \<le> two_pow (ilog2 y)"
    using l by (simp add: two_pow_le [symmetric])
  also have "\<dots> \<le> round_pos y"
    using round_pos_binade(3) [of y] assms l by simp
  finally show ?thesis .
qed

lemma round64_nonneg: "0 \<le> x \<Longrightarrow> 0 \<le> round64 x"
  using round_pos_binade(1) [of x] by (auto simp: round64_def)

lemma round64_minus: "round64 (- x) = - round64 x"
  by (auto simp: round64_def)

lemma round64_mono: "x \<le> y \<Longrightarrow> round64 x \<le> round64 y"
proof -
  have pos: "round64 x \<le> round64 y" if "0 \<le> x" "x \<le> y" for x y
    using that round_pos_mono [of x y] round64_nonneg [of y] by (auto simp: round64_def)
  assume le: "x \<le> y"
  consider "0 \<le> x" | "y \<le> 0" | "x < 0" "0 < y" by linarith
  then show ?thesis
  proof cases
    case 1
    with le pos show ?thesis by blast
  next
    case 2
    with le pos [of "- y" "- x"] show ?thesis by (simp add: round64_minus)
  next
    case 3
    then show ?thesis
      using round64_nonneg [of y] round64_nonneg [of "- x"] by (simp add: round64_minus)
  qed
qed

lemma round64_grid:
  assumes "0 < x" "x = of_int k * two_pow e" "ulp_exp x \<le> e"
  shows "round64 x = x"
proof -
  obtain j where "two_pow e = of_int j * two_pow (ulp_exp x)"
    using two_pow_mult assms(3) by blast
  then have x: "x = of_int (k * j) * two_pow (ulp_exp x)" using assms(2) by simp
  have "round_pos x = of_int (round_half_even (of_int (k * j) * two_pow (ulp_exp x) / two_pow (ulp_exp x))) * two_pow (ulp_exp x)"
    unfolding round_pos_def using arg_cong [OF x, of "\<lambda>z. z / two_pow (ulp_exp x)"] by presburger
  also have "\<dots> = of_int (k * j) * two_pow (ulp_exp x)"
    by (rule grid_fixed) (rule two_pow_pos)
  finally have "round_pos x = x" using x by presburger
  with assms(1) show ?thesis by (simp add: round64_def)
qed

lemma round64_idem [simp]: "round64 (round64 x) = round64 x"
proof -
  have pos: "round64 (round_pos x) = round_pos x" if "0 < x" for x
  proof (cases "round_pos x = 0")
    case True
    then show ?thesis by (simp add: round64_def)
  next
    case False
    let ?r = "round_pos x" and ?l = "ilog2 x"
    have r: "0 < ?r" using round_pos_binade(1) [OF that] False by simp
    have r_def: "?r = of_int (round_half_even (x / two_pow (ulp_exp x))) * two_pow (ulp_exp x)"
      by (simp add: round_pos_def)
    have up: "?r \<le> two_pow (max (?l + 1) (- 1074))" using round_pos_binade(2) [OF that] .
    show ?thesis
    proof (cases "?r = two_pow (max (?l + 1) (- 1074))")
      case True
      have "ilog2 ?r = max (?l + 1) (- 1074)"
        unfolding True by (rule ilog2_unique) (simp_all add: two_pow_less [symmetric])
      with r show ?thesis
        by (intro round64_grid [of _ 1 "max (?l + 1) (- 1074)"]) (simp_all add: True ulp_exp_def)
    next
      case False
      with up have "?r < two_pow (max (?l + 1) (- 1074))" by simp
      with ilog2_bounds(1) [OF r] have "two_pow (ilog2 ?r) < two_pow (max (?l + 1) (- 1074))" by linarith
      then have "ilog2 ?r < max (?l + 1) (- 1074)" by (simp add: two_pow_less [symmetric])
      then have "ulp_exp ?r \<le> ulp_exp x" by (auto simp: ulp_exp_def)
      with r r_def show ?thesis by (intro round64_grid)
    qed
  qed
  show ?thesis
    using pos [of x] pos [of "- x"]
    by (cases "x = 0") (auto simp: round64_def [of x] round64_minus round64_def [of 0])
qed

lemma is_f64_round64 [simp]: "is_f64 (round64 x)"
  by (simp add: is_f64_def)

lemma round64_0 [simp]: "round64 0 = 0"
  by (simp add: round64_def)

lemma round64_1 [simp]: "round64 1 = 1"
proof -
  have "ilog2 1 = 0" by (rule ilog2_unique) (simp_all add: two_pow_def)
  then show ?thesis
    by (intro round64_grid [of _ 1 0]) (simp_all add: ulp_exp_def two_pow_def)
qed

lemma is_f64_0_1 [simp]: "is_f64 0" "is_f64 1"
  by (simp_all add: is_f64_def)

lemma round64_le_1: "x \<le> 1 \<Longrightarrow> round64 x \<le> 1"
  using round64_mono [of x 1] by simp

lemma round64_le: "is_f64 y \<Longrightarrow> x \<le> y \<Longrightarrow> round64 x \<le> y"
  using round64_mono [of x y] by (simp add: is_f64_def)

lemma round64_ge: "is_f64 x \<Longrightarrow> x \<le> y \<Longrightarrow> x \<le> round64 y"
  using round64_mono [of x y] by (simp add: is_f64_def)

section \<open>Operations\<close>

definition f64_add :: "f64 \<Rightarrow> f64 \<Rightarrow> f64" where "f64_add x y = round64 (x + y)"
definition f64_sub :: "f64 \<Rightarrow> f64 \<Rightarrow> f64" where "f64_sub x y = round64 (x - y)"
definition f64_mul :: "f64 \<Rightarrow> f64 \<Rightarrow> f64" where "f64_mul x y = round64 (x * y)"
definition f64_div :: "f64 \<Rightarrow> f64 \<Rightarrow> f64" where "f64_div x y = round64 (x / y)"

text \<open>\<open>f64::round\<close>: half away from zero.\<close>

definition f64_round :: "f64 \<Rightarrow> f64" where
  "f64_round x = (if 0 \<le> x then of_int \<lfloor>x + 1 / 2\<rfloor> else - of_int \<lfloor>- x + 1 / 2\<rfloor>)"

text \<open>A decimal literal is the nearest double.\<close>

definition f64_lit :: "rat \<Rightarrow> f64" where "f64_lit x = round64 x"

lemma f64_lit_bounds: "0 \<le> x \<Longrightarrow> 0 \<le> f64_lit x" "x \<le> 1 \<Longrightarrow> f64_lit x \<le> 1" "is_f64 (f64_lit x)"
  by (simp_all add: f64_lit_def round64_nonneg round64_le_1)

lemma f64_lit_mono: "x \<le> y \<Longrightarrow> f64_lit x \<le> f64_lit y"
  by (simp add: f64_lit_def round64_mono)

lemma is_f64_ops [simp]:
  "is_f64 (f64_add x y)" "is_f64 (f64_sub x y)" "is_f64 (f64_mul x y)" "is_f64 (f64_div x y)"
  "is_f64 (f64_lit x)"
  by (simp_all add: f64_add_def f64_sub_def f64_mul_def f64_div_def f64_lit_def)

lemma is_f64_min_max [simp]: "is_f64 x \<Longrightarrow> is_f64 y \<Longrightarrow> is_f64 (min x y)"
  "is_f64 x \<Longrightarrow> is_f64 y \<Longrightarrow> is_f64 (max x y)"
  by (simp_all add: min_def max_def)

end
