(* ===== verification/Note_Store.thy ===== *)
theory Note_Store
  imports Json_Value Float64
begin

text \<open>
  The note writer: \<open>storage/writer.rs\<close>, \<open>storage/sessions_writer.rs\<close> and the trust rules of
  \<open>lib.rs\<close>. The database is the record of its tables; every SQL statement is one
  \<open>sql_exec\<close> or \<open>sql_query\<close> that can fail on its own. serde_json and SQLite's JSON
  functions are the fields of \<open>json_lib\<close>; the two clocks a write reads (Rust's and
  SQLite's) are arguments.
\<close>

section \<open>Tables\<close>

record note_insert =
  ni_id :: ustr
  ni_content :: ustr
  ni_layer :: ustr
  ni_category :: "ustr option"
  ni_is_active :: bool
  ni_confidence :: "f64 option"
  ni_agent_id :: "ustr option"
  ni_project_id :: "ustr option"
  ni_created_at :: "ustr option"
  ni_updated_at :: "ustr option"
  ni_valid_at :: "f64 option"
  ni_session_id :: "ustr option"
  ni_review_after :: "ustr option"
  ni_metadata_json :: "ustr option"
  ni_vector_json :: "ustr option"
  ni_vector_blob :: "bytes option"
  ni_evolution_state :: "ustr option"
  ni_topic_key :: "ustr option"
  ni_is_head :: bool
  ni_room :: "ustr option"
  ni_agent :: "ustr option"
  ni_difficulty :: "int option"
  ni_time_cost_hint :: "ustr option"
  ni_related_ids_json :: "ustr option"
  ni_role :: "ustr option"
  ni_version :: "int option"
  ni_root_id :: "ustr option"
  ni_source :: "ustr option"
  ni_created_by :: "ustr option"
  ni_event_when :: "ustr option"
  ni_event_when_ts :: "f64 option"

text \<open>\<open>NoteInsert::default()\<close>\<close>

definition note_insert_default :: note_insert where
  "note_insert_default =
     \<lparr>ni_id = [], ni_content = [], ni_layer = [], ni_category = None, ni_is_active = False,
      ni_confidence = None, ni_agent_id = None, ni_project_id = None, ni_created_at = None,
      ni_updated_at = None, ni_valid_at = None, ni_session_id = None, ni_review_after = None,
      ni_metadata_json = None, ni_vector_json = None, ni_vector_blob = None,
      ni_evolution_state = None, ni_topic_key = None, ni_is_head = False, ni_room = None,
      ni_agent = None, ni_difficulty = None, ni_time_cost_hint = None, ni_related_ids_json = None,
      ni_role = None, ni_version = None, ni_root_id = None, ni_source = None, ni_created_by = None,
      ni_event_when = None, ni_event_when_ts = None\<rparr>"

text \<open>A row of \<open>notes\<close>: the columns the upsert writes and the trust and archive columns.\<close>

record note_row =
  nr_id :: ustr
  nr_content :: ustr
  nr_layer :: ustr
  nr_category :: "ustr option"
  nr_is_active :: int
  nr_confidence :: "f64 option"
  nr_agent_id :: "ustr option"
  nr_project_id :: "ustr option"
  nr_created_at :: "ustr option"
  nr_updated_at :: "ustr option"
  nr_valid_at :: "f64 option"
  nr_session_id :: "ustr option"
  nr_metadata_json :: "ustr option"
  nr_vector_json :: "ustr option"
  nr_vector_blob :: "bytes option"
  nr_evolution_state :: "ustr option"
  nr_topic_key :: "ustr option"
  nr_is_head :: "int option"
  nr_review_after :: "ustr option"
  nr_room :: "ustr option"
  nr_agent :: "ustr option"
  nr_difficulty :: "int option"
  nr_time_cost_hint :: "ustr option"
  nr_related_ids_json :: "ustr option"
  nr_role :: "ustr option"
  nr_version :: "int option"
  nr_root_id :: "ustr option"
  nr_source :: "ustr option"
  nr_created_by :: "ustr option"
  nr_event_when :: "ustr option"
  nr_event_when_ts :: "f64 option"
  nr_confirmed_at :: "int option"
  nr_cold_storage_ref :: "ustr option"

record session_row =
  sr_session_id :: ustr
  sr_agent_label :: "ustr option"
  sr_actor_id :: "ustr option"
  sr_project_id :: "ustr option"
  sr_first_seen :: ustr
  sr_last_seen :: ustr

record note_event =
  ne_note_id :: ustr
  ne_event_type :: ustr
  ne_related_note_id :: "ustr option"
  ne_payload_json :: "ustr option"
  ne_created_at :: ustr

record relation_row =
  rel_from :: ustr
  rel_to :: ustr
  rel_type :: ustr
  rel_strength :: f64

record dream_row =
  dr_id :: ustr
  dr_confidence :: "f64 option"
  dr_evidence_ids :: "ustr option"
  dr_verdict :: "ustr option"
  dr_promoted_to :: "ustr option"
  dr_writer_status :: "ustr option"
  dr_writer_reason :: "ustr option"
  dr_evaluated_at :: "ustr option"

record notes_db =
  note_rows :: "note_row list"
  notes_fts :: "(ustr \<times> ustr) list"
  sessions :: "session_row list"
  note_events :: "note_event list"
  note_relations :: "relation_row list"
  dream_candidates :: "dream_row list option"
  notes_columns :: "ustr list"

datatype note_stmt =
    UpsertNote | DeleteFts | InsertFts | UpsertSession
  | DeactivateCheckpoints
  | SelectOutcome | UpdateOutcome
  | TableInfo ustr | SelectTrust
  | SelectEdges | UpdateEdges | InsertEvent ustr "ustr option"
  | DreamTableExists | SelectDreams | UpdateDream ustr
  | SupersedeNote | SelectMetadata | UpdateMetadata | InsertRelation
  | SelectStrength | InsertStrength | UpdateStrength
  | StampLineage

record json_lib =
  jl_parse :: "ustr \<Rightarrow> json option"
  jl_print :: "json \<Rightarrow> ustr option"
  jl_value_to_string :: "json \<Rightarrow> ustr"
  jl_json_valid :: "ustr \<Rightarrow> bool"
  jl_extract_text :: "ustr \<Rightarrow> ustr \<Rightarrow> ustr option"

text \<open>The two clocks of a write: \<open>Utc::now\<close> in three formats and SQLite's \<open>'now'\<close>.\<close>

record write_clock =
  wc_now :: ustr
  wc_now_rfc3339 :: ustr
  wc_sql_now :: ustr

section \<open>Trust rules\<close>

definition TRUSTED_MEMORY_SOURCES :: "ustr list" where
  "TRUSTED_MEMORY_SOURCES = [lit ''user'', lit ''checkpoint'']"

definition AI_PROVISIONAL_SOURCES :: "ustr list" where
  "AI_PROVISIONAL_SOURCES =
     [lit ''ai'', lit ''ai_extraction'', lit ''ai_proposal'', lit ''dream_promoter'', lit ''external_ai'']"

definition source_matches :: "ustr \<Rightarrow> ustr list \<Rightarrow> bool" where
  "source_matches source allowed =
     list_ex (\<lambda>allowed_source. eq_ignore_ascii_case (trim source) allowed_source) allowed"

definition is_trusted_memory_source :: "ustr \<Rightarrow> bool" where
  "is_trusted_memory_source source = source_matches source TRUSTED_MEMORY_SOURCES"

definition is_ai_provisional_source :: "ustr \<Rightarrow> bool" where
  "is_ai_provisional_source source = source_matches source AI_PROVISIONAL_SOURCES"

definition allows_strengthening :: "ustr option \<Rightarrow> bool \<Rightarrow> bool \<Rightarrow> bool" where
  "allows_strengthening source confirmed trust_missing_source =
     (confirmed \<or>
      (case source of None \<Rightarrow> trust_missing_source | Some s \<Rightarrow> is_trusted_memory_source s))"

section \<open>Upserting a note\<close>

definition coalesce :: "'a option \<Rightarrow> 'a option \<Rightarrow> 'a option" where
  "coalesce a b = (case a of None \<Rightarrow> b | Some x \<Rightarrow> Some x)"

lemma coalesce_simps [simp]: "coalesce None b = b" "coalesce (Some x) b = Some x" "coalesce a None = a"
  by (simp_all add: coalesce_def split: option.splits)

definition inserted_row :: "ustr \<Rightarrow> note_insert \<Rightarrow> note_row" where
  "inserted_row now n =
     \<lparr>nr_id = ni_id n, nr_content = ni_content n, nr_layer = ni_layer n, nr_category = ni_category n,
      nr_is_active = (if ni_is_active n then 1 else 0), nr_confidence = ni_confidence n,
      nr_agent_id = ni_agent_id n, nr_project_id = ni_project_id n,
      nr_created_at = coalesce (ni_created_at n) (Some now), nr_updated_at = ni_updated_at n,
      nr_valid_at = ni_valid_at n, nr_session_id = ni_session_id n,
      nr_metadata_json = ni_metadata_json n, nr_vector_json = ni_vector_json n,
      nr_vector_blob = ni_vector_blob n,
      nr_evolution_state = coalesce (ni_evolution_state n) (Some (lit ''active'')),
      nr_topic_key = ni_topic_key n, nr_is_head = Some (if ni_is_head n then 1 else 0),
      nr_review_after = ni_review_after n, nr_room = ni_room n, nr_agent = ni_agent n,
      nr_difficulty = ni_difficulty n, nr_time_cost_hint = ni_time_cost_hint n,
      nr_related_ids_json = ni_related_ids_json n, nr_role = ni_role n,
      nr_version = coalesce (ni_version n) (Some 1),
      nr_root_id = coalesce (ni_root_id n) (Some (ni_id n)),
      nr_source = ni_source n, nr_created_by = ni_created_by n,
      nr_event_when = ni_event_when n, nr_event_when_ts = ni_event_when_ts n,
      nr_confirmed_at = None, nr_cold_storage_ref = None\<rparr>"

text \<open>\<open>given IS NOT NULL AND column IS NOT given\<close>\<close>

definition changes_to :: "'a option \<Rightarrow> 'a option \<Rightarrow> bool" where
  "changes_to given column \<longleftrightarrow> given \<noteq> None \<and> column \<noteq> given"

definition material_change :: "note_insert \<Rightarrow> note_row \<Rightarrow> note_row \<Rightarrow> bool" where
  "material_change n excluded row \<longleftrightarrow>
     nr_content row \<noteq> nr_content excluded \<or>
     nr_layer row \<noteq> nr_layer excluded \<or>
     nr_category row \<noteq> nr_category excluded \<or>
     nr_confidence row \<noteq> nr_confidence excluded \<or>
     nr_is_active row \<noteq> nr_is_active excluded \<or>
     nr_agent_id row \<noteq> nr_agent_id excluded \<or>
     nr_evolution_state row \<noteq> nr_evolution_state excluded \<or>
     nr_version row \<noteq> coalesce (ni_version n) (nr_version row) \<or>
     nr_root_id row \<noteq> coalesce (ni_root_id n) (nr_root_id row) \<or>
     nr_topic_key row \<noteq> nr_topic_key excluded \<or>
     nr_is_head row \<noteq> nr_is_head excluded \<or>
     changes_to (nr_project_id excluded) (nr_project_id row) \<or>
     changes_to (nr_agent excluded) (nr_agent row) \<or>
     changes_to (nr_difficulty excluded) (nr_difficulty row) \<or>
     changes_to (nr_time_cost_hint excluded) (nr_time_cost_hint row) \<or>
     changes_to (nr_related_ids_json excluded) (nr_related_ids_json row) \<or>
     changes_to (nr_role excluded) (nr_role row)"

definition conflict_row :: "ustr \<Rightarrow> note_insert \<Rightarrow> note_row \<Rightarrow> note_row \<Rightarrow> note_row" where
  "conflict_row sql_now n excluded row =
     row\<lparr>nr_content := nr_content excluded,
         nr_layer := nr_layer excluded,
         nr_category := nr_category excluded,
         nr_is_active := nr_is_active excluded,
         nr_confidence := nr_confidence excluded,
         nr_agent_id := nr_agent_id excluded,
         nr_project_id := coalesce (nr_project_id excluded) (nr_project_id row),
         nr_updated_at :=
           (if material_change n excluded row then
              (if changes_to (nr_updated_at excluded) (nr_updated_at row)
               then nr_updated_at excluded else Some sql_now)
            else nr_updated_at row),
         nr_valid_at := coalesce (nr_valid_at excluded) (nr_valid_at row),
         nr_session_id := coalesce (nr_session_id excluded) (nr_session_id row),
         nr_metadata_json := nr_metadata_json excluded,
         nr_vector_json := nr_vector_json excluded,
         nr_vector_blob := nr_vector_blob excluded,
         nr_evolution_state :=
           (if nr_evolution_state excluded \<noteq> Some (lit ''active'') then nr_evolution_state excluded
            else coalesce (nr_evolution_state row) (Some (lit ''active''))),
         nr_topic_key := coalesce (nr_topic_key excluded) (nr_topic_key row),
         nr_is_head := coalesce (nr_is_head excluded) (coalesce (nr_is_head row) (Some 1)),
         nr_review_after := coalesce (nr_review_after excluded) (nr_review_after row),
         nr_room := coalesce (nr_room excluded) (nr_room row),
         nr_agent := coalesce (nr_agent excluded) (nr_agent row),
         nr_difficulty := coalesce (nr_difficulty excluded) (nr_difficulty row),
         nr_time_cost_hint := coalesce (nr_time_cost_hint excluded) (nr_time_cost_hint row),
         nr_related_ids_json := coalesce (nr_related_ids_json excluded) (nr_related_ids_json row),
         nr_role := coalesce (nr_role excluded) (nr_role row),
         nr_source := coalesce (nr_source excluded) (nr_source row),
         nr_created_by := coalesce (nr_created_by excluded) (nr_created_by row),
         nr_event_when := nr_event_when excluded,
         nr_event_when_ts := nr_event_when_ts excluded,
         nr_version := coalesce (ni_version n) (nr_version row),
         nr_root_id := coalesce (ni_root_id n) (nr_root_id row)\<rparr>"

definition upsert_note_row :: "write_clock \<Rightarrow> note_insert \<Rightarrow> note_row list \<Rightarrow> note_row list" where
  "upsert_note_row c n rows =
     (let excluded = inserted_row (wc_now c) n
      in case row_get nr_id (ni_id n) rows of
           None \<Rightarrow> rows @ [excluded]
         | Some _ \<Rightarrow>
             row_update (\<lambda>r. nr_id r = ni_id n) (conflict_row (wc_sql_now c) n excluded) rows)"

definition upsert_session ::
  "note_stmt faults \<Rightarrow> ustr \<Rightarrow> ustr option \<Rightarrow> ustr option \<Rightarrow> ustr option \<Rightarrow> ustr \<Rightarrow>
   ('a notes_db_scheme, sql_error, unit) op" where
  "upsert_session flt sid agent_label aid project_id now =
     sql_exec (flt UpsertSession) (\<lambda>db.
       (db\<lparr>sessions :=
          (case row_get sr_session_id sid (sessions db) of
             None \<Rightarrow> sessions db @ [\<lparr>sr_session_id = sid, sr_agent_label = agent_label,
                       sr_actor_id = aid, sr_project_id = project_id, sr_first_seen = now,
                       sr_last_seen = now\<rparr>]
           | Some _ \<Rightarrow>
               row_update (\<lambda>r. sr_session_id r = sid)
                 (\<lambda>r. r\<lparr>sr_last_seen := now,
                        sr_project_id := coalesce (sr_project_id r) project_id\<rparr>) (sessions db))\<rparr>, ()))"

definition upsert_note ::
  "note_stmt faults \<Rightarrow> write_clock \<Rightarrow> note_insert \<Rightarrow> ('a notes_db_scheme, sql_error, unit) op" where
  "upsert_note flt c n =
     op_bind (sql_exec (flt UpsertNote) (\<lambda>db. (db\<lparr>note_rows := upsert_note_row c n (note_rows db)\<rparr>, ())))
    (\<lambda>_. op_bind (sql_exec (flt DeleteFts)
             (\<lambda>db. (db\<lparr>notes_fts := row_delete (\<lambda>e. fst e = ni_id n) (notes_fts db)\<rparr>, ())))
    (\<lambda>_. op_bind (sql_exec (flt InsertFts)
             (\<lambda>db. (db\<lparr>notes_fts := notes_fts db @ [(ni_id n, ni_content n)]\<rparr>, ())))
    (\<lambda>_. case ni_session_id n of
           Some sid \<Rightarrow> upsert_session flt sid (ni_agent n) None (ni_project_id n) (wc_now c)
         | None \<Rightarrow> op_return ())))"

section \<open>Events and relations\<close>

definition insert_note_event ::
  "note_stmt faults \<Rightarrow> write_clock \<Rightarrow> ustr \<Rightarrow> ustr \<Rightarrow> ustr option \<Rightarrow> ustr option \<Rightarrow>
   ('a notes_db_scheme, sql_error, unit) op" where
  "insert_note_event flt c note_id event_type related payload =
     sql_exec (flt (InsertEvent event_type related)) (\<lambda>db.
       (db\<lparr>note_events := note_events db @ [\<lparr>ne_note_id = note_id, ne_event_type = event_type,
          ne_related_note_id = related, ne_payload_json = payload, ne_created_at = wc_sql_now c\<rparr>]\<rparr>, ()))"

definition rel_key :: "relation_row \<Rightarrow> ustr \<times> ustr \<times> ustr" where
  "rel_key r = (rel_from r, rel_to r, rel_type r)"

text \<open>\<open>INSERT OR IGNORE\<close> on the primary key.\<close>

definition insert_note_relation ::
  "note_stmt faults \<Rightarrow> ustr \<Rightarrow> ustr \<Rightarrow> ustr \<Rightarrow> f64 \<Rightarrow> ('a notes_db_scheme, sql_error, unit) op" where
  "insert_note_relation flt a b ty strength =
     sql_exec (flt InsertRelation) (\<lambda>db.
       (db\<lparr>note_relations :=
          (case row_get rel_key (a, b, ty) (note_relations db) of
             Some _ \<Rightarrow> note_relations db
           | None \<Rightarrow> note_relations db @
               [\<lparr>rel_from = a, rel_to = b, rel_type = ty, rel_strength = strength\<rparr>])\<rparr>, ()))"

definition insert_strength ::
  "note_stmt faults \<Rightarrow> ustr \<Rightarrow> ustr \<Rightarrow> ustr \<Rightarrow> f64 \<Rightarrow> ('a notes_db_scheme, sql_error, unit) op" where
  "insert_strength flt a b ty strength =
     sql_exec (flt InsertStrength) (\<lambda>db.
       (db\<lparr>note_relations := note_relations db @
          [\<lparr>rel_from = a, rel_to = b, rel_type = ty, rel_strength = strength\<rparr>]\<rparr>, ()))"

definition set_strength ::
  "note_stmt faults \<Rightarrow> ustr \<Rightarrow> ustr \<Rightarrow> ustr \<Rightarrow> f64 \<Rightarrow> ('a notes_db_scheme, sql_error, unit) op" where
  "set_strength flt a b ty strength =
     sql_exec (flt UpdateStrength) (\<lambda>db.
       (db\<lparr>note_relations := row_update (\<lambda>r. rel_key r = (a, b, ty))
          (\<lambda>r. r\<lparr>rel_strength := strength\<rparr>) (note_relations db)\<rparr>, ()))"

definition select_strength ::
  "note_stmt faults \<Rightarrow> ustr \<Rightarrow> ustr \<Rightarrow> ustr \<Rightarrow> ('a notes_db_scheme, sql_error, f64 option) op" where
  "select_strength flt a b ty =
     sql_query (flt SelectStrength)
       (\<lambda>db. map_option rel_strength (row_get rel_key (a, b, ty) (note_relations db)))"

definition upsert_note_relation_max ::
  "note_stmt faults \<Rightarrow> ustr \<Rightarrow> ustr \<Rightarrow> ustr \<Rightarrow> f64 \<Rightarrow>
   ('a notes_db_scheme, sql_error, ustr \<times> f64) op" where
  "upsert_note_relation_max flt a b ty strength =
     op_bind (select_strength flt a b ty) (\<lambda>existing.
       case existing of
         None \<Rightarrow>
           op_bind (insert_strength flt a b ty strength) (\<lambda>_. op_return (lit ''created'', strength))
       | Some current \<Rightarrow>
           let next = max current strength
           in if next \<noteq> current
              then op_bind (set_strength flt a b ty next) (\<lambda>_. op_return (lit ''updated'', next))
              else op_return (lit ''unchanged'', current))"

definition strengthen_note_relation ::
  "note_stmt faults \<Rightarrow> ustr \<Rightarrow> ustr \<Rightarrow> ustr \<Rightarrow> f64 \<Rightarrow> f64 \<Rightarrow>
   ('a notes_db_scheme, sql_error, ustr \<times> f64) op" where
  "strengthen_note_relation flt a b ty initial_strength delta =
     op_bind (select_strength flt a b ty) (\<lambda>existing.
       case existing of
         None \<Rightarrow>
           op_bind (insert_strength flt a b ty initial_strength)
             (\<lambda>_. op_return (lit ''created'', initial_strength))
       | Some current \<Rightarrow>
           let next = min (f64_add current delta) 1
           in if next \<noteq> current
              then op_bind (set_strength flt a b ty next) (\<lambda>_. op_return (lit ''strengthened'', next))
              else op_return (lit ''unchanged'', current))"

definition stamp_note_lineage ::
  "note_stmt faults \<Rightarrow> ustr \<Rightarrow> ustr option \<Rightarrow> int option \<Rightarrow> ustr option \<Rightarrow>
   ('a notes_db_scheme, sql_error, nat) op" where
  "stamp_note_lineage flt note_id root_id version topic_key =
     sql_exec (flt StampLineage) (\<lambda>db.
       (db\<lparr>note_rows := row_update (\<lambda>r. nr_id r = note_id)
          (\<lambda>r. r\<lparr>nr_root_id := coalesce root_id (nr_root_id r),
                 nr_version := coalesce version (nr_version r),
                 nr_topic_key := coalesce topic_key (nr_topic_key r)\<rparr>) (note_rows db)\<rparr>,
        row_count (\<lambda>r. nr_id r = note_id) (note_rows db)))"

end
