(* ===== verification/Note_Feedback.thy ===== *)
theory Note_Feedback
  imports Note_Store
begin

text \<open>
  Outcomes and lineage: the rest of \<open>storage/writer.rs\<close>. A reported outcome moves a note's
  confidence and counters, strengthens or decays the relations around it and the dream
  candidates it was promoted from; a superseded note is retired with its history kept.
\<close>

definition HEBBIAN_CONFIRM_DELTA :: f64 where "HEBBIAN_CONFIRM_DELTA = f64_lit 0.05"
definition HEBBIAN_CORRECT_DECAY :: f64 where "HEBBIAN_CORRECT_DECAY = f64_lit 0.85"
definition HEBBIAN_OUTDATED_DECAY :: f64 where "HEBBIAN_OUTDATED_DECAY = f64_lit 0.70"
definition DREAM_CONFIRM_DELTA :: f64 where "DREAM_CONFIRM_DELTA = f64_lit 0.05"
definition DREAM_CORRECT_DECAY :: f64 where "DREAM_CORRECT_DECAY = f64_lit 0.75"
definition DREAM_OUTDATED_DECAY :: f64 where "DREAM_OUTDATED_DECAY = f64_lit 0.50"

section \<open>Checkpoints\<close>

definition deactivate_checkpoints_by_task_id ::
  "json_lib \<Rightarrow> note_stmt faults \<Rightarrow> ustr \<Rightarrow> ustr option \<Rightarrow> ('a notes_db_scheme, sql_error, nat) op" where
  "deactivate_checkpoints_by_task_id J flt task_id exclude_id =
     sql_exec (flt DeactivateCheckpoints) (\<lambda>db.
       let hit = (\<lambda>r. nr_layer r = lit ''event_log'' \<and> nr_is_active r = 1 \<and>
               (case nr_metadata_json r of
                  None \<Rightarrow> False
                | Some m \<Rightarrow> jl_json_valid J m \<and>
                    jl_extract_text J m (lit ''$.record_type'') = Some (lit ''checkpoint'') \<and>
                    jl_extract_text J m (lit ''$.task_id'') = Some task_id) \<and>
               (case exclude_id of None \<Rightarrow> True | Some x \<Rightarrow> nr_id r \<noteq> x))
       in (db\<lparr>note_rows := row_update hit (\<lambda>r. r\<lparr>nr_is_active := 0\<rparr>) (note_rows db)\<rparr>,
           row_count hit (note_rows db)))"

section \<open>Outcome of a note\<close>

definition no_rows :: sql_error where "no_rows = lit ''Query returned no rows''"

definition metadata_unserializable :: sql_error where
  "metadata_unserializable = lit ''metadata serialize''"

text \<open>\<open>serde_json::from_str\<close> into a map, with \<open>ok\<close> and \<open>unwrap_or_default\<close>.\<close>

definition parse_map :: "json_lib \<Rightarrow> ustr option \<Rightarrow> json_map" where
  "parse_map J s =
     (case Option.bind s (jl_parse J) of Some (JObj m) \<Rightarrow> m | _ \<Rightarrow> [])"

definition counter :: "ustr \<Rightarrow> json_map \<Rightarrow> int" where
  "counter k m = (case Option.bind (map_of m k) as_i64 of None \<Rightarrow> 0 | Some n \<Rightarrow> n)"

definition insert_reason :: "ustr option \<Rightarrow> json_map \<Rightarrow> json_map" where
  "insert_reason reason m =
     (case reason of None \<Rightarrow> m | Some r \<Rightarrow> map_insert (lit ''last_outcome_reason'') (JStr r) m)"

text \<open>The match on the outcome: confidence, success and failure counters, metadata.\<close>

definition outcome_effect ::
  "ustr \<Rightarrow> ustr option \<Rightarrow> f64 \<Rightarrow> int \<Rightarrow> int \<Rightarrow> json_map \<Rightarrow> (f64 \<times> int \<times> int \<times> json_map) option" where
  "outcome_effect outcome reason conf success failure meta =
     (if outcome = lit ''confirmed'' then
        Some (min (f64_add conf (f64_lit 0.01)) (f64_lit 0.99), i64_wrap (success + 1), failure, meta)
      else if outcome = lit ''corrected'' then
        Some (max (f64_sub conf (f64_lit 0.05)) (f64_lit 0.1), success, i64_wrap (failure + 1),
              insert_reason reason (map_insert (lit ''is_corrected'') (JBool True) meta))
      else if outcome = lit ''outdated'' then
        Some (max (f64_sub conf (f64_lit 0.10)) (f64_lit 0.1), success, i64_wrap (failure + 1),
              insert_reason reason (map_insert (lit ''is_outdated'') (JBool True) meta))
      else None)"

definition atomic_update_outcome ::
  "json_lib \<Rightarrow> note_stmt faults \<Rightarrow> ustr \<Rightarrow> ustr \<Rightarrow> ustr option \<Rightarrow> ('a notes_db_scheme, sql_error, bool) op" where
  "atomic_update_outcome J flt note_id outcome reason =
     op_bind (sql_query (flt SelectOutcome)
                (\<lambda>db. find (\<lambda>r. nr_id r = note_id \<and> nr_is_active r = 1) (note_rows db)))
    (\<lambda>found. case found of
       None \<Rightarrow> op_fail no_rows
     | Some row \<Rightarrow>
         let meta = parse_map J (nr_metadata_json row);
             conf = (case nr_confidence row of None \<Rightarrow> f64_lit 0.9 | Some x \<Rightarrow> x)
         in case outcome_effect outcome reason conf (counter (lit ''success_count'') meta)
                   (counter (lit ''failure_count'') meta) meta of
              None \<Rightarrow> op_return False
            | Some (new_conf, success, failure, meta1) \<Rightarrow>
                (case jl_print J (JObj (map_insert (lit ''failure_count'') (JInt failure)
                        (map_insert (lit ''success_count'') (JInt success) meta1))) of
                   None \<Rightarrow> op_fail metadata_unserializable
                 | Some new_meta \<Rightarrow>
                     op_bind (sql_exec (flt UpdateOutcome) (\<lambda>db.
                        (db\<lparr>note_rows := row_update (\<lambda>r. nr_id r = note_id)
                           (\<lambda>r. r\<lparr>nr_metadata_json := Some new_meta, nr_confidence := Some new_conf\<rparr>)
                           (note_rows db)\<rparr>, ())))
                       (\<lambda>_. op_return True)))"

section \<open>Hebbian feedback\<close>

definition has_column :: "ustr \<Rightarrow> 'a notes_db_scheme \<Rightarrow> bool" where
  "has_column col db = list_ex (\<lambda>c. eq_ignore_ascii_case c col) (notes_columns db)"

definition is_trusted_for_strengthening ::
  "note_stmt faults \<Rightarrow> ustr \<Rightarrow> ('a notes_db_scheme, sql_error, bool) op" where
  "is_trusted_for_strengthening flt note_id =
     op_bind (sql_query (flt (TableInfo (lit ''source''))) (has_column (lit ''source''))) (\<lambda>has_source.
     op_bind (sql_query (flt (TableInfo (lit ''confirmed_at''))) (has_column (lit ''confirmed_at'')))
      (\<lambda>has_confirmed.
     op_bind (sql_query (flt SelectTrust) (\<lambda>db. row_get nr_id note_id (note_rows db)))
      (\<lambda>found. op_return
        (case found of
           None \<Rightarrow> False
         | Some r \<Rightarrow> allows_strengthening (if has_source then nr_source r else None)
                       (has_confirmed \<and> nr_confirmed_at r \<noteq> None) True))))"

definition HEBBIAN_TYPES :: "ustr list" where
  "HEBBIAN_TYPES = [lit ''supports'', lit ''refines'', lit ''overlaps'', lit ''co_activated'']"

definition hebbian_edge :: "ustr \<Rightarrow> relation_row \<Rightarrow> bool" where
  "hebbian_edge note_id r \<longleftrightarrow>
     (rel_from r = note_id \<or> rel_to r = note_id) \<and> rel_type r \<in> set HEBBIAN_TYPES"

definition hebbian_feedback_edges ::
  "note_stmt faults \<Rightarrow> ustr \<Rightarrow> ('a notes_db_scheme, sql_error, relation_row list) op" where
  "hebbian_feedback_edges flt note_id =
     sql_query (flt SelectEdges) (\<lambda>db.
       sort_key rel_from (sort_key rel_to (sort_key rel_type
         (filter (hebbian_edge note_id) (note_relations db)))))"

definition hebbian_strength :: "ustr \<Rightarrow> f64 \<Rightarrow> f64" where
  "hebbian_strength outcome s =
     (if outcome = lit ''confirmed'' then min (f64_add s HEBBIAN_CONFIRM_DELTA) 1
      else if outcome = lit ''corrected'' then max (f64_mul s HEBBIAN_CORRECT_DECAY) 0
      else if outcome = lit ''outdated'' then max (f64_mul s HEBBIAN_OUTDATED_DECAY) 0
      else s)"

definition known_outcome :: "ustr \<Rightarrow> bool" where
  "known_outcome outcome \<longleftrightarrow> outcome \<in> {lit ''confirmed'', lit ''corrected'', lit ''outdated''}"

definition hebbian_payload :: "ustr \<Rightarrow> relation_row \<Rightarrow> json" where
  "hebbian_payload outcome edge =
     JObj [(lit ''outcome'', JStr outcome), (lit ''from_note_id'', JStr (rel_from edge)),
           (lit ''to_note_id'', JStr (rel_to edge)), (lit ''relation_type'', JStr (rel_type edge)),
           (lit ''before_strength'', JFloat (rel_strength edge)),
           (lit ''after_strength'', JFloat (hebbian_strength outcome (rel_strength edge)))]"

definition apply_hebbian_feedback ::
  "json_lib \<Rightarrow> note_stmt faults \<Rightarrow> write_clock \<Rightarrow> ustr \<Rightarrow> ustr \<Rightarrow> ('a notes_db_scheme, sql_error, nat) op" where
  "apply_hebbian_feedback J flt c note_id outcome =
     op_bind (if outcome = lit ''confirmed'' then is_trusted_for_strengthening flt note_id
              else op_return True)
    (\<lambda>trusted.
       if \<not> trusted then op_return 0
       else if \<not> known_outcome outcome then op_return 0
       else
         op_bind (hebbian_feedback_edges flt note_id) (\<lambda>before_edges.
         op_bind (sql_exec (flt UpdateEdges) (\<lambda>db.
            (db\<lparr>note_relations := row_update (hebbian_edge note_id)
               (\<lambda>r. r\<lparr>rel_strength := hebbian_strength outcome (rel_strength r)\<rparr>) (note_relations db)\<rparr>,
             row_count (hebbian_edge note_id) (note_relations db)))) (\<lambda>affected.
         op_bind (op_each (\<lambda>edge.
            insert_note_event flt c note_id (lit ''hebbian_feedback'')
              (Some (if rel_from edge = note_id then rel_to edge else rel_from edge))
              (Some (jl_value_to_string J (hebbian_payload outcome edge)))) before_edges)
           (\<lambda>_. op_return affected))))"

section \<open>Dream feedback\<close>

definition dream_confidence :: "ustr \<Rightarrow> f64 \<Rightarrow> f64" where
  "dream_confidence outcome x =
     (if outcome = lit ''confirmed'' then min (f64_add x DREAM_CONFIRM_DELTA) 1
      else if outcome = lit ''corrected'' then max (f64_mul x DREAM_CORRECT_DECAY) 0
      else if outcome = lit ''outdated'' then max (f64_mul x DREAM_OUTDATED_DECAY) 0
      else x)"

definition dream_status :: "ustr \<Rightarrow> ustr" where
  "dream_status outcome =
     (if outcome = lit ''confirmed'' then lit ''feedback_confirmed''
      else if outcome = lit ''corrected'' then lit ''feedback_corrected''
      else lit ''feedback_outdated'')"

definition opt_json :: "ustr option \<Rightarrow> json" where
  "opt_json x = (case x of None \<Rightarrow> JNull | Some s \<Rightarrow> JStr s)"

definition dream_before :: "dream_row \<Rightarrow> f64" where
  "dream_before r = (case dr_confidence r of None \<Rightarrow> 0 | Some x \<Rightarrow> x)"

definition dream_payload :: "ustr \<Rightarrow> ustr option \<Rightarrow> dream_row \<Rightarrow> json" where
  "dream_payload outcome reason r =
     JObj [(lit ''candidate_id'', JStr (dr_id r)), (lit ''outcome'', JStr outcome),
           (lit ''before_confidence'', JFloat (dream_before r)),
           (lit ''after_confidence'', JFloat (dream_confidence outcome (dream_before r))),
           (lit ''evidence_ids'', opt_json (dr_evidence_ids r)), (lit ''reason'', opt_json reason)]"

definition update_dream ::
  "note_stmt faults \<Rightarrow> write_clock \<Rightarrow> ustr \<Rightarrow> ustr option \<Rightarrow> dream_row \<Rightarrow>
   ('a notes_db_scheme, sql_error, nat) op" where
  "update_dream flt c outcome reason cand =
     sql_exec (flt (UpdateDream (dr_id cand))) (\<lambda>db.
       case dream_candidates db of
         None \<Rightarrow> (db, 0)
       | Some rows \<Rightarrow>
           (db\<lparr>dream_candidates := Some (row_update (\<lambda>r. dr_id r = dr_id cand)
              (\<lambda>r. r\<lparr>dr_confidence := Some (dream_confidence outcome (dream_before cand)),
                     dr_writer_status := Some (dream_status outcome),
                     dr_writer_reason := reason,
                     dr_evaluated_at := coalesce (dr_evaluated_at r) (Some (wc_now_rfc3339 c))\<rparr>) rows)\<rparr>,
            row_count (\<lambda>r. dr_id r = dr_id cand) rows))"

fun dream_loop ::
  "json_lib \<Rightarrow> note_stmt faults \<Rightarrow> write_clock \<Rightarrow> ustr \<Rightarrow> ustr \<Rightarrow> ustr option \<Rightarrow> dream_row list \<Rightarrow> nat \<Rightarrow>
   ('a notes_db_scheme, sql_error, nat) op" where
  "dream_loop J flt c note_id outcome reason [] affected = op_return affected"
| "dream_loop J flt c note_id outcome reason (cand # cands) affected =
     (if \<not> known_outcome outcome then dream_loop J flt c note_id outcome reason cands affected
      else
        op_bind (update_dream flt c outcome reason cand) (\<lambda>k.
        op_bind (insert_note_event flt c note_id (lit ''dream_feedback'') None
                   (Some (jl_value_to_string J (dream_payload outcome reason cand))))
          (\<lambda>_. dream_loop J flt c note_id outcome reason cands (affected + k))))"

definition apply_dream_feedback ::
  "json_lib \<Rightarrow> note_stmt faults \<Rightarrow> write_clock \<Rightarrow> ustr \<Rightarrow> ustr \<Rightarrow> ustr option \<Rightarrow>
   ('a notes_db_scheme, sql_error, nat) op" where
  "apply_dream_feedback J flt c note_id outcome reason =
     op_bind (sql_query (flt DreamTableExists) (\<lambda>db. dream_candidates db \<noteq> None)) (\<lambda>exists_table.
       if \<not> exists_table then op_return 0
       else
         op_bind (sql_query (flt SelectDreams) (\<lambda>db.
            filter (\<lambda>r. dr_promoted_to r = Some note_id \<and> dr_verdict r = Some (lit ''promoted''))
              (case dream_candidates db of None \<Rightarrow> [] | Some rows \<Rightarrow> rows)))
           (\<lambda>cands. dream_loop J flt c note_id outcome reason cands 0))"

section \<open>Superseding\<close>

definition superseded_state :: "ustr \<Rightarrow> ustr" where
  "superseded_state reason =
     (if reason = lit ''contradiction'' then lit ''contradicted'' else lit ''superseded'')"

definition superseded_meta :: "ustr \<Rightarrow> ustr \<Rightarrow> json_map \<Rightarrow> json_map" where
  "superseded_meta new_id reason meta0 =
     (let meta = map_insert (lit ''is_outdated'') (JBool True)
                   (map_insert (lit ''supersede_reason'') (JStr reason)
                     (map_insert (lit ''superseded_by'') (JStr new_id) meta0));
          prior_success = counter (lit ''success_count'') meta;
          prior_failure = counter (lit ''failure_count'') meta
      in map_insert (lit ''last_outcome_reason'') (JStr (lit ''auto-superseded by '' @ new_id))
           (map_insert (lit ''failure_count'') (JInt (i64_wrap (prior_failure + 1)))
             (map_insert (lit ''success_count'') (JInt prior_success) meta)))"

definition mark_superseded ::
  "json_lib \<Rightarrow> note_stmt faults \<Rightarrow> write_clock \<Rightarrow> ustr \<Rightarrow> ustr \<Rightarrow> ustr \<Rightarrow>
   ('a notes_db_scheme, sql_error, unit) op" where
  "mark_superseded J flt c old_id new_id reason =
     op_bind (sql_exec (flt SupersedeNote) (\<lambda>db.
        (db\<lparr>note_rows := row_update (\<lambda>r. nr_id r = old_id)
           (\<lambda>r. r\<lparr>nr_evolution_state := Some (superseded_state reason), nr_is_head := Some 0,
                  nr_is_active := 0,
                  nr_confidence := Some (max (f64_lit 0.1)
                     (f64_sub (case nr_confidence r of None \<Rightarrow> f64_lit 0.9 | Some x \<Rightarrow> x) (f64_lit 0.1))),
                  nr_updated_at := Some (wc_sql_now c)\<rparr>) (note_rows db)\<rparr>,
         row_count (\<lambda>r. nr_id r = old_id) (note_rows db))))
    (\<lambda>affected. if affected = 0 then op_fail no_rows
     else
       op_bind (sql_query (flt SelectMetadata)
          (\<lambda>db. Option.bind (row_get nr_id old_id (note_rows db)) nr_metadata_json)) (\<lambda>meta_str.
       case jl_print J (JObj (superseded_meta new_id reason (parse_map J meta_str))) of
         None \<Rightarrow> op_fail metadata_unserializable
       | Some new_meta \<Rightarrow>
           op_bind (sql_exec (flt UpdateMetadata) (\<lambda>db.
              (db\<lparr>note_rows := row_update (\<lambda>r. nr_id r = old_id)
                 (\<lambda>r. r\<lparr>nr_metadata_json := Some new_meta\<rparr>) (note_rows db)\<rparr>, ())))
             (\<lambda>_. if superseded_state reason = lit ''superseded''
                  then insert_note_relation flt new_id old_id (lit ''forget_cascade'') 1
                  else op_return ())))"

end
