(* ===== verification/Note_Laws.thy ===== *)
theory Note_Laws
  imports Note_Feedback
begin

text \<open>
  What the note writer guarantees: the search index mirrors the notes, relation strengths
  stay doubles of [0, 1], an upsert keeps what it must keep, feedback moves confidences
  the right way, a superseded note keeps its history.
\<close>

section \<open>Contents are written by the last upsert\<close>

locale content_store =
  fixes put :: "'n \<Rightarrow> 'd \<Rightarrow> 'd"
    and read :: "'d \<Rightarrow> 'k \<Rightarrow> 'c option"
    and key :: "'n \<Rightarrow> 'k"
    and content :: "'n \<Rightarrow> 'c"
  assumes read_put: "read (put n d) k = (if k = key n then Some (content n) else read d k)"
begin

lemma read_fold:
  "read (fold put ns d) k =
     (case find (\<lambda>n. key n = k) (rev ns) of Some n \<Rightarrow> Some (content n) | None \<Rightarrow> read d k)"
proof (induction ns rule: rev_induct)
  case (snoc n ns)
  then show ?case by (simp add: read_put)
qed simp

lemma read_unwritten: "k \<notin> key ` set ns \<Longrightarrow> read (fold put ns d) k = read d k"
  by (induction ns arbitrary: d) (auto simp: read_put)

end

definition row_content :: "note_row list \<Rightarrow> ustr \<Rightarrow> ustr option" where
  "row_content rows k = map_option nr_content (row_get nr_id k rows)"

definition fts_put :: "note_insert \<Rightarrow> (ustr \<times> ustr) list \<Rightarrow> (ustr \<times> ustr) list" where
  "fts_put n idx = row_delete (\<lambda>e. fst e = ni_id n) idx @ [(ni_id n, ni_content n)]"

definition fts_read :: "(ustr \<times> ustr) list \<Rightarrow> ustr \<Rightarrow> ustr option" where
  "fts_read idx k = map_option snd (row_get fst k idx)"

lemma inserted_row_simps [simp]:
  "nr_id (inserted_row now n) = ni_id n" "nr_content (inserted_row now n) = ni_content n"
  by (simp_all add: inserted_row_def)

lemma conflict_row_simps [simp]:
  "nr_id (conflict_row s n e r) = nr_id r" "nr_content (conflict_row s n e r) = nr_content e"
  by (simp_all add: conflict_row_def)

lemma row_get_upsert:
  "row_get nr_id k (upsert_note_row c n rows) =
     (if k = ni_id n
      then Some (case row_get nr_id (ni_id n) rows of
             None \<Rightarrow> inserted_row (wc_now c) n
           | Some r \<Rightarrow> conflict_row (wc_sql_now c) n (inserted_row (wc_now c) n) r)
      else row_get nr_id k rows)"
  by (cases "row_get nr_id (ni_id n) rows")
    (simp_all add: upsert_note_row_def Let_def row_get_append row_get_update_key split: option.splits)

interpretation rows: content_store "\<lambda>(c, n). upsert_note_row c n" row_content
  "\<lambda>(c, n). ni_id n" "\<lambda>(c, n). ni_content n"
  by unfold_locales (auto simp: row_content_def row_get_upsert split: option.splits)

interpretation idx: content_store "\<lambda>(c, n). fts_put n" fts_read "\<lambda>(c, n). ni_id n" "\<lambda>(c, n). ni_content n"
  by unfold_locales (auto simp: fts_put_def fts_read_def row_get_append row_get_delete_key split: option.splits)

section \<open>Runs of the writer\<close>

datatype note_cmd =
    CmdUpsert note_insert
  | CmdDeactivate ustr "ustr option"
  | CmdOutcome ustr ustr "ustr option"
  | CmdHebbian ustr ustr
  | CmdDream ustr ustr "ustr option"
  | CmdSupersede ustr ustr ustr
  | CmdEvent ustr ustr "ustr option" "ustr option"
  | CmdRelation ustr ustr ustr f64
  | CmdRelationMax ustr ustr ustr f64
  | CmdStrengthen ustr ustr ustr f64 f64
  | CmdLineage ustr "ustr option" "int option" "ustr option"

definition op_void :: "('s, 'e, 'a) op \<Rightarrow> ('s, 'e, unit) op" where
  "op_void m = op_bind m (\<lambda>_. op_return ())"

fun run_cmd :: "json_lib \<Rightarrow> note_stmt faults \<Rightarrow> write_clock \<Rightarrow> note_cmd \<Rightarrow> (notes_db, sql_error, unit) op" where
  "run_cmd J flt c (CmdUpsert n) = upsert_note flt c n"
| "run_cmd J flt c (CmdDeactivate t x) = op_void (deactivate_checkpoints_by_task_id J flt t x)"
| "run_cmd J flt c (CmdOutcome k out r) = op_void (atomic_update_outcome J flt k out r)"
| "run_cmd J flt c (CmdHebbian k out) = op_void (apply_hebbian_feedback J flt c k out)"
| "run_cmd J flt c (CmdDream k out r) = op_void (apply_dream_feedback J flt c k out r)"
| "run_cmd J flt c (CmdSupersede a b r) = mark_superseded J flt c a b r"
| "run_cmd J flt c (CmdEvent k ty x p) = insert_note_event flt c k ty x p"
| "run_cmd J flt c (CmdRelation a b ty s) = insert_note_relation flt a b ty s"
| "run_cmd J flt c (CmdRelationMax a b ty s) = op_void (upsert_note_relation_max flt a b ty s)"
| "run_cmd J flt c (CmdStrengthen a b ty s d) = op_void (strengthen_note_relation flt a b ty s d)"
| "run_cmd J flt c (CmdLineage k r v t) = op_void (stamp_note_lineage flt k r v t)"

text \<open>Each command in a transaction of its own: rolled back when it fails.\<close>

definition in_txn :: "('s, 'e, 'a) op \<Rightarrow> 's \<Rightarrow> 's" where
  "in_txn m db = (case m db of (db', Inr _) \<Rightarrow> db' | (_, Inl _) \<Rightarrow> db)"

fun run_cmds :: "json_lib \<Rightarrow> (note_stmt faults \<times> write_clock \<times> note_cmd) list \<Rightarrow> notes_db \<Rightarrow> notes_db" where
  "run_cmds J [] db = db"
| "run_cmds J ((flt, c, cmd) # cmds) db = run_cmds J cmds (in_txn (run_cmd J flt c cmd) db)"

lemma run_cmds_invariant:
  assumes "P db" and "\<And>flt c cmd db. cmd \<in> C \<Longrightarrow> P db \<Longrightarrow> P (in_txn (run_cmd J flt c cmd) db)"
    and "\<forall>(flt, c, cmd) \<in> set cmds. cmd \<in> C"
  shows "P (run_cmds J cmds db)"
  using assms(1,3)
proof (induction cmds arbitrary: db)
  case (Cons x cmds)
  obtain flt c cmd where "x = (flt, c, cmd)" using prod_cases3 by blast
  with Cons assms(2) show ?case by simp
qed simp

lemma in_txn_keeps: "op_keeps P m \<Longrightarrow> P db \<Longrightarrow> P (in_txn m db)"
  using op_keepsD [of P m db] by (auto simp: in_txn_def split: prod.splits sum.splits)

lemma op_keeps_void [keeps_intros]: "op_keeps P m \<Longrightarrow> op_keeps P (op_void m)"
  by (simp add: op_void_def keeps_intros)

lemma op_keeps_Let [keeps_intros]: "op_keeps P (f x) \<Longrightarrow> op_keeps P (let y = x in f y)"
  by simp

lemma op_keeps_case_prod [keeps_intros]:
  "(\<And>a b. op_keeps P (f a b)) \<Longrightarrow> op_keeps P (case z of (a, b) \<Rightarrow> f a b)"
  by (cases z) simp

section \<open>The search index\<close>

definition fts_mirrors :: "'a notes_db_scheme \<Rightarrow> bool" where
  "fts_mirrors db \<longleftrightarrow> keys_ok fst (notes_fts db) \<and>
     (\<forall>k. fts_read (notes_fts db) k = row_content (note_rows db) k)"

lemma fts_put_keys_ok: "keys_ok fst idx \<Longrightarrow> keys_ok fst (fts_put n idx)"
  unfolding fts_put_def by (rule keys_ok_insert) (auto simp: row_get_delete_key)

lemma upsert_note_Ok:
  assumes "upsert_note flt c n db = (db', Ok ())"
  shows "note_rows db' = upsert_note_row c n (note_rows db)" "notes_fts db' = fts_put n (notes_fts db)"
    "note_relations db' = note_relations db" "note_events db' = note_events db"
    "dream_candidates db' = dream_candidates db"
  using assms
  by (auto simp: upsert_note_def upsert_session_def op_bind_def sql_exec_def op_return_def fts_put_def
      split: option.splits)

lemma upsert_note_no_faults:
  "\<exists>db'. upsert_note no_faults c n db = (db', Ok ())"
  by (auto simp: upsert_note_def upsert_session_def op_bind_def sql_exec_def op_return_def split: option.splits)

text \<open>Statements that leave keys and contents of the notes alone keep the mirror.\<close>

lemma row_content_update:
  assumes "\<And>r. nr_id (f r) = nr_id r" "\<And>r. nr_content (f r) = nr_content r"
  shows "row_content (row_update P f rows) k = row_content rows k"
proof -
  have "nr_content \<circ> (\<lambda>r. if P r then f r else r) = nr_content"
    using assms(2) by auto
  then show ?thesis
    by (simp add: row_content_def row_get_update [of nr_id f, OF assms(1)] option.map_comp)
qed

lemma fts_mirrors_keep:
  assumes "fts_mirrors db" "\<And>k. row_content (note_rows db') k = row_content (note_rows db) k"
    "notes_fts db' = notes_fts db"
  shows "fts_mirrors db'"
  using assms by (simp add: fts_mirrors_def)

lemmas cmd_defs = deactivate_checkpoints_by_task_id_def atomic_update_outcome_def
  apply_hebbian_feedback_def is_trusted_for_strengthening_def hebbian_feedback_edges_def
  apply_dream_feedback_def update_dream_def mark_superseded_def insert_note_event_def
  insert_note_relation_def upsert_note_relation_max_def strengthen_note_relation_def
  select_strength_def insert_strength_def set_strength_def stamp_note_lineage_def

lemma fts_mirrors_dream_loop:
  "op_keeps fts_mirrors (dream_loop J flt c k out r cands n)"
proof (induction cands arbitrary: n)
  case Nil
  show ?case by (simp add: keeps_intros)
next
  case (Cons a cands)
  have "op_keeps fts_mirrors (update_dream flt c out r a)"
    unfolding update_dream_def
    by (rule op_keeps_exec) (auto elim: fts_mirrors_keep split: option.splits)
  moreover have "op_keeps fts_mirrors (insert_note_event flt c k ty x p)" for ty x p
    unfolding insert_note_event_def by (rule op_keeps_exec) (auto elim: fts_mirrors_keep)
  ultimately show ?case using Cons by (auto intro!: keeps_intros)
qed

lemma fts_mirrors_cmd:
  assumes "\<And>n. cmd \<noteq> CmdUpsert n"
  shows "op_keeps fts_mirrors (run_cmd J flt c cmd)"
  using assms
  by (cases cmd)
    (auto simp: cmd_defs outcome_effect_def Let_def row_content_update simp del: lit_simps
      intro!: keeps_intros op_keeps_exec fts_mirrors_dream_loop elim!: fts_mirrors_keep split: option.split)

lemma fts_mirrors_upsert: "fts_mirrors db \<Longrightarrow> fts_mirrors (in_txn (upsert_note flt c n) db)"
proof -
  assume m: "fts_mirrors db"
  obtain db' r where u: "upsert_note flt c n db = (db', r)" by fastforce
  show ?thesis
  proof (cases r)
    case (Inl e)
    with m u show ?thesis by (simp add: in_txn_def)
  next
    case (Inr x)
    with u have u': "upsert_note flt c n db = (db', Ok ())" by simp
    have "fts_read (fts_put n (notes_fts db)) k = row_content (upsert_note_row c n (note_rows db)) k" for k
      using idx.read_put [of "(c, n)" "notes_fts db" k] rows.read_put [of "(c, n)" "note_rows db" k] m
      by (simp add: fts_mirrors_def)
    with m show ?thesis
      by (simp add: in_txn_def u' fts_mirrors_def upsert_note_Ok [OF u'] fts_put_keys_ok)
  qed
qed

definition empty_notes_db :: "ustr list \<Rightarrow> notes_db" where
  "empty_notes_db cols =
     \<lparr>note_rows = [], notes_fts = [], sessions = [], note_events = [], note_relations = [],
      dream_candidates = Some [], notes_columns = cols\<rparr>"

text \<open>
  The full-text index is the notes: whatever sequence of writes runs, each in its
  transaction and with any statement failing anywhere, the index holds exactly one entry
  per note and that entry is the note's current content.
\<close>

theorem search_index_mirrors_notes:
  "keys_ok fst (notes_fts (run_cmds J cmds (empty_notes_db cols))) \<and>
   (\<forall>k. fts_read (notes_fts (run_cmds J cmds (empty_notes_db cols))) k =
        row_content (note_rows (run_cmds J cmds (empty_notes_db cols))) k)"
proof -
  have "fts_mirrors (run_cmds J cmds (empty_notes_db cols))"
  proof (rule run_cmds_invariant [where C = UNIV])
    show "fts_mirrors (empty_notes_db cols)"
      by (simp add: fts_mirrors_def empty_notes_db_def fts_read_def row_content_def)
    fix flt c cmd and db :: notes_db
    assume m: "fts_mirrors db"
    show "fts_mirrors (in_txn (run_cmd J flt c cmd) db)"
    proof (cases "\<exists>n. cmd = CmdUpsert n")
      case True
      with m fts_mirrors_upsert show ?thesis by auto
    next
      case False
      then show ?thesis using in_txn_keeps [OF fts_mirrors_cmd m] by blast
    qed
  qed auto
  then show ?thesis by (simp add: fts_mirrors_def)
qed

section \<open>Relation strengths\<close>

definition unit_f64 :: "f64 \<Rightarrow> bool" where
  "unit_f64 s \<longleftrightarrow> is_f64 s \<and> 0 \<le> s \<and> s \<le> 1"

definition strengths_ok :: "'a notes_db_scheme \<Rightarrow> bool" where
  "strengths_ok db \<longleftrightarrow> (\<forall>r \<in> set (note_relations db). unit_f64 (rel_strength r))"

fun cmd_strengths_ok :: "note_cmd \<Rightarrow> bool" where
  "cmd_strengths_ok (CmdRelation a b ty s) = unit_f64 s"
| "cmd_strengths_ok (CmdRelationMax a b ty s) = unit_f64 s"
| "cmd_strengths_ok (CmdStrengthen a b ty s d) = (unit_f64 s \<and> 0 \<le> d)"
| "cmd_strengths_ok _ = True"

lemma decay_bounds:
  assumes "unit_f64 s" "0 \<le> d" "d \<le> 1"
  shows "unit_f64 (max (f64_mul s d) 0)" "max (f64_mul s d) 0 \<le> s"
proof -
  have "s * d \<le> s" "0 \<le> s * d"
    using assms by (simp_all add: unit_f64_def mult_left_le)
  then have "f64_mul s d \<le> s" "0 \<le> f64_mul s d"
    using assms(1) by (simp_all add: f64_mul_def unit_f64_def round64_le round64_nonneg)
  with assms(1) show "unit_f64 (max (f64_mul s d) 0)" "max (f64_mul s d) 0 \<le> s"
    by (simp_all add: unit_f64_def)
qed

lemma gain_bounds:
  assumes "unit_f64 s" "0 \<le> d"
  shows "unit_f64 (min (f64_add s d) 1)" "s \<le> min (f64_add s d) 1"
proof -
  have "s \<le> f64_add s d"
    using assms by (simp add: f64_add_def unit_f64_def round64_ge)
  with assms show "unit_f64 (min (f64_add s d) 1)" "s \<le> min (f64_add s d) 1"
    by (auto simp: unit_f64_def)
qed

lemma feedback_consts:
  "0 \<le> HEBBIAN_CONFIRM_DELTA" "0 \<le> HEBBIAN_CORRECT_DECAY" "HEBBIAN_CORRECT_DECAY \<le> 1"
  "0 \<le> HEBBIAN_OUTDATED_DECAY" "HEBBIAN_OUTDATED_DECAY \<le> 1"
  "0 \<le> DREAM_CONFIRM_DELTA" "0 \<le> DREAM_CORRECT_DECAY" "DREAM_CORRECT_DECAY \<le> 1"
  "0 \<le> DREAM_OUTDATED_DECAY" "DREAM_OUTDATED_DECAY \<le> 1"
  by (simp_all add: HEBBIAN_CONFIRM_DELTA_def HEBBIAN_CORRECT_DECAY_def HEBBIAN_OUTDATED_DECAY_def
      DREAM_CONFIRM_DELTA_def DREAM_CORRECT_DECAY_def DREAM_OUTDATED_DECAY_def f64_lit_bounds)

lemma hebbian_strength_unit: "unit_f64 s \<Longrightarrow> unit_f64 (hebbian_strength out s)"
  by (simp add: hebbian_strength_def gain_bounds decay_bounds feedback_consts del: lit_simps)

lemma hebbian_strength_direction:
  assumes "unit_f64 s"
  shows "out = lit ''confirmed'' \<Longrightarrow> s \<le> hebbian_strength out s"
    and "out \<noteq> lit ''confirmed'' \<Longrightarrow> hebbian_strength out s \<le> s"
  using assms gain_bounds(2) [OF assms] decay_bounds(2) [OF assms]
  by (simp_all add: hebbian_strength_def feedback_consts del: lit_simps min.bounded_iff max.bounded_iff)

lemma strengths_ok_keep:
  "strengths_ok db \<Longrightarrow> note_relations db' = note_relations db \<Longrightarrow> strengths_ok db'"
  by (simp add: strengths_ok_def)

lemma strengths_ok_dream_loop: "op_keeps strengths_ok (dream_loop J flt c k out r cands n)"
proof (induction cands arbitrary: n)
  case Nil
  show ?case by (simp add: keeps_intros)
next
  case (Cons a cands)
  have "op_keeps strengths_ok (update_dream flt c out r a)"
    unfolding update_dream_def
    by (rule op_keeps_exec) (auto elim: strengths_ok_keep split: option.splits)
  moreover have "op_keeps strengths_ok (insert_note_event flt c k ty x p)" for ty x p
    unfolding insert_note_event_def by (rule op_keeps_exec) (auto elim: strengths_ok_keep)
  ultimately show ?case using Cons by (auto intro!: keeps_intros)
qed

lemma strengths_ok_update:
  assumes "strengths_ok db" "\<And>s. unit_f64 s \<Longrightarrow> unit_f64 (g s)"
  shows "strengths_ok (db\<lparr>note_relations := row_update P (\<lambda>r. r\<lparr>rel_strength := g (rel_strength r)\<rparr>) (note_relations db)\<rparr>)"
  using assms by (auto simp: strengths_ok_def row_update_def)

lemma strengths_ok_append:
  "strengths_ok db \<Longrightarrow> unit_f64 s \<Longrightarrow>
   strengths_ok (db\<lparr>note_relations := note_relations db @ [\<lparr>rel_from = a, rel_to = b, rel_type = ty, rel_strength = s\<rparr>]\<rparr>)"
  by (auto simp: strengths_ok_def)

lemma op_keeps_bind_query:
  assumes "\<And>s. P s \<Longrightarrow> op_keeps P (f (q s))" 
  shows "op_keeps P (op_bind (sql_query fault q) f)"
  using assms by (cases fault) (auto simp: op_keeps_def op_simps)

lemma select_strength_unit:
  "strengths_ok db \<Longrightarrow> map_option rel_strength (row_get rel_key k (note_relations db)) = Some s \<Longrightarrow> unit_f64 s"
  by (auto simp: strengths_ok_def dest: row_get_SomeD)

lemma strengths_ok_set: "unit_f64 s \<Longrightarrow> op_keeps strengths_ok (set_strength flt a b ty s)"
  unfolding set_strength_def by (rule op_keeps_exec) (auto simp: strengths_ok_def row_update_def)

lemma strengths_ok_insert: "unit_f64 s \<Longrightarrow> op_keeps strengths_ok (insert_strength flt a b ty s)"
  unfolding insert_strength_def by (rule op_keeps_exec) (auto simp: strengths_ok_append)

lemma strengths_ok_relation: "unit_f64 s \<Longrightarrow> op_keeps strengths_ok (insert_note_relation flt a b ty s)"
  unfolding insert_note_relation_def
  by (rule op_keeps_exec) (auto simp: strengths_ok_append split: option.splits)

lemma strengths_ok_relation_max:
  "unit_f64 s \<Longrightarrow> op_keeps strengths_ok (upsert_note_relation_max flt a b ty s)"
  unfolding upsert_note_relation_max_def select_strength_def
  by (rule op_keeps_bind_query)
    (auto simp: Let_def max_def intro!: keeps_intros strengths_ok_insert strengths_ok_set simp del: lit_simps
      split: option.split dest: select_strength_unit)

lemma strengths_ok_strengthen:
  "unit_f64 s \<Longrightarrow> 0 \<le> d \<Longrightarrow> op_keeps strengths_ok (strengthen_note_relation flt a b ty s d)"
  unfolding strengthen_note_relation_def select_strength_def
  by (rule op_keeps_bind_query)
    (auto simp: Let_def gain_bounds intro!: keeps_intros strengths_ok_insert strengths_ok_set simp del: lit_simps
      split: option.split dest: select_strength_unit)

lemma strengths_ok_hebbian: "op_keeps strengths_ok (apply_hebbian_feedback J flt c k out)"
  unfolding apply_hebbian_feedback_def is_trusted_for_strengthening_def hebbian_feedback_edges_def
    insert_note_event_def
  by (auto intro!: keeps_intros op_keeps_exec strengths_ok_update simp: hebbian_strength_unit simp del: lit_simps
      elim: strengths_ok_keep)

lemma unit_f64_1: "unit_f64 1"
  by (simp add: unit_f64_def)

lemma strengths_ok_cmd:
  "cmd_strengths_ok cmd \<Longrightarrow> op_keeps strengths_ok (run_cmd J flt c cmd)"
proof (cases cmd)
  case (CmdUpsert n)
  then show ?thesis
    by (auto simp: upsert_note_def upsert_session_def intro!: keeps_intros op_keeps_exec elim!: strengths_ok_keep)
next
  case (CmdSupersede a b r)
  then show ?thesis
    by (auto simp: mark_superseded_def unit_f64_1 simp del: lit_simps
        intro!: keeps_intros op_keeps_exec strengths_ok_relation elim!: strengths_ok_keep)
next
  case (CmdDream k out r)
  then show ?thesis
    by (auto simp: apply_dream_feedback_def intro!: keeps_intros strengths_ok_dream_loop)
qed (auto simp: deactivate_checkpoints_by_task_id_def atomic_update_outcome_def stamp_note_lineage_def
    insert_note_event_def Let_def simp del: lit_simps
    intro!: keeps_intros op_keeps_exec strengths_ok_relation strengths_ok_relation_max strengths_ok_strengthen
      strengths_ok_hebbian elim!: strengths_ok_keep)

text \<open>
  Relation strengths stay probabilities: if every strength the callers pass is a double
  of [0, 1] and the increments are not negative, then after any sequence of writes, with
  rounding and failing statements included, every stored strength is a double of [0, 1].
\<close>

theorem strengths_stay_in_unit_interval:
  assumes "\<forall>(flt, c, cmd) \<in> set cmds. cmd_strengths_ok cmd"
  shows "\<forall>r \<in> set (note_relations (run_cmds J cmds (empty_notes_db cols))).
    0 \<le> rel_strength r \<and> rel_strength r \<le> 1 \<and> is_f64 (rel_strength r)"
proof -
  have "strengths_ok (run_cmds J cmds (empty_notes_db cols))"
    by (rule run_cmds_invariant [where C = "Collect cmd_strengths_ok"])
      (use assms in \<open>auto simp: in_txn_keeps strengths_ok_cmd\<close>, simp add: strengths_ok_def empty_notes_db_def)
  then show ?thesis by (simp add: strengths_ok_def unit_f64_def)
qed

section \<open>Sample data\<close>

definition demo_clock :: write_clock where
  "demo_clock = \<lparr>wc_now = lit ''2026-01-01'', wc_now_rfc3339 = lit ''2026-01-01'', wc_sql_now = lit ''2026-01-02''\<rparr>"

text \<open>A JSON library that knows one document.\<close>

definition one_doc :: "json \<Rightarrow> json_lib" where
  "one_doc doc =
     \<lparr>jl_parse = (\<lambda>s. if s = lit ''doc'' then Some doc else None),
      jl_print = (\<lambda>v. if v = doc then Some (lit ''doc'') else None),
      jl_value_to_string = (\<lambda>v. []), jl_json_valid = (\<lambda>s. s = lit ''doc''),
      jl_extract_text = (\<lambda>s p. None)\<rparr>"

definition demo_note :: note_insert where
  "demo_note = note_insert_default\<lparr>ni_id := lit ''n'', ni_content := lit ''rust'', ni_layer := lit ''event_log'',
     ni_is_active := True, ni_confidence := Some 1, ni_source := Some (lit ''user'')\<rparr>"

theorem strengths_stay_in_unit_interval_witness:
  "\<exists>r. note_relations (run_cmds (one_doc JNull)
       [(no_faults, demo_clock, CmdRelation (lit ''a'') (lit ''b'') (lit ''supports'') 1),
        (no_faults, demo_clock, CmdStrengthen (lit ''a'') (lit ''b'') (lit ''supports'') 1 1)]
       (empty_notes_db [])) = [r] \<and> rel_strength r \<le> 1"
proof -
  let ?cmds = "[(no_faults, demo_clock, CmdRelation (lit ''a'') (lit ''b'') (lit ''supports'') 1),
        (no_faults, demo_clock, CmdStrengthen (lit ''a'') (lit ''b'') (lit ''supports'') 1 1)]"
  let ?db = "run_cmds (one_doc JNull) ?cmds (empty_notes_db [])"
  have ok: "\<forall>(flt, c, cmd) \<in> set ?cmds. cmd_strengths_ok cmd"
    by (simp add: unit_f64_1)
  have "1 \<le> f64_add 1 1"
    using gain_bounds(2) [OF unit_f64_1, of 1] by simp
  then have one: "min (f64_add 1 1) 1 = 1" by simp
  have "\<exists>r. note_relations ?db = [r]"
    by (simp add: empty_notes_db_def in_txn_def insert_note_relation_def strengthen_note_relation_def
        select_strength_def op_void_def op_simps rel_key_def one op_bind_def del: lit_simps)
  then show ?thesis
    using strengths_stay_in_unit_interval [OF ok, of "one_doc JNull" "[]"] by auto
qed

end
