(* ===== verification/Note_Outcomes.thy ===== *)
theory Note_Outcomes
  imports Note_Laws
begin

text \<open>
  The life of a note: replayed writes, retirement, reported outcomes, supersession and the
  feedback on the relations around it.
\<close>

section \<open>Replay\<close>

lemma coalesce_absorb [simp]:
  "coalesce x x = x" "coalesce x (coalesce x y) = coalesce x y" "coalesce (coalesce x y) y = coalesce x y"
  by (simp_all add: coalesce_def split: option.splits)

lemma changes_to_same [simp]: "\<not> changes_to x x"
  by (simp add: changes_to_def)

lemma no_material_change: "\<not> material_change n (inserted_row now' n) (inserted_row now n)"
  by (simp add: material_change_def inserted_row_def)

lemma conflict_row_same:
  "conflict_row s n (inserted_row now' n) (inserted_row now n) = inserted_row now n"
  unfolding conflict_row_def by (simp add: no_material_change) (simp add: inserted_row_def)

text \<open>
  Replaying an insert changes nothing: writing the same note twice, whatever the clocks
  say the second time, leaves the notes table as the first write left it and the index with
  the same entry for every note.
\<close>

theorem replayed_insert_is_noop:
  assumes "row_get nr_id (ni_id n) (note_rows db) = None"
    and "upsert_note flt c n db = (db1, Ok ())" "upsert_note flt' c' n db1 = (db2, Ok ())"
  shows "note_rows db2 = note_rows db1 \<and> fts_read (notes_fts db2) = fts_read (notes_fts db1)"
proof
  let ?r = "inserted_row (wc_now c) n"
  have rows1: "note_rows db1 = note_rows db @ [?r]"
    using assms(1) by (simp add: upsert_note_Ok [OF assms(2)] upsert_note_row_def)
  have only: "nr_id r \<noteq> ni_id n" if "r \<in> set (note_rows db)" for r
    using assms(1) that by (metis imageI row_get_None)
  have "note_rows db2 = row_update (\<lambda>r. nr_id r = ni_id n)
      (conflict_row (wc_sql_now c') n (inserted_row (wc_now c') n)) (note_rows db1)"
    using assms(1) by (simp add: upsert_note_Ok [OF assms(3)] upsert_note_row_def Let_def rows1 row_get_append)
  also have "\<dots> = note_rows db1"
    using only by (auto simp: row_update_def rows1 conflict_row_same intro!: map_idI)
  finally show "note_rows db2 = note_rows db1" .
  show "fts_read (notes_fts db2) = fts_read (notes_fts db1)"
  proof
    fix k
    show "fts_read (notes_fts db2) k = fts_read (notes_fts db1) k"
      using idx.read_put [of "(c', n)" "notes_fts db1" k] idx.read_put [of "(c, n)" "notes_fts db" k]
      by (auto simp: upsert_note_Ok [OF assms(2)] upsert_note_Ok [OF assms(3)])
  qed
qed

theorem replayed_insert_is_noop_witness:
  "\<exists>db1 db2. upsert_note no_faults demo_clock demo_note (empty_notes_db []) = (db1, Ok ()) \<and>
     upsert_note no_faults (demo_clock\<lparr>wc_now := lit ''2026-03-01''\<rparr>) demo_note db1 = (db2, Ok ()) \<and>
     note_rows db2 = note_rows db1 \<and> length (note_rows db1) = 1"
proof -
  obtain db1 where db1: "upsert_note no_faults demo_clock demo_note (empty_notes_db []) = (db1, Ok ())"
    using upsert_note_no_faults by blast
  obtain db2 where db2: "upsert_note no_faults (demo_clock\<lparr>wc_now := lit ''2026-03-01''\<rparr>) demo_note db1 = (db2, Ok ())"
    using upsert_note_no_faults by blast
  have "row_get nr_id (ni_id demo_note) (note_rows (empty_notes_db [])) = None"
    by (simp add: empty_notes_db_def)
  from replayed_insert_is_noop [OF this db1 db2] db1 db2 show ?thesis
    by (simp add: upsert_note_Ok [OF db1] upsert_note_row_def empty_notes_db_def)
qed

section \<open>Retirement\<close>

definition retired :: "note_row \<Rightarrow> bool" where
  "retired r \<longleftrightarrow> (\<exists>st. nr_evolution_state r = Some st \<and> st \<noteq> lit ''active'')"

definition retired_at :: "ustr \<Rightarrow> 'a notes_db_scheme \<Rightarrow> bool" where
  "retired_at k db \<longleftrightarrow> (\<exists>r. row_get nr_id k (note_rows db) = Some r \<and> retired r)"

lemma retired_at_frame [simp]:
  "retired_at k (db\<lparr>notes_fts := a\<rparr>) = retired_at k db"
  "retired_at k (db\<lparr>sessions := b\<rparr>) = retired_at k db"
  "retired_at k (db\<lparr>note_events := c\<rparr>) = retired_at k db"
  "retired_at k (db\<lparr>note_relations := d\<rparr>) = retired_at k db"
  "retired_at k (db\<lparr>dream_candidates := e\<rparr>) = retired_at k db"
  by (simp_all add: retired_at_def)

lemma retired_at_update:
  assumes "retired_at k db" "\<And>r. nr_id (f r) = nr_id r" "\<And>r. retired r \<Longrightarrow> retired (f r)"
  shows "retired_at k (db\<lparr>note_rows := row_update P f (note_rows db)\<rparr>)"
proof -
  obtain r where "row_get nr_id k (note_rows db) = Some r" "retired r"
    using assms(1) by (auto simp: retired_at_def)
  with assms(3) show ?thesis
    by (simp add: retired_at_def row_get_update [of nr_id f, OF assms(2)])
qed

lemma retired_conflict: "retired r \<Longrightarrow> retired (conflict_row s n (inserted_row now n) r)"
  by (auto simp: retired_def conflict_row_def inserted_row_def coalesce_def split: option.splits)

lemma retired_at_upsert:
  "retired_at k db \<Longrightarrow> retired_at k (db\<lparr>note_rows := upsert_note_row c n (note_rows db)\<rparr>)"
  by (auto simp: retired_at_def row_get_upsert retired_conflict)

lemma retired_at_dream_loop: "op_keeps (retired_at k) (dream_loop J flt c k' out r cands n)"
proof (induction cands arbitrary: n)
  case Nil
  show ?case by (simp add: keeps_intros)
next
  case (Cons a cands)
  have "op_keeps (retired_at k) (update_dream flt c out r a)"
    unfolding update_dream_def
    by (rule op_keeps_exec) (auto split: option.splits)
  moreover have "op_keeps (retired_at k) (insert_note_event flt c k' ty x p)" for ty x p
    unfolding insert_note_event_def by (rule op_keeps_exec) auto
  ultimately show ?case using Cons by (auto intro!: keeps_intros)
qed

lemma superseded_state_retired: "superseded_state r \<noteq> lit ''active''"
  by (simp add: superseded_state_def)

lemma retired_at_cmd: "op_keeps (retired_at k) (run_cmd J flt c cmd)"
proof (cases cmd)
  case (CmdUpsert n)
  then show ?thesis
    by (auto simp: upsert_note_def upsert_session_def intro!: keeps_intros op_keeps_exec retired_at_upsert)
next
  case (CmdSupersede a b r)
  then show ?thesis
    by (auto simp: mark_superseded_def insert_note_relation_def retired_def superseded_state_retired
        simp del: lit_simps intro!: keeps_intros op_keeps_exec retired_at_update)
next
  case (CmdDream k' out r)
  then show ?thesis
    by (auto simp: apply_dream_feedback_def intro!: keeps_intros retired_at_dream_loop)
next
  case (CmdHebbian k' out)
  then show ?thesis
    by (auto simp: cmd_defs simp del: lit_simps intro!: keeps_intros op_keeps_exec)
qed (auto simp: cmd_defs retired_def Let_def simp del: lit_simps
    intro!: keeps_intros op_keeps_exec retired_at_update)

text \<open>
  A retired note is never revived: once a note's evolution state is anything but active
  (superseded, contradicted, deprecated), no later sequence of writes, not even an upsert
  that asks for the active state, makes it active again or removes its row.
\<close>

theorem retired_notes_stay_retired:
  assumes "row_get nr_id k (note_rows db) = Some r"
    and "nr_evolution_state r = Some st" "st \<noteq> lit ''active''"
  shows "\<exists>r' st'. row_get nr_id k (note_rows (run_cmds J cmds db)) = Some r' \<and>
    nr_evolution_state r' = Some st' \<and> st' \<noteq> lit ''active''"
proof -
  have "retired_at k (run_cmds J cmds db)"
    by (rule run_cmds_invariant [where C = UNIV])
      (use assms in \<open>auto simp: retired_at_def [of k db] retired_def intro: in_txn_keeps retired_at_cmd\<close>)
  then show ?thesis by (auto simp: retired_at_def retired_def)
qed

definition demo_row :: note_row where
  "demo_row = inserted_row (wc_now demo_clock) demo_note"

theorem retired_notes_stay_retired_witness:
  "\<exists>r'. row_get nr_id (lit ''n'') (note_rows (run_cmds (one_doc JNull) [(no_faults, demo_clock, CmdUpsert demo_note)]
       ((empty_notes_db [])\<lparr>note_rows := [demo_row\<lparr>nr_evolution_state := Some (lit ''superseded'')\<rparr>]\<rparr>))) = Some r' \<and>
     nr_evolution_state r' \<noteq> Some (lit ''active'')"
proof -
  let ?db = "(empty_notes_db [])\<lparr>note_rows := [demo_row\<lparr>nr_evolution_state := Some (lit ''superseded'')\<rparr>]\<rparr>"
  have "row_get nr_id (lit ''n'') (note_rows ?db) = Some (demo_row\<lparr>nr_evolution_state := Some (lit ''superseded'')\<rparr>)"
    by (simp add: demo_row_def demo_note_def)
  moreover have "lit ''superseded'' \<noteq> lit ''active''" by simp
  ultimately show ?thesis
    using retired_notes_stay_retired
      [of "lit ''n''" ?db _ "lit ''superseded''" "one_doc JNull" "[(no_faults, demo_clock, CmdUpsert demo_note)]"]
    by fastforce
qed

section \<open>Reported outcomes\<close>

definition row_meta :: "json_lib \<Rightarrow> note_row \<Rightarrow> json_map" where
  "row_meta J r = parse_map J (nr_metadata_json r)"

definition json_roundtrip :: "json_lib \<Rightarrow> bool" where
  "json_roundtrip J \<longleftrightarrow> (\<forall>m s. jl_print J (JObj m) = Some s \<longrightarrow> jl_parse J s = Some (JObj m))"

lemma row_meta_print:
  "json_roundtrip J \<Longrightarrow> jl_print J (JObj m) = Some s \<Longrightarrow> parse_map J (Some s) = m"
  by (simp add: json_roundtrip_def parse_map_def)

lemma counter_insert [simp]:
  "counter k (map_insert k' v m) = (if k = k' then (case as_i64 v of None \<Rightarrow> 0 | Some n \<Rightarrow> n) else counter k m)"
  by (simp add: counter_def)

lemma i64_wrap_range: "- (2 ^ 63) \<le> i64_wrap n \<and> i64_wrap n < 2 ^ 63"
  using pos_mod_bound [of "2 ^ 64" "n + 2 ^ 63"] pos_mod_sign [of "2 ^ 64" "n + 2 ^ 63"]
  by (simp add: i64_wrap_def)

lemma as_i64_wrap [simp]: "as_i64 (JInt (i64_wrap n)) = Some (i64_wrap n)"
  using i64_wrap_range [of n] by simp

lemma counter_range: "- (2 ^ 63) \<le> counter k m \<and> counter k m < 2 ^ 63"
proof (cases "map_of m k")
  case (Some v)
  then show ?thesis by (cases v) (auto simp: counter_def)
qed (simp add: counter_def)

lemma as_i64_counter [simp]: "as_i64 (JInt (counter k m)) = Some (counter k m)"
  using counter_range [of k m] by simp

lemma counter_insert_reason [simp]:
  "k \<noteq> lit ''last_outcome_reason'' \<Longrightarrow> counter k (insert_reason r m) = counter k m"
  by (cases r) (simp_all add: insert_reason_def del: lit_simps)

lemma meta_keys_distinct:
  "lit ''success_count'' \<noteq> lit ''failure_count''" "lit ''success_count'' \<noteq> lit ''last_outcome_reason''"
  "lit ''failure_count'' \<noteq> lit ''last_outcome_reason''" "lit ''success_count'' \<noteq> lit ''is_corrected''"
  "lit ''failure_count'' \<noteq> lit ''is_corrected''" "lit ''success_count'' \<noteq> lit ''is_outdated''"
  "lit ''failure_count'' \<noteq> lit ''is_outdated''" "lit ''success_count'' \<noteq> lit ''superseded_by''"
  "lit ''failure_count'' \<noteq> lit ''superseded_by''" "lit ''success_count'' \<noteq> lit ''supersede_reason''"
  "lit ''failure_count'' \<noteq> lit ''supersede_reason''" "lit ''superseded_by'' \<noteq> lit ''supersede_reason''"
  "lit ''superseded_by'' \<noteq> lit ''is_outdated''" "lit ''superseded_by'' \<noteq> lit ''last_outcome_reason''"
  "lit ''corrected'' \<noteq> lit ''confirmed''" "lit ''outdated'' \<noteq> lit ''confirmed''"
  "lit ''outdated'' \<noteq> lit ''corrected''"
  by simp_all

lemmas meta_keys = meta_keys_distinct meta_keys_distinct [symmetric]

definition conf_of :: "note_row \<Rightarrow> f64" where
  "conf_of r = (case nr_confidence r of None \<Rightarrow> f64_lit 0.9 | Some x \<Rightarrow> x)"

lemma outcome_effect_cases:
  assumes "outcome_effect out reason conf s f m = Some (conf', s', f', m')"
  shows "known_outcome out"
    and "s' = (if out = lit ''confirmed'' then i64_wrap (s + 1) else s)"
    and "f' = (if out = lit ''confirmed'' then f else i64_wrap (f + 1))"
    and "unit_f64 conf \<Longrightarrow> unit_f64 conf'"
    and "out \<noteq> lit ''confirmed'' \<Longrightarrow> f64_lit 0.1 \<le> conf \<Longrightarrow> is_f64 conf \<Longrightarrow> conf' \<le> conf \<and> f64_lit 0.1 \<le> conf'"
    and "out = lit ''confirmed'' \<Longrightarrow> conf \<le> f64_lit 0.99 \<Longrightarrow> is_f64 conf \<Longrightarrow> conf \<le> conf' \<and> conf' \<le> f64_lit 0.99"
proof -
  note simps = outcome_effect_def known_outcome_def
  show "known_outcome out" "s' = (if out = lit ''confirmed'' then i64_wrap (s + 1) else s)"
    "f' = (if out = lit ''confirmed'' then f else i64_wrap (f + 1))"
    using assms by (auto simp: simps meta_keys simp del: lit_simps split: if_splits)
  have add: "is_f64 conf \<Longrightarrow> 0 \<le> conf \<Longrightarrow> 0 \<le> f64_add conf (f64_lit 0.01)"
    by (simp add: f64_add_def round64_nonneg f64_lit_bounds)
  have add': "is_f64 conf \<Longrightarrow> conf \<le> f64_add conf (f64_lit 0.01)"
    unfolding f64_add_def by (rule round64_ge) (simp_all add: f64_lit_bounds)
  have sub: "f64_sub conf (f64_lit x) \<le> conf" if "is_f64 conf" "0 \<le> x" for x
    unfolding f64_sub_def by (rule round64_le) (use that in \<open>simp_all add: f64_lit_bounds\<close>)
  have lits: "unit_f64 (f64_lit 0.1)" "unit_f64 (f64_lit 0.99)"
    by (simp_all add: unit_f64_def f64_lit_bounds)
  show "unit_f64 conf'" if "unit_f64 conf"
    using assms that add lits sub [of "0.05"] sub [of "0.10"]
    by (auto simp: simps unit_f64_def min_def max_def simp del: lit_simps split: if_splits)
  show "conf' \<le> conf \<and> f64_lit 0.1 \<le> conf'"
    if "out \<noteq> lit ''confirmed''" "f64_lit 0.1 \<le> conf" "is_f64 conf"
    using assms that sub [of "0.05"] sub [of "0.10"]
    by (auto simp: simps simp del: lit_simps split: if_splits)
  show "conf \<le> conf' \<and> conf' \<le> f64_lit 0.99"
    if "out = lit ''confirmed''" "conf \<le> f64_lit 0.99" "is_f64 conf"
    using assms that add' by (auto simp: simps simp del: lit_simps split: if_splits)
qed

lemma outcome_effect_counters:
  assumes "outcome_effect out reason conf s f m = Some (conf', s', f', m')"
  shows "\<And>k. k \<noteq> lit ''is_corrected'' \<Longrightarrow> k \<noteq> lit ''is_outdated'' \<Longrightarrow> k \<noteq> lit ''last_outcome_reason'' \<Longrightarrow>
    map_of m' k = map_of m k"
  using assms
  by (auto simp: outcome_effect_def insert_reason_def simp del: lit_simps split: if_splits option.splits)

text \<open>
  What a reported outcome does to a note: a successful report means the note was active
  and the outcome is one of the three; it counts one success (confirmed) or one failure
  (corrected, outdated) and leaves the other counter; a confidence in [0, 1] stays there,
  a confirmation never lowers one of at most 0.99 and a failure never raises one; every
  other metadata key and every other note is untouched.
\<close>

theorem reported_outcome_effect:
  assumes "json_roundtrip J"
    and "atomic_update_outcome J flt k out reason db = (db', Ok True)"
    and "row_get nr_id k (note_rows db) = Some r" "keys_ok nr_id (note_rows db)"
    and "unit_f64 (conf_of r)"
  shows "nr_is_active r = 1 \<and> known_outcome out \<and>
    (\<exists>r'. row_get nr_id k (note_rows db') = Some r' \<and>
       counter (lit ''success_count'') (row_meta J r') =
         (if out = lit ''confirmed'' then i64_wrap (counter (lit ''success_count'') (row_meta J r) + 1)
          else counter (lit ''success_count'') (row_meta J r)) \<and>
       counter (lit ''failure_count'') (row_meta J r') =
         (if out = lit ''confirmed'' then counter (lit ''failure_count'') (row_meta J r)
          else i64_wrap (counter (lit ''failure_count'') (row_meta J r) + 1)) \<and>
       unit_f64 (conf_of r') \<and>
       (out = lit ''confirmed'' \<longrightarrow> conf_of r \<le> f64_lit 0.99 \<longrightarrow> conf_of r \<le> conf_of r') \<and>
       (out \<noteq> lit ''confirmed'' \<longrightarrow> f64_lit 0.1 \<le> conf_of r \<longrightarrow> conf_of r' \<le> conf_of r) \<and>
       nr_content r' = nr_content r) \<and>
    (\<forall>k'. k' \<noteq> k \<longrightarrow> row_get nr_id k' (note_rows db') = row_get nr_id k' (note_rows db))"
proof -
  let ?meta = "row_meta J r" and ?S = "lit ''success_count''" and ?F = "lit ''failure_count''"
  note find = row_find [OF assms(4), of k "\<lambda>r. nr_is_active r = 1"]
  have act: "nr_is_active r = 1"
    using assms(2,3) find
    by (auto simp: atomic_update_outcome_def op_bind_def sql_query_def sql_exec_def op_fail_def
        split: option.splits if_splits)
  obtain conf' s' f' m' mtext where eff:
      "outcome_effect out reason (conf_of r) (counter ?S ?meta) (counter ?F ?meta) ?meta = Some (conf', s', f', m')"
      "jl_print J (JObj (map_insert ?F (JInt f') (map_insert ?S (JInt s') m'))) = Some mtext"
      "note_rows db' = row_update (\<lambda>r. nr_id r = k)
         (\<lambda>r. r\<lparr>nr_metadata_json := Some mtext, nr_confidence := Some conf'\<rparr>) (note_rows db)"
    using assms(2,3) find act
    by (auto simp: atomic_update_outcome_def op_bind_def sql_query_def sql_exec_def op_fail_def op_return_def
        Let_def row_meta_def conf_of_def simp del: lit_simps split: option.splits if_splits prod.splits)
  let ?r' = "r\<lparr>nr_metadata_json := Some mtext, nr_confidence := Some conf'\<rparr>"
  have r': "row_get nr_id k (note_rows db') = Some ?r'"
    by (simp add: eff(3) row_get_update_key assms(3))
  have meta': "row_meta J ?r' = map_insert ?F (JInt f') (map_insert ?S (JInt s') m')"
    using row_meta_print [OF assms(1) eff(2)] by (simp add: row_meta_def del: lit_simps)
  note c = outcome_effect_cases [OF eff(1)]
  have conf: "conf_of ?r' = conf'" by (simp add: conf_of_def)
  have f64: "is_f64 (conf_of r)" using assms(5) by (simp add: unit_f64_def)
  have s: "counter ?S (row_meta J ?r') = s'"
    by (simp add: meta' c(2) meta_keys del: lit_simps as_i64.simps)
  have f: "counter ?F (row_meta J ?r') = f'"
    by (simp add: meta' c(3) meta_keys del: lit_simps as_i64.simps)
  show ?thesis
  proof (intro conjI exI [of _ ?r'] allI impI)
    show "row_get nr_id k' (note_rows db') = row_get nr_id k' (note_rows db)" if "k' \<noteq> k" for k'
      using that by (simp add: eff(3) row_get_update_key)
  qed (use act c conf f64 s f r' assms(5) in \<open>simp_all del: lit_simps\<close>)
qed

section \<open>Supersession\<close>

definition supersede_keys :: "ustr set" where
  "supersede_keys = {lit ''superseded_by'', lit ''supersede_reason'', lit ''is_outdated'',
     lit ''success_count'', lit ''failure_count'', lit ''last_outcome_reason''}"

lemma superseded_meta_facts:
  shows "counter (lit ''success_count'') (superseded_meta new reason m) = counter (lit ''success_count'') m"
    and "counter (lit ''failure_count'') (superseded_meta new reason m) =
      i64_wrap (counter (lit ''failure_count'') m + 1)"
    and "map_of (superseded_meta new reason m) (lit ''superseded_by'') = Some (JStr new)"
    and "key \<notin> supersede_keys \<Longrightarrow> map_of (superseded_meta new reason m) key = map_of m key"
  by (simp_all add: superseded_meta_def Let_def meta_keys supersede_keys_def del: lit_simps as_i64.simps)

text \<open>
  Superseding keeps the history: the old note is inactive, no longer head and carries the
  state of the reason; its metadata names the successor, its failure count grew by one, its
  success count and every other metadata key are as before; unless the reason was a
  contradiction the successor is linked to it; its content and every other note are
  untouched.
\<close>

theorem superseded_note_keeps_history:
  assumes "json_roundtrip J"
    and "mark_superseded J flt c old_id new_id reason db = (db', Ok ())"
    and "row_get nr_id old_id (note_rows db) = Some r"
  shows "(\<exists>r'. row_get nr_id old_id (note_rows db') = Some r' \<and>
       nr_is_active r' = 0 \<and> nr_is_head r' = Some 0 \<and> nr_content r' = nr_content r \<and>
       nr_evolution_state r' = Some (superseded_state reason) \<and>
       map_of (row_meta J r') (lit ''superseded_by'') = Some (JStr new_id) \<and>
       counter (lit ''failure_count'') (row_meta J r') = i64_wrap (counter (lit ''failure_count'') (row_meta J r) + 1) \<and>
       counter (lit ''success_count'') (row_meta J r') = counter (lit ''success_count'') (row_meta J r) \<and>
       (\<forall>key. key \<notin> supersede_keys \<longrightarrow> map_of (row_meta J r') key = map_of (row_meta J r) key)) \<and>
    (reason \<noteq> lit ''contradiction'' \<longrightarrow>
       row_get rel_key (new_id, old_id, lit ''forget_cascade'') (note_relations db') \<noteq> None) \<and>
    (\<forall>k. k \<noteq> old_id \<longrightarrow> row_get nr_id k (note_rows db') = row_get nr_id k (note_rows db))"
proof -
  let ?mark = "\<lambda>r. r\<lparr>nr_evolution_state := Some (superseded_state reason), nr_is_head := Some 0,
                  nr_is_active := 0,
                  nr_confidence := Some (max (f64_lit 0.1)
                     (f64_sub (case nr_confidence r of None \<Rightarrow> f64_lit 0.9 | Some x \<Rightarrow> x) (f64_lit 0.1))),
                  nr_updated_at := Some (wc_sql_now c)\<rparr>"
  obtain mtext where m:
      "jl_print J (JObj (superseded_meta new_id reason (row_meta J r))) = Some mtext"
      "note_rows db' = row_update (\<lambda>r. nr_id r = old_id) (\<lambda>r. r\<lparr>nr_metadata_json := Some mtext\<rparr>)
         (row_update (\<lambda>r. nr_id r = old_id) ?mark (note_rows db))"
      "superseded_state reason = lit ''superseded'' \<Longrightarrow>
         row_get rel_key (new_id, old_id, lit ''forget_cascade'') (note_relations db') \<noteq> None"
    using assms(2,3)
    by (auto simp: mark_superseded_def op_bind_def sql_query_def sql_exec_def op_fail_def op_return_def
        row_get_update_key row_meta_def insert_note_relation_def row_get_append rel_key_def
        simp del: lit_simps split: option.splits if_splits)
  let ?r' = "(?mark r)\<lparr>nr_metadata_json := Some mtext\<rparr>"
  have r': "row_get nr_id old_id (note_rows db') = Some ?r'"
    by (simp add: m(2) row_get_update_key assms(3))
  have meta: "row_meta J ?r' = superseded_meta new_id reason (row_meta J r)"
    using row_meta_print [OF assms(1) m(1)] by (simp add: row_meta_def)
  have st: "reason \<noteq> lit ''contradiction'' \<Longrightarrow> superseded_state reason = lit ''superseded''"
    by (simp add: superseded_state_def)
  show ?thesis
  proof (intro conjI exI [of _ ?r'] allI impI)
    show "row_get nr_id k (note_rows db') = row_get nr_id k (note_rows db)" if "k \<noteq> old_id" for k
      using that by (simp add: m(2) row_get_update_key)
  qed (use r' m(3) st superseded_meta_facts in \<open>simp_all only: meta note_row.simps, simp_all del: lit_simps\<close>)
qed

section \<open>Hebbian feedback\<close>

lemma op_each_events:
  assumes "op_each (\<lambda>e. insert_note_event flt c k ty (f e) (g e)) es db = (db', r)"
  shows "note_relations db' = note_relations db \<and> note_rows db' = note_rows db \<and>
    (r = Ok () \<longrightarrow> note_events db' = note_events db @
      map (\<lambda>e. \<lparr>ne_note_id = k, ne_event_type = ty, ne_related_note_id = f e, ne_payload_json = g e,
                ne_created_at = wc_sql_now c\<rparr>) es)"
  using assms
proof (induction es arbitrary: db)
  case Nil
  then show ?case by (simp add: op_return_def)
next
  case (Cons e es)
  show ?case
  proof (cases "flt (InsertEvent ty (f e))")
    case None
    then show ?thesis
      using Cons.prems Cons.IH by (fastforce simp: insert_note_event_def op_simps)
  next
    case (Some x)
    then show ?thesis using Cons.prems by (auto simp: insert_note_event_def op_simps)
  qed
qed

text \<open>Whether the trust gate lets a confirmation of a note strengthen its relations.\<close>

definition trusted_row :: "'a notes_db_scheme \<Rightarrow> note_row option \<Rightarrow> bool" where
  "trusted_row db found =
     (case found of
        None \<Rightarrow> False
      | Some r \<Rightarrow> allows_strengthening (if has_column (lit ''source'') db then nr_source r else None)
                    (has_column (lit ''confirmed_at'') db \<and> nr_confirmed_at r \<noteq> None) True)"

lemma is_trusted_result:
  "is_trusted_for_strengthening flt k db = (db', Ok b) \<Longrightarrow>
   db' = db \<and> b = trusted_row db (row_get nr_id k (note_rows db))"
  by (auto simp: is_trusted_for_strengthening_def trusted_row_def op_bind_def sql_query_def sql_exec_def
      op_return_def simp del: lit_simps split: option.splits if_splits)

lemma apply_hebbian_Ok:
  assumes "apply_hebbian_feedback J flt c k out db = (db', Ok n)"
  shows "(out = lit ''confirmed'' \<and> \<not> trusted_row db (row_get nr_id k (note_rows db)) \<or> \<not> known_outcome out) \<and>
      db' = db \<and> n = 0 \<or>
    known_outcome out \<and> (out = lit ''confirmed'' \<longrightarrow> trusted_row db (row_get nr_id k (note_rows db))) \<and>
      note_relations db' = row_update (hebbian_edge k)
        (\<lambda>r. r\<lparr>rel_strength := hebbian_strength out (rel_strength r)\<rparr>) (note_relations db) \<and>
      n = row_count (hebbian_edge k) (note_relations db) \<and>
      length (note_events db') = length (note_events db) + n"
proof -
  define b where "b = (out = lit ''confirmed'' \<longrightarrow> trusted_row db (row_get nr_id k (note_rows db)))"
  have gate: "(if out = lit ''confirmed'' then is_trusted_for_strengthening flt k else op_return True) db = (d, Ok x)
      \<Longrightarrow> d = db \<and> x = b" for d x
    using is_trusted_result [of flt k db d x] by (auto simp: b_def op_return_def split: if_splits)
  let ?edges = "sort_key rel_from (sort_key rel_to (sort_key rel_type (filter (hebbian_edge k) (note_relations db))))"
  let ?db1 = "db\<lparr>note_relations := row_update (hebbian_edge k)
        (\<lambda>r. r\<lparr>rel_strength := hebbian_strength out (rel_strength r)\<rparr>) (note_relations db)\<rparr>"
  consider "\<not> (b \<and> known_outcome out)" "db' = db" "n = 0"
    | "b" "known_outcome out" "n = row_count (hebbian_edge k) (note_relations db)"
      "op_each (\<lambda>edge. insert_note_event flt c k (lit ''hebbian_feedback'')
              (Some (if rel_from edge = k then rel_to edge else rel_from edge))
              (Some (jl_value_to_string J (hebbian_payload out edge)))) ?edges ?db1 = (db', Ok ())"
    using assms gate
    unfolding apply_hebbian_feedback_def op_bind_def hebbian_feedback_edges_def sql_query_def sql_exec_def op_return_def
    by (auto simp del: lit_simps split: option.splits if_splits prod.splits sum.splits)
  then show ?thesis
  proof cases
    case 1
    then show ?thesis by (auto simp: b_def)
  next
    case 2
    from op_each_events [OF 2(4)] have "note_relations db' = note_relations ?db1"
      "length (note_events db') = length (note_events db) + length ?edges" by auto
    with 2 show ?thesis by (simp add: b_def row_count_def)
  qed
qed

text \<open>
  Feedback moves strengths the right way and only near the note: successful feedback
  changes only activation relations touching the reported note, raises none of them unless
  the outcome is a confirmation and lowers none of them if it is, an outdated report
  weakens at least as much as a corrected one, every changed relation has its event, and a
  confirmation of a note the trust gate rejects changes nothing at all.
\<close>

theorem hebbian_feedback_direction:
  assumes "apply_hebbian_feedback J flt c k out db = (db', Ok n)" and "strengths_ok db"
  shows "list_all2 (\<lambda>r r'. rel_key r' = rel_key r \<and>
       (\<not> hebbian_edge k r \<longrightarrow> rel_strength r' = rel_strength r) \<and>
       (if out = lit ''confirmed'' then rel_strength r \<le> rel_strength r' else rel_strength r' \<le> rel_strength r) \<and>
       hebbian_strength (lit ''outdated'') (rel_strength r) \<le> hebbian_strength (lit ''corrected'') (rel_strength r))
      (note_relations db) (note_relations db') \<and>
    length (note_events db') = length (note_events db) + n \<and>
    (out = lit ''confirmed'' \<longrightarrow> \<not> trusted_row db (row_get nr_id k (note_rows db)) \<longrightarrow> db' = db)"
proof -
  have unit: "unit_f64 (rel_strength r)" if "r \<in> set (note_relations db)" for r
    using assms(2) that by (simp add: strengths_ok_def)
  have mono: "hebbian_strength (lit ''outdated'') s \<le> hebbian_strength (lit ''corrected'') s" if "unit_f64 s" for s
  proof -
    have "s * HEBBIAN_OUTDATED_DECAY \<le> s * HEBBIAN_CORRECT_DECAY"
      using that by (intro mult_left_mono)
        (simp_all add: unit_f64_def HEBBIAN_OUTDATED_DECAY_def HEBBIAN_CORRECT_DECAY_def f64_lit_mono)
    then have "f64_mul s HEBBIAN_OUTDATED_DECAY \<le> f64_mul s HEBBIAN_CORRECT_DECAY"
      by (simp add: f64_mul_def round64_mono)
    then show ?thesis by (simp add: hebbian_strength_def meta_keys max.coboundedI1 del: lit_simps)
  qed
  show ?thesis
    using apply_hebbian_Ok [OF assms(1)]
    by (auto simp: list_all2_conv_all_nth row_update_def rel_key_def unit mono hebbian_strength_direction
        simp del: lit_simps)
qed

section \<open>The theorems at work\<close>

definition demo_outcome_meta :: json where
  "demo_outcome_meta = JObj [(lit ''success_count'', JInt 1), (lit ''failure_count'', JInt 0)]"

definition demo_db :: notes_db where
  "demo_db = (empty_notes_db [lit ''source'', lit ''confirmed_at''])\<lparr>note_rows := [demo_row],
     note_relations := [\<lparr>rel_from = lit ''n'', rel_to = lit ''m'', rel_type = lit ''supports'', rel_strength = 1\<rparr>]\<rparr>"

lemma demo_row_get: "row_get nr_id (lit ''n'') (note_rows demo_db) = Some demo_row"
  by (simp add: demo_db_def demo_row_def demo_note_def del: lit_simps)

lemma one_doc_roundtrip: "json_roundtrip (one_doc doc)"
  by (simp add: json_roundtrip_def one_doc_def)

lemma demo_row_simps: "nr_is_active demo_row = 1" "nr_metadata_json demo_row = None"
  "nr_confidence demo_row = Some 1" "nr_id demo_row = lit ''n''"
  by (simp_all add: demo_row_def demo_note_def inserted_row_def note_insert_default_def del: lit_simps)

theorem reported_outcome_effect_witness:
  "\<exists>db' r'. atomic_update_outcome (one_doc demo_outcome_meta) no_faults (lit ''n'') (lit ''confirmed'') None demo_db
       = (db', Ok True) \<and> row_get nr_id (lit ''n'') (note_rows db') = Some r' \<and>
     counter (lit ''success_count'') (row_meta (one_doc demo_outcome_meta) r') = 1"
proof -
  let ?J = "one_doc demo_outcome_meta"
  have w: "i64_wrap 1 = 1" by (simp add: i64_wrap_def)
  have meta: "row_meta ?J demo_row = []"
    by (simp add: row_meta_def parse_map_def demo_row_simps)
  obtain db' where db': "atomic_update_outcome ?J no_faults (lit ''n'') (lit ''confirmed'') None demo_db = (db', Ok True)"
    by (simp add: atomic_update_outcome_def op_simps demo_db_def demo_row_simps parse_map_def counter_def
        outcome_effect_def Let_def one_doc_def demo_outcome_meta_def i64_wrap_def op_bind_def)
  have "keys_ok nr_id (note_rows demo_db)" "unit_f64 (conf_of demo_row)"
    by (simp_all add: demo_db_def keys_ok_def conf_of_def demo_row_simps unit_f64_1)
  from reported_outcome_effect [OF one_doc_roundtrip db' demo_row_get this] db' show ?thesis
    by (auto simp: meta counter_def w simp del: lit_simps)
qed

definition demo_superseded_meta :: json where
  "demo_superseded_meta = JObj (superseded_meta (lit ''m'') (lit ''auto_supersede'') [])"

theorem superseded_note_keeps_history_witness:
  "\<exists>db' r'. mark_superseded (one_doc demo_superseded_meta) no_faults demo_clock (lit ''n'') (lit ''m'')
         (lit ''auto_supersede'') demo_db = (db', Ok ()) \<and>
     row_get nr_id (lit ''n'') (note_rows db') = Some r' \<and> nr_is_active r' = 0"
proof -
  let ?J = "one_doc demo_superseded_meta"
  have P: "jl_print ?J (JObj (superseded_meta (lit ''m'') (lit ''auto_supersede'') [])) = Some (lit ''doc'')"
    by (simp add: one_doc_def demo_superseded_meta_def del: lit_simps)
  have A: "row_count (\<lambda>r. nr_id r = lit ''n'') (note_rows demo_db) = 1"
    by (simp add: demo_db_def demo_row_simps row_count_def del: lit_simps)
  have S: "superseded_state (lit ''auto_supersede'') = lit ''superseded''" by (simp add: superseded_state_def)
  have D: "row_get nr_id (lit ''n'') (note_rows demo_db) = Some demo_row" by (rule demo_row_get)
  obtain db' where db': "mark_superseded ?J no_faults demo_clock (lit ''n'') (lit ''m'') (lit ''auto_supersede'') demo_db
      = (db', Ok ())"
    by (simp add: mark_superseded_def op_simps A D row_get_update_key demo_row_simps parse_map_def P S
        insert_note_relation_def op_return_def del: lit_simps)
  from superseded_note_keeps_history [OF one_doc_roundtrip db' demo_row_get] db' show ?thesis
    by blast
qed

theorem hebbian_feedback_direction_witness:
  "\<exists>db'. apply_hebbian_feedback (one_doc JNull) no_faults demo_clock (lit ''n'') (lit ''outdated'') demo_db = (db', Ok 1) \<and>
     length (note_events db') = 1 \<and> rel_strength (hd (note_relations db')) \<le> 1"
proof -
  have h: "hebbian_edge (lit ''n'') \<lparr>rel_from = lit ''n'', rel_to = lit ''m'', rel_type = lit ''supports'', rel_strength = 1\<rparr>"
    by (simp add: hebbian_edge_def HEBBIAN_TYPES_def del: lit_simps)
  have rels: "note_relations demo_db = [\<lparr>rel_from = lit ''n'', rel_to = lit ''m'', rel_type = lit ''supports'', rel_strength = 1\<rparr>]"
    by (simp add: demo_db_def)
  obtain db' where db': "apply_hebbian_feedback (one_doc JNull) no_faults demo_clock (lit ''n'') (lit ''outdated'') demo_db = (db', Ok 1)"
    by (simp add: apply_hebbian_feedback_def op_simps hebbian_feedback_edges_def meta_keys known_outcome_def
        insert_note_event_def op_bind_def op_return_def sql_query_def sql_exec_def rels h row_count_def del: lit_simps)
  have "strengths_ok demo_db" by (simp add: strengths_ok_def rels unit_f64_1)
  from hebbian_feedback_direction [OF db' this] db' show ?thesis
    by (auto simp: rels list_all2_Cons1 meta_keys demo_db_def empty_notes_db_def simp del: lit_simps)
qed

end
