(* ===== verification/Sql_Conn.thy ===== *)
theory Sql_Conn
  imports Memra_Prelude
begin

text \<open>
  A SQLite connection: the durable database and, between BEGIN and COMMIT or ROLLBACK, the
  database the open transaction sees. Statements run on what the connection sees; a BEGIN
  inside a transaction, and a COMMIT or ROLLBACK outside of one, are errors. BEGIN, COMMIT
  and ROLLBACK can fail like any statement, and then leave the connection as it was.
\<close>

record 'd sql_conn =
  committed :: 'd
  open_txn :: "'d option"

definition current :: "'d sql_conn \<Rightarrow> 'd" where
  "current c = (case open_txn c of None \<Rightarrow> committed c | Some w \<Rightarrow> w)"

definition on_conn :: "('d, 'e, 'a) op \<Rightarrow> ('d sql_conn, 'e, 'a) op" where
  "on_conn m c =
     (case m (current c) of
        (d, r) \<Rightarrow>
          (case open_txn c of
             None \<Rightarrow> (c\<lparr>committed := d\<rparr>, r)
           | Some _ \<Rightarrow> (c\<lparr>open_txn := Some d\<rparr>, r)))"

definition txn_begin :: "sql_error option \<Rightarrow> ('d sql_conn, sql_error, unit) op" where
  "txn_begin fault c =
     (case fault of
        Some e \<Rightarrow> (c, Err e)
      | None \<Rightarrow>
         (case open_txn c of
            Some _ \<Rightarrow> (c, Err (lit ''cannot start a transaction within a transaction''))
          | None \<Rightarrow> (c\<lparr>open_txn := Some (committed c)\<rparr>, Ok ())))"

definition txn_commit :: "sql_error option \<Rightarrow> ('d sql_conn, sql_error, unit) op" where
  "txn_commit fault c =
     (case fault of
        Some e \<Rightarrow> (c, Err e)
      | None \<Rightarrow>
         (case open_txn c of
            None \<Rightarrow> (c, Err (lit ''cannot commit - no transaction is active''))
          | Some w \<Rightarrow> (c\<lparr>committed := w, open_txn := None\<rparr>, Ok ())))"

definition txn_rollback :: "sql_error option \<Rightarrow> ('d sql_conn, sql_error, unit) op" where
  "txn_rollback fault c =
     (case fault of
        Some e \<Rightarrow> (c, Err e)
      | None \<Rightarrow>
         (case open_txn c of
            None \<Rightarrow> (c, Err (lit ''cannot rollback - no transaction is active''))
          | Some _ \<Rightarrow> (c\<lparr>open_txn := None\<rparr>, Ok ())))"

end
