(* ===== verification/Similarity.thy ===== *)
theory Similarity
  imports Memra_Prelude Float64
begin

text \<open>
  Embedding vectors: their bytes in \<open>vector_blob\<close> (\<open>storage/writer.rs\<close>) and the cosine
  similarity of \<open>retrieval/scoring.rs\<close>. An \<open>f32\<close> is its 32 bits, so that a stored blob
  decodes to whatever it holds, infinities and NaN included; the similarity is computed in
  \<open>f64\<close> with those (\<open>xf64\<close>). Zeros are not signed: the program compares and clamps them
  only.
\<close>

section \<open>Doubles with infinities and NaN\<close>

datatype xf64 = Fin f64 | PInf | NInf | NaN

definition xround :: "rat \<Rightarrow> xf64" where
  "xround x = (let y = round64 x
     in if 2 ^ 1024 \<le> y then PInf else if y \<le> - (2 ^ 1024) then NInf else Fin y)"

fun xneg :: "xf64 \<Rightarrow> xf64" where
  "xneg (Fin x) = Fin (- x)"
| "xneg PInf = NInf"
| "xneg NInf = PInf"
| "xneg NaN = NaN"

fun xadd :: "xf64 \<Rightarrow> xf64 \<Rightarrow> xf64" where
  "xadd (Fin x) (Fin y) = xround (x + y)"
| "xadd NaN b = NaN"
| "xadd a NaN = NaN"
| "xadd PInf NInf = NaN"
| "xadd NInf PInf = NaN"
| "xadd PInf b = PInf"
| "xadd NInf b = NInf"
| "xadd (Fin x) b = b"

fun xsign :: "xf64 \<Rightarrow> int" where
  "xsign (Fin x) = (if x = 0 then 0 else if 0 < x then 1 else - 1)"
| "xsign PInf = 1"
| "xsign NInf = - 1"
| "xsign NaN = 0"

definition xinf :: "int \<Rightarrow> xf64" where
  "xinf s = (if s = 0 then NaN else if 0 < s then PInf else NInf)"

fun xmul :: "xf64 \<Rightarrow> xf64 \<Rightarrow> xf64" where
  "xmul (Fin x) (Fin y) = xround (x * y)"
| "xmul NaN b = NaN"
| "xmul a NaN = NaN"
| "xmul a b = xinf (xsign a * xsign b)"

text \<open>Division; a zero divisor counts as positive.\<close>

fun xdiv :: "xf64 \<Rightarrow> xf64 \<Rightarrow> xf64" where
  "xdiv (Fin x) (Fin y) = (if y = 0 then xinf (xsign (Fin x)) else xround (x / y))"
| "xdiv NaN b = NaN"
| "xdiv a NaN = NaN"
| "xdiv (Fin x) b = Fin 0"
| "xdiv a (Fin y) = (if y < 0 then xneg a else a)"
| "xdiv a b = NaN"

fun xless :: "xf64 \<Rightarrow> xf64 \<Rightarrow> bool" where
  "xless (Fin x) (Fin y) = (x < y)"
| "xless NaN b = False"
| "xless a NaN = False"
| "xless NInf b = (b \<noteq> NInf)"
| "xless a PInf = (a \<noteq> PInf)"
| "xless a b = False"

definition xle :: "xf64 \<Rightarrow> xf64 \<Rightarrow> bool" where
  "xle a b \<longleftrightarrow> xless a b \<or> (a = b \<and> a \<noteq> NaN)"

text \<open>Integer square root, two bits at a time, and the correctly rounded root of a double.\<close>

fun isqrt :: "nat \<Rightarrow> nat" where
  "isqrt n = (if n = 0 then 0
     else let r = 2 * isqrt (n div 4) in if (r + 1) * (r + 1) \<le> n then r + 1 else r)"

declare isqrt.simps [simp del]

lemma isqrt_bounds: "isqrt n * isqrt n \<le> n \<and> n < (isqrt n + 1) * (isqrt n + 1)"
proof (induction n rule: isqrt.induct)
  case (1 n)
  show ?case
  proof (cases "n = 0")
    case True
    moreover have "isqrt 0 = 0" by (subst isqrt.simps) simp
    ultimately show ?thesis by simp
  next
    case False
    define q where "q = isqrt (n div 4)"
    have ih: "q * q \<le> n div 4" "n div 4 < (q + 1) * (q + 1)"
      using "1.IH" [OF False] by (simp_all add: q_def)
    have lo: "(2 * q) * (2 * q) \<le> n" using ih(1) by simp
    have "n < 4 * ((q + 1) * (q + 1))" using ih(2) by linarith
    also have "\<dots> = (2 * q + 1 + 1) * (2 * q + 1 + 1)" by (simp add: algebra_simps)
    finally have hi: "n < (2 * q + 1 + 1) * (2 * q + 1 + 1)" .
    have "isqrt n = (if (2 * q + 1) * (2 * q + 1) \<le> n then 2 * q + 1 else 2 * q)"
      using False by (simp add: isqrt.simps [of n] Let_def q_def)
    with lo hi show ?thesis by simp
  qed
qed

text \<open>
  The root is taken of \<open>x\<close> scaled by an even power of two to 121 or 122 bits, so that its integer
  part has 61 bits; half a unit stands for any remaining fraction, which rounds the same way.
\<close>

definition f64_sqrt :: "f64 \<Rightarrow> f64" where
  "f64_sqrt x =
     (if x \<le> 0 then 0
      else let k = 60 - ilog2 x div 2;
               y = x * two_pow (2 * k);
               n = nat \<lfloor>y\<rfloor>;
               s = isqrt n;
               r = (if of_nat (s * s) = y then of_nat s else of_nat s + 1 / 2)
           in round64 (r * two_pow (- k)))"

fun xsqrt :: "xf64 \<Rightarrow> xf64" where
  "xsqrt (Fin x) = (if x < 0 then NaN else Fin (f64_sqrt x))"
| "xsqrt PInf = PInf"
| "xsqrt NInf = NaN"
| "xsqrt NaN = NaN"

text \<open>\<open>clamp(0.0, 1.0)\<close>, which keeps NaN.\<close>

definition xclamp01 :: "xf64 \<Rightarrow> xf64" where
  "xclamp01 a = (if xless a (Fin 0) then Fin 0 else if xless (Fin 1) a then Fin 1 else a)"

section \<open>Vectors\<close>

type_synonym f32 = "32 word"

definition f32_value :: "f32 \<Rightarrow> xf64" where
  "f32_value w =
     (let neg = bit w 31;
          e = uint (drop_bit 23 w AND 0xFF);
          m = uint (w AND 0x7FFFFF);
          signed = (\<lambda>x. Fin (if neg then - x else x))
      in if e = 255 then (if m \<noteq> 0 then NaN else if neg then NInf else PInf)
         else if e = 0 then signed (of_int m * two_pow (- 149))
         else signed (of_int (2 ^ 23 + m) * two_pow (e - 150)))"

definition le_bytes :: "f32 \<Rightarrow> bytes" where
  "le_bytes w = [ucast w, ucast (drop_bit 8 w), ucast (drop_bit 16 w), ucast (drop_bit 24 w)]"

definition vector_to_blob :: "f32 list \<Rightarrow> bytes" where
  "vector_to_blob vec = concat (map le_bytes vec)"

definition from_le_bytes :: "u8 \<Rightarrow> u8 \<Rightarrow> u8 \<Rightarrow> u8 \<Rightarrow> f32" where
  "from_le_bytes a b c d =
     ucast a OR push_bit 8 (ucast b) OR push_bit 16 (ucast c) OR push_bit 24 (ucast d)"

text \<open>\<open>chunks_exact(4)\<close>, each chunk read as an \<open>f32\<close>.\<close>

fun blob_to_vector :: "bytes \<Rightarrow> f32 list" where
  "blob_to_vector (a # b # c # d # rest) = from_le_bytes a b c d # blob_to_vector rest"
| "blob_to_vector _ = []"

definition cosine_step :: "f32 \<times> f32 \<Rightarrow> xf64 \<times> xf64 \<times> xf64 \<Rightarrow> xf64 \<times> xf64 \<times> xf64" where
  "cosine_step p acc =
     (case p of (a, b) \<Rightarrow> case acc of (dot, norm1, norm2) \<Rightarrow>
       let af = f32_value a; bf = f32_value b
       in (xadd dot (xmul af bf), xadd norm1 (xmul af af), xadd norm2 (xmul bf bf)))"

definition cosine_similarity :: "f32 list \<Rightarrow> f32 list \<Rightarrow> xf64" where
  "cosine_similarity v1 v2 =
     (if v1 = [] \<or> v2 = [] \<or> length v1 \<noteq> length v2 then Fin 0
      else case fold cosine_step (zip v1 v2) (Fin 0, Fin 0, Fin 0) of
        (dot, norm1, norm2) \<Rightarrow>
          if xle norm1 (Fin 0) \<or> xle norm2 (Fin 0) then Fin 0
          else xclamp01 (xdiv dot (xmul (xsqrt norm1) (xsqrt norm2))))"

section \<open>Round trip of a blob\<close>

lemma from_to_le_bytes:
  fixes w :: f32
  shows "from_le_bytes (ucast w) (ucast (drop_bit 8 w)) (ucast (drop_bit 16 w)) (ucast (drop_bit 24 w)) = w"
  unfolding from_le_bytes_def
proof (rule bit_word_eqI)
  fix n
  assume "n < LENGTH(32)"
  then consider "n < 8" | "8 \<le> n" "n < 16" | "16 \<le> n" "n < 24" | "24 \<le> n" "n < 32"
    by fastforce
  then show "bit (ucast (ucast w :: u8) OR push_bit 8 (ucast (ucast (drop_bit 8 w) :: u8)) OR
      push_bit 16 (ucast (ucast (drop_bit 16 w) :: u8)) OR
      push_bit 24 (ucast (ucast (drop_bit 24 w) :: u8)) :: f32) n \<longleftrightarrow> bit w n"
    by cases (auto simp: bit_simps)
qed

lemma blob_roundtrip: "blob_to_vector (vector_to_blob vec) = vec"
  by (induction vec) (simp_all add: vector_to_blob_def le_bytes_def from_to_le_bytes)

lemma length_blob: "length (vector_to_blob vec) = 4 * length vec"
  by (induction vec) (simp_all add: vector_to_blob_def le_bytes_def)

section \<open>Range and symmetry of the similarity\<close>

lemma xclamp01_range: "xclamp01 a = NaN \<or> (\<exists>x. xclamp01 a = Fin x \<and> 0 \<le> x \<and> x \<le> 1)"
  by (cases a) (auto simp: xclamp01_def)

lemma xmul_commute: "xmul a b = xmul b a"
  by (cases a; cases b) (simp_all add: mult.commute)

lemma cosine_fold_swap:
  "fold cosine_step (map prod.swap ps) (d, n2, n1) =
     (case fold cosine_step ps (d, n1, n2) of (d', n1', n2') \<Rightarrow> (d', n2', n1'))"
proof (induction ps arbitrary: d n1 n2)
  case (Cons p ps)
  obtain a b where "p = (a, b)" by fastforce
  with Cons show ?case by (simp add: cosine_step_def Let_def xmul_commute)
qed simp

lemma cosine_range:
  "cosine_similarity v1 v2 = NaN \<or> (\<exists>x. cosine_similarity v1 v2 = Fin x \<and> 0 \<le> x \<and> x \<le> 1)"
  using xclamp01_range by (auto simp: cosine_similarity_def split: prod.splits)

lemma cosine_symmetric: "cosine_similarity v1 v2 = cosine_similarity v2 v1"
proof -
  have "zip v2 v1 = map prod.swap (zip v1 v2)" by (simp add: zip_commute [of v2 v1] prod.swap_def case_prod_unfold)
  then show ?thesis
    using cosine_fold_swap [of "zip v1 v2" "Fin 0" "Fin 0" "Fin 0"]
    by (auto simp: cosine_similarity_def xmul_commute split: prod.splits)
qed

end
