(* ===== verification/Governance.thy ===== *)
theory Governance
  imports Note_Outcomes Sql_Conn Similarity
begin

text \<open>
  Governance of the constitution (L0) rules: \<open>governance/mod.rs\<close>. A change is proposed, then
  approved by principals; the third distinct approval writes the rule into \<open>notes\<close> and
  marks the change applied, in one transaction. The connection is modelled with its open
  transaction, because the code leaves it open in one case. Unicode normalisation and case
  mapping, serde_json and the embedder are the fields of \<open>gov_lib\<close>; time and the random
  ids of a call are its \<open>gov_env\<close>.
\<close>

section \<open>Data\<close>

record approval_entry =
  ae_approver :: ustr
  ae_actor_id :: "ustr option"
  ae_comment :: "ustr option"
  ae_approved_at :: ustr

record change_row =
  cr_id :: ustr
  cr_change_type :: ustr
  cr_proposed_content :: ustr
  cr_reason :: ustr
  cr_target_id :: "ustr option"
  cr_category :: "ustr option"
  cr_status :: ustr
  cr_approvals_count :: int
  cr_approvals_needed :: int
  cr_approvals :: ustr
  cr_proposer :: ustr
  cr_created_at :: ustr
  cr_updated_at :: ustr
  cr_applied_at :: "ustr option"

record change_record =
  ch_id :: ustr
  ch_change_type :: ustr
  ch_proposed_content :: ustr
  ch_reason :: ustr
  ch_target_id :: "ustr option"
  ch_category :: "ustr option"
  ch_status :: ustr
  ch_approvals_count :: int
  ch_approvals_needed :: int
  ch_approvals :: "approval_entry list"
  ch_proposer :: ustr
  ch_created_at :: ustr
  ch_updated_at :: ustr
  ch_applied_at :: "ustr option"

record gov_db = notes_db +
  changes :: "change_row list"

type_synonym gov_conn = "gov_db sql_conn"

datatype gov_stmt =
    InsertChange | BeginTxn | CommitTxn | RollbackTxn
  | PrepareChange | SelectChange | UpdateApprovals | UpdatePending
  | CountTarget | DeleteTarget | FlipStatus
  | NoteStmt note_stmt

record gov_lib =
  gl_parse_approvals :: "ustr \<Rightarrow> approval_entry list option"
  gl_print_approvals :: "approval_entry list \<Rightarrow> ustr option"
  gl_print :: "json \<Rightarrow> ustr option"
  gl_embed_text :: "ustr \<Rightarrow> f32 list option"
  gl_print_vector :: "f32 list \<Rightarrow> ustr option"
  gl_nfkc :: "ustr \<Rightarrow> ustr"
  gl_to_lowercase :: "ustr \<Rightarrow> ustr"

record gov_env =
  ge_now :: ustr
  ge_uuid :: ustr
  ge_clock :: write_clock

definition APPROVALS_NEEDED :: int where "APPROVALS_NEEDED = 3"

section \<open>Approver labels\<close>

definition is_default_ignorable :: "rchar \<Rightarrow> bool" where
  "is_default_ignorable c \<longleftrightarrow>
     c = 0x200B \<or> c = 0x200C \<or> c = 0x200D \<or> c = 0xFEFF \<or> c = 0x2060 \<or> c = 0x00AD \<or>
     c = 0x180E \<or> c = 0x034F \<or>
     (0x202A \<le> c \<and> c \<le> 0x202E) \<or> (0x2066 \<le> c \<and> c \<le> 0x2069) \<or>
     (0xFE00 \<le> c \<and> c \<le> 0xFE0F) \<or> (0xE0100 \<le> c \<and> c \<le> 0xE01EF) \<or>
     (0xE0000 \<le> c \<and> c \<le> 0xE007F)"

definition canonicalize_approver :: "gov_lib \<Rightarrow> ustr \<Rightarrow> ustr" where
  "canonicalize_approver G s =
     gl_to_lowercase G (trim (gl_nfkc G (filter (\<lambda>c. \<not> is_default_ignorable c) s)))"

section \<open>The connection\<close>

abbreviation begin_immediate :: "gov_stmt faults \<Rightarrow> (gov_conn, sql_error, unit) op" where
  "begin_immediate flt \<equiv> txn_begin (flt BeginTxn)"

abbreviation commit :: "gov_stmt faults \<Rightarrow> (gov_conn, sql_error, unit) op" where
  "commit flt \<equiv> txn_commit (flt CommitTxn)"

abbreviation rollback :: "gov_stmt faults \<Rightarrow> (gov_conn, sql_error, unit) op" where
  "rollback flt \<equiv> txn_rollback (flt RollbackTxn)"

section \<open>Proposing\<close>

definition propose_change ::
  "gov_stmt faults \<Rightarrow> gov_env \<Rightarrow> ustr \<Rightarrow> ustr \<Rightarrow> ustr option \<Rightarrow> ustr option \<Rightarrow> ustr option \<Rightarrow> ustr option \<Rightarrow>
   (gov_conn, ustr, change_record) op" where
  "propose_change flt ev content reason change_type target_id category proposer =
     (let now = ge_now ev; change_id = ge_uuid ev;
          ct = (case change_type of None \<Rightarrow> lit ''create'' | Some t \<Rightarrow> t);
          prop = (case proposer of None \<Rightarrow> lit ''mcp'' | Some p \<Rightarrow> p)
      in op_bind
           (op_map_err (\<lambda>e. lit ''Insert failed: '' @ e)
             (on_conn (\<lambda>db.
                if flt InsertChange = None \<and> row_get cr_id change_id (changes db) \<noteq> None
                then (db, Err (lit ''UNIQUE constraint failed: constitution_changes.id''))
                else sql_exec (flt InsertChange) (\<lambda>db.
                  (db\<lparr>changes := changes db @
                     [\<lparr>cr_id = change_id, cr_change_type = ct, cr_proposed_content = content,
                       cr_reason = reason, cr_target_id = target_id, cr_category = category,
                       cr_status = lit ''pending'', cr_approvals_count = 0,
                       cr_approvals_needed = APPROVALS_NEEDED, cr_approvals = lit ''[]'',
                       cr_proposer = prop, cr_created_at = now, cr_updated_at = now,
                       cr_applied_at = None\<rparr>]\<rparr>, ())) db)))
           (\<lambda>_. op_return
             \<lparr>ch_id = change_id, ch_change_type = ct, ch_proposed_content = content,
              ch_reason = reason, ch_target_id = target_id, ch_category = category,
              ch_status = lit ''pending'', ch_approvals_count = 0,
              ch_approvals_needed = APPROVALS_NEEDED, ch_approvals = [], ch_proposer = prop,
              ch_created_at = now, ch_updated_at = now, ch_applied_at = None\<rparr>))"

section \<open>Applying\<close>

definition l0_row :: "ustr \<Rightarrow> note_row \<Rightarrow> bool" where
  "l0_row tid r \<longleftrightarrow> nr_id r = tid \<and> nr_layer r = lit ''identity_schema''"

definition target_note_id ::
  "gov_stmt faults \<Rightarrow> gov_env \<Rightarrow> ustr \<Rightarrow> ustr option \<Rightarrow> (gov_db, ustr, ustr) op" where
  "target_note_id flt ev change_type target_id =
     (if change_type = lit ''update'' then
        case target_id of
          None \<Rightarrow> op_fail (lit ''apply_change update requires target_id'')
        | Some tid \<Rightarrow>
            op_bind (op_map_err (\<lambda>e. lit ''apply_change update precheck failed: '' @ e)
                       (sql_query (flt CountTarget) (\<lambda>db. row_count (l0_row tid) (note_rows db))))
              (\<lambda>n. if n = 0
                   then op_fail (lit ''apply_change update: target identity_schema row not found for id='' @
                          tid @ lit ''; refusing to upsert a new row under an update change_type'')
                   else op_return tid)
      else op_return (ge_uuid ev))"

definition l0_note ::
  "gov_lib \<Rightarrow> ustr option \<Rightarrow> ustr \<Rightarrow> ustr \<Rightarrow> ustr option \<Rightarrow> ustr \<Rightarrow> ustr \<Rightarrow> ustr \<Rightarrow>
   (ustr, note_insert) result" where
  "l0_note G project_id note_id content category now applied_by metadata_json =
     and_then
       (case gl_embed_text G content of
          None \<Rightarrow> Ok (None, None)
        | Some emb \<Rightarrow>
            (case gl_print_vector G emb of
               None \<Rightarrow> Err (lit ''apply_change vector encode failed'')
             | Some j \<Rightarrow> Ok (Some j, Some (vector_to_blob emb))))
       (\<lambda>(vector_json, vector_blob).
          Ok (note_insert_default
            \<lparr>ni_id := note_id, ni_content := content, ni_layer := lit ''identity_schema'',
             ni_category := category, ni_is_active := True, ni_confidence := Some (f64_lit 0.99),
             ni_project_id := project_id, ni_created_at := Some now, ni_updated_at := Some now,
             ni_metadata_json := Some metadata_json, ni_vector_json := vector_json,
             ni_vector_blob := vector_blob, ni_is_head := True,
             ni_evolution_state := Some (lit ''active''), ni_agent := Some applied_by\<rparr>))"

text \<open>The match on the change type.\<close>

definition write_rule ::
  "gov_lib \<Rightarrow> ustr option \<Rightarrow> gov_stmt faults \<Rightarrow> gov_env \<Rightarrow> ustr \<Rightarrow> ustr \<Rightarrow> ustr option \<Rightarrow> ustr option \<Rightarrow>
   ustr \<Rightarrow> ustr \<Rightarrow> ustr \<Rightarrow> (gov_db, ustr, unit) op" where
  "write_rule G project_id flt ev change_type content target_id category now applied_by metadata_json =
     (if change_type = lit ''create'' \<or> change_type = lit ''update'' then
        op_bind (target_note_id flt ev change_type target_id) (\<lambda>note_id.
        case l0_note G project_id note_id content category now applied_by metadata_json of
          Inl e \<Rightarrow> op_fail e
        | Inr note \<Rightarrow>
            op_map_err (\<lambda>e. lit ''apply_change upsert failed: '' @ e)
              (upsert_note (\<lambda>s. flt (NoteStmt s)) (ge_clock ev) note))
      else if change_type = lit ''delete'' then
        (case target_id of
           None \<Rightarrow> op_fail (lit ''delete requires target_id'')
         | Some tid \<Rightarrow>
             op_bind
               (op_map_err (\<lambda>e. lit ''apply_change delete failed: '' @ e)
                 (sql_exec (flt DeleteTarget) (\<lambda>db.
                   (db\<lparr>note_rows := row_update (l0_row tid)
                      (\<lambda>r. r\<lparr>nr_is_active := 0, nr_updated_at := Some now,
                             nr_evolution_state := Some (lit ''deprecated'')\<rparr>) (note_rows db)\<rparr>,
                    row_count (l0_row tid) (note_rows db)))))
               (\<lambda>affected. if affected = 0
                  then op_fail (lit ''apply_change delete: no identity_schema row found with id='' @ tid)
                  else op_return ()))
      else op_fail (lit ''apply_change: unknown change_type '' @ [39] @ change_type @ [39]))"

definition apply_change_inner ::
  "gov_lib \<Rightarrow> ustr option \<Rightarrow> gov_stmt faults \<Rightarrow> gov_env \<Rightarrow> ustr \<Rightarrow> ustr \<Rightarrow> ustr \<Rightarrow> ustr option \<Rightarrow>
   ustr option \<Rightarrow> ustr \<Rightarrow> ustr \<Rightarrow> (gov_db, ustr, unit) op" where
  "apply_change_inner G project_id flt ev change_id change_type content target_id category now applied_by =
     (case gl_print G (JObj [(lit ''applied_by'', JStr applied_by), (lit ''change_id'', JStr change_id)]) of
        None \<Rightarrow> op_fail (lit ''apply_change metadata encode failed'')
      | Some metadata_json \<Rightarrow>
          op_bind
            (write_rule G project_id flt ev change_type content target_id category now applied_by metadata_json)
            (\<lambda>_. op_map_err (\<lambda>e. lit ''apply_change status flip failed: '' @ e)
              (sql_exec (flt FlipStatus) (\<lambda>db.
                 (db\<lparr>changes := row_update (\<lambda>r. cr_id r = change_id)
                    (\<lambda>r. r\<lparr>cr_status := lit ''applied'', cr_applied_at := Some now, cr_updated_at := now\<rparr>)
                    (changes db)\<rparr>, ())))))"

section \<open>Approving\<close>

definition principal_key :: "approval_entry \<Rightarrow> ustr" where
  "principal_key a = (case ae_actor_id a of None \<Rightarrow> ae_approver a | Some x \<Rightarrow> x)"

fun dedup_approvals ::
  "gov_lib \<Rightarrow> approval_entry list \<Rightarrow> ustr list \<Rightarrow> ustr list \<Rightarrow> approval_entry list \<Rightarrow>
   ustr list \<times> ustr list \<times> approval_entry list" where
  "dedup_approvals G [] seen_principals seen_approvers approvals =
     (seen_principals, seen_approvers, approvals)"
| "dedup_approvals G (a # as) seen_principals seen_approvers approvals =
     (let p = principal_key a; k = canonicalize_approver G (ae_approver a)
      in if p \<notin> set seen_principals \<and> k \<notin> set seen_approvers
         then dedup_approvals G as (p # seen_principals) (k # seen_approvers) (approvals @ [a])
         else dedup_approvals G as seen_principals seen_approvers approvals)"

text \<open>\<open>as i32\<close> keeps the low 32 bits.\<close>

definition as_i32 :: "nat \<Rightarrow> int" where
  "as_i32 n = (int n + 2 ^ 31) mod 2 ^ 32 - 2 ^ 31"

definition approved_record ::
  "change_row \<Rightarrow> ustr \<Rightarrow> int \<Rightarrow> approval_entry list \<Rightarrow> ustr \<Rightarrow> ustr option \<Rightarrow> change_record" where
  "approved_record row st n approvals now applied_at =
     \<lparr>ch_id = cr_id row, ch_change_type = cr_change_type row,
      ch_proposed_content = cr_proposed_content row, ch_reason = cr_reason row,
      ch_target_id = cr_target_id row, ch_category = cr_category row, ch_status = st,
      ch_approvals_count = n, ch_approvals_needed = cr_approvals_needed row,
      ch_approvals = approvals, ch_proposer = cr_proposer row, ch_created_at = cr_created_at row,
      ch_updated_at = now, ch_applied_at = applied_at\<rparr>"

definition save_approvals ::
  "gov_stmt faults \<Rightarrow> gov_stmt \<Rightarrow> ustr \<Rightarrow> (change_row \<Rightarrow> change_row) \<Rightarrow> (gov_db, sql_error, unit) op" where
  "save_approvals flt stmt change_id f =
     sql_exec (flt stmt) (\<lambda>db.
       (db\<lparr>changes := row_update (\<lambda>r. cr_id r = change_id) f (changes db)\<rparr>, ()))"

definition approve_inner ::
  "gov_lib \<Rightarrow> ustr option \<Rightarrow> gov_stmt faults \<Rightarrow> gov_env \<Rightarrow> ustr \<Rightarrow> ustr \<Rightarrow> ustr \<Rightarrow> ustr option \<Rightarrow> ustr \<Rightarrow>
   (gov_db, ustr, change_record) op" where
  "approve_inner G project_id flt ev change_id aid approver comment now =
     op_bind (op_map_err (\<lambda>e. lit ''Query prepare failed: '' @ e) (sql_query (flt PrepareChange) (\<lambda>_. ()))) (\<lambda>_.
     op_bind (op_map_err (\<lambda>e. lit ''Change not found: '' @ e)
               (op_bind (sql_query (flt SelectChange) (\<lambda>db. row_get cr_id change_id (changes db)))
                  (\<lambda>found. case found of None \<Rightarrow> op_fail no_rows | Some r \<Rightarrow> op_return r))) (\<lambda>row.
     if cr_status row \<noteq> lit ''pending''
     then op_fail (lit ''Change is not pending (status: '' @ cr_status row @ lit '')'')
     else case gl_parse_approvals G (cr_approvals row) of
       None \<Rightarrow> op_fail (lit ''Approvals JSON corrupted for change '' @ cr_id row)
     | Some parsed \<Rightarrow>
        (case dedup_approvals G parsed [] [] [] of (seen_principals, seen_approvers, approvals) \<Rightarrow>
         if canonicalize_approver G approver \<in> set seen_approvers
         then op_fail (lit ''already approved by this approver: '' @ approver)
         else if aid \<in> set seen_principals
         then op_fail (lit ''Authenticated principal already approved: '' @ aid)
         else
           let approvals1 = approvals @ [\<lparr>ae_approver = approver, ae_actor_id = Some aid,
                               ae_comment = comment, ae_approved_at = now\<rparr>];
               new_count = as_i32 (length approvals1);
               approvals_str = (case gl_print_approvals G approvals1 of None \<Rightarrow> lit ''[]'' | Some s \<Rightarrow> s)
           in if new_count \<ge> cr_approvals_needed row then
                op_bind (op_map_err (\<lambda>e. lit ''Approval count update failed: '' @ e)
                  (save_approvals flt UpdateApprovals change_id
                    (\<lambda>r. r\<lparr>cr_approvals_count := new_count, cr_approvals := approvals_str,
                           cr_updated_at := now\<rparr>))) (\<lambda>_.
                op_bind (apply_change_inner G project_id flt ev change_id (cr_change_type row)
                           (cr_proposed_content row) (cr_target_id row) (cr_category row) now aid) (\<lambda>_.
                op_return (approved_record row (lit ''applied'') new_count approvals1 now (Some now))))
              else
                op_bind (op_map_err (\<lambda>e. lit ''Update failed: '' @ e)
                  (save_approvals flt UpdatePending change_id
                    (\<lambda>r. r\<lparr>cr_approvals_count := new_count, cr_approvals := approvals_str,
                           cr_status := lit ''pending'', cr_updated_at := now\<rparr>))) (\<lambda>_.
                op_return (approved_record row (lit ''pending'') new_count approvals1 now
                             (cr_applied_at row))))))"

definition approve_change_for_principal ::
  "gov_lib \<Rightarrow> ustr option \<Rightarrow> gov_stmt faults \<Rightarrow> gov_env \<Rightarrow> ustr \<Rightarrow> ustr \<Rightarrow> ustr option \<Rightarrow> ustr option \<Rightarrow>
   (gov_conn, ustr, change_record) op" where
  "approve_change_for_principal G project_id flt ev change_id aid approver comment =
     (if trim aid = [] then op_fail (lit ''Authenticated principal must not be empty'')
      else
        let approver_name = (case approver of None \<Rightarrow> aid | Some a \<Rightarrow> a)
        in if trim approver_name = [] then op_fail (lit ''approver must not be empty'')
           else if canonicalize_approver G approver_name = []
           then op_fail (lit ''approver must not be empty after canonicalization'')
           else (\<lambda>c.
             case begin_immediate flt c of
               (c1, Inl e) \<Rightarrow> (c1, Err (lit ''Transaction start failed: '' @ e))
             | (c1, Inr _) \<Rightarrow>
                (case on_conn (approve_inner G project_id flt ev change_id aid approver_name comment (ge_now ev)) c1 of
                   (c2, Inr record) \<Rightarrow>
                     (case commit flt c2 of
                        (c3, Inl e) \<Rightarrow> (c3, Err (lit ''Commit failed: '' @ e))
                      | (c3, Inr _) \<Rightarrow> (c3, Ok record))
                 | (c2, Inl e) \<Rightarrow> (fst (rollback flt c2), Err e))))"

definition approve_change ::
  "gov_lib \<Rightarrow> ustr option \<Rightarrow> gov_stmt faults \<Rightarrow> gov_env \<Rightarrow> ustr \<Rightarrow> ustr option \<Rightarrow> ustr option \<Rightarrow>
   (gov_conn, ustr, change_record) op" where
  "approve_change G project_id flt ev change_id approver comment =
     (let approver_name = (case approver of None \<Rightarrow> lit ''mcp'' | Some a \<Rightarrow> a)
      in approve_change_for_principal G project_id flt ev change_id approver_name (Some approver_name) comment)"

end
