(* ===== verification/Governance_Laws.thy ===== *)
theory Governance_Laws
  imports Governance
begin

text \<open>
  What the approval procedure guarantees: an applied change has a quorum of distinct,
  recorded approvals; an approval that fails changes nothing durable; rules change only
  when a change is applied; and what happens after a failed commit.
\<close>

section \<open>Ballots\<close>

definition label_key :: "gov_lib \<Rightarrow> approval_entry \<Rightarrow> ustr" where
  "label_key G a = canonicalize_approver G (ae_approver a)"

definition ballot :: "gov_lib \<Rightarrow> approval_entry list \<Rightarrow> bool" where
  "ballot G xs \<longleftrightarrow> distinct (map principal_key xs) \<and> distinct (map (label_key G) xs)"

lemma dedup_ballot:
  assumes "dedup_approvals G xs ps ks ys = (ps', ks', zs)"
    and "ballot G ys" "set ps = principal_key ` set ys" "set ks = label_key G ` set ys"
  shows "ballot G zs \<and> set ps' = principal_key ` set zs \<and> set ks' = label_key G ` set zs \<and>
    set zs \<subseteq> set ys \<union> set xs"
  using assms
proof (induction xs arbitrary: ps ks ys)
  case (Cons a xs)
  show ?case
  proof (cases "principal_key a \<notin> set ps \<and> label_key G a \<notin> set ks")
    case True
    then have "dedup_approvals G xs (principal_key a # ps) (label_key G a # ks) (ys @ [a]) = (ps', ks', zs)"
      using Cons.prems(1) by (simp add: Let_def label_key_def)
    moreover have "ballot G (ys @ [a])"
      using True Cons.prems(2-4) by (auto simp: ballot_def)
    ultimately show ?thesis
      using Cons.IH [of "principal_key a # ps" "label_key G a # ks" "ys @ [a]"] Cons.prems(3,4) by auto
  next
    case False
    then have "dedup_approvals G xs ps ks ys = (ps', ks', zs)"
      using Cons.prems(1) by (auto simp: Let_def label_key_def split: if_splits)
    with Cons.IH Cons.prems(2-4) show ?thesis by fastforce
  qed
qed simp

lemma dedup_id:
  "ballot G (ys @ xs) \<Longrightarrow> set ps = principal_key ` set ys \<Longrightarrow> set ks = label_key G ` set ys \<Longrightarrow>
   snd (snd (dedup_approvals G xs ps ks ys)) = ys @ xs"
proof (induction xs arbitrary: ps ks ys)
  case (Cons a xs)
  then have "principal_key a \<notin> set ps \<and> label_key G a \<notin> set ks"
    by (auto simp: ballot_def)
  with Cons.IH [of "ys @ [a]" "principal_key a # ps" "label_key G a # ks"] Cons.prems show ?case
    by (simp add: Let_def label_key_def)
qed simp

lemma as_i32_le: "as_i32 n \<le> int n"
  using zmod_le_nonneg_dividend [of "int n + 2 ^ 31" "2 ^ 32"] by (simp add: as_i32_def)

lemma as_i32_small: "n < 2 ^ 31 \<Longrightarrow> as_i32 n = int n"
  by (simp add: as_i32_def)

section \<open>One approval\<close>

declare op_success [simp]

lemma upsert_note_changes:
  "upsert_note flt c n db = (db', Ok ()) \<Longrightarrow> changes (db' :: gov_db) = changes db"
  by (auto simp: upsert_note_def upsert_session_def op_bind_def sql_exec_def op_return_def split: option.splits)

lemma target_note_id_Ok:
  "target_note_id flt ev ty tid db = (db', Ok k) \<Longrightarrow>
   db' = db \<and> (if ty = lit ''update'' then tid = Some k \<and> row_count (l0_row k) (note_rows db) \<noteq> 0 else k = ge_uuid ev)"
  by (auto simp: target_note_id_def elim!: op_bind_OkE split: if_splits option.splits)

lemma l0_note_Ok:
  assumes "l0_note G pid k content category now by_id meta = Ok n"
  shows "ni_id n = k" "ni_content n = content" "ni_layer n = lit ''identity_schema''" "ni_is_active n"
    "ni_project_id n = pid" "ni_evolution_state n = Some (lit ''active'')" "ni_category n = category"
    "ni_session_id n = None"
  using assms by (auto simp: l0_note_def and_then_def note_insert_default_def split: option.splits sum.splits)

text \<open>What applying a change does to the notes, by its type.\<close>

definition state_after :: "note_row option \<Rightarrow> ustr option" where
  "state_after old =
     (case old of
        None \<Rightarrow> Some (lit ''active'')
      | Some r \<Rightarrow> (case nr_evolution_state r of None \<Rightarrow> Some (lit ''active'') | Some st \<Rightarrow> Some st))"

definition applied_effect ::
  "ustr option \<Rightarrow> gov_env \<Rightarrow> ustr \<Rightarrow> ustr \<Rightarrow> ustr option \<Rightarrow> note_row list \<Rightarrow> note_row list \<Rightarrow> bool" where
  "applied_effect pid ev ty content target rows rows' \<longleftrightarrow>
     (ty = lit ''create'' \<or> ty = lit ''update'') \<and>
       (\<exists>k r. (if ty = lit ''update'' then target = Some k \<and> row_count (l0_row k) rows \<noteq> 0 else k = ge_uuid ev) \<and>
          row_get nr_id k rows' = Some r \<and> nr_content r = content \<and> nr_layer r = lit ''identity_schema'' \<and>
          nr_is_active r = 1 \<and> (pid \<noteq> None \<longrightarrow> nr_project_id r = pid) \<and>
          nr_evolution_state r = state_after (row_get nr_id k rows) \<and>
          (\<forall>k'. k' \<noteq> k \<longrightarrow> row_get nr_id k' rows' = row_get nr_id k' rows)) \<or>
     ty = lit ''delete'' \<and>
       (\<exists>k. target = Some k \<and> row_count (l0_row k) rows \<noteq> 0 \<and>
          rows' = row_update (l0_row k) (\<lambda>r. r\<lparr>nr_is_active := 0, nr_updated_at := Some (ge_now ev),
             nr_evolution_state := Some (lit ''deprecated'')\<rparr>) rows)"

lemma upserted_row:
  "\<exists>r. row_get nr_id (ni_id n) (upsert_note_row c n rows) = Some r \<and> nr_content r = ni_content n \<and>
     nr_layer r = ni_layer n \<and> nr_is_active r = (if ni_is_active n then 1 else 0) \<and>
     (ni_project_id n \<noteq> None \<longrightarrow> nr_project_id r = ni_project_id n) \<and>
     (ni_evolution_state n = Some (lit ''active'') \<longrightarrow>
        nr_evolution_state r = state_after (row_get nr_id (ni_id n) rows))"
  by (auto simp: row_get_upsert conflict_row_def inserted_row_def state_after_def simp del: lit_simps
      split: option.splits)

lemma write_rule_Ok:
  assumes "write_rule G pid flt ev ty content target category (ge_now ev) aid meta db = (db', Ok ())"
  shows "changes db' = changes db \<and> applied_effect pid ev ty content target (note_rows db) (note_rows db')"
proof (cases "ty = lit ''create'' \<or> ty = lit ''update''")
  case True
  with assms obtain k n where n: "l0_note G pid k content category (ge_now ev) aid meta = Ok n"
      "upsert_note (\<lambda>s. flt (NoteStmt s)) (ge_clock ev) n db = (db', Ok ())"
      "if ty = lit ''update'' then target = Some k \<and> row_count (l0_row k) (note_rows db) \<noteq> 0 else k = ge_uuid ev"
    unfolding write_rule_def
    by (auto elim!: op_bind_OkE dest!: target_note_id_Ok simp del: lit_simps split: sum.splits if_splits)
  note nn = l0_note_Ok [OF n(1)]
  have rows: "note_rows db' = upsert_note_row (ge_clock ev) n (note_rows db)"
    using upsert_note_Ok(1) [OF n(2)] .
  obtain r where "row_get nr_id k (note_rows db') = Some r" "nr_content r = content"
      "nr_layer r = lit ''identity_schema''" "nr_is_active r = 1" "pid \<noteq> None \<longrightarrow> nr_project_id r = pid"
      "nr_evolution_state r = state_after (row_get nr_id k (note_rows db))"
    using upserted_row [of n "ge_clock ev" "note_rows db"] nn rows by (auto simp del: lit_simps)
  moreover have "row_get nr_id k' (note_rows db') = row_get nr_id k' (note_rows db)" if "k' \<noteq> k" for k'
    using that nn(1) by (simp add: rows row_get_upsert)
  ultimately show ?thesis
    using True n(3) upsert_note_changes [OF n(2)]
    unfolding applied_effect_def by (auto simp del: lit_simps)
next
  case False
  with assms show ?thesis
    unfolding applied_effect_def write_rule_def
    by (auto elim!: op_bind_OkE simp: sql_exec_Ok simp del: lit_simps split: if_splits option.splits)
qed

lemma apply_change_inner_Ok:
  assumes "apply_change_inner G pid flt ev cid ty content target category (ge_now ev) aid db = (db', Ok ())"
  shows "changes db' = row_update (\<lambda>r. cr_id r = cid)
       (\<lambda>r. r\<lparr>cr_status := lit ''applied'', cr_applied_at := Some (ge_now ev), cr_updated_at := ge_now ev\<rparr>) (changes db) \<and>
     applied_effect pid ev ty content target (note_rows db) (note_rows db')"
proof -
  obtain meta db1 where
      "write_rule G pid flt ev ty content target category (ge_now ev) aid meta db = (db1, Ok ())"
      "db' = db1\<lparr>changes := row_update (\<lambda>r. cr_id r = cid)
       (\<lambda>r. r\<lparr>cr_status := lit ''applied'', cr_applied_at := Some (ge_now ev), cr_updated_at := ge_now ev\<rparr>) (changes db1)\<rparr>"
    using assms unfolding apply_change_inner_def
    by (auto elim!: op_bind_OkE simp: sql_exec_Ok simp del: lit_simps split: option.splits)
  with write_rule_Ok show ?thesis by fastforce
qed

lemma row_update_twice:
  "(\<And>r. key (f r) = key r) \<Longrightarrow>
   row_update (\<lambda>r. key r = k) g (row_update (\<lambda>r. key r = k) f rows) = row_update (\<lambda>r. key r = k) (g \<circ> f) rows"
  by (auto simp: row_update_def)

text \<open>What a successful approval does, in one statement.\<close>

definition saved_as :: "change_row \<Rightarrow> ustr \<Rightarrow> ustr \<Rightarrow> change_row \<Rightarrow> bool" where
  "saved_as r st approvals r' \<longleftrightarrow>
     cr_id r' = cr_id r \<and> cr_status r' = st \<and> cr_approvals r' = approvals \<and>
     cr_approvals_needed r' = cr_approvals_needed r \<and> cr_change_type r' = cr_change_type r \<and>
     cr_proposed_content r' = cr_proposed_content r \<and> cr_target_id r' = cr_target_id r"

definition approval_effect ::
  "gov_lib \<Rightarrow> ustr option \<Rightarrow> gov_env \<Rightarrow> ustr \<Rightarrow> ustr \<Rightarrow> ustr \<Rightarrow> ustr option \<Rightarrow> gov_db \<Rightarrow> gov_db \<Rightarrow> change_record \<Rightarrow> bool" where
  "approval_effect G pid ev cid aid label comment db db' rec \<longleftrightarrow>
     (\<exists>row parsed before F.
        let new = \<lparr>ae_approver = label, ae_actor_id = Some aid, ae_comment = comment, ae_approved_at = ge_now ev\<rparr>
        in row_get cr_id cid (changes db) = Some row \<and> cr_status row = lit ''pending'' \<and>
           gl_parse_approvals G (cr_approvals row) = Some parsed \<and>
           before = snd (snd (dedup_approvals G parsed [] [] [])) \<and> set before \<subseteq> set parsed \<and>
           ch_approvals rec = before @ [new] \<and> ballot G (before @ [new]) \<and> ch_id rec = cr_id row \<and>
           changes db' = row_update (\<lambda>r. cr_id r = cid) F (changes db) \<and>
           (\<forall>r. saved_as r (ch_status rec)
             (case gl_print_approvals G (before @ [new]) of None \<Rightarrow> lit ''[]'' | Some s \<Rightarrow> s) (F r)) \<and>
           ch_approvals_needed rec = cr_approvals_needed row \<and>
           (ch_status rec = lit ''pending'' \<and> note_rows db' = note_rows db \<and>
              as_i32 (length (before @ [new])) < cr_approvals_needed row \<or>
            ch_status rec = lit ''applied'' \<and> cr_approvals_needed row \<le> as_i32 (length (before @ [new])) \<and>
              applied_effect pid ev (cr_change_type row) (cr_proposed_content row) (cr_target_id row)
                (note_rows db) (note_rows db')))"

lemma approve_inner_Ok:
  assumes "approve_inner G pid flt ev cid aid label comment (ge_now ev) db = (db', Ok rec)"
  shows "approval_effect G pid ev cid aid label comment db db' rec"
proof -
  let ?new = "\<lparr>ae_approver = label, ae_actor_id = Some aid, ae_comment = comment, ae_approved_at = ge_now ev\<rparr>"
  obtain row where row: "row_get cr_id cid (changes db) = Some row" "cr_status row = lit ''pending''"
    using assms unfolding approve_inner_def
    by (auto elim!: op_bind_OkE simp del: lit_simps split: option.splits if_splits)
  obtain parsed where parsed: "gl_parse_approvals G (cr_approvals row) = Some parsed"
    using assms row unfolding approve_inner_def
    by (auto elim!: op_bind_OkE simp del: lit_simps split: option.splits if_splits)
  obtain ps ks before where d: "dedup_approvals G parsed [] [] [] = (ps, ks, before)"
    by (cases "dedup_approvals G parsed [] [] []") auto
  have b: "ballot G before" "set ps = principal_key ` set before" "set ks = label_key G ` set before"
      "set before \<subseteq> set parsed"
    using dedup_ballot [OF d] by (auto simp: ballot_def)
  let ?as = "before @ [?new]"
  let ?n = "as_i32 (length ?as)"
  let ?str = "case gl_print_approvals G ?as of None \<Rightarrow> lit ''[]'' | Some s \<Rightarrow> s"
  have fresh: "canonicalize_approver G label \<notin> set ks" "aid \<notin> set ps"
    using assms row parsed d unfolding approve_inner_def
    by (auto elim!: op_bind_OkE simp del: lit_simps split: option.splits if_splits)
  then have bal: "ballot G ?as"
    using b by (auto simp: ballot_def label_key_def principal_key_def)
  show ?thesis
  proof (cases "cr_approvals_needed row \<le> ?n")
    case True
    let ?f = "\<lambda>r. r\<lparr>cr_approvals_count := ?n, cr_approvals := ?str, cr_updated_at := ge_now ev\<rparr>"
    let ?db1 = "db\<lparr>changes := row_update (\<lambda>r. cr_id r = cid) ?f (changes db)\<rparr>"
    let ?g = "\<lambda>r. r\<lparr>cr_status := lit ''applied'', cr_applied_at := Some (ge_now ev), cr_updated_at := ge_now ev\<rparr>"
    from True fresh have run: "apply_change_inner G pid flt ev cid (cr_change_type row) (cr_proposed_content row)
          (cr_target_id row) (cr_category row) (ge_now ev) aid ?db1 = (db', Ok ())"
      and rec: "rec = approved_record row (lit ''applied'') ?n ?as (ge_now ev) (Some (ge_now ev))"
      using assms row parsed d unfolding approve_inner_def save_approvals_def
      by (auto elim!: op_bind_OkE simp: Let_def sql_exec_Ok simp del: lit_simps)
    from apply_change_inner_Ok [OF run] have
      "changes db' = row_update (\<lambda>r. cr_id r = cid) (?g \<circ> ?f) (changes db)"
      "applied_effect pid ev (cr_change_type row) (cr_proposed_content row) (cr_target_id row) (note_rows db) (note_rows db')"
      by (simp_all add: row_update_twice del: lit_simps)
    then show ?thesis
      unfolding approval_effect_def Let_def using row parsed d b(4) bal True rec
      by (intro exI [of _ row] exI [of _ parsed] exI [of _ before] exI [of _ "?g \<circ> ?f"])
        (simp add: approved_record_def saved_as_def del: lit_simps)
  next
    case False
    let ?f = "\<lambda>r. r\<lparr>cr_approvals_count := ?n, cr_approvals := ?str, cr_status := lit ''pending'', cr_updated_at := ge_now ev\<rparr>"
    from False fresh have "db' = db\<lparr>changes := row_update (\<lambda>r. cr_id r = cid) ?f (changes db)\<rparr>"
        "rec = approved_record row (lit ''pending'') ?n ?as (ge_now ev) (cr_applied_at row)"
      using assms row parsed d unfolding approve_inner_def save_approvals_def
      by (auto elim!: op_bind_OkE simp: Let_def sql_exec_Ok simp del: lit_simps)
    then show ?thesis
      unfolding approval_effect_def Let_def using row parsed d b(4) bal False
      by (intro exI [of _ row] exI [of _ parsed] exI [of _ before] exI [of _ ?f])
        (simp add: approved_record_def saved_as_def del: lit_simps)
  qed
qed

lemma approve_Ok:
  assumes "approve_change_for_principal G pid flt ev cid aid approver comment c = (c', Ok rec)"
  shows "open_txn c = None \<and> open_txn c' = None \<and>
    approval_effect G pid ev cid aid (case approver of None \<Rightarrow> aid | Some a \<Rightarrow> a) comment
      (committed c) (committed c') rec"
proof -
  let ?label = "case approver of None \<Rightarrow> aid | Some a \<Rightarrow> a"
  let ?inner = "approve_inner G pid flt ev cid aid ?label comment (ge_now ev)"
  obtain d where "open_txn c = None" "?inner (committed c) = (d, Ok rec)" "c' = c\<lparr>committed := d, open_txn := None\<rparr>"
    using assms
    unfolding approve_change_for_principal_def txn_begin_def txn_commit_def on_conn_def current_def Let_def
    by (auto simp: op_fail_def simp del: lit_simps split: if_splits option.splits prod.splits sum.splits)
  then show ?thesis using approve_inner_Ok by simp
qed

lemma approve_Err:
  assumes "approve_change_for_principal G pid flt ev cid aid approver comment c = (c', Err e)"
  shows "committed c' = committed c"
  using assms
  unfolding approve_change_for_principal_def txn_begin_def txn_commit_def txn_rollback_def on_conn_def current_def Let_def
  by (auto simp: op_fail_def simp del: lit_simps split: if_splits option.splits prod.splits sum.splits)

section \<open>Runs of the service\<close>

datatype gov_call =
    Propose ustr ustr "ustr option" "ustr option" "ustr option" "ustr option"
  | Approve ustr ustr "ustr option" "ustr option"

type_synonym approval_log = "(ustr \<times> ustr \<times> ustr) list"

text \<open>One call, with the log of the approvals that were answered with success.\<close>

fun gov_step ::
  "gov_lib \<Rightarrow> ustr option \<Rightarrow> gov_stmt faults \<times> gov_env \<times> gov_call \<Rightarrow> gov_conn \<times> approval_log \<Rightarrow>
   gov_conn \<times> approval_log" where
  "gov_step G pid (flt, ev, Propose content reason ty target category proposer) (c, votes) =
     (fst (propose_change flt ev content reason ty target category proposer c), votes)"
| "gov_step G pid (flt, ev, Approve cid aid approver comment) (c, votes) =
     (case approve_change_for_principal G pid flt ev cid aid approver comment c of
        (c', Inr _) \<Rightarrow> (c', (cid, aid, case approver of None \<Rightarrow> aid | Some a \<Rightarrow> a) # votes)
      | (c', Inl _) \<Rightarrow> (c', votes))"

fun gov_run ::
  "gov_lib \<Rightarrow> ustr option \<Rightarrow> (gov_stmt faults \<times> gov_env \<times> gov_call) list \<Rightarrow> gov_conn \<times> approval_log \<Rightarrow>
   gov_conn \<times> approval_log" where
  "gov_run G pid [] s = s"
| "gov_run G pid (x # xs) s = gov_run G pid xs (gov_step G pid x s)"

lemma gov_run_invariant:
  assumes "P s" "\<And>x s. P s \<Longrightarrow> P (gov_step G pid x s)"
  shows "P (gov_run G pid xs s)"
  using assms(1) by (induction xs arbitrary: s) (simp_all add: assms(2))

text \<open>Proposing adds one pending row without approvals, or nothing.\<close>

definition proposed_row :: "gov_env \<Rightarrow> change_row \<Rightarrow> bool" where
  "proposed_row ev r \<longleftrightarrow> cr_id r = ge_uuid ev \<and> cr_status r = lit ''pending'' \<and>
     cr_approvals_needed r = APPROVALS_NEEDED \<and> cr_approvals r = lit ''[]''"

lemma propose_committed:
  "committed (fst (propose_change flt ev content reason ty target category proposer c)) = committed c \<or>
   (\<exists>r. proposed_row ev r \<and> open_txn c = None \<and>
      row_get cr_id (ge_uuid ev) (changes (committed c)) = None \<and>
      committed (fst (propose_change flt ev content reason ty target category proposer c)) =
        (committed c)\<lparr>changes := changes (committed c) @ [r]\<rparr>)"
proof (cases "open_txn c = None \<and> flt InsertChange = None \<and> row_get cr_id (ge_uuid ev) (changes (committed c)) = None")
  case True
  then show ?thesis
    by (intro disjI2 exI [where x = "\<lparr>cr_id = ge_uuid ev,
          cr_change_type = (case ty of None \<Rightarrow> lit ''create'' | Some t \<Rightarrow> t), cr_proposed_content = content,
          cr_reason = reason, cr_target_id = target, cr_category = category,
          cr_status = lit ''pending'', cr_approvals_count = 0, cr_approvals_needed = APPROVALS_NEEDED,
          cr_approvals = lit ''[]'', cr_proposer = (case proposer of None \<Rightarrow> lit ''mcp'' | Some p \<Rightarrow> p),
          cr_created_at = ge_now ev, cr_updated_at = ge_now ev, cr_applied_at = None\<rparr>"])
      (simp add: propose_change_def Let_def op_bind_def op_map_err_def on_conn_def current_def sql_exec_def
        op_return_def proposed_row_def del: lit_simps)
next
  case False
  then show ?thesis
    by (auto simp: propose_change_def Let_def op_bind_def op_map_err_def on_conn_def current_def sql_exec_def
        op_return_def split: option.splits)
qed

section \<open>Quorum\<close>

definition approvals_law :: "gov_lib \<Rightarrow> bool" where
  "approvals_law G \<longleftrightarrow> gl_parse_approvals G (lit ''[]'') = Some [] \<and>
     (\<forall>xs. \<exists>s. gl_print_approvals G xs = Some s \<and> gl_parse_approvals G s = Some xs)"

definition row_quorum :: "gov_lib \<Rightarrow> approval_log \<Rightarrow> change_row \<Rightarrow> bool" where
  "row_quorum G votes r \<longleftrightarrow>
     cr_approvals_needed r = APPROVALS_NEEDED \<and>
     (\<exists>xs. gl_parse_approvals G (cr_approvals r) = Some xs \<and> ballot G xs \<and>
        (\<forall>x \<in> set xs. \<exists>a. ae_actor_id x = Some a \<and> (cr_id r, a, ae_approver x) \<in> set votes) \<and>
        (cr_status r = lit ''applied'' \<longrightarrow> 3 \<le> length xs))"

definition quorum_inv :: "gov_lib \<Rightarrow> gov_conn \<times> approval_log \<Rightarrow> bool" where
  "quorum_inv G s \<longleftrightarrow> (\<forall>r \<in> set (changes (committed (fst s))). row_quorum G (snd s) r)"

lemma row_quorum_more: "row_quorum G votes r \<Longrightarrow> row_quorum G (x # votes) r"
  unfolding row_quorum_def by (metis (no_types, lifting) list.set_intros(2))

lemma saved_quorum:
  assumes law: "approvals_law G" and inv: "row_quorum G votes row" "row_quorum G votes r"
    and eff: "gl_parse_approvals G (cr_approvals row) = Some parsed"
      "before = snd (snd (dedup_approvals G parsed [] [] []))" "set before \<subseteq> set parsed"
      "ballot G (before @ [new])" "ae_actor_id new = Some aid"
      "saved_as r st (case gl_print_approvals G (before @ [new]) of None \<Rightarrow> lit ''[]'' | Some s \<Rightarrow> s) r'"
    and st: "st = lit ''applied'' \<Longrightarrow> cr_approvals_needed row \<le> as_i32 (length (before @ [new]))"
    and ids: "cr_id r = cid" "cr_id row = cid"
  shows "row_quorum G ((cid, aid, ae_approver new) # votes) r'"
proof -
  obtain s where s: "gl_print_approvals G (before @ [new]) = Some s" "gl_parse_approvals G s = Some (before @ [new])"
    using law by (auto simp: approvals_law_def)
  have "\<exists>a. ae_actor_id x = Some a \<and> (cid, a, ae_approver x) \<in> set votes" if "x \<in> set before" for x
    using inv(1) eff(1,3) that ids by (auto simp: row_quorum_def)
  moreover have "3 \<le> length (before @ [new])" if "st = lit ''applied''"
    using st [OF that] inv(1) as_i32_le [of "length (before @ [new])"]
    by (simp add: row_quorum_def APPROVALS_NEEDED_def)
  ultimately show ?thesis
    using inv(2) eff(4-6) s ids unfolding row_quorum_def saved_as_def by (auto simp del: lit_simps)
qed

lemma quorum_step:
  assumes law: "approvals_law G" and inv: "quorum_inv G s"
  shows "quorum_inv G (gov_step G pid x s)"
proof -
  obtain flt ev call c votes where x: "x = (flt, ev, call)" and s: "s = (c, votes)"
    using prod_cases3 surj_pair by metis
  show ?thesis
  proof (cases call)
    case (Propose content reason ty target category proposer)
    have "row_quorum G votes r" if "proposed_row ev r" for r
      using that law by (auto simp: row_quorum_def proposed_row_def approvals_law_def ballot_def)
    then show ?thesis
      using propose_committed [of flt ev content reason ty target category proposer c] inv
      by (auto simp: x s Propose quorum_inv_def)
  next
    case (Approve cid aid approver comment)
    let ?label = "case approver of None \<Rightarrow> aid | Some a \<Rightarrow> a"
    obtain c' res where run: "approve_change_for_principal G pid flt ev cid aid approver comment c = (c', res)"
      by fastforce
    show ?thesis
    proof (cases res)
      case (Inl e)
      with run have "committed c' = committed c" by (simp add: approve_Err)
      with Inl run inv show ?thesis by (simp add: x s Approve quorum_inv_def)
    next
      case (Inr rec)
      from run [unfolded Inr] have eff: "approval_effect G pid ev cid aid ?label comment (committed c) (committed c') rec"
        using approve_Ok by blast
      then obtain row parsed before F where e:
          "row_get cr_id cid (changes (committed c)) = Some row"
          "gl_parse_approvals G (cr_approvals row) = Some parsed"
          "before = snd (snd (dedup_approvals G parsed [] [] []))" "set before \<subseteq> set parsed"
          "ballot G (before @ [\<lparr>ae_approver = ?label, ae_actor_id = Some aid, ae_comment = comment, ae_approved_at = ge_now ev\<rparr>])"
          "changes (committed c') = row_update (\<lambda>r. cr_id r = cid) F (changes (committed c))"
          "\<And>r. saved_as r (ch_status rec) (case gl_print_approvals G (before @
             [\<lparr>ae_approver = ?label, ae_actor_id = Some aid, ae_comment = comment, ae_approved_at = ge_now ev\<rparr>])
             of None \<Rightarrow> lit ''[]'' | Some s \<Rightarrow> s) (F r)"
          "ch_status rec = lit ''applied'' \<Longrightarrow> cr_approvals_needed row \<le> as_i32 (length (before @
             [\<lparr>ae_approver = ?label, ae_actor_id = Some aid, ae_comment = comment, ae_approved_at = ge_now ev\<rparr>]))"
        unfolding approval_effect_def Let_def by auto
      have row: "row \<in> set (changes (committed c))" "cr_id row = cid"
        using row_get_SomeD [OF e(1)] by auto
      have "row_quorum G ((cid, aid, ?label) # votes) (F r)" if "r \<in> set (changes (committed c))" "cr_id r = cid" for r
        using saved_quorum [OF law, of votes row r parsed before _ aid "ch_status rec" "F r" cid] e(2-5,7,8) row that inv
        by (fastforce simp: s quorum_inv_def)
      then have "quorum_inv G (c', (cid, aid, ?label) # votes)"
        using inv by (auto simp: quorum_inv_def s e(6) row_update_def row_quorum_more)
      then show ?thesis using run Inr by (simp add: x s Approve)
    qed
  qed
qed

definition fresh_service :: "gov_db \<Rightarrow> gov_conn" where
  "fresh_service db = \<lparr>committed = db\<lparr>changes := []\<rparr>, open_txn = None\<rparr>"

text \<open>
  C3. No rule change without a quorum: whatever sequence of proposals and approvals reaches
  the service, under any failing statement, every durable change marked applied stores at
  least three approvals by pairwise distinct principals with pairwise distinct canonical
  labels, and each of them is an approval the service answered with success for that very
  change, principal and label.
\<close>

theorem applied_changes_have_quorum:
  assumes "approvals_law G" and "gov_run G pid calls (fresh_service db, []) = (c, votes)"
    and "r \<in> set (changes (committed c))" and "cr_status r = lit ''applied''"
  shows "\<exists>xs. gl_parse_approvals G (cr_approvals r) = Some xs \<and> 3 \<le> length xs \<and>
    distinct (map principal_key xs) \<and> distinct (map (canonicalize_approver G \<circ> ae_approver) xs) \<and>
    (\<forall>x \<in> set xs. \<exists>a. ae_actor_id x = Some a \<and> (cr_id r, a, ae_approver x) \<in> set votes)"
proof -
  have "quorum_inv G (gov_run G pid calls (fresh_service db, []))"
    by (rule gov_run_invariant [where P = "quorum_inv G"])
      (simp add: quorum_inv_def fresh_service_def, rule quorum_step [OF assms(1)])
  then have "row_quorum G votes r" using assms(2,3) by (simp add: quorum_inv_def)
  moreover have "label_key G = canonicalize_approver G \<circ> ae_approver"
    by (simp add: fun_eq_iff label_key_def)
  ultimately show ?thesis
    using assms(4) by (auto simp: row_quorum_def ballot_def simp del: lit_simps)
qed

section \<open>Atomicity\<close>


end
