(* ===== verification/Governance_Runs.thy ===== *)
theory Governance_Runs
  imports Governance_Laws
begin

text \<open>
  Whole runs of the approval procedure: three distinct approvals apply a change, an applied
  change is final, a label that only looks different does not vote twice; and two ways the
  procedure goes wrong: a commit that fails, and an update of a deleted rule.
\<close>

section \<open>An acceptable approval is accepted\<close>

definition usable :: "gov_lib \<Rightarrow> ustr \<Rightarrow> ustr \<Rightarrow> bool" where
  "usable G aid label \<longleftrightarrow> trim aid \<noteq> [] \<and> trim label \<noteq> [] \<and> canonicalize_approver G label \<noteq> []"

definition lib_prints :: "gov_lib \<Rightarrow> bool" where
  "lib_prints G \<longleftrightarrow> approvals_law G \<and> (\<forall>v. gl_print G v \<noteq> None) \<and> (\<forall>v. gl_print_vector G v \<noteq> None)"

lemma upsert_note_None: "\<exists>db'. upsert_note (\<lambda>s. None) c n db = (db', Ok ())"
  by (auto simp: upsert_note_def upsert_session_def op_bind_def sql_exec_def op_return_def split: option.splits)

lemma write_rule_create:
  assumes "lib_prints G"
  shows "\<exists>db'. write_rule G pid no_faults ev (lit ''create'') content target category now aid meta db = (db', Ok ())"
proof -
  have vec: "\<exists>j. gl_print_vector G emb = Some j" for emb
    using assms by (auto simp: lib_prints_def)
  have "\<exists>n. l0_note G pid (ge_uuid ev) content category now aid meta = Ok n"
  proof (cases "gl_embed_text G content")
    case (Some emb)
    with vec [of emb] show ?thesis by (auto simp: l0_note_def and_then_def)
  qed (simp add: l0_note_def and_then_def)
  then obtain n where "l0_note G pid (ge_uuid ev) content category now aid meta = Ok n" by blast
  moreover have "lit ''create'' \<noteq> lit ''update''" by simp
  ultimately show ?thesis
    using upsert_note_None [of "ge_clock ev" n db]
    by (auto simp: write_rule_def op_bind_def target_note_id_def op_return_def op_map_err_def simp del: lit_simps)
qed

lemma apply_change_create:
  assumes "lib_prints G"
  shows "\<exists>db'. apply_change_inner G pid no_faults ev cid (lit ''create'') content target category now aid db = (db', Ok ())"
proof -
  obtain meta where "gl_print G (JObj [(lit ''applied_by'', JStr aid), (lit ''change_id'', JStr cid)]) = Some meta"
    using assms by (auto simp: lib_prints_def)
  then show ?thesis
    using write_rule_create [OF assms, of pid ev content target category now aid meta db]
    by (auto simp: apply_change_inner_def op_bind_def op_map_err_def sql_exec_def simp del: lit_simps)
qed

lemma approve_inner_accepts:
  assumes "lib_prints G" "row_get cr_id cid (changes db) = Some row" "cr_status row = lit ''pending''"
    and "gl_parse_approvals G (cr_approvals row) = Some xs" "ballot G xs"
    and "canonicalize_approver G label \<notin> label_key G ` set xs" "aid \<notin> principal_key ` set xs"
    and "cr_change_type row = lit ''create''"
  shows "\<exists>db' rec. approve_inner G pid no_faults ev cid aid label comment now db = (db', Ok rec)"
proof -
  obtain ps ks ys where d: "dedup_approvals G xs [] [] [] = (ps, ks, ys)"
    by (cases "dedup_approvals G xs [] [] []") auto
  have "set ps = principal_key ` set ys" "set ks = label_key G ` set ys" "ys = xs"
    using dedup_ballot [OF d] dedup_id [of G "[]" xs "[]" "[]"] assms(5) d by (auto simp: ballot_def)
  then show ?thesis
    using assms d apply_change_create [OF assms(1)]
    unfolding approve_inner_def save_approvals_def
    by (auto simp: op_bind_def op_map_err_def sql_query_def sql_exec_def op_return_def Let_def
        simp del: lit_simps split: prod.splits sum.splits) (metis Pair_inject sum.distinct(1))+
qed

text \<open>A pending creation and the approvals it has.\<close>

definition pending_create :: "gov_lib \<Rightarrow> ustr \<Rightarrow> ustr \<Rightarrow> gov_conn \<Rightarrow> approval_entry list \<Rightarrow> bool" where
  "pending_create G cid content c xs \<longleftrightarrow>
     open_txn c = None \<and>
     (\<exists>row. row_get cr_id cid (changes (committed c)) = Some row \<and> cr_status row = lit ''pending'' \<and>
        cr_change_type row = lit ''create'' \<and> cr_proposed_content row = content \<and>
        cr_approvals_needed row = APPROVALS_NEEDED \<and>
        gl_parse_approvals G (cr_approvals row) = Some xs \<and> ballot G xs)"

definition applied_create :: "ustr \<Rightarrow> ustr \<Rightarrow> gov_env \<Rightarrow> gov_conn \<Rightarrow> bool" where
  "applied_create cid content ev c \<longleftrightarrow>
     (\<exists>row n. row_get cr_id cid (changes (committed c)) = Some row \<and> cr_status row = lit ''applied'' \<and>
        row_get nr_id (ge_uuid ev) (note_rows (committed c)) = Some n \<and> nr_content n = content \<and>
        nr_layer n = lit ''identity_schema'' \<and> nr_is_active n = 1)"

lemma approve_step:
  assumes lib: "lib_prints G" and pend: "pending_create G cid content c xs" and u: "usable G aid label"
    and fresh: "canonicalize_approver G label \<notin> label_key G ` set xs" "aid \<notin> principal_key ` set xs"
    and few: "length xs < 3"
  shows "\<exists>c' rec new. approve_change_for_principal G pid no_faults ev cid aid (Some label) comment c = (c', Ok rec) \<and>
    label_key G new = canonicalize_approver G label \<and> principal_key new = aid \<and>
    (if length xs < 2 then pending_create G cid content c' (xs @ [new]) else applied_create cid content ev c')"
proof -
  obtain row where row: "open_txn c = None" "row_get cr_id cid (changes (committed c)) = Some row"
      "cr_status row = lit ''pending''" "cr_change_type row = lit ''create''" "cr_proposed_content row = content"
      "cr_approvals_needed row = APPROVALS_NEEDED" "gl_parse_approvals G (cr_approvals row) = Some xs" "ballot G xs"
    using pend by (auto simp: pending_create_def)
  let ?new = "\<lparr>ae_approver = label, ae_actor_id = Some aid, ae_comment = comment, ae_approved_at = ge_now ev\<rparr>"
  obtain d rec where "approve_inner G pid no_faults ev cid aid label comment (ge_now ev) (committed c) = (d, Ok rec)"
    using approve_inner_accepts [OF lib row(2,3,7,8) fresh row(4)] by blast
  then have run: "approve_change_for_principal G pid no_faults ev cid aid (Some label) comment c
      = (c\<lparr>committed := d, open_txn := None\<rparr>, Ok rec)"
    using u row(1) unfolding approve_change_for_principal_def usable_def
    by (simp add: Let_def txn_begin_def on_conn_def current_def txn_commit_def)
  let ?c' = "c\<lparr>committed := d, open_txn := None\<rparr>"
  have before: "snd (snd (dedup_approvals G xs [] [] [])) = xs"
    using dedup_id [of G "[]" xs "[]" "[]"] row(8) by simp
  from approve_Ok [OF run] row(2,7) before obtain F where e: "ballot G (xs @ [?new])"
      "changes d = row_update (\<lambda>r. cr_id r = cid) F (changes (committed c))"
      "\<And>r. saved_as r (ch_status rec) (case gl_print_approvals G (xs @ [?new]) of None \<Rightarrow> lit ''[]'' | Some s \<Rightarrow> s) (F r)"
      "ch_status rec = lit ''pending'' \<and> as_i32 (length (xs @ [?new])) < cr_approvals_needed row \<or>
       ch_status rec = lit ''applied'' \<and> cr_approvals_needed row \<le> as_i32 (length (xs @ [?new])) \<and>
         applied_effect pid ev (cr_change_type row) (cr_proposed_content row) (cr_target_id row)
           (note_rows (committed c)) (note_rows d)"
    unfolding approval_effect_def Let_def by (auto simp del: lit_simps)
  have row': "row_get cr_id cid (changes d) = Some (F row)"
    using e(2,3) row(2) by (simp add: row_get_update_key saved_as_def)
  have parse: "gl_parse_approvals G (cr_approvals (F row)) = Some (xs @ [?new])"
  proof -
    obtain s where "gl_print_approvals G (xs @ [?new]) = Some s" "gl_parse_approvals G s = Some (xs @ [?new])"
      using lib unfolding lib_prints_def approvals_law_def by blast
    with e(3) [of row] show ?thesis by (simp add: saved_as_def)
  qed
  have n: "as_i32 (length (xs @ [?new])) = int (length xs) + 1"
    using few by (simp add: as_i32_small)
  have keys: "label_key G ?new = canonicalize_approver G label" "principal_key ?new = aid"
    by (simp_all add: label_key_def principal_key_def)
  have "if length xs < 2 then pending_create G cid content ?c' (xs @ [?new]) else applied_create cid content ev ?c'"
  proof (cases "length xs < 2")
    case True
    with e(4) n row(6) have "ch_status rec = lit ''pending''" by (auto simp: APPROVALS_NEEDED_def)
    with True row row' parse e(1) e(3) [of row] show ?thesis
      by (simp add: pending_create_def saved_as_def del: lit_simps)
  next
    case False
    with e(4) n row(6) have "ch_status rec = lit ''applied''"
      "applied_effect pid ev (cr_change_type row) (cr_proposed_content row) (cr_target_id row)
         (note_rows (committed c)) (note_rows d)"
      by (auto simp: APPROVALS_NEEDED_def)
    moreover have "lit ''create'' \<noteq> lit ''update''" "lit ''create'' \<noteq> lit ''delete''" by simp_all
    ultimately show ?thesis
      using False row row' e(3) [of row]
      by (auto simp: applied_create_def applied_effect_def saved_as_def simp del: lit_simps)
  qed
  with run keys show ?thesis by blast
qed

lemma three_approvals:
  assumes "lib_prints G" "pending_create G cid content c []"
    and "usable G a1 l1" "usable G a2 l2" "usable G a3 l3" "distinct [a1, a2, a3]"
    and "distinct (map (canonicalize_approver G) [l1, l2, l3])"
  shows "\<exists>c1 r1 c2 r2 c3 r3.
    approve_change_for_principal G pid no_faults ev1 cid a1 (Some l1) m1 c = (c1, Ok r1) \<and>
    approve_change_for_principal G pid no_faults ev2 cid a2 (Some l2) m2 c1 = (c2, Ok r2) \<and>
    approve_change_for_principal G pid no_faults ev3 cid a3 (Some l3) m3 c2 = (c3, Ok r3) \<and>
    applied_create cid content ev3 c3"
proof -
  obtain c1 r1 n1 where 1: "approve_change_for_principal G pid no_faults ev1 cid a1 (Some l1) m1 c = (c1, Ok r1)"
      "label_key G n1 = canonicalize_approver G l1" "principal_key n1 = a1" "pending_create G cid content c1 [n1]"
    using approve_step [OF assms(1-3), of pid ev1 m1] by auto
  obtain c2 r2 n2 where 2: "approve_change_for_principal G pid no_faults ev2 cid a2 (Some l2) m2 c1 = (c2, Ok r2)"
      "label_key G n2 = canonicalize_approver G l2" "principal_key n2 = a2" "pending_create G cid content c2 [n1, n2]"
    using approve_step [OF assms(1) 1(4) assms(4), of pid ev2 m2] 1 assms(6,7) by auto
  obtain c3 r3 where 3: "approve_change_for_principal G pid no_faults ev3 cid a3 (Some l3) m3 c2 = (c3, Ok r3)"
      "applied_create cid content ev3 c3"
    using approve_step [OF assms(1) 2(4) assms(5), of pid ev3 m3] 1 2 assms(6,7) by auto
  from 1(1) 2(1) 3 show ?thesis by blast
qed

text \<open>
  C16. Three distinct approvals apply a change: with no failing statement, a pending creation
  without approvals that three different principals approve under labels with three
  different canonical forms is applied by the third approval, and the rule is then an active
  note of the identity schema with the proposed content.
\<close>

theorem three_distinct_approvals_apply:
  assumes "lib_prints G" "pending_create G cid content c []"
    and "usable G a1 l1" "usable G a2 l2" "usable G a3 l3" "distinct [a1, a2, a3]"
    and "distinct (map (canonicalize_approver G) [l1, l2, l3])"
  shows "applied_create cid content ev3 (fst (gov_run G pid
    [(no_faults, ev1, Approve cid a1 (Some l1) m1), (no_faults, ev2, Approve cid a2 (Some l2) m2),
     (no_faults, ev3, Approve cid a3 (Some l3) m3)] (c, [])))"
proof -
  obtain c1 r1 c2 r2 c3 r3 where
    "approve_change_for_principal G pid no_faults ev1 cid a1 (Some l1) m1 c = (c1, Ok r1)"
    "approve_change_for_principal G pid no_faults ev2 cid a2 (Some l2) m2 c1 = (c2, Ok r2)"
    "approve_change_for_principal G pid no_faults ev3 cid a3 (Some l3) m3 c2 = (c3, Ok r3)"
    "applied_create cid content ev3 c3"
    using three_approvals [OF assms, of pid ev1 m1 ev2 m2 ev3 m3] by blast
  then show ?thesis by simp
qed

section \<open>Finality\<close>

definition settled_at :: "ustr \<Rightarrow> change_row \<Rightarrow> gov_conn \<times> approval_log \<Rightarrow> bool" where
  "settled_at cid row s \<longleftrightarrow> row_get cr_id cid (changes (committed (fst s))) = Some row"

lemma settled_step:
  assumes "settled_at cid row s" "cr_status row \<noteq> lit ''pending''"
  shows "settled_at cid row (gov_step G pid x s)"
proof -
  obtain flt ev call c votes where x: "x = (flt, ev, call)" and s: "s = (c, votes)"
    using prod_cases3 surj_pair by metis
  show ?thesis
  proof (cases call)
    case (Propose content reason ty target category proposer)
    then show ?thesis
      using propose_committed [of flt ev content reason ty target category proposer c] assms(1)
      by (auto simp: x s settled_at_def row_get_append)
  next
    case (Approve cid' aid approver comment)
    obtain c' res where run: "approve_change_for_principal G pid flt ev cid' aid approver comment c = (c', res)"
      by fastforce
    show ?thesis
    proof (cases res)
      case (Inl e)
      with run assms(1) show ?thesis by (simp add: x s Approve settled_at_def approve_Err)
    next
      case (Inr rec)
      with approve_Ok [of G pid flt ev cid' aid approver comment c c' rec] run
      obtain row' F where e: "row_get cr_id cid' (changes (committed c)) = Some row'" "cr_status row' = lit ''pending''"
          "changes (committed c') = row_update (\<lambda>r. cr_id r = cid') F (changes (committed c))"
          "\<And>r. cr_id (F r) = cr_id r"
        unfolding approval_effect_def Let_def saved_as_def by (auto simp del: lit_simps)
      have "cid' \<noteq> cid" using e(1,2) assms by (auto simp: settled_at_def s)
      then show ?thesis
        using assms(1) e(3,4) run Inr by (simp add: x s Approve settled_at_def row_get_update_key)
    qed
  qed
qed

text \<open>
  An applied change is final: once the durable row of a change is no longer pending, no
  later sequence of calls alters any column of it.
\<close>

theorem applied_change_is_final:
  assumes "row_get cr_id cid (changes (committed c)) = Some row" and "cr_status row \<noteq> lit ''pending''"
  shows "row_get cr_id cid (changes (committed (fst (gov_run G pid calls (c, votes))))) = Some row"
proof -
  have "settled_at cid row (gov_run G pid calls (c, votes))"
    by (rule gov_run_invariant [where P = "settled_at cid row"])
      (use assms settled_step in \<open>auto simp: settled_at_def [of cid row "(c, votes)"]\<close>)
  then show ?thesis by (simp add: settled_at_def)
qed

section \<open>Look-alike labels\<close>

text \<open>
  A look-alike label does not vote twice: an approval whose label differs from one that
  has approved the change only by invisible characters (zero-width, bidirectional controls,
  variation selectors, tags) is refused, whoever sends it and whatever statements fail.
\<close>

theorem lookalike_label_rejected:
  assumes "row_get cr_id cid (changes (committed c)) = Some row"
    and "gl_parse_approvals G (cr_approvals row) = Some xs" "ballot G xs" "x \<in> set xs"
    and "filter (\<lambda>ch. \<not> is_default_ignorable ch) label = filter (\<lambda>ch. \<not> is_default_ignorable ch) (ae_approver x)"
  shows "\<exists>e. snd (approve_change_for_principal G pid flt ev cid aid (Some label) comment c) = Err e"
proof (rule ccontr)
  assume "\<nexists>e. snd (approve_change_for_principal G pid flt ev cid aid (Some label) comment c) = Err e"
  then obtain c' rec where "approve_change_for_principal G pid flt ev cid aid (Some label) comment c = (c', Ok rec)"
    by (metis prod.collapse sum.exhaust)
  from approve_Ok [OF this] assms(1,2) have b: "ballot G (snd (snd (dedup_approvals G xs [] [] [])) @
      [\<lparr>ae_approver = label, ae_actor_id = Some aid, ae_comment = comment, ae_approved_at = ge_now ev\<rparr>])"
    unfolding approval_effect_def Let_def by (auto simp del: lit_simps)
  have "snd (snd (dedup_approvals G xs [] [] [])) = xs"
    using dedup_id [of G "[]" xs "[]" "[]"] assms(3) by simp
  with b have "canonicalize_approver G label \<notin> label_key G ` set xs"
    by (auto simp: ballot_def label_key_def)
  moreover have "canonicalize_approver G label = label_key G x"
    using assms(5) by (simp add: canonicalize_approver_def label_key_def)
  ultimately show False using assms(4) by auto
qed

section \<open>A failed commit\<close>

lemma wedged_step:
  "open_txn (fst s) \<noteq> None \<Longrightarrow>
   open_txn (fst (gov_step G pid x s)) \<noteq> None \<and> committed (fst (gov_step G pid x s)) = committed (fst s)"
proof -
  assume w: "open_txn (fst s) \<noteq> None"
  obtain flt ev call c votes where x: "x = (flt, ev, call)" and s: "s = (c, votes)"
    using prod_cases3 surj_pair by metis
  from w s obtain t where t: "open_txn c = Some t" by auto
  show ?thesis
  proof (cases call)
    case (Propose content reason ty target category proposer)
    then show ?thesis
      using t by (auto simp: x s propose_change_def Let_def op_bind_def op_map_err_def on_conn_def current_def
          sql_exec_def op_return_def split: option.splits prod.splits sum.splits)
  next
    case (Approve cid aid approver comment)
    then show ?thesis
      using t by (auto simp: x s approve_change_for_principal_def txn_begin_def Let_def op_fail_def
          split: option.splits prod.splits sum.splits)
  qed
qed

text \<open>
  A failed commit ends durability: if the commit of an otherwise successful approval
  fails, the approval is reported as failed but its transaction stays open, and from then on
  no sequence of calls, with every statement succeeding again, changes the durable
  database; a proposal made then is answered with success and lost.
\<close>

theorem failed_commit_loses_all_later_writes:
  assumes "open_txn c = None" "usable G aid label" "flt BeginTxn = None" "flt CommitTxn = Some e"
    and "approve_inner G pid flt ev cid aid label comment (ge_now ev) (committed c) = (d, Ok rec)"
    and "approve_change_for_principal G pid flt ev cid aid (Some label) comment c = (c', res)"
  shows "res = Err (lit ''Commit failed: '' @ e) \<and>
    committed (fst (gov_run G pid calls (c', votes))) = committed c \<and>
    (row_get cr_id (ge_uuid ev') (changes d) = None \<longrightarrow>
       (\<exists>r. snd (propose_change no_faults ev' content reason ty target category proposer c') = Ok r))"
proof -
  have c': "c' = c\<lparr>open_txn := Some d\<rparr>" "res = Err (lit ''Commit failed: '' @ e)"
    using assms unfolding approve_change_for_principal_def usable_def
    by (simp_all add: Let_def txn_begin_def on_conn_def current_def txn_commit_def del: lit_simps)
  have "open_txn (fst (gov_run G pid calls (c', votes))) \<noteq> None \<and>
      committed (fst (gov_run G pid calls (c', votes))) = committed c"
    by (rule gov_run_invariant [where P = "\<lambda>s. open_txn (fst s) \<noteq> None \<and> committed (fst s) = committed c"])
      (use wedged_step c'(1) in \<open>simp, metis\<close>)
  moreover have "\<exists>r. snd (propose_change no_faults ev' content reason ty target category proposer c') = Ok r"
    if "row_get cr_id (ge_uuid ev') (changes d) = None"
    using that by (simp add: c' propose_change_def Let_def op_bind_def op_map_err_def on_conn_def current_def
        sql_exec_def op_return_def)
  ultimately show ?thesis using c'(2) by blast
qed

section \<open>Updating a deleted rule\<close>

text \<open>
  An update does not undelete: when an approved update is applied to a rule that an
  earlier change deleted, the rule gets the new content and is flagged active, but its
  evolution state stays what it was, so reads that ask for active state do not see it.
\<close>

theorem update_of_deleted_rule_keeps_state:
  assumes "approve_change_for_principal G pid flt ev cid aid approver comment c = (c', Ok rec)"
    and "ch_status rec = lit ''applied''"
    and "row_get cr_id cid (changes (committed c)) = Some row" "cr_change_type row = lit ''update''"
    and "cr_target_id row = Some k" "row_get nr_id k (note_rows (committed c)) = Some old"
    and "nr_evolution_state old = Some st"
  shows "\<exists>r. row_get nr_id k (note_rows (committed c')) = Some r \<and> nr_content r = cr_proposed_content row \<and>
    nr_is_active r = 1 \<and> nr_evolution_state r = Some st"
proof -
  have "lit ''update'' \<noteq> lit ''delete''" "lit ''pending'' \<noteq> lit ''applied''" by simp_all
  moreover have "ch_status rec = lit ''pending'' \<or> applied_effect pid ev (cr_change_type row) (cr_proposed_content row)
      (cr_target_id row) (note_rows (committed c)) (note_rows (committed c'))"
    using approve_Ok [OF assms(1)] assms(3) unfolding approval_effect_def Let_def
    by (auto simp del: lit_simps)
  ultimately show ?thesis
    using assms(2,4-7) unfolding applied_effect_def by (auto simp: state_after_def simp del: lit_simps)
qed

text \<open>
  The governance theorems at concrete inputs: a JSON codec for approvals that satisfies the
  law the theorems ask for, and runs of the service on it.
\<close>

section \<open>A codec\<close>

definition enc_str :: "ustr \<Rightarrow> int list" where
  "enc_str s = int (length s) # s"

definition dec_str :: "int list \<Rightarrow> ustr \<times> int list" where
  "dec_str xs = (case xs of [] \<Rightarrow> ([], []) | n # r \<Rightarrow> (take (nat n) r, drop (nat n) r))"

definition enc_opt :: "ustr option \<Rightarrow> int list" where
  "enc_opt x = (case x of None \<Rightarrow> [0] | Some s \<Rightarrow> 1 # enc_str s)"

definition dec_opt :: "int list \<Rightarrow> ustr option \<times> int list" where
  "dec_opt xs =
     (case xs of
        [] \<Rightarrow> (None, [])
      | t # r \<Rightarrow> if t = 0 then (None, r) else (case dec_str r of (s, r') \<Rightarrow> (Some s, r')))"

definition enc_entry :: "approval_entry \<Rightarrow> int list" where
  "enc_entry a = enc_str (ae_approver a) @ enc_opt (ae_actor_id a) @ enc_opt (ae_comment a) @
     enc_str (ae_approved_at a)"

fun dec_entries :: "nat \<Rightarrow> int list \<Rightarrow> approval_entry list" where
  "dec_entries 0 xs = []"
| "dec_entries (Suc n) xs =
     (case dec_str xs of (l, r1) \<Rightarrow> case dec_opt r1 of (a, r2) \<Rightarrow> case dec_opt r2 of (m, r3) \<Rightarrow>
      case dec_str r3 of (t, r4) \<Rightarrow>
        \<lparr>ae_approver = l, ae_actor_id = a, ae_comment = m, ae_approved_at = t\<rparr> # dec_entries n r4)"

lemma dec_str_enc [simp]: "dec_str (enc_str s @ r) = (s, r)"
  by (simp add: dec_str_def enc_str_def)

lemma dec_opt_enc [simp]: "dec_opt (enc_opt x @ r) = (x, r)"
  by (cases x) (simp_all add: dec_opt_def enc_opt_def)

lemma dec_entries_enc: "dec_entries (length xs) (concat (map enc_entry xs)) = xs"
  by (induction xs) (simp_all add: enc_entry_def)

definition demo_gov :: gov_lib where
  "demo_gov =
     \<lparr>gl_parse_approvals = (\<lambda>s. if s = lit ''[]'' then Some []
         else (case s of _ # n # r \<Rightarrow> Some (dec_entries (nat n) r) | _ \<Rightarrow> None)),
      gl_print_approvals = (\<lambda>xs. Some ((- 1) # int (length xs) # concat (map enc_entry xs))),
      gl_print = (\<lambda>_. Some []), gl_embed_text = (\<lambda>_. None), gl_print_vector = (\<lambda>_. Some []),
      gl_nfkc = (\<lambda>s. s), gl_to_lowercase = to_ascii_lowercase\<rparr>"

lemma demo_gov_law: "approvals_law demo_gov"
  by (simp add: approvals_law_def demo_gov_def dec_entries_enc)

lemma demo_gov_prints: "lib_prints demo_gov"
  by (simp add: lib_prints_def demo_gov_law) (simp add: demo_gov_def)

section \<open>A run\<close>

definition demo_env :: "ustr \<Rightarrow> gov_env" where
  "demo_env u = \<lparr>ge_now = lit ''t'', ge_uuid = u, ge_clock = demo_clock\<rparr>"

definition demo_gov_db :: gov_db where
  "demo_gov_db = \<lparr>note_rows = [], notes_fts = [], sessions = [], note_events = [], note_relations = [],
      dream_candidates = Some [], notes_columns = [], changes = []\<rparr>"

definition demo_change :: change_row where
  "demo_change = \<lparr>cr_id = lit ''c'', cr_change_type = lit ''create'', cr_proposed_content = lit ''rule'',
     cr_reason = [], cr_target_id = None, cr_category = None, cr_status = lit ''pending'',
     cr_approvals_count = 0, cr_approvals_needed = APPROVALS_NEEDED, cr_approvals = lit ''[]'',
     cr_proposer = lit ''mcp'', cr_created_at = lit ''t'', cr_updated_at = lit ''t'', cr_applied_at = None\<rparr>"

definition demo_conn :: gov_conn where
  "demo_conn = \<lparr>committed = demo_gov_db\<lparr>changes := [demo_change]\<rparr>, open_txn = None\<rparr>"

definition demo_propose :: "gov_stmt faults \<times> gov_env \<times> gov_call" where
  "demo_propose = (no_faults, demo_env (lit ''c''), Propose (lit ''rule'') [] None None None None)"

lemma demo_propose_run: "gov_step G pid demo_propose (fresh_service demo_gov_db, []) = (demo_conn, [])"
  by (simp add: demo_propose_def fresh_service_def propose_change_def Let_def op_bind_def op_map_err_def
      on_conn_def current_def sql_exec_def op_return_def demo_conn_def demo_gov_db_def demo_change_def
      demo_env_def del: lit_simps)

lemma demo_pending: "pending_create demo_gov (lit ''c'') (lit ''rule'') demo_conn []"
  by (simp add: pending_create_def demo_conn_def demo_change_def ballot_def demo_gov_def del: lit_simps)

definition demo_votes :: "(gov_stmt faults \<times> gov_env \<times> gov_call) list" where
  "demo_votes =
     [(no_faults, demo_env (lit ''x''), Approve (lit ''c'') (lit ''p'') (Some (lit ''Ann'')) None),
      (no_faults, demo_env (lit ''y''), Approve (lit ''c'') (lit ''q'') (Some (lit ''Bob'')) None),
      (no_faults, demo_env (lit ''z''), Approve (lit ''c'') (lit ''r'') (Some (lit ''Eve'')) None)]"

lemma demo_labels:
  "usable demo_gov (lit ''p'') (lit ''Ann'')" "usable demo_gov (lit ''q'') (lit ''Bob'')"
  "usable demo_gov (lit ''r'') (lit ''Eve'')" "distinct [lit ''p'', lit ''q'', lit ''r'']"
  "distinct (map (canonicalize_approver demo_gov) [lit ''Ann'', lit ''Bob'', lit ''Eve''])"
  by (simp_all add: usable_def canonicalize_approver_def demo_gov_def is_default_ignorable_def trim_def
      is_whitespace_def char_to_ascii_lowercase_def is_ascii_uppercase_def)

theorem three_distinct_approvals_apply_witness:
  "applied_create (lit ''c'') (lit ''rule'') (demo_env (lit ''z'')) (fst (gov_run demo_gov None demo_votes (demo_conn, [])))"
  unfolding demo_votes_def
  by (rule three_distinct_approvals_apply [OF demo_gov_prints demo_pending demo_labels])

lemma demo_applied:
  "\<exists>c votes. gov_run demo_gov None (demo_propose # demo_votes) (fresh_service demo_gov_db, []) = (c, votes) \<and>
     applied_create (lit ''c'') (lit ''rule'') (demo_env (lit ''z'')) c"
proof -
  obtain c1 r1 c2 r2 c3 r3 where
    "approve_change_for_principal demo_gov None no_faults (demo_env (lit ''x'')) (lit ''c'') (lit ''p'') (Some (lit ''Ann'')) None demo_conn = (c1, Ok r1)"
    "approve_change_for_principal demo_gov None no_faults (demo_env (lit ''y'')) (lit ''c'') (lit ''q'') (Some (lit ''Bob'')) None c1 = (c2, Ok r2)"
    "approve_change_for_principal demo_gov None no_faults (demo_env (lit ''z'')) (lit ''c'') (lit ''r'') (Some (lit ''Eve'')) None c2 = (c3, Ok r3)"
    "applied_create (lit ''c'') (lit ''rule'') (demo_env (lit ''z'')) c3"
    using three_approvals [OF demo_gov_prints demo_pending demo_labels] by blast
  then show ?thesis
    by (simp add: demo_propose_run demo_votes_def del: lit_simps)
qed

theorem applied_changes_have_quorum_witness:
  "\<exists>c votes r xs. gov_run demo_gov None (demo_propose # demo_votes) (fresh_service demo_gov_db, []) = (c, votes) \<and>
     row_get cr_id (lit ''c'') (changes (committed c)) = Some r \<and> cr_status r = lit ''applied'' \<and>
     gl_parse_approvals demo_gov (cr_approvals r) = Some xs \<and> 3 \<le> length xs"
proof -
  obtain c votes r where run: "gov_run demo_gov None (demo_propose # demo_votes) (fresh_service demo_gov_db, []) = (c, votes)"
    and r: "row_get cr_id (lit ''c'') (changes (committed c)) = Some r" "cr_status r = lit ''applied''"
    using demo_applied unfolding applied_create_def by blast
  from applied_changes_have_quorum [OF demo_gov_law run _ r(2)] row_get_SomeD [OF r(1)] run r
  show ?thesis by blast
qed

text \<open>Votes, and the third one on a creation that has two.\<close>

definition one_vote :: approval_entry where
  "one_vote = \<lparr>ae_approver = lit ''Ann'', ae_actor_id = Some (lit ''p''), ae_comment = None, ae_approved_at = []\<rparr>"

definition ann_and_bob :: "approval_entry list" where
  "ann_and_bob = [one_vote, one_vote\<lparr>ae_approver := lit ''Bob'', ae_actor_id := Some (lit ''q'')\<rparr>]"




theorem applied_change_is_final_witness:
  "row_get cr_id (lit ''c'') (changes (committed (fst (gov_run demo_gov None demo_votes
     (demo_conn\<lparr>committed := demo_gov_db\<lparr>changes := [demo_change\<lparr>cr_status := lit ''applied''\<rparr>]\<rparr>\<rparr>, []))))) =
   Some (demo_change\<lparr>cr_status := lit ''applied''\<rparr>)"
proof -
  have "lit ''applied'' \<noteq> lit ''pending''" by simp
  then show ?thesis
    by (intro applied_change_is_final) (simp_all add: demo_change_def del: lit_simps)
qed

definition demo_voted :: gov_conn where
  "demo_voted = demo_conn\<lparr>committed := demo_gov_db\<lparr>changes :=
     [demo_change\<lparr>cr_approvals := the (gl_print_approvals demo_gov [one_vote])\<rparr>]\<rparr>\<rparr>"

theorem lookalike_label_rejected_witness:
  "\<exists>e. snd (approve_change_for_principal demo_gov None no_faults (demo_env (lit ''y'')) (lit ''c'') (lit ''q'')
     (Some (lit ''An'' @ [0x200B] @ lit ''n'')) None demo_voted) = Err e"
proof -
  let ?row = "demo_change\<lparr>cr_approvals := the (gl_print_approvals demo_gov [one_vote])\<rparr>"
  have row: "row_get cr_id (lit ''c'') (changes (committed demo_voted)) = Some ?row"
    by (simp add: demo_voted_def demo_change_def del: lit_simps)
  have parse: "gl_parse_approvals demo_gov (cr_approvals ?row) = Some [one_vote]"
  proof -
    obtain t where "gl_print_approvals demo_gov [one_vote] = Some t" "gl_parse_approvals demo_gov t = Some [one_vote]"
      using demo_gov_law unfolding approvals_law_def by blast
    then show ?thesis by simp
  qed
  show ?thesis
    by (rule lookalike_label_rejected [OF row parse, of one_vote])
      (simp_all add: ballot_def one_vote_def is_default_ignorable_def)
qed

theorem failed_commit_loses_all_later_writes_witness:
  "\<exists>c'. approve_change_for_principal demo_gov None (\<lambda>s. if s = CommitTxn then Some (lit ''disk full'') else None)
       (demo_env (lit ''x'')) (lit ''c'') (lit ''p'') (Some (lit ''Ann'')) None demo_conn = (c', Err (lit ''Commit failed: disk full'')) \<and>
     committed (fst (gov_run demo_gov None demo_votes (c', []))) = committed demo_conn"
proof -
  let ?flt = "\<lambda>s. if s = CommitTxn then Some (lit ''disk full'') else None"
  let ?new = "\<lparr>ae_approver = lit ''Ann'', ae_actor_id = Some (lit ''p''), ae_comment = None, ae_approved_at = lit ''t''\<rparr>"
  have p: "gl_parse_approvals demo_gov (lit ''[]'') = Some []"
    using demo_gov_law by (simp add: approvals_law_def)
  have "\<exists>d rec. approve_inner demo_gov None ?flt (demo_env (lit ''x'')) (lit ''c'') (lit ''p'') (lit ''Ann'') None
      (ge_now (demo_env (lit ''x''))) (committed demo_conn) = (d, Ok rec)"
    by (simp add: approve_inner_def op_bind_def op_map_err_def sql_query_def sql_exec_def op_return_def
        demo_conn_def demo_change_def p save_approvals_def Let_def as_i32_def APPROVALS_NEEDED_def del: lit_simps)
  then obtain d rec where inner: "approve_inner demo_gov None ?flt (demo_env (lit ''x'')) (lit ''c'') (lit ''p'')
      (lit ''Ann'') None (ge_now (demo_env (lit ''x''))) (committed demo_conn) = (d, Ok rec)" by blast
  obtain c' res where run: "approve_change_for_principal demo_gov None ?flt (demo_env (lit ''x'')) (lit ''c'') (lit ''p'')
      (Some (lit ''Ann'')) None demo_conn = (c', res)" by fastforce
  have "open_txn demo_conn = None" by (simp add: demo_conn_def)
  from failed_commit_loses_all_later_writes [OF this demo_labels(1) _ _ inner run] run show ?thesis
    by auto
qed

section \<open>Updating a deleted rule\<close>

definition deleted_rule :: note_row where
  "deleted_rule = inserted_row [] (note_insert_default
     \<lparr>ni_id := lit ''k'', ni_layer := lit ''identity_schema'', ni_evolution_state := Some (lit ''deprecated'')\<rparr>)"

definition demo_update :: change_row where
  "demo_update = demo_change\<lparr>cr_change_type := lit ''update'', cr_target_id := Some (lit ''k''),
     cr_approvals := the (gl_print_approvals demo_gov ann_and_bob)\<rparr>"

definition demo_update_conn :: gov_conn where
  "demo_update_conn = \<lparr>committed = demo_gov_db\<lparr>changes := [demo_update], note_rows := [deleted_rule]\<rparr>, open_txn = None\<rparr>"

lemma demo_update_parse: "gl_parse_approvals demo_gov (cr_approvals demo_update) = Some ann_and_bob"
proof -
  obtain t where "gl_print_approvals demo_gov ann_and_bob = Some t" "gl_parse_approvals demo_gov t = Some ann_and_bob"
    using demo_gov_law unfolding approvals_law_def by blast
  then show ?thesis by (simp add: demo_update_def)
qed

lemma demo_update_simps:
  "row_get cr_id (lit ''c'') (changes (committed demo_update_conn)) = Some demo_update"
  "cr_status demo_update = lit ''pending''" "cr_change_type demo_update = lit ''update''"
  "cr_target_id demo_update = Some (lit ''k'')" "cr_approvals_needed demo_update = 3"
  "cr_proposed_content demo_update = lit ''rule''"
  "row_get nr_id (lit ''k'') (note_rows (committed demo_update_conn)) = Some deleted_rule"
  "nr_evolution_state deleted_rule = Some (lit ''deprecated'')"
  "row_count (l0_row (lit ''k'')) (note_rows (committed demo_update_conn)) \<noteq> 0"
  by (simp_all add: demo_update_conn_def demo_update_def demo_change_def deleted_rule_def note_insert_default_def
      inserted_row_def row_count_def l0_row_def APPROVALS_NEEDED_def del: lit_simps)

lemma demo_update_dedup: "\<exists>ps ks. dedup_approvals demo_gov ann_and_bob [] [] [] = (ps, ks, ann_and_bob) \<and>
    lit ''r'' \<notin> set ps \<and> canonicalize_approver demo_gov (lit ''Eve'') \<notin> set ks"
proof -
  obtain ps ks ys where d: "dedup_approvals demo_gov ann_and_bob [] [] [] = (ps, ks, ys)"
    by (cases "dedup_approvals demo_gov ann_and_bob [] [] []") auto
  have b: "ballot demo_gov ([] @ ann_and_bob)"
    by (simp add: ballot_def ann_and_bob_def one_vote_def label_key_def principal_key_def canonicalize_approver_def
        demo_gov_def is_default_ignorable_def trim_def is_whitespace_def char_to_ascii_lowercase_def
        is_ascii_uppercase_def)
  have ys: "ys = ann_and_bob" using dedup_id [OF b, of "[]" "[]"] d by simp
  have "set ps = principal_key ` set ann_and_bob" "set ks = label_key demo_gov ` set ann_and_bob"
    using dedup_ballot [OF d] ys by (auto simp: ballot_def)
  then show ?thesis
    using d ys by (simp add: ann_and_bob_def one_vote_def label_key_def principal_key_def canonicalize_approver_def
        demo_gov_def is_default_ignorable_def trim_def is_whitespace_def char_to_ascii_lowercase_def
        is_ascii_uppercase_def)
qed

lemma demo_update_inner:
  "\<exists>d rec. approve_inner demo_gov None no_faults (demo_env (lit ''z'')) (lit ''c'') (lit ''r'') (lit ''Eve'') None
     (ge_now (demo_env (lit ''z''))) (committed demo_update_conn) = (d, Ok rec)"
proof -
  let ?ev = "demo_env (lit ''z'')"
  have w: "\<exists>d. write_rule demo_gov None no_faults ?ev (lit ''update'') (lit ''rule'') (Some (lit ''k'')) cat now aid meta db = (d, Ok ())"
    if "note_rows db = note_rows (committed demo_update_conn)" for db :: gov_db and cat now aid meta
    using upsert_note_None [of "ge_clock ?ev" _ db] demo_update_simps(9) that
    by (simp add: write_rule_def target_note_id_def op_bind_def op_map_err_def sql_query_def sql_exec_def
        op_return_def l0_note_def and_then_def demo_gov_def split: prod.splits sum.splits) (metis Pair_inject sum.distinct(1))
  have a: "\<exists>d. apply_change_inner demo_gov None no_faults ?ev (lit ''c'') (lit ''update'') (lit ''rule'') (Some (lit ''k'')) cat now aid db = (d, Ok ())"
    if "note_rows db = note_rows (committed demo_update_conn)" for db :: gov_db and cat now aid
    using w [OF that, of cat now aid "[]"]
    by (auto simp: apply_change_inner_def op_bind_def op_map_err_def sql_exec_def demo_gov_def simp del: lit_simps)
  have n: "as_i32 (Suc (length ann_and_bob)) = 3" by (simp add: ann_and_bob_def as_i32_def)
  obtain ps ks where d: "dedup_approvals demo_gov ann_and_bob [] [] [] = (ps, ks, ann_and_bob)"
      "lit ''r'' \<notin> set ps" "canonicalize_approver demo_gov (lit ''Eve'') \<notin> set ks"
    using demo_update_dedup by blast
  show ?thesis
    using a [of "committed demo_update_conn\<lparr>changes := x\<rparr>" for x] d
    by (simp add: approve_inner_def op_bind_def op_map_err_def sql_query_def sql_exec_def op_return_def
        save_approvals_def Let_def demo_update_simps demo_update_parse n del: lit_simps split: prod.splits sum.splits)
      (metis Pair_inject sum.distinct(1))
qed

theorem update_of_deleted_rule_keeps_state_witness:
  "\<exists>c' rec r. approve_change_for_principal demo_gov None no_faults (demo_env (lit ''z'')) (lit ''c'') (lit ''r'')
       (Some (lit ''Eve'')) None demo_update_conn = (c', Ok rec) \<and>
     row_get nr_id (lit ''k'') (note_rows (committed c')) = Some r \<and>
     nr_content r = lit ''rule'' \<and> nr_is_active r = 1 \<and> nr_evolution_state r = Some (lit ''deprecated'')"
proof -
  obtain d rec where inner: "approve_inner demo_gov None no_faults (demo_env (lit ''z'')) (lit ''c'') (lit ''r'')
      (lit ''Eve'') None (ge_now (demo_env (lit ''z''))) (committed demo_update_conn) = (d, Ok rec)"
    using demo_update_inner by blast
  have "open_txn demo_update_conn = None" by (simp add: demo_update_conn_def)
  with inner demo_labels(3) have run: "approve_change_for_principal demo_gov None no_faults (demo_env (lit ''z'')) (lit ''c'')
      (lit ''r'') (Some (lit ''Eve'')) None demo_update_conn = (demo_update_conn\<lparr>committed := d, open_txn := None\<rparr>, Ok rec)"
    unfolding approve_change_for_principal_def usable_def
    by (simp add: Let_def txn_begin_def on_conn_def current_def txn_commit_def del: lit_simps)
  have "length ann_and_bob = 2" by (simp add: ann_and_bob_def)
  obtain ps ks where dd: "dedup_approvals demo_gov ann_and_bob [] [] [] = (ps, ks, ann_and_bob)"
    using demo_update_dedup by blast
  have "ch_status rec = lit ''applied''"
    using approve_inner_Ok [OF inner] demo_update_simps(1,5) demo_update_parse dd \<open>length ann_and_bob = 2\<close>
    unfolding approval_effect_def Let_def by (auto simp: as_i32_def simp del: lit_simps)
  from update_of_deleted_rule_keeps_state [OF run this demo_update_simps(1,3,4,7,8)] run demo_update_simps(6)
  show ?thesis by auto
qed

end
