(* ===== verification/Memory_Policy.thy ===== *)
theory Memory_Policy
  imports Json_Value
begin

text \<open>
  The durable-memory policy (\<open>core/memory_policy.rs\<close>): from the content of a write, its
  source and its metadata, \<open>evaluate\<close> decides whether the write may enter durable memory
  and which typed metadata is stamped on it. The marker tables are the program's, Chinese
  markers as the code points of their characters. The regular expressions belong to the
  \<open>regex\<close> crate and the Unicode lower-case mapping to the standard library's tables: both
  are the fields of \<open>policy_lib\<close>, one per compiled expression.
\<close>

section \<open>Marker tables\<close>

definition REPO_MARKERS :: "ustr list" where
  "REPO_MARKERS =
   [[0x5F53, 0x524D, 0x5B9E, 0x73B0], [0x4EE3, 0x7801, 0x91CC], [0x6E90, 0x7801, 0x91CC],
    [0x4ED3, 0x5E93, 0x91CC], lit ''commit'', lit ''diff'', lit ''branch'', [0x8865, 0x4E01],
    lit ''patch'', [0x5B9E, 0x73B0, 0x4F4D, 0x4E8E]]"

definition TRANSIENT_MARKERS :: "ustr list" where
  "TRANSIENT_MARKERS =
   [[0x5F53, 0x524D, 0x4EFB, 0x52A1], [0x8FD9, 0x8F6E], [0x672C, 0x8F6E],
    [0x4E0B, 0x4E00, 0x6B65], lit ''todo'', [0x5F85, 0x529E], [0x963B, 0x585E],
    [0x521A, 0x521A], [0x4ECA, 0x5929, 0x5148], lit ''session'']"

definition USER_MARKERS :: "ustr list" where
  "USER_MARKERS =
   [[0x6211, 0x53EB], [0x53EB, 0x6211], [0x6211, 0x662F], [0x6211, 0x7684, 0x80CC, 0x666F],
    [0x6211, 0x6765, 0x81EA], [0x6211, 0x5728, 0x505A], [0x6211, 0x7684, 0x54C1, 0x724C]]"

definition FEEDBACK_MARKERS :: "ustr list" where
  "FEEDBACK_MARKERS =
   [[0x504F, 0x597D], [0x559C, 0x6B22], [0x4E0D, 0x559C, 0x6B22],
    [0x8BF7, 0x7528, 0x4E2D, 0x6587], [0x9ED8, 0x8BA4, 0x4E2D, 0x6587],
    [0x7B80, 0x5355, 0x89E3, 0x91CA], [0x89E3, 0x91CA, 0x7B80, 0x5355],
    [0x4E0D, 0x8981, 0x592A, 0x957F], [0x6C9F, 0x901A, 0x98CE, 0x683C],
    [0x5199, 0x4F5C, 0x98CE, 0x683C], [0x56DE, 0x590D, 0x98CE, 0x683C]]"

definition FEEDBACK_COMMUNICATION_MARKERS :: "ustr list" where
  "FEEDBACK_COMMUNICATION_MARKERS =
   [[0x4E2D, 0x6587], [0x82F1, 0x6587], [0x7B80, 0x6D01], [0x7B80, 0x5355, 0x89E3, 0x91CA],
    [0x4E0D, 0x8981, 0x592A, 0x957F], [0x6C9F, 0x901A], [0x5199, 0x4F5C], [0x56DE, 0x590D],
    [0x8BED, 0x6C14]]"

definition FEEDBACK_WORKFLOW_MARKERS :: "ustr list" where
  "FEEDBACK_WORKFLOW_MARKERS =
   [lit ''diff'', [0x63D0, 0x4EA4], lit ''commit'', lit ''pr'', lit ''review'',
    [0x4E0D, 0x8981, 0x603B, 0x7ED3], [0x603B, 0x7ED3], [0x5206, 0x652F],
    [0x5DE5, 0x4F5C, 0x6D41], [0x6D41, 0x7A0B]]"

definition FEEDBACK_QUALITY_MARKERS :: "ustr list" where
  "FEEDBACK_QUALITY_MARKERS =
   [[0x6D4B, 0x8BD5], lit ''test'', [0x8D28, 0x91CF], [0x9A8C, 0x8BC1], [0x4E25, 0x683C],
    [0x6B63, 0x786E, 0x6027], [0x56DE, 0x5F52], [0x4E0D, 0x8981, 0x20, 0x6D, 0x6F, 0x63, 0x6B],
    [0x771F, 0x5B9E, 0x6570, 0x636E, 0x5E93]]"

definition FEEDBACK_TASTE_MARKERS :: "ustr list" where
  "FEEDBACK_TASTE_MARKERS =
   [[0x5BA1, 0x7F8E], [0x54C1, 0x724C], [0x8C03, 0x6027], [0x9AD8, 0x7EA7, 0x611F],
    [0x4E0D, 0x8981, 0x20, 0x61, 0x69, 0x20, 0x5473],
    [0x4E0D, 0x8981, 0x592A, 0x50CF, 0x6A21, 0x677F], [0x98CE, 0x683C, 0x5316]]"

definition PROJECT_MARKERS :: "ustr list" where
  "PROJECT_MARKERS =
   [[0x9879, 0x76EE, 0x8981, 0x6C42], [0x9879, 0x76EE, 0x7EA6, 0x675F], [0x5FC5, 0x987B],
    [0x4E0D, 0x8981, 0x9ED8, 0x8BA4], [0x9ED8, 0x8BA4], [0x79BB, 0x7EBF, 0x4F18, 0x5148],
    lit ''strict local'', [0x672C, 0x5730, 0x4F18, 0x5148], [0x7EA6, 0x675F], [0x7B56, 0x7565],
    [0x89C4, 0x8303], [0x6D41, 0x7A0B], [0x9009, 0x578B], [0x51B3, 0x5B9A], [0x622A, 0x6B62],
    lit ''freeze'', lit ''deadline'', [0x91CC, 0x7A0B, 0x7891], [0x4E0A, 0x7EBF],
    [0x53D1, 0x5E03], [0x5408, 0x89C4], lit ''legal'', lit ''stakeholder'']"

definition REFERENCE_MARKERS :: "ustr list" where
  "REFERENCE_MARKERS =
   [lit ''github'', lit ''figma'', lit ''notion'', lit ''slack'', lit ''sentry'',
    lit ''linear'', lit ''jira'', lit ''docs'', [0x6587, 0x6863], [0x5730, 0x5740],
    [0x5165, 0x53E3], [0x94FE, 0x63A5], [0x4ED3, 0x5E93, 0x5730, 0x5740], lit ''openapi'']"

definition CURRENT_STATE_MARKERS :: "ustr list" where
  "CURRENT_STATE_MARKERS =
   [[0x5F53, 0x524D], [0x76EE, 0x524D], [0x73B0, 0x6709], lit ''this week'', lit ''today'']"

section \<open>Inputs, decisions and the expressions of the module\<close>

record policy_lib =
  pl_to_lowercase :: "ustr \<Rightarrow> ustr"
  pl_path_re :: "ustr \<Rightarrow> bool"
  pl_env_re :: "ustr \<Rightarrow> bool"
  pl_func_re :: "ustr \<Rightarrow> bool"
  pl_url_re :: "ustr \<Rightarrow> bool"
  pl_url_scrub :: "ustr \<Rightarrow> ustr"
  pl_living_doc_re :: "ustr \<Rightarrow> bool"

record evaluate_input =
  ei_content :: ustr
  ei_layer :: "ustr option"
  ei_category :: "ustr option"
  ei_source :: "ustr option"
  ei_metadata :: "json_map option"
  ei_agent :: "ustr option"

record policy_decision =
  allow_durable :: bool
  memory_type :: "ustr option"
  pd_metadata :: json_map
  pd_reason :: ustr

definition any_marker :: "ustr list \<Rightarrow> ustr \<Rightarrow> bool" where
  "any_marker ms t \<longleftrightarrow> list_ex (contains t) ms"

definition meta_flag :: "json_map \<Rightarrow> ustr \<Rightarrow> bool" where
  "meta_flag m k \<longleftrightarrow> Option.bind (map_of m k) as_bool = Some True"

section \<open>The classifiers\<close>

definition classify_memory_type :: "policy_lib \<Rightarrow> ustr \<Rightarrow> ustr \<Rightarrow> bool \<Rightarrow> ustr option" where
  "classify_memory_type P t lowered explicit_remember =
    (let has_project_marker = any_marker PROJECT_MARKERS t;
         has_reference_marker = pl_url_re P t \<or> any_marker REFERENCE_MARKERS lowered;
         has_living_doc_path = pl_living_doc_re P t;
         subkinds = FEEDBACK_COMMUNICATION_MARKERS @ FEEDBACK_WORKFLOW_MARKERS @
           FEEDBACK_QUALITY_MARKERS @ FEEDBACK_TASTE_MARKERS
     in if any_marker USER_MARKERS t then Some (lit ''user'')
        else if any_marker FEEDBACK_MARKERS t then Some (lit ''feedback'')
        else if has_project_marker \<and> \<not> has_living_doc_path then Some (lit ''project'')
        else if list_ex (\<lambda>m. contains t m \<or> contains lowered m) subkinds
          then Some (lit ''feedback'')
        else if has_reference_marker \<or> has_living_doc_path then Some (lit ''reference'')
        else if explicit_remember then Some (lit ''project'')
        else None)"

definition is_repo_derivable :: "policy_lib \<Rightarrow> ustr \<Rightarrow> ustr \<Rightarrow> bool" where
  "is_repo_derivable P t lowered =
    (let scrubbed = pl_url_scrub P t
     in if pl_path_re P scrubbed then True
        else if pl_func_re P scrubbed then True
        else if pl_env_re P scrubbed \<and>
          (contains lowered (lit ''env'') \<or> contains t [0x73AF, 0x5883, 0x53D8, 0x91CF] \<or>
           contains lowered (lit ''flag'')) then True
        else list_ex (\<lambda>m. contains lowered m \<or> contains t m) REPO_MARKERS)"

definition is_living_doc_reference :: "policy_lib \<Rightarrow> ustr \<Rightarrow> json_map \<Rightarrow> bool" where
  "is_living_doc_reference P t metadata \<longleftrightarrow>
     pl_living_doc_re P t \<or> meta_flag metadata (lit ''living_doc'') \<or>
     (case Option.bind (map_of metadata (lit ''living_docs'')) as_array of
        None \<Rightarrow> False | Some docs \<Rightarrow> docs \<noteq> [])"

definition is_transient :: "ustr \<Rightarrow> ustr \<Rightarrow> bool" where
  "is_transient t lowered \<longleftrightarrow>
     list_ex (\<lambda>m. contains t m \<or> contains lowered m) TRANSIENT_MARKERS"

definition infer_source_kind :: "ustr option \<Rightarrow> ustr option \<Rightarrow> json_map \<Rightarrow> ustr" where
  "infer_source_kind source agent metadata =
    (let by_source =
       (if source = Some (lit ''ai_extraction'') \<or> source = Some (lit ''external_ai'')
        then lit ''extraction''
        else if source = Some (lit ''user'') then lit ''manual''
        else case agent of Some a \<Rightarrow> a | None \<Rightarrow> lit ''conversation'')
     in case Option.bind (map_of metadata (lit ''record_type'')) as_str of
          Some record_type \<Rightarrow> if record_type \<noteq> [] then record_type else by_source
        | None \<Rightarrow> by_source)"

definition classify_feedback_kind :: "ustr \<Rightarrow> ustr \<Rightarrow> ustr" where
  "classify_feedback_kind t lowered =
    (let hits = (\<lambda>ms. list_ex (\<lambda>m. contains t m \<or> contains lowered m) ms)
     in if hits FEEDBACK_COMMUNICATION_MARKERS then lit ''communication''
        else if hits FEEDBACK_WORKFLOW_MARKERS then lit ''workflow''
        else if hits FEEDBACK_QUALITY_MARKERS then lit ''quality_bar''
        else if hits FEEDBACK_TASTE_MARKERS then lit ''taste''
        else lit ''workflow'')"

definition build_why :: "ustr option \<Rightarrow> ustr option" where
  "build_why mtype =
     (case mtype of None \<Rightarrow> None
      | Some t \<Rightarrow>
        if t = lit ''user'' then Some
          ([0x8FD9, 0x662F, 0x7A33, 0x5B9A, 0x7684, 0x7528, 0x6237, 0x753B, 0x50CF, 0x2F, 0x8EAB,
           0x4EFD, 0x4FE1, 0x606F, 0xFF0C, 0x8DE8, 0x4F1A, 0x8BDD, 0x6709, 0x6301, 0x7EED, 0x4EF7,
           0x503C, 0x3002])
        else if t = lit ''feedback'' then Some
          ([0x8FD9, 0x662F, 0x5BF9, 0x534F, 0x4F5C, 0x65B9, 0x5F0F, 0x6216, 0x8F93, 0x51FA, 0x98CE,
           0x683C, 0x7684, 0x504F, 0x597D, 0xFF0C, 0x540E, 0x7EED, 0x54CD, 0x5E94, 0x53EF, 0x76F4,
           0x63A5, 0x590D, 0x7528, 0x3002])
        else if t = lit ''project'' then Some
          ([0x8FD9, 0x662F, 0x9879, 0x76EE, 0x7EA7, 0x7EA6, 0x675F, 0x2F, 0x51B3, 0x7B56, 0xFF0C,
           0x540E, 0x7EED, 0x6267, 0x884C, 0x65F6, 0x5E94, 0x4F18, 0x5148, 0x9075, 0x5B88, 0x3002])
        else if t = lit ''reference'' then Some
          ([0x8FD9, 0x662F, 0x5916, 0x90E8, 0x7CFB, 0x7EDF, 0x5165, 0x53E3, 0x2F, 0x53C2, 0x8003,
           0x8D44, 0x6599, 0xFF0C, 0x540E, 0x7EED, 0x9700, 0x8981, 0x65F6, 0x53EF, 0x76F4, 0x63A5,
           0x8DF3, 0x8F6C, 0x4F7F, 0x7528, 0x3002])
        else None)"

definition build_apply :: "ustr option \<Rightarrow> ustr option" where
  "build_apply mtype =
     (case mtype of None \<Rightarrow> None
      | Some t \<Rightarrow>
        if t = lit ''user'' then Some
          ([0x5728, 0x56DE, 0x7B54, 0x6D89, 0x53CA, 0x7528, 0x6237, 0x80CC, 0x666F, 0x3001, 0x79F0,
           0x547C, 0x3001, 0x957F, 0x671F, 0x76EE, 0x6807, 0x65F6, 0x4F18, 0x5148, 0x53C2, 0x8003,
           0x3002])
        else if t = lit ''feedback'' then Some
          ([0x5728, 0x751F, 0x6210, 0x56DE, 0x590D, 0x3001, 0x6587, 0x6863, 0x3001, 0x4EE3, 0x7801,
           0x8BF4, 0x660E, 0x65F6, 0x9ED8, 0x8BA4, 0x5E94, 0x7528, 0x8FD9, 0x4E9B, 0x504F, 0x597D,
           0x3002])
        else if t = lit ''project'' then Some
          ([0x5728, 0x505A, 0x5B9E, 0x73B0, 0x3001, 0x89C4, 0x5212, 0x3001, 0x8BC4, 0x5BA1, 0x65F6,
           0x628A, 0x5B83, 0x5F53, 0x4F5C, 0x9879, 0x76EE, 0x7EA6, 0x675F, 0x6216, 0x9ED8, 0x8BA4,
           0x7B56, 0x7565, 0x3002])
        else if t = lit ''reference'' then Some
          ([0x5728, 0x9700, 0x8981, 0x5916, 0x90E8, 0x5165, 0x53E3, 0x3001, 0x6587, 0x6863, 0x6216,
           0x7CFB, 0x7EDF, 0x5BF9, 0x63A5, 0x65F6, 0x4F18, 0x5148, 0x5F15, 0x7528, 0x3002])
        else None)"

section \<open>The decision\<close>

definition opt_str :: "ustr option \<Rightarrow> json" where
  "opt_str v = (case v of None \<Rightarrow> JNull | Some t \<Rightarrow> JStr t)"

text \<open>The two explanations a flagged write carries as its \<open>why\<close>.\<close>

definition transient_why :: ustr where
  "transient_why =
    [0x4F1A, 0x8BDD, 0x6001, 0x4FE1, 0x606F, 0x5E94, 0x8FDB, 0x5165, 0x20, 0x73, 0x65, 0x73,
    0x73, 0x69, 0x6F, 0x6E, 0x20, 0x6D, 0x65, 0x6D, 0x6F, 0x72, 0x79, 0xFF0C, 0x800C, 0x4E0D,
    0x662F, 0x20, 0x64, 0x75, 0x72, 0x61, 0x62, 0x6C, 0x65, 0x20, 0x6D, 0x65, 0x6D, 0x6F,
    0x72, 0x79, 0x3002]"

definition derivable_why :: ustr where
  "derivable_why =
    [0x8BE5, 0x5185, 0x5BB9, 0x53EF, 0x4ECE, 0x4ED3, 0x5E93, 0x2F, 0x4EE3, 0x7801, 0x73B0,
    0x72B6, 0x76F4, 0x63A5, 0x63A8, 0x5BFC, 0xFF0C, 0x4E0D, 0x5E94, 0x5199, 0x5165, 0x20,
    0x64, 0x75, 0x72, 0x61, 0x62, 0x6C, 0x65, 0x20, 0x6D, 0x65, 0x6D, 0x6F, 0x72, 0x79,
    0x3002]"

text \<open>The six keys every write gets, and the seventh of a feedback memory.\<close>

definition base_metadata ::
  "ustr option \<Rightarrow> bool \<Rightarrow> ustr \<Rightarrow> ustr \<Rightarrow> ustr option \<Rightarrow> json_map" where
  "base_metadata mtype derivable stale_risk source_kind feedback_kind =
    (let m1 = map_insert (lit ''memory_type'') (opt_str mtype) [];
         m2 = map_insert (lit ''why'') (opt_str (build_why mtype)) m1;
         m3 = map_insert (lit ''how_to_apply'') (opt_str (build_apply mtype)) m2;
         m4 = map_insert (lit ''derivable_from_repo'') (JBool derivable) m3;
         m5 = map_insert (lit ''stale_risk'') (JStr stale_risk) m4;
         m6 = map_insert (lit ''source_kind'') (JStr source_kind) m5
     in case feedback_kind of None \<Rightarrow> m6
        | Some k \<Rightarrow> map_insert (lit ''feedback_kind'') (JStr k) m6)"

text \<open>The intercepts, in the order of the code: each returns early for an extraction and
  leaves a warning on any other write.\<close>

definition intercepts ::
  "bool \<Rightarrow> bool \<Rightarrow> bool \<Rightarrow> ustr option \<Rightarrow> json_map \<Rightarrow>
   (policy_decision, ustr option \<times> json_map) result" where
  "intercepts is_auto_extract transient derivable mtype meta =
    (let reject = (\<lambda>mt m r.
           \<lparr>allow_durable = False, memory_type = mt, pd_metadata = m, pd_reason = r\<rparr>);
         warn = (\<lambda>w m. map_insert (lit ''policy_warning'') (JStr w) m)
     in and_then
          (if transient then
             let m = map_insert (lit ''why'') (JStr transient_why) meta
             in if is_auto_extract then Err (reject mtype m (lit ''transient_session_state''))
                else Ok (warn (lit ''transient_session_state'') m)
           else Ok meta) (\<lambda>meta.
        and_then
          (if derivable then
             let m = map_insert (lit ''why'') (JStr derivable_why) meta
             in if is_auto_extract then Err (reject mtype m (lit ''repo_derivable''))
                else Ok (warn (lit ''repo_derivable'') m)
           else Ok meta) (\<lambda>meta.
          (if mtype = None then
             if is_auto_extract then Err (reject None meta (lit ''not_durable_worthy''))
             else
               let m1 = map_insert (lit ''memory_type'') (JStr (lit ''project'')) meta;
                   m2 = map_insert (lit ''why'')
                     (opt_str (build_why (Some (lit ''project'')))) m1;
                   m3 = map_insert (lit ''how_to_apply'')
                     (opt_str (build_apply (Some (lit ''project'')))) m2
               in Ok (Some (lit ''project''), warn (lit ''fallback_to_project'') m3)
           else Ok (mtype, meta)))))"

definition evaluate :: "policy_lib \<Rightarrow> evaluate_input \<Rightarrow> policy_decision" where
  "evaluate P input =
    (let t = trim (ei_content input);
         raw_metadata = (case ei_metadata input of None \<Rightarrow> [] | Some m \<Rightarrow> m);
         lowered = pl_to_lowercase P t;
         explicit_remember = meta_flag raw_metadata (lit ''remember_explicit'') \<or>
           contains t [0x8BB0, 0x4F4F] \<or> contains lowered (lit ''remember this'');
         source_kind = infer_source_kind (ei_source input) (ei_agent input) raw_metadata;
         mtype0 = classify_memory_type P t lowered explicit_remember;
         living_doc_reference = mtype0 = Some (lit ''reference'') \<and>
           is_living_doc_reference P t raw_metadata;
         derivable = (if living_doc_reference then False else is_repo_derivable P t lowered);
         transient = is_transient t lowered;
         is_auto_extract = source_kind = lit ''extraction'';
         mtype = (if mtype0 = None \<and> t \<noteq> [] \<and> is_auto_extract then Some (lit ''project'')
           else mtype0);
         stale_risk =
           (if transient \<or> derivable then lit ''high''
            else if list_ex (\<lambda>m. contains t m \<or> contains lowered m) CURRENT_STATE_MARKERS
              then lit ''medium''
            else lit ''low'');
         meta = base_metadata mtype derivable stale_risk source_kind
           (if mtype = Some (lit ''feedback'') then Some (classify_feedback_kind t lowered)
            else None)
     in case intercepts is_auto_extract transient derivable mtype meta of
          Inl decision \<Rightarrow> decision
        | Inr (mtype, meta) \<Rightarrow>
            \<lparr>allow_durable = True, memory_type = mtype, pd_metadata = meta,
             pd_reason =
               (case ei_layer input of
                  Some l \<Rightarrow>
                    if l \<noteq> lit ''verified_fact'' \<and> l \<noteq> lit ''procedure_schema''
                    then lit ''non_durable_layer_passthrough'' else lit ''allowed''
                | None \<Rightarrow> lit ''allowed'')\<rparr>)"

section \<open>What the decision depends on\<close>

definition policy_meta :: "evaluate_input \<Rightarrow> json_map" where
  "policy_meta i = (case ei_metadata i of None \<Rightarrow> [] | Some m \<Rightarrow> m)"

definition policy_text :: "evaluate_input \<Rightarrow> ustr" where
  "policy_text i = trim (ei_content i)"

definition policy_source :: "evaluate_input \<Rightarrow> ustr" where
  "policy_source i = infer_source_kind (ei_source i) (ei_agent i) (policy_meta i)"

definition extracted :: "evaluate_input \<Rightarrow> bool" where
  "extracted i \<longleftrightarrow> policy_source i = lit ''extraction''"

definition wants_remembering :: "policy_lib \<Rightarrow> evaluate_input \<Rightarrow> bool" where
  "wants_remembering P i \<longleftrightarrow>
     meta_flag (policy_meta i) (lit ''remember_explicit'') \<or>
     contains (policy_text i) [0x8BB0, 0x4F4F] \<or>
     contains (pl_to_lowercase P (policy_text i)) (lit ''remember this'')"

definition recognised_type :: "policy_lib \<Rightarrow> evaluate_input \<Rightarrow> ustr option" where
  "recognised_type P i =
     classify_memory_type P (policy_text i) (pl_to_lowercase P (policy_text i))
       (wants_remembering P i)"

definition session_state :: "policy_lib \<Rightarrow> evaluate_input \<Rightarrow> bool" where
  "session_state P i \<longleftrightarrow> is_transient (policy_text i) (pl_to_lowercase P (policy_text i))"

definition repo_content :: "policy_lib \<Rightarrow> evaluate_input \<Rightarrow> bool" where
  "repo_content P i \<longleftrightarrow>
     is_repo_derivable P (policy_text i) (pl_to_lowercase P (policy_text i)) \<and>
     \<not> (recognised_type P i = Some (lit ''reference'') \<and>
        is_living_doc_reference P (policy_text i) (policy_meta i))"

definition stamped_type :: "policy_lib \<Rightarrow> evaluate_input \<Rightarrow> ustr option" where
  "stamped_type P i =
     (if recognised_type P i = None \<and> policy_text i \<noteq> [] \<and> extracted i
      then Some (lit ''project'') else recognised_type P i)"

definition staleness :: "policy_lib \<Rightarrow> evaluate_input \<Rightarrow> ustr" where
  "staleness P i =
     (if session_state P i \<or> repo_content P i then lit ''high''
      else if list_ex (\<lambda>m. contains (policy_text i) m \<or>
          contains (pl_to_lowercase P (policy_text i)) m) CURRENT_STATE_MARKERS
        then lit ''medium''
      else lit ''low'')"

definition stamped_metadata :: "policy_lib \<Rightarrow> evaluate_input \<Rightarrow> json_map" where
  "stamped_metadata P i =
     base_metadata (stamped_type P i) (repo_content P i) (staleness P i) (policy_source i)
       (if stamped_type P i = Some (lit ''feedback'')
        then Some (classify_feedback_kind (policy_text i) (pl_to_lowercase P (policy_text i)))
        else None)"

lemma evaluate_alt:
  "evaluate P i =
    (case intercepts (extracted i) (session_state P i) (repo_content P i) (stamped_type P i)
       (stamped_metadata P i) of
       Inl d \<Rightarrow> d
     | Inr (mtype, meta) \<Rightarrow>
         \<lparr>allow_durable = True, memory_type = mtype, pd_metadata = meta,
          pd_reason =
            (case ei_layer i of
               Some l \<Rightarrow>
                 if l \<noteq> lit ''verified_fact'' \<and> l \<noteq> lit ''procedure_schema''
                 then lit ''non_durable_layer_passthrough'' else lit ''allowed''
             | None \<Rightarrow> lit ''allowed'')\<rparr>)"
  unfolding evaluate_def Let_def stamped_metadata_def stamped_type_def staleness_def
    repo_content_def session_state_def recognised_type_def wants_remembering_def
    extracted_def policy_source_def policy_text_def policy_meta_def
  by (simp del: lit_simps)

lemma stamped_type_None:
  "stamped_type P i = None \<longleftrightarrow> recognised_type P i = None \<and> (extracted i \<longrightarrow> policy_text i = [])"
  by (auto simp: stamped_type_def simp del: lit_simps)

lemma map_of_base_metadata:
  "map_of (base_metadata mtype derivable stale kind fk) =
     [lit ''memory_type'' \<mapsto> opt_str mtype, lit ''why'' \<mapsto> opt_str (build_why mtype),
      lit ''how_to_apply'' \<mapsto> opt_str (build_apply mtype),
      lit ''derivable_from_repo'' \<mapsto> JBool derivable, lit ''stale_risk'' \<mapsto> JStr stale,
      lit ''source_kind'' \<mapsto> JStr kind]
     ((lit ''feedback_kind'') := map_option JStr fk)"
  by (cases fk) (auto simp: base_metadata_def Let_def lit_inject fun_upd_twist simp del: lit_simps)

lemma distinct_base_metadata:
  "distinct (map fst (base_metadata mtype derivable stale kind fk))"
  unfolding base_metadata_def Let_def
  by (cases fk) (auto intro!: distinct_map_insert simp del: lit_simps map_insert.simps(2))

lemma stamped_type_untyped:
  "recognised_type P i = None \<Longrightarrow> policy_text i = [] \<Longrightarrow> stamped_type P i = None"
  by (simp add: stamped_type_None)

lemmas policy_cases = evaluate_alt intercepts_def Let_def stamped_type_None stamped_type_untyped

text \<open>
  The durable gate. A write is refused exactly when it is an automatic extraction and
  its content is session state, can be derived from the repository, or has neither text nor
  a recognised type; the first of the three that applies is the reason given. Writes from
  users and agents are never refused, whatever they contain.
\<close>

theorem policy_gate:
  "(\<not> allow_durable (evaluate P i) \<longleftrightarrow>
      extracted i \<and>
      (session_state P i \<or> repo_content P i \<or>
       recognised_type P i = None \<and> policy_text i = [])) \<and>
   pd_reason (evaluate P i) =
     (if extracted i \<and> session_state P i then lit ''transient_session_state''
      else if extracted i \<and> repo_content P i then lit ''repo_derivable''
      else if extracted i \<and> recognised_type P i = None \<and> policy_text i = []
        then lit ''not_durable_worthy''
      else if ei_layer i = None \<or> ei_layer i = Some (lit ''verified_fact'') \<or>
        ei_layer i = Some (lit ''procedure_schema'') then lit ''allowed''
      else lit ''non_durable_layer_passthrough'')"
  by (cases "extracted i"; cases "session_state P i"; cases "repo_content P i";
      cases "recognised_type P i = None"; cases "policy_text i = []")
    (auto simp: policy_cases simp del: lit_simps split: option.splits)

text \<open>
  The stamped metadata agrees with the decision. Its \<open>memory_type\<close> is the type of the
  decision, which is never missing on an accepted write; its source and repository flag are
  those the decision was made on; and it carries a warning exactly on accepted writes that
  an extraction would have been refused for. Only the last warning that applies is kept:
  the fallback warning replaces the repository warning, which replaces the session one.
\<close>

theorem policy_metadata:
  "map_of (pd_metadata (evaluate P i)) (lit ''memory_type'') =
     Some (opt_str (memory_type (evaluate P i))) \<and>
   (memory_type (evaluate P i) = None \<longleftrightarrow>
      extracted i \<and> recognised_type P i = None \<and> policy_text i = []) \<and>
   map_of (pd_metadata (evaluate P i)) (lit ''source_kind'') = Some (JStr (policy_source i)) \<and>
   map_of (pd_metadata (evaluate P i)) (lit ''derivable_from_repo'') =
     Some (JBool (repo_content P i)) \<and>
   map_of (pd_metadata (evaluate P i)) (lit ''policy_warning'') =
     (if extracted i then None
      else if recognised_type P i = None then Some (JStr (lit ''fallback_to_project''))
      else if repo_content P i then Some (JStr (lit ''repo_derivable''))
      else if session_state P i then Some (JStr (lit ''transient_session_state''))
      else None) \<and>
   distinct (map fst (pd_metadata (evaluate P i)))"
  by (cases "extracted i"; cases "session_state P i"; cases "repo_content P i";
      cases "recognised_type P i")
    (auto simp: policy_cases stamped_metadata_def map_of_base_metadata lit_inject opt_str_def
       simp del: lit_simps map_insert.simps intro!: distinct_map_insert distinct_base_metadata
       split: option.splits)

end
