(* ===== verification/Auto_Classifier.thy ===== *)
theory Auto_Classifier
  imports Json_Value Float64
begin

text \<open>
  The rule classifier (\<open>core/auto_classifier.rs\<close>): keyword tables, the best-match scan over
  them, the category, layer and confidence of a memory, and its semantic types. The tables
  are the program's, non-ASCII keywords as the code points of their characters. The Unicode
  lower-case mapping of the standard library's tables is the argument \<open>L\<close>.
\<close>

section \<open>Keyword tables\<close>

type_synonym keyword_table = "(ustr \<times> ustr list) list"

definition CATEGORY_KEYWORDS :: keyword_table where
  "CATEGORY_KEYWORDS =
   [(lit ''person'',
      [[0x4EBA], [0x4EBA, 0x7269], [0x8054, 0x7CFB, 0x4EBA], [0x5BA2, 0x6237], [0x7528, 0x6237],
      [0x540C, 0x4E8B], lit ''person'', lit ''contact'', lit ''user'', lit ''colleague'',
      lit ''team'']),
    (lit ''place'',
      [[0x5730, 0x70B9], [0x5730, 0x5740], [0x4F4D, 0x7F6E], [0x4F1A, 0x8BAE, 0x5BA4],
      [0x529E, 0x516C, 0x5BA4], lit ''place'', lit ''location'', lit ''office'', lit ''address'',
      lit ''room'']),
    (lit ''event'',
      [[0x4F1A, 0x8BAE], [0x6D3B, 0x52A8], [0x53D1, 0x751F], [0x5B8C, 0x6210], [0x63D0, 0x4EA4],
      [0x53D1, 0x5E03], [0x4E0A, 0x7EBF], [0x66F4, 0x65B0], [0x4FEE, 0x590D], lit ''event'',
      lit ''meeting'', lit ''completed'', lit ''shipped'', lit ''deployed'', lit ''released'',
      lit ''fixed'', lit ''merged'']),
    (lit ''item'',
      [[0x7269, 0x54C1], [0x5DE5, 0x5177], [0x8BBE, 0x5907], [0x6587, 0x4EF6], [0x6587, 0x6863],
      lit ''item'', lit ''tool'', lit ''document'', lit ''config'', lit ''file'',
      lit ''artifact'']),
    (lit ''routine'',
      [[0x6BCF, 0x5929], [0x6BCF, 0x5468], [0x4E60, 0x60EF], [0x6D41, 0x7A0B], [0x6B65, 0x9AA4],
      [0x65E5, 0x5E38], lit ''routine'', lit ''daily'', lit ''weekly'', lit ''workflow'',
      lit ''process'', lit ''habit'']),
    (lit ''sku'',
      [[0x6B3E, 0x5F0F], lit ''SKU'', [0x4EA7, 0x54C1], [0x5546, 0x54C1], [0x8D27, 0x53F7],
      [0x9762, 0x6599], [0x5C3A, 0x7801], [0x989C, 0x8272], [0x4EF7, 0x683C], [0x5E93, 0x5B58],
      lit ''product'', lit ''inventory'', lit ''stock'', lit ''price'']),
    (lit ''customer'',
      [[0x5BA2, 0x6237], [0x987E, 0x5BA2], [0x4E70, 0x5BB6], [0x8BA2, 0x5355], [0x590D, 0x8D2D],
      [0x79C1, 0x57DF], lit ''customer'', lit ''buyer'', lit ''order'', lit ''subscriber'']),
    (lit ''trend'',
      [[0x8D8B, 0x52BF], [0x6D41, 0x884C], [0x70ED, 0x95E8], [0x7206, 0x6B3E], [0x98CE, 0x683C],
      [0x6F6E, 0x6D41], lit ''trend'', lit ''fashion'', lit ''popular'', lit ''viral'',
      lit ''trending'']),
    (lit ''campaign'',
      [[0x6D3B, 0x52A8], [0x63A8, 0x5E7F], [0x8425, 0x9500], [0x4FC3, 0x9500], [0x6298, 0x6263],
      lit ''campaign'', lit ''promotion'', lit ''marketing'', lit ''discount'', lit ''launch'']),
    (lit ''decision'',
      [lit ''decided'', lit ''chosen'', lit ''went with'', lit ''picked'', lit ''selected'',
      lit ''agreed'', lit ''switched to'', lit ''committed to'', lit ''approved'',
      lit ''rejected'', lit ''vetoed'', [0x51B3, 0x5B9A], [0x9009, 0x5B9A], [0x91C7, 0x7528],
      [0x653E, 0x5F03], [0x5426, 0x51B3], [0x786E, 0x8BA4], [0x62CD, 0x677F], [0x5B9A, 0x4E86],
      lit ''choose'', lit ''opt for'', lit ''settled on'', lit ''final call'', lit ''go with'',
      lit ''trade-off'', lit ''trade off'', lit ''instead of'', lit ''rather than'']),
    (lit ''bug'',
      [lit ''broke'', lit ''broken'', lit ''failed'', lit ''crash'', lit ''error'', lit ''bug'',
      lit ''regression'', [100, 111, 101, 115, 110, 39, 116, 32, 119, 111, 114, 107],
      lit ''not working'', lit ''exception'', lit ''timeout'', lit ''hang'', [0x62A5, 0x9519],
      [0x5D29, 0x6E83], [0x5931, 0x8D25], [0x6302, 0x4E86], [0x5361, 0x4F4F], [0x51FA, 0x9519],
      [0x70B8, 0x4E86], lit ''fix'', lit ''hotfix'', lit ''patch'', lit ''workaround'',
      lit ''rollback'', lit ''segfault'', lit ''OOM'', lit ''memory leak'', lit ''deadlock'',
      lit ''race condition'']),
    (lit ''preference'',
      [lit ''prefer'', lit ''like'', lit ''always use'', lit ''never use'', lit ''favorite'',
      lit ''hate'', lit ''avoid'', lit ''dislike'', lit ''better than'', lit ''worse than'',
      [0x559C, 0x6B22], [0x8BA8, 0x538C], [0x504F, 0x597D], [0x4E60, 0x60EF, 0x7528],
      [0x4E0D, 0x8981, 0x7528], [0x53D7, 0x4E0D, 0x4E86], lit ''default to'', lit ''go-to'',
      lit ''style preference'', lit ''convention'']),
    (lit ''architecture'',
      [lit ''architecture'', lit ''design'', lit ''pattern'', lit ''schema'', lit ''migration'',
      lit ''refactor'', lit ''modular'', lit ''coupling'', lit ''interface'', lit ''contract'',
      [0x67B6, 0x6784], [0x8BBE, 0x8BA1], [0x91CD, 0x6784], [0x6A21, 0x5F0F], [0x6A21, 0x5757],
      [0x63A5, 0x53E3], [0x5951, 0x7EA6], lit ''system design'', lit ''data model'',
      lit ''API design'', lit ''trade-off'']),
    (lit ''research'',
      [lit ''found'', lit ''discovered'', lit ''learned'', lit ''researched'',
      lit ''investigated'', lit ''benchmarked'', lit ''compared'', lit ''evaluated'',
      lit ''analyzed'', lit ''tested'', [0x53D1, 0x73B0], [0x8C03, 0x7814], [0x5BF9, 0x6BD4],
      [0x8BC4, 0x4F30], [0x5206, 0x6790], [0x9A8C, 0x8BC1], [0x6D4B, 0x8BD5], lit ''turns out'',
      lit ''TIL'', lit ''insight'', lit ''observation'', lit ''conclusion''])]"

definition SEMANTIC_TYPE_PATTERNS :: keyword_table where
  "SEMANTIC_TYPE_PATTERNS =
   [(lit ''decision'',
      [lit ''decided'', lit ''chosen'', lit ''went with'', lit ''selected'', lit ''approved'',
      lit ''rejected'', lit ''vetoed'', lit ''agreed on'', lit ''committed to'',
      lit ''settled on'', lit ''final call'', lit ''go with'', lit ''trade-off'',
      [0x51B3, 0x5B9A], [0x9009, 0x5B9A], [0x786E, 0x8BA4], [0x62CD, 0x677F], [0x653E, 0x5F03],
      [0x5426, 0x51B3], lit ''instead of'', lit ''rather than'', lit ''over'',
      lit ''architecture decision'', lit ''ADR'', lit ''design decision'']),
    (lit ''milestone'',
      [lit ''shipped'', lit ''launched'', lit ''completed'', lit ''deployed'', lit ''released'',
      lit ''merged'', lit ''passed'', lit ''achieved'', lit ''reached'', lit ''finished'',
      [0x4E0A, 0x7EBF], [0x53D1, 0x5E03], [0x5B8C, 0x6210], [0x901A, 0x8FC7], [0x8FBE, 0x6210],
      [0x4EA4, 0x4ED8], lit ''v1'', lit ''v2'', lit ''version'', lit ''sprint'', lit ''MVP'',
      lit ''went live'', lit ''in production'', lit ''GA'', lit ''first user'']),
    (lit ''problem'',
      [lit ''broke'', lit ''broken'', lit ''failed'', lit ''crash'', lit ''error'', lit ''bug'',
      lit ''regression'', [100, 111, 101, 115, 110, 39, 116, 32, 119, 111, 114, 107],
      lit ''not working'', lit ''exception'', lit ''timeout'', lit ''hang'', lit ''stuck'',
      lit ''blocked'', lit ''issue'', [0x62A5, 0x9519], [0x5D29, 0x6E83], [0x5931, 0x8D25],
      [0x6302, 0x4E86], [0x5361, 0x4F4F], [0x51FA, 0x9519], lit ''performance degradation'',
      lit ''flaky'', lit ''intermittent'',
      [99, 97, 110, 39, 116, 32, 102, 105, 103, 117, 114, 101, 32, 111, 117, 116],
      lit ''struggling with'']),
    (lit ''preference'',
      [lit ''prefer'', lit ''like'', lit ''always use'', lit ''never use'', lit ''favorite'',
      lit ''hate'', lit ''avoid'', lit ''dislike'', lit ''better than'', lit ''worse than'',
      [0x559C, 0x6B22], [0x8BA8, 0x538C], [0x504F, 0x597D], [0x4E60, 0x60EF, 0x7528],
      [0x4E0D, 0x8981, 0x7528], lit ''default to'', lit ''go-to'', lit ''my style'',
      lit ''convention'', [100, 111, 110, 39, 116, 32, 108, 105, 107, 101], lit ''annoy'',
      lit ''wish'', lit ''should be'']),
    (lit ''emotional'',
      [lit ''frustrated'', lit ''excited'', lit ''worried'', lit ''anxious'', lit ''happy'',
      lit ''relieved'', lit ''confused'', lit ''overwhelmed'', lit ''proud'',
      lit ''disappointed'', lit ''angry'', lit ''scared'', lit ''hopeful'', lit ''grateful'',
      lit ''burned out'', [0x6CAE, 0x4E27], [0x5174, 0x594B], [0x62C5, 0x5FC3], [0x7126, 0x8651],
      [0x5F00, 0x5FC3], [0x5931, 0x671B], [0x5D29, 0x6E83], [0x65E0, 0x8BED], [0x7EDD, 0x671B],
      [0x611F, 0x52A8], [0x9A84, 0x50B2], lit ''stressed'', lit ''tired'', lit ''energized'',
      lit ''motivated'', lit ''stuck''])]"

definition LAYER_KEYWORDS :: keyword_table where
  "LAYER_KEYWORDS =
   [(lit ''event_log'',
      [[0x4ECA, 0x5929], [0x6628, 0x5929], [0x521A, 0x521A], [0x4E0A, 0x5348], [0x4E0B, 0x5348],
      [0x665A, 0x4E0A], [0x672C, 0x5468], [0x53D1, 0x751F], [0x5B8C, 0x6210], [0x63D0, 0x4EA4],
      [0x4FEE, 0x590D], lit ''today'', lit ''yesterday'', lit ''recently'', lit ''just now'',
      lit ''this week'', lit ''happened'', lit ''submitted'', lit ''fixed'', lit ''merged'']),
    (lit ''verified_fact'',
      [[0x4E00, 0x76F4], [0x901A, 0x5E38], [0x9ED8, 0x8BA4], [0x56FA, 0x5B9A], [0x5730, 0x5740],
      [0x7535, 0x8BDD], [0x8D26, 0x53F7], [0x89C4, 0x5219], [0x539F, 0x5219], [0x5B9A, 0x4E49],
      lit ''always'', lit ''usually'', lit ''default'', lit ''rule'', lit ''principle'',
      lit ''standard'', lit ''convention'', lit ''permanent''])]"

section \<open>The classifier\<close>

definition DEFAULT_CATEGORY :: ustr where "DEFAULT_CATEGORY = lit ''event''"
definition DEFAULT_LAYER :: ustr where "DEFAULT_LAYER = lit ''verified_fact''"
definition VALID_LAYERS :: "ustr list" where
  "VALID_LAYERS = [lit ''verified_fact'', lit ''event_log'']"

record classification =
  cl_category :: ustr
  cl_layer :: ustr
  cl_confidence :: f64
  cl_method :: ustr
  cl_reason :: ustr

record auto_classifier =
  enable_llm_fallback :: bool
  rule_confidence_threshold :: f64

definition auto_classifier_new :: "bool \<Rightarrow> f64 \<Rightarrow> auto_classifier" where
  "auto_classifier_new fallback threshold =
     \<lparr>enable_llm_fallback = fallback,
      rule_confidence_threshold =
        (if threshold < 0 then 0 else if 1 < threshold then 1 else threshold)\<rparr>"

definition auto_classifier_default :: auto_classifier where
  "auto_classifier_default = auto_classifier_new True (f64_lit 0.6)"

definition keyword_hits :: "(ustr \<Rightarrow> ustr) \<Rightarrow> ustr \<Rightarrow> ustr list \<Rightarrow> nat" where
  "keyword_hits L t keywords = length (filter (\<lambda>keyword. contains t (L keyword)) keywords)"

text \<open>The loop of \<open>match_keywords\<close>, with its two variables.\<close>

fun match_from ::
  "(ustr \<Rightarrow> ustr) \<Rightarrow> ustr \<Rightarrow> keyword_table \<Rightarrow> ustr option \<Rightarrow> nat \<Rightarrow> ustr option \<times> nat" where
  "match_from L t [] best_key best_hits = (best_key, best_hits)"
| "match_from L t ((key, keywords) # rest) best_key best_hits =
    (let hits = keyword_hits L t keywords
     in if best_hits < hits then match_from L t rest (Some key) hits
        else match_from L t rest best_key best_hits)"

definition match_keywords ::
  "(ustr \<Rightarrow> ustr) \<Rightarrow> ustr \<Rightarrow> keyword_table \<Rightarrow> ustr option \<times> nat" where
  "match_keywords L t table = match_from L t table None 0"

definition confidence_from_hits :: "nat \<Rightarrow> f64" where
  "confidence_from_hits hits =
     (if hits = 0 then f64_lit 0.35 else if hits = 1 then f64_lit 0.5
      else if hits = 2 then f64_lit 0.6 else f64_lit 0.75)"

definition classify_with_rules ::
  "(ustr \<Rightarrow> ustr) \<Rightarrow> ustr \<Rightarrow> ustr option \<Rightarrow> classification" where
  "classify_with_rules L content layer_hint =
    (let t = L (trim content)
     in if t = [] then
          \<lparr>cl_category = DEFAULT_CATEGORY,
           cl_layer = (case layer_hint of Some h \<Rightarrow> h | None \<Rightarrow> DEFAULT_LAYER),
           cl_confidence = 0, cl_method = lit ''default'', cl_reason = lit ''empty content''\<rparr>
        else
          let (category, category_hits) = match_keywords L t CATEGORY_KEYWORDS;
              (layer, layer_hits) = match_keywords L t LAYER_KEYWORDS;
              category_value = (case category of Some c \<Rightarrow> c | None \<Rightarrow> DEFAULT_CATEGORY);
              hint = (case layer_hint of
                  Some h \<Rightarrow> if h \<in> set VALID_LAYERS then Some h else None
                | None \<Rightarrow> None);
              layer_value = (case layer of Some l \<Rightarrow> l
                | None \<Rightarrow> (case hint of Some h \<Rightarrow> h | None \<Rightarrow> DEFAULT_LAYER));
              layer_value = (if layer_value \<notin> set VALID_LAYERS then DEFAULT_LAYER
                else layer_value);
              confidence = confidence_from_hits (max category_hits layer_hits);
              reason =
                (if 0 < category_hits \<or> 0 < layer_hits
                 then lit ''rule hits category='' @ show_nat category_hits @
                   lit '' layer='' @ show_nat layer_hits
                 else lit ''rule default'')
          in \<lparr>cl_category = category_value, cl_layer = layer_value,
              cl_confidence = confidence, cl_method = lit ''rule'', cl_reason = reason\<rparr>)"

definition classify ::
  "(ustr \<Rightarrow> ustr) \<Rightarrow> auto_classifier \<Rightarrow> ustr \<Rightarrow> ustr option \<Rightarrow> classification" where
  "classify L self content layer_hint =
    (let rule_result = classify_with_rules L content layer_hint
     in if \<not> enable_llm_fallback self \<or>
          rule_confidence_threshold self \<le> cl_confidence rule_result
        then rule_result
        else rule_result)"

definition detect_semantic_types :: "(ustr \<Rightarrow> ustr) \<Rightarrow> ustr \<Rightarrow> ustr list" where
  "detect_semantic_types L content =
    (let t = L (trim content)
     in if t = [] then []
        else
          let matched = List.map_filter (\<lambda>(semantic_type, keywords).
                let hits = keyword_hits L t keywords
                in if 2 \<le> hits then Some (semantic_type, hits) else None) SEMANTIC_TYPE_PATTERNS;
              has_problem = list_ex (\<lambda>(name, hits). name = lit ''problem'') matched;
              has_milestone = list_ex (\<lambda>(name, hits). name = lit ''milestone'') matched;
              kept = (if has_problem \<and> has_milestone
                then filter (\<lambda>(name, hits). name \<noteq> lit ''problem'') matched else matched)
          in map fst (sort_key (\<lambda>(name, hits). - int hits) kept))"

section \<open>The best-match scan\<close>

text \<open>What the scan computes: the first entry with the most keyword hits, when there is a hit.\<close>

definition first_best :: "(ustr \<Rightarrow> ustr) \<Rightarrow> ustr \<Rightarrow> keyword_table \<Rightarrow> ustr \<Rightarrow> nat \<Rightarrow> bool" where
  "first_best L t table key n \<longleftrightarrow>
     (\<exists>before ws after. table = before @ (key, ws) # after \<and> keyword_hits L t ws = n \<and>
        list_all (\<lambda>(k, ws'). keyword_hits L t ws' < n) before \<and>
        list_all (\<lambda>(k, ws'). keyword_hits L t ws' \<le> n) after)"

definition no_hit :: "(ustr \<Rightarrow> ustr) \<Rightarrow> ustr \<Rightarrow> keyword_table \<Rightarrow> bool" where
  "no_hit L t table \<longleftrightarrow> list_all (\<lambda>(k, ws). keyword_hits L t ws = 0) table"

lemma first_best_in_table: "first_best L t table key n \<Longrightarrow> key \<in> set (map fst table)"
  by (auto simp: first_best_def)

lemma first_best_here:
  "list_all (\<lambda>(k, ws'). keyword_hits L t ws' \<le> keyword_hits L t ws) table \<Longrightarrow>
   first_best L t ((key, ws) # table) key (keyword_hits L t ws)"
  unfolding first_best_def by (rule exI [of _ "[]"]) simp

lemma first_best_Cons:
  "first_best L t table key n \<Longrightarrow> keyword_hits L t ws < n \<Longrightarrow>
   first_best L t ((key', ws) # table) key n"
  unfolding first_best_def
proof (elim exE conjE)
  fix before ws' after
  assume "table = before @ (key, ws') # after" "keyword_hits L t ws' = n"
    "list_all (\<lambda>(k, ws'). keyword_hits L t ws' < n) before"
    "list_all (\<lambda>(k, ws'). keyword_hits L t ws' \<le> n) after" "keyword_hits L t ws < n"
  then show "\<exists>before ws'' after. (key', ws) # table = before @ (key, ws'') # after \<and>
      keyword_hits L t ws'' = n \<and>
      list_all (\<lambda>(k, ws'). keyword_hits L t ws' < n) before \<and>
      list_all (\<lambda>(k, ws'). keyword_hits L t ws' \<le> n) after"
    by (intro exI [of _ "(key', ws) # before"] exI [of _ ws'] exI [of _ after]) simp
qed

text \<open>The scan keeps its variables when no entry has more hits, and ends on the first best
  entry otherwise.\<close>

lemma match_from_best:
  "(match_from L t table k h = (k, h) \<and>
      list_all (\<lambda>(key, ws). keyword_hits L t ws \<le> h) table) \<or>
   (\<exists>key n. match_from L t table k h = (Some key, n) \<and> h < n \<and> first_best L t table key n)"
proof (induction table arbitrary: k h)
  case (Cons e table)
  obtain key ws where e: "e = (key, ws)" by fastforce
  let ?h = "keyword_hits L t ws"
  show ?case
  proof (cases "h < ?h")
    case True
    with Cons.IH [of "Some key" ?h] show ?thesis
      by (auto simp: e Let_def intro: first_best_here first_best_Cons)
  next
    case False
    with Cons.IH [of k h] show ?thesis
      by (auto simp: e Let_def intro!: first_best_Cons)
  qed
qed simp

lemma match_keywords_cases:
  obtains "match_keywords L t table = (None, 0)" "no_hit L t table"
  | key n where "match_keywords L t table = (Some key, n)" "0 < n" "first_best L t table key n"
  using match_from_best [of L t table None 0]
  by (auto simp: match_keywords_def no_hit_def)

section \<open>Properties\<close>

lemma layer_table_valid: "first_best L t LAYER_KEYWORDS key n \<Longrightarrow> key \<in> set VALID_LAYERS"
  by (drule first_best_in_table)
    (auto simp: LAYER_KEYWORDS_def VALID_LAYERS_def lit_inject simp del: lit_simps)

lemma default_layer_valid: "DEFAULT_LAYER \<in> set VALID_LAYERS"
  by (simp add: DEFAULT_LAYER_def VALID_LAYERS_def del: lit_simps)

lemma confidence_bounds:
  "f64_lit 0.35 \<le> confidence_from_hits n" "confidence_from_hits n \<le> f64_lit 0.75"
  by (simp_all add: confidence_from_hits_def f64_lit_mono)

lemma classify_nonempty:
  assumes "L (trim content) \<noteq> []"
  obtains c ch l lh where
    "match_keywords L (L (trim content)) CATEGORY_KEYWORDS = (c, ch)"
    "match_keywords L (L (trim content)) LAYER_KEYWORDS = (l, lh)"
    "cl_category (classify L a content hint) = (case c of Some k \<Rightarrow> k | None \<Rightarrow> DEFAULT_CATEGORY)"
    "cl_layer (classify L a content hint) =
       (case l of Some k \<Rightarrow> if k \<in> set VALID_LAYERS then k else DEFAULT_LAYER
        | None \<Rightarrow> (case hint of Some h \<Rightarrow> if h \<in> set VALID_LAYERS then h else DEFAULT_LAYER
           | None \<Rightarrow> DEFAULT_LAYER))"
    "cl_confidence (classify L a content hint) = confidence_from_hits (max ch lh)"
    "cl_method (classify L a content hint) = lit ''rule''"
proof -
  obtain c ch where c: "match_keywords L (L (trim content)) CATEGORY_KEYWORDS = (c, ch)" by fastforce
  obtain l lh where l: "match_keywords L (L (trim content)) LAYER_KEYWORDS = (l, lh)" by fastforce
  show ?thesis
    by (rule that [OF c l])
      (use assms in \<open>simp_all add: classify_def classify_with_rules_def Let_def c l
         default_layer_valid del: lit_simps split: option.splits\<close>)
qed

text \<open>
  What the rule classifier returns on content with text. The category is the first of
  the categories with the most keyword hits, or the default when none hits. The layer is
  always one of the valid ones: the best of its table, else a valid hint, else the default.
  The confidence is between 0.35 and 0.75, whatever the fallback settings.
\<close>

theorem classification_best_match:
  assumes "L (trim content) \<noteq> []"
  shows "(no_hit L (L (trim content)) CATEGORY_KEYWORDS \<and>
        cl_category (classify L a content hint) = DEFAULT_CATEGORY \<or>
      (\<exists>n. 0 < n \<and> first_best L (L (trim content)) CATEGORY_KEYWORDS
        (cl_category (classify L a content hint)) n)) \<and>
    (no_hit L (L (trim content)) LAYER_KEYWORDS \<and>
        cl_layer (classify L a content hint) =
          (case hint of Some h \<Rightarrow> if h \<in> set VALID_LAYERS then h else DEFAULT_LAYER
           | None \<Rightarrow> DEFAULT_LAYER) \<or>
      (\<exists>n. 0 < n \<and> first_best L (L (trim content)) LAYER_KEYWORDS
        (cl_layer (classify L a content hint)) n)) \<and>
    cl_layer (classify L a content hint) \<in> set VALID_LAYERS \<and>
    f64_lit 0.35 \<le> cl_confidence (classify L a content hint) \<and>
    cl_confidence (classify L a content hint) \<le> f64_lit 0.75"
proof -
  let ?t = "L (trim content)" and ?r = "classify L a content hint"
  obtain c ch l lh where
    c: "match_keywords L ?t CATEGORY_KEYWORDS = (c, ch)" and
    l: "match_keywords L ?t LAYER_KEYWORDS = (l, lh)" and
    r: "cl_category ?r = (case c of Some k \<Rightarrow> k | None \<Rightarrow> DEFAULT_CATEGORY)"
      "cl_layer ?r =
         (case l of Some k \<Rightarrow> if k \<in> set VALID_LAYERS then k else DEFAULT_LAYER
          | None \<Rightarrow> (case hint of Some h \<Rightarrow> if h \<in> set VALID_LAYERS then h else DEFAULT_LAYER
             | None \<Rightarrow> DEFAULT_LAYER))"
      "cl_confidence ?r = confidence_from_hits (max ch lh)"
    by (rule classify_nonempty [where L = L and content = content and a = a and hint = hint, OF assms])
  have cat: "no_hit L ?t CATEGORY_KEYWORDS \<and> cl_category ?r = DEFAULT_CATEGORY \<or>
      (\<exists>n. 0 < n \<and> first_best L ?t CATEGORY_KEYWORDS (cl_category ?r) n)"
    by (rule match_keywords_cases [of L ?t CATEGORY_KEYWORDS]) (use c r in auto)
  have lay: "no_hit L ?t LAYER_KEYWORDS \<and> cl_layer ?r =
        (case hint of Some h \<Rightarrow> if h \<in> set VALID_LAYERS then h else DEFAULT_LAYER
         | None \<Rightarrow> DEFAULT_LAYER) \<or>
      (\<exists>n. 0 < n \<and> first_best L ?t LAYER_KEYWORDS (cl_layer ?r) n)"
    by (rule match_keywords_cases [of L ?t LAYER_KEYWORDS])
      (use l r in \<open>auto dest: layer_table_valid\<close>)
  have "cl_layer ?r \<in> set VALID_LAYERS"
    using r default_layer_valid by (auto split: option.splits)
  with cat lay r(3) confidence_bounds show ?thesis by simp
qed

theorem classification_best_match_witness:
  "cl_layer (classify to_ascii_lowercase auto_classifier_default
     (lit '' Meeting room'') (Some (lit ''todo''))) \<in> set VALID_LAYERS \<and>
   cl_category (classify to_ascii_lowercase auto_classifier_default
     (lit '' Meeting room'') (Some (lit ''todo''))) = lit ''place''"
proof
  have "to_ascii_lowercase (trim (lit '' Meeting room'')) \<noteq> []" by code_simp
  from classification_best_match [where L = to_ascii_lowercase and content = "lit '' Meeting room''"
      and a = auto_classifier_default and hint = "Some (lit ''todo'')", OF this]
  show "cl_layer (classify to_ascii_lowercase auto_classifier_default
     (lit '' Meeting room'') (Some (lit ''todo''))) \<in> set VALID_LAYERS" by blast
  show "cl_category (classify to_ascii_lowercase auto_classifier_default
     (lit '' Meeting room'') (Some (lit ''todo''))) = lit ''place''" by code_simp
qed

subsection \<open>Semantic types\<close>

definition semantic_hits :: "(ustr \<Rightarrow> ustr) \<Rightarrow> ustr \<Rightarrow> ustr \<Rightarrow> nat" where
  "semantic_hits L t name =
     (case map_of SEMANTIC_TYPE_PATTERNS name of None \<Rightarrow> 0 | Some ws \<Rightarrow> keyword_hits L t ws)"

lemma semantic_names_distinct: "distinct (map fst SEMANTIC_TYPE_PATTERNS)"
  by (simp add: SEMANTIC_TYPE_PATTERNS_def lit_inject del: lit_simps)

lemma semantic_hits_entry:
  "(name, ws) \<in> set SEMANTIC_TYPE_PATTERNS \<Longrightarrow> semantic_hits L t name = keyword_hits L t ws"
  by (simp add: semantic_hits_def semantic_names_distinct)

text \<open>The matched list, over the names of the table.\<close>

lemma semantic_matched:
  "List.map_filter (\<lambda>(semantic_type, keywords).
       let hits = keyword_hits L t keywords
       in if 2 \<le> hits then Some (semantic_type, hits) else None) SEMANTIC_TYPE_PATTERNS =
   map (\<lambda>name. (name, semantic_hits L t name))
     (filter (\<lambda>name. 2 \<le> semantic_hits L t name) (map fst SEMANTIC_TYPE_PATTERNS))"
proof -
  have "List.map_filter (\<lambda>(semantic_type, keywords).
       let hits = keyword_hits L t keywords
       in if 2 \<le> hits then Some (semantic_type, hits) else None) xs =
     map (\<lambda>name. (name, semantic_hits L t name))
       (filter (\<lambda>name. 2 \<le> semantic_hits L t name) (map fst xs))"
    if "set xs \<subseteq> set SEMANTIC_TYPE_PATTERNS" for xs
    using that
    by (induction xs) (auto simp: Let_def semantic_hits_entry List.map_filter_simps)
  then show ?thesis by blast
qed

definition kept_semantic_types :: "(ustr \<Rightarrow> ustr) \<Rightarrow> ustr \<Rightarrow> ustr list" where
  "kept_semantic_types L t =
     filter (\<lambda>name. 2 \<le> semantic_hits L t name \<and>
         \<not> (name = lit ''problem'' \<and> 2 \<le> semantic_hits L t (lit ''milestone'')))
       (map fst SEMANTIC_TYPE_PATTERNS)"

lemma detect_alt:
  "detect_semantic_types L content =
     (let t = L (trim content)
      in if t = [] then []
         else map fst (sort_key (\<lambda>(name, hits). - int hits)
           (map (\<lambda>name. (name, semantic_hits L t name)) (kept_semantic_types L t))))"
proof -
  let ?t = "L (trim content)"
  let ?names = "filter (\<lambda>name. 2 \<le> semantic_hits L ?t name) (map fst SEMANTIC_TYPE_PATTERNS)"
  have mem: "lit ''problem'' \<in> set (map fst SEMANTIC_TYPE_PATTERNS)"
    "lit ''milestone'' \<in> set (map fst SEMANTIC_TYPE_PATTERNS)"
    by (simp_all add: SEMANTIC_TYPE_PATTERNS_def del: lit_simps)
  have ex: "list_ex (\<lambda>(name, hits). name = k) (map (\<lambda>name. (name, semantic_hits L ?t name)) ?names)
      \<longleftrightarrow> 2 \<le> semantic_hits L ?t k" if "k \<in> set (map fst SEMANTIC_TYPE_PATTERNS)" for k
    using that by (auto simp: list_ex_iff)
  have kept: "(if 2 \<le> semantic_hits L ?t (lit ''problem'') \<and> 2 \<le> semantic_hits L ?t (lit ''milestone'')
       then filter (\<lambda>(name, hits). name \<noteq> lit ''problem'')
         (map (\<lambda>name. (name, semantic_hits L ?t name)) ?names)
       else map (\<lambda>name. (name, semantic_hits L ?t name)) ?names) =
     map (\<lambda>name. (name, semantic_hits L ?t name)) (kept_semantic_types L ?t)"
    by (cases "2 \<le> semantic_hits L ?t (lit ''problem'')")
      (auto simp: kept_semantic_types_def filter_map comp_def simp del: lit_simps
        intro!: filter_cong arg_cong2 [where f = map])
  show ?thesis
    unfolding detect_semantic_types_def Let_def semantic_matched [unfolded Let_def]
      ex [OF mem(1)] ex [OF mem(2)] kept by simp
qed

text \<open>
  The semantic types of a text are the types with at least two keyword hits, except
  that a text that is a milestone is never also a problem; each is listed once, those with
  more hits first.
\<close>

theorem semantic_types_ranked:
  "set (detect_semantic_types L content) =
     (if L (trim content) = [] then {}
      else {name \<in> set (map fst SEMANTIC_TYPE_PATTERNS).
        2 \<le> semantic_hits L (L (trim content)) name \<and>
        \<not> (name = lit ''problem'' \<and>
           2 \<le> semantic_hits L (L (trim content)) (lit ''milestone''))}) \<and>
   distinct (detect_semantic_types L content) \<and>
   sorted (rev (map (semantic_hits L (L (trim content))) (detect_semantic_types L content)))"
proof -
  let ?t = "L (trim content)"
  let ?f = "\<lambda>(name, hits). - int hits" and ?h = "semantic_hits L ?t"
  let ?kept = "map (\<lambda>name. (name, ?h name)) (kept_semantic_types L ?t)"
  have d: "distinct (map fst ?kept)"
    using semantic_names_distinct by (simp add: kept_semantic_types_def comp_def)
  have dist: "distinct (map fst (sort_key ?f xs))" if "distinct (map fst xs)" for xs
    using that by (metis distinct_map distinct_sort set_sort)
  have hits: "map ?h (map fst xs) = map (\<lambda>p. nat (- ?f p)) xs" if "set xs \<subseteq> set ?kept" for xs
    using that by auto
  have "sorted (map ?f (sort_key ?f ?kept))" by simp
  then have "sorted (rev (map (\<lambda>p. nat (- ?f p)) (sort_key ?f ?kept)))"
    by (auto simp: sorted_map sorted_wrt_rev rev_map elim!: sorted_wrt_mono_rel [rotated])
  then have "sorted (rev (map ?h (map fst (sort_key ?f ?kept))))"
    by (simp only: hits set_sort subset_refl)
  moreover have "distinct (map fst (sort_key ?f ?kept))" by (rule dist [OF d])
  moreover have "set (map fst (sort_key ?f ?kept)) = set (kept_semantic_types L ?t)"
    by (auto simp: image_iff)
  ultimately show ?thesis
    by (auto simp: detect_alt Let_def kept_semantic_types_def simp del: lit_simps)
qed

end
