(* ===== verification/Sql_Order.thy ===== *)
theory Sql_Order
  imports Memra_Prelude "HOL-Library.Option_ord"
begin

text \<open>
  \<open>ORDER BY\<close>. A query's rows are the table's rows in insertion order, sorted by the keys of
  the clause from the last to the first; each sort is stable. TEXT compares by its UTF-8
  bytes, which order strings as their code points do; NULL is below every value.
\<close>

text \<open>\<open>ORDER BY ... DESC\<close>: a stable descending sort.\<close>

definition sort_desc :: "('a \<Rightarrow> 'k::linorder) \<Rightarrow> 'a list \<Rightarrow> 'a list" where
  "sort_desc f xs = rev (sort_key f (rev xs))"

lemma filter_sort_desc: "filter P (sort_desc f xs) = sort_desc f (filter P xs)"
  by (simp add: sort_desc_def filter_sort rev_filter [symmetric])

lemma set_sort_desc [simp]: "set (sort_desc f xs) = set xs"
  by (simp add: sort_desc_def)

lemma sort_key_const_on:
  assumes "\<And>y. y \<in> set ys \<Longrightarrow> f y = c"
  shows "sort_key f ys = ys"
  using assms by (intro sort_key_id_if_sorted) (auto simp: sorted_iff_nth_mono)

lemma sort_desc_const:
  assumes "\<And>y. y \<in> set ys \<Longrightarrow> f y = c"
  shows "sort_desc f ys = ys"
  using assms sort_key_const_on [of "rev ys" f c] by (simp add: sort_desc_def)

lemma sort_desc_head:
  assumes "sort_desc f (sort_key g xs) = r # rs" "x \<in> set xs"
  shows "r \<in> set xs \<and> f x \<le> f r \<and> (f x = f r \<longrightarrow> g r \<le> g x)"
proof -
  have set: "set (r # rs) = set xs" using assms(1) by (metis set_sort set_sort_desc)
  have "sorted (map f (sort_key f (rev (sort_key g xs))))" by simp
  moreover have "sort_key f (rev (sort_key g xs)) = rev (r # rs)"
    using assms(1) by (simp add: sort_desc_def rev_swap)
  ultimately have "sorted (map f (rev (r # rs)))" by simp
  then have le: "f x \<le> f r" if "x \<in> set xs" for x
    using that set by (auto simp: sorted_append rev_map)
  have "filter (\<lambda>y. f y = f r) (r # rs) = filter (\<lambda>y. f y = f r) (sort_desc f (sort_key g xs))"
    by (simp only: assms(1))
  also have "\<dots> = sort_desc f (filter (\<lambda>y. f y = f r) (sort_key g xs))" by (rule filter_sort_desc)
  also have "\<dots> = filter (\<lambda>y. f y = f r) (sort_key g xs)"
    by (rule sort_desc_const [of _ _ "f r"]) auto
  finally have "r # filter (\<lambda>y. f y = f r) rs = filter (\<lambda>y. f y = f r) (sort_key g xs)" by simp
  moreover have "sorted (map g (filter (\<lambda>y. f y = f r) (sort_key g xs)))" by (simp add: sorted_filter)
  ultimately have "sorted (map g (r # filter (\<lambda>y. f y = f r) rs))" by simp
  then have tie: "g r \<le> g y" if "y \<in> set rs" "f y = f r" for y using that by auto
  have "f x = f r \<longrightarrow> g r \<le> g x" using set assms(2) tie by (metis order_refl set_ConsD)
  with set assms(2) le show ?thesis by auto
qed

end
