(* ===== verification/Write_Support.thy ===== *)
theory Write_Support
  imports Note_Feedback Sql_Order Similarity Memory_Policy Auto_Classifier
begin

text \<open>
  The helpers of the write path: log-safe text (\<open>core/safety_filter.rs\<close>), the commercial
  number detector (\<open>core/commercial_number_detector.rs\<close>), and from
  \<open>core/write_orchestrator.rs\<close> the parameters of a write, stored vectors, time stamps, topic
  keys and the metadata of the archive. What belongs to crates (serde_json, chrono, regex,
  the embedding model) is a field of \<open>write_lib\<close>.
\<close>

section \<open>Libraries\<close>

record write_lib =
  wl_policy :: policy_lib
  wl_json :: json_lib
  wl_json_eq :: "json \<Rightarrow> json \<Rightarrow> bool"
  wl_embed_text :: "ustr \<Rightarrow> f32 list option"
  wl_parse_vector :: "ustr \<Rightarrow> f32 list option"
  wl_print_vector :: "f32 list \<Rightarrow> ustr option"
  wl_parse_rfc3339 :: "ustr \<Rightarrow> (int \<times> nat) option"
  wl_parse_naive :: "ustr \<Rightarrow> ustr \<Rightarrow> (int \<times> nat) option"
  wl_to_rfc3339 :: "int \<times> nat \<Rightarrow> ustr"
  wl_format_millis :: "int \<times> nat \<Rightarrow> ustr"
  wl_number_scrub :: "ustr \<Rightarrow> ustr"
  wl_currency_re :: "ustr \<Rightarrow> bool"
  wl_chinese_re :: "ustr \<Rightarrow> bool"

section \<open>Log-safe text\<close>

definition is_char_boundary :: "ustr \<Rightarrow> nat \<Rightarrow> bool" where
  "is_char_boundary t n \<longleftrightarrow> list_ex (\<lambda>k. byte_len (take k t) = n) [0..<Suc (length t)]"

text \<open>\<open>&s[..n]\<close>: None is the panic, of an \<open>n\<close> past the end or inside a character.\<close>

fun str_slice_to :: "ustr \<Rightarrow> nat \<Rightarrow> ustr option" where
  "str_slice_to [] n = (if n = 0 then Some [] else None)"
| "str_slice_to (c # t) n =
     (if n = 0 then Some []
      else if byte_len [c] \<le> n then map_option (Cons c) (str_slice_to t (n - byte_len [c])) else None)"

fun snap_down :: "ustr \<Rightarrow> nat \<Rightarrow> nat" where
  "snap_down t n = (if 0 < n \<and> \<not> is_char_boundary t n then snap_down t (n - 1) else n)"

declare snap_down.simps [simp del]

definition safe_text_slice :: "ustr \<Rightarrow> nat \<Rightarrow> ustr option" where
  "safe_text_slice s max_bytes =
     (if byte_len s \<le> max_bytes then Some s else str_slice_to s (snap_down s max_bytes))"

text \<open>The value the callers get; that there is one is \<open>Query_Laws.safe_text_prefix_longest\<close>.\<close>

definition safe_text_prefix :: "ustr \<Rightarrow> nat \<Rightarrow> ustr" where
  "safe_text_prefix s max_bytes = the (safe_text_slice s max_bytes)"

definition STICKY_PREFIXES :: "ustr list" where
  "STICKY_PREFIXES = [[0x5B, 0x4FBF, 0x7B7E, 0x5D], lit ''[sticky]'', lit ''[STICKY]'']"

definition redact_for_log :: "ustr \<Rightarrow> ustr" where
  "redact_for_log s =
     (if list_ex (starts_with s) STICKY_PREFIXES
      then take 1 s @ lit ''<redacted '' @ show_nat (byte_len s) @ lit '' bytes>''
      else s)"

section \<open>The commercial number detector\<close>

record detector_result =
  flagged :: bool
  det_reason :: ustr

definition COMMERCIAL_ENTITIES :: "ustr list" where "COMMERCIAL_ENTITIES = []"

definition has_commercial_amount :: "write_lib \<Rightarrow> ustr \<Rightarrow> bool" where
  "has_commercial_amount W t =
     (if trim t = [] then False
      else let non_technical_text = wl_number_scrub W t
           in wl_currency_re W non_technical_text \<or> wl_chinese_re W non_technical_text)"

definition matched_entity :: "write_lib \<Rightarrow> ustr \<Rightarrow> ustr option" where
  "matched_entity W t =
     (let lowered = pl_to_lowercase (wl_policy W) t
      in find (\<lambda>entity. contains lowered (pl_to_lowercase (wl_policy W) entity)) COMMERCIAL_ENTITIES)"

definition detect_with_neighbor_sources ::
  "write_lib \<Rightarrow> ustr \<Rightarrow> ustr option \<Rightarrow> ustr \<Rightarrow> (unit \<Rightarrow> ustr option list) \<Rightarrow> detector_result" where
  "detect_with_neighbor_sources W content trigger source neighbor_sources =
     (if \<not> is_ai_provisional_source source
      then \<lparr>flagged = False, det_reason = lit ''source_not_ai_commercial''\<rparr>
      else
        let t = join_with (lit '' '') (filter (\<lambda>part. trim part \<noteq> [])
              [content, case trigger of None \<Rightarrow> [] | Some s \<Rightarrow> s])
        in if \<not> has_commercial_amount W t
           then \<lparr>flagged = False, det_reason = lit ''no_commercial_amount''\<rparr>
           else case matched_entity W t of
             None \<Rightarrow> \<lparr>flagged = False, det_reason = lit ''no_commercial_entity''\<rparr>
           | Some entity \<Rightarrow>
               if list_ex (\<lambda>s. case s of None \<Rightarrow> False | Some s \<Rightarrow> trim s = lit ''user'')
                    (neighbor_sources ())
               then \<lparr>flagged = False, det_reason = lit ''user_anchor_neighbor_present''\<rparr>
               else \<lparr>flagged = True,
                     det_reason = lit ''ai_commercial_number_without_user_anchor: entity='' @ entity\<rparr>)"

lemma detector_never_flags: "\<not> flagged (detect_with_neighbor_sources W content trigger source ns)"
  by (simp add: detect_with_neighbor_sources_def matched_entity_def COMMERCIAL_ENTITIES_def Let_def del: lit_simps)

section \<open>Constants and parameters of a write\<close>

definition DEDUP_SIMILARITY_THRESHOLD :: f64 where "DEDUP_SIMILARITY_THRESHOLD = f64_lit 0.88"
definition AUTO_SUPERSEDE_THRESHOLD :: f64 where "AUTO_SUPERSEDE_THRESHOLD = f64_lit 0.70"
definition TOPIC_INHERIT_THRESHOLD :: f64 where "TOPIC_INHERIT_THRESHOLD = f64_lit 0.78"
definition DEDUP_CANDIDATE_LIMIT :: nat where "DEDUP_CANDIDATE_LIMIT = 50"
definition REVIEW_AFTER_DAYS :: int where "REVIEW_AFTER_DAYS = 30"
definition CROSS_LAYER_SOFT_THRESHOLD :: f64 where "CROSS_LAYER_SOFT_THRESHOLD = f64_lit 0.62"
definition CROSS_LAYER_HARD_THRESHOLD :: f64 where "CROSS_LAYER_HARD_THRESHOLD = f64_lit 0.85"
definition CROSS_LAYER_SCAN_LIMIT :: nat where "CROSS_LAYER_SCAN_LIMIT = 100"
definition AUTO_LINK_LOWER :: f64 where "AUTO_LINK_LOWER = f64_lit 0.50"
definition AUTO_LINK_MAX_LINKS :: nat where "AUTO_LINK_MAX_LINKS = 3"
definition EMBEDDING_DIM :: nat where "EMBEDDING_DIM = 1024"

definition MUTABLE_CATEGORIES :: "ustr list" where
  "MUTABLE_CATEGORIES = [lit ''person'', lit ''event'']"

definition MUTABLE_CONTENT_MARKERS :: "ustr list" where
  "MUTABLE_CONTENT_MARKERS =
   [[0x6708, 0x652F, 0x51FA], [0x6708, 0x6536, 0x5165], [0x56E2, 0x961F], [0x5458, 0x5DE5],
    [0x73B0, 0x72B6], [0x76EE, 0x524D], [0x5F53, 0x524D]]"

definition CROSS_LAYER_MUTABLE_KEYWORDS :: "ustr list" where
  "CROSS_LAYER_MUTABLE_KEYWORDS =
   [[0x56E2, 0x961F], [0x5458, 0x5DE5], [0x4EBA, 0x5458], lit ''staff'', lit ''team'',
    [0x6210, 0x5458], [0x8054, 0x7CFB, 0x4EBA], [0x6708, 0x652F, 0x51FA],
    [0x6708, 0x6536, 0x5165], [0x5F00, 0x9500], [0x8D39, 0x7528], [0x6536, 0x5165],
    [0x652F, 0x51FA], [0x8D22, 0x52A1], lit ''debt'', lit ''expense'', lit ''budget'',
    [0x9884, 0x7B97], [0x62A5, 0x4EF7], [0x6C47, 0x7387], [0x72B6, 0x6001], [0x73B0, 0x72B6],
    [0x76EE, 0x524D], [0x5F53, 0x524D], [0x8FDB, 0x5EA6], [0x9636, 0x6BB5], lit ''status'',
    lit ''current'', [0x9879, 0x76EE], lit ''project'', lit ''plan'', [0x8BA1, 0x5212],
    [0x7248, 0x672C], lit ''version'', lit ''v1'', lit ''v2'', lit ''v3'', lit ''v4'',
    lit ''v5'']"

record add_params =
  ap_content :: ustr
  ap_layer :: "ustr option"
  ap_category :: "ustr option"
  ap_confidence :: "f64 option"
  ap_agent :: "ustr option"
  ap_room :: "ustr option"
  ap_role :: "ustr option"
  ap_difficulty :: "int option"
  ap_time_cost_hint :: "ustr option"
  ap_related_ids :: "ustr list option"
  ap_when :: "ustr option"
  ap_where :: "ustr option"
  ap_who :: "ustr list option"
  ap_ttl_days :: "int option"
  ap_memory_kind :: "ustr option"
  ap_session_id :: "ustr option"
  ap_source :: "ustr option"
  ap_created_by :: "ustr option"
  ap_extra_metadata :: "json_map option"
  ap_root_id :: "ustr option"
  ap_version :: "int option"
  ap_topic_key :: "ustr option"
  ap_auto_classify :: bool
  ap_auto_classify_layer :: bool

definition is_auto_classified_layer_allowed :: "ustr \<Rightarrow> bool" where
  "is_auto_classified_layer_allowed layer \<longleftrightarrow>
     layer = lit ''verified_fact'' \<or> layer = lit ''event_log''"

section \<open>Stored vectors\<close>

datatype stored_vector_state = Missing | Present nat | Invalid

definition stored_vector_state :: "write_lib \<Rightarrow> bytes option \<Rightarrow> ustr option \<Rightarrow> stored_vector_state" where
  "stored_vector_state W blob js =
     (case blob of
        Some b \<Rightarrow> if 4 \<le> length b \<and> length b mod 4 = 0 then Present (length b div 4) else Invalid
      | None \<Rightarrow>
          (case js of
             Some s \<Rightarrow> (case wl_parse_vector W s of Some v \<Rightarrow> Present (length v) | None \<Rightarrow> Invalid)
           | None \<Rightarrow> Missing))"

definition exact_duplicate_vector_compatible ::
  "write_lib \<Rightarrow> bytes option \<Rightarrow> ustr option \<Rightarrow> nat option \<Rightarrow> bool" where
  "exact_duplicate_vector_compatible W blob js query_dim =
     (case stored_vector_state W blob js of
        Missing \<Rightarrow> query_dim = None
      | Present stored_dim \<Rightarrow> (case query_dim of Some d \<Rightarrow> d = stored_dim | None \<Rightarrow> True)
      | Invalid \<Rightarrow> False)"

definition stored_vector_from_parts :: "write_lib \<Rightarrow> bytes option \<Rightarrow> ustr option \<Rightarrow> f32 list option" where
  "stored_vector_from_parts W blob js =
     (case blob of
        Some b \<Rightarrow> if length b < 4 \<or> length b mod 4 \<noteq> 0 then None else Some (blob_to_vector b)
      | None \<Rightarrow> Option.bind js (wl_parse_vector W))"

definition decode_stored_vector :: "write_lib \<Rightarrow> bytes option \<Rightarrow> ustr option \<Rightarrow> f32 list option" where
  "decode_stored_vector W blob js =
     (case blob of
        Some b \<Rightarrow> if 4 \<le> length b \<and> length b mod 4 = 0 then Some (blob_to_vector b) else None
      | None \<Rightarrow> Option.bind js (wl_parse_vector W))"

section \<open>Time\<close>

definition timestamp_seconds :: "int \<times> nat \<Rightarrow> f64" where
  "timestamp_seconds dt =
     f64_add (round64 (of_int (fst dt))) (f64_div (of_nat (snd dt)) (f64_lit 1000000000))"

definition naive_formats :: "ustr list" where
  "naive_formats = [lit ''%Y-%m-%dT%H:%M:%S%.f'', lit ''%Y-%m-%dT%H:%M:%S'',
     lit ''%Y-%m-%d %H:%M:%S%.f'', lit ''%Y-%m-%d %H:%M:%S'']"

text \<open>The first format that parses.\<close>

fun first_some :: "('a \<Rightarrow> 'b option) \<Rightarrow> 'a list \<Rightarrow> 'b option" where
  "first_some f [] = None"
| "first_some f (x # xs) = (case f x of Some y \<Rightarrow> Some y | None \<Rightarrow> first_some f xs)"

definition event_when_epoch_seconds :: "write_lib \<Rightarrow> ustr option \<Rightarrow> f64 option" where
  "event_when_epoch_seconds W event_when =
     (case event_when of
        None \<Rightarrow> None
      | Some v \<Rightarrow>
          if v = [] then None
          else (case wl_parse_rfc3339 W v of
                  Some dt \<Rightarrow> Some (timestamp_seconds dt)
                | None \<Rightarrow> map_option timestamp_seconds (first_some (wl_parse_naive W v) naive_formats)))"

definition valid_at_epoch_seconds :: "write_lib \<Rightarrow> ustr option \<Rightarrow> int \<times> nat \<Rightarrow> f64 option" where
  "valid_at_epoch_seconds W event_when created_at =
     (case event_when_epoch_seconds W event_when of
        Some x \<Rightarrow> Some x | None \<Rightarrow> Some (timestamp_seconds created_at))"

definition compute_review_after ::
  "write_lib \<Rightarrow> ustr \<Rightarrow> ustr option \<Rightarrow> ustr list option \<Rightarrow> ustr \<Rightarrow> int \<times> nat \<Rightarrow> ustr option" where
  "compute_review_after W layer category who content created_at =
     (if layer = lit ''event_log'' then None
      else
        let has_who = (case who of None \<Rightarrow> False | Some items \<Rightarrow> items \<noteq> []);
            is_mutable = (case category of None \<Rightarrow> False | Some c \<Rightarrow> c \<in> set MUTABLE_CATEGORIES) \<or>
              has_who \<or> list_ex (contains content) MUTABLE_CONTENT_MARKERS
        in if is_mutable
           then Some (wl_to_rfc3339 W (fst created_at + REVIEW_AFTER_DAYS * 86400, snd created_at))
           else None)"

section \<open>Topic keys and archive metadata\<close>

definition build_topic_key_from_content :: "ustr \<Rightarrow> ustr \<Rightarrow> ustr" where
  "build_topic_key_from_content layer content =
     (let key_content = safe_text_prefix content 100
      in layer @ lit '':'' @ map (\<lambda>c. if c = 10 then 32 else c) key_content)"

definition insert_opt :: "ustr \<Rightarrow> json option \<Rightarrow> json_map \<Rightarrow> json_map" where
  "insert_opt k v m = (case v of None \<Rightarrow> m | Some j \<Rightarrow> map_insert k j m)"

definition cold_storage_metadata :: "add_params \<Rightarrow> ustr \<Rightarrow> ustr option \<Rightarrow> json_map" where
  "cold_storage_metadata params layer category =
     insert_opt (lit ''agent'') (map_option JStr (ap_agent params))
    (insert_opt (lit ''time_cost_hint'') (map_option JStr (ap_time_cost_hint params))
    (insert_opt (lit ''difficulty'') (map_option JInt (ap_difficulty params))
    (insert_opt (lit ''session_id'')
       (if layer \<noteq> lit ''event_log'' then map_option JStr (ap_session_id params) else None)
    (insert_opt (lit ''created_by'') (map_option JStr (ap_created_by params))
    (insert_opt (lit ''source'') (map_option JStr (ap_source params))
    (insert_opt (lit ''confidence'') (map_option JFloat (ap_confidence params))
    (insert_opt (lit ''category'') (map_option JStr category) [])))))))"

definition commercial_detector_trigger :: "json_map \<Rightarrow> ustr option" where
  "commercial_detector_trigger metadata =
     first_some (\<lambda>key. case Option.bind (map_of metadata key) as_str of
         None \<Rightarrow> None
       | Some v \<Rightarrow> let trimmed = trim v in if trimmed = [] then None else Some trimmed)
       [lit ''trigger'', lit ''source_trigger'', lit ''memory_trigger'', lit ''query'']"

end
