(* ===== verification/Cold_Storage.thy ===== *)
theory Cold_Storage
  imports Json_Value
begin

text \<open>
  The append-only archive (\<open>storage/cold_storage.rs\<close>): one JSON line per note in a file per
  project and month, and a reference \<open>file:line\<close> for the note's row. The files are a map from
  paths to contents; each system call of an append may fail (\<open>cold_io\<close>), a failed write may
  have written part of its text, and the calls that follow are as in the code. Text that is
  not UTF-8 is outside the model.
\<close>

section \<open>The writer\<close>

datatype cold_storage_error =
    LockPoisoned ustr
  | FileLock ustr ustr
  | FileUnlock ustr ustr
  | CreateDir ustr ustr
  | Serialize ustr
  | OpenFile ustr ustr
  | WriteFile ustr ustr
  | FlushFile ustr ustr
  | SyncFile ustr ustr
  | CountLines ustr ustr

text \<open>The \<open>Display\<close> of an error, from its \<open>thiserror\<close> attributes.\<close>

fun cold_message :: "cold_storage_error \<Rightarrow> ustr" where
  "cold_message (LockPoisoned e) = lit ''cold storage lock poisoned: '' @ e"
| "cold_message (FileLock p e) = lit ''cold storage file lock failed for '' @ p @ lit '': '' @ e"
| "cold_message (FileUnlock p e) = lit ''cold storage file unlock failed for '' @ p @ lit '': '' @ e"
| "cold_message (CreateDir p e) = lit ''cold storage mkdir failed for '' @ p @ lit '': '' @ e"
| "cold_message (Serialize e) = lit ''cold storage JSON serialization failed: '' @ e"
| "cold_message (OpenFile p e) = lit ''cold storage file open failed for '' @ p @ lit '': '' @ e"
| "cold_message (WriteFile p e) = lit ''cold storage write failed for '' @ p @ lit '': '' @ e"
| "cold_message (FlushFile p e) = lit ''cold storage flush failed for '' @ p @ lit '': '' @ e"
| "cold_message (SyncFile p e) = lit ''cold storage sync failed for '' @ p @ lit '': '' @ e"
| "cold_message (CountLines p e) = lit ''cold storage line count failed for '' @ p @ lit '': '' @ e"

record cold_writer =
  cw_base_dir :: ustr
  cw_project_id :: ustr

definition cold_disabled :: cold_writer where
  "cold_disabled = \<lparr>cw_base_dir = lit ''/dev/null'', cw_project_id = []\<rparr>"

type_synonym cold_files = "ustr \<Rightarrow> ustr option"

text \<open>How the system calls of one append end, with the time and the printer they use.\<close>

record cold_io =
  io_poisoned :: "ustr option"
  io_mkdir :: "ustr option"
  io_open :: "ustr option"
  io_lock :: "ustr option"
  io_write :: "(ustr \<times> nat) option"
  io_flush :: "ustr option"
  io_sync :: "ustr option"
  io_read :: "ustr option"
  io_unlock :: "ustr option"
  io_month :: ustr
  io_now :: ustr

text \<open>\<open>Path::join\<close>.\<close>

definition path_join :: "ustr \<Rightarrow> ustr \<Rightarrow> ustr" where
  "path_join p q =
     (if starts_with q (lit ''/'') then q
      else if p = [] \<or> last p = 47 then p @ q
      else p @ lit ''/'' @ q)"

text \<open>\<open>content.lines().count()\<close>.\<close>

fun file_lines :: "ustr \<Rightarrow> ustr list" where
  "file_lines [] = []"
| "file_lines (c # t) =
     (if c = 10 then [] # file_lines t
      else (case file_lines t of
          [] \<Rightarrow> [[c]]
        | l # ls \<Rightarrow> (c # l) # ls))"

definition count_lines :: "ustr \<Rightarrow> nat" where
  "count_lines content = length (file_lines content)"

definition with_file_lock ::
  "cold_io \<Rightarrow> ustr \<Rightarrow> (cold_files, cold_storage_error, 'a) op \<Rightarrow> (cold_files, cold_storage_error, 'a) op" where
  "with_file_lock io path f files =
     (case io_lock io of
        Some e \<Rightarrow> (files, Err (FileLock path e))
      | None \<Rightarrow>
          (case f files of
             (files', Inr value) \<Rightarrow>
               (case io_unlock io of
                  None \<Rightarrow> (files', Ok value)
                | Some e \<Rightarrow> (files', Err (FileUnlock path e)))
           | (files', Inl err) \<Rightarrow> (files', Err err)))"

definition append_text :: "ustr \<Rightarrow> ustr \<Rightarrow> cold_files \<Rightarrow> cold_files" where
  "append_text path t files =
     files(path \<mapsto> (case files path of None \<Rightarrow> [] | Some old \<Rightarrow> old) @ t)"

text \<open>The closure that runs under the file lock.\<close>

definition write_line ::
  "cold_io \<Rightarrow> ustr \<Rightarrow> ustr \<Rightarrow> (cold_files, cold_storage_error, nat) op" where
  "write_line io path line files =
     (case io_write io of
        Some (e, n) \<Rightarrow> (append_text path (take n (line @ [10])) files, Err (WriteFile path e))
      | None \<Rightarrow>
          (let files = append_text path (line @ [10]) files
           in case io_flush io of
                Some e \<Rightarrow> (files, Err (FlushFile path e))
              | None \<Rightarrow>
            (case io_sync io of
                Some e \<Rightarrow> (files, Err (SyncFile path e))
              | None \<Rightarrow>
            (case io_read io of
                Some e \<Rightarrow> (files, Err (CountLines path e))
              | None \<Rightarrow>
                  (files, Ok (count_lines (case files path of None \<Rightarrow> [] | Some t \<Rightarrow> t)))))))"

definition cold_record ::
  "cold_writer \<Rightarrow> cold_io \<Rightarrow> ustr \<Rightarrow> ustr \<Rightarrow> ustr \<Rightarrow> json option \<Rightarrow> json" where
  "cold_record w io note_id content layer metadata =
     JObj [(lit ''id'', JStr note_id), (lit ''content'', JStr content), (lit ''layer'', JStr layer),
       (lit ''timestamp'', JStr (io_now io)), (lit ''project_id'', JStr (cw_project_id w)),
       (lit ''metadata'', case metadata of None \<Rightarrow> JNull | Some m \<Rightarrow> m)]"

definition cold_file :: "cold_io \<Rightarrow> ustr" where
  "cold_file io = io_month io @ lit ''.jsonl''"

definition cold_path :: "cold_writer \<Rightarrow> cold_io \<Rightarrow> ustr" where
  "cold_path w io = path_join (path_join (cw_base_dir w) (cw_project_id w)) (cold_file io)"

definition cold_append ::
  "(json \<Rightarrow> ustr option) \<Rightarrow> cold_writer \<Rightarrow> cold_io \<Rightarrow> ustr \<Rightarrow> ustr \<Rightarrow> ustr \<Rightarrow> json option \<Rightarrow>
   (cold_files, cold_storage_error, ustr option) op" where
  "cold_append print w io note_id content layer metadata files =
     (if cw_project_id w = [] then (files, Ok None)
      else case io_poisoned io of
        Some e \<Rightarrow> (files, Err (LockPoisoned e))
      | None \<Rightarrow>
          (let filename = cold_file io;
               project_dir = path_join (cw_base_dir w) (cw_project_id w)
           in case io_mkdir io of
                Some e \<Rightarrow> (files, Err (CreateDir project_dir e))
              | None \<Rightarrow>
            (let file_path = path_join project_dir filename
             in case print (cold_record w io note_id content layer metadata) of
                None \<Rightarrow> (files, Err (Serialize (lit ''unprintable'')))
              | Some line \<Rightarrow>
            (case io_open io of
                Some e \<Rightarrow> (files, Err (OpenFile file_path e))
              | None \<Rightarrow>
                  op_bind (with_file_lock io file_path (write_line io file_path line))
                    (\<lambda>line_count. op_return (Some (filename @ lit '':'' @ show_nat line_count)))
                    (append_text file_path [] files)))))"

section \<open>Laws\<close>

definition complete_file :: "ustr \<Rightarrow> bool" where
  "complete_file t \<longleftrightarrow> t = [] \<or> last t = 10"

lemma file_lines_line: "10 \<notin> set l \<Longrightarrow> file_lines (l @ 10 # t) = l # file_lines t"
  by (induction l) auto

lemma file_lines_append: "complete_file t \<Longrightarrow> file_lines (t @ s) = file_lines t @ file_lines s"
proof (induction t rule: file_lines.induct)
  case (2 c t)
  have "t = [] \<or> complete_file t" using "2.prems" by (auto simp: complete_file_def split: if_splits)
  show ?case
  proof (cases "t = []")
    case True
    with "2.prems" show ?thesis by (simp add: complete_file_def)
  next
    case False
    with "2.prems" have c: "complete_file t" by (simp add: complete_file_def)
    from False c have "file_lines t \<noteq> []" by (cases t) (auto split: list.splits)
    with 2 c False show ?thesis by (auto split: list.splits)
  qed
qed simp

definition file_text :: "cold_files \<Rightarrow> ustr \<Rightarrow> ustr" where
  "file_text files path = (case files path of None \<Rightarrow> [] | Some t \<Rightarrow> t)"

lemma file_text_append [simp]:
  "file_text (append_text q t files) p = (if p = q then file_text files q @ t else file_text files p)"
  by (auto simp: file_text_def append_text_def)

lemma prefix_append_text: "prefix (file_text files p) (file_text (append_text q t files) p)"
  by simp

lemma append_text_other: "p \<noteq> q \<Longrightarrow> append_text q t files p = files p"
  by (simp add: append_text_def)

lemma append_text_twice [simp]: "append_text p t (append_text p [] files) = append_text p t files"
  by (auto simp: append_text_def fun_eq_iff split: option.splits)

lemma write_line_outcome:
  assumes "write_line io path line files = (files', res)"
  shows "\<exists>t. prefix t (line @ [10]) \<and> files' = append_text path t files"
    and "res = Ok k \<Longrightarrow> files' = append_text path (line @ [10]) files \<and>
      k = count_lines (file_text files' path)"
proof -
  have "files' = append_text path (line @ [10]) files \<or>
      (\<exists>n. files' = append_text path (take n (line @ [10])) files)"
    using assms by (auto simp: write_line_def Let_def simp del: take_append split: option.splits)
  then show "\<exists>t. prefix t (line @ [10]) \<and> files' = append_text path t files"
    using take_is_prefix by blast
  show "res = Ok k \<Longrightarrow> files' = append_text path (line @ [10]) files \<and>
      k = count_lines (file_text files' path)"
    using assms by (auto simp: write_line_def Let_def file_text_def split: option.splits prod.splits)
qed

lemma with_file_lock_outcome:
  assumes "with_file_lock io path f files = (files', res)"
  shows "files' = files \<or> files' = fst (f files)"
    and "res = Ok x \<Longrightarrow> f files = (files', Ok x)"
  using assms by (auto simp: with_file_lock_def split: option.splits prod.splits sum.splits)

lemma locked_write_outcome:
  assumes "with_file_lock io path (write_line io path line) files = (files', res)"
  shows "\<exists>t. prefix t (line @ [10]) \<and> (files' = files \<or> files' = append_text path t files)"
    and "res = Ok k \<Longrightarrow> files' = append_text path (line @ [10]) files \<and>
      k = count_lines (file_text files' path)"
proof -
  show "\<exists>t. prefix t (line @ [10]) \<and> (files' = files \<or> files' = append_text path t files)"
    using with_file_lock_outcome(1) [OF assms] write_line_outcome(1) [OF prod.collapse [symmetric]]
    by metis
  show "res = Ok k \<Longrightarrow> files' = append_text path (line @ [10]) files \<and>
      k = count_lines (file_text files' path)"
    using with_file_lock_outcome(2) [OF assms] write_line_outcome(2) by blast
qed

lemma cold_append_run:
  assumes "cw_project_id w \<noteq> []" "io_poisoned io = None" "io_mkdir io = None" "io_open io = None"
    and "print (cold_record w io note_id content layer metadata) = Some line"
  shows "cold_append print w io note_id content layer metadata files =
    op_bind (with_file_lock io (cold_path w io) (write_line io (cold_path w io) line))
      (\<lambda>line_count. op_return (Some (cold_file io @ lit '':'' @ show_nat line_count)))
      (append_text (cold_path w io) [] files)"
  using assms by (simp add: cold_append_def cold_path_def Let_def del: lit_simps)

lemma cold_append_early:
  assumes "\<not> (cw_project_id w \<noteq> [] \<and> io_poisoned io = None \<and> io_mkdir io = None \<and> io_open io = None \<and>
      print (cold_record w io note_id content layer metadata) \<noteq> None)"
    and "cold_append print w io note_id content layer metadata files = (files', res)"
  shows "files' = files" "res \<noteq> Ok (Some r)"
  using assms
  by (auto simp: cold_append_def Let_def simp del: lit_simps split: option.splits if_splits)

lemma cold_append_outcome:
  assumes "cold_append print w io note_id content layer metadata files = (files', res)"
  shows "files' = files \<or> (\<exists>t. files' = append_text (cold_path w io) t files)"
    and "res = Ok (Some r) \<Longrightarrow>
      \<exists>line. print (cold_record w io note_id content layer metadata) = Some line \<and>
        files' = append_text (cold_path w io) (line @ [10]) files \<and>
        r = cold_file io @ lit '':'' @ show_nat (count_lines (file_text files' (cold_path w io)))"
proof -
  have "(files' = files \<or> (\<exists>t. files' = append_text (cold_path w io) t files)) \<and>
      (res = Ok (Some r) \<longrightarrow>
        (\<exists>line. print (cold_record w io note_id content layer metadata) = Some line \<and>
          files' = append_text (cold_path w io) (line @ [10]) files \<and>
          r = cold_file io @ lit '':'' @ show_nat (count_lines (file_text files' (cold_path w io)))))" for r
  proof (cases "cw_project_id w \<noteq> [] \<and> io_poisoned io = None \<and> io_mkdir io = None \<and> io_open io = None \<and>
      print (cold_record w io note_id content layer metadata) \<noteq> None")
    case False
    with cold_append_early [OF False assms] show ?thesis by simp
  next
    case True
    then obtain line where line: "print (cold_record w io note_id content layer metadata) = Some line" by auto
    obtain files1 res1 where run: "with_file_lock io (cold_path w io) (write_line io (cold_path w io) line)
        (append_text (cold_path w io) [] files) = (files1, res1)" by fastforce
    have "files' = files1"
      "res = (case res1 of Inl e \<Rightarrow> Inl e
        | Inr k \<Rightarrow> Ok (Some (cold_file io @ lit '':'' @ show_nat k)))"
      using assms True line run cold_append_run [of w io print note_id content layer metadata line files]
      by (auto simp: op_bind_def op_return_def simp del: lit_simps split: sum.splits)
    with locked_write_outcome [OF run] line show ?thesis
      by (auto simp del: lit_simps split: sum.splits)
  qed
  then show "files' = files \<or> (\<exists>t. files' = append_text (cold_path w io) t files)"
    and "res = Ok (Some r) \<Longrightarrow>
      \<exists>line. print (cold_record w io note_id content layer metadata) = Some line \<and>
        files' = append_text (cold_path w io) (line @ [10]) files \<and>
        r = cold_file io @ lit '':'' @ show_nat (count_lines (file_text files' (cold_path w io)))"
    by blast+
qed

section \<open>Properties\<close>

text \<open>
  The archive is append-only: whatever is appended and however the system calls end,
  every file keeps its text as a prefix, and no file but the month's changes.
\<close>

theorem cold_storage_append_only:
  "prefix (file_text files p)
     (file_text (fst (cold_append print w io note_id content layer metadata files)) p) \<and>
   fst (cold_append print w io note_id content layer metadata files) p =
     (if p = cold_path w io
      then fst (cold_append print w io note_id content layer metadata files) p else files p)"
  using cold_append_outcome(1) [OF prod.collapse [symmetric], of print w io note_id content layer metadata files]
  by (auto simp: append_text_other)

text \<open>
  A reference resolves: when an append to a file of complete lines succeeds, the
  reference it returns is the month's file and the number of the line that holds exactly
  the record written, and the file consists of complete lines again. The printer is
  serde_json's compact one, which writes no line break.
\<close>

theorem cold_reference_resolves:
  assumes "\<And>v s. print v = Some s \<Longrightarrow> 10 \<notin> set s"
    and "complete_file (file_text files (cold_path w io))"
    and "cold_append print w io note_id content layer metadata files = (files', Ok (Some r))"
  shows "\<exists>n line. r = cold_file io @ lit '':'' @ show_nat n \<and>
    print (cold_record w io note_id content layer metadata) = Some line \<and>
    0 < n \<and> n = length (file_lines (file_text files' (cold_path w io))) \<and>
    file_lines (file_text files' (cold_path w io)) ! (n - 1) = line \<and>
    complete_file (file_text files' (cold_path w io))"
proof -
  from cold_append_outcome(2) [OF assms(3) refl] obtain line where
    line: "print (cold_record w io note_id content layer metadata) = Some line" and
    files': "files' = append_text (cold_path w io) (line @ [10]) files" and
    r: "r = cold_file io @ lit '':'' @ show_nat (count_lines (file_text files' (cold_path w io)))"
    by blast
  have nl: "10 \<notin> set line" by (rule assms(1) [OF line])
  have lines: "file_lines (file_text files' (cold_path w io)) =
      file_lines (file_text files (cold_path w io)) @ [line]"
    using file_lines_append [OF assms(2), of "line @ [10]"] file_lines_line [OF nl, of "[]"]
    by (simp add: files')
  show ?thesis
    by (rule exI [of _ "count_lines (file_text files' (cold_path w io))"], rule exI [of _ line])
      (simp add: r line lines count_lines_def nth_append, simp add: files' complete_file_def)
qed

definition cold_io_ok :: cold_io where
  "cold_io_ok = \<lparr>io_poisoned = None, io_mkdir = None, io_open = None, io_lock = None, io_write = None,
     io_flush = None, io_sync = None, io_read = None, io_unlock = None,
     io_month = lit ''2026-04'', io_now = lit ''2026-04-01''\<rparr>"

theorem cold_reference_resolves_witness:
  "\<exists>files' n. cold_append (\<lambda>v. Some (lit ''doc'')) \<lparr>cw_base_dir = lit ''/c'', cw_project_id = lit ''p''\<rparr> cold_io_ok
       (lit ''n'') (lit ''x'') (lit ''event_log'') None Map.empty
       = (files', Ok (Some (lit ''2026-04.jsonl:'' @ show_nat n))) \<and>
     file_lines (file_text files' (lit ''/c/p/2026-04.jsonl'')) ! (n - 1) = lit ''doc''"
proof -
  let ?w = "\<lparr>cw_base_dir = lit ''/c'', cw_project_id = lit ''p''\<rparr>"
  let ?run = "cold_append (\<lambda>v. Some (lit ''doc'')) ?w cold_io_ok (lit ''n'') (lit ''x'') (lit ''event_log'') None Map.empty"
  have path: "cold_path ?w cold_io_ok = lit ''/c/p/2026-04.jsonl''" by code_simp
  have name: "cold_file cold_io_ok @ lit '':'' = lit ''2026-04.jsonl:''" by code_simp
  have "?run = op_bind (with_file_lock cold_io_ok (cold_path ?w cold_io_ok)
        (write_line cold_io_ok (cold_path ?w cold_io_ok) (lit ''doc'')))
      (\<lambda>line_count. op_return (Some (cold_file cold_io_ok @ lit '':'' @ show_nat line_count)))
      (append_text (cold_path ?w cold_io_ok) [] Map.empty)"
    by (rule cold_append_run) (simp_all add: cold_io_ok_def)
  then obtain files' r where run: "?run = (files', Ok (Some r))"
    by (auto simp: with_file_lock_def write_line_def op_bind_def op_return_def cold_io_ok_def Let_def simp del: lit_simps)
  have "\<exists>n line. r = cold_file cold_io_ok @ lit '':'' @ show_nat n \<and> Some (lit ''doc'') = Some line \<and>
      0 < n \<and> n = length (file_lines (file_text files' (cold_path ?w cold_io_ok))) \<and>
      file_lines (file_text files' (cold_path ?w cold_io_ok)) ! (n - 1) = line \<and>
      complete_file (file_text files' (cold_path ?w cold_io_ok))"
    by (rule cold_reference_resolves [OF _ _ run]) (auto simp: file_text_def complete_file_def)
  with run show ?thesis
    unfolding path using name by (metis append_assoc option.inject)
qed

end
