(* ===== verification/Write_Dedup.thy ===== *)
theory Write_Dedup
  imports Write_Support Sql_Conn Cold_Storage
begin

text \<open>
  What a write reads before it writes (\<open>core/write_orchestrator.rs\<close>): exact duplicates, the
  most similar stored note, the topic key to inherit, and the sources of the neighbours of
  a provisional number. A query that fails answers as the code does, mostly with no rows.
\<close>

section \<open>State, statements and results\<close>

type_synonym db = notes_db

record orch =
  oc_conn :: "db sql_conn"
  oc_files :: cold_files

record orchestrator =
  wo_project_id :: ustr
  wo_cold :: cold_writer

record write_env =
  we_uuid :: ustr
  we_now :: "int \<times> nat"
  we_clock :: write_clock
  we_io :: cold_io

datatype write_stmt =
    BeginWrite | CommitWrite | RollbackWrite
  | ExactDup | DupScan | TopicKeyOf ustr | NeighborScan | NeighborSource ustr
  | ColdRef | EntityTables
  | CrossScan | CrossUpdate ustr | CrossSelect ustr | CrossMeta ustr | CrossRelation ustr
  | LinkScan | LinkRelation ustr | RelatedRead | RelatedWrite
  | CheckpointProbe
  | WriterStmt ustr note_stmt

datatype add_result =
    Saved ustr ustr "ustr option" "ustr list" "ustr list"
  | Duplicate ustr xf64
  | PolicySkipped ustr ustr "ustr option"
  | AddError ustr

definition on_db :: "(db, 'e, 'a) op \<Rightarrow> (orch, 'e, 'a) op" where
  "on_db m o1 = (case on_conn m (oc_conn o1) of (c, r) \<Rightarrow> (o1\<lparr>oc_conn := c\<rparr>, r))"

definition on_txn :: "(db sql_conn, 'e, 'a) op \<Rightarrow> (orch, 'e, 'a) op" where
  "on_txn m o1 = (case m (oc_conn o1) of (c, r) \<Rightarrow> (o1\<lparr>oc_conn := c\<rparr>, r))"

definition on_files :: "(cold_files, 'e, 'a) op \<Rightarrow> (orch, 'e, 'a) op" where
  "on_files m o1 = (case m (oc_files o1) of (f, r) \<Rightarrow> (o1\<lparr>oc_files := f\<rparr>, r))"

section \<open>Deduplication\<close>

record dedup_result =
  dd_duplicate :: bool
  dd_best_match :: "ustr option"
  dd_best_sim :: xf64

definition coalesce_created :: "note_row \<Rightarrow> ustr option" where
  "coalesce_created r = (case nr_updated_at r of Some t \<Rightarrow> Some t | None \<Rightarrow> nr_created_at r)"

definition find_exact_duplicate ::
  "write_lib \<Rightarrow> orchestrator \<Rightarrow> write_stmt faults \<Rightarrow> db \<Rightarrow> ustr \<Rightarrow> ustr \<Rightarrow> nat option \<Rightarrow> ustr option" where
  "find_exact_duplicate W self flt db content layer query_dim =
     (if flt ExactDup \<noteq> None then None
      else
        let rows = take DEDUP_CANDIDATE_LIMIT
              (sort_desc coalesce_created (sort_key nr_id
                (filter (\<lambda>r. nr_is_active r = 1 \<and> nr_layer r = layer \<and> nr_content r = content \<and>
                   nr_project_id r = Some (wo_project_id self)) (note_rows db))))
        in map_option nr_id
             (find (\<lambda>r. exact_duplicate_vector_compatible W (nr_vector_blob r) (nr_vector_json r) query_dim)
                rows))"

text \<open>The vector of a scanned row; the scan accepts a blob of any length from four bytes.\<close>

definition scanned_vector :: "write_lib \<Rightarrow> note_row \<Rightarrow> f32 list option" where
  "scanned_vector W r =
     (case nr_vector_blob r of
        Some b \<Rightarrow> if 4 \<le> length b then Some (blob_to_vector b) else None
      | None \<Rightarrow> Option.bind (nr_vector_json r) (wl_parse_vector W))"

definition dedup_step :: "write_lib \<Rightarrow> f32 list \<Rightarrow> note_row \<Rightarrow> dedup_result \<Rightarrow> dedup_result" where
  "dedup_step W query_vector r result =
     (case scanned_vector W r of
        None \<Rightarrow> result
      | Some stored \<Rightarrow>
          if length stored \<noteq> length query_vector then result
          else
            let sim = cosine_similarity query_vector stored
            in if xless (dd_best_sim result) sim
               then result\<lparr>dd_best_sim := sim, dd_best_match := Some (nr_id r)\<rparr>
               else result)"

definition dedup_rows :: "ustr \<Rightarrow> db \<Rightarrow> note_row list" where
  "dedup_rows layer db = take DEDUP_CANDIDATE_LIMIT
     (sort_desc nr_created_at
       (filter (\<lambda>r. nr_is_active r = 1 \<and> nr_layer r = layer) (note_rows db)))"

definition check_duplicate ::
  "write_lib \<Rightarrow> write_stmt faults \<Rightarrow> db \<Rightarrow> f32 list \<Rightarrow> ustr \<Rightarrow> dedup_result" where
  "check_duplicate W flt db query_vector layer =
     (let none = \<lparr>dd_duplicate = False, dd_best_match = None, dd_best_sim = Fin 0\<rparr>
      in if flt DupScan \<noteq> None then none
         else
           let result = fold (dedup_step W query_vector) (dedup_rows layer db) none
           in if xless (Fin DEDUP_SIMILARITY_THRESHOLD) (dd_best_sim result)
              then result\<lparr>dd_duplicate := True\<rparr> else result)"

section \<open>Topic keys\<close>

definition read_note_topic_key :: "write_stmt faults \<Rightarrow> db \<Rightarrow> ustr \<Rightarrow> ustr option" where
  "read_note_topic_key flt db note_id =
     (if flt (TopicKeyOf note_id) \<noteq> None then None
      else Option.bind (row_get nr_id note_id (note_rows db)) nr_topic_key)"

definition decide_topic_key ::
  "write_stmt faults \<Rightarrow> db \<Rightarrow> ustr \<Rightarrow> ustr \<Rightarrow> bool \<Rightarrow> ustr list \<Rightarrow> ustr option \<Rightarrow> xf64 \<Rightarrow> ustr option" where
  "decide_topic_key flt db layer content is_event_layer superseded_ids best_match_id best_sim =
     (if is_event_layer then None
      else
        let from_superseded = (case superseded_ids of [] \<Rightarrow> None | first # _ \<Rightarrow> read_note_topic_key flt db first);
            from_match = (case best_match_id of
                None \<Rightarrow> None
              | Some k \<Rightarrow> if xle (Fin TOPIC_INHERIT_THRESHOLD) best_sim
                  then read_note_topic_key flt db k else None)
        in case from_superseded of
             Some tk \<Rightarrow> Some tk
           | None \<Rightarrow>
               (case from_match of
                  Some tk \<Rightarrow> Some tk
                | None \<Rightarrow> Some (build_topic_key_from_content layer content)))"

section \<open>Neighbours of a provisional number\<close>

definition metadata_source :: "json_lib \<Rightarrow> ustr option \<Rightarrow> ustr option" where
  "metadata_source J metadata_json =
     (case metadata_json of
        None \<Rightarrow> None
      | Some s \<Rightarrow>
          let raw = trim s
          in if raw = [] then None
             else Option.bind (jl_parse J raw) (\<lambda>v. Option.bind (json_get v (lit ''source'')) as_str))"

definition commercial_detector_note_source ::
  "json_lib \<Rightarrow> write_stmt faults \<Rightarrow> db \<Rightarrow> ustr \<Rightarrow> ustr option" where
  "commercial_detector_note_source J flt db note_id =
     (if flt (NeighborSource note_id) \<noteq> None then None
      else case row_get nr_id note_id (note_rows db) of
        None \<Rightarrow> None
      | Some r \<Rightarrow>
          let source = (case nr_source r of Some s \<Rightarrow> Some s
                | None \<Rightarrow> metadata_source J (nr_metadata_json r))
          in case map_option trim source of
               None \<Rightarrow> None
             | Some s \<Rightarrow> if s = [] then None else Some s)"

definition add_commercial_neighbor_source ::
  "json_lib \<Rightarrow> write_stmt faults \<Rightarrow> db \<Rightarrow> ustr \<times> ustr option \<Rightarrow>
   ustr list \<times> ustr option list \<Rightarrow> ustr list \<times> ustr option list" where
  "add_commercial_neighbor_source J flt db entry acc =
     (case entry of (note_id, candidate_source) \<Rightarrow> case acc of (seen, sources) \<Rightarrow>
       let note_id = trim note_id
       in if note_id = [] \<or> note_id \<in> set seen then acc
          else (note_id # seen,
                sources @ [case commercial_detector_note_source J flt db note_id of
                    Some s \<Rightarrow> Some s | None \<Rightarrow> candidate_source]))"

definition neighbor_candidates ::
  "write_lib \<Rightarrow> db \<Rightarrow> f32 list \<Rightarrow> ustr \<Rightarrow> ustr \<Rightarrow> (note_row \<times> f64) list" where
  "neighbor_candidates W db embedding layer project_id =
     List.map_filter (\<lambda>r.
         case decode_stored_vector W (nr_vector_blob r) (nr_vector_json r) of
           None \<Rightarrow> None
         | Some stored \<Rightarrow>
             if length stored \<noteq> length embedding then None
             else (case cosine_similarity embedding stored of
                 Fin sim \<Rightarrow> if 0 \<le> sim then Some (r, sim) else None
               | _ \<Rightarrow> None))
       (take DEDUP_CANDIDATE_LIMIT (sort_desc nr_created_at
         (filter (\<lambda>r. nr_is_active r = 1 \<and> nr_layer r = layer \<and> nr_project_id r = Some project_id)
           (note_rows db))))"

definition commercial_detector_neighbor_sources ::
  "write_lib \<Rightarrow> write_stmt faults \<Rightarrow> db \<Rightarrow> ustr list option \<Rightarrow> f32 list option \<Rightarrow> ustr \<Rightarrow> ustr \<Rightarrow>
   ustr option list" where
  "commercial_detector_neighbor_sources W flt db related_ids embedding layer project_id =
    (let add = add_commercial_neighbor_source (wl_json W) flt db;
         acc = fold add (map (\<lambda>k. (k, None)) (case related_ids of None \<Rightarrow> [] | Some ids \<Rightarrow> ids)) ([], [])
     in case embedding of
          None \<Rightarrow> snd acc
        | Some emb \<Rightarrow>
            if flt NeighborScan \<noteq> None then snd acc
            else snd (fold add
              (map (\<lambda>(r, sim). (nr_id r, case nr_source r of Some s \<Rightarrow> Some s
                    | None \<Rightarrow> metadata_source (wl_json W) (nr_metadata_json r)))
                (take 10 (sort_desc snd (neighbor_candidates W db emb layer project_id)))) acc))"

end
