(* ===== verification/Write_Links.thy ===== *)
theory Write_Links
  imports Write_Dedup
begin

text \<open>
  The two passes that follow the commit of a write (\<open>core/write_orchestrator.rs\<close>): the
  contradiction scan, which decays or retires similar notes of any layer, and the links to
  related notes. Their statements run one by one outside a transaction; errors are logged
  and dropped. The scan's query has no \<open>ORDER BY\<close>: its rows are those of the table.
\<close>

section \<open>The contradiction scan\<close>

definition search_terms :: "ustr \<Rightarrow> ustr list option \<Rightarrow> ustr list" where
  "search_terms content event_who =
    (let who = (case event_who of None \<Rightarrow> [] | Some w \<Rightarrow> filter (\<lambda>item. item \<noteq> []) w);
         content_lower = to_ascii_lowercase content
     in take 5 (remdups_adj (sort (who @
          filter (\<lambda>keyword. contains content keyword \<or> contains content_lower keyword)
            CROSS_LAYER_MUTABLE_KEYWORDS))))"

text \<open>What the scan does to one row: nothing, a soft or a hard contradiction.\<close>

definition contradiction ::
  "write_lib \<Rightarrow> ustr list \<Rightarrow> f32 list \<Rightarrow> ustr option \<Rightarrow> note_row \<Rightarrow> (xf64 \<times> bool) option" where
  "contradiction W terms embedding category r =
    (let row_lower = to_ascii_lowercase (nr_content r)
     in if \<not> list_ex (\<lambda>term. contains (nr_content r) term \<or> contains row_lower term) terms then None
        else if (case Option.bind (map_of (parse_map (wl_json W) (nr_metadata_json r)) (lit ''record_type'')) as_str of
            None \<Rightarrow> False
          | Some t \<Rightarrow> t = lit ''checkpoint'' \<or> t = lit ''procedure'') then None
        else case stored_vector_from_parts W (nr_vector_blob r) (nr_vector_json r) of
            None \<Rightarrow> None
          | Some stored \<Rightarrow>
              if length stored \<noteq> length embedding then None
              else
                let sim = cosine_similarity embedding stored
                in if xless sim (Fin CROSS_LAYER_SOFT_THRESHOLD) then None
                   else if (case (category, nr_category r) of
                       (Some new_cat, Some old_cat) \<Rightarrow>
                         new_cat \<noteq> old_cat \<and> xless sim (Fin CROSS_LAYER_HARD_THRESHOLD)
                     | _ \<Rightarrow> False) then None
                   else Some (sim, xle (Fin CROSS_LAYER_HARD_THRESHOLD) sim))"

text \<open>\<open>{sim:.3}\<close>: three decimals of a value in [0, 1], the nearest, ties to even.\<close>

definition show_digit :: "nat \<Rightarrow> ustr" where
  "show_digit n = [48 + int (n mod 10)]"

fun format3 :: "xf64 \<Rightarrow> ustr" where
  "format3 (Fin x) =
     (let n = nat (round_half_even (x * 1000))
      in show_nat (n div 1000) @ lit ''.'' @ show_digit (n div 100) @ show_digit (n div 10) @ show_digit n)"
| "format3 NaN = lit ''NaN''"
| "format3 PInf = lit ''inf''"
| "format3 NInf = lit ''-inf''"

definition contradiction_meta :: "ustr \<Rightarrow> xf64 \<Rightarrow> bool \<Rightarrow> json_map \<Rightarrow> json_map" where
  "contradiction_meta new_id sim hard meta0 =
    (let m1 = map_insert (lit ''supersede_reason'') (JStr (lit ''cross_layer_contradiction''))
           (map_insert (lit ''superseded_by'') (JStr new_id) meta0);
         m2 = map_insert (if hard then lit ''is_corrected'' else lit ''is_outdated'') (JBool True) m1;
         prior_success = counter (lit ''success_count'') m2;
         prior_failure = counter (lit ''failure_count'') m2
     in map_insert (lit ''last_outcome_reason'')
          (JStr (lit ''cross-layer contradiction with '' @ new_id @ lit '' (sim='' @ format3 sim @ lit '')''))
          (map_insert (lit ''failure_count'') (JInt (i64_wrap (prior_failure + 1)))
            (map_insert (lit ''success_count'') (JInt prior_success) m2)))"

definition decayed :: "f64 \<Rightarrow> note_row \<Rightarrow> f64 option" where
  "decayed decay r = Some (max (f64_lit 0.1)
     (f64_sub (case nr_confidence r of None \<Rightarrow> f64_lit 0.9 | Some x \<Rightarrow> x) decay))"

definition contradicted_row :: "write_clock \<Rightarrow> bool \<Rightarrow> note_row \<Rightarrow> note_row" where
  "contradicted_row c hard r =
     (if hard then
        r\<lparr>nr_evolution_state := Some (lit ''superseded''), nr_is_head := Some 0, nr_is_active := 0,
          nr_confidence := decayed (f64_lit 0.05) r, nr_updated_at := Some (wc_sql_now c)\<rparr>
      else r\<lparr>nr_confidence := decayed (f64_lit 0.10) r, nr_updated_at := Some (wc_sql_now c)\<rparr>)"

definition mark_cross_layer_contradiction ::
  "write_lib \<Rightarrow> write_stmt faults \<Rightarrow> write_clock \<Rightarrow> ustr \<Rightarrow> ustr \<Rightarrow> xf64 \<Rightarrow> bool \<Rightarrow> (db, sql_error, unit) op" where
  "mark_cross_layer_contradiction W flt c old_id new_id sim hard =
     op_bind (sql_exec (flt (CrossUpdate old_id)) (\<lambda>db.
        (db\<lparr>note_rows := row_update (\<lambda>r. nr_id r = old_id) (contradicted_row c hard) (note_rows db)\<rparr>, ())))
    (\<lambda>_. op_bind (sql_query (flt (CrossSelect old_id))
        (\<lambda>db. Option.bind (row_get nr_id old_id (note_rows db)) nr_metadata_json))
    (\<lambda>meta_str.
       case jl_print (wl_json W) (JObj (contradiction_meta new_id sim hard (parse_map (wl_json W) meta_str))) of
         None \<Rightarrow> op_fail metadata_unserializable
       | Some metadata_json \<Rightarrow>
           op_bind (sql_exec (flt (CrossMeta old_id)) (\<lambda>db.
              (db\<lparr>note_rows := row_update (\<lambda>r. nr_id r = old_id)
                 (\<lambda>r. r\<lparr>nr_metadata_json := Some metadata_json\<rparr>) (note_rows db)\<rparr>, ())))
             (\<lambda>_. if hard
                then insert_note_relation (\<lambda>s. flt (CrossRelation old_id)) new_id old_id (lit ''forget_cascade'') 1
                else op_return ())))"

definition scan_candidates :: "orchestrator \<Rightarrow> ustr \<Rightarrow> db \<Rightarrow> note_row list" where
  "scan_candidates self new_note_id db = take CROSS_LAYER_SCAN_LIMIT
     (filter (\<lambda>r. nr_id r \<noteq> new_note_id \<and> nr_is_active r = 1 \<and>
        nr_project_id r = Some (wo_project_id self)) (note_rows db))"

text \<open>The loop over the rows; it returns the ids whose update went through.\<close>

fun contradiction_loop ::
  "write_lib \<Rightarrow> write_stmt faults \<Rightarrow> write_clock \<Rightarrow> ustr list \<Rightarrow> f32 list \<Rightarrow> ustr option \<Rightarrow> ustr \<Rightarrow>
   note_row list \<Rightarrow> ustr list \<Rightarrow> db \<Rightarrow> db \<times> ustr list" where
  "contradiction_loop W flt c terms embedding category new_id [] superseded db = (db, superseded)"
| "contradiction_loop W flt c terms embedding category new_id (r # rows) superseded db =
     (case contradiction W terms embedding category r of
        None \<Rightarrow> contradiction_loop W flt c terms embedding category new_id rows superseded db
      | Some (sim, hard) \<Rightarrow>
          (case mark_cross_layer_contradiction W flt c (nr_id r) new_id sim hard db of
             (db', Inr _) \<Rightarrow>
               contradiction_loop W flt c terms embedding category new_id rows (superseded @ [nr_id r]) db'
           | (db', Inl _) \<Rightarrow>
               contradiction_loop W flt c terms embedding category new_id rows superseded db'))"

definition cross_layer_contradiction_scan ::
  "write_lib \<Rightarrow> orchestrator \<Rightarrow> write_stmt faults \<Rightarrow> write_clock \<Rightarrow> ustr \<Rightarrow> ustr \<Rightarrow> ustr option \<Rightarrow>
   f32 list \<Rightarrow> ustr list option \<Rightarrow> db \<Rightarrow> db \<times> ustr list" where
  "cross_layer_contradiction_scan W self flt c new_note_id content category embedding event_who db =
    (let terms = search_terms content event_who
     in if terms = [] \<or> flt CrossScan \<noteq> None then (db, [])
        else contradiction_loop W flt c terms embedding category new_note_id
          (scan_candidates self new_note_id db) [] db)"

section \<open>Links to related notes\<close>

definition parse_strings :: "json_lib \<Rightarrow> ustr \<Rightarrow> ustr list option" where
  "parse_strings J s =
     (case jl_parse J s of Some (JArr xs) \<Rightarrow> those (map as_str xs) | _ \<Rightarrow> None)"

definition backfill_related_ids ::
  "write_lib \<Rightarrow> write_stmt faults \<Rightarrow> ustr \<Rightarrow> ustr list \<Rightarrow> db \<Rightarrow> db" where
  "backfill_related_ids W flt note_id linked_ids db =
     (if flt RelatedRead \<noteq> None then db
      else
        let existing_json = Option.bind (row_get nr_id note_id (note_rows db)) nr_related_ids_json;
            existing = (case Option.bind existing_json (parse_strings (wl_json W)) of None \<Rightarrow> [] | Some ids \<Rightarrow> ids);
            merged = fold (\<lambda>linked_id merged. if linked_id \<in> set merged then merged else merged @ [linked_id])
              linked_ids existing
        in case jl_print (wl_json W) (JArr (map JStr merged)) of
             None \<Rightarrow> db
           | Some related_json \<Rightarrow>
               if flt RelatedWrite \<noteq> None then db
               else db\<lparr>note_rows := row_update (\<lambda>r. nr_id r = note_id)
                 (\<lambda>r. r\<lparr>nr_related_ids_json := Some related_json\<rparr>) (note_rows db)\<rparr>)"

definition link_strength :: "f64 \<Rightarrow> f64" where
  "link_strength sim = f64_div (f64_round (f64_mul sim 10000)) 10000"

definition link_candidates ::
  "write_lib \<Rightarrow> orchestrator \<Rightarrow> ustr \<Rightarrow> f32 list \<Rightarrow> ustr \<Rightarrow> ustr list \<Rightarrow> db \<Rightarrow> (ustr \<times> f64) list" where
  "link_candidates W self new_note_id embedding layer exclude_ids db =
     take AUTO_LINK_MAX_LINKS (sort_desc snd
       (List.map_filter (\<lambda>r.
           if nr_id r = new_note_id \<or> nr_id r \<in> set exclude_ids then None
           else case stored_vector_from_parts W (nr_vector_blob r) (nr_vector_json r) of
             None \<Rightarrow> None
           | Some stored \<Rightarrow>
               if length stored \<noteq> length embedding then None
               else (case cosine_similarity embedding stored of
                   Fin sim \<Rightarrow>
                     if AUTO_LINK_LOWER \<le> sim \<and> sim < DEDUP_SIMILARITY_THRESHOLD
                     then Some (nr_id r, sim) else None
                 | _ \<Rightarrow> None))
         (take DEDUP_CANDIDATE_LIMIT (sort_desc nr_created_at
           (filter (\<lambda>r. nr_is_active r = 1 \<and> nr_layer r = layer \<and>
              nr_project_id r = Some (wo_project_id self) \<and>
              (case nr_evolution_state r of None \<Rightarrow> True | Some s \<Rightarrow> s = lit ''active''))
             (note_rows db))))))"

fun link_loop ::
  "write_stmt faults \<Rightarrow> ustr \<Rightarrow> (ustr \<times> f64) list \<Rightarrow> ustr list \<Rightarrow> db \<Rightarrow> db \<times> ustr list" where
  "link_loop flt new_note_id [] linked_ids db = (db, linked_ids)"
| "link_loop flt new_note_id ((target_id, sim) # rest) linked_ids db =
     (case insert_note_relation (\<lambda>s. flt (LinkRelation target_id)) new_note_id target_id (lit ''supports'')
             (link_strength sim) db of
        (db', Inr _) \<Rightarrow> link_loop flt new_note_id rest (linked_ids @ [target_id]) db'
      | (db', Inl _) \<Rightarrow> link_loop flt new_note_id rest linked_ids db')"

definition link_related ::
  "write_lib \<Rightarrow> orchestrator \<Rightarrow> write_stmt faults \<Rightarrow> ustr \<Rightarrow> f32 list \<Rightarrow> ustr \<Rightarrow> ustr list \<Rightarrow> db \<Rightarrow> db" where
  "link_related W self flt new_note_id embedding layer exclude_ids db =
     (if flt LinkScan \<noteq> None then db
      else case link_loop flt new_note_id
             (link_candidates W self new_note_id embedding layer exclude_ids db) [] db of
        (db', linked_ids) \<Rightarrow>
          if linked_ids \<noteq> [] then backfill_related_ids W flt new_note_id linked_ids db' else db')"

end
