(* ===== verification/Write_Orchestrator.thy ===== *)
theory Write_Orchestrator
  imports Write_Links
begin

text \<open>
  The write path (\<open>core/write_orchestrator.rs\<close>): \<open>add_memory\<close> with its guards, policy,
  deduplication, transaction, archive and the two passes after the commit; checkpoints; and
  reported outcomes with their feedback. The state is the connection and the archive's
  files. \<open>store_extracted_entities\<close> ends at its count of the legacy entity tables, which the
  schema the sources create does not have, so it has no step here. A serializer's own
  message is left out of the error texts.
\<close>

section \<open>The note to write\<close>

definition original_layer_missing :: "add_params \<Rightarrow> bool" where
  "original_layer_missing params = (case ap_layer params of None \<Rightarrow> True | Some l \<Rightarrow> l = [])"

definition default_layer :: "add_params \<Rightarrow> ustr" where
  "default_layer params =
     (case ap_layer params of
        Some l \<Rightarrow> l
      | None \<Rightarrow>
          if ap_when params \<noteq> None then lit ''event_log''
          else if ap_memory_kind params = Some (lit ''event'') then lit ''event_log''
          else if ap_memory_kind params = Some (lit ''procedure'') then lit ''procedure_schema''
          else lit ''verified_fact'')"

definition place_memory :: "write_lib \<Rightarrow> add_params \<Rightarrow> ustr \<Rightarrow> ustr \<times> ustr option" where
  "place_memory W params content =
    (let layer = default_layer params; category = ap_category params
     in if layer = lit ''procedure_schema''
        then (layer, Some (case category of None \<Rightarrow> lit ''routine'' | Some c \<Rightarrow> c))
        else if ap_auto_classify params then
          let cl = classify (pl_to_lowercase (wl_policy W)) auto_classifier_default content (Some layer)
          in (if ap_auto_classify_layer params \<and> original_layer_missing params \<and>
                is_auto_classified_layer_allowed (cl_layer cl) then cl_layer cl else layer,
              if category = None \<and> cl_category cl \<noteq> [] then Some (cl_category cl) else category)
        else (layer, category))"

definition policy_input :: "add_params \<Rightarrow> ustr \<Rightarrow> ustr \<Rightarrow> ustr option \<Rightarrow> evaluate_input" where
  "policy_input params content layer category =
     \<lparr>ei_content = content, ei_layer = Some layer, ei_category = category,
      ei_source = ap_source params, ei_metadata = ap_extra_metadata params, ei_agent = ap_agent params\<rparr>"

text \<open>The deduplication stage: an early answer, or what later stages need of it.\<close>

record dedup_info =
  di_superseded :: "ustr list"
  di_best_id :: "ustr option"
  di_best_sim :: xf64

definition no_dedup :: dedup_info where
  "no_dedup = \<lparr>di_superseded = [], di_best_id = None, di_best_sim = Fin 0\<rparr>"

definition dedup_stage ::
  "write_lib \<Rightarrow> orchestrator \<Rightarrow> write_stmt faults \<Rightarrow> db \<Rightarrow> ustr \<Rightarrow> ustr \<Rightarrow> f32 list option \<Rightarrow>
   (add_result, dedup_info) result" where
  "dedup_stage W self flt db content layer embedding =
     (if layer = lit ''event_log'' then Ok no_dedup
      else case find_exact_duplicate W self flt db content layer (map_option length embedding) of
        Some existing_id \<Rightarrow> Err (Duplicate existing_id (Fin 1))
      | None \<Rightarrow>
          (case embedding of
             None \<Rightarrow> Ok no_dedup
           | Some emb \<Rightarrow>
               let dedup = check_duplicate W flt db emb layer
               in case (dd_duplicate dedup, dd_best_match dedup) of
                    (True, Some best) \<Rightarrow> Err (Duplicate best (dd_best_sim dedup))
                  | (_, best_match) \<Rightarrow>
                      Ok \<lparr>di_superseded =
                            (if xle (Fin AUTO_SUPERSEDE_THRESHOLD) (dd_best_sim dedup)
                             then (case best_match of None \<Rightarrow> [] | Some best \<Rightarrow> [best]) else []),
                          di_best_id = best_match, di_best_sim = dd_best_sim dedup\<rparr>))"

definition merge_non_null :: "json_map \<Rightarrow> json_map \<Rightarrow> json_map" where
  "merge_non_null new m = fold (\<lambda>(k, v) m. if v = JNull then m else map_insert k v m) new m"

definition note_metadata ::
  "add_params \<Rightarrow> detector_result \<Rightarrow> policy_decision option \<Rightarrow> json_map" where
  "note_metadata params det decision =
    (let m0 = (case ap_extra_metadata params of None \<Rightarrow> [] | Some m \<Rightarrow> m);
         m1 = (if flagged det
           then map_insert (lit ''detector_reason'') (JStr (det_reason det))
             (map_insert (lit ''outdated_pending'') (JBool True) m0) else m0);
         m2 = (case decision of None \<Rightarrow> m1 | Some d \<Rightarrow> merge_non_null (pd_metadata d) m1)
     in insert_opt (lit ''role'') (map_option JStr (ap_role params))
       (insert_opt (lit ''ttl_days'') (map_option JInt (ap_ttl_days params))
       (insert_opt (lit ''who'') (map_option (\<lambda>w. JArr (map JStr w)) (ap_who params))
       (insert_opt (lit ''memory_kind'') (map_option JStr (ap_memory_kind params)) m2))))"

definition print_option :: "('a \<Rightarrow> ustr option) \<Rightarrow> ustr \<Rightarrow> 'a option \<Rightarrow> (add_result, ustr option) result" where
  "print_option print what x =
     (case x of None \<Rightarrow> Ok None
      | Some v \<Rightarrow> (case print v of None \<Rightarrow> Err (AddError what) | Some s \<Rightarrow> Ok (Some s)))"

definition build_note ::
  "write_lib \<Rightarrow> orchestrator \<Rightarrow> write_stmt faults \<Rightarrow> write_env \<Rightarrow> db \<Rightarrow> add_params \<Rightarrow> ustr \<Rightarrow> ustr \<Rightarrow>
   ustr option \<Rightarrow> policy_decision option \<Rightarrow> f32 list option \<Rightarrow> dedup_info \<Rightarrow> (add_result, note_insert) result" where
  "build_note W self flt ev db params content layer category decision embedding dedup =
    (let metadata0 = (case ap_extra_metadata params of None \<Rightarrow> [] | Some m \<Rightarrow> m);
         det = detect_with_neighbor_sources W content (commercial_detector_trigger metadata0)
           (case ap_source params of None \<Rightarrow> [] | Some s \<Rightarrow> s)
           (\<lambda>_. commercial_detector_neighbor_sources W flt db (ap_related_ids params) embedding layer
                  (wo_project_id self));
         confidence0 = (case ap_confidence params of None \<Rightarrow> f64_lit 0.9 | Some x \<Rightarrow> x);
         confidence = (if flagged det then min confidence0 (f64_lit 0.7) else confidence0);
         source = (if flagged det then Some (lit ''ai_proposal'') else ap_source params);
         metadata = note_metadata params det decision
     in and_then (print_option (\<lambda>m. jl_print (wl_json W) (JObj m)) (lit ''metadata serialize failed'')
                   (if metadata = [] then None else Some metadata)) (\<lambda>metadata_json.
        and_then (print_option (wl_print_vector W) (lit ''vector serialize failed'') embedding) (\<lambda>vector_json.
        and_then (print_option (\<lambda>ids. jl_print (wl_json W) (JArr (map JStr ids)))
                   (lit ''related_ids serialize failed'') (ap_related_ids params)) (\<lambda>related_ids_json.
        let topic_key = (case ap_topic_key params of
                Some tk \<Rightarrow> Some tk
              | None \<Rightarrow> decide_topic_key flt db layer content (layer = lit ''event_log'') (di_superseded dedup)
                  (di_best_id dedup) (di_best_sim dedup))
        in Ok \<lparr>ni_id = we_uuid ev, ni_content = content, ni_layer = layer, ni_category = category,
             ni_is_active = True, ni_confidence = Some confidence, ni_agent_id = None,
             ni_project_id = Some (wo_project_id self),
             ni_created_at = Some (wl_format_millis W (we_now ev)), ni_updated_at = None,
             ni_valid_at = valid_at_epoch_seconds W (ap_when params) (we_now ev),
             ni_session_id = (if layer = lit ''event_log'' then None else ap_session_id params),
             ni_review_after = compute_review_after W layer category (ap_who params) content (we_now ev),
             ni_metadata_json = metadata_json, ni_vector_json = vector_json,
             ni_vector_blob = map_option vector_to_blob embedding,
             ni_evolution_state = Some (lit ''active''), ni_topic_key = topic_key, ni_is_head = True,
             ni_room = ap_room params, ni_agent = ap_agent params, ni_difficulty = ap_difficulty params,
             ni_time_cost_hint = ap_time_cost_hint params, ni_related_ids_json = related_ids_json,
             ni_role = ap_role params, ni_version = ap_version params, ni_root_id = ap_root_id params,
             ni_source = source, ni_created_by = ap_created_by params, ni_event_when = ap_when params,
             ni_event_when_ts = event_when_epoch_seconds W (ap_when params)\<rparr>))))"

section \<open>The transaction\<close>

definition set_cold_ref :: "write_stmt faults \<Rightarrow> ustr \<Rightarrow> ustr \<Rightarrow> (db, sql_error, unit) op" where
  "set_cold_ref flt cref note_id =
     sql_exec (flt ColdRef) (\<lambda>db.
       (db\<lparr>note_rows := row_update (\<lambda>r. nr_id r = note_id) (\<lambda>r. r\<lparr>nr_cold_storage_ref := Some cref\<rparr>)
          (note_rows db)\<rparr>, ()))"

definition archive_note ::
  "write_lib \<Rightarrow> orchestrator \<Rightarrow> write_stmt faults \<Rightarrow> write_env \<Rightarrow> ustr \<Rightarrow> ustr \<Rightarrow> ustr \<Rightarrow> json option \<Rightarrow>
   ustr \<Rightarrow> ustr \<Rightarrow> (orch, ustr, ustr option) op" where
  "archive_note W self flt ev note_id content layer cold_meta append_failed ref_failed =
     op_bind (op_map_err (\<lambda>e. append_failed @ cold_message e)
       (on_files (cold_append (jl_print (wl_json W)) (wo_cold self) (we_io ev) note_id content layer cold_meta)))
       (\<lambda>cold_ref. case cold_ref of
          None \<Rightarrow> op_return None
        | Some cref \<Rightarrow>
            op_bind (op_map_err (\<lambda>e. ref_failed @ e) (on_db (set_cold_ref flt cref note_id)))
              (\<lambda>_. op_return (Some cref)))"

definition write_body ::
  "write_lib \<Rightarrow> orchestrator \<Rightarrow> write_stmt faults \<Rightarrow> write_env \<Rightarrow> add_params \<Rightarrow> note_insert \<Rightarrow> ustr list \<Rightarrow>
   (orch, ustr, ustr option) op" where
  "write_body W self flt ev params note superseded_ids =
     op_bind (op_map_err (\<lambda>e. lit ''Upsert failed: '' @ e)
       (on_db (upsert_note (\<lambda>s. flt (WriterStmt (ni_id note) s)) (we_clock ev) note))) (\<lambda>_.
     op_bind (op_each (\<lambda>sid. op_map_err (\<lambda>e. lit ''Failed to mark '' @ sid @ lit '' as superseded: '' @ e)
         (on_db (mark_superseded (wl_json W) (\<lambda>s. flt (WriterStmt sid s)) (we_clock ev) sid (ni_id note)
            (lit ''auto_supersede'')))) superseded_ids) (\<lambda>_.
     let cold_meta = cold_storage_metadata params (ni_layer note) (ni_category note)
     in archive_note W self flt ev (ni_id note) (ni_content note) (ni_layer note)
          (if cold_meta = [] then None else Some (JObj cold_meta))
          (lit ''Cold storage append failed: '') (lit ''Cold storage ref update failed: '')))"

text \<open>A body between BEGIN and COMMIT: rolled back on an error of its own, not on a failed commit.\<close>

definition in_transaction ::
  "write_stmt faults \<Rightarrow> (orch, ustr, 'a) op \<Rightarrow> (orch, ustr, 'a) op" where
  "in_transaction flt body o1 =
     (case on_txn (txn_begin (flt BeginWrite)) o1 of
        (o2, Inl e) \<Rightarrow> (o2, Err (lit ''Transaction start failed: '' @ e))
      | (o2, Inr _) \<Rightarrow>
          (case body o2 of
             (o3, Inl e) \<Rightarrow> (fst (on_txn (txn_rollback (flt RollbackWrite)) o3), Err e)
           | (o3, Inr x) \<Rightarrow>
               (case on_txn (txn_commit (flt CommitWrite)) o3 of
                  (o4, Inl e) \<Rightarrow> (o4, Err (lit ''Commit failed: '' @ e))
                | (o4, Inr _) \<Rightarrow> (o4, Ok x))))"

section \<open>Adding a memory\<close>

definition dim_message :: "nat \<Rightarrow> ustr" where
  "dim_message n = lit ''Embedding dimension mismatch: got '' @ show_nat n @ lit '' expected '' @
     show_nat EMBEDDING_DIM @ lit ''. Refusing write to avoid corrupting vector index.''"

definition no_vector_warning :: ustr where
  "no_vector_warning =
     lit ''Embedding failed: note saved without vector, will not appear in semantic search''"

text \<open>The guards, the policy and the deduplication: an early answer or the write to make.\<close>

record write_plan =
  wp_note :: note_insert
  wp_superseded :: "ustr list"
  wp_embedding :: "f32 list option"

definition plan_embedded ::
  "write_lib \<Rightarrow> orchestrator \<Rightarrow> write_stmt faults \<Rightarrow> write_env \<Rightarrow> db \<Rightarrow> add_params \<Rightarrow> ustr \<Rightarrow> ustr \<Rightarrow>
   ustr option \<Rightarrow> policy_decision option \<Rightarrow> (add_result, write_plan) result" where
  "plan_embedded W self flt ev db params content layer category decision =
    (let embedding = wl_embed_text W content
     in if (case embedding of None \<Rightarrow> False | Some emb \<Rightarrow> length emb \<noteq> EMBEDDING_DIM)
        then Err (AddError (dim_message (case embedding of None \<Rightarrow> 0 | Some emb \<Rightarrow> length emb)))
        else and_then (dedup_stage W self flt db content layer embedding) (\<lambda>dedup.
             and_then (build_note W self flt ev db params content layer category decision embedding dedup)
               (\<lambda>note. Ok \<lparr>wp_note = note, wp_superseded = di_superseded dedup, wp_embedding = embedding\<rparr>)))"

definition plan_write ::
  "write_lib \<Rightarrow> orchestrator \<Rightarrow> write_stmt faults \<Rightarrow> write_env \<Rightarrow> db \<Rightarrow> add_params \<Rightarrow>
   (add_result, write_plan) result" where
  "plan_write W self flt ev db params =
    (let content = trim (ap_content params)
     in if content = [] then Err (AddError (lit ''Content is empty''))
        else case place_memory W params content of (layer, category) \<Rightarrow>
          if layer = lit ''identity_schema''
          then Err (AddError (lit
            ''Cannot write to identity_schema directly. Use propose_change + approve_change.''))
          else
            let decision = (if layer = lit ''verified_fact''
                  then Some (evaluate (wl_policy W) (policy_input params content layer category))
                  else None)
            in case decision of
                 Some d \<Rightarrow>
                   if \<not> allow_durable d then Err (PolicySkipped layer (pd_reason d) (memory_type d))
                   else plan_embedded W self flt ev db params content layer category decision
               | None \<Rightarrow> plan_embedded W self flt ev db params content layer category decision)"

text \<open>The passes after the commit, for notes that are not events and have a vector.\<close>

definition after_commit ::
  "write_lib \<Rightarrow> orchestrator \<Rightarrow> write_stmt faults \<Rightarrow> write_env \<Rightarrow> add_params \<Rightarrow> write_plan \<Rightarrow> db \<Rightarrow> db" where
  "after_commit W self flt ev params plan db =
    (let note = wp_note plan
     in if ni_layer note = lit ''event_log'' then db
        else case wp_embedding plan of
          None \<Rightarrow> db
        | Some emb \<Rightarrow>
            link_related W self flt (ni_id note) emb (ni_layer note) (wp_superseded plan)
              (fst (cross_layer_contradiction_scan W self flt (we_clock ev) (ni_id note) (ni_content note)
                 (ni_category note) emb (ap_who params) db)))"

definition add_memory ::
  "write_lib \<Rightarrow> orchestrator \<Rightarrow> write_stmt faults \<Rightarrow> write_env \<Rightarrow> add_params \<Rightarrow> orch \<Rightarrow> orch \<times> add_result" where
  "add_memory W self flt ev params o1 =
     (case plan_write W self flt ev (current (oc_conn o1)) params of
        Inl answer \<Rightarrow> (o1, answer)
      | Inr plan \<Rightarrow>
          let note = wp_note plan
          in case in_transaction flt (write_body W self flt ev params note (wp_superseded plan)) o1 of
               (o2, Inl e) \<Rightarrow> (o2, AddError e)
             | (o2, Inr cold_ref) \<Rightarrow>
                 (fst (on_db (\<lambda>db. (after_commit W self flt ev params plan db, Ok ())) o2
                     :: orch \<times> (sql_error, unit) result),
                  Saved (ni_id note) (ni_layer note) cold_ref (wp_superseded plan)
                    (if wp_embedding plan = None then [no_vector_warning] else [])))"

section \<open>Checkpoints\<close>

definition text_part :: "ustr \<Rightarrow> json_map \<Rightarrow> ustr \<Rightarrow> ustr list" where
  "text_part label m key =
     (case Option.bind (map_of m key) as_str of None \<Rightarrow> [] | Some t \<Rightarrow> [label @ lit '': '' @ t])"

definition list_part :: "json_map \<Rightarrow> ustr \<times> ustr \<Rightarrow> ustr list" where
  "list_part sections entry =
     (case entry of (key, label) \<Rightarrow>
        (case Option.bind (map_of sections key) as_array of
           None \<Rightarrow> []
         | Some items \<Rightarrow>
             let preview = take 4 (List.map_filter as_str items)
             in if preview = [] then [] else [label @ lit '': '' @ join_with [0x3001] preview]))"

fun as_object :: "json \<Rightarrow> json_map option" where
  "as_object (JObj m) = Some m"
| "as_object _ = None"

definition checkpoint_searchable_content :: "ustr \<Rightarrow> ustr \<Rightarrow> json_map \<Rightarrow> ustr" where
  "checkpoint_searchable_content task_id summary metadata =
    (let parts = [[0x5B, 0x65AD, 0x70B9, 0x5D, 0x20] @ task_id @ lit '': '' @ summary] @
           text_part [0x963B, 0x585E] metadata (lit ''blocker'') @
           text_part [0x4E0B, 0x4E00, 0x6B65] metadata (lit ''next_step'')
     in case Option.bind (map_of metadata (lit ''compact_sections'')) as_object of
          None \<Rightarrow> join_with (lit '' | '') parts
        | Some sections \<Rightarrow>
            join_with (lit '' | '')
              (parts @ text_part [0x4EFB, 0x52A1, 0x8BF4, 0x660E] sections (lit ''task_specification'') @
               concat (map (list_part sections)
                 [(lit ''files_and_functions'', [0x6587, 0x4EF6, 0x2F, 0x51FD, 0x6570]),
                  (lit ''workflow'', [0x5DE5, 0x4F5C, 0x6D41]),
                  (lit ''errors_and_corrections'', [0x9519, 0x8BEF, 0x2F, 0x4FEE, 0x6B63]),
                  (lit ''decisions'', [0x5173, 0x952E, 0x51B3, 0x7B56]),
                  (lit ''living_docs'', [0x6D3B, 0x6587, 0x6863])])))"

definition checkpoint_metas ::
  "write_lib \<Rightarrow> ustr \<Rightarrow> note_row \<Rightarrow> bool" where
  "checkpoint_metas W task_id r =
     (case nr_metadata_json r of
        None \<Rightarrow> False
      | Some m \<Rightarrow> jl_json_valid (wl_json W) m \<and>
          jl_extract_text (wl_json W) m (lit ''$.record_type'') = Some (lit ''checkpoint'') \<and>
          jl_extract_text (wl_json W) m (lit ''$.task_id'') = Some task_id)"

text \<open>The candidates of the idempotency probe, and the first with equal metadata.\<close>

definition checkpoint_rows ::
  "write_lib \<Rightarrow> orchestrator \<Rightarrow> ustr \<Rightarrow> ustr \<Rightarrow> db \<Rightarrow> note_row list" where
  "checkpoint_rows W self task_id content db = take 5
     (sort_desc coalesce_created (sort_key nr_id
       (filter (\<lambda>r. nr_is_active r = 1 \<and> nr_layer r = lit ''event_log'' \<and> nr_content r = content \<and>
          checkpoint_metas W task_id r \<and> nr_project_id r = Some (wo_project_id self)) (note_rows db))))"

definition same_metadata :: "write_lib \<Rightarrow> json_map \<Rightarrow> note_row \<Rightarrow> bool" where
  "same_metadata W metadata r =
     (case Option.bind (nr_metadata_json r) (jl_parse (wl_json W)) of
        None \<Rightarrow> False | Some v \<Rightarrow> wl_json_eq W v (JObj metadata))"

definition checkpoint_note ::
  "write_lib \<Rightarrow> orchestrator \<Rightarrow> write_env \<Rightarrow> ustr \<Rightarrow> ustr \<Rightarrow> note_insert" where
  "checkpoint_note W self ev content metadata_json =
    (let embedding = wl_embed_text W content
     in note_insert_default
          \<lparr>ni_id := we_uuid ev, ni_content := content, ni_layer := lit ''event_log'',
           ni_category := Some (lit ''event''), ni_is_active := True, ni_confidence := Some (f64_lit 0.95),
           ni_project_id := Some (wo_project_id self),
           ni_created_at := Some (wl_format_millis W (we_now ev)),
           ni_valid_at := Some (timestamp_seconds (we_now ev)), ni_metadata_json := Some metadata_json,
           ni_vector_json := Option.bind embedding (wl_print_vector W),
           ni_vector_blob := map_option vector_to_blob embedding, ni_is_head := True,
           ni_evolution_state := Some (lit ''active''), ni_source := Some (lit ''user''),
           ni_created_by := Some (lit ''user'')\<rparr>)"

definition checkpoint_cold_meta :: json where
  "checkpoint_cold_meta = JObj [(lit ''category'', JStr (lit ''event'')),
     (lit ''confidence'', JFloat (f64_lit 0.95)), (lit ''source'', JStr (lit ''user'')),
     (lit ''created_by'', JStr (lit ''user''))]"

definition checkpoint_body ::
  "write_lib \<Rightarrow> orchestrator \<Rightarrow> write_stmt faults \<Rightarrow> write_env \<Rightarrow> ustr \<Rightarrow> ustr \<Rightarrow> json_map \<Rightarrow>
   (orch, ustr, ustr) op" where
  "checkpoint_body W self flt ev task_id content metadata =
     op_bind (op_map_err (\<lambda>e. lit ''Checkpoint idempotency probe failed: '' @ e)
       (on_db (sql_query (flt CheckpointProbe)
         (\<lambda>db. find (same_metadata W metadata) (checkpoint_rows W self task_id content db))))) (\<lambda>existing.
     let deactivate = (\<lambda>exclude. op_map_err (\<lambda>e. lit ''Deactivate failed: '' @ e)
           (on_db (deactivate_checkpoints_by_task_id (wl_json W) (\<lambda>s. flt (WriterStmt task_id s)) task_id exclude)))
     in case existing of
          Some r \<Rightarrow> op_bind (deactivate (Some (nr_id r))) (\<lambda>_. op_return (nr_id r))
        | None \<Rightarrow>
            let metadata_json = (case jl_print (wl_json W) (JObj metadata) of None \<Rightarrow> lit ''{}'' | Some s \<Rightarrow> s);
                note = checkpoint_note W self ev content metadata_json
            in op_bind (deactivate None) (\<lambda>_.
               op_bind (op_map_err (\<lambda>e. lit ''Checkpoint write failed: '' @ e)
                 (on_db (upsert_note (\<lambda>s. flt (WriterStmt (ni_id note) s)) (we_clock ev) note))) (\<lambda>_.
               op_bind (archive_note W self flt ev (ni_id note) content (ni_layer note) (Some checkpoint_cold_meta)
                 (lit ''Checkpoint cold storage append failed: '')
                 (lit ''Checkpoint cold storage ref update failed: '')) (\<lambda>_.
               op_return (ni_id note)))))"

definition save_checkpoint ::
  "write_lib \<Rightarrow> orchestrator \<Rightarrow> write_stmt faults \<Rightarrow> write_env \<Rightarrow> ustr \<Rightarrow> ustr \<Rightarrow> json_map \<Rightarrow>
   (orch, ustr, ustr) op" where
  "save_checkpoint W self flt ev task_id summary metadata =
     in_transaction flt (checkpoint_body W self flt ev task_id
       (checkpoint_searchable_content task_id summary metadata) metadata)"

section \<open>Reported outcomes\<close>

text \<open>The feedback steps leave with \<open>?\<close>: past the commit, and past the rollback.\<close>

definition report_outcome ::
  "write_lib \<Rightarrow> write_stmt faults \<Rightarrow> write_env \<Rightarrow> ustr \<Rightarrow> ustr \<Rightarrow> ustr option \<Rightarrow> (orch, ustr, bool) op" where
  "report_outcome W flt ev note_id outcome reason o1 =
    (let stmts = (\<lambda>s. flt (WriterStmt note_id s))
     in case on_txn (txn_begin (flt BeginWrite)) o1 of
          (o2, Inl e) \<Rightarrow> (o2, Err (lit ''Transaction start failed: '' @ e))
        | (o2, Inr _) \<Rightarrow>
            (case on_db (atomic_update_outcome (wl_json W) stmts note_id outcome reason) o2 of
               (o3, Inl e) \<Rightarrow>
                 (fst (on_txn (txn_rollback (flt RollbackWrite)) o3), Err (lit ''Outcome update failed: '' @ e))
             | (o3, Inr updated) \<Rightarrow>
                 op_bind
                   (if updated then
                      op_bind (op_map_err (\<lambda>e. lit ''Hebbian feedback update failed: '' @ e)
                        (on_db (apply_hebbian_feedback (wl_json W) stmts (we_clock ev) note_id outcome))) (\<lambda>_.
                      op_bind (op_map_err (\<lambda>e. lit ''Dream feedback update failed: '' @ e)
                        (on_db (apply_dream_feedback (wl_json W) stmts (we_clock ev) note_id outcome reason)))
                        (\<lambda>_. op_return ()))
                    else op_return ())
                   (\<lambda>_. op_bind (op_map_err (\<lambda>e. lit ''Commit failed: '' @ e)
                      (on_txn (txn_commit (flt CommitWrite)))) (\<lambda>_. op_return updated)) o3))"

end
