(* ===== verification/Write_Laws.thy ===== *)
theory Write_Laws
  imports Write_Orchestrator Note_Outcomes
begin

text \<open>
  What the write path guarantees (\<open>core/write_orchestrator.rs\<close>). The laws of a transaction are
  proved once, in the locale \<open>txn_body\<close>, and the invariants of the notes once, in the locales
  \<open>write_invariant\<close> and \<open>run_invariant\<close>; the interpretations put the code's bodies and
  invariants in.
\<close>

section \<open>Statements inside an open transaction\<close>

text \<open>A transaction is open and what is durable is still \<open>d\<close>.\<close>

definition in_open :: "db \<Rightarrow> orch \<Rightarrow> bool" where
  "in_open d o1 \<longleftrightarrow> committed (oc_conn o1) = d \<and> open_txn (oc_conn o1) \<noteq> None"

definition working :: "orch \<Rightarrow> db" where
  "working o1 = current (oc_conn o1)"

lemma on_db_fst: "working (fst (on_db m o1)) = fst (m (working o1))"
  and on_db_snd: "snd (on_db m o1) = snd (m (working o1))"
  by (auto simp: on_db_def on_conn_def working_def current_def split: prod.splits option.splits)

lemma on_db_Ok: "on_db m o1 = (o2, Ok x) \<Longrightarrow> m (working o1) = (working o2, Ok x)"
  by (metis on_db_fst on_db_snd fst_conv snd_conv prod.collapse)

lemma on_files_Ok: "on_files m o1 = (o2, r) \<Longrightarrow> working o2 = working o1 \<and> oc_conn o2 = oc_conn o1"
  by (auto simp: on_files_def working_def split: prod.splits)

lemma op_keeps_on_db [keeps_intros]: "op_keeps (in_open d) (on_db m)"
  by (auto simp: op_keeps_def on_db_def on_conn_def in_open_def split: prod.splits option.splits)

lemma op_keeps_on_files [keeps_intros]: "op_keeps (in_open d) (on_files m)"
  by (auto simp: op_keeps_def on_files_def in_open_def split: prod.splits)

text \<open>An operation that succeeds keeps \<open>P\<close>.\<close>

definition ok_keeps :: "('s \<Rightarrow> bool) \<Rightarrow> ('s, 'e, 'a) op \<Rightarrow> bool" where
  "ok_keeps P m \<longleftrightarrow> (\<forall>s s' x. P s \<longrightarrow> m s = (s', Ok x) \<longrightarrow> P s')"

named_theorems ok_intros \<open>operations that keep a property when they succeed\<close>

lemma ok_keepsD: "ok_keeps P m \<Longrightarrow> P s \<Longrightarrow> m s = (s', Ok x) \<Longrightarrow> P s'"
  by (auto simp: ok_keeps_def)

lemma ok_keeps_op: "op_keeps P m \<Longrightarrow> ok_keeps P m"
  unfolding ok_keeps_def using op_keepsD [of P m] by fastforce

lemma ok_keeps_return [ok_intros]: "ok_keeps P (op_return x)"
  by (simp add: ok_keeps_def op_return_def)

lemma ok_keeps_bind [ok_intros]:
  "ok_keeps P m \<Longrightarrow> (\<And>x. ok_keeps P (f x)) \<Longrightarrow> ok_keeps P (op_bind m f)"
  unfolding ok_keeps_def by (blast elim: op_bind_OkE)

lemma ok_keeps_map_err [ok_intros]: "ok_keeps P m \<Longrightarrow> ok_keeps P (op_map_err h m)"
  by (simp add: ok_keeps_def op_map_err_Ok)

lemma ok_keeps_each [ok_intros]:
  "(\<And>x. x \<in> set xs \<Longrightarrow> ok_keeps P (f x)) \<Longrightarrow> ok_keeps P (op_each f xs)"
  by (induction xs) (auto intro!: ok_intros)

lemma ok_keeps_on_db [ok_intros]: "ok_keeps P m \<Longrightarrow> ok_keeps (\<lambda>o1. P (working o1)) (on_db m)"
  by (auto simp: ok_keeps_def dest!: on_db_Ok)

lemma ok_keeps_on_files [ok_intros]: "ok_keeps (\<lambda>o1. P (working o1)) (on_files m)"
  by (auto simp: ok_keeps_def dest!: on_files_Ok)

section \<open>Transactions\<close>

locale txn_body =
  fixes body :: "(orch, ustr, 'a) op"
  assumes body_open: "op_keeps (in_open d) body"
begin

lemma begun:
  assumes "on_txn (txn_begin f) o1 = (o2, Ok ())"
  shows "in_open (committed (oc_conn o1)) o2" "working o2 = committed (oc_conn o1)"
    "open_txn (oc_conn o1) = None" "oc_files o2 = oc_files o1"
  using assms
  by (auto simp: on_txn_def txn_begin_def in_open_def working_def current_def split: option.splits prod.splits)

lemma body_committed: "in_open d o1 \<Longrightarrow> in_open d (fst (body o1))"
  using body_open op_keepsD by metis

lemma failed:
  assumes "in_transaction flt body o1 = (o2, Err e)"
  shows "committed (oc_conn o2) = committed (oc_conn o1)"
    and "flt RollbackWrite = None \<Longrightarrow> flt CommitWrite = None \<Longrightarrow> open_txn (oc_conn o2) = open_txn (oc_conn o1)"
proof -
  obtain o3 r where b: "on_txn (txn_begin (flt BeginWrite)) o1 = (o3, r)" by fastforce
  show "committed (oc_conn o2) = committed (oc_conn o1)"
    "flt RollbackWrite = None \<Longrightarrow> flt CommitWrite = None \<Longrightarrow> open_txn (oc_conn o2) = open_txn (oc_conn o1)"
  proof (atomize (full), cases r)
    case (Inl a)
    with b assms show "committed (oc_conn o2) = committed (oc_conn o1) \<and> (flt RollbackWrite = None \<longrightarrow>
        flt CommitWrite = None \<longrightarrow> open_txn (oc_conn o2) = open_txn (oc_conn o1))"
      by (auto simp: in_transaction_def on_txn_def txn_begin_def split: option.splits prod.splits)
  next
    case (Inr u)
    obtain o4 r' where run: "body o3 = (o4, r')" by fastforce
    from Inr b have b': "on_txn (txn_begin (flt BeginWrite)) o1 = (o3, Ok ())" by simp
    have open4: "in_open (committed (oc_conn o1)) o4"
      using body_committed [OF begun(1) [OF b']] run by simp
    with b' run assms begun(3) [OF b']
    show "committed (oc_conn o2) = committed (oc_conn o1) \<and> (flt RollbackWrite = None \<longrightarrow>
        flt CommitWrite = None \<longrightarrow> open_txn (oc_conn o2) = open_txn (oc_conn o1))"
      by (auto simp: in_transaction_def on_txn_def txn_rollback_def txn_commit_def in_open_def
          simp del: lit_simps split: option.splits prod.splits sum.splits)
  qed
qed

lemma succeeded:
  assumes "in_transaction flt body o1 = (o2, Ok x)"
  obtains o3 o4 where "open_txn (oc_conn o1) = None" "working o3 = committed (oc_conn o1)"
    "open_txn (oc_conn o3) \<noteq> None" "oc_files o3 = oc_files o1" "body o3 = (o4, Ok x)"
    "committed (oc_conn o2) = working o4" "open_txn (oc_conn o2) = None"
proof -
  obtain o3 where b: "on_txn (txn_begin (flt BeginWrite)) o1 = (o3, Ok ())"
    using assms by (auto simp: in_transaction_def split: prod.splits sum.splits)
  with assms obtain o4 where run: "body o3 = (o4, Ok x)"
    and c: "on_txn (txn_commit (flt CommitWrite)) o4 = (o2, Ok ())"
    by (auto simp: in_transaction_def split: prod.splits sum.splits)
  have "committed (oc_conn o2) = working o4" "open_txn (oc_conn o2) = None"
    using c by (auto simp: on_txn_def txn_commit_def working_def current_def split: option.splits prod.splits)
  with begun [OF b] run show ?thesis
    by (intro that [of o3 o4]) (auto simp: in_open_def)
qed

end

lemma ok_archive_note:
  assumes "\<And>cref. op_keeps P (set_cold_ref flt cref k)"
  shows "ok_keeps (\<lambda>o1. P (working o1)) (archive_note W self flt ev k t l m a b)"
  unfolding archive_note_def
  by (auto intro!: ok_intros ok_keeps_op [OF assms] split: option.split)

lemma archive_open: "op_keeps (in_open d) (archive_note W self flt ev k t l m a b)"
  unfolding archive_note_def by (intro keeps_intros)

interpretation write_txn: txn_body "write_body W self flt ev params n superseded"
  for W self flt ev params n superseded
  by unfold_locales
    (unfold write_body_def Let_def, intro keeps_intros archive_open)

interpretation checkpoint_txn: txn_body "checkpoint_body W self flt ev task_id content metadata"
  for W self flt ev task_id content metadata
  by unfold_locales
    (unfold checkpoint_body_def Let_def, intro keeps_intros archive_open)

section \<open>Plans\<close>

text \<open>What a plan that passed the guards holds.\<close>

lemma build_note_Ok:
  assumes "build_note W self flt ev db params content layer category decision embedding dedup = Ok n"
  shows "ni_id n = we_uuid ev" "ni_content n = content" "ni_layer n = layer" "ni_category n = category"
    "ni_is_active n" "ni_is_head n" "ni_evolution_state n = Some (lit ''active'')"
    "ni_project_id n = Some (wo_project_id self)" "ni_vector_blob n = map_option vector_to_blob embedding"
    "embedding = None \<Longrightarrow> ni_vector_json n = None"
  using assms
  by (auto simp: build_note_def Let_def and_then_Inr_iff print_option_def simp del: lit_simps)

definition placed_layer :: "write_lib \<Rightarrow> add_params \<Rightarrow> ustr" where
  "placed_layer W params = fst (place_memory W params (trim (ap_content params)))"

lemma plan_write_OkE:
  assumes "plan_write W self flt ev db params = Ok plan"
  obtains layer category decision dedup n where
    "place_memory W params (trim (ap_content params)) = (layer, category)"
    "trim (ap_content params) \<noteq> []" "layer \<noteq> lit ''identity_schema''"
    "decision = (if layer = lit ''verified_fact''
       then Some (evaluate (wl_policy W) (policy_input params (trim (ap_content params)) layer category)) else None)"
    "case decision of None \<Rightarrow> True | Some d \<Rightarrow> allow_durable d"
    "case wl_embed_text W (trim (ap_content params)) of None \<Rightarrow> True | Some emb \<Rightarrow> length emb = EMBEDDING_DIM"
    "dedup_stage W self flt db (trim (ap_content params)) layer (wl_embed_text W (trim (ap_content params))) = Ok dedup"
    "build_note W self flt ev db params (trim (ap_content params)) layer category decision
       (wl_embed_text W (trim (ap_content params))) dedup = Ok n"
    "plan = \<lparr>wp_note = n, wp_superseded = di_superseded dedup,
       wp_embedding = wl_embed_text W (trim (ap_content params))\<rparr>"
proof -
  obtain layer category where p: "place_memory W params (trim (ap_content params)) = (layer, category)"
    by fastforce
  define decision where "decision = (if layer = lit ''verified_fact''
       then Some (evaluate (wl_policy W) (policy_input params (trim (ap_content params)) layer category)) else None)"
  have e: "plan_embedded W self flt ev db params (trim (ap_content params)) layer category decision = Ok plan"
    and c: "trim (ap_content params) \<noteq> []" and l: "layer \<noteq> lit ''identity_schema''"
    and d: "case decision of None \<Rightarrow> True | Some d \<Rightarrow> allow_durable d"
    using assms p unfolding decision_def
    by (auto simp: plan_write_def Let_def simp del: lit_simps split: if_splits)
  from e obtain dedup n where
    "dedup_stage W self flt db (trim (ap_content params)) layer (wl_embed_text W (trim (ap_content params))) = Ok dedup"
    "build_note W self flt ev db params (trim (ap_content params)) layer category decision
       (wl_embed_text W (trim (ap_content params))) dedup = Ok n"
    "plan = \<lparr>wp_note = n, wp_superseded = di_superseded dedup,
       wp_embedding = wl_embed_text W (trim (ap_content params))\<rparr>"
    "case wl_embed_text W (trim (ap_content params)) of None \<Rightarrow> True | Some emb \<Rightarrow> length emb = EMBEDDING_DIM"
    by (auto simp: plan_embedded_def Let_def and_then_Inr_iff simp del: lit_simps split: if_splits option.splits)
  with that [OF p c l decision_def d] show ?thesis by blast
qed

lemma plan_write_Ok:
  assumes "plan_write W self flt ev db params = Ok plan"
  shows "ni_id (wp_note plan) = we_uuid ev"
    "ni_content (wp_note plan) = trim (ap_content params)" "trim (ap_content params) \<noteq> []"
    "ni_layer (wp_note plan) = placed_layer W params" "placed_layer W params \<noteq> lit ''identity_schema''"
    "ni_is_active (wp_note plan)" "ni_is_head (wp_note plan)"
    "ni_evolution_state (wp_note plan) = Some (lit ''active'')"
    "ni_project_id (wp_note plan) = Some (wo_project_id self)"
    "wp_embedding plan = wl_embed_text W (trim (ap_content params))"
    "wp_embedding plan = Some emb \<Longrightarrow> length emb = EMBEDDING_DIM"
    "ni_vector_blob (wp_note plan) = map_option vector_to_blob (wp_embedding plan)"
    "wp_embedding plan = None \<Longrightarrow> ni_vector_json (wp_note plan) = None"
proof -
  from plan_write_OkE [OF assms] obtain layer category decision dedup n where
    p: "place_memory W params (trim (ap_content params)) = (layer, category)" and
    c: "trim (ap_content params) \<noteq> []" and l: "layer \<noteq> lit ''identity_schema''" and
    dim: "case wl_embed_text W (trim (ap_content params)) of None \<Rightarrow> True | Some emb \<Rightarrow> length emb = EMBEDDING_DIM" and
    n: "build_note W self flt ev db params (trim (ap_content params)) layer category decision
       (wl_embed_text W (trim (ap_content params))) dedup = Ok n" and
    plan: "plan = \<lparr>wp_note = n, wp_superseded = di_superseded dedup,
       wp_embedding = wl_embed_text W (trim (ap_content params))\<rparr>"
    by metis
  show "ni_id (wp_note plan) = we_uuid ev"
    "ni_content (wp_note plan) = trim (ap_content params)" "trim (ap_content params) \<noteq> []"
    "ni_layer (wp_note plan) = placed_layer W params" "placed_layer W params \<noteq> lit ''identity_schema''"
    "ni_is_active (wp_note plan)" "ni_is_head (wp_note plan)"
    "ni_evolution_state (wp_note plan) = Some (lit ''active'')"
    "ni_project_id (wp_note plan) = Some (wo_project_id self)"
    "wp_embedding plan = wl_embed_text W (trim (ap_content params))"
    "wp_embedding plan = Some emb \<Longrightarrow> length emb = EMBEDDING_DIM"
    "ni_vector_blob (wp_note plan) = map_option vector_to_blob (wp_embedding plan)"
    "wp_embedding plan = None \<Longrightarrow> ni_vector_json (wp_note plan) = None"
    using build_note_Ok [OF n] plan dim c l p by (simp_all add: placed_layer_def del: lit_simps)
qed

lemma checkpoint_note_simps:
  "ni_id (checkpoint_note W self ev content j) = we_uuid ev"
  "ni_layer (checkpoint_note W self ev content j) = lit ''event_log''"
  "ni_vector_blob (checkpoint_note W self ev content j) = map_option vector_to_blob (wl_embed_text W content)"
  "ni_content (checkpoint_note W self ev content j) = content"
  by (simp_all add: checkpoint_note_def Let_def)

end
