(* ===== verification/Write_Invariants.thy ===== *)
theory Write_Invariants
  imports Write_Laws
begin

text \<open>
  Invariants of the notes through the write path. An invariant that survives the row updates
  the code makes (they keep ids, contents and layers and revive no note) survives every
  statement of \<open>core/write_orchestrator.rs\<close> but the upsert; with the upsert it survives every
  run of writes, checkpoints and reported outcomes.
\<close>

section \<open>Row updates of the write path\<close>

text \<open>The activity of the rows of \<open>N\<close> is left alone.\<close>

definition tame :: "ustr set \<Rightarrow> (note_row \<Rightarrow> bool) \<Rightarrow> (note_row \<Rightarrow> note_row) \<Rightarrow> bool" where
  "tame N Q f \<longleftrightarrow> (\<forall>r. nr_id (f r) = nr_id r \<and> nr_content (f r) = nr_content r \<and>
     nr_layer (f r) = nr_layer r \<and> nr_project_id (f r) = nr_project_id r \<and>
     nr_vector_blob (f r) = nr_vector_blob r \<and> nr_vector_json (f r) = nr_vector_json r \<and>
     (retired r \<longrightarrow> retired (f r)) \<and> nr_is_active (f r) \<in> {0, nr_is_active r} \<and>
     (Q r \<longrightarrow> nr_id r \<in> N \<longrightarrow> nr_is_active (f r) = nr_is_active r \<and>
        nr_evolution_state (f r) = nr_evolution_state r))"

locale write_invariant =
  fixes P :: "db \<Rightarrow> bool" and N :: "ustr set"
  assumes rows: "tame N Q f \<Longrightarrow> P db \<Longrightarrow> P (db\<lparr>note_rows := row_update Q f (note_rows db)\<rparr>)"
    and relations: "P db \<Longrightarrow> P (db\<lparr>note_relations := rels\<rparr>)"
    and events: "P db \<Longrightarrow> P (db\<lparr>note_events := evs\<rparr>)"
    and dreams: "P db \<Longrightarrow> P (db\<lparr>dream_candidates := ds\<rparr>)"
begin

lemma keeps_rows:
  "tame N Q f \<Longrightarrow> op_keeps P (sql_exec flt (\<lambda>db. (db\<lparr>note_rows := row_update Q f (note_rows db)\<rparr>, g db)))"
  by (rule op_keeps_exec) (simp add: rows)

lemma keeps_relation: "op_keeps P (insert_note_relation flt a b ty s)"
  unfolding insert_note_relation_def by (rule op_keeps_exec) (simp add: relations)

lemma keeps_event: "op_keeps P (insert_note_event flt c k ty x p)"
  unfolding insert_note_event_def by (rule op_keeps_exec) (simp add: events)

lemma keeps_supersede: "k \<notin> N \<Longrightarrow> op_keeps P (mark_superseded J flt c k new reason)"
  unfolding mark_superseded_def
  by (intro keeps_intros keeps_rows keeps_relation)
    (auto simp: tame_def retired_def superseded_state_retired simp del: lit_simps)

lemma keeps_contradiction:
  "k \<notin> N \<Longrightarrow> op_keeps P (mark_cross_layer_contradiction W flt c k new sim hard)"
  unfolding mark_cross_layer_contradiction_def
  by (intro keeps_intros keeps_rows keeps_relation)
    (auto simp: tame_def retired_def contradicted_row_def)

lemma keeps_cold_ref: "op_keeps P (set_cold_ref flt cref k)"
  unfolding set_cold_ref_def by (rule keeps_rows) (simp add: tame_def retired_def)

lemma keeps_contradiction_loop:
  "\<forall>r \<in> set rs. nr_id r \<notin> N \<Longrightarrow> P db \<Longrightarrow>
   P (fst (contradiction_loop W flt c terms embedding category new rs done1 db))"
proof (induction rs arbitrary: done1 db)
  case (Cons r rs)
  show ?case
  proof (cases "contradiction W terms embedding category r")
    case None
    with Cons show ?thesis by simp
  next
    case (Some v)
    obtain sim hard where v: "v = (sim, hard)" by fastforce
    obtain db' res where m: "mark_cross_layer_contradiction W flt c (nr_id r) new sim hard db = (db', res)"
      by fastforce
    with Cons.prems op_keepsD [OF keeps_contradiction, of "nr_id r" db] have "P db'"
      by (metis fst_conv list.set_intros(1))
    with Cons Some v m show ?thesis by (cases res) simp_all
  qed
qed simp

lemma keeps_scan:
  assumes "N \<subseteq> {new}" "P db"
  shows "P (fst (cross_layer_contradiction_scan W self flt c new content category embedding who db))"
proof -
  have "\<forall>r \<in> set (scan_candidates self new db). nr_id r \<notin> N"
    using assms(1) by (auto simp: scan_candidates_def dest!: in_set_takeD)
  with assms(2) show ?thesis
    by (simp add: cross_layer_contradiction_scan_def Let_def keeps_contradiction_loop)
qed

lemma keeps_link_loop: "P db \<Longrightarrow> P (fst (link_loop flt new targets linked db))"
proof (induction targets arbitrary: linked db)
  case (Cons x targets)
  obtain target sim where x: "x = (target, sim)" by fastforce
  obtain db' res where m: "insert_note_relation (\<lambda>s. flt (LinkRelation target)) new target
      (lit ''supports'') (link_strength sim) db = (db', res)" by fastforce
  with Cons.prems op_keepsD [OF keeps_relation, of db] have "P db'" by (metis fst_conv)
  with Cons.IH x m show ?case by (cases res) simp_all
qed simp

lemma keeps_backfill: "P db \<Longrightarrow> P (backfill_related_ids W flt new linked db)"
  by (auto simp: backfill_related_ids_def Let_def tame_def retired_def intro!: rows split: option.split)

lemma keeps_links: "P db \<Longrightarrow> P (link_related W self flt new embedding layer excl db)"
  using keeps_link_loop [of db flt new "link_candidates W self new embedding layer excl db" "[]"]
  by (auto simp: link_related_def keeps_backfill split: prod.splits)

lemma keeps_after_commit:
  "N \<subseteq> {ni_id (wp_note plan)} \<Longrightarrow> P db \<Longrightarrow> P (after_commit W self flt ev params plan db)"
  by (simp add: after_commit_def Let_def keeps_links keeps_scan split: option.split)

end

end
