(* ===== verification/Write_Runs.thy ===== *)
theory Write_Runs
  imports Write_Invariants
begin

text \<open>
  Runs of the orchestrator: any sequence of \<open>add_memory\<close>, \<open>save_checkpoint\<close> and
  \<open>report_outcome\<close>, with any statement of any of them failing. What is durable keeps the
  invariants of the notes.
\<close>

section \<open>Runs\<close>

datatype orch_cmd =
    AddMemory add_params
  | SaveCheckpoint ustr ustr json_map
  | ReportOutcome ustr ustr "ustr option"

type_synonym orch_call = "write_stmt faults \<times> write_env \<times> orch_cmd"

fun run_call :: "write_lib \<Rightarrow> orchestrator \<Rightarrow> orch_call \<Rightarrow> orch \<Rightarrow> orch" where
  "run_call W self (flt, ev, AddMemory params) o1 = fst (add_memory W self flt ev params o1)"
| "run_call W self (flt, ev, SaveCheckpoint task_id summary metadata) o1 =
     fst (save_checkpoint W self flt ev task_id summary metadata o1)"
| "run_call W self (flt, ev, ReportOutcome note_id outcome reason) o1 =
     fst (report_outcome W flt ev note_id outcome reason o1)"

definition run_calls :: "write_lib \<Rightarrow> orchestrator \<Rightarrow> orch_call list \<Rightarrow> orch \<Rightarrow> orch" where
  "run_calls W self calls o1 = fold (run_call W self) calls o1"

abbreviation durable :: "orch \<Rightarrow> db" where
  "durable o1 \<equiv> committed (oc_conn o1)"

definition after_feedback ::
  "write_lib \<Rightarrow> write_stmt faults \<Rightarrow> write_env \<Rightarrow> ustr \<Rightarrow> ustr \<Rightarrow> ustr option \<Rightarrow> bool \<Rightarrow> (orch, ustr, unit) op" where
  "after_feedback W flt ev note_id outcome reason updated =
     (if updated then
        op_bind (op_map_err (\<lambda>e. lit ''Hebbian feedback update failed: '' @ e)
          (on_db (apply_hebbian_feedback (wl_json W) (\<lambda>s. flt (WriterStmt note_id s)) (we_clock ev) note_id outcome)))
          (\<lambda>_. op_bind (op_map_err (\<lambda>e. lit ''Dream feedback update failed: '' @ e)
            (on_db (apply_dream_feedback (wl_json W) (\<lambda>s. flt (WriterStmt note_id s)) (we_clock ev) note_id outcome reason)))
            (\<lambda>_. op_return ()))
      else op_return ())"

text \<open>How a reported outcome ends: nothing durable, or everything.\<close>

lemma after_feedback_open: "op_keeps (in_open d) (after_feedback W flt ev note_id outcome reason updated)"
  unfolding after_feedback_def by (intro keeps_intros)

lemma report_outcome_split:
  assumes "on_txn (txn_begin (flt BeginWrite)) o1 = (o2, Ok ())"
    and "on_db (atomic_update_outcome (wl_json W) (\<lambda>s. flt (WriterStmt note_id s)) note_id outcome reason) o2 = (o3, Ok updated)"
  shows "report_outcome W flt ev note_id outcome reason o1 =
    op_bind (after_feedback W flt ev note_id outcome reason updated) (\<lambda>_.
      op_bind (op_map_err (\<lambda>e. lit ''Commit failed: '' @ e) (on_txn (txn_commit (flt CommitWrite))))
        (\<lambda>_. op_return updated)) o3"
  using assms by (simp add: report_outcome_def after_feedback_def Let_def del: lit_simps)

lemma commit_ends:
  assumes "in_open d o1" "on_txn (txn_commit f) o1 = (o2, r)"
  shows "(\<exists>e. r = Err e) \<and> o2 = o1 \<or> r = Ok () \<and> durable o2 = working o1 \<and> open_txn (oc_conn o2) = None"
  using assms
  by (auto simp: on_txn_def txn_commit_def in_open_def working_def current_def split: option.splits prod.splits)

lemma report_outcome_ends:
  assumes "report_outcome W flt ev note_id outcome reason o1 = (o2, r)"
  shows "durable o2 = durable o1 \<or>
    (\<exists>o3 o4 o5 updated. working o3 = durable o1 \<and>
       on_db (atomic_update_outcome (wl_json W) (\<lambda>s. flt (WriterStmt note_id s)) note_id outcome reason) o3 = (o4, Ok updated) \<and>
       after_feedback W flt ev note_id outcome reason updated o4 = (o5, Ok ()) \<and> durable o2 = working o5)"
proof -
  obtain o3 r1 where b: "on_txn (txn_begin (flt BeginWrite)) o1 = (o3, r1)" by fastforce
  show ?thesis
  proof (cases r1)
    case (Inl e)
    with b assms show ?thesis
      by (auto simp: report_outcome_def Let_def on_txn_def txn_begin_def simp del: lit_simps
          split: option.splits prod.splits)
  next
    case (Inr u)
    with b have b': "on_txn (txn_begin (flt BeginWrite)) o1 = (o3, Ok ())" by simp
    have open3: "in_open (durable o1) o3" and w3: "working o3 = durable o1"
      using write_txn.begun [OF b'] by simp_all
    let ?upd = "on_db (atomic_update_outcome (wl_json W) (\<lambda>s. flt (WriterStmt note_id s)) note_id outcome reason)"
    obtain o4 r2 where up: "?upd o3 = (o4, r2)" by fastforce
    have open4: "in_open (durable o1) o4"
      using op_keepsD [OF op_keeps_on_db open3] up by (metis fst_conv)
    show ?thesis
    proof (cases r2)
      case (Inl e)
      with b' up open4 assms show ?thesis
        by (auto simp: report_outcome_def Let_def on_txn_def txn_rollback_def in_open_def simp del: lit_simps
            split: option.splits prod.splits)
    next
      case (Inr updated)
      obtain o5 r3 where fb: "after_feedback W flt ev note_id outcome reason updated o4 = (o5, r3)" by fastforce
      have open5: "in_open (durable o1) o5"
        using op_keepsD [OF after_feedback_open open4] fb by (metis fst_conv)
      obtain o6 r4 where c: "on_txn (txn_commit (flt CommitWrite)) o5 = (o6, r4)" by fastforce
      have "r3 = Ok () \<and> r4 = Ok () \<and> o2 = o6 \<or> durable o2 = durable o1"
        using assms report_outcome_split [OF b' up [unfolded Inr]] fb c commit_ends [OF open5 c] open5
        by (cases r3; cases r4) (auto simp: op_bind_def op_map_err_def in_open_def op_return_def simp del: lit_simps)
      with commit_ends [OF open5 c] w3 up Inr fb show ?thesis by auto
    qed
  qed
qed

section \<open>Invariants of runs\<close>

locale run_invariant = write_invariant P "{}" for P +
  fixes A :: "note_insert \<Rightarrow> bool"
  assumes upsert: "A n \<Longrightarrow> P db \<Longrightarrow> upsert_note flt c n db = (db', Ok ()) \<Longrightarrow> P db'"
begin

lemma ok_upsert: "A n \<Longrightarrow> ok_keeps P (upsert_note flt c n)"
  unfolding ok_keeps_def using upsert by simp

lemma ok_archive: "ok_keeps (\<lambda>o1. P (working o1)) (archive_note W self flt ev k t l m a b)"
  by (rule ok_archive_note) (rule keeps_cold_ref)

lemma ok_write_body: "A n \<Longrightarrow> ok_keeps (\<lambda>o1. P (working o1)) (write_body W self flt ev params n superseded)"
  unfolding write_body_def Let_def
  by (intro ok_intros ok_archive ok_upsert ok_keeps_op [OF keeps_supersede]) auto

lemma keeps_deactivate: "op_keeps P (deactivate_checkpoints_by_task_id J flt task_id excl)"
  unfolding deactivate_checkpoints_by_task_id_def Let_def
  by (rule keeps_rows) (simp add: tame_def retired_def)

lemma ok_checkpoint_body:
  assumes "\<And>j. A (checkpoint_note W self ev content j)"
  shows "ok_keeps (\<lambda>o1. P (working o1)) (checkpoint_body W self flt ev task_id content metadata)"
  unfolding checkpoint_body_def Let_def
  by (intro ok_intros ok_keeps_op [OF op_keeps_query])
    (auto intro!: ok_intros ok_archive ok_upsert ok_keeps_op [OF keeps_deactivate] assms split: option.split)

lemma keeps_dream_loop: "op_keeps P (dream_loop J flt c k out reason cands n)"
proof (induction cands arbitrary: n)
  case (Cons a cands)
  have "op_keeps P (update_dream flt c out reason a)"
    unfolding update_dream_def by (rule op_keeps_exec) (auto simp: dreams split: option.splits)
  with Cons keeps_event show ?case by (auto intro!: keeps_intros)
qed (simp add: keeps_intros)

lemma keeps_outcome: "op_keeps P (atomic_update_outcome J flt k out reason)"
  unfolding atomic_update_outcome_def
  by (auto simp: Let_def tame_def retired_def simp del: lit_simps
      intro!: keeps_intros keeps_rows split: option.split)

lemma keeps_hebbian: "op_keeps P (apply_hebbian_feedback J flt c k out)"
  unfolding apply_hebbian_feedback_def is_trusted_for_strengthening_def hebbian_feedback_edges_def
  by (auto simp: relations Let_def simp del: lit_simps intro!: keeps_intros keeps_event op_keeps_exec)

lemma keeps_dreams: "op_keeps P (apply_dream_feedback J flt c k out reason)"
  unfolding apply_dream_feedback_def by (auto intro!: keeps_intros keeps_dream_loop)

lemma ok_feedback: "ok_keeps (\<lambda>o1. P (working o1)) (after_feedback W flt ev k out reason updated)"
  unfolding after_feedback_def
  by (auto intro!: ok_intros ok_keeps_op [OF keeps_hebbian] ok_keeps_op [OF keeps_dreams])

text \<open>The notes a call may write.\<close>

definition call_ok :: "orch_call \<Rightarrow> bool" where
  "call_ok call = (\<forall>n. ni_id n = we_uuid (fst (snd call)) \<and> ni_layer n \<noteq> lit ''identity_schema'' \<and>
     (\<exists>emb. ni_vector_blob n = map_option vector_to_blob emb) \<longrightarrow> A n)"

lemma durable_add:
  assumes "P (durable o1)" "call_ok (flt, ev, AddMemory params)"
  shows "P (durable (fst (add_memory W self flt ev params o1)))"
proof (cases "plan_write W self flt ev (current (oc_conn o1)) params")
  case (Inl a)
  with assms show ?thesis by (simp add: add_memory_def)
next
  case (Inr plan)
  let ?body = "write_body W self flt ev params (wp_note plan) (wp_superseded plan)"
  have A: "A (wp_note plan)"
    using assms(2) plan_write_Ok(1,4,5,12) [OF Inr] by (auto simp: call_ok_def)
  obtain o2 r where run: "in_transaction flt ?body o1 = (o2, r)" by fastforce
  show ?thesis
  proof (cases r)
    case (Inl e)
    with Inr run write_txn.failed(1) [OF run [unfolded Inl]] assms show ?thesis
      by (simp add: add_memory_def Let_def)
  next
    case ok: (Inr cref)
    obtain o3 o4 where b: "working o3 = durable o1" "?body o3 = (o4, Ok cref)"
      "durable o2 = working o4" "open_txn (oc_conn o2) = None"
      using write_txn.succeeded [OF run [unfolded ok]] by metis
    have "P (durable o2)"
      using ok_keepsD [OF ok_write_body [OF A], of o3 W self flt ev params "wp_superseded plan" o4 cref] b assms(1) by simp
    with Inr run ok b(4) show ?thesis
      by (simp add: add_memory_def Let_def on_db_def on_conn_def current_def keeps_after_commit)
  qed
qed

lemma durable_checkpoint:
  assumes "P (durable o1)" "call_ok (flt, ev, SaveCheckpoint task_id summary metadata)"
  shows "P (durable (fst (save_checkpoint W self flt ev task_id summary metadata o1)))"
proof -
  let ?content = "checkpoint_searchable_content task_id summary metadata"
  have A: "A (checkpoint_note W self ev ?content j)" for j
  proof -
    have "ni_layer (checkpoint_note W self ev ?content j) \<noteq> lit ''identity_schema''"
      by (simp add: checkpoint_note_simps lit_inject del: lit_simps)
    with assms(2) show ?thesis
      unfolding call_ok_def fst_conv snd_conv using checkpoint_note_simps(1,3) by blast
  qed
  obtain o2 r where run: "save_checkpoint W self flt ev task_id summary metadata o1 = (o2, r)" by fastforce
  show ?thesis
  proof (cases r)
    case (Inl e)
    with run assms(1) checkpoint_txn.failed(1) [OF run [unfolded Inl save_checkpoint_def]] show ?thesis by simp
  next
    case (Inr x)
    from checkpoint_txn.succeeded [OF run [unfolded Inr save_checkpoint_def]] obtain o3 o4 where
      "working o3 = durable o1" "checkpoint_body W self flt ev task_id ?content metadata o3 = (o4, Ok x)"
      "durable o2 = working o4" by metis
    with ok_keepsD [OF ok_checkpoint_body [OF A], of o3 flt task_id metadata o4 x] run assms(1)
    show ?thesis by simp
  qed
qed

lemma durable_outcome:
  assumes "P (durable o1)"
  shows "P (durable (fst (report_outcome W flt ev k out reason o1)))"
proof -
  obtain o2 r where run: "report_outcome W flt ev k out reason o1 = (o2, r)" by fastforce
  have step: "P (working o5)" if "P (working o3)"
    "on_db (atomic_update_outcome (wl_json W) (\<lambda>s. flt (WriterStmt k s)) k out reason) o3 = (o4, Ok updated)"
    "after_feedback W flt ev k out reason updated o4 = (o5, Ok ())" for o3 o4 o5 updated
    using ok_keepsD [OF ok_keeps_on_db [OF ok_keeps_op [OF keeps_outcome]] that(1,2)]
      ok_keepsD [OF ok_feedback _ that(3)] by blast
  from report_outcome_ends [OF run] have "P (durable o2)"
  proof (elim disjE exE conjE)
    assume "durable o2 = durable o1" with assms show ?thesis by simp
  next
    fix o3 o4 o5 updated
    assume "working o3 = durable o1" "durable o2 = working o5"
      and runs: "on_db (atomic_update_outcome (wl_json W) (\<lambda>s. flt (WriterStmt k s)) k out reason) o3 = (o4, Ok updated)"
      "after_feedback W flt ev k out reason updated o4 = (o5, Ok ())"
    with assms step [OF _ runs] show ?thesis by simp
  qed
  with run show ?thesis by simp
qed

lemma durable_run:
  assumes "P (durable o1)" "\<forall>call \<in> set calls. call_ok call"
  shows "P (durable (run_calls W self calls o1))"
  using assms
proof (induction calls arbitrary: o1)
  case (Cons call calls)
  obtain flt ev cmd where call: "call = (flt, ev, cmd)" using prod_cases3 by blast
  have "P (durable (run_call W self call o1))"
    using Cons.prems call by (cases cmd) (simp_all add: durable_add durable_checkpoint durable_outcome)
  with Cons show ?case by (simp add: run_calls_def)
qed (simp add: run_calls_def)

end

end
