(* ===== verification/Write_Properties.thy ===== *)
theory Write_Properties
  imports Write_Runs
begin

text \<open>
  The properties of the write path (\<open>core/write_orchestrator.rs\<close>): what all runs of it
  keep: the search index mirrors the notes, and the rules of the constitution keep their text and are at most
  taken out of force.
\<close>

section \<open>The invariants\<close>

lemma tame_ids: "tame N Q f \<Longrightarrow> nr_id (f r) = nr_id r"
  by (simp add: tame_def)

lemma row_get_tame:
  "tame N Q f \<Longrightarrow> row_get nr_id k (row_update Q f rows) =
     map_option (\<lambda>r. if Q r then f r else r) (row_get nr_id k rows)"
  by (rule row_get_update) (rule tame_ids)

lemma upsert_frame:
  assumes "upsert_note flt c n db = (db', Ok ())"
  shows "retired_at k db' = retired_at k (db\<lparr>note_rows := upsert_note_row c n (note_rows db)\<rparr>)"
  by (simp add: retired_at_def upsert_note_Ok(1) [OF assms])

interpretation index_runs: run_invariant fts_mirrors "\<lambda>n. True"
proof
  fix n c flt db db'
  assume "fts_mirrors db" "upsert_note flt c n db = (db', Ok ())"
  then show "fts_mirrors db'" using fts_mirrors_upsert [of db flt c n] by (simp add: in_txn_def)
qed (auto simp: tame_def row_content_update elim!: fts_mirrors_keep)

text \<open>The constitution's rules: identifiers and texts of the \<open>identity_schema\<close> rows.\<close>

definition identity_texts :: "db \<Rightarrow> (ustr \<times> ustr) list" where
  "identity_texts db =
     map (\<lambda>r. (nr_id r, nr_content r)) (filter (\<lambda>r. nr_layer r = lit ''identity_schema'') (note_rows db))"

lemma identity_row_update:
  assumes "\<And>r. r \<in> set rows \<Longrightarrow> P r \<Longrightarrow> nr_id (f r) = nr_id r \<and> (nr_layer r = L \<longleftrightarrow> nr_layer (f r) = L) \<and>
      (nr_layer r = L \<longrightarrow> nr_content (f r) = nr_content r)"
  shows "map (\<lambda>r. (nr_id r, nr_content r)) (filter (\<lambda>r. nr_layer r = L) (row_update P f rows)) =
    map (\<lambda>r. (nr_id r, nr_content r)) (filter (\<lambda>r. nr_layer r = L) rows)"
  using assms by (induction rows) (auto simp: row_update_def)

lemma identity_upsert:
  assumes "ni_layer n \<noteq> lit ''identity_schema''" "ni_id n \<notin> fst ` set (identity_texts db)"
    and "upsert_note flt c n db = (db', Ok ())"
  shows "identity_texts db' = identity_texts db"
proof (cases "row_get nr_id (ni_id n) (note_rows db)")
  case None
  with assms(1) show ?thesis
    by (simp add: identity_texts_def upsert_note_Ok(1) [OF assms(3)] upsert_note_row_def Let_def inserted_row_def
        del: lit_simps)
next
  case (Some r0)
  have "nr_layer r \<noteq> lit ''identity_schema''" if "r \<in> set (note_rows db)" "nr_id r = ni_id n" for r
    using assms(2) that by (force simp: identity_texts_def)
  with assms(1) show ?thesis
    unfolding identity_texts_def upsert_note_Ok(1) [OF assms(3)] upsert_note_row_def Let_def Some option.case
    by (intro identity_row_update) (auto simp: conflict_row_def inserted_row_def simp del: lit_simps)
qed

text \<open>The rules in force: the ones that are active and not superseded or contradicted.\<close>

definition in_force :: "note_row \<Rightarrow> bool" where
  "in_force r \<longleftrightarrow> nr_layer r = lit ''identity_schema'' \<and> nr_is_active r = 1 \<and> \<not> retired r"

definition rules_in_force :: "db \<Rightarrow> (ustr \<times> ustr) set" where
  "rules_in_force db = (\<lambda>r. (nr_id r, nr_content r)) ` {r \<in> set (note_rows db). in_force r}"

text \<open>The same rules with the same texts, and none of them comes into force.\<close>

definition rules_kept :: "db \<Rightarrow> db \<Rightarrow> bool" where
  "rules_kept db db' \<longleftrightarrow> identity_texts db' = identity_texts db \<and> rules_in_force db' \<subseteq> rules_in_force db"

lemma rules_kept_refl [simp]: "rules_kept db db"
  by (simp add: rules_kept_def)

lemma rules_kept_trans: "rules_kept a b \<Longrightarrow> rules_kept b c \<Longrightarrow> rules_kept a c"
  by (auto simp: rules_kept_def)

lemma rules_kept_rows: "note_rows db' = note_rows db \<Longrightarrow> rules_kept db db'"
  by (simp add: rules_kept_def identity_texts_def rules_in_force_def)

lemma rules_kept_frame [simp]:
  "rules_kept db (db'\<lparr>note_relations := rels\<rparr>) = rules_kept db db'"
  "rules_kept db (db'\<lparr>note_events := evs\<rparr>) = rules_kept db db'"
  "rules_kept db (db'\<lparr>dream_candidates := ds\<rparr>) = rules_kept db db'"
  by (simp_all add: rules_kept_def identity_texts_def rules_in_force_def)

lemma in_force_tame: "tame {} Q f \<Longrightarrow> in_force (f r) \<Longrightarrow> in_force r \<and> nr_id (f r) = nr_id r \<and> nr_content (f r) = nr_content r"
  unfolding tame_def in_force_def by (metis insertE singletonD zero_neq_one)

lemma rules_kept_update:
  assumes "tame {} Q f" "rules_kept db0 db"
  shows "rules_kept db0 (db\<lparr>note_rows := row_update Q f (note_rows db)\<rparr>)"
proof -
  have "identity_texts (db\<lparr>note_rows := row_update Q f (note_rows db)\<rparr>) = identity_texts db"
    using assms(1) unfolding identity_texts_def by (simp add: identity_row_update tame_def del: lit_simps)
  moreover have "rules_in_force (db\<lparr>note_rows := row_update Q f (note_rows db)\<rparr>) \<subseteq> rules_in_force db"
    using in_force_tame [OF assms(1)] by (fastforce simp: rules_in_force_def row_update_def split: if_splits)
  ultimately show ?thesis by (intro rules_kept_trans [OF assms(2)]) (simp add: rules_kept_def)
qed

lemma rules_kept_upsert:
  assumes n: "ni_layer n \<noteq> lit ''identity_schema''" "ni_id n \<notin> fst ` set (identity_texts db0)"
    and kept: "rules_kept db0 db" and u: "upsert_note flt c n db = (db', Ok ())"
  shows "rules_kept db0 db'"
proof -
  have n': "ni_id n \<notin> fst ` set (identity_texts db)" using n(2) kept by (simp add: rules_kept_def)
  have layer: "nr_layer (inserted_row (wc_now c) n) \<noteq> lit ''identity_schema''"
    using n(1) by (simp add: inserted_row_def del: lit_simps)
  have "in_force r \<and> r \<in> set (note_rows db)" if r: "r \<in> set (note_rows db')" "in_force r" for r
    using r layer
    by (auto simp: upsert_note_Ok(1) [OF u] upsert_note_row_def Let_def row_update_def in_force_def conflict_row_def
        simp del: lit_simps split: option.splits if_splits)
  then have "rules_in_force db' \<subseteq> rules_in_force db" unfolding rules_in_force_def by blast
  with identity_upsert [OF n(1) n' u] show ?thesis
    by (intro rules_kept_trans [OF kept]) (simp add: rules_kept_def)
qed

interpretation identity_runs: run_invariant "rules_kept db0"
  "\<lambda>n. ni_layer n \<noteq> lit ''identity_schema'' \<and> ni_id n \<notin> fst ` set (identity_texts db0)" for db0
proof
  show "ni_layer n \<noteq> lit ''identity_schema'' \<and> ni_id n \<notin> fst ` set (identity_texts db0) \<Longrightarrow>
      rules_kept db0 db \<Longrightarrow> upsert_note flt c n db = (db', Ok ()) \<Longrightarrow> rules_kept db0 db'" for n db flt c db'
    using rules_kept_upsert by blast
qed (simp_all add: rules_kept_update)

section \<open>Properties of runs\<close>

definition fresh_orch :: "ustr list \<Rightarrow> cold_files \<Rightarrow> orch" where
  "fresh_orch cols files =
     \<lparr>oc_conn = \<lparr>committed = empty_notes_db cols, open_txn = None\<rparr>, oc_files = files\<rparr>"

text \<open>
  C20. After any run of writes, checkpoints and reported outcomes, with any statements
  failing, the durable full-text index is the durable notes: one entry per note, holding the
  note's text.
\<close>

theorem write_path_keeps_index:
  "keys_ok fst (notes_fts (durable (run_calls W self calls (fresh_orch cols files)))) \<and>
   (\<forall>k. fts_read (notes_fts (durable (run_calls W self calls (fresh_orch cols files)))) k =
        row_content (note_rows (durable (run_calls W self calls (fresh_orch cols files)))) k)"
proof -
  have "fts_mirrors (durable (fresh_orch cols files))"
    by (simp add: fresh_orch_def fts_mirrors_def empty_notes_db_def fts_read_def row_content_def)
  then have "fts_mirrors (durable (run_calls W self calls (fresh_orch cols files)))"
    by (rule index_runs.durable_run) (auto simp: index_runs.call_ok_def)
  then show ?thesis by (simp add: fts_mirrors_def)
qed

text \<open>
  C10. No run of writes, checkpoints and outcomes adds a rule to the constitution, deletes one, changes
  the text of one or puts one back in force: that is left to the quorum. What such a run can do to a
  rule is take it out of force. The identifiers of new notes are random; that none is a rule's is
  assumed.
\<close>

theorem identity_rules_keep_their_text:
  assumes "\<forall>call \<in> set calls. we_uuid (fst (snd call)) \<notin> fst ` set (identity_texts (durable o1))"
  shows "identity_texts (durable (run_calls W self calls o1)) = identity_texts (durable o1) \<and>
    rules_in_force (durable (run_calls W self calls o1)) \<subseteq> rules_in_force (durable o1)"
proof -
  have "rules_kept (durable o1) (durable (run_calls W self calls o1))"
  proof (rule identity_runs.durable_run)
    show "\<forall>call \<in> set calls. identity_runs.call_ok (durable o1) call"
      unfolding identity_runs.call_ok_def using assms by metis
  qed simp
  then show ?thesis by (simp add: rules_kept_def)
qed

end
