(* ===== verification/Write_Saves.thy ===== *)
theory Write_Saves
  imports Write_Properties
begin

text \<open>
  One call of \<open>add_memory\<close>: when it does not save, nothing durable changed; when it saves, the
  note is there and what it replaces is retired; repeated, it is a duplicate.
\<close>

section \<open>What deduplication answers\<close>

lemma dedup_step_match: "dd_best_match (dedup_step W q r acc) \<in> {Some (nr_id r), dd_best_match acc}"
  by (auto simp: dedup_step_def Let_def split: option.split)

lemma dedup_best_in:
  assumes "dd_best_match (fold (dedup_step W q) rs acc) = Some k"
  shows "k \<in> nr_id ` set rs \<or> dd_best_match acc = Some k"
  using assms
proof (induction rs arbitrary: acc)
  case (Cons r rs)
  have "k \<in> nr_id ` set rs \<or> dd_best_match (dedup_step W q r acc) = Some k"
    by (rule Cons.IH) (use Cons.prems in simp)
  with dedup_step_match [of W q r acc] show ?case by auto
qed simp

lemma dedup_rows_in: "set (dedup_rows layer db) \<subseteq> set (note_rows db)"
  by (auto simp: dedup_rows_def dest!: in_set_takeD)

lemma check_duplicate_in:
  assumes "dd_best_match (check_duplicate W flt db emb layer) = Some k"
  shows "k \<in> nr_id ` set (note_rows db)"
proof -
  have "dd_best_match (fold (dedup_step W emb) (dedup_rows layer db)
      \<lparr>dd_duplicate = False, dd_best_match = None, dd_best_sim = Fin 0\<rparr>) = Some k"
    using assms by (auto simp: check_duplicate_def Let_def split: if_splits)
  from dedup_best_in [OF this] dedup_rows_in show ?thesis by auto
qed

lemma dedup_superseded_in:
  assumes "dedup_stage W self flt db content layer embedding = Ok info"
  shows "set (di_superseded info) \<subseteq> nr_id ` set (note_rows db)"
proof -
  have "set (di_superseded info) \<subseteq> set_option (dd_best_match (check_duplicate W flt db emb layer))"
    if "embedding = Some emb" for emb
    using assms that
    by (auto simp: dedup_stage_def no_dedup_def Let_def simp del: lit_simps split: if_splits option.splits bool.splits)
  moreover have "di_superseded info = []" if "embedding = None"
    using assms that
    by (auto simp: dedup_stage_def no_dedup_def simp del: lit_simps split: if_splits option.splits)
  ultimately show ?thesis
    using check_duplicate_in by (cases embedding) (auto simp: subset_iff)
qed

lemma plan_superseded_in:
  assumes "plan_write W self flt ev db params = Ok plan"
  shows "set (wp_superseded plan) \<subseteq> nr_id ` set (note_rows db)"
  by (rule plan_write_OkE [OF assms]) (simp add: dedup_superseded_in)

section \<open>The note and what it replaces\<close>

definition holds_note :: "note_insert \<Rightarrow> db \<Rightarrow> bool" where
  "holds_note n db \<longleftrightarrow> (\<exists>r. row_get nr_id (ni_id n) (note_rows db) = Some r \<and>
     nr_content r = ni_content n \<and> nr_layer r = ni_layer n \<and> nr_project_id r = ni_project_id n \<and>
     nr_vector_blob r = ni_vector_blob n \<and> nr_vector_json r = ni_vector_json n \<and>
     nr_is_active r = (if ni_is_active n then 1 else 0) \<and>
     nr_evolution_state r = coalesce (ni_evolution_state n) (Some (lit ''active'')))"

definition replaced :: "ustr \<Rightarrow> db \<Rightarrow> bool" where
  "replaced k db \<longleftrightarrow> (\<exists>r. row_get nr_id k (note_rows db) = Some r \<and> nr_is_active r = 0 \<and> retired r)"

interpretation held: write_invariant "holds_note n" "{ni_id n}" for n
proof
  fix f Q db
  assume tame: "tame {ni_id n} Q f" and "holds_note n db"
  then obtain r where "row_get nr_id (ni_id n) (note_rows db) = Some r" "nr_id r = ni_id n"
    "nr_content r = ni_content n" "nr_layer r = ni_layer n" "nr_project_id r = ni_project_id n"
    "nr_vector_blob r = ni_vector_blob n" "nr_vector_json r = ni_vector_json n"
    "nr_is_active r = (if ni_is_active n then 1 else 0)"
    "nr_evolution_state r = coalesce (ni_evolution_state n) (Some (lit ''active''))"
    by (auto simp: holds_note_def dest: row_get_SomeD simp del: lit_simps)
  with tame show "holds_note n (db\<lparr>note_rows := row_update Q f (note_rows db)\<rparr>)"
    by (simp add: holds_note_def row_get_tame [OF tame] tame_def del: lit_simps)
qed (simp_all add: holds_note_def)

interpretation gone: write_invariant "replaced k" "{}" for k
proof
  fix f Q db
  assume tame: "tame {} Q f" and "replaced k db"
  then obtain r where r: "row_get nr_id k (note_rows db) = Some r" "nr_is_active r = 0" "retired r"
    by (auto simp: replaced_def)
  with tame have "nr_is_active (f r) = 0" "retired (f r)" unfolding tame_def by (metis insert_iff singletonD)+
  with r show "replaced k (db\<lparr>note_rows := row_update Q f (note_rows db)\<rparr>)"
    by (simp add: replaced_def row_get_tame [OF tame])
qed (simp_all add: replaced_def)

text \<open>How many rows answer to a duplicate probe; no statement but the upsert adds one.\<close>

definition twin :: "orchestrator \<Rightarrow> ustr \<Rightarrow> ustr \<Rightarrow> note_row \<Rightarrow> bool" where
  "twin self content layer r \<longleftrightarrow> nr_is_active r = 1 \<and> nr_layer r = layer \<and> nr_content r = content \<and>
     nr_project_id r = Some (wo_project_id self)"

lemma row_count_update_le:
  assumes "\<And>r. P (f r) \<Longrightarrow> P r"
  shows "row_count P (row_update Q f rows) \<le> row_count P rows"
proof (induction rows)
  case (Cons r rows)
  then show ?case using assms [of r] by (cases "Q r"; cases "P r"; cases "P (f r)") (simp_all add: row_count_def row_update_def)
qed (simp add: row_count_def row_update_def)

interpretation twins: write_invariant "\<lambda>db. row_count (twin self content layer) (note_rows db) \<le> m" "{}"
  for self content layer m
proof
  fix f Q db
  assume "tame {} Q f" "row_count (twin self content layer) (note_rows db) \<le> m"
  moreover have "twin self content layer (f r) \<Longrightarrow> twin self content layer r" if "tame {} Q f" for r
    using that unfolding tame_def twin_def by (metis insert_iff singletonD zero_neq_one)
  ultimately show "row_count (twin self content layer)
      (note_rows (db\<lparr>note_rows := row_update Q f (note_rows db)\<rparr>)) \<le> m"
    using row_count_update_le [of "twin self content layer" f Q "note_rows db"] by fastforce
qed simp_all

section \<open>The body of a write that succeeds\<close>

lemma fresh_upsert:
  assumes "upsert_note flt c n db = (db', Ok ())" "row_get nr_id (ni_id n) (note_rows db) = None"
  shows "note_rows db' = note_rows db @ [inserted_row (wc_now c) n]"
  using assms(2) by (simp add: upsert_note_Ok(1) [OF assms(1)] upsert_note_row_def)

lemma fresh_holds:
  assumes "upsert_note flt c n db = (db', Ok ())" "row_get nr_id (ni_id n) (note_rows db) = None"
  shows "holds_note n db'"
  using assms(2) by (simp add: holds_note_def fresh_upsert [OF assms] row_get_append inserted_row_def)

lemma mark_superseded_replaced:
  assumes "mark_superseded J flt c k new reason db = (db', Ok ())"
  shows "replaced k db'"
proof -
  let ?f = "\<lambda>r. r\<lparr>nr_evolution_state := Some (superseded_state reason), nr_is_head := Some 0, nr_is_active := 0,
      nr_confidence := Some (max (f64_lit 0.1)
        (f64_sub (case nr_confidence r of None \<Rightarrow> f64_lit 0.9 | Some x \<Rightarrow> x) (f64_lit 0.1))),
      nr_updated_at := Some (wc_sql_now c)\<rparr>"
  let ?db1 = "db\<lparr>note_rows := row_update (\<lambda>r. nr_id r = k) ?f (note_rows db)\<rparr>"
  have count: "row_count (\<lambda>r. nr_id r = k) (note_rows db) \<noteq> 0" and flt: "flt SupersedeNote = None"
    using assms by (auto simp: mark_superseded_def op_bind_def sql_exec_def op_fail_def split: option.splits if_splits)
  then obtain r where "row_get nr_id k (note_rows db) = Some r"
    by (cases "row_get nr_id k (note_rows db)") (auto simp: row_count_0 row_get_None)
  then have r1: "replaced k ?db1"
    by (simp add: replaced_def row_get_update_key retired_def superseded_state_retired del: lit_simps)
  have meta: "tame {} (\<lambda>r. nr_id r = k) (\<lambda>r. r\<lparr>nr_metadata_json := m\<rparr>)" for m
    by (simp add: tame_def retired_def)
  from assms count flt obtain m where
    run: "op_bind (sql_exec (flt UpdateMetadata) (\<lambda>db. (db\<lparr>note_rows := row_update (\<lambda>r. nr_id r = k)
        (\<lambda>r. r\<lparr>nr_metadata_json := Some m\<rparr>) (note_rows db)\<rparr>, ())))
      (\<lambda>_. if superseded_state reason = lit ''superseded''
           then insert_note_relation flt new k (lit ''forget_cascade'') 1 else op_return ()) ?db1 = (db', Ok ())"
    unfolding mark_superseded_def
    by (auto simp: op_simps op_fail_Ok sql_query_Ok simp del: lit_simps elim!: op_bind_OkE split: option.splits)
  have "op_keeps (replaced k) (op_bind (sql_exec (flt UpdateMetadata) (\<lambda>db. (db\<lparr>note_rows := row_update (\<lambda>r. nr_id r = k)
        (\<lambda>r. r\<lparr>nr_metadata_json := Some m\<rparr>) (note_rows db)\<rparr>, ())))
      (\<lambda>_. if superseded_state reason = lit ''superseded''
           then insert_note_relation flt new k (lit ''forget_cascade'') 1 else op_return ()))"
    by (intro keeps_intros gone.keeps_rows meta gone.keeps_relation)
  from op_keepsD [OF this r1] run show ?thesis by simp
qed

text \<open>The loop that retires the replaced notes.\<close>

lemma supersede_loop:
  assumes "op_each (\<lambda>sid. op_map_err (h sid) (on_db (mark_superseded J (flt sid) c sid new reason))) sids o1 = (o2, Ok ())"
    and "k \<in> set sids"
  shows "replaced k (working o2)"
  using assms
proof (induction sids arbitrary: o1)
  case (Cons sid sids)
  from Cons.prems(1) obtain o3 where
    first: "on_db (mark_superseded J (flt sid) c sid new reason) o1 = (o3, Ok ())" and
    rest: "op_each (\<lambda>sid. op_map_err (h sid) (on_db (mark_superseded J (flt sid) c sid new reason))) sids o3 = (o2, Ok ())"
    by (auto simp: op_map_err_Ok elim!: op_bind_OkE)
  have keeps: "ok_keeps (\<lambda>o1. replaced k (working o1))
      (op_each (\<lambda>sid. op_map_err (h sid) (on_db (mark_superseded J (flt sid) c sid new reason))) sids)"
    by (intro ok_intros ok_keeps_op [OF gone.keeps_supersede]) simp
  show ?case
  proof (cases "k = sid")
    case True
    with mark_superseded_replaced [OF on_db_Ok [OF first]] ok_keepsD [OF keeps _ rest] show ?thesis by simp
  next
    case False
    with Cons.prems(2) Cons.IH [OF rest] show ?thesis by simp
  qed
qed simp

lemma archive_keeps:
  "write_invariant P N \<Longrightarrow> ok_keeps (\<lambda>o1. P (working o1)) (archive_note W self flt ev k t l m a b)"
  by (rule ok_archive_note) (rule write_invariant.keeps_cold_ref)

lemma write_body_Ok:
  assumes "write_body W self flt ev params n superseded o1 = (o2, Ok cref)"
    and "row_get nr_id (ni_id n) (note_rows (working o1)) = None"
    and "ni_id n \<notin> set superseded"
  shows "holds_note n (working o2)" "k \<in> set superseded \<Longrightarrow> replaced k (working o2)"
    "(\<And>m. write_invariant (\<lambda>db. row_count Q (note_rows db) \<le> m) {}) \<Longrightarrow>
     row_count Q (note_rows (working o2)) \<le> Suc (row_count Q (note_rows (working o1)))"
proof -
  let ?loop = "op_each (\<lambda>sid. op_map_err (\<lambda>e. lit ''Failed to mark '' @ sid @ lit '' as superseded: '' @ e)
      (on_db (mark_superseded (wl_json W) (\<lambda>s. flt (WriterStmt sid s)) (we_clock ev) sid (ni_id n)
        (lit ''auto_supersede'')))) superseded"
  let ?archive = "\<lambda>m. archive_note W self flt ev (ni_id n) (ni_content n) (ni_layer n) m
      (lit ''Cold storage append failed: '') (lit ''Cold storage ref update failed: '')"
  from assms(1) obtain o3 o4 m where
    up: "on_db (upsert_note (\<lambda>s. flt (WriterStmt (ni_id n) s)) (we_clock ev) n) o1 = (o3, Ok ())" and
    loop: "?loop o3 = (o4, Ok ())" and archive: "?archive m o4 = (o2, Ok cref)"
    unfolding write_body_def Let_def by (auto simp: op_map_err_Ok simp del: lit_simps elim!: op_bind_OkE)
  have fresh: "row_get nr_id (ni_id n) (note_rows (working o1)) = None" by (rule assms(2))
  have loop_keeps: "ok_keeps (\<lambda>o1. P (working o1)) ?loop" if "write_invariant P N" "\<forall>k \<in> set superseded. k \<notin> N" for P N
    using that by (intro ok_intros ok_keeps_op [OF write_invariant.keeps_supersede [OF that(1)]]) blast
  show "holds_note n (working o2)"
    using fresh_holds [OF on_db_Ok [OF up] fresh]
      ok_keepsD [OF loop_keeps [OF held.write_invariant_axioms] _ loop] assms(3)
      ok_keepsD [OF archive_keeps [OF held.write_invariant_axioms] _ archive] by blast
  show "k \<in> set superseded \<Longrightarrow> replaced k (working o2)"
    using supersede_loop [OF loop] ok_keepsD [OF archive_keeps [OF gone.write_invariant_axioms] _ archive] by blast
  assume inv: "\<And>m. write_invariant (\<lambda>db. row_count Q (note_rows db) \<le> m) {}"
  have "row_count Q (note_rows (working o3)) \<le> Suc (row_count Q (note_rows (working o1)))"
    by (simp add: fresh_upsert [OF on_db_Ok [OF up] fresh] row_count_def)
  with ok_keepsD [OF loop_keeps [OF inv] _ loop] ok_keepsD [OF archive_keeps [OF inv] _ archive]
  show "row_count Q (note_rows (working o2)) \<le> Suc (row_count Q (note_rows (working o1)))" by blast
qed

section \<open>A saved memory\<close>

lemma dedup_not_saved: "dedup_stage W self flt db content layer embedding \<noteq> Err (Saved a b c d e)"
  by (auto simp: dedup_stage_def Let_def simp del: lit_simps split: if_splits option.splits bool.splits)

lemma and_then_Err: "and_then r f = Err e \<longleftrightarrow> r = Err e \<or> (\<exists>x. r = Ok x \<and> f x = Err e)"
  by (cases r) auto

lemma build_not_saved:
  "build_note W self flt ev db params content layer category decision embedding dedup \<noteq> Err (Saved a b c d e)"
  by (auto simp: build_note_def Let_def and_then_Err print_option_def simp del: lit_simps split: option.splits)

lemma plan_not_saved: "plan_write W self flt ev db params \<noteq> Err (Saved a b c d e)"
proof -
  have "plan_embedded W self flt ev db params content layer category decision \<noteq> Err (Saved a b c d e)"
    for content layer category decision
    using dedup_not_saved build_not_saved
    by (auto simp: plan_embedded_def Let_def and_then_Err simp del: lit_simps)
  then show ?thesis
    by (auto simp: plan_write_def Let_def simp del: lit_simps split: prod.split)
qed

lemma add_memory_SavedE:
  assumes "add_memory W self flt ev params o1 = (o2, Saved k layer cref superseded warnings)"
  obtains plan o3 where "plan_write W self flt ev (current (oc_conn o1)) params = Ok plan"
    "in_transaction flt (write_body W self flt ev params (wp_note plan) (wp_superseded plan)) o1 = (o3, Ok cref)"
    "k = ni_id (wp_note plan)" "layer = ni_layer (wp_note plan)" "superseded = wp_superseded plan"
    "durable o2 = after_commit W self flt ev params plan (durable o3)" "open_txn (oc_conn o2) = None"
proof (cases "plan_write W self flt ev (current (oc_conn o1)) params")
  case (Inl a)
  with assms plan_not_saved show ?thesis by (auto simp: add_memory_def)
next
  case (Inr plan)
  obtain o3 r where run: "in_transaction flt (write_body W self flt ev params (wp_note plan) (wp_superseded plan)) o1 = (o3, r)"
    by fastforce
  with Inr assms obtain c where r: "r = Ok c" by (cases r) (auto simp: add_memory_def Let_def)
  have "open_txn (oc_conn o3) = None" using write_txn.succeeded [OF run [unfolded r]] by metis
  with Inr run r assms show ?thesis
    by (intro that [of plan o3]) (auto simp: add_memory_def Let_def on_db_def on_conn_def current_def)
qed

text \<open>
  C6. A write that does not save changes nothing durable: whichever guard, policy,
  deduplication, statement, file operation or commit stops it, the committed notes are those
  before the call, and unless the COMMIT or the ROLLBACK itself fails no transaction is left
  open.
\<close>

theorem unsaved_write_changes_nothing:
  assumes "add_memory W self flt ev params o1 = (o2, answer)"
    and "\<forall>k layer cref superseded warnings. answer \<noteq> Saved k layer cref superseded warnings"
  shows "durable o2 = durable o1 \<and>
    (flt RollbackWrite = None \<and> flt CommitWrite = None \<longrightarrow> open_txn (oc_conn o2) = open_txn (oc_conn o1))"
proof (cases "plan_write W self flt ev (current (oc_conn o1)) params")
  case (Inl a)
  with assms(1) show ?thesis by (simp add: add_memory_def)
next
  case (Inr plan)
  obtain o3 r where run: "in_transaction flt (write_body W self flt ev params (wp_note plan) (wp_superseded plan)) o1 = (o3, r)"
    by fastforce
  with Inr assms obtain e where r: "r = Err e" by (cases r) (auto simp: add_memory_def Let_def)
  with Inr run assms(1) have "o3 = o2" by (simp add: add_memory_def Let_def)
  with write_txn.failed [OF run [unfolded r]] show ?thesis by simp
qed

lemma saved_facts:
  assumes "add_memory W self flt ev params o1 = (o2, Saved k layer cref superseded warnings)"
    and "row_get nr_id (we_uuid ev) (note_rows (durable o1)) = None"
    and "plan_write W self flt ev (current (oc_conn o1)) params = Ok plan"
  shows "holds_note (wp_note plan) (durable o2)" "s \<in> set superseded \<Longrightarrow> replaced s (durable o2)"
    "row_count (twin self c l) (note_rows (durable o2)) \<le> Suc (row_count (twin self c l) (note_rows (durable o1)))"
proof -
  from add_memory_SavedE [OF assms(1)] assms(3) obtain o3 where
    run: "in_transaction flt (write_body W self flt ev params (wp_note plan) (wp_superseded plan)) o1 = (o3, Ok cref)" and
    sup: "superseded = wp_superseded plan" and
    fin: "durable o2 = after_commit W self flt ev params plan (durable o3)" by (metis sum.inject(2))
  from write_txn.succeeded [OF run] obtain o4 o5 where
    none: "open_txn (oc_conn o1) = None" and w4: "working o4 = durable o1" and
    body: "write_body W self flt ev params (wp_note plan) (wp_superseded plan) o4 = (o5, Ok cref)" and
    d3: "durable o3 = working o5" by metis
  have fresh: "row_get nr_id (ni_id (wp_note plan)) (note_rows (working o4)) = None"
    using assms(2) w4 plan_write_Ok(1) [OF assms(3)] by simp
  moreover have "current (oc_conn o1) = durable o1" using none by (simp add: current_def)
  ultimately have "ni_id (wp_note plan) \<notin> set (wp_superseded plan)"
    using plan_superseded_in [OF assms(3)] w4 by (auto simp: row_get_None)
  note body_facts = write_body_Ok [OF body fresh this]
  show "holds_note (wp_note plan) (durable o2)"
    unfolding fin d3 by (rule held.keeps_after_commit [OF subset_refl body_facts(1)])
  show "s \<in> set superseded \<Longrightarrow> replaced s (durable o2)"
    unfolding fin d3 sup by (rule gone.keeps_after_commit [OF _ body_facts(2)]) simp_all
  show "row_count (twin self c l) (note_rows (durable o2)) \<le> Suc (row_count (twin self c l) (note_rows (durable o1)))"
    unfolding fin d3 w4 [symmetric]
    by (rule twins.keeps_after_commit [OF _ body_facts(3) [OF twins.write_invariant_axioms]]) simp
qed

text \<open>
  C7. What is saved is there: the answer names the note's row, durable with the trimmed,
  non-empty content, the layer the answer names, which is never \<open>identity_schema\<close>, the
  project and the embedding of the content as its stored vector, active; every note the answer
  lists as superseded is durable, inactive and retired; and no transaction is open.
\<close>

theorem saved_memory_is_durable:
  assumes "add_memory W self flt ev params o1 = (o2, Saved k layer cref superseded warnings)"
    and "row_get nr_id (we_uuid ev) (note_rows (durable o1)) = None"
  shows "open_txn (oc_conn o2) = None \<and> layer \<noteq> lit ''identity_schema'' \<and>
    (\<exists>r. row_get nr_id k (note_rows (durable o2)) = Some r \<and> nr_content r = trim (ap_content params) \<and>
      nr_content r \<noteq> [] \<and> nr_layer r = layer \<and> nr_is_active r = 1 \<and>
      nr_evolution_state r = Some (lit ''active'') \<and> nr_project_id r = Some (wo_project_id self) \<and>
      map_option blob_to_vector (nr_vector_blob r) = wl_embed_text W (trim (ap_content params))) \<and>
    (\<forall>s \<in> set superseded. \<exists>r. row_get nr_id s (note_rows (durable o2)) = Some r \<and> nr_is_active r = 0 \<and>
      nr_evolution_state r \<noteq> Some (lit ''active'') \<and> nr_evolution_state r \<noteq> None)"
proof (intro conjI ballI)
  from add_memory_SavedE [OF assms(1)] obtain plan where
    plan: "plan_write W self flt ev (current (oc_conn o1)) params = Ok plan" and
    k: "k = ni_id (wp_note plan)" "layer = ni_layer (wp_note plan)" and
    o2: "open_txn (oc_conn o2) = None" by metis
  show "open_txn (oc_conn o2) = None" by (rule o2)
  show "layer \<noteq> lit ''identity_schema''" using plan_write_Ok(4,5) [OF plan] k by simp
  have "map_option blob_to_vector (map_option vector_to_blob e) = e" for e
    by (cases e) (simp_all add: blob_roundtrip)
  with saved_facts(1) [OF assms plan] plan_write_Ok [OF plan] k
  show "\<exists>r. row_get nr_id k (note_rows (durable o2)) = Some r \<and> nr_content r = trim (ap_content params) \<and>
      nr_content r \<noteq> [] \<and> nr_layer r = layer \<and> nr_is_active r = 1 \<and>
      nr_evolution_state r = Some (lit ''active'') \<and> nr_project_id r = Some (wo_project_id self) \<and>
      map_option blob_to_vector (nr_vector_blob r) = wl_embed_text W (trim (ap_content params))"
    by (auto simp: holds_note_def simp del: lit_simps)
  show "\<exists>r. row_get nr_id s (note_rows (durable o2)) = Some r \<and> nr_is_active r = 0 \<and>
      nr_evolution_state r \<noteq> Some (lit ''active'') \<and> nr_evolution_state r \<noteq> None" if "s \<in> set superseded" for s
    using saved_facts(2) [OF assms plan that] by (auto simp: replaced_def retired_def simp del: lit_simps)
qed

section \<open>A repeated memory\<close>

lemma find_Some_if: "x \<in> set xs \<Longrightarrow> P x \<Longrightarrow> \<exists>y. find P xs = Some y"
  by (induction xs) auto

lemma length_sort_desc [simp]: "length (sort_desc f xs) = length xs"
  by (simp add: sort_desc_def)

lemma exact_duplicate_found:
  assumes "flt ExactDup = None" "holds_note n db" "ni_is_active n" "ni_project_id n = Some (wo_project_id self)"
    and "ni_vector_blob n = map_option vector_to_blob emb" "emb = None \<Longrightarrow> ni_vector_json n = None"
    and "case emb of None \<Rightarrow> True | Some e \<Rightarrow> length e = EMBEDDING_DIM"
    and "row_count (twin self (ni_content n) (ni_layer n)) (note_rows db) \<le> DEDUP_CANDIDATE_LIMIT"
  shows "\<exists>k. find_exact_duplicate W self flt db (ni_content n) (ni_layer n) (map_option length emb) = Some k"
proof -
  from assms(2-4) obtain r where r: "r \<in> set (note_rows db)" "twin self (ni_content n) (ni_layer n) r"
    "nr_vector_blob r = ni_vector_blob n" "nr_vector_json r = ni_vector_json n"
    by (auto simp: holds_note_def twin_def simp del: lit_simps dest: row_get_SomeD)
  let ?rows = "take DEDUP_CANDIDATE_LIMIT (sort_desc coalesce_created (sort_key nr_id
      (filter (twin self (ni_content n) (ni_layer n)) (note_rows db))))"
  have "r \<in> set ?rows"
    using assms(8) r by (simp add: row_count_def)
  moreover have "exact_duplicate_vector_compatible W (nr_vector_blob r) (nr_vector_json r) (map_option length emb)"
    using assms(5-7) r(3,4)
    by (cases emb) (simp_all add: exact_duplicate_vector_compatible_def stored_vector_state_def length_blob EMBEDDING_DIM_def)
  ultimately obtain y where "find (\<lambda>r. exact_duplicate_vector_compatible W (nr_vector_blob r) (nr_vector_json r)
      (map_option length emb)) ?rows = Some y" using find_Some_if by metis
  moreover have "filter (\<lambda>r. nr_is_active r = 1 \<and> nr_layer r = ni_layer n \<and> nr_content r = ni_content n \<and>
      nr_project_id r = Some (wo_project_id self)) (note_rows db) = filter (twin self (ni_content n) (ni_layer n)) (note_rows db)"
    by (simp add: twin_def [abs_def])
  ultimately show ?thesis using assms(1) by (simp add: find_exact_duplicate_def Let_def)
qed

text \<open>
  C8. A write is idempotent: sent again after it was saved, with any identifier and clock, the
  same memory is refused as an exact duplicate of an active note and the state stays as it
  is. Events are exempt. The probe looks at fifty rows, so fewer than fifty active copies may
  exist before.
\<close>

theorem repeated_write_is_duplicate:
  assumes "add_memory W self flt ev params o1 = (o2, Saved k layer cref superseded warnings)"
    and "row_get nr_id (we_uuid ev) (note_rows (durable o1)) = None"
    and "layer \<noteq> lit ''event_log''" "flt' ExactDup = None"
    and "row_count (twin self (trim (ap_content params)) layer) (note_rows (durable o1)) < DEDUP_CANDIDATE_LIMIT"
  shows "\<exists>k'. add_memory W self flt' ev' params o2 = (o2, Duplicate k' (Fin 1))"
proof -
  from add_memory_SavedE [OF assms(1)] obtain plan where
    plan: "plan_write W self flt ev (current (oc_conn o1)) params = Ok plan" and
    l: "layer = ni_layer (wp_note plan)" and o2: "open_txn (oc_conn o2) = None" by metis
  note facts = saved_facts [OF assms(1,2) plan]
  let ?content = "trim (ap_content params)"
  obtain layer' category decision dedup n where
    p: "place_memory W params ?content = (layer', category)" "?content \<noteq> []" "layer' \<noteq> lit ''identity_schema''"
    "decision = (if layer' = lit ''verified_fact''
       then Some (evaluate (wl_policy W) (policy_input params ?content layer' category)) else None)"
    "case decision of None \<Rightarrow> True | Some d \<Rightarrow> allow_durable d"
    "case wl_embed_text W ?content of None \<Rightarrow> True | Some emb \<Rightarrow> length emb = EMBEDDING_DIM"
    by (rule plan_write_OkE [OF plan])
  have layer': "layer' = layer" using plan_write_Ok(4) [OF plan] l p(1) by (simp add: placed_layer_def)
  have dim: "case wp_embedding plan of None \<Rightarrow> True | Some e \<Rightarrow> length e = EMBEDDING_DIM"
    using p(6) plan_write_Ok(10) [OF plan] by simp
  have few: "row_count (twin self (ni_content (wp_note plan)) (ni_layer (wp_note plan))) (note_rows (durable o2))
      \<le> DEDUP_CANDIDATE_LIMIT"
    using facts(3) [of ?content layer] assms(5) plan_write_Ok(2) [OF plan] l by simp
  have "\<exists>k'. find_exact_duplicate W self flt' (durable o2) (ni_content (wp_note plan)) (ni_layer (wp_note plan))
      (map_option length (wp_embedding plan)) = Some k'"
    by (rule exact_duplicate_found) (fact assms(4) facts(1) plan_write_Ok(6,9,12,13) [OF plan] dim few)+
  then obtain k' where dup: "find_exact_duplicate W self flt' (durable o2) ?content layer
      (map_option length (wl_embed_text W ?content)) = Some k'"
    using plan_write_Ok(2,10) [OF plan] l by auto
  have "dedup_stage W self flt' (durable o2) ?content layer (wl_embed_text W ?content) = Err (Duplicate k' (Fin 1))"
    using assms(3) dup by (simp add: dedup_stage_def del: lit_simps)
  then have emb: "plan_embedded W self flt' ev' (durable o2) params ?content layer category decision =
      Err (Duplicate k' (Fin 1))"
    using p(6) by (simp add: plan_embedded_def Let_def del: lit_simps split: option.splits)
  have "plan_write W self flt' ev' (durable o2) params = Err (Duplicate k' (Fin 1))"
    using p(1-5) emb unfolding layer' by (auto simp: plan_write_def Let_def simp del: lit_simps)
  then show ?thesis using o2 by (simp add: add_memory_def current_def)
qed

end
