(* ===== verification/Write_Faults.thy ===== *)
theory Write_Faults
  imports Write_Saves
begin

text \<open>
  Where the write path breaks what the rest of the code relies on: the contradiction scan
  retires rules of the constitution, and a reported outcome whose feedback fails leaves its
  transaction open.
\<close>

section \<open>The contradiction scan and other layers\<close>

lemma contradiction_loop_append:
  "contradiction_loop W flt c terms emb cat new (xs @ ys) done1 db =
   (case contradiction_loop W flt c terms emb cat new xs done1 db of
      (db', done2) \<Rightarrow> contradiction_loop W flt c terms emb cat new ys done2 db')"
  by (induction xs arbitrary: done1 db) (auto split: option.splits prod.splits sum.splits)

interpretation present: write_invariant "\<lambda>db. row_get nr_id k (note_rows db) \<noteq> None" "{}" for k
  by unfold_locales (auto simp: row_get_tame)

lemma hard_mark_replaces:
  assumes "row_get nr_id k (note_rows db) \<noteq> None" "flt (CrossUpdate k) = None"
  shows "replaced k (fst (mark_cross_layer_contradiction W flt c k new sim True db))"
proof -
  let ?upd = "\<lambda>db::db. db\<lparr>note_rows := row_update (\<lambda>r. nr_id r = k) (contradicted_row c True) (note_rows db)\<rparr>"
  define rest :: "unit \<Rightarrow> (db, sql_error, unit) op" where "rest = (\<lambda>_. op_bind (sql_query (flt (CrossSelect k))
        (\<lambda>db. Option.bind (row_get nr_id k (note_rows db)) nr_metadata_json))
    (\<lambda>meta_str.
       case jl_print (wl_json W) (JObj (contradiction_meta new sim True (parse_map (wl_json W) meta_str))) of
         None \<Rightarrow> op_fail metadata_unserializable
       | Some metadata_json \<Rightarrow>
           op_bind (sql_exec (flt (CrossMeta k)) (\<lambda>db.
              (db\<lparr>note_rows := row_update (\<lambda>r. nr_id r = k)
                 (\<lambda>r. r\<lparr>nr_metadata_json := Some metadata_json\<rparr>) (note_rows db)\<rparr>, ())))
             (\<lambda>_. if True
                then insert_note_relation (\<lambda>s. flt (CrossRelation k)) new k (lit ''forget_cascade'') 1
                else op_return ())))"
  have "replaced k (?upd db)"
    using assms(1) by (auto simp: replaced_def row_get_update_key contradicted_row_def retired_def)
  moreover have "op_keeps (replaced k) (rest ())"
    unfolding rest_def by (intro keeps_intros gone.keeps_rows gone.keeps_relation) (auto simp: tame_def retired_def)
  moreover have "mark_cross_layer_contradiction W flt c k new sim True db = rest () (?upd db)"
    using assms(2) by (simp add: mark_cross_layer_contradiction_def rest_def op_simps)
  ultimately show ?thesis using op_keepsD by metis
qed

lemma scan_replaces:
  assumes "r \<in> set (scan_candidates self new db)" "flt CrossScan = None" "flt (CrossUpdate (nr_id r)) = None"
    and "contradiction W (search_terms content who) emb cat r = Some (sim, True)"
    and "row_get nr_id (nr_id r) (note_rows db) \<noteq> None"
  shows "replaced (nr_id r) (fst (cross_layer_contradiction_scan W self flt c new content cat emb who db))"
proof -
  let ?terms = "search_terms content who"
  have terms: "?terms \<noteq> []" using assms(4) by (auto simp: contradiction_def Let_def)
  from assms(1) obtain pre post where split: "scan_candidates self new db = pre @ r # post"
    by (meson split_list)
  obtain db1 d1 where pre: "contradiction_loop W flt c ?terms emb cat new pre [] db = (db1, d1)" by fastforce
  have p1: "row_get nr_id (nr_id r) (note_rows db1) \<noteq> None"
  proof -
    have "row_get nr_id (nr_id r) (note_rows (fst (contradiction_loop W flt c ?terms emb cat new pre [] db))) \<noteq> None"
      by (rule present.keeps_contradiction_loop) (use assms(5) in simp_all)
    with pre show ?thesis by simp
  qed
  obtain db2 res where mark: "mark_cross_layer_contradiction W flt c (nr_id r) new sim True db1 = (db2, res)"
    by fastforce
  have "replaced (nr_id r) (fst (mark_cross_layer_contradiction W flt c (nr_id r) new sim True db1))"
    by (rule hard_mark_replaces) (fact p1 assms(3))+
  with mark have g: "replaced (nr_id r) db2" by simp
  have "replaced (nr_id r) (fst (contradiction_loop W flt c ?terms emb cat new post d2 db2))" for d2
    by (rule gone.keeps_contradiction_loop [OF _ g]) simp
  then show ?thesis
    using terms assms(2,4) pre mark
    by (cases res) (simp_all add: cross_layer_contradiction_scan_def Let_def split contradiction_loop_append)
qed

text \<open>Rows that a write does not name are as before when it commits.\<close>

lemma row_kept:
  assumes "write_body W self flt ev params n superseded o1 = (o2, Ok cref)" "k \<noteq> ni_id n" "k \<notin> set superseded"
  shows "row_get nr_id k (note_rows (working o2)) = row_get nr_id k (note_rows (working o1))"
proof -
  define P where "P = (\<lambda>db::db. row_get nr_id k (note_rows db) = row_get nr_id k (note_rows (working o1)))"
  have upd: "op_keeps P (sql_exec f (\<lambda>db. (db\<lparr>note_rows := row_update (\<lambda>r. nr_id r = k') g (note_rows db)\<rparr>, h db)))"
    if "\<And>r. nr_id (g r) = nr_id r" "k' \<noteq> k" for f k' g and h :: "db \<Rightarrow> 'x"
    by (rule op_keeps_exec) (use that in \<open>simp add: P_def row_get_update_key\<close>)
  have up: "ok_keeps P (upsert_note f c n)" for f c
    using assms(2) by (auto simp: ok_keeps_def P_def upsert_note_Ok(1) row_get_upsert)
  have sup: "op_keeps P (mark_superseded J f c k' new reason)" if "k' \<noteq> k" for J f c k' new reason
    unfolding mark_superseded_def insert_note_relation_def
    by (intro keeps_intros upd) (use that in \<open>auto simp: P_def intro!: op_keeps_exec\<close>)
  have cold: "op_keeps P (set_cold_ref f cref' (ni_id n))" for f cref'
    unfolding set_cold_ref_def by (rule upd) (use assms(2) in auto)
  have "ok_keeps (\<lambda>o1. P (working o1)) (write_body W self flt ev params n superseded)"
    unfolding write_body_def Let_def archive_note_def
    by (intro ok_intros up ok_keeps_op [OF sup])
      (use assms(3) in \<open>auto intro!: ok_intros ok_keeps_op [OF cold] split: option.split\<close>)
  from ok_keepsD [OF this _ assms(1)] show ?thesis by (simp add: P_def)
qed

definition scanned :: "orchestrator \<Rightarrow> note_row \<Rightarrow> bool" where
  "scanned self r \<longleftrightarrow> nr_is_active r = 1 \<and> nr_project_id r = Some (wo_project_id self)"

lemma scanned_counts: "write_invariant (\<lambda>db. row_count (scanned self) (note_rows db) \<le> m) {}"
proof
  fix f Q db
  assume "tame {} Q f" "row_count (scanned self) (note_rows db) \<le> m"
  moreover have "scanned self (f r) \<Longrightarrow> scanned self r" if "tame {} Q f" for r
    using that unfolding tame_def scanned_def by (metis insert_iff singletonD zero_neq_one)
  ultimately show "row_count (scanned self) (note_rows (db\<lparr>note_rows := row_update Q f (note_rows db)\<rparr>)) \<le> m"
    using row_count_update_le [of "scanned self" f Q "note_rows db"] by fastforce
qed simp_all

text \<open>
  C11. An ordinary write can retire a rule of the constitution: the contradiction scan that
  follows a saved note looks at every layer, so a saved note that hard-contradicts an active
  \<open>identity_schema\<close> rule of the project leaves the rule inactive and superseded. No proposal
  and no approval is involved.
\<close>

theorem ordinary_write_retires_rule:
  assumes saved: "add_memory W self flt ev params o1 = (o2, Saved k layer cref superseded warnings)"
    and "row_get nr_id (we_uuid ev) (note_rows (durable o1)) = None"
    and "layer \<noteq> lit ''event_log''" "wl_embed_text W (trim (ap_content params)) = Some emb"
    and "row_get nr_id rid (note_rows (durable o1)) = Some rule" "nr_layer rule = lit ''identity_schema''"
    and "nr_is_active rule = 1" "nr_project_id rule = Some (wo_project_id self)"
    and "contradiction W (search_terms (trim (ap_content params)) (ap_who params)) emb
      (snd (place_memory W params (trim (ap_content params)))) rule = Some (sim, True)"
    and "flt CrossScan = None" "flt (CrossUpdate rid) = None"
    and "row_count (scanned self) (note_rows (durable o1)) < CROSS_LAYER_SCAN_LIMIT"
  shows "\<exists>r. row_get nr_id rid (note_rows (durable o2)) = Some r \<and> nr_is_active r = 0 \<and>
    nr_evolution_state r \<noteq> Some (lit ''active'')"
proof -
  have "replaced rid (durable o2)"
  proof (cases "rid \<in> set superseded")
    case True
    from add_memory_SavedE [OF saved] obtain plan where
      "plan_write W self flt ev (current (oc_conn o1)) params = Ok plan" by metis
    from saved_facts(2) [OF saved assms(2) this True] show ?thesis .
  next
    case False
    from add_memory_SavedE [OF saved] obtain plan o3 where
      plan: "plan_write W self flt ev (current (oc_conn o1)) params = Ok plan" and
      run: "in_transaction flt (write_body W self flt ev params (wp_note plan) (wp_superseded plan)) o1 = (o3, Ok cref)" and
      l: "layer = ni_layer (wp_note plan)" and sup: "superseded = wp_superseded plan" and
      fin: "durable o2 = after_commit W self flt ev params plan (durable o3)" by metis
    from write_txn.succeeded [OF run] obtain o4 o5 where
      none: "open_txn (oc_conn o1) = None" and w4: "working o4 = durable o1" and
      body: "write_body W self flt ev params (wp_note plan) (wp_superseded plan) o4 = (o5, Ok cref)" and
      d3: "durable o3 = working o5" by metis
    have new: "ni_id (wp_note plan) = we_uuid ev" by (rule plan_write_Ok(1) [OF plan])
    have rid: "nr_id rule = rid" using assms(5) by (auto dest: row_get_SomeD)
    have "rid \<noteq> we_uuid ev" using assms(2,5) by auto
    with row_kept [OF body] False new w4 sup d3 assms(5)
    have rule: "row_get nr_id rid (note_rows (durable o3)) = Some rule" by simp
    have fresh: "row_get nr_id (ni_id (wp_note plan)) (note_rows (working o4)) = None"
      using assms(2) new w4 by simp
    have notin: "ni_id (wp_note plan) \<notin> set (wp_superseded plan)"
      using plan_superseded_in [OF plan] assms(2) new none by (auto simp: row_get_None current_def)
    have "row_count (scanned self) (note_rows (working o5)) \<le> Suc (row_count (scanned self) (note_rows (working o4)))"
      by (rule write_body_Ok(3) [OF body fresh notin scanned_counts])
    then have "row_count (scanned self) (note_rows (durable o3)) \<le> CROSS_LAYER_SCAN_LIMIT"
      using assms(12) w4 d3 by simp
    moreover have "filter (\<lambda>r. nr_id r \<noteq> we_uuid ev \<and> nr_is_active r = 1 \<and>
        nr_project_id r = Some (wo_project_id self)) (note_rows (durable o3)) =
        filter (\<lambda>r. nr_id r \<noteq> we_uuid ev) (filter (scanned self) (note_rows (durable o3)))"
      unfolding filter_filter by (rule filter_cong) (auto simp: scanned_def)
    ultimately have cand: "rule \<in> set (scan_candidates self (we_uuid ev) (durable o3))"
      using rule assms(7,8) \<open>rid \<noteq> we_uuid ev\<close> rid length_filter_le [of "\<lambda>r. nr_id r \<noteq> we_uuid ev"
        "filter (scanned self) (note_rows (durable o3))"]
      by (auto simp: scan_candidates_def row_count_def scanned_def dest: row_get_SomeD)
    have cat: "ni_category (wp_note plan) = snd (place_memory W params (trim (ap_content params)))"
      by (rule plan_write_OkE [OF plan]) (auto dest: build_note_Ok(4))
    have "replaced (nr_id rule) (fst (cross_layer_contradiction_scan W self flt (we_clock ev) (we_uuid ev)
        (trim (ap_content params)) (snd (place_memory W params (trim (ap_content params)))) emb (ap_who params) (durable o3)))"
      by (rule scan_replaces) (use cand assms(9-11) rule rid in simp_all)
    then show ?thesis
      using assms(3,4) l plan_write_Ok(2,10) [OF plan] cat new rid
      by (simp add: fin after_commit_def Let_def gone.keeps_links del: lit_simps)
  qed
  then show ?thesis by (auto simp: replaced_def retired_def simp del: lit_simps)
qed

section \<open>Feedback that fails\<close>

definition stuck :: "orch \<Rightarrow> bool" where
  "stuck o1 \<longleftrightarrow> open_txn (oc_conn o1) \<noteq> None"

lemma stuck_in_transaction:
  assumes "stuck o1"
  shows "\<exists>e. in_transaction flt body o1 = (o1, Err e)"
  using assms
  by (auto simp: in_transaction_def on_txn_def txn_begin_def stuck_def simp del: lit_simps split: option.split)

lemma stuck_call:
  assumes "stuck o1"
  shows "run_call W self (flt, ev, cmd) o1 = o1"
proof (cases cmd)
  case (AddMemory params)
  show ?thesis
  proof (cases "plan_write W self flt ev (current (oc_conn o1)) params")
    case (Inr plan)
    obtain e where "in_transaction flt (write_body W self flt ev params (wp_note plan) (wp_superseded plan)) o1 = (o1, Err e)"
      using stuck_in_transaction [OF assms] by blast
    with AddMemory Inr show ?thesis by (simp add: add_memory_def Let_def)
  qed (simp add: AddMemory add_memory_def)
next
  case (SaveCheckpoint task_id summary metadata)
  obtain e where "save_checkpoint W self flt ev task_id summary metadata o1 = (o1, Err e)"
    unfolding save_checkpoint_def using stuck_in_transaction [OF assms] by blast
  with SaveCheckpoint show ?thesis by simp
next
  case (ReportOutcome k out reason)
  have "\<exists>e. on_txn (txn_begin (flt BeginWrite)) o1 = (o1, Err e)"
    using assms by (auto simp: on_txn_def txn_begin_def stuck_def split: option.split)
  with ReportOutcome show ?thesis by (auto simp: report_outcome_def Let_def)
qed

lemma stuck_run: "stuck o1 \<Longrightarrow> run_calls W self calls o1 = o1"
proof (induction calls)
  case (Cons call calls)
  obtain flt ev cmd where "call = (flt, ev, cmd)" using prod_cases3 by blast
  with Cons stuck_call show ?case by (simp add: run_calls_def)
qed (simp add: run_calls_def)

text \<open>
  C17. A reported outcome whose feedback fails wedges the writer: the outcome's update went
  through, the Hebbian update fails, or it succeeds and the dream update fails, and the call
  returns the error past the ROLLBACK. The transaction stays open, and from then on no sequence
  of writes, checkpoints or outcomes changes anything, durable or not.
\<close>

theorem failed_feedback_wedges_the_writer:
  assumes "open_txn (oc_conn o1) = None" "flt BeginWrite = None"
    and "atomic_update_outcome (wl_json W) (\<lambda>s. flt (WriterStmt note_id s)) note_id outcome reason (durable o1)
      = (db1, Ok True)"
    and "(\<exists>e. apply_hebbian_feedback (wl_json W) (\<lambda>s. flt (WriterStmt note_id s)) (we_clock ev) note_id outcome db1
        = (db2, Err e) \<and> message = lit ''Hebbian feedback update failed: '' @ e) \<or>
      (\<exists>e db_h u. apply_hebbian_feedback (wl_json W) (\<lambda>s. flt (WriterStmt note_id s)) (we_clock ev) note_id outcome db1
        = (db_h, Ok u) \<and>
       apply_dream_feedback (wl_json W) (\<lambda>s. flt (WriterStmt note_id s)) (we_clock ev) note_id outcome reason db_h
        = (db2, Err e) \<and> message = lit ''Dream feedback update failed: '' @ e)"
  shows "\<exists>o2. report_outcome W flt ev note_id outcome reason o1 = (o2, Err message) \<and>
    open_txn (oc_conn o2) = Some db2 \<and> durable o2 = durable o1 \<and>
    (\<forall>calls. run_calls W self calls o2 = o2)"
proof -
  let ?o2 = "o1\<lparr>oc_conn := (oc_conn o1)\<lparr>open_txn := Some (durable o1)\<rparr>\<rparr>"
  let ?o3 = "o1\<lparr>oc_conn := (oc_conn o1)\<lparr>open_txn := Some db1\<rparr>\<rparr>"
  let ?o4 = "o1\<lparr>oc_conn := (oc_conn o1)\<lparr>open_txn := Some db2\<rparr>\<rparr>"
  have b: "on_txn (txn_begin (flt BeginWrite)) o1 = (?o2, Ok ())"
    using assms(1,2) by (simp add: on_txn_def txn_begin_def)
  have u: "on_db (atomic_update_outcome (wl_json W) (\<lambda>s. flt (WriterStmt note_id s)) note_id outcome reason) ?o2
      = (?o3, Ok True)"
    using assms(3) by (simp add: on_db_def on_conn_def current_def)
  have f: "after_feedback W flt ev note_id outcome reason True ?o3 = (?o4, Err message)"
    using assms(4)
    by (elim disjE exE conjE)
      (simp_all add: after_feedback_def op_bind_def op_map_err_def on_db_def on_conn_def current_def del: lit_simps)
  have "report_outcome W flt ev note_id outcome reason o1 = (?o4, Err message)"
    unfolding report_outcome_split [OF b u] by (simp only: op_bind_def f prod.case sum.case)
  moreover have "run_calls W self calls ?o4 = ?o4" for calls
    by (rule stuck_run) (simp add: stuck_def)
  ultimately show ?thesis by auto
qed

end
