(* ===== verification/Write_Checkpoints.thy ===== *)
theory Write_Checkpoints
  imports Write_Saves
begin

text \<open>
  What \<open>save_checkpoint\<close> guarantees (\<open>core/write_orchestrator.rs\<close>): after it answers, the
  checkpoint it names is the one active checkpoint of its task.
\<close>

definition task_checkpoint :: "write_lib \<Rightarrow> ustr \<Rightarrow> note_row \<Rightarrow> bool" where
  "task_checkpoint W task_id r \<longleftrightarrow>
     nr_layer r = lit ''event_log'' \<and> nr_is_active r = 1 \<and> checkpoint_metas W task_id r"

definition only_checkpoint :: "write_lib \<Rightarrow> ustr \<Rightarrow> ustr \<Rightarrow> db \<Rightarrow> bool" where
  "only_checkpoint W task_id k db \<longleftrightarrow> (\<forall>r \<in> set (note_rows db). task_checkpoint W task_id r \<longrightarrow> nr_id r = k)"

definition live_checkpoint :: "write_lib \<Rightarrow> ustr \<Rightarrow> ustr \<Rightarrow> ustr \<Rightarrow> db \<Rightarrow> bool" where
  "live_checkpoint W task_id k content db \<longleftrightarrow>
     (\<exists>r \<in> set (note_rows db). nr_id r = k \<and> task_checkpoint W task_id r \<and> nr_content r = content)"

text \<open>What SQLite's JSON functions read of an object that \<open>serde_json\<close> printed: it is valid, and a
  top-level member that is a string is extracted as its text.\<close>

definition json_text_law :: "json_lib \<Rightarrow> bool" where
  "json_text_law J \<longleftrightarrow>
     (\<forall>m s k v. jl_print J (JObj m) = Some s \<and> k \<in> {lit ''record_type'', lit ''task_id''} \<and> map_of m k = Some (JStr v) \<longrightarrow>
        jl_json_valid J s \<and> jl_extract_text J s (lit ''$.'' @ k) = Some v)"

lemma printed_metas:
  assumes "json_text_law (wl_json W)" "jl_print (wl_json W) (JObj metadata) = Some s" "nr_metadata_json r = Some s"
    and "map_of metadata (lit ''record_type'') = Some (JStr (lit ''checkpoint''))"
    and "map_of metadata (lit ''task_id'') = Some (JStr task_id)"
  shows "checkpoint_metas W task_id r"
proof -
  have paths: "lit ''$.'' @ lit ''record_type'' = lit ''$.record_type''" "lit ''$.'' @ lit ''task_id'' = lit ''$.task_id''"
    by simp_all
  have "jl_json_valid (wl_json W) s \<and> jl_extract_text (wl_json W) s (lit ''$.'' @ k) = Some v"
    if "k \<in> {lit ''record_type'', lit ''task_id''}" "map_of metadata k = Some (JStr v)" for k v
    using assms(1,2) that unfolding json_text_law_def by blast
  from this [OF _ assms(4)] this [OF _ assms(5)] show ?thesis
    by (simp add: checkpoint_metas_def assms(3) paths del: lit_simps)
qed

lemma deactivate_Ok:
  assumes "deactivate_checkpoints_by_task_id (wl_json W) flt task_id excl db = (db', Ok m)"
  shows "note_rows db' = row_update (\<lambda>r. task_checkpoint W task_id r \<and>
      (case excl of None \<Rightarrow> True | Some x \<Rightarrow> nr_id r \<noteq> x)) (\<lambda>r. r\<lparr>nr_is_active := 0\<rparr>) (note_rows db)"
proof -
  let ?hit = "\<lambda>r. nr_layer r = lit ''event_log'' \<and> nr_is_active r = 1 \<and>
               (case nr_metadata_json r of
                  None \<Rightarrow> False
                | Some m \<Rightarrow> jl_json_valid (wl_json W) m \<and>
                    jl_extract_text (wl_json W) m (lit ''$.record_type'') = Some (lit ''checkpoint'') \<and>
                    jl_extract_text (wl_json W) m (lit ''$.task_id'') = Some task_id) \<and>
               (case excl of None \<Rightarrow> True | Some x \<Rightarrow> nr_id r \<noteq> x)"
  have "?hit = (\<lambda>r. task_checkpoint W task_id r \<and> (case excl of None \<Rightarrow> True | Some x \<Rightarrow> nr_id r \<noteq> x))"
    by (auto simp: fun_eq_iff task_checkpoint_def checkpoint_metas_def simp del: lit_simps)
  moreover have "note_rows db' = row_update ?hit (\<lambda>r. r\<lparr>nr_is_active := 0\<rparr>) (note_rows db)"
    using assms by (auto simp: deactivate_checkpoints_by_task_id_def sql_exec_Ok Let_def simp del: lit_simps)
  ultimately show ?thesis by simp
qed

lemma deactivate_only:
  assumes "deactivate_checkpoints_by_task_id (wl_json W) flt task_id excl db = (db', Ok m)"
  shows "only_checkpoint W task_id k db' \<or> (\<exists>x. excl = Some x \<and> only_checkpoint W task_id x db')"
  by (cases excl)
    (auto simp: only_checkpoint_def deactivate_Ok [OF assms] row_update_def task_checkpoint_def simp del: lit_simps
      split: if_splits)

lemma only_upsert:
  assumes "upsert_note flt c n db = (db', Ok ())" "only_checkpoint W task_id (ni_id n) db"
  shows "only_checkpoint W task_id (ni_id n) db'"
  using assms(2)
  by (auto simp: only_checkpoint_def upsert_note_Ok(1) [OF assms(1)] upsert_note_row_def Let_def row_update_def
      simp del: lit_simps split: option.splits if_splits)

lemma live_update:
  assumes "live_checkpoint W task_id k content db"
    and "\<And>r. nr_id r = k \<Longrightarrow> nr_is_active r = 1 \<Longrightarrow> Q r \<Longrightarrow> nr_id (f r) = nr_id r \<and> nr_is_active (f r) = nr_is_active r \<and>
      nr_layer (f r) = nr_layer r \<and> nr_content (f r) = nr_content r \<and> nr_metadata_json (f r) = nr_metadata_json r"
  shows "live_checkpoint W task_id k content (db\<lparr>note_rows := row_update Q f (note_rows db)\<rparr>)"
proof -
  from assms(1) obtain r where r: "r \<in> set (note_rows db)" "nr_id r = k" "task_checkpoint W task_id r" "nr_content r = content"
    by (auto simp: live_checkpoint_def)
  then have "nr_is_active r = 1" by (simp add: task_checkpoint_def)
  let ?r = "if Q r then f r else r"
  have "?r \<in> set (row_update Q f (note_rows db))" using r(1) by (simp add: row_update_def)
  moreover have "nr_id ?r = k" "task_checkpoint W task_id ?r" "nr_content ?r = content"
    using r assms(2) [OF r(2) \<open>nr_is_active r = 1\<close>]
    by (simp_all add: task_checkpoint_def checkpoint_metas_def del: lit_simps)
  ultimately show ?thesis unfolding live_checkpoint_def by fastforce
qed

lemma cold_ref_keeps_only: "op_keeps (only_checkpoint W task_id k) (set_cold_ref flt cref k')"
proof -
  have "task_checkpoint W task_id (r\<lparr>nr_cold_storage_ref := x\<rparr>) = task_checkpoint W task_id r" for r x
    by (simp add: task_checkpoint_def checkpoint_metas_def del: lit_simps)
  then show ?thesis
    unfolding set_cold_ref_def by (intro op_keeps_exec) (auto simp: only_checkpoint_def row_update_def)
qed

lemma cold_ref_keeps_live: "op_keeps (live_checkpoint W task_id k content) (set_cold_ref flt cref k')"
  unfolding set_cold_ref_def by (rule op_keeps_exec) (simp add: live_update)

lemma live_upsert:
  assumes "upsert_note flt c n db = (db', Ok ())" "row_get nr_id (ni_id n) (note_rows db) = None"
    and "ni_layer n = lit ''event_log''" "ni_is_active n" "checkpoint_metas W task_id (inserted_row (wc_now c) n)"
  shows "live_checkpoint W task_id (ni_id n) (ni_content n) db'"
proof -
  have "task_checkpoint W task_id (inserted_row (wc_now c) n)"
    using assms(3-5) by (simp add: task_checkpoint_def inserted_row_def del: lit_simps)
  moreover have "inserted_row (wc_now c) n \<in> set (note_rows db')" by (simp add: fresh_upsert [OF assms(1,2)])
  ultimately show ?thesis
    unfolding live_checkpoint_def by (intro bexI [of _ "inserted_row (wc_now c) n"]) (simp_all add: inserted_row_def)
qed

text \<open>
  C28. After a checkpoint is saved, the note it names is a durable, active checkpoint of the task
  that holds its searchable text, and every active checkpoint of the task is that note, whether it
  was written by this call or found by the idempotency probe. The metadata name the task, as the
  service builds them, and SQLite reads the JSON the library prints.
\<close>

theorem saved_checkpoint_is_the_only_one:
  assumes "save_checkpoint W self flt ev task_id summary metadata o1 = (o2, Ok k)"
    and "row_get nr_id (we_uuid ev) (note_rows (durable o1)) = None"
    and "json_text_law (wl_json W)" "jl_print (wl_json W) (JObj metadata) \<noteq> None"
    and "map_of metadata (lit ''record_type'') = Some (JStr (lit ''checkpoint''))"
    and "map_of metadata (lit ''task_id'') = Some (JStr task_id)"
  shows "open_txn (oc_conn o2) = None \<and>
    (\<exists>r \<in> set (note_rows (durable o2)). nr_id r = k \<and> nr_is_active r = 1 \<and> nr_layer r = lit ''event_log'' \<and>
       checkpoint_metas W task_id r \<and> nr_content r = checkpoint_searchable_content task_id summary metadata) \<and>
    (\<forall>r \<in> set (note_rows (durable o2)). nr_layer r = lit ''event_log'' \<and> nr_is_active r = 1 \<and>
       checkpoint_metas W task_id r \<longrightarrow> nr_id r = k)"
proof -
  let ?content = "checkpoint_searchable_content task_id summary metadata"
  let ?find = "\<lambda>db. find (same_metadata W metadata) (checkpoint_rows W self task_id ?content db)"
  let ?deact = "\<lambda>excl. deactivate_checkpoints_by_task_id (wl_json W) (\<lambda>s. flt (WriterStmt task_id s)) task_id excl"
  from checkpoint_txn.succeeded [OF assms(1) [unfolded save_checkpoint_def]] obtain o3 o4 where
    w3: "working o3 = durable o1" and
    body: "checkpoint_body W self flt ev task_id ?content metadata o3 = (o4, Ok k)" and
    d2: "durable o2 = working o4" and none: "open_txn (oc_conn o2) = None" by metis
  from body obtain o5 existing where
    probe: "on_db (sql_query (flt CheckpointProbe) ?find) o3 = (o5, Ok existing)"
    unfolding checkpoint_body_def by (auto simp: op_map_err_Ok simp del: lit_simps elim!: op_bind_OkE)
  from on_db_Ok [OF probe] have ex: "existing = ?find (durable o1)" and w5: "working o5 = durable o1"
    by (simp_all add: sql_query_Ok w3)
  have "only_checkpoint W task_id k (working o4) \<and> live_checkpoint W task_id k ?content (working o4)"
  proof (cases existing)
    case (Some r)
    have "checkpoint_body W self flt ev task_id ?content metadata o3 =
      op_bind (op_map_err (\<lambda>e. lit ''Deactivate failed: '' @ e) (on_db (?deact (Some (nr_id r)))))
        (\<lambda>_. op_return (nr_id r)) o5"
      unfolding checkpoint_body_def Let_def using probe Some
      by (simp add: op_bind_Ok [where s = o3] op_map_err_simps(1) del: lit_simps)
    with body obtain o6 m where
      d: "on_db (?deact (Some (nr_id r))) o5 = (o6, Ok m)" and k: "k = nr_id r" "o4 = o6"
      by (auto simp: op_map_err_Ok op_return_Ok simp del: lit_simps elim!: op_bind_OkE)
    from ex Some have "r \<in> set (checkpoint_rows W self task_id ?content (durable o1))"
      by (metis find_Some_iff nth_mem)
    then have r: "r \<in> set (note_rows (durable o1))" "task_checkpoint W task_id r" "nr_content r = ?content"
      by (auto simp: checkpoint_rows_def task_checkpoint_def simp del: lit_simps dest!: in_set_takeD)
    note rows = deactivate_Ok [OF on_db_Ok [OF d]]
    have "live_checkpoint W task_id k ?content (working o6)"
    proof -
      have "live_checkpoint W task_id (nr_id r) ?content (working o5)"
        using r unfolding live_checkpoint_def w5 by blast
      from live_update [OF this, of "\<lambda>x. task_checkpoint W task_id x \<and> nr_id x \<noteq> nr_id r" "\<lambda>r. r\<lparr>nr_is_active := 0\<rparr>"]
      show ?thesis unfolding k live_checkpoint_def rows by simp
    qed
    with deactivate_only [OF on_db_Ok [OF d], of "nr_id r"] k show ?thesis by auto
  next
    case None
    let ?n = "checkpoint_note W self ev ?content (case jl_print (wl_json W) (JObj metadata) of None \<Rightarrow> lit ''{}'' | Some s \<Rightarrow> s)"
    let ?archive = "archive_note W self flt ev (ni_id ?n) ?content (ni_layer ?n) (Some checkpoint_cold_meta)
                 (lit ''Checkpoint cold storage append failed: '')
                 (lit ''Checkpoint cold storage ref update failed: '')"
    have "checkpoint_body W self flt ev task_id ?content metadata o3 =
      op_bind (op_map_err (\<lambda>e. lit ''Deactivate failed: '' @ e) (on_db (?deact None))) (\<lambda>_.
        op_bind (op_map_err (\<lambda>e. lit ''Checkpoint write failed: '' @ e)
          (on_db (upsert_note (\<lambda>s. flt (WriterStmt (ni_id ?n) s)) (we_clock ev) ?n))) (\<lambda>_.
        op_bind ?archive (\<lambda>_. op_return (ni_id ?n)))) o5"
      unfolding checkpoint_body_def Let_def using probe None
      by (simp add: op_bind_Ok [where s = o3] op_map_err_simps(1) del: lit_simps)
    with body obtain o6 o7 m cref where
      d: "on_db (?deact None) o5 = (o6, Ok m)" and
      u: "on_db (upsert_note (\<lambda>s. flt (WriterStmt (ni_id ?n) s)) (we_clock ev) ?n) o6 = (o7, Ok ())" and
      a: "?archive o7 = (o4, Ok cref)" and k: "k = ni_id ?n"
      by (auto simp: op_map_err_Ok op_return_Ok simp del: lit_simps elim!: op_bind_OkE)
    have archive: "ok_keeps (\<lambda>o1. only_checkpoint W task_id k (working o1)) ?archive"
      "ok_keeps (\<lambda>o1. live_checkpoint W task_id k ?content (working o1)) ?archive"
      by (rule ok_archive_note, rule cold_ref_keeps_only, rule ok_archive_note, rule cold_ref_keeps_live)
    have "only_checkpoint W task_id k (working o6)"
      using deactivate_only [OF on_db_Ok [OF d], of k] by simp
    with only_upsert [OF on_db_Ok [OF u]] k have only: "only_checkpoint W task_id k (working o7)" by simp
    have "row_get nr_id (ni_id ?n) (note_rows (working o6)) = None"
      using assms(2) by (simp add: deactivate_Ok [OF on_db_Ok [OF d]] w5 row_get_update checkpoint_note_simps)
    moreover obtain s where s: "jl_print (wl_json W) (JObj metadata) = Some s" using assms(4) by blast
    have "checkpoint_metas W task_id (inserted_row (wc_now (we_clock ev)) ?n)"
      by (rule printed_metas [OF assms(3) s _ assms(5,6)])
        (simp add: inserted_row_def checkpoint_note_def Let_def s del: lit_simps)
    ultimately have "live_checkpoint W task_id k ?content (working o7)"
      using live_upsert [OF on_db_Ok [OF u], of W task_id] k
      by (simp add: checkpoint_note_simps checkpoint_note_def Let_def del: lit_simps)
    with only ok_keepsD [OF archive(1) _ a] ok_keepsD [OF archive(2) _ a] show ?thesis by simp
  qed
  then show ?thesis
    using none unfolding d2 only_checkpoint_def live_checkpoint_def task_checkpoint_def by blast
qed

end
