(* ===== verification/Write_Witness.thy ===== *)
theory Write_Witness
  imports Write_Faults Write_Checkpoints
begin

text \<open>Concrete runs of the write path, where the hypotheses of its properties hold.\<close>

section \<open>A write that goes through\<close>

lemma write_succeeds:
  assumes "plan_write W self no_faults ev (durable o1) params = Ok plan" "wp_superseded plan = []"
    and "open_txn (oc_conn o1) = None" "cw_project_id (wo_cold self) = []"
  shows "\<exists>o2 warnings. add_memory W self no_faults ev params o1
     = (o2, Saved (ni_id (wp_note plan)) (ni_layer (wp_note plan)) None [] warnings)"
proof -
  obtain db1 where up: "upsert_note no_faults (we_clock ev) (wp_note plan) (durable o1) = (db1, Ok ())"
    using upsert_note_no_faults by blast
  have "(no_faults :: note_stmt faults) = (\<lambda>s. None)" by (simp add: fun_eq_iff)
  with up have up': "upsert_note (\<lambda>s. None) (we_clock ev) (wp_note plan) (durable o1) = (db1, Ok ())" by simp
  have cur: "current (oc_conn o1) = durable o1" using assms(3) by (simp add: current_def)
  let ?o2 = "o1\<lparr>oc_conn := (oc_conn o1)\<lparr>open_txn := Some (durable o1)\<rparr>\<rparr>"
  let ?o3 = "o1\<lparr>oc_conn := (oc_conn o1)\<lparr>open_txn := Some db1\<rparr>\<rparr>"
  have "write_body W self no_faults ev params (wp_note plan) [] ?o2 = (?o3, Ok None)"
    using up' assms(4)
    by (simp add: write_body_def archive_note_def op_bind_def op_map_err_def op_return_def on_db_def on_conn_def
        current_def on_files_def cold_append_def Let_def del: lit_simps)
  then obtain o4 where "in_transaction no_faults (write_body W self no_faults ev params (wp_note plan) []) o1 = (o4, Ok None)"
    using assms(3) by (auto simp: in_transaction_def on_txn_def txn_begin_def txn_commit_def)
  with assms(1,2) show ?thesis by (auto simp: add_memory_def Let_def cur on_db_def split: prod.splits)
qed

section \<open>Sample data\<close>

definition one_hot :: "f32 list" where
  "one_hot = 0x3F800000 # replicate 1023 0"

definition demo_lib :: write_lib where
  "demo_lib =
     \<lparr>wl_policy = \<lparr>pl_to_lowercase = to_ascii_lowercase, pl_path_re = (\<lambda>_. False), pl_env_re = (\<lambda>_. False),
        pl_func_re = (\<lambda>_. False), pl_url_re = (\<lambda>_. False), pl_url_scrub = (\<lambda>t. t), pl_living_doc_re = (\<lambda>_. False)\<rparr>,
      wl_json = one_doc JNull, wl_json_eq = (=), wl_embed_text = (\<lambda>_. Some one_hot), wl_parse_vector = (\<lambda>_. None),
      wl_print_vector = (\<lambda>_. Some []), wl_parse_rfc3339 = (\<lambda>_. None), wl_parse_naive = (\<lambda>_ _. None),
      wl_to_rfc3339 = (\<lambda>_. []), wl_format_millis = (\<lambda>_. []), wl_number_scrub = (\<lambda>t. t),
      wl_currency_re = (\<lambda>_. False), wl_chinese_re = (\<lambda>_. False)\<rparr>"

definition demo_self :: orchestrator where
  "demo_self = \<lparr>wo_project_id = lit ''p'', wo_cold = cold_disabled\<rparr>"

definition demo_env :: write_env where
  "demo_env = \<lparr>we_uuid = lit ''new'', we_now = (0, 0), we_clock = demo_clock, we_io = cold_io_ok\<rparr>"

definition demo_params :: add_params where
  "demo_params =
     \<lparr>ap_content = lit '' budget is 5 '', ap_layer = Some (lit ''procedure_schema''), ap_category = None,
      ap_confidence = None, ap_agent = None, ap_room = None, ap_role = None, ap_difficulty = None,
      ap_time_cost_hint = None, ap_related_ids = None, ap_when = None, ap_where = None, ap_who = None,
      ap_ttl_days = None, ap_memory_kind = None, ap_session_id = None, ap_source = None, ap_created_by = None,
      ap_extra_metadata = None, ap_root_id = None, ap_version = None, ap_topic_key = None,
      ap_auto_classify = True, ap_auto_classify_layer = True\<rparr>"

definition demo_rule :: note_row where
  "demo_rule = inserted_row (lit ''2026-01-01'') (note_insert_default\<lparr>ni_id := lit ''rule'',
     ni_content := lit ''The budget is fixed'', ni_layer := lit ''identity_schema'', ni_is_active := True,
     ni_project_id := Some (lit ''p''), ni_vector_blob := Some (vector_to_blob one_hot)\<rparr>)"

definition demo_orch :: orch where
  "demo_orch = \<lparr>oc_conn = \<lparr>committed = (empty_notes_db [])\<lparr>note_rows := [demo_rule]\<rparr>, open_txn = None\<rparr>,
     oc_files = Map.empty\<rparr>"

lemma demo_content: "trim (ap_content demo_params) = lit ''budget is 5''"
  by code_simp

lemma demo_place:
  "place_memory demo_lib demo_params (lit ''budget is 5'') = (lit ''procedure_schema'', Some (lit ''routine''))"
  by (simp add: place_memory_def default_layer_def demo_params_def Let_def del: lit_simps)

lemma demo_row:
  "nr_id demo_rule = lit ''rule''" "nr_layer demo_rule = lit ''identity_schema''" "nr_is_active demo_rule = 1"
  "nr_project_id demo_rule = Some (lit ''p'')" "nr_content demo_rule = lit ''The budget is fixed''"
  "nr_vector_blob demo_rule = Some (vector_to_blob one_hot)" "nr_metadata_json demo_rule = None"
  "nr_category demo_rule = None" "nr_evolution_state demo_rule = Some (lit ''active'')"
  by (simp_all add: demo_rule_def inserted_row_def note_insert_default_def del: lit_simps)

lemma demo_durable: "durable demo_orch = (empty_notes_db [])\<lparr>note_rows := [demo_rule]\<rparr>"
  "open_txn (oc_conn demo_orch) = None"
  by (simp_all add: demo_orch_def)

lemma length_one_hot: "length one_hot = EMBEDDING_DIM"
  by (simp add: one_hot_def EMBEDDING_DIM_def)

lemma demo_simps: "wl_embed_text demo_lib t = Some one_hot" "wo_project_id demo_self = lit ''p''"
  by (simp_all add: demo_lib_def demo_self_def del: lit_simps)

lemma layers: "lit ''procedure_schema'' \<noteq> lit ''identity_schema''" "lit ''procedure_schema'' \<noteq> lit ''verified_fact''"
  "lit ''procedure_schema'' \<noteq> lit ''event_log''" "lit ''identity_schema'' \<noteq> lit ''procedure_schema''"
  by (simp_all only: lit_inject) simp_all

lemma demo_plan:
  "\<exists>plan. plan_write demo_lib demo_self no_faults demo_env (durable demo_orch) demo_params = Ok plan \<and>
     wp_superseded plan = []"
proof -
  let ?db = "durable demo_orch"
  have rows: "note_rows ?db = [demo_rule]" by (simp add: demo_durable)
  have exact: "find_exact_duplicate demo_lib demo_self no_faults ?db c (lit ''procedure_schema'') d = None" for c d
    by (simp add: find_exact_duplicate_def rows demo_row layers sort_desc_def del: lit_simps)
  have "dedup_rows (lit ''procedure_schema'') ?db = []"
    by (simp add: dedup_rows_def rows demo_row layers sort_desc_def del: lit_simps)
  then have check: "check_duplicate demo_lib no_faults ?db one_hot (lit ''procedure_schema'') =
      \<lparr>dd_duplicate = False, dd_best_match = None, dd_best_sim = Fin 0\<rparr>"
    using f64_lit_bounds(1) [of "0.88"] by (simp add: check_duplicate_def Let_def DEDUP_SIMILARITY_THRESHOLD_def)
  obtain dedup where dedup: "dedup_stage demo_lib demo_self no_faults ?db (lit ''budget is 5'') (lit ''procedure_schema'')
      (Some one_hot) = Ok dedup" "di_superseded dedup = []"
    by (simp add: dedup_stage_def exact check layers Let_def del: lit_simps)
  have meta: "note_metadata demo_params (detect_with_neighbor_sources demo_lib c t s ns) None = []" for c t s ns
    by (simp add: note_metadata_def detector_never_flags insert_opt_def demo_params_def del: lit_simps)
  obtain n where "build_note demo_lib demo_self no_faults demo_env ?db demo_params (lit ''budget is 5'')
      (lit ''procedure_schema'') (Some (lit ''routine'')) None (Some one_hot) dedup = Ok n"
    unfolding build_note_def Let_def meta
    by (simp add: print_option_def demo_lib_def demo_params_def del: lit_simps)
  moreover have "lit ''budget is 5'' \<noteq> []" by (simp add: lit_def)
  ultimately show ?thesis
    using dedup demo_content demo_place layers length_one_hot
    by (simp add: plan_write_def plan_embedded_def Let_def demo_simps del: lit_simps)
qed

lemma demo_saved:
  "\<exists>o2 warnings. add_memory demo_lib demo_self no_faults demo_env demo_params demo_orch
     = (o2, Saved (lit ''new'') (lit ''procedure_schema'') None [] warnings)"
proof -
  from demo_plan obtain plan where
    plan: "plan_write demo_lib demo_self no_faults demo_env (durable demo_orch) demo_params = Ok plan"
    "wp_superseded plan = []" by blast
  have "ni_id (wp_note plan) = lit ''new''" "ni_layer (wp_note plan) = lit ''procedure_schema''"
    using plan_write_Ok(1,4) [OF plan(1)]
    by (simp_all add: demo_env_def placed_layer_def demo_content demo_place del: lit_simps)
  with write_succeeds [OF plan demo_durable(2)] show ?thesis
    by (simp add: demo_self_def cold_disabled_def del: lit_simps)
qed

lemma demo_fresh: "row_get nr_id (we_uuid demo_env) (note_rows (durable demo_orch)) = None"
  by (simp add: demo_durable demo_row demo_env_def lit_inject del: lit_simps)

section \<open>Witnesses\<close>

theorem saved_memory_is_durable_witness:
  "\<exists>o2 warnings. add_memory demo_lib demo_self no_faults demo_env demo_params demo_orch
      = (o2, Saved (lit ''new'') (lit ''procedure_schema'') None [] warnings) \<and>
    (\<exists>r. row_get nr_id (lit ''new'') (note_rows (durable o2)) = Some r \<and> nr_content r = lit ''budget is 5'' \<and>
       nr_is_active r = 1)"
proof -
  from demo_saved obtain o2 warnings where
    saved: "add_memory demo_lib demo_self no_faults demo_env demo_params demo_orch
      = (o2, Saved (lit ''new'') (lit ''procedure_schema'') None [] warnings)" by blast
  with saved_memory_is_durable [OF saved demo_fresh] show ?thesis
    unfolding demo_content by blast
qed

theorem unsaved_write_changes_nothing_witness:
  "\<exists>o2. add_memory demo_lib demo_self no_faults demo_env (demo_params\<lparr>ap_content := []\<rparr>) demo_orch
      = (o2, AddError (lit ''Content is empty'')) \<and> durable o2 = durable demo_orch"
proof -
  have run: "add_memory demo_lib demo_self no_faults demo_env (demo_params\<lparr>ap_content := []\<rparr>) demo_orch
      = (demo_orch, AddError (lit ''Content is empty''))"
    by (simp add: add_memory_def plan_write_def Let_def del: lit_simps)
  from unsaved_write_changes_nothing [OF this] run show ?thesis by simp
qed

lemma demo_count: "row_count P (note_rows (durable demo_orch)) \<le> 1"
  by (simp add: demo_durable row_count_def)

theorem repeated_write_is_duplicate_witness:
  "\<exists>o2 k l c s w k'. add_memory demo_lib demo_self no_faults demo_env demo_params demo_orch = (o2, Saved k l c s w) \<and>
     add_memory demo_lib demo_self no_faults demo_env demo_params o2 = (o2, Duplicate k' (Fin 1))"
proof -
  from demo_saved obtain o2 warnings where
    saved: "add_memory demo_lib demo_self no_faults demo_env demo_params demo_orch
      = (o2, Saved (lit ''new'') (lit ''procedure_schema'') None [] warnings)" by blast
  have few: "row_count (twin demo_self (trim (ap_content demo_params)) (lit ''procedure_schema''))
      (note_rows (durable demo_orch)) < DEDUP_CANDIDATE_LIMIT"
    using demo_count [of "twin demo_self (trim (ap_content demo_params)) (lit ''procedure_schema'')"]
    unfolding DEDUP_CANDIDATE_LIMIT_def by linarith
  have "\<exists>k'. add_memory demo_lib demo_self no_faults demo_env demo_params o2 = (o2, Duplicate k' (Fin 1))"
    by (rule repeated_write_is_duplicate [OF saved demo_fresh layers(3) _ few]) simp
  with saved show ?thesis by blast
qed

theorem identity_rules_keep_their_text_witness:
  "identity_texts (durable (run_calls demo_lib demo_self [(no_faults, demo_env, AddMemory demo_params)] demo_orch))
     = [(lit ''rule'', lit ''The budget is fixed'')] \<and>
   rules_in_force (durable (run_calls demo_lib demo_self [(no_faults, demo_env, AddMemory demo_params)] demo_orch))
     \<subseteq> {(lit ''rule'', lit ''The budget is fixed'')}"
proof -
  have texts: "identity_texts (durable demo_orch) = [(lit ''rule'', lit ''The budget is fixed'')]"
    by (simp add: identity_texts_def demo_durable demo_row del: lit_simps)
  have "\<forall>call \<in> set [(no_faults, demo_env, AddMemory demo_params)].
      we_uuid (fst (snd call)) \<notin> fst ` set (identity_texts (durable demo_orch))"
    by (simp add: texts demo_env_def lit_inject del: lit_simps)
  from identity_rules_keep_their_text [OF this, of demo_lib demo_self] texts
  have kept: "identity_texts (durable (run_calls demo_lib demo_self [(no_faults, demo_env, AddMemory demo_params)] demo_orch))
      = [(lit ''rule'', lit ''The budget is fixed'')]"
    "rules_in_force (durable (run_calls demo_lib demo_self [(no_faults, demo_env, AddMemory demo_params)] demo_orch))
      \<subseteq> rules_in_force (durable demo_orch)" by simp_all
  have "rules_in_force (durable demo_orch) \<subseteq> {(lit ''rule'', lit ''The budget is fixed'')}"
    by (auto simp: rules_in_force_def demo_durable demo_row simp del: lit_simps)
  with kept show ?thesis by simp
qed

lemma isqrt_square: "isqrt (m * m) = m"
proof -
  let ?s = "isqrt (m * m)"
  have "?s * ?s \<le> m * m" "m * m < Suc ?s * Suc ?s" using isqrt_bounds [of "m * m"] by simp_all
  moreover have "\<not> Suc m \<le> ?s"
    using mult_le_mono [of "Suc m" ?s "Suc m" ?s] \<open>?s * ?s \<le> m * m\<close> by auto
  moreover have "\<not> Suc ?s \<le> m"
    using mult_le_mono [of "Suc ?s" m "Suc ?s" m] \<open>m * m < Suc ?s * Suc ?s\<close> by linarith
  ultimately show ?thesis by linarith
qed

lemma f64_sqrt_1: "f64_sqrt 1 = 1"
proof -
  have "ilog2 1 = 0" by code_simp
  moreover have "isqrt (2 ^ 120) = 2 ^ 60" using isqrt_square [of "2 ^ 60"] by simp
  ultimately show ?thesis by (simp add: f64_sqrt_def two_pow_def Let_def)
qed

lemma xround_1: "xround 1 = Fin 1" "xround 0 = Fin 0"
  by (simp_all add: xround_def)

lemma one_hot_fold: "fold cosine_step (replicate n (0, 0)) (Fin 1, Fin 1, Fin 1) = (Fin 1, Fin 1, Fin 1)"
proof -
  have "cosine_step (0, 0) (Fin 1, Fin 1, Fin 1) = (Fin 1, Fin 1, Fin 1)"
    by (simp add: cosine_step_def Let_def f32_value_def xround_1)
  then show ?thesis by (induction n) simp_all
qed

lemma one_hot_similarity: "cosine_similarity one_hot one_hot = Fin 1"
proof -
  have "cosine_step (0x3F800000, 0x3F800000) (Fin 0, Fin 0, Fin 0) = (Fin 1, Fin 1, Fin 1)"
    by (simp add: cosine_step_def Let_def f32_value_def two_pow_def xround_1)
  then have "fold cosine_step (zip one_hot one_hot) (Fin 0, Fin 0, Fin 0) = (Fin 1, Fin 1, Fin 1)"
    by (simp add: one_hot_def zip_replicate one_hot_fold del: fold_replicate)
  then show ?thesis
    by (simp add: cosine_similarity_def one_hot_def f64_sqrt_1 xround_1 xle_def xclamp01_def)
qed

lemma demo_contradiction:
  "contradiction demo_lib (search_terms (lit ''budget is 5'') (ap_who demo_params)) one_hot
     (Some (lit ''routine'')) demo_rule = Some (Fin 1, True)"
proof -
  have terms: "search_terms (lit ''budget is 5'') (ap_who demo_params) = [lit ''budget'']" by code_simp
  have contains: "contains (lit ''The budget is fixed'') (lit ''budget'')" by code_simp
  have stored: "stored_vector_from_parts demo_lib (Some (vector_to_blob one_hot)) j = Some one_hot" for j
    by (simp add: stored_vector_from_parts_def length_blob length_one_hot EMBEDDING_DIM_def blob_roundtrip)
  have soft: "\<not> 1 < CROSS_LAYER_SOFT_THRESHOLD" and hard: "xle (Fin CROSS_LAYER_HARD_THRESHOLD) (Fin 1)"
  proof -
    have "CROSS_LAYER_SOFT_THRESHOLD \<le> 1" "CROSS_LAYER_HARD_THRESHOLD \<le> 1"
      unfolding CROSS_LAYER_SOFT_THRESHOLD_def CROSS_LAYER_HARD_THRESHOLD_def
      by (rule f64_lit_bounds(2); simp)+
    then show "\<not> 1 < CROSS_LAYER_SOFT_THRESHOLD" "xle (Fin CROSS_LAYER_HARD_THRESHOLD) (Fin 1)"
      by (auto simp: xle_def)
  qed
  show ?thesis
    unfolding contradiction_def terms demo_row
    by (simp add: contains stored one_hot_similarity soft hard parse_map_def Let_def del: lit_simps)
qed

theorem ordinary_write_retires_rule_witness:
  "nr_layer demo_rule = lit ''identity_schema'' \<and> nr_evolution_state demo_rule = Some (lit ''active'') \<and>
   (\<exists>o2 k l c s w r. add_memory demo_lib demo_self no_faults demo_env demo_params demo_orch = (o2, Saved k l c s w) \<and>
     row_get nr_id (lit ''rule'') (note_rows (durable o2)) = Some r \<and> nr_is_active r = 0 \<and>
     nr_evolution_state r \<noteq> Some (lit ''active''))"
proof -
  from demo_saved obtain o2 warnings where
    saved: "add_memory demo_lib demo_self no_faults demo_env demo_params demo_orch
      = (o2, Saved (lit ''new'') (lit ''procedure_schema'') None [] warnings)" by blast
  have rule: "row_get nr_id (lit ''rule'') (note_rows (durable demo_orch)) = Some demo_rule"
    by (simp add: demo_durable demo_row del: lit_simps)
  have few: "row_count (scanned demo_self) (note_rows (durable demo_orch)) < CROSS_LAYER_SCAN_LIMIT"
    using demo_count [of "scanned demo_self"] unfolding CROSS_LAYER_SCAN_LIMIT_def by linarith
  have "\<exists>r. row_get nr_id (lit ''rule'') (note_rows (durable o2)) = Some r \<and> nr_is_active r = 0 \<and>
      nr_evolution_state r \<noteq> Some (lit ''active'')"
    by (rule ordinary_write_retires_rule [OF saved demo_fresh layers(3) _ rule demo_row(2,3) _ _ _ _ few,
          where emb = one_hot and sim = "Fin 1"])
      (simp_all add: demo_content demo_place demo_contradiction demo_row demo_simps del: lit_simps)
  with saved demo_row(2,9) show ?thesis by blast
qed

section \<open>Outcomes and checkpoints\<close>

text \<open>A reported outcome on the sample note whose edge update fails.\<close>

definition locked :: "write_stmt faults" where
  "locked s = (if s = WriterStmt (lit ''n'') UpdateEdges then Some (lit ''locked'') else None)"

definition demo_lib2 :: write_lib where
  "demo_lib2 = demo_lib\<lparr>wl_json := (one_doc JNull)\<lparr>jl_print := \<lambda>_. Some (lit ''doc'')\<rparr>\<rparr>"

definition demo_orch2 :: orch where
  "demo_orch2 = \<lparr>oc_conn = \<lparr>committed = demo_db, open_txn = None\<rparr>, oc_files = Map.empty\<rparr>"

theorem failed_feedback_wedges_the_writer_witness:
  "\<exists>o2. report_outcome demo_lib2 locked demo_env (lit ''n'') (lit ''outdated'') None demo_orch2
      = (o2, Err (lit ''Hebbian feedback update failed: '' @ lit ''locked'')) \<and>
    open_txn (oc_conn o2) \<noteq> None \<and> durable o2 = demo_db \<and>
    (\<forall>calls. run_calls demo_lib2 demo_self calls o2 = o2)"
proof -
  let ?flt = "\<lambda>s. locked (WriterStmt (lit ''n'') s)"
  have flt: "?flt UpdateEdges = Some (lit ''locked'')" "\<And>s. s \<noteq> UpdateEdges \<Longrightarrow> ?flt s = None"
    by (simp_all add: locked_def)
  have conn: "durable demo_orch2 = demo_db" "open_txn (oc_conn demo_orch2) = None" by (simp_all add: demo_orch2_def)
  have J: "jl_print (wl_json demo_lib2) v = Some (lit ''doc'')" for v by (simp add: demo_lib2_def)
  obtain db1 where up: "atomic_update_outcome (wl_json demo_lib2) ?flt (lit ''n'') (lit ''outdated'') None demo_db = (db1, Ok True)"
    by (simp add: atomic_update_outcome_def op_simps demo_db_def demo_row_simps outcome_effect_def Let_def J flt(2)
        meta_keys op_bind_def del: lit_simps)
  obtain db2 where heb: "apply_hebbian_feedback (wl_json demo_lib2) ?flt (we_clock demo_env) (lit ''n'') (lit ''outdated'') db1
      = (db2, Err (lit ''locked''))"
    by (simp add: apply_hebbian_feedback_def op_simps hebbian_feedback_edges_def meta_keys known_outcome_def flt
        op_bind_def op_return_def sql_query_def sql_exec_def del: lit_simps)
  have "locked BeginWrite = None" by (simp add: locked_def)
  from failed_feedback_wedges_the_writer [OF conn(2) this up [folded conn(1)] disjI1, OF exI, OF conjI, OF heb refl,
      of demo_self] conn
  show ?thesis by auto
qed

lemma checkpoint_succeeds:
  assumes "checkpoint_rows W self task_id (checkpoint_searchable_content task_id summary metadata) (durable o1) = []"
    and "open_txn (oc_conn o1) = None" "cw_project_id (wo_cold self) = []"
  shows "\<exists>o2. save_checkpoint W self no_faults ev task_id summary metadata o1 = (o2, Ok (we_uuid ev))"
proof -
  let ?content = "checkpoint_searchable_content task_id summary metadata"
  let ?n = "checkpoint_note W self ev ?content (case jl_print (wl_json W) (JObj metadata) of None \<Rightarrow> lit ''{}'' | Some s \<Rightarrow> s)"
  let ?deact = "deactivate_checkpoints_by_task_id (wl_json W) (\<lambda>s. None) task_id None"
  have nf: "(no_faults :: note_stmt faults) = (\<lambda>s. None)" by (simp add: fun_eq_iff)
  obtain db1 m where deact: "?deact (durable o1) = (db1, Ok m)"
    by (simp add: deactivate_checkpoints_by_task_id_def Let_def op_simps)
  obtain db2 where up: "upsert_note (\<lambda>s. None) (we_clock ev) ?n db1 = (db2, Ok ())"
    using upsert_note_no_faults [of "we_clock ev" ?n db1] unfolding nf by blast
  let ?o2 = "o1\<lparr>oc_conn := (oc_conn o1)\<lparr>open_txn := Some (durable o1)\<rparr>\<rparr>"
  let ?o3 = "o1\<lparr>oc_conn := (oc_conn o1)\<lparr>open_txn := Some db2\<rparr>\<rparr>"
  have "checkpoint_body W self no_faults ev task_id ?content metadata ?o2 = (?o3, Ok (we_uuid ev))"
    using assms deact up
    by (simp add: checkpoint_body_def archive_note_def op_bind_def op_map_err_def op_return_def on_db_def on_conn_def
        current_def on_files_def cold_append_def Let_def sql_query_def sql_exec_def checkpoint_note_simps del: lit_simps)
  with assms(2) show ?thesis
    by (auto simp: save_checkpoint_def in_transaction_def on_txn_def txn_begin_def txn_commit_def)
qed

definition task_meta :: json_map where
  "task_meta = [(lit ''record_type'', JStr (lit ''checkpoint'')), (lit ''task_id'', JStr (lit ''t''))]"

definition task_lib :: write_lib where
  "task_lib = demo_lib\<lparr>wl_json := (one_doc (JObj task_meta))\<lparr>jl_extract_text := (\<lambda>s p.
     if p = lit ''$.record_type'' then Some (lit ''checkpoint'') else if p = lit ''$.task_id'' then Some (lit ''t'') else None)\<rparr>\<rparr>"

lemma task_lib_law: "json_text_law (wl_json task_lib)"
  by (auto simp: json_text_law_def task_lib_def one_doc_def task_meta_def split: if_splits)

theorem saved_checkpoint_is_the_only_one_witness:
  "\<exists>o2. save_checkpoint task_lib demo_self no_faults demo_env (lit ''t'') (lit ''done'') task_meta demo_orch
       = (o2, Ok (lit ''new'')) \<and>
     (\<exists>r \<in> set (note_rows (durable o2)). nr_id r = lit ''new'' \<and> checkpoint_metas task_lib (lit ''t'') r)"
proof -
  have ev: "we_uuid demo_env = lit ''new''" by (simp add: demo_env_def)
  have rows: "note_rows (durable demo_orch) = [demo_rule]" by (simp add: demo_durable)
  have "checkpoint_rows task_lib demo_self (lit ''t'') (checkpoint_searchable_content (lit ''t'') (lit ''done'') task_meta)
      (durable demo_orch) = []"
    by (simp add: checkpoint_rows_def rows demo_row sort_desc_def lit_inject del: lit_simps)
  from checkpoint_succeeds [OF this demo_durable(2), of demo_env] obtain o2 where
    saved: "save_checkpoint task_lib demo_self no_faults demo_env (lit ''t'') (lit ''done'') task_meta demo_orch
      = (o2, Ok (lit ''new''))"
    by (auto simp: demo_self_def cold_disabled_def ev simp del: lit_simps)
  have "jl_print (wl_json task_lib) (JObj task_meta) \<noteq> None"
    "map_of task_meta (lit ''record_type'') = Some (JStr (lit ''checkpoint''))"
    "map_of task_meta (lit ''task_id'') = Some (JStr (lit ''t''))"
    by (simp_all add: task_lib_def one_doc_def task_meta_def)
  from saved_checkpoint_is_the_only_one [OF saved demo_fresh task_lib_law this] saved show ?thesis by blast
qed

end
