(* ===== verification/Scoring_Text.thy ===== *)
theory Scoring_Text
  imports Similarity Cold_Storage
begin

text \<open>
  The text side of the ranking score (\<open>retrieval/scoring.rs\<close>): its tables, the normalised
  text, the intent markers, tokens, task slugs, aliases and code identifiers. The tables are
  the program's, non-ASCII entries as code points. The Unicode lower-case mapping is the
  argument \<open>L\<close>. A slice of a string outside its character boundaries panics; that is the
  value None.
\<close>

section \<open>Tables\<close>

definition CURRENT_STATE_MARKERS_ZH :: "ustr list" where
  "CURRENT_STATE_MARKERS_ZH =
   [[0x73B0, 0x5728], [0x5F53, 0x524D], [0x76EE, 0x524D], [0x6700, 0x65B0], [0x73B0, 0x72B6],
    [0x72B6, 0x6001], [0x8FD8, 0x5728, 0x7528, 0x5417], [0x8FD8, 0x5728, 0x5417],
    [0x4ECD, 0x5728], [0x8FD8, 0x7528, 0x5417], [0x8FD8, 0x6D3B, 0x7740, 0x5417],
    [0x662F, 0x5426, 0x8FD8, 0x5728], [0x662F, 0x5426, 0x8FD8, 0x7528],
    [0x6700, 0x8FD1, 0x72B6, 0x6001], [0x9879, 0x76EE, 0x72B6, 0x6001],
    [0x9879, 0x76EE, 0x8FDB, 0x5EA6], [0x9879, 0x76EE, 0x6700, 0x8FD1],
    [0x9879, 0x76EE, 0x65B9, 0x5411], [0x8FDB, 0x5EA6], [0x5982, 0x4F55],
    [0x600E, 0x4E48, 0x6837], [0x8FD1, 0x671F], [0x672C, 0x5468], [0x8FD9, 0x5468],
    [0x5DEE, 0x8DDD], [0x5BF9, 0x6807], [0x613F, 0x666F], [0x5317, 0x6781, 0x661F],
    [0x65B9, 0x5411], [0x8BC4, 0x4F30], [0x76D8, 0x70B9], [0x56DE, 0x987E], [0x56DE, 0x5FC6],
    [0x56DE, 0x4E00, 0x4E0B], [0x4E0A, 0x4E0B, 0x6587], [0x4ECA, 0x5929], [0x6628, 0x665A],
    [0x8FD9, 0x4E24, 0x5929], [0x521A, 0x505A, 0x5B8C], [0x4EC0, 0x4E48, 0x60C5, 0x51B5],
    [0x5728, 0x6267, 0x884C]]"

definition CURRENT_STATE_MARKERS_EN :: "ustr list" where
  "CURRENT_STATE_MARKERS_EN =
   [lit ''current'', lit ''currently'', lit ''latest'', lit ''latest status'',
    lit ''current status'', lit ''still using'', lit ''still in use'', lit ''still active'',
    lit ''active now'', lit ''status now'', lit ''how is'', [104, 111, 119, 39, 115],
    lit ''evaluate'']"

definition HISTORY_MARKERS_ZH :: "ustr list" where
  "HISTORY_MARKERS_ZH =
   [[0x4E0A, 0x6B21], [0x4E4B, 0x524D], [0x4EE5, 0x524D], [0x6700, 0x8FD1], [0x6628, 0x5929],
    [0x524D, 0x5929], [0x521A, 0x624D], [0x5F53, 0x521D], [0x90A3, 0x65F6], [0x90A3, 0x5929],
    [0x90A3, 0x5E74], [0x90A3, 0x4E2A, 0x65F6, 0x5019], [0x6700, 0x521D],
    [0x5F00, 0x59CB, 0x65F6], [0x540E, 0x6765], [0x7B2C, 0x4E00, 0x6B21],
    [0x6700, 0x540E, 0x4E00, 0x6B21], [0x4E0A, 0x4E00, 0x6B21],
    [0x4EC0, 0x4E48, 0x65F6, 0x5019], [0x591A, 0x4E45], [0x591A, 0x5C11, 0x5929], [0x5148],
    [0x540E], [0x4E4B, 0x540E], [0x4EE5, 0x540E], [0x4ECE, 0x90A3, 0x4EE5, 0x540E],
    [0x5728, 0x6B64, 0x4E4B, 0x524D], [0x5728, 0x90A3, 0x4E4B, 0x540E],
    [0x4E3A, 0x4EC0, 0x4E48, 0x540E, 0x6765], [0x65F6, 0x95F4, 0x7EBF]]"

definition HISTORY_MARKERS_EN :: "ustr list" where
  "HISTORY_MARKERS_EN =
   [lit ''previous'', lit ''last time'', lit ''recently'', lit ''before'', lit ''earlier'',
    lit ''when did'', lit ''how long'', lit ''how many days'', lit ''how many weeks'',
    lit ''how many months'', lit ''first time'', lit ''last time'', lit ''at the time'',
    lit ''back then'', lit ''used to'', lit ''after'', lit ''since'', lit ''until'',
    lit ''once'', lit ''ago'', lit ''timeline'', lit ''order'', lit ''which came first'',
    lit ''which happened first'', lit ''before or after'', lit ''what date'',
    lit ''what time'', lit ''what month'', lit ''what year'']"

definition REMOTE_HISTORY_MARKERS_ZH :: "ustr list" where
  "REMOTE_HISTORY_MARKERS_ZH =
   [[0x5F53, 0x521D], [0x4EE5, 0x524D], [0x6700, 0x521D], [0x65E9, 0x5148], [0x8FC7, 0x53BB],
    [0x90A3, 0x5E74], [0x90A3, 0x65F6]]"

definition REMOTE_HISTORY_MARKERS_EN :: "ustr list" where
  "REMOTE_HISTORY_MARKERS_EN =
   [lit ''back then'', lit ''originally'', lit ''formerly'', lit ''used to'', lit ''initial'']"

definition TYPED_FACT_CATEGORIES :: "ustr list" where
  "TYPED_FACT_CATEGORIES =
   [lit ''assistant_response'', lit ''preference'']"

definition VAGUE_KEYWORDS :: "ustr list" where
  "VAGUE_KEYWORDS =
   [[0x5DE5, 0x5177], [0x65B9, 0x6848], [0x9879, 0x76EE], [0x8BB0, 0x5FC6], [0x8BB0, 0x5F55],
    [0x8BA8, 0x8BBA], [0x6D41, 0x7A0B]]"

definition PERSON_MARKERS :: "ustr list" where
  "PERSON_MARKERS =
   [lit ''alice'', lit ''bob'', lit ''mary'', lit ''ceo'', lit ''demo portrait'']"

definition KNOWN_TOOLS :: "ustr list" where
  "KNOWN_TOOLS =
   [lit ''memory anchor'', lit ''comfyui'', lit ''photoshop'', [0x5F97, 0x7269],
    [0x5C0F, 0x7EA2, 0x4E66], lit ''instagram'', lit ''shopify'', lit ''tiktok'',
    lit ''demo-brand'', lit ''kimi'', lit ''gemma'', lit ''claude'', lit ''openai'',
    lit ''chatgpt'', lit ''midjourney'', lit ''sqlite'', lit ''qdrant'', lit ''postgresql'',
    lit ''redis'', lit ''docker'', lit ''git'', lit ''github'', lit ''vscode'', lit ''cursor'',
    lit ''windsurf'', lit ''workbench'', lit ''wal'', lit ''fts'', lit ''fts5'', lit ''bm25'',
    lit ''vercel'', lit ''cloudflare'', lit ''pages'', lit ''ollama'', lit ''fastapi'',
    lit ''express'', lit ''react'', lit ''next.js'', lit ''tailwind'', lit ''seedance'',
    lit ''seedream'', lit ''flux'', lit ''schnell'', lit ''wechatpadpro'', lit ''wireguard'',
    lit ''tailscale'', lit ''paperclip'', lit ''mission control'', lit ''playwright'',
    lit ''browser-use'', lit ''rsync'', lit ''pm2'', lit ''akm'', lit ''lemon squeezy'',
    lit ''mcp'', lit ''fastembed'']"

definition TECHNICAL_TERMS :: "ustr list" where
  "TECHNICAL_TERMS =
   [lit ''bug'', lit ''error'', lit ''crash'', lit ''failure'', lit ''exception'',
    lit ''upsert'', lit ''checkpoint'', lit ''sqlite'', lit ''fts5'', lit ''token'',
    lit ''vector'', lit ''embedding'', lit ''llm'', lit ''synapse'', lit ''consolidation'',
    lit ''dedup'', lit ''pr'', lit ''repo'', lit ''git'', lit ''cli'', lit ''api'',
    lit ''json'', lit ''jsonl'', lit ''config'', lit ''yaml'', lit ''env'', lit ''proxy'',
    lit ''port'', lit ''host'', lit ''server'', lit ''client'', lit ''request'',
    lit ''response'', lit ''mcp'', lit ''fastembed'', lit ''nomic'', lit ''embed'',
    lit ''wal'', lit ''wal-mode'', lit ''deploy'', lit ''deployment'', [0x90E8, 0x7F72],
    [0x4E0A, 0x7EBF], lit ''freshness'', lit ''decay'', [0x65F6, 0x95F4, 0x8870, 0x51CF],
    [0x8870, 0x51CF], lit ''recall'', lit ''mrr'', lit ''ndcg'', lit ''benchmark'',
    lit ''environment'', lit ''variable'', [0x73AF, 0x5883, 0x53D8, 0x91CF], [0x8BA4, 0x8BC1],
    lit ''auth'', lit ''tokenization'', lit ''indexing'', lit ''pipeline'', lit ''schema'',
    lit ''metadata'', lit ''payload'', lit ''id'', lit ''uuid'', lit ''async'', lit ''await'',
    lit ''sync'', lit ''concurrent'', lit ''thread'', lit ''process'', lit ''memory'',
    lit ''storage'', lit ''database'', lit ''query'', lit ''search'', lit ''retrieval'',
    lit ''scoring'', lit ''ranking'', lit ''mrr@5'', lit ''ndcg@5'', lit ''top-k'',
    lit ''latency'', lit ''performance'', lit ''optimization'', [0x6839, 0x56E0],
    [0x539F, 0x56E0], [0x5931, 0x6548], [0x6545, 0x969C], [0x62A5, 0x9519], [0x95EE, 0x9898],
    lit ''root-cause'', lit ''reason'', lit ''fault'', lit ''architecture'', lit ''design'',
    lit ''pattern'', lit ''singleton'', lit ''isolation'', lit ''conftest'', lit ''fixture'',
    lit ''workflow'', lit ''pipeline'', lit ''adapter'', lit ''middleware'', lit ''webhook'',
    lit ''intent'', lit ''routing'', lit ''logic'', lit ''implementation'']"

definition CJK_STOPWORDS :: "rchar list" where
  "CJK_STOPWORDS =
   [0x7684, 0x4E86, 0x662F, 0x5728, 0x548C, 0x4E0E, 0x4E5F, 0x90FD, 0x5C31, 0x628A, 0x88AB,
    0x7ED9, 0x8BA9, 0x4ECE, 0x4E2A, 0x4EC0, 0x4E48, 0x8FD9, 0x90A3, 0x5B83, 0x6709, 0x6CA1,
    0x7740, 0x8FC7, 0x4E4B, 0x4E8E, 0x4EE5, 0x53CA, 0x5427, 0x5462, 0x5417, 0x800C, 0x6216,
    0x4E14, 0x5219, 0x4E3A, 0x6240, 0x7531]"


section \<open>Normalised text\<close>

fun collapse_spaces :: "bool \<Rightarrow> ustr \<Rightarrow> ustr" where
  "collapse_spaces prev_space [] = []"
| "collapse_spaces prev_space (ch # t) =
     (if is_whitespace ch
      then (if prev_space then collapse_spaces prev_space t else 32 # collapse_spaces True t)
      else ch # collapse_spaces False t)"

definition normalize_text :: "(ustr \<Rightarrow> ustr) \<Rightarrow> ustr \<Rightarrow> ustr" where
  "normalize_text L s =
     (let result = collapse_spaces True (L s)
      in if result \<noteq> [] \<and> last result = 32 then butlast result else result)"

definition is_cjk_char :: "rchar \<Rightarrow> bool" where
  "is_cjk_char c \<longleftrightarrow> 0x4E00 \<le> c \<and> c \<le> 0x9FFF"

definition is_cjk_text :: "ustr \<Rightarrow> bool" where
  "is_cjk_text s = list_ex is_cjk_char s"

definition is_cjk_stopword :: "rchar \<Rightarrow> bool" where
  "is_cjk_stopword c \<longleftrightarrow> c \<in> set CJK_STOPWORDS"

definition is_ascii_alphabetic :: "rchar \<Rightarrow> bool" where
  "is_ascii_alphabetic c \<longleftrightarrow> is_ascii_uppercase c \<or> is_ascii_lowercase c"

section \<open>Intents\<close>

definition has_current_state_intent :: "(ustr \<Rightarrow> ustr) \<Rightarrow> ustr \<Rightarrow> bool" where
  "has_current_state_intent L query =
     (let q = L query
      in list_ex (contains q) CURRENT_STATE_MARKERS_ZH \<or> list_ex (contains q) CURRENT_STATE_MARKERS_EN)"

definition has_history_intent :: "(ustr \<Rightarrow> ustr) \<Rightarrow> ustr \<Rightarrow> bool" where
  "has_history_intent L query =
     (if has_current_state_intent L query then False
      else let q = L query
           in list_ex (contains q) HISTORY_MARKERS_ZH \<or> list_ex (contains q) HISTORY_MARKERS_EN)"

definition has_remote_history_intent :: "(ustr \<Rightarrow> ustr) \<Rightarrow> ustr \<Rightarrow> bool" where
  "has_remote_history_intent L query =
     (let q = L query
      in list_ex (contains q) REMOTE_HISTORY_MARKERS_ZH \<or> list_ex (contains q) REMOTE_HISTORY_MARKERS_EN)"

definition has_temporal_markers :: "(ustr \<Rightarrow> ustr) \<Rightarrow> ustr \<Rightarrow> bool" where
  "has_temporal_markers L query \<longleftrightarrow> has_current_state_intent L query \<or> has_history_intent L query"

section \<open>Tokens\<close>

text \<open>The two-character windows of a text.\<close>

fun bigrams :: "ustr \<Rightarrow> ustr list" where
  "bigrams (a # b # t) = [a, b] # bigrams (b # t)"
| "bigrams _ = []"

text \<open>\<open>split_cjk_segments\<close>: maximal runs of CJK and of other characters.\<close>

fun split_cjk_segments :: "ustr \<Rightarrow> ustr list" where
  "split_cjk_segments [] = []"
| "split_cjk_segments (ch # t) =
     (case split_cjk_segments t of
        [] \<Rightarrow> [[ch]]
      | seg # segs \<Rightarrow>
          if is_cjk_char ch = is_cjk_char (hd seg) then (ch # seg) # segs else [ch] # seg # segs)"

definition segment_tokens :: "ustr \<Rightarrow> ustr list" where
  "segment_tokens seg =
     (if is_cjk_text seg then
        let chars = filter (\<lambda>c. is_cjk_char c \<and> \<not> is_cjk_stopword c) seg
        in if 2 \<le> length chars then bigrams chars else map (\<lambda>ch. [ch]) chars
      else split_whitespace seg)"

definition query_tokens :: "ustr \<Rightarrow> ustr list" where
  "query_tokens q =
     (let whitespace_tokens = split_whitespace q
      in if length whitespace_tokens \<le> 1 \<and> is_cjk_text q
         then concat (map segment_tokens (split_cjk_segments q))
         else whitespace_tokens)"

text \<open>Literals, integers, difference, \<open>max\<close> and \<open>min\<close> of doubles; those two skip NaN.\<close>

definition xlit :: "rat \<Rightarrow> xf64" where
  "xlit x = Fin (f64_lit x)"

definition xnat :: "nat \<Rightarrow> xf64" where
  "xnat n = Fin (round64 (of_nat n))"

definition xint :: "int \<Rightarrow> xf64" where
  "xint n = Fin (round64 (of_int n))"

definition xsub :: "xf64 \<Rightarrow> xf64 \<Rightarrow> xf64" where
  "xsub a b = xadd a (xneg b)"

definition xmax :: "xf64 \<Rightarrow> xf64 \<Rightarrow> xf64" where
  "xmax a b = (if a = NaN then b else if xless a b then b else a)"

definition xmin :: "xf64 \<Rightarrow> xf64 \<Rightarrow> xf64" where
  "xmin a b = (if a = NaN then b else if xless b a then b else a)"

text \<open>Ratio, hits, total and position bonus of the query's tokens in the content.\<close>

definition token_score :: "(ustr \<Rightarrow> ustr) \<Rightarrow> ustr \<Rightarrow> ustr \<Rightarrow> xf64 \<times> nat \<times> nat \<times> xf64" where
  "token_score L query content =
     (let q = normalize_text L query; c = normalize_text L content; tokens = query_tokens q
      in if q = [] \<or> c = [] \<or> tokens = [] then (Fin 0, 0, 0, Fin 0)
         else
           let hits = length (filter (\<lambda>t. t \<noteq> [] \<and> contains c t) tokens);
               pos_hits = length (filter (\<lambda>t. t \<noteq> [] \<and> contains (take 120 c) t) tokens)
           in (xdiv (xnat hits) (xnat (max (length tokens) 1)), hits, length tokens,
               xdiv (xmul (xlit 0.06) (xnat pos_hits)) (xnat (length tokens))))"

section \<open>Task slugs and aliases\<close>

definition slug_char :: "rchar \<Rightarrow> bool" where
  "slug_char c \<longleftrightarrow> is_ascii_lowercase c \<or> is_ascii_digit c"

definition slug_separator :: "rchar \<Rightarrow> bool" where
  "slug_separator c \<longleftrightarrow> c = 45 \<or> c = 95"

definition is_task_slug_like :: "ustr \<Rightarrow> bool" where
  "is_task_slug_like s =
     (if s = [] then False
      else let parts = split_on slug_separator s
           in if length parts < 3 then False else list_all (\<lambda>p. p \<noteq> [] \<and> list_all slug_char p) parts)"

function regex_task_slugs :: "ustr \<Rightarrow> ustr list" where
  "regex_task_slugs [] = []"
| "regex_task_slugs (c # t) =
     (if slug_char c then
        let run = takeWhile (\<lambda>x. slug_char x \<or> slug_separator x) (c # t);
            rest = dropWhile (\<lambda>x. slug_char x \<or> slug_separator x) (c # t)
        in if 2 \<le> length (filter slug_separator run) \<and> is_task_slug_like run
           then run # regex_task_slugs rest else regex_task_slugs rest
      else regex_task_slugs t)"
  by pat_completeness auto

termination
  by (relation "measure length") (auto simp: le_imp_less_Suc length_dropWhile_le)

definition extract_query_task_slugs :: "(ustr \<Rightarrow> ustr) \<Rightarrow> ustr \<Rightarrow> ustr list" where
  "extract_query_task_slugs L query =
     (let normalized = normalize_text L query
      in fold (\<lambda>cap slugs. if cap \<in> set slugs then slugs else slugs @ [cap]) (regex_task_slugs normalized)
           (filter is_task_slug_like (split_whitespace normalized)))"

definition string_aliases :: "(ustr \<Rightarrow> ustr) \<Rightarrow> ustr \<Rightarrow> ustr list" where
  "string_aliases L s =
     (let norm = normalize_text L s
      in if norm = [] then []
         else norm # filter (\<lambda>p. p \<noteq> [] \<and> p \<noteq> norm)
                (map trim (split_on (\<lambda>c. c = 44 \<or> c = 59 \<or> c = 10) norm)))"

fun extract_aliases_from_value :: "(ustr \<Rightarrow> ustr) \<Rightarrow> json \<Rightarrow> ustr list" where
  "extract_aliases_from_value L (JStr s) = string_aliases L s"
| "extract_aliases_from_value L (JArr arr) = concat (map (extract_aliases_from_value L) arr)"
| "extract_aliases_from_value L _ = []"

text \<open>\<open>str::find\<close> of a string, as a character index; \<open>&s[n..]\<close> by bytes, which may panic.\<close>

fun find_sub :: "ustr \<Rightarrow> ustr \<Rightarrow> nat option" where
  "find_sub [] p = (if p = [] then Some 0 else None)"
| "find_sub (c # t) p = (if starts_with (c # t) p then Some 0 else map_option Suc (find_sub t p))"

fun slice_from :: "ustr \<Rightarrow> nat \<Rightarrow> ustr option" where
  "slice_from [] n = (if n = 0 then Some [] else None)"
| "slice_from (c # t) n =
     (if n = 0 then Some (c # t)
      else if byte_len [c] \<le> n then slice_from t (n - byte_len [c]) else None)"

text \<open>\<open>str::lines\<close>: a line feed ends a line, with the carriage return before it.\<close>

definition strip_cr :: "ustr \<Rightarrow> ustr" where
  "strip_cr l = (if l \<noteq> [] \<and> last l = 13 then butlast l else l)"

definition str_lines :: "ustr \<Rightarrow> ustr list" where
  "str_lines t =
     (let ls = file_lines t
      in if t \<noteq> [] \<and> last t \<noteq> 10 then map strip_cr (butlast ls) @ [last ls] else map strip_cr ls)"

text \<open>The slug of one line: None is a panic. The position found in the lower-cased line is used
  in the line itself.\<close>

definition inline_slug :: "(ustr \<Rightarrow> ustr) \<Rightarrow> ustr \<Rightarrow> ustr \<Rightarrow> ustr list option" where
  "inline_slug L pattern line =
     (let lower = L line
      in case find_sub lower pattern of
           None \<Rightarrow> Some []
         | Some i \<Rightarrow>
             (case slice_from line (byte_len (take i lower)) of
                None \<Rightarrow> None
              | Some rest \<Rightarrow>
                  (case split_once 58 rest of
                     None \<Rightarrow> Some []
                   | Some (_, after) \<Rightarrow>
                       let val = trim after;
                           slug_text = normalize_text L (takeWhile (\<lambda>c. c \<noteq> 124 \<and> c \<noteq> 10) val)
                       in Some (if is_task_slug_like slug_text then [slug_text] else []))))"

definition extract_inline_task_slugs :: "(ustr \<Rightarrow> ustr) \<Rightarrow> ustr \<Rightarrow> ustr \<Rightarrow> ustr list option" where
  "extract_inline_task_slugs L content field =
     (if field = lit ''task_slug''
      then map_option concat (those (map (inline_slug L (lit ''task_slug'')) (str_lines content)))
      else if field = lit ''source_tasks''
      then map_option concat (those (map (inline_slug L (lit ''source_task'')) (str_lines content)))
      else Some [])"

section \<open>Code identifiers\<close>

definition snake_identifier :: "ustr \<Rightarrow> bool" where
  "snake_identifier w =
     (95 \<in> set w \<and> 3 \<le> byte_len w \<and>
      list_all (\<lambda>c. is_ascii_alphanumeric c \<or> c = 95 \<or> c = 45) w)"

definition allcaps_identifier :: "ustr \<Rightarrow> bool" where
  "allcaps_identifier w =
     (2 \<le> byte_len w \<and>
      list_all (\<lambda>c. is_ascii_uppercase c \<or> is_ascii_digit c \<or> c = 45) w \<and>
      list_ex is_ascii_uppercase w)"

definition dotted_identifier :: "ustr \<Rightarrow> bool" where
  "dotted_identifier w =
     (46 \<in> set w \<and> 3 \<le> byte_len w \<and>
      list_all (\<lambda>c. is_ascii_alphanumeric c \<or> c = 46 \<or> c = 45 \<or> c = 95) w)"

definition mixed_identifier :: "ustr \<Rightarrow> bool" where
  "mixed_identifier w =
     (list_ex is_ascii_digit w \<and> list_ex is_ascii_alphabetic w \<and> 2 \<le> byte_len w)"

definition is_code_identifier :: "ustr \<Rightarrow> bool" where
  "is_code_identifier w =
     (snake_identifier w \<or> allcaps_identifier w \<or> dotted_identifier w \<or> mixed_identifier w)"

definition find_code_identifiers :: "(ustr \<Rightarrow> ustr) \<Rightarrow> ustr \<Rightarrow> ustr list" where
  "find_code_identifiers L query =
     filter (\<lambda>w. w \<noteq> [] \<and> is_code_identifier w)
       (map trim (split_on (\<lambda>c. is_whitespace c \<or> c = 44 \<or> c = 124) (normalize_text L query)))"

end
