(* ===== verification/Search_Query.thy ===== *)
theory Search_Query
  imports Scoring_Text
begin

text \<open>
  Queries of a search (the text side of \<open>retrieval/recall.rs\<close> and \<open>retrieval/cjk_fallback.rs\<close>):
  the FTS5 expression, the conditions of the LIKE fallbacks, and SQLite's LIKE itself. The Unicode
  lower-case mapping is the argument \<open>L\<close>.
\<close>

section \<open>LIKE\<close>

text \<open>\<open>text LIKE pattern ESCAPE e\<close>: without case for ASCII letters; a pattern that ends in the
  escape character matches nothing.\<close>

definition like_char :: "rchar \<Rightarrow> rchar \<Rightarrow> bool" where
  "like_char p c \<longleftrightarrow> char_to_ascii_lowercase p = char_to_ascii_lowercase c"

function sql_like :: "rchar option \<Rightarrow> ustr \<Rightarrow> ustr \<Rightarrow> bool" where
  "sql_like e [] t = (t = [])"
| "sql_like e (p # ps) t =
     (if e = Some p then
        (case (ps, t) of (q # qs, c # cs) \<Rightarrow> like_char q c \<and> sql_like e qs cs | _ \<Rightarrow> False)
      else if p = 37 then sql_like e ps t \<or> (case t of [] \<Rightarrow> False | c # cs \<Rightarrow> sql_like e (p # ps) cs)
      else if p = 95 then (case t of [] \<Rightarrow> False | c # cs \<Rightarrow> sql_like e ps cs)
      else (case t of [] \<Rightarrow> False | c # cs \<Rightarrow> like_char p c \<and> sql_like e ps cs))"
  by pat_completeness auto

termination
  by (relation "measure (\<lambda>(e, ps, t). length ps + length t)") auto

text \<open>\<open>replace\<close> of single characters by texts.\<close>

definition replace_char :: "rchar \<Rightarrow> ustr \<Rightarrow> ustr \<Rightarrow> ustr" where
  "replace_char c by t = concat (map (\<lambda>x. if x = c then by else [x]) t)"

definition escape_like_pattern :: "ustr \<Rightarrow> ustr" where
  "escape_like_pattern value =
     replace_char 95 [92, 95] (replace_char 37 [92, 37] (replace_char 92 [92, 92] value))"

definition like_substring :: "ustr \<Rightarrow> ustr" where
  "like_substring value = [37] @ escape_like_pattern value @ [37]"

text \<open>The pattern for the rooms below a room.\<close>

definition subroom_pattern :: "ustr \<Rightarrow> ustr" where
  "subroom_pattern r = replace_char 95 [92, 95] (replace_char 37 [92, 37] r) @ lit ''/%''"

section \<open>FTS5 expressions\<close>

definition FTS5_SPECIAL :: ustr where
  "FTS5_SPECIAL =
     [34, 39, 40, 41, 42, 43, 45, 58, 94, 123, 125, 91, 93, 126, 63, 44, 59, 33, 92, 47, 64, 35, 36, 37,
      38, 61, 60, 62, 124, 46]"

definition is_fts5_special :: "rchar \<Rightarrow> bool" where
  "is_fts5_special c \<longleftrightarrow> c \<in> set FTS5_SPECIAL"

definition sanitize_fts_query :: "ustr \<Rightarrow> ustr" where
  "sanitize_fts_query t =
     join_with [32] (split_whitespace (map (\<lambda>c. if is_fts5_special c then 32 else c) t))"

definition RECALL_CJK_STOPWORDS :: ustr where
  "RECALL_CJK_STOPWORDS =
     [0x7684, 0x4E86, 0x662F, 0x5728, 0x6211, 0x6709, 0x548C, 0x5C31, 0x4E0D, 0x4EBA, 0x90FD, 0x4E00,
      0x4E2A, 0x4E0A, 0x4E5F, 0x5F88, 0x5230, 0x8BF4, 0x8981, 0x53BB, 0x4F60, 0x4F1A, 0x7740, 0x770B,
      0x597D, 0x8FD9]"

definition EXACT_PREFILTER_STOPWORDS :: "ustr list" where
  "EXACT_PREFILTER_STOPWORDS = [lit ''alice'']"

definition recall_cjk_stopword :: "rchar \<Rightarrow> bool" where
  "recall_cjk_stopword c \<longleftrightarrow> c \<in> set RECALL_CJK_STOPWORDS"

definition recall_cjk_chars :: "ustr \<Rightarrow> ustr" where
  "recall_cjk_chars t = filter (\<lambda>c. is_cjk_char c \<and> \<not> recall_cjk_stopword c) t"

definition quoted :: "ustr \<Rightarrow> ustr" where
  "quoted token = [34] @ token @ [34]"

text \<open>\<open>trim_matches('"')\<close>.\<close>

definition trim_quotes :: "ustr \<Rightarrow> ustr" where
  "trim_quotes t = rev (dropWhile (\<lambda>c. c = 34) (rev (dropWhile (\<lambda>c. c = 34) t)))"

definition prefilter_term :: "ustr \<Rightarrow> ustr list" where
  "prefilter_term token =
     (if list_ex is_cjk_char token
      then (let cjk_term = recall_cjk_chars token in if cjk_term = [] then [] else [cjk_term @ [42]])
      else [quoted token])"

definition build_exact_substring_fts_prefilter :: "(ustr \<Rightarrow> ustr) \<Rightarrow> ustr \<Rightarrow> ustr" where
  "build_exact_substring_fts_prefilter L query =
     (let terms = concat (map prefilter_term (split_whitespace (sanitize_fts_query query)));
          filtered = filter (\<lambda>t. L (trim_quotes t) \<notin> set EXACT_PREFILTER_STOPWORDS) terms;
          terms = (if 1 < length terms \<and> filtered \<noteq> [] then filtered else terms)
      in join_with (lit '' AND '') terms)"

text \<open>The terms of one segment of a query without white space, CJK or not.\<close>

definition fts_segment_terms :: "ustr \<Rightarrow> ustr list" where
  "fts_segment_terms segment =
     (let seg = trim segment
      in if seg = [] then []
         else if is_cjk_text segment then
           (let cjk_chars = recall_cjk_chars seg
            in if cjk_chars = [] then []
               else (cjk_chars @ [42]) # map (\<lambda>bg. bg @ [42]) (bigrams cjk_chars) @
                    (if length cjk_chars = 1 then [[hd cjk_chars, 42]] else []))
         else map quoted (split_whitespace seg))"

definition add_term :: "ustr \<Rightarrow> ustr list \<Rightarrow> ustr list" where
  "add_term t terms = (if t \<noteq> [] \<and> t \<notin> set terms then terms @ [t] else terms)"

definition build_fts_query :: "(ustr \<Rightarrow> ustr) \<Rightarrow> ustr \<Rightarrow> ustr" where
  "build_fts_query L query =
     (if query = [] then []
      else
        let query = sanitize_fts_query query
        in if trim query = [] then []
           else if \<not> is_cjk_text query then query
           else if 2 \<le> length (split_whitespace query) then build_exact_substring_fts_prefilter L query
           else
             let terms = fold add_term (concat (map fts_segment_terms (split_cjk_segments query))) []
             in if terms = [] then query else join_with (lit '' OR '') terms)"

definition should_seed_exact_substring :: "ustr \<Rightarrow> bool" where
  "should_seed_exact_substring query =
     (let query = trim query
      in 16 \<le> length query \<or>
         2 \<le> length (filter (list_ex (\<lambda>ch. is_ascii_alphanumeric ch \<or> is_cjk_char ch))
                (split_whitespace (sanitize_fts_query query))))"

section \<open>The CJK fallback\<close>

text \<open>The two-character windows of the CJK characters; the first and the last of more than two.\<close>

definition cjk_bigrams :: "ustr \<Rightarrow> ustr list" where
  "cjk_bigrams query =
     (let cjk_chars = filter is_cjk_char query; bgs = bigrams cjk_chars
      in if length cjk_chars < 2 then []
         else if 2 < length bgs then [hd bgs, last bgs] else bgs)"

definition build_cjk_like_conditions :: "ustr \<Rightarrow> (ustr \<times> ustr) list" where
  "build_cjk_like_conditions query =
     map (\<lambda>bg. (lit ''n.content LIKE ? ESCAPE '' @ [39, 92, 39],
                [37] @ replace_char 95 [92, 95] (replace_char 37 [92, 37] bg) @ [37]))
       (cjk_bigrams query)"

definition optional_condition :: "ustr \<Rightarrow> ustr option \<Rightarrow> (ustr \<times> ustr list) list" where
  "optional_condition sql value = (case value of None \<Rightarrow> [] | Some v \<Rightarrow> [(sql, [v])])"

definition build_cjk_fallback_query ::
  "ustr \<Rightarrow> bool \<Rightarrow> ustr option \<Rightarrow> ustr option \<Rightarrow> ustr option \<Rightarrow> ustr \<Rightarrow> ustr list \<Rightarrow> (ustr \<times> ustr list) option" where
  "build_cjk_fallback_query query only_active layer category room project_clause project_params =
     (let like_conditions = build_cjk_like_conditions query;
          parts = map (\<lambda>(sql, param). (sql, [param])) like_conditions @
            (if only_active then [(lit ''n.is_active = 1'', [])] else []) @
            optional_condition (lit ''n.layer = ?'') layer @
            optional_condition (lit ''n.category = ?'') category @
            (case room of None \<Rightarrow> []
             | Some r \<Rightarrow> [(lit ''(n.room = ? OR n.room LIKE ? ESCAPE '' @ [39, 92, 39, 41], [r, subroom_pattern r])]) @
            [(project_clause, project_params)]
      in if like_conditions = [] then None
         else Some (join_with (lit '' AND '') (map fst parts), concat (map snd parts)))"

end
