(* ===== verification/Search_Results.thy ===== *)
theory Search_Results
  imports Scoring_Text "HOL-Library.AList"
begin

text \<open>
  Post-processing of search results (\<open>retrieval/postprocess.rs\<close> and \<open>SearchResult\<close> of
  \<open>storage/db.rs\<close>): one result per topic key, a cap on each category, temperature labels, the
  default channel and the merge with recent results. A hash map is the list of its entries in the
  order they came; nothing here depends on that order. \<open>sort_by\<close> is a stable insertion sort,
  which is the standard sort's result when no score is NaN.
\<close>

record search_result =
  re_id :: ustr
  re_content :: ustr
  re_layer :: ustr
  re_category :: "ustr option"
  re_score :: xf64
  re_created_at :: "ustr option"
  re_topic_key :: "ustr option"
  re_root_id :: "ustr option"
  re_version :: "int option"
  re_channel :: "ustr option"
  re_temperature :: "ustr option"
  re_is_head :: bool
  re_metadata :: "json option"
  re_recall_count :: int
  re_last_recalled_at :: "ustr option"

section \<open>Sorting by score\<close>

fun insert_by_score :: "('a \<Rightarrow> xf64) \<Rightarrow> 'a \<Rightarrow> 'a list \<Rightarrow> 'a list" where
  "insert_by_score f x [] = [x]"
| "insert_by_score f x (y # ys) =
     (if xless (f x) (f y) then y # insert_by_score f x ys else x # y # ys)"

text \<open>\<open>sort_by(|a, b| b.partial_cmp(a).unwrap_or(Equal))\<close> on a score.\<close>

definition sort_by_score :: "('a \<Rightarrow> xf64) \<Rightarrow> 'a list \<Rightarrow> 'a list" where
  "sort_by_score f xs = foldr (insert_by_score f) xs []"

section \<open>One result per topic\<close>

definition text_or_empty :: "ustr option \<Rightarrow> ustr" where
  "text_or_empty t = (case t of None \<Rightarrow> [] | Some s \<Rightarrow> s)"

definition exact_channel :: "search_result \<Rightarrow> bool" where
  "exact_channel r \<longleftrightarrow> re_channel r = Some (lit ''exact'')"

text \<open>Whether the new result of a topic replaces the one kept so far.\<close>

definition should_replace :: "search_result \<Rightarrow> search_result \<Rightarrow> bool" where
  "should_replace new old =
     (if exact_channel new \<noteq> exact_channel old then exact_channel new
      else text_or_empty (re_created_at old) < text_or_empty (re_created_at new))"

definition result_topic :: "search_result \<Rightarrow> ustr option" where
  "result_topic r = (case re_topic_key r of Some tk \<Rightarrow> (if tk = [] then None else Some tk) | None \<Rightarrow> None)"

definition topic_step ::
  "search_result list \<Rightarrow> nat \<Rightarrow> (ustr \<times> nat) list \<times> nat list \<Rightarrow> (ustr \<times> nat) list \<times> nat list" where
  "topic_step results i acc =
     (case acc of (topic_best, no_topic_indices) \<Rightarrow>
        (case result_topic (results ! i) of
           None \<Rightarrow> (topic_best, no_topic_indices @ [i])
         | Some tk \<Rightarrow>
             (case map_of topic_best tk of
                None \<Rightarrow> (AList.update tk i topic_best, no_topic_indices)
              | Some existing_idx \<Rightarrow>
                  (if should_replace (results ! i) (results ! existing_idx)
                   then AList.update tk i topic_best else topic_best, no_topic_indices))))"

definition retain_indices :: "(nat \<Rightarrow> bool) \<Rightarrow> 'a list \<Rightarrow> 'a list" where
  "retain_indices keep xs = map snd (filter (\<lambda>(i, x). keep i) (enumerate 0 xs))"

definition dedupe_results_by_topic_key :: "search_result list \<Rightarrow> search_result list \<times> ustr set" where
  "dedupe_results_by_topic_key results =
     (case fold (topic_step results) [0..<length results] ([], []) of
        (topic_best, no_topic_indices) \<Rightarrow>
          let keep_indices = set (map snd topic_best @ no_topic_indices)
          in (sort_by_score re_score (retain_indices (\<lambda>i. i \<in> keep_indices) results),
              set (map fst topic_best)))"

section \<open>Category diversity\<close>

definition result_category :: "search_result \<Rightarrow> ustr" where
  "result_category r = (case re_category r of Some c \<Rightarrow> c | None \<Rightarrow> re_layer r)"

definition category_step ::
  "search_result list \<Rightarrow> nat \<Rightarrow> (ustr \<times> nat list) list \<Rightarrow> (ustr \<times> nat list) list" where
  "category_step results i items =
     (let cat = result_category (results ! i)
      in AList.update cat ((case map_of items cat of None \<Rightarrow> [] | Some is \<Rightarrow> is) @ [i]) items)"

text \<open>\<open>(total as f64 * max_ratio).floor().max(2.0) as usize\<close>.\<close>

definition category_cap :: "nat \<Rightarrow> f64 \<Rightarrow> nat" where
  "category_cap total_results max_ratio = nat (max 2 \<lfloor>round64 (round64 (of_nat total_results) * max_ratio)\<rfloor>)"

definition over_cap :: "nat \<Rightarrow> search_result list \<Rightarrow> nat list \<Rightarrow> nat list" where
  "over_cap cap results items =
     (if cap < length items then drop cap (sort_by_score (\<lambda>i. re_score (results ! i)) items) else [])"

definition enforce_type_diversity :: "f64 \<Rightarrow> search_result list \<Rightarrow> search_result list" where
  "enforce_type_diversity max_ratio results =
     (if length results \<le> 2 \<or> 1 \<le> max_ratio then results
      else
        let category_items = fold (category_step results) [0..<length results] [];
            cap = category_cap (length results) max_ratio;
            excluded = set (concat (map (\<lambda>(cat, items). over_cap cap results items) category_items))
        in if length category_items \<le> 1 \<or> excluded = {} then results
           else retain_indices (\<lambda>i. i \<notin> excluded) results)"

section \<open>Labels, channels and recent results\<close>

text \<open>\<open>s.replace("Z", "+00:00")\<close>.\<close>

definition offset_spelling :: "ustr \<Rightarrow> ustr" where
  "offset_spelling s = concat (map (\<lambda>c. if c = 90 then lit ''+00:00'' else [c]) s)"

text \<open>\<open>(now - dt).num_days()\<close>, which rounds towards zero.\<close>

definition days_between :: "int \<times> nat \<Rightarrow> int \<times> nat \<Rightarrow> int" where
  "days_between now dt =
     (let nanos = (fst now - fst dt) * 10 ^ 9 + (int (snd now) - int (snd dt));
          day = 86400 * 10 ^ 9
      in if 0 \<le> nanos then nanos div day else - (- nanos div day))"

definition temperature_label :: "(ustr \<Rightarrow> (int \<times> nat) option) \<Rightarrow> int \<times> nat \<Rightarrow> search_result \<Rightarrow> ustr" where
  "temperature_label parse_rfc3339 now r =
     (let days_since =
            (case Option.bind (re_last_recalled_at r) (\<lambda>s. parse_rfc3339 (offset_spelling s)) of
               None \<Rightarrow> 999 | Some dt \<Rightarrow> days_between now dt)
      in if 3 \<le> re_recall_count r \<and> days_since \<le> 30 then lit ''hot''
         else if 1 \<le> re_recall_count r \<and> days_since \<le> 180 then lit ''warm''
         else lit ''cold'')"

definition add_temperature_labels ::
  "(ustr \<Rightarrow> (int \<times> nat) option) \<Rightarrow> int \<times> nat \<Rightarrow> search_result list \<Rightarrow> search_result list" where
  "add_temperature_labels parse_rfc3339 now =
     map (\<lambda>r. r\<lparr>re_temperature := Some (temperature_label parse_rfc3339 now r)\<rparr>)"

definition ensure_default_channel :: "ustr \<Rightarrow> search_result list \<Rightarrow> search_result list" where
  "ensure_default_channel default_channel =
     map (\<lambda>r. if re_channel r = None then r\<lparr>re_channel := Some default_channel\<rparr> else r)"

fun merge_loop :: "nat \<Rightarrow> search_result list \<Rightarrow> search_result list \<Rightarrow> search_result list" where
  "merge_loop limit merged [] = merged"
| "merge_loop limit merged (r # rs) =
     (if re_id r \<in> set (map re_id merged) then merge_loop limit merged rs
      else if limit \<le> Suc (length merged) then merged @ [r]
      else merge_loop limit (merged @ [r]) rs)"

definition merge_temporal_results ::
  "search_result list \<Rightarrow> search_result list \<Rightarrow> ustr \<Rightarrow> nat \<Rightarrow> search_result list" where
  "merge_temporal_results primary recent mode limit =
     merge_loop limit [] (if mode = lit ''recent'' then recent @ primary else primary @ recent)"

end
