(* ===== verification/Scoring.thy ===== *)
theory Scoring
  imports Scoring_Text
begin

text \<open>
  The ranking score (\<open>retrieval/scoring.rs\<close>): relevance from the text, the vectors and the
  full-text rank, then freshness and trust, then the demotions, in the order of
  \<open>score_result_inner\<close>, in IEEE doubles. The clock, the date parser, the lower-case mapping and
  the library's \<open>exp\<close> and \<open>ln\<close> are the fields of \<open>score_lib\<close>. The value None is a panic.
\<close>

record score_lib =
  sl_lower :: "ustr \<Rightarrow> ustr"
  sl_exp :: "xf64 \<Rightarrow> xf64"
  sl_ln :: "xf64 \<Rightarrow> xf64"
  sl_parse_rfc3339 :: "ustr \<Rightarrow> (int \<times> nat) option"
  sl_parse_naive :: "ustr \<Rightarrow> ustr \<Rightarrow> (int \<times> nat) option"
  sl_now :: "int \<times> nat"

record scoring_payload =
  sp_content :: ustr
  sp_layer :: ustr
  sp_confidence :: "xf64 option"
  sp_created_at :: "ustr option"
  sp_evolution_state :: "ustr option"
  sp_category :: "ustr option"
  sp_source :: "ustr option"

record scoring_metadata =
  sm_failure_count :: "int option"
  sm_superseded_by :: "ustr option"
  sm_is_outdated :: "bool option"
  sm_is_corrected :: "bool option"
  sm_search_aliases :: "json option"
  sm_aliases :: "json option"
  sm_task_slug :: "json option"
  sm_source_tasks :: "json option"
  sm_source_task :: "json option"

record score_input =
  si_query :: ustr
  si_query_vector :: "f32 list option"
  si_payload :: scoring_payload
  si_stored_vector :: "f32 list option"
  si_bm25_score :: "xf64 option"
  si_metadata :: scoring_metadata
  si_boost_categories :: "ustr set option"
  si_recall_count :: int
  si_last_recalled_at :: "ustr option"

record score_debug =
  sd_score :: xf64
  sd_relevance :: xf64
  sd_vector_component :: xf64
  sd_bm25_component :: xf64
  sd_token_score :: xf64
  sd_exact_match :: xf64
  sd_freshness :: xf64
  sd_time_decay_raw :: xf64
  sd_activation_bonus :: xf64
  sd_has_temporal :: bool
  sd_trust :: xf64
  sd_confidence_factor :: xf64
  sd_failure_factor :: xf64
  sd_w_rel :: xf64
  sd_w_fresh :: xf64
  sd_w_trust :: xf64
  sd_evolution_state_factor :: xf64
  sd_outdated_factor :: xf64
  sd_sku_factor :: xf64
  sd_brand_authority_factor :: xf64
  sd_semantic_type_factor :: xf64
  sd_primary_task_match :: bool
  sd_secondary_task_match :: bool
  sd_canonical_task_rank_guard :: xf64

section \<open>Decay, activation and lifecycle factors\<close>

definition layer_decay :: "ustr \<Rightarrow> xf64 \<times> xf64" where
  "layer_decay layer =
     (if layer = lit ''event_log'' then (xlit 30, xlit 0.50)
      else if layer = lit ''verified_fact'' then (xlit 90, xlit 0.65)
      else if layer = lit ''procedure_schema'' then (xlit 180, xlit 0.75)
      else if layer = lit ''identity_schema'' then (xlit 365, xlit 0.90)
      else (xlit 90, xlit 0.65))"

text \<open>\<open>s.replace(' ', "T").replace("Z", "+00:00")\<close>.\<close>

definition rfc3339_spelling :: "ustr \<Rightarrow> ustr" where
  "rfc3339_spelling s =
     concat (map (\<lambda>c. if c = 32 then [84] else if c = 90 then lit ''+00:00'' else [c]) s)"

definition scoring_parse_datetime :: "score_lib \<Rightarrow> ustr \<Rightarrow> (int \<times> nat) option" where
  "scoring_parse_datetime S s =
     (case sl_parse_rfc3339 S (rfc3339_spelling s) of
        Some dt \<Rightarrow> Some dt
      | None \<Rightarrow>
          (case sl_parse_naive S s (lit ''%Y-%m-%dT%H:%M:%S%.f'') of
             Some dt \<Rightarrow> Some dt
           | None \<Rightarrow>
               (case sl_parse_naive S s (lit ''%Y-%m-%d %H:%M:%S%.f'') of
                  Some dt \<Rightarrow> Some dt
                | None \<Rightarrow> sl_parse_naive S s (lit ''%Y-%m-%dT%H:%M:%S''))))"

text \<open>\<open>(now - dt).num_seconds().max(0)\<close>.\<close>

definition age_seconds :: "int \<times> nat \<Rightarrow> int \<times> nat \<Rightarrow> int" where
  "age_seconds now dt = max 0 (fst now - fst dt - (if snd now < snd dt then 1 else 0))"

definition compute_time_decay :: "score_lib \<Rightarrow> ustr option \<Rightarrow> xf64 \<Rightarrow> xf64" where
  "compute_time_decay S created_at half_life_days =
     (case created_at of
        None \<Rightarrow> Fin 1
      | Some created_str \<Rightarrow>
          (case scoring_parse_datetime S created_str of
             None \<Rightarrow> Fin 1
           | Some dt \<Rightarrow>
               let age_days = xdiv (xint (age_seconds (sl_now S) dt)) (xlit 86400)
               in sl_exp S (xdiv (xmul (xneg age_days) (sl_ln S (Fin 2))) half_life_days)))"

definition compute_activation :: "score_lib \<Rightarrow> int \<Rightarrow> ustr option \<Rightarrow> xf64" where
  "compute_activation S recall_count last_recalled_at =
     (if recall_count \<le> 0 then Fin 0
      else
        let base = xmin (xmul (xlit 0.05) (sl_ln S (xint (i64_wrap (recall_count + 1))))) (xlit 0.15)
        in case last_recalled_at of
             None \<Rightarrow> base
           | Some last_str \<Rightarrow>
               xmul base (xadd (xlit 0.5) (xmul (xlit 0.5) (compute_time_decay S (Some last_str) (xlit 14)))))"

definition scoring_evolution_state :: "ustr option \<Rightarrow> ustr" where
  "scoring_evolution_state state =
     (case state of
        None \<Rightarrow> lit ''active''
      | Some s \<Rightarrow> if s \<in> {lit ''superseded'', lit ''deprecated'', lit ''contradicted''} then s
                  else lit ''active'')"

definition evolution_state_factor :: "ustr option \<Rightarrow> scoring_metadata \<Rightarrow> ustr \<times> xf64" where
  "evolution_state_factor state metadata =
     (let norm = scoring_evolution_state state
      in if norm = lit ''superseded'' then (norm, xlit 0.05)
         else if norm = lit ''deprecated'' then (norm, xlit 0.02)
         else if norm = lit ''contradicted'' then (norm, xlit 0.03)
         else if sm_superseded_by metadata \<noteq> None then (lit ''superseded'', xlit 0.10)
         else (lit ''active'', Fin 1))"

definition staleness_factor :: "scoring_metadata \<Rightarrow> bool \<Rightarrow> xf64 \<times> bool" where
  "staleness_factor metadata has_history =
     (if sm_is_outdated metadata = Some True
      then (if has_history then xlit 0.85 else xlit 0.10, False)
      else if sm_is_corrected metadata = Some True then (xlit 0.15, True)
      else (Fin 1, False))"

section \<open>The measurements of a query on a row\<close>

record score_features =
  ft_query :: ustr
  ft_content :: ustr
  ft_exact :: xf64
  ft_token :: xf64
  ft_token_hits :: nat
  ft_token_total :: nat
  ft_pos_bonus :: xf64
  ft_bm25 :: xf64
  ft_vector :: xf64
  ft_primary :: bool
  ft_secondary :: bool
  ft_cjk :: ustr
  ft_en_tokens :: "ustr list"
  ft_code_idents :: "ustr list"

definition bm25_component :: "xf64 option \<Rightarrow> xf64" where
  "bm25_component score =
     (case score of
        None \<Rightarrow> Fin 0
      | Some bm25 \<Rightarrow> let raw = xmax (xneg bm25) (Fin 0) in xdiv raw (xadd (Fin 1) raw))"

definition vector_component :: "f32 list option \<Rightarrow> f32 list option \<Rightarrow> xf64" where
  "vector_component query_vector stored_vector =
     (case (query_vector, stored_vector) of
        (Some qv, Some sv) \<Rightarrow> cosine_similarity qv sv
      | _ \<Rightarrow> Fin 0)"

definition values_aliases :: "score_lib \<Rightarrow> json option list \<Rightarrow> ustr list" where
  "values_aliases S vals =
     concat (map (\<lambda>v. case v of None \<Rightarrow> [] | Some j \<Rightarrow> extract_aliases_from_value (sl_lower S) j) vals)"

text \<open>The aliases of a row, primary and secondary, that look like task slugs.\<close>

definition row_aliases :: "score_lib \<Rightarrow> scoring_metadata \<Rightarrow> ustr \<Rightarrow> (ustr list \<times> ustr list) option" where
  "row_aliases S m content =
     (case extract_inline_task_slugs (sl_lower S) content (lit ''task_slug'') of
        None \<Rightarrow> None
      | Some inline_primary \<Rightarrow>
          (case extract_inline_task_slugs (sl_lower S) content (lit ''source_tasks'') of
             None \<Rightarrow> None
           | Some inline_secondary \<Rightarrow>
               Some (filter is_task_slug_like
                       (values_aliases S [sm_search_aliases m, sm_aliases m, sm_task_slug m] @ inline_primary),
                     filter is_task_slug_like
                       (values_aliases S [sm_source_tasks m, sm_source_task m] @ inline_secondary))))"

definition english_tokens :: "ustr \<Rightarrow> ustr list" where
  "english_tokens q =
     filter (\<lambda>t. t \<noteq> [] \<and> list_ex is_ascii_alphabetic t)
       (split_on (\<lambda>c. \<not> is_ascii_alphanumeric c \<and> c \<noteq> 95) q)"

definition score_features :: "score_lib \<Rightarrow> score_input \<Rightarrow> score_features option" where
  "score_features S i =
     (let query = si_query i; content = sp_content (si_payload i);
          q = normalize_text (sl_lower S) query; c = normalize_text (sl_lower S) content;
          slugs = extract_query_task_slugs (sl_lower S) query
      in case token_score (sl_lower S) query content of
           (token, hits, token_total, pos_bonus) \<Rightarrow>
             (case row_aliases S (si_metadata i) content of
                None \<Rightarrow> None
              | Some (primary, secondary) \<Rightarrow>
                  Some \<lparr>ft_query = q, ft_content = c,
                        ft_exact = (if q \<noteq> [] \<and> contains c q then Fin 1 else Fin 0),
                        ft_token = token, ft_token_hits = hits, ft_token_total = token_total,
                        ft_pos_bonus = pos_bonus,
                        ft_bm25 = bm25_component (si_bm25_score i),
                        ft_vector = vector_component (si_query_vector i) (si_stored_vector i),
                        ft_primary = list_ex (\<lambda>s. s \<in> set primary) slugs,
                        ft_secondary = list_ex (\<lambda>s. s \<in> set secondary) slugs,
                        ft_cjk = filter is_cjk_char q,
                        ft_en_tokens = english_tokens q,
                        ft_code_idents = find_code_identifiers (sl_lower S) q\<rparr>))"

section \<open>Relevance\<close>

definition mix2 :: "rat \<Rightarrow> xf64 \<Rightarrow> rat \<Rightarrow> xf64 \<Rightarrow> xf64" where
  "mix2 a x b y = xadd (xmul (xlit a) x) (xmul (xlit b) y)"

definition mix3 :: "rat \<Rightarrow> xf64 \<Rightarrow> rat \<Rightarrow> xf64 \<Rightarrow> rat \<Rightarrow> xf64 \<Rightarrow> xf64" where
  "mix3 a x b y c z = xadd (mix2 a x b y) (xmul (xlit c) z)"

definition is_very_short :: "score_features \<Rightarrow> bool" where
  "is_very_short f \<longleftrightarrow> byte_len (ft_query f) < 4"

definition is_short_cjk :: "score_features \<Rightarrow> bool" where
  "is_short_cjk f \<longleftrightarrow> 2 \<le> length (ft_cjk f) \<and> length (ft_cjk f) \<le> 4 \<and> ft_token_total f \<le> 5"

definition is_cjk_only :: "score_features \<Rightarrow> bool" where
  "is_cjk_only f \<longleftrightarrow> ft_cjk f \<noteq> [] \<and> \<not> list_ex is_ascii_alphabetic (ft_query f)"

definition has_tech_terms :: "score_features \<Rightarrow> bool" where
  "has_tech_terms f \<longleftrightarrow> list_ex (contains (ft_query f)) TECHNICAL_TERMS \<or> ft_code_idents f \<noteq> []"

definition relevance_mix :: "bool \<Rightarrow> bool \<Rightarrow> score_features \<Rightarrow> xf64" where
  "relevance_mix has_qv has_bm25 f =
     (let v = ft_vector f; b = ft_bm25 f; t = ft_token f
      in if has_qv then
           if has_bm25 then
             if is_very_short f then
               if has_tech_terms f then mix3 0.40 v 0.40 b 0.20 t else mix3 0.60 v 0.20 b 0.20 t
             else if 3 < length (ft_en_tokens f) then
               if has_tech_terms f then mix3 0.45 v 0.35 b 0.20 t else mix3 0.60 v 0.20 b 0.20 t
             else if is_short_cjk f then
               if has_tech_terms f then mix3 0.40 v 0.30 b 0.30 t
               else if is_cjk_only f then mix3 0.45 v 0.25 b 0.30 t
               else mix3 0.50 v 0.20 b 0.30 t
             else if is_cjk_only f then mix3 0.35 v 0.35 b 0.30 t
             else mix3 0.45 v 0.35 b 0.20 t
           else if is_very_short f then mix2 0.65 v 0.35 t
           else if is_cjk_only f then mix2 0.40 v 0.60 t
           else mix2 0.55 v 0.45 t
         else if is_very_short f then mix2 0.55 b 0.45 t
         else if is_cjk_only f then mix2 0.50 b 0.50 t
         else mix2 0.55 b 0.45 t)"

definition exact_match_floor :: "score_features \<Rightarrow> xf64 \<Rightarrow> xf64" where
  "exact_match_floor f score =
     (if xless (Fin 0) (ft_exact f)
      then xmax score (if 12 < byte_len (ft_query f) then xlit 0.96 else xlit 0.93)
      else if 2 \<le> ft_token_hits f \<and> xle (xlit 0.50) (ft_token f) then
        if 2 \<le> length (ft_cjk f) \<longrightarrow> list_ex (contains (ft_content f)) (bigrams (ft_cjk f))
        then xadd (xmax score (xadd (xadd (xlit 0.75) (xmul (xlit 0.08) (ft_token f)))
                                    (xmul (xlit 0.08) (ft_vector f))))
               (xlit 0.03)
        else score
      else score)"

definition shared_term_boost :: "rat \<Rightarrow> ustr list \<Rightarrow> score_features \<Rightarrow> xf64 \<Rightarrow> xf64" where
  "shared_term_boost amount terms f boost =
     fold (\<lambda>w acc. if contains (ft_query f) w \<and> contains (ft_content f) w then xmax acc (xlit amount) else acc)
       terms boost"

definition query_acronyms :: "ustr \<Rightarrow> ustr list" where
  "query_acronyms query =
     filter (\<lambda>w. 2 \<le> byte_len w \<and> list_all is_ascii_uppercase w) (split_whitespace query)"

definition acronym_boost :: "ustr \<Rightarrow> ustr \<Rightarrow> xf64 \<Rightarrow> xf64" where
  "acronym_boost query content boost =
     (let acronyms = query_acronyms query; acr_hits = length (filter (contains content) acronyms)
      in if acronyms \<noteq> [] \<and> 0 < acr_hits
         then xmax boost (xdiv (xmul (xlit 0.06) (xnat acr_hits)) (xnat (length acronyms)))
         else boost)"

definition tool_boost :: "score_input \<Rightarrow> score_features \<Rightarrow> xf64" where
  "tool_boost i f =
     acronym_boost (si_query i) (sp_content (si_payload i))
       (shared_term_boost 0.08 PERSON_MARKERS f
         (shared_term_boost 0.06 TECHNICAL_TERMS f
           (shared_term_boost 0.10 KNOWN_TOOLS f (Fin 0))))"

definition vague_boost :: "ustr \<Rightarrow> score_features \<Rightarrow> xf64" where
  "vague_boost layer_name f =
     (if list_ex (\<lambda>vk. contains (ft_query f) vk \<and> contains (ft_content f) vk) VAGUE_KEYWORDS \<and>
         layer_name \<in> {lit ''verified_fact'', lit ''procedure_schema'', lit ''identity_schema''}
      then xlit 0.04 else Fin 0)"

definition code_identifier_boost :: "score_features \<Rightarrow> xf64 \<Rightarrow> xf64" where
  "code_identifier_boost f score =
     (let idents = ft_code_idents f; ident_hits = length (filter (contains (ft_content f)) idents)
      in if idents \<noteq> [] \<and> 0 < ident_hits
         then xmax score (xadd (xlit 0.94)
                (xdiv (xmul (xlit 0.04) (xnat ident_hits)) (xnat (length idents))))
         else score)"

definition task_match_boost :: "ustr \<Rightarrow> score_features \<Rightarrow> xf64 \<Rightarrow> xf64" where
  "task_match_boost content f score =
     (if ft_primary f
      then xadd (xmax score (if starts_with content (lit ''[BUILD-SUCCESS]'') then xlit 0.99 else xlit 0.975))
             (xlit 0.02)
      else if ft_secondary f then xadd score (xlit 0.01)
      else score)"

definition cjk_coherence_boost :: "score_features \<Rightarrow> xf64 \<Rightarrow> xf64" where
  "cjk_coherence_boost f score =
     (if 2 \<le> length (ft_cjk f) then
        let bgs = bigrams (ft_cjk f); bg_hits = length (filter (contains (ft_content f)) bgs);
            bg_ratio = xdiv (xnat bg_hits) (xnat (length bgs))
        in if xle (xlit 0.5) bg_ratio then xadd score (xmul (xlit 0.06) bg_ratio)
           else xadd score (xmul (xlit 0.04) bg_ratio)
      else score)"

definition mixed_coherence_boost :: "score_lib \<Rightarrow> score_features \<Rightarrow> xf64 \<Rightarrow> xf64" where
  "mixed_coherence_boost S f score =
     (if ft_en_tokens f \<noteq> [] \<and> 2 \<le> length (ft_cjk f) \<and>
         list_ex (\<lambda>t. 2 \<le> byte_len t \<and> contains (ft_content f) (sl_lower S t)) (ft_en_tokens f) \<and>
         list_ex (\<lambda>bg. list_all is_cjk_char bg \<and> contains (ft_content f) bg) (bigrams (ft_query f))
      then xadd score (xlit 0.03) else score)"

definition relevance :: "score_lib \<Rightarrow> score_input \<Rightarrow> score_features \<Rightarrow> xf64" where
  "relevance S i f =
     (let content = sp_content (si_payload i);
          score = exact_match_floor f
                    (relevance_mix (si_query_vector i \<noteq> None) (si_bm25_score i \<noteq> None) f);
          score = xadd score (tool_boost i f);
          score = xadd score (vague_boost (sp_layer (si_payload i)) f);
          score = xadd score (xmul (xlit 1.2) (ft_pos_bonus f));
          score = code_identifier_boost f score;
          score = task_match_boost content f score;
          score = cjk_coherence_boost f score;
          score = mixed_coherence_boost S f score
      in xclamp01 score)"

section \<open>Freshness, trust and weights\<close>

definition freshness :: "score_lib \<Rightarrow> score_input \<Rightarrow> xf64 \<times> xf64 \<times> xf64" where
  "freshness S i =
     (case layer_decay (sp_layer (si_payload i)) of
        (half_life, base_floor) \<Rightarrow>
          let floor = (if has_temporal_markers (sl_lower S) (si_query i) then xmul base_floor (xlit 0.4)
                       else base_floor);
              time_decay_raw = compute_time_decay S (sp_created_at (si_payload i)) half_life;
              activation_bonus = compute_activation S (si_recall_count i) (si_last_recalled_at i)
          in (xmin (xadd (xadd floor (xmul (xsub (Fin 1) floor) time_decay_raw)) activation_bonus) (Fin 1),
              time_decay_raw, activation_bonus))"

definition confidence_factor :: "xf64 option \<Rightarrow> xf64" where
  "confidence_factor confidence =
     (case confidence of
        Some c \<Rightarrow> if xless (Fin 0) c then xadd (xlit 0.85) (xmul (xlit 0.15) (xmin c (Fin 1))) else Fin 1
      | None \<Rightarrow> Fin 1)"

definition failure_factor :: "int option \<Rightarrow> xf64" where
  "failure_factor count =
     (let failure_count = (case count of None \<Rightarrow> 0 | Some n \<Rightarrow> n)
      in if 1 \<le> failure_count
         then xmax (xsub (Fin 1) (xmul (xint failure_count) (xlit 0.15))) (xlit 0.3)
         else Fin 1)"

definition axis_weights :: "score_lib \<Rightarrow> ustr \<Rightarrow> xf64 \<times> xf64 \<times> xf64" where
  "axis_weights S query =
     (if has_remote_history_intent (sl_lower S) query then (xlit 0.90, xlit 0.02, xlit 0.08)
      else if has_temporal_markers (sl_lower S) query then (xlit 0.45, xlit 0.40, xlit 0.15)
      else (xlit 0.60, xlit 0.30, xlit 0.10))"

section \<open>Demotions and guards\<close>

definition sku_factor :: "scoring_payload \<Rightarrow> xf64" where
  "sku_factor p =
     (let category = (case sp_category p of None \<Rightarrow> [] | Some c \<Rightarrow> c)
      in if category = lit ''sku'' \<or> category = lit ''product_lines'' \<or>
            starts_with (sp_content p) (lit ''[SKU]'')
         then xlit 0.30 else Fin 1)"

definition brand_authority_factor :: "scoring_payload \<Rightarrow> xf64" where
  "brand_authority_factor p =
     (if (case sp_source p of None \<Rightarrow> [] | Some s \<Rightarrow> s) = lit ''BRAND_AUTHORITY'' \<or>
         starts_with (sp_content p) (lit ''[BRAND_AUTHORITY]'')
      then xlit 0.60 else Fin 1)"

definition semantic_type_factor :: "ustr set option \<Rightarrow> ustr \<Rightarrow> xf64" where
  "semantic_type_factor boost_categories category =
     (case boost_categories of
        Some boost_cats \<Rightarrow>
          if category \<in> boost_cats then xlit 1.20
          else if category \<in> set TYPED_FACT_CATEGORIES then xlit 0.70 else Fin 1
      | None \<Rightarrow> if category \<in> set TYPED_FACT_CATEGORIES then xlit 0.85 else Fin 1)"

text \<open>\<open>if factor != 1.0 { score *= factor }\<close>.\<close>

definition apply_factor :: "xf64 \<Rightarrow> xf64 \<Rightarrow> xf64" where
  "apply_factor factor score = (if factor \<noteq> Fin 1 then xmul score factor else score)"

definition task_rank_guard :: "score_features \<Rightarrow> xf64 \<Rightarrow> xf64 \<times> xf64" where
  "task_rank_guard f score =
     (if ft_primary f then (xmax score (xlit 0.9995), xlit 0.9995)
      else if ft_secondary f then (xmin score (xlit 0.9895), xlit 0.9895)
      else (score, Fin 1))"

definition literal_recall_guard :: "scoring_payload \<Rightarrow> score_features \<Rightarrow> xf64 \<Rightarrow> xf64" where
  "literal_recall_guard p f score =
     (let score = (if xless (Fin 0) (ft_exact f) \<and> 24 \<le> length (ft_query f) then xmax score (xlit 0.985)
                   else score)
      in if xless (Fin 0) (ft_exact f) \<and> sp_layer p = lit ''verified_fact'' \<and>
            starts_with (sp_content p) (lit ''[FACT]'')
         then xmax score (xlit 0.9996) else score)"

definition three_axis_score :: "score_lib \<Rightarrow> score_input \<Rightarrow> score_features \<Rightarrow> xf64" where
  "three_axis_score S i f =
     (case axis_weights S (si_query i) of
        (w_rel, w_fresh, w_trust) \<Rightarrow>
          xadd (xadd (xmul w_rel (relevance S i f)) (xmul w_fresh (fst (freshness S i))))
            (xmul w_trust (xmul (confidence_factor (sp_confidence (si_payload i)))
                                (failure_factor (sm_failure_count (si_metadata i))))))"

definition routed_score :: "score_lib \<Rightarrow> score_input \<Rightarrow> score_features \<Rightarrow> xf64" where
  "routed_score S i f =
     (let p = si_payload i;
          category = (case sp_category p of None \<Rightarrow> [] | Some c \<Rightarrow> c);
          score = apply_factor (sku_factor p) (three_axis_score S i f);
          score = apply_factor (brand_authority_factor p) score;
          score = apply_factor (semantic_type_factor (si_boost_categories i) category) score;
          score = fst (task_rank_guard f score)
      in xclamp01 (literal_recall_guard p f score))"

text \<open>The score before the lifecycle demotion: history queries prefer the event log, then
  outdated and corrected rows are demoted.\<close>

definition unretired_score :: "score_lib \<Rightarrow> score_input \<Rightarrow> score_features \<Rightarrow> xf64" where
  "unretired_score S i f =
     (let has_history = has_history_intent (sl_lower S) (si_query i);
          score = routed_score S i f;
          score = (if has_history \<and> sp_layer (si_payload i) = lit ''event_log''
                   then xmin (xmul score (xlit 1.12)) (Fin 1) else score)
      in apply_factor (fst (staleness_factor (si_metadata i) has_history)) score)"

definition lifecycle_factor :: "score_input \<Rightarrow> xf64" where
  "lifecycle_factor i = snd (evolution_state_factor (sp_evolution_state (si_payload i)) (si_metadata i))"

definition final_score :: "score_lib \<Rightarrow> score_input \<Rightarrow> score_features \<Rightarrow> xf64" where
  "final_score S i f = xclamp01 (apply_factor (lifecycle_factor i) (unretired_score S i f))"

definition make_score_debug :: "score_lib \<Rightarrow> score_input \<Rightarrow> score_features \<Rightarrow> score_debug" where
  "make_score_debug S i f =
     (let p = si_payload i; m = si_metadata i;
          confidence = confidence_factor (sp_confidence p); failure = failure_factor (sm_failure_count m);
          category = (case sp_category p of None \<Rightarrow> [] | Some c \<Rightarrow> c)
      in case (freshness S i, axis_weights S (si_query i)) of
           ((fresh, decay, bonus), (w_rel, w_fresh, w_trust)) \<Rightarrow>
             \<lparr>sd_score = final_score S i f, sd_relevance = relevance S i f,
              sd_vector_component = ft_vector f, sd_bm25_component = ft_bm25 f,
              sd_token_score = ft_token f, sd_exact_match = ft_exact f,
              sd_freshness = fresh, sd_time_decay_raw = decay, sd_activation_bonus = bonus,
              sd_has_temporal = has_temporal_markers (sl_lower S) (si_query i),
              sd_trust = xmul confidence failure,
              sd_confidence_factor = confidence, sd_failure_factor = failure,
              sd_w_rel = w_rel, sd_w_fresh = w_fresh, sd_w_trust = w_trust,
              sd_evolution_state_factor = lifecycle_factor i,
              sd_outdated_factor =
                fst (staleness_factor m (has_history_intent (sl_lower S) (si_query i))),
              sd_sku_factor = sku_factor p, sd_brand_authority_factor = brand_authority_factor p,
              sd_semantic_type_factor = semantic_type_factor (si_boost_categories i) category,
              sd_primary_task_match = ft_primary f, sd_secondary_task_match = ft_secondary f,
              sd_canonical_task_rank_guard = snd (task_rank_guard f (Fin 0))\<rparr>)"

definition score_result_inner :: "score_lib \<Rightarrow> score_input \<Rightarrow> (xf64 \<times> score_debug option) option" where
  "score_result_inner S i =
     (if si_query i = [] then Some (Fin 1, None)
      else case score_features S i of
             None \<Rightarrow> None
           | Some f \<Rightarrow> Some (final_score S i f, Some (make_score_debug S i f)))"

definition score_result :: "score_lib \<Rightarrow> score_input \<Rightarrow> xf64 option" where
  "score_result S i = map_option fst (score_result_inner S i)"

text \<open>The debug record of an empty query.\<close>

definition empty_score_debug :: "xf64 \<Rightarrow> score_debug" where
  "empty_score_debug score =
     \<lparr>sd_score = score, sd_relevance = Fin 0, sd_vector_component = Fin 0, sd_bm25_component = Fin 0,
      sd_token_score = Fin 0, sd_exact_match = Fin 0, sd_freshness = Fin 0, sd_time_decay_raw = Fin 0,
      sd_activation_bonus = Fin 0, sd_has_temporal = False, sd_trust = Fin 0,
      sd_confidence_factor = Fin 0, sd_failure_factor = Fin 0, sd_w_rel = Fin 0, sd_w_fresh = Fin 0,
      sd_w_trust = Fin 0, sd_evolution_state_factor = Fin 0, sd_outdated_factor = Fin 0,
      sd_sku_factor = Fin 0, sd_brand_authority_factor = Fin 0, sd_semantic_type_factor = Fin 0,
      sd_primary_task_match = False, sd_secondary_task_match = False,
      sd_canonical_task_rank_guard = Fin 1\<rparr>"

definition score_result_debug :: "score_lib \<Rightarrow> score_input \<Rightarrow> score_debug option" where
  "score_result_debug S i =
     map_option (\<lambda>(score, dbg). case dbg of None \<Rightarrow> empty_score_debug score | Some d \<Rightarrow> d)
       (score_result_inner S i)"

end
