(* ===== verification/Canonical_Reader.thy ===== *)
theory Canonical_Reader
  imports Note_Store Sql_Order
begin

text \<open>
  Canonical reads (\<open>retrieval/canonical_reader.rs\<close>): a note, a lineage root or a topic key is
  resolved to the live head of its lineage, by root first and by topic key second. Lookups
  go to SQLite in chunks of 900 bound values; a chunk's query may fail. \<open>hydrated\<close> is the
  \<open>NoteRow\<close> of \<open>storage/db.rs\<close>, \<open>from_row\<close> its reader: the modelled schema has no
  \<open>recall_count\<close> column, which reads as 0.
\<close>

section \<open>Rows and requests\<close>

record hydrated =
  hy_id :: ustr
  hy_content :: ustr
  hy_layer :: ustr
  hy_category :: "ustr option"
  hy_vector_json :: "ustr option"
  hy_vector_blob :: "bytes option"
  hy_metadata_json :: "ustr option"
  hy_created_at :: "ustr option"
  hy_updated_at :: "ustr option"
  hy_is_active :: bool
  hy_agent_id :: "ustr option"
  hy_evolution_state :: "ustr option"
  hy_is_head :: bool
  hy_topic_key :: "ustr option"
  hy_root_id :: "ustr option"
  hy_version :: "int option"
  hy_review_after :: "ustr option"
  hy_superseded_by :: "ustr option"
  hy_room :: "ustr option"
  hy_project_id :: "ustr option"
  hy_confidence :: "f64 option"
  hy_recall_count :: int

definition from_row :: "note_row \<Rightarrow> hydrated" where
  "from_row r =
     \<lparr>hy_id = nr_id r, hy_content = nr_content r, hy_layer = nr_layer r,
      hy_category = nr_category r, hy_vector_json = nr_vector_json r,
      hy_vector_blob = nr_vector_blob r, hy_metadata_json = nr_metadata_json r,
      hy_created_at = nr_created_at r, hy_updated_at = nr_updated_at r,
      hy_is_active = (nr_is_active r \<noteq> 0), hy_agent_id = nr_agent_id r,
      hy_evolution_state = nr_evolution_state r,
      hy_is_head = (case nr_is_head r of None \<Rightarrow> True | Some v \<Rightarrow> v \<noteq> 0),
      hy_topic_key = nr_topic_key r, hy_root_id = nr_root_id r, hy_version = nr_version r,
      hy_review_after = nr_review_after r, hy_superseded_by = None, hy_room = nr_room r,
      hy_project_id = nr_project_id r, hy_confidence = nr_confidence r, hy_recall_count = 0\<rparr>"

datatype canonical_read_source = Canonical | TopicKeyFallback | Miss

fun source_as_str :: "canonical_read_source \<Rightarrow> ustr" where
  "source_as_str Canonical = lit ''canonical''"
| "source_as_str TopicKeyFallback = lit ''topic_key_fallback''"
| "source_as_str Miss = lit ''miss''"

record canonical_seed =
  cs_seed_id :: ustr
  cs_note_id :: "ustr option"
  cs_root_id :: "ustr option"
  cs_topic_key :: "ustr option"

record canonical_read =
  cr_note :: "hydrated option"
  cr_source :: canonical_read_source

record normalized_seed =
  ns_seed_id :: ustr
  ns_root_id :: "ustr option"
  ns_topic_key :: "ustr option"

datatype head_field = RootId | TopicKey

datatype canonical_stmt = SelectLineage "ustr list" | SelectHeads head_field "ustr list"

definition SQLITE_CHUNK_SIZE :: nat where "SQLITE_CHUNK_SIZE = 900"

definition normalized_str :: "ustr \<Rightarrow> ustr option" where
  "normalized_str value = (let value = trim value in if value = [] then None else Some value)"

definition normalized_opt :: "ustr option \<Rightarrow> ustr option" where
  "normalized_opt value = Option.bind value normalized_str"

text \<open>\<open>slice::chunks\<close>.\<close>

function chunks :: "nat \<Rightarrow> 'a list \<Rightarrow> 'a list list" where
  "chunks n xs = (if xs = [] \<or> n = 0 then [] else take n xs # chunks n (drop n xs))"
  by auto
termination by (relation "measure (\<lambda>(n, xs). length xs)") auto

declare chunks.simps [simp del]

text \<open>A \<open>for\<close> loop whose body runs statements and updates a variable.\<close>

fun op_fold :: "('b \<Rightarrow> 'c \<Rightarrow> ('s, 'e, 'c) op) \<Rightarrow> 'b list \<Rightarrow> 'c \<Rightarrow> ('s, 'e, 'c) op" where
  "op_fold f [] acc = op_return acc"
| "op_fold f (x # xs) acc = op_bind (f x acc) (op_fold f xs)"

section \<open>Lookups\<close>

type_synonym lineage_map = "ustr \<Rightarrow> (ustr option \<times> ustr option) option"

definition note_lineage :: "note_row \<Rightarrow> ustr option \<times> ustr option" where
  "note_lineage r = (normalized_opt (nr_root_id r), normalized_opt (nr_topic_key r))"

definition hydrate_seed_lineage ::
  "canonical_stmt faults \<Rightarrow> ustr list \<Rightarrow> ('a notes_db_scheme, sql_error, lineage_map) op" where
  "hydrate_seed_lineage flt note_ids =
     op_fold (\<lambda>chunk output.
         if chunk = [] then op_return output
         else op_bind (sql_query (flt (SelectLineage chunk))
                (\<lambda>db. filter (\<lambda>r. nr_id r \<in> set chunk) (note_rows db)))
              (\<lambda>rows. op_return
                (fold (\<lambda>r output. output(nr_id r \<mapsto> note_lineage r)) rows output)))
       (chunks SQLITE_CHUNK_SIZE note_ids) Map.empty"

fun head_column :: "head_field \<Rightarrow> note_row \<Rightarrow> ustr option" where
  "head_column RootId r = nr_root_id r"
| "head_column TopicKey r = nr_topic_key r"

fun hydrated_column :: "head_field \<Rightarrow> hydrated \<Rightarrow> ustr option" where
  "hydrated_column RootId r = hy_root_id r"
| "hydrated_column TopicKey r = hy_topic_key r"

definition live_head :: "note_row \<Rightarrow> bool" where
  "live_head r \<longleftrightarrow>
     (case nr_is_head r of None \<Rightarrow> True | Some v \<Rightarrow> v = 1) \<and> nr_is_active r = 1 \<and>
     (case nr_evolution_state r of None \<Rightarrow> True | Some s \<Rightarrow> s = lit ''active'')"

definition created_key :: "note_row \<Rightarrow> ustr" where
  "created_key r = (case nr_created_at r of None \<Rightarrow> [] | Some t \<Rightarrow> t)"

definition select_heads :: "head_field \<Rightarrow> ustr list \<Rightarrow> note_row list \<Rightarrow> note_row list" where
  "select_heads field chunk rows =
     sort_key (\<lambda>r. case head_column field r of None \<Rightarrow> [] | Some v \<Rightarrow> v)
       (sort_desc created_key
         (sort_key nr_id
           (filter (\<lambda>r. (case head_column field r of None \<Rightarrow> False | Some v \<Rightarrow> v \<in> set chunk) \<and>
              live_head r) rows)))"

text \<open>\<open>entry(key).or_insert(note)\<close> on each row of a chunk, in order.\<close>

definition keep_first ::
  "head_field \<Rightarrow> note_row \<Rightarrow> (ustr \<Rightarrow> hydrated option) \<Rightarrow> (ustr \<Rightarrow> hydrated option)" where
  "keep_first field r output =
     (let note = from_row r
      in case normalized_opt (hydrated_column field note) of
           None \<Rightarrow> output
         | Some key \<Rightarrow> (case output key of None \<Rightarrow> output(key \<mapsto> note) | Some _ \<Rightarrow> output))"

definition hydrate_heads_by_field ::
  "canonical_stmt faults \<Rightarrow> head_field \<Rightarrow> ustr list \<Rightarrow>
   ('a notes_db_scheme, sql_error, ustr \<Rightarrow> hydrated option) op" where
  "hydrate_heads_by_field flt field values =
     op_fold (\<lambda>chunk output.
         if chunk = [] then op_return output
         else op_bind (sql_query (flt (SelectHeads field chunk))
                (\<lambda>db. select_heads field chunk (note_rows db)))
              (\<lambda>rows. op_return (fold (keep_first field) rows output)))
       (chunks SQLITE_CHUNK_SIZE values) Map.empty"

section \<open>Resolution\<close>

definition normalize_seed :: "lineage_map \<Rightarrow> canonical_seed \<Rightarrow> normalized_seed" where
  "normalize_seed note_seed_map seed =
    (let root_id = normalized_opt (cs_root_id seed);
         topic_key = normalized_opt (cs_topic_key seed)
     in case Option.bind (normalized_opt (cs_note_id seed)) note_seed_map of
          None \<Rightarrow> \<lparr>ns_seed_id = cs_seed_id seed, ns_root_id = root_id, ns_topic_key = topic_key\<rparr>
        | Some (seed_root, seed_topic) \<Rightarrow>
            \<lparr>ns_seed_id = cs_seed_id seed,
             ns_root_id = (if root_id = None then seed_root else root_id),
             ns_topic_key = (if topic_key = None then seed_topic else topic_key)\<rparr>)"

definition miss :: canonical_read where
  "miss = \<lparr>cr_note = None, cr_source = Miss\<rparr>"

definition resolve_seed ::
  "(ustr \<Rightarrow> hydrated option) \<Rightarrow> (ustr \<Rightarrow> hydrated option) \<Rightarrow> normalized_seed \<Rightarrow> canonical_read" where
  "resolve_seed canonical_by_root fallback_by_topic seed =
     (case Option.bind (ns_root_id seed) canonical_by_root of
        Some note \<Rightarrow> \<lparr>cr_note = Some note, cr_source = Canonical\<rparr>
      | None \<Rightarrow>
          (case Option.bind (ns_topic_key seed) fallback_by_topic of
             Some note \<Rightarrow> \<lparr>cr_note = Some note, cr_source = TopicKeyFallback\<rparr>
           | None \<Rightarrow> miss))"

definition hydrate_heads_by_canonical_or_topic ::
  "canonical_stmt faults \<Rightarrow> canonical_seed list \<Rightarrow>
   ('a notes_db_scheme, sql_error, ustr \<Rightarrow> canonical_read option) op" where
  "hydrate_heads_by_canonical_or_topic flt seeds =
    (let note_seed_ids = List.map_filter (\<lambda>seed. normalized_opt (cs_note_id seed))
           (filter (\<lambda>seed. cs_root_id seed = None \<or> cs_topic_key seed = None) seeds)
     in op_bind (hydrate_seed_lineage flt note_seed_ids) (\<lambda>note_seed_map.
        let normalized = map (normalize_seed note_seed_map) seeds;
            root_ids = sorted_list_of_set (set (List.map_filter ns_root_id normalized));
            topic_keys = sorted_list_of_set (set (List.map_filter ns_topic_key normalized))
        in op_bind (hydrate_heads_by_field flt RootId root_ids) (\<lambda>canonical_by_root.
           op_bind (hydrate_heads_by_field flt TopicKey topic_keys) (\<lambda>fallback_by_topic.
             op_return (fold
               (\<lambda>seed resolved. resolved(ns_seed_id seed \<mapsto>
                  resolve_seed canonical_by_root fallback_by_topic seed))
               normalized Map.empty)))))"

definition single_seed :: ustr where "single_seed = lit ''__single__''"

definition hydrate_head_by_canonical_or_topic ::
  "canonical_stmt faults \<Rightarrow> ustr option \<Rightarrow> ustr option \<Rightarrow> ustr option \<Rightarrow>
   ('a notes_db_scheme, sql_error, canonical_read) op" where
  "hydrate_head_by_canonical_or_topic flt note_id root_id topic_key =
     op_bind (hydrate_heads_by_canonical_or_topic flt
        [\<lparr>cs_seed_id = single_seed, cs_note_id = normalized_opt note_id,
          cs_root_id = normalized_opt root_id, cs_topic_key = normalized_opt topic_key\<rparr>])
      (\<lambda>resolved. op_return
        (case resolved single_seed of None \<Rightarrow> miss | Some read \<Rightarrow> read))"

section \<open>Chunked lookups compute what one lookup would\<close>

lemma concat_chunks: "0 < n \<Longrightarrow> concat (chunks n xs) = xs"
proof (induction n xs rule: chunks.induct)
  case (1 n xs)
  then show ?case by (subst chunks.simps) simp
qed

lemma chunk_bounds: "chunk \<in> set (chunks n xs) \<Longrightarrow> chunk \<noteq> [] \<and> length chunk \<le> n"
proof (induction n xs rule: chunks.induct)
  case (1 n xs)
  from "1.prems" have "\<not> (xs = [] \<or> n = 0) \<and> (chunk = take n xs \<or> chunk \<in> set (chunks n (drop n xs)))"
    by (subst (asm) chunks.simps) (simp split: if_splits)
  with "1.IH" show ?case by auto
qed

lemma op_fold_Ok:
  assumes "op_fold f xs acc s = (s', Ok acc')"
    and "\<And>x acc s s' acc'. f x acc s = (s', Ok acc') \<Longrightarrow> s' = s \<and> acc' = g s x acc"
  shows "s' = s \<and> acc' = fold (g s) xs acc"
  using assms(1)
proof (induction xs arbitrary: acc)
  case (Cons x xs)
  then obtain s1 acc1 where f: "f x acc s = (s1, Ok acc1)" and
      rest: "op_fold f xs acc1 s1 = (s', Ok acc')"
    by (cases "f x acc s"; cases "snd (f x acc s)") (auto simp: op_bind_def)
  from assms(2) [OF f] rest have "op_fold f xs acc1 s = (s', Ok acc')" by simp
  with Cons.IH assms(2) [OF f] show ?case by simp
qed (simp add: op_simps)

lemma fold_insert_rows:
  "keys_ok nr_id rows \<Longrightarrow>
   fold (\<lambda>r out. out(nr_id r \<mapsto> v r)) rows out =
     (\<lambda>k. case row_get nr_id k rows of None \<Rightarrow> out k | Some r \<Rightarrow> Some (v r))"
proof (induction rows arbitrary: out)
  case (Cons a rows)
  then have "row_get nr_id (nr_id a) rows = None" by (simp add: keys_ok_def row_get_None)
  with Cons show ?case by (auto simp: keys_ok_def fun_eq_iff split: option.splits)
qed simp

lemma keys_ok_filter: "keys_ok key rows \<Longrightarrow> keys_ok key (filter P rows)"
  by (simp add: keys_ok_def distinct_map_filter)

lemma row_get_filter_key:
  "row_get key k (filter (\<lambda>r. key r \<in> S) rows) = (if k \<in> S then row_get key k rows else None)"
  by (induction rows) auto

lemma fold_fun_restrict:
  assumes "\<And>chunk out. g chunk out = (\<lambda>k. if k \<in> set chunk \<and> F k \<noteq> None then F k else out k)"
  shows "fold g cs out = (\<lambda>k. if k \<in> set (concat cs) \<and> F k \<noteq> None then F k else out k)"
  by (induction cs arbitrary: out) (auto simp: assms fun_eq_iff)

lemma hydrate_seed_lineage_Ok:
  fixes db :: "'a notes_db_scheme"
  assumes "hydrate_seed_lineage flt ids db = (db', Ok m)" and keys: "keys_ok nr_id (note_rows db)"
  shows "db' = db \<and> m = (\<lambda>k. if k \<in> set ids
      then map_option note_lineage (row_get nr_id k (note_rows db)) else None)"
proof -
  define g where "g s chunk out = fold (\<lambda>r out. out(nr_id r \<mapsto> note_lineage r))
      (filter (\<lambda>r. nr_id r \<in> set chunk) (note_rows s)) out"
    for s :: "'a notes_db_scheme" and chunk and out :: lineage_map
  have step: "s' = s \<and> acc' = g s chunk acc"
    if "(if chunk = [] then op_return acc
         else op_bind (sql_query (flt (SelectLineage chunk))
                (\<lambda>db. filter (\<lambda>r. nr_id r \<in> set chunk) (note_rows db)))
              (\<lambda>rows. op_return (fold (\<lambda>r out. out(nr_id r \<mapsto> note_lineage r)) rows acc))) s =
        (s', Ok acc')" for chunk acc acc' and s s' :: "'a notes_db_scheme"
    using that by (cases "flt (SelectLineage chunk)") (auto simp: op_simps g_def split: if_splits)
  have "db' = db \<and> m = fold (g db) (chunks SQLITE_CHUNK_SIZE ids) Map.empty"
    by (rule op_fold_Ok [OF assms(1) [unfolded hydrate_seed_lineage_def]]) (rule step)
  moreover have "fold (g db) (chunks SQLITE_CHUNK_SIZE ids) Map.empty =
      (\<lambda>k. if k \<in> set (concat (chunks SQLITE_CHUNK_SIZE ids)) \<and>
           map_option note_lineage (row_get nr_id k (note_rows db)) \<noteq> None
         then map_option note_lineage (row_get nr_id k (note_rows db)) else Map.empty k)"
    by (rule fold_fun_restrict)
      (auto simp: g_def fold_insert_rows keys_ok_filter keys row_get_filter_key fun_eq_iff
        split: option.splits)
  ultimately show ?thesis
    by (simp add: concat_chunks SQLITE_CHUNK_SIZE_def fun_eq_iff)
qed

text \<open>The head of a lineage: the newest live row, the smallest id among equally new ones.\<close>

definition best_head :: "head_field \<Rightarrow> ustr \<Rightarrow> note_row list \<Rightarrow> hydrated option" where
  "best_head field v rows =
     (case sort_desc created_key (sort_key nr_id
         (filter (\<lambda>r. live_head r \<and> head_column field r = Some v) rows)) of
        [] \<Rightarrow> None | r # _ \<Rightarrow> Some (from_row r))"

lemma trim_trim [simp]: "trim (trim t) = trim t"
proof -
  define u w where "u = dropWhile is_whitespace t" and "w = dropWhile is_whitespace (rev u)"
  have t: "trim t = rev w" by (simp add: trim_def u_def w_def)
  have "rev u = takeWhile is_whitespace (rev u) @ w" by (simp add: w_def)
  then have u: "u = rev w @ rev (takeWhile is_whitespace (rev u))"
    by (metis rev_append rev_rev_ident)
  have starts: "dropWhile is_whitespace xs = xs" if "xs \<noteq> [] \<Longrightarrow> \<not> is_whitespace (hd xs)" for xs
    using that by (cases xs) auto
  have hd: "w \<noteq> [] \<Longrightarrow> \<not> is_whitespace (hd w)" unfolding w_def by (rule hd_dropWhile)
  have "rev w \<noteq> [] \<Longrightarrow> \<not> is_whitespace (hd (rev w))"
  proof -
    assume w: "rev w \<noteq> []"
    then have "hd (rev w) = hd u" by (subst u) (simp add: hd_append)
    moreover from w have "u \<noteq> []" by (subst u) simp
    ultimately show ?thesis using hd_dropWhile [of is_whitespace t] by (simp add: u_def)
  qed
  then have "dropWhile is_whitespace (rev w) = rev w" by (rule starts)
  moreover have "dropWhile is_whitespace w = w" using hd by (rule starts)
  ultimately have "trim (rev w) = rev w" by (simp add: trim_def)
  then show ?thesis by (simp only: t)
qed

lemma normalized_str_eq: "normalized_str t = Some v \<Longrightarrow> trim v = v \<and> v \<noteq> []"
  by (auto simp: normalized_str_def Let_def split: if_splits)

lemma normalized_opt_eq: "normalized_opt t = Some v \<Longrightarrow> trim v = v \<and> v \<noteq> []"
  by (cases t) (auto simp: normalized_opt_def dest: normalized_str_eq)

lemma normalized_value: "trim v = v \<Longrightarrow> v \<noteq> [] \<Longrightarrow> normalized_opt (Some v) = Some v"
  by (simp add: normalized_opt_def normalized_str_def)

lemma normalized_idem [simp]: "normalized_opt (normalized_opt t) = normalized_opt t"
proof (cases "normalized_opt t")
  case (Some v)
  then show ?thesis by (metis normalized_opt_eq normalized_value)
qed (simp add: normalized_opt_def)

subsection \<open>Heads\<close>

definition head_order :: "head_field \<Rightarrow> ustr \<Rightarrow> note_row list \<Rightarrow> note_row list" where
  "head_order field v rows = sort_desc created_key (sort_key nr_id
     (filter (\<lambda>r. live_head r \<and> head_column field r = Some v) rows))"

lemma best_head_alt:
  "best_head field v rows =
     (case head_order field v rows of [] \<Rightarrow> None | r # _ \<Rightarrow> Some (from_row r))"
  by (simp add: best_head_def head_order_def)

lemma hydrated_column_from_row [simp]: "hydrated_column field (from_row r) = head_column field r"
  by (cases field) (simp_all add: from_row_def)

lemma keep_first_alt:
  "keep_first field r out k =
     (if normalized_opt (head_column field r) = Some k \<and> out k = None then Some (from_row r) else out k)"
  by (auto simp: keep_first_def Let_def split: option.splits)

lemma fold_keep_first:
  "fold (keep_first field) rows out k =
     (case out k of Some n \<Rightarrow> Some n
      | None \<Rightarrow> (case filter (\<lambda>r. normalized_opt (head_column field r) = Some k) rows of
           [] \<Rightarrow> None | r # _ \<Rightarrow> Some (from_row r)))"
proof (induction rows arbitrary: out)
  case (Cons r rows)
  then show ?case by (auto simp: keep_first_alt split: option.splits)
qed (simp split: option.splits)

definition clean :: "ustr \<Rightarrow> bool" where
  "clean v \<longleftrightarrow> trim v = v \<and> v \<noteq> []"

lemma clean_normalized: "clean v \<Longrightarrow> normalized_opt (Some v) = Some v"
  by (simp add: clean_def normalized_value)

lemma normalized_clean: "normalized_opt t = Some v \<Longrightarrow> clean v"
  using normalized_opt_eq by (auto simp: clean_def)

text \<open>The rows of a chunk that carry one of its values are in the order of that value's heads.\<close>

lemma select_heads_value:
  assumes "list_all clean chunk"
  shows "filter (\<lambda>r. normalized_opt (head_column field r) = Some k) (select_heads field chunk rows) =
     (if k \<in> set chunk then head_order field k rows else [])"
proof (cases "k \<in> set chunk")
  case True
  have eq: "(((case head_column field r of None \<Rightarrow> False | Some v \<Rightarrow> v \<in> set chunk) \<and> live_head r) \<and>
        normalized_opt (head_column field r) = Some k) \<longleftrightarrow>
      (live_head r \<and> head_column field r = Some k)" for r
    using True assms by (auto simp: list_all_iff clean_normalized split: option.splits)
  have rows: "filter (\<lambda>r. normalized_opt (head_column field r) = Some k)
      (filter (\<lambda>r. (case head_column field r of None \<Rightarrow> False | Some v \<Rightarrow> v \<in> set chunk) \<and>
         live_head r) rows) = filter (\<lambda>r. live_head r \<and> head_column field r = Some k) rows"
    unfolding filter_filter by (rule filter_cong [OF refl eq])
  have "filter (\<lambda>r. normalized_opt (head_column field r) = Some k) (select_heads field chunk rows) =
      sort_key (\<lambda>r. case head_column field r of None \<Rightarrow> [] | Some v \<Rightarrow> v)
        (sort_desc created_key (sort_key nr_id
          (filter (\<lambda>r. live_head r \<and> head_column field r = Some k) rows)))"
    unfolding select_heads_def by (simp only: filter_sort filter_sort_desc rows)
  also have "\<dots> = head_order field k rows"
    unfolding head_order_def
    by (rule sort_key_const_on [of _ _ k]) auto
  finally show ?thesis using True by simp
next
  case False
  then show ?thesis
    using assms by (auto simp: select_heads_def filter_empty_conv list_all_iff clean_normalized
        split: option.splits)
qed

lemma select_heads_Nil: "select_heads field [] rows = []"
proof -
  have "filter (\<lambda>r. (case head_column field r of None \<Rightarrow> False | Some v \<Rightarrow> v \<in> set []) \<and>
      live_head r) rows = []"
    by (auto simp: filter_empty_conv split: option.splits)
  then show ?thesis by (simp add: select_heads_def sort_desc_def)
qed

lemma fold_keep_first_chunks:
  assumes "\<And>chunk out. chunk \<in> set cs \<Longrightarrow>
      g chunk out = (\<lambda>k. case out k of Some n \<Rightarrow> Some n
        | None \<Rightarrow> if k \<in> set chunk then F k else None)"
  shows "fold g cs out = (\<lambda>k. case out k of Some n \<Rightarrow> Some n
        | None \<Rightarrow> if k \<in> set (concat cs) then F k else None)"
  using assms by (induction cs arbitrary: out) (auto simp: fun_eq_iff split: option.splits)

lemma hydrate_heads_by_field_Ok:
  fixes db :: "'a notes_db_scheme"
  assumes "hydrate_heads_by_field flt field values db = (db', Ok m)" and clean: "list_all clean values"
  shows "db' = db \<and> m = (\<lambda>k. if k \<in> set values then best_head field k (note_rows db) else None)"
proof -
  define g where "g s chunk out = fold (keep_first field) (select_heads field chunk (note_rows s)) out"
    for s :: "'a notes_db_scheme" and chunk and out :: "ustr \<Rightarrow> hydrated option"
  let ?chunks = "chunks SQLITE_CHUNK_SIZE values"
  have step: "s' = s \<and> acc' = g s chunk acc"
    if "(if chunk = [] then op_return acc
         else op_bind (sql_query (flt (SelectHeads field chunk))
                (\<lambda>db. select_heads field chunk (note_rows db)))
              (\<lambda>rows. op_return (fold (keep_first field) rows acc))) s = (s', Ok acc')"
    for chunk acc acc' and s s' :: "'a notes_db_scheme"
    using that by (cases "flt (SelectHeads field chunk)")
      (auto simp: op_simps g_def select_heads_Nil split: if_splits)
  have m: "db' = db \<and> m = fold (g db) ?chunks Map.empty"
    by (rule op_fold_Ok [OF assms(1) [unfolded hydrate_heads_by_field_def]]) (rule step)
  have vals: "concat ?chunks = values" by (simp add: concat_chunks SQLITE_CHUNK_SIZE_def)
  have "fold (g db) ?chunks Map.empty = (\<lambda>k. case Map.empty k of Some n \<Rightarrow> Some n
      | None \<Rightarrow> if k \<in> set (concat ?chunks) then best_head field k (note_rows db) else None)"
  proof (rule fold_keep_first_chunks)
    fix chunk and out :: "ustr \<Rightarrow> hydrated option"
    assume "chunk \<in> set ?chunks"
    then have "set chunk \<subseteq> set values" using vals by (metis UN_upper set_concat)
    then have "list_all clean chunk" using clean by (auto simp: list_all_iff)
    then show "g db chunk out = (\<lambda>k. case out k of Some n \<Rightarrow> Some n
        | None \<Rightarrow> if k \<in> set chunk then best_head field k (note_rows db) else None)"
      by (auto simp: g_def fun_eq_iff fold_keep_first select_heads_value best_head_alt
          split: option.splits list.splits)
  qed
  with m vals show ?thesis by (simp add: fun_eq_iff)
qed

section \<open>Resolution of a seed\<close>

text \<open>
  The contract: a seed's lineage is its own, completed from its note; the read is the head
  of its root, else the head of its topic.
\<close>

definition row_lineage :: "note_row list \<Rightarrow> canonical_seed \<Rightarrow> ustr option \<times> ustr option" where
  "row_lineage rows seed =
     (case Option.bind (normalized_opt (cs_note_id seed)) (\<lambda>k. row_get nr_id k rows) of
        None \<Rightarrow> (None, None) | Some r \<Rightarrow> note_lineage r)"

definition or_else :: "'a option \<Rightarrow> 'a option \<Rightarrow> 'a option" where
  "or_else a b = (case a of None \<Rightarrow> b | Some x \<Rightarrow> Some x)"

definition canonical_reference :: "note_row list \<Rightarrow> canonical_seed \<Rightarrow> canonical_read" where
  "canonical_reference rows seed =
     resolve_seed (\<lambda>k. best_head RootId k rows) (\<lambda>k. best_head TopicKey k rows)
       \<lparr>ns_seed_id = cs_seed_id seed,
        ns_root_id = or_else (cs_root_id seed) (fst (row_lineage rows seed)),
        ns_topic_key = or_else (cs_topic_key seed) (snd (row_lineage rows seed))\<rparr>"

text \<open>A seed whose root and topic are as the normalisation leaves them: no blank values.\<close>

definition clean_seed :: "canonical_seed \<Rightarrow> bool" where
  "clean_seed seed \<longleftrightarrow>
     normalized_opt (cs_root_id seed) = cs_root_id seed \<and>
     normalized_opt (cs_topic_key seed) = cs_topic_key seed"

lemma resolve_seed_cong:
  assumes "\<And>k. ns_root_id seed = Some k \<Longrightarrow> f k = f' k" "\<And>k. ns_topic_key seed = Some k \<Longrightarrow> g k = g' k"
    and "ns_root_id seed = ns_root_id seed'" "ns_topic_key seed = ns_topic_key seed'"
  shows "resolve_seed f g seed = resolve_seed f' g' seed'"
proof -
  have root: "Option.bind (ns_root_id seed) f = Option.bind (ns_root_id seed') f'"
    by (rule bind_option_cong) (use assms in auto)
  have topic: "Option.bind (ns_topic_key seed) g = Option.bind (ns_topic_key seed') g'"
    by (rule bind_option_cong) (use assms in auto)
  show ?thesis unfolding resolve_seed_def root topic by (rule refl)
qed

lemma fold_insert_seeds:
  assumes "distinct (map key seeds)" "seed \<in> set seeds"
  shows "fold (\<lambda>seed out. out(key seed \<mapsto> v seed)) seeds out (key seed) = Some (v seed)"
proof -
  have "fold (\<lambda>seed out. out(key seed \<mapsto> v seed)) seeds out =
      out ++ map_of (map (\<lambda>s. (key s, v s)) seeds)" if "distinct (map key seeds)" for seeds out
    using that
    by (induction seeds arbitrary: out)
      (auto simp: map_add_upd_left dom_map_of_conv_image_fst image_iff)
  moreover have "map_of (map (\<lambda>s. (key s, v s)) seeds) (key seed) = Some (v seed)"
    using assms by (intro map_of_is_SomeI) (auto simp: comp_def)
  ultimately show ?thesis using assms(1) by simp
qed

lemma ns_seed_id_normalize [simp]: "ns_seed_id (normalize_seed m seed) = cs_seed_id seed"
  by (auto simp: normalize_seed_def Let_def split: option.splits)

lemma note_lineage_clean:
  "note_lineage r = (a, b) \<Longrightarrow> normalized_opt a = a \<and> normalized_opt b = b"
  by (auto simp: note_lineage_def)

text \<open>What the lookup of the seeds' notes knows of a lineage is all a clean seed needs.\<close>

definition known_lineage :: "note_row list \<Rightarrow> ustr list \<Rightarrow> lineage_map" where
  "known_lineage rows ids k =
     (if k \<in> set ids then map_option note_lineage (row_get nr_id k rows) else None)"

definition lookup_ids :: "canonical_seed list \<Rightarrow> ustr list" where
  "lookup_ids seeds = List.map_filter (\<lambda>seed. normalized_opt (cs_note_id seed))
     (filter (\<lambda>seed. cs_root_id seed = None \<or> cs_topic_key seed = None) seeds)"

lemma or_else_simps [simp]: "or_else None b = b" "or_else (Some x) b = Some x" "or_else a None = a"
  by (simp_all add: or_else_def split: option.splits)

lemma or_else_if: "(if a = None then b else a) = or_else a b"
  by (cases a) simp_all

lemma set_map_filter: "set (List.map_filter f xs) = {y. \<exists>x \<in> set xs. f x = Some y}"
  by (induction xs) (auto simp: List.map_filter_simps split: option.splits)

lemma normalize_known:
  assumes "s \<in> set seeds" "clean_seed s"
  shows "ns_root_id (normalize_seed (known_lineage rows (lookup_ids seeds)) s) =
      or_else (cs_root_id s) (fst (row_lineage rows s))"
    and "ns_topic_key (normalize_seed (known_lineage rows (lookup_ids seeds)) s) =
      or_else (cs_topic_key s) (snd (row_lineage rows s))"
proof -
  have seed: "normalized_opt (cs_root_id s) = cs_root_id s" "normalized_opt (cs_topic_key s) = cs_topic_key s"
    using assms(2) by (simp_all add: clean_seed_def)
  have id: "k \<in> set (lookup_ids seeds)"
    if "normalized_opt (cs_note_id s) = Some k" "cs_root_id s = None \<or> cs_topic_key s = None" for k
    using assms(1) that by (auto simp: lookup_ids_def set_map_filter)
  have "ns_root_id (normalize_seed (known_lineage rows (lookup_ids seeds)) s) =
        or_else (cs_root_id s) (fst (row_lineage rows s)) \<and>
      ns_topic_key (normalize_seed (known_lineage rows (lookup_ids seeds)) s) =
        or_else (cs_topic_key s) (snd (row_lineage rows s))"
  proof (cases "normalized_opt (cs_note_id s)")
    case None
    then show ?thesis by (simp add: normalize_seed_def seed row_lineage_def)
  next
    case (Some k)
    show ?thesis
    proof (cases "cs_root_id s = None \<or> cs_topic_key s = None")
      case True
      with id Some have "known_lineage rows (lookup_ids seeds) k =
          map_option note_lineage (row_get nr_id k rows)" by (simp add: known_lineage_def)
      with Some show ?thesis
        by (cases "row_get nr_id k rows"; cases "note_lineage (the (row_get nr_id k rows))")
          (simp_all add: normalize_seed_def seed row_lineage_def or_else_if)
    next
      case False
      with Some show ?thesis
        by (cases "known_lineage rows (lookup_ids seeds) k")
          (auto simp: normalize_seed_def seed or_else_def split: prod.splits)
    qed
  qed
  then show "ns_root_id (normalize_seed (known_lineage rows (lookup_ids seeds)) s) =
      or_else (cs_root_id s) (fst (row_lineage rows s))"
    and "ns_topic_key (normalize_seed (known_lineage rows (lookup_ids seeds)) s) =
      or_else (cs_topic_key s) (snd (row_lineage rows s))" by simp_all
qed

lemma row_lineage_normalized:
  "normalized_opt (fst (row_lineage rows s)) = fst (row_lineage rows s)"
  "normalized_opt (snd (row_lineage rows s)) = snd (row_lineage rows s)"
proof -
  have none: "normalized_opt None = None" by (simp add: normalized_opt_def)
  show "normalized_opt (fst (row_lineage rows s)) = fst (row_lineage rows s)"
    "normalized_opt (snd (row_lineage rows s)) = snd (row_lineage rows s)"
    by (cases "Option.bind (normalized_opt (cs_note_id s)) (\<lambda>k. row_get nr_id k rows)";
        simp add: row_lineage_def note_lineage_def none)+
qed

lemma completed_clean:
  assumes "clean_seed s"
  shows "or_else (cs_root_id s) (fst (row_lineage rows s)) = Some v \<Longrightarrow> clean v"
    and "or_else (cs_topic_key s) (snd (row_lineage rows s)) = Some v \<Longrightarrow> clean v"
  using assms row_lineage_normalized [of rows s]
  by (auto simp: clean_seed_def or_else_def split: option.splits dest: normalized_clean)

lemma hydrate_heads_Ok:
  fixes db :: "'a notes_db_scheme"
  assumes run: "hydrate_heads_by_canonical_or_topic flt seeds db = (db', Ok m)"
    and keys: "keys_ok nr_id (note_rows db)" and seeds: "distinct (map cs_seed_id seeds)"
    and clean: "list_all clean_seed seeds" and seed: "seed \<in> set seeds"
  shows "db' = db \<and> m (cs_seed_id seed) = Some (canonical_reference (note_rows db) seed)"
proof -
  let ?rows = "note_rows db"
  define normalized where "normalized = map (normalize_seed (known_lineage ?rows (lookup_ids seeds))) seeds"
  define roots where "roots = sorted_list_of_set (set (List.map_filter ns_root_id normalized))"
  define topics where "topics = sorted_list_of_set (set (List.map_filter ns_topic_key normalized))"
  have "set roots = set (List.map_filter ns_root_id normalized)"
    "set topics = set (List.map_filter ns_topic_key normalized)"
    by (simp_all add: roots_def topics_def)
  then have vals: "v \<in> set roots \<longleftrightarrow>
        (\<exists>s \<in> set seeds. or_else (cs_root_id s) (fst (row_lineage ?rows s)) = Some v)"
      "v \<in> set topics \<longleftrightarrow>
        (\<exists>s \<in> set seeds. or_else (cs_topic_key s) (snd (row_lineage ?rows s)) = Some v)" for v
    using clean by (auto simp: set_map_filter normalized_def normalize_known list_all_iff)
  have cl: "list_all clean roots" "list_all clean topics"
    using clean by (fastforce simp: vals list_all_iff intro: completed_clean)+
  have ids: "lookup_ids seeds = List.map_filter (\<lambda>seed. normalized_opt (cs_note_id seed))
      (filter (\<lambda>seed. cs_root_id seed = None \<or> cs_topic_key seed = None) seeds)"
    by (simp add: lookup_ids_def)
  from run obtain lin db1 where lin: "hydrate_seed_lineage flt (lookup_ids seeds) db = (db1, Ok lin)"
    and rest: "(let normalized = map (normalize_seed lin) seeds;
            root_ids = sorted_list_of_set (set (List.map_filter ns_root_id normalized));
            topic_keys = sorted_list_of_set (set (List.map_filter ns_topic_key normalized))
        in op_bind (hydrate_heads_by_field flt RootId root_ids) (\<lambda>canonical_by_root.
           op_bind (hydrate_heads_by_field flt TopicKey topic_keys) (\<lambda>fallback_by_topic.
             op_return (fold
               (\<lambda>seed resolved. resolved(ns_seed_id seed \<mapsto>
                  resolve_seed canonical_by_root fallback_by_topic seed))
               normalized Map.empty)))) db1 = (db', Ok m)"
    unfolding hydrate_heads_by_canonical_or_topic_def Let_def ids by (rule op_bind_OkE)
  have db1: "db1 = db" and lin: "lin = known_lineage ?rows (lookup_ids seeds)"
    using hydrate_seed_lineage_Ok [OF lin keys] by (simp_all add: known_lineage_def fun_eq_iff)
  obtain byroot bytopic db2 db3 where
    r: "hydrate_heads_by_field flt RootId roots db = (db2, Ok byroot)" and
    t: "hydrate_heads_by_field flt TopicKey topics db2 = (db3, Ok bytopic)" and
    m: "db' = db3" "m = fold (\<lambda>seed resolved. resolved(ns_seed_id seed \<mapsto> resolve_seed byroot bytopic seed))
          normalized Map.empty"
    using rest unfolding Let_def lin db1 roots_def topics_def normalized_def
    by (auto elim!: op_bind_OkE simp: op_return_Ok)
  note R = hydrate_heads_by_field_Ok [OF r cl(1)]
  note T = hydrate_heads_by_field_Ok [OF t cl(2)]
  let ?ns = "normalize_seed (known_lineage ?rows (lookup_ids seeds))"
  have "m (ns_seed_id (?ns seed)) = Some (resolve_seed byroot bytopic (?ns seed))"
    unfolding m by (rule fold_insert_seeds) (use seeds seed in \<open>simp_all add: normalized_def comp_def\<close>)
  also have "resolve_seed byroot bytopic (?ns seed) = canonical_reference ?rows seed"
    unfolding canonical_reference_def
    by (rule resolve_seed_cong)
      (use R T seed clean in \<open>auto simp: vals list_all_iff normalize_known\<close>)
  finally show ?thesis using R T m by simp
qed

section \<open>Properties\<close>

lemma op_fold_total:
  assumes "\<And>x acc. \<exists>acc'. f x acc s = (s, Ok acc')"
  shows "\<exists>acc'. op_fold f xs acc s = (s, Ok acc')"
proof (induction xs arbitrary: acc)
  case (Cons x xs)
  with assms [of x acc] show ?case by (auto simp: op_bind_Ok)
qed (simp add: op_simps)

lemma hydrate_seed_lineage_total: "\<exists>m. hydrate_seed_lineage no_faults ids db = (db, Ok m)"
  unfolding hydrate_seed_lineage_def by (rule op_fold_total) (simp add: op_simps)

lemma hydrate_heads_by_field_total: "\<exists>m. hydrate_heads_by_field no_faults field vs db = (db, Ok m)"
  unfolding hydrate_heads_by_field_def by (rule op_fold_total) (simp add: op_simps)

lemma hydrate_heads_total:
  "\<exists>m. hydrate_heads_by_canonical_or_topic no_faults seeds db = (db, Ok m)"
proof -
  obtain lin where lin: "hydrate_seed_lineage no_faults
      (List.map_filter (\<lambda>seed. normalized_opt (cs_note_id seed))
        (filter (\<lambda>seed. cs_root_id seed = None \<or> cs_topic_key seed = None) seeds)) db = (db, Ok lin)"
    using hydrate_seed_lineage_total by blast
  let ?ns = "map (normalize_seed lin) seeds"
  obtain r where r: "hydrate_heads_by_field no_faults RootId
      (sorted_list_of_set (set (List.map_filter ns_root_id ?ns))) db = (db, Ok r)"
    using hydrate_heads_by_field_total by blast
  obtain t where t: "hydrate_heads_by_field no_faults TopicKey
      (sorted_list_of_set (set (List.map_filter ns_topic_key ?ns))) db = (db, Ok t)"
    using hydrate_heads_by_field_total by blast
  show ?thesis
    unfolding hydrate_heads_by_canonical_or_topic_def Let_def
    using lin r t by (simp add: op_bind_def op_simps)
qed

text \<open>
  C31. The chunked, sorted and merged lookups compute the contract: when no statement
  fails, a batch read answers every seed with the newest live head of its root, else of its
  topic, else a miss, where a seed without a root or topic takes those of its note. The
  number of seeds and the order of the rows do not matter.
\<close>

theorem canonical_reads_resolve:
  assumes "keys_ok nr_id (note_rows db)" "distinct (map cs_seed_id seeds)"
    and "list_all clean_seed seeds" "seed \<in> set seeds"
  shows "\<exists>m. hydrate_heads_by_canonical_or_topic no_faults seeds db = (db, Ok m) \<and>
    m (cs_seed_id seed) = Some (canonical_reference (note_rows db) seed)"
  using hydrate_heads_total [of seeds db] hydrate_heads_Ok [OF _ assms] by blast

definition newest_head :: "head_field \<Rightarrow> note_row \<Rightarrow> note_row list \<Rightarrow> bool" where
  "newest_head field row rows \<longleftrightarrow>
     row \<in> set rows \<and> live_head row \<and>
     list_all (\<lambda>other. live_head other \<and> head_column field other = head_column field row \<longrightarrow>
       created_key other < created_key row \<or>
       created_key other = created_key row \<and> nr_id row \<le> nr_id other) rows"

lemma best_head_newest:
  assumes "best_head field v rows = Some n"
  shows "\<exists>row. n = from_row row \<and> head_column field row = Some v \<and> newest_head field row rows"
proof -
  from assms obtain row rest where
    h: "sort_desc created_key (sort_key nr_id
         (filter (\<lambda>r. live_head r \<and> head_column field r = Some v) rows)) = row # rest"
    and n: "n = from_row row"
    by (auto simp: best_head_def split: list.splits)
  have row: "row \<in> set rows \<and> live_head row \<and> head_column field row = Some v"
  proof -
    have "row \<in> set (sort_desc created_key (sort_key nr_id
         (filter (\<lambda>r. live_head r \<and> head_column field r = Some v) rows)))"
      unfolding h by simp
    then show ?thesis by simp
  qed
  have "created_key other < created_key row \<or>
      created_key other = created_key row \<and> nr_id row \<le> nr_id other"
    if "other \<in> set rows" "live_head other" "head_column field other = Some v" for other
    using sort_desc_head [OF h, of other] that by auto
  with row n show ?thesis by (intro exI [of _ row]) (simp add: newest_head_def list_all_iff)
qed

definition read_field :: "canonical_read_source \<Rightarrow> head_field" where
  "read_field src = (if src = Canonical then RootId else TopicKey)"

lemma resolve_seed_note:
  assumes "cr_note (resolve_seed f g seed) = Some n"
  obtains k where "cr_source (resolve_seed f g seed) = Canonical" "f k = Some n"
  | k where "cr_source (resolve_seed f g seed) = TopicKeyFallback" "g k = Some n"
  using assms
  by (auto simp: resolve_seed_def miss_def bind_eq_Some_conv split: option.splits)

lemma clean_single: "clean_seed \<lparr>cs_seed_id = i, cs_note_id = n,
    cs_root_id = normalized_opt r, cs_topic_key = normalized_opt t\<rparr>"
  by (simp add: clean_seed_def)

lemma hydrate_head_Ok:
  fixes db :: "'a notes_db_scheme"
  assumes "hydrate_head_by_canonical_or_topic flt note_id root_id topic_key db = (db', Ok read)"
    and keys: "keys_ok nr_id (note_rows db)"
  shows "db' = db \<and> read = canonical_reference (note_rows db)
    \<lparr>cs_seed_id = single_seed, cs_note_id = normalized_opt note_id,
      cs_root_id = normalized_opt root_id, cs_topic_key = normalized_opt topic_key\<rparr>"
proof -
  let ?seed = "\<lparr>cs_seed_id = single_seed, cs_note_id = normalized_opt note_id,
      cs_root_id = normalized_opt root_id, cs_topic_key = normalized_opt topic_key\<rparr>"
  from assms(1) obtain m where m: "hydrate_heads_by_canonical_or_topic flt [?seed] db = (db', Ok m)"
    and read: "read = (case m single_seed of None \<Rightarrow> miss | Some read \<Rightarrow> read)"
    by (auto simp: hydrate_head_by_canonical_or_topic_def op_return_Ok elim!: op_bind_OkE)
  have "db' = db \<and> m (cs_seed_id ?seed) = Some (canonical_reference (note_rows db) ?seed)"
    by (rule hydrate_heads_Ok [OF m keys]) (simp_all add: clean_single)
  with read show ?thesis by simp
qed

text \<open>
  Whatever statements fail, a note a canonical read returns is the hydration of a
  stored row that is active, a head and not retired, and no other such row of the same root
  (of the same topic, for a fallback read) is newer. The read leaves the database alone.
\<close>

theorem canonical_read_is_newest_head:
  fixes db :: "'a notes_db_scheme"
  assumes "keys_ok nr_id (note_rows db)"
    and "hydrate_head_by_canonical_or_topic flt note_id root_id topic_key db = (db', Ok read)"
    and "cr_note read = Some n"
  shows "db' = db \<and>
    (\<exists>row. n = from_row row \<and> newest_head (read_field (cr_source read)) row (note_rows db))"
proof -
  note run = hydrate_head_Ok [OF assms(2,1)]
  have "\<exists>row. n = from_row row \<and> newest_head (read_field (cr_source read)) row (note_rows db)"
    using assms(3) unfolding run [THEN conjunct2] canonical_reference_def
    by (rule resolve_seed_note)
      (use best_head_newest in \<open>fastforce simp: read_field_def\<close>)+
  with run show ?thesis by simp
qed

end
