(* ===== verification/Search_Recall.thy ===== *)
theory Search_Recall
  imports Search_Query Search_Results Scoring Canonical_Reader
begin

text \<open>
  Candidates of a search (\<open>retrieval/recall.rs\<close>): full-text, exact-substring, vector and CJK
  channels under one set of filters. A prepared statement fails when \<open>flt\<close> says so, and the channel
  is then empty or falls back as the code does. FTS5 is the argument \<open>se_fts\<close>: the rows of the index
  that match an expression with their rank, or None when stepping the statement reports an error,
  which the code skips like any bad row. A query without ORDER BY gives the rows in table order.
\<close>

record search_lib =
  se_score :: score_lib
  se_json :: "ustr \<Rightarrow> json option"
  se_scoring_metadata :: "ustr \<Rightarrow> scoring_metadata option"
  se_parse_f32s :: "ustr \<Rightarrow> f32 list option"
  se_parse_f64s :: "ustr \<Rightarrow> f32 list option"
  se_parse_strings :: "ustr \<Rightarrow> ustr list option"
  se_fts :: "(ustr \<times> ustr) list \<Rightarrow> ustr \<Rightarrow> (ustr \<times> xf64) list option"
  se_embed :: "ustr \<Rightarrow> f32 list option"
  se_normalize_env :: "ustr option"
  se_to_rfc3339 :: "int \<times> nat \<Rightarrow> ustr"

abbreviation se_lower :: "search_lib \<Rightarrow> ustr \<Rightarrow> ustr" where
  "se_lower S \<equiv> sl_lower (se_score S)"

text \<open>The log of recalls (id, note, time), and the columns of \<open>dream_candidates\<close> that only the
  search reads, by candidate: project, promoted at, created at.\<close>

record search_db = notes_db +
  recall_log :: "(int \<times> ustr \<times> ustr) list option"
  dream_columns :: "(ustr \<times> ustr \<times> ustr option \<times> ustr option) list"

datatype search_stmt =
    FtsStmt "ustr option" | LikeStmt | ExactStmt | VectorStmt "ustr option" | CjkStmt | RecentStmt
  | DirectFactStmt | EntityStmt | RecallLogStmt | CanonicalStmt canonical_stmt
  | TableStmt ustr | ColumnsStmt | NeighborStmt ustr | DreamStmt ustr | NoteByIdStmt ustr | TrustStmt ustr
  | CheckpointStmt | RoomsStmt

record candidate =
  ca_note :: hydrated
  ca_bm25_score :: "xf64 option"

abbreviation ca_id :: "candidate \<Rightarrow> ustr" where
  "ca_id c \<equiv> hy_id (ca_note c)"

record candidate_filters =
  cf_layer :: "ustr option"
  cf_category :: "ustr option"
  cf_only_active :: bool
  cf_agent_id :: "ustr option"
  cf_project_id :: "ustr option"
  cf_cross_project :: bool
  cf_start_time :: "ustr option"
  cf_end_time :: "ustr option"
  cf_include_expired :: bool
  cf_room :: "ustr option"
  cf_include_constitution :: bool

definition with_layer :: "ustr option \<Rightarrow> candidate_filters \<Rightarrow> candidate_filters" where
  "with_layer layer f = f\<lparr>cf_layer := layer\<rparr>"

section \<open>Conditions\<close>

definition equals_if :: "ustr option \<Rightarrow> ustr option \<Rightarrow> bool" where
  "equals_if wanted column \<longleftrightarrow> (case wanted of None \<Rightarrow> True | Some v \<Rightarrow> column = Some v)"

definition build_project_filter :: "ustr option \<Rightarrow> bool \<Rightarrow> note_row \<Rightarrow> bool" where
  "build_project_filter project_id cross_project r \<longleftrightarrow>
     cross_project \<or> equals_if project_id (nr_project_id r)"

definition touched_at :: "note_row \<Rightarrow> ustr option" where
  "touched_at r = coalesce (nr_updated_at r) (nr_created_at r)"

text \<open>\<open>include_expired\<close> adds no condition.\<close>

definition build_temporal_sql :: "ustr option \<Rightarrow> ustr option \<Rightarrow> bool \<Rightarrow> note_row \<Rightarrow> bool" where
  "build_temporal_sql start_time end_time include_expired r \<longleftrightarrow>
     (case start_time of None \<Rightarrow> True
      | Some st \<Rightarrow> (case touched_at r of None \<Rightarrow> False | Some t \<Rightarrow> st \<le> t)) \<and>
     (case end_time of None \<Rightarrow> True
      | Some et \<Rightarrow> (case touched_at r of None \<Rightarrow> False | Some t \<Rightarrow> t \<le> et))"

definition layer_agent_filter :: "candidate_filters \<Rightarrow> note_row \<Rightarrow> bool" where
  "layer_agent_filter f r \<longleftrightarrow>
     (case cf_layer f of
        Some l \<Rightarrow>
          nr_layer r = l \<and> (l = lit ''event_log'' \<longrightarrow> equals_if (cf_agent_id f) (nr_agent_id r))
      | None \<Rightarrow> nr_layer r \<noteq> lit ''event_log'' \<or> equals_if (cf_agent_id f) (nr_agent_id r))"

definition identity_filter :: "candidate_filters \<Rightarrow> note_row \<Rightarrow> bool" where
  "identity_filter f r \<longleftrightarrow>
     cf_include_constitution f \<or> cf_layer f = Some (lit ''identity_schema'') \<or>
     nr_layer r \<noteq> lit ''identity_schema''"

definition room_filter :: "ustr option \<Rightarrow> note_row \<Rightarrow> bool" where
  "room_filter room r \<longleftrightarrow>
     (case room of
        None \<Rightarrow> True
      | Some wanted \<Rightarrow>
          (case nr_room r of
             None \<Rightarrow> False
           | Some t \<Rightarrow> t = wanted \<or> sql_like (Some 92) (subroom_pattern wanted) t))"

text \<open>The conditions every channel but the CJK one puts on a row.\<close>

definition passes_filters :: "candidate_filters \<Rightarrow> note_row \<Rightarrow> bool" where
  "passes_filters f r \<longleftrightarrow>
     (cf_only_active f \<longrightarrow> nr_is_active r = 1) \<and>
     layer_agent_filter f r \<and> identity_filter f r \<and>
     equals_if (cf_category f) (nr_category r) \<and> room_filter (cf_room f) r \<and>
     build_project_filter (cf_project_id f) (cf_cross_project f) r \<and>
     build_temporal_sql (cf_start_time f) (cf_end_time f) (cf_include_expired f) r"

text \<open>The CJK channel's conditions: the agent counts only with the event log as the layer, the times
  do not count.\<close>

definition cjk_passes_filters :: "candidate_filters \<Rightarrow> note_row \<Rightarrow> bool" where
  "cjk_passes_filters f r \<longleftrightarrow>
     (cf_only_active f \<longrightarrow> nr_is_active r = 1) \<and>
     (case cf_layer f of
        Some l \<Rightarrow> nr_layer r = l \<and> (l = lit ''event_log'' \<longrightarrow> equals_if (cf_agent_id f) (nr_agent_id r))
      | None \<Rightarrow> True) \<and>
     identity_filter f r \<and> equals_if (cf_category f) (nr_category r) \<and> room_filter (cf_room f) r \<and>
     build_project_filter (cf_project_id f) (cf_cross_project f) r"

definition plain_candidate :: "note_row \<Rightarrow> candidate" where
  "plain_candidate r = \<lparr>ca_note = from_row r, ca_bm25_score = None\<rparr>"

section \<open>Channels\<close>

definition like_fallback ::
  "search_stmt faults \<Rightarrow> ustr \<Rightarrow> candidate_filters \<Rightarrow> nat \<Rightarrow> note_row list \<Rightarrow> candidate list" where
  "like_fallback flt query f limit rows =
     (if flt LikeStmt \<noteq> None then []
      else map plain_candidate (take limit
        (sort_desc touched_at (sort_key nr_id
          (filter (\<lambda>r. sql_like (Some 92) (like_substring query) (nr_content r) \<and> passes_filters f r) rows)))))"

text \<open>\<open>notes_fts MATCH ? JOIN notes ON id\<close>.\<close>

definition fts_join :: "(ustr \<times> xf64) list \<Rightarrow> note_row list \<Rightarrow> (note_row \<times> xf64) list" where
  "fts_join matches rows =
     concat (map (\<lambda>(id, bm25). map (\<lambda>r. (r, bm25)) (filter (\<lambda>r. nr_id r = id) rows)) matches)"

definition fts_candidates ::
  "search_lib \<Rightarrow> search_stmt faults \<Rightarrow> ('a search_db_scheme) \<Rightarrow> ustr \<Rightarrow> ustr \<Rightarrow> candidate_filters \<Rightarrow> nat \<Rightarrow>
   candidate list" where
  "fts_candidates S flt db fts_query original_query f candidate_limit =
     (if trim fts_query = [] then []
      else if flt (FtsStmt (cf_layer f)) \<noteq> None
      then like_fallback flt original_query f candidate_limit (note_rows db)
      else case se_fts S (notes_fts db) fts_query of
             None \<Rightarrow> []
           | Some matches \<Rightarrow>
               map (\<lambda>(r, bm25). \<lparr>ca_note = from_row r, ca_bm25_score = Some bm25\<rparr>)
                 (take candidate_limit
                   (sort_by_score (\<lambda>(r, bm25). xneg bm25)
                     (filter (\<lambda>(r, bm25). passes_filters f r) (fts_join matches (note_rows db))))))"

definition exact_order :: "ustr \<Rightarrow> note_row list \<Rightarrow> note_row list" where
  "exact_order query rows =
     sort_key (\<lambda>r. if nr_content r = query then 0::nat else 1)
       (sort_key (\<lambda>r. if sql_like None (lit ''[FACT]%'') (nr_content r) then 0::nat else 1)
         (sort_key (\<lambda>r. if nr_layer r = lit ''verified_fact'' then 0::nat else 1)
           (sort_key (\<lambda>r. \<bar>int (length (nr_content r)) - int (length query)\<bar>)
             (sort_desc touched_at (sort_key nr_id rows)))))"

definition exact_substring_candidates ::
  "search_lib \<Rightarrow> search_stmt faults \<Rightarrow> ('a search_db_scheme) \<Rightarrow> ustr \<Rightarrow> candidate_filters \<Rightarrow> ustr set \<Rightarrow> nat \<Rightarrow>
   candidate list" where
  "exact_substring_candidates S flt db query f exclude_ids limit =
     (let query = trim query
      in if \<not> should_seed_exact_substring query \<or> limit = 0 then []
         else
           let prefilter = (if length query < 16 then build_exact_substring_fts_prefilter (se_lower S) query else []);
               matching = (if trim prefilter \<noteq> []
                 then map_option (\<lambda>matches. map fst (fts_join matches (note_rows db)))
                        (se_fts S (notes_fts db) prefilter)
                 else Some (filter (\<lambda>r. sql_like (Some 92) (like_substring query) (nr_content r)) (note_rows db)))
           in if flt ExactStmt \<noteq> None then []
              else case matching of
                     None \<Rightarrow> []
                   | Some rows \<Rightarrow>
                       map plain_candidate
                         (filter (\<lambda>r. nr_id r \<notin> exclude_ids)
                           (take limit (exact_order query (filter (passes_filters f) rows)))))"

definition extract_vector :: "search_lib \<Rightarrow> hydrated \<Rightarrow> f32 list option" where
  "extract_vector S note =
     (let from_blob = (case hy_vector_blob note of None \<Rightarrow> [] | Some blob \<Rightarrow> blob_to_vector blob);
          from_json = (case hy_vector_json note of
              None \<Rightarrow> None
            | Some json_str \<Rightarrow>
                (case se_parse_f32s S json_str of
                   Some vec \<Rightarrow> if vec \<noteq> [] then Some vec
                     else (case se_parse_f64s S json_str of
                             Some vec \<Rightarrow> if vec \<noteq> [] then Some vec else None | None \<Rightarrow> None)
                 | None \<Rightarrow> (case se_parse_f64s S json_str of
                             Some vec \<Rightarrow> if vec \<noteq> [] then Some vec else None | None \<Rightarrow> None)))
      in if from_blob \<noteq> [] then Some from_blob else from_json)"

text \<open>One row of the vector scan; the state is the rows scored so far, the identifiers counted for a
  different dimension and their number.\<close>

definition vector_step ::
  "search_lib \<Rightarrow> f32 list \<Rightarrow> ustr set \<Rightarrow> note_row \<Rightarrow>
   (candidate \<times> xf64) list \<times> ustr set \<times> nat \<Rightarrow> (candidate \<times> xf64) list \<times> ustr set \<times> nat" where
  "vector_step S query_vector exclude_ids r acc =
     (case acc of (scored, dim_mismatch_seen, dim_mismatch_skipped) \<Rightarrow>
        if nr_id r \<in> exclude_ids then acc
        else case extract_vector S (from_row r) of
               None \<Rightarrow> acc
             | Some stored_vec \<Rightarrow>
                 if length stored_vec \<noteq> length query_vector then
                   if nr_id r \<in> dim_mismatch_seen then acc
                   else (scored, insert (nr_id r) dim_mismatch_seen, Suc dim_mismatch_skipped)
                 else
                   let sim = cosine_similarity query_vector stored_vec
                   in if xless (xlit 0.3) sim
                      then (scored @ [(plain_candidate r, sim)], dim_mismatch_seen, dim_mismatch_skipped)
                      else acc)"

definition vector_candidates_with_stats ::
  "search_lib \<Rightarrow> search_stmt faults \<Rightarrow> note_row list \<Rightarrow> f32 list \<Rightarrow> candidate_filters \<Rightarrow> nat \<Rightarrow> ustr set \<Rightarrow>
   ustr set \<times> nat \<Rightarrow> candidate list \<times> ustr set \<times> nat" where
  "vector_candidates_with_stats S flt rows query_vector f candidate_limit exclude_ids stats =
     (if flt (VectorStmt (cf_layer f)) \<noteq> None then ([], stats)
      else
        let rows = filter (\<lambda>r. (nr_vector_blob r \<noteq> None \<or> nr_vector_json r \<noteq> None) \<and> passes_filters f r) rows
        in case fold (vector_step S query_vector exclude_ids) rows ([], stats) of
             (scored, stats') \<Rightarrow> (map fst (take candidate_limit (sort_by_score snd scored)), stats'))"

definition vector_candidates ::
  "search_lib \<Rightarrow> search_stmt faults \<Rightarrow> note_row list \<Rightarrow> f32 list \<Rightarrow> candidate_filters \<Rightarrow> nat \<Rightarrow> ustr set \<Rightarrow>
   candidate list" where
  "vector_candidates S flt rows query_vector f candidate_limit exclude_ids =
     fst (vector_candidates_with_stats S flt rows query_vector f candidate_limit exclude_ids ({}, 0))"

definition cjk_bigram_candidates ::
  "search_stmt faults \<Rightarrow> note_row list \<Rightarrow> ustr \<Rightarrow> candidate_filters \<Rightarrow> ustr set \<Rightarrow> candidate list" where
  "cjk_bigram_candidates flt rows query f exclude_ids =
     (let bgs = cjk_bigrams query
      in if bgs = [] \<or> flt CjkStmt \<noteq> None then []
         else map plain_candidate
           (filter (\<lambda>r. nr_id r \<notin> exclude_ids)
             (take 10 (filter (\<lambda>r. list_all (\<lambda>bg. sql_like None ([37] @ bg @ [37]) (nr_content r)) bgs \<and>
                                  cjk_passes_filters f r) rows))))"

end
