(* ===== verification/Search_Match.thy ===== *)
theory Search_Match
  imports Search_Recall
begin

text \<open>
  How a search matches and adjusts (\<open>retrieval/search.rs\<close>): literal matches, the project filter,
  the two shortcuts that answer before ranking, score normalisation, the keyword bonus and penalty,
  the removal of temporal markers and the fusion of ranks. \<open>PROJECT_ENTITY_FILTERS\<close> is empty in
  this build; what uses it is modelled for any filter.
\<close>

record search_params =
  pr_query :: ustr
  pr_limit :: nat
  pr_layer :: "ustr option"
  pr_category :: "ustr option"
  pr_only_active :: bool
  pr_agent_id :: "ustr option"
  pr_project_id :: "ustr option"
  pr_start_time :: "ustr option"
  pr_end_time :: "ustr option"
  pr_include_expired :: bool
  pr_cross_project :: bool
  pr_search_mode :: "ustr option"
  pr_room :: "ustr option"
  pr_min_score :: xf64
  pr_boost_categories :: "ustr list option"
  pr_include_constitution :: bool

definition evolution_state_is_head :: "ustr option \<Rightarrow> bool" where
  "evolution_state_is_head state \<longleftrightarrow>
     state \<noteq> Some (lit ''superseded'') \<and> state \<noteq> Some (lit ''contradicted'')"

section \<open>Literal matches\<close>

definition normalize_exact_match_text :: "(ustr \<Rightarrow> ustr) \<Rightarrow> ustr \<Rightarrow> ustr" where
  "normalize_exact_match_text L s = join_with [32] (split_whitespace (L s))"

definition is_literal_self_recall_match :: "(ustr \<Rightarrow> ustr) \<Rightarrow> ustr \<Rightarrow> ustr \<Rightarrow> bool" where
  "is_literal_self_recall_match L query content =
     (if length (trim query) < 24 then False
      else let query = normalize_exact_match_text L query; content = normalize_exact_match_text L content
           in query \<noteq> [] \<and> contains content query)"

definition should_try_lexical_first :: "(ustr \<Rightarrow> ustr) \<Rightarrow> ustr \<Rightarrow> bool" where
  "should_try_lexical_first L query \<longleftrightarrow> 2 \<le> length (split_whitespace (normalize_exact_match_text L query))"

definition literal_terms_match :: "(ustr \<Rightarrow> ustr) \<Rightarrow> ustr \<Rightarrow> ustr \<Rightarrow> bool" where
  "literal_terms_match L query content =
     (let query = normalize_exact_match_text L query
      in if query = [] then False
         else
           let content = normalize_exact_match_text L content; terms = split_whitespace query
           in contains content query \<or> 2 \<le> length terms \<and> list_all (contains content) terms)"

definition lexical_candidates_are_sufficient :: "(ustr \<Rightarrow> ustr) \<Rightarrow> ustr \<Rightarrow> candidate list \<Rightarrow> nat \<Rightarrow> bool" where
  "lexical_candidates_are_sufficient L query candidates limit \<longleftrightarrow>
     candidates \<noteq> [] \<and>
     (limit \<le> length candidates \<or>
      list_ex (\<lambda>c. literal_terms_match L query (hy_content (ca_note c))) candidates)"

section \<open>The project filter\<close>

record project_entity_filter =
  pf_aliases :: "ustr list"
  pf_rooms :: "ustr list"

definition PROJECT_ENTITY_FILTERS :: "project_entity_filter list" where
  "PROJECT_ENTITY_FILTERS = []"

definition text_contains_any_alias :: "(ustr \<Rightarrow> ustr) \<Rightarrow> ustr \<Rightarrow> ustr list \<Rightarrow> bool" where
  "text_contains_any_alias L t aliases = list_ex (contains (normalize_exact_match_text L t)) aliases"

definition project_entity_filter_for_query :: "(ustr \<Rightarrow> ustr) \<Rightarrow> ustr \<Rightarrow> project_entity_filter option" where
  "project_entity_filter_for_query L query =
     find (\<lambda>f. text_contains_any_alias L query (pf_aliases f)) PROJECT_ENTITY_FILTERS"

text \<open>\<open>str::replace\<close>.\<close>

function replace_all :: "ustr \<Rightarrow> ustr \<Rightarrow> ustr \<Rightarrow> ustr" where
  "replace_all pat by_text t =
     (if pat = [] then by_text @ concat (map (\<lambda>c. c # by_text) t)
      else if t = [] then []
      else if starts_with t pat then by_text @ replace_all pat by_text (drop (length pat) t)
      else hd t # replace_all pat by_text (tl t))"
  by auto

termination
  by (relation "measure (\<lambda>(pat, by_text, t). length t)") auto

declare replace_all.simps [simp del]

definition ENTITY_STOP_TERMS :: "ustr list" where
  "ENTITY_STOP_TERMS =
     [lit ''erp'', lit ''project'', lit ''app'', lit ''system'', [0x9879, 0x76EE], [0x7CFB, 0x7EDF],
      [0x5E73, 0x53F0]]"

definition entity_residual_terms :: "(ustr \<Rightarrow> ustr) \<Rightarrow> ustr \<Rightarrow> project_entity_filter \<Rightarrow> ustr list" where
  "entity_residual_terms L query f =
     (let aliases = sort_desc byte_len (map (normalize_exact_match_text L) (pf_aliases f));
          residual = fold (\<lambda>alias r. replace_all alias [32] r) aliases (normalize_exact_match_text L query)
      in filter (\<lambda>t. 1 < length t \<and> t \<notin> set ENTITY_STOP_TERMS) (split_whitespace residual))"

definition note_matches_project_entity_filter :: "(ustr \<Rightarrow> ustr) \<Rightarrow> hydrated \<Rightarrow> project_entity_filter \<Rightarrow> bool" where
  "note_matches_project_entity_filter L note f \<longleftrightarrow>
     text_contains_any_alias L (hy_content note) (pf_aliases f) \<or>
     (case hy_room note of
        None \<Rightarrow> False
      | Some room \<Rightarrow>
          list_ex (\<lambda>expected. normalize_exact_match_text L room = expected) (pf_rooms f) \<or>
          text_contains_any_alias L room (pf_aliases f))"

definition apply_project_entity_strong_filter ::
  "(ustr \<Rightarrow> ustr) \<Rightarrow> ustr \<Rightarrow> candidate list \<Rightarrow> candidate list" where
  "apply_project_entity_strong_filter L query candidates =
     (case project_entity_filter_for_query L query of
        None \<Rightarrow> candidates
      | Some f \<Rightarrow>
          let kept = filter (\<lambda>c. note_matches_project_entity_filter L (ca_note c) f) candidates
          in if kept = [] then candidates else kept)"

section \<open>Answers before ranking\<close>

definition search_result_from_note :: "search_lib \<Rightarrow> hydrated \<Rightarrow> xf64 \<Rightarrow> ustr \<Rightarrow> search_result" where
  "search_result_from_note S note score channel =
     \<lparr>re_id = hy_id note, re_content = hy_content note, re_layer = hy_layer note,
      re_category = hy_category note, re_score = score, re_created_at = hy_created_at note,
      re_topic_key = hy_topic_key note, re_root_id = hy_root_id note, re_version = hy_version note,
      re_channel = Some channel, re_temperature = None,
      re_is_head = (hy_is_head note \<and> evolution_state_is_head (hy_evolution_state note)),
      re_metadata = Option.bind (hy_metadata_json note) (se_json S),
      re_recall_count = hy_recall_count note, re_last_recalled_at = None\<rparr>"

text \<open>The conditions on a row that the two shortcuts share.\<close>

definition shortcut_filter :: "search_params \<Rightarrow> note_row \<Rightarrow> bool" where
  "shortcut_filter p r \<longleftrightarrow>
     (pr_only_active p \<longrightarrow> nr_is_active r = 1) \<and>
     (pr_include_constitution p \<or> nr_layer r \<noteq> lit ''identity_schema'') \<and>
     (pr_cross_project p \<or> equals_if (pr_project_id p) (nr_project_id r))"

definition above_min_score :: "search_params \<Rightarrow> search_result \<Rightarrow> bool" where
  "above_min_score p r \<longleftrightarrow> xle (pr_min_score p) (Fin 0) \<or> xle (pr_min_score p) (re_score r)"

definition fact_first :: "note_row \<Rightarrow> nat" where
  "fact_first r = (if nr_layer r = lit ''verified_fact'' then 0 else 1)"

definition shortest_newest :: "note_row list \<Rightarrow> note_row list" where
  "shortest_newest rows = sort_key (\<lambda>r. length (nr_content r)) (sort_desc touched_at (sort_key nr_id rows))"

definition entity_namespace_prepass_results ::
  "search_lib \<Rightarrow> search_stmt faults \<Rightarrow> note_row list \<Rightarrow> search_params \<Rightarrow> ustr \<Rightarrow> nat \<Rightarrow> search_result list" where
  "entity_namespace_prepass_results S flt rows p query limit =
     (case project_entity_filter_for_query (se_lower S) query of
        None \<Rightarrow> []
      | Some f \<Rightarrow>
          let room = (\<lambda>r. text_or_empty (nr_room r));
              wanted = (\<lambda>r.
                (list_ex (\<lambda>alias. sql_like (Some 92) (like_substring (to_ascii_lowercase alias))
                                    (to_ascii_lowercase (nr_content r))) (pf_aliases f) \<or>
                 list_ex (\<lambda>wanted. to_ascii_lowercase (room r) = to_ascii_lowercase wanted) (pf_rooms f)) \<and>
                list_all (\<lambda>t. sql_like (Some 92) (like_substring t) (to_ascii_lowercase (nr_content r)) \<or>
                             sql_like (Some 92) (like_substring t) (to_ascii_lowercase (room r)))
                  (entity_residual_terms (se_lower S) query f) \<and>
                shortcut_filter p r)
          in if limit = 0 \<or> flt EntityStmt \<noteq> None then []
             else filter (above_min_score p)
               (map (\<lambda>r. search_result_from_note S (from_row r) (xlit 0.9997) (lit ''entity''))
                 (take limit
                   (sort_key fact_first
                     (sort_key (\<lambda>r. if nr_room r \<noteq> None then 0::nat else 1)
                       (shortest_newest (filter wanted rows)))))))"

definition direct_fact_prefix_results ::
  "search_lib \<Rightarrow> search_stmt faults \<Rightarrow> note_row list \<Rightarrow> search_params \<Rightarrow> ustr \<Rightarrow> nat \<Rightarrow> search_result list" where
  "direct_fact_prefix_results S flt rows p query limit =
     (let query = trim query; pattern = lit ''[FACT] '' @ escape_like_pattern query @ [37]
      in if query = [] \<or> limit = 0 \<or> flt DirectFactStmt \<noteq> None then []
         else filter (above_min_score p)
           (map (\<lambda>r. search_result_from_note S (from_row r) (xlit 0.9996) (lit ''lexical''))
             (take limit
               (sort_key fact_first
                 (shortest_newest
                   (filter (\<lambda>r. sql_like (Some 92) pattern (nr_content r) \<and> shortcut_filter p r) rows))))))"

section \<open>Adjusting scores\<close>

datatype score_normalization_mode = NoNormalization | ZNormalization

definition score_normalization_mode_from_env :: "ustr option \<Rightarrow> score_normalization_mode" where
  "score_normalization_mode_from_env value =
     (case value of
        None \<Rightarrow> NoNormalization
      | Some v \<Rightarrow> if eq_ignore_ascii_case v (lit ''z'') then ZNormalization else NoNormalization)"

definition normalize_result_scores :: "score_normalization_mode \<Rightarrow> search_result list \<Rightarrow> search_result list" where
  "normalize_result_scores mode results =
     (if mode = NoNormalization \<or> length results < 2 then results
      else
        let n = xnat (length results);
            mean = xdiv (fold (\<lambda>r acc. xadd acc (re_score r)) results (Fin 0)) n;
            variance = xdiv (fold (\<lambda>r acc. let delta = xsub (re_score r) mean in xadd acc (xmul delta delta))
                              results (Fin 0)) n;
            std_dev = xsqrt variance
        in if xle std_dev (Fin (two_pow (- 52))) then results
           else map (\<lambda>r. r\<lparr>re_score := xclamp01 (xadd (xlit 0.5)
                  (xmul (xdiv (xsub (re_score r) mean) std_dev) (xlit 0.15)))\<rparr>) results)"

definition apply_lexical_hard_match_bonus :: "(ustr \<Rightarrow> ustr) \<Rightarrow> ustr \<Rightarrow> ustr \<Rightarrow> xf64 \<Rightarrow> xf64" where
  "apply_lexical_hard_match_bonus L query content score =
     (if literal_terms_match L query content then xmin (xadd score (xlit 0.10)) (Fin 1) else score)"

definition apply_missing_keyword_penalty :: "(ustr \<Rightarrow> ustr) \<Rightarrow> ustr \<Rightarrow> ustr \<Rightarrow> xf64 \<Rightarrow> xf64" where
  "apply_missing_keyword_penalty L query content score =
     (let terms = filter (\<lambda>t. 1 < length t) (split_whitespace (normalize_exact_match_text L query))
      in if length terms < 2 then score
         else if list_all (contains (normalize_exact_match_text L content)) terms then score
         else xmax (xsub score (xlit 0.05)) (Fin 0))"

section \<open>Temporal markers\<close>

definition temporal_markers :: "ustr list" where
  "temporal_markers =
     sort_desc byte_len
       (HISTORY_MARKERS_ZH @ CURRENT_STATE_MARKERS_ZH @ HISTORY_MARKERS_EN @ CURRENT_STATE_MARKERS_EN)"

definition strip_temporal_markers :: "ustr \<Rightarrow> ustr" where
  "strip_temporal_markers query =
     join_with [32] (split_whitespace (fold (\<lambda>marker r. replace_all marker [32] r) temporal_markers query))"

section \<open>Fusion of ranks\<close>

definition RRF_K :: nat where "RRF_K = 60"

text \<open>\<open>entry(id).or_default() += 1 / (RRF_K + rank)\<close> along a ranked list.\<close>

definition add_ranks :: "(ustr \<times> xf64) list \<Rightarrow> (ustr \<times> xf64) list \<Rightarrow> (ustr \<times> xf64) list" where
  "add_ranks entries scores =
     fold (\<lambda>(rank, (cid, x)) acc.
         AList.update cid
           (xadd (case map_of acc cid of None \<Rightarrow> Fin 0 | Some s \<Rightarrow> s) (xdiv (Fin 1) (xnat (RRF_K + rank)))) acc)
       (enumerate 0 entries) scores"

definition vector_rank_step ::
  "search_lib \<Rightarrow> f32 list \<Rightarrow> candidate \<Rightarrow> (ustr \<times> xf64) list \<times> ustr set \<Rightarrow> (ustr \<times> xf64) list \<times> ustr set" where
  "vector_rank_step S qv c acc =
     (case acc of (entries, seen) \<Rightarrow>
        if ca_id c \<in> seen then acc
        else
          (case extract_vector S (ca_note c) of
             None \<Rightarrow> entries
           | Some stored \<Rightarrow>
               if length stored \<noteq> length qv then entries
               else let sim = cosine_similarity qv stored
                    in if xless (Fin 0) sim then entries @ [(ca_id c, sim)] else entries,
           insert (ca_id c) seen))"

definition rrf_fusion :: "search_lib \<Rightarrow> candidate list \<Rightarrow> f32 list option \<Rightarrow> (ustr \<times> xf64) list" where
  "rrf_fusion S candidates query_vector =
     (let bm25_entries = sort_by_score snd
            (List.map_filter (\<lambda>c. map_option (\<lambda>bm25. (ca_id c, xmax (xneg bm25) (Fin 0))) (ca_bm25_score c))
              candidates);
          vec_entries = (case query_vector of
              None \<Rightarrow> []
            | Some qv \<Rightarrow> sort_by_score snd (fst (fold (vector_rank_step S qv) candidates ([], {}))));
          dual_hits = set (map fst bm25_entries) \<inter> set (map fst vec_entries);
          dual_scores = filter (\<lambda>(id, s). id \<in> dual_hits) (add_ranks vec_entries (add_ranks bm25_entries []))
      in case map snd dual_scores of
           [] \<Rightarrow> []
         | s # ss \<Rightarrow>
             let max_score = fold (\<lambda>x acc. xmax acc x) ss s
             in if xless (Fin 0) max_score then map (\<lambda>(id, s). (id, xdiv s max_score)) dual_scores
                else dual_scores)"

end
