(* ===== verification/Search_Activation.thy ===== *)
theory Search_Activation
  imports Search_Match Note_Feedback
begin

text \<open>
  Live heads and associations of a search (\<open>retrieval/search.rs\<close>): the latest recall of each
  candidate, the head that replaces a result, and the spread of activation along relations and
  promoted dreams, up to three hops. The order of a hash map's entries, which decides between
  associations of the same score, is the order they came in.
\<close>

record search_diagnostics =
  sg_dim_mismatch_skipped :: nat
  sg_activation_result_count :: nat
  sg_activation_max_depth :: nat
  sg_activation_relation_type_counts :: "(ustr \<times> nat) list"
  sg_activation_dream_evidence_count :: nat

definition no_diagnostics :: search_diagnostics where
  "no_diagnostics =
     \<lparr>sg_dim_mismatch_skipped = 0, sg_activation_result_count = 0, sg_activation_max_depth = 0,
      sg_activation_relation_type_counts = [], sg_activation_dream_evidence_count = 0\<rparr>"

definition table_exists :: "search_stmt faults \<Rightarrow> ustr \<Rightarrow> bool \<Rightarrow> bool" where
  "table_exists flt table present \<longleftrightarrow> flt (TableStmt table) = None \<and> present"

section \<open>The latest recall of a note\<close>

definition parse_recall_timestamp :: "search_lib \<Rightarrow> ustr \<Rightarrow> (ustr, (int \<times> nat) \<times> ustr) result" where
  "parse_recall_timestamp S raw =
     (case sl_parse_rfc3339 (se_score S) raw of
        Some dt \<Rightarrow> Ok (dt, raw)
      | None \<Rightarrow>
          (case sl_parse_naive (se_score S) raw (lit ''%Y-%m-%d %H:%M:%S%.f'') of
             Some dt \<Rightarrow> Ok (dt, se_to_rfc3339 S dt)
           | None \<Rightarrow> Err (lit ''not RFC3339 and not SQLite datetime('' @ [39] @ lit ''now'' @ [39] @ lit '') format'')))"

definition recall_step ::
  "search_lib \<Rightarrow> int \<times> ustr \<times> ustr \<Rightarrow> (ustr \<times> ustr) list \<times> ustr set \<Rightarrow> (ustr \<times> ustr) list \<times> ustr set" where
  "recall_step S row acc =
     (case (row, acc) of ((rid, note_id, recalled_at), (out, tainted)) \<Rightarrow>
        if map_of out note_id \<noteq> None \<or> note_id \<in> tainted then (out, tainted)
        else case parse_recall_timestamp S recalled_at of
               Ok (parsed, display) \<Rightarrow> (out @ [(note_id, display)], tainted)
             | Err e \<Rightarrow> (out, insert note_id tainted))"

definition recall_rows :: "ustr set \<Rightarrow> (int \<times> ustr \<times> ustr) list \<Rightarrow> (int \<times> ustr \<times> ustr) list" where
  "recall_rows ids rows =
     sort_key (\<lambda>(id, note_id, t). note_id)
       (sort_desc (\<lambda>(id, note_id, t). id) (filter (\<lambda>(id, note_id, t). note_id \<in> ids) rows))"

definition latest_recall_timestamps ::
  "search_lib \<Rightarrow> search_stmt faults \<Rightarrow> 'a search_db_scheme \<Rightarrow> candidate list \<Rightarrow>
   (sql_error, (ustr \<times> ustr) list) result" where
  "latest_recall_timestamps S flt db candidates =
     (let ids = set (map ca_id candidates);
          rows = (case recall_log db of None \<Rightarrow> [] | Some rows \<Rightarrow> rows)
      in if ids = {} \<or> \<not> table_exists flt (lit ''recall_log'') (recall_log db \<noteq> None) then Ok []
         else case flt RecallLogStmt of
                Some e \<Rightarrow> Err e
              | None \<Rightarrow> Ok (fst (fold (recall_step S) (recall_rows ids rows) ([], {}))))"

section \<open>Live heads\<close>

text \<open>The entries of \<open>previous\<close> whose key \<open>merged\<close> has not, after those of \<open>merged\<close>.\<close>

definition insert_missing :: "json_map \<Rightarrow> json_map \<Rightarrow> json_map" where
  "insert_missing previous merged =
     fold (\<lambda>(k, v) m. if map_of m k = None then map_insert k v m else m) previous merged"

definition merge_canonical_metadata ::
  "json option \<Rightarrow> json option \<Rightarrow> ustr \<Rightarrow> canonical_read_source \<Rightarrow> json" where
  "merge_canonical_metadata head_metadata previous_metadata evolved_from source =
     (let merged = (case head_metadata of Some (JObj m) \<Rightarrow> m | _ \<Rightarrow> []);
          merged = (case previous_metadata of Some (JObj m) \<Rightarrow> insert_missing m merged | _ \<Rightarrow> merged);
          merged = map_insert (lit ''evolved_from'') (JStr evolved_from) merged
      in JObj (map_insert (lit ''canonical_read_source'') (JStr (source_as_str source)) merged))"

definition apply_canonical_head ::
  "search_lib \<Rightarrow> search_result \<Rightarrow> hydrated \<Rightarrow> ustr \<Rightarrow> canonical_read_source \<Rightarrow> search_result" where
  "apply_canonical_head S r head evolved_from source =
     r\<lparr>re_id := hy_id head, re_content := hy_content head, re_layer := hy_layer head,
       re_category := hy_category head, re_created_at := hy_created_at head,
       re_topic_key := hy_topic_key head, re_root_id := hy_root_id head, re_version := hy_version head,
       re_is_head := (hy_is_head head \<and> evolution_state_is_head (hy_evolution_state head)),
       re_recall_count := hy_recall_count head,
       re_metadata := Some (merge_canonical_metadata
         (Option.bind (hy_metadata_json head) (se_json S)) (re_metadata r) evolved_from source)\<rparr>"

definition follow_to_head ::
  "search_lib \<Rightarrow> search_stmt faults \<Rightarrow> 'a search_db_scheme \<Rightarrow> search_result \<Rightarrow> search_result" where
  "follow_to_head S flt db r =
     (case snd (hydrate_head_by_canonical_or_topic (\<lambda>s. flt (CanonicalStmt s))
                  (Some (re_id r)) (re_root_id r) (re_topic_key r) db) of
        Err e \<Rightarrow> r
      | Ok read \<Rightarrow>
          (case cr_note read of
             None \<Rightarrow> r
           | Some head \<Rightarrow>
               if hy_id head = re_id r then r
               else apply_canonical_head S r head (re_id r) (cr_source read)))"

definition follow_results_to_canonical_heads ::
  "search_lib \<Rightarrow> search_stmt faults \<Rightarrow> 'a search_db_scheme \<Rightarrow> search_result list \<Rightarrow> search_result list" where
  "follow_results_to_canonical_heads S flt db = map (follow_to_head S flt db)"

text \<open>\<open>retain\<close> with a set of the identifiers seen.\<close>

definition dedupe_results_by_id :: "search_result list \<Rightarrow> search_result list" where
  "dedupe_results_by_id results =
     fst (fold (\<lambda>r (kept, seen). if re_id r \<in> seen then (kept, seen) else (kept @ [r], insert (re_id r) seen))
       results ([], {}))"

section \<open>Neighbours\<close>

record activation_seed =
  as_id :: ustr
  as_root_id :: ustr
  as_score :: xf64
  as_path :: "ustr list"

record activation_neighbor =
  an_source_id :: ustr
  an_relation_type :: ustr
  an_strength :: f64
  an_dream_candidate_id :: "ustr option"
  an_note :: hydrated

record activation_trace =
  at_relation_type :: ustr
  at_depth :: nat
  at_dream_candidate_id :: "ustr option"

definition ACTIVATION_RELATION_TYPES :: "ustr list" where
  "ACTIVATION_RELATION_TYPES =
     [lit ''supports'', lit ''refines'', lit ''overlaps'', lit ''co_activated'']"

definition DREAMING_EVIDENCE_RELATION_TYPE :: ustr where
  "DREAMING_EVIDENCE_RELATION_TYPE = lit ''dreaming_evidence''"

definition ACTIVATION_STRENGTH_THRESHOLD :: f64 where
  "ACTIVATION_STRENGTH_THRESHOLD = f64_lit 0.4"

definition ACTIVATION_WEIGHT :: f64 where "ACTIVATION_WEIGHT = f64_lit 0.3"

definition ACTIVATION_MAX_HOPS :: nat where "ACTIVATION_MAX_HOPS = 3"

definition relation_neighbors ::
  "ustr \<Rightarrow> (relation_row \<Rightarrow> ustr) \<Rightarrow> (relation_row \<Rightarrow> ustr) \<Rightarrow> 'a search_db_scheme \<Rightarrow> activation_neighbor list" where
  "relation_neighbors source_id near far db =
     concat (map (\<lambda>r. map (\<lambda>n. \<lparr>an_source_id = near r, an_relation_type = rel_type r,
                                  an_strength = rel_strength r, an_dream_candidate_id = None,
                                  an_note = from_row n\<rparr>)
                          (filter (\<lambda>n. nr_id n = far r) (note_rows db)))
       (filter (\<lambda>r. near r = source_id \<and> rel_type r \<in> set ACTIVATION_RELATION_TYPES \<and>
                    ACTIVATION_STRENGTH_THRESHOLD < rel_strength r) (note_relations db)))"

definition activation_neighbors_for_source ::
  "search_stmt faults \<Rightarrow> 'a search_db_scheme \<Rightarrow> ustr \<Rightarrow> activation_neighbor list" where
  "activation_neighbors_for_source flt db source_id =
     (if flt (NeighborStmt source_id) \<noteq> None then []
      else relation_neighbors source_id rel_from rel_to db @ relation_neighbors source_id rel_to rel_from db)"

definition note_by_id :: "search_stmt faults \<Rightarrow> 'a search_db_scheme \<Rightarrow> ustr \<Rightarrow> hydrated option" where
  "note_by_id flt db note_id =
     (if flt (NoteByIdStmt note_id) \<noteq> None then None
      else map_option from_row (row_get nr_id note_id (note_rows db)))"

definition dream_column ::
  "'a search_db_scheme \<Rightarrow> ustr \<Rightarrow> ustr option \<times> ustr option \<times> ustr option" where
  "dream_column db did =
     (case map_of (dream_columns db) did of
        None \<Rightarrow> (None, None, None) | Some (project, promoted_at, created_at) \<Rightarrow> (Some project, promoted_at, created_at))"

definition promoted_dreams ::
  "'a search_db_scheme \<Rightarrow> ustr \<Rightarrow> ustr option \<Rightarrow> bool \<Rightarrow> dream_row list \<Rightarrow> dream_row list" where
  "promoted_dreams db source_id project_id cross_project rows =
     take 50
       (sort_desc dr_confidence
         (sort_desc (\<lambda>d. fst (snd (dream_column db (dr_id d))))
           (sort_desc (\<lambda>d. snd (snd (dream_column db (dr_id d))))
             (filter (\<lambda>d. dr_verdict d = Some (lit ''promoted'') \<and> dr_promoted_to d \<noteq> None \<and>
                (case dr_evidence_ids d of
                   None \<Rightarrow> False
                 | Some ev \<Rightarrow> dr_promoted_to d = Some source_id \<or> sql_like None ([37] @ source_id @ [37]) ev) \<and>
                (cross_project \<or> equals_if project_id (fst (dream_column db (dr_id d))))) rows))))"

text \<open>The notes that a promoted dream connects to the source.\<close>

definition dream_target_ids :: "search_lib \<Rightarrow> ustr \<Rightarrow> dream_row \<Rightarrow> ustr list" where
  "dream_target_ids S source_id d =
     (let evidence_ids = filter (\<lambda>id. id \<noteq> [])
            (map trim (case Option.bind (dr_evidence_ids d) (se_parse_strings S) of
               None \<Rightarrow> [] | Some ids \<Rightarrow> ids))
      in case dr_promoted_to d of
           None \<Rightarrow> []
         | Some promoted_to \<Rightarrow>
             if trim promoted_to = [] \<or> evidence_ids = [] then []
             else (if promoted_to = source_id then filter (\<lambda>id. id \<noteq> source_id) evidence_ids else []) @
                  (if source_id \<in> set evidence_ids \<and> promoted_to \<noteq> source_id then [promoted_to] else []))"

definition dream_strength :: "dream_row \<Rightarrow> f64" where
  "dream_strength d = min (max (case dr_confidence d of None \<Rightarrow> 0 | Some c \<Rightarrow> c) 0) 1"

definition dream_neighbors ::
  "search_lib \<Rightarrow> search_stmt faults \<Rightarrow> 'a search_db_scheme \<Rightarrow> ustr \<Rightarrow> dream_row \<Rightarrow> activation_neighbor list" where
  "dream_neighbors S flt db source_id d =
     (if dream_strength d \<le> ACTIVATION_STRENGTH_THRESHOLD then []
      else List.map_filter
        (\<lambda>target_id. map_option
           (\<lambda>n. \<lparr>an_source_id = source_id, an_relation_type = DREAMING_EVIDENCE_RELATION_TYPE,
                 an_strength = dream_strength d, an_dream_candidate_id = Some (dr_id d), an_note = n\<rparr>)
           (note_by_id flt db target_id))
        (dream_target_ids S source_id d))"

definition dreaming_activation_neighbors_for_source ::
  "search_lib \<Rightarrow> search_stmt faults \<Rightarrow> 'a search_db_scheme \<Rightarrow> ustr \<Rightarrow> ustr option \<Rightarrow> bool \<Rightarrow>
   activation_neighbor list" where
  "dreaming_activation_neighbors_for_source S flt db source_id project_id cross_project =
     (if flt (DreamStmt source_id) \<noteq> None then []
      else concat (map (dream_neighbors S flt db source_id)
        (promoted_dreams db source_id project_id cross_project
          (case dream_candidates db of None \<Rightarrow> [] | Some rows \<Rightarrow> rows))))"

definition hydrate_activation_neighbors ::
  "search_stmt faults \<Rightarrow> 'a search_db_scheme \<Rightarrow> activation_neighbor list \<Rightarrow> ustr \<Rightarrow> canonical_read option" where
  "hydrate_activation_neighbors flt db neighbors =
     (case snd (hydrate_heads_by_canonical_or_topic (\<lambda>s. flt (CanonicalStmt s))
                  (map (\<lambda>n. \<lparr>cs_seed_id = hy_id (an_note n), cs_note_id = Some (hy_id (an_note n)),
                             cs_root_id = hy_root_id (an_note n), cs_topic_key = hy_topic_key (an_note n)\<rparr>)
                     neighbors) db) of
        Ok reads \<Rightarrow> reads | Err e \<Rightarrow> Map.empty)"

definition notes_column :: "search_stmt faults \<Rightarrow> 'a search_db_scheme \<Rightarrow> ustr \<Rightarrow> bool" where
  "notes_column flt db col \<longleftrightarrow> flt ColumnsStmt = None \<and> has_column col db"

definition activation_source_is_trusted :: "search_stmt faults \<Rightarrow> 'a search_db_scheme \<Rightarrow> ustr \<Rightarrow> bool" where
  "activation_source_is_trusted flt db note_id =
     (if flt (TrustStmt note_id) \<noteq> None then False
      else case row_get nr_id note_id (note_rows db) of
             None \<Rightarrow> False
           | Some r \<Rightarrow>
               allows_strengthening (if notes_column flt db (lit ''source'') then nr_source r else None)
                 (notes_column flt db (lit ''confirmed_at'') \<and> nr_confirmed_at r \<noteq> None) True)"

definition activation_note_passes_filters ::
  "search_stmt faults \<Rightarrow> 'a search_db_scheme \<Rightarrow> search_params \<Rightarrow> hydrated \<Rightarrow> bool" where
  "activation_note_passes_filters flt db p n \<longleftrightarrow>
     activation_source_is_trusted flt db (hy_id n) \<and>
     (pr_only_active p \<longrightarrow> hy_is_active n) \<and>
     hy_is_head n \<and> evolution_state_is_head (hy_evolution_state n) \<and>
     (case pr_layer p of None \<Rightarrow> True | Some layer \<Rightarrow> hy_layer n = layer) \<and>
     equals_if (pr_category p) (hy_category n) \<and>
     equals_if (pr_room p) (hy_room n) \<and>
     (pr_cross_project p \<or> equals_if (pr_project_id p) (hy_project_id n)) \<and>
     (pr_include_constitution p \<or> pr_layer p = Some (lit ''identity_schema'') \<or>
      hy_layer n \<noteq> lit ''identity_schema'')"

end
