(* ===== verification/Search_Spread.thy ===== *)
theory Search_Spread
  imports Search_Activation
begin

text \<open>
  The spread of activation (\<open>spread_activation\<close> of \<open>retrieval/search.rs\<close>): from the direct results
  along their neighbours, up to three hops, each association with the path that reached it. The
  wall-clock time of the stage is left out of the diagnostics.
\<close>

section \<open>Associations\<close>

text \<open>What the hops have found: the best score of each note, the associations in the order they
  came, and the frontier of the next hop.\<close>

record spread =
  ac_best :: "(ustr \<times> xf64) list"
  ac_activated :: "(ustr \<times> search_result) list"
  ac_next :: "activation_seed list"

definition association_metadata ::
  "search_lib \<Rightarrow> nat \<Rightarrow> activation_seed \<Rightarrow> activation_neighbor \<Rightarrow> canonical_read_source \<Rightarrow> hydrated \<Rightarrow> ustr list \<Rightarrow> json" where
  "association_metadata S depth source neighbor read_source n activation_path =
     (let m = (case Option.bind (hy_metadata_json n) (se_json S) of Some (JObj m) \<Rightarrow> m | _ \<Rightarrow> []);
          m = map_insert (lit ''is_association'') (JBool True) m;
          m = map_insert (lit ''associated_from'') (JStr (an_source_id neighbor)) m;
          m = map_insert (lit ''association_root'') (JStr (as_root_id source)) m;
          m = map_insert (lit ''activation_depth'') (JInt (int depth)) m;
          m = map_insert (lit ''activation_path'') (JArr (map JStr activation_path)) m;
          m = map_insert (lit ''relation_type'') (JStr (an_relation_type neighbor)) m;
          m = map_insert (lit ''relation_strength'') (JFloat (an_strength neighbor)) m;
          m = map_insert (lit ''canonical_read_source'') (JStr (source_as_str read_source)) m;
          original_id = hy_id (an_note neighbor);
          m = (if original_id \<noteq> hy_id n then map_insert (lit ''evolved_from'') (JStr original_id) m else m);
          m = (case an_dream_candidate_id neighbor of
                 None \<Rightarrow> m | Some c \<Rightarrow> map_insert (lit ''dream_candidate_id'') (JStr c) m)
      in JObj m)"

definition association_result :: "hydrated \<Rightarrow> xf64 \<Rightarrow> json \<Rightarrow> search_result" where
  "association_result n score metadata =
     \<lparr>re_id = hy_id n, re_content = hy_content n, re_layer = hy_layer n, re_category = hy_category n,
      re_score = score, re_created_at = hy_created_at n, re_topic_key = hy_topic_key n,
      re_root_id = hy_root_id n, re_version = hy_version n, re_channel = Some (lit ''association''),
      re_temperature = None,
      re_is_head = (hy_is_head n \<and> evolution_state_is_head (hy_evolution_state n)),
      re_metadata = Some metadata, re_recall_count = hy_recall_count n, re_last_recalled_at = None\<rparr>"

text \<open>\<open>source.score * neighbor.strength * ACTIVATION_WEIGHT\<close>.\<close>

definition connected_score :: "activation_seed \<Rightarrow> activation_neighbor \<Rightarrow> xf64" where
  "connected_score source neighbor =
     xmul (xmul (as_score source) (Fin (an_strength neighbor))) (Fin ACTIVATION_WEIGHT)"

text \<open>The note that a neighbour stands for: its live head, or itself when there is none.\<close>

definition neighbor_note :: "(ustr \<Rightarrow> canonical_read option) \<Rightarrow> activation_neighbor \<Rightarrow> hydrated" where
  "neighbor_note reads neighbor =
     (case Option.bind (reads (hy_id (an_note neighbor))) cr_note of
        None \<Rightarrow> an_note neighbor | Some n \<Rightarrow> n)"

definition associable ::
  "search_stmt faults \<Rightarrow> 'a search_db_scheme \<Rightarrow> search_params \<Rightarrow> ustr set \<Rightarrow> ustr set \<Rightarrow> activation_seed \<Rightarrow>
   activation_neighbor \<Rightarrow> hydrated \<Rightarrow> bool" where
  "associable flt db p direct_ids seen_topics source neighbor n \<longleftrightarrow>
     hy_id (an_note neighbor) \<notin> direct_ids \<and> hy_id (an_note neighbor) \<notin> set (as_path source) \<and>
     hy_id n \<notin> direct_ids \<and> hy_id n \<notin> set (as_path source) \<and>
     activation_note_passes_filters flt db p n \<and>
     (case hy_topic_key n of None \<Rightarrow> True | Some t \<Rightarrow> t \<notin> seen_topics)"

definition improves :: "spread \<Rightarrow> ustr \<Rightarrow> xf64 \<Rightarrow> bool" where
  "improves st note_id score \<longleftrightarrow>
     \<not> xle score (Fin 0) \<and>
     (case map_of (ac_best st) note_id of None \<Rightarrow> True | Some existing \<Rightarrow> \<not> xle score existing) \<and>
     (case map_of (ac_activated st) note_id of None \<Rightarrow> True | Some existing \<Rightarrow> xless (re_score existing) score)"

definition activate_neighbor ::
  "search_lib \<Rightarrow> search_stmt faults \<Rightarrow> 'a search_db_scheme \<Rightarrow> search_params \<Rightarrow> ustr set \<Rightarrow> ustr set \<Rightarrow> nat \<Rightarrow>
   (ustr \<Rightarrow> canonical_read option) \<Rightarrow> activation_seed \<Rightarrow> activation_neighbor \<Rightarrow> spread \<Rightarrow> spread" where
  "activate_neighbor S flt db p direct_ids seen_topics depth reads source neighbor st =
     (let read_source = (case reads (hy_id (an_note neighbor)) of None \<Rightarrow> Miss | Some r \<Rightarrow> cr_source r);
          n = neighbor_note reads neighbor;
          score = connected_score source neighbor;
          activation_path = as_path source @ [hy_id n]
      in if \<not> associable flt db p direct_ids seen_topics source neighbor n \<or> \<not> improves st (hy_id n) score
         then st
         else
           st\<lparr>ac_activated := AList.update (hy_id n)
                (association_result n score
                  (association_metadata S depth source neighbor read_source n activation_path))
                (ac_activated st),
              ac_best := AList.update (hy_id n) score (ac_best st),
              ac_next := ac_next st @
                [\<lparr>as_id = hy_id n, as_root_id = as_root_id source, as_score = score,
                  as_path = activation_path\<rparr>]\<rparr>)"

definition source_neighbors ::
  "search_lib \<Rightarrow> search_stmt faults \<Rightarrow> 'a search_db_scheme \<Rightarrow> search_params \<Rightarrow> ustr \<Rightarrow> activation_neighbor list" where
  "source_neighbors S flt db p source_id =
     (if table_exists flt (lit ''note_relations'') True
      then activation_neighbors_for_source flt db source_id else []) @
     (if table_exists flt (lit ''dream_candidates'') (dream_candidates db \<noteq> None)
      then dreaming_activation_neighbors_for_source S flt db source_id (pr_project_id p) (pr_cross_project p)
      else [])"

definition activate_source ::
  "search_lib \<Rightarrow> search_stmt faults \<Rightarrow> 'a search_db_scheme \<Rightarrow> search_params \<Rightarrow> ustr set \<Rightarrow> ustr set \<Rightarrow> nat \<Rightarrow>
   activation_seed \<Rightarrow> spread \<Rightarrow> spread" where
  "activate_source S flt db p direct_ids seen_topics depth source st =
     (if \<not> activation_source_is_trusted flt db (as_id source) then st
      else
        let neighbors = source_neighbors S flt db p (as_id source)
        in fold (activate_neighbor S flt db p direct_ids seen_topics depth
                   (hydrate_activation_neighbors flt db neighbors) source) neighbors st)"

definition activation_hop ::
  "search_lib \<Rightarrow> search_stmt faults \<Rightarrow> 'a search_db_scheme \<Rightarrow> search_params \<Rightarrow> ustr set \<Rightarrow> ustr set \<Rightarrow> nat \<Rightarrow>
   spread \<Rightarrow> spread" where
  "activation_hop S flt db p direct_ids seen_topics depth st =
     fold (activate_source S flt db p direct_ids seen_topics depth) (ac_next st) (st\<lparr>ac_next := []\<rparr>)"

fun activation_hops ::
  "search_lib \<Rightarrow> search_stmt faults \<Rightarrow> 'a search_db_scheme \<Rightarrow> search_params \<Rightarrow> ustr set \<Rightarrow> ustr set \<Rightarrow> nat list \<Rightarrow>
   spread \<Rightarrow> spread" where
  "activation_hops S flt db p direct_ids seen_topics [] st = st"
| "activation_hops S flt db p direct_ids seen_topics (depth # depths) st =
     (if ac_next st = [] then st
      else activation_hops S flt db p direct_ids seen_topics depths
             (activation_hop S flt db p direct_ids seen_topics depth st))"

text \<open>The direct results are the roots of the spread.\<close>

definition initial_spread :: "search_result list \<Rightarrow> spread" where
  "initial_spread results =
     \<lparr>ac_best = fold (\<lambda>r. AList.update (re_id r) (re_score r)) results [], ac_activated = [],
      ac_next = map (\<lambda>r. \<lparr>as_id = re_id r, as_root_id = re_id r, as_score = re_score r,
                           as_path = [re_id r]\<rparr>) results\<rparr>"

definition activated_results ::
  "search_lib \<Rightarrow> search_stmt faults \<Rightarrow> 'a search_db_scheme \<Rightarrow> search_params \<Rightarrow> search_result list \<Rightarrow> ustr set \<Rightarrow>
   search_result list" where
  "activated_results S flt db p results seen_topics =
     map snd (ac_activated (activation_hops S flt db p (set (map re_id results)) seen_topics
       [1..<Suc ACTIVATION_MAX_HOPS] (initial_spread results)))"

definition activation_trace_from_metadata :: "json option \<Rightarrow> activation_trace option" where
  "activation_trace_from_metadata metadata =
     (case metadata of
        None \<Rightarrow> None
      | Some meta \<Rightarrow>
          if Option.bind (json_get meta (lit ''is_association'')) as_bool \<noteq> Some True then None
          else Some
            \<lparr>at_relation_type = (case Option.bind (json_get meta (lit ''relation_type'')) as_str of
                 None \<Rightarrow> lit ''association'' | Some t \<Rightarrow> t),
             at_depth = (case json_get meta (lit ''activation_depth'') of
                 Some (JInt n) \<Rightarrow> if 0 \<le> n \<and> n < 2 ^ 64 then nat n else 0 | _ \<Rightarrow> 0),
             at_dream_candidate_id = Option.bind (json_get meta (lit ''dream_candidate_id'')) as_str\<rparr>)"

definition count_association :: "search_result \<Rightarrow> search_diagnostics \<Rightarrow> search_diagnostics" where
  "count_association r d =
     (case activation_trace_from_metadata (re_metadata r) of
        None \<Rightarrow> d
      | Some trace \<Rightarrow>
          d\<lparr>sg_activation_result_count := Suc (sg_activation_result_count d),
            sg_activation_max_depth := max (sg_activation_max_depth d) (at_depth trace),
            sg_activation_relation_type_counts :=
              AList.update (at_relation_type trace)
                (Suc (case map_of (sg_activation_relation_type_counts d) (at_relation_type trace) of
                   None \<Rightarrow> 0 | Some n \<Rightarrow> n))
                (sg_activation_relation_type_counts d),
            sg_activation_dream_evidence_count :=
              (if at_dream_candidate_id trace \<noteq> None then Suc (sg_activation_dream_evidence_count d)
               else sg_activation_dream_evidence_count d)\<rparr>)"

definition spread_activation ::
  "search_lib \<Rightarrow> search_stmt faults \<Rightarrow> 'a search_db_scheme \<Rightarrow> search_params \<Rightarrow> search_result list \<Rightarrow> nat \<Rightarrow>
   ustr set \<Rightarrow> search_diagnostics \<Rightarrow> search_result list \<times> search_diagnostics" where
  "spread_activation S flt db p results limit seen_topics d =
     (if results = [] \<or> limit \<le> length results \<or> limit = 0 then (results, d)
      else if \<not> table_exists flt (lit ''note_relations'') True \<and>
              \<not> table_exists flt (lit ''dream_candidates'') (dream_candidates db \<noteq> None) then (results, d)
      else
        let returned = take (limit - length results)
              (sort_by_score re_score (activated_results S flt db p results seen_topics))
        in (results @ returned, fold count_association returned d))"

end
