(* ===== verification/Search_Engine.thy ===== *)
theory Search_Engine
  imports Search_Spread
begin

text \<open>
  The search engine (\<open>retrieval/search.rs\<close>): candidates from the channels, their scores, live
  heads, the passes after scoring and the spread of activation, in the order of \<open>search_inner\<close>; the
  listing of rooms and the search of checkpoints. The value None is a panic of the scorer. Limits
  are unbounded naturals. \<open>embed_text\<close> is \<open>se_embed\<close>.
\<close>

section \<open>Candidates\<close>

definition PRIMARY_LAYERS :: "ustr list" where
  "PRIMARY_LAYERS =
     [lit ''identity_schema'', lit ''procedure_schema'', lit ''verified_fact'', lit ''event_log'']"

definition primary_layers :: "bool \<Rightarrow> ustr list" where
  "primary_layers include_constitution =
     filter (\<lambda>layer. include_constitution \<or> layer \<noteq> lit ''identity_schema'') PRIMARY_LAYERS"

text \<open>\<open>if seen_ids.insert(id) { candidates.push(c) }\<close>, over a channel's candidates.\<close>

definition add_candidates ::
  "candidate list \<Rightarrow> candidate list \<times> ustr set \<Rightarrow> candidate list \<times> ustr set" where
  "add_candidates cs acc =
     fold (\<lambda>c (candidates, seen_ids).
         if ca_id c \<in> seen_ids then (candidates, seen_ids)
         else (candidates @ [c], insert (ca_id c) seen_ids)) cs acc"

definition base_filters :: "search_params \<Rightarrow> candidate_filters" where
  "base_filters p =
     \<lparr>cf_layer = pr_layer p, cf_category = pr_category p, cf_only_active = pr_only_active p,
      cf_agent_id = pr_agent_id p,
      cf_project_id = (if pr_cross_project p then None else pr_project_id p),
      cf_cross_project = pr_cross_project p, cf_start_time = pr_start_time p,
      cf_end_time = pr_end_time p, cf_include_expired = pr_include_expired p, cf_room = pr_room p,
      cf_include_constitution = pr_include_constitution p\<rparr>"

definition fetch_recent_rows ::
  "search_stmt faults \<Rightarrow> note_row list \<Rightarrow> search_params \<Rightarrow> nat \<Rightarrow> candidate list" where
  "fetch_recent_rows flt rows p limit =
     (if flt RecentStmt \<noteq> None then []
      else map plain_candidate (take limit (sort_desc touched_at
        (filter (\<lambda>r. (pr_only_active p \<longrightarrow> nr_is_active r = 1) \<and>
             (case pr_layer p of None \<Rightarrow> True | Some l \<Rightarrow> nr_layer r = l) \<and>
             equals_if (pr_category p) (nr_category r) \<and>
             (pr_cross_project p \<or> equals_if (pr_project_id p) (nr_project_id r)) \<and>
             (pr_include_constitution p \<or> pr_layer p = Some (lit ''identity_schema'') \<or>
              nr_layer r \<noteq> lit ''identity_schema'')) rows))))"

text \<open>One vector pass over a layer; the state holds the candidates, and the rows of another
  dimension with their count.\<close>

definition vector_pass ::
  "search_lib \<Rightarrow> search_stmt faults \<Rightarrow> note_row list \<Rightarrow> f32 list \<Rightarrow> candidate_filters \<Rightarrow> nat \<Rightarrow>
   (candidate list \<times> ustr set) \<times> ustr set \<times> nat \<Rightarrow> (candidate list \<times> ustr set) \<times> ustr set \<times> nat" where
  "vector_pass S flt rows qv f limit acc =
     (case acc of (found, stats) \<Rightarrow>
        (case vector_candidates_with_stats S flt rows qv f limit (snd found) stats of
           (cs, stats') \<Rightarrow> (add_candidates cs found, stats')))"

definition vector_limit :: "nat \<Rightarrow> nat" where
  "vector_limit limit = max (limit * 4) 20"

text \<open>Without a layer: the exact matches, the primary layers one by one, then every layer.\<close>

definition collect_every_layer ::
  "search_lib \<Rightarrow> search_stmt faults \<Rightarrow> 'a search_db_scheme \<Rightarrow> ustr \<Rightarrow> ustr \<Rightarrow> f32 list option \<Rightarrow> search_params \<Rightarrow>
   nat \<Rightarrow> nat \<Rightarrow> nat \<Rightarrow> (candidate list \<times> ustr set) \<times> nat" where
  "collect_every_layer S flt db exact_query recall_query query_vector p candidate_limit limit skipped =
     (let f = base_filters p; fts_text = build_fts_query (se_lower S) recall_query;
          layers = primary_layers (pr_include_constitution p);
          found = add_candidates (exact_substring_candidates S flt db exact_query f {} 12) ([], {});
          found = fold (\<lambda>layer. add_candidates
                    (fts_candidates S flt db fts_text recall_query (with_layer (Some layer) f) 10)) layers found;
          found = add_candidates
                    (fts_candidates S flt db fts_text recall_query (with_layer None f) candidate_limit) found
      in case query_vector of
           None \<Rightarrow> (found, skipped)
         | Some qv \<Rightarrow>
             (case vector_pass S flt (note_rows db) qv (with_layer None f) (vector_limit limit)
                     (fold (\<lambda>layer. vector_pass S flt (note_rows db) qv (with_layer (Some layer) f) 8) layers
                       (found, {}, skipped)) of
                (found, seen, skipped) \<Rightarrow> (found, skipped)))"

text \<open>With a layer: exact matches, full text, and the vector candidates appended as they are.\<close>

definition collect_one_layer ::
  "search_lib \<Rightarrow> search_stmt faults \<Rightarrow> 'a search_db_scheme \<Rightarrow> ustr \<Rightarrow> ustr \<Rightarrow> f32 list option \<Rightarrow> search_params \<Rightarrow>
   nat \<Rightarrow> nat \<Rightarrow> nat \<Rightarrow> (candidate list \<times> ustr set) \<times> nat" where
  "collect_one_layer S flt db exact_query recall_query query_vector p candidate_limit limit skipped =
     (let f = base_filters p; fts_text = build_fts_query (se_lower S) recall_query;
          found = add_candidates (exact_substring_candidates S flt db exact_query f {} 12) ([], {});
          found = add_candidates (fts_candidates S flt db fts_text recall_query f candidate_limit) found
      in case query_vector of
           None \<Rightarrow> (found, skipped)
         | Some qv \<Rightarrow>
             (case vector_candidates_with_stats S flt (note_rows db) qv f (vector_limit limit) (snd found)
                     ({}, skipped) of
                (cs, seen, skipped) \<Rightarrow> ((fst found @ cs, snd found), skipped)))"

definition collect_candidates ::
  "search_lib \<Rightarrow> search_stmt faults \<Rightarrow> 'a search_db_scheme \<Rightarrow> ustr \<Rightarrow> ustr \<Rightarrow> f32 list option \<Rightarrow> search_params \<Rightarrow>
   nat \<Rightarrow> nat \<Rightarrow> search_diagnostics \<Rightarrow> candidate list \<times> search_diagnostics" where
  "collect_candidates S flt db exact_query recall_query query_vector p candidate_limit limit d =
     (case (if pr_layer p = None
            then collect_every_layer S flt db exact_query recall_query query_vector p candidate_limit limit
                   (sg_dim_mismatch_skipped d)
            else collect_one_layer S flt db exact_query recall_query query_vector p candidate_limit limit
                   (sg_dim_mismatch_skipped d)) of
        (found, skipped) \<Rightarrow>
          let candidates =
                (if 2 \<le> length (filter is_cjk_char recall_query) \<and> fst found = []
                 then fst (add_candidates
                        (cjk_bigram_candidates flt (note_rows db) recall_query (base_filters p) (snd found)) found)
                 else fst found)
          in (if candidates = [] then fetch_recent_rows flt (note_rows db) p candidate_limit else candidates,
              d\<lparr>sg_dim_mismatch_skipped := skipped\<rparr>))"

section \<open>Scoring the candidates\<close>

definition no_scoring_metadata :: scoring_metadata where
  "no_scoring_metadata =
     \<lparr>sm_failure_count = None, sm_superseded_by = None, sm_is_outdated = None, sm_is_corrected = None,
      sm_search_aliases = None, sm_aliases = None, sm_task_slug = None, sm_source_tasks = None,
      sm_source_task = None\<rparr>"

definition candidate_input ::
  "search_lib \<Rightarrow> search_params \<Rightarrow> ustr \<Rightarrow> f32 list option \<Rightarrow> ustr option \<Rightarrow> candidate \<Rightarrow> score_input" where
  "candidate_input S p query query_vector last_recalled_at c =
     (let n = ca_note c
      in \<lparr>si_query = query, si_query_vector = query_vector,
          si_payload = \<lparr>sp_content = hy_content n, sp_layer = hy_layer n,
            sp_confidence = map_option Fin (hy_confidence n), sp_created_at = hy_created_at n,
            sp_evolution_state = hy_evolution_state n, sp_category = hy_category n, sp_source = None\<rparr>,
          si_stored_vector = extract_vector S n, si_bm25_score = ca_bm25_score c,
          si_metadata = (case Option.bind (hy_metadata_json n) (se_scoring_metadata S) of
            None \<Rightarrow> no_scoring_metadata | Some m \<Rightarrow> m),
          si_boost_categories = map_option set (pr_boost_categories p),
          si_recall_count = hy_recall_count n, si_last_recalled_at = last_recalled_at\<rparr>)"

definition RRF_BLEND_WEIGHT :: xf64 where "RRF_BLEND_WEIGHT = xlit 0.05"

definition scored_result :: "search_lib \<Rightarrow> ustr \<Rightarrow> ustr option \<Rightarrow> candidate \<Rightarrow> xf64 \<Rightarrow> search_result" where
  "scored_result S query last_recalled_at c score =
     (let n = ca_note c
      in \<lparr>re_id = hy_id n, re_content = hy_content n, re_layer = hy_layer n, re_category = hy_category n,
          re_score = score, re_created_at = hy_created_at n, re_topic_key = hy_topic_key n,
          re_root_id = hy_root_id n, re_version = hy_version n,
          re_channel = (if is_literal_self_recall_match (se_lower S) query (hy_content n)
                        then Some (lit ''exact'') else None),
          re_temperature = None,
          re_is_head = (hy_is_head n \<and> evolution_state_is_head (hy_evolution_state n)),
          re_metadata = Option.bind (hy_metadata_json n) (se_json S),
          re_recall_count = hy_recall_count n, re_last_recalled_at = last_recalled_at\<rparr>)"

definition score_candidate ::
  "search_lib \<Rightarrow> search_params \<Rightarrow> ustr \<Rightarrow> f32 list option \<Rightarrow> (ustr \<times> xf64) list \<Rightarrow> (ustr \<times> ustr) list \<Rightarrow>
   candidate \<Rightarrow> search_result option" where
  "score_candidate S p query query_vector rrf_scores recall_timestamps c =
     (let last_recalled_at = map_of recall_timestamps (ca_id c)
      in map_option
           (\<lambda>score. scored_result S query last_recalled_at c
              (case map_of rrf_scores (ca_id c) of
                 None \<Rightarrow> score
               | Some rrf \<Rightarrow> xmul score (xadd (Fin 1) (xmul RRF_BLEND_WEIGHT rrf))))
           (score_result (se_score S) (candidate_input S p query query_vector last_recalled_at c)))"

text \<open>The loop over the candidates; an identifier already scored is skipped.\<close>

fun score_candidates ::
  "(candidate \<Rightarrow> search_result option) \<Rightarrow> ustr set \<Rightarrow> candidate list \<Rightarrow> search_result list option" where
  "score_candidates score seen_ids [] = Some []"
| "score_candidates score seen_ids (c # cs) =
     (if ca_id c \<in> seen_ids then score_candidates score seen_ids cs
      else case score c of
             None \<Rightarrow> None
           | Some r \<Rightarrow> map_option ((#) r) (score_candidates score (insert (ca_id c) seen_ids) cs))"

section \<open>The search\<close>

definition adjust_scores :: "search_lib \<Rightarrow> ustr \<Rightarrow> search_result list \<Rightarrow> search_result list" where
  "adjust_scores S query =
     map (\<lambda>r. r\<lparr>re_score :=
       apply_lexical_hard_match_bonus (se_lower S) query (re_content r)
         (apply_missing_keyword_penalty (se_lower S) query (re_content r) (re_score r))\<rparr>)"

text \<open>From the scored candidates to the direct results: live heads, one result per note and per
  topic, and at most \<open>limit\<close> of them.\<close>

definition direct_results ::
  "search_lib \<Rightarrow> search_stmt faults \<Rightarrow> 'a search_db_scheme \<Rightarrow> ustr \<Rightarrow> nat \<Rightarrow> search_result list \<Rightarrow>
   search_result list \<times> ustr set" where
  "direct_results S flt db query limit results =
     (let results = follow_results_to_canonical_heads S flt db results;
          results = dedupe_results_by_id (sort_by_score re_score results);
          results = normalize_result_scores (score_normalization_mode_from_env (se_normalize_env S)) results;
          results = sort_by_score re_score (adjust_scores S query results)
      in case dedupe_results_by_topic_key results of
           (results, seen_topics) \<Rightarrow> (enforce_type_diversity (f64_lit 0.6) (take limit results), seen_topics))"

definition effective_mode :: "search_params \<Rightarrow> ustr" where
  "effective_mode p = (case pr_search_mode p of None \<Rightarrow> lit ''auto'' | Some m \<Rightarrow> m)"

definition effective_limit :: "search_params \<Rightarrow> nat" where
  "effective_limit p = (if pr_limit p = 0 then 5 else pr_limit p)"

definition recall_query_of :: "ustr \<Rightarrow> ustr" where
  "recall_query_of query =
     (let recall_query = strip_temporal_markers query
      in if recall_query = [] then query else recall_query)"

definition candidate_limit_of :: "nat \<Rightarrow> nat" where
  "candidate_limit_of limit = max (limit * 8) 50"

text \<open>The candidates and the query vector: words first in the automatic mode, then with the
  vector; neither for an empty query.\<close>

definition gather_candidates ::
  "search_lib \<Rightarrow> search_stmt faults \<Rightarrow> 'a search_db_scheme \<Rightarrow> search_params \<Rightarrow> search_diagnostics \<Rightarrow>
   candidate list \<times> f32 list option \<times> search_diagnostics" where
  "gather_candidates S flt db p d =
     (let query = trim (pr_query p); recall_query = recall_query_of query; limit = effective_limit p;
          candidate_limit = candidate_limit_of limit;
          collect = (\<lambda>qv d. collect_candidates S flt db query recall_query qv p candidate_limit limit d);
          with_vector = (\<lambda>qv d. case collect qv d of (cs, d) \<Rightarrow> (cs, qv, d))
      in if query = [] then (fetch_recent_rows flt (note_rows db) p candidate_limit, None, d)
         else if effective_mode p = lit ''auto'' \<and> should_try_lexical_first (se_lower S) recall_query then
           (case collect None d of
              (cs, d) \<Rightarrow>
                if lexical_candidates_are_sufficient (se_lower S) recall_query cs limit then (cs, None, d)
                else with_vector (se_embed S recall_query) d)
         else with_vector (if effective_mode p \<noteq> lit ''lexical'' then se_embed S recall_query else None) d)"

text \<open>The answers that need no ranking.\<close>

definition shortcut_results ::
  "search_lib \<Rightarrow> search_stmt faults \<Rightarrow> 'a search_db_scheme \<Rightarrow> search_params \<Rightarrow> search_result list" where
  "shortcut_results S flt db p =
     (let query = trim (pr_query p); limit = effective_limit p;
          open_search = (effective_mode p = lit ''auto'' \<and> pr_layer p = None \<and> pr_category p = None);
          direct = (if open_search \<and> should_try_lexical_first (se_lower S) query
                    then direct_fact_prefix_results S flt (note_rows db) p query limit else [])
      in if direct \<noteq> [] then direct
         else if open_search then entity_namespace_prepass_results S flt (note_rows db) p query limit
         else [])"

definition at_least :: "xf64 \<Rightarrow> search_result list \<Rightarrow> search_result list" where
  "at_least min_score results =
     (if xless (Fin 0) min_score then filter (\<lambda>r. xle min_score (re_score r)) results else results)"

text \<open>Channel, temperature and the score floor.\<close>

definition present_results ::
  "search_lib \<Rightarrow> search_params \<Rightarrow> f32 list option \<Rightarrow> search_result list \<Rightarrow> search_result list" where
  "present_results S p query_vector results =
     at_least (pr_min_score p)
       (add_temperature_labels (sl_parse_rfc3339 (se_score S)) (sl_now (se_score S))
         (ensure_default_channel
           (if effective_mode p = lit ''lexical'' \<or> query_vector = None then lit ''lexical''
            else lit ''semantic'') results))"

definition ranked_search ::
  "search_lib \<Rightarrow> search_stmt faults \<Rightarrow> 'a search_db_scheme \<Rightarrow> search_params \<Rightarrow> candidate list \<Rightarrow> f32 list option \<Rightarrow>
   search_diagnostics \<Rightarrow> (search_result list \<times> search_diagnostics) option" where
  "ranked_search S flt db p candidates query_vector d =
     (let query = trim (pr_query p); limit = effective_limit p;
          rrf_scores = (if effective_mode p = lit ''rrf'' then rrf_fusion S candidates query_vector else []);
          recall_timestamps = (case latest_recall_timestamps S flt db candidates of
            Ok ts \<Rightarrow> ts | Err e \<Rightarrow> [])
      in map_option
           (\<lambda>results.
              case direct_results S flt db query limit results of
                (results, seen_topics) \<Rightarrow>
                  (case spread_activation S flt db p results limit seen_topics d of
                     (results, d) \<Rightarrow> (present_results S p query_vector results, d)))
           (score_candidates (score_candidate S p query query_vector rrf_scores recall_timestamps) {}
              candidates))"

definition search_inner ::
  "search_lib \<Rightarrow> search_stmt faults \<Rightarrow> 'a search_db_scheme \<Rightarrow> search_params \<Rightarrow> search_diagnostics \<Rightarrow>
   (search_result list \<times> search_diagnostics) option" where
  "search_inner S flt db p d =
     (let shortcut = shortcut_results S flt db p
      in if shortcut \<noteq> [] then Some (shortcut, d)
         else case gather_candidates S flt db p d of
                (candidates, query_vector, d) \<Rightarrow>
                  let candidates = apply_project_entity_strong_filter (se_lower S) (trim (pr_query p)) candidates
                  in if candidates = [] then Some ([], d)
                     else ranked_search S flt db p candidates query_vector d)"

definition search_with_diagnostics ::
  "search_lib \<Rightarrow> search_stmt faults \<Rightarrow> 'a search_db_scheme \<Rightarrow> search_params \<Rightarrow>
   (search_result list \<times> search_diagnostics) option" where
  "search_with_diagnostics S flt db p = search_inner S flt db p no_diagnostics"

definition search ::
  "search_lib \<Rightarrow> search_stmt faults \<Rightarrow> 'a search_db_scheme \<Rightarrow> search_params \<Rightarrow> search_result list option" where
  "search S flt db p = map_option fst (search_with_diagnostics S flt db p)"

section \<open>Rooms and checkpoints\<close>

record room_entry =
  ro_room :: "ustr option"
  ro_count :: nat
  ro_last_used_at :: "ustr option"

text \<open>\<open>MAX\<close> of a column: NULL when every value is.\<close>

definition max_column :: "ustr option list \<Rightarrow> ustr option" where
  "max_column vs = foldr max vs None"

definition list_rooms ::
  "search_stmt faults \<Rightarrow> note_row list \<Rightarrow> ustr option \<Rightarrow> bool \<Rightarrow> room_entry list" where
  "list_rooms flt rows project_id include_null =
     (if flt RoomsStmt \<noteq> None then []
      else
        let rows = filter (\<lambda>r. nr_is_active r = 1 \<and> equals_if project_id (nr_project_id r) \<and>
                               (include_null \<or> nr_room r \<noteq> None)) rows;
            entry = (\<lambda>room. \<lparr>ro_room = room, ro_count = length (filter (\<lambda>r. nr_room r = room) rows),
                      ro_last_used_at = max_column (map touched_at (filter (\<lambda>r. nr_room r = room) rows))\<rparr>)
        in sort_desc ro_count (sort_key (\<lambda>e. text_or_empty (ro_room e))
             (map entry (sorted_list_of_set (set (map nr_room rows))))))"

definition checkpoint_status_filter :: "ustr \<Rightarrow> ustr option \<Rightarrow> bool" where
  "checkpoint_status_filter effective_status status \<longleftrightarrow>
     (if effective_status = lit ''active''
      then status = Some (lit ''blocked'') \<or> status = Some (lit ''in_progress'')
      else if effective_status \<in> {lit ''blocked'', lit ''in_progress'', lit ''completed'', lit ''abandoned''}
      then status = Some effective_status else True)"

definition is_checkpoint_row ::
  "json_lib \<Rightarrow> ustr option \<Rightarrow> ustr option \<Rightarrow> ustr option \<Rightarrow> ustr option \<Rightarrow> note_row \<Rightarrow> bool" where
  "is_checkpoint_row J query task_id task_status project_id r \<longleftrightarrow>
     nr_layer r = lit ''event_log'' \<and> nr_is_active r = 1 \<and>
     (case nr_metadata_json r of
        None \<Rightarrow> False
      | Some m \<Rightarrow>
          jl_json_valid J m \<and>
          jl_extract_text J m (lit ''$.record_type'') = Some (lit ''checkpoint'') \<and>
          checkpoint_status_filter (case task_status of None \<Rightarrow> lit ''active'' | Some s \<Rightarrow> s)
            (jl_extract_text J m (lit ''$.task_status'')) \<and>
          equals_if task_id (jl_extract_text J m (lit ''$.task_id''))) \<and>
     equals_if project_id (nr_project_id r) \<and>
     (case query of
        None \<Rightarrow> True
      | Some q \<Rightarrow> trim q = [] \<or> sql_like (Some 92) (like_substring (trim q)) (nr_content r))"

definition search_checkpoints_inner ::
  "search_lib \<Rightarrow> json_lib \<Rightarrow> search_stmt faults \<Rightarrow> note_row list \<Rightarrow> ustr option \<Rightarrow> ustr option \<Rightarrow> ustr option \<Rightarrow>
   ustr option \<Rightarrow> nat \<Rightarrow> search_result list" where
  "search_checkpoints_inner S J flt rows query task_id task_status project_id limit =
     (if flt CheckpointStmt \<noteq> None then []
      else map (\<lambda>r. (search_result_from_note S (from_row r) (Fin 1) (lit ''checkpoint''))
                      \<lparr>re_is_head := True, re_recall_count := 0\<rparr>)
        (take limit (sort_desc touched_at
          (filter (is_checkpoint_row J query task_id task_status project_id) rows))))"

end
