(* ===== verification/Context_Notes.thy ===== *)
theory Context_Notes
  imports Search_Engine Write_Support
begin

text \<open>
  The lists of a context snapshot (\<open>retrieval/search.rs\<close>): notes by layer, notes due for review,
  failed notes, recent notes, promoted dreams, workstreams and sessions, as the JSON the snapshot
  embeds. \<open>safe_truncate\<close> is \<open>safe_text_prefix\<close>, the value \<open>Query_Laws\<close> shows it to return. A note
  has no \<open>recall_count\<close> column, which reads as 0. SQLite's \<open>strftime\<close> and \<open>json_extract\<close> and the
  clock are the fields of \<open>context_lib\<close>; a statement fails where \<open>json_extract\<close> reports an error on
  a row it groups, and elsewhere where \<open>flt\<close> says so.
\<close>

text \<open>A value \<open>json_extract\<close> can give besides NULL; arrays and objects are their text.\<close>

datatype sql_value = SqlText ustr | SqlNum rat

record context_lib =
  cl_search :: search_lib
  cl_sql :: json_lib
  cl_extract :: "ustr \<Rightarrow> ustr \<Rightarrow> (sql_error, sql_value option) result"
  cl_epoch :: "ustr \<Rightarrow> int option"
  cl_now :: int
  cl_stamp :: "int \<Rightarrow> ustr"

text \<open>The summary and frequency of a dream candidate, columns only the snapshots read.\<close>

record context_db = search_db +
  dream_texts :: "(ustr \<times> ustr \<times> int option) list"

datatype context_stmt =
    SearchPart search_stmt | LayerNotesStmt "ustr list" | ReviewStmt | FailedStmt | RecentNotesStmt
  | RelationCountStmt ustr | RelationTypesStmt ustr | PromotedStmt | WorkstreamStmt | SessionsStmt

abbreviation search_part :: "context_stmt faults \<Rightarrow> search_stmt faults" where
  "search_part flt \<equiv> (\<lambda>s. flt (SearchPart s))"

section \<open>Metadata\<close>

text \<open>\<open>str::parse::<i64>\<close>: an optional sign, then digits, within the range of \<open>i64\<close>.\<close>

definition digits_value :: "ustr \<Rightarrow> int" where
  "digits_value t = foldl (\<lambda>n c. 10 * n + (c - 48)) 0 t"

definition parse_i64 :: "ustr \<Rightarrow> int option" where
  "parse_i64 t =
     (let negative = starts_with t [45];
          digits = (if starts_with t [43] \<or> negative then drop 1 t else t);
          value = (if negative then - digits_value digits else digits_value digits)
      in if digits \<noteq> [] \<and> list_all is_ascii_digit digits \<and> - (2 ^ 63) \<le> value \<and> value < 2 ^ 63
         then Some value else None)"

definition metadata_bool :: "json option \<Rightarrow> ustr \<Rightarrow> bool" where
  "metadata_bool metadata key =
     (case Option.bind metadata (\<lambda>m. json_get m key) of
        None \<Rightarrow> False
      | Some v \<Rightarrow>
          (case as_bool v of
             Some b \<Rightarrow> b
           | None \<Rightarrow>
               (case as_i64 v of
                  Some n \<Rightarrow> n \<noteq> 0
                | None \<Rightarrow>
                    (case as_str v of
                       None \<Rightarrow> False
                     | Some t \<Rightarrow> t \<in> {lit ''1'', lit ''true'', lit ''True''}))))"

definition metadata_i64 :: "json option \<Rightarrow> ustr \<Rightarrow> int" where
  "metadata_i64 metadata key =
     (case Option.bind metadata (\<lambda>m. json_get m key) of
        None \<Rightarrow> 0
      | Some v \<Rightarrow>
          (case as_i64 v of
             Some n \<Rightarrow> n
           | None \<Rightarrow>
               (case Option.bind (as_str v) parse_i64 of None \<Rightarrow> 0 | Some n \<Rightarrow> n)))"

definition metadata_has_failure_flag :: "json option \<Rightarrow> bool" where
  "metadata_has_failure_flag metadata \<longleftrightarrow>
     metadata_bool metadata (lit ''is_outdated'') \<or> metadata_bool metadata (lit ''is_corrected'') \<or>
     0 < metadata_i64 metadata (lit ''failure_count'')"

definition metadata_str :: "json option \<Rightarrow> ustr \<Rightarrow> ustr option" where
  "metadata_str metadata key = Option.bind (Option.bind metadata (\<lambda>m. json_get m key)) as_str"

definition snapshot_metadata :: "context_lib \<Rightarrow> note_row \<Rightarrow> json option" where
  "snapshot_metadata C r = Option.bind (nr_metadata_json r) (se_json (cl_search C))"

section \<open>Lists of notes\<close>

definition active_note_where_clause ::
  "context_stmt faults \<Rightarrow> 'a search_db_scheme \<Rightarrow> note_row \<Rightarrow> bool" where
  "active_note_where_clause flt db r \<longleftrightarrow>
     nr_is_active r = 1 \<and>
     (notes_column (search_part flt) db (lit ''evolution_state'') \<longrightarrow>
      nr_evolution_state r = None \<or> nr_evolution_state r = Some (lit ''active''))"

definition layer_rank :: "ustr \<Rightarrow> nat" where
  "layer_rank l =
     (if l = lit ''identity_schema'' then 0 else if l = lit ''verified_fact'' then 1
      else if l = lit ''event_log'' then 2 else 3)"

definition is_checkpoint_metadata :: "json option \<Rightarrow> bool" where
  "is_checkpoint_metadata m \<longleftrightarrow> metadata_str m (lit ''record_type'') = Some (lit ''checkpoint'')"

definition context_note :: "context_lib \<Rightarrow> note_row \<Rightarrow> json" where
  "context_note C r =
     JObj [(lit ''id'', JStr (nr_id r)),
           (lit ''content'', JStr (safe_text_prefix (nr_content r) 240)),
           (lit ''preview'', JStr (safe_text_prefix (nr_content r) 160)),
           (lit ''layer'', JStr (nr_layer r)), (lit ''category'', opt_json (nr_category r)),
           (lit ''confidence'', case nr_confidence r of None \<Rightarrow> JNull | Some c \<Rightarrow> JFloat c),
           (lit ''created_at'', opt_json (nr_created_at r)), (lit ''recall_count'', JInt 0),
           (lit ''source'', JStr (if nr_layer r = lit ''identity_schema'' then lit ''constitution'' else
               lit ''memory'')),
           (lit ''metadata'', case snapshot_metadata C r of None \<Rightarrow> JNull | Some m \<Rightarrow> m)]"

definition list_context_notes ::
  "context_lib \<Rightarrow> context_stmt faults \<Rightarrow> 'a search_db_scheme \<Rightarrow> ustr option \<Rightarrow> ustr list \<Rightarrow> nat \<Rightarrow> bool \<Rightarrow>
   json list" where
  "list_context_notes C flt db project_id layers limit include_checkpoints =
     (if layers = [] \<or> limit = 0 \<or> flt (LayerNotesStmt layers) \<noteq> None then []
      else
        let selected = take (limit * 3)
              (sort_key (\<lambda>r. layer_rank (nr_layer r)) (sort_desc nr_confidence (sort_desc nr_created_at
                (filter (\<lambda>r. active_note_where_clause flt db r \<and> nr_layer r \<in> set layers \<and>
                             equals_if project_id (nr_project_id r)) (note_rows db)))))
        in take limit (map (context_note C)
             (filter (\<lambda>r. (include_checkpoints \<or> \<not> is_checkpoint_metadata (snapshot_metadata C r)) \<and>
                          \<not> metadata_has_failure_flag (snapshot_metadata C r)) selected)))"

definition review_item :: "note_row \<Rightarrow> json" where
  "review_item r =
     JObj [(lit ''id'', JStr (nr_id r)),
           (lit ''content'', JStr (safe_text_prefix (nr_content r) 200)),
           (lit ''layer'', JStr (nr_layer r)), (lit ''category'', opt_json (nr_category r)),
           (lit ''review_after'', opt_json (nr_review_after r)),
           (lit ''created_at'', opt_json (nr_created_at r))]"

definition list_needs_review ::
  "context_stmt faults \<Rightarrow> 'a search_db_scheme \<Rightarrow> ustr option \<Rightarrow> ustr \<Rightarrow> nat \<Rightarrow> json list" where
  "list_needs_review flt db project_id now_iso limit =
     (if limit = 0 \<or> flt ReviewStmt \<noteq> None then []
      else map review_item (take limit (sort_key nr_review_after
        (filter (\<lambda>r. active_note_where_clause flt db r \<and>
           (case nr_review_after r of None \<Rightarrow> False | Some t \<Rightarrow> t < now_iso) \<and>
           equals_if project_id (nr_project_id r)) (note_rows db)))))"

definition failed_item :: "context_lib \<Rightarrow> note_row \<Rightarrow> json" where
  "failed_item C r =
     (let metadata = snapshot_metadata C r
      in JObj [(lit ''id'', JStr (nr_id r)),
           (lit ''content'', JStr (safe_text_prefix (nr_content r) 200)),
           (lit ''layer'', JStr (nr_layer r)), (lit ''category'', opt_json (nr_category r)),
           (lit ''created_at'', opt_json (nr_created_at r)),
           (lit ''is_outdated'', JBool (metadata_bool metadata (lit ''is_outdated''))),
           (lit ''is_corrected'', JBool (metadata_bool metadata (lit ''is_corrected''))),
           (lit ''failure_count'', JInt (metadata_i64 metadata (lit ''failure_count'')))])"

definition list_failed_memories ::
  "context_lib \<Rightarrow> context_stmt faults \<Rightarrow> 'a search_db_scheme \<Rightarrow> ustr option \<Rightarrow> nat \<Rightarrow> json list" where
  "list_failed_memories C flt db project_id limit =
     (if limit = 0 \<or> flt FailedStmt \<noteq> None then []
      else take limit (map (failed_item C)
        (filter (\<lambda>r. metadata_has_failure_flag (snapshot_metadata C r))
          (take (limit * 3) (sort_desc nr_created_at
            (filter (\<lambda>r. nr_is_active r = 1 \<and>
               (case nr_metadata_json r of None \<Rightarrow> False | Some m \<Rightarrow> jl_json_valid (cl_sql C) m) \<and>
               equals_if project_id (nr_project_id r)) (note_rows db)))))))"

section \<open>Recent notes and their relations\<close>

definition relation_summary ::
  "context_stmt faults \<Rightarrow> 'a search_db_scheme \<Rightarrow> ustr \<Rightarrow> nat \<times> ustr list" where
  "relation_summary flt db note_id =
     (let touching = filter (\<lambda>r. rel_from r = note_id \<or> rel_to r = note_id) (note_relations db)
      in if \<not> table_exists (search_part flt) (lit ''note_relations'') True then (0, [])
         else (if flt (RelationCountStmt note_id) \<noteq> None then 0 else length touching,
               if flt (RelationTypesStmt note_id) \<noteq> None then []
               else take 8 (sorted_list_of_set (set (map rel_type touching)))))"

definition recent_item :: "context_lib \<Rightarrow> note_row \<Rightarrow> json_map" where
  "recent_item C r =
     (let meta = snapshot_metadata C r
      in [(lit ''id'', JStr (nr_id r)), (lit ''layer'', JStr (nr_layer r)),
          (lit ''category'', opt_json (nr_category r)), (lit ''created_at'', opt_json (nr_created_at
              r)),
          (lit ''preview'', JStr (safe_text_prefix (nr_content r) 160)),
          (lit ''task_id'', opt_json (metadata_str meta (lit ''task_id''))),
          (lit ''task_status'', opt_json (metadata_str meta (lit ''task_status''))),
          (lit ''is_checkpoint'', JBool (is_checkpoint_metadata meta))])"

definition with_relations :: "context_stmt faults \<Rightarrow> 'a search_db_scheme \<Rightarrow> ustr \<Rightarrow> json_map \<Rightarrow> json" where
  "with_relations flt db note_id item =
     (case relation_summary flt db note_id of
        (relation_count, relation_types) \<Rightarrow>
          JObj (map_insert (lit ''relation_types'') (JArr (map JStr relation_types))
                 (map_insert (lit ''relation_count'') (JInt (int relation_count)) item)))"

definition keeps_recent :: "json option \<Rightarrow> bool" where
  "keeps_recent meta \<longleftrightarrow>
     \<not> is_checkpoint_metadata meta \<or> metadata_str meta (lit ''task_status'') = Some (lit ''completed'')"

definition list_recent_memories ::
  "context_lib \<Rightarrow> context_stmt faults \<Rightarrow> 'a search_db_scheme \<Rightarrow> ustr option \<Rightarrow> nat \<Rightarrow> json list" where
  "list_recent_memories C flt db project_id limit =
     (if flt RecentNotesStmt \<noteq> None then []
      else take limit (map (\<lambda>r. with_relations flt db (nr_id r) (recent_item C r))
        (filter (\<lambda>r. keeps_recent (snapshot_metadata C r))
          (take (limit * 3) (sort_desc nr_created_at
            (filter (\<lambda>r. active_note_where_clause flt db r \<and> equals_if project_id (nr_project_id r))
              (note_rows db)))))))"

end
