(* ===== verification/Context_Snapshot.thy ===== *)
theory Context_Snapshot
  imports Context_Notes
begin

text \<open>
  The rest of the context snapshots (\<open>retrieval/search.rs\<close>): promoted dreams, workstreams, active
  sessions, the checkpoints' JSON, and the two snapshots \<open>get_context_wake\<close> and
  \<open>get_context_full\<close>. Groups of a GROUP BY come in the order of their keys, numbers before texts.
\<close>

section \<open>Promoted dreams\<close>

fun xround_int :: "xf64 \<Rightarrow> xf64" where
  "xround_int (Fin x) = Fin (f64_round x)"
| "xround_int x = x"

text \<open>\<open>json!\<close> of a double: NaN and the infinities are null.\<close>

fun json_f64 :: "xf64 \<Rightarrow> json" where
  "json_f64 (Fin x) = JFloat x"
| "json_f64 _ = JNull"

text \<open>\<open>CAST(strftime('%s', substr(t, 1, 19)) AS INTEGER)\<close>\<close>

definition epoch_of :: "context_lib \<Rightarrow> ustr option \<Rightarrow> int option" where
  "epoch_of C t = Option.bind t (\<lambda>t. cl_epoch C (take 19 t))"

definition is_recent_at :: "context_lib \<Rightarrow> int \<Rightarrow> ustr option \<Rightarrow> bool" where
  "is_recent_at C cutoff_seconds t \<longleftrightarrow>
     (case epoch_of C t of None \<Rightarrow> False | Some e \<Rightarrow> cl_now C - e \<le> cutoff_seconds)"

definition dream_promoted_at :: "'a search_db_scheme \<Rightarrow> dream_row \<Rightarrow> ustr option" where
  "dream_promoted_at db d = fst (snd (dream_column db (dr_id d)))"

definition dream_project :: "'a search_db_scheme \<Rightarrow> dream_row \<Rightarrow> ustr option" where
  "dream_project db d = fst (dream_column db (dr_id d))"

text \<open>A row without a summary or a confidence cannot be read and is left out.\<close>

definition promoted_item :: "'a context_db_scheme \<Rightarrow> dream_row \<Rightarrow> json option" where
  "promoted_item db d =
     (case (map_of (dream_texts db) (dr_id d), dr_confidence d) of
        (Some (summary, frequency), Some confidence) \<Rightarrow>
          Some (JObj [(lit ''id'', JStr (dr_id d)), (lit ''summary'', JStr (safe_text_prefix summary
              150)),
            (lit ''confidence'', json_f64 (xdiv (xround_int (xmul (Fin confidence) (Fin 100))) (Fin
                100))),
            (lit ''promoted_to'', opt_json (dr_promoted_to d)),
            (lit ''promoted_at'', opt_json (dream_promoted_at db d)),
            (lit ''frequency'', JInt (case frequency of None \<Rightarrow> 1 | Some n \<Rightarrow> n)),
            (lit ''feedback_needed'', JBool True)])
      | _ \<Rightarrow> None)"

definition list_recently_promoted_from_dreaming ::
  "context_lib \<Rightarrow> context_stmt faults \<Rightarrow> 'a context_db_scheme \<Rightarrow> ustr option \<Rightarrow> int \<Rightarrow> nat \<Rightarrow> json list" where
  "list_recently_promoted_from_dreaming C flt db project_id lookback_days limit =
     (if lookback_days \<le> 0 \<or> limit = 0 \<or>
         \<not> table_exists (search_part flt) (lit ''dream_candidates'') (dream_candidates db \<noteq> None) \<or>
         flt PromotedStmt \<noteq> None then []
      else List.map_filter (promoted_item db) (take limit
        (sort_desc (\<lambda>d. epoch_of C (dream_promoted_at db d))
          (filter (\<lambda>d. dr_verdict d = Some (lit ''promoted'') \<and> dream_promoted_at db d \<noteq> None \<and>
             is_recent_at C (lookback_days * 86400) (dream_promoted_at db d) \<and>
             equals_if project_id (dream_project db d))
            (case dream_candidates db of None \<Rightarrow> [] | Some rows \<Rightarrow> rows)))))"

section \<open>Workstreams\<close>

text \<open>\<open>COALESCE(json_extract(m, '$.task_id'), json_extract(m, '$.branch'))\<close>\<close>

definition workstream_key :: "context_lib \<Rightarrow> note_row \<Rightarrow> (sql_error, sql_value option) result" where
  "workstream_key C r =
     (case nr_metadata_json r of
        None \<Rightarrow> Ok None
      | Some m \<Rightarrow>
          and_then (cl_extract C m (lit ''$.task_id''))
            (\<lambda>v. if v \<noteq> None then Ok v else cl_extract C m (lit ''$.branch'')))"

definition has_key :: "context_lib \<Rightarrow> sql_value \<Rightarrow> note_row \<Rightarrow> bool" where
  "has_key C k r \<longleftrightarrow> workstream_key C r = Ok (Some k)"

definition is_error :: "('e, 'a) result \<Rightarrow> bool" where
  "is_error r \<longleftrightarrow> (case r of Inl e \<Rightarrow> True | Inr x \<Rightarrow> False)"

definition recent_rows :: "context_lib \<Rightarrow> ustr option \<Rightarrow> int \<Rightarrow> note_row list \<Rightarrow> note_row list" where
  "recent_rows C project_id cutoff_seconds rows =
     filter (\<lambda>r. nr_is_active r = 1 \<and> is_recent_at C cutoff_seconds (nr_created_at r) \<and>
                 equals_if project_id (nr_project_id r)) rows"

fun key_text :: "(sql_error, sql_value option) result \<Rightarrow> ustr option" where
  "key_text (Inr (Some (SqlText t))) = Some t"
| "key_text k = None"

fun key_num :: "(sql_error, sql_value option) result \<Rightarrow> rat option" where
  "key_num (Inr (Some (SqlNum n))) = Some n"
| "key_num k = None"

definition group_keys :: "context_lib \<Rightarrow> note_row list \<Rightarrow> sql_value list" where
  "group_keys C rows =
     (let keys = map (workstream_key C) rows
      in map SqlNum (sorted_list_of_set (set (List.map_filter key_num keys))) @
         map SqlText (sorted_list_of_set (set (List.map_filter key_text keys))))"

text \<open>The newest active row of a workstream, whatever its age.\<close>

definition newest_of ::
  "context_lib \<Rightarrow> ustr option \<Rightarrow> note_row list \<Rightarrow> sql_value \<Rightarrow> note_row option" where
  "newest_of C project_id rows k =
     (case sort_desc (\<lambda>r. epoch_of C (nr_created_at r))
        (filter (\<lambda>r. has_key C k r \<and> nr_is_active r = 1 \<and> equals_if project_id (nr_project_id r)) rows)
            of
        [] \<Rightarrow> None | r # rs \<Rightarrow> Some r)"

text \<open>A key that is not a text cannot be read and is left out.\<close>

definition workstream_item ::
  "context_lib \<Rightarrow> ustr option \<Rightarrow> note_row list \<Rightarrow> sql_value \<times> nat \<Rightarrow> json option" where
  "workstream_item C project_id rows keyed =
     (case keyed of
        (SqlText key, count) \<Rightarrow>
          let newest = newest_of C project_id rows (SqlText key)
          in Some (JObj [(lit ''key'', JStr key), (lit ''count'', JInt (int count)),
               (lit ''last_at'', opt_json (Option.bind newest nr_created_at)),
               (lit ''preview'', opt_json (map_option (\<lambda>r. take 80 (nr_content r)) newest))])
      | (SqlNum n, count) \<Rightarrow> None)"

definition workstream_groups ::
  "context_lib \<Rightarrow> note_row list \<Rightarrow> (sql_value \<times> nat) list" where
  "workstream_groups C recent =
     sort_desc snd (map (\<lambda>k. (k, length (filter (has_key C k) recent))) (group_keys C recent))"

definition list_active_workstreams ::
  "context_lib \<Rightarrow> context_stmt faults \<Rightarrow> note_row list \<Rightarrow> ustr option \<Rightarrow> int \<Rightarrow> nat \<Rightarrow> json list" where
  "list_active_workstreams C flt rows project_id since_days limit =
     (let recent = recent_rows C project_id (since_days * 86400) rows
      in if since_days \<le> 0 \<or> limit = 0 \<or> flt WorkstreamStmt \<noteq> None \<or>
            list_ex (\<lambda>r. is_error (workstream_key C r)) recent then []
         else List.map_filter (workstream_item C project_id rows) (take limit (workstream_groups C
             recent)))"

section \<open>Sessions and checkpoints\<close>

definition session_item :: "session_row \<Rightarrow> json" where
  "session_item s =
     JObj [(lit ''session_id'', JStr (sr_session_id s)), (lit ''agent_label'', opt_json (sr_agent_label
         s)),
           (lit ''first_seen'', JStr (sr_first_seen s)), (lit ''last_seen'', JStr (sr_last_seen s))]"

definition list_active_sessions ::
  "context_stmt faults \<Rightarrow> 'a notes_db_scheme \<Rightarrow> ustr \<Rightarrow> ustr option \<Rightarrow> json list" where
  "list_active_sessions flt db since_iso project_id =
     (if \<not> table_exists (search_part flt) (lit ''sessions'') True \<or> flt SessionsStmt \<noteq> None then []
      else map session_item (take 50 (sort_desc sr_last_seen
        (filter (\<lambda>s. since_iso \<le> sr_last_seen s \<and> equals_if project_id (sr_project_id s)) (sessions
            db)))))"

definition metadata_or :: "json option \<Rightarrow> json \<Rightarrow> ustr \<Rightarrow> ustr \<times> json" where
  "metadata_or meta fallback key =
     (key, case Option.bind meta (\<lambda>m. json_get m key) of None \<Rightarrow> fallback | Some v \<Rightarrow> v)"

definition task_status_of :: "json option \<Rightarrow> ustr" where
  "task_status_of meta =
     (case metadata_str meta (lit ''task_status'') of None \<Rightarrow> lit ''in_progress'' | Some s \<Rightarrow> s)"

definition checkpoint_task_state :: "search_result \<Rightarrow> json_map" where
  "checkpoint_task_state c =
     (let meta = re_metadata c
      in [(lit ''task_id'', opt_json (metadata_str meta (lit ''task_id''))),
          (lit ''task_status'', JStr (task_status_of meta)),
          (lit ''summary'', JStr (safe_text_prefix (re_content c) 240))] @
         map (metadata_or meta JNull)
           [lit ''blocker'', lit ''next_step'', lit ''task_context'', lit ''task_specification''] @
         map (metadata_or meta (JArr []))
           [lit ''files_and_functions'', lit ''workflow'', lit ''errors_and_corrections'',
               lit ''decisions'',
            lit ''living_docs''] @
         [(lit ''created_at'', opt_json (re_created_at c)), (lit ''stale'', JBool False)])"

definition checkpoint_task_state_json :: "search_result \<Rightarrow> json" where
  "checkpoint_task_state_json c = JObj (checkpoint_task_state c)"

definition checkpoint_snapshot_json :: "search_result \<Rightarrow> json" where
  "checkpoint_snapshot_json c = JObj ((lit ''id'', JStr (re_id c)) # checkpoint_task_state c)"

definition wake_checkpoint :: "search_result \<Rightarrow> json" where
  "wake_checkpoint c =
     (let meta = re_metadata c
      in JObj [(lit ''task_id'', opt_json (metadata_str meta (lit ''task_id''))),
               (lit ''task_status'', opt_json (metadata_str meta (lit ''task_status''))),
               (lit ''summary'', JStr (safe_text_prefix (re_content c) 200)),
               (lit ''next_step'', opt_json (metadata_str meta (lit ''next_step''))),
               (lit ''blocker'', opt_json (metadata_str meta (lit ''blocker'')))])"

section \<open>The snapshots\<close>

definition active_checkpoints ::
  "context_lib \<Rightarrow> context_stmt faults \<Rightarrow> note_row list \<Rightarrow> ustr option \<Rightarrow> nat \<Rightarrow> search_result list" where
  "active_checkpoints C flt rows project_id limit =
     search_checkpoints_inner (cl_search C) (cl_sql C) (search_part flt) rows None None (Some
         (lit ''active''))
       project_id limit"

definition get_context_wake_for_project ::
  "context_lib \<Rightarrow> context_stmt faults \<Rightarrow> 'a context_db_scheme \<Rightarrow> ustr option \<Rightarrow> json" where
  "get_context_wake_for_project C flt db project_id =
     (let checkpoints = active_checkpoints C flt (note_rows db) project_id 10
      in JObj [(lit ''mode'', JStr (lit ''wake'')),
               (lit ''active_checkpoints'', JInt (int (length checkpoints))),
               (lit ''checkpoints'', JArr (map wake_checkpoint checkpoints)),
               (lit ''recent_memories'', JArr (list_recent_memories C flt db project_id 10)),
               (lit ''active_workstream'', JArr (list_active_workstreams C flt (note_rows db) project_id
                   7 5)),
               (lit ''recently_promoted_from_dreaming'',
                JArr (list_recently_promoted_from_dreaming C flt db project_id 7 5)),
               (lit ''active_sessions'', JArr (list_active_sessions flt db (cl_stamp C (- 300))
                   project_id))])"

text \<open>The summary line; the literals are the code points of the source's.\<close>

definition snapshot_summary :: "search_result list \<Rightarrow> nat \<Rightarrow> nat \<Rightarrow> nat \<Rightarrow> nat \<Rightarrow> nat \<Rightarrow> ustr" where
  "snapshot_summary checkpoints failed review promoted entities events =
     (let task_parts = (case map re_metadata checkpoints of
            [] \<Rightarrow> []
          | meta # rest \<Rightarrow>
              (case metadata_str meta (lit ''task_id'') of
                 None \<Rightarrow> []
               | Some task_id \<Rightarrow>
                   [[0x4EFB, 0x52A1, 0x300C] @ task_id @ [0x300D, 40] @ task_status_of meta @ [41]]) @
              (case metadata_str meta (lit ''next_step'') of
                 None \<Rightarrow> []
               | Some next_step \<Rightarrow>
                   if next_step = [] then [] else [[0x4E0B, 0x4E00, 0x6B65, 58, 32] @ safe_text_prefix
                       next_step 160]));
          warning = (if failed \<noteq> 0 \<or> review \<noteq> 0
            then [[0x8BB0, 0x5FC6, 0x8D28, 0x91CF, 0x9884, 0x8B66, 58, 32, 0x5931, 0x8D25, 47, 0x8FC7,
                0x65F6, 0xD7] @ show_nat failed @ [32, 124, 32, 0x5F85, 0x590D, 0x6838, 0xD7] @ show_nat
                review] else []);
          dreams = (if promoted \<noteq> 0 then [(lit ''dream'' @ [0x53CD, 0x9988, 0x5F85, 0x56DE, 0x6536,
              0xD7]) @ show_nat promoted] else []);
          counts = [show_nat entities @ [0x5B9E, 0x4F53, 47] @ show_nat events @ [0x4E8B, 0x4EF6, 47] @
                    show_nat (length checkpoints) @ [0x4EFB, 0x52A1]]
      in join_with (lit '' | '') (task_parts @ warning @ dreams @ counts))"

definition USAGE_PROTOCOL :: ustr where
  "USAGE_PROTOCOL =
     (lit ''MA 2026 '' @ [0x4F7F, 0x7528, 0x534F, 0x8BAE] @ lit '': get_context() '' @ [0x5EFA, 0x7ACB,
         0x521D, 0x59CB, 0x4E0A, 0x4E0B, 0x6587] @ lit '' | search_manifest(query) '' @ [0x641C, 0x7D22,
         0x5317, 0x6781, 0x661F, 47, 0x957F, 0x671F, 0x76EE, 0x6807] @ lit '' | search_rules(query) '' @
         [0x8BED, 0x4E49, 0x641C, 0x7D22, 40, 0x5168, 0x5C42] @ lit '') | add_rule(content, room?) '' @
         [0x5199, 0x5165, 0x8BB0, 0x5FC6] @ lit '' | save_checkpoint(task_id, summary) '' @ [0x5B58,
         0x4EFB, 0x52A1, 0x65AD, 0x70B9] @ lit '' | report_outcome(memory_id, outcome) '' @ [0x53CD,
         0x9988] @ lit '' | list_rooms() '' @ [0x67E5, 0x770B, 0x53EF, 0x7528, 0x8BB0, 0x5FC6, 0x5BAB,
         0x6BBF])"

definition get_context_full_for_project ::
  "context_lib \<Rightarrow> context_stmt faults \<Rightarrow> 'a context_db_scheme \<Rightarrow> ustr option \<Rightarrow> json" where
  "get_context_full_for_project C flt db project_id =
     (let generated_at = cl_stamp C 0;
          checkpoints = active_checkpoints C flt (note_rows db) project_id 5;
          key_entities = list_context_notes C flt db project_id [lit ''identity_schema'',
              lit ''verified_fact''] 12 True;
          recent_events = list_context_notes C flt db project_id [lit ''event_log''] 12 False;
          active_procedures = list_context_notes C flt db project_id [lit ''procedure_schema''] 5 True;
          recent_memories = list_recent_memories C flt db project_id 15;
          needs_review = list_needs_review flt db project_id generated_at 5;
          failed_memories = list_failed_memories C flt db project_id 15;
          active_workstream = list_active_workstreams C flt (note_rows db) project_id 7 5;
          promoted = list_recently_promoted_from_dreaming C flt db project_id 7 5;
          count = (\<lambda>xs. JInt (int (length xs)));
          checkpoint_states = map checkpoint_task_state_json checkpoints;
          checkpoint_snapshots = map checkpoint_snapshot_json checkpoints
      in JObj [(lit ''project_id'', JStr (case project_id of None \<Rightarrow> lit ''memra'' | Some p \<Rightarrow> p)),
         (lit ''generated_at'', JStr generated_at), (lit ''expires_at'', JStr (cl_stamp C 1800)),
         (lit ''mode'', JStr (lit ''full'')), (lit ''cache_hit'', JBool False),
             (lit ''flush_error_warning'', JStr []),
         (lit ''stats'', JObj (
            [(lit ''key_entities'', count key_entities), (lit ''recent_events'', count recent_events),
             (lit ''active_tasks'', JInt 0), (lit ''active_procedures'', count active_procedures),
             (lit ''active_task_states'', count checkpoint_states),
             (lit ''active_checkpoints'', count checkpoint_snapshots),
             (lit ''recent_memories'', count recent_memories), (lit ''failed_memories'', count
                 failed_memories)] @
            map (\<lambda>k. (k, JInt 0))
              [lit ''experience_candidates'', lit ''experience_space'', lit ''expert_reviews'',
                  lit ''recommended_actions'',
               lit ''living_doc_candidates'', lit ''always_on_daemon'', lit ''startup_manifest''] @
            [(lit ''dream_feedback_due'', count promoted), (lit ''session_memory_summary'', JInt 0)])),
         (lit ''key_entities'', JArr key_entities), (lit ''recent_events'', JArr recent_events),
         (lit ''active_tasks'', JArr []), (lit ''active_procedures'', JArr active_procedures),
         (lit ''active_task_states'', JArr checkpoint_states),
         (lit ''active_checkpoints'', JArr checkpoint_snapshots),
         (lit ''recent_memories'', JArr recent_memories), (lit ''needs_review'', JArr needs_review),
         (lit ''failed_memories'', JArr failed_memories),
         (lit ''experience_space'', JObj [(lit ''summary'', JStr []), (lit ''stable_procedures'', JArr
             []),
            (lit ''candidate_experiences'', JArr []), (lit ''review_queue'', JArr []),
            (lit ''degraded_memories'', JArr failed_memories)]),
         (lit ''expert_reviews'', JArr []), (lit ''recommended_actions'', JArr []),
         (lit ''living_doc_candidates'', JArr []), (lit ''always_on_daemon_summary'', JStr []),
         (lit ''startup_manifest'', JObj []), (lit ''dream_feedback_due'', JArr promoted),
         (lit ''doc_refresh_report'', JObj []), (lit ''doc_refresh_patch'', JObj []),
         (lit ''doc_refresh_plan'', JObj []), (lit ''doc_refresh_execution'', JObj []),
         (lit ''doc_refresh_apply_ready'', JObj []), (lit ''doc_refresh_diff_preview'', JObj []),
         (lit ''doc_refresh_verification'', JObj []), (lit ''session_memory_summary'', JStr []),
         (lit ''l1_active_workstream'', JArr active_workstream), (lit ''l2_recent_broadcasts'', JArr
             []),
         (lit ''active_sessions'', JArr (list_active_sessions flt db (cl_stamp C (- 300)) project_id)),
         (lit ''summary'', JStr (snapshot_summary checkpoints (length failed_memories) (length
             needs_review)
            (length promoted) (length key_entities) (length recent_events))),
         (lit ''usage_protocol'', JStr USAGE_PROTOCOL)])"

definition get_context_wake :: "context_lib \<Rightarrow> context_stmt faults \<Rightarrow> 'a context_db_scheme \<Rightarrow> json" where
  "get_context_wake C flt db = get_context_wake_for_project C flt db None"

definition get_context_full :: "context_lib \<Rightarrow> context_stmt faults \<Rightarrow> 'a context_db_scheme \<Rightarrow> json" where
  "get_context_full C flt db = get_context_full_for_project C flt db None"

end
