(* ===== verification/Result_Laws.thy ===== *)
theory Result_Laws
  imports Search_Results "HOL-Library.Multiset"
begin

text \<open>
  What the post-processing promises: the result of a topic is the best of its candidates by exact
  match, then by date, then by rank; the cap leaves of each category as many results as it allows;
  a merge is the first results with distinct identifiers.
\<close>

section \<open>Sorting\<close>

lemma mset_insert_by_score: "mset (insert_by_score f x ys) = add_mset x (mset ys)"
  by (induction ys) auto

lemma mset_sort_by_score [simp]: "mset (sort_by_score f xs) = mset xs"
  unfolding sort_by_score_def by (induction xs) (simp_all add: mset_insert_by_score)

lemma set_sort_by_score [simp]: "set (sort_by_score f xs) = set xs"
  by (metis mset_sort_by_score set_mset_mset)

lemma length_sort_by_score [simp]: "length (sort_by_score f xs) = length xs"
  by (metis mset_sort_by_score size_mset)

lemma distinct_sort_by_score [simp]: "distinct (map g (sort_by_score f xs)) = distinct (map g xs)"
  by (metis mset_map mset_sort_by_score mset_eq_imp_distinct_iff)

lemma retain_indices_nth: "retain_indices P xs = map (\<lambda>i. xs ! i) (filter P [0..<length xs])"
proof -
  have "filter (\<lambda>(i, x). P i) (zip [0..<length xs] xs) = map (\<lambda>i. (i, xs ! i)) (filter P [0..<length xs])"
  proof (induction xs rule: rev_induct)
    case (snoc x xs)
    then show ?case by (simp add: nth_append)
  qed simp
  then show ?thesis by (simp add: retain_indices_def enumerate_eq_zip comp_def)
qed

lemma subseq_retain_indices: "subseq (retain_indices P xs) xs"
  unfolding retain_indices_nth
  using subseq_map [OF subseq_filter_left [of P "[0..<length xs]"], of "\<lambda>i. xs ! i"] by (simp add: map_nth)

lemma in_map_filter: "y \<in> set (List.map_filter f xs) \<longleftrightarrow> (\<exists>x \<in> set xs. f x = Some y)"
  by (force simp: List.map_filter_def)

section \<open>The winner of a topic\<close>

lemma should_replace_trans:
  "should_replace a b \<Longrightarrow> \<not> should_replace c b \<Longrightarrow> should_replace a c"
  by (auto simp: should_replace_def split: if_splits)

lemma should_replace_asym: "should_replace a b \<Longrightarrow> \<not> should_replace b a"
  by (auto simp: should_replace_def split: if_splits)

lemma should_replace_irrefl: "\<not> should_replace a a"
  by (simp add: should_replace_def)

text \<open>The index of the best result of a topic among the first \<open>n\<close>; the earliest of equals.\<close>

definition topic_winner :: "search_result list \<Rightarrow> nat \<Rightarrow> ustr \<Rightarrow> nat \<Rightarrow> bool" where
  "topic_winner rs n tk i \<longleftrightarrow>
     i < n \<and> result_topic (rs ! i) = Some tk \<and>
     list_all (\<lambda>j. result_topic (rs ! j) = Some tk \<longrightarrow>
       (if j < i then should_replace (rs ! i) (rs ! j) else \<not> should_replace (rs ! j) (rs ! i))) [0..<n]"

lemma topic_winner_unique: "topic_winner rs n tk i \<Longrightarrow> topic_winner rs n tk j \<Longrightarrow> i = j"
  using should_replace_asym
  by (cases i j rule: linorder_cases) (fastforce simp: topic_winner_def list_all_iff)+

lemma topic_winner_next_other:
  "result_topic (rs ! n) \<noteq> Some tk \<Longrightarrow> topic_winner rs (Suc n) tk i = topic_winner rs n tk i"
  by (cases "i = n") (auto simp: topic_winner_def list_all_iff)

lemma topic_winner_next:
  assumes "topic_winner rs n tk i" "result_topic (rs ! n) = Some tk"
  shows "topic_winner rs (Suc n) tk (if should_replace (rs ! n) (rs ! i) then n else i)"
proof (cases "should_replace (rs ! n) (rs ! i)")
  case True
  have "should_replace (rs ! n) (rs ! j)" if "j < n" "result_topic (rs ! j) = Some tk" for j
    using True should_replace_trans [OF True, of "rs ! j"] should_replace_asym [of "rs ! i" "rs ! j"] assms(1) that
    by (auto simp: topic_winner_def list_all_iff split: if_splits)
  with True assms(2) show ?thesis
    using should_replace_irrefl by (auto simp: topic_winner_def list_all_iff less_Suc_eq)
next
  case False
  with assms show ?thesis by (auto simp: topic_winner_def list_all_iff less_Suc_eq)
qed

lemma topic_winner_first:
  "result_topic (rs ! n) = Some tk \<Longrightarrow> list_all (\<lambda>j. result_topic (rs ! j) \<noteq> Some tk) [0..<n] \<Longrightarrow>
   topic_winner rs (Suc n) tk n"
  using should_replace_irrefl by (auto simp: topic_winner_def list_all_iff less_Suc_eq)

definition topics_inv :: "search_result list \<Rightarrow> nat \<Rightarrow> (ustr \<times> nat) list \<times> nat list \<Rightarrow> bool" where
  "topics_inv rs n acc \<longleftrightarrow>
     distinct (map fst (fst acc)) \<and>
     (\<forall>tk i. map_of (fst acc) tk = Some i \<longleftrightarrow> topic_winner rs n tk i) \<and>
     (\<forall>tk. map_of (fst acc) tk = None \<longleftrightarrow> list_all (\<lambda>j. result_topic (rs ! j) \<noteq> Some tk) [0..<n]) \<and>
     snd acc = filter (\<lambda>j. result_topic (rs ! j) = None) [0..<n]"

lemma topics_inv_step:
  assumes "topics_inv rs n acc"
  shows "topics_inv rs (Suc n) (topic_step rs n acc)"
proof -
  obtain best none where acc: "acc = (best, none)" by fastforce
  from assms have inv: "distinct (map fst best)" "\<And>tk i. map_of best tk = Some i \<longleftrightarrow> topic_winner rs n tk i"
    "\<And>tk. map_of best tk = None \<longleftrightarrow> list_all (\<lambda>j. result_topic (rs ! j) \<noteq> Some tk) [0..<n]"
    "none = filter (\<lambda>j. result_topic (rs ! j) = None) [0..<n]"
    unfolding topics_inv_def acc by simp_all
  show ?thesis
  proof (cases "result_topic (rs ! n)")
    case None
    with inv show ?thesis
      by (simp add: acc topics_inv_def topic_step_def topic_winner_next_other)
  next
    case (Some tk)
    define w where "w = (case map_of best tk of None \<Rightarrow> n
      | Some i \<Rightarrow> if should_replace (rs ! n) (rs ! i) then n else i)"
    have w: "topic_winner rs (Suc n) tk w"
    proof (cases "map_of best tk")
      case None
      then have "list_all (\<lambda>j. result_topic (rs ! j) \<noteq> Some tk) [0..<n]" using inv(3) by blast
      from topic_winner_first [OF Some this] None show ?thesis by (simp add: w_def)
    next
      case i: (Some i)
      with inv(2) have "topic_winner rs n tk i" by simp
      from topic_winner_next [OF this Some] i show ?thesis by (simp add: w_def)
    qed
    have step: "topic_step rs n acc = (fst (topic_step rs n acc), none)"
      "map_of (fst (topic_step rs n acc)) = (map_of best)(tk \<mapsto> w)"
      "distinct (map fst (fst (topic_step rs n acc)))"
      by (cases "map_of best tk"; simp add: acc topic_step_def Some w_def update_conv' distinct_update inv(1)
          fun_upd_idem)+
    have "((map_of best)(tk \<mapsto> w)) k = Some i \<longleftrightarrow> topic_winner rs (Suc n) k i" for k i
    proof (cases "k = tk")
      case True
      then show ?thesis using w topic_winner_unique [of rs "Suc n" tk] by auto
    next
      case False
      with inv Some show ?thesis by (simp add: topic_winner_next_other)
    qed
    moreover have "((map_of best)(tk \<mapsto> w)) k = None \<longleftrightarrow>
        list_all (\<lambda>j. result_topic (rs ! j) \<noteq> Some k) [0..<Suc n]" for k
      using inv Some by (cases "k = tk") auto
    moreover have "none = filter (\<lambda>j. result_topic (rs ! j) = None) [0..<Suc n]" using inv Some by simp
    ultimately show ?thesis
      unfolding topics_inv_def step(2) using step(1,3) by (metis snd_conv)
  qed
qed

lemma topics_inv_fold: "topics_inv rs n (fold (topic_step rs) [0..<n] ([], []))"
proof (induction n)
  case 0
  show ?case by (simp add: topics_inv_def topic_winner_def)
next
  case (Suc n)
  then show ?case by (simp add: topics_inv_step)
qed

text \<open>
  Of the results of a topic exactly one is kept: the one that matched exactly, else the one with
  the latest date, the first of equals; a result without a topic is always kept; and the topics
  reported are those of the results.
\<close>

theorem dedupe_keeps_topic_winners:
  "dedupe_results_by_topic_key results =
     (sort_by_score re_score
        (retain_indices (\<lambda>i. case result_topic (results ! i) of None \<Rightarrow> True
            | Some tk \<Rightarrow> topic_winner results (length results) tk i) results),
      set (List.map_filter result_topic results))"
proof -
  obtain best none where acc: "fold (topic_step results) [0..<length results] ([], []) = (best, none)"
    by fastforce
  from topics_inv_fold [of results "length results"]
  have inv: "distinct (map fst best)"
    "\<And>tk i. map_of best tk = Some i \<longleftrightarrow> topic_winner results (length results) tk i"
    "\<And>tk. map_of best tk = None \<longleftrightarrow> list_all (\<lambda>j. result_topic (results ! j) \<noteq> Some tk) [0..<length results]"
    "none = filter (\<lambda>j. result_topic (results ! j) = None) [0..<length results]"
    unfolding topics_inv_def acc by simp_all
  have "i \<in> set (map snd best @ none) \<longleftrightarrow> (case result_topic (results ! i) of None \<Rightarrow> True
            | Some tk \<Rightarrow> topic_winner results (length results) tk i)" if "i < length results" for i
  proof -
    have "i \<in> set (map snd best) \<longleftrightarrow> (\<exists>tk. map_of best tk = Some i)"
      using map_of_eq_Some_iff [OF inv(1)] by force
    then show ?thesis
      using that by (auto simp: inv(2,4) topic_winner_def split: option.splits)
  qed
  then have keep: "retain_indices (\<lambda>i. i \<in> set (map snd best @ none)) results =
      retain_indices (\<lambda>i. case result_topic (results ! i) of None \<Rightarrow> True
            | Some tk \<Rightarrow> topic_winner results (length results) tk i) results"
    unfolding retain_indices_nth by (intro arg_cong [of _ _ "map _"] filter_cong) auto
  have "tk \<in> set (map fst best) \<longleftrightarrow> tk \<in> set (List.map_filter result_topic results)" for tk
  proof -
    have "tk \<notin> set (map fst best) \<longleftrightarrow> list_all (\<lambda>j. result_topic (results ! j) \<noteq> Some tk) [0..<length results]"
      using inv(3) [of tk] by (simp only: map_of_eq_None_iff set_map)
    moreover have "tk \<in> set (List.map_filter result_topic results) \<longleftrightarrow>
        (\<exists>j < length results. result_topic (results ! j) = Some tk)"
      unfolding in_map_filter by (metis in_set_conv_nth)
    ultimately show ?thesis unfolding list_all_iff set_upt Ball_def atLeastLessThan_iff by blast
  qed
  then have "set (map fst best) = set (List.map_filter result_topic results)" by blast
  with keep show ?thesis by (simp add: dedupe_results_by_topic_key_def acc Let_def)
qed

section \<open>The cap on a category\<close>

definition in_category :: "search_result list \<Rightarrow> ustr \<Rightarrow> nat \<Rightarrow> bool" where
  "in_category rs cat i \<longleftrightarrow> result_category (rs ! i) = cat"

definition category_count :: "ustr \<Rightarrow> search_result list \<Rightarrow> nat" where
  "category_count cat rs = length (filter (\<lambda>r. result_category r = cat) rs)"

lemma category_step_simps:
  "map_of (category_step rs n items) = (map_of items)(result_category (rs ! n) \<mapsto>
     (case map_of items (result_category (rs ! n)) of None \<Rightarrow> [] | Some is \<Rightarrow> is) @ [n])"
  "distinct (map fst items) \<Longrightarrow> distinct (map fst (category_step rs n items))"
  by (simp_all add: category_step_def Let_def update_conv' distinct_update)

lemma category_items_fold:
  "distinct (map fst (fold (category_step rs) [0..<n] [])) \<and>
   (\<forall>cat. map_of (fold (category_step rs) [0..<n] []) cat =
     (if filter (in_category rs cat) [0..<n] = [] then None else Some (filter (in_category rs cat) [0..<n])))"
proof (induction n)
  case (Suc n)
  define items where "items = fold (category_step rs) [0..<n] []"
  have ih: "distinct (map fst items)" "\<And>cat. map_of items cat =
      (if filter (in_category rs cat) [0..<n] = [] then None else Some (filter (in_category rs cat) [0..<n]))"
    using Suc by (simp_all add: items_def)
  have "fold (category_step rs) [0..<Suc n] [] = category_step rs n items" by (simp add: items_def)
  moreover have "map_of (category_step rs n items) cat =
     (if filter (in_category rs cat) [0..<Suc n] = [] then None else Some (filter (in_category rs cat) [0..<Suc n]))"
    for cat
    by (cases "in_category rs cat n") (auto simp: category_step_simps ih(2) in_category_def [of rs _ n])
  ultimately show ?case using category_step_simps(2) [OF ih(1)] by presburger
qed simp

lemma mem_category_items:
  "(cat, items) \<in> set (fold (category_step rs) [0..<n] []) \<longleftrightarrow>
     items = filter (in_category rs cat) [0..<n] \<and> items \<noteq> []"
proof -
  have "(cat, items) \<in> set (fold (category_step rs) [0..<n] []) \<longleftrightarrow>
      map_of (fold (category_step rs) [0..<n] []) cat = Some items"
    using category_items_fold [of rs n] map_of_eq_Some_iff by metis
  then show ?thesis using category_items_fold [of rs n] by auto
qed

lemma count_retained:
  "category_count cat (retain_indices P rs) = length (filter (\<lambda>i. P i \<and> in_category rs cat i) [0..<length rs])"
  by (simp add: category_count_def retain_indices_nth filter_map comp_def in_category_def conj_commute)

lemma set_over_cap: "set (over_cap cap rs items) \<subseteq> set items"
  using set_drop_subset [of cap "sort_by_score (\<lambda>i. re_score (rs ! i)) items"]
  by (auto simp: over_cap_def)

lemma length_kept:
  assumes "distinct items"
  shows "length (filter (\<lambda>i. i \<notin> set (over_cap cap rs items)) items) = min cap (length items)"
proof -
  let ?d = "over_cap cap rs items"
  have d: "distinct ?d" using assms distinct_sort_by_score [of "\<lambda>x. x" "\<lambda>i. re_score (rs ! i)" items]
    by (simp add: over_cap_def distinct_drop)
  have "filter (\<lambda>i. i \<in> set ?d) items = filter (\<lambda>i. i \<in> set ?d) items" ..
  have "set (filter (\<lambda>i. i \<notin> set ?d) items) = set items - set ?d" by auto
  then have "length (filter (\<lambda>i. i \<notin> set ?d) items) = card (set items - set ?d)"
    using assms distinct_card [of "filter (\<lambda>i. i \<notin> set ?d) items"] by simp
  also have "\<dots> = length items - length ?d"
    using set_over_cap [of cap rs items] d assms by (simp add: card_Diff_subset distinct_card)
  also have "\<dots> = min cap (length items)" by (auto simp: over_cap_def)
  finally show ?thesis .
qed

text \<open>
  The cap on categories keeps the order of the results and leaves of each category all of its
  results or as many as the cap allows; with at most two results, one category or a ratio of 1 it
  leaves everything.
\<close>

theorem type_diversity_caps_categories:
  "subseq (enforce_type_diversity max_ratio results) results \<and>
   category_count cat (enforce_type_diversity max_ratio results) =
     (if length results \<le> 2 \<or> 1 \<le> max_ratio \<or> card (result_category ` set results) \<le> 1
      then category_count cat results
      else min (category_cap (length results) max_ratio) (category_count cat results))"
proof -
  define n where "n = length results"
  define cap where "cap = category_cap n max_ratio"
  define items where "items = fold (category_step results) [0..<n] []"
  define ex where "ex = set (concat (map (\<lambda>(cat, is). over_cap cap results is) items))"
  define ind where "ind = (\<lambda>cat. filter (in_category results cat) [0..<n])"
  have mem: "(cat, is) \<in> set items \<longleftrightarrow> is = ind cat \<and> is \<noteq> []" for cat "is"
    by (simp add: items_def ind_def mem_category_items)
  have "set (map fst items) = result_category ` set results"
  proof -
    have A: "cat \<in> set (map fst items) \<longleftrightarrow> (\<exists>is. (cat, is) \<in> set items)" for cat by force
    have B: "cat \<in> result_category ` set results \<longleftrightarrow> (\<exists>i < n. in_category results cat i)" for cat
      unfolding in_category_def image_iff n_def by (metis in_set_conv_nth)
    have C: "(\<exists>is. (cat, is) \<in> set items) \<longleftrightarrow> (\<exists>i < n. in_category results cat i)" for cat
      by (auto simp: mem ind_def filter_empty_conv)
    show ?thesis by (rule set_eqI) (simp only: A B C)
  qed
  moreover have "distinct (map fst items)" using category_items_fold unfolding items_def by blast
  then have "card (set (map fst items)) = length items" by (simp only: distinct_card length_map)
  ultimately have len: "length items = card (result_category ` set results)" by presburger
  have ex: "i \<in> ex \<longleftrightarrow> i \<in> set (over_cap cap results (ind cat))" if i: "in_category results cat i" for i cat
  proof
    assume "i \<in> ex"
    then obtain c where c: "i \<in> set (over_cap cap results (ind c))" by (auto simp: ex_def mem)
    with set_over_cap have "in_category results c i" by (fastforce simp: ind_def)
    with i c show "i \<in> set (over_cap cap results (ind cat))" by (simp add: in_category_def)
  next
    assume o: "i \<in> set (over_cap cap results (ind cat))"
    then have "ind cat \<noteq> []" by (auto simp: over_cap_def)
    with o show "i \<in> ex" unfolding ex_def by (force simp: mem)
  qed
  have full: "category_count cat results = length (ind cat)"
    using count_retained [of cat "\<lambda>i. True" results] by (simp add: retain_indices_nth map_nth ind_def n_def)
  have "filter (\<lambda>i. i \<notin> ex \<and> in_category results cat i) [0..<n] =
      filter (\<lambda>i. i \<notin> set (over_cap cap results (ind cat))) (ind cat)"
    unfolding ind_def filter_filter using ex by (intro filter_cong) (auto simp: ind_def)
  then have kept: "category_count cat (retain_indices (\<lambda>i. i \<notin> ex) results) = min cap (category_count cat results)"
    using count_retained [of cat "\<lambda>i. i \<notin> ex" results] length_kept [of "ind cat" cap results]
    by (simp add: full n_def [symmetric]) (simp add: ind_def)
  have none: "category_count cat results \<le> cap" if "ex = {}"
    using kept that by (simp add: retain_indices_nth map_nth)
  have "enforce_type_diversity max_ratio results =
      (if n \<le> 2 \<or> 1 \<le> max_ratio then results
       else if length items \<le> 1 \<or> ex = {} then results
       else retain_indices (\<lambda>i. i \<notin> ex) results)"
    by (simp only: enforce_type_diversity_def Let_def n_def cap_def items_def ex_def)
  moreover have "subseq (if b then results else retain_indices P results) results" for b P
    by (simp add: subseq_retain_indices)
  ultimately show ?thesis
    using kept none unfolding len n_def [symmetric] cap_def [symmetric] by (auto simp: min_absorb2)
qed

section \<open>Merging\<close>

fun distinct_ids :: "search_result list \<Rightarrow> ustr set \<Rightarrow> search_result list" where
  "distinct_ids [] seen = []"
| "distinct_ids (r # rs) seen =
     (if re_id r \<in> seen then distinct_ids rs seen else r # distinct_ids rs (insert (re_id r) seen))"

lemma merge_loop_distinct:
  "length merged < max 1 limit \<Longrightarrow>
   merge_loop limit merged rs = take (max 1 limit) (merged @ distinct_ids rs (re_id ` set merged))"
proof (induction rs arbitrary: merged)
  case (Cons r rs)
  then show ?case
  proof (cases "re_id r \<in> re_id ` set merged")
    case False
    have "max 1 limit = Suc (length merged)" if "limit \<le> Suc (length merged)" using that Cons.prems by linarith
    then show ?thesis using Cons.IH [of "merged @ [r]"] Cons.prems False by auto
  qed auto
qed simp

text \<open>
  A merge with recent results returns the first \<open>limit\<close> distinct identifiers of the two lists in
  the order the mode asks for, each with its first result, and one result even for a limit of 0.
\<close>

theorem merge_takes_distinct_ids:
  "merge_temporal_results primary recent mode limit =
     take (max 1 limit)
       (distinct_ids (if mode = lit ''recent'' then recent @ primary else primary @ recent) {})"
  unfolding merge_temporal_results_def by (subst merge_loop_distinct) simp_all

end
