(* ===== verification/Scoring_Laws.thy ===== *)
theory Scoring_Laws
  imports Scoring
begin

text \<open>
  What the ranking score promises: the normalised text is the lower-cased words joined by single
  spaces; a score is NaN or in the unit interval; a retired row scores the factor of its state times
  the score it would have as a current row, whatever the boosts, and so never outranks a current row
  of the task the query names. Two behaviours the code does not mean to have are shown as well.
\<close>

section \<open>Words and pieces\<close>

lemma split_on_nonempty [simp]: "split_on P t \<noteq> []"
  by (induction t) (auto split: list.splits)

lemma split_on_pieces: "p \<in> set (split_on P t) \<Longrightarrow> c \<in> set p \<Longrightarrow> \<not> P c"
proof (induction t arbitrary: p)
  case (Cons a t)
  then show ?case by (cases "split_on P t") (fastforce split: if_splits)+
qed simp

lemma split_on_subset: "p \<in> set (split_on P t) \<Longrightarrow> set p \<subseteq> set t"
proof (induction t arbitrary: p)
  case (Cons a t)
  then show ?case by (cases "split_on P t") (fastforce split: if_splits)+
qed simp

definition spaced :: "ustr list \<Rightarrow> ustr" where
  "spaced ps =
     join_with [32] (filter (\<lambda>p. p \<noteq> []) ps) @
     (if filter (\<lambda>p. p \<noteq> []) ps \<noteq> [] \<and> last ps = [] then [32] else [])"

lemma join_with_Cons: "join_with sep (t # ts) = t @ (if ts = [] then [] else sep @ join_with sep ts)"
  by (cases ts) auto

lemma spaced_blank: "ps \<noteq> [] \<Longrightarrow> spaced ([] # ps) = spaced ps"
  by (simp add: spaced_def)

lemma spaced_word:
  "w \<noteq> [] \<Longrightarrow> spaced (w # ps) = w @ (if ps = [] then [] else 32 # spaced ps)"
  by (cases "ps = []") (auto simp: spaced_def join_with_Cons filter_empty_conv)

lemma collapse_spaces_pieces:
  "collapse_spaces True t = spaced (split_on is_whitespace t) \<and>
   collapse_spaces False t = hd (split_on is_whitespace t) @
     (if tl (split_on is_whitespace t) = [] then [] else 32 # spaced (tl (split_on is_whitespace t)))"
proof (induction t)
  case Nil
  show ?case by (simp add: spaced_def)
next
  case (Cons c t)
  obtain p ps where s: "split_on is_whitespace t = p # ps" by (cases "split_on is_whitespace t") simp_all
  with Cons show ?case by (auto simp: spaced_blank spaced_word)
qed

lemma last_join_with:
  "ts \<noteq> [] \<Longrightarrow> [] \<notin> set ts \<Longrightarrow> join_with sep ts \<noteq> [] \<and> last (join_with sep ts) = last (last ts)"
  by (induction sep ts rule: join_with.induct) auto

lemma normalize_text_words: "normalize_text L s = join_with [32] (split_whitespace (L s))"
proof -
  let ?ps = "split_on is_whitespace (L s)" and ?ws = "split_whitespace (L s)"
  have ws: "filter (\<lambda>p. p \<noteq> []) ?ps = ?ws" by (simp add: split_whitespace_def)
  have c: "collapse_spaces True (L s) = join_with [32] ?ws @ (if ?ws \<noteq> [] \<and> last ?ps = [] then [32] else [])"
    using collapse_spaces_pieces [of "L s"] by (simp add: spaced_def ws)
  have ne: "[] \<notin> set ?ws" by (simp add: split_whitespace_def)
  have "last (join_with [32] ?ws) \<noteq> 32" if w: "?ws \<noteq> []"
  proof -
    have l: "last ?ws \<in> set ?ws" using w by simp
    then have p: "last ?ws \<in> set ?ps" "last ?ws \<noteq> []" by (auto simp: split_whitespace_def)
    then have "last (last ?ws) \<in> set (last ?ws)" by simp
    then have "\<not> is_whitespace (last (last ?ws))" using split_on_pieces [OF p(1)] by blast
    moreover have "is_whitespace 32" by (simp add: is_whitespace_def)
    ultimately show ?thesis using last_join_with [OF w ne] by metis
  qed
  then show ?thesis by (cases "?ws = []") (auto simp: normalize_text_def c Let_def)
qed

section \<open>Ranges\<close>

abbreviation in_unit :: "xf64 \<Rightarrow> bool" where
  "in_unit a \<equiv> xle (Fin 0) a \<and> xle a (Fin 1)"

lemma xclamp01_unit: "xclamp01 a = NaN \<or> in_unit (xclamp01 a)"
  by (cases a) (auto simp: xclamp01_def xle_def)

lemma xclamp01_id: "a = NaN \<or> in_unit a \<Longrightarrow> xclamp01 a = a"
  by (cases a) (auto simp: xclamp01_def xle_def)

lemma in_unit_Fin: "in_unit a \<longleftrightarrow> (\<exists>x. a = Fin x \<and> 0 \<le> x \<and> x \<le> 1)"
  by (cases a) (auto simp: xle_def)

lemma xround_unit: "0 \<le> x \<Longrightarrow> x \<le> 1 \<Longrightarrow> xround x = Fin (round64 x)"
  using round64_nonneg [of x] round64_le_1 [of x] by (simp add: xround_def)

lemma xmul_unit: "a = NaN \<or> in_unit a \<Longrightarrow> 0 \<le> k \<Longrightarrow> k \<le> 1 \<Longrightarrow> xmul a (Fin k) = NaN \<or> in_unit (xmul a (Fin k))"
  by (cases a) (auto simp: in_unit_Fin xround_unit mult_le_one round64_nonneg round64_le_1)

lemma apply_factor_unit:
  "a = NaN \<or> in_unit a \<Longrightarrow> 0 \<le> k \<Longrightarrow> k \<le> 1 \<Longrightarrow>
   apply_factor (Fin k) a = NaN \<or> in_unit (apply_factor (Fin k) a)"
  using xmul_unit by (auto simp: apply_factor_def)

lemma staleness_factor_unit: "\<exists>k. fst (staleness_factor m h) = Fin k \<and> 0 \<le> k \<and> k \<le> 1"
  by (auto simp: staleness_factor_def xlit_def f64_lit_bounds)


lemma round64_2: "round64 2 = 2"
proof -
  have "ilog2 2 = 1" by (rule ilog2_unique) (simp_all add: two_pow_def)
  then show ?thesis by (intro round64_grid [of _ 1 1]) (simp_all add: ulp_exp_def two_pow_def)
qed

lemma xround_small:
  assumes "0 \<le> x" "x \<le> 2"
  shows "xround x = Fin (round64 x)"
proof -
  have "round64 x \<le> 2" using round64_mono [OF assms(2)] by (simp add: round64_2)
  moreover have "(2::rat) < 2 ^ 1024" by simp
  ultimately show ?thesis using round64_nonneg [OF assms(1)] by (simp add: xround_def)
qed

lemma history_step_unit:
  assumes "a = NaN \<or> in_unit a"
  shows "in_unit (xmin (xmul a (xlit 1.12)) (Fin 1))"
proof -
  have lit: "0 \<le> f64_lit 1.12" "f64_lit 1.12 \<le> 2"
    using f64_lit_mono [of "1.12" 2] by (simp_all add: f64_lit_bounds f64_lit_def [of 2] round64_2)
  consider "a = NaN" | x where "a = Fin x" "0 \<le> x" "x \<le> 1" using assms by (auto simp: in_unit_Fin)
  then show ?thesis
  proof cases
    case (2 x)
    have "0 \<le> x * f64_lit 1.12" "x * f64_lit 1.12 \<le> 1 * 2"
      using 2 lit by (simp, intro mult_mono) simp_all
    then show ?thesis
      using xround_small [of "x * f64_lit 1.12"] round64_nonneg [of "x * f64_lit 1.12"] 2(1)
      by (auto simp: xlit_def xmin_def xle_def)
  qed (simp add: xmin_def xle_def)
qed

lemma routed_unit: "routed_score S i f = NaN \<or> in_unit (routed_score S i f)"
  unfolding routed_score_def Let_def by (rule xclamp01_unit)

lemma unretired_unit: "unretired_score S i f = NaN \<or> in_unit (unretired_score S i f)"
proof -
  obtain k where k: "fst (staleness_factor (si_metadata i) (has_history_intent (sl_lower S) (si_query i))) = Fin k"
    "0 \<le> k" "k \<le> 1" using staleness_factor_unit by blast
  show ?thesis
    unfolding unretired_score_def Let_def k(1)
    by (rule apply_factor_unit [OF _ k(2,3)]) (use routed_unit [of S i f] history_step_unit [OF routed_unit [of S i f]] in simp)
qed

section \<open>Retired rows\<close>

text \<open>The row as if retired in the given state, and as if current.\<close>

definition retired_as :: "ustr \<Rightarrow> score_input \<Rightarrow> score_input" where
  "retired_as state i = i\<lparr>si_payload := (si_payload i)\<lparr>sp_evolution_state := Some state\<rparr>\<rparr>"

definition as_current :: "score_input \<Rightarrow> score_input" where
  "as_current i = i\<lparr>si_payload := (si_payload i)\<lparr>sp_evolution_state := None\<rparr>,
                   si_metadata := (si_metadata i)\<lparr>sm_superseded_by := None\<rparr>\<rparr>"

definition retired_factor :: "ustr \<Rightarrow> xf64" where
  "retired_factor state =
     (if state = lit ''superseded'' then xlit 0.05 else if state = lit ''deprecated'' then xlit 0.02 else xlit 0.03)"

abbreviation retired_states :: "ustr set" where
  "retired_states \<equiv> {lit ''superseded'', lit ''deprecated'', lit ''contradicted''}"

lemma retired_as_views [simp]:
  "si_query (retired_as state i) = si_query i"
  "si_query_vector (retired_as state i) = si_query_vector i"
  "si_stored_vector (retired_as state i) = si_stored_vector i"
  "si_bm25_score (retired_as state i) = si_bm25_score i"
  "si_boost_categories (retired_as state i) = si_boost_categories i"
  "si_recall_count (retired_as state i) = si_recall_count i"
  "si_last_recalled_at (retired_as state i) = si_last_recalled_at i"
  "sp_content (si_payload (retired_as state i)) = sp_content (si_payload i)"
  "sp_layer (si_payload (retired_as state i)) = sp_layer (si_payload i)"
  "sp_confidence (si_payload (retired_as state i)) = sp_confidence (si_payload i)"
  "sp_created_at (si_payload (retired_as state i)) = sp_created_at (si_payload i)"
  "sp_category (si_payload (retired_as state i)) = sp_category (si_payload i)"
  "sp_source (si_payload (retired_as state i)) = sp_source (si_payload i)"
  "sm_failure_count (si_metadata (retired_as state i)) = sm_failure_count (si_metadata i)"
  "sm_is_outdated (si_metadata (retired_as state i)) = sm_is_outdated (si_metadata i)"
  "sm_is_corrected (si_metadata (retired_as state i)) = sm_is_corrected (si_metadata i)"
  "sm_search_aliases (si_metadata (retired_as state i)) = sm_search_aliases (si_metadata i)"
  "sm_aliases (si_metadata (retired_as state i)) = sm_aliases (si_metadata i)"
  "sm_task_slug (si_metadata (retired_as state i)) = sm_task_slug (si_metadata i)"
  "sm_source_tasks (si_metadata (retired_as state i)) = sm_source_tasks (si_metadata i)"
  "sm_source_task (si_metadata (retired_as state i)) = sm_source_task (si_metadata i)"
  by (simp_all add: retired_as_def)

lemma as_current_views [simp]:
  "si_query (as_current i) = si_query i"
  "si_query_vector (as_current i) = si_query_vector i"
  "si_stored_vector (as_current i) = si_stored_vector i"
  "si_bm25_score (as_current i) = si_bm25_score i"
  "si_boost_categories (as_current i) = si_boost_categories i"
  "si_recall_count (as_current i) = si_recall_count i"
  "si_last_recalled_at (as_current i) = si_last_recalled_at i"
  "sp_content (si_payload (as_current i)) = sp_content (si_payload i)"
  "sp_layer (si_payload (as_current i)) = sp_layer (si_payload i)"
  "sp_confidence (si_payload (as_current i)) = sp_confidence (si_payload i)"
  "sp_created_at (si_payload (as_current i)) = sp_created_at (si_payload i)"
  "sp_category (si_payload (as_current i)) = sp_category (si_payload i)"
  "sp_source (si_payload (as_current i)) = sp_source (si_payload i)"
  "sm_failure_count (si_metadata (as_current i)) = sm_failure_count (si_metadata i)"
  "sm_is_outdated (si_metadata (as_current i)) = sm_is_outdated (si_metadata i)"
  "sm_is_corrected (si_metadata (as_current i)) = sm_is_corrected (si_metadata i)"
  "sm_search_aliases (si_metadata (as_current i)) = sm_search_aliases (si_metadata i)"
  "sm_aliases (si_metadata (as_current i)) = sm_aliases (si_metadata i)"
  "sm_task_slug (si_metadata (as_current i)) = sm_task_slug (si_metadata i)"
  "sm_source_tasks (si_metadata (as_current i)) = sm_source_tasks (si_metadata i)"
  "sm_source_task (si_metadata (as_current i)) = sm_source_task (si_metadata i)"
  by (simp_all add: as_current_def)

text \<open>Neither the features nor the score up to the last demotion read the lifecycle fields.\<close>

lemma lifecycle_blind:
  "relevance S (retired_as state i) f = relevance S i f" "relevance S (as_current i) f = relevance S i f"
  "freshness S (retired_as state i) = freshness S i" "freshness S (as_current i) = freshness S i"
  "row_aliases S (si_metadata (retired_as state i)) = row_aliases S (si_metadata i)"
  "row_aliases S (si_metadata (as_current i)) = row_aliases S (si_metadata i)"
  "sku_factor (si_payload (retired_as state i)) = sku_factor (si_payload i)"
  "sku_factor (si_payload (as_current i)) = sku_factor (si_payload i)"
  "brand_authority_factor (si_payload (retired_as state i)) = brand_authority_factor (si_payload i)"
  "brand_authority_factor (si_payload (as_current i)) = brand_authority_factor (si_payload i)"
  "literal_recall_guard (si_payload (retired_as state i)) = literal_recall_guard (si_payload i)"
  "literal_recall_guard (si_payload (as_current i)) = literal_recall_guard (si_payload i)"
  "staleness_factor (si_metadata (retired_as state i)) = staleness_factor (si_metadata i)"
  "staleness_factor (si_metadata (as_current i)) = staleness_factor (si_metadata i)"
  by (simp_all add: relevance_def tool_boost_def freshness_def sku_factor_def brand_authority_factor_def
      literal_recall_guard_def staleness_factor_def row_aliases_def fun_eq_iff
      del: lit_simps cong: option.case_cong)

lemma lifecycle_blind_scores:
  "three_axis_score S (retired_as state i) f = three_axis_score S i f"
  "three_axis_score S (as_current i) f = three_axis_score S i f"
  by (simp_all add: three_axis_score_def lifecycle_blind)

lemma state_independent:
  "score_features S (retired_as state i) = score_features S i"
  "score_features S (as_current i) = score_features S i"
  "unretired_score S (retired_as state i) f = unretired_score S i f"
  "unretired_score S (as_current i) f = unretired_score S i f"
  by (simp_all add: score_features_def unretired_score_def routed_score_def lifecycle_blind
      lifecycle_blind_scores Let_def del: lit_simps cong: option.case_cong prod.case_cong)

lemma lifecycle_factors:
  "state \<in> retired_states \<Longrightarrow> lifecycle_factor (retired_as state i) = retired_factor state"
  "lifecycle_factor (as_current i) = Fin 1"
  by (auto simp: lifecycle_factor_def retired_as_def as_current_def evolution_state_factor_def
      scoring_evolution_state_def retired_factor_def)

lemma final_unit: "final_score S i f = NaN \<or> in_unit (final_score S i f)"
  using xclamp01_unit by (simp add: final_score_def)

lemma final_current: "final_score S (as_current i) f = unretired_score S (as_current i) f"
  using unretired_unit by (simp add: final_score_def lifecycle_factors apply_factor_def xclamp01_id)

lemma f64_lit_half: "x \<le> 1 / 2 \<Longrightarrow> f64_lit x \<le> 1 / 2" "1 / 2 \<le> x \<Longrightarrow> 1 / 2 \<le> f64_lit x"
proof -
  have "ilog2 (1 / 2) = - 1" by (rule ilog2_unique) (simp_all add: two_pow_def)
  then have h: "round64 (1 / 2) = 1 / 2"
    by (intro round64_grid [of _ 1 "- 1"]) (simp_all add: ulp_exp_def two_pow_def)
  show "x \<le> 1 / 2 \<Longrightarrow> f64_lit x \<le> 1 / 2" "1 / 2 \<le> x \<Longrightarrow> 1 / 2 \<le> f64_lit x"
    using round64_mono [of x "1 / 2"] round64_mono [of "1 / 2" x] by (simp_all add: f64_lit_def h)
qed

lemma retired_factor_half: "\<exists>k. retired_factor state = Fin k \<and> 0 \<le> k \<and> k \<le> 1 / 2"
proof -
  have "f64_lit 0.05 \<le> 1 / 2" "f64_lit 0.02 \<le> 1 / 2" "f64_lit 0.03 \<le> 1 / 2"
    by (rule f64_lit_half(1), simp)+
  then show ?thesis by (auto simp: retired_factor_def xlit_def f64_lit_bounds)
qed

lemma lifecycle_factor_half:
  "lifecycle_factor i = Fin 1 \<or> (\<exists>k. lifecycle_factor i = Fin k \<and> 0 \<le> k \<and> k \<le> 1 / 2)"
proof -
  have "f64_lit 0.05 \<le> 1 / 2" "f64_lit 0.02 \<le> 1 / 2" "f64_lit 0.03 \<le> 1 / 2" "f64_lit 0.10 \<le> 1 / 2"
    by (rule f64_lit_half(1), simp)+
  then show ?thesis
    by (auto simp: lifecycle_factor_def evolution_state_factor_def Let_def xlit_def f64_lit_bounds)
qed

lemma final_retired:
  assumes "state \<in> retired_states"
  shows "final_score S (retired_as state i) f = xmul (final_score S (as_current i) f) (retired_factor state)"
proof -
  obtain k where k: "retired_factor state = Fin k" "0 \<le> k" "k \<le> 1 / 2" using retired_factor_half by blast
  have "xclamp01 (xmul (unretired_score S i f) (Fin k)) = xmul (unretired_score S i f) (Fin k)"
    by (rule xclamp01_id) (use xmul_unit [OF unretired_unit k(2)] k(3) in simp)
  moreover have "Fin k \<noteq> Fin 1" using k(3) by auto
  ultimately have "final_score S (retired_as state i) f = xmul (unretired_score S i f) (Fin k)"
    by (simp add: final_score_def lifecycle_factors(1) [OF assms] state_independent apply_factor_def k(1))
  then show ?thesis by (simp add: final_current state_independent k(1))
qed

lemma xmul_half:
  assumes "a = NaN \<or> in_unit a" "0 \<le> k" "k \<le> 1 / 2"
  shows "xmul a (Fin k) = NaN \<or> (\<exists>y. xmul a (Fin k) = Fin y \<and> y \<le> 1 / 2)"
proof (cases "a = NaN")
  case False
  with assms obtain x where x: "a = Fin x" "0 \<le> x" "x \<le> 1" by (auto simp: in_unit_Fin)
  have p: "0 \<le> x * k" "x * k \<le> 1 * (1 / 2)" using x assms by (simp, intro mult_mono) simp_all
  then have "round64 (x * k) \<le> 1 / 2" using f64_lit_half(1) [of "x * k"] by (simp add: f64_lit_def)
  with x p show ?thesis by (simp add: xround_unit)
qed simp

lemma final_retired_half:
  assumes "lifecycle_factor i \<noteq> Fin 1"
  shows "final_score S i f = NaN \<or> (\<exists>y. final_score S i f = Fin y \<and> y \<le> 1 / 2)"
proof -
  obtain k where k: "lifecycle_factor i = Fin k" "0 \<le> k" "k \<le> 1 / 2"
    using lifecycle_factor_half [of i] assms by auto
  have u: "xmul (unretired_score S i f) (Fin k) = NaN \<or> in_unit (xmul (unretired_score S i f) (Fin k))"
    by (rule xmul_unit [OF unretired_unit]) (use k in simp_all)
  have "final_score S i f = xmul (unretired_score S i f) (Fin k)"
    using assms by (simp add: final_score_def k(1) apply_factor_def xclamp01_id [OF u])
  with xmul_half [OF unretired_unit k(2,3)] show ?thesis by simp
qed

section \<open>Task matches\<close>

lemma xmax_ge: "xle (Fin x) a \<Longrightarrow> xle (Fin x) (xmax a b)" "xle (Fin x) b \<Longrightarrow> xle (Fin x) (xmax a b)"
  by (cases a; cases b; auto simp: xmax_def xle_def)+

lemma xclamp01_ge: "xle (Fin x) a \<Longrightarrow> x \<le> 1 \<Longrightarrow> xle (Fin x) (xclamp01 a)"
  by (cases a) (auto simp: xclamp01_def xle_def)

lemma routed_task_match:
  assumes "ft_primary f"
  shows "xle (xlit 0.9995) (routed_score S i f)"
proof -
  have l: "f64_lit 0.9995 \<le> 1" by (simp add: f64_lit_bounds)
  have g: "xle (Fin (f64_lit 0.9995)) (fst (task_rank_guard f a))" for a
    using assms xmax_ge(2) [of _ "xlit 0.9995"] by (simp add: task_rank_guard_def xlit_def xle_def)
  show ?thesis
    unfolding routed_score_def Let_def xlit_def
    by (rule xclamp01_ge [OF _ l], unfold literal_recall_guard_def Let_def)
      (use g in \<open>auto intro: xmax_ge\<close>)
qed

lemma history_step_ge:
  assumes "xle (Fin y) a" "in_unit a" "0 \<le> y" "y \<le> 1" "is_f64 y"
  shows "xle (Fin y) (xmin (xmul a (xlit 1.12)) (Fin 1))"
proof -
  obtain x where x: "a = Fin x" "y \<le> x" "x \<le> 1"
    using assms(1,2) by (cases a) (auto simp: xle_def)
  have lit: "1 \<le> f64_lit 1.12" "f64_lit 1.12 \<le> 2"
    using f64_lit_mono [of "1.12" 2] f64_lit_mono [of 1 "1.12"]
    by (simp_all add: f64_lit_def [of 2] f64_lit_def [of 1] round64_2)
  have "x * 1 \<le> x * f64_lit 1.12" using x assms(3) lit by (intro mult_left_mono) simp_all
  then have lo: "y \<le> x * f64_lit 1.12" using x(2) by simp
  have hi: "x * f64_lit 1.12 \<le> 1 * 2" using x assms(3) lit by (intro mult_mono) simp_all
  have "y \<le> round64 (x * f64_lit 1.12)" using assms(5) lo by (rule round64_ge)
  then show ?thesis
    using xround_small [of "x * f64_lit 1.12"] lo hi assms(3,4) x(1) by (auto simp: xlit_def xmin_def xle_def)
qed

lemma final_task_match:
  assumes "ft_primary f" "lifecycle_factor i = Fin 1"
    and "fst (staleness_factor (si_metadata i) (has_history_intent (sl_lower S) (si_query i))) = Fin 1"
  shows "xle (xlit 0.9995) (final_score S i f)"
proof -
  let ?r = "routed_score S i f"
  have l: "0 \<le> f64_lit 0.9995" "f64_lit 0.9995 \<le> 1" "is_f64 (f64_lit 0.9995)" by (simp_all add: f64_lit_bounds)
  have r: "xle (Fin (f64_lit 0.9995)) ?r" using routed_task_match [OF assms(1)] by (simp add: xlit_def)
  then have u: "in_unit ?r" using routed_unit [of S i f] by (auto simp: xle_def)
  have "xle (Fin (f64_lit 0.9995)) (unretired_score S i f)"
    using r history_step_ge [OF r u l] by (simp add: unretired_score_def Let_def assms(3) apply_factor_def)
  from xclamp01_ge [OF this l(2)] show ?thesis
    unfolding final_score_def assms(2) by (simp add: apply_factor_def xlit_def)
qed

section \<open>Properties of the score\<close>

lemma score_result_features:
  "si_query i \<noteq> [] \<Longrightarrow> score_result S i = map_option (final_score S i) (score_features S i)"
  by (cases "score_features S i") (simp_all add: score_result_def score_result_inner_def)

lemma score_debug_features:
  assumes "si_query i \<noteq> []" "score_result_debug S i = Some d"
  obtains f where "score_features S i = Some f" "d = make_score_debug S i f"
  using assms by (auto simp: score_result_debug_def score_result_inner_def split: option.splits)

lemma make_score_debug_views:
  "sd_score (make_score_debug S i f) = final_score S i f"
  "sd_primary_task_match (make_score_debug S i f) = ft_primary f"
  "sd_evolution_state_factor (make_score_debug S i f) = lifecycle_factor i"
  "sd_outdated_factor (make_score_debug S i f) =
     fst (staleness_factor (si_metadata i) (has_history_intent (sl_lower S) (si_query i)))"
  by (simp_all add: make_score_debug_def Let_def split: prod.split)

text \<open>
  \<open>normalize_text\<close> is the lower-cased text split at white space and joined by single spaces:
  no space at either end, none doubled, for every lower-case mapping.
\<close>

theorem normalize_text_joins_words:
  "normalize_text L s = join_with [32] (split_whitespace (L s))"
  by (rule normalize_text_words)

text \<open>
  A score that is returned is NaN or lies between 0 and 1.
\<close>

theorem score_in_unit_interval:
  "score_result S i = None \<or>
   (\<exists>s. score_result S i = Some s \<and> (s = NaN \<or> xle (Fin 0) s \<and> xle s (Fin 1)))"
proof (cases "si_query i = []")
  case True
  then show ?thesis by (simp add: score_result_def score_result_inner_def xle_def)
next
  case False
  then show ?thesis
    using final_unit [of S i] by (cases "score_features S i") (simp_all add: score_result_features)
qed

text \<open>
  C35. A superseded, deprecated or contradicted row scores its state's factor (0.05, 0.02, 0.03) times
  the score the same row has as a current one: no floor, boost or rank guard escapes the demotion.
\<close>

theorem retired_row_scores_its_factor:
  assumes "state \<in> {lit ''superseded'', lit ''deprecated'', lit ''contradicted''}" "si_query i \<noteq> []"
  shows "score_result S (retired_as state i) =
           map_option (\<lambda>s. xmul s (retired_factor state)) (score_result S (as_current i))"
  using assms by (cases "score_features S i")
    (simp_all add: score_result_features state_independent final_retired)

text \<open>
  C37. A current row whose aliases name the task of the query outranks every retired row (superseded
  by a legacy mark included), unless the retired row's score is NaN.
\<close>

theorem retired_row_never_outranks_task_match:
  assumes "score_result_debug S i = Some d" "score_result_debug S j = Some e"
    and "si_query j = si_query i" "si_query i \<noteq> []"
    and "sd_primary_task_match d" "sd_evolution_state_factor d = Fin 1" "sd_outdated_factor d = Fin 1"
    and "sd_evolution_state_factor e \<noteq> Fin 1"
  shows "sd_score e = NaN \<or> xless (sd_score e) (sd_score d)"
proof -
  obtain f where f: "d = make_score_debug S i f" using score_debug_features assms(1,4) by metis
  obtain g where g: "e = make_score_debug S j g" using score_debug_features assms(2,3,4) by metis
  have "xle (xlit 0.9995) (sd_score d)"
    using assms(5-7) final_task_match [of f i S] by (simp add: f make_score_debug_views)
  moreover have "1 / 2 < f64_lit 0.9995"
  proof -
    have "ilog2 (3 / 4) = - 1" by (rule ilog2_unique) (simp_all add: two_pow_def)
    then have "round64 (3 / 4) = 3 / 4"
      by (intro round64_grid [of _ 3 "- 2"]) (simp_all add: ulp_exp_def two_pow_def)
    then show ?thesis using round64_mono [of "3 / 4" "0.9995"] by (simp add: f64_lit_def)
  qed
  ultimately show ?thesis
    using final_retired_half [of j S g] assms(8) unfolding g make_score_debug_views
    by (cases "sd_score d") (auto simp: xlit_def xle_def)
qed

definition dotted_line :: ustr where
  "dotted_line = replicate 10 0x130 @ lit ''task_slug''"

definition dotted_lower :: ustr where
  "dotted_lower = concat (replicate 10 [0x69, 0x307]) @ lit ''task_slug''"

lemma dotted_facts:
  "find_sub dotted_lower (lit ''task_slug'') = Some 20" "byte_len (take 20 dotted_lower) = 30"
  "slice_from dotted_line 30 = None" "str_lines dotted_line = [dotted_line]"
  by code_simp+

text \<open>
  A note whose line holds ten times U+0130 before \<open>task_slug\<close> makes every search that scores it
  panic: the byte position found in the lower-cased line, which is longer, is used to slice the line.
  The lower-casing of U+0130 to U+0069 U+0307 is Unicode's.
\<close>

theorem scoring_panics_on_longer_lowercase:
  assumes "si_query i \<noteq> []"
    and "sp_content (si_payload i) = replicate 10 0x130 @ lit ''task_slug''"
    and "sl_lower S (replicate 10 0x130 @ lit ''task_slug'') =
           concat (replicate 10 [0x69, 0x307]) @ lit ''task_slug''"
  shows "score_result S i = None"
proof -
  have "inline_slug (sl_lower S) (lit ''task_slug'') dotted_line = None"
    using assms(3) unfolding dotted_line_def [symmetric] dotted_lower_def [symmetric]
    by (simp add: inline_slug_def dotted_facts del: lit_simps)
  then have "extract_inline_task_slugs (sl_lower S) (sp_content (si_payload i)) (lit ''task_slug'') = None"
    using assms(2) unfolding dotted_line_def [symmetric]
    by (simp add: extract_inline_task_slugs_def dotted_facts del: lit_simps)
  then have "row_aliases S m (sp_content (si_payload i)) = None" for m by (simp add: row_aliases_def)
  then show ?thesis
    using assms(1) by (simp add: score_result_features score_features_def Let_def split: prod.split)
qed

text \<open>
  No code identifier of a query is recognised by its capitals: the words are lower-cased before
  the test, so the all-capitals case is never taken.
\<close>

theorem code_identifiers_never_all_caps:
  assumes "list_all (\<lambda>c. \<not> is_ascii_uppercase c) (L query)"
  shows "list_all (\<lambda>w. \<not> allcaps_identifier w) (find_code_identifiers L query)"
proof -
  have sub: "set (trim t) \<subseteq> set t" for t
    by (auto simp: trim_def dest!: set_dropWhileD)
  have join: "set (join_with [32] ts) \<subseteq> insert 32 (\<Union> (set ` set ts))" for ts
    by (induction "[32]::ustr" ts rule: join_with.induct) auto
  have words: "set w \<subseteq> set t" if "w \<in> set (split_whitespace t)" for w t
    using that split_on_subset by (auto simp: split_whitespace_def)
  have norm: "\<not> is_ascii_uppercase c" if "c \<in> set (normalize_text L query)" for c
  proof -
    have "c = 32 \<or> c \<in> set (L query)"
      using that join [of "split_whitespace (L query)"] words unfolding normalize_text_words by blast
    with assms show ?thesis by (auto simp: list_all_iff is_ascii_uppercase_def)
  qed
  show ?thesis
    unfolding find_code_identifiers_def list_all_iff allcaps_identifier_def list_ex_iff
    using sub split_on_subset norm by fastforce
qed

section \<open>Witnesses\<close>

definition sample_score_lib :: score_lib where
  "sample_score_lib =
     \<lparr>sl_lower = (\<lambda>s. concat (map (\<lambda>c. if c = 0x130 then [0x69, 0x307]
                                     else if is_ascii_uppercase c then [c + 32] else [c]) s)),
      sl_exp = (\<lambda>x. Fin 1), sl_ln = (\<lambda>x. x),
      sl_parse_rfc3339 = (\<lambda>s. None), sl_parse_naive = (\<lambda>s fmt. None), sl_now = (0, 0)\<rparr>"

definition sample_row :: "ustr \<Rightarrow> ustr option \<Rightarrow> json option \<Rightarrow> score_input" where
  "sample_row content state task_slug =
     \<lparr>si_query = lit ''build-ma-rrf'', si_query_vector = None,
      si_payload = \<lparr>sp_content = content, sp_layer = lit ''verified_fact'', sp_confidence = None,
        sp_created_at = None, sp_evolution_state = state, sp_category = None, sp_source = None\<rparr>,
      si_stored_vector = None, si_bm25_score = None,
      si_metadata = \<lparr>sm_failure_count = None, sm_superseded_by = None, sm_is_outdated = None,
        sm_is_corrected = None, sm_search_aliases = None, sm_aliases = None, sm_task_slug = task_slug,
        sm_source_tasks = None, sm_source_task = None\<rparr>,
      si_boost_categories = None, si_recall_count = 0, si_last_recalled_at = None\<rparr>"

lemma retired_row_scores_its_factor_witness:
  "score_result sample_score_lib (retired_as (lit ''deprecated'') (sample_row (lit ''x'') None None)) =
     map_option (\<lambda>s. xmul s (retired_factor (lit ''deprecated'')))
       (score_result sample_score_lib (as_current (sample_row (lit ''x'') None None)))"
  by (rule retired_row_scores_its_factor) (simp_all add: sample_row_def)

definition matching_row :: score_input where
  "matching_row = sample_row (lit ''done'') None (Some (JStr (lit ''build-ma-rrf'')))"

definition superseded_row :: score_input where
  "superseded_row = sample_row (lit ''build-ma-rrf'') (Some (lit ''superseded'')) None"

lemma sample_aliases:
  "row_aliases sample_score_lib (si_metadata matching_row) (lit ''done'') = Some ([lit ''build-ma-rrf''], [])"
  "row_aliases sample_score_lib (si_metadata superseded_row) (lit ''build-ma-rrf'') = Some ([], [])"
  "extract_query_task_slugs (sl_lower sample_score_lib) (lit ''build-ma-rrf'') = [lit ''build-ma-rrf'']"
  by code_simp+

lemma sample_debug:
  "\<exists>d. score_result_debug sample_score_lib matching_row = Some d \<and> sd_primary_task_match d \<and>
       sd_evolution_state_factor d = Fin 1 \<and> sd_outdated_factor d = Fin 1"
  "\<exists>e. score_result_debug sample_score_lib superseded_row = Some e \<and> sd_evolution_state_factor e \<noteq> Fin 1"
proof -
  have f: "\<exists>f. score_features sample_score_lib matching_row = Some f \<and> ft_primary f"
    using sample_aliases(1,3)
    by (simp add: score_features_def matching_row_def sample_row_def Let_def del: lit_simps split: prod.split)
  have g: "\<exists>g. score_features sample_score_lib superseded_row = Some g"
    using sample_aliases(2)
    by (simp add: score_features_def superseded_row_def sample_row_def Let_def del: lit_simps split: prod.split)
  have half: "Fin (f64_lit 0.05) \<noteq> Fin 1" using f64_lit_half(1) [of "0.05"] by simp
  show "\<exists>d. score_result_debug sample_score_lib matching_row = Some d \<and> sd_primary_task_match d \<and>
       sd_evolution_state_factor d = Fin 1 \<and> sd_outdated_factor d = Fin 1"
    using f by (auto simp: score_result_debug_def score_result_inner_def make_score_debug_views
        lifecycle_factor_def matching_row_def sample_row_def evolution_state_factor_def
        scoring_evolution_state_def staleness_factor_def)
  show "\<exists>e. score_result_debug sample_score_lib superseded_row = Some e \<and> sd_evolution_state_factor e \<noteq> Fin 1"
    using g half by (auto simp: score_result_debug_def score_result_inner_def make_score_debug_views
        lifecycle_factor_def superseded_row_def sample_row_def evolution_state_factor_def
        scoring_evolution_state_def xlit_def)
qed

lemma retired_row_never_outranks_task_match_witness:
  "\<exists>d e. score_result_debug sample_score_lib matching_row = Some d \<and>
         score_result_debug sample_score_lib superseded_row = Some e \<and>
         (sd_score e = NaN \<or> xless (sd_score e) (sd_score d))"
proof -
  obtain d e where de: "score_result_debug sample_score_lib matching_row = Some d" "sd_primary_task_match d"
    "sd_evolution_state_factor d = Fin 1" "sd_outdated_factor d = Fin 1"
    "score_result_debug sample_score_lib superseded_row = Some e" "sd_evolution_state_factor e \<noteq> Fin 1"
    using sample_debug by blast
  have "sd_score e = NaN \<or> xless (sd_score e) (sd_score d)"
    by (rule retired_row_never_outranks_task_match [OF de(1,5) _ _ de(2,3,4,6)])
      (simp_all add: matching_row_def superseded_row_def sample_row_def)
  with de show ?thesis by blast
qed

lemma scoring_panics_on_longer_lowercase_witness:
  "score_result sample_score_lib (sample_row (replicate 10 0x130 @ lit ''task_slug'') None None) = None"
  by (rule scoring_panics_on_longer_lowercase)
    (simp_all add: sample_row_def sample_score_lib_def is_ascii_uppercase_def map_replicate_const)

lemma code_identifiers_never_all_caps_witness:
  "list_all (\<lambda>w. \<not> allcaps_identifier w) (find_code_identifiers (\<lambda>s. s) (lit ''api wal''))"
  by (rule code_identifiers_never_all_caps) (simp add: is_ascii_uppercase_def)

end
