(* ===== verification/Spread_Laws.thy ===== *)
theory Spread_Laws
  imports Search_Spread Result_Laws Scoring_Laws
begin

text \<open>
  What the spread of activation promises. The locale \<open>spread_invariant\<close> is the contract of a hop: a
  property of the seeds and one of the associations, kept by every neighbour that is taken. It is
  interpreted for the paths and for the scores.
\<close>

section \<open>What a hop reads is stored\<close>

definition stored_note :: "'a notes_db_scheme \<Rightarrow> hydrated \<Rightarrow> bool" where
  "stored_note db n \<longleftrightarrow> n \<in> from_row ` set (note_rows db)"

lemma lineage_query_keeps:
  assumes "hydrate_seed_lineage flt ids db = (db', Ok m)"
  shows "db' = db"
proof -
  have "db' = db \<and> m = fold (\<lambda>chunk out. fold (\<lambda>r out. out(nr_id r \<mapsto> note_lineage r))
      (filter (\<lambda>r. nr_id r \<in> set chunk) (note_rows db)) out) (chunks SQLITE_CHUNK_SIZE ids) Map.empty"
    by (rule op_fold_Ok [where g = "\<lambda>db chunk out. fold (\<lambda>r out. out(nr_id r \<mapsto> note_lineage r))
        (filter (\<lambda>r. nr_id r \<in> set chunk) (note_rows db)) out", OF assms [unfolded hydrate_seed_lineage_def]])
      (auto simp: sql_query_Ok op_return_Ok split: if_splits elim!: op_bind_OkE)
  then show ?thesis ..
qed

lemma heads_by_field_stored:
  assumes "hydrate_heads_by_field flt field values db = (db', Ok m)"
  shows "db' = db \<and> (\<forall>k n. m k = Some n \<longrightarrow> stored_note db n)"
proof -
  define g where "g = (\<lambda>(db :: 'a notes_db_scheme) chunk out.
      fold (keep_first field) (select_heads field chunk (note_rows db)) out)"
  have m: "db' = db \<and> m = fold (g db) (chunks SQLITE_CHUNK_SIZE values) Map.empty"
    by (rule op_fold_Ok [where g = g, OF assms [unfolded hydrate_heads_by_field_def]])
      (auto simp: sql_query_Ok op_return_Ok g_def select_heads_Nil split: if_splits elim!: op_bind_OkE)
  have "\<forall>k n. fold (g db) (chunks SQLITE_CHUNK_SIZE values) Map.empty k = Some n \<longrightarrow> stored_note db n"
  proof (rule fold_invariant [where Q = "\<lambda>x. True" and P = "\<lambda>m. \<forall>k n. m k = Some n \<longrightarrow> stored_note db n"])
    fix chunk and out :: "ustr \<Rightarrow> hydrated option"
    assume out: "\<forall>k n. out k = Some n \<longrightarrow> stored_note db n"
    have "stored_note db n" if "set rows \<subseteq> set (note_rows db)" "fold (keep_first field) rows out k = Some n" for rows k n
    proof (cases "out k")
      case None
      with that(2) obtain r rest where "filter (\<lambda>r. normalized_opt (head_column field r) = Some k) rows = r # rest"
          "n = from_row r"
        by (auto simp: fold_keep_first split: list.splits)
      then have "r \<in> set rows" by (metis filter_is_subset in_mono list.set_intros(1))
      with that(1) \<open>n = from_row r\<close> show ?thesis by (auto simp: stored_note_def)
    next
      case (Some x)
      with that(2) out show ?thesis by (simp add: fold_keep_first)
    qed
    moreover have "set (select_heads field chunk (note_rows db)) \<subseteq> set (note_rows db)"
      by (auto simp: select_heads_def)
    ultimately show "\<forall>k n. g db chunk out k = Some n \<longrightarrow> stored_note db n" unfolding g_def by blast
  qed simp_all
  with m show ?thesis by simp
qed

lemma heads_stored:
  assumes "hydrate_heads_by_canonical_or_topic flt seeds db = (db', Ok reads)" "reads k = Some read"
    "cr_note read = Some n"
  shows "stored_note db n"
proof -
  let ?ids = "List.map_filter (\<lambda>seed. normalized_opt (cs_note_id seed))
      (filter (\<lambda>seed. cs_root_id seed = None \<or> cs_topic_key seed = None) seeds)"
  from assms(1) obtain db0 m where lineage: "hydrate_seed_lineage flt ?ids db = (db0, Ok m)"
    unfolding hydrate_heads_by_canonical_or_topic_def Let_def by (rule op_bind_OkE)
  note same = lineage_query_keeps [OF lineage]
  let ?seeds = "map (normalize_seed m) seeds"
  let ?roots = "sorted_list_of_set (set (List.map_filter ns_root_id ?seeds))"
  let ?topics = "sorted_list_of_set (set (List.map_filter ns_topic_key ?seeds))"
  have "op_bind (hydrate_heads_by_field flt RootId ?roots) (\<lambda>by_root.
      op_bind (hydrate_heads_by_field flt TopicKey ?topics) (\<lambda>by_topic.
        op_return (fold (\<lambda>seed resolved. resolved(ns_seed_id seed \<mapsto> resolve_seed by_root by_topic seed))
          ?seeds Map.empty))) db = (db', Ok reads)"
    using assms(1) lineage
    unfolding hydrate_heads_by_canonical_or_topic_def Let_def same by (simp add: op_bind_Ok)
  then obtain by_root db1 where root: "hydrate_heads_by_field flt RootId ?roots db = (db1, Ok by_root)"
    and rest: "op_bind (hydrate_heads_by_field flt TopicKey ?topics) (\<lambda>by_topic.
        op_return (fold (\<lambda>seed resolved. resolved(ns_seed_id seed \<mapsto> resolve_seed by_root by_topic seed))
          ?seeds Map.empty)) db1 = (db', Ok reads)"
    by (rule op_bind_OkE)
  from heads_by_field_stored [OF root] have "db1 = db" ..
  with rest obtain by_topic db2 where topic: "hydrate_heads_by_field flt TopicKey ?topics db = (db2, Ok by_topic)"
    and reads: "reads = fold (\<lambda>seed resolved. resolved(ns_seed_id seed \<mapsto> resolve_seed by_root by_topic seed))
      ?seeds Map.empty"
    by (auto simp: op_return_Ok elim!: op_bind_OkE)
  have "\<forall>k read n. reads k = Some read \<longrightarrow> cr_note read = Some n \<longrightarrow> stored_note db n"
    unfolding reads
  proof (rule fold_invariant [where Q = "\<lambda>x. True" and
        P = "\<lambda>m. \<forall>k read n. m k = Some read \<longrightarrow> cr_note read = Some n \<longrightarrow> stored_note db n"])
    fix seed and out :: "ustr \<Rightarrow> canonical_read option"
    assume out: "\<forall>k read n. out k = Some read \<longrightarrow> cr_note read = Some n \<longrightarrow> stored_note db n"
    have "stored_note db n" if "cr_note (resolve_seed by_root by_topic seed) = Some n" for n
      using heads_by_field_stored [OF root] heads_by_field_stored [OF topic] that
      by (auto simp: resolve_seed_def miss_def bind_eq_Some_conv split: option.splits)
    with out show "\<forall>k read n. (out(ns_seed_id seed \<mapsto> resolve_seed by_root by_topic seed)) k = Some read \<longrightarrow>
        cr_note read = Some n \<longrightarrow> stored_note db n" by auto
  qed simp_all
  with assms(2,3) show ?thesis by blast
qed

lemma neighbor_reads_stored:
  assumes "hydrate_activation_neighbors flt db ns k = Some read" "cr_note read = Some n"
  shows "stored_note db n"
proof -
  let ?seeds = "map (\<lambda>n. \<lparr>cs_seed_id = hy_id (an_note n), cs_note_id = Some (hy_id (an_note n)),
      cs_root_id = hy_root_id (an_note n), cs_topic_key = hy_topic_key (an_note n)\<rparr>) ns"
  obtain db' res where run: "hydrate_heads_by_canonical_or_topic (\<lambda>s. flt (CanonicalStmt s)) ?seeds db = (db', res)"
    by fastforce
  with assms(1) obtain reads where "res = Ok reads" "reads k = Some read"
    by (auto simp: hydrate_activation_neighbors_def split: sum.splits)
  with run assms(2) show ?thesis by (auto intro: heads_stored)
qed

lemma source_neighbors_stored:
  "neighbor \<in> set (source_neighbors S flt db p source_id) \<Longrightarrow> stored_note db (an_note neighbor)"
  by (auto simp: source_neighbors_def activation_neighbors_for_source_def relation_neighbors_def stored_note_def
      dreaming_activation_neighbors_for_source_def dream_neighbors_def note_by_id_def in_map_filter
      dest: row_get_SomeD split: if_splits)

lemma neighbor_note_stored:
  assumes "neighbor \<in> set (source_neighbors S flt db p source_id)"
  shows "stored_note db (neighbor_note (hydrate_activation_neighbors flt db ns) neighbor)"
  using source_neighbors_stored [OF assms] neighbor_reads_stored [of flt db ns]
  by (auto simp: neighbor_note_def bind_eq_Some_conv split: option.split)

section \<open>A hop keeps an invariant\<close>

lemma set_AList_update: "set (AList.update k v al) \<subseteq> insert (k, v) (set al)"
  by (induction al) auto

locale spread_invariant =
  fixes S :: search_lib and flt :: "search_stmt faults" and db :: "'a search_db_scheme"
    and p :: search_params and results :: "search_result list" and seen_topics :: "ustr set"
    and seed_ok :: "nat \<Rightarrow> activation_seed \<Rightarrow> bool" and found_ok :: "search_result \<Rightarrow> bool"
  assumes root: "\<And>r. r \<in> set results \<Longrightarrow>
      seed_ok 0 \<lparr>as_id = re_id r, as_root_id = re_id r, as_score = re_score r, as_path = [re_id r]\<rparr>"
    and hop: "\<And>d source neighbor read_source reads n score.
      d < ACTIVATION_MAX_HOPS \<Longrightarrow> seed_ok d source \<Longrightarrow>
      neighbor \<in> set (source_neighbors S flt db p (as_id source)) \<Longrightarrow>
      n = neighbor_note reads neighbor \<Longrightarrow> stored_note db n \<Longrightarrow>
      associable flt db p (re_id ` set results) seen_topics source neighbor n \<Longrightarrow>
      score = connected_score source neighbor \<Longrightarrow> \<not> xle score (Fin 0) \<Longrightarrow>
      seed_ok (Suc d) \<lparr>as_id = hy_id n, as_root_id = as_root_id source, as_score = score,
                        as_path = as_path source @ [hy_id n]\<rparr> \<and>
      found_ok (association_result n score
        (association_metadata S (Suc d) source neighbor read_source n (as_path source @ [hy_id n])))"
begin

definition found :: "spread \<Rightarrow> bool" where
  "found st \<longleftrightarrow> distinct (map fst (ac_activated st)) \<and>
     (\<forall>(k, r) \<in> set (ac_activated st). re_id r = k \<and> found_ok r)"

definition inv_at :: "nat \<Rightarrow> spread \<Rightarrow> bool" where
  "inv_at d st \<longleftrightarrow> found st \<and> (\<forall>s \<in> set (ac_next st). seed_ok d s)"

lemma neighbor_step:
  assumes "inv_at (Suc d) st" "d < ACTIVATION_MAX_HOPS" "seed_ok d source"
    "neighbor \<in> set (source_neighbors S flt db p (as_id source))"
    "stored_note db (neighbor_note reads neighbor)"
  shows "inv_at (Suc d)
    (activate_neighbor S flt db p (re_id ` set results) seen_topics (Suc d) reads source neighbor st)"
proof -
  define n where "n = neighbor_note reads neighbor"
  define score where "score = connected_score source neighbor"
  let ?taken = "associable flt db p (re_id ` set results) seen_topics source neighbor n \<and>
      improves st (hy_id n) score"
  show ?thesis
  proof (cases ?taken)
    case True
    then have "\<not> xle score (Fin 0)" by (simp add: improves_def)
    with True hop [OF assms(2-4) n_def assms(5) [folded n_def] _ score_def] have new:
      "seed_ok (Suc d) \<lparr>as_id = hy_id n, as_root_id = as_root_id source, as_score = score,
                        as_path = as_path source @ [hy_id n]\<rparr>"
      "found_ok (association_result n score
        (association_metadata S (Suc d) source neighbor read_source n (as_path source @ [hy_id n])))"
      for read_source by blast+
    from True show ?thesis
      using assms(1) new set_AList_update
      by (fastforce simp: activate_neighbor_def Let_def n_def [symmetric] score_def [symmetric] inv_at_def
          found_def distinct_update association_result_def)
  next
    case False
    then show ?thesis
      using assms(1) by (auto simp: activate_neighbor_def Let_def n_def [symmetric] score_def [symmetric])
  qed
qed

lemma source_step:
  assumes "inv_at (Suc d) st" "d < ACTIVATION_MAX_HOPS" "seed_ok d source"
  shows "inv_at (Suc d)
    (activate_source S flt db p (re_id ` set results) seen_topics (Suc d) source st)"
proof (cases "activation_source_is_trusted flt db (as_id source)")
  case True
  let ?ns = "source_neighbors S flt db p (as_id source)"
  have "inv_at (Suc d) (fold (activate_neighbor S flt db p (re_id ` set results) seen_topics (Suc d)
      (hydrate_activation_neighbors flt db ?ns) source) ?ns st)"
    by (rule fold_invariant [where Q = "\<lambda>n. n \<in> set ?ns"]) (auto intro!: neighbor_step neighbor_note_stored assms)
  with True show ?thesis by (simp add: activate_source_def Let_def)
qed (simp add: activate_source_def assms)

lemma hop_step:
  assumes "inv_at d st" "d < ACTIVATION_MAX_HOPS"
  shows "inv_at (Suc d) (activation_hop S flt db p (re_id ` set results) seen_topics (Suc d) st)"
proof -
  have clear: "inv_at (Suc d) (st\<lparr>ac_next := []\<rparr>)" using assms(1) by (simp add: inv_at_def found_def)
  have ok: "seed_ok d s" if "s \<in> set (ac_next st)" for s using assms(1) that by (simp add: inv_at_def)
  show ?thesis
    unfolding activation_hop_def
    by (rule fold_invariant [where Q = "\<lambda>s. s \<in> set (ac_next st)"])
      (auto intro!: source_step assms(2) clear ok)
qed

lemma hops_found:
  assumes "inv_at d st" "d + k \<le> ACTIVATION_MAX_HOPS"
  shows "found (activation_hops S flt db p (re_id ` set results) seen_topics [Suc d..<Suc (d + k)] st)"
  using assms
proof (induction k arbitrary: d st)
  case 0
  then show ?case by (simp add: inv_at_def)
next
  case (Suc k)
  have "[Suc d..<Suc (d + Suc k)] = Suc d # [Suc (Suc d)..<Suc (Suc d + k)]" by (simp add: upt_conv_Cons)
  with Suc.prems Suc.IH [OF hop_step [OF Suc.prems(1)]] show ?case by (simp add: inv_at_def)
qed

lemma activated_ok:
  "distinct (map re_id (activated_results S flt db p results seen_topics)) \<and>
   (\<forall>r \<in> set (activated_results S flt db p results seen_topics). found_ok r)"
proof -
  define st where "st = activation_hops S flt db p (re_id ` set results) seen_topics
      [Suc 0..<Suc (0 + ACTIVATION_MAX_HOPS)] (initial_spread results)"
  have "inv_at 0 (initial_spread results)" by (auto simp: inv_at_def found_def initial_spread_def root)
  then have f: "found st" unfolding st_def by (rule hops_found) simp
  have act: "activated_results S flt db p results seen_topics = map snd (ac_activated st)"
    by (simp add: activated_results_def st_def)
  from f have "map re_id (map snd (ac_activated st)) = map fst (ac_activated st)"
    unfolding found_def by auto
  with f show ?thesis unfolding act found_def by (auto simp del: map_map)
qed

end

section \<open>Paths\<close>

definition seed_path :: "search_result list \<Rightarrow> nat \<Rightarrow> activation_seed \<Rightarrow> bool" where
  "seed_path results d s \<longleftrightarrow>
     as_path s \<noteq> [] \<and> hd (as_path s) = as_root_id s \<and> last (as_path s) = as_id s \<and>
     as_root_id s \<in> re_id ` set results \<and> distinct (as_path s) \<and> length (as_path s) = Suc d"

text \<open>The metadata of an association names the path that reached it.\<close>

definition activation_path_of :: "search_result \<Rightarrow> ustr list \<Rightarrow> bool" where
  "activation_path_of r path \<longleftrightarrow>
     Option.bind (re_metadata r) (\<lambda>m. json_get m (lit ''activation_path'')) = Some (JArr (map JStr path))"

definition root_of :: "search_result \<Rightarrow> ustr option" where
  "root_of r = Option.bind (Option.bind (re_metadata r) (\<lambda>m. json_get m (lit ''association_root''))) as_str"

lemma insert_two_optional:
  assumes "k \<noteq> a" "k \<noteq> b"
  shows "map_of (case x of None \<Rightarrow> (if P then map_insert a v m else m)
                         | Some c \<Rightarrow> map_insert b (f c) (if P then map_insert a v m else m)) k = map_of m k"
  using assms by (cases x) simp_all

lemma association_metadata_gets:
  "json_get (association_metadata S d source neighbor src n path) (lit ''activation_path'') =
     Some (JArr (map JStr path))"
  "json_get (association_metadata S d source neighbor src n path) (lit ''association_root'') =
     Some (JStr (as_root_id source))"
  "json_get (association_metadata S d source neighbor src n path) (lit ''activation_depth'') =
     Some (JInt (int d))"
  unfolding association_metadata_def Let_def json_get.simps
  by (subst insert_two_optional; simp add: lit_inject del: lit_simps)+

text \<open>What is asked of the note behind an association, written out over its stored row: it is trusted
  (confirmed, of a trusted source, or of none on record), a head that is neither superseded nor
  contradicted, and of the activity, layer, category, room and project of the search.\<close>

definition trusted_note :: "search_stmt faults \<Rightarrow> 'a search_db_scheme \<Rightarrow> ustr \<Rightarrow> bool" where
  "trusted_note flt db i \<longleftrightarrow>
     (\<exists>q. row_get nr_id i (note_rows db) = Some q \<and>
        (notes_column flt db (lit ''confirmed_at'') \<and> nr_confirmed_at q \<noteq> None \<or>
         \<not> notes_column flt db (lit ''source'') \<or> nr_source q = None \<or>
         (\<exists>source. nr_source q = Some source \<and> is_trusted_memory_source source)))"

definition association_in_scope ::
  "search_stmt faults \<Rightarrow> 'a search_db_scheme \<Rightarrow> search_params \<Rightarrow> note_row \<Rightarrow> bool" where
  "association_in_scope flt db p r \<longleftrightarrow>
     trusted_note flt db (nr_id r) \<and>
     nr_is_head r \<noteq> Some 0 \<and> nr_evolution_state r \<noteq> Some (lit ''superseded'') \<and>
     nr_evolution_state r \<noteq> Some (lit ''contradicted'') \<and>
     (pr_only_active p \<longrightarrow> nr_is_active r \<noteq> 0) \<and>
     (\<forall>layer. pr_layer p = Some layer \<longrightarrow> nr_layer r = layer) \<and>
     (nr_layer r = lit ''identity_schema'' \<longrightarrow>
        pr_include_constitution p \<or> pr_layer p = Some (lit ''identity_schema'')) \<and>
     (\<forall>category. pr_category p = Some category \<longrightarrow> nr_category r = Some category) \<and>
     (\<forall>room. pr_room p = Some room \<longrightarrow> nr_room r = Some room) \<and>
     (\<forall>project. pr_project_id p = Some project \<longrightarrow> \<not> pr_cross_project p \<longrightarrow> nr_project_id r = Some project)"

lemma filters_in_scope:
  assumes "activation_note_passes_filters flt db p (from_row r)"
  shows "association_in_scope flt db p r"
proof -
  from assms have "trusted_note flt db (nr_id r)"
    by (auto simp: activation_note_passes_filters_def activation_source_is_trusted_def trusted_note_def
        allows_strengthening_def from_row_def simp del: lit_simps split: option.splits if_splits)
  with assms show ?thesis
    by (auto simp: activation_note_passes_filters_def association_in_scope_def from_row_def equals_if_def
        evolution_state_is_head_def simp del: lit_simps split: option.splits)
qed

definition path_ok ::
  "search_stmt faults \<Rightarrow> 'a search_db_scheme \<Rightarrow> search_params \<Rightarrow> search_result list \<Rightarrow> ustr set \<Rightarrow>
   search_result \<Rightarrow> bool" where
  "path_ok flt db p results seen_topics r \<longleftrightarrow>
     re_channel r = Some (lit ''association'') \<and> re_id r \<notin> re_id ` set results \<and>
     (case re_topic_key r of None \<Rightarrow> True | Some t \<Rightarrow> t \<notin> seen_topics) \<and>
     (\<exists>row \<in> set (note_rows db). nr_id row = re_id r \<and> association_in_scope flt db p row) \<and>
     (\<exists>path. activation_path_of r path \<and> path \<noteq> [] \<and> hd path \<in> re_id ` set results \<and>
        last path = re_id r \<and> distinct path \<and> length path \<le> Suc ACTIVATION_MAX_HOPS)"

interpretation paths: spread_invariant S flt db p results seen_topics
    "seed_path results" "path_ok flt db p results seen_topics"
  for S flt and db :: "'a search_db_scheme" and p results seen_topics
proof
  show "seed_path results 0 \<lparr>as_id = re_id r, as_root_id = re_id r, as_score = re_score r, as_path = [re_id r]\<rparr>"
    if "r \<in> set results" for r using that by (simp add: seed_path_def)
next
  fix d source neighbor read_source n score and reads :: "ustr \<Rightarrow> canonical_read option"
  assume d: "d < ACTIVATION_MAX_HOPS" and source: "seed_path results d source" and n: "stored_note db n"
    and a: "associable flt db p (re_id ` set results) seen_topics source neighbor n"
  from source a have seed: "seed_path results (Suc d) \<lparr>as_id = hy_id n, as_root_id = as_root_id source,
      as_score = score, as_path = as_path source @ [hy_id n]\<rparr>"
    by (auto simp: seed_path_def associable_def)
  moreover from n obtain row where row: "row \<in> set (note_rows db)" "n = from_row row"
    by (auto simp: stored_note_def)
  from a have "association_in_scope flt db p row"
    unfolding row(2) associable_def by (intro filters_in_scope) simp
  moreover have "path_ok flt db p results seen_topics (association_result n score
      (association_metadata S (Suc d) source neighbor read_source n (as_path source @ [hy_id n])))"
    unfolding path_ok_def
  proof (intro conjI bexI [OF _ row(1)] exI [of _ "as_path source @ [hy_id n]"])
    show "nr_id row = re_id (association_result n score
        (association_metadata S (Suc d) source neighbor read_source n (as_path source @ [hy_id n])))"
      by (simp add: association_result_def row(2) from_row_def)
  qed (use a d source \<open>association_in_scope flt db p row\<close> in \<open>auto simp: association_result_def associable_def
      activation_path_of_def association_metadata_gets seed_path_def simp del: lit_simps\<close>)
  ultimately show "seed_path results (Suc d) \<lparr>as_id = hy_id n, as_root_id = as_root_id source,
      as_score = score, as_path = as_path source @ [hy_id n]\<rparr> \<and>
    path_ok flt db p results seen_topics (association_result n score
      (association_metadata S (Suc d) source neighbor read_source n (as_path source @ [hy_id n])))" by blast
qed

lemma activated_paths:
  "distinct (map re_id (activated_results S flt db p results seen_topics)) \<and>
   list_all (path_ok flt db p results seen_topics) (activated_results S flt db p results seen_topics)"
  using paths.activated_ok [of S flt db p results seen_topics] by (simp add: list_all_iff)

lemma spread_activation_extends:
  "\<exists>associations. fst (spread_activation S flt db p results limit seen_topics d) = results @ associations \<and>
     length associations \<le> limit - length results \<and> distinct (map re_id associations) \<and>
     set associations \<subseteq> set (activated_results S flt db p results seen_topics)"
proof (cases "results = [] \<or> limit \<le> length results \<or> limit = 0 \<or>
    \<not> table_exists flt (lit ''note_relations'') True \<and>
    \<not> table_exists flt (lit ''dream_candidates'') (dream_candidates db \<noteq> None)")
  case True
  then show ?thesis by (auto simp: spread_activation_def simp del: lit_simps)
next
  case False
  let ?a = "take (limit - length results)
      (sort_by_score re_score (activated_results S flt db p results seen_topics))"
  have "distinct (map re_id ?a)" using activated_paths [of S flt db p results seen_topics]
    by (simp add: take_map [symmetric])
  moreover have "set ?a \<subseteq> set (activated_results S flt db p results seen_topics)"
    by (auto dest: in_set_takeD)
  moreover have "fst (spread_activation S flt db p results limit seen_topics d) = results @ ?a"
    using False by (auto simp: spread_activation_def Let_def simp del: lit_simps)
  ultimately show ?thesis by (intro exI [of _ ?a]) simp
qed

text \<open>
  C38. The direct results of a search are never touched by its associations: these come after them, up to the
  limit, each once and for a stored note that is no direct result, is trusted, a live head and passes
  the search's filters, and each with a path of at most three hops from a direct result that visits no
  note twice.
\<close>

theorem associations_are_new_trusted_and_near:
  "\<exists>associations. fst (spread_activation S flt db p results limit seen_topics d) = results @ associations \<and>
     length associations \<le> limit - length results \<and>
     distinct (map re_id associations) \<and>
     list_all (path_ok flt db p results seen_topics) associations"
  using spread_activation_extends [of S flt db p results limit seen_topics d]
    activated_paths [of S flt db p results seen_topics]
  unfolding list_all_iff by blast

section \<open>Scores\<close>

definition links_ok :: "'a search_db_scheme \<Rightarrow> bool" where
  "links_ok db \<longleftrightarrow> (\<forall>r \<in> set (note_relations db). 0 \<le> rel_strength r \<and> rel_strength r \<le> 1)"

definition scores_ok :: "search_result list \<Rightarrow> bool" where
  "scores_ok results \<longleftrightarrow>
     (\<forall>r \<in> set results. \<exists>x. re_score r = Fin x \<and> is_f64 x \<and> 0 \<le> x \<and> x \<le> 2)"

definition seed_score :: "search_result list \<Rightarrow> activation_seed \<Rightarrow> bool" where
  "seed_score results s \<longleftrightarrow>
     (\<exists>r \<in> set results. as_root_id s = re_id r \<and>
        (\<exists>x y. re_score r = Fin x \<and> x \<le> 2 \<and> as_score s = Fin y \<and> is_f64 y \<and> 0 \<le> y \<and> y \<le> x))"

definition score_ok :: "search_result list \<Rightarrow> search_result \<Rightarrow> bool" where
  "score_ok results a \<longleftrightarrow>
     (\<exists>r \<in> set results. root_of a = Some (re_id r) \<and>
        xle (re_score a) (xmul (re_score r) (Fin (f64_lit 0.3))))"

lemma neighbor_strength:
  assumes "links_ok db" "neighbor \<in> set (source_neighbors S flt db p source_id)"
  shows "0 \<le> an_strength neighbor \<and> an_strength neighbor \<le> 1"
  using assms
  by (auto simp: source_neighbors_def activation_neighbors_for_source_def relation_neighbors_def links_ok_def
      dreaming_activation_neighbors_for_source_def dream_neighbors_def dream_strength_def in_map_filter
      split: if_splits)

lemma weight_bounds: "0 \<le> ACTIVATION_WEIGHT" "ACTIVATION_WEIGHT \<le> 1"
  by (simp_all add: ACTIVATION_WEIGHT_def f64_lit_bounds)

lemma connected_score_bounds:
  assumes "as_score source = Fin y" "is_f64 y" "0 \<le> y" "y \<le> x" "x \<le> 2"
    and "0 \<le> an_strength neighbor" "an_strength neighbor \<le> 1"
  shows "\<exists>z. connected_score source neighbor = Fin z \<and> is_f64 z \<and> 0 \<le> z \<and> z \<le> x \<and>
      z \<le> round64 (x * ACTIVATION_WEIGHT)"
proof -
  define u where "u = round64 (y * an_strength neighbor)"
  define z where "z = round64 (u * ACTIVATION_WEIGHT)"
  have step: "0 \<le> a * k \<and> a * k \<le> a" if "0 \<le> a" "0 \<le> k" "k \<le> 1" for a k :: rat
    using that by (simp add: mult_left_le)
  have u: "0 \<le> u" "u \<le> y" "is_f64 u" "xmul (as_score source) (Fin (an_strength neighbor)) = Fin u"
    using step [of y "an_strength neighbor"] assms
    by (simp_all add: u_def round64_nonneg round64_le xround_small)
  have z: "0 \<le> z" "z \<le> u" "is_f64 z" "xmul (Fin u) (Fin ACTIVATION_WEIGHT) = Fin z"
    using step [of u ACTIVATION_WEIGHT] u assms weight_bounds
    by (simp_all add: z_def round64_nonneg round64_le xround_small)
  have "z \<le> round64 (x * ACTIVATION_WEIGHT)"
    unfolding z_def using u(2) assms(4) weight_bounds by (intro round64_mono mult_right_mono) auto
  with u z assms show ?thesis by (auto simp: connected_score_def)
qed

interpretation scores: spread_invariant S flt db p results seen_topics
    "\<lambda>d s. links_ok db \<and> scores_ok results \<longrightarrow> seed_score results s"
    "\<lambda>a. links_ok db \<and> scores_ok results \<longrightarrow> score_ok results a"
  for S flt and db :: "'a search_db_scheme" and p results seen_topics
proof
  fix r assume r: "r \<in> set results"
  show "links_ok db \<and> scores_ok results \<longrightarrow> seed_score results
      \<lparr>as_id = re_id r, as_root_id = re_id r, as_score = re_score r, as_path = [re_id r]\<rparr>"
  proof
    assume "links_ok db \<and> scores_ok results"
    with r obtain x where "re_score r = Fin x" "is_f64 x" "0 \<le> x" "x \<le> 2" unfolding scores_ok_def by blast
    with r show "seed_score results
        \<lparr>as_id = re_id r, as_root_id = re_id r, as_score = re_score r, as_path = [re_id r]\<rparr>"
      unfolding seed_score_def by (intro bexI [of _ r]) auto
  qed
next
  fix d source neighbor read_source n score and reads :: "ustr \<Rightarrow> canonical_read option"
  assume ok: "links_ok db \<and> scores_ok results \<longrightarrow> seed_score results source"
    and neighbor: "neighbor \<in> set (source_neighbors S flt db p (as_id source))"
    and score: "score = connected_score source neighbor"
  have step: "seed_score results \<lparr>as_id = hy_id n, as_root_id = as_root_id source, as_score = score,
        as_path = as_path source @ [hy_id n]\<rparr> \<and>
      score_ok results (association_result n score
        (association_metadata S (Suc d) source neighbor read_source n (as_path source @ [hy_id n])))"
    if inputs: "links_ok db \<and> scores_ok results"
  proof -
    from ok inputs obtain r x y where r: "r \<in> set results" "as_root_id source = re_id r" "re_score r = Fin x"
        "x \<le> 2" "as_score source = Fin y" "is_f64 y" "0 \<le> y" "y \<le> x" unfolding seed_score_def by blast
    with neighbor_strength [OF _ neighbor] inputs obtain z where z: "score = Fin z" "is_f64 z" "0 \<le> z" "z \<le> x"
        "z \<le> round64 (x * ACTIVATION_WEIGHT)"
      using connected_score_bounds [of source y x neighbor] unfolding score by blast
    have "0 \<le> x * ACTIVATION_WEIGHT \<and> x * ACTIVATION_WEIGHT \<le> 2"
      using r weight_bounds mult_mono [of x 2 ACTIVATION_WEIGHT 1] by simp
    then have "xle score (xmul (re_score r) (Fin (f64_lit 0.3)))"
      using z r unfolding ACTIVATION_WEIGHT_def by (simp add: xround_small xle_def) linarith
    with r z show ?thesis
      by (auto simp: seed_score_def score_ok_def root_of_def association_result_def association_metadata_gets
          simp del: lit_simps intro!: bexI [of _ r])
  qed
  then show "(links_ok db \<and> scores_ok results \<longrightarrow> seed_score results
        \<lparr>as_id = hy_id n, as_root_id = as_root_id source, as_score = score,
          as_path = as_path source @ [hy_id n]\<rparr>) \<and>
      (links_ok db \<and> scores_ok results \<longrightarrow> score_ok results (association_result n score
        (association_metadata S (Suc d) source neighbor read_source n (as_path source @ [hy_id n]))))" by blast
qed

text \<open>
  C36. With relation strengths and direct scores in range, an association scores at most three tenths of the
  direct result it was reached from, however many hops away it is.
\<close>

theorem associations_score_below_their_root:
  assumes "links_ok db" "scores_ok results"
    and "fst (spread_activation S flt db p results limit seen_topics d) = results @ associations"
  shows "list_all (score_ok results) associations"
  using spread_activation_extends [of S flt db p results limit seen_topics d]
    scores.activated_ok [of S flt db p results seen_topics] assms
  unfolding list_all_iff by auto

end
