(* ===== verification/Query_Laws.thy ===== *)
theory Query_Laws
  imports Search_Query Scoring_Laws Write_Support
begin

text \<open>
  What the queries of a search promise: an escaped LIKE pattern matches exactly the texts that
  contain it, the FTS5 expression carries no special character of the query, and the loop that
  cuts a text at a character boundary returns.
\<close>

text \<open>\<open>safe_text_prefix\<close> of \<open>core/safety_filter.rs\<close> cuts at the last character boundary.\<close>

lemma byte_len_simps [simp]: "byte_len [] = 0" "byte_len (s @ t) = byte_len s + byte_len t"
  by (simp_all add: byte_len_def)

lemma byte_len_Cons: "byte_len (c # t) = byte_len [c] + byte_len t" "0 < byte_len [c]"
  by (simp_all add: byte_len_def)

lemma str_slice_to_take: "str_slice_to t (byte_len (take k t)) = Some (take k t)"
proof (induction t arbitrary: k)
  case (Cons c t)
  show ?case
  proof (cases k)
    case (Suc j)
    with Cons byte_len_Cons(2) [of c] show ?thesis by (simp add: byte_len_Cons(1) [of c "take j t"])
  qed simp
qed simp

text \<open>A slice panics exactly off the character boundaries.\<close>

lemma str_slice_to_boundary: "str_slice_to t n = Some p \<Longrightarrow> \<exists>k. byte_len (take k t) = n \<and> p = take k t"
proof (induction t n arbitrary: p rule: str_slice_to.induct)
  case (1 n)
  then show ?case by (auto split: if_splits)
next
  case (2 c t n)
  show ?case
  proof (cases "n = 0")
    case True
    with 2(2) show ?thesis by (auto intro: exI [of _ 0])
  next
    case False
    with 2(2) obtain q where q: "byte_len [c] \<le> n" "str_slice_to t (n - byte_len [c]) = Some q" "p = c # q"
      by (auto split: if_splits)
    from 2(1) [OF False q(1,2)] obtain k where "byte_len (take k t) = n - byte_len [c]" "q = take k t" by blast
    with q show ?thesis by (auto simp: byte_len_Cons(1) [of c "take k t"] intro!: exI [of _ "Suc k"])
  qed
qed

lemma is_char_boundary_iff: "is_char_boundary t n \<longleftrightarrow> (\<exists>k. byte_len (take k t) = n)"
proof
  assume "\<exists>k. byte_len (take k t) = n"
  then obtain k where k: "byte_len (take k t) = n" by blast
  have "take (min k (length t)) t = take k t" by (simp add: min_def)
  with k have "byte_len (take (min k (length t)) t) = n" by simp
  then show "is_char_boundary t n"
    unfolding is_char_boundary_def list_ex_iff by (intro bexI [of _ "min k (length t)"]) auto
qed (auto simp: is_char_boundary_def list_ex_iff intro: exI [of _ "length t"])

lemma snap_down_boundary:
  "snap_down t n \<le> n \<and> is_char_boundary t (snap_down t n) \<and>
   (\<forall>m. is_char_boundary t m \<and> m \<le> n \<longrightarrow> m \<le> snap_down t n)"
proof (induction t n rule: snap_down.induct)
  case (1 t n)
  show ?case
  proof (cases "0 < n \<and> \<not> is_char_boundary t n")
    case True
    then have step: "snap_down t n = snap_down t (n - 1)" by (simp add: snap_down.simps [of t n])
    have "m \<le> n - 1" if "is_char_boundary t m" "m \<le> n" for m
      using that True by (cases "m = n") auto
    with 1 [OF True] show ?thesis unfolding step by (auto intro: le_trans)
  next
    case False
    moreover have "is_char_boundary t 0"
      unfolding is_char_boundary_iff by (rule exI [of _ 0]) simp
    ultimately show ?thesis by (subst (1 2 3) snap_down.simps) auto
  qed
qed

text \<open>
  The prefix for logs fits its byte limit, is a prefix of the text, never splits a
  character, and is the longest such: the search for the boundary ends at it.
\<close>

theorem safe_text_prefix_longest:
  "safe_text_slice s max_bytes = Some (safe_text_prefix s max_bytes) \<and>
   prefix (safe_text_prefix s max_bytes) s \<and> byte_len (safe_text_prefix s max_bytes) \<le> max_bytes \<and>
   \<not> (\<exists>p. prefix p s \<and> byte_len p \<le> max_bytes \<and> byte_len (safe_text_prefix s max_bytes) < byte_len p)"
proof (cases "byte_len s \<le> max_bytes")
  case True
  have "byte_len p \<le> byte_len s" if "prefix p s" for p
    using that by (auto simp: prefix_def)
  with True show ?thesis by (simp add: safe_text_prefix_def safe_text_slice_def leD)
next
  case False
  from snap_down_boundary [of s max_bytes] obtain k where k: "byte_len (take k s) = snap_down s max_bytes"
    by (auto simp: is_char_boundary_iff)
  have slice: "safe_text_slice s max_bytes = Some (take k s)"
    using False str_slice_to_take [of s k] by (simp add: safe_text_slice_def k)
  then have p: "safe_text_prefix s max_bytes = take k s" by (simp add: safe_text_prefix_def)
  have "byte_len q \<le> byte_len (take k s)" if q: "prefix q s" "byte_len q \<le> max_bytes" for q
  proof -
    from q(1) have "take (length q) s = q" by (auto simp: prefix_def)
    then have "is_char_boundary s (byte_len q)" unfolding is_char_boundary_iff by metis
    with snap_down_boundary [of s max_bytes] q(2) k show ?thesis by simp
  qed
  with snap_down_boundary [of s max_bytes] k slice show ?thesis
    unfolding p by (auto simp: take_is_prefix leD)
qed

section \<open>LIKE\<close>

definition escaped_char :: "rchar \<Rightarrow> ustr" where
  "escaped_char c = (if c = 92 then [92, 92] else if c = 37 then [92, 37] else if c = 95 then [92, 95] else [c])"

lemma escape_like_pattern_chars: "escape_like_pattern v = concat (map escaped_char v)"
  by (induction v) (simp_all add: escape_like_pattern_def replace_char_def escaped_char_def)

lemma sql_like_any: "sql_like (Some 92) [37] t"
  by (induction t) simp_all

lemma sql_like_skip:
  "sql_like (Some 92) (37 # ps) t \<longleftrightarrow> (\<exists>a b. t = a @ b \<and> sql_like (Some 92) ps b)"
proof (induction t)
  case (Cons c t)
  then show ?case by (auto simp: Cons_eq_append_conv)
qed simp

lemma sql_like_char:
  "sql_like (Some 92) (escaped_char c @ ps) t \<longleftrightarrow>
   (\<exists>d s. t = d # s \<and> like_char c d \<and> sql_like (Some 92) ps s)"
  by (cases t) (simp_all add: escaped_char_def)

lemma sql_like_escaped:
  "sql_like (Some 92) (concat (map escaped_char v) @ ps) t \<longleftrightarrow>
   (\<exists>a b. t = a @ b \<and> to_ascii_lowercase a = to_ascii_lowercase v \<and> sql_like (Some 92) ps b)"
proof (induction v arbitrary: t)
  case (Cons c v)
  have "sql_like (Some 92) (concat (map escaped_char (c # v)) @ ps) t \<longleftrightarrow>
      (\<exists>d a b. t = d # a @ b \<and> like_char c d \<and> to_ascii_lowercase a = to_ascii_lowercase v \<and>
               sql_like (Some 92) ps b)"
    by (simp add: sql_like_char Cons.IH) blast
  also have "\<dots> \<longleftrightarrow>
      (\<exists>a b. t = a @ b \<and> to_ascii_lowercase a = to_ascii_lowercase (c # v) \<and> sql_like (Some 92) ps b)"
    (is "?l \<longleftrightarrow> ?r")
  proof
    assume ?l
    then obtain d a b where "t = (d # a) @ b" "to_ascii_lowercase (d # a) = to_ascii_lowercase (c # v)"
        "sql_like (Some 92) ps b"
      by (auto simp: like_char_def)
    then show ?r by blast
  next
    assume ?r
    then obtain a b where "t = a @ b" "to_ascii_lowercase a = to_ascii_lowercase (c # v)" "sql_like (Some 92) ps b"
      by blast
    then show ?l by (cases a) (auto simp: like_char_def)
  qed
  finally show ?case .
qed (simp add: to_ascii_lowercase_def)

lemma sublist_lowercase:
  "sublist (to_ascii_lowercase v) (to_ascii_lowercase t) \<longleftrightarrow>
   (\<exists>a b c. t = a @ b @ c \<and> to_ascii_lowercase b = to_ascii_lowercase v)" (is "?l \<longleftrightarrow> ?r")
proof
  assume ?l
  then obtain x y where split: "map char_to_ascii_lowercase t = x @ to_ascii_lowercase v @ y"
    by (auto simp: sublist_def to_ascii_lowercase_def)
  define b where "b = take (length v) (drop (length x) t)"
  have "to_ascii_lowercase b = to_ascii_lowercase v"
    unfolding b_def to_ascii_lowercase_def take_map [symmetric] drop_map [symmetric] split
    by (simp add: to_ascii_lowercase_def)
  moreover have "t = take (length x) t @ b @ drop (length v) (drop (length x) t)"
    unfolding b_def by (simp only: append_take_drop_id)
  ultimately show ?r by blast
next
  assume ?r
  then obtain a b c where "t = a @ b @ c" "to_ascii_lowercase b = to_ascii_lowercase v" by blast
  then have "to_ascii_lowercase t = to_ascii_lowercase a @ to_ascii_lowercase v @ to_ascii_lowercase c" by simp
  then show ?l unfolding sublist_def by blast
qed

text \<open>
  A LIKE on an escaped text, the way every search of a substring asks for it, matches exactly the
  columns that contain the text up to the case of ASCII letters: no character of a query acts as
  a wildcard.
\<close>

theorem like_substring_is_exact:
  "sql_like (Some 92) (like_substring v) t \<longleftrightarrow> contains (to_ascii_lowercase t) (to_ascii_lowercase v)"
proof -
  have "sql_like (Some 92) (like_substring v) t \<longleftrightarrow>
      (\<exists>a b. t = a @ b \<and> sql_like (Some 92) (concat (map escaped_char v) @ [37]) b)"
    unfolding like_substring_def escape_like_pattern_chars append_Cons append_Nil by (rule sql_like_skip)
  also have "\<dots> \<longleftrightarrow> (\<exists>a b c. t = a @ b @ c \<and> to_ascii_lowercase b = to_ascii_lowercase v)"
    by (simp only: sql_like_escaped) (blast intro: sql_like_any)
  also have "\<dots> \<longleftrightarrow> contains (to_ascii_lowercase t) (to_ascii_lowercase v)"
    by (simp only: contains_sublist sublist_lowercase)
  finally show ?thesis .
qed

section \<open>FTS5 expressions\<close>

lemma split_on_map:
  assumes "\<And>c. Q c \<Longrightarrow> P (g c)" "\<And>c. \<not> Q c \<Longrightarrow> g c = c \<and> \<not> P c"
  shows "split_on P (map g t) = split_on Q t"
  by (induction t) (use assms in \<open>auto split: list.split\<close>)

lemma mem_join_with: "c \<in> set (join_with sep ws) \<Longrightarrow> c \<in> set sep \<or> (\<exists>w \<in> set ws. c \<in> set w)"
  by (induction sep ws rule: join_with.induct) auto

lemma sanitize_words:
  "sanitize_fts_query t =
     join_with [32] (filter (\<lambda>w. w \<noteq> []) (split_on (\<lambda>c. is_whitespace c \<or> is_fts5_special c) t))"
  unfolding sanitize_fts_query_def split_whitespace_def
  by (subst split_on_map [where Q = "\<lambda>c. is_whitespace c \<or> is_fts5_special c"])
    (auto simp: is_whitespace_def)

text \<open>
  The full-text expression of a query is its words, cut at white space and at every character with a
  meaning in FTS5, joined by single spaces: none of those characters is left in it.
\<close>

theorem sanitized_query_is_plain_words:
  "sanitize_fts_query t =
     join_with [32] (filter (\<lambda>w. w \<noteq> []) (split_on (\<lambda>c. is_whitespace c \<or> is_fts5_special c) t)) \<and>
   set (sanitize_fts_query t) \<inter> set FTS5_SPECIAL = {}"
proof
  show "sanitize_fts_query t =
      join_with [32] (filter (\<lambda>w. w \<noteq> []) (split_on (\<lambda>c. is_whitespace c \<or> is_fts5_special c) t))"
    by (rule sanitize_words)
  have "c \<notin> set FTS5_SPECIAL" if "c \<in> set (sanitize_fts_query t)" for c
  proof -
    from that [unfolded sanitize_words] mem_join_with consider "c = 32"
      | w where "w \<in> set (split_on (\<lambda>c. is_whitespace c \<or> is_fts5_special c) t)" "c \<in> set w" by fastforce
    then show ?thesis
    proof cases
      case 1 then show ?thesis by (simp add: FTS5_SPECIAL_def)
    next
      case 2 then show ?thesis using split_on_pieces [of w _ t c] by (auto simp: is_fts5_special_def)
    qed
  qed
  then show "set (sanitize_fts_query t) \<inter> set FTS5_SPECIAL = {}" by blast
qed

section \<open>Plain words\<close>

definition plain_char :: "rchar \<Rightarrow> bool" where
  "plain_char c \<longleftrightarrow> \<not> is_whitespace c \<and> \<not> is_fts5_special c \<and> \<not> is_cjk_char c"

lemma split_on_word: "\<forall>c \<in> set w. \<not> P c \<Longrightarrow> split_on P w = [w]"
  by (induction w) simp_all

lemma split_on_word_sep:
  "\<forall>c \<in> set w. \<not> P c \<Longrightarrow> P d \<Longrightarrow> split_on P (w @ d # t) = w # split_on P t"
  by (induction w) simp_all

lemma split_join_words:
  assumes "P 32" "\<forall>w \<in> set ws. w \<noteq> [] \<and> (\<forall>c \<in> set w. \<not> P c)"
  shows "filter (\<lambda>w. w \<noteq> []) (split_on P (join_with [32] ws)) = ws"
  using assms
proof (induction ws)
  case (Cons w ws)
  then show ?case by (cases ws) (simp_all add: split_on_word split_on_word_sep)
qed simp

lemma plain_words_pass:
  assumes "\<forall>w \<in> set ws. w \<noteq> [] \<and> (\<forall>c \<in> set w. plain_char c)"
  shows "build_fts_query L (join_with [32] ws) = join_with [32] ws"
proof -
  have sanitized: "sanitize_fts_query (join_with [32] ws) = join_with [32] ws"
    unfolding sanitize_words
    by (subst split_join_words) (use assms in \<open>auto simp: plain_char_def is_whitespace_def\<close>)
  have "\<not> is_cjk_text (join_with [32] ws)"
    using mem_join_with [of _ "[32]" ws] assms
    by (fastforce simp: is_cjk_text_def list_ex_iff plain_char_def is_cjk_char_def)
  moreover have "join_with [32] ws = []" if "trim (join_with [32] ws) = []"
    using that assms by (cases ws; cases "tl ws") (auto simp: trim_eq_Nil plain_char_def neq_Nil_conv)
  ultimately show ?thesis by (auto simp: build_fts_query_def sanitized Let_def)
qed

section \<open>Cutting a text\<close>

text \<open>\<open>safe_truncate\<close> of \<open>retrieval/search.rs\<close>: the loop walks back to a character boundary. The value
  None is a loop that does not end, or the panic of the slice.\<close>

partial_function (option) boundary_loop :: "ustr \<Rightarrow> nat \<Rightarrow> nat option" where
  "boundary_loop s e = (if 0 < e \<and> \<not> is_char_boundary s e then boundary_loop s (e - 1) else Some e)"

definition safe_truncate :: "ustr \<Rightarrow> nat \<Rightarrow> ustr option" where
  "safe_truncate s max_bytes =
     (if byte_len s \<le> max_bytes then Some s
      else Option.bind (boundary_loop s max_bytes) (str_slice_to s))"

lemma boundary_loop_snaps: "boundary_loop s e = Some (snap_down s e)"
proof (induction s e rule: snap_down.induct)
  case (1 s e)
  then show ?case by (subst boundary_loop.simps) (auto simp: snap_down.simps [of s e])
qed

lemma safe_truncate_is_slice: "safe_truncate s n = safe_text_slice s n"
  by (simp add: safe_truncate_def safe_text_slice_def boundary_loop_snaps)

text \<open>
  C33. Cutting a text for a preview returns: the loop ends, the slice does not panic, and the answer is the
  longest prefix of the text that fits the bytes and splits no character.
\<close>

theorem safe_truncate_returns_longest:
  "\<exists>p. safe_truncate s max_bytes = Some p \<and> prefix p s \<and> byte_len p \<le> max_bytes \<and>
       \<not> (\<exists>q. prefix q s \<and> byte_len q \<le> max_bytes \<and> byte_len p < byte_len q)"
  using safe_text_prefix_longest [of s max_bytes] by (auto simp: safe_truncate_is_slice)

end
