(* ===== verification/Search_Laws.thy ===== *)
theory Search_Laws
  imports Search_Engine Spread_Laws Query_Laws
begin

text \<open>
  What a search promises: results with distinct identifiers, no more than asked for and none below
  the floor. Where they come from is in \<open>Search_Scope\<close>.
\<close>

section \<open>Distinct results\<close>

lemma distinct_map_subseq: "subseq xs ys \<Longrightarrow> distinct (map f ys) \<Longrightarrow> distinct (map f xs)"
  by (metis subseq_map subseqs_distinctD in_set_subseqs)

text \<open>A loop that keeps what has a new key.\<close>

lemma keep_new_keys:
  "fold (\<lambda>x (kept, seen). if key x \<in> seen then (kept, seen) else (kept @ [x], insert (key x) seen))
     xs (kept, key ` set kept) = (kept', seen') \<Longrightarrow>
   distinct (map key kept) \<Longrightarrow>
   distinct (map key kept') \<and> seen' = key ` set kept' \<and> set kept \<subseteq> set kept' \<and>
   set kept' \<subseteq> set kept \<union> set xs"
proof (induction xs arbitrary: kept)
  case (Cons x xs)
  show ?case
  proof (cases "key x \<in> key ` set kept")
    case True
    with Cons show ?thesis by fastforce
  next
    case False
    with Cons.prems Cons.IH [of "kept @ [x]"] show ?thesis by auto
  qed
qed simp

lemma dedupe_results_by_id_ok:
  "distinct (map re_id (dedupe_results_by_id results)) \<and> set (dedupe_results_by_id results) \<subseteq> set results"
  using keep_new_keys [of re_id results "[]"]
  by (cases "fold (\<lambda>x (kept, seen). if re_id x \<in> seen then (kept, seen)
        else (kept @ [x], insert (re_id x) seen)) results ([], {})") (simp add: dedupe_results_by_id_def)

lemma subseq_type_diversity: "subseq (enforce_type_diversity q results) results"
  by (auto simp: enforce_type_diversity_def Let_def subseq_retain_indices)

lemma distinct_dedupe_topics:
  "distinct (map re_id results) \<Longrightarrow> distinct (map re_id (fst (dedupe_results_by_topic_key results)))"
  by (auto simp: dedupe_results_by_topic_key_def Let_def split: prod.split
      intro: distinct_map_subseq [OF subseq_retain_indices])

lemma ids_after_passes [simp]:
  "map re_id (adjust_scores S query results) = map re_id results"
  "map re_id (normalize_result_scores mode results) = map re_id results"
  "map re_id (ensure_default_channel ch results) = map re_id results"
  "map re_id (add_temperature_labels P now results) = map re_id results"
  by (induction results)
    (auto simp: adjust_scores_def normalize_result_scores_def ensure_default_channel_def
      add_temperature_labels_def Let_def)

lemma direct_results_ok:
  assumes "direct_results S flt db query limit results = (results', seen_topics)"
  shows "distinct (map re_id results') \<and> length results' \<le> limit"
proof -
  define rs where "rs = dedupe_results_by_id (sort_by_score re_score (follow_results_to_canonical_heads S flt db results))"
  define adjusted where "adjusted = sort_by_score re_score (adjust_scores S query
      (normalize_result_scores (score_normalization_mode_from_env (se_normalize_env S)) rs))"
  have "distinct (map re_id adjusted)"
    by (simp add: adjusted_def rs_def dedupe_results_by_id_ok)
  then have d: "distinct (map re_id (take limit (fst (dedupe_results_by_topic_key adjusted))))"
    by (simp add: take_map [symmetric] distinct_dedupe_topics)
  have "results' = enforce_type_diversity (f64_lit 0.6) (take limit (fst (dedupe_results_by_topic_key adjusted)))"
    using assms
    by (cases "dedupe_results_by_topic_key adjusted")
      (simp add: direct_results_def Let_def adjusted_def [symmetric] rs_def [symmetric])
  then show ?thesis
    using distinct_map_subseq [OF subseq_type_diversity d] list_emb_length [OF subseq_type_diversity]
    by (metis length_take min.bounded_iff order_trans order_refl min.cobounded2)
qed

lemma mset_sorts [simp]: "mset (sort_desc f xs) = mset xs"
  by (simp add: sort_desc_def)

lemma distinct_map_mset: "mset xs = mset ys \<Longrightarrow> distinct (map f xs) = distinct (map f ys)"
  by (metis mset_eq_imp_distinct_iff mset_map)

lemma distinct_filter_map: "distinct (map f xs) \<Longrightarrow> distinct (map f (filter P xs))"
  by (simp add: distinct_map_filter)

lemma distinct_append_keys:
  "\<forall>y \<in> set ys. f y \<notin> f ` set xs \<Longrightarrow> distinct (map f xs) \<Longrightarrow> distinct (map f ys) \<Longrightarrow>
   distinct (map f (xs @ ys))"
  by (induction xs) auto

lemma positive_floor: "xless (Fin 0) m \<Longrightarrow> \<not> xle m (Fin 0)"
  by (cases m) (auto simp: xle_def)

text \<open>The two shortcuts answer with rows of the table, each once, sorted and cut at the limit.\<close>

definition shortcut_ok :: "search_params \<Rightarrow> nat \<Rightarrow> search_result list \<Rightarrow> bool" where
  "shortcut_ok p limit rs \<longleftrightarrow> distinct (map re_id rs) \<and> length rs \<le> limit \<and>
     (xless (Fin 0) (pr_min_score p) \<longrightarrow> list_all (\<lambda>r. xle (pr_min_score p) (re_score r)) rs)"

lemma re_id_from_note [simp]: "re_id (search_result_from_note S (from_row r) score ch) = nr_id r"
  by (simp add: search_result_from_note_def from_row_def)

lemma shortcut_rows:
  assumes "keys_ok nr_id rows" "mset ordered = mset (filter P rows)"
  shows "shortcut_ok p limit (filter (above_min_score p)
    (map (\<lambda>r. search_result_from_note S (from_row r) score ch) (take limit ordered)))"
proof -
  have "distinct (map nr_id ordered)"
    using assms distinct_map_mset [OF assms(2), of nr_id] by (simp add: keys_ok_def distinct_map_filter)
  then have "distinct (map re_id (map (\<lambda>r. search_result_from_note S (from_row r) score ch) (take limit ordered)))"
    by (simp add: comp_def take_map [symmetric])
  from distinct_filter_map [OF this, of "above_min_score p"] show ?thesis
    unfolding shortcut_ok_def
    by (auto simp: list_all_iff above_min_score_def positive_floor
        intro!: order_trans [OF length_filter_le])
qed

lemma shortcut_results_ok:
  assumes "keys_ok nr_id (note_rows db)"
  shows "shortcut_ok p (effective_limit p) (shortcut_results S flt db p)"
proof -
  have "shortcut_ok p limit (direct_fact_prefix_results S flt (note_rows db) p query limit)" for limit query
    by (auto simp: direct_fact_prefix_results_def Let_def shortest_newest_def simp del: lit_simps
        intro: shortcut_rows [OF assms]) (simp_all add: shortcut_ok_def)
  moreover have "shortcut_ok p limit (entity_namespace_prepass_results S flt (note_rows db) p query limit)"
    for limit query
    by (auto simp: entity_namespace_prepass_results_def project_entity_filter_for_query_def
        PROJECT_ENTITY_FILTERS_def shortcut_ok_def)
  moreover have "shortcut_ok p limit []" for limit by (simp add: shortcut_ok_def)
  ultimately show ?thesis unfolding shortcut_results_def Let_def by presburger
qed

lemma present_ids: "re_id ` set (present_results S p qv results) \<subseteq> re_id ` set results"
proof -
  have "set (at_least m rs) \<subseteq> set rs" for m rs by (auto simp: at_least_def)
  then show ?thesis unfolding present_results_def by (metis (no_types) ids_after_passes(3,4) image_mono set_map)
qed

lemma ranked_search_stages:
  assumes "ranked_search S flt db p cs qv d = Some (rs, d')"
  obtains scored rrf ts direct seen_topics where
    "score_candidates (score_candidate S p (trim (pr_query p)) qv rrf ts) {} cs = Some scored"
    "direct_results S flt db (trim (pr_query p)) (effective_limit p) scored = (direct, seen_topics)"
    "rs = present_results S p qv (fst (spread_activation S flt db p direct (effective_limit p) seen_topics d))"
proof -
  from assms obtain rrf ts scored where
    "score_candidates (score_candidate S p (trim (pr_query p)) qv rrf ts) {} cs = Some scored"
    "(case direct_results S flt db (trim (pr_query p)) (effective_limit p) scored of
       (results, seen_topics) \<Rightarrow>
         (case spread_activation S flt db p results (effective_limit p) seen_topics d of
            (results, d) \<Rightarrow> (present_results S p qv results, d))) = (rs, d')"
    unfolding ranked_search_def Let_def map_option_eq_Some by blast
  with that show thesis by (auto split: prod.splits)
qed

text \<open>
  C15. A search answers with distinct notes, with at most as many as were asked for (five when the limit is
  0), and with none below a positive score floor, live heads and associations included.
\<close>

theorem search_results_distinct_and_bounded:
  assumes "keys_ok nr_id (note_rows db)" "search S flt db p = Some rs"
  shows "distinct (map re_id rs) \<and> length rs \<le> effective_limit p \<and>
    (xless (Fin 0) (pr_min_score p) \<longrightarrow> list_all (\<lambda>r. xle (pr_min_score p) (re_score r)) rs)"
proof (cases "shortcut_results S flt db p = []")
  case False
  then have "rs = shortcut_results S flt db p"
    using assms(2) by (auto simp: search_def search_with_diagnostics_def search_inner_def Let_def)
  then show ?thesis using shortcut_results_ok [OF assms(1), of p S flt] by (simp add: shortcut_ok_def)
next
  case True
  obtain cs qv d where gathered: "gather_candidates S flt db p no_diagnostics = (cs, qv, d)"
    using prod_cases3 by blast
  show ?thesis
  proof (cases "apply_project_entity_strong_filter (se_lower S) (trim (pr_query p)) cs = []")
    case True
    with gathered \<open>shortcut_results S flt db p = []\<close> assms(2) show ?thesis
      by (auto simp: search_def search_with_diagnostics_def search_inner_def Let_def)
  next
    case False
    with gathered \<open>shortcut_results S flt db p = []\<close> assms(2) obtain cs' d' where
      "ranked_search S flt db p cs' qv d = Some (rs, d')"
      by (auto simp: search_def search_with_diagnostics_def search_inner_def Let_def)
    then obtain scored rrf ts direct seen_topics where
      "score_candidates (score_candidate S p (trim (pr_query p)) qv rrf ts) {} cs' = Some scored" and
      direct: "direct_results S flt db (trim (pr_query p)) (effective_limit p) scored = (direct, seen_topics)" and
      rs: "rs = present_results S p qv
        (fst (spread_activation S flt db p direct (effective_limit p) seen_topics d))"
      by (rule ranked_search_stages)
    from spread_activation_extends [of S flt db p direct "effective_limit p" seen_topics d] obtain assoc where
      a: "fst (spread_activation S flt db p direct (effective_limit p) seen_topics d) = direct @ assoc"
        "length assoc \<le> effective_limit p - length direct" "distinct (map re_id assoc)"
        "set assoc \<subseteq> set (activated_results S flt db p direct seen_topics)" by blast
    have "\<forall>x \<in> set assoc. re_id x \<notin> re_id ` set direct"
      using a(4) activated_paths [of S flt db p direct seen_topics] by (auto simp: list_all_iff path_ok_def)
    with direct_results_ok [OF direct] a(2,3) have d: "distinct (map re_id (direct @ assoc))"
      "length (direct @ assoc) \<le> effective_limit p" by (simp_all add: distinct_append_keys del: map_append) linarith
    obtain out where out: "rs = at_least (pr_min_score p) out" "map re_id out = map re_id (direct @ assoc)"
      unfolding rs a(1) present_results_def by (metis ids_after_passes(3,4))
    from out(2) have "length out = length (direct @ assoc)" by (metis length_map)
    with d out show ?thesis
      by (auto simp: at_least_def list_all_iff distinct_filter_map intro!: order_trans [OF length_filter_le])
  qed
qed

end
