(* ===== verification/Search_Scope.thy ===== *)
theory Search_Scope
  imports Search_Laws
begin

text \<open>
  Where the results of a search come from. The locale \<open>candidate_channel\<close> is what
  \<open>collect_candidates\<close> relies on in a channel: it answers with rows that pass the filters. Each
  channel of \<open>retrieval/recall.rs\<close> is an interpretation of it.
\<close>

section \<open>Channels\<close>

text \<open>The conditions that every channel puts on a row.\<close>

definition base_passes :: "candidate_filters \<Rightarrow> note_row \<Rightarrow> bool" where
  "base_passes f r \<longleftrightarrow>
     (cf_only_active f \<longrightarrow> nr_is_active r = 1) \<and>
     (case cf_layer f of None \<Rightarrow> True | Some l \<Rightarrow> nr_layer r = l) \<and>
     identity_filter f r \<and> equals_if (cf_category f) (nr_category r) \<and>
     build_project_filter (cf_project_id f) (cf_cross_project f) r"

text \<open>The rows that a search asks for.\<close>

definition in_scope :: "search_params \<Rightarrow> note_row \<Rightarrow> bool" where
  "in_scope p r \<longleftrightarrow>
     (pr_only_active p \<longrightarrow> nr_is_active r = 1) \<and>
     (case pr_layer p of None \<Rightarrow> True | Some l \<Rightarrow> nr_layer r = l) \<and>
     (pr_include_constitution p \<or> pr_layer p = Some (lit ''identity_schema'') \<or>
      nr_layer r \<noteq> lit ''identity_schema'') \<and>
     equals_if (pr_category p) (nr_category r) \<and>
     (pr_cross_project p \<or> equals_if (pr_project_id p) (nr_project_id r))"

definition from_scope :: "search_params \<Rightarrow> note_row list \<Rightarrow> candidate \<Rightarrow> bool" where
  "from_scope p rows c \<longleftrightarrow> (\<exists>r \<in> set rows. in_scope p r \<and> ca_note c = from_row r)"

text \<open>The filters with which a search calls its channels.\<close>

definition filters_of :: "search_params \<Rightarrow> candidate_filters \<Rightarrow> bool" where
  "filters_of p f \<longleftrightarrow> f = base_filters p \<or>
     pr_layer p = None \<and>
     (\<exists>layer \<in> insert None (Some ` set (primary_layers (pr_include_constitution p))).
        f = with_layer layer (base_filters p))"

lemma filter_views:
  "cf_only_active (with_layer l (base_filters p)) = pr_only_active p"
  "cf_layer (with_layer l (base_filters p)) = l"
  "cf_category (with_layer l (base_filters p)) = pr_category p"
  "cf_include_constitution (with_layer l (base_filters p)) = pr_include_constitution p"
  "build_project_filter (cf_project_id (with_layer l (base_filters p)))
     (cf_cross_project (with_layer l (base_filters p))) r \<longleftrightarrow>
     pr_cross_project p \<or> equals_if (pr_project_id p) (nr_project_id r)"
  by (auto simp: with_layer_def base_filters_def build_project_filter_def)

lemma base_filters_layer: "base_filters p = with_layer (pr_layer p) (base_filters p)"
  by (simp add: with_layer_def base_filters_def)

lemma base_passes_in_scope:
  assumes "filters_of p f" "base_passes f r"
  shows "in_scope p r"
proof -
  from assms(1) base_filters_layer [of p] obtain l where f: "f = with_layer l (base_filters p)" and
    l: "l = pr_layer p \<or> pr_layer p = None \<and> (l = None \<or> (\<exists>x \<in> set (primary_layers (pr_include_constitution p)). l = Some x))"
    unfolding filters_of_def by blast
  from l have "l = pr_layer p \<or> pr_layer p = None \<and> (pr_include_constitution p \<or> l \<noteq> Some (lit ''identity_schema''))"
    by (auto simp: primary_layers_def simp del: lit_simps)
  with assms(2) show ?thesis
    unfolding f base_passes_def in_scope_def filter_views identity_filter_def by auto
qed

lemma passes_base: "passes_filters f r \<Longrightarrow> base_passes f r" "cjk_passes_filters f r \<Longrightarrow> base_passes f r"
  by (auto simp: passes_filters_def cjk_passes_filters_def base_passes_def layer_agent_filter_def
      simp del: lit_simps split: option.splits)

locale candidate_channel =
  fixes channel :: "'q \<Rightarrow> candidate_filters \<Rightarrow> candidate list" and rows :: "note_row list"
  assumes sound: "\<And>c q f. c \<in> set (channel q f) \<Longrightarrow> ca_note c \<in> from_row ` {r \<in> set rows. base_passes f r}"
begin

lemma channel_in_scope: "filters_of p f \<Longrightarrow> \<forall>c \<in> set (channel q f). from_scope p rows c"
  using sound base_passes_in_scope unfolding from_scope_def by blast

end

lemma plain_candidate_note [simp]: "ca_note (plain_candidate r) = from_row r"
  by (simp add: plain_candidate_def)

lemma fts_join_rows: "(r, x) \<in> set (fts_join matches rows) \<Longrightarrow> r \<in> set rows"
  by (auto simp: fts_join_def)

lemma like_fallback_rows:
  "c \<in> set (like_fallback flt query f limit rows) \<Longrightarrow> ca_note c \<in> from_row ` {r \<in> set rows. base_passes f r}"
  by (auto simp: like_fallback_def split: if_splits dest!: in_set_takeD intro!: imageI simp: passes_base)

interpretation fts: candidate_channel
    "\<lambda>(fts_query, original_query, limit) f. fts_candidates S flt db fts_query original_query f limit" "note_rows db"
  for S flt and db :: "'a search_db_scheme"
  by unfold_locales
    (auto simp: fts_candidates_def passes_base like_fallback_rows split: if_splits option.splits
      dest!: in_set_takeD fts_join_rows intro!: imageI)

lemma exact_order_rows [simp]: "set (exact_order query rows) = set rows"
  by (simp add: exact_order_def)

lemma matching_rows:
  "Some rs = map_option (\<lambda>matches. map fst (fts_join matches rows)) m \<Longrightarrow> \<forall>r \<in> set rs. r \<in> set rows"
  by (cases m) (auto dest: fts_join_rows)

interpretation exact: candidate_channel
    "\<lambda>(query, exclude_ids, limit) f. exact_substring_candidates S flt db query f exclude_ids limit" "note_rows db"
  for S flt and db :: "'a search_db_scheme"
  by unfold_locales
    (auto simp: exact_substring_candidates_def Let_def passes_base split: if_splits option.splits
      dest!: in_set_takeD matching_rows intro!: imageI)

interpretation cjk: candidate_channel
    "\<lambda>(query, exclude_ids) f. cjk_bigram_candidates flt rows query f exclude_ids" rows
  for flt rows
  by unfold_locales
    (auto simp: cjk_bigram_candidates_def Let_def split: if_splits dest!: in_set_takeD intro!: imageI simp: passes_base)

lemma vector_scan_rows:
  "(\<lambda>(c, s). ca_note c) ` set (fst acc) \<subseteq> R \<Longrightarrow> from_row ` set rows \<subseteq> R \<Longrightarrow>
   (\<lambda>(c, s). ca_note c) ` set (fst (fold (vector_step S qv exclude_ids) rows acc)) \<subseteq> R"
proof (induction rows arbitrary: acc)
  case (Cons r rows)
  have "(\<lambda>(c, s). ca_note c) ` set (fst (vector_step S qv exclude_ids r acc)) \<subseteq> R"
    using Cons.prems by (cases acc) (auto simp: vector_step_def Let_def split: option.split)
  with Cons show ?case by simp
qed simp

interpretation vector: candidate_channel
    "\<lambda>(qv, limit, exclude_ids, stats) f.
       fst (vector_candidates_with_stats S flt rows qv f limit exclude_ids stats)" rows
  for S flt rows
proof
  fix c q f
  assume c: "c \<in> set ((\<lambda>(qv, limit, exclude_ids, stats) f.
      fst (vector_candidates_with_stats S flt rows qv f limit exclude_ids stats)) q f)"
  obtain qv limit exclude_ids stats where q: "q = (qv, limit, exclude_ids, stats)" by (cases q) auto
  let ?rows = "filter (\<lambda>r. (nr_vector_blob r \<noteq> None \<or> nr_vector_json r \<noteq> None) \<and> passes_filters f r) rows"
  have "(\<lambda>(c, s). ca_note c) ` set (fst (fold (vector_step S qv exclude_ids) ?rows ([], stats)))
      \<subseteq> from_row ` set ?rows"
    by (rule vector_scan_rows) simp_all
  then have "ca_note c \<in> from_row ` set ?rows"
    using c unfolding q vector_candidates_with_stats_def Let_def
    by (fastforce split: if_splits prod.splits dest!: in_set_takeD)
  then show "ca_note c \<in> from_row ` {r \<in> set rows. base_passes f r}"
    by (auto intro!: imageI simp: passes_base)
qed

section \<open>Collecting\<close>

definition all_from_scope :: "search_params \<Rightarrow> note_row list \<Rightarrow> candidate list \<Rightarrow> bool" where
  "all_from_scope p rows cs \<longleftrightarrow> (\<forall>c \<in> set cs. from_scope p rows c)"

lemma all_from_scope_simps [simp]:
  "all_from_scope p rows []"
  "all_from_scope p rows (xs @ ys) \<longleftrightarrow> all_from_scope p rows xs \<and> all_from_scope p rows ys"
  by (auto simp: all_from_scope_def)

lemma set_add_candidates: "set (fst (add_candidates cs found)) \<subseteq> set (fst found) \<union> set cs"
  unfolding add_candidates_def
proof (induction cs arbitrary: found)
  case (Cons c cs)
  show ?case
  proof (cases "ca_id c \<in> snd found")
    case True
    with Cons show ?thesis by (cases found) fastforce
  next
    case False
    with Cons [of "(fst found @ [c], insert (ca_id c) (snd found))"] show ?thesis by (cases found) auto
  qed
qed simp

lemma add_from_scope:
  "all_from_scope p rows cs \<Longrightarrow> all_from_scope p rows (fst found) \<Longrightarrow>
   all_from_scope p rows (fst (add_candidates cs found))"
  using set_add_candidates [of cs found] by (auto simp: all_from_scope_def)

lemma filters_of_base [simp]: "filters_of p (base_filters p)"
  by (simp add: filters_of_def)

lemma filters_of_layer:
  "pr_layer p = None \<Longrightarrow> filters_of p (with_layer None (base_filters p))"
  "pr_layer p = None \<Longrightarrow> layer \<in> set (primary_layers (pr_include_constitution p)) \<Longrightarrow>
   filters_of p (with_layer (Some layer) (base_filters p))"
  by (auto simp: filters_of_def)

lemma channels_from_scope:
  "filters_of p f \<Longrightarrow> all_from_scope p (note_rows db) (fts_candidates S flt db fts_text query f limit)"
  "filters_of p f \<Longrightarrow> all_from_scope p (note_rows db) (exact_substring_candidates S flt db query f exclude_ids limit)"
  "filters_of p f \<Longrightarrow> all_from_scope p rows (cjk_bigram_candidates flt rows query f exclude_ids)"
  "filters_of p f \<Longrightarrow> all_from_scope p rows
     (fst (vector_candidates_with_stats S flt rows qv f limit exclude_ids stats))"
  using fts.channel_in_scope [where p = p and f = f and db = db and q = "(fts_text, query, limit)"]
    exact.channel_in_scope [where p = p and f = f and db = db and q = "(query, exclude_ids, limit)"]
    cjk.channel_in_scope [where p = p and f = f and rows = rows and q = "(query, exclude_ids)"]
    vector.channel_in_scope [where p = p and f = f and rows = rows and q = "(qv, limit, exclude_ids, stats)"]
  by (simp_all add: all_from_scope_def)

lemma vector_pass_from_scope:
  assumes "filters_of p f" "all_from_scope p rows (fst (fst acc))"
  shows "all_from_scope p rows (fst (fst (vector_pass S flt rows qv f limit acc)))"
proof -
  obtain found stats where acc: "acc = (found, stats)" by (cases acc)
  from channels_from_scope(4) [OF assms(1), of rows S flt qv limit "snd found" stats] assms(2) show ?thesis
    by (auto simp: acc vector_pass_def add_from_scope split: prod.split)
qed

lemma every_layer_from_scope:
  assumes "pr_layer p = None"
  shows "all_from_scope p (note_rows db)
    (fst (fst (collect_every_layer S flt db exact_query recall_query qv p candidate_limit limit skipped)))"
proof -
  note f = filters_of_layer [OF assms]
  define layers where "layers = primary_layers (pr_include_constitution p)"
  define t where "t = build_fts_query (se_lower S) recall_query"
  define found1 where "found1 = add_candidates
      (exact_substring_candidates S flt db exact_query (base_filters p) {} 12) ([], {})"
  define found2 where "found2 = fold (\<lambda>layer. add_candidates
      (fts_candidates S flt db t recall_query (with_layer (Some layer) (base_filters p)) 10)) layers found1"
  define found3 where "found3 = add_candidates
      (fts_candidates S flt db t recall_query (with_layer None (base_filters p)) candidate_limit) found2"
  have 1: "all_from_scope p (note_rows db) (fst found1)"
    by (simp add: found1_def add_from_scope channels_from_scope)
  have 2: "all_from_scope p (note_rows db) (fst found2)"
    unfolding found2_def
    by (rule fold_invariant [where P = "\<lambda>x. all_from_scope p (note_rows db) (fst x)" and Q = "\<lambda>l. l \<in> set layers"])
      (auto simp: 1 layers_def intro!: add_from_scope channels_from_scope f(2))
  have 3: "all_from_scope p (note_rows db) (fst found3)"
    by (simp add: found3_def add_from_scope channels_from_scope 2 f(1))
  have 4: "all_from_scope p (note_rows db) (fst (fst (vector_pass S flt (note_rows db) v
      (with_layer None (base_filters p)) (vector_limit limit)
      (fold (\<lambda>layer. vector_pass S flt (note_rows db) v (with_layer (Some layer) (base_filters p)) 8) layers
        (found3, {}, skipped)))))" for v
    by (intro vector_pass_from_scope f(1), rule fold_invariant
          [where P = "\<lambda>x. all_from_scope p (note_rows db) (fst (fst x))" and Q = "\<lambda>l. l \<in> set layers"])
      (auto simp: 3 layers_def intro!: vector_pass_from_scope f(2))
  show ?thesis
    unfolding collect_every_layer_def Let_def
    using 3 4 by (auto simp: found1_def [symmetric] found2_def [symmetric] found3_def [symmetric] t_def [symmetric]
        layers_def [symmetric] split: option.split prod.split) (metis fst_conv)
qed

lemma one_layer_from_scope:
  "all_from_scope p (note_rows db)
    (fst (fst (collect_one_layer S flt db exact_query recall_query qv p candidate_limit limit skipped)))"
proof -
  define found where "found = add_candidates
      (fts_candidates S flt db (build_fts_query (se_lower S) recall_query) recall_query (base_filters p) candidate_limit)
      (add_candidates (exact_substring_candidates S flt db exact_query (base_filters p) {} 12) ([], {}))"
  have "all_from_scope p (note_rows db) (fst found)"
    by (simp add: found_def add_from_scope channels_from_scope)
  moreover have "all_from_scope p (note_rows db) (fst (vector_candidates_with_stats S flt (note_rows db) v
      (base_filters p) (vector_limit limit) (snd found) ({}, skipped)))" for v
    by (simp add: channels_from_scope)
  ultimately show ?thesis
    unfolding collect_one_layer_def Let_def found_def [symmetric]
    by (auto split: option.split prod.split) (metis fst_conv)
qed

lemma recent_from_scope: "all_from_scope p rows (fetch_recent_rows flt rows p limit)"
  by (auto simp: all_from_scope_def fetch_recent_rows_def from_scope_def in_scope_def simp del: lit_simps
      dest!: in_set_takeD split: option.splits)

lemma collected_from_scope:
  "all_from_scope p (note_rows db)
    (fst (collect_candidates S flt db exact_query recall_query qv p candidate_limit limit d))"
proof -
  define found where "found = (if pr_layer p = None
      then collect_every_layer S flt db exact_query recall_query qv p candidate_limit limit
             (sg_dim_mismatch_skipped d)
      else collect_one_layer S flt db exact_query recall_query qv p candidate_limit limit
             (sg_dim_mismatch_skipped d))"
  have "all_from_scope p (note_rows db) (fst (fst found))"
    by (simp add: found_def every_layer_from_scope one_layer_from_scope)
  then show ?thesis
    unfolding collect_candidates_def found_def [symmetric]
    by (cases found) (auto simp: Let_def recent_from_scope add_from_scope channels_from_scope)
qed

lemma gathered_from_scope:
  assumes "gather_candidates S flt db p d = (cs, qv, d')"
  shows "all_from_scope p (note_rows db) cs"
proof -
  have c: "all_from_scope p (note_rows db) cs'"
    if "collect_candidates S flt db q rq v p cl l e = (cs', e')" for q rq v cl l e cs' e'
    using collected_from_scope [of p db S flt q rq v cl l e] that by simp
  from assms show ?thesis
    by (auto simp: gather_candidates_def Let_def recent_from_scope split: if_splits prod.splits dest: c)
qed

section \<open>Results\<close>

text \<open>The identifiers a row in scope answers with: its own, or that of its live head.\<close>

definition stands_for :: "search_stmt faults \<Rightarrow> 'a search_db_scheme \<Rightarrow> note_row \<Rightarrow> ustr \<Rightarrow> bool" where
  "stands_for flt db r i \<longleftrightarrow> nr_id r = i \<or>
     (\<exists>read h. snd (hydrate_head_by_canonical_or_topic (\<lambda>s. flt (CanonicalStmt s))
          (Some (nr_id r)) (nr_root_id r) (nr_topic_key r) db) = Ok read \<and> cr_note read = Some h \<and> hy_id h = i)"

definition answered :: "search_stmt faults \<Rightarrow> 'a search_db_scheme \<Rightarrow> search_params \<Rightarrow> ustr set" where
  "answered flt db p = {i. \<exists>r \<in> set (note_rows db). in_scope p r \<and> stands_for flt db r i}"

lemma no_entity_filter: "apply_project_entity_strong_filter L query cs = cs"
  by (simp add: apply_project_entity_strong_filter_def project_entity_filter_for_query_def PROJECT_ENTITY_FILTERS_def)

lemma score_candidates_mem:
  "score_candidates f seen cs = Some rs \<Longrightarrow> r \<in> set rs \<Longrightarrow> \<exists>c \<in> set cs. f c = Some r"
proof (induction cs arbitrary: seen rs)
  case (Cons c cs)
  from Cons.prems consider "score_candidates f seen cs = Some rs" | "f c = Some r"
    | s where "score_candidates f (insert (ca_id c) seen) cs = Some s" "r \<in> set s"
    by (auto split: if_splits option.splits)
  then show ?case using Cons.IH Cons.prems(2) by cases auto
qed simp

lemma score_candidate_views:
  "score_candidate S p query qv rrf ts c = Some r \<Longrightarrow>
   re_id r = ca_id c \<and> re_root_id r = hy_root_id (ca_note c) \<and> re_topic_key r = hy_topic_key (ca_note c)"
  by (auto simp: score_candidate_def scored_result_def Let_def)

lemma follow_to_head_answers:
  assumes "row \<in> set (note_rows db)" "in_scope p row"
    and "re_id r = nr_id row" "re_root_id r = nr_root_id row" "re_topic_key r = nr_topic_key row"
  shows "re_id (follow_to_head S flt db r) \<in> answered flt db p"
proof -
  have "stands_for flt db row (re_id (follow_to_head S flt db r))"
    unfolding stands_for_def follow_to_head_def assms(3-5)
    by (auto simp: assms(3) apply_canonical_head_def split: sum.split option.split)
  with assms(1,2) show ?thesis by (auto simp: answered_def)
qed

lemma direct_ids:
  assumes "direct_results S flt db query limit results = (results', seen_topics)"
  shows "re_id ` set results' \<subseteq> re_id ` set (follow_results_to_canonical_heads S flt db results)"
proof -
  define rs where "rs = dedupe_results_by_id (sort_by_score re_score (follow_results_to_canonical_heads S flt db results))"
  define adjusted where "adjusted = sort_by_score re_score (adjust_scores S query
      (normalize_result_scores (score_normalization_mode_from_env (se_normalize_env S)) rs))"
  have "set results' \<subseteq> set (take limit (fst (dedupe_results_by_topic_key adjusted)))"
    using assms subseq_type_diversity
    by (cases "dedupe_results_by_topic_key adjusted")
      (auto simp: direct_results_def Let_def adjusted_def [symmetric] rs_def [symmetric] dest: list_emb_set)
  also have "\<dots> \<subseteq> set (fst (dedupe_results_by_topic_key adjusted))" by (rule set_take_subset)
  also have "\<dots> \<subseteq> set adjusted"
    by (auto simp: dedupe_results_by_topic_key_def Let_def split: prod.split
        dest: list_emb_set [OF subseq_retain_indices])
  finally have "re_id ` set results' \<subseteq> re_id ` set adjusted" by blast
  moreover have "re_id ` set adjusted = re_id ` set rs"
    unfolding adjusted_def set_sort_by_score by (metis ids_after_passes(1,2) set_map)
  moreover have "set rs \<subseteq> set (follow_results_to_canonical_heads S flt db results)"
    unfolding rs_def using dedupe_results_by_id_ok
      [of "sort_by_score re_score (follow_results_to_canonical_heads S flt db results)"] by simp
  ultimately show ?thesis by blast
qed

lemma followed_ids:
  assumes "all_from_scope p (note_rows db) cs" "score_candidates (score_candidate S p query qv rrf ts) {} cs = Some rs"
  shows "re_id ` set (follow_results_to_canonical_heads S flt db rs) \<subseteq> answered flt db p"
proof -
  have "re_id (follow_to_head S flt db r) \<in> answered flt db p" if "r \<in> set rs" for r
  proof -
    from score_candidates_mem [OF assms(2) that] obtain c where
      c: "c \<in> set cs" "score_candidate S p query qv rrf ts c = Some r" by blast
    from assms(1) c(1) obtain row where row: "row \<in> set (note_rows db)" "in_scope p row" "ca_note c = from_row row"
      unfolding all_from_scope_def from_scope_def by blast
    from score_candidate_views [OF c(2)] show ?thesis
      by (intro follow_to_head_answers [OF row(1,2)]) (simp_all add: row(3) from_row_def)
  qed
  then show ?thesis by (auto simp: follow_results_to_canonical_heads_def)
qed

lemma shortcut_ids: "re_id ` set (shortcut_results S flt db p) \<subseteq> answered flt db p"
proof -
  have "re_id ` set (direct_fact_prefix_results S flt (note_rows db) p query limit) \<subseteq> answered flt db p"
    if "pr_layer p = None" "pr_category p = None" for query limit
    by (auto simp: direct_fact_prefix_results_def Let_def shortest_newest_def answered_def stands_for_def
        in_scope_def shortcut_filter_def equals_if_def that simp del: lit_simps dest!: in_set_takeD)
  then show ?thesis
    by (auto simp: shortcut_results_def Let_def entity_namespace_prepass_results_def
        project_entity_filter_for_query_def PROJECT_ENTITY_FILTERS_def simp del: lit_simps)
qed

text \<open>The stored notes that may be associations of the search.\<close>

definition associated :: "search_stmt faults \<Rightarrow> 'a search_db_scheme \<Rightarrow> search_params \<Rightarrow> ustr set" where
  "associated flt db p =
     nr_id ` {r \<in> set (note_rows db). association_in_scope flt db p r}"

text \<open>
  C13. Every result of a search is a stored row with the layer, category, project and activity the search asks
  for, the live head that such a row stands for, or, as an association, a stored note that is trusted, a live
  head and passes the same filters.
\<close>

theorem search_results_come_from_scope:
  assumes "search S flt db p = Some rs"
  shows "re_id ` set rs \<subseteq> answered flt db p \<union> associated flt db p"
proof (cases "shortcut_results S flt db p = []")
  case False
  then have "rs = shortcut_results S flt db p"
    using assms by (auto simp: search_def search_with_diagnostics_def search_inner_def Let_def)
  then show ?thesis using shortcut_ids [of S flt db p] by blast
next
  case True
  obtain cs qv d where gathered: "gather_candidates S flt db p no_diagnostics = (cs, qv, d)"
    using prod_cases3 by blast
  show ?thesis
  proof (cases "cs = []")
    case True
    with gathered \<open>shortcut_results S flt db p = []\<close> assms show ?thesis
      by (auto simp: search_def search_with_diagnostics_def search_inner_def Let_def no_entity_filter)
  next
    case False
    with gathered \<open>shortcut_results S flt db p = []\<close> assms obtain d' where
      ranked: "ranked_search S flt db p cs qv d = Some (rs, d')"
      by (auto simp: search_def search_with_diagnostics_def search_inner_def Let_def no_entity_filter)
    from ranked obtain scored direct seen_topics where
      direct: "re_id ` set (follow_results_to_canonical_heads S flt db scored) \<subseteq> answered flt db p"
        "direct_results S flt db (trim (pr_query p)) (effective_limit p) scored = (direct, seen_topics)" and
      rs: "rs = present_results S p qv
        (fst (spread_activation S flt db p direct (effective_limit p) seen_topics d))"
      by (rule ranked_search_stages) (metis followed_ids gathered_from_scope [OF gathered])
    from spread_activation_extends [of S flt db p direct "effective_limit p" seen_topics d] obtain assoc where
      a: "fst (spread_activation S flt db p direct (effective_limit p) seen_topics d) = direct @ assoc"
        "set assoc \<subseteq> set (activated_results S flt db p direct seen_topics)" by blast
    have near: "re_id ` set assoc \<subseteq> associated flt db p"
      using a(2) activated_paths [of S flt db p direct seen_topics] by (force simp: list_all_iff path_ok_def associated_def)
    have own: "re_id ` set direct \<subseteq> answered flt db p" using direct_ids [OF direct(2)] direct(1) by blast
    have "re_id ` set rs \<subseteq> re_id ` set direct \<union> re_id ` set assoc"
      using present_ids [of S p qv "direct @ assoc"] by (simp add: rs a(1) image_Un)
    also have "\<dots> \<subseteq> answered flt db p \<union> associated flt db p"
      using own near by (rule Un_mono)
    finally show ?thesis .
  qed
qed

end
