(* ===== verification/Recall_Laws.thy ===== *)
theory Recall_Laws
  imports Search_Scope
begin

text \<open>
  The latest recall of a note, and what the search does not promise: which of its filters the
  shortcuts leave out, and where full-text search gives up.
\<close>

section \<open>The latest recall\<close>

definition of_note :: "ustr \<Rightarrow> int \<times> ustr \<times> ustr \<Rightarrow> bool" where
  "of_note n row \<longleftrightarrow> fst (snd row) = n"

definition display_of :: "search_lib \<Rightarrow> ustr \<Rightarrow> ustr option" where
  "display_of S t = (case parse_recall_timestamp S t of Ok (dt, display) \<Rightarrow> Some display | Err e \<Rightarrow> None)"

lemma recall_step_other:
  "\<not> of_note n row \<Longrightarrow> map_of (fst (recall_step S row (out, tainted))) n = map_of out n \<and>
   (n \<in> snd (recall_step S row (out, tainted)) \<longleftrightarrow> n \<in> tainted)"
  by (cases row) (auto simp: recall_step_def of_note_def map_add_def split: sum.split prod.split option.split)

lemma recall_step_resolved:
  "map_of out n \<noteq> None \<or> n \<in> tainted \<Longrightarrow>
   map_of (fst (recall_step S row (out, tainted))) n = map_of out n \<and>
   (map_of out n \<noteq> None \<or> n \<in> snd (recall_step S row (out, tainted)))"
  by (cases row) (auto simp: recall_step_def map_add_def split: sum.split prod.split option.split)

lemma recall_fold_resolved:
  "map_of out n \<noteq> None \<or> n \<in> tainted \<Longrightarrow>
   map_of (fst (fold (recall_step S) rows (out, tainted))) n = map_of out n"
proof (induction rows arbitrary: out tainted)
  case (Cons row rows)
  obtain out' tainted' where step: "recall_step S row (out, tainted) = (out', tainted')" by fastforce
  from recall_step_resolved [OF Cons.prems, of S row] Cons.IH [of out' tainted'] show ?case
    by (simp add: step)
qed simp

lemma recall_fold:
  "map_of out n = None \<Longrightarrow> n \<notin> tainted \<Longrightarrow>
   map_of (fst (fold (recall_step S) rows (out, tainted))) n =
     (case filter (of_note n) rows of [] \<Rightarrow> None | row # rest \<Rightarrow> display_of S (snd (snd row)))"
proof (induction rows arbitrary: out tainted)
  case (Cons row rows)
  obtain out' tainted' where step: "recall_step S row (out, tainted) = (out', tainted')" by fastforce
  show ?case
  proof (cases "of_note n row")
    case True
    then have both: "map_of out' n = display_of S (snd (snd row)) \<and> (map_of out' n \<noteq> None \<or> n \<in> tainted')"
      using step Cons.prems
      by (cases row) (auto simp: recall_step_def of_note_def display_of_def map_add_def
          split: sum.splits prod.splits option.splits)
    with True show ?thesis by (simp add: step recall_fold_resolved [OF both [THEN conjunct2]])
  next
    case False
    with recall_step_other [OF False, of S out tainted] Cons show ?thesis by (simp add: step)
  qed
qed simp

lemma recall_rows_of:
  "n \<in> ids \<Longrightarrow> filter (of_note n) (recall_rows ids rows) = sort_desc (\<lambda>(i, m, t). i) (filter (of_note n) rows)"
proof -
  assume n: "n \<in> ids"
  have "filter (of_note n) (recall_rows ids rows) =
      sort_key (\<lambda>(i, m, t). m) (sort_desc (\<lambda>(i, m, t). i)
        (filter (of_note n) (filter (\<lambda>(i, m, t). m \<in> ids) rows)))"
    by (simp add: recall_rows_def filter_sort filter_sort_desc)
  also have "\<dots> = sort_desc (\<lambda>(i, m, t). i) (filter (of_note n) (filter (\<lambda>(i, m, t). m \<in> ids) rows))"
    by (rule sort_key_const_on [of _ _ n]) (auto simp: of_note_def)
  also have "filter (of_note n) (filter (\<lambda>(i, m, t). m \<in> ids) rows) = filter (of_note n) rows"
    using n by (auto simp: of_note_def intro: filter_cong)
  finally show ?thesis .
qed

lemma sort_desc_head_max:
  assumes "x \<in> set xs" "\<And>y. y \<in> set xs \<Longrightarrow> y \<noteq> x \<Longrightarrow> f y < f x"
  shows "\<exists>rest. sort_desc f xs = x # rest"
proof (cases "sort_desc f xs")
  case Nil
  with assms(1) show ?thesis by (metis empty_iff list.set(1) set_sort_desc)
next
  case (Cons y rest)
  have "sort_desc f (sort_key (\<lambda>_. 0::nat) xs) = y # rest" by (simp add: sort_key_const_on Cons)
  with assms(1) have "y \<in> set xs \<and> f x \<le> f y" using sort_desc_head [of f "\<lambda>_. 0::nat" xs y rest x] by blast
  with assms(2) Cons show ?thesis by (metis leD)
qed

lemma latest_recall_newest:
  assumes "latest_recall_timestamps S flt db cs = Ok ts"
    and "recall_log db = Some rows" "flt (TableStmt (lit ''recall_log'')) = None"
    and "distinct (map fst rows)" "(i, n, t) \<in> set rows"
    and "\<forall>(j, m, u) \<in> set rows. m = n \<longrightarrow> j \<le> i"
  shows "map_of ts n = (if n \<in> ca_id ` set cs
    then (case parse_recall_timestamp S t of Ok (dt, display) \<Rightarrow> Some display | Err e \<Rightarrow> None) else None)"
proof -
  have ts: "ts = fst (fold (recall_step S) (recall_rows (ca_id ` set cs) rows) ([], {})) \<or> ts = [] \<and> cs = []"
    using assms(1-3) by (auto simp: latest_recall_timestamps_def table_exists_def Let_def simp del: lit_simps
        split: if_splits option.splits)
  have only: "y = (i, n, t)" if y: "y \<in> set rows" "of_note n y" "i \<le> fst y" for y
  proof -
    obtain j u where jy: "y = (j, n, u)" using y(2) by (cases y) (auto simp: of_note_def)
    with y assms(6) have "j = i" by fastforce
    with jy y(1) assms(4,5) show ?thesis by (auto dest: eq_key_imp_eq_value)
  qed
  show ?thesis
  proof (cases "n \<in> ca_id ` set cs")
    case True
    then have "cs \<noteq> []" by auto
    with ts have ts': "ts = fst (fold (recall_step S) (recall_rows (ca_id ` set cs) rows) ([], {}))" by simp
    have "\<exists>rest. sort_desc (\<lambda>(i, m, t). i) (filter (of_note n) rows) = (i, n, t) # rest"
    proof (rule sort_desc_head_max)
      show "(i, n, t) \<in> set (filter (of_note n) rows)" using assms(5) by (simp add: of_note_def)
      fix y assume y: "y \<in> set (filter (of_note n) rows)" "y \<noteq> (i, n, t)"
      then have "\<not> i \<le> fst y" using only [of y] by auto
      then show "(case y of (i, m, t) \<Rightarrow> i) < (case (i, n, t) of (i, m, t) \<Rightarrow> i)" by (cases y) simp
    qed
    then obtain rest where "filter (of_note n) (recall_rows (ca_id ` set cs) rows) = (i, n, t) # rest"
      unfolding recall_rows_of [OF True] by blast
    then have "map_of ts n = display_of S t" unfolding ts' by (simp add: recall_fold)
    with True show ?thesis by (simp add: display_of_def)
  next
    case False
    have "filter (of_note n) (recall_rows (ca_id ` set cs) rows) = []"
      using False by (auto simp: recall_rows_def of_note_def filter_empty_conv)
    with False ts show ?thesis by (auto simp: recall_fold)
  qed
qed

text \<open>
  Of a candidate's logged recalls the one with the highest row number counts: its time is what the
  ranking sees when it parses, and when it does not, none does, however good an older one is.
\<close>

theorem latest_recall_is_newest_or_none:
  assumes "latest_recall_timestamps S flt db cs = Ok ts"
    and "recall_log db = Some rows" "flt (TableStmt (lit ''recall_log'')) = None"
    and "distinct (map fst rows)" "(i, n, t) \<in> set rows"
    and "\<forall>(j, m, u) \<in> set rows. m = n \<longrightarrow> j \<le> i"
  shows "map_of ts n = (if n \<in> ca_id ` set cs
    then (case parse_recall_timestamp S t of Ok (dt, display) \<Rightarrow> Some display | Err e \<Rightarrow> None) else None)"
  by (rule latest_recall_newest [OF assms])

section \<open>What the shortcuts leave out\<close>

definition narrowed :: "ustr option \<Rightarrow> ustr option \<Rightarrow> ustr option \<Rightarrow> ustr option \<Rightarrow> search_params \<Rightarrow> search_params" where
  "narrowed room agent_id start_time end_time p =
     p\<lparr>pr_room := room, pr_agent_id := agent_id, pr_start_time := start_time, pr_end_time := end_time\<rparr>"

lemma narrowed_views:
  "shortcut_filter (narrowed room agent_id start_time end_time p) = shortcut_filter p"
  "above_min_score (narrowed room agent_id start_time end_time p) = above_min_score p"
  "effective_mode (narrowed room agent_id start_time end_time p) = effective_mode p"
  "effective_limit (narrowed room agent_id start_time end_time p) = effective_limit p"
  "pr_query (narrowed room agent_id start_time end_time p) = pr_query p"
  "pr_layer (narrowed room agent_id start_time end_time p) = pr_layer p"
  "pr_category (narrowed room agent_id start_time end_time p) = pr_category p"
  by (simp_all add: fun_eq_iff narrowed_def shortcut_filter_def above_min_score_def effective_mode_def
      effective_limit_def del: lit_simps)

lemma narrowed_shortcuts:
  "direct_fact_prefix_results S flt rows (narrowed room agent_id start_time end_time p) = direct_fact_prefix_results S flt rows p"
  "entity_namespace_prepass_results S flt rows (narrowed room agent_id start_time end_time p) =
     entity_namespace_prepass_results S flt rows p"
  unfolding direct_fact_prefix_results_def entity_namespace_prepass_results_def narrowed_views by (rule refl)+

lemma shortcut_views:
  "shortcut_results S flt db (narrowed room agent_id start_time end_time p) = shortcut_results S flt db p"
  unfolding shortcut_results_def narrowed_views narrowed_shortcuts ..

text \<open>A fact that begins with the query, in any case of its ASCII letters.\<close>

definition begins_as_fact :: "ustr \<Rightarrow> note_row \<Rightarrow> bool" where
  "begins_as_fact query r \<longleftrightarrow>
     (let start = lit ''[FACT] '' @ query
      in to_ascii_lowercase (take (length start) (nr_content r)) = to_ascii_lowercase start)"

lemma lowercase_start:
  "(\<exists>a b. t = a @ b \<and> to_ascii_lowercase a = to_ascii_lowercase v) \<longleftrightarrow>
   to_ascii_lowercase (take (length v) t) = to_ascii_lowercase v"
proof
  assume "\<exists>a b. t = a @ b \<and> to_ascii_lowercase a = to_ascii_lowercase v"
  then obtain a b where t: "t = a @ b" "to_ascii_lowercase a = to_ascii_lowercase v" by blast
  then have "length (to_ascii_lowercase a) = length (to_ascii_lowercase v)" by simp
  then have "length a = length v" by (simp only: to_ascii_lowercase_def length_map)
  with t show "to_ascii_lowercase (take (length v) t) = to_ascii_lowercase v" by simp
next
  assume "to_ascii_lowercase (take (length v) t) = to_ascii_lowercase v"
  then show "\<exists>a b. t = a @ b \<and> to_ascii_lowercase a = to_ascii_lowercase v"
    by (intro exI [of _ "take (length v) t"] exI [of _ "drop (length v) t"]) simp
qed

lemma fact_pattern:
  "sql_like (Some 92) (lit ''[FACT] '' @ escape_like_pattern query @ [37]) (nr_content r) \<longleftrightarrow>
   begins_as_fact query r"
proof -
  have "concat (map escaped_char (lit ''[FACT] '')) = lit ''[FACT] ''" by code_simp
  then have "lit ''[FACT] '' @ escape_like_pattern query @ [37] =
      concat (map escaped_char (lit ''[FACT] '' @ query)) @ [37]"
    by (simp add: escape_like_pattern_chars del: lit_simps)
  then show ?thesis
    by (simp only: sql_like_escaped sql_like_any simp_thms begins_as_fact_def Let_def lowercase_start)
qed

lemma fact_prefix_results:
  assumes "query \<noteq> []" "trim query = query" "limit \<noteq> 0" "flt DirectFactStmt = None" "xle (pr_min_score p) (Fin 0)"
  shows "map re_id (direct_fact_prefix_results S flt rows p query limit) =
     map nr_id (take limit (sort_key fact_first (shortest_newest
       (filter (\<lambda>r. begins_as_fact query r \<and> shortcut_filter p r) rows))))"
proof -
  have "filter (above_min_score p) xs = xs" for xs
    using assms(5) by (simp add: above_min_score_def)
  then show ?thesis
    using assms(1-4)
    by (simp add: direct_fact_prefix_results_def Let_def fact_pattern comp_def search_result_from_note_def
        from_row_def del: lit_simps)
qed

text \<open>
  C32. A search in the automatic mode, of no layer or category and of no score floor, whose query of several
  words begins a stored fact of the project is answered by the facts that begin with the query, those of the
  verified layer first, then the shortest, then the newest, up to the limit: whatever room, agent and time
  window it is narrowed to.
\<close>

theorem fact_shortcut_ignores_room_agent_and_time:
  assumes "effective_mode p = lit ''auto''" "pr_layer p = None" "pr_category p = None"
    and "trim (pr_query p) \<noteq> []" "should_try_lexical_first (se_lower S) (trim (pr_query p))"
    and "xle (pr_min_score p) (Fin 0)" "flt DirectFactStmt = None"
    and "\<exists>r \<in> set (note_rows db). begins_as_fact (trim (pr_query p)) r \<and> shortcut_filter p r"
  shows "\<exists>rs. rs \<noteq> [] \<and> search S flt db (narrowed room agent_id start_time end_time p) = Some rs \<and>
     map re_id rs = map nr_id (take (effective_limit p) (sort_key fact_first (shortest_newest
       (filter (\<lambda>r. begins_as_fact (trim (pr_query p)) r \<and> shortcut_filter p r) (note_rows db)))))"
proof -
  let ?direct = "direct_fact_prefix_results S flt (note_rows db) p (trim (pr_query p)) (effective_limit p)"
  let ?rows = "filter (\<lambda>r. begins_as_fact (trim (pr_query p)) r \<and> shortcut_filter p r) (note_rows db)"
  have limit: "effective_limit p \<noteq> 0" by (simp add: effective_limit_def)
  have ids: "map re_id ?direct = map nr_id (take (effective_limit p) (sort_key fact_first (shortest_newest ?rows)))"
    by (rule fact_prefix_results [where flt = flt and p = p, OF assms(4) trim_trim limit assms(7,6)])
  from assms(8) have "?rows \<noteq> []" by (auto simp: filter_empty_conv)
  then have "sort_key fact_first (shortest_newest ?rows) \<noteq> []"
    by (simp add: shortest_newest_def set_empty [symmetric] del: set_empty)
  then have "map re_id ?direct \<noteq> []" unfolding ids using limit by simp
  then have "?direct \<noteq> []" by (rule contrapos_nn) simp
  moreover from this assms(1-3,5) have "shortcut_results S flt db p = ?direct"
    by (simp add: shortcut_results_def Let_def)
  ultimately have "search S flt db (narrowed room agent_id start_time end_time p) = Some ?direct"
    by (simp add: search_def search_with_diagnostics_def search_inner_def shortcut_views Let_def)
  with ids \<open>?direct \<noteq> []\<close> show ?thesis by blast
qed

section \<open>Where full text gives up\<close>

lemma fts_error_finds_nothing:
  assumes "flt (FtsStmt (cf_layer f)) = None" "se_fts S (notes_fts db) t = None"
  shows "fts_candidates S flt db t original_query f limit = []"
  using assms by (simp add: fts_candidates_def)

text \<open>
  A query of plain words goes to FTS5 as it is, operators such as NOT among them; when FTS5 then reports
  an error the full-text channel is empty, and the LIKE fallback, which would find the text, does not
  run.
\<close>

theorem rejected_expression_skips_like_fallback:
  assumes "\<forall>w \<in> set ws. w \<noteq> [] \<and> (\<forall>c \<in> set w. plain_char c)"
    and "flt (FtsStmt (cf_layer f)) = None" "se_fts S (notes_fts db) (join_with [32] ws) = None"
  shows "fts_candidates S flt db (build_fts_query L (join_with [32] ws)) (join_with [32] ws) f limit = []"
  unfolding plain_words_pass [OF assms(1)] using assms(2,3) by (rule fts_error_finds_nothing)

end
