(* ===== verification/Canonical_Laws.thy ===== *)
theory Canonical_Laws
  imports Canonical_Reader Note_Outcomes
begin

text \<open>
  The writer and the canonical reader together: the primary key of the notes table holds in
  every reachable database, so the reader's laws apply there, and a note the writer has
  retired is never read again. With the inputs that instantiate the reader's properties.
\<close>

section \<open>The primary key in every run\<close>

definition note_keys :: "'a notes_db_scheme \<Rightarrow> bool" where
  "note_keys db \<longleftrightarrow> keys_ok nr_id (note_rows db)"

lemma note_keys_frame [simp]:
  "note_keys (db\<lparr>notes_fts := a\<rparr>) = note_keys db"
  "note_keys (db\<lparr>sessions := b\<rparr>) = note_keys db"
  "note_keys (db\<lparr>note_events := c\<rparr>) = note_keys db"
  "note_keys (db\<lparr>note_relations := d\<rparr>) = note_keys db"
  "note_keys (db\<lparr>dream_candidates := e\<rparr>) = note_keys db"
  by (simp_all add: note_keys_def)

lemma note_keys_update:
  "note_keys db \<Longrightarrow> (\<And>r. nr_id (f r) = nr_id r) \<Longrightarrow>
   note_keys (db\<lparr>note_rows := row_update P f (note_rows db)\<rparr>)"
  by (auto simp: note_keys_def)

lemma note_keys_upsert:
  "note_keys db \<Longrightarrow> note_keys (db\<lparr>note_rows := upsert_note_row c n (note_rows db)\<rparr>)"
  by (auto simp: note_keys_def upsert_note_row_def Let_def inserted_row_def conflict_row_def
      split: option.splits intro!: keys_ok_insert keys_ok_update)

lemma note_keys_dream_loop: "op_keeps note_keys (dream_loop J flt c k' out r cands n)"
proof (induction cands arbitrary: n)
  case Nil
  show ?case by (simp add: keeps_intros)
next
  case (Cons a cands)
  have "op_keeps note_keys (update_dream flt c out r a)"
    unfolding update_dream_def by (rule op_keeps_exec) (auto split: option.splits)
  moreover have "op_keeps note_keys (insert_note_event flt c k' ty x p)" for ty x p
    unfolding insert_note_event_def by (rule op_keeps_exec) auto
  ultimately show ?case using Cons by (auto intro!: keeps_intros)
qed

lemma note_keys_cmd: "op_keeps note_keys (run_cmd J flt c cmd)"
proof (cases cmd)
  case (CmdUpsert n)
  then show ?thesis
    by (auto simp: upsert_note_def upsert_session_def intro!: keeps_intros op_keeps_exec note_keys_upsert)
next
  case (CmdDream k' out r)
  then show ?thesis
    by (auto simp: apply_dream_feedback_def intro!: keeps_intros note_keys_dream_loop)
next
  case (CmdSupersede a b r)
  then show ?thesis
    by (auto simp: mark_superseded_def insert_note_relation_def
        simp del: lit_simps intro!: keeps_intros op_keeps_exec note_keys_update)
qed (auto simp: cmd_defs Let_def simp del: lit_simps intro!: keeps_intros op_keeps_exec note_keys_update)

lemma note_keys_run: "note_keys db \<Longrightarrow> note_keys (run_cmds J cmds db)"
  by (rule run_cmds_invariant [where C = UNIV]) (auto intro: in_txn_keeps note_keys_cmd)

lemma retired_at_run: "retired_at k db \<Longrightarrow> retired_at k (run_cmds J cmds db)"
  by (rule run_cmds_invariant [where C = UNIV]) (auto intro: in_txn_keeps retired_at_cmd)

lemma live_head_not_retired: "live_head r \<Longrightarrow> \<not> retired r"
  by (auto simp: live_head_def retired_def simp del: lit_simps split: option.splits)

lemma reference_read_live:
  assumes "cr_note (canonical_reference rows seed) = Some n"
  shows "\<exists>row. n = from_row row \<and> row \<in> set rows \<and> live_head row"
  using assms unfolding canonical_reference_def
  by (rule resolve_seed_note) (use best_head_newest in \<open>fastforce simp: newest_head_def\<close>)+

text \<open>
  C26. Supersession holds across components: once a note is superseded, contradicted or
  deprecated, no canonical read returns it, whatever the writer does afterwards and
  whichever statements of the writer or of the read fail.
\<close>

theorem retired_note_never_read:
  assumes "keys_ok nr_id (note_rows db)" "row_get nr_id k (note_rows db) = Some r"
    and "nr_evolution_state r = Some st" "st \<noteq> lit ''active''"
    and "hydrate_head_by_canonical_or_topic flt note_id root_id topic_key (run_cmds J cmds db) =
      (db', Ok read)" "cr_note read = Some n"
  shows "hy_id n \<noteq> k"
proof
  assume n: "hy_id n = k"
  let ?db = "run_cmds J cmds db"
  have keys: "keys_ok nr_id (note_rows ?db)"
    using note_keys_run [of db J cmds] assms(1) by (simp add: note_keys_def)
  have "retired_at k ?db"
    using assms(2-4) by (intro retired_at_run) (simp add: retired_at_def retired_def)
  then obtain r' where r': "row_get nr_id k (note_rows ?db) = Some r'" "retired r'"
    by (auto simp: retired_at_def)
  obtain row where "n = from_row row" "row \<in> set (note_rows ?db)" "live_head row"
    using hydrate_head_Ok [OF assms(5) keys] assms(6) reference_read_live by blast
  with n row_get_in [OF keys] r' live_head_not_retired show False
    by (auto simp: from_row_def)
qed

section \<open>Sample reads\<close>

definition head_row :: note_row where
  "head_row = demo_row\<lparr>nr_root_id := Some (lit ''root''), nr_is_head := Some 1\<rparr>"

definition old_row :: note_row where
  "old_row = demo_row\<lparr>nr_id := lit ''m'', nr_root_id := Some (lit ''root''), nr_is_head := Some 0,
     nr_is_active := 0, nr_evolution_state := Some (lit ''superseded'')\<rparr>"

definition read_db :: notes_db where
  "read_db = (empty_notes_db [])\<lparr>note_rows := [old_row, head_row]\<rparr>"

definition read_seed :: canonical_seed where
  "read_seed = \<lparr>cs_seed_id = single_seed, cs_note_id = Some (lit ''m''), cs_root_id = None, cs_topic_key = None\<rparr>"

lemma read_db_keys: "keys_ok nr_id (note_rows read_db)"
  by (simp add: read_db_def keys_ok_def old_row_def head_row_def demo_row_def demo_note_def inserted_row_def)

lemma read_seed_reference:
  "canonical_reference (note_rows read_db) read_seed =
     \<lparr>cr_note = Some (from_row head_row), cr_source = Canonical\<rparr>"
  by code_simp

lemma read_seed_clean: "clean_seed read_seed"
  by (simp add: clean_seed_def read_seed_def normalized_opt_def)

theorem canonical_reads_resolve_witness:
  "\<exists>m. hydrate_heads_by_canonical_or_topic no_faults [read_seed] read_db = (read_db, Ok m) \<and>
     m single_seed = Some \<lparr>cr_note = Some (from_row head_row), cr_source = Canonical\<rparr>"
  using canonical_reads_resolve [OF read_db_keys, of "[read_seed]" read_seed]
    read_seed_clean read_seed_reference by (simp add: read_seed_def)

lemma sample_read:
  "\<exists>read. hydrate_head_by_canonical_or_topic no_faults (Some (lit ''m'')) None None read_db = (read_db, Ok read) \<and>
     cr_note read = Some (from_row head_row)"
proof -
  obtain m where m: "hydrate_heads_by_canonical_or_topic no_faults
      [\<lparr>cs_seed_id = single_seed, cs_note_id = normalized_opt (Some (lit ''m'')),
        cs_root_id = normalized_opt None, cs_topic_key = normalized_opt None\<rparr>] read_db = (read_db, Ok m)"
    using hydrate_heads_total by blast
  have seed: "\<lparr>cs_seed_id = single_seed, cs_note_id = normalized_opt (Some (lit ''m'')),
        cs_root_id = normalized_opt None, cs_topic_key = normalized_opt None\<rparr> = read_seed"
    by code_simp
  have "m single_seed = Some (canonical_reference (note_rows read_db) read_seed)"
    using hydrate_heads_Ok [OF m read_db_keys, of read_seed] read_seed_clean seed
    by (simp add: read_seed_def del: lit_simps)
  then show ?thesis
    using m unfolding hydrate_head_by_canonical_or_topic_def
    by (simp add: op_bind_Ok op_simps read_seed_reference)
qed

theorem canonical_read_is_newest_head_witness:
  "\<exists>read row. hydrate_head_by_canonical_or_topic no_faults (Some (lit ''m'')) None None read_db = (read_db, Ok read) \<and>
     cr_note read = Some (from_row head_row) \<and> from_row head_row = from_row row \<and>
     newest_head (read_field (cr_source read)) row (note_rows read_db)"
  using canonical_read_is_newest_head [OF read_db_keys] sample_read by blast

theorem retired_note_never_read_witness:
  "\<exists>read n. hydrate_head_by_canonical_or_topic no_faults (Some (lit ''m'')) None None (run_cmds (one_doc JNull) [] read_db)
       = (read_db, Ok read) \<and> cr_note read = Some n \<and> hy_id n \<noteq> lit ''m''"
proof -
  obtain read where read: "hydrate_head_by_canonical_or_topic no_faults (Some (lit ''m'')) None None
      (run_cmds (one_doc JNull) [] read_db) = (read_db, Ok read)" "cr_note read = Some (from_row head_row)"
    using sample_read by auto
  have "row_get nr_id (lit ''m'') (note_rows read_db) = Some old_row"
    by (simp add: read_db_def old_row_def)
  moreover have "nr_evolution_state old_row = Some (lit ''superseded'')" by (simp add: old_row_def)
  moreover have "lit ''superseded'' \<noteq> lit ''active''" by simp
  ultimately have "hy_id (from_row head_row) \<noteq> lit ''m''"
    using retired_note_never_read [OF read_db_keys _ _ _ read] by blast
  with read show ?thesis by blast
qed

end
