(* ===== verification/Search_Witness.thy ===== *)
theory Search_Witness
  imports Recall_Laws Canonical_Laws
begin

text \<open>Sample searches: the inputs at which the laws of the search are applied.\<close>

definition sample_lib :: search_lib where
  "sample_lib =
     \<lparr>se_score = \<lparr>sl_lower = (\<lambda>s. s), sl_exp = (\<lambda>x. x), sl_ln = (\<lambda>x. x),
        sl_parse_rfc3339 = (\<lambda>s. if s = lit ''t2'' then Some (2, 0) else None),
        sl_parse_naive = (\<lambda>s f. None), sl_now = (0, 0)\<rparr>,
      se_json = (\<lambda>s. None), se_scoring_metadata = (\<lambda>s. None), se_parse_f32s = (\<lambda>s. None),
      se_parse_f64s = (\<lambda>s. None), se_parse_strings = (\<lambda>s. None), se_fts = (\<lambda>rows q. None),
      se_embed = (\<lambda>s. None), se_normalize_env = None, se_to_rfc3339 = (\<lambda>dt. [])\<rparr>"

definition alpha_row :: note_row where
  "alpha_row = demo_row\<lparr>nr_id := lit ''a1'', nr_layer := lit ''verified_fact'', nr_project_id := Some (lit ''alpha''), nr_topic_key := Some (lit ''t''),
     nr_root_id := None, nr_is_head := Some 1, nr_created_at := Some (lit ''1'')\<rparr>"

definition beta_row :: note_row where
  "beta_row = demo_row\<lparr>nr_id := lit ''b1'', nr_layer := lit ''verified_fact'', nr_project_id := Some (lit ''beta''), nr_topic_key := Some (lit ''t''),
     nr_root_id := Some (lit ''b1''), nr_is_head := Some 1, nr_created_at := Some (lit ''2'')\<rparr>"

definition sample_db :: search_db where
  "sample_db =
     \<lparr>note_rows = [alpha_row, beta_row], notes_fts = [], sessions = [], note_events = [], note_relations = [],
      dream_candidates = None, notes_columns = [], recall_log = None, dream_columns = []\<rparr>"

text \<open>The newest notes of a project: a search without words.\<close>

definition project_search :: "ustr \<Rightarrow> search_params" where
  "project_search project =
     \<lparr>pr_query = [], pr_limit = 5, pr_layer = None, pr_category = None, pr_only_active = True,
      pr_agent_id = None, pr_project_id = Some project, pr_start_time = None, pr_end_time = None,
      pr_include_expired = False, pr_cross_project = False, pr_search_mode = None, pr_room = None,
      pr_min_score = Fin 0, pr_boost_categories = None, pr_include_constitution = False\<rparr>"

definition alpha_search :: search_params where
  "alpha_search = project_search (lit ''alpha'')"

lemmas sample_defs = sample_db_def alpha_row_def beta_row_def demo_row_def demo_note_def note_insert_default_def
  inserted_row_def

lemma sample_keys: "keys_ok nr_id (note_rows sample_db)"
  by (simp add: sample_defs keys_ok_def)

lemma alpha_views:
  "nr_id alpha_row = lit ''a1''" "nr_root_id alpha_row = None" "nr_topic_key alpha_row = Some (lit ''t'')"
  "nr_id beta_row = lit ''b1''" "nr_project_id beta_row = Some (lit ''beta'')"
  by (simp_all add: alpha_row_def beta_row_def del: lit_simps)

lemma project_search_views:
  "trim (pr_query (project_search q)) = []" "pr_project_id (project_search q) = Some q"
  "pr_min_score (project_search q) = Fin 0" "effective_limit (project_search q) = 5"
  "\<not> pr_cross_project (project_search q)" "effective_mode (project_search q) = lit ''auto''"
  by (simp_all add: project_search_def effective_limit_def effective_mode_def del: lit_simps)

text \<open>The notes such a search lists: active, of the project, and no rule of the constitution.\<close>

definition listed_rows :: "ustr \<Rightarrow> note_row list \<Rightarrow> note_row list" where
  "listed_rows q = filter (\<lambda>r. nr_is_active r = 1 \<and> nr_project_id r = Some q \<and>
     nr_layer r \<noteq> lit ''identity_schema'')"

lemma project_recent:
  assumes "listed_rows q rows = [r]"
  shows "fetch_recent_rows no_faults rows (project_search q) 50 = [plain_candidate r]"
  using assms by (simp add: fetch_recent_rows_def project_search_def equals_if_def sort_desc_def listed_rows_def)

lemma project_no_shortcut: "shortcut_results S flt db (project_search q) = []"
proof -
  have "trim [] = []" by (simp add: trim_def)
  then show ?thesis
    by (simp add: shortcut_results_def Let_def project_search_views entity_namespace_prepass_results_def
        direct_fact_prefix_results_def project_entity_filter_for_query_def PROJECT_ENTITY_FILTERS_def del: lit_simps)
qed

lemma project_gathered:
  assumes "listed_rows q (note_rows db) = [r]"
  shows "gather_candidates S no_faults db (project_search q) no_diagnostics =
     ([plain_candidate r], None, no_diagnostics)"
  using project_recent [OF assms]
  by (simp add: gather_candidates_def Let_def project_search_views candidate_limit_of_def)

lemma single_candidate_scored:
  "score_candidates (score_candidate S p [] qv [] ts) {} [c] = Some [scored_result S [] (map_of ts (ca_id c)) c (Fin 1)]"
  by (simp add: score_candidate_def Let_def score_result_def score_result_inner_def candidate_input_def)

lemma single_result:
  assumes "0 < limit"
  shows "\<exists>r'. fst (direct_results S flt db query limit [r]) = [r'] \<and> re_id r' = re_id (follow_to_head S flt db r)"
proof -
  define r1 where "r1 = follow_to_head S flt db r"
  have dedupe: "dedupe_results_by_id (sort_by_score re_score (follow_results_to_canonical_heads S flt db [r])) = [r1]"
    by (simp add: dedupe_results_by_id_def sort_by_score_def follow_results_to_canonical_heads_def r1_def)
  have "normalize_result_scores m [r1] = [r1]" for m by (simp add: normalize_result_scores_def)
  then obtain r2 where r2: "sort_by_score re_score (adjust_scores S query (normalize_result_scores m [r1])) = [r2]"
      "re_id r2 = re_id r1" for m
    by (simp add: adjust_scores_def sort_by_score_def)
  have topics: "fst (dedupe_results_by_topic_key [r2]) = [r2]"
    by (cases "result_topic r2")
      (simp_all add: dedupe_results_by_topic_key_def topic_step_def retain_indices_def sort_by_score_def Let_def)
  have "fst (direct_results S flt db query limit [r]) = [r2]"
    using assms topics
    by (cases "dedupe_results_by_topic_key [r2]")
      (simp add: direct_results_def Let_def dedupe r2 enforce_type_diversity_def)
  with r2(2) show ?thesis by (simp add: r1_def)
qed

text \<open>The live head that a note stands for: that of its lineage, or of its topic when the lineage has none.
  A topic's head may be a note of any project.\<close>

definition head_of :: "head_field \<Rightarrow> note_row list \<Rightarrow> note_row \<Rightarrow> hydrated option" where
  "head_of field rows r = Option.bind (normalized_opt (head_column field r)) (\<lambda>k. best_head field k rows)"

definition head_note :: "note_row list \<Rightarrow> note_row \<Rightarrow> ustr" where
  "head_note rows r =
     (case head_of RootId rows r of
        Some h \<Rightarrow> hy_id h
      | None \<Rightarrow> (case head_of TopicKey rows r of Some h \<Rightarrow> hy_id h | None \<Rightarrow> nr_id r))"

lemma followed_head:
  assumes keys: "keys_ok nr_id (note_rows db)" and row: "row \<in> set (note_rows db)" "trim (nr_id row) = nr_id row"
    and shows_row: "re_id r = nr_id row" "re_root_id r = nr_root_id row" "re_topic_key r = nr_topic_key row"
  shows "re_id (follow_to_head S no_faults db r) = head_note (note_rows db) row"
proof -
  let ?seed = "\<lparr>cs_seed_id = single_seed, cs_note_id = normalized_opt (Some (nr_id row)),
      cs_root_id = normalized_opt (nr_root_id row), cs_topic_key = normalized_opt (nr_topic_key row)\<rparr>"
  have "\<exists>read. hydrate_head_by_canonical_or_topic no_faults (Some (nr_id row)) (nr_root_id row) (nr_topic_key row) db =
      (db, Ok read)"
    unfolding hydrate_head_by_canonical_or_topic_def
    using hydrate_heads_total [of "[?seed]" db] by (auto simp: op_bind_Ok op_simps)
  then have read: "snd (hydrate_head_by_canonical_or_topic no_faults (Some (nr_id row)) (nr_root_id row)
      (nr_topic_key row) db) = Ok (canonical_reference (note_rows db) ?seed)"
    using hydrate_head_Ok [OF _ keys] by fastforce
  have lineage: "row_lineage (note_rows db) ?seed = note_lineage row \<or> row_lineage (note_rows db) ?seed = (None, None) \<and> nr_id row = []"
  proof (cases "nr_id row = []")
    case False
    with row row_get_in [OF keys row(1)] show ?thesis by (simp add: row_lineage_def normalized_value)
  qed (simp add: row_lineage_def normalized_opt_def normalized_str_def trim_def)
  have same: "or_else x x = x" for x :: "ustr option" by (simp add: or_else_def split: option.split)
  from lineage have own: "or_else (normalized_opt (nr_root_id row)) (fst (row_lineage (note_rows db) ?seed)) =
      normalized_opt (nr_root_id row) \<and>
      or_else (normalized_opt (nr_topic_key row)) (snd (row_lineage (note_rows db) ?seed)) =
      normalized_opt (nr_topic_key row)"
    by (elim disjE conjE; simp only:) (simp_all add: note_lineage_def same)
  have "snd (hydrate_head_by_canonical_or_topic (\<lambda>s. no_faults (CanonicalStmt s)) (Some (nr_id row)) (nr_root_id row)
      (nr_topic_key row) db) = Ok (canonical_reference (note_rows db) ?seed)"
    using read unfolding no_faults_simp [abs_def] .
  with own show ?thesis
    by (simp add: follow_to_head_def shows_row canonical_reference_def resolve_seed_def
        head_note_def head_of_def miss_def apply_canonical_head_def split: option.split)
qed

text \<open>
  C18. A search without words of a project that has one note to show answers with the note it stands for: the
  live head of its lineage when there is one, else the newest live head of its topic key, whatever project that
  is in, else the note itself.
\<close>

theorem search_answers_from_another_project:
  assumes "keys_ok nr_id (note_rows db)" "listed_rows project (note_rows db) = [row]"
    and "trim (nr_id row) = nr_id row"
  shows "\<exists>rs. search S no_faults db (project_search project) = Some rs \<and>
     (case head_of RootId (note_rows db) row of
        Some h \<Rightarrow> hy_id h \<in> re_id ` set rs
      | None \<Rightarrow>
          (case head_of TopicKey (note_rows db) row of
             Some h \<Rightarrow> hy_id h \<in> re_id ` set rs
           | None \<Rightarrow> nr_id row \<in> re_id ` set rs))"
proof -
  let ?p = "project_search project"
  let ?r = "\<lambda>ts. scored_result S [] (map_of ts (nr_id row)) (plain_candidate row) (Fin 1)"
  have "row \<in> set (listed_rows project (note_rows db))" unfolding assms(2) by simp
  then have row: "row \<in> set (note_rows db)" by (simp add: listed_rows_def)
  have head: "re_id (follow_to_head S no_faults db (?r ts)) = head_note (note_rows db) row" for ts
    by (rule followed_head [OF assms(1) row assms(3)]) (simp_all add: scored_result_def Let_def from_row_def [of row])
  define ts where "ts = (case latest_recall_timestamps S no_faults db [plain_candidate row] of
      Ok ts \<Rightarrow> ts | Err e \<Rightarrow> [])"
  obtain direct seen where direct: "direct_results S no_faults db [] 5 [?r ts] = (direct, seen)" by fastforce
  with single_result [of 5 S no_faults db "[]" "?r ts"] head obtain r' where
    r': "direct = [r']" "re_id r' = head_note (note_rows db) row" by auto
  obtain out d' where spread:
      "spread_activation S no_faults db ?p direct 5 seen no_diagnostics = (out, d')" by fastforce
  with spread_activation_extends [of S no_faults db ?p direct 5 seen no_diagnostics]
  have out: "r' \<in> set out" by (auto simp: r')
  have "search S no_faults db ?p = Some (present_results S ?p None out)"
    by (simp add: search_def search_with_diagnostics_def search_inner_def Let_def project_no_shortcut
        project_gathered [OF assms(2)] no_entity_filter ranked_search_def project_search_views
        single_candidate_scored ts_def [symmetric] direct spread from_row_def [of row] lit_inject
        del: lit_simps score_candidates.simps)
  moreover have "re_id ` set (present_results S ?p None out) = re_id ` set out"
    by (simp add: present_results_def at_least_def project_search_views del: lit_simps)
      (metis ids_after_passes(3,4) set_map)
  moreover have "head_note (note_rows db) row \<in> re_id ` set out" using out r'(2) by force
  ultimately show ?thesis by (auto simp: head_note_def split: option.split)
qed

text \<open>The note of one project whose topic's head is a note of another.\<close>

theorem search_answers_from_another_project_witness:
  "(\<exists>rs. search sample_lib no_faults sample_db alpha_search = Some rs \<and> nr_id beta_row \<in> re_id ` set rs) \<and>
   pr_project_id alpha_search = Some (lit ''alpha'') \<and> \<not> pr_cross_project alpha_search \<and>
   nr_project_id beta_row = Some (lit ''beta'')"
proof -
  have "listed_rows (lit ''alpha'') (note_rows sample_db) = [alpha_row]" by code_simp
  moreover have "head_of RootId (note_rows sample_db) alpha_row = None" by code_simp
  moreover have "trim (nr_id alpha_row) = nr_id alpha_row" by code_simp
  moreover have "map_option hy_id (head_of TopicKey (note_rows sample_db) alpha_row) = Some (nr_id beta_row)" by code_simp
  ultimately show ?thesis
    using search_answers_from_another_project [OF sample_keys, of "lit ''alpha''" alpha_row sample_lib]
    by (auto simp: alpha_search_def project_search_views beta_row_def simp del: lit_simps split: option.splits)
qed

section \<open>A fact in another room\<close>

definition fact_row :: note_row where
  "fact_row = alpha_row\<lparr>nr_content := lit ''[FACT] alpha beta gamma'', nr_room := Some (lit ''red'')\<rparr>"

definition fact_db :: search_db where
  "fact_db = sample_db\<lparr>note_rows := [fact_row]\<rparr>"

definition fact_search :: search_params where
  "fact_search = alpha_search\<lparr>pr_query := lit ''alpha beta''\<rparr>"

definition fact_result :: search_result where
  "fact_result = search_result_from_note sample_lib (from_row fact_row) (xlit 0.9996) (lit ''lexical'')"

lemma fact_direct:
  "direct_fact_prefix_results sample_lib no_faults (note_rows fact_db) fact_search (lit ''alpha beta'') 5 = [fact_result]"
proof -
  have query: "trim (lit ''alpha beta'') = lit ''alpha beta''" "lit ''alpha beta'' \<noteq> []" by code_simp+
  have like: "sql_like (Some 92) (lit ''[FACT] '' @ escape_like_pattern (lit ''alpha beta'') @ [37]) (nr_content fact_row)"
    by code_simp
  have pass: "shortcut_filter fact_search fact_row" by code_simp
  have floor: "above_min_score fact_search fact_result"
    by (simp add: above_min_score_def fact_search_def alpha_search_def project_search_def xle_def)
  show ?thesis
    unfolding direct_fact_prefix_results_def Let_def query(1)
    using query(2) like pass floor
    by (simp add: fact_db_def no_faults_simp shortest_newest_def sort_desc_def fact_result_def del: lit_simps)
qed

lemma fact_shortcut: "shortcut_results sample_lib no_faults fact_db fact_search = [fact_result]"
proof -
  have "trim (pr_query fact_search) = lit ''alpha beta''" "effective_limit fact_search = 5"
    "effective_mode fact_search = lit ''auto''" "pr_layer fact_search = None" "pr_category fact_search = None"
    "should_try_lexical_first (se_lower sample_lib) (lit ''alpha beta'')"
    by code_simp+
  then show ?thesis by (simp add: shortcut_results_def Let_def fact_direct del: lit_simps)
qed

lemma fact_search_answers: "search sample_lib no_faults fact_db fact_search = Some [fact_result]"
  by (simp add: search_def search_with_diagnostics_def search_inner_def Let_def fact_shortcut)

lemma fact_keys: "keys_ok nr_id (note_rows fact_db)"
  by (simp add: fact_db_def keys_ok_def)

theorem search_results_distinct_and_bounded_witness:
  "distinct (map re_id [fact_result]) \<and> length [fact_result] \<le> effective_limit fact_search"
  using search_results_distinct_and_bounded [OF fact_keys fact_search_answers] by blast

theorem search_results_come_from_scope_witness:
  "re_id ` set [fact_result] \<subseteq> answered no_faults fact_db fact_search \<union>
     associated no_faults fact_db fact_search"
  by (rule search_results_come_from_scope [OF fact_search_answers])

theorem fact_shortcut_ignores_room_agent_and_time_witness:
  "(\<exists>rs. search sample_lib no_faults fact_db (narrowed (Some (lit ''blue'')) None None None fact_search) = Some rs \<and>
     map re_id rs = [nr_id fact_row]) \<and> nr_room fact_row = Some (lit ''red'')"
proof -
  have conditions: "effective_mode fact_search = lit ''auto''" "pr_layer fact_search = None"
    "pr_category fact_search = None" "trim (pr_query fact_search) \<noteq> []"
    "should_try_lexical_first (se_lower sample_lib) (trim (pr_query fact_search))"
    "begins_as_fact (trim (pr_query fact_search)) fact_row" "shortcut_filter fact_search fact_row"
    by code_simp+
  have floor: "xle (pr_min_score fact_search) (Fin 0)"
    by (simp add: fact_search_def alpha_search_def project_search_def xle_def)
  have rows: "note_rows fact_db = [fact_row]" by (simp add: fact_db_def)
  have found: "\<exists>r \<in> set (note_rows fact_db). begins_as_fact (trim (pr_query fact_search)) r \<and> shortcut_filter fact_search r"
    using conditions(6,7) by (simp add: rows)
  have limit: "effective_limit fact_search = 5" by code_simp
  have one: "sort_key fact_first (shortest_newest [fact_row]) = [fact_row]"
    by (simp add: shortest_newest_def sort_desc_def)
  obtain rs where "search sample_lib no_faults fact_db (narrowed (Some (lit ''blue'')) None None None fact_search) = Some rs"
    "map re_id rs = [nr_id fact_row]"
    using fact_shortcut_ignores_room_agent_and_time [where flt = no_faults and room = "Some (lit ''blue'')" and
        agent_id = None and start_time = None and end_time = None, OF conditions(1-5) floor no_faults_simp found] conditions(6,7)
    by (auto simp: rows limit one)
  then show ?thesis by (simp add: fact_row_def del: lit_simps)
qed

section \<open>An operator word\<close>

theorem rejected_expression_skips_like_fallback_witness:
  "fts_candidates sample_lib no_faults sample_db (build_fts_query (\<lambda>s. s) (join_with [32] [lit ''NOT'', lit ''rust'']))
     (join_with [32] [lit ''NOT'', lit ''rust'']) (base_filters alpha_search) 5 = []"
proof (rule rejected_expression_skips_like_fallback)
  show "\<forall>w \<in> set [lit ''NOT'', lit ''rust'']. w \<noteq> [] \<and> (\<forall>c \<in> set w. plain_char c)"
    by code_simp
qed (simp_all add: no_faults_simp sample_lib_def)

section \<open>Recalls of one note\<close>

definition recalls :: "(int \<times> ustr \<times> ustr) list" where
  "recalls = [(1, lit ''a1'', lit ''t2''), (2, lit ''a1'', lit ''bad''), (3, lit ''b1'', lit ''t2'')]"

definition recall_db :: search_db where
  "recall_db = sample_db\<lparr>recall_log := Some recalls\<rparr>"

theorem latest_recall_is_newest_or_none_witness:
  "\<exists>ts. latest_recall_timestamps sample_lib no_faults recall_db [plain_candidate alpha_row, plain_candidate beta_row] = Ok ts \<and>
     map_of ts (lit ''b1'') = Some (lit ''t2'')"
proof -
  let ?cs = "[plain_candidate alpha_row, plain_candidate beta_row]"
  obtain ts where ts: "latest_recall_timestamps sample_lib no_faults recall_db ?cs = Ok ts"
    by (cases "table_exists no_faults (lit ''recall_log'') (recall_log recall_db \<noteq> None)")
      (auto simp: latest_recall_timestamps_def Let_def simp del: lit_simps)
  have "map_of ts (lit ''b1'') = (if lit ''b1'' \<in> ca_id ` set ?cs
      then (case parse_recall_timestamp sample_lib (lit ''t2'') of Ok (dt, display) \<Rightarrow> Some display | Err e \<Rightarrow> None)
      else None)"
    by (rule latest_recall_is_newest_or_none [OF ts, where i = 3 and rows = recalls])
      (simp_all add: recall_db_def recalls_def)
  also have "\<dots> = Some (lit ''t2'')"
    by (simp add: parse_recall_timestamp_def sample_lib_def from_row_def alpha_views del: lit_simps)
  finally show ?thesis using ts by blast
qed

section \<open>A linked note\<close>

definition linked_db :: search_db where
  "linked_db = sample_db\<lparr>note_relations := [\<lparr>rel_from = lit ''a1'', rel_to = lit ''b1'', rel_type = lit ''supports'',
     rel_strength = 1\<rparr>]\<rparr>"

definition root_result :: search_result where
  "root_result = search_result_from_note sample_lib (from_row alpha_row) (Fin 1) (lit ''lexical'')"

theorem associations_score_below_their_root_witness:
  "\<exists>associations. fst (spread_activation sample_lib no_faults linked_db (alpha_search\<lparr>pr_cross_project := True\<rparr>)
       [root_result] 5 {} no_diagnostics) = [root_result] @ associations \<and>
     list_all (score_ok [root_result]) associations"
proof -
  have strengths: "links_ok linked_db" by (simp add: links_ok_def linked_db_def)
  have scores: "scores_ok [root_result]" by (simp add: scores_ok_def root_result_def search_result_from_note_def)
  obtain associations where a: "fst (spread_activation sample_lib no_faults linked_db
      (alpha_search\<lparr>pr_cross_project := True\<rparr>) [root_result] 5 {} no_diagnostics) = [root_result] @ associations"
    using spread_activation_extends [of sample_lib no_faults linked_db "alpha_search\<lparr>pr_cross_project := True\<rparr>"
        "[root_result]" 5 "{}" no_diagnostics] by blast
  with associations_score_below_their_root [OF strengths scores a] show ?thesis by blast
qed

end
