(* ===== verification/Context_Laws.thy ===== *)
theory Context_Laws
  imports Context_Snapshot Result_Laws Search_Witness
begin

text \<open>
  What the context snapshots promise: a project's snapshot shows active notes, sessions and dreams
  of that project only; the workstreams are the busiest keys with their exact counts; the notes of
  a list are the first of the rows its query selects.
\<close>

section \<open>The scope of a snapshot\<close>



abbreviation shown_ids :: "json list \<Rightarrow> ustr option set" where
  "shown_ids items \<equiv> (\<lambda>j. Option.bind (json_get j (lit ''id'')) as_str) ` set items"


lemma item_ids:
  "json_get (context_note C r) (lit ''id'') = Some (JStr (nr_id r))"
  "json_get (review_item r) (lit ''id'') = Some (JStr (nr_id r))"
  "json_get (failed_item C r) (lit ''id'') = Some (JStr (nr_id r))"
  "json_get (with_relations flt db i (recent_item C r)) (lit ''id'') = Some (JStr (nr_id r))"
  "json_get (checkpoint_snapshot_json c) (lit ''id'') = Some (JStr (re_id c))"
  by (simp_all add: context_note_def review_item_def failed_item_def with_relations_def recent_item_def
      checkpoint_snapshot_json_def Let_def lit_inject split: prod.split del: lit_simps)



















section \<open>Workstreams\<close>

lemma sort_desc_take:
  assumes "x \<in> set (take n (sort_desc f xs))" "y \<in> set xs" "f x < f y"
  shows "y \<in> set (take n (sort_desc f xs))"
proof -
  let ?ys = "sort_desc f xs"
  have "sorted (map f (rev (take n ?ys @ drop n ?ys)))" by (simp add: sort_desc_def)
  then have "f z \<le> f x" if "z \<in> set (drop n ?ys)" for z
    using that assms(1) by (auto simp: sorted_append rev_map [symmetric] simp del: append_take_drop_id)
  moreover have "y \<in> set (take n ?ys) \<union> set (drop n ?ys)"
    using assms(2) by (metis append_take_drop_id set_append set_sort_desc)
  ultimately show ?thesis using assms(3) by (auto simp: not_le [symmetric])
qed

text \<open>The recent rows of a key.\<close>

definition writes_of :: "context_lib \<Rightarrow> ustr option \<Rightarrow> int \<Rightarrow> note_row list \<Rightarrow> ustr \<Rightarrow> nat" where
  "writes_of C project_id since_days rows key =
     length (filter (has_key C (SqlText key)) (recent_rows C project_id (since_days * 86400) rows))"

lemma key_text_Some: "key_text v = Some t \<longleftrightarrow> v = Ok (Some (SqlText t))"
  by (cases v rule: key_text.cases) auto

lemma text_group_key: "SqlText k \<in> set (group_keys C rows) \<longleftrightarrow> (\<exists>r \<in> set rows. has_key C (SqlText k) r)"
  by (auto simp: group_keys_def Let_def in_map_filter key_text_Some has_key_def image_iff) metis

lemma text_group:
  assumes "(SqlText key, n) \<in> set (workstream_groups C recent)"
  shows "n = length (filter (has_key C (SqlText key)) recent) \<and> 0 < n"
  using assms text_group_key [of key C recent]
  by (auto simp: workstream_groups_def filter_empty_conv)

text \<open>
  A workstream of the snapshot has the number of recent active notes of the project that
  carry its key, at least one, and every key with more of them is listed too: the list is the
  busiest keys with their exact counts.
\<close>

theorem workstreams_are_busiest_with_exact_counts:
  assumes "j \<in> set (list_active_workstreams C flt rows project_id since_days limit)"
    and "json_get j (lit ''key'') = Some (JStr key)"
  shows "json_get j (lit ''count'') = Some (JInt (int (writes_of C project_id since_days rows key))) \<and>
     0 < writes_of C project_id since_days rows key \<and>
     (\<forall>k. writes_of C project_id since_days rows key < writes_of C project_id since_days rows k \<longrightarrow>
        (\<exists>j' \<in> set (list_active_workstreams C flt rows project_id since_days limit).
           json_get j' (lit ''key'') = Some (JStr k)))"
proof -
  let ?recent = "recent_rows C project_id (since_days * 86400) rows"
  let ?groups = "take limit (workstream_groups C ?recent)"
  have run: "list_active_workstreams C flt rows project_id since_days limit =
      List.map_filter (workstream_item C project_id rows) ?groups"
    using assms(1) by (auto simp: list_active_workstreams_def Let_def split: if_splits)
  have item: "workstream_item C project_id rows (v, n) = Some j' \<and> json_get j' (lit ''key'') = Some
      (JStr k) \<longleftrightarrow>
      v = SqlText k \<and> workstream_item C project_id rows (SqlText k, n) = Some j'" for v n j' k
    by (cases v) (auto simp: workstream_item_def Let_def lit_inject simp del: lit_simps)
  have counted: "workstream_item C project_id rows (SqlText k, n) = Some j' \<Longrightarrow>
      json_get j' (lit ''count'') = Some (JInt (int n))" for k n j'
    by (auto simp: workstream_item_def Let_def lit_inject simp del: lit_simps)
  obtain n where n: "(SqlText key, n) \<in> set ?groups" "workstream_item C project_id rows (SqlText key, n)
      = Some j"
    using assms item unfolding run in_map_filter by (metis surj_pair)
  then have wn: "n = writes_of C project_id since_days rows key \<and> 0 < n"
    using text_group in_set_takeD unfolding writes_of_def by metis
  have "\<exists>j' \<in> set (List.map_filter (workstream_item C project_id rows) ?groups). json_get j'
      (lit ''key'') = Some (JStr k)"
    if more: "writes_of C project_id since_days rows key < writes_of C project_id since_days rows k" for
        k
  proof -
    let ?m = "writes_of C project_id since_days rows k"
    have "\<exists>r \<in> set ?recent. has_key C (SqlText k) r"
      using more by (auto simp: writes_of_def filter_empty_conv dest: gr_implies_not0)
    then have "(SqlText k, ?m) \<in> set (map (\<lambda>k. (k, length (filter (has_key C k) ?recent))) (group_keys C
        ?recent))"
      using text_group_key by (auto simp: writes_of_def)
    then have "(SqlText k, ?m) \<in> set ?groups"
      using sort_desc_take [OF n(1) [unfolded workstream_groups_def]] more wn
      by (simp add: workstream_groups_def)
    moreover obtain j' where "workstream_item C project_id rows (SqlText k, ?m) = Some j'"
      by (simp add: workstream_item_def Let_def)
    ultimately show ?thesis
      using item [of "SqlText k" ?m j' k] unfolding Bex_def in_map_filter by blast
  qed
  with n wn counted run show ?thesis by auto
qed

text \<open>
  One active recent note of the project whose metadata is not JSON empties the list of
  workstreams: the grouping query fails and the failure is read as no rows.
\<close>

theorem unreadable_note_hides_every_workstream:
  assumes "r \<in> set rows" "nr_is_active r = 1" "equals_if project_id (nr_project_id r)"
    and "is_recent_at C (since_days * 86400) (nr_created_at r)"
    and "nr_metadata_json r = Some m" "cl_extract C m (lit ''$.task_id'') = Err e"
  shows "list_active_workstreams C flt rows project_id since_days limit = []"
proof -
  have "r \<in> set (recent_rows C project_id (since_days * 86400) rows)"
    using assms by (simp add: recent_rows_def)
  moreover have "is_error (workstream_key C r)"
    using assms(5,6) by (simp add: workstream_key_def is_error_def del: lit_simps)
  ultimately show ?thesis by (auto simp: list_active_workstreams_def Let_def list_ex_iff)
qed

section \<open>Lists cut before they are filtered\<close>

lemma sort_desc_take_out:
  assumes "distinct xs" "x \<in> set xs" "n \<le> length (filter (\<lambda>y. f x < f y) xs)"
  shows "x \<notin> set (take n (sort_desc f xs))"
proof
  let ?ys = "take n (sort_desc f xs)"
  assume x: "x \<in> set ?ys"
  then have "insert x (set (filter (\<lambda>y. f x < f y) xs)) \<subseteq> set ?ys"
    using sort_desc_take [OF x] by auto
  then have "card (insert x (set (filter (\<lambda>y. f x < f y) xs))) \<le> card (set ?ys)"
    by (intro card_mono) simp_all
  also have "\<dots> \<le> n" by (metis card_length length_take min.boundedE)
  finally have "Suc (card (set (filter (\<lambda>y. f x < f y) xs))) \<le> n" by (simp add: card_insert_if)
  with assms(3) distinct_card [OF distinct_filter [OF assms(1)], of "\<lambda>y. f x < f y"] show False by simp
qed

text \<open>The notes the query for failed memories selects.\<close>

definition failed_selected :: "context_lib \<Rightarrow> ustr option \<Rightarrow> note_row \<Rightarrow> bool" where
  "failed_selected C project_id r \<longleftrightarrow>
     nr_is_active r = 1 \<and>
     (case nr_metadata_json r of None \<Rightarrow> False | Some m \<Rightarrow> jl_json_valid (cl_sql C) m) \<and>
     equals_if project_id (nr_project_id r)"

lemma failed_ids:
  "shown_ids (list_failed_memories C flt db project_id limit) \<subseteq>
     (\<lambda>r. Some (nr_id r)) ` set (take (limit * 3)
       (sort_desc nr_created_at (filter (failed_selected C project_id) (note_rows db))))"
  by (auto simp: list_failed_memories_def failed_selected_def [abs_def] item_ids intro!: imageI
      dest!: set_mp [OF set_take_subset, of _ _ "map _ _"] simp del: lit_simps)

text \<open>
  A failed note is left out of the snapshot's list of failed memories as soon as three times
  \<open>limit\<close> newer notes have readable metadata, whether or not any of those has failed: the rows are
  cut before the flags are looked at.
\<close>

theorem failed_note_hidden_by_newer_notes:
  fixes db :: "'a search_db_scheme"
  assumes "keys_ok nr_id (note_rows db)" "r \<in> set (note_rows db)"
    and "limit * 3 \<le> length (filter (\<lambda>x. failed_selected C project_id x \<and> nr_created_at r <
        nr_created_at x)
                               (note_rows db))"
  shows "Some (nr_id r) \<notin> shown_ids (list_failed_memories C flt db project_id limit)"
proof -
  let ?rows = "filter (failed_selected C project_id) (note_rows db)"
  have "r \<notin> set (take (limit * 3) (sort_desc nr_created_at ?rows))"
  proof (cases "r \<in> set ?rows")
    case True
    have "distinct ?rows" using assms(1) by (simp add: keys_ok_def distinct_map)
    from sort_desc_take_out [OF this True] show ?thesis using assms(3) by (simp add: conj_commute)
  qed (metis set_sort_desc set_take_subset subsetD)
  moreover have same: "x = r" if "x \<in> set (note_rows db)" "nr_id x = nr_id r" for x
    using that assms(1,2) by (auto simp: keys_ok_def distinct_map dest: inj_onD)
  moreover have "set (take (limit * 3) (sort_desc nr_created_at ?rows)) \<subseteq> set (note_rows db)"
    by (rule subset_trans [OF set_take_subset]) auto
  ultimately have different: "nr_id x \<noteq> nr_id r" if "x \<in> set (take (limit * 3) (sort_desc nr_created_at
      ?rows))" for x
    using that by blast
  have "Some (nr_id r) \<notin> (\<lambda>r. Some (nr_id r)) ` set (take (limit * 3) (sort_desc nr_created_at ?rows))"
  proof (rule ccontr)
    assume "\<not> ?thesis"
    then have "Some (nr_id r) \<in> (\<lambda>r. Some (nr_id r)) ` set (take (limit * 3) (sort_desc nr_created_at
        ?rows))"
      by (rule notnotD)
    then obtain x where "x \<in> set (take (limit * 3) (sort_desc nr_created_at ?rows))" "nr_id x = nr_id r"
      by (elim imageE) simp
    with different show False by blast
  qed
  moreover have "shown_ids (list_failed_memories C flt db project_id limit) \<subseteq>
      (\<lambda>r. Some (nr_id r)) ` set (take (limit * 3) (sort_desc nr_created_at ?rows))"
    by (rule failed_ids)
  ultimately show ?thesis by (rule contra_subsetD [rotated])
qed

text \<open>Sample snapshots: the inputs at which the laws of the context snapshots are applied.\<close>

text \<open>A library whose metadata is its own task id, and a failure report when it is \<open>bad\<close>; to
  SQLite the text \<open>bad\<close> is valid but cannot be searched.\<close>

definition sample_context :: context_lib where
  "sample_context =
     \<lparr>cl_search = sample_lib\<lparr>se_json := (\<lambda>m. if m = lit ''bad'' then Some (JObj [(lit ''failure_count'',
         JInt 1)])
        else None)\<rparr>,
      cl_sql = (one_doc JNull)\<lparr>jl_json_valid := (\<lambda>s. True)\<rparr>,
      cl_extract = (\<lambda>m path. if m = lit ''bad'' then Err (lit ''malformed JSON'')
        else if path = lit ''$.task_id'' then Ok (Some (SqlText m)) else Ok None),
      cl_epoch = (\<lambda>t. Some 0), cl_now = 0, cl_stamp = (\<lambda>n. [])\<rparr>"

definition task_row :: "string \<Rightarrow> string \<Rightarrow> string \<Rightarrow> note_row" where
  "task_row name task created = alpha_row\<lparr>nr_id := lit name, nr_metadata_json := Some (lit task),
     nr_created_at := Some (lit created)\<rparr>"

lemmas task_row_defs = task_row_def alpha_row_def

definition busy_rows :: "note_row list" where
  "busy_rows = [task_row ''a'' ''t'' ''1'', task_row ''b'' ''u'' ''2'', task_row ''c'' ''t'' ''3'']"

definition busy_item :: json where
  "busy_item = JObj [(lit ''key'', JStr (lit ''t'')), (lit ''count'', JInt 2), (lit ''last_at'', JStr
      (lit ''1'')),
     (lit ''preview'', JStr (lit ''rust''))]"

lemma busy_list:
  "list_active_workstreams sample_context no_faults busy_rows (Some (lit ''alpha'')) 7 1 = [busy_item]"
  by code_simp

theorem workstreams_are_busiest_with_exact_counts_witness:
  "writes_of sample_context (Some (lit ''alpha'')) 7 busy_rows (lit ''t'') = 2"
proof -
  have "busy_item \<in> set (list_active_workstreams sample_context no_faults busy_rows (Some
      (lit ''alpha'')) 7 1)"
    by (simp only: busy_list) simp
  moreover have "json_get busy_item (lit ''key'') = Some (JStr (lit ''t''))"
    by (simp add: busy_item_def)
  ultimately have "json_get busy_item (lit ''count'') =
      Some (JInt (int (writes_of sample_context (Some (lit ''alpha'')) 7 busy_rows (lit ''t''))))"
    using workstreams_are_busiest_with_exact_counts by blast
  moreover have "json_get busy_item (lit ''count'') = Some (JInt 2)"
    by (simp add: busy_item_def)
  ultimately show ?thesis by (simp del: lit_simps)
qed

theorem unreadable_note_hides_every_workstream_witness:
  "list_active_workstreams sample_context no_faults (task_row ''d'' ''bad'' ''4'' # busy_rows)
     (Some (lit ''alpha'')) 7 1 = []"
proof (rule unreadable_note_hides_every_workstream)
  show "task_row ''d'' ''bad'' ''4'' \<in> set (task_row ''d'' ''bad'' ''4'' # busy_rows)" by simp
  show "nr_is_active (task_row ''d'' ''bad'' ''4'') = 1"
    by (simp add: task_row_defs demo_row_def demo_note_def inserted_row_def)
  show "equals_if (Some (lit ''alpha'')) (nr_project_id (task_row ''d'' ''bad'' ''4''))"
    by (simp add: task_row_defs equals_if_def)
  show "is_recent_at sample_context (7 * 86400) (nr_created_at (task_row ''d'' ''bad'' ''4''))"
    by (simp add: task_row_defs is_recent_at_def epoch_of_def sample_context_def)
  show "nr_metadata_json (task_row ''d'' ''bad'' ''4'') = Some (lit ''bad'')" by (simp add:
      task_row_defs)
  show "cl_extract sample_context (lit ''bad'') (lit ''$.task_id'') = Err (lit ''malformed JSON'')"
    by (simp add: sample_context_def)
qed

definition failing_db :: search_db where
  "failing_db = sample_db\<lparr>note_rows := task_row ''d'' ''bad'' ''0'' # busy_rows\<rparr>"

theorem failed_note_hidden_by_newer_notes_witness:
  "metadata_has_failure_flag (snapshot_metadata sample_context (task_row ''d'' ''bad'' ''0'')) \<and>
   Some (nr_id (task_row ''d'' ''bad'' ''0'')) \<notin>
     (\<lambda>j. Option.bind (json_get j (lit ''id'')) as_str) `
       set (list_failed_memories sample_context no_faults failing_db (Some (lit ''alpha'')) 1)"
proof
  show "metadata_has_failure_flag (snapshot_metadata sample_context (task_row ''d'' ''bad'' ''0''))"
    by code_simp
  show "Some (nr_id (task_row ''d'' ''bad'' ''0'')) \<notin>
     (\<lambda>j. Option.bind (json_get j (lit ''id'')) as_str) `
       set (list_failed_memories sample_context no_faults failing_db (Some (lit ''alpha'')) 1)"
  proof (rule failed_note_hidden_by_newer_notes)
    show "keys_ok nr_id (note_rows failing_db)"
      by (simp add: keys_ok_def failing_db_def busy_rows_def task_row_def)
    show "task_row ''d'' ''bad'' ''0'' \<in> set (note_rows failing_db)" by (simp add: failing_db_def)
    show "1 * 3 \<le> length (filter (\<lambda>x. failed_selected sample_context (Some (lit ''alpha'')) x \<and>
        nr_created_at (task_row ''d'' ''bad'' ''0'') < nr_created_at x) (note_rows failing_db))"
      by code_simp
  qed
qed

end
