(* ===== verification/Experience_Text.thy ===== *)
theory Experience_Text
  imports Context_Snapshot
begin

text \<open>
  The texts and judgements of the experience store (\<open>memra-core/src/experience.rs\<close>): identifiers,
  slugs, compact texts, kinds, the deterministic reviews and the readiness of a record for
  promotion. Records travel as JSON, as in the code. The Unicode lower-case mapping is an argument.
\<close>

section \<open>Texts\<close>

definition compact_text :: "ustr \<Rightarrow> nat \<Rightarrow> ustr" where
  "compact_text t max_chars =
     (let cleaned = join_with [32] (split_whitespace t)
      in if length cleaned \<le> max_chars then cleaned
         else take (max_chars - 3) cleaned @ lit ''...'')"

text \<open>\<open>trim_matches\<close> on one character.\<close>

definition trim_matches :: "rchar \<Rightarrow> ustr \<Rightarrow> ustr" where
  "trim_matches c t = rev (dropWhile (\<lambda>d. d = c) (rev (dropWhile (\<lambda>d. d = c) t)))"

definition ascii_slug :: "rchar \<Rightarrow> ustr \<Rightarrow> ustr" where
  "ascii_slug filler t =
     map (\<lambda>c. if is_ascii_alphanumeric c then char_to_ascii_lowercase c else filler) t"

definition stable_experience_id :: "ustr \<Rightarrow> ustr \<Rightarrow> ustr" where
  "stable_experience_id pre raw =
     (let trimmed = trim_matches 95 (ascii_slug 95 raw)
      in if trimmed = [] then lit ''exp_'' @ pre else lit ''exp_'' @ pre @ [95] @ trimmed)"

text \<open>\<open>replace("--", "-")\<close>: one pass over disjoint occurrences.\<close>

fun replace_double :: "rchar \<Rightarrow> ustr \<Rightarrow> ustr" where
  "replace_double c [] = []"
| "replace_double c [d] = [d]"
| "replace_double c (d # e # t) =
     (if d = c \<and> e = c then c # replace_double c t else d # replace_double c (e # t))"

definition slugify :: "ustr \<Rightarrow> ustr" where
  "slugify raw =
     (let cleaned = replace_double 45 (trim_matches 45 (ascii_slug 45 raw))
      in if cleaned = [] then lit ''topic'' else cleaned)"

definition normalize_topic :: "(ustr \<Rightarrow> ustr) \<Rightarrow> ustr \<Rightarrow> ustr" where
  "normalize_topic lower topic = join_with [32] (split_whitespace (lower (trim topic)))"

text \<open>\<open>format!("{:.2}")\<close>: the exact value to two decimals, ties to even.\<close>

definition show_fixed2 :: "f64 \<Rightarrow> ustr" where
  "show_fixed2 x =
     (let n = nat (round_half_even (\<bar>x\<bar> * 100))
      in (if x < 0 then [45] else []) @ show_nat (n div 100) @ [46] @
         show_nat (n mod 100 div 10) @ show_nat (n mod 10))"

section \<open>Kinds and weights\<close>

definition status_weight :: "ustr \<Rightarrow> xf64" where
  "status_weight status =
     (if status = lit ''stable'' then xlit 0.35 else if status = lit ''review_required'' then xlit 0.2
      else if status = lit ''candidate'' then xlit 0.1 else if status = lit ''degraded'' then xlit (-
          0.1)
      else Fin 0)"

definition infer_experience_kind :: "ustr option \<Rightarrow> ustr option \<Rightarrow> bool \<Rightarrow> ustr" where
  "infer_experience_kind layer category degraded =
     (let l = text_or_empty layer; c = text_or_empty category
      in if degraded then lit ''anti_pattern''
         else if l = lit ''procedure_schema'' \<or> c = lit ''routine'' then lit ''procedure''
         else if c = lit ''decision'' then lit ''decision''
         else if c = lit ''bug'' \<or> c = lit ''lesson'' then lit ''anti_pattern''
         else if c = lit ''config'' \<or> c = lit ''architecture'' then lit ''contract''
         else lit ''heuristic'')"

definition kind_label :: "ustr \<Rightarrow> ustr" where
  "kind_label kind =
     (if kind = lit ''procedure'' then [0x6D41, 0x7A0B, 0x7ECF, 0x9A8C] else if kind = lit ''heuristic''
         then [0x542F, 0x53D1, 0x5F0F]
      else if kind = lit ''anti_pattern'' then [0x53CD, 0x6A21, 0x5F0F] else if kind = lit ''contract''
          then [0x5951, 0x7EA6]
      else if kind = lit ''decision'' then [0x51B3, 0x7B56] else kind)"

section \<open>JSON columns\<close>

definition is_object :: "json \<Rightarrow> bool" where
  "is_object v \<longleftrightarrow> (case v of JObj m \<Rightarrow> True | _ \<Rightarrow> False)"

definition parse_json_object :: "(ustr \<Rightarrow> json option) \<Rightarrow> ustr option \<Rightarrow> json" where
  "parse_json_object parse raw =
     (case Option.bind raw parse of
        None \<Rightarrow> JObj [] | Some v \<Rightarrow> if is_object v then v else JObj [])"

definition parse_json_array :: "(ustr \<Rightarrow> json option) \<Rightarrow> ustr option \<Rightarrow> json" where
  "parse_json_array parse raw =
     (case Option.bind raw parse of
        None \<Rightarrow> JArr [] | Some v \<Rightarrow> if as_array v \<noteq> None then v else JArr [])"

text \<open>\<open>value["key"]\<close> reads null where there is none.\<close>

definition json_at :: "json \<Rightarrow> ustr \<Rightarrow> json" where
  "json_at v key = (case json_get v key of None \<Rightarrow> JNull | Some x \<Rightarrow> x)"

fun as_f64 :: "json \<Rightarrow> f64 option" where
  "as_f64 (JInt n) = Some (round64 (of_int n))"
| "as_f64 (JFloat x) = Some x"
| "as_f64 _ = None"

definition get_bool :: "json \<Rightarrow> ustr \<Rightarrow> bool" where
  "get_bool v key = (case Option.bind (json_get v key) as_bool of None \<Rightarrow> False | Some b \<Rightarrow> b)"

definition get_i64 :: "json \<Rightarrow> ustr \<Rightarrow> int" where
  "get_i64 v key = (case Option.bind (json_get v key) as_i64 of None \<Rightarrow> 0 | Some n \<Rightarrow> n)"

definition get_str :: "json \<Rightarrow> ustr \<Rightarrow> ustr option" where
  "get_str v key = Option.bind (json_get v key) as_str"

definition get_array :: "json \<Rightarrow> ustr \<Rightarrow> json list" where
  "get_array v key = (case Option.bind (json_get v key) as_array of None \<Rightarrow> [] | Some xs \<Rightarrow> xs)"

definition get_or_null :: "json \<Rightarrow> ustr \<Rightarrow> ustr \<times> json" where
  "get_or_null v key = (key, json_at v key)"

definition evidence_refs :: "json \<Rightarrow> ustr option \<Rightarrow> json" where
  "evidence_refs metadata source_note_id =
     (let refs = get_array metadata (lit ''evidence_refs'')
      in JArr (case source_note_id of
           None \<Rightarrow> refs | Some note_id \<Rightarrow> JStr (lit ''note:'' @ note_id) # refs))"

section \<open>Reviews and readiness\<close>

definition REVIEW_LENSES :: "(ustr \<times> ustr) list" where
  "REVIEW_LENSES =
     [(lit ''hermes'', lit ''Reusable agent procedure surface''),
      (lit ''harness'', lit ''QA contract should verify concrete behavior''),
      (lit ''research'', lit ''Evidence should remain traceable to source notes''),
      (lit ''cold_eye'', lit ''Watch for overgeneralized lessons'')]"

definition deterministic_reviews :: "json \<Rightarrow> json list" where
  "deterministic_reviews experience =
     (let status = (case as_str (json_at experience (lit ''status'')) of None \<Rightarrow> lit ''candidate'' | Some
         s \<Rightarrow> s);
          is_stable = (status = lit ''stable'');
          summary = text_or_empty (as_str (json_at experience (lit ''summary'')))
      in map (\<lambda>(lens, action).
           JObj [(lit ''experience_id'', json_at experience (lit ''id'')), (lit ''lens'', JStr lens),
             (lit ''verdict'', JStr (if is_stable then lit ''adopt'' else lit ''monitor'')),
             (lit ''confidence'', JFloat (if is_stable then f64_lit 0.82 else f64_lit 0.66)),
             (lit ''why'', JStr (lit ''Rust deterministic review for: '' @ summary)),
             (lit ''risk'', JStr (if is_stable then lit ''low'' else lit ''needs more evidence'')),
             (lit ''recommended_action'', JStr action),
             (lit ''evidence_refs'', JArr (get_array experience (lit ''evidence_refs'')))])
                 REVIEW_LENSES)"

definition MIN_EVIDENCE :: nat where "MIN_EVIDENCE = 2"
definition MIN_REVIEWS :: nat where "MIN_REVIEWS = 2"
definition MIN_CONFIDENCE :: f64 where "MIN_CONFIDENCE = f64_lit 0.75"

definition evidence_count :: "json \<Rightarrow> nat" where
  "evidence_count experience =
     length (get_array experience (lit ''evidence_note_ids'')) + length (get_array experience
         (lit ''evidence_refs''))"

definition quality_score :: "json \<Rightarrow> f64" where
  "quality_score experience =
     (case as_f64 (json_at experience (lit ''confidence'')) of None \<Rightarrow> 0 | Some x \<Rightarrow> x)"

definition promotion_blockers :: "json \<Rightarrow> json list \<Rightarrow> json list" where
  "promotion_blockers experience reviews =
     (if evidence_count experience < MIN_EVIDENCE then [JStr ([0x8BC1, 0x636E, 0x4E0D, 0x8DB3])] else
         []) @
     (if length reviews < MIN_REVIEWS then [JStr ([0x8BC4, 0x5BA1, 0x4E0D, 0x8DB3])] else []) @
     (if quality_score experience < MIN_CONFIDENCE then [JStr ([0x7F6E, 0x4FE1, 0x5EA6, 0x4E0D,
         0x8DB3])] else [])"

definition readiness_summary :: "json \<Rightarrow> json list \<Rightarrow> json" where
  "readiness_summary experience reviews =
     (let blockers = promotion_blockers experience reviews
      in JObj [(lit ''quality_score'', JFloat (quality_score experience)),
           (lit ''evidence_count'', JInt (int (evidence_count experience))),
           (lit ''review_count'', JInt (int (length reviews))),
           (lit ''promotion_gate_passed'', JBool (blockers = [])),
           (lit ''promotion_blockers'', JArr blockers),
           (lit ''summary'', JStr (lit ''quality='' @ show_fixed2 (quality_score experience) @
              lit '' / reviews='' @ show_nat (length reviews) @ lit '' / evidence='' @
              show_nat (evidence_count experience)))])"

definition dream_feedback_status :: "json \<Rightarrow> ustr" where
  "dream_feedback_status metadata =
     (if get_bool metadata (lit ''is_outdated'') then lit ''outdated''
      else if get_bool metadata (lit ''is_corrected'') \<or> 0 < get_i64 metadata (lit ''failure_count'')
      then lit ''corrected''
      else if 0 < get_i64 metadata (lit ''success_count'') then lit ''confirmed''
      else lit ''unreviewed'')"

definition dream_feedback_instruction :: "ustr \<Rightarrow> ustr" where
  "dream_feedback_instruction memory_id =
     (lit ''report_outcome(memory_id='' @ [34]) @ memory_id @ ([34] @ lit '', outcome='' @ [34] @
         lit ''confirmed|corrected|outdated'' @ [34, 41])"

end
