(* ===== verification/Experience_Store.thy ===== *)
theory Experience_Store
  imports Experience_Text
begin

text \<open>
  The tables of the experience store and the statements on them (\<open>experience.rs\<close>): records, reviews,
  actions, feedback on topics and runs of artifacts. Every statement commits on its own. A record is
  read as the JSON of \<open>hydrate_record\<close>, with the topic of the live head of its source note.
\<close>

record experience_row =
  xr_id :: ustr
  xr_title :: ustr
  xr_summary :: ustr
  xr_kind :: ustr
  xr_status :: ustr
  xr_origin :: "ustr option"
  xr_project_id :: "ustr option"
  xr_source_note_id :: "ustr option"
  xr_topic_key :: "ustr option"
  xr_confidence :: "f64 option"
  xr_evidence_note_ids_json :: "ustr option"
  xr_metadata_json :: "ustr option"
  xr_superseded_by :: "ustr option"
  xr_created_at :: ustr
  xr_updated_at :: ustr

record review_row =
  rv_experience_id :: ustr
  rv_lens :: ustr
  rv_verdict :: ustr
  rv_confidence :: f64
  rv_why :: "ustr option"
  rv_risk :: "ustr option"
  rv_recommended_action :: "ustr option"
  rv_evidence_refs_json :: "ustr option"
  rv_created_at :: ustr
  rv_updated_at :: ustr

record action_row =
  xa_id :: ustr
  xa_experience_id :: ustr
  xa_action_type :: ustr
  xa_target_system :: "ustr option"
  xa_status :: ustr
  xa_summary :: ustr
  xa_payload_json :: "ustr option"
  xa_outcome_note_id :: "ustr option"
  xa_updated_at :: ustr

record feedback_row =
  tf_project_id :: ustr
  tf_topic :: ustr
  tf_topic_norm :: ustr
  tf_verdict :: ustr
  tf_artifact_target :: "ustr option"
  tf_source :: ustr
  tf_reason :: "ustr option"
  tf_topic_terms_json :: ustr
  tf_context_json :: ustr
  tf_updated_at :: ustr

record artifact_run =
  ar_id :: ustr
  ar_batch_id :: "ustr option"
  ar_project_id :: ustr
  ar_artifact_target :: ustr
  ar_feedback_token :: ustr
  ar_topic :: "ustr option"
  ar_routing_json :: "ustr option"
  ar_artifact_path :: "ustr option"
  ar_summary :: "ustr option"

record experience_db = context_db +
  experience_records :: "experience_row list"
  experience_reviews :: "review_row list"
  experience_actions :: "action_row list"
  topic_feedback :: "feedback_row list"
  artifact_runs :: "artifact_run list"

datatype experience_stmt =
    InitTables | FeedbackCount | SelectProcedures | SelectReviewDue | SelectDegraded
  | UpsertRecord ustr | SelectCandidates | UpdateStatus ustr
  | ListRecords | CountRecords | GetRecord ustr | RecordHead canonical_stmt
  | ListReviews ustr | UpsertReview ustr ustr | ListActions ustr | ListPending | CountPending
  | ExpTableStmt ustr | ListDreams | CountDreams | InsertFeedback | InsertRun ustr | GetRun

text \<open>serde\_json and SQLite's JSON, the lower-case mapping, and the saved artifact files.\<close>

record experience_lib =
  xl_json :: json_lib
  xl_extract :: "ustr \<Rightarrow> ustr \<Rightarrow> (sql_error, sql_value option) result"
  xl_lower :: "ustr \<Rightarrow> ustr"
  xl_pretty :: "json \<Rightarrow> ustr option"
  xl_save :: "ustr list \<Rightarrow> ustr \<Rightarrow> ustr option"

text \<open>The clocks and the random identifiers of a call: \<open>Utc::now\<close>, the same thirty days ago,
  SQLite's \<open>datetime('now')\<close>, and the UUIDs in the order they are drawn.\<close>

record experience_env =
  xe_now :: ustr
  xe_cutoff :: ustr
  xe_sql_now :: ustr
  xe_uuid :: "nat \<Rightarrow> ustr"

type_synonym ('a, 'b) exp_op = "('a experience_db_scheme, sql_error, 'b) op"

section \<open>Reviews and actions\<close>

definition review_json :: "experience_lib \<Rightarrow> review_row \<Rightarrow> json" where
  "review_json X r =
     JObj [(lit ''experience_id'', JStr (rv_experience_id r)), (lit ''lens'', JStr (rv_lens r)),
       (lit ''verdict'', JStr (rv_verdict r)), (lit ''confidence'', JFloat (rv_confidence r)),
       (lit ''why'', JStr (text_or_empty (rv_why r))), (lit ''risk'', JStr (text_or_empty (rv_risk r))),
       (lit ''recommended_action'', JStr (text_or_empty (rv_recommended_action r))),
       (lit ''evidence_refs'', parse_json_array (jl_parse (xl_json X)) (rv_evidence_refs_json r)),
       (lit ''updated_at'', JStr (rv_updated_at r))]"

definition list_reviews ::
  "experience_lib \<Rightarrow> experience_stmt faults \<Rightarrow> 'a experience_db_scheme \<Rightarrow> ustr \<Rightarrow> json list" where
  "list_reviews X flt db experience_id =
     (if flt (ListReviews experience_id) \<noteq> None then []
      else map (review_json X) (sort_desc rv_updated_at
        (filter (\<lambda>r. rv_experience_id r = experience_id) (experience_reviews db))))"

definition action_json :: "experience_lib \<Rightarrow> action_row \<Rightarrow> json" where
  "action_json X a =
     JObj [(lit ''id'', JStr (xa_id a)), (lit ''action_type'', JStr (xa_action_type a)),
       (lit ''target_system'', opt_json (xa_target_system a)), (lit ''status'', JStr (xa_status a)),
       (lit ''summary'', JStr (xa_summary a)),
       (lit ''payload'', parse_json_object (jl_parse (xl_json X)) (xa_payload_json a)),
       (lit ''outcome_note_id'', opt_json (xa_outcome_note_id a)),
       (lit ''updated_at'', JStr (xa_updated_at a))]"

definition list_actions ::
  "experience_lib \<Rightarrow> experience_stmt faults \<Rightarrow> 'a experience_db_scheme \<Rightarrow> ustr \<Rightarrow> json list" where
  "list_actions X flt db experience_id =
     (if flt (ListActions experience_id) \<noteq> None then []
      else map (action_json X) (sort_desc xa_updated_at
        (filter (\<lambda>a. xa_experience_id a = experience_id) (experience_actions db))))"

text \<open>\<open>review["lens"].as_str().unwrap_or("hermes")\<close> and the like.\<close>

definition str_at :: "json \<Rightarrow> ustr \<Rightarrow> ustr \<Rightarrow> ustr" where
  "str_at v key otherwise = (case as_str (json_at v key) of None \<Rightarrow> otherwise | Some s \<Rightarrow> s)"

definition upsert_review ::
  "experience_lib \<Rightarrow> experience_env \<Rightarrow> experience_stmt faults \<Rightarrow> ustr \<Rightarrow> json \<Rightarrow> ('a, unit) exp_op" where
  "upsert_review X ev flt experience_id review =
     (let lens = str_at review (lit ''lens'') (lit ''hermes'');
          refs = (case jl_print (xl_json X) (JArr (get_array review (lit ''evidence_refs''))) of
            None \<Rightarrow> lit ''[]'' | Some s \<Rightarrow> s);
          fill = (\<lambda>r. r\<lparr>rv_verdict := str_at review (lit ''verdict'') (lit ''monitor''),
              rv_confidence := (case as_f64 (json_at review (lit ''confidence'')) of None \<Rightarrow> f64_lit 0.65
                  | Some c \<Rightarrow> c),
              rv_why := get_str review (lit ''why''), rv_risk := get_str review (lit ''risk''),
              rv_recommended_action := get_str review (lit ''recommended_action''),
              rv_evidence_refs_json := Some refs, rv_updated_at := xe_sql_now ev\<rparr>);
          matches = (\<lambda>r. rv_experience_id r = experience_id \<and> rv_lens r = lens)
      in sql_exec (flt (UpsertReview experience_id lens)) (\<lambda>db.
           (db\<lparr>experience_reviews :=
              (if list_ex matches (experience_reviews db)
               then row_update matches fill (experience_reviews db)
               else experience_reviews db @
                 [fill \<lparr>rv_experience_id = experience_id, rv_lens = lens, rv_verdict = [], rv_confidence
                     = 0,
                    rv_why = None, rv_risk = None, rv_recommended_action = None, rv_evidence_refs_json =
                        None,
                    rv_created_at = xe_sql_now ev, rv_updated_at = []\<rparr>])\<rparr>, ())))"

section \<open>Records\<close>

definition upsert_experience_record ::
  "experience_stmt faults \<Rightarrow> experience_row \<Rightarrow> ('a, unit) exp_op" where
  "upsert_experience_record flt r =
     sql_exec (flt (UpsertRecord (xr_id r))) (\<lambda>db.
       (db\<lparr>experience_records :=
          (if row_get xr_id (xr_id r) (experience_records db) = None then experience_records db @ [r]
           else row_update (\<lambda>old. xr_id old = xr_id r) (\<lambda>old. r\<lparr>xr_created_at := xr_created_at old\<rparr>)
                  (experience_records db))\<rparr>, ()))"

text \<open>\<open>let (topic_key, canonical_read_source) = ...\<close>\<close>

definition canonical_topic_key_for_record ::
  "experience_stmt faults \<Rightarrow> 'a experience_db_scheme \<Rightarrow> ustr option \<Rightarrow> ustr option \<Rightarrow> json \<Rightarrow>
   ustr option \<times> canonical_read_source" where
  "canonical_topic_key_for_record flt db source_note_id stored_topic_key metadata =
     (let root_id = (case map_option trim (get_str metadata (lit ''root_id'')) of
            None \<Rightarrow> None | Some r \<Rightarrow> if r = [] then None else Some r)
      in case snd (hydrate_head_by_canonical_or_topic (\<lambda>s. flt (RecordHead s)) source_note_id root_id
                     stored_topic_key db) of
           Err e \<Rightarrow> (stored_topic_key, Miss)
         | Ok read \<Rightarrow>
             (case Option.bind (cr_note read) hy_topic_key of
                None \<Rightarrow> stored_topic_key | Some t \<Rightarrow> Some t, cr_source read))"

definition hydrate_record ::
  "experience_lib \<Rightarrow> experience_stmt faults \<Rightarrow> 'a experience_db_scheme \<Rightarrow> experience_row \<Rightarrow> json" where
  "hydrate_record X flt db r =
     (let metadata = parse_json_object (jl_parse (xl_json X)) (xr_metadata_json r);
          evidence_note_ids = parse_json_array (jl_parse (xl_json X)) (xr_evidence_note_ids_json r);
          reviews = list_reviews X flt db (xr_id r);
          refs = evidence_refs metadata (xr_source_note_id r);
          confidence = (case xr_confidence r of None \<Rightarrow> 0 | Some c \<Rightarrow> c);
          readiness = readiness_summary (JObj [(lit ''status'', JStr (xr_status r)),
            (lit ''confidence'', JFloat confidence), (lit ''evidence_note_ids'', evidence_note_ids),
            (lit ''evidence_refs'', refs)]) reviews
      in case canonical_topic_key_for_record flt db (xr_source_note_id r) (xr_topic_key r) metadata of
           (topic_key, canonical_read_source) \<Rightarrow>
         JObj [(lit ''id'', JStr (xr_id r)), (lit ''title'', JStr (xr_title r)), (lit ''summary'', JStr
             (xr_summary r)),
           (lit ''content'', JStr (xr_summary r)), (lit ''kind'', JStr (xr_kind r)),
           (lit ''kind_label'', JStr (kind_label (xr_kind r))), (lit ''status'', JStr (xr_status r)),
           (lit ''origin'', JStr (text_or_empty (xr_origin r))),
           (lit ''source_note_id'', opt_json (xr_source_note_id r)), (lit ''topic_key'', opt_json
               topic_key),
           (lit ''stored_topic_key'', opt_json (xr_topic_key r)),
           (lit ''canonical_read_source'', JStr (source_as_str canonical_read_source)),
           (lit ''confidence'', JFloat confidence), (lit ''evidence_note_ids'', evidence_note_ids),
           (lit ''evidence_refs'', refs), (lit ''metadata'', metadata), (lit ''reviews'', JArr reviews),
           (lit ''actions'', JArr (list_actions X flt db (xr_id r))),
           (lit ''updated_at'', JStr (xr_updated_at r)), (lit ''created_at'', JStr (xr_created_at r)),
           (lit ''readiness'', readiness),
           (lit ''promotion_gate_passed'', JBool (get_bool readiness (lit ''promotion_gate_passed''))),
           (lit ''promotion_blockers'', JArr (get_array readiness (lit ''promotion_blockers'')))])"

definition record_selected :: "ustr \<Rightarrow> ustr list option \<Rightarrow> ustr option \<Rightarrow> experience_row \<Rightarrow> bool" where
  "record_selected project_id statuses kind r \<longleftrightarrow>
     xr_project_id r = Some project_id \<and>
     (case statuses of None \<Rightarrow> True | Some ss \<Rightarrow> ss = [] \<or> xr_status r \<in> set ss) \<and>
     (case kind of None \<Rightarrow> True | Some k \<Rightarrow> k = [] \<or> xr_kind r = k)"

definition selected_rows ::
  "'a experience_db_scheme \<Rightarrow> ustr \<Rightarrow> ustr list option \<Rightarrow> ustr option \<Rightarrow> nat \<Rightarrow> experience_row list" where
  "selected_rows db project_id statuses kind limit =
     take (max limit 1) (sort_desc xr_updated_at (sort_desc xr_created_at
       (filter (record_selected project_id statuses kind) (experience_records db))))"

definition list_experience_records ::
  "experience_lib \<Rightarrow> experience_stmt faults \<Rightarrow> 'a experience_db_scheme \<Rightarrow> ustr \<Rightarrow> ustr list option \<Rightarrow>
   ustr option \<Rightarrow> nat \<Rightarrow> json list" where
  "list_experience_records X flt db project_id statuses kind limit =
     (if flt ListRecords \<noteq> None then []
      else map (hydrate_record X flt db) (selected_rows db project_id statuses kind limit))"

definition count_experience_records ::
  "experience_stmt faults \<Rightarrow> ustr \<Rightarrow> ustr list option \<Rightarrow> ustr option \<Rightarrow> ('a, nat) exp_op" where
  "count_experience_records flt project_id statuses kind =
     sql_query (flt CountRecords)
       (\<lambda>db. length (filter (record_selected project_id statuses kind) (experience_records db)))"

definition get_experience ::
  "experience_lib \<Rightarrow> experience_stmt faults \<Rightarrow> 'a experience_db_scheme \<Rightarrow> ustr \<Rightarrow> ustr \<Rightarrow> json option" where
  "get_experience X flt db project_id experience_id =
     (if flt (GetRecord experience_id) \<noteq> None then None
      else case row_get xr_id experience_id (experience_records db) of
             None \<Rightarrow> None
           | Some r \<Rightarrow> if xr_project_id r = Some project_id then Some (hydrate_record X flt db r) else
               None)"

end
