(* ===== verification/Experience_Refresh.thy ===== *)
theory Experience_Refresh
  imports Experience_Store
begin

text \<open>
  \<open>refresh_substrate\<close> and \<open>get_feedback_due\<close> (\<open>experience.rs\<close>): the notes of the procedure layer, the
  notes due for review and the failed notes become experience records, candidates are reviewed and
  ready records promoted; what waits for feedback is listed. Each statement commits on its own, so
  a refresh that fails keeps what it has written. A row whose metadata SQLite cannot read makes
  the query for failed notes fail.
\<close>

definition op_count :: "('b \<Rightarrow> ('s, 'e, unit) op) \<Rightarrow> 'b list \<Rightarrow> ('s, 'e, nat) op" where
  "op_count f xs = op_bind (op_each f xs) (\<lambda>u. op_return (length xs))"

text \<open>The sum of what a loop's steps report.\<close>

fun op_sum :: "('b \<Rightarrow> ('s, 'e, nat) op) \<Rightarrow> 'b list \<Rightarrow> ('s, 'e, nat) op" where
  "op_sum f [] = op_return 0"
| "op_sum f (x # xs) = op_bind (f x) (\<lambda>n. op_bind (op_sum f xs) (\<lambda>m. op_return (n + m)))"

section \<open>The gate\<close>

definition FEEDBACK_TARGET :: int where "FEEDBACK_TARGET = 50"

definition activation_limit :: "int \<Rightarrow> nat \<Rightarrow> nat" where
  "activation_limit deficit requested_limit =
     (let l = max requested_limit 8 in if 0 < deficit then min 24 (max l (nat deficit)) else l)"

definition phase2_activation_gate ::
  "experience_env \<Rightarrow> experience_stmt faults \<Rightarrow> ustr \<Rightarrow> nat \<Rightarrow> ('a, json) exp_op" where
  "phase2_activation_gate ev flt project_id requested_limit =
     op_bind (sql_query (flt FeedbackCount) (\<lambda>db. length (filter
         (\<lambda>f. tf_project_id f = project_id \<and> xe_cutoff ev \<le> tf_updated_at f) (topic_feedback db))))
       (\<lambda>recent.
          let deficit = max (FEEDBACK_TARGET - int recent) 0
          in op_return (JObj [(lit ''window_days'', JInt 30), (lit ''target_feedback_count'', JInt
              FEEDBACK_TARGET),
               (lit ''recent_feedback_count'', JInt (int recent)), (lit ''feedback_deficit'', JInt
                   deficit),
               (lit ''under_target'', JBool (0 < deficit)), (lit ''requested_limit'', JInt (int
                   requested_limit)),
               (lit ''activation_limit'', JInt (int (activation_limit deficit requested_limit)))]))"

section \<open>Records from notes\<close>

definition procedure_record :: "experience_lib \<Rightarrow> experience_env \<Rightarrow> ustr \<Rightarrow> note_row \<Rightarrow> experience_row"
    where
  "procedure_record X ev project_id n =
     (let metadata = parse_json_object (jl_parse (xl_json X)) (nr_metadata_json n);
          degraded = get_bool metadata (lit ''is_outdated'') \<or> get_bool metadata (lit ''is_corrected'');
          get_or = (\<lambda>key v. (key, case json_get metadata key of None \<Rightarrow> v | Some x \<Rightarrow> x))
      in \<lparr>xr_id = stable_experience_id (lit ''procedure'') (nr_id n), xr_title = compact_text
          (nr_content n) 48,
          xr_summary = nr_content n, xr_kind = lit ''procedure'',
          xr_status = (if degraded then lit ''degraded'' else lit ''stable''),
          xr_origin = Some (lit ''procedure_schema_backfill''), xr_project_id = Some project_id,
          xr_source_note_id = Some (nr_id n), xr_topic_key = nr_topic_key n,
          xr_confidence = Some (case nr_confidence n of None \<Rightarrow> f64_lit 0.85 | Some c \<Rightarrow> c),
          xr_evidence_note_ids_json = Some (jl_value_to_string (xl_json X) (JArr [JStr (nr_id n)])),
          xr_metadata_json = Some (jl_value_to_string (xl_json X) (JObj
            [(lit ''source_layer'', JStr (lit ''procedure_schema'')),
             (lit ''steps_count'', JInt (int (length (get_array metadata (lit ''steps''))))),
             get_or (lit ''activation_cues'') (JArr []), get_or_null metadata (lit ''record_type''),
             get_or_null metadata (lit ''review_after''), get_or (lit ''procedure_status'') (JStr
                 (lit ''active'')),
             (lit ''source_metadata'', metadata)])),
          xr_superseded_by = None,
          xr_created_at = (case nr_created_at n of None \<Rightarrow> xe_now ev | Some t \<Rightarrow> t),
          xr_updated_at = (case nr_updated_at n of None \<Rightarrow> xe_now ev | Some t \<Rightarrow> t)\<rparr>)"

definition procedure_notes :: "nat \<Rightarrow> note_row list \<Rightarrow> note_row list" where
  "procedure_notes limit rows =
     take limit (sort_desc nr_updated_at (sort_desc nr_created_at
       (filter (\<lambda>n. nr_layer n = lit ''procedure_schema'' \<and> nr_is_active n = 1) rows)))"

definition seed_procedure_experiences ::
  "experience_lib \<Rightarrow> experience_env \<Rightarrow> experience_stmt faults \<Rightarrow> ustr \<Rightarrow> nat \<Rightarrow> ('a, nat) exp_op" where
  "seed_procedure_experiences X ev flt project_id limit =
     op_bind (sql_query (flt SelectProcedures) (\<lambda>db. procedure_notes limit (note_rows db)))
       (op_count (\<lambda>n. upsert_experience_record flt (procedure_record X ev project_id n)))"

definition is_live_note :: "note_row \<Rightarrow> bool" where
  "is_live_note n \<longleftrightarrow>
     nr_is_active n = 1 \<and> (nr_evolution_state n = None \<or> nr_evolution_state n = Some (lit ''active''))"

definition review_notes :: "ustr \<Rightarrow> nat \<Rightarrow> note_row list \<Rightarrow> note_row list" where
  "review_notes now limit rows =
     take limit (sort_key nr_review_after (sort_desc nr_created_at
       (filter (\<lambda>n. is_live_note n \<and> (case nr_review_after n of None \<Rightarrow> False | Some t \<Rightarrow> t \<le> now))
           rows)))"

definition review_record :: "experience_lib \<Rightarrow> experience_env \<Rightarrow> ustr \<Rightarrow> note_row \<Rightarrow> experience_row" where
  "review_record X ev project_id n =
     \<lparr>xr_id = stable_experience_id (lit ''review'') (nr_id n),
      xr_title = [0x5F85, 0x590D, 0x6838, 58, 32] @ compact_text (nr_content n) 56, xr_summary =
          nr_content n,
      xr_kind = infer_experience_kind (Some (nr_layer n)) (nr_category n) False,
      xr_status = lit ''review_required'', xr_origin = Some (lit ''note_review_queue''),
      xr_project_id = Some project_id, xr_source_note_id = Some (nr_id n), xr_topic_key = None,
      xr_confidence = Some (case nr_confidence n of None \<Rightarrow> f64_lit 0.62 | Some c \<Rightarrow> c),
      xr_evidence_note_ids_json = Some (jl_value_to_string (xl_json X) (JArr [JStr (nr_id n)])),
      xr_metadata_json = Some (jl_value_to_string (xl_json X) (JObj
        [(lit ''review_after'', opt_json (nr_review_after n)), (lit ''source_layer'', JStr (nr_layer
            n)),
         (lit ''source_category'', opt_json (nr_category n))])),
      xr_superseded_by = None,
      xr_created_at = (case nr_created_at n of None \<Rightarrow> xe_now ev | Some t \<Rightarrow> t),
      xr_updated_at = xe_now ev\<rparr>"

definition materialize_review_required_experiences ::
  "experience_lib \<Rightarrow> experience_env \<Rightarrow> experience_stmt faults \<Rightarrow> ustr \<Rightarrow> nat \<Rightarrow> ('a, nat) exp_op" where
  "materialize_review_required_experiences X ev flt project_id limit =
     op_bind (sql_query (flt SelectReviewDue) (\<lambda>db. review_notes (xe_now ev) limit (note_rows db)))
       (op_count (\<lambda>n. upsert_experience_record flt (review_record X ev project_id n)))"

text \<open>The condition of the query for failed notes; a text is greater than any number.\<close>

definition sql_positive :: "sql_value option \<Rightarrow> bool" where
  "sql_positive v \<longleftrightarrow>
     (case v of None \<Rightarrow> False | Some (SqlNum n) \<Rightarrow> 0 < n | Some (SqlText t) \<Rightarrow> True)"

definition degraded_flag :: "experience_lib \<Rightarrow> note_row \<Rightarrow> (sql_error, bool) result" where
  "degraded_flag X n =
     (let m = (case nr_metadata_json n of None \<Rightarrow> lit ''{}'' | Some m \<Rightarrow> m); one = Some (SqlNum 1)
      in and_then (xl_extract X m (lit ''$.is_outdated'')) (\<lambda>outdated.
           if outdated = one then Ok True
           else and_then (xl_extract X m (lit ''$.is_corrected'')) (\<lambda>corrected.
             if corrected = one then Ok True
             else and_then (xl_extract X m (lit ''$.failure_count'')) (\<lambda>failures. Ok (sql_positive
                 failures)))))"

fun select_degraded :: "experience_lib \<Rightarrow> note_row list \<Rightarrow> (sql_error, note_row list) result" where
  "select_degraded X [] = Ok []"
| "select_degraded X (n # rows) =
     (if is_live_note n
      then and_then (degraded_flag X n) (\<lambda>flagged.
             and_then (select_degraded X rows) (\<lambda>ns. Ok (if flagged then n # ns else ns)))
      else select_degraded X rows)"

definition degraded_record :: "experience_lib \<Rightarrow> experience_env \<Rightarrow> ustr \<Rightarrow> note_row \<Rightarrow> experience_row" where
  "degraded_record X ev project_id n =
     (let metadata = parse_json_object (jl_parse (xl_json X)) (nr_metadata_json n);
          get_or_false = (\<lambda>key. (key, case json_get metadata key of None \<Rightarrow> JBool False | Some x \<Rightarrow> x))
      in \<lparr>xr_id = stable_experience_id (lit ''degraded'') (nr_id n),
          xr_title = [0x964D, 0x7EA7, 0x7ECF, 0x9A8C, 58, 32] @ compact_text (nr_content n) 56,
              xr_summary = nr_content n,
          xr_kind = infer_experience_kind (Some (nr_layer n)) (nr_category n) True,
          xr_status = lit ''degraded'', xr_origin = Some (lit ''outcome_feedback''),
          xr_project_id = Some project_id, xr_source_note_id = Some (nr_id n), xr_topic_key = None,
          xr_confidence = Some (f64_lit 0.38),
          xr_evidence_note_ids_json = Some (jl_value_to_string (xl_json X) (JArr [JStr (nr_id n)])),
          xr_metadata_json = Some (jl_value_to_string (xl_json X) (JObj
            [(lit ''failure_count'', JInt (get_i64 metadata (lit ''failure_count''))),
             get_or_false (lit ''is_outdated''), get_or_false (lit ''is_corrected''),
             (lit ''source_layer'', JStr (nr_layer n)), (lit ''source_category'', opt_json (nr_category
                 n))])),
          xr_superseded_by = None,
          xr_created_at = (case nr_created_at n of None \<Rightarrow> xe_now ev | Some t \<Rightarrow> t),
          xr_updated_at = xe_now ev\<rparr>)"

text \<open>A query whose evaluation can fail on a row.\<close>

definition sql_fallible :: "sql_error option \<Rightarrow> ('s \<Rightarrow> (sql_error, 'b) result) \<Rightarrow> ('s, sql_error, 'b) op"
    where
  "sql_fallible fault f =
     op_bind (sql_query fault f) (\<lambda>r. case r of Inl e \<Rightarrow> op_fail e | Inr x \<Rightarrow> op_return x)"

definition materialize_degraded_experiences ::
  "experience_lib \<Rightarrow> experience_env \<Rightarrow> experience_stmt faults \<Rightarrow> ustr \<Rightarrow> nat \<Rightarrow> ('a, nat) exp_op" where
  "materialize_degraded_experiences X ev flt project_id limit =
     op_bind (sql_fallible (flt SelectDegraded) (\<lambda>db. and_then (select_degraded X (note_rows db))
         (\<lambda>ns. Ok (take limit (sort_desc nr_updated_at (sort_desc nr_created_at ns))))))
       (op_count (\<lambda>n. upsert_experience_record flt (degraded_record X ev project_id n)))"

section \<open>Reviews and promotion\<close>

definition review_candidate ::
  "experience_lib \<Rightarrow> experience_env \<Rightarrow> experience_stmt faults \<Rightarrow> ustr \<Rightarrow> ustr \<Rightarrow> ('a, nat) exp_op" where
  "review_candidate X ev flt project_id experience_id db =
     (if list_reviews X flt db experience_id \<noteq> [] then op_return 0 db
      else case get_experience X flt db project_id experience_id of
             None \<Rightarrow> op_return 0 db
           | Some experience \<Rightarrow>
               op_bind (op_each (upsert_review X ev flt experience_id) (deterministic_reviews
                   experience))
                 (\<lambda>u. op_return 1) db)"

definition review_candidate_experiences ::
  "experience_lib \<Rightarrow> experience_env \<Rightarrow> experience_stmt faults \<Rightarrow> ustr \<Rightarrow> nat \<Rightarrow> ('a, nat) exp_op" where
  "review_candidate_experiences X ev flt project_id limit =
     op_bind (sql_query (flt SelectCandidates) (\<lambda>db. map xr_id (take limit
         (sort_desc xr_updated_at (sort_desc xr_created_at
           (filter (\<lambda>r. xr_project_id r = Some project_id \<and> xr_status r = lit ''candidate'')
             (experience_records db)))))))
       (op_sum (review_candidate X ev flt project_id))"

definition promotes :: "ustr \<Rightarrow> ustr \<Rightarrow> experience_row \<Rightarrow> bool" where
  "promotes project_id experience_id r \<longleftrightarrow>
     xr_id r = experience_id \<and> xr_project_id r = Some project_id \<and> xr_status r \<noteq> lit ''stable''"

definition update_status ::
  "experience_env \<Rightarrow> experience_stmt faults \<Rightarrow> ustr \<Rightarrow> ustr \<Rightarrow> ('a, nat) exp_op" where
  "update_status ev flt project_id experience_id =
     sql_exec (flt (UpdateStatus experience_id)) (\<lambda>db.
       (db\<lparr>experience_records := row_update (promotes project_id experience_id)
          (\<lambda>r. r\<lparr>xr_status := lit ''stable'', xr_updated_at := xe_sql_now ev\<rparr>) (experience_records db)\<rparr>,
        row_count (promotes project_id experience_id) (experience_records db)))"

definition refresh_status ::
  "experience_env \<Rightarrow> experience_stmt faults \<Rightarrow> ustr \<Rightarrow> json \<Rightarrow> ('a, nat) exp_op" where
  "refresh_status ev flt project_id item =
     (if get_bool (readiness_summary item (get_array item (lit ''reviews'')))
         (lit ''promotion_gate_passed'')
      then case get_str item (lit ''id'') of
             None \<Rightarrow> op_return 0 | Some experience_id \<Rightarrow> update_status ev flt project_id experience_id
      else op_return 0)"

definition refresh_experience_statuses ::
  "experience_lib \<Rightarrow> experience_env \<Rightarrow> experience_stmt faults \<Rightarrow> ustr \<Rightarrow> nat \<Rightarrow> ('a, nat) exp_op" where
  "refresh_experience_statuses X ev flt project_id limit db =
     op_sum (refresh_status ev flt project_id)
       (list_experience_records X flt db project_id (Some [lit ''candidate'', lit ''review_required''])
           None limit) db"

section \<open>The refresh\<close>

definition as_u64 :: "json \<Rightarrow> nat option" where
  "as_u64 v = (case v of JInt n \<Rightarrow> if 0 \<le> n \<and> n < 2 ^ 64 then Some (nat n) else None | _ \<Rightarrow> None)"

definition gate_limit :: "json \<Rightarrow> nat \<Rightarrow> nat" where
  "gate_limit gate requested_limit =
     (case Option.bind (json_get gate (lit ''activation_limit'')) as_u64 of
        None \<Rightarrow> requested_limit | Some n \<Rightarrow> n)"

definition clamp :: "nat \<Rightarrow> nat \<Rightarrow> nat \<Rightarrow> nat" where
  "clamp lo hi n = max lo (min hi n)"

definition refresh_steps ::
  "experience_lib \<Rightarrow> experience_env \<Rightarrow> experience_stmt faults \<Rightarrow> ustr \<Rightarrow> nat \<Rightarrow> ('a, json) exp_op" where
  "refresh_steps X ev flt project_id requested_limit =
     op_bind (sql_query (flt InitTables) (\<lambda>db. ())) (\<lambda>u.
     op_bind (phase2_activation_gate ev flt project_id requested_limit) (\<lambda>gate.
       let refresh_limit = gate_limit gate requested_limit in
     op_bind (seed_procedure_experiences X ev flt project_id 80) (\<lambda>seeded.
     op_bind (materialize_review_required_experiences X ev flt project_id refresh_limit)
         (\<lambda>review_required.
     op_bind (materialize_degraded_experiences X ev flt project_id refresh_limit) (\<lambda>degraded.
     op_bind (review_candidate_experiences X ev flt project_id (max refresh_limit 6)) (\<lambda>reviewed.
     op_bind (refresh_experience_statuses X ev flt project_id 200) (\<lambda>lifecycle_updates.
       op_return (JObj [(lit ''seeded'', JInt (int seeded)),
         (lit ''candidates'', JInt (int (review_required + degraded))), (lit ''reviewed'', JInt (int
             reviewed)),
         (lit ''lifecycle_updates'', JInt (int lifecycle_updates)), (lit ''action_updates'', JInt 0),
         (lit ''activation_gate'', gate),
         (lit ''rust_notes'', JStr
             (lit ''Deterministic Rust substrate refresh seeds procedure_schema records, review-required notes, degraded notes, and deterministic reviews.''))]))))))))"

definition refresh_substrate ::
  "experience_lib \<Rightarrow> experience_env \<Rightarrow> experience_stmt faults \<Rightarrow> ustr \<Rightarrow> nat \<Rightarrow> 'a experience_db_scheme \<Rightarrow>
   'a experience_db_scheme \<times> json" where
  "refresh_substrate X ev flt project_id limit db =
     (case refresh_steps X ev flt project_id (clamp 1 100 limit) db of
        (db, Inr value) \<Rightarrow> (db, value)
      | (db, Inl e) \<Rightarrow> (db, JObj [(lit ''error'', JStr (lit ''refresh_substrate_failed'')),
          (lit ''message'', JStr e)]))"

end
