(* ===== verification/Experience_Surfaces.thy ===== *)
theory Experience_Surfaces
  imports Experience_Refresh
begin

text \<open>
  What the experience store answers (\<open>experience.rs\<close>): the search of records, a review, the surfaces
  for the other agents and the artifacts built from them, what waits for feedback, and feedback on
  topics and artifacts. Saving an artifact file is \<open>xl_save\<close>, with the parts of its path below the
  home directory and its text; the value is the path when the file was written.
\<close>

section \<open>Search and review\<close>

definition search_score :: "(ustr \<Rightarrow> ustr) \<Rightarrow> ustr \<Rightarrow> json \<Rightarrow> xf64" where
  "search_score lower query row =
     (let query_lower = lower (trim query); tokens = split_whitespace query_lower;
          haystack = lower (join_with [32] (map (\<lambda>key. text_or_empty (get_str row key))
            [lit ''title'', lit ''summary'', lit ''topic_key'', lit ''kind'']));
          score = status_weight (text_or_empty (get_str row (lit ''status'')));
          score = (if query_lower \<noteq> [] \<and> contains haystack query_lower then xadd score (xlit 0.7) else
              score)
      in if query_lower \<noteq> [] \<and> tokens \<noteq> []
         then xadd score (xmin (xmul (xdiv (xnat (length (filter (contains haystack) tokens)))
                                          (xnat (length tokens))) (xlit 0.5)) (xlit 0.5))
         else score)"

definition set_key :: "json \<Rightarrow> ustr \<Rightarrow> json \<Rightarrow> json" where
  "set_key v key x = (case v of JObj m \<Rightarrow> JObj (map_insert key x m) | _ \<Rightarrow> v)"

definition ranked_experiences ::
  "experience_lib \<Rightarrow> experience_stmt faults \<Rightarrow> 'a experience_db_scheme \<Rightarrow> ustr \<Rightarrow> ustr \<Rightarrow> nat \<Rightarrow>
   ustr list option \<Rightarrow> ustr option \<Rightarrow> json list" where
  "ranked_experiences X flt db project_id query limit statuses kind =
     (let limit = clamp 1 20 limit;
          rows = list_experience_records X flt db project_id statuses kind (limit * 6)
      in map (\<lambda>(score, row). set_key row (lit ''search_score'')
               (json_f64 (xdiv (xround_int (xmul score (Fin 1000))) (Fin 1000))))
           (take limit (sort_by_score fst (map (\<lambda>row. (search_score (xl_lower X) query row, row))
               rows))))"

definition search_experiences ::
  "experience_lib \<Rightarrow> experience_stmt faults \<Rightarrow> 'a experience_db_scheme \<Rightarrow> ustr \<Rightarrow> ustr \<Rightarrow> nat \<Rightarrow>
   ustr list option \<Rightarrow> ustr option \<Rightarrow> json" where
  "search_experiences X flt db project_id query limit statuses kind =
     (let results = ranked_experiences X flt db project_id query limit statuses kind
      in JObj [(lit ''query'', JStr query), (lit ''results'', JArr results), (lit ''count'', JInt (int
          (length results))),
           (lit ''rust_notes'', JStr
               (lit ''DB-backed deterministic experience search; Python still owns substrate refresh/distillation.''))])"

definition resolve_experience ::
  "experience_lib \<Rightarrow> experience_stmt faults \<Rightarrow> 'a experience_db_scheme \<Rightarrow> ustr \<Rightarrow> ustr option \<Rightarrow> ustr option
      \<Rightarrow>
   json option" where
  "resolve_experience X flt db project_id experience_id topic =
     (case experience_id of
        Some i \<Rightarrow> get_experience X flt db project_id i
      | None \<Rightarrow>
          (case topic of
             None \<Rightarrow> None
           | Some t \<Rightarrow>
               (case get_array (search_experiences X flt db project_id t 1 None None) (lit ''results'')
                   of
                  [] \<Rightarrow> None | item # items \<Rightarrow> Some item)))"

text \<open>\<open>let _ = upsert_review(...)\<close> for each review: failures are ignored.\<close>

definition store_reviews ::
  "experience_lib \<Rightarrow> experience_env \<Rightarrow> experience_stmt faults \<Rightarrow> ustr \<Rightarrow> json list \<Rightarrow> 'a experience_db_scheme
      \<Rightarrow>
   'a experience_db_scheme" where
  "store_reviews X ev flt experience_id reviews db =
     fold (\<lambda>review db. fst (upsert_review X ev flt experience_id review db)) reviews db"

definition review_experience ::
  "experience_lib \<Rightarrow> experience_env \<Rightarrow> experience_stmt faults \<Rightarrow> ustr \<Rightarrow> ustr option \<Rightarrow> ustr option \<Rightarrow> bool \<Rightarrow>
   'a experience_db_scheme \<Rightarrow> 'a experience_db_scheme \<times> json" where
  "review_experience X ev flt project_id experience_id topic force db =
     (case resolve_experience X flt db project_id experience_id topic of
        None \<Rightarrow> (db, JObj [(lit ''error'', JStr (lit ''experience_not_found'')),
          (lit ''message'', JStr (lit ''No matching experience found for experience_id/topic''))])
      | Some experience \<Rightarrow>
          let i = text_or_empty (as_str (json_at experience (lit ''id'')));
              existing = list_reviews X flt db i; renew = (force \<or> existing = []);
              reviews = (if renew then deterministic_reviews experience else existing)
          in (if renew then store_reviews X ev flt i reviews db else db,
              JObj [(lit ''experience'', experience), (lit ''reviews'', JArr reviews),
                (lit ''readiness'', readiness_summary experience reviews),
                (lit ''rust_notes'', JStr
                    (lit ''Deterministic Rust review; Python retains richer expert review heuristics.''))]))"

section \<open>Surfaces\<close>

definition surface_item :: "ustr \<Rightarrow> json \<Rightarrow> json" where
  "surface_item item_type item =
     JObj ([(lit ''experience_id'', json_at item (lit ''id'')), (lit ''type'', JStr item_type)] @
       map (get_or_null item) [lit ''title'', lit ''summary'', lit ''kind'', lit ''status'',
           lit ''topic_key'',
         lit ''stored_topic_key'', lit ''canonical_read_source'', lit ''confidence'', lit ''readiness'',
             lit ''actions''])"

definition surface_items :: "json list \<Rightarrow> nat \<Rightarrow> ustr \<Rightarrow> json" where
  "surface_items items limit item_type = JArr (map (surface_item item_type) (take limit items))"

definition shown_count :: "json list \<Rightarrow> nat \<Rightarrow> ustr" where
  "shown_count items limit = show_nat (min (length items) limit)"

definition hermes_surface :: "json list \<Rightarrow> json list \<Rightarrow> nat \<Rightarrow> json \<Rightarrow> json" where
  "hermes_surface settled review limit routing =
     JObj [(lit ''summary'', JStr (shown_count settled limit @ lit '' stable procedures / '' @
         shown_count review limit @
             lit '' candidates'')),
       (lit ''stable_playbooks'', surface_items settled limit (lit ''procedure'')),
       (lit ''procedure_candidates'', surface_items review limit (lit ''candidate'')), (lit ''routing'',
           routing)]"

definition harness_surface :: "json list \<Rightarrow> json list \<Rightarrow> json list \<Rightarrow> nat \<Rightarrow> json \<Rightarrow> json" where
  "harness_surface settled review degraded limit routing =
     JObj [(lit ''summary'', JStr (shown_count settled limit @ lit '' contracts / '' @ shown_count
         review limit @
             lit '' review candidates / '' @ shown_count degraded limit @ lit '' degraded'')),
       (lit ''qa_contracts'', surface_items settled limit (lit ''contract'')),
       (lit ''review_queue'', surface_items review limit (lit ''review'')),
       (lit ''known_risks'', surface_items degraded limit (lit ''risk'')), (lit ''routing'', routing)]"

definition autoresearch_surface :: "json list \<Rightarrow> json list \<Rightarrow> nat \<Rightarrow> json \<Rightarrow> json" where
  "autoresearch_surface settled degraded limit routing =
     JObj [(lit ''summary'', JStr (shown_count settled limit @ lit '' validated patterns / '' @
             shown_count degraded limit @ lit '' known failures'')),
       (lit ''validated_patterns'', surface_items settled limit (lit ''pattern'')),
       (lit ''known_failures'', surface_items degraded limit (lit ''failure'')),
       (lit ''guardrails'', surface_items settled limit (lit ''guardrail'')), (lit ''routing'',
           routing)]"

definition cold_eye_surface :: "json list \<Rightarrow> json list \<Rightarrow> json list \<Rightarrow> nat \<Rightarrow> json \<Rightarrow> json" where
  "cold_eye_surface settled review degraded limit routing =
     (let items = degraded @ review @ settled
      in JObj [(lit ''summary'', JStr (shown_count items limit @ lit '' challenge prompts'')),
           (lit ''anti_patterns'', surface_items degraded limit (lit ''anti_pattern'')),
           (lit ''challenge_prompts'', surface_items items limit (lit ''challenge'')), (lit ''routing'',
               routing)])"

definition SURFACE_TARGETS :: "ustr list" where
  "SURFACE_TARGETS = [lit ''hermes'', lit ''harness'', lit ''autoresearch'', lit ''cold_eye'']"

definition get_surfaces ::
  "experience_lib \<Rightarrow> experience_stmt faults \<Rightarrow> 'a experience_db_scheme \<Rightarrow> ustr \<Rightarrow> ustr \<Rightarrow> nat \<Rightarrow> ustr option \<Rightarrow>
   bool \<Rightarrow> json" where
  "get_surfaces X flt db project_id target limit topic auto_topic =
     (let limit = clamp 1 20 limit; target = (if trim target = [] then lit ''all'' else target);
          records = (\<lambda>statuses. list_experience_records X flt db project_id (Some statuses) None (limit
              * 4));
          settled = records [lit ''stable'']; review = records [lit ''review_required'',
              lit ''candidate''];
          degraded = records [lit ''degraded''];
          routing = JObj [(lit ''topic'', opt_json topic), (lit ''auto_topic'', JBool auto_topic),
            (lit ''source'', JStr (lit ''rust-experience-store''))];
          surfaces = filter (\<lambda>(name, s). target = lit ''all'' \<or> target = name)
            [(lit ''hermes'', hermes_surface settled review limit routing),
             (lit ''harness'', harness_surface settled review degraded limit routing),
             (lit ''autoresearch'', autoresearch_surface settled degraded limit routing),
             (lit ''cold_eye'', cold_eye_surface settled review degraded limit routing)]
      in if target \<noteq> lit ''all'' \<and> target \<notin> set SURFACE_TARGETS
         then JObj [(lit ''error'', JStr (lit ''unknown surface target'')), (lit ''target'', JStr
             target)]
         else if target = lit ''all''
         then JObj [(lit ''target'', JStr (lit ''all'')),
                (lit ''summary'', JStr
                    (lit ''Rust experience surfaces generated from experience_records'')),
                (lit ''routing'', routing), (lit ''surfaces'', JObj surfaces)]
         else let surface = (case map_of surfaces target of None \<Rightarrow> JObj [] | Some s \<Rightarrow> s)
              in JObj [(lit ''target'', JStr target), (lit ''summary'', JStr (text_or_empty (get_str
                  surface (lit ''summary'')))),
                   (lit ''routing'', routing), (lit ''surface'', surface)])"

section \<open>Artifacts\<close>

definition artifact_key :: "ustr \<Rightarrow> ustr option" where
  "artifact_key target =
     map_of [(lit ''hermes'', lit ''hermes_skill_bundle''), (lit ''harness'',
         lit ''harness_qa_contract''),
       (lit ''autoresearch'', lit ''autoresearch_overlay''), (lit ''cold_eye'', lit ''cold_eye_brief'')]
           target"

definition artifact_markdown :: "experience_lib \<Rightarrow> ustr \<Rightarrow> json \<Rightarrow> (ustr \<times> ustr) option" where
  "artifact_markdown X target surfaces =
     (let surface = (if json_at surfaces (lit ''target'') = JStr (lit ''all'')
            then json_get (json_at surfaces (lit ''surfaces'')) target
            else json_get surfaces (lit ''surface''))
      in case (artifact_key target, surface) of
           (Some key, Some s) \<Rightarrow>
             Some (key, [35, 32] @ target @ (lit '' experience artifact'' @ [10, 10] @
                 lit ''Summary: '') @
               text_or_empty (get_str s (lit ''summary'')) @ ([10, 10, 96, 96, 96] @ lit ''json'' @
                   [10]) @
               (case xl_pretty X s of None \<Rightarrow> lit ''{}'' | Some p \<Rightarrow> p) @ [10, 96, 96, 96, 10])
         | _ \<Rightarrow> None)"

definition write_artifact_file ::
  "experience_lib \<Rightarrow> ustr \<Rightarrow> ustr \<Rightarrow> ustr option \<Rightarrow> ustr \<Rightarrow> ustr option" where
  "write_artifact_file X project_id target topic markdown =
     xl_save X [lit ''.memra'', lit ''projects'', project_id, lit ''experience-artifacts'', target,
       (case topic of None \<Rightarrow> lit ''current'' | Some t \<Rightarrow> slugify t) @ lit ''.md''] markdown"

definition insert_artifact_run :: "experience_stmt faults \<Rightarrow> artifact_run \<Rightarrow> ('a, unit) exp_op" where
  "insert_artifact_run flt run db =
     (if ar_id run \<in> ar_id ` set (artifact_runs db) \<or>
         ar_feedback_token run \<in> ar_feedback_token ` set (artifact_runs db)
      then (db, Err (lit ''UNIQUE constraint failed''))
      else sql_exec (flt (InsertRun (ar_id run)))
             (\<lambda>db. (db\<lparr>artifact_runs := artifact_runs db @ [run]\<rparr>, ())) db)"

text \<open>One target of \<open>build_artifacts\<close>: its run is recorded, whether or not the insert succeeds, and
  its entry of the payload given back. Two identifiers are drawn for it.\<close>

definition build_artifact ::
  "experience_lib \<Rightarrow> experience_env \<Rightarrow> experience_stmt faults \<Rightarrow> ustr \<Rightarrow> json \<Rightarrow> ustr \<Rightarrow> ustr option \<Rightarrow> bool \<Rightarrow>
   nat \<Rightarrow> ustr \<Rightarrow> 'a experience_db_scheme \<Rightarrow> 'a experience_db_scheme \<times> (ustr \<times> json) option" where
  "build_artifact X ev flt project_id surfaces batch_id topic save i target db =
     (case artifact_markdown X target surfaces of
        None \<Rightarrow> (db, None)
      | Some (key, markdown) \<Rightarrow>
          let run_id = lit ''arun_'' @ xe_uuid ev i; token = lit ''aftk_'' @ xe_uuid ev (i + 1);
              path = (if save then write_artifact_file X project_id target topic markdown else None);
              routing = (case json_get surfaces (lit ''routing'') of None \<Rightarrow> JObj [] | Some r \<Rightarrow> r);
              feedback = (\<lambda>verdict. JObj [(lit ''tool'', JStr (lit ''report_artifact_feedback'')),
                  (lit ''verdict'', JStr verdict)])
          in (fst (insert_artifact_run flt
                \<lparr>ar_id = run_id, ar_batch_id = Some batch_id, ar_project_id = project_id,
                 ar_artifact_target = target, ar_feedback_token = token, ar_topic = topic,
                 ar_routing_json = Some (case jl_print (xl_json X) routing of None \<Rightarrow> lit ''{}'' | Some s
                     \<Rightarrow> s),
                 ar_artifact_path = path, ar_summary = Some markdown\<rparr> db),
              Some (key, JObj [(lit ''artifact_run_id'', JStr run_id), (lit ''feedback_token'', JStr
                  token),
                (lit ''artifact_target'', JStr target), (lit ''artifact_path'', opt_json path),
                (lit ''markdown'', JStr markdown),
                (lit ''feedback_contract'', JObj [(lit ''feedback_token'', JStr token),
                   (lit ''artifact_target'', JStr target), (lit ''helpful_feedback'', feedback
                       (lit ''helpful'')),
                   (lit ''miss_feedback'', feedback (lit ''miss''))])])))"

fun build_targets ::
  "(nat \<Rightarrow> ustr \<Rightarrow> 'd \<Rightarrow> 'd \<times> (ustr \<times> json) option) \<Rightarrow> nat \<Rightarrow> ustr list \<Rightarrow> json_map \<Rightarrow> 'd \<Rightarrow> 'd \<times> json_map"
      where
  "build_targets build i [] payload db = (db, payload)"
| "build_targets build i (target # ts) payload db =
     (case build i target db of
        (db, None) \<Rightarrow> build_targets build i ts payload db
      | (db, Some (key, entry)) \<Rightarrow> build_targets build (i + 2) ts (map_insert key entry payload) db)"

definition build_artifacts ::
  "experience_lib \<Rightarrow> experience_env \<Rightarrow> experience_stmt faults \<Rightarrow> ustr \<Rightarrow> ustr \<Rightarrow> nat \<Rightarrow> ustr option \<Rightarrow> bool \<Rightarrow>
   bool \<Rightarrow> 'a experience_db_scheme \<Rightarrow> 'a experience_db_scheme \<times> json" where
  "build_artifacts X ev flt project_id target limit topic auto_topic save db =
     (let batch_id = lit ''abatch_'' @ xe_uuid ev 0;
          surfaces = get_surfaces X flt db project_id target limit topic auto_topic;
          targets = (if target = lit ''all'' then [lit ''hermes'', lit ''harness''] else [target]);
          payload = [(lit ''artifact_batch_id'', JStr batch_id), (lit ''generated_at'', JStr (xe_now
              ev)),
            (lit ''routing'', case json_get surfaces (lit ''routing'') of None \<Rightarrow> JObj [] | Some r \<Rightarrow> r)]
      in case build_targets (build_artifact X ev flt project_id surfaces batch_id topic save) 1 targets
          payload db of
           (db, payload) \<Rightarrow> (db, JObj payload))"

end
