(* ===== verification/Experience_Feedback.thy ===== *)
theory Experience_Feedback
  imports Experience_Surfaces
begin

text \<open>
  Feedback in the experience store (\<open>experience.rs\<close>): what waits for it, feedback on a topic, and
  feedback on an artifact, which becomes feedback on the topic of its run.
\<close>

section \<open>What waits for feedback\<close>

definition pending_action_rows :: "'a experience_db_scheme \<Rightarrow> ustr \<Rightarrow> (action_row \<times> experience_row) list"
    where
  "pending_action_rows db project_id =
     concat (map (\<lambda>a. map (\<lambda>e. (a, e))
         (filter (\<lambda>e. xr_id e = xa_experience_id a \<and> xr_project_id e = Some project_id)
             (experience_records db)))
       (filter (\<lambda>a. xa_status a \<in> {lit ''recommended'', lit ''rework_required''} \<and> xa_outcome_note_id a
           = None)
         (experience_actions db)))"

definition pending_action_json :: "experience_lib \<Rightarrow> action_row \<times> experience_row \<Rightarrow> json" where
  "pending_action_json X pair =
     (case pair of (a, e) \<Rightarrow>
        JObj [(lit ''id'', JStr (xa_id a)), (lit ''experience_id'', JStr (xa_experience_id a)),
          (lit ''action_type'', JStr (xa_action_type a)), (lit ''target_system'', opt_json
              (xa_target_system a)),
          (lit ''status'', JStr (xa_status a)), (lit ''summary'', JStr (xa_summary a)),
          (lit ''payload'', parse_json_object (jl_parse (xl_json X)) (xa_payload_json a)),
          (lit ''outcome_note_id'', opt_json (xa_outcome_note_id a)), (lit ''updated_at'', JStr
              (xa_updated_at a)),
          (lit ''title'', JStr (xr_title e)), (lit ''kind'', JStr (xr_kind e)),
          (lit ''experience_status'', JStr (xr_status e))])"

definition list_pending_recommended_actions ::
  "experience_lib \<Rightarrow> experience_stmt faults \<Rightarrow> ustr \<Rightarrow> nat \<Rightarrow> ('a, json list) exp_op" where
  "list_pending_recommended_actions X flt project_id limit =
     sql_query (flt ListPending) (\<lambda>db. map (pending_action_json X) (take (max limit 1)
       (sort_desc (\<lambda>(a, e). xa_updated_at a) (pending_action_rows db project_id))))"

definition count_pending_recommended_actions :: "experience_stmt faults \<Rightarrow> ustr \<Rightarrow> ('a, nat) exp_op" where
  "count_pending_recommended_actions flt project_id =
     sql_query (flt CountPending) (\<lambda>db. length (pending_action_rows db project_id))"

definition feedback_due_review_item :: "json \<Rightarrow> json" where
  "feedback_due_review_item item =
     (let reviews = get_array item (lit ''reviews''); blockers = get_array item
         (lit ''promotion_blockers'');
          last_reviewed_at = max_column (map Some (List.map_filter (\<lambda>r. get_str r (lit ''updated_at''))
              reviews));
          review_outcome = (if reviews = [] then lit ''needs_review'' else if blockers \<noteq> [] then
              lit ''blocked_recently''
            else lit ''reviewed'');
          metadata = json_get item (lit ''metadata'');
          deliberation = Option.bind (Option.bind metadata (\<lambda>m. json_get m
              (lit ''expert_deliberation'')))
            (\<lambda>v. if is_object v then Some v else None);
          consensus_state = (case Option.bind metadata (\<lambda>m. get_str m (lit ''consensus_state'')) of
              Some s \<Rightarrow> s
            | None \<Rightarrow> if get_bool item (lit ''promotion_gate_passed'') then lit ''reviewed'' else
                lit ''needs_evidence'');
          experience_id = text_or_empty (get_str item (lit ''id''))
      in JObj ([(lit ''experience_id'', JStr experience_id)] @
           map (get_or_null item) [lit ''title'', lit ''summary'', lit ''kind'', lit ''status'',
               lit ''updated_at''] @
           [(lit ''review_count'', JInt (int (length reviews))), (lit ''last_reviewed_at'', opt_json
               last_reviewed_at),
            (lit ''review_outcome'', JStr review_outcome), (lit ''consensus_state'', JStr
                consensus_state),
            (lit ''promotion_blockers'', JArr blockers),
            (lit ''promotion_gate_passed'', JBool (get_bool item (lit ''promotion_gate_passed''))),
            (lit ''expert_summary'', opt_json (Option.bind deliberation (\<lambda>d. get_str d
                (lit ''summary'')))),
            (lit ''next_actions'', JArr (case deliberation of
               None \<Rightarrow> [] | Some d \<Rightarrow> take 4 (get_array d (lit ''next_actions'')))),
            (lit ''suggested_tool'', JStr ((lit ''review_experience(experience_id='' @ [34]) @
                experience_id @
               ([34] @ lit '', force=true)'')))]))"

definition feedback_note_id_for_action ::
  "experience_lib \<Rightarrow> experience_stmt faults \<Rightarrow> 'a experience_db_scheme \<Rightarrow> ustr \<Rightarrow> ustr \<Rightarrow> ustr" where
  "feedback_note_id_for_action X flt db project_id experience_id =
     (case get_experience X flt db project_id experience_id of
        None \<Rightarrow> []
      | Some experience \<Rightarrow>
          let source = text_or_empty (get_str experience (lit ''source_note_id''))
          in if source \<noteq> [] then source
             else (case get_array experience (lit ''evidence_note_ids'') of
                     [] \<Rightarrow> [] | v # vs \<Rightarrow> text_or_empty (as_str v)))"

definition feedback_due_action_item ::
  "experience_lib \<Rightarrow> experience_stmt faults \<Rightarrow> 'a experience_db_scheme \<Rightarrow> ustr \<Rightarrow> json \<Rightarrow> json" where
  "feedback_due_action_item X flt db project_id action =
     (let action_id = text_or_empty (get_str action (lit ''id''));
          experience_id = text_or_empty (get_str action (lit ''experience_id''));
          memory_id = feedback_note_id_for_action X flt db project_id experience_id
      in JObj ([(lit ''action_id'', JStr action_id), (lit ''experience_id'', JStr experience_id),
             (lit ''memory_id'', JStr memory_id)] @
           map (get_or_null action) [lit ''title'', lit ''status'', lit ''target_system'',
               lit ''summary'', lit ''updated_at''] @
           [(lit ''suggested_tool'', JStr ((lit ''report_outcome(memory_id='' @ [34]) @ memory_id @
              ([34] @ lit '', outcome='' @ [34] @ lit ''confirmed|corrected|outdated'' @ [34] @
                  lit '', experience_id='' @ [34]) @ experience_id @
              ([34] @ lit '', action_id='' @ [34]) @ action_id @ [34, 41]))]))"

section \<open>Dreams that wait for feedback\<close>

text \<open>The project's promoted dreams, each with the metadata of the note it was promoted to.\<close>

definition promoted_for_feedback ::
  "experience_lib \<Rightarrow> 'a experience_db_scheme \<Rightarrow> ustr \<Rightarrow> (dream_row \<times> json) list" where
  "promoted_for_feedback X db project_id =
     map (\<lambda>d. (d, parse_json_object (jl_parse (xl_json X))
            (Option.bind (Option.bind (dr_promoted_to d) (\<lambda>i. row_get nr_id i (note_rows db)))
                nr_metadata_json)))
       (filter (\<lambda>d. dream_project db d = Some project_id \<and> dr_verdict d = Some (lit ''promoted'') \<and>
                    dr_promoted_to d \<noteq> None \<and> dream_promoted_at db d \<noteq> None)
         (case dream_candidates db of None \<Rightarrow> [] | Some rows \<Rightarrow> rows))"

definition exp_table :: "experience_stmt faults \<Rightarrow> ustr \<Rightarrow> ('a experience_db_scheme \<Rightarrow> bool) \<Rightarrow> ('a, bool)
    exp_op" where
  "exp_table flt table present = sql_query (flt (ExpTableStmt table)) present"

definition if_dream_tables ::
  "experience_stmt faults \<Rightarrow> 'b \<Rightarrow> ('a, 'b) exp_op \<Rightarrow> ('a, 'b) exp_op" where
  "if_dream_tables flt otherwise m =
     op_bind (exp_table flt (lit ''dream_candidates'') (\<lambda>db. dream_candidates db \<noteq> None)) (\<lambda>dreams.
       if \<not> dreams then op_return otherwise
       else op_bind (exp_table flt (lit ''notes'') (\<lambda>db. True)) (\<lambda>notes_exist. if notes_exist then m
           else op_return otherwise))"

definition dream_due_item :: "'a experience_db_scheme \<Rightarrow> dream_row \<Rightarrow> json" where
  "dream_due_item db d =
     (let memory_id = text_or_empty (dr_promoted_to d)
      in JObj [(lit ''candidate_id'', JStr (dr_id d)), (lit ''memory_id'', JStr memory_id),
           (lit ''summary'', JStr (compact_text (case map_of (dream_texts db) (dr_id d) of
              None \<Rightarrow> [] | Some (summary, frequency) \<Rightarrow> summary) 160)),
           (lit ''promoted_at'', JStr (text_or_empty (dream_promoted_at db d))),
           (lit ''feedback_status'', JStr (lit ''unreviewed'')),
           (lit ''suggested_tool'', JStr (dream_feedback_instruction memory_id))])"

definition unreviewed :: "dream_row \<times> json \<Rightarrow> bool" where
  "unreviewed pair \<longleftrightarrow> dream_feedback_status (snd pair) = lit ''unreviewed''"

text \<open>The loop stops once \<open>limit\<close> dreams are due, but keeps the first one even when \<open>limit\<close> is 0.\<close>

definition list_dream_feedback_due ::
  "experience_lib \<Rightarrow> experience_stmt faults \<Rightarrow> ustr \<Rightarrow> nat \<Rightarrow> ('a, json list) exp_op" where
  "list_dream_feedback_due X flt project_id limit =
     if_dream_tables flt []
       (sql_query (flt ListDreams) (\<lambda>db. map (\<lambda>(d, m). dream_due_item db d) (take (max limit 1)
         (filter unreviewed (take (max (max limit 1 * 5) 25)
           (sort_desc (\<lambda>(d, m). dream_promoted_at db d) (promoted_for_feedback X db project_id)))))))"

definition count_dream_feedback_due ::
  "experience_lib \<Rightarrow> experience_stmt faults \<Rightarrow> ustr \<Rightarrow> ('a, nat) exp_op" where
  "count_dream_feedback_due X flt project_id =
     if_dream_tables flt 0
       (sql_query (flt CountDreams) (\<lambda>db. length (filter unreviewed (promoted_for_feedback X db
           project_id))))"

definition feedback_due_steps ::
  "experience_lib \<Rightarrow> experience_env \<Rightarrow> experience_stmt faults \<Rightarrow> ustr \<Rightarrow> nat \<Rightarrow> json option \<Rightarrow> ('a, json)
      exp_op" where
  "feedback_due_steps X ev flt project_id limit refreshed =
     op_bind (sql_query (flt InitTables) (\<lambda>db. ())) (\<lambda>u.
     op_bind (case Option.bind (Option.bind refreshed (\<lambda>v. json_get v (lit ''activation_gate'')))
                (\<lambda>g. if is_object g then Some g else None) of
                Some gate \<Rightarrow> op_return gate
              | None \<Rightarrow> phase2_activation_gate ev flt project_id (max limit 6)) (\<lambda>gate.
     op_bind (\<lambda>db. op_return (list_experience_records X flt db project_id (Some
         [lit ''review_required'']) None limit) db)
       (\<lambda>review_queue.
     op_bind (count_experience_records flt project_id (Some [lit ''review_required'']) None)
         (\<lambda>review_total.
     op_bind (list_pending_recommended_actions X flt project_id limit) (\<lambda>recommended.
     op_bind (count_pending_recommended_actions flt project_id) (\<lambda>recommended_total.
     op_bind (list_dream_feedback_due X flt project_id limit) (\<lambda>dream_due.
     op_bind (count_dream_feedback_due X flt project_id) (\<lambda>dream_total.
     (\<lambda>db. op_return (JObj [(lit ''project_id'', JStr project_id), (lit ''activation_gate'', gate),
        (lit ''counts'', JObj [(lit ''feedback_deficit'', JInt (get_i64 gate
            (lit ''feedback_deficit''))),
           (lit ''review_required'', JInt (int review_total)),
           (lit ''recommended_actions'', JInt (int recommended_total)),
           (lit ''dream_feedback_due'', JInt (int dream_total))]),
        (lit ''returned_counts'', JObj [(lit ''review_required'', JInt (int (length review_queue))),
           (lit ''recommended_actions'', JInt (int (length recommended))),
           (lit ''dream_feedback_due'', JInt (int (length dream_due)))]),
        (lit ''review_required'', JArr (map feedback_due_review_item review_queue)),
        (lit ''recommended_actions'', JArr (map (feedback_due_action_item X flt db project_id)
            recommended)),
        (lit ''dream_feedback_due'', JArr dream_due)]) db)))))))))"

definition get_feedback_due ::
  "experience_lib \<Rightarrow> experience_env \<Rightarrow> experience_stmt faults \<Rightarrow> ustr \<Rightarrow> nat \<Rightarrow> bool \<Rightarrow> 'a
      experience_db_scheme \<Rightarrow>
   'a experience_db_scheme \<times> json" where
  "get_feedback_due X ev flt project_id limit refresh db =
     (let limit = clamp 1 20 limit
      in case (if refresh then map_prod id Some (refresh_substrate X ev flt project_id (max limit 6) db)
               else (db, None)) of
           (db, refreshed) \<Rightarrow>
             (case feedback_due_steps X ev flt project_id limit refreshed db of
                (db, Inr value) \<Rightarrow> (db, value)
              | (db, Inl e) \<Rightarrow> (db, JObj [(lit ''error'', JStr (lit ''feedback_due_failed'')),
                  (lit ''message'', JStr e),
                  (lit ''project_id'', JStr project_id)])))"

section \<open>Feedback\<close>

definition record_topic_feedback ::
  "experience_lib \<Rightarrow> experience_env \<Rightarrow> experience_stmt faults \<Rightarrow> ustr \<Rightarrow> ustr \<Rightarrow> ustr \<Rightarrow> ustr option \<Rightarrow> ustr \<Rightarrow>
   ustr option \<Rightarrow> json option \<Rightarrow> 'a experience_db_scheme \<Rightarrow> 'a experience_db_scheme \<times> json" where
  "record_topic_feedback X ev flt project_id topic verdict artifact_target source reason ctx db =
     (if trim topic = [] then (db, JObj [(lit ''error'', JStr (lit ''topic_required''))])
      else
        let topic_norm = normalize_topic (xl_lower X) topic; terms = split_whitespace topic_norm;
            ctx = (case ctx of None \<Rightarrow> JObj [] | Some c \<Rightarrow> c);
            print_or = (\<lambda>v otherwise. case jl_print (xl_json X) v of None \<Rightarrow> otherwise | Some s \<Rightarrow> s)
        in case sql_exec (flt InsertFeedback) (\<lambda>db. (db\<lparr>topic_feedback := topic_feedback db @
               [\<lparr>tf_project_id = project_id, tf_topic = topic, tf_topic_norm = topic_norm, tf_verdict =
                   verdict,
                 tf_artifact_target = artifact_target, tf_source = source, tf_reason = reason,
                 tf_topic_terms_json = print_or (JArr (map JStr terms)) (lit ''[]''),
                 tf_context_json = print_or ctx (lit ''{}''), tf_updated_at = xe_sql_now ev\<rparr>]\<rparr>, ())) db
                     of
             (db, Inr u) \<Rightarrow> (db, JObj [(lit ''project_id'', JStr project_id), (lit ''topic'', JStr
                 topic),
               (lit ''topic_norm'', JStr topic_norm), (lit ''verdict'', JStr verdict),
               (lit ''artifact_target'', opt_json artifact_target), (lit ''source'', JStr source),
               (lit ''reason'', opt_json reason)])
           | (db, Inl e) \<Rightarrow> (db, JObj [(lit ''error'', JStr (lit ''topic_feedback_failed'')),
               (lit ''message'', JStr e)]))"

definition non_empty :: "ustr option \<Rightarrow> ustr option" where
  "non_empty t = (case t of None \<Rightarrow> None | Some s \<Rightarrow> if s = [] then None else Some s)"

definition get_artifact_run ::
  "experience_stmt faults \<Rightarrow> 'a experience_db_scheme \<Rightarrow> ustr option \<Rightarrow> ustr option \<Rightarrow> artifact_run option"
      where
  "get_artifact_run flt db feedback_token artifact_run_id =
     (if flt GetRun \<noteq> None then None
      else case non_empty feedback_token of
             Some token \<Rightarrow> row_get ar_feedback_token token (artifact_runs db)
           | None \<Rightarrow>
               (case non_empty artifact_run_id of
                  Some i \<Rightarrow> row_get ar_id i (artifact_runs db) | None \<Rightarrow> None))"

definition artifact_run_routing :: "experience_lib \<Rightarrow> artifact_run \<Rightarrow> json" where
  "artifact_run_routing X run = parse_json_object (jl_parse (xl_json X)) (ar_routing_json run)"

definition artifact_verdict :: "ustr \<Rightarrow> ustr option" where
  "artifact_verdict verdict =
     (if verdict = lit ''helpful'' \<or> verdict = lit ''artifact_helpful'' then Some
         (lit ''artifact_helpful'')
      else if verdict = lit ''miss'' \<or> verdict = lit ''artifact_miss'' then Some (lit ''artifact_miss'')
          else None)"

definition report_artifact_feedback ::
  "experience_lib \<Rightarrow> experience_env \<Rightarrow> experience_stmt faults \<Rightarrow> ustr \<Rightarrow> ustr option \<Rightarrow> ustr option \<Rightarrow> ustr \<Rightarrow>
   ustr option \<Rightarrow> ustr \<Rightarrow> 'a experience_db_scheme \<Rightarrow> 'a experience_db_scheme \<times> json" where
  "report_artifact_feedback X ev flt project_id feedback_token artifact_run_id verdict reason source db
      =
     (case get_artifact_run flt db feedback_token artifact_run_id of
        None \<Rightarrow> (db, JObj [(lit ''error'', JStr (lit ''artifact_run_not_found''))])
      | Some run \<Rightarrow>
          (case non_empty (ar_topic run) of
             None \<Rightarrow> (db, JObj [(lit ''error'', JStr (lit ''artifact_run_missing_topic''))])
           | Some topic \<Rightarrow>
               (case artifact_verdict verdict of
                  None \<Rightarrow> (db, JObj [(lit ''error'', JStr (lit ''unknown_artifact_feedback_verdict'')),
                    (lit ''verdict'', JStr verdict)])
                | Some normalized \<Rightarrow>
                    (case record_topic_feedback X ev flt project_id topic normalized
                            (Some (ar_artifact_target run)) source reason
                            (Some (JObj [(lit ''artifact_run_id'', JStr (ar_id run)),
                               (lit ''feedback_token'', JStr (ar_feedback_token run)),
                               (lit ''artifact_path'', opt_json (ar_artifact_path run)),
                               (lit ''routing'', artifact_run_routing X run)])) db of
                       (db, recorded) \<Rightarrow>
                         (db, JObj [(lit ''artifact_run_id'', JStr (ar_id run)),
                            (lit ''feedback_token'', JStr (ar_feedback_token run)),
                            (lit ''artifact_target'', JStr (ar_artifact_target run)), (lit ''topic'',
                                JStr topic),
                            (lit ''verdict'', JStr normalized), (lit ''topic_feedback'',
                                recorded)])))))"

end
