(* ===== verification/Experience_Laws.thy ===== *)
theory Experience_Laws
  imports Experience_Feedback
begin

text \<open>
  What the experience store promises. The locale \<open>store_invariant\<close> lifts a property of the tables,
  kept by each of the store's statements, to its operations; it is interpreted for the keys of the
  tables, for the statuses of the records, and for the record of a note. A promotion needs evidence,
  reviews and confidence.
\<close>

section \<open>Operations keep what their statements keep\<close>

lemma op_keeps_count [keeps_intros]: "(\<And>x. op_keeps P (f x)) \<Longrightarrow> op_keeps P (op_count f xs)"
  by (simp add: op_count_def keeps_intros)

lemma op_keeps_sum [keeps_intros]: "(\<And>x. op_keeps P (f x)) \<Longrightarrow> op_keeps P (op_sum f xs)"
  by (induction xs) (simp_all add: keeps_intros)

lemma op_keeps_fallible [keeps_intros]: "op_keeps P (sql_fallible fault f)"
  unfolding sql_fallible_def by (intro op_keeps_bind op_keeps_query) (simp add: keeps_intros split:
      sum.split)

text \<open>An operation whose statements depend on what it has read.\<close>

lemma op_keeps_reading:
  assumes "\<And>db. op_keeps P (f db)" "\<And>db. m db = f db db"
  shows "op_keeps P m"
  using assms by (simp add: op_keeps_def)

locale store_invariant =
  fixes X :: experience_lib and ev :: experience_env and flt :: "experience_stmt faults"
    and project_id :: ustr and P :: "'a experience_db_scheme \<Rightarrow> bool"
  assumes procedure: "op_keeps P (upsert_experience_record flt (procedure_record X ev project_id n))"
    and review: "op_keeps P (upsert_experience_record flt (review_record X ev project_id n))"
    and degraded: "op_keeps P (upsert_experience_record flt (degraded_record X ev project_id n))"
    and reviewed: "op_keeps P (upsert_review X ev flt experience_id v)"
    and promoted: "op_keeps P (update_status ev flt project_id experience_id)"
    and feedback: "P db \<Longrightarrow> P (db\<lparr>topic_feedback := fs\<rparr>)"
    and run: "op_keeps P (insert_artifact_run flt r)"
begin

lemmas statements = procedure review degraded reviewed promoted run

lemma keeps_candidate: "op_keeps P (review_candidate X ev flt project_id i)"
proof (rule op_keeps_reading)
  let ?f = "\<lambda>db. if list_reviews X flt db i \<noteq> [] then op_return 0
      else case get_experience X flt db project_id i of None \<Rightarrow> op_return 0
        | Some e \<Rightarrow> op_bind (op_each (upsert_review X ev flt i) (deterministic_reviews e)) (\<lambda>u. op_return
            1)"
  show "op_keeps P (?f db)" for db
    by (intro op_keeps_If op_keeps_case_option op_keeps_bind op_keeps_each op_keeps_return statements)
  show "review_candidate X ev flt project_id i db = ?f db db" for db
    by (simp add: review_candidate_def split: option.split)
qed

lemma keeps_status: "op_keeps P (refresh_status ev flt project_id item)"
  unfolding refresh_status_def
  by (intro op_keeps_If op_keeps_case_option op_keeps_return statements)

lemma keeps_statuses: "op_keeps P (refresh_experience_statuses X ev flt project_id limit)"
proof (rule op_keeps_reading)
  let ?items = "\<lambda>db. list_experience_records X flt db project_id (Some [lit ''candidate'',
      lit ''review_required'']) None limit"
  show "op_keeps P (op_sum (refresh_status ev flt project_id) (?items db))" for db
    by (intro op_keeps_sum keeps_status)
  show "refresh_experience_statuses X ev flt project_id limit db =
      op_sum (refresh_status ev flt project_id) (?items db) db" for db
    by (simp add: refresh_experience_statuses_def del: lit_simps)
qed

lemma keeps_gate: "op_keeps P (phase2_activation_gate ev flt project_id n)"
  unfolding phase2_activation_gate_def Let_def by (intro op_keeps_bind op_keeps_query op_keeps_return)

lemma keeps_refresh_steps: "op_keeps P (refresh_steps X ev flt project_id limit)"
  unfolding refresh_steps_def Let_def seed_procedure_experiences_def
      materialize_review_required_experiences_def
    materialize_degraded_experiences_def review_candidate_experiences_def
  by (intro op_keeps_bind op_keeps_query op_keeps_return op_keeps_count op_keeps_sum op_keeps_fallible
      keeps_gate keeps_candidate keeps_statuses statements)

lemma keeps_refresh:
  assumes "P db" shows "P (fst (refresh_substrate X ev flt project_id limit db))"
  using op_keepsD [OF keeps_refresh_steps assms, of "clamp 1 100 limit"]
  by (auto simp: refresh_substrate_def split: prod.split sum.split)

lemma keeps_store_reviews:
  assumes "P db" shows "P (store_reviews X ev flt i reviews db)"
  unfolding store_reviews_def
  by (rule fold_invariant [where Q = "\<lambda>_. True" and P = P]) (use assms op_keepsD [OF reviewed] in auto)

lemma keeps_review:
  assumes "P db" shows "P (fst (review_experience X ev flt project_id experience_id topic force db))"
  using assms keeps_store_reviews by (auto simp: review_experience_def Let_def split: option.split)

lemma keeps_build_targets:
  assumes "\<And>i t db. P db \<Longrightarrow> P (fst (build i t db))" "P db"
  shows "P (fst (build_targets build i ts payload db))"
  using assms(2)
proof (induction ts arbitrary: i payload db)
  case (Cons t ts)
  obtain db' r where r: "build i t db = (db', r)" by fastforce
  with assms(1) [OF Cons.prems, of i t] have "P db'" by simp
  with Cons.IH r show ?case by (cases r) (auto split: prod.split)
qed simp

lemma keeps_build:
  assumes "P db" shows "P (fst (build_artifacts X ev flt project_id target limit topic auto_topic save
      db))"
proof -
  have step: "P db' \<Longrightarrow> P (fst (build_artifact X ev flt project_id surfaces b topic save i t db'))" for
      surfaces b i t db'
    using op_keepsD [OF run] by (auto simp: build_artifact_def Let_def split: option.split)
  show ?thesis
    by (simp add: build_artifacts_def Let_def split_beta keeps_build_targets step assms del: lit_simps)
qed

lemma keeps_topic_feedback:
  assumes "P db"
  shows "P (fst (record_topic_feedback X ev flt project_id topic verdict target source reason c db))"
  using assms feedback
  by (auto simp: record_topic_feedback_def Let_def sql_exec_def split: prod.split option.split
      sum.split)

lemma keeps_artifact_feedback:
  assumes "P db"
  shows "P (fst (report_artifact_feedback X ev flt project_id token run_id verdict reason source db))"
  using assms keeps_topic_feedback
  by (simp add: report_artifact_feedback_def split_beta del: lit_simps split: option.split)

lemma keeps_due:
  assumes "P db" shows "P (fst (get_feedback_due X ev flt project_id limit refresh db))"
proof -
  let ?limit = "clamp 1 20 limit"
  have steps: "op_keeps P (feedback_due_steps X ev flt project_id n refreshed)" for n refreshed
    unfolding feedback_due_steps_def count_experience_records_def list_pending_recommended_actions_def
      count_pending_recommended_actions_def list_dream_feedback_due_def count_dream_feedback_due_def
      if_dream_tables_def exp_table_def
    by (intro op_keeps_bind op_keeps_query op_keeps_return keeps_gate op_keeps_case_option op_keeps_If
        op_keeps_reading [where m = "\<lambda>db. op_return (f db) db" and f = "\<lambda>db. op_return (f db)" for f])
            simp_all
  obtain db1 refreshed where start: "(if refresh
      then map_prod id Some (refresh_substrate X ev flt project_id (max ?limit 6) db) else (db, None)) =
          (db1, refreshed)"
    by fastforce
  then have "P db1"
    using assms keeps_refresh [OF assms, of "max ?limit 6"]
    by (auto simp: map_prod_def split_beta split: if_splits)
  from op_keepsD [OF steps this] show ?thesis
    unfolding get_feedback_due_def Let_def start by (auto split: prod.split sum.split) (metis fst_conv)+
qed

end

section \<open>The store stays well formed\<close>

text \<open>A call of the store's interface, by any project and whatever statements fail.\<close>

inductive store_step :: "experience_lib \<Rightarrow> 'a experience_db_scheme \<Rightarrow> 'a experience_db_scheme \<Rightarrow> bool"
  for X where
  refresh: "store_step X db (fst (refresh_substrate X ev flt project_id limit db))"
| review: "store_step X db (fst (review_experience X ev flt project_id experience_id topic force db))"
| build: "store_step X db (fst (build_artifacts X ev flt project_id target limit topic auto_topic save
    db))"
| due: "store_step X db (fst (get_feedback_due X ev flt project_id limit renew db))"
| topic: "store_step X db (fst (record_topic_feedback X ev flt project_id topic' verdict target' source
    reason c db))"
| artifact: "store_step X db (fst (report_artifact_feedback X ev flt project_id token run_id verdict
    reason source db))"

inductive_cases store_stepE: "store_step X db db'"

definition RECORD_STATUSES :: "ustr set" where
  "RECORD_STATUSES = {lit ''stable'', lit ''review_required'', lit ''candidate'', lit ''degraded''}"

definition store_ok :: "'a experience_db_scheme \<Rightarrow> bool" where
  "store_ok db \<longleftrightarrow>
     keys_ok xr_id (experience_records db) \<and>
     keys_ok (\<lambda>r. (rv_experience_id r, rv_lens r)) (experience_reviews db) \<and>
     keys_ok ar_id (artifact_runs db) \<and> keys_ok ar_feedback_token (artifact_runs db) \<and>
     xr_status ` set (experience_records db) \<subseteq> RECORD_STATUSES"

lemma keys_ok_update_on:
  assumes "\<And>r. Q r \<Longrightarrow> key (f r) = key r" "keys_ok key rows"
  shows "keys_ok key (row_update Q f rows)"
proof -
  have "map key (row_update Q f rows) = map key rows"
    using assms(1) by (simp add: row_update_def)
  with assms(2) show ?thesis by (simp add: keys_ok_def)
qed

lemma set_row_update: "set (row_update Q f rows) \<subseteq> set rows \<union> f ` {r \<in> set rows. Q r}"
  by (auto simp: row_update_def)

lemma upsert_keeps_ok:
  assumes "xr_status r \<in> RECORD_STATUSES"
  shows "op_keeps store_ok (upsert_experience_record flt r)"
  unfolding upsert_experience_record_def
proof (rule op_keeps_exec)
  fix db :: "'a experience_db_scheme" assume "store_ok db"
  then show "store_ok (fst (db\<lparr>experience_records :=
          (if row_get xr_id (xr_id r) (experience_records db) = None then experience_records db @ [r]
           else row_update (\<lambda>old. xr_id old = xr_id r) (\<lambda>old. r\<lparr>xr_created_at := xr_created_at old\<rparr>)
                  (experience_records db))\<rparr>, ()))"
    using assms by (auto simp: store_ok_def intro!: keys_ok_insert keys_ok_update_on
        dest!: set_mp [OF set_row_update])
qed

lemma review_keeps_ok: "op_keeps store_ok (upsert_review X ev flt i v)"
  unfolding upsert_review_def Let_def
  by (rule op_keeps_exec)
     (auto simp: store_ok_def list_ex_iff row_get_None intro!: keys_ok_insert keys_ok_update_on; blast)

lemma status_keeps_ok: "op_keeps store_ok (update_status ev flt p i)"
  unfolding update_status_def
  by (rule op_keeps_exec)
     (auto simp: store_ok_def RECORD_STATUSES_def promotes_def intro!: keys_ok_update_on
       dest!: set_mp [OF set_row_update] simp del: lit_simps)

lemma run_keeps_ok: "op_keeps store_ok (insert_artifact_run flt r)"
  by (auto simp: op_keeps_def insert_artifact_run_def sql_exec_def store_ok_def row_get_None
      intro!: keys_ok_insert split: option.split)

interpretation well_formed: store_invariant X ev flt p store_ok
  for X ev flt p
proof
  show "op_keeps store_ok (upsert_experience_record flt (procedure_record X ev p n))" for n
    by (rule upsert_keeps_ok) (simp add: procedure_record_def Let_def RECORD_STATUSES_def del:
        lit_simps)
  show "op_keeps store_ok (upsert_experience_record flt (review_record X ev p n))" for n
    by (rule upsert_keeps_ok) (simp add: review_record_def RECORD_STATUSES_def del: lit_simps)
  show "op_keeps store_ok (upsert_experience_record flt (degraded_record X ev p n))" for n
    by (rule upsert_keeps_ok) (simp add: degraded_record_def Let_def RECORD_STATUSES_def del: lit_simps)
  show "store_ok (db\<lparr>topic_feedback := fs\<rparr>)" if "store_ok db" for db :: "'a experience_db_scheme" and fs
    using that by (simp add: store_ok_def)
qed (rule review_keeps_ok status_keeps_ok run_keeps_ok)+

lemma store_step_keeps_ok: "store_step X db db' \<Longrightarrow> store_ok db \<Longrightarrow> store_ok db'"
  by (induction rule: store_step.induct)
     (simp_all add: well_formed.keeps_refresh well_formed.keeps_review well_formed.keeps_build
       well_formed.keeps_due well_formed.keeps_topic_feedback well_formed.keeps_artifact_feedback)

text \<open>
  Whatever calls the projects make and whatever statements fail, the keys of the experience
  store stay unique: one record per identifier, one review per record and lens, one artifact run per
  identifier and per feedback token; and a record's status stays one of the four.
\<close>

theorem experience_store_stays_well_formed:
  assumes "(store_step X)\<^sup>*\<^sup>* db db'" "store_ok db"
  shows "store_ok db'"
  using assms by (induction rule: rtranclp_induct) (auto intro: store_step_keeps_ok)

end
