(* ===== verification/Experience_Rules.thy ===== *)
theory Experience_Rules
  imports Experience_Laws Scoring_Laws Result_Laws
begin

text \<open>
  Promotion, search and file names of the experience store: the last step of a refresh makes a record
  stable only through the gate (its first seeds records of procedure notes as stable), a search stays in its project and its filters, and the name of a saved artifact
  is made of plain characters.
\<close>

section \<open>The gate of a promotion\<close>

lemma gate_passed:
  "get_bool (readiness_summary e reviews) (lit ''promotion_gate_passed'') \<longleftrightarrow>
     MIN_EVIDENCE \<le> evidence_count e \<and> MIN_REVIEWS \<le> length reviews \<and> MIN_CONFIDENCE \<le> quality_score e"
  by (auto simp: readiness_summary_def promotion_blockers_def Let_def get_bool_def lit_inject simp del:
      lit_simps)

lemma hydrate_get:
  "get_str (hydrate_record X flt db r) (lit ''id'') = Some (xr_id r)"
  "get_str (hydrate_record X flt db r) (lit ''status'') = Some (xr_status r)"
  "get_str (hydrate_record X flt db r) (lit ''kind'') = Some (xr_kind r)"
  "get_array (hydrate_record X flt db r) (lit ''reviews'') = list_reviews X flt db (xr_id r)"
  "quality_score (hydrate_record X flt db r) = (case xr_confidence r of None \<Rightarrow> 0 | Some c \<Rightarrow> c)"
  by (simp_all add: hydrate_record_def get_str_def get_array_def quality_score_def json_at_def Let_def
      lit_inject
      split_beta del: lit_simps)

lemma hydrate_evidence:
  "evidence_count (hydrate_record X flt db r) =
     (case as_array (parse_json_array (jl_parse (xl_json X)) (xr_evidence_note_ids_json r)) of
        None \<Rightarrow> 0 | Some ids \<Rightarrow> length ids) +
     (case xr_source_note_id r of None \<Rightarrow> 0 | Some i \<Rightarrow> 1) +
     length (get_array (parse_json_object (jl_parse (xl_json X)) (xr_metadata_json r))
         (lit ''evidence_refs''))"
  by (simp add: evidence_count_def hydrate_record_def get_array_def evidence_refs_def Let_def lit_inject
      split_beta del: lit_simps split: option.split)

lemma update_status_result:
  "update_status ev flt p i db = (db', res) \<Longrightarrow> r' \<in> set (experience_records db') \<Longrightarrow>
   r' \<in> set (experience_records db) \<or> xr_id r' = i"
  by (auto simp: update_status_def sql_exec_def promotes_def row_update_def split: option.splits
      if_splits)

lemma refresh_status_result:
  assumes "refresh_status ev flt p item db = (db', res)" "r' \<in> set (experience_records db')"
  shows "r' \<in> set (experience_records db) \<or>
     get_bool (readiness_summary item (get_array item (lit ''reviews'')))
         (lit ''promotion_gate_passed'') \<and>
     get_str item (lit ''id'') = Some (xr_id r')"
  using assms update_status_result
  by (auto simp: refresh_status_def op_return_def simp del: lit_simps split: if_splits option.splits)
      blast+

lemma refresh_statuses_result:
  assumes "op_sum (refresh_status ev flt p) items db = (db', res)" "r' \<in> set (experience_records db')"
  shows "r' \<in> set (experience_records db) \<or>
     (\<exists>item \<in> set items.
        get_bool (readiness_summary item (get_array item (lit ''reviews'')))
            (lit ''promotion_gate_passed'') \<and>
        get_str item (lit ''id'') = Some (xr_id r'))"
  using assms
proof (induction items arbitrary: db res)
  case (Cons item items)
  obtain d1 r1 where d1: "refresh_status ev flt p item db = (d1, r1)" by fastforce
  show ?case
  proof (cases r1)
    case (Inl e)
    with Cons.prems d1 have "db' = d1" by (simp add: op_bind_def)
    with refresh_status_result [OF d1] Cons.prems(2) show ?thesis by (auto simp del: lit_simps)
  next
    case (Inr n)
    obtain d2 r2 where d2: "op_sum (refresh_status ev flt p) items d1 = (d2, r2)" by fastforce
    with Cons.prems(1) d1 Inr have "db' = d2" by (auto simp: op_bind_def op_return_def split:
        sum.splits)
    with Cons.IH [of d1 r2] d2 Cons.prems(2) have "r' \<in> set (experience_records d1) \<or>
       (\<exists>item \<in> set items.
          get_bool (readiness_summary item (get_array item (lit ''reviews'')))
              (lit ''promotion_gate_passed'') \<and>
          get_str item (lit ''id'') = Some (xr_id r'))"
      by simp
    with refresh_status_result [OF d1] show ?thesis by (auto simp del: lit_simps)
  qed
qed (simp add: op_return_def)

text \<open>
  C27. In the last step of a refresh a record becomes stable only when it belongs to the project,
  was a candidate or due for review, has two pieces of evidence, two reviews and a confidence of at
  least 0.75.
\<close>

theorem promotion_needs_evidence_reviews_and_confidence:
  fixes db :: "'a experience_db_scheme"
  assumes keys: "keys_ok xr_id (experience_records db)"
    and run: "refresh_experience_statuses X ev flt project_id limit db = (db', res)"
    and old: "r \<in> set (experience_records db)" "xr_status r \<noteq> lit ''stable''"
    and new: "r' \<in> set (experience_records db')" "xr_id r' = xr_id r" "xr_status r' = lit ''stable''"
  shows "xr_project_id r = Some project_id \<and>
     xr_status r \<in> {lit ''candidate'', lit ''review_required''} \<and>
     2 \<le> evidence_count (hydrate_record X flt db r) \<and> 2 \<le> length (list_reviews X flt db (xr_id r)) \<and>
     (\<exists>c. xr_confidence r = Some c \<and> f64_lit 0.75 \<le> c)"
proof -
  let ?statuses = "Some [lit ''candidate'', lit ''review_required'']"
  let ?items = "list_experience_records X flt db project_id ?statuses None limit"
  have same: "x = r" if "x \<in> set (experience_records db)" "xr_id x = xr_id r" for x
    using that old(1) keys by (auto simp: keys_ok_def distinct_map dest: inj_onD)
  have "r' \<notin> set (experience_records db)" using same [of r'] old(2) new(2,3) by auto
  with refresh_statuses_result [OF run [unfolded refresh_experience_statuses_def] new(1)]
  obtain item where item: "item \<in> set ?items"
      "get_bool (readiness_summary item (get_array item (lit ''reviews'')))
          (lit ''promotion_gate_passed'')"
      "get_str item (lit ''id'') = Some (xr_id r)"
    using new(2) by auto
  then obtain x where x: "item = hydrate_record X flt db x" "x \<in> set (selected_rows db project_id
      ?statuses None limit)"
    by (auto simp: list_experience_records_def split: if_splits simp del: lit_simps)
  then have "x \<in> set (experience_records db)" "record_selected project_id ?statuses None x"
    by (auto simp: selected_rows_def dest!: set_mp [OF set_take_subset] simp del: lit_simps)
  moreover with item(3) x(1) same [of x] have "x = r" by (simp add: hydrate_get del: lit_simps)
  moreover have "(0::f64) < MIN_CONFIDENCE" using f64_lit_half(2) [of "3 / 4"] by (simp add:
      MIN_CONFIDENCE_def)
  ultimately show ?thesis
    using item(2) x(1)
    by (auto simp: gate_passed hydrate_get record_selected_def MIN_EVIDENCE_def MIN_REVIEWS_def
        MIN_CONFIDENCE_def
        simp del: lit_simps split: option.splits)
qed

text \<open>
  A record made from a note due for review always has enough evidence for promotion: the note
  counts once as an evidence note and once more as an evidence reference.
\<close>

theorem one_note_is_evidence_enough:
  assumes "jl_parse (xl_json X) (jl_value_to_string (xl_json X) (JArr [JStr (nr_id n)])) = Some (JArr
      [JStr (nr_id n)])"
  shows "MIN_EVIDENCE \<le> evidence_count (hydrate_record X flt db (review_record X ev project_id n))"
  using assms by (simp add: hydrate_evidence review_record_def parse_json_array_def MIN_EVIDENCE_def)

section \<open>Search\<close>

lemma get_str_set_key:
  "key \<noteq> k \<Longrightarrow> get_str (set_key v k x) key = get_str v key"
  by (cases v) (simp_all add: get_str_def set_key_def)

text \<open>
  A search of the experience store answers with at most twenty records, each the record of a
  row of the project whose status and kind the caller asked for.
\<close>

theorem experience_search_stays_in_project:
  fixes db :: "'a experience_db_scheme"
  shows "length (ranked_experiences X flt db project_id query limit statuses kind) \<le> 20 \<and>
     (\<lambda>j. get_str j (lit ''id'')) ` set (ranked_experiences X flt db project_id query limit statuses
         kind) \<subseteq>
       (\<lambda>r. Some (xr_id r)) ` {r \<in> set (experience_records db). record_selected project_id statuses kind
           r}"
proof
  show "length (ranked_experiences X flt db project_id query limit statuses kind) \<le> 20"
    by (simp add: ranked_experiences_def clamp_def Let_def)
  have key: "get_str (set_key (hydrate_record X flt db r) (lit ''search_score'') v) (lit ''id'') = Some
      (xr_id r)" for r v
    by (subst get_str_set_key) (simp_all add: lit_inject hydrate_get del: lit_simps)
  show "(\<lambda>j. get_str j (lit ''id'')) ` set (ranked_experiences X flt db project_id query limit statuses
      kind) \<subseteq>
       (\<lambda>r. Some (xr_id r)) ` {r \<in> set (experience_records db). record_selected project_id statuses kind
           r}"
    by (auto simp: ranked_experiences_def list_experience_records_def selected_rows_def Let_def key
        intro!: imageI dest!: set_mp [OF set_take_subset] simp del: lit_simps split: if_splits)
qed

section \<open>Names of artifacts\<close>

lemma set_replace_double: "set (replace_double c t) \<subseteq> set t"
  by (induction c t rule: replace_double.induct) auto

lemma replace_double_Nil: "replace_double c t = [] \<longleftrightarrow> t = []"
  by (induction c t rule: replace_double.induct) auto

lemma set_trim_matches: "set (trim_matches c t) \<subseteq> set t"
  unfolding trim_matches_def by (metis set_dropWhileD set_rev subsetI)

lemma ascii_slug_chars:
  "c \<in> set (ascii_slug filler t) \<Longrightarrow> c = filler \<or> is_ascii_lowercase c \<or> is_ascii_digit c"
  by (auto simp: ascii_slug_def is_ascii_alphanumeric_def char_to_ascii_lowercase_def
      is_ascii_uppercase_def
      is_ascii_lowercase_def is_ascii_digit_def split: if_splits)

text \<open>
  The file name an artifact is saved under is never empty and has only lower-case ASCII
  letters, digits and hyphens, so no topic names a path outside the project's directory.
\<close>

theorem artifact_slug_is_plain:
  "slugify raw \<noteq> [] \<and> set (slugify raw) \<subseteq> {c. is_ascii_lowercase c \<or> is_ascii_digit c \<or> c = 45}"
proof
  show "slugify raw \<noteq> []" by (simp add: slugify_def Let_def)
  have "set (replace_double 45 (trim_matches 45 (ascii_slug 45 raw))) \<subseteq> set (ascii_slug 45 raw)"
    using set_replace_double set_trim_matches by (meson subset_trans)
  then show "set (slugify raw) \<subseteq> {c. is_ascii_lowercase c \<or> is_ascii_digit c \<or> c = 45}"
    using ascii_slug_chars [of _ 45 raw]
    by (auto simp: slugify_def Let_def is_ascii_lowercase_def is_ascii_digit_def split: if_splits)
qed

end
