(* ===== verification/Experience_Faults.thy ===== *)
theory Experience_Faults
  imports Experience_Rules Context_Laws
begin

text \<open>
  Where the experience store breaks what its callers rely on: a refresh takes the procedure notes of
  every project for its own, one unreadable note stops every refresh half way, feedback reaches the
  artifact runs of other projects, and the feedback of the oldest day of the window is not counted.
\<close>

section \<open>A refresh adopts the notes of other projects\<close>

definition adopted :: "ustr \<Rightarrow> ustr \<Rightarrow> 'a experience_db_scheme \<Rightarrow> bool" where
  "adopted project_id i db \<longleftrightarrow>
     (\<exists>r. row_get xr_id i (experience_records db) = Some r \<and> xr_project_id r = Some project_id)"

lemma row_get_update_on:
  assumes "\<And>r. Q r \<Longrightarrow> key (f r) = key r"
  shows "row_get key k (row_update Q f rows) = map_option (\<lambda>r. if Q r then f r else r) (row_get key k
      rows)"
  using assms by (induction rows) (auto simp: row_update_def)

lemma row_get_upserted:
  "row_get xr_id i (if row_get xr_id (xr_id r) rows = None then rows @ [r]
      else row_update (\<lambda>old. xr_id old = xr_id r) (\<lambda>old. r\<lparr>xr_created_at := xr_created_at old\<rparr>) rows) =
   (if i = xr_id r then Some (case row_get xr_id i rows of None \<Rightarrow> r | Some old \<Rightarrow> r\<lparr>xr_created_at :=
       xr_created_at old\<rparr>)
    else row_get xr_id i rows)"
proof (cases "row_get xr_id (xr_id r) rows")
  case None
  then show ?thesis by (auto simp: table_simps split: option.split)
next
  case (Some old)
  then have "xr_id old = xr_id r" by (auto dest: row_get_SomeD)
  moreover have "xr_id x = i" if "row_get xr_id i rows = Some x" for x
    using row_get_SomeD [OF that] by simp
  ultimately show ?thesis
    using Some by (cases "row_get xr_id i rows") (auto simp: row_get_update_on)
qed

lemma upsert_adopts:
  assumes "upsert_experience_record flt r db = (db', Ok u)" "xr_project_id r = Some project_id"
  shows "adopted project_id (xr_id r) db'"
  using assms by (auto simp: upsert_experience_record_def sql_exec_Ok adopted_def row_get_upserted
      split: option.split)

lemma upsert_keeps_adopted:
  "xr_project_id r = Some project_id \<Longrightarrow> op_keeps (adopted project_id i) (upsert_experience_record flt r)"
  unfolding upsert_experience_record_def
  by (rule op_keeps_exec) (auto simp: adopted_def row_get_upserted split: option.split)

lemma status_keeps_adopted: "op_keeps (adopted project_id i) (update_status ev flt project_id j)"
  unfolding update_status_def
proof (rule op_keeps_exec)
  fix db :: "'a experience_db_scheme" assume "adopted project_id i db"
  then obtain r where "row_get xr_id i (experience_records db) = Some r" "xr_project_id r = Some
      project_id"
    by (auto simp: adopted_def)
  then show "adopted project_id i (fst (db\<lparr>experience_records := row_update (promotes project_id j)
      (\<lambda>r. r\<lparr>xr_status := lit ''stable'', xr_updated_at := xe_sql_now ev\<rparr>) (experience_records db)\<rparr>,
        row_count (promotes project_id j) (experience_records db)))"
    by (simp add: adopted_def row_get_update)
qed

interpretation adoption: store_invariant X ev flt project_id "adopted project_id i"
  for X ev flt project_id i
proof
  show "op_keeps (adopted project_id i) (upsert_experience_record flt (procedure_record X ev project_id
      n))" for n
    by (rule upsert_keeps_adopted) (simp add: procedure_record_def Let_def)
  show "op_keeps (adopted project_id i) (upsert_experience_record flt (review_record X ev project_id
      n))" for n
    by (rule upsert_keeps_adopted) (simp add: review_record_def)
  show "op_keeps (adopted project_id i) (upsert_experience_record flt (degraded_record X ev project_id
      n))" for n
    by (rule upsert_keeps_adopted) (simp add: degraded_record_def Let_def)
  show "op_keeps (adopted project_id i) (upsert_review X ev flt j v)" for j v
    unfolding upsert_review_def Let_def by (rule op_keeps_exec) (simp add: adopted_def)
  show "op_keeps (adopted project_id i) (update_status ev flt project_id j)" for j by (rule
      status_keeps_adopted)
  show "adopted project_id i (db\<lparr>topic_feedback := fs\<rparr>)" if "adopted project_id i db"
    for db :: "'a experience_db_scheme" and fs using that by (simp add: adopted_def)
  show "op_keeps (adopted project_id i) (insert_artifact_run flt r)" for r
    by (auto simp: op_keeps_def insert_artifact_run_def sql_exec_def adopted_def split: option.split)
qed

lemma each_establishes:
  assumes "op_each f xs s = (s', Ok u)" "x \<in> set xs"
    and "\<And>s s' u. f x s = (s', Ok u) \<Longrightarrow> P s'" "\<And>y. op_keeps P (f y)"
  shows "P s'"
  using assms(1,2)
proof (induction xs arbitrary: s)
  case (Cons y ys)
  from Cons.prems(1) obtain v s1 where s1: "f y s = (s1, Ok v)" "op_each f ys s1 = (s', Ok u)"
    by (auto elim!: op_bind_OkE)
  show ?case
  proof (cases "x \<in> set ys")
    case True
    with Cons.IH s1(2) show ?thesis by blast
  next
    case False
    with Cons.prems(2) s1(1) assms(3) have "P s1" by auto
    moreover have "op_keeps P (op_each f ys)" by (intro op_keeps_each assms(4))
    ultimately show ?thesis using s1(2) by (metis fst_conv op_keepsD)
  qed
qed simp

lemma seed_adopts:
  assumes "seed_procedure_experiences X ev flt project_id limit db = (db', Ok k)"
    and "n \<in> set (procedure_notes limit (note_rows db))"
  shows "adopted project_id (stable_experience_id (lit ''procedure'') (nr_id n)) db'"
proof -
  from assms(1) obtain u where run: "op_each (\<lambda>n. upsert_experience_record flt (procedure_record X ev
      project_id n))
      (procedure_notes limit (note_rows db)) db = (db', Ok u)"
    by (auto simp: seed_procedure_experiences_def op_count_def sql_query_Ok op_return_Ok elim!:
        op_bind_OkE)
  have i: "xr_id (procedure_record X ev project_id n) = stable_experience_id (lit ''procedure'') (nr_id
      n)"
      "xr_project_id (procedure_record X ev project_id n) = Some project_id"
    by (simp_all add: procedure_record_def Let_def del: lit_simps)
  show ?thesis
  proof (rule each_establishes [OF run assms(2)])
    show "adopted project_id (stable_experience_id (lit ''procedure'') (nr_id n)) s'"
      if "upsert_experience_record flt (procedure_record X ev project_id n) s = (s', Ok v)" for s s' v
      using upsert_adopts [OF that i(2)] i(1) by simp
  qed (rule adoption.procedure)
qed

text \<open>
  C19. After a refresh of one project that ends well, the record of every procedure note among the
  eighty newest of all projects belongs to the refreshing project, and no other project can read
  its record any longer.
\<close>

theorem refresh_adopts_notes_of_every_project:
  assumes "refresh_steps X ev flt project_id limit db = (db', Ok v)"
    and "n \<in> set (procedure_notes 80 (note_rows db))"
  shows "(\<exists>r. row_get xr_id (stable_experience_id (lit ''procedure'') (nr_id n)) (experience_records
      db') = Some r \<and>
            xr_project_id r = Some project_id) \<and>
     (other \<noteq> project_id \<longrightarrow>
       get_experience X flt' db' other (stable_experience_id (lit ''procedure'') (nr_id n)) = None)"
proof -
  let ?i = "stable_experience_id (lit ''procedure'') (nr_id n)"
  let ?limit = "\<lambda>gate. gate_limit gate limit"
  from assms(1) obtain gate k d1 d2 where seed: "phase2_activation_gate ev flt project_id limit db =
      (d1, Ok gate)"
      "seed_procedure_experiences X ev flt project_id 80 d1 = (d2, Ok k)"
      "fst (op_bind (materialize_review_required_experiences X ev flt project_id (?limit gate))
          (\<lambda>review_required.
         op_bind (materialize_degraded_experiences X ev flt project_id (?limit gate)) (\<lambda>degraded.
         op_bind (review_candidate_experiences X ev flt project_id (max (?limit gate) 6)) (\<lambda>reviewed.
         refresh_experience_statuses X ev flt project_id 200))) d2) = db'"
    unfolding refresh_steps_def Let_def
    by (elim op_bind_OkE) (auto simp: sql_query_Ok op_return_Ok op_bind_Ok)
  have "d1 = db" using seed(1)
    by (auto simp: phase2_activation_gate_def Let_def sql_query_Ok op_return_Ok elim!: op_bind_OkE)
  with seed_adopts [OF seed(2)] assms(2) have "adopted project_id ?i d2" by simp
  then have "adopted project_id ?i db'"
    unfolding seed(3) [symmetric] materialize_review_required_experiences_def
      materialize_degraded_experiences_def review_candidate_experiences_def
    by (rule op_keepsD [rotated])
       (intro op_keeps_bind op_keeps_query op_keeps_count op_keeps_sum op_keeps_fallible
        adoption.keeps_candidate adoption.keeps_statuses adoption.statements)
  then show ?thesis by (auto simp: adopted_def get_experience_def)
qed

section \<open>One unreadable note stops every refresh\<close>

lemma select_degraded_Err:
  assumes "n \<in> set rows" "is_live_note n" "degraded_flag X n = Err e"
  shows "\<exists>e. select_degraded X rows = Err e"
  using assms
proof (induction rows)
  case (Cons m rows)
  show ?case
  proof (cases "degraded_flag X m")
    case (Inr b)
    with Cons.prems have "n \<in> set rows" by auto
    with Cons.IH Cons.prems show ?thesis by (auto simp: and_then_def split: sum.split)
  qed (use Cons in \<open>auto simp: and_then_def split: sum.split\<close>)
qed simp

definition untouched :: "note_row list \<Rightarrow> review_row list \<Rightarrow> 'a experience_db_scheme \<Rightarrow> bool" where
  "untouched rows reviews db \<longleftrightarrow> note_rows db = rows \<and> experience_reviews db = reviews"

lemma upsert_keeps_untouched: "op_keeps (untouched rows reviews) (upsert_experience_record flt r)"
  unfolding upsert_experience_record_def by (rule op_keeps_exec) (simp add: untouched_def)

text \<open>
  As long as one active note has metadata that SQLite cannot read, every refresh of every
  project ends with an error: no candidate is reviewed and nothing is promoted, although the
  records of the procedures and of the notes due for review may have been rewritten.
\<close>

theorem unreadable_note_stops_every_refresh:
  fixes db :: "'a experience_db_scheme"
  assumes "n \<in> set (note_rows db)" "is_live_note n" "degraded_flag X n = Err e"
  shows "json_get (snd (refresh_substrate X ev flt project_id limit db)) (lit ''error'') =
       Some (JStr (lit ''refresh_substrate_failed'')) \<and>
     experience_reviews (fst (refresh_substrate X ev flt project_id limit db)) = experience_reviews db"
proof -
  let ?P = "untouched (note_rows db) (experience_reviews db)"
  let ?limit = "clamp 1 100 limit"
  have stops: "\<exists>e. snd (materialize_degraded_experiences X ev flt project_id m d) = Err e \<and>
      fst (materialize_degraded_experiences X ev flt project_id m d) = d" if P: "?P d" for m d
  proof -
    obtain e' where "select_degraded X (note_rows d) = Err e'"
      using select_degraded_Err [OF assms] P by (auto simp: untouched_def)
    then show ?thesis
      by (cases "flt SelectDegraded")
         (auto simp: materialize_degraded_experiences_def sql_fallible_def sql_query_def sql_exec_def
             op_bind_def
           op_fail_def and_then_def)
  qed
  have gate: "op_keeps ?P (phase2_activation_gate ev flt project_id m)" for m
    unfolding phase2_activation_gate_def Let_def by (intro op_keeps_bind op_keeps_query op_keeps_return)
  have seed: "op_keeps ?P (seed_procedure_experiences X ev flt project_id m)" for m
    unfolding seed_procedure_experiences_def
    by (intro op_keeps_bind op_keeps_query op_keeps_count upsert_keeps_untouched)
  have review: "op_keeps ?P (materialize_review_required_experiences X ev flt project_id m)" for m
    unfolding materialize_review_required_experiences_def
    by (intro op_keeps_bind op_keeps_query op_keeps_count upsert_keeps_untouched)
  have chain: "\<exists>e. snd (op_bind m f d) = Err e \<and> ?P (fst (op_bind m f d))"
    if "?P d" "op_keeps ?P m" "\<And>x d. ?P d \<Longrightarrow> \<exists>e. snd (f x d) = Err e \<and> ?P (fst (f x d))"
    for m :: "('a experience_db_scheme, sql_error, 'b) op" and f :: "'b \<Rightarrow> ('a experience_db_scheme,
        sql_error, json) op" and d
    using that op_keepsD [OF that(2,1)] by (cases "m d") (auto simp: op_bind_cases split: sum.split)
  have tail: "\<exists>e. snd (op_bind (materialize_degraded_experiences X ev flt project_id m) f d) = Err e \<and>
      ?P (fst (op_bind (materialize_degraded_experiences X ev flt project_id m) f d))"
    if P: "?P d" for m d and f :: "nat \<Rightarrow> ('a experience_db_scheme, sql_error, json) op"
    using stops [OF P, of m] P
    by (cases "materialize_degraded_experiences X ev flt project_id m d") (auto simp: op_bind_def)
  have "\<exists>e. snd (refresh_steps X ev flt project_id ?limit db) = Err e \<and> ?P (fst (refresh_steps X ev flt
      project_id ?limit db))"
    unfolding refresh_steps_def Let_def
    by (intro chain op_keeps_query gate seed review tail) (simp_all add: untouched_def)
  then show ?thesis
    by (cases "refresh_steps X ev flt project_id ?limit db")
       (auto simp: refresh_substrate_def untouched_def lit_inject simp del: lit_simps)
qed

section \<open>Feedback\<close>

text \<open>
  Feedback finds an artifact run by its token alone: whatever project the run belongs to, the
  caller's project learns its topic and the feedback is stored for the caller's project.
\<close>

theorem artifact_feedback_reaches_other_projects:
  assumes "row_get ar_feedback_token token (artifact_runs db) = Some run" "token \<noteq> []"
    and "ar_topic run = Some topic" "trim topic \<noteq> []" "artifact_verdict verdict = Some normalized"
  shows "\<exists>f. topic_feedback (fst (report_artifact_feedback X ev no_faults project_id (Some token) run_id
      verdict
              reason source db)) = topic_feedback db @ [f] \<and>
            tf_project_id f = project_id \<and> tf_topic f = topic \<and> tf_verdict f = normalized \<and>
            json_get (snd (report_artifact_feedback X ev no_faults project_id (Some token) run_id
                verdict
              reason source db)) (lit ''topic'') = Some (JStr topic)"
proof -
  have "topic \<noteq> []" using assms(4) by auto
  with assms show ?thesis
    by (simp add: report_artifact_feedback_def get_artifact_run_def non_empty_def
        record_topic_feedback_def Let_def
        sql_exec_def lit_inject del: lit_simps)
qed

lemma text_before: "day @ [32] @ t < day @ [84] @ c" for day :: ustr
  by (induction day) simp_all

text \<open>
  Feedback is stamped by SQLite with a space between date and time and compared, as text, with
  a limit that has a T there: the feedback of the day the window begins on is never counted,
  whatever its time.
\<close>

theorem feedback_of_first_day_not_counted:
  assumes "xe_cutoff ev = day @ [84] @ cutoff_time" "tf_updated_at f = day @ [32] @ time"
  shows "snd (phase2_activation_gate ev flt project_id limit (db\<lparr>topic_feedback := topic_feedback db @
      [f]\<rparr>)) =
    snd (phase2_activation_gate ev flt project_id limit db)"
proof -
  have "\<not> xe_cutoff ev \<le> tf_updated_at f"
    unfolding assms not_le by (rule text_before)
  then show ?thesis
    by (simp add: phase2_activation_gate_def op_bind_def sql_query_def sql_exec_def op_return_def
        Let_def
        split: option.split del: lit_simps)
qed

text \<open>Sample stores: the inputs at which the laws of the experience store are applied.\<close>

text \<open>JSON texts \<open>one\<close> and \<open>two\<close> are arrays of one and two notes; \<open>bad\<close> is text SQLite cannot read.\<close>

definition store_lib :: experience_lib where
  "store_lib =
     \<lparr>xl_json = (one_doc JNull)\<lparr>jl_parse := (\<lambda>s.
          if s = lit ''one'' then Some (JArr [JStr (lit ''n'')])
          else if s = lit ''two'' then Some (JArr [JStr (lit ''a''), JStr (lit ''b'')]) else None),
        jl_value_to_string := (\<lambda>v. lit ''one'')\<rparr>,
      xl_extract = (\<lambda>m path. if m = lit ''bad'' then Err (lit ''malformed JSON'') else Ok None),
      xl_lower = (\<lambda>s. s), xl_pretty = (\<lambda>v. None), xl_save = (\<lambda>path s. None)\<rparr>"

definition store_env :: experience_env where
  "store_env = \<lparr>xe_now = lit ''2026-05-31T00'', xe_cutoff = lit ''2026-05-01T00'', xe_sql_now =
      lit ''2026-05-31 00'',
     xe_uuid = show_nat\<rparr>"

definition empty_store :: experience_db where
  "empty_store =
     \<lparr>note_rows = [], notes_fts = [], sessions = [], note_events = [], note_relations = [],
      dream_candidates = None, notes_columns = [], recall_log = None, dream_columns = [], dream_texts =
          [],
      experience_records = [], experience_reviews = [], experience_actions = [], topic_feedback = [],
      artifact_runs = []\<rparr>"

lemma empty_store_ok: "store_ok empty_store"
  by (simp add: store_ok_def empty_store_def)

definition busy_store :: experience_db where
  "busy_store = empty_store\<lparr>note_rows := [task_row ''d'' ''bad'' ''1'']\<rparr>"

theorem experience_store_stays_well_formed_witness:
  "store_ok (fst (refresh_substrate store_lib store_env no_faults (lit ''beta'') 5
     (fst (record_topic_feedback store_lib store_env no_faults (lit ''alpha'') (lit ''rust'')
         (lit ''helpful'') None
        (lit ''user'') None None empty_store))))"
  by (rule experience_store_stays_well_formed [OF _ empty_store_ok])
     (rule rtranclp.rtrancl_into_rtrancl [OF r_into_rtranclp [of "store_step store_lib"]], rule topic,
         rule refresh)

section \<open>Promotion\<close>

definition due_record :: experience_row where
  "due_record =
     \<lparr>xr_id = lit ''e'', xr_title = [], xr_summary = [], xr_kind = lit ''decision'', xr_status =
         lit ''review_required'',
      xr_origin = None, xr_project_id = Some (lit ''alpha''), xr_source_note_id = None, xr_topic_key =
          None,
      xr_confidence = Some 1, xr_evidence_note_ids_json = Some (lit ''two''), xr_metadata_json = None,
      xr_superseded_by = None, xr_created_at = [], xr_updated_at = []\<rparr>"

definition sample_review :: "string \<Rightarrow> review_row" where
  "sample_review lens =
     \<lparr>rv_experience_id = lit ''e'', rv_lens = lit lens, rv_verdict = [], rv_confidence = 1, rv_why =
         None,
      rv_risk = None, rv_recommended_action = None, rv_evidence_refs_json = None, rv_created_at = [],
      rv_updated_at = []\<rparr>"

definition due_store :: experience_db where
  "due_store = empty_store\<lparr>experience_records := [due_record],
     experience_reviews := [sample_review ''hermes'', sample_review ''harness'']\<rparr>"

definition promoted_store :: experience_db where
  "promoted_store = due_store\<lparr>experience_records :=
     [due_record\<lparr>xr_status := lit ''stable'', xr_updated_at := xe_sql_now store_env\<rparr>]\<rparr>"

lemma due_reviews: "length (list_reviews store_lib no_faults due_store (lit ''e'')) = 2"
  by (simp add: list_reviews_def due_store_def sample_review_def sort_desc_def)

lemma due_run:
  "refresh_experience_statuses store_lib store_env no_faults (lit ''alpha'') 200 due_store =
      (promoted_store, Ok 1)"
proof -
  let ?item = "hydrate_record store_lib no_faults due_store due_record"
  have items: "list_experience_records store_lib no_faults due_store (lit ''alpha'')
      (Some [lit ''candidate'', lit ''review_required'']) None 200 = [?item]"
    by (simp add: list_experience_records_def selected_rows_def record_selected_def due_store_def
        due_record_def
        sort_desc_def del: lit_simps)
  have "2 \<le> evidence_count ?item"
    by (simp add: hydrate_evidence due_record_def store_lib_def parse_json_array_def)
  moreover have "MIN_CONFIDENCE \<le> quality_score ?item"
    using f64_lit_bounds(2) [of "3 / 4"] by (simp add: hydrate_get due_record_def MIN_CONFIDENCE_def)
  moreover have "MIN_REVIEWS \<le> length (get_array ?item (lit ''reviews''))"
    using due_reviews by (simp add: hydrate_get MIN_REVIEWS_def due_record_def del: lit_simps)
  ultimately have "get_bool (readiness_summary ?item (get_array ?item (lit ''reviews'')))
      (lit ''promotion_gate_passed'')"
    by (simp add: gate_passed MIN_EVIDENCE_def del: lit_simps)
  moreover have "get_str ?item (lit ''id'') = Some (lit ''e'')"
    by (simp add: hydrate_get due_record_def del: lit_simps)
  ultimately show ?thesis
    unfolding refresh_experience_statuses_def items
    by (simp add: refresh_status_def update_status_def sql_exec_def op_bind_def op_return_def
        promotes_def
        row_update_def row_count_def due_store_def promoted_store_def due_record_def lit_inject del:
            lit_simps)
qed

theorem promotion_needs_evidence_reviews_and_confidence_witness:
  "2 \<le> evidence_count (hydrate_record store_lib no_faults due_store due_record)"
proof -
  have "keys_ok xr_id (experience_records due_store)" by (simp add: due_store_def keys_ok_def)
  moreover have "due_record \<in> set (experience_records due_store)" by (simp add: due_store_def)
  moreover have "xr_status due_record \<noteq> lit ''stable''" by (simp add: due_record_def)
  moreover have "due_record\<lparr>xr_status := lit ''stable'', xr_updated_at := xe_sql_now store_env\<rparr>
      \<in> set (experience_records promoted_store)" by (simp add: promoted_store_def)
  ultimately show ?thesis
    using promotion_needs_evidence_reviews_and_confidence [OF _ due_run] by fastforce
qed

theorem one_note_is_evidence_enough_witness:
  "MIN_EVIDENCE \<le> evidence_count (hydrate_record store_lib no_faults due_store
     (review_record store_lib store_env (lit ''alpha'') (task_row ''n'' ''x'' ''1'')))"
  by (rule one_note_is_evidence_enough) (simp add: store_lib_def task_row_def)

section \<open>Faults\<close>

definition procedure_row :: note_row where
  "procedure_row = (task_row ''p1'' ''x'' ''1'')\<lparr>nr_layer := lit ''procedure_schema''\<rparr>"

definition procedure_store :: experience_db where
  "procedure_store = empty_store\<lparr>note_rows := [procedure_row]\<rparr>"

lemma procedure_refresh:
  "case refresh_steps store_lib store_env no_faults (lit ''beta'') 5 procedure_store of
     (db', Inr v) \<Rightarrow> True | (db', Inl e) \<Rightarrow> False"
  by code_simp

theorem refresh_adopts_notes_of_every_project_witness:
  "nr_project_id procedure_row = Some (lit ''alpha'') \<and>
   (\<exists>db' v r. refresh_steps store_lib store_env no_faults (lit ''beta'') 5 procedure_store = (db', Ok v)
       \<and>
      row_get xr_id (stable_experience_id (lit ''procedure'') (nr_id procedure_row)) (experience_records
          db') = Some r \<and>
      xr_project_id r = Some (lit ''beta'') \<and>
      get_experience store_lib no_faults db' (lit ''alpha'')
        (stable_experience_id (lit ''procedure'') (nr_id procedure_row)) = None)"
proof
  show "nr_project_id procedure_row = Some (lit ''alpha'')"
    by (simp add: procedure_row_def task_row_defs)
  obtain db' v where run: "refresh_steps store_lib store_env no_faults (lit ''beta'') 5 procedure_store
      = (db', Ok v)"
    using procedure_refresh by (auto split: prod.splits sum.splits)
  have "procedure_row \<in> set (procedure_notes 80 (note_rows procedure_store))"
    by code_simp
  from refresh_adopts_notes_of_every_project [where other = "lit ''alpha''" and flt' = no_faults, OF run
      this] run
  show "\<exists>db' v r. refresh_steps store_lib store_env no_faults (lit ''beta'') 5 procedure_store = (db',
      Ok v) \<and>
      row_get xr_id (stable_experience_id (lit ''procedure'') (nr_id procedure_row)) (experience_records
          db') = Some r \<and>
      xr_project_id r = Some (lit ''beta'') \<and>
      get_experience store_lib no_faults db' (lit ''alpha'')
        (stable_experience_id (lit ''procedure'') (nr_id procedure_row)) = None"
    by (auto simp: lit_inject simp del: lit_simps)
qed

theorem unreadable_note_stops_every_refresh_witness:
  "json_get (snd (refresh_substrate store_lib store_env no_faults (lit ''beta'') 5 busy_store))
      (lit ''error'') =
     Some (JStr (lit ''refresh_substrate_failed''))"
proof -
  have "task_row ''d'' ''bad'' ''1'' \<in> set (note_rows busy_store)" by (simp add: busy_store_def)
  moreover have "is_live_note (task_row ''d'' ''bad'' ''1'')" by code_simp
  moreover have "degraded_flag store_lib (task_row ''d'' ''bad'' ''1'') = Err (lit ''malformed JSON'')"
      by code_simp
  ultimately show ?thesis using unreadable_note_stops_every_refresh by blast
qed

definition alpha_run :: artifact_run where
  "alpha_run =
     \<lparr>ar_id = lit ''r'', ar_batch_id = None, ar_project_id = lit ''alpha'', ar_artifact_target =
         lit ''hermes'',
      ar_feedback_token = lit ''t'', ar_topic = Some (lit ''secret''), ar_routing_json = None,
          ar_artifact_path = None,
      ar_summary = None\<rparr>"

definition run_store :: experience_db where
  "run_store = empty_store\<lparr>artifact_runs := [alpha_run]\<rparr>"

theorem artifact_feedback_reaches_other_projects_witness:
  "json_get (snd (report_artifact_feedback store_lib store_env no_faults (lit ''beta'') (Some
      (lit ''t'')) None
     (lit ''miss'') None (lit ''user'') run_store)) (lit ''topic'') = Some (JStr (lit ''secret''))"
proof -
  have "row_get ar_feedback_token (lit ''t'') (artifact_runs run_store) = Some alpha_run"
    by (simp add: run_store_def alpha_run_def)
  moreover have "lit ''t'' \<noteq> []" "ar_topic alpha_run = Some (lit ''secret'')" "trim (lit ''secret'') \<noteq>
      []"
    by (simp, simp add: alpha_run_def, code_simp)
  moreover have "artifact_verdict (lit ''miss'') = Some (lit ''artifact_miss'')" by code_simp
  ultimately show ?thesis
    using artifact_feedback_reaches_other_projects [where X = store_lib and ev = store_env] by blast
qed

definition may_first :: feedback_row where
  "may_first =
     \<lparr>tf_project_id = lit ''alpha'', tf_topic = lit ''t'', tf_topic_norm = lit ''t'', tf_verdict =
         lit ''helpful'',
      tf_artifact_target = None, tf_source = lit ''user'', tf_reason = None, tf_topic_terms_json = [],
      tf_context_json = [], tf_updated_at = lit ''2026-05-01 23''\<rparr>"

theorem feedback_of_first_day_not_counted_witness:
  "snd (phase2_activation_gate store_env no_faults (lit ''alpha'') 5 (empty_store\<lparr>topic_feedback :=
      [may_first]\<rparr>)) =
   snd (phase2_activation_gate store_env no_faults (lit ''alpha'') 5 empty_store)"
proof -
  have "xe_cutoff store_env = lit ''2026-05-01'' @ [84] @ lit ''00''" by (simp add: store_env_def)
  moreover have "tf_updated_at may_first = lit ''2026-05-01'' @ [32] @ lit ''23''" by (simp add:
      may_first_def)
  ultimately have "snd (phase2_activation_gate store_env no_faults (lit ''alpha'') 5
      (empty_store\<lparr>topic_feedback := topic_feedback empty_store @ [may_first]\<rparr>)) =
    snd (phase2_activation_gate store_env no_faults (lit ''alpha'') 5 empty_store)"
    by (rule feedback_of_first_day_not_counted)
  then show ?thesis by (simp add: empty_store_def)
qed

end
