(* ===== verification/Utf8_Lossy.thy ===== *)
theory Utf8_Lossy
  imports Memra_Prelude
begin

text \<open>
  \<open>String::from_utf8_lossy\<close>, as the conversation reader uses it: every maximal prefix of a
  sequence that cannot go on becomes one replacement character, and reading resumes at the byte
  that broke the sequence. Bytes past the end read as 0. The text of valid UTF-8 is read back
  unchanged.
\<close>

definition byte_at :: "bytes \<Rightarrow> nat \<Rightarrow> int" where
  "byte_at bs i = (if i < length bs then uint (bs ! i) else 0)"

definition is_cont :: "int \<Rightarrow> bool" where
  "is_cont b \<longleftrightarrow> 0x80 \<le> b \<and> b \<le> 0xBF"

text \<open>The second bytes that keep a sequence of three or four bytes well formed.\<close>

definition second_of_three :: "int \<Rightarrow> int \<Rightarrow> bool" where
  "second_of_three a b \<longleftrightarrow>
     is_cont b \<and> (a = 0xE0 \<longrightarrow> 0xA0 \<le> b) \<and> (a = 0xED \<longrightarrow> b \<le> 0x9F)"

definition second_of_four :: "int \<Rightarrow> int \<Rightarrow> bool" where
  "second_of_four a b \<longleftrightarrow>
     is_cont b \<and> (a = 0xF0 \<longrightarrow> 0x90 \<le> b) \<and> (a = 0xF4 \<longrightarrow> b \<le> 0x8F)"

definition replacement_char :: rchar where
  "replacement_char = 0xFFFD"

text \<open>The next character and the number of bytes it takes.\<close>

definition utf8_next :: "bytes \<Rightarrow> rchar \<times> nat" where
  "utf8_next bs =
     (let a = byte_at bs 0; b = byte_at bs 1; c = byte_at bs 2; d = byte_at bs 3
      in if a < 0x80 then (a, 1)
         else if 0xC2 \<le> a \<and> a \<le> 0xDF then
           if is_cont b then ((a - 0xC0) * 64 + (b - 0x80), 2) else (replacement_char, 1)
         else if 0xE0 \<le> a \<and> a \<le> 0xEF then
           if \<not> second_of_three a b then (replacement_char, 1)
           else if \<not> is_cont c then (replacement_char, 2)
           else ((a - 0xE0) * 4096 + (b - 0x80) * 64 + (c - 0x80), 3)
         else if 0xF0 \<le> a \<and> a \<le> 0xF4 then
           if \<not> second_of_four a b then (replacement_char, 1)
           else if \<not> is_cont c then (replacement_char, 2)
           else if \<not> is_cont d then (replacement_char, 3)
           else ((a - 0xF0) * 262144 + (b - 0x80) * 4096 + (c - 0x80) * 64 + (d - 0x80), 4)
         else (replacement_char, 1))"

lemma utf8_next_advances: "0 < snd (utf8_next bs)"
  by (simp add: utf8_next_def Let_def)

function from_utf8_lossy :: "bytes \<Rightarrow> ustr" where
  "from_utf8_lossy bs =
     (if bs = [] then []
      else case utf8_next bs of (c, n) \<Rightarrow> c # from_utf8_lossy (drop n bs))"
  by auto
termination
  by (relation "measure length")
     (use utf8_next_advances in \<open>auto simp: prod_eq_iff\<close>)

declare from_utf8_lossy.simps [simp del]

section \<open>Reading back what was encoded\<close>

lemma byte_at_Cons [simp]:
  "byte_at (x # bs) 0 = uint x" "byte_at (x # bs) (Suc i) = byte_at bs i"
  by (simp_all add: byte_at_def)

lemma byte_at_numerals [simp]:
  "byte_at (x # bs) 1 = byte_at bs 0" "byte_at (x # bs) 2 = byte_at bs 1"
  "byte_at (x # bs) 3 = byte_at bs 2"
  unfolding numeral_2_eq_2 numeral_3_eq_3 One_nat_def by simp_all

lemma base64_digits:
  fixes c :: int
  shows "c div 64 * 64 + c mod 64 = c"
    and "c div 4096 * 4096 + c div 64 mod 64 * 64 + c mod 64 = c"
    and "c div 262144 * 262144 + c div 4096 mod 64 * 4096 + c div 64 mod 64 * 64 + c mod 64 = c"
proof -
  have a: "c = c div 64 * 64 + c mod 64" by simp
  have b: "c div 64 = c div 4096 * 64 + c div 64 mod 64"
    using div_mult_mod_eq [of "c div 64" 64] by (simp add: div_div_64)
  have d: "c div 4096 = c div 262144 * 64 + c div 4096 mod 64"
    using div_mult_mod_eq [of "c div 4096" 64] by (simp add: div_div_64)
  show "c div 64 * 64 + c mod 64 = c" by simp
  show "c div 4096 * 4096 + c div 64 mod 64 * 64 + c mod 64 = c" using a b by linarith
  show "c div 262144 * 262144 + c div 4096 mod 64 * 4096 + c div 64 mod 64 * 64 + c mod 64 = c"
    using a b d by linarith
qed

lemma second_of_three_encoded:
  assumes "0 \<le> y" "y < 64" "0 \<le> x" "x < 64" "q * 4096 + y * 64 + x = c"
    "0x800 \<le> c" "\<not> (0xD800 \<le> c \<and> c \<le> 0xDFFF)"
  shows "second_of_three (224 + q) (128 + y)"
  unfolding second_of_three_def is_cont_def using assms by auto

lemma second_of_four_encoded:
  assumes "0 \<le> z" "z < 64" "0 \<le> y" "y < 64" "0 \<le> x" "x < 64"
    "q * 262144 + z * 4096 + y * 64 + x = c" "0x10000 \<le> c" "c < 0x110000"
  shows "second_of_four (240 + q) (128 + z)"
  unfolding second_of_four_def is_cont_def using assms by auto

lemma utf8_next_encoded:
  assumes "is_scalar c"
  shows "utf8_next (utf8_char c @ rest) = (c, length (utf8_char c))"
proof -
  from assms have r: "0 \<le> c" "c < 0x110000" "\<not> (0xD800 \<le> c \<and> c \<le> 0xDFFF)"
    by (auto simp: is_scalar_def)
  let ?x = "c mod 64" and ?y = "c div 64 mod 64" and ?z = "c div 4096 mod 64"
  have m: "0 \<le> ?x" "?x < 64" "0 \<le> ?y" "?y < 64" "0 \<le> ?z" "?z < 64" by simp_all
  have le: "k mod 64 \<le> 63" for k :: int using pos_mod_bound [of 64 k] by linarith
  have u: "uint (byte (128 + k)) = 128 + k" if "0 \<le> k" "k < 64" for k
    using that by (simp add: uint_u8)
  note digits = base64_digits [of c]
  consider "c < 0x80" | "0x80 \<le> c" "c < 0x800" | "0x800 \<le> c" "c < 0x10000" | "0x10000 \<le> c"
    by linarith
  then show ?thesis
  proof cases
    case 1
    with r show ?thesis by (simp add: utf8_char_def utf8_next_def uint_u8)
  next
    case 2
    then have b: "2 \<le> c div 64" "c div 64 < 32" by auto
    have a: "uint (byte (192 + c div 64)) = 192 + c div 64" using b by (simp add: uint_u8)
    show ?thesis
      using 2 b m by (simp add: utf8_char_def utf8_next_def Let_def a u is_cont_def)
  next
    case 3
    then have b: "0 \<le> c div 4096" "c div 4096 < 16" by auto
    have a: "uint (byte (224 + c div 4096)) = 224 + c div 4096" using b by (simp add: uint_u8)
    have s: "second_of_three (224 + c div 4096) (128 + ?y)"
      by (rule second_of_three_encoded [OF m(3,4,1,2) digits(2) 3(1) r(3)])
    show ?thesis
      using 3 b m s by (simp add: utf8_char_3 utf8_next_def Let_def a u is_cont_def digits le)
  next
    case 4
    with r have b: "0 \<le> c div 262144" "c div 262144 < 5" by auto
    have a: "uint (byte (240 + c div 262144)) = 240 + c div 262144" using b by (simp add: uint_u8)
    have s: "second_of_four (240 + c div 262144) (128 + ?z)"
      by (rule second_of_four_encoded [OF m(5,6,3,4,1,2) digits(3) 4 r(2)])
    show ?thesis
      using 4 b m s by (simp add: utf8_char_4 utf8_next_def Let_def a u is_cont_def digits le)
  qed
qed

lemma from_utf8_lossy_Nil [simp]: "from_utf8_lossy [] = []"
  by (subst from_utf8_lossy.simps) simp

lemma from_utf8_lossy_encoded [simp]:
  "is_scalar c \<Longrightarrow> from_utf8_lossy (utf8_char c @ rest) = c # from_utf8_lossy rest"
  by (subst from_utf8_lossy.simps) (simp add: utf8_next_encoded)

lemma from_utf8_lossy_utf8: "valid_ustr t \<Longrightarrow> from_utf8_lossy (utf8 t) = t"
  by (induction t) (auto simp: valid_ustr_def)

end
