(* ===== verification/Convo_Normalizer.thy ===== *)
theory Convo_Normalizer
  imports Experience_Text Write_Orchestrator Utf8_Lossy
begin

text \<open>
  The reader of chat exports (\<open>memra-core/src/convo_normalizer.rs\<close>): the format of a file, the
  pairing of user and assistant turns into exchanges for Claude session lines, ChatGPT trees and
  plain text. The file system is a record of the two calls the code makes; serde_json's parser and
  printer are fields of \<open>json_lib\<close>. An object's keys come in the order of \<open>BTreeMap\<close>. The parent
  walk is a loop over a tree the file describes: that it ends is \<open>chain_loop_returns\<close> in
  \<open>Convo_Laws\<close>.
\<close>

section \<open>Formats\<close>

record exchange =
  ex_user_text :: ustr
  ex_assistant_text :: ustr
  ex_timestamp :: "ustr option"

datatype conversation_format = ClaudeJsonl | ChatGptJson | JsonUnknown | PlainText | UnknownFormat

datatype convo_error =
    ConvoIo ustr
  | ConvoJson
  | UnsupportedFormat conversation_format ustr

record convo_fs =
  fs_metadata :: "ustr \<Rightarrow> (ustr, unit) result"
  fs_read :: "ustr \<Rightarrow> (ustr, bytes) result"

text \<open>\<open>Path::file_name\<close> and \<open>Path::extension\<close> of a UTF-8 path.\<close>

definition path_file_name :: "ustr \<Rightarrow> ustr option" where
  "path_file_name path =
     (case rev (filter (\<lambda>p. p \<noteq> [] \<and> p \<noteq> [46]) (split_on (\<lambda>c. c = 47) path)) of
        [] \<Rightarrow> None | p # ps \<Rightarrow> if p = [46, 46] then None else Some p)"

definition path_extension :: "ustr \<Rightarrow> ustr option" where
  "path_extension path =
     Option.bind (path_file_name path) (\<lambda>name.
       case split_once 46 (rev name) of
         None \<Rightarrow> None
       | Some (ending, stem) \<Rightarrow> if stem = [] then None else Some (rev ending))"

definition read_lossy :: "convo_fs \<Rightarrow> ustr \<Rightarrow> (ustr, ustr) result" where
  "read_lossy fs path = and_then (fs_read fs path) (\<lambda>bytes. Ok (from_utf8_lossy bytes))"

definition read_prefix_lossy :: "convo_fs \<Rightarrow> ustr \<Rightarrow> nat \<Rightarrow> (ustr, ustr) result" where
  "read_prefix_lossy fs path byte_limit =
     and_then (fs_read fs path) (\<lambda>bytes. Ok (from_utf8_lossy (take byte_limit bytes)))"

definition detect_format :: "convo_fs \<Rightarrow> ustr \<Rightarrow> (ustr, conversation_format) result" where
  "detect_format fs path =
     and_then (fs_metadata fs path) (\<lambda>u.
       let ending = map_option to_ascii_lowercase (path_extension path)
       in if ending = Some (lit ''jsonl'') then Ok ClaudeJsonl
          else if ending = Some (lit ''json'') then
            and_then (read_prefix_lossy fs path 500) (\<lambda>t.
              if contains t (([34] @ lit ''mapping'' @ [34])) \<or> contains t (([34] @
                  lit ''conversation_id'' @ [34]))
              then Ok ChatGptJson else Ok JsonUnknown)
          else if ending \<in> {Some (lit ''txt''), Some (lit ''md''), Some [], None} then Ok PlainText
          else Ok UnknownFormat)"

section \<open>Pairing turns\<close>

text \<open>The variables of the pairing loops: \<open>exchanges\<close>, \<open>current_user\<close> and \<open>current_ts\<close>.\<close>

record pairing =
  pa_exchanges :: "exchange list"
  pa_user :: "ustr option"
  pa_ts :: "ustr option"

datatype turn = UserTurn ustr "ustr option" | AssistantTurn ustr

definition take_turn :: "turn \<Rightarrow> pairing \<Rightarrow> pairing" where
  "take_turn t p =
     (case t of
        UserTurn content ts \<Rightarrow>
          \<lparr>pa_exchanges = pa_exchanges p @
             (case pa_user p of
                None \<Rightarrow> []
              | Some u \<Rightarrow> [\<lparr>ex_user_text = u, ex_assistant_text = [], ex_timestamp = pa_ts p\<rparr>]),
           pa_user = Some content, pa_ts = ts\<rparr>
      | AssistantTurn content \<Rightarrow>
          (case pa_user p of
             None \<Rightarrow> p
           | Some u \<Rightarrow>
               \<lparr>pa_exchanges = pa_exchanges p @
                  [\<lparr>ex_user_text = u, ex_assistant_text = content, ex_timestamp = pa_ts p\<rparr>],
                pa_user = None, pa_ts = None\<rparr>))"

definition last_exchange :: "pairing \<Rightarrow> exchange list" where
  "last_exchange p =
     (case pa_user p of
        None \<Rightarrow> pa_exchanges p
      | Some u \<Rightarrow> pa_exchanges p @
          [\<lparr>ex_user_text = u, ex_assistant_text = [], ex_timestamp = pa_ts p\<rparr>])"

definition start_pairing :: "exchange list \<Rightarrow> pairing" where
  "start_pairing exchanges = \<lparr>pa_exchanges = exchanges, pa_user = None, pa_ts = None\<rparr>"

section \<open>Values\<close>

definition nonempty_str_field :: "json \<Rightarrow> ustr \<Rightarrow> ustr option" where
  "nonempty_str_field v key =
     (case Option.bind (json_get v key) as_str of
        None \<Rightarrow> None | Some t \<Rightarrow> if t = [] then None else Some t)"

fun json_value_to_timestamp :: "json_lib \<Rightarrow> json \<Rightarrow> ustr option" where
  "json_value_to_timestamp J JNull = None"
| "json_value_to_timestamp J (JStr t) = (if t = [] then None else Some t)"
| "json_value_to_timestamp J other = Some (jl_value_to_string J other)"

fun json_value_to_plain_text :: "json_lib \<Rightarrow> json \<Rightarrow> ustr" where
  "json_value_to_plain_text J (JStr t) = t"
| "json_value_to_plain_text J other = jl_value_to_string J other"

fun claude_block_text :: "json \<Rightarrow> ustr option" where
  "claude_block_text (JObj kvs) =
     (let block_type = (case Option.bind (map_of kvs (lit ''type'')) as_str of None \<Rightarrow> [] | Some t \<Rightarrow> t)
      in if block_type = lit ''tool_result'' \<or> block_type = lit ''tool_use'' then None
         else nonempty_str_field (JObj kvs) (lit ''text''))"
| "claude_block_text (JStr t) = Some t"
| "claude_block_text _ = None"

definition claude_entry_content :: "json_lib \<Rightarrow> json \<Rightarrow> ustr" where
  "claude_entry_content J entry =
     (case json_get entry (lit ''content'') of
        Some (JStr content) \<Rightarrow> content
      | Some (JArr blocks) \<Rightarrow> join_with [10] (List.map_filter claude_block_text blocks)
      | _ \<Rightarrow> (case json_get entry (lit ''message'') of
                None \<Rightarrow> [] | Some v \<Rightarrow> json_value_to_plain_text J v))"

section \<open>Claude sessions\<close>

text \<open>The turn of one line, when it has one.\<close>

definition claude_turn :: "json_lib \<Rightarrow> ustr \<Rightarrow> turn option" where
  "claude_turn J raw_line =
     (let line = trim raw_line
      in if line = [] then None
         else case jl_parse J line of
           None \<Rightarrow> None
         | Some entry \<Rightarrow>
             (let role = (case nonempty_str_field entry (lit ''role'') of
                            Some r \<Rightarrow> r
                          | None \<Rightarrow> (case nonempty_str_field entry (lit ''type'') of None \<Rightarrow> [] | Some r \<Rightarrow>
                              r));
                  content = trim (claude_entry_content J entry);
                  ts = Option.bind (case json_get entry (lit ''timestamp'') of
                                      Some v \<Rightarrow> Some v | None \<Rightarrow> json_get entry (lit ''ts''))
                         (json_value_to_timestamp J)
              in if content = [] then None
                 else if role \<in> {lit ''user'', lit ''human''} then Some (UserTurn content ts)
                 else if role \<in> {lit ''assistant'', lit ''ai'', lit ''model''} then Some (AssistantTurn
                     content)
                 else None))"

definition claude_line :: "json_lib \<Rightarrow> ustr \<Rightarrow> pairing \<Rightarrow> pairing" where
  "claude_line J raw_line p =
     (case claude_turn J raw_line of None \<Rightarrow> p | Some t \<Rightarrow> take_turn t p)"

definition normalize_claude_jsonl ::
  "json_lib \<Rightarrow> convo_fs \<Rightarrow> ustr \<Rightarrow> (convo_error, exchange list) result" where
  "normalize_claude_jsonl J fs path =
     (case read_lossy fs path of
        Inl e \<Rightarrow> Err (ConvoIo e)
      | Inr t \<Rightarrow> Ok (last_exchange (fold (claude_line J) (str_lines t) (start_pairing []))))"

section \<open>ChatGPT exports\<close>

definition node_parent :: "json_map \<Rightarrow> ustr \<Rightarrow> ustr option" where
  "node_parent mapping i =
     Option.bind (Option.bind (map_of mapping i) (\<lambda>node. json_get node (lit ''parent''))) as_str"

definition map_keys :: "json_map \<Rightarrow> ustr list" where
  "map_keys m = sort (map fst m)"

definition leaf_timestamp :: "json_map \<Rightarrow> ustr \<Rightarrow> f64" where
  "leaf_timestamp mapping i =
     (case Option.bind (Option.bind (Option.bind (map_of mapping i)
                 (\<lambda>node. json_get node (lit ''message''))) (\<lambda>m. json_get m (lit ''create_time'')))
                     as_f64 of
        None \<Rightarrow> 0 | Some x \<Rightarrow> x)"

text \<open>\<open>max_by\<close>: the last of the greatest.\<close>

fun last_max :: "('a \<Rightarrow> f64) \<Rightarrow> 'a list \<Rightarrow> 'a option" where
  "last_max f [] = None"
| "last_max f (x # xs) =
     Some (fold (\<lambda>y best. if f y < f best then best else y) xs x)"

definition latest_leaf_node :: "json_map \<Rightarrow> ustr option" where
  "latest_leaf_node mapping =
     (let parents = List.map_filter (\<lambda>(k, node). Option.bind (json_get node (lit ''parent'')) as_str)
         mapping
      in last_max (leaf_timestamp mapping) (filter (\<lambda>i. i \<notin> set parents) (map_keys mapping)))"

text \<open>The walk to the root; None is a walk that never ends.\<close>

partial_function (option) chain_loop ::
  "json_map \<Rightarrow> ustr option \<Rightarrow> ustr set \<Rightarrow> ustr list \<Rightarrow> ustr list option" where
  "chain_loop mapping node_id visited chain_ids =
     (case node_id of
        None \<Rightarrow> Some chain_ids
      | Some i \<Rightarrow>
          if map_of mapping i = None \<or> i \<in> visited then Some chain_ids
          else chain_loop mapping (node_parent mapping i) (insert i visited) (chain_ids @ [i]))"

definition active_chain_ids :: "json_map \<Rightarrow> ustr \<Rightarrow> ustr list option" where
  "active_chain_ids mapping current_node_id =
     map_option rev (chain_loop mapping (Some current_node_id) {} [])"

record chat_message =
  cm_role :: ustr
  cm_text :: ustr
  cm_timestamp :: "ustr option"

definition chatgpt_message :: "json_lib \<Rightarrow> json_map \<Rightarrow> ustr \<Rightarrow> chat_message option" where
  "chatgpt_message J mapping node_id =
     Option.bind (Option.bind (map_of mapping node_id) (\<lambda>node. json_get node (lit ''message'')))
         (\<lambda>message.
     Option.bind (Option.bind (Option.bind (json_get message (lit ''content''))
                    (\<lambda>content. json_get content (lit ''parts''))) as_array) (\<lambda>parts.
       let role = (case Option.bind (Option.bind (json_get message (lit ''author''))
                          (\<lambda>author. json_get author (lit ''role''))) as_str of None \<Rightarrow> [] | Some r \<Rightarrow> r);
           content = trim (join_with [10] (List.map_filter as_str parts))
       in if role \<noteq> lit ''user'' \<and> role \<noteq> lit ''assistant'' then None
          else if content = [] then None
          else Some \<lparr>cm_role = role, cm_text = content,
                     cm_timestamp = Option.bind (json_get message (lit ''create_time''))
                         (json_value_to_timestamp J)\<rparr>))"

definition chatgpt_messages :: "json_lib \<Rightarrow> json_map \<Rightarrow> ustr list \<Rightarrow> chat_message list" where
  "chatgpt_messages J mapping chain_ids = List.map_filter (chatgpt_message J mapping) chain_ids"

definition message_step :: "chat_message \<Rightarrow> pairing \<Rightarrow> pairing" where
  "message_step m p =
     (if cm_role m = lit ''user'' then take_turn (UserTurn (cm_text m) (cm_timestamp m)) p
      else if cm_role m = lit ''assistant'' then take_turn (AssistantTurn (cm_text m)) p
      else p)"

definition current_node :: "json \<Rightarrow> json_map \<Rightarrow> ustr option" where
  "current_node conversation mapping =
     (case Option.bind (json_get conversation (lit ''current_node'')) as_str of
        None \<Rightarrow> latest_leaf_node mapping
      | Some i \<Rightarrow> if map_of mapping i \<noteq> None then Some i else latest_leaf_node mapping)"

definition append_chatgpt_conversation ::
  "json_lib \<Rightarrow> json \<Rightarrow> exchange list \<Rightarrow> exchange list option" where
  "append_chatgpt_conversation J conversation exchanges =
     (case Option.bind (json_get conversation (lit ''mapping'')) as_object of
        None \<Rightarrow> Some exchanges
      | Some mapping \<Rightarrow>
          if mapping = [] then Some exchanges
          else case current_node conversation mapping of
            None \<Rightarrow> Some exchanges
          | Some i \<Rightarrow>
              map_option (\<lambda>chain_ids.
                  last_exchange (fold message_step (chatgpt_messages J mapping chain_ids)
                    (start_pairing exchanges)))
                (active_chain_ids mapping i))"

definition conversations :: "json \<Rightarrow> json list" where
  "conversations data = (case data of JArr cs \<Rightarrow> cs | c \<Rightarrow> [c])"

definition normalize_chatgpt_json ::
  "json_lib \<Rightarrow> convo_fs \<Rightarrow> ustr \<Rightarrow> (convo_error, exchange list) result option" where
  "normalize_chatgpt_json J fs path =
     (case read_lossy fs path of
        Inl e \<Rightarrow> Some (Err (ConvoIo e))
      | Inr t \<Rightarrow>
          (case jl_parse J t of
             None \<Rightarrow> Some (Err ConvoJson)
           | Some data \<Rightarrow>
               map_option Ok (fold (\<lambda>c acc. Option.bind acc (append_chatgpt_conversation J c))
                 (conversations data) (Some []))))"

section \<open>Plain text\<close>

record plain_state =
  pl_exchanges :: "exchange list"
  pl_user :: "ustr option"
  pl_lines :: "ustr list"

definition plain_exchange :: "ustr \<Rightarrow> ustr list \<Rightarrow> exchange" where
  "plain_exchange u lines =
     \<lparr>ex_user_text = u, ex_assistant_text = trim (join_with [10] lines), ex_timestamp = None\<rparr>"

definition plain_line :: "ustr \<Rightarrow> plain_state \<Rightarrow> plain_state" where
  "plain_line line s =
     (case strip_prefix line (lit ''> '') of
        Some user_line \<Rightarrow>
          (case pl_user s of
             None \<Rightarrow> s\<lparr>pl_user := Some (trim user_line)\<rparr>
           | Some u \<Rightarrow>
               \<lparr>pl_exchanges = pl_exchanges s @ [plain_exchange u (pl_lines s)],
                pl_user = Some (trim user_line), pl_lines = []\<rparr>)
      | None \<Rightarrow>
          (if pl_user s \<noteq> None then s\<lparr>pl_lines := pl_lines s @ [line]\<rparr> else s))"

definition plain_end :: "plain_state \<Rightarrow> exchange list" where
  "plain_end s =
     (case pl_user s of
        None \<Rightarrow> pl_exchanges s | Some u \<Rightarrow> pl_exchanges s @ [plain_exchange u (pl_lines s)])"

definition normalize_plain_text :: "convo_fs \<Rightarrow> ustr \<Rightarrow> (convo_error, exchange list) result" where
  "normalize_plain_text fs path =
     (case read_lossy fs path of
        Inl e \<Rightarrow> Err (ConvoIo e)
      | Inr t \<Rightarrow>
          Ok (plain_end (fold plain_line (str_lines t)
                \<lparr>pl_exchanges = [], pl_user = None, pl_lines = []\<rparr>)))"

section \<open>Dispatch\<close>

definition normalize ::
  "json_lib \<Rightarrow> convo_fs \<Rightarrow> ustr \<Rightarrow> (convo_error, exchange list) result option" where
  "normalize J fs path =
     (case detect_format fs path of
        Inl e \<Rightarrow> Some (Err (ConvoIo e))
      | Inr ClaudeJsonl \<Rightarrow> Some (normalize_claude_jsonl J fs path)
      | Inr ChatGptJson \<Rightarrow> normalize_chatgpt_json J fs path
      | Inr PlainText \<Rightarrow> Some (normalize_plain_text fs path)
      | Inr f \<Rightarrow> Some (Err (UnsupportedFormat f path)))"

end
