(* ===== verification/Convo_Laws.thy ===== *)
theory Convo_Laws
  imports Convo_Normalizer
begin

text \<open>
  What the chat reader promises: the parent walk of a ChatGPT tree ends for every tree, cycles
  included, and gives the path to the branch shown; the pairing loops give the recursive pairing
  \<open>pair_turns\<close>, which keeps every user turn; and a plain-text file written from exchanges is read
  back as those exchanges.
\<close>

section \<open>The walk to the root\<close>

definition walk_ends :: "json_map \<Rightarrow> ustr option \<Rightarrow> ustr set \<Rightarrow> bool" where
  "walk_ends mapping next_id visited \<longleftrightarrow>
     (case next_id of None \<Rightarrow> True | Some j \<Rightarrow> map_of mapping j = None \<or> j \<in> visited)"

lemma chain_loop_stops:
  "walk_ends m next_id V \<Longrightarrow> chain_loop m next_id V ids = Some ids"
  by (subst chain_loop.simps) (auto simp: walk_ends_def split: option.splits)

lemma chain_loop_goes_on:
  "map_of m i \<noteq> None \<Longrightarrow> i \<notin> V \<Longrightarrow>
   chain_loop m (Some i) V ids = chain_loop m (node_parent m i) (insert i V) (ids @ [i])"
  by (subst chain_loop.simps) auto

lemma chain_loop_returns:
  "\<exists>ids. chain_loop m next_id V acc = Some (acc @ ids) \<and> distinct ids \<and> set ids \<inter> V = {} \<and>
     set ids \<subseteq> dom (map_of m) \<and> successively (\<lambda>i j. node_parent m i = Some j) ids \<and>
     (if ids = [] then walk_ends m next_id V
      else next_id = Some (hd ids) \<and> walk_ends m (node_parent m (last ids)) (V \<union> set ids))"
proof (induction "card (dom (map_of m) - V)" arbitrary: next_id V acc rule: less_induct)
  case less
  show ?case
  proof (cases "walk_ends m next_id V")
    case True
    then show ?thesis by (intro exI [of _ "[]"]) (simp add: chain_loop_stops)
  next
    case False
    then obtain i where i: "next_id = Some i" "i \<in> dom (map_of m)" "i \<notin> V"
      by (auto simp: walk_ends_def split: option.splits)
    have "dom (map_of m) - insert i V \<subset> dom (map_of m) - V" using i by blast
    then have "card (dom (map_of m) - insert i V) < card (dom (map_of m) - V)"
      by (intro psubset_card_mono) (simp_all add: finite_dom_map_of)
    from less [OF this, of "node_parent m i" "acc @ [i]"] obtain ids where
      ids: "chain_loop m (node_parent m i) (insert i V) (acc @ [i]) = Some ((acc @ [i]) @ ids)"
        "distinct ids" "set ids \<inter> insert i V = {}" "set ids \<subseteq> dom (map_of m)"
        "successively (\<lambda>i j. node_parent m i = Some j) ids"
        "if ids = [] then walk_ends m (node_parent m i) (insert i V)
         else node_parent m i = Some (hd ids) \<and>
           walk_ends m (node_parent m (last ids)) (insert i V \<union> set ids)"
      by blast
    have "chain_loop m next_id V acc = Some (acc @ i # ids)"
      using ids(1) i chain_loop_goes_on [of m i V acc] by auto
    then show ?thesis
      using i ids by (intro exI [of _ "i # ids"]) (auto simp: successively_Cons Un_commute)
  qed
qed

lemma active_chain_returns: "\<exists>ids. active_chain_ids m i = Some ids"
  using chain_loop_returns [of m "Some i" "{}" "[]"] by (auto simp: active_chain_ids_def)

text \<open>
  The branch shown of a ChatGPT tree, whatever the tree: the walk from the current node ends, meets
  no node twice, goes from parent to child down to the current node, and starts at a node whose
  parent is missing or already on the branch.
\<close>

theorem active_chain_is_the_branch_shown:
  assumes "map_of mapping i \<noteq> None"
  shows "\<exists>ids. active_chain_ids mapping i = Some ids \<and> ids \<noteq> [] \<and> last ids = i \<and> distinct ids \<and>
     set ids \<subseteq> set (map fst mapping) \<and> successively (\<lambda>a b. node_parent mapping b = Some a) ids \<and>
     (case node_parent mapping (hd ids) of
        None \<Rightarrow> True | Some p \<Rightarrow> p \<notin> set (map fst mapping) \<or> p \<in> set ids)"
proof -
  from chain_loop_returns [of mapping "Some i" "{}" "[]"] obtain ids where
    ids: "chain_loop mapping (Some i) {} [] = Some ids" "distinct ids"
      "set ids \<subseteq> dom (map_of mapping)" "successively (\<lambda>i j. node_parent mapping i = Some j) ids"
      "if ids = [] then walk_ends mapping (Some i) {}
       else Some i = Some (hd ids) \<and> walk_ends mapping (node_parent mapping (last ids)) ({} \<union> set ids)"
    by auto
  have "ids \<noteq> []" using ids(5) assms by (auto simp: walk_ends_def)
  with ids show ?thesis
    by (intro exI [of _ "rev ids"])
       (auto simp: active_chain_ids_def last_rev hd_rev dom_map_of_conv_image_fst walk_ends_def
         map_of_eq_None_iff split: option.splits)
qed

section \<open>Pairing\<close>

text \<open>The exchanges of a sequence of turns: an answer belongs to the question right before it.\<close>

fun pair_turns :: "turn list \<Rightarrow> exchange list" where
  "pair_turns [] = []"
| "pair_turns (AssistantTurn a # ts) = pair_turns ts"
| "pair_turns (UserTurn u t # AssistantTurn a # ts) =
     \<lparr>ex_user_text = u, ex_assistant_text = a, ex_timestamp = t\<rparr> # pair_turns ts"
| "pair_turns (UserTurn u t # ts) =
     \<lparr>ex_user_text = u, ex_assistant_text = [], ex_timestamp = t\<rparr> # pair_turns ts"

fun user_text :: "turn \<Rightarrow> ustr option" where
  "user_text (UserTurn u t) = Some u"
| "user_text (AssistantTurn a) = None"

lemma last_exchange_fold:
  "last_exchange (fold take_turn ts p) = pa_exchanges p @
     (case pa_user p of None \<Rightarrow> pair_turns ts | Some u \<Rightarrow> pair_turns (UserTurn u (pa_ts p) # ts))"
proof (induction ts arbitrary: p)
  case Nil
  then show ?case by (simp add: last_exchange_def split: option.splits)
next
  case (Cons t ts)
  then show ?case by (cases t) (auto simp: take_turn_def split: option.splits)
qed

lemma pairing_is_pair_turns:
  "last_exchange (fold take_turn ts (start_pairing es)) = es @ pair_turns ts"
  by (simp add: last_exchange_fold start_pairing_def)

lemma fold_map_filter:
  "fold (\<lambda>x. case f x of None \<Rightarrow> (\<lambda>p. p) | Some t \<Rightarrow> g t) xs p = fold g (List.map_filter f xs) p"
  by (induction xs arbitrary: p) (auto simp: List.map_filter_simps split: option.splits)

lemma pair_turns_users: "map ex_user_text (pair_turns ts) = List.map_filter user_text ts"
  by (induction ts rule: pair_turns.induct) (simp_all add: List.map_filter_simps)

lemma claude_fold:
  "fold (claude_line J) ls p = fold take_turn (List.map_filter (claude_turn J) ls) p"
  unfolding fold_map_filter [symmetric] claude_line_def [abs_def]
  by (rule arg_cong [where f = "\<lambda>g. fold g ls p"]) (auto simp: fun_eq_iff split: option.splits)

definition message_turn :: "chat_message \<Rightarrow> turn option" where
  "message_turn m =
     (if cm_role m = lit ''user'' then Some (UserTurn (cm_text m) (cm_timestamp m))
      else if cm_role m = lit ''assistant'' then Some (AssistantTurn (cm_text m)) else None)"

lemma message_fold:
  "fold message_step ms p = fold take_turn (List.map_filter message_turn ms) p"
  unfolding fold_map_filter [symmetric] message_step_def [abs_def] message_turn_def
  by (rule arg_cong [where f = "\<lambda>g. fold g ms p"]) (auto simp: fun_eq_iff)

lemma claude_session_pairs:
  "normalize_claude_jsonl J fs path =
     (case fs_read fs path of
        Inl e \<Rightarrow> Err (ConvoIo e)
      | Inr bs \<Rightarrow> Ok (pair_turns (List.map_filter (claude_turn J) (str_lines (from_utf8_lossy bs)))))"
  by (simp add: normalize_claude_jsonl_def read_lossy_def claude_fold pairing_is_pair_turns
      split: sum.splits)

text \<open>
  A Claude session is read as the pairing of its turns: every user turn gives one exchange, in
  order and with its time, and only the answer right after it is kept.
\<close>

theorem claude_session_pairs_its_turns:
  "normalize_claude_jsonl J fs path =
     (case fs_read fs path of
        Inl e \<Rightarrow> Err (ConvoIo e)
      | Inr bs \<Rightarrow> Ok (pair_turns (List.map_filter (claude_turn J) (str_lines (from_utf8_lossy bs)))))"
  by (rule claude_session_pairs)

text \<open>
  Every format keeps every user turn, in order: the user texts of the exchanges are those of the
  turns the file holds, however the answers fall between them.
\<close>

theorem claude_session_keeps_every_question:
  assumes "normalize_claude_jsonl J fs path = Ok es" "fs_read fs path = Ok bs"
  shows "map ex_user_text es =
     List.map_filter (\<lambda>l. Option.bind (claude_turn J l) user_text) (str_lines (from_utf8_lossy bs))"
proof -
  have "List.map_filter user_text (List.map_filter (claude_turn J) ls) =
      List.map_filter (\<lambda>l. Option.bind (claude_turn J l) user_text) ls" for ls
    by (induction ls) (auto simp: List.map_filter_simps split: option.splits)
  with assms show ?thesis by (auto simp: claude_session_pairs pair_turns_users)
qed

lemma conversation_pairs_its_messages:
  assumes "json_get c (lit ''mapping'') = Some (JObj mapping)" "mapping \<noteq> []"
    "current_node c mapping = Some i" "active_chain_ids mapping i = Some ids"
  shows "append_chatgpt_conversation J c es =
     Some (es @ pair_turns (List.map_filter message_turn (chatgpt_messages J mapping ids)))"
  using assms
  by (simp add: append_chatgpt_conversation_def message_fold pairing_is_pair_turns del: lit_simps)

lemma pair_turns_append_answer:
  "pair_turns (ts @ UserTurn u t # AssistantTurn a # AssistantTurn b # rest) =
   pair_turns (ts @ UserTurn u t # AssistantTurn a # rest)"
  by (induction ts rule: pair_turns.induct) simp_all

text \<open>
  An answer that comes in two parts, as a session with a tool call between them does, keeps its
  first part only.
\<close>

theorem second_part_of_answer_is_lost:
  assumes "fs_read fs path = Ok bs"
    and "List.map_filter (claude_turn J) (str_lines (from_utf8_lossy bs)) =
      ts @ UserTurn u t # AssistantTurn a # AssistantTurn b # rest"
  shows "normalize_claude_jsonl J fs path = Ok (pair_turns (ts @ UserTurn u t # AssistantTurn a #
      rest))"
  using assms by (simp add: claude_session_pairs pair_turns_append_answer)

section \<open>Termination\<close>

lemma append_conversation_returns: "\<exists>es'. append_chatgpt_conversation J c es = Some es'"
  using active_chain_returns
  by (auto simp: append_chatgpt_conversation_def split: option.splits)

lemma conversations_return:
  "\<exists>es'. fold (\<lambda>c acc. Option.bind acc (append_chatgpt_conversation J c)) cs (Some es) = Some es'"
proof (induction cs arbitrary: es)
  case (Cons c cs)
  obtain es1 where "append_chatgpt_conversation J c es = Some es1"
    using append_conversation_returns by blast
  with Cons show ?case by simp
qed simp

text \<open>
  C21. Reading an export always returns: whatever the file holds, a tree whose parents form a cycle
  included, \<open>normalize\<close> answers with exchanges or with an error.
\<close>

theorem normalize_always_returns: "\<exists>answer. normalize J fs path = Some answer"
  using conversations_return [of J _ "[]"]
  by (auto simp: normalize_def normalize_chatgpt_json_def split: sum.splits option.splits
      conversation_format.splits)

section \<open>Reading back a plain-text file\<close>

text \<open>The file a reader of the format would write: the question after a mark, then the answer.\<close>

definition exchange_lines :: "exchange \<Rightarrow> ustr list" where
  "exchange_lines e = (lit ''> '' @ ex_user_text e) # split_on (\<lambda>c. c = 10) (ex_assistant_text e)"

definition plain_file :: "exchange list \<Rightarrow> ustr" where
  "plain_file es = concat (map (\<lambda>l. l @ [10]) (concat (map exchange_lines es)))"

text \<open>The exchanges such a file can hold.\<close>

definition plain_writable :: "exchange \<Rightarrow> bool" where
  "plain_writable e \<longleftrightarrow>
     ex_timestamp e = None \<and>
     valid_ustr (ex_user_text e) \<and> trim (ex_user_text e) = ex_user_text e \<and>
     10 \<notin> set (ex_user_text e) \<and> 13 \<notin> set (ex_user_text e) \<and>
     valid_ustr (ex_assistant_text e) \<and> trim (ex_assistant_text e) = ex_assistant_text e \<and>
     13 \<notin> set (ex_assistant_text e) \<and>
     list_all (\<lambda>l. \<not> starts_with l (lit ''> '')) (split_on (\<lambda>c. c = 10) (ex_assistant_text e))"

lemma split_on_not_Nil [simp]: "split_on P t \<noteq> []"
  by (cases t) (auto split: list.splits)

lemma join_split [simp]: "join_with [c] (split_on (\<lambda>d. d = c) t) = t"
proof (induction t)
  case (Cons d t)
  obtain p ps where "split_on (\<lambda>d. d = c) t = p # ps"
    using split_on_not_Nil by (metis list.exhaust)
  with Cons show ?case by (cases ps) auto
qed simp

lemma split_on_all: "\<forall>l \<in> set (split_on P t). set l \<subseteq> {c \<in> set t. \<not> P c}"
proof (induction t)
  case (Cons c t)
  obtain p ps where "split_on P t = p # ps"
    using split_on_not_Nil by (metis list.exhaust)
  with Cons show ?case by auto
qed simp

lemma split_on_parts: "l \<in> set (split_on P t) \<Longrightarrow> set l \<subseteq> {c \<in> set t. \<not> P c}"
  using split_on_all by blast

definition is_line :: "ustr \<Rightarrow> bool" where
  "is_line l \<longleftrightarrow> 10 \<notin> set l \<and> 13 \<notin> set l"

lemma file_lines_unlines:
  "list_all is_line ls \<Longrightarrow> file_lines (concat (map (\<lambda>l. l @ [10]) ls)) = ls"
  by (induction ls) (simp_all add: file_lines_line is_line_def)

lemma str_lines_unlines:
  assumes "list_all is_line ls"
  shows "str_lines (concat (map (\<lambda>l. l @ [10]) ls)) = ls"
proof -
  have "map strip_cr ls = ls"
    using assms by (intro map_idI) (auto simp: list_all_iff is_line_def strip_cr_def dest: last_in_set)
  moreover have "concat (map (\<lambda>l. l @ [10]) ls) = [] \<or> last (concat (map (\<lambda>l. l @ [10]) ls)) =
      (10::int)"
    by (induction ls rule: rev_induct) auto
  ultimately show ?thesis
    using file_lines_unlines [OF assms] by (auto simp: str_lines_def Let_def)
qed

lemma exchange_lines_are_lines: "plain_writable e \<Longrightarrow> list_all is_line (exchange_lines e)"
  using split_on_parts [of _ "\<lambda>c. c = 10" "ex_assistant_text e"]
  by (fastforce simp: exchange_lines_def plain_writable_def is_line_def list_all_iff)

lemma fold_answer_lines:
  "list_all (\<lambda>l. \<not> starts_with l (lit ''> '')) ls \<Longrightarrow> pl_user s \<noteq> None \<Longrightarrow>
   fold plain_line ls s = s\<lparr>pl_lines := pl_lines s @ ls\<rparr>"
  by (induction ls arbitrary: s) (simp_all add: plain_line_def strip_prefix_def del: lit_simps)

text \<open>The state after a question: what was asked before it is paired.\<close>

definition asked :: "exchange list \<Rightarrow> exchange \<Rightarrow> plain_state" where
  "asked es e = \<lparr>pl_exchanges = es, pl_user = Some (ex_user_text e),
     pl_lines = split_on (\<lambda>c. c = 10) (ex_assistant_text e)\<rparr>"

lemma plain_exchange_asked:
  "plain_writable e \<Longrightarrow>
   plain_exchange (ex_user_text e) (split_on (\<lambda>c. c = 10) (ex_assistant_text e)) = e"
  by (simp add: plain_exchange_def plain_writable_def)

lemma fold_exchange_lines:
  assumes "plain_writable e"
  shows "fold plain_line (exchange_lines e) \<lparr>pl_exchanges = [], pl_user = None, pl_lines = []\<rparr> = asked
      [] e"
    and "plain_writable e' \<Longrightarrow> fold plain_line (exchange_lines e) (asked es e') = asked (es @ [e']) e"
  using assms
  by (simp_all add: exchange_lines_def plain_line_def fold_answer_lines asked_def plain_exchange_asked
      plain_writable_def del: lit_simps)

lemma fold_plain_file:
  "list_all plain_writable es \<Longrightarrow> plain_writable e \<Longrightarrow>
   plain_end (fold plain_line (concat (map exchange_lines es)) (asked done e)) = done @ e # es"
  by (induction es arbitrary: "done" e)
     (simp_all add: fold_exchange_lines, simp add: plain_end_def asked_def plain_exchange_asked)

lemma valid_plain_file: "list_all plain_writable es \<Longrightarrow> valid_ustr (plain_file es)"
proof -
  have "valid_ustr (concat (map (\<lambda>l. l @ [10]) (exchange_lines e)))" if e: "plain_writable e" for e
  proof -
    have "valid_ustr l" if l: "l \<in> set (exchange_lines e)" for l
    proof (cases "l = lit ''> '' @ ex_user_text e")
      case True
      with e show ?thesis by (simp add: plain_writable_def valid_ustr_def is_scalar_def)
    next
      case False
      with l have "set l \<subseteq> set (ex_assistant_text e)"
        using split_on_parts [of l "\<lambda>c. c = 10"] by (auto simp: exchange_lines_def)
      with e show ?thesis by (auto simp: plain_writable_def valid_ustr_def list_all_iff)
    qed
    then show ?thesis by (auto simp: valid_ustr_def list_all_iff is_scalar_def)
  qed
  then show "list_all plain_writable es \<Longrightarrow> valid_ustr (plain_file es)"
    by (induction es) (auto simp: plain_file_def valid_ustr_def)
qed

text \<open>
  C23. Exchanges written as plain text and read back are the same exchanges, questions without an answer
  and answers of several lines included.
\<close>

theorem plain_text_round_trip:
  assumes "list_all plain_writable es"
    and "fs_metadata fs path = Ok ()" "fs_read fs path = Ok (utf8 (plain_file es))"
    and "map_option to_ascii_lowercase (path_extension path) \<in> {Some (lit ''txt''), Some (lit ''md''),
        None}"
  shows "normalize J fs path = Some (Ok es)"
proof -
  have "list_all is_line (concat (map exchange_lines es))"
    using assms(1) exchange_lines_are_lines by (auto simp: list_all_iff)
  then have lines: "str_lines (from_utf8_lossy (utf8 (plain_file es))) = concat (map exchange_lines es)"
    by (simp add: from_utf8_lossy_utf8 valid_plain_file [OF assms(1)])
       (simp add: plain_file_def str_lines_unlines)
  have "plain_end (fold plain_line (concat (map exchange_lines es))
      \<lparr>pl_exchanges = [], pl_user = None, pl_lines = []\<rparr>) = es"
  proof (cases es)
    case Nil
    then show ?thesis by (simp add: plain_end_def)
  next
    case (Cons e rest)
    with assms(1) show ?thesis using fold_plain_file [of rest e "[]"]
      by (simp add: fold_exchange_lines)
  qed
  moreover have "detect_format fs path = Ok PlainText"
    using assms(2,4) by (auto simp: detect_format_def lit_inject simp del: lit_simps)
  ultimately show ?thesis
    by (simp add: normalize_def normalize_plain_text_def read_lossy_def assms(3) lines)
qed

section \<open>Witnesses\<close>

text \<open>A tree whose two nodes are each other's parent.\<close>

definition cyclic_tree :: json_map where
  "cyclic_tree =
     [(lit ''a'', JObj [(lit ''parent'', JStr (lit ''b''))]), (lit ''b'', JObj [(lit ''parent'', JStr
         (lit ''a''))])]"

theorem active_chain_is_the_branch_shown_witness:
  "\<exists>ids. active_chain_ids cyclic_tree (lit ''a'') = Some ids \<and> ids \<noteq> [] \<and> last ids = lit ''a'' \<and>
      distinct ids \<and>
     set ids \<subseteq> set (map fst cyclic_tree) \<and>
     successively (\<lambda>a b. node_parent cyclic_tree b = Some a) ids \<and>
     (case node_parent cyclic_tree (hd ids) of
        None \<Rightarrow> True | Some p \<Rightarrow> p \<notin> set (map fst cyclic_tree) \<or> p \<in> set ids)"
  by (rule active_chain_is_the_branch_shown) (simp add: cyclic_tree_def)

definition session_lib :: json_lib where
  "session_lib =
     \<lparr>jl_parse = (\<lambda>t. if t = lit ''q'' then Some (JObj [(lit ''role'', JStr (lit ''user'')),
         (lit ''content'', JStr (lit ''Q''))])
                    else if t = lit ''a'' then Some (JObj [(lit ''type'', JStr (lit ''ai'')),
                        (lit ''content'', JArr [JStr (lit ''A'')])])
                    else None),
      jl_print = (\<lambda>j. None), jl_value_to_string = (\<lambda>j. []), jl_json_valid = (\<lambda>t. False),
      jl_extract_text = (\<lambda>t k. None)\<rparr>"

definition one_file :: "bytes \<Rightarrow> convo_fs" where
  "one_file bs = \<lparr>fs_metadata = (\<lambda>path. Ok ()), fs_read = (\<lambda>path. Ok bs)\<rparr>"

definition session_bytes :: bytes where
  "session_bytes = utf8 ([113, 10, 97, 10, 97, 10, 10, 120, 10, 113])"

lemma session_turns:
  "List.map_filter (claude_turn session_lib) (str_lines (from_utf8_lossy session_bytes)) =
     [UserTurn (lit ''Q'') None, AssistantTurn (lit ''A''), AssistantTurn (lit ''A''), UserTurn
         (lit ''Q'') None]"
  by code_simp

theorem claude_session_keeps_every_question_witness:
  "map ex_user_text (pair_turns (List.map_filter (claude_turn session_lib)
     (str_lines (from_utf8_lossy session_bytes)))) = [lit ''Q'', lit ''Q'']"
proof -
  have "normalize_claude_jsonl session_lib (one_file session_bytes) (lit ''s'') =
      Ok (pair_turns (List.map_filter (claude_turn session_lib) (str_lines (from_utf8_lossy
          session_bytes))))"
    by (simp add: claude_session_pairs one_file_def)
  from claude_session_keeps_every_question [OF this, of session_bytes]
  have "map ex_user_text (pair_turns (List.map_filter (claude_turn session_lib)
     (str_lines (from_utf8_lossy session_bytes)))) =
    List.map_filter (\<lambda>l. Option.bind (claude_turn session_lib l) user_text)
      (str_lines (from_utf8_lossy session_bytes))"
    by (simp add: one_file_def)
  also have "\<dots> = [lit ''Q'', lit ''Q'']" by code_simp
  finally show ?thesis .
qed

theorem second_part_of_answer_is_lost_witness:
  "normalize_claude_jsonl session_lib (one_file session_bytes) (lit ''s'') =
     Ok (pair_turns [UserTurn (lit ''Q'') None, AssistantTurn (lit ''A''), UserTurn (lit ''Q'') None])"
  using second_part_of_answer_is_lost [where ts = "[]" and rest = "[UserTurn (lit ''Q'') None]"
      and u = "lit ''Q''" and t = None and a = "lit ''A''" and b = "lit ''A''" and J = session_lib
      and fs = "one_file session_bytes" and bs = session_bytes and path = "lit ''s''"]
  by (simp add: session_turns one_file_def del: lit_simps)

definition two_exchanges :: "exchange list" where
  "two_exchanges =
     [\<lparr>ex_user_text = lit ''What is this?'', ex_assistant_text = (lit ''It is a test.'' @ [10, 10] @
         lit ''With lines.''), ex_timestamp = None\<rparr>,
      \<lparr>ex_user_text = lit ''Q2'', ex_assistant_text = [], ex_timestamp = None\<rparr>]"

theorem plain_text_round_trip_witness:
  "normalize session_lib (one_file (utf8 (plain_file two_exchanges))) (lit ''/tmp/chat.TXT'') =
     Some (Ok two_exchanges)"
proof (rule plain_text_round_trip)
  show "list_all plain_writable two_exchanges" by code_simp
  show "map_option to_ascii_lowercase (path_extension (lit ''/tmp/chat.TXT''))
    \<in> {Some (lit ''txt''), Some (lit ''md''), None}" by code_simp
qed (simp_all add: one_file_def)

end
