(* ===== verification/Service_Writes.thy ===== *)
theory Service_Writes
  imports Write_Runs Governance Write_Tokens Admission Experience_Text
begin

text \<open>
  The write tools of the service (\<open>memra-server/src/service.rs\<close>): \<open>propose_change\<close>,
  \<open>approve_change\<close>, \<open>add_rule\<close>, \<open>save_checkpoint\<close> and \<open>report_outcome\<close>, each with the actor it
  resolves, the write token it asks for, the permit it takes and returns, the component it calls,
  the audit event it leaves and the text it answers.

  The governance service and the writer have a connection each to one database file. \<open>sv_db\<close> is what
  is durable in the file and the two \<open>txn\<close> fields are what each connection has open; a statement
  that fails, as one that finds the file locked by the other connection, fails where the fault
  argument of the call says so. A tool runs from its first statement to its answer as one step.
\<close>

section \<open>The service\<close>

record svc_world = token_world +
  sv_admission :: write_admission
  sv_db :: gov_db
  sv_gov_txn :: "gov_db option"
  sv_write_txn :: "notes_db option"
  sv_files :: cold_files

record svc_lib =
  sl_write :: write_lib
  sl_gov :: gov_lib
  sl_blake3_hex :: "bytes \<Rightarrow> ustr"
  sl_pretty :: "json \<Rightarrow> ustr option"

record svc_self =
  sv_project_id :: ustr
  sv_orchestrator :: orchestrator
  sv_process_session :: ustr
  sv_pid :: nat
  sv_exe :: "ustr option"

text \<open>What one call finds outside: clocks, random identifiers and failing statements.\<close>

record svc_env =
  se_clock :: clock
  se_token_now :: ustr
  se_gov :: gov_env
  se_gov_faults :: "gov_stmt faults"
  se_write :: write_env
  se_write_faults :: "write_stmt faults"

definition on_gov :: "(gov_conn, 'e, 'a) op \<Rightarrow> (svc_world, 'e, 'a) op" where
  "on_gov m w =
     (case m \<lparr>committed = sv_db w, open_txn = sv_gov_txn w\<rparr> of
        (c, r) \<Rightarrow> (w\<lparr>sv_db := committed c, sv_gov_txn := open_txn c\<rparr>, r))"

text \<open>The writer sees the notes of the file; the other tables stay as they are.\<close>

definition put_notes :: "notes_db \<Rightarrow> gov_db \<Rightarrow> gov_db" where
  "put_notes n d = notes_db.extend n (notes_db.more d)"

definition writer_of :: "svc_world \<Rightarrow> orch" where
  "writer_of w =
     \<lparr>oc_conn = \<lparr>committed = notes_db.truncate (sv_db w), open_txn = sv_write_txn w\<rparr>,
      oc_files = sv_files w\<rparr>"

definition on_writer :: "(orch \<Rightarrow> orch \<times> 'a) \<Rightarrow> svc_world \<Rightarrow> svc_world \<times> 'a" where
  "on_writer m w =
     (case m (writer_of w) of
        (o1, r) \<Rightarrow>
          (w\<lparr>sv_db := put_notes (committed (oc_conn o1)) (sv_db w),
             sv_write_txn := open_txn (oc_conn o1), sv_files := oc_files o1\<rparr>, r))"

section \<open>Texts\<close>

definition safe_truncate_chars :: "ustr \<Rightarrow> nat \<Rightarrow> ustr" where
  "safe_truncate_chars s max_chars =
     (if length s \<le> max_chars then s
      else if max_chars \<le> 3 then take max_chars s
      else take (max_chars - 3) s @ lit ''...'')"

definition admission_error_text :: "write_admission_error \<Rightarrow> ustr" where
  "admission_error_text e =
     (case e of
        QueueFull \<Rightarrow> ([123, 34] @ lit ''error'' @ [34, 58, 34] @ lit ''WriteQueueFull'' @ [34, 44, 34] @
            lit ''retry_after_seconds'' @ [34, 58]) @ show_nat WRITE_RETRY_AFTER_SECONDS @ lit ''}''
      | RateLimited n \<Rightarrow> ([123, 34] @ lit ''error'' @ [34, 58, 34] @ lit ''WriteRateLimited'' @ [34, 44,
          34] @ lit ''retry_after_seconds'' @ [34, 58]) @ show_nat n @ lit ''}'')"

definition write_token_error_json :: "write_token_error \<Rightarrow> ustr" where
  "write_token_error_json err =
     (case err of
        WtMissing \<Rightarrow> ([123, 34] @ lit ''error'' @ [34, 58, 34] @ lit ''write_token_required'' @ [34, 44,
            34] @ lit ''hint'' @ [34, 58, 34] @ lit ''POST /session/open to obtain a write token'' @
            [34, 44, 34] @ lit ''status'' @ [34] @ lit '':401}'')
      | WtExpired t \<Rightarrow> ([123, 34] @ lit ''error'' @ [34, 58, 34] @ lit ''write_token_expired'' @ [34, 44,
          34] @ lit ''expires_at'' @ [34, 58, 34]) @ t @ ([34, 44, 34] @ lit ''status'' @ [34] @
          lit '':401}'')
      | WtRevoked t \<Rightarrow> ([123, 34] @ lit ''error'' @ [34, 58, 34] @ lit ''write_token_revoked'' @ [34, 44,
          34] @ lit ''revoked_at'' @ [34, 58, 34]) @ t @ ([34, 44, 34] @ lit ''status'' @ [34] @
          lit '':403}'')
      | WtActorMismatch _ \<Rightarrow> ([123, 34] @ lit ''error'' @ [34, 58, 34] @
          lit ''write_token_actor_mismatch'' @ [34, 44, 34] @ lit ''status'' @ [34] @ lit '':403}'')
      | WtSessionMismatch _ _ \<Rightarrow> ([123, 34] @ lit ''error'' @ [34, 58, 34] @
          lit ''write_token_session_mismatch'' @ [34, 44, 34] @ lit ''status'' @ [34] @ lit '':403}'')
      | WtDbError _ \<Rightarrow> ([123, 34] @ lit ''error'' @ [34, 58, 34] @ lit ''write_token_internal_error'' @
          [34, 44, 34] @ lit ''status'' @ [34] @ lit '':500}''))"

definition error_text :: "ustr \<Rightarrow> ustr" where
  "error_text e = ([123, 34] @ lit ''error'' @ [34, 58, 34]) @ e @ [34, 125]"

definition pretty_or :: "svc_lib \<Rightarrow> json \<Rightarrow> ustr" where
  "pretty_or S j = (case sl_pretty S j of Some t \<Rightarrow> t | None \<Rightarrow> error_text (lit ''serialize failed''))"

definition show_int :: "int \<Rightarrow> ustr" where
  "show_int n = (if n < 0 then 45 # show_nat (nat (- n)) else show_nat (nat n))"

text \<open>\<open>format!("{:.k}")\<close>: the exact value to \<open>k\<close> decimals, ties to even.\<close>

definition pad_nat :: "nat \<Rightarrow> nat \<Rightarrow> ustr" where
  "pad_nat k n = replicate (k - length (show_nat n)) 48 @ show_nat n"

definition show_fixed :: "nat \<Rightarrow> xf64 \<Rightarrow> ustr" where
  "show_fixed k v =
     (case v of
        Fin x \<Rightarrow>
          let n = nat (round_half_even (\<bar>x\<bar> * 10 ^ k))
          in (if x < 0 then [45] else []) @ show_nat (n div 10 ^ k) @ [46] @ pad_nat k (n mod 10 ^ k)
      | PInf \<Rightarrow> lit ''inf'' | NInf \<Rightarrow> lit ''-inf'' | NaN \<Rightarrow> lit ''NaN'')"

section \<open>Actors and audit events\<close>

definition trusted_stdio_actor :: "svc_lib \<Rightarrow> svc_self \<Rightarrow> actor" where
  "trusted_stdio_actor S self =
     (let exe = (case sv_exe self of Some p \<Rightarrow> p | None \<Rightarrow> lit ''unknown'');
          exe_hash = take 16 (sl_blake3_hex S (utf8 exe))
      in \<lparr>actor_id = lit ''stdio-'' @ show_nat (sv_pid self) @ [45] @ exe_hash,
          key_name = Some (lit ''stdio''), key_hash = []\<rparr>)"

definition resolve_actor :: "svc_lib \<Rightarrow> svc_self \<Rightarrow> request option \<Rightarrow> actor" where
  "resolve_actor S self parts =
     (case Option.bind parts ext_actor of Some a \<Rightarrow> a | None \<Rightarrow> trusted_stdio_actor S self)"

definition audit_operation :: "ustr \<Rightarrow> ustr \<Rightarrow> actor \<Rightarrow> svc_world \<Rightarrow> svc_world" where
  "audit_operation kind res a w =
     log_event (with_actor (actor_id a) (audit_event_new (env w) kind res)) w"

definition audit_operation_with_session ::
  "svc_self \<Rightarrow> ustr \<Rightarrow> ustr \<Rightarrow> request option \<Rightarrow> actor \<Rightarrow> svc_world \<Rightarrow> svc_world" where
  "audit_operation_with_session self kind res parts a w =
     log_event (with_actor (actor_id a)
       (with_session_id (resolve_session_id (sv_process_session self) parts)
         (audit_event_new (env w) kind res))) w"

section \<open>The permit\<close>

text \<open>
  A handler takes its permit with \<open>Admission.try_enter\<close>, or audits the rejection and answers it. The
  guard is a local of the handler, so its \<open>Drop\<close>, \<open>Admission.drop_permit\<close>, runs on the state the body
  leaves, whichever of its returns the body takes.
\<close>

definition with_permit ::
  "clock \<Rightarrow> (svc_world \<Rightarrow> svc_world) \<Rightarrow> (svc_world \<Rightarrow> svc_world \<times> ustr) \<Rightarrow> svc_world \<Rightarrow> svc_world \<times> ustr"
      where
  "with_permit clk reject handler_body w =
     (case try_enter clk (sv_admission w) of
        (a, Inl e) \<Rightarrow> (reject (w\<lparr>sv_admission := a\<rparr>), admission_error_text e)
      | (a, Inr _) \<Rightarrow>
          (case handler_body (w\<lparr>sv_admission := a\<rparr>) of
             (w1, answer) \<Rightarrow> (w1\<lparr>sv_admission := drop_permit (sv_admission w1)\<rparr>, answer)))"

section \<open>Governance tools\<close>

record propose_params =
  pp_proposed_content :: ustr
  pp_reason :: ustr
  pp_change_type :: "ustr option"
  pp_target_id :: "ustr option"
  pp_category :: "ustr option"

record approve_params =
  pa_change_id :: ustr
  pa_approver :: "ustr option"
  pa_comment :: "ustr option"

definition propose_permitted ::
  "svc_lib \<Rightarrow> svc_self \<Rightarrow> svc_env \<Rightarrow> actor \<Rightarrow> propose_params \<Rightarrow> svc_world \<Rightarrow> svc_world \<times> ustr" where
  "propose_permitted S self ev a params w =
     (case on_gov (propose_change (se_gov_faults ev) (se_gov ev) (pp_proposed_content params)
              (pp_reason params) (pp_change_type params) (pp_target_id params) (pp_category params)
              (Some (actor_id a))) w of
         (w1, Inr r) \<Rightarrow>
           (audit_operation (lit ''propose_change'') (lit ''pending'') a w1,
            pretty_or S (JObj
              [(lit ''status'', JStr (lit ''pending'')), (lit ''change_id'', JStr (ch_id r)),
               (lit ''change_type'', JStr (ch_change_type r)), (lit ''target_id'', opt_json
                   (ch_target_id r)),
               (lit ''category'', opt_json (ch_category r)),
               (lit ''approvals_needed'', JInt (ch_approvals_needed r)),
               (lit ''message'', JStr ([0x53D8, 0x66F4, 0x5DF2, 0x63D0, 0x8BAE, 0xFF0C, 0x9700, 0x8981,
                   32] @ show_int (ch_approvals_needed r) @
                 [32, 0x6B21, 0x5BA1, 0x6279, 0x624D, 0x80FD, 0x751F, 0x6548, 0x3002]))]))
       | (w1, Inl e) \<Rightarrow>
           (audit_operation (lit ''propose_change'') (lit ''error'') a w1, error_text e))"

definition propose_change_with_actor ::
  "svc_lib \<Rightarrow> svc_self \<Rightarrow> svc_env \<Rightarrow> actor \<Rightarrow> propose_params \<Rightarrow> svc_world \<Rightarrow> svc_world \<times> ustr" where
  "propose_change_with_actor S self ev a params =
     with_permit (se_clock ev) (audit_operation (lit ''propose_change'') (lit ''admission_rejected'') a)
       (propose_permitted S self ev a params)"

definition approve_permitted ::
  "svc_lib \<Rightarrow> svc_self \<Rightarrow> svc_env \<Rightarrow> actor \<Rightarrow> approve_params \<Rightarrow> svc_world \<Rightarrow> svc_world \<times> ustr" where
  "approve_permitted S self ev a params w =
     (let display_approver = (case pa_approver params of Some n \<Rightarrow> n | None \<Rightarrow> actor_id a)
       in case on_gov (approve_change_for_principal (sl_gov S) (Some (sv_project_id self))
              (se_gov_faults ev) (se_gov ev) (pa_change_id params) (actor_id a) (Some display_approver)
              (pa_comment params)) w of
         (w1, Inr r) \<Rightarrow>
           (audit_operation (lit ''approve_change'') (ch_status r) a w1,
            let applied = (ch_status r = lit ''applied'');
                emoji = (if applied then [0x2705] else [0x1F504])
            in pretty_or S (JObj
              [(lit ''status'', JStr (ch_status r)), (lit ''change_id'', JStr (ch_id r)),
               (lit ''approvals_count'', JInt (ch_approvals_count r)),
               (lit ''approvals_needed'', JInt (ch_approvals_needed r)),
               (lit ''applied_at'', opt_json (ch_applied_at r)),
               (lit ''message'', JStr (emoji @ [32, 0x5BA1, 0x6279, 32] @ show_int (ch_approvals_count
                   r) @ [47] @
                 show_int (ch_approvals_needed r) @ (if applied then [32, 0x2014, 32, 0x53D8, 0x66F4,
                     0x5DF2, 0x5E94, 0x7528, 0xFF01] else [])))]))
       | (w1, Inl e) \<Rightarrow>
           (audit_operation (lit ''approve_change'') (lit ''error'') a w1, error_text e))"

definition approve_change_with_actor ::
  "svc_lib \<Rightarrow> svc_self \<Rightarrow> svc_env \<Rightarrow> actor \<Rightarrow> approve_params \<Rightarrow> svc_world \<Rightarrow> svc_world \<times> ustr" where
  "approve_change_with_actor S self ev a params =
     with_permit (se_clock ev) (audit_operation (lit ''approve_change'') (lit ''admission_rejected'') a)
       (approve_permitted S self ev a params)"

definition check_token ::
  "svc_lib \<Rightarrow> svc_self \<Rightarrow> svc_env \<Rightarrow> request option \<Rightarrow> actor \<Rightarrow> svc_world \<Rightarrow>
   svc_world \<times> (write_token_error, unit) result" where
  "check_token S self ev parts a w =
     require_write_token (sl_blake3_hex S) (sv_process_session self) (se_token_now ev) parts a w"

definition propose_change_tool ::
  "svc_lib \<Rightarrow> svc_self \<Rightarrow> svc_env \<Rightarrow> request option \<Rightarrow> propose_params \<Rightarrow> svc_world \<Rightarrow> svc_world \<times> ustr" where
  "propose_change_tool S self ev parts params w =
     (let a = resolve_actor S self parts
      in case check_token S self ev parts a w of
           (w1, Inl err) \<Rightarrow>
             (audit_operation (lit ''propose_change'') (lit ''write_token_rejected'') a w1,
              write_token_error_json err)
         | (w1, Inr _) \<Rightarrow> propose_change_with_actor S self ev a params w1)"

definition approve_change_tool ::
  "svc_lib \<Rightarrow> svc_self \<Rightarrow> svc_env \<Rightarrow> request option \<Rightarrow> approve_params \<Rightarrow> svc_world \<Rightarrow> svc_world \<times> ustr" where
  "approve_change_tool S self ev parts params w =
     (let a = resolve_actor S self parts
      in case check_token S self ev parts a w of
           (w1, Inl err) \<Rightarrow>
             (audit_operation (lit ''approve_change'') (lit ''write_token_rejected'') a w1,
              write_token_error_json err)
         | (w1, Inr _) \<Rightarrow> approve_change_with_actor S self ev a params w1)"

section \<open>Checkpoints\<close>

record checkpoint_params =
  ck_task_id :: ustr
  ck_summary :: ustr
  ck_task_specification :: "ustr option"
  ck_task_status :: "ustr option"
  ck_blocker :: "ustr option"
  ck_next_step :: "ustr option"
  ck_task_context :: "ustr option"
  ck_decisions :: "ustr list option"
  ck_files_and_functions :: "ustr list option"
  ck_workflow :: "ustr list option"
  ck_errors_and_corrections :: "ustr list option"
  ck_living_docs :: "ustr list option"
  ck_trigger_patterns :: "ustr list option"

definition VALID_TASK_STATUS :: "ustr list" where
  "VALID_TASK_STATUS = [lit ''blocked'', lit ''in_progress'', lit ''completed'', lit ''abandoned'']"

definition validate_checkpoint_params :: "checkpoint_params \<Rightarrow> (ustr, unit) result" where
  "validate_checkpoint_params params =
     (if trim (ck_task_id params) = [] \<or> trim (ck_summary params) = []
      then Err (([0x274C, 32, 0x9519, 0x8BEF, 0xFF1A] @ lit ''task_id '' @ [0x548C] @ lit '' summary ''
          @ [0x662F, 0x5FC5, 0x586B, 0x9879]))
      else case ck_task_status params of
             None \<Rightarrow> Ok ()
           | Some s \<Rightarrow>
               if s \<in> set VALID_TASK_STATUS then Ok ()
               else Err (([0x274C, 32, 0x9519, 0x8BEF, 0xFF1A] @ lit ''task_status '' @ [0x5FC5, 0x987B,
                   0x662F] @ lit '' abandoned, blocked, completed, in_progress '' @ [0x4E4B, 0x4E00,
                   0xFF0C, 0x6536, 0x5230, 58, 32]) @ s))"

definition normalized_text :: "ustr \<Rightarrow> ustr option" where
  "normalized_text v = (let t = trim v in if t = [] then None else Some (safe_truncate_chars t 500))"

text \<open>The loop of \<open>normalized_list\<close>: an empty item is skipped before the count is looked at.\<close>

definition list_item :: "ustr \<Rightarrow> ustr" where
  "list_item raw = trim (dropWhile (\<lambda>c. c \<in> {45, 42, 0x2022}) (trim raw))"

fun list_loop :: "ustr list \<Rightarrow> ustr list \<Rightarrow> ustr list" where
  "list_loop [] items = items"
| "list_loop (raw # rest) items =
     (let item = list_item raw
      in if item = [] then list_loop rest items
         else
           let item = safe_truncate_chars item 140;
               items = (if item \<in> set items then items else items @ [item])
           in if 8 \<le> length items then items else list_loop rest items)"

definition normalized_list :: "ustr list option \<Rightarrow> ustr list option" where
  "normalized_list vs =
     (let items = list_loop (case vs of None \<Rightarrow> [] | Some xs \<Rightarrow> xs) []
      in if items = [] then None else Some items)"

definition insert_text :: "ustr \<Rightarrow> ustr option \<Rightarrow> json_map \<Rightarrow> json_map" where
  "insert_text key v target =
     (case Option.bind v normalized_text of None \<Rightarrow> target | Some t \<Rightarrow> map_insert key (JStr t) target)"

definition insert_list :: "ustr \<Rightarrow> ustr list option \<Rightarrow> json_map \<Rightarrow> json_map" where
  "insert_list key vs target =
     (case normalized_list vs of
        None \<Rightarrow> target | Some items \<Rightarrow> map_insert key (JArr (map JStr items)) target)"

definition build_checkpoint_sections :: "checkpoint_params \<Rightarrow> json_map" where
  "build_checkpoint_sections params =
     insert_list (lit ''living_docs'') (ck_living_docs params)
       (insert_list (lit ''decisions'') (ck_decisions params)
         (insert_list (lit ''errors_and_corrections'') (ck_errors_and_corrections params)
           (insert_list (lit ''workflow'') (ck_workflow params)
             (insert_list (lit ''files_and_functions'') (ck_files_and_functions params)
               (insert_text (lit ''task_specification'') (ck_task_specification params) [])))))"

definition build_checkpoint_metadata :: "checkpoint_params \<Rightarrow> ustr \<Rightarrow> json_map" where
  "build_checkpoint_metadata params task_status =
     (let meta = [(lit ''record_type'', JStr (lit ''checkpoint'')), (lit ''task_id'', JStr (ck_task_id
         params)),
                  (lit ''task_status'', JStr task_status)];
          meta = insert_text (lit ''blocker'') (ck_blocker params) meta;
          meta = insert_text (lit ''next_step'') (ck_next_step params) meta;
          meta = insert_text (lit ''task_context'') (ck_task_context params) meta;
          meta = insert_list (lit ''trigger_patterns'') (ck_trigger_patterns params) meta;
          compact_sections = build_checkpoint_sections params
      in if compact_sections = [] then meta
         else map_insert (lit ''compact_sections'') (JObj compact_sections)
                (map_insert (lit ''compact_schema_version'') (JInt 1) meta))"

definition checkpoint_icon :: "ustr \<Rightarrow> ustr" where
  "checkpoint_icon task_status =
     (if task_status = lit ''blocked'' then [0x1F534]
      else if task_status = lit ''in_progress'' then [0x1F7E1]
      else if task_status = lit ''completed'' then [0x2705]
      else if task_status = lit ''abandoned'' then [0x26AB] else [0x26AA])"

text \<open>What runs under the permit.\<close>

definition store_checkpoint ::
  "svc_lib \<Rightarrow> svc_self \<Rightarrow> svc_env \<Rightarrow> actor \<Rightarrow> checkpoint_params \<Rightarrow> svc_world \<Rightarrow> svc_world \<times> ustr" where
  "store_checkpoint S self ev a params w =
     (let task_status = (case ck_task_status params of None \<Rightarrow> lit ''blocked'' | Some s \<Rightarrow> s);
          meta = build_checkpoint_metadata params task_status
      in case on_writer (save_checkpoint (sl_write S) (sv_orchestrator self) (se_write_faults ev)
             (se_write ev) (ck_task_id params) (ck_summary params) meta) w of
           (w1, Inr i) \<Rightarrow>
             (audit_operation (lit ''save_checkpoint'') task_status a w1,
              checkpoint_icon task_status @ [32, 0x65AD, 0x70B9, 0x5DF2, 0x4FDD, 0x5B58, 10, 45, 32,
                  0x4EFB, 0x52A1, 58, 32] @ ck_task_id params @
                [10, 45, 32, 0x72B6, 0x6001, 58, 32] @ task_status @ ([10] @ lit ''- ID: '') @ i)
         | (w1, Inl e) \<Rightarrow>
             (audit_operation (lit ''save_checkpoint'') (lit ''error'') a w1, [0x274C, 32, 0x65AD,
                 0x70B9, 0x4FDD, 0x5B58, 0x5931, 0x8D25, 58, 32] @ e))"

definition save_checkpoint_with_actor ::
  "svc_lib \<Rightarrow> svc_self \<Rightarrow> svc_env \<Rightarrow> actor \<Rightarrow> checkpoint_params \<Rightarrow> svc_world \<Rightarrow> svc_world \<times> ustr" where
  "save_checkpoint_with_actor S self ev a params w =
     (case validate_checkpoint_params params of
        Inl msg \<Rightarrow> (audit_operation (lit ''save_checkpoint'') (lit ''invalid_input'') a w, msg)
      | Inr _ \<Rightarrow>
          with_permit (se_clock ev) (audit_operation (lit ''save_checkpoint'')
              (lit ''admission_rejected'') a)
            (store_checkpoint S self ev a params) w)"

definition save_checkpoint_from_trusted_cli ::
  "svc_lib \<Rightarrow> svc_self \<Rightarrow> svc_env \<Rightarrow> checkpoint_params \<Rightarrow> svc_world \<Rightarrow> svc_world \<times> ustr" where
  "save_checkpoint_from_trusted_cli S self ev params =
     save_checkpoint_with_actor S self ev (trusted_stdio_actor S self) params"

definition save_checkpoint_tool ::
  "svc_lib \<Rightarrow> svc_self \<Rightarrow> svc_env \<Rightarrow> request option \<Rightarrow> checkpoint_params \<Rightarrow> svc_world \<Rightarrow> svc_world \<times> ustr"
      where
  "save_checkpoint_tool S self ev parts params =
     save_checkpoint_with_actor S self ev (resolve_actor S self parts) params"

section \<open>Memories and outcomes\<close>

record add_rule_params =
  ar_content :: ustr
  ar_category :: "ustr option"
  ar_confidence :: "f64 option"
  ar_agent :: "ustr option"
  ar_room :: "ustr option"
  ar_memory_kind :: "ustr option"
  ar_role :: "ustr option"
  ar_when :: "ustr option"
  ar_where :: "ustr option"
  ar_who :: "ustr list option"
  ar_ttl_days :: "int option"
  ar_difficulty :: "int option"
  ar_time_cost_hint :: "ustr option"
  ar_related_ids :: "ustr list option"

definition infer_add_rule_actor_defaults :: "ustr option \<Rightarrow> ustr option \<Rightarrow> ustr \<times> ustr" where
  "infer_add_rule_actor_defaults memory_kind at_time =
     (if memory_kind = Some (lit ''event'') \<or> at_time \<noteq> None then (lit ''ai'', lit ''ai'')
      else (lit ''user'', lit ''user''))"

definition infer_add_rule_auto_classification :: "ustr option \<Rightarrow> bool \<times> bool" where
  "infer_add_rule_auto_classification memory_kind =
     ((case memory_kind of None \<Rightarrow> lit ''fact'' | Some k \<Rightarrow> k) = lit ''fact'', False)"

definition add_rule_request :: "svc_self \<Rightarrow> request option \<Rightarrow> add_rule_params \<Rightarrow> add_params" where
  "add_rule_request self parts params =
     (case infer_add_rule_actor_defaults (ar_memory_kind params) (ar_when params) of
        (source, created_by) \<Rightarrow>
          \<lparr>ap_content = ar_content params, ap_layer = None, ap_category = ar_category params,
           ap_confidence = ar_confidence params, ap_agent = ar_agent params, ap_room = ar_room params,
           ap_role = ar_role params, ap_difficulty = ar_difficulty params,
           ap_time_cost_hint = ar_time_cost_hint params, ap_related_ids = ar_related_ids params,
           ap_when = ar_when params, ap_where = ar_where params, ap_who = ar_who params,
           ap_ttl_days = ar_ttl_days params, ap_memory_kind = ar_memory_kind params,
           ap_session_id = Some (resolve_session_id (sv_process_session self) parts),
           ap_source = Some source, ap_created_by = Some created_by,
           ap_extra_metadata = None, ap_root_id = None, ap_version = None, ap_topic_key = None,
           ap_auto_classify = fst (infer_add_rule_auto_classification (ar_memory_kind params)),
           ap_auto_classify_layer = snd (infer_add_rule_auto_classification (ar_memory_kind params))\<rparr>)"

definition add_rule_outcome :: "add_result \<Rightarrow> ustr" where
  "add_rule_outcome r =
     (case r of
        Saved _ _ _ _ _ \<Rightarrow> lit ''saved'' | Duplicate _ _ \<Rightarrow> lit ''duplicate''
      | PolicySkipped _ _ _ \<Rightarrow> lit ''policy_skipped'' | AddError _ \<Rightarrow> lit ''error'')"

definition xf64_percent :: "xf64 \<Rightarrow> xf64" where
  "xf64_percent v = (case v of Fin x \<Rightarrow> xround (x * 100) | y \<Rightarrow> y)"

definition add_rule_answer :: "add_result \<Rightarrow> ustr" where
  "add_rule_answer r =
     (case r of
        Saved i layer cold_ref superseded warnings \<Rightarrow>
          ([0x2705, 32, 0x8BB0, 0x5FC6, 0x5DF2, 0x4FDD, 0x5B58, 10] @ lit ''- ID: '') @ i @ [10, 45, 32,
              0x5C42, 0x7EA7, 58, 32] @ layer @ [10] @
          (case cold_ref of None \<Rightarrow> [] | Some c \<Rightarrow> [45, 32, 0x51B7, 0x5B58, 0x50A8, 58, 32] @ c @ [10]) @
          (if superseded = [] then [] else [45, 32, 0x81EA, 0x52A8, 0x66FF, 0x4EE3, 58, 32] @ join_with
              (lit '', '') superseded @ [10]) @
          concat (map (\<lambda>m. [0x26A0, 0xFE0F, 32] @ m @ [10]) warnings)
      | Duplicate i similarity \<Rightarrow>
          [0x26A0, 0xFE0F, 32, 0x91CD, 0x590D, 0x68C0, 0x6D4B, 0xFF1A, 0x4E0E, 0x5DF2, 0x6709, 0x8BB0,
              0x5FC6, 0x76F8, 0x4F3C, 0x5EA6, 32] @ show_fixed 1 (xf64_percent similarity) @
          ([37, 0xFF0C, 0x8D85, 0x8FC7, 0x9608, 0x503C] @ lit '' 88%'' @ [10, 45, 32, 0x5DF2, 0x6709] @
              lit '' ID: '') @ i @ ([10, 45, 32, 0x72B6, 0x6001] @ lit '': duplicate_detected'')
      | PolicySkipped layer reason m_type \<Rightarrow>
          ([0x26A0, 0xFE0F, 32, 0x5199, 0x5165, 0x88AB] @ lit '' MemoryPolicy '' @ [0x62D2, 0x7EDD, 10,
              45, 32, 0x5C42, 0x7EA7, 58, 32]) @ layer @ [10, 45, 32, 0x7C7B, 0x578B, 58, 32] @
          (case m_type of None \<Rightarrow> lit ''unclassified'' | Some t \<Rightarrow> t) @ [10, 45, 32, 0x539F, 0x56E0, 58,
              32] @ reason @
          ([10, 45, 32, 0x72B6, 0x6001] @ lit '': policy_skipped'')
      | AddError e \<Rightarrow> [0x274C, 32, 0x5199, 0x5165, 0x5931, 0x8D25, 58, 32] @ e)"

definition store_memory ::
  "svc_lib \<Rightarrow> svc_self \<Rightarrow> svc_env \<Rightarrow> request option \<Rightarrow> add_rule_params \<Rightarrow> svc_world \<Rightarrow> svc_world \<times> ustr" where
  "store_memory S self ev parts params w =
     (case on_writer (add_memory (sl_write S) (sv_orchestrator self) (se_write_faults ev)
             (se_write ev) (add_rule_request self parts params)) w of
        (w1, r) \<Rightarrow>
          (audit_operation_with_session self (lit ''add_rule'') (add_rule_outcome r) parts
             (resolve_actor S self parts) w1,
           add_rule_answer r))"

definition add_rule ::
  "svc_lib \<Rightarrow> svc_self \<Rightarrow> svc_env \<Rightarrow> request option \<Rightarrow> add_rule_params \<Rightarrow> svc_world \<Rightarrow> svc_world \<times> ustr" where
  "add_rule S self ev parts params =
     with_permit (se_clock ev)
       (audit_operation_with_session self (lit ''add_rule'') (lit ''admission_rejected'') parts
           (resolve_actor S self parts))
       (store_memory S self ev parts params)"

record outcome_params =
  op_memory_id :: ustr
  op_outcome :: ustr
  op_reason :: "ustr option"

definition outcome_emoji :: "ustr \<Rightarrow> ustr" where
  "outcome_emoji outcome =
     (if outcome = lit ''confirmed'' then [0x2705]
      else if outcome = lit ''corrected'' then [0x1F504]
      else if outcome = lit ''outdated'' then [0x1F4E6] else [0x2753])"

definition store_outcome ::
  "svc_lib \<Rightarrow> svc_self \<Rightarrow> svc_env \<Rightarrow> request option \<Rightarrow> outcome_params \<Rightarrow> svc_world \<Rightarrow> svc_world \<times> ustr" where
  "store_outcome S self ev parts params w =
     (let leave = (\<lambda>res. audit_operation_with_session self (lit ''report_outcome'') res parts
                          (resolve_actor S self parts))
      in case on_writer (report_outcome (sl_write S) (se_write_faults ev) (se_write ev)
                  (op_memory_id params) (op_outcome params) (op_reason params)) w of
             (w1, Inr True) \<Rightarrow>
               (leave (op_outcome params) w1,
                outcome_emoji (op_outcome params) @ ([32, 0x53CD, 0x9988, 0x5DF2, 0x8BB0, 0x5F55, 10,
                    45, 32, 0x8BB0, 0x5FC6] @ lit '' ID: '') @ op_memory_id params @
                  [10, 45, 32, 0x7ED3, 0x679C, 58, 32] @ op_outcome params)
           | (w1, Inr False) \<Rightarrow>
               (leave (lit ''invalid_outcome'') w1, ([0x26A0, 0xFE0F, 32, 0x672A, 0x77E5, 0x7684] @
                   lit '' outcome '' @ [0x7C7B, 0x578B, 58, 32]) @ op_outcome params)
           | (w1, Inl e) \<Rightarrow> (leave (lit ''error'') w1, [0x274C, 32, 0x53CD, 0x9988, 0x8BB0, 0x5F55,
               0x5931, 0x8D25, 58, 32] @ e))"

definition report_outcome_tool ::
  "svc_lib \<Rightarrow> svc_self \<Rightarrow> svc_env \<Rightarrow> request option \<Rightarrow> outcome_params \<Rightarrow> svc_world \<Rightarrow> svc_world \<times> ustr" where
  "report_outcome_tool S self ev parts params =
     with_permit (se_clock ev)
       (audit_operation_with_session self (lit ''report_outcome'') (lit ''admission_rejected'') parts
          (resolve_actor S self parts))
       (store_outcome S self ev parts params)"

end
