(* ===== verification/Service_Laws.thy ===== *)
theory Service_Laws
  imports Service_Writes Governance_Laws Write_Properties Write_Witness Governance_Runs
begin

text \<open>
  The service as a whole: the write tools on one database. A run is any sequence of calls by any
  callers, over HTTP or stdio, with any statement of any call failing. The quorum of the governance
  service and the frame of the writer carry over to the tools, and the constitution is made by applied
  changes only.
\<close>

section \<open>One database, two connections\<close>

lemma put_notes_simps [simp]:
  "notes_db.truncate (put_notes n d) = n" "changes (put_notes n d) = changes d"
  by (cases n; cases d; simp add: put_notes_def notes_db.defs gov_db.defs)+

lemma put_notes_truncate [simp]: "put_notes (notes_db.truncate d) d = d"
  by (cases d) (simp add: put_notes_def notes_db.defs)

lemma truncate_changes [simp]:
  "notes_db.truncate (d\<lparr>changes := cs\<rparr>) = notes_db.truncate d"
  by (simp add: notes_db.truncate_def)

definition gov_view :: "svc_world \<Rightarrow> gov_conn" where
  "gov_view w = \<lparr>committed = sv_db w, open_txn = sv_gov_txn w\<rparr>"

lemma committed_gov_view: "committed (gov_view w) = sv_db w"
  by (simp add: gov_view_def)

text \<open>The parts of the world a step of bookkeeping leaves alone.\<close>

definition same_data :: "svc_world \<Rightarrow> svc_world \<Rightarrow> bool" where
  "same_data w w' \<longleftrightarrow> sv_db w' = sv_db w \<and> sv_gov_txn w' = sv_gov_txn w \<and>
     sv_write_txn w' = sv_write_txn w \<and> sv_files w' = sv_files w"

lemma same_data_refl [simp]: "same_data w w"
  by (simp add: same_data_def)

lemma same_data_trans [trans]: "same_data w w' \<Longrightarrow> same_data w' w'' \<Longrightarrow> same_data w w''"
  by (simp add: same_data_def)

lemma log_event_simps [simp]:
  fixes w :: svc_world
  shows "sv_db (log_event e w) = sv_db w" "sv_gov_txn (log_event e w) = sv_gov_txn w"
    "sv_write_txn (log_event e w) = sv_write_txn w" "sv_files (log_event e w) = sv_files w"
    "sv_admission (log_event e w) = sv_admission w" "tokens (log_event e w) = tokens w"
  by (simp_all add: log_event_def)

lemma audit_view [simp]:
  "gov_view (audit_operation k r a w') = gov_view w'"
  by (simp add: audit_operation_def gov_view_def)

lemma audit_operation_simps [simp]:
  "same_data w (audit_operation k r a w')  = same_data w w'"
  "sv_admission (audit_operation k r a w') = sv_admission w'"
  "same_data w (audit_operation_with_session self k r p a w')  = same_data w w'"
  "sv_admission (audit_operation_with_session self k r p a w') = sv_admission w'"
  by (simp_all add: audit_operation_def audit_operation_with_session_def same_data_def)

lemma check_token_keeps:
  "same_data w (fst (check_token S self ev parts a w))"
  "sv_admission (fst (check_token S self ev parts a w)) = sv_admission w"
  by (simp_all add: check_token_def require_write_token_def require_write_token_from_parts_def Let_def
      same_data_def split: option.splits sum.splits validate_result.splits)

section \<open>The permit\<close>

text \<open>What a tool does to the data, the permit apart: nothing, or what its body does.\<close>

lemma with_permit_data:
  assumes "\<And>w'. same_data w' (reject w')"
  shows "same_data w (fst (with_permit clk reject handler_body w)) \<or>
    (\<exists>w1. same_data w w1 \<and> same_data (fst (handler_body w1)) (fst (with_permit clk reject handler_body
        w)))"
proof -
  obtain a r where t: "try_enter clk (sv_admission w) = (a, r)" by fastforce
  have keep: "same_data w' (w'\<lparr>sv_admission := x\<rparr>)" for w' x by (simp add: same_data_def)
  show ?thesis
  proof (cases r)
    case (Inl e)
    have "same_data w (reject (w\<lparr>sv_admission := a\<rparr>))"
      by (rule same_data_trans [OF keep assms])
    with t Inl show ?thesis by (simp add: with_permit_def)
  next
    case (Inr u)
    have "with_permit clk reject handler_body w =
        (case handler_body (w\<lparr>sv_admission := a\<rparr>) of
           (w1, answer) \<Rightarrow> (w1\<lparr>sv_admission := drop_permit (sv_admission w1)\<rparr>, answer))"
      using t Inr by (simp add: with_permit_def)
    then show ?thesis
      using keep by (intro disjI2 exI [of _ "w\<lparr>sv_admission := a\<rparr>"]) (auto simp: split_beta)
  qed
qed

section \<open>Calls\<close>

datatype svc_call =
    ProposeCall propose_params
  | ApproveCall approve_params
  | AddRuleCall add_rule_params
  | CheckpointCall checkpoint_params
  | OutcomeCall outcome_params

type_synonym svc_request = "request option \<times> svc_env \<times> svc_call"

fun svc_answer :: "svc_lib \<Rightarrow> svc_self \<Rightarrow> svc_request \<Rightarrow> svc_world \<Rightarrow> svc_world \<times> ustr" where
  "svc_answer S self (parts, ev, ProposeCall p) w = propose_change_tool S self ev parts p w"
| "svc_answer S self (parts, ev, ApproveCall p) w = approve_change_tool S self ev parts p w"
| "svc_answer S self (parts, ev, AddRuleCall p) w = add_rule S self ev parts p w"
| "svc_answer S self (parts, ev, CheckpointCall p) w = save_checkpoint_tool S self ev parts p w"
| "svc_answer S self (parts, ev, OutcomeCall p) w = report_outcome_tool S self ev parts p w"

definition svc_run :: "svc_lib \<Rightarrow> svc_self \<Rightarrow> svc_request list \<Rightarrow> svc_world \<Rightarrow> svc_world" where
  "svc_run S self calls w = fold (\<lambda>call w. fst (svc_answer S self call w)) calls w"

lemma svc_run_snoc:
  "svc_run S self (calls @ [call]) w = fst (svc_answer S self call (svc_run S self calls w))"
  by (simp add: svc_run_def)

lemma on_gov_admission [simp]: "sv_admission (fst (on_gov m w)) = sv_admission w"
  by (simp add: on_gov_def split_beta)

lemma on_writer_admission [simp]: "sv_admission (fst (on_writer m w)) = sv_admission w"
  by (simp add: on_writer_def split_beta)

lemma on_op_admissionD:
  "on_gov m w = (w1, r) \<Longrightarrow> sv_admission w1 = sv_admission w"
  "on_writer n w = (w1, r') \<Longrightarrow> sv_admission w1 = sv_admission w"
  using on_gov_admission [of m w] on_writer_admission [of n w] by simp_all

section \<open>What the tools do to the data\<close>

text \<open>The notes of the database, the writer's connection, and the view of the governance service.\<close>

abbreviation svc_notes :: "svc_world \<Rightarrow> notes_db" where
  "svc_notes w \<equiv> notes_db.truncate (sv_db w)"

lemma gov_view_same_data: "same_data w w' \<Longrightarrow> gov_view w' = gov_view w"
  by (simp add: gov_view_def same_data_def)

lemma on_gov_view: "gov_view (fst (on_gov m w)) = fst (m (gov_view w))"
  by (simp add: on_gov_def gov_view_def split_beta)

lemma on_gov_result: "snd (on_gov m w) = snd (m (gov_view w))"
  by (simp add: on_gov_def gov_view_def split_beta)

lemma on_writer_changes [simp]: "changes (sv_db (fst (on_writer m w))) = changes (sv_db w)"
  by (simp add: on_writer_def split_beta)

lemma on_writer_durable: "svc_notes (fst (on_writer m w)) = durable (fst (m (writer_of w)))"
  by (simp add: on_writer_def split_beta)

lemma writer_of_durable: "same_data w w' \<Longrightarrow> durable (writer_of w') = svc_notes w"
  by (simp add: writer_of_def same_data_def)

lemma on_gov_viewD:
  "on_gov m w = (w1, r) \<Longrightarrow> m (gov_view w) = (gov_view w1, r)"
  using on_gov_view [of m w] on_gov_result [of m w] by (metis fst_conv prod.collapse snd_conv)

text \<open>A proposal or an approval: what the governance service does, on the database of the service.\<close>

lemma propose_permitted_view:
  "gov_view (fst (propose_permitted S self ev a p w)) =
   fst (propose_change (se_gov_faults ev) (se_gov ev) (pp_proposed_content p) (pp_reason p)
     (pp_change_type p) (pp_target_id p) (pp_category p) (Some (actor_id a)) (gov_view w))"
  unfolding propose_permitted_def
  by (auto dest!: on_gov_viewD simp: gov_view_same_data simp del: lit_simps split: prod.splits
      sum.splits)

lemma approve_permitted_view:
  "gov_view (fst (approve_permitted S self ev a p w)) =
   fst (approve_change_for_principal (sl_gov S) (Some (sv_project_id self)) (se_gov_faults ev) (se_gov
       ev)
     (pa_change_id p) (actor_id a)
     (Some (case pa_approver p of Some n \<Rightarrow> n | None \<Rightarrow> actor_id a)) (pa_comment p) (gov_view w))"
  unfolding approve_permitted_def Let_def
  by (auto dest!: on_gov_viewD simp: gov_view_same_data simp del: lit_simps split: prod.splits
      sum.splits)

lemma truncate_note_rows [simp]: "note_rows (notes_db.truncate d) = note_rows d"
  by (simp add: notes_db.truncate_def)

lemma store_changes [simp]:
  "changes (sv_db (fst (store_checkpoint S self ev a cp w))) = changes (sv_db w)"
  "changes (sv_db (fst (store_memory S self ev parts mp w))) = changes (sv_db w)"
  "changes (sv_db (fst (store_outcome S self ev parts op w))) = changes (sv_db w)"
proof -
  have audit: "sv_db (audit_operation k r a w') = sv_db w'"
    "sv_db (audit_operation_with_session self k r p a w') = sv_db w'" for k r a w' self p
    by (simp_all add: audit_operation_def audit_operation_with_session_def)
  have D': "on_writer m w = (w1, r) \<Longrightarrow> changes (sv_db w1) = changes (sv_db w)" for m :: "orch \<Rightarrow> orch \<times>
      add_result" and w1 r
    using on_writer_changes [of m w] by simp
  have D1: "on_writer m w = (w1, r) \<Longrightarrow> changes (sv_db w1) = changes (sv_db w)" for m :: "orch \<Rightarrow> orch \<times>
      (ustr, ustr) result" and w1 r
    using on_writer_changes [of m w] by simp
  have D2: "on_writer m w = (w1, r) \<Longrightarrow> changes (sv_db w1) = changes (sv_db w)" for m :: "orch \<Rightarrow> orch \<times>
      (ustr, bool) result" and w1 r
    using on_writer_changes [of m w] by simp
  show "changes (sv_db (fst (store_checkpoint S self ev a cp w))) = changes (sv_db w)"
    unfolding store_checkpoint_def Let_def
    by (auto dest: D1 simp: audit simp del: lit_simps split: prod.splits sum.splits)
  show "changes (sv_db (fst (store_memory S self ev parts mp w))) = changes (sv_db w)"
    unfolding store_memory_def by (auto dest: D' simp: audit simp del: lit_simps split: prod.splits)
  show "changes (sv_db (fst (store_outcome S self ev parts op w))) = changes (sv_db w)"
    unfolding store_outcome_def Let_def
    by (auto dest: D2 simp: audit simp del: lit_simps split: prod.splits sum.splits bool.splits)
qed

text \<open>One call: bookkeeping only, or the body of the tool after bookkeeping, the token checked first.\<close>

definition token_ok :: "svc_lib \<Rightarrow> svc_self \<Rightarrow> request option \<Rightarrow> svc_env \<Rightarrow> svc_world \<Rightarrow> bool" where
  "token_ok S self parts ev w \<longleftrightarrow>
     snd (check_token S self ev parts (resolve_actor S self parts) w) = Ok ()"

fun tool_body :: "svc_lib \<Rightarrow> svc_self \<Rightarrow> svc_request \<Rightarrow> svc_world \<Rightarrow> svc_world \<times> ustr" where
  "tool_body S self (parts, ev, ProposeCall p) = propose_permitted S self ev (resolve_actor S self
      parts) p"
| "tool_body S self (parts, ev, ApproveCall p) = approve_permitted S self ev (resolve_actor S self
    parts) p"
| "tool_body S self (parts, ev, AddRuleCall p) = store_memory S self ev parts p"
| "tool_body S self (parts, ev, CheckpointCall p) = store_checkpoint S self ev (resolve_actor S self
    parts) p"
| "tool_body S self (parts, ev, OutcomeCall p) = store_outcome S self ev parts p"

fun needs_token :: "svc_call \<Rightarrow> bool" where
  "needs_token (ProposeCall p) = True"
| "needs_token (ApproveCall p) = True"
| "needs_token _ = False"

lemma tool_data:
  "same_data w (fst (svc_answer S self (parts, ev, c) w)) \<or>
   (needs_token c \<longrightarrow> token_ok S self parts ev w) \<and>
   (\<exists>w1. same_data w w1 \<and>
      same_data (fst (tool_body S self (parts, ev, c) w1)) (fst (svc_answer S self (parts, ev, c) w)))"
proof -
  let ?a = "resolve_actor S self parts"
  obtain w1 r where t: "check_token S self ev parts ?a w = (w1, r)" by fastforce
  have w1: "same_data w w1" using check_token_keeps(1) [of w S self ev parts ?a] t by simp
  have ok: "token_ok S self parts ev w" if "r = Ok u" for u using that t by (simp add: token_ok_def)
  have run: "same_data w (fst (with_permit clk reject b w0)) \<or>
      (\<exists>w2. same_data w w2 \<and> same_data (fst (b w2)) (fst (with_permit clk reject b w0)))"
    if "same_data w w0" "\<And>w'. same_data w' (reject w')" for clk reject b w0
    using with_permit_data [where w = w0 and clk = clk and reject = reject and handler_body = b, OF
        that(2)]
      same_data_trans [OF that(1)] by blast
  show ?thesis
  proof (cases c)
    case (ProposeCall p)
    show ?thesis
      using w1 ok run [OF w1, of "audit_operation (lit ''propose_change'') (lit ''admission_rejected'')
          ?a"
          "se_clock ev" "propose_permitted S self ev ?a p"]
      by (cases r) (auto simp: ProposeCall propose_change_tool_def propose_change_with_actor_def t
          Let_def simp del: lit_simps)
  next
    case (ApproveCall p)
    show ?thesis
      using w1 ok run [OF w1, of "audit_operation (lit ''approve_change'') (lit ''admission_rejected'')
          ?a"
          "se_clock ev" "approve_permitted S self ev ?a p"]
      by (cases r) (auto simp: ApproveCall approve_change_tool_def approve_change_with_actor_def t
          Let_def simp del: lit_simps)
  next
    case (AddRuleCall p)
    show ?thesis
      using run [OF same_data_refl, of "audit_operation_with_session self (lit ''add_rule'')
          (lit ''admission_rejected'') parts ?a"
          "se_clock ev" "store_memory S self ev parts p"]
      by (simp add: AddRuleCall add_rule_def del: lit_simps)
  next
    case (CheckpointCall p)
    show ?thesis
      using run [OF same_data_refl, of "audit_operation (lit ''save_checkpoint'')
          (lit ''admission_rejected'') ?a"
          "se_clock ev" "store_checkpoint S self ev ?a p"]
      by (cases "validate_checkpoint_params p")
         (simp_all add: CheckpointCall save_checkpoint_tool_def save_checkpoint_with_actor_def del:
             lit_simps)
  next
    case (OutcomeCall p)
    show ?thesis
      using run [OF same_data_refl, of "audit_operation_with_session self (lit ''report_outcome'')
          (lit ''admission_rejected'') parts ?a"
          "se_clock ev" "store_outcome S self ev parts p"]
      by (simp add: OutcomeCall report_outcome_tool_def del: lit_simps)
  qed
qed

section \<open>Quorum across the tools\<close>

text \<open>A vote in a run: an approval call of the run whose write token was accepted when it ran.\<close>

definition cast_in :: "svc_lib \<Rightarrow> svc_self \<Rightarrow> svc_request list \<Rightarrow> svc_world \<Rightarrow> ustr \<times> ustr \<times> ustr \<Rightarrow> bool"
    where
  "cast_in S self calls w v \<longleftrightarrow>
     (\<exists>before parts ev p after. calls = before @ (parts, ev, ApproveCall p) # after \<and>
        fst v = pa_change_id p \<and> fst (snd v) = actor_id (resolve_actor S self parts) \<and>
        snd (snd v) = (case pa_approver p of Some n \<Rightarrow> n | None \<Rightarrow> actor_id (resolve_actor S self parts))
            \<and>
        token_ok S self parts ev (svc_run S self before w))"

lemma cast_in_more: "cast_in S self calls w v \<Longrightarrow> cast_in S self (calls @ [call]) w v"
  unfolding cast_in_def by force

definition service_quorum :: "svc_lib \<Rightarrow> svc_self \<Rightarrow> svc_request list \<Rightarrow> svc_world \<Rightarrow> bool" where
  "service_quorum S self calls w \<longleftrightarrow>
     (\<exists>votes. quorum_inv (sl_gov S) (gov_view (svc_run S self calls w), votes) \<and>
        (\<forall>v \<in> set votes. cast_in S self calls w v))"

lemma quorum_inv_changes:
  "changes (sv_db w') = changes (sv_db w) \<Longrightarrow>
   quorum_inv G (gov_view w', votes) = quorum_inv G (gov_view w, votes)"
  by (simp add: quorum_inv_def gov_view_def)

lemma service_quorum_step:
  assumes law: "approvals_law (sl_gov S)" and inv: "service_quorum S self calls w"
  shows "service_quorum S self (calls @ [call]) w"
proof -
  let ?G = "sl_gov S" and ?w = "svc_run S self calls w"
  obtain parts ev c where call: "call = (parts, ev, c)" using prod_cases3 by blast
  let ?a = "resolve_actor S self parts"
  let ?w' = "fst (svc_answer S self call ?w)"
  from inv obtain votes where votes: "quorum_inv ?G (gov_view ?w, votes)" "\<forall>v \<in> set votes. cast_in S
      self calls w v"
    by (auto simp: service_quorum_def)
  have run: "svc_run S self (calls @ [call]) w = ?w'" by (rule svc_run_snoc)
  have settle: ?thesis if "quorum_inv ?G (gov_view ?w', votes')"
    "\<forall>v \<in> set votes'. cast_in S self (calls @ [call]) w v" for votes'
    using that unfolding service_quorum_def run by blast
  have same: ?thesis if "changes (sv_db ?w') = changes (sv_db ?w)"
    using settle [of votes] votes cast_in_more quorum_inv_changes [OF that] by blast
  from tool_data [of ?w S self parts ev c] show ?thesis
  proof (elim disjE conjE exE)
    assume "same_data ?w (fst (svc_answer S self (parts, ev, c) ?w))"
    then show ?thesis using same by (simp add: call same_data_def)
  next
    fix w1
    assume token: "needs_token c \<longrightarrow> token_ok S self parts ev ?w"
      and w1: "same_data ?w w1"
      and body: "same_data (fst (tool_body S self (parts, ev, c) w1)) (fst (svc_answer S self (parts,
          ev, c) ?w))"
    have view1: "gov_view w1 = gov_view ?w" by (rule gov_view_same_data [OF w1])
    have view: "gov_view ?w' = gov_view (fst (tool_body S self (parts, ev, c) w1))"
      using gov_view_same_data [OF body] by (simp add: call)
    have kept: "changes (sv_db ?w') = changes (sv_db ?w)"
      if "changes (sv_db (fst (tool_body S self (parts, ev, c) w1))) = changes (sv_db w1)"
      using that body w1 by (simp add: call same_data_def)
    show ?thesis
    proof (cases c)
      case (ProposeCall p)
      have "quorum_inv ?G (gov_view ?w', votes)"
        using quorum_step [OF law votes(1), of "Some (sv_project_id self)" "(se_gov_faults ev, se_gov
            ev,
          Propose (pp_proposed_content p) (pp_reason p) (pp_change_type p) (pp_target_id p) (pp_category
              p)
            (Some (actor_id ?a)))"]
        by (simp add: view ProposeCall propose_permitted_view view1)
      with settle votes(2) cast_in_more show ?thesis by blast
    next
      case (ApproveCall p)
      let ?label = "case pa_approver p of Some n \<Rightarrow> n | None \<Rightarrow> actor_id ?a"
      let ?run = "approve_change_for_principal ?G (Some (sv_project_id self)) (se_gov_faults ev) (se_gov
          ev)
        (pa_change_id p) (actor_id ?a) (Some ?label) (pa_comment p) (gov_view ?w)"
      obtain k r where k: "?run = (k, r)" by fastforce
      have ok: "token_ok S self parts ev ?w" using token ApproveCall by simp
      have cast: "cast_in S self (calls @ [call]) w (pa_change_id p, actor_id ?a, ?label)"
        unfolding cast_in_def
        by (rule exI [of _ calls], rule exI [of _ parts], rule exI [of _ ev], rule exI [of _ p], rule
            exI [of _ "[]"])
           (simp add: call ApproveCall ok)
      have step: "quorum_inv ?G (gov_step ?G (Some (sv_project_id self)) (se_gov_faults ev, se_gov ev,
          Approve (pa_change_id p) (actor_id ?a) (Some ?label) (pa_comment p)) (gov_view ?w, votes))"
        by (rule quorum_step [OF law votes(1)])
      have k': "gov_view ?w' = k" by (simp add: view ApproveCall approve_permitted_view view1 k)
      show ?thesis
      proof (cases r)
        case (Inl e)
        with step k k' have "quorum_inv ?G (gov_view ?w', votes)" by simp
        with settle votes(2) cast_in_more show ?thesis by blast
      next
        case (Inr rec)
        with step k k' have "quorum_inv ?G (gov_view ?w', (pa_change_id p, actor_id ?a, ?label) #
            votes)" by simp
        moreover have "\<forall>v \<in> set ((pa_change_id p, actor_id ?a, ?label) # votes). cast_in S self (calls @
            [call]) w v"
          using cast votes(2) cast_in_more by (metis set_ConsD)
        ultimately show ?thesis by (rule settle)
      qed
    qed (use same kept in simp_all)
  qed
qed

text \<open>
  Over HTTP the check passes a call only when its token is accepted for the actor and the session of the
  request. On stdio there is no token: all such calls have one actor, the local process.
\<close>

definition presents_token :: "svc_lib \<Rightarrow> svc_self \<Rightarrow> svc_env \<Rightarrow> request \<Rightarrow> svc_world \<Rightarrow> bool" where
  "presents_token S self ev req w \<longleftrightarrow>
     (\<exists>secret. map_of (headers req) WRITE_TOKEN_HEADER = Some (Some secret) \<and> secret \<noteq> [] \<and>
        accepted_session (sl_blake3_hex S (utf8 secret)) (actor_id (resolve_actor S self (Some req)))
          (se_token_now ev) (tokens w) =
          Some (case ext_session req of Some s \<Rightarrow> s | None \<Rightarrow> stdio_session_id (sv_process_session self)))"

lemma validate_without_faults:
  "validate_token flt h a now rows = Inr v \<Longrightarrow> validate_token no_faults h a now rows = Inr v"
  by (cases "flt PrepareToken"; cases "flt SelectToken") (simp_all add: validate_token_def no_faults_def)

lemma token_ok_presents:
  assumes "token_ok S self (Some req) ev w"
  shows "presents_token S self ev req w"
proof -
  let ?a = "resolve_actor S self (Some req)"
  have ok: "snd (require_write_token_from_parts (sl_blake3_hex S) (sv_process_session self) (se_token_now ev) req ?a w)
      = Ok ()"
    using assms by (simp add: token_ok_def check_token_def require_write_token_def)
  then obtain secret where secret: "map_of (headers req) WRITE_TOKEN_HEADER = Some (Some secret)" "secret \<noteq> []"
    by (auto simp: require_write_token_from_parts_def split: option.splits if_splits)
  let ?v = "validate_token (token_faults w) (sl_blake3_hex S (utf8 secret)) (actor_id ?a) (se_token_now ev) (tokens w)"
  let ?s = "case ext_session req of Some s \<Rightarrow> s | None \<Rightarrow> stdio_session_id (sv_process_session self)"
  have "\<exists>aid e. ?v = Inr (Valid aid ?s e)"
  proof (cases ?v)
    case (Inl e)
    with ok secret show ?thesis by (simp add: require_write_token_from_parts_def Let_def)
  next
    case (Inr v)
    with ok secret show ?thesis
      by (cases v) (simp_all add: require_write_token_from_parts_def Let_def split: if_split_asm)
  qed
  then obtain aid e where "?v = Inr (Valid aid ?s e)" by blast
  from validate_without_faults [OF this] secret show ?thesis
    unfolding presents_token_def accepted_session_def by (intro exI [of _ secret]) simp
qed

text \<open>An approval of the run stands behind an entry: its change, its actor, and over HTTP its token.\<close>

definition approved_in ::
  "svc_lib \<Rightarrow> svc_self \<Rightarrow> svc_request list \<Rightarrow> svc_world \<Rightarrow> ustr \<Rightarrow> approval_entry \<Rightarrow> request option \<Rightarrow> bool" where
  "approved_in S self calls w change_id x parts \<longleftrightarrow>
     (\<exists>before ev p after. calls = before @ (parts, ev, ApproveCall p) # after \<and>
        pa_change_id p = change_id \<and> ae_actor_id x = Some (actor_id (resolve_actor S self parts)) \<and>
        (case parts of None \<Rightarrow> True | Some req \<Rightarrow> presents_token S self ev req (svc_run S self before w)))"

lemma cast_approved:
  assumes "cast_in S self calls w (cid, a, label)" "ae_actor_id x = Some a"
  shows "\<exists>parts. approved_in S self calls w cid x parts"
proof -
  from assms(1) obtain before parts ev p after where c: "calls = before @ (parts, ev, ApproveCall p) # after"
      "cid = pa_change_id p" "a = actor_id (resolve_actor S self parts)"
      "token_ok S self parts ev (svc_run S self before w)"
    unfolding cast_in_def by auto
  have "case parts of None \<Rightarrow> True | Some req \<Rightarrow> presents_token S self ev req (svc_run S self before w)"
    using token_ok_presents c(4) by (cases parts) auto
  with c assms(2) show ?thesis unfolding approved_in_def by blast
qed

text \<open>All approvals on stdio are by one principal.\<close>

lemma stdio_approvals:
  assumes "distinct (map principal_key xs)" "\<forall>x \<in> set xs. \<exists>parts. approved_in S self calls w cid x parts"
  shows "length xs \<le> length (filter (\<lambda>x. \<exists>req. approved_in S self calls w cid x (Some req)) xs) + 1"
proof -
  let ?http = "\<lambda>x. \<exists>req. approved_in S self calls w cid x (Some req)"
  let ?rest = "filter (\<lambda>x. \<not> ?http x) xs"
  have "principal_key x = actor_id (trusted_stdio_actor S self)" if x: "x \<in> set ?rest" for x
  proof -
    from x assms(2) obtain parts where "approved_in S self calls w cid x parts" "\<not> ?http x" by auto
    then have "approved_in S self calls w cid x None" by (cases parts) auto
    then show ?thesis by (auto simp: approved_in_def principal_key_def resolve_actor_def)
  qed
  then have "set (map principal_key ?rest) \<subseteq> {actor_id (trusted_stdio_actor S self)}" by auto
  moreover have "distinct (map principal_key ?rest)" using assms(1) by (rule distinct_map_filter)
  ultimately have "length ?rest \<le> 1"
    using card_mono [of "{actor_id (trusted_stdio_actor S self)}" "set (map principal_key ?rest)"]
    by (metis card.empty card.insert distinct_card empty_iff finite.emptyI finite.insertI length_map One_nat_def)
  with sum_length_filter_compl [of ?http xs] show ?thesis by linarith
qed

text \<open>
  C1. The constitution needs token holders: whatever sequence of tool calls reaches the service, from
  whomever and with any statement failing, every durable change marked applied stores at least three
  approvals by pairwise distinct principals, each the actor of an approval call of the run for that
  change. Of these calls all but one principal's came over HTTP, each with a token that was accepted
  for its actor and session at that moment; the one that need not is the local process on stdio.
\<close>

theorem applied_changes_need_token_holders:
  assumes "approvals_law (sl_gov S)" and "changes (sv_db w) = []"
    and "r \<in> set (changes (sv_db (svc_run S self calls w)))" and "cr_status r = lit ''applied''"
  shows "\<exists>xs. gl_parse_approvals (sl_gov S) (cr_approvals r) = Some xs \<and> 3 \<le> length xs \<and>
    distinct (map principal_key xs) \<and>
    (\<forall>x \<in> set xs. \<exists>parts. approved_in S self calls w (cr_id r) x parts) \<and>
    length xs \<le> length (filter (\<lambda>x. \<exists>req. approved_in S self calls w (cr_id r) x (Some req)) xs) + 1"
proof -
  have "service_quorum S self [] w"
    unfolding service_quorum_def using assms(2)
    by (intro exI [of _ "[]"]) (simp add: svc_run_def quorum_inv_def gov_view_def)
  then have "service_quorum S self calls w"
    by (induction calls rule: rev_induct) (auto intro: service_quorum_step [OF assms(1)])
  then obtain votes where "row_quorum (sl_gov S) votes r" and cast: "\<forall>v \<in> set votes. cast_in S self calls w v"
    using assms(3) by (auto simp: service_quorum_def quorum_inv_def gov_view_def)
  then obtain xs where xs: "gl_parse_approvals (sl_gov S) (cr_approvals r) = Some xs" "3 \<le> length xs"
    "ballot (sl_gov S) xs" "\<forall>x \<in> set xs. \<exists>a. ae_actor_id x = Some a \<and> (cr_id r, a, ae_approver x) \<in> set votes"
    using assms(4) by (auto simp: row_quorum_def simp del: lit_simps)
  have "\<forall>x \<in> set xs. \<exists>parts. approved_in S self calls w (cr_id r) x parts"
    using xs(4) cast cast_approved by blast
  with xs stdio_approvals show ?thesis by (auto simp: ballot_def)
qed

section \<open>The constitution changes by an applied change only\<close>

lemma store_identity:
  assumes "we_uuid (se_write ev) \<notin> fst ` set (identity_texts (svc_notes w))"
  shows "rules_kept (svc_notes w) (svc_notes (fst (store_checkpoint S self ev a cp w)))"
    and "rules_kept (svc_notes w) (svc_notes (fst (store_memory S self ev parts mp w)))"
    and "rules_kept (svc_notes w) (svc_notes (fst (store_outcome S self ev parts op w)))"
proof -
  let ?T = "svc_notes w"
  have ok: "identity_runs.call_ok ?T (se_write_faults ev, se_write ev, cmd)" for cmd
    unfolding identity_runs.call_ok_def using assms by simp
  have T: "rules_kept ?T (durable (writer_of w))" by (simp add: writer_of_def)
  have audit: "sv_db (audit_operation k r a w') = sv_db w'"
    "sv_db (audit_operation_with_session self k r p a w') = sv_db w'" for k r a w' self p
    by (simp_all add: audit_operation_def audit_operation_with_session_def)
  show "rules_kept ?T (svc_notes (fst (store_checkpoint S self ev a cp w)))"
  proof -
    let ?st = "case ck_task_status cp of None \<Rightarrow> lit ''blocked'' | Some s \<Rightarrow> s"
    let ?m = "save_checkpoint (sl_write S) (sv_orchestrator self) (se_write_faults ev)
      (se_write ev) (ck_task_id cp) (ck_summary cp) (build_checkpoint_metadata cp ?st)"
    obtain w1 r where r: "on_writer ?m w = (w1, r)" by fastforce
    have "rules_kept ?T (svc_notes w1)"
      using on_writer_durable [of ?m w] r identity_runs.durable_checkpoint [OF T ok] by simp
    then show ?thesis using r by (cases r) (simp_all add: store_checkpoint_def Let_def audit del:
        lit_simps)
  qed
  show "rules_kept ?T (svc_notes (fst (store_memory S self ev parts mp w)))"
  proof -
    let ?m = "add_memory (sl_write S) (sv_orchestrator self) (se_write_faults ev)
             (se_write ev) (add_rule_request self parts mp)"
    obtain w1 r where r: "on_writer ?m w = (w1, r)" by fastforce
    have "rules_kept ?T (svc_notes w1)"
      using on_writer_durable [of ?m w] r identity_runs.durable_add [OF T ok] by simp
    then show ?thesis using r by (simp add: store_memory_def audit del: lit_simps)
  qed
  show "rules_kept ?T (svc_notes (fst (store_outcome S self ev parts op w)))"
  proof -
    let ?m = "report_outcome (sl_write S) (se_write_faults ev) (se_write ev)
                  (op_memory_id op) (op_outcome op) (op_reason op)"
    obtain w1 r where r: "on_writer ?m w = (w1, r)" by fastforce
    have "rules_kept ?T (svc_notes w1)"
      using on_writer_durable [of ?m w] r identity_runs.durable_outcome [OF T] by simp
    then show ?thesis using r
      by (auto simp: store_outcome_def Let_def audit simp del: lit_simps split: sum.splits bool.splits)
  qed
qed

lemma rules_kept_svc: "note_rows d' = note_rows d \<Longrightarrow> rules_kept (notes_db.truncate d) (notes_db.truncate d')"
  by (simp add: rules_kept_rows)

text \<open>
  C2. The constitution is made by applied changes only: when a tool call adds a rule, deletes one, rewords
  one or puts one in force, it is an approval that passed the token check, of a change that was pending
  and is durably applied after it. The identifier a write draws is assumed to be no rule's. A rule goes
  out of force without a change, by an ordinary write that contradicts it.
\<close>

theorem constitution_changes_by_approval_only:
  assumes "we_uuid (se_write ev) \<notin> fst ` set (identity_texts (svc_notes w))"
    and "svc_answer S self (parts, ev, c) w = (w', answer)"
    and "identity_texts (svc_notes w') \<noteq> identity_texts (svc_notes w) \<or>
      \<not> rules_in_force (svc_notes w') \<subseteq> rules_in_force (svc_notes w)"
  shows "\<exists>p r r'. c = ApproveCall p \<and> token_ok S self parts ev w \<and>
     row_get cr_id (pa_change_id p) (changes (sv_db w)) = Some r \<and> cr_status r = lit ''pending'' \<and>
     row_get cr_id (pa_change_id p) (changes (sv_db w')) = Some r' \<and> cr_status r' = lit ''applied''"
proof -
  let ?a = "resolve_actor S self parts"
  have changed: "\<not> rules_kept (svc_notes w) (svc_notes w')" using assms(3) by (auto simp: rules_kept_def)
  from tool_data [of w S self parts ev c] assms(2) changed obtain w1 where
    token: "needs_token c \<longrightarrow> token_ok S self parts ev w" and w1: "same_data w w1"
    and body: "same_data (fst (tool_body S self (parts, ev, c) w1)) w'"
    by (auto simp: same_data_def)
  have notes1: "svc_notes w1 = svc_notes w" using w1 by (simp add: same_data_def)
  have db': "sv_db w' = sv_db (fst (tool_body S self (parts, ev, c) w1))" using body by (simp add:
      same_data_def)
  have fresh: "we_uuid (se_write ev) \<notin> fst ` set (identity_texts (svc_notes w1))" using assms(1) notes1
      by simp
  note unchanged = store_identity [OF fresh, unfolded notes1]
  show ?thesis
  proof (cases c)
    case (ProposeCall p)
    have "gov_view (fst (tool_body S self (parts, ev, c) w1)) = fst (propose_change (se_gov_faults ev)
        (se_gov ev)
        (pp_proposed_content p) (pp_reason p) (pp_change_type p) (pp_target_id p) (pp_category p)
        (Some (actor_id ?a)) (gov_view w1))"
      by (simp add: ProposeCall propose_permitted_view)
    then have "sv_db w' = committed (fst (propose_change (se_gov_faults ev) (se_gov ev)
        (pp_proposed_content p) (pp_reason p) (pp_change_type p) (pp_target_id p) (pp_category p)
        (Some (actor_id ?a)) (gov_view w1)))"
      unfolding db' by (metis committed_gov_view)
    with propose_committed [of "se_gov_faults ev" "se_gov ev" "pp_proposed_content p" "pp_reason p"
        "pp_change_type p" "pp_target_id p" "pp_category p" "Some (actor_id ?a)" "gov_view w1"]
    have "note_rows (sv_db w') = note_rows (sv_db w1)" by (auto simp: gov_view_def)
    with changed notes1 rules_kept_svc show ?thesis by metis
  next
    case (ApproveCall p)
    let ?label = "case pa_approver p of Some n \<Rightarrow> n | None \<Rightarrow> actor_id ?a"
    obtain k r where k: "approve_change_for_principal (sl_gov S) (Some (sv_project_id self))
        (se_gov_faults ev)
        (se_gov ev) (pa_change_id p) (actor_id ?a) (Some ?label) (pa_comment p) (gov_view w1) = (k, r)"
            by fastforce
    have kw: "committed k = sv_db w'"
    proof -
      have "gov_view (fst (approve_permitted S self ev ?a p w1)) = k"
        using approve_permitted_view [of S self ev ?a p w1] k by simp
      then show ?thesis unfolding db' ApproveCall tool_body.simps by (metis committed_gov_view)
    qed
    have cw: "committed (gov_view w1) = sv_db w" using w1 by (simp add: gov_view_def same_data_def)
    show ?thesis
    proof (cases r)
      case (Inl e)
      from approve_Err [OF k [unfolded Inl]] kw cw changed show ?thesis by simp
    next
      case (Inr rec)
      from approve_Ok [OF k [unfolded Inr]] have "approval_effect (sl_gov S) (Some (sv_project_id self))
          (se_gov ev)
          (pa_change_id p) (actor_id ?a) ?label (pa_comment p) (sv_db w) (sv_db w') rec"
        by (simp add: kw cw)
      then obtain row F t where row: "row_get cr_id (pa_change_id p) (changes (sv_db w)) = Some row"
          "cr_status row = lit ''pending''" "changes (sv_db w') = row_update (\<lambda>r. cr_id r = pa_change_id
              p) F (changes (sv_db w))"
          "\<forall>r. saved_as r (ch_status rec) t (F r)"
          "ch_status rec = lit ''pending'' \<and> note_rows (sv_db w') = note_rows (sv_db w) \<or> ch_status rec
              = lit ''applied''"
        unfolding approval_effect_def Let_def by blast
      have "ch_status rec = lit ''applied''"
        using row(5) changed rules_kept_svc by metis
      moreover have "row_get cr_id (pa_change_id p) (changes (sv_db w')) = Some (F row)"
        using row(1,4) row_get_SomeD [OF row(1)] by (simp add: row(3) row_get_update saved_as_def)
      ultimately show ?thesis using row token ApproveCall by (auto simp: saved_as_def simp del:
          lit_simps)
    qed
  next
    case (AddRuleCall p)
    with unchanged(2) changed db' show ?thesis by simp
  next
    case (CheckpointCall p)
    with unchanged(1) changed db' show ?thesis by simp
  next
    case (OutcomeCall p)
    with unchanged(3) changed db' show ?thesis by simp
  qed
qed

lemma permitted_admission [simp]:
  "sv_admission (fst (propose_permitted S self ev a pp w)) = sv_admission w"
  "sv_admission (fst (approve_permitted S self ev a ap w)) = sv_admission w"
  unfolding propose_permitted_def approve_permitted_def Let_def
  by (auto dest: on_op_admissionD simp del: lit_simps split: prod.splits sum.splits bool.splits)

text \<open>
  The service theorems at concrete inputs: three holders of write tokens propose and approve a rule
  over HTTP.
\<close>

definition svc_demo_lib :: svc_lib where
  "svc_demo_lib =
     \<lparr>sl_write = Write_Witness.demo_lib, sl_gov = demo_gov, sl_blake3_hex = map uint,
      sl_pretty = (\<lambda>j. None)\<rparr>"

definition svc_demo_self :: svc_self where
  "svc_demo_self =
     \<lparr>sv_project_id = lit ''p'', sv_orchestrator = demo_self, sv_process_session = lit ''s'', sv_pid =
         1,
      sv_exe = None\<rparr>"

definition svc_demo_env :: "ustr \<Rightarrow> svc_env" where
  "svc_demo_env u =
     \<lparr>se_clock = \<lparr>at_reset_check = 60000000000, at_window_start = 0, at_retry_after = 0\<rparr>, se_token_now =
         lit ''5'',
      se_gov = Governance_Runs.demo_env u, se_gov_faults = no_faults,
      se_write = Write_Witness.demo_env, se_write_faults = no_faults\<rparr>"

definition token_of :: "ustr \<Rightarrow> token_row" where
  "token_of who =
     \<lparr>token_hash = who, tok_session_id = lit ''http:s'', tok_actor_id = who, issued_at = lit ''1'',
      expires_at = lit ''9'', revoked_at = None\<rparr>"

definition svc_demo_world :: svc_world where
  "svc_demo_world =
     \<lparr>audit = \<lparr>dir_exists = True, files = []\<rparr>, audit_io = (\<lambda>_. True),
      env = \<lparr>env_now = [], env_project_id = None\<rparr>,
      tokens = [token_of (lit ''a''), token_of (lit ''b''), token_of (lit ''c'')], token_faults =
          no_faults,
      sv_admission = new_admission 2 0, sv_db = demo_gov_db, sv_gov_txn = None, sv_write_txn = None,
      sv_files = Map.empty\<rparr>"

definition request_of :: "ustr \<Rightarrow> request" where
  "request_of who =
     \<lparr>headers = [(lit ''x-ma-write-token'', Some who)], body = Ok [],
      ext_actor = Some \<lparr>actor_id = who, key_name = None, key_hash = []\<rparr>, ext_session = Some
          (lit ''http:s'')\<rparr>"

definition vote_of :: "ustr \<Rightarrow> svc_request" where
  "vote_of who = (Some (request_of who), svc_demo_env who,
     ApproveCall \<lparr>pa_change_id = lit ''c'', pa_approver = None, pa_comment = None\<rparr>)"

definition first_calls :: "svc_request list" where
  "first_calls =
     [(Some (request_of (lit ''a'')), svc_demo_env (lit ''c''),
       ProposeCall \<lparr>pp_proposed_content = lit ''rule'', pp_reason = [], pp_change_type = None,
         pp_target_id = None, pp_category = None\<rparr>),
      vote_of (lit ''a''), vote_of (lit ''b'')]"

text \<open>The parts of the world that let a call of this run through to its component.\<close>

definition ready :: "svc_world \<Rightarrow> bool" where
  "ready w \<longleftrightarrow> tokens w = tokens svc_demo_world \<and> token_faults w = no_faults \<and>
     (\<exists>n. sv_admission w = (new_admission 2 0)\<lparr>rate_limit := \<lparr>window_started_at = 0, used = n\<rparr>\<rparr>)"

abbreviation callers :: "ustr set" where
  "callers \<equiv> {lit ''a'', lit ''b'', lit ''c''}"

lemma token_accepted:
  "who \<in> callers \<Longrightarrow> validate_token no_faults (map uint (utf8 who)) who (lit ''5'') (tokens
      svc_demo_world) =
     Ok (Valid who (lit ''http:s'') (lit ''9''))"
  by (elim insertE emptyE; simp only:; code_simp)

lemma enters:
  "ready w \<Longrightarrow> \<exists>a. try_enter (se_clock (svc_demo_env u)) (sv_admission w) = (a, Ok ()) \<and>
     drop_permit a = (new_admission 2 0)\<lparr>rate_limit := \<lparr>window_started_at = 0, used = 1\<rparr>\<rparr>"
  by (auto simp: ready_def svc_demo_env_def try_enter_def check_rate_limit_def reset_if_expired_def
      elapsed_def
      nanos_per_sec_def new_admission_def with_limits_def drop_permit_def
          DEFAULT_WRITE_RATE_LIMIT_PER_MINUTE_def)

lemma token_step:
  assumes "ready w" "who \<in> callers"
  shows "\<exists>w1. check_token svc_demo_lib svc_demo_self (svc_demo_env u) (Some (request_of who))
      (resolve_actor svc_demo_lib svc_demo_self (Some (request_of who))) w = (w1, Ok ()) \<and>
    ready w1 \<and> gov_view w1 = gov_view w"
proof -
  let ?a = "resolve_actor svc_demo_lib svc_demo_self (Some (request_of who))"
  have a: "actor_id ?a = who" by (simp add: resolve_actor_def request_of_def)
  have r: "snd (check_token svc_demo_lib svc_demo_self (svc_demo_env u) (Some (request_of who)) ?a w) =
      Ok ()"
  proof -
    have "validate_token (token_faults w) (sl_blake3_hex svc_demo_lib (utf8 who)) (actor_id ?a)
        (se_token_now (svc_demo_env u)) (tokens w) = Ok (Valid who (lit ''http:s'') (lit ''9''))"
      using assms(1) token_accepted [OF assms(2)] unfolding a
      by (simp add: ready_def svc_demo_lib_def svc_demo_env_def del: lit_simps)
    moreover have "map_of (headers (request_of who)) WRITE_TOKEN_HEADER = Some (Some who)"
        "ext_session (request_of who) = Some (lit ''http:s'')"
      by (simp_all add: request_of_def WRITE_TOKEN_HEADER_def del: lit_simps)
    moreover have "who \<noteq> []" using assms(2) by auto
    ultimately show ?thesis
      by (simp add: check_token_def require_write_token_def require_write_token_from_parts_def Let_def
          del: lit_simps)
  qed
  obtain w1 where w1: "check_token svc_demo_lib svc_demo_self (svc_demo_env u) (Some (request_of who))
      ?a w = (w1, Ok ())"
    using r by (metis prod.collapse)
  have "tokens w1 = tokens w \<and> token_faults w1 = token_faults w"
    using w1 by (auto simp: check_token_def require_write_token_def require_write_token_from_parts_def
        Let_def
        log_event_def split: option.splits sum.splits validate_result.splits if_splits)
  with assms(1) w1 check_token_keeps(1) [of w svc_demo_lib svc_demo_self "svc_demo_env u" "Some
      (request_of who)" ?a]
      check_token_keeps(2) [of svc_demo_lib svc_demo_self "svc_demo_env u" "Some (request_of who)" ?a w]
  show ?thesis by (intro exI [of _ w1]) (simp add: ready_def gov_view_same_data)
qed

definition demo_step :: "svc_request \<Rightarrow> svc_world \<Rightarrow> svc_world" where
  "demo_step call w = fst (svc_answer svc_demo_lib svc_demo_self call w)"

lemma permitted_step:
  assumes "ready w" "\<And>w'. tokens (fst (b w')) = tokens w' \<and> token_faults (fst (b w')) = token_faults w'"
    and "\<And>w'. sv_admission (fst (b w')) = sv_admission w'"
    and "\<And>w'. gov_view (fst (b w')) = f (gov_view w')"
  shows "ready (fst (with_permit (se_clock (svc_demo_env u)) reject b w)) \<and>
    gov_view (fst (with_permit (se_clock (svc_demo_env u)) reject b w)) = f (gov_view w)"
proof -
  obtain a where a: "try_enter (se_clock (svc_demo_env u)) (sv_admission w) = (a, Ok ())"
      "drop_permit a = (new_admission 2 0)\<lparr>rate_limit := \<lparr>window_started_at = 0, used = 1\<rparr>\<rparr>"
    using enters [OF assms(1)] by blast
  let ?w = "w\<lparr>sv_admission := a\<rparr>"
  have run: "fst (with_permit (se_clock (svc_demo_env u)) reject b w) =
      (fst (b ?w))\<lparr>sv_admission := drop_permit (sv_admission (fst (b ?w)))\<rparr>"
    by (simp add: with_permit_def a split_beta)
  have "gov_view (fst (b ?w)\<lparr>sv_admission := x\<rparr>) = f (gov_view w)" for x
  proof -
    have "gov_view (fst (b ?w)\<lparr>sv_admission := x\<rparr>) = gov_view (fst (b ?w))" "gov_view ?w = gov_view w"
      by (simp_all add: gov_view_def)
    with assms(4) [of ?w] show ?thesis by simp
  qed
  moreover have "tokens (fst (b ?w)) = tokens w \<and> token_faults (fst (b ?w)) = token_faults w"
    using assms(2) [of ?w] by simp
  ultimately show ?thesis
    using assms(1,3) a by (auto simp: run ready_def)
qed

lemma audit_tokens [simp]:
  "tokens (audit_operation k r a w) = tokens w" "token_faults (audit_operation k r a w) = token_faults
      w"
  "token_faults (log_event e w) = token_faults w"
  by (simp_all add: audit_operation_def log_event_def)

lemma on_gov_tokensD:
  "on_gov m w = (w1, r) \<Longrightarrow> tokens w1 = tokens w \<and> token_faults w1 = token_faults w"
  by (auto simp: on_gov_def split: prod.splits)

lemma gov_permitted_tokens:
  "tokens (fst (propose_permitted S self ev a p w)) = tokens w \<and>
   token_faults (fst (propose_permitted S self ev a p w)) = token_faults w"
  "tokens (fst (approve_permitted S self ev a q w)) = tokens w \<and>
   token_faults (fst (approve_permitted S self ev a q w)) = token_faults w"
  unfolding propose_permitted_def approve_permitted_def Let_def
  by (auto dest!: on_gov_tokensD simp del: lit_simps split: prod.splits sum.splits)

lemma resolved: "actor_id (resolve_actor S self (Some (request_of who))) = who"
  by (simp add: resolve_actor_def request_of_def)

definition approve_as :: "ustr \<Rightarrow> gov_conn \<Rightarrow> gov_conn" where
  "approve_as who c = fst (approve_change_for_principal demo_gov (Some (lit ''p'')) no_faults
     (Governance_Runs.demo_env who) (lit ''c'') who (Some who) None c)"

lemma vote_step:
  assumes "ready w" "who \<in> callers"
  shows "ready (demo_step (vote_of who) w) \<and> gov_view (demo_step (vote_of who) w) = approve_as who
      (gov_view w)"
proof -
  let ?a = "resolve_actor svc_demo_lib svc_demo_self (Some (request_of who))"
  obtain w1 where w1: "check_token svc_demo_lib svc_demo_self (svc_demo_env who) (Some (request_of who))
      ?a w = (w1, Ok ())"
      "ready w1" "gov_view w1 = gov_view w"
    using token_step [OF assms] by blast
  have step: "demo_step (vote_of who) w = fst (approve_change_with_actor svc_demo_lib svc_demo_self
      (svc_demo_env who) ?a \<lparr>pa_change_id = lit ''c'', pa_approver = None, pa_comment = None\<rparr> w1)"
    by (simp add: demo_step_def vote_of_def approve_change_tool_def w1(1) del: lit_simps)
  show ?thesis
    unfolding step approve_change_with_actor_def w1(3) [symmetric]
    by (rule permitted_step [OF w1(2)])
       (simp_all add: gov_permitted_tokens approve_permitted_view approve_as_def resolved
           svc_demo_lib_def
          svc_demo_self_def svc_demo_env_def del: lit_simps)
qed

lemma propose_step:
  assumes "ready w"
  shows "ready (demo_step (hd first_calls) w) \<and> gov_view (demo_step (hd first_calls) w) =
    fst (propose_change no_faults (Governance_Runs.demo_env (lit ''c'')) (lit ''rule'') [] None None
        None
      (Some (lit ''a'')) (gov_view w))"
proof -
  let ?r = "Some (request_of (lit ''a''))"
  let ?a = "resolve_actor svc_demo_lib svc_demo_self ?r"
  obtain w1 where w1: "check_token svc_demo_lib svc_demo_self (svc_demo_env (lit ''c'')) ?r ?a w = (w1,
      Ok ())"
      "ready w1" "gov_view w1 = gov_view w"
    using token_step [OF assms, of "lit ''a''"] by blast
  have step: "demo_step (hd first_calls) w = fst (propose_change_with_actor svc_demo_lib svc_demo_self
      (svc_demo_env (lit ''c'')) ?a \<lparr>pp_proposed_content = lit ''rule'', pp_reason = [], pp_change_type
          = None,
         pp_target_id = None, pp_category = None\<rparr> w1)"
    by (simp add: demo_step_def first_calls_def propose_change_tool_def w1(1) del: lit_simps)
  show ?thesis
    unfolding step propose_change_with_actor_def w1(3) [symmetric]
    by (rule permitted_step [OF w1(2)])
       (simp_all add: gov_permitted_tokens propose_permitted_view resolved no_faults_def [abs_def]
           svc_demo_lib_def
          svc_demo_self_def svc_demo_env_def del: lit_simps)
qed

lemma demo_run_view:
  "\<exists>w3. w3 = svc_run svc_demo_lib svc_demo_self first_calls svc_demo_world \<and> ready w3 \<and>
     gov_view w3 = approve_as (lit ''b'') (approve_as (lit ''a'') (fst (propose_change no_faults
       (Governance_Runs.demo_env (lit ''c'')) (lit ''rule'') [] None None None (Some (lit ''a''))
           (gov_view svc_demo_world))))"
proof -
  have "ready svc_demo_world"
    by (simp add: ready_def svc_demo_world_def new_admission_def with_limits_def)
  from propose_step [OF this] vote_step show ?thesis
    by (simp add: svc_run_def demo_step_def [symmetric] first_calls_def)
qed

lemma demo_gov_outcome:
  "map cr_status (changes (committed (approve_as (lit ''c'') (approve_as (lit ''b'') (approve_as
      (lit ''a'') (fst (propose_change no_faults
       (Governance_Runs.demo_env (lit ''c'')) (lit ''rule'') [] None None None (Some (lit ''a''))
           (gov_view svc_demo_world)))))))) =
   [lit ''applied'']"
  by code_simp

theorem applied_changes_need_token_holders_witness:
  "\<exists>r xs. r \<in> set (changes (sv_db (svc_run svc_demo_lib svc_demo_self (first_calls @ [vote_of
      (lit ''c'')]) svc_demo_world))) \<and>
     cr_status r = lit ''applied'' \<and> gl_parse_approvals demo_gov (cr_approvals r) = Some xs \<and> 3 \<le> length
         xs"
proof -
  let ?w = "svc_run svc_demo_lib svc_demo_self (first_calls @ [vote_of (lit ''c'')]) svc_demo_world"
  obtain w3 where w3: "w3 = svc_run svc_demo_lib svc_demo_self first_calls svc_demo_world" "ready w3"
      "gov_view w3 = approve_as (lit ''b'') (approve_as (lit ''a'') (fst (propose_change no_faults
       (Governance_Runs.demo_env (lit ''c'')) (lit ''rule'') [] None None None (Some (lit ''a''))
           (gov_view svc_demo_world))))"
    using demo_run_view by blast
  have "gov_view ?w = approve_as (lit ''c'') (gov_view w3)"
    using vote_step [OF w3(2), of "lit ''c''"] by (simp add: svc_run_snoc w3(1) demo_step_def)
  then have "map cr_status (changes (sv_db ?w)) = [lit ''applied'']"
    using demo_gov_outcome by (metis committed_gov_view w3(3))
  then obtain r where r: "r \<in> set (changes (sv_db ?w))" "cr_status r = lit ''applied''"
    by (cases "changes (sv_db ?w)") auto
  have "approvals_law (sl_gov svc_demo_lib)" by (simp add: svc_demo_lib_def demo_gov_law)
  moreover have "changes (sv_db svc_demo_world) = []" by (simp add: svc_demo_world_def demo_gov_db_def)
  ultimately obtain xs where "gl_parse_approvals (sl_gov svc_demo_lib) (cr_approvals r) = Some xs" "3 \<le>
      length xs"
    using applied_changes_need_token_holders [OF _ _ r] by blast
  with r show ?thesis by (auto simp: svc_demo_lib_def)
qed

lemma demo_rule_added:
  "identity_texts (notes_db.truncate (committed (approve_as (lit ''c'') (approve_as (lit ''b'')
      (approve_as (lit ''a'')
     (fst (propose_change no_faults (Governance_Runs.demo_env (lit ''c'')) (lit ''rule'') [] None
         None None
       (Some (lit ''a'')) (gov_view svc_demo_world)))))))) = [(lit ''c'', lit ''rule'')]"
  "identity_texts (notes_db.truncate (committed (approve_as (lit ''b'') (approve_as (lit ''a'')
     (fst (propose_change no_faults (Governance_Runs.demo_env (lit ''c'')) (lit ''rule'') [] None
         None None
       (Some (lit ''a'')) (gov_view svc_demo_world))))))) = []"
  by (code_simp, code_simp)

theorem constitution_changes_by_approval_only_witness:
  "\<exists>w r'. identity_texts (svc_notes w) = [] \<and>
     identity_texts (svc_notes (demo_step (vote_of (lit ''c'')) w)) = [(lit ''c'', lit ''rule'')] \<and>
     row_get cr_id (lit ''c'') (changes (sv_db (demo_step (vote_of (lit ''c'')) w))) = Some r' \<and>
         cr_status r' = lit ''applied''"
proof -
  obtain w3 where w3: "ready w3"
      "gov_view w3 = approve_as (lit ''b'') (approve_as (lit ''a'') (fst (propose_change no_faults
       (Governance_Runs.demo_env (lit ''c'')) (lit ''rule'') [] None None None (Some (lit ''a''))
           (gov_view svc_demo_world))))"
    using demo_run_view by blast
  let ?w = "demo_step (vote_of (lit ''c'')) w3"
  have before: "identity_texts (svc_notes w3) = []"
    using demo_rule_added(2) by (metis committed_gov_view w3(2))
  have "gov_view ?w = approve_as (lit ''c'') (gov_view w3)" using vote_step [OF w3(1), of "lit ''c''"]
      by simp
  then have after: "identity_texts (svc_notes ?w) = [(lit ''c'', lit ''rule'')]"
    using demo_rule_added(1) by (metis committed_gov_view w3(2))
  obtain answer where run: "svc_answer svc_demo_lib svc_demo_self (vote_of (lit ''c'')) w3 = (?w,
      answer)"
    by (metis demo_step_def prod.collapse)
  have fresh: "we_uuid (se_write (svc_demo_env (lit ''c''))) \<notin> fst ` set (identity_texts (svc_notes
      w3))"
    by (simp add: before)
  from constitution_changes_by_approval_only [OF fresh run [unfolded vote_of_def]] before after obtain p
      r' where
    "ApproveCall \<lparr>pa_change_id = lit ''c'', pa_approver = None, pa_comment = None\<rparr> = ApproveCall p"
    "row_get cr_id (pa_change_id p) (changes (sv_db ?w)) = Some r'" "cr_status r' = lit ''applied''"
    by (fastforce simp: vote_of_def simp del: lit_simps)
  with before after show ?thesis by force
qed

end
