(* ===== verification/Service_Reads.thy ===== *)
theory Service_Reads
  imports Service_Writes Experience_Feedback
begin

text \<open>
  The read tools of the service (\<open>memra-server/src/service.rs\<close>): \<open>search_rules\<close> and
  \<open>search_manifest\<close> with the log they leave of what they showed, rooms, checkpoints, context
  snapshots, and the tools over the experience store. Each answers a text; an answer None is a panic
  of the search it runs. The time the activation stage took, the clocks and the random identifiers
  are fields of \<open>read_env\<close>. A search has no \<open>as_of\<close>: the engine does not read that field.
\<close>

section \<open>Association traces\<close>

record association_trace =
  at_associated_from :: ustr
  at_association_root :: "ustr option"
  at_relation_type :: ustr
  at_relation_strength :: "f64 option"
  at_activation_depth :: "nat option"
  at_activation_path :: "ustr list"
  at_dream_candidate_id :: "ustr option"

text \<open>A text field, trimmed, unless it is blank.\<close>

definition trimmed_field :: "json \<Rightarrow> ustr \<Rightarrow> ustr option" where
  "trimmed_field meta key =
     (case Option.bind (json_get meta key) as_str of
        None \<Rightarrow> None | Some t \<Rightarrow> if trim t = [] then None else Some (trim t))"

definition association_trace :: "json option \<Rightarrow> association_trace option" where
  "association_trace metadata =
     Option.bind metadata (\<lambda>meta.
       if Option.bind (json_get meta (lit ''is_association'')) as_bool \<noteq> Some True then None
       else Option.bind (trimmed_field meta (lit ''associated_from'')) (\<lambda>from.
         Some
           \<lparr>at_associated_from = from,
            at_association_root = trimmed_field meta (lit ''association_root''),
            at_relation_type = (case trimmed_field meta (lit ''relation_type'') of
                                  None \<Rightarrow> lit ''association'' | Some t \<Rightarrow> t),
            at_relation_strength = Option.bind (json_get meta (lit ''relation_strength'')) as_f64,
            at_activation_depth = Option.bind (json_get meta (lit ''activation_depth'')) as_u64,
            at_activation_path =
              (case Option.bind (json_get meta (lit ''activation_path'')) as_array of
                 None \<Rightarrow> []
               | Some path \<Rightarrow> filter (\<lambda>t. t \<noteq> []) (map trim (List.map_filter as_str path))),
            at_dream_candidate_id = trimmed_field meta (lit ''dream_candidate_id'')\<rparr>))"

text \<open>A part of a line that is there when the value is.\<close>

definition part :: "ustr \<Rightarrow> ('a \<Rightarrow> ustr) \<Rightarrow> ustr \<Rightarrow> 'a option \<Rightarrow> ustr" where
  "part pre show_value post v = (case v of None \<Rightarrow> [] | Some x \<Rightarrow> pre @ show_value x @ post)"

definition show_strength :: "f64 \<Rightarrow> ustr" where
  "show_strength x = show_fixed 3 (Fin x)"

definition association_selected_reason :: "association_trace \<Rightarrow> ustr" where
  "association_selected_reason t =
     lit ''Rust neural activation via '' @ at_relation_type t @ lit '' from '' @ at_associated_from t @
     part (lit '' (strength='') show_strength (lit '')'') (at_relation_strength t) @
     part (lit '' (depth='') show_nat (lit '')'') (at_activation_depth t) @
     part (lit '' (root='') (\<lambda>s. s) (lit '')'') (at_association_root t) @
     part (lit '' (dream_candidate_id='') (\<lambda>s. s) (lit '')'') (at_dream_candidate_id t)"

definition opt_map_json :: "('a \<Rightarrow> json) \<Rightarrow> 'a option \<Rightarrow> json" where
  "opt_map_json f v = (case v of None \<Rightarrow> JNull | Some x \<Rightarrow> f x)"

definition association_manifest :: "association_trace \<Rightarrow> json" where
  "association_manifest t = JObj
     [(lit ''associated_from'', JStr (at_associated_from t)),
      (lit ''association_root'', opt_json (at_association_root t)),
      (lit ''relation_type'', JStr (at_relation_type t)),
      (lit ''relation_strength'', opt_map_json JFloat (at_relation_strength t)),
      (lit ''activation_depth'', opt_map_json (\<lambda>n. JInt (int n)) (at_activation_depth t)),
      (lit ''activation_path'', JArr (map JStr (at_activation_path t))),
      (lit ''dream_candidate_id'', opt_json (at_dream_candidate_id t))]"

definition association_output_line :: "association_trace \<Rightarrow> ustr" where
  "association_output_line t =
     ([32, 32, 32, 0x1F517] @ lit '' association: '') @ at_relation_type t @ lit '' from '' @
         at_associated_from t @
     part (lit '' strength='') show_strength [] (at_relation_strength t) @
     part (lit '' depth='') show_nat [] (at_activation_depth t) @
     (if at_activation_path t = [] then []
      else lit '' path='' @ join_with (lit '' -> '') (at_activation_path t)) @
     part (lit '' dream_candidate_id='') (\<lambda>s. s) [] (at_dream_candidate_id t) @ [10]"

section \<open>The log of what was shown\<close>

record query_row =
  qr_timestamp :: ustr
  qr_query :: ustr
  qr_top_result_ids :: ustr
  qr_top_scores :: ustr
  qr_result_count :: nat

record trace_row =
  tr_trace_id :: ustr
  tr_project_id :: ustr
  tr_tool :: ustr
  tr_query :: ustr
  tr_emitted_at :: ustr
  tr_result_count :: nat
  tr_activation_result_count :: nat
  tr_activation_max_depth :: nat
  tr_dream_evidence_count :: nat
  tr_latency_ms :: nat
  tr_trace_json :: ustr

record read_db = experience_db +
  query_log :: "query_row list"
  activation_trace_log :: "trace_row list"

datatype observe_stmt = EnsureSchema | InsertQuery | InsertRecall ustr | InsertTrace

record read_env =
  re_emitted_at :: ustr
  re_nanos :: int
  re_latency_ms :: nat
  re_observe_faults :: "observe_stmt faults"
  re_faults :: "experience_stmt faults"
  re_context_faults :: "context_stmt faults"
  re_experience :: experience_env

record read_lib =
  rl_context :: context_lib
  rl_experience :: experience_lib
  rl_json :: json_lib
  rl_pretty :: "json \<Rightarrow> ustr option"

definition read_pretty_or :: "read_lib \<Rightarrow> ustr \<Rightarrow> json \<Rightarrow> ustr" where
  "read_pretty_or L otherwise j = (case rl_pretty L j of Some t \<Rightarrow> t | None \<Rightarrow> otherwise)"

text \<open>\<open>recall_log\<close> numbers its rows upwards; no statement of the program deletes one.\<close>

definition next_row_id :: "(int \<times> ustr \<times> ustr) list \<Rightarrow> int" where
  "next_row_id rows = foldr (\<lambda>r m. max (fst r) m) rows 0 + 1"

definition logged_recalls :: "'a search_db_scheme \<Rightarrow> (int \<times> ustr \<times> ustr) list" where
  "logged_recalls db = (case recall_log db of None \<Rightarrow> [] | Some rows \<Rightarrow> rows)"

definition ensure_search_observability_schema ::
  "observe_stmt faults \<Rightarrow> ('a read_db_scheme, sql_error, unit) op" where
  "ensure_search_observability_schema flt =
     sql_exec (flt EnsureSchema) (\<lambda>db. (db\<lparr>recall_log := Some (logged_recalls db)\<rparr>, ()))"

definition insert_recall ::
  "observe_stmt faults \<Rightarrow> ustr \<Rightarrow> search_result \<Rightarrow> ('a read_db_scheme, sql_error, unit) op" where
  "insert_recall flt emitted_at r =
     sql_exec (flt (InsertRecall (re_id r)))
       (\<lambda>db. (db\<lparr>recall_log := Some (logged_recalls db @ [(next_row_id (logged_recalls db), re_id r,
           emitted_at)])\<rparr>, ()))"

definition search_trace_payload ::
  "read_env \<Rightarrow> ustr \<Rightarrow> ustr \<Rightarrow> ustr \<Rightarrow> ustr \<Rightarrow> search_result list \<Rightarrow> search_diagnostics \<Rightarrow> json" where
  "search_trace_payload ev trace_id project_id tool query visible d =
     JObj
       [(lit ''schema_version'', JStr (lit ''rust-search-activation-trace/v1'')),
        (lit ''trace_id'', JStr trace_id), (lit ''emitted_at'', JStr (re_emitted_at ev)),
        (lit ''project_id'', JStr project_id), (lit ''tool'', JStr tool), (lit ''query'', JStr query),
        (lit ''summary'', JObj
          [(lit ''result_count'', JInt (int (length visible))),
           (lit ''activation_result_count'', JInt (int (sg_activation_result_count d))),
           (lit ''activation_max_depth'', JInt (int (sg_activation_max_depth d))),
           (lit ''activation_dream_evidence_count'', JInt (int (sg_activation_dream_evidence_count d))),
           (lit ''activation_latency_ms'', JInt (int (re_latency_ms ev))),
           (lit ''relation_type_counts'', JObj (map (\<lambda>(k, n). (k, JInt (int n)))
               (sg_activation_relation_type_counts d)))]),
        (lit ''final_results'', JArr (map (\<lambda>r. JObj
          [(lit ''id'', JStr (re_id r)), (lit ''score'', json_f64 (re_score r)), (lit ''layer'', JStr
              (re_layer r)),
           (lit ''channel'', opt_json (re_channel r)),
           (lit ''activation'', opt_map_json association_manifest (association_trace (re_metadata r)))])
               visible)),
        (lit ''activation_paths'', JArr (map association_manifest
          (List.map_filter (\<lambda>r. association_trace (re_metadata r)) visible)))]"

definition rounded_to :: "rat \<Rightarrow> xf64 \<Rightarrow> xf64" where
  "rounded_to n v = xdiv (xround_int (xmul v (Fin n))) (Fin n)"

definition json_text :: "read_lib \<Rightarrow> json \<Rightarrow> ustr \<Rightarrow> ustr" where
  "json_text L j otherwise = (case jl_print (rl_json L) j of None \<Rightarrow> otherwise | Some t \<Rightarrow> t)"

definition try_record_search_observability ::
  "read_lib \<Rightarrow> read_env \<Rightarrow> ustr \<Rightarrow> ustr \<Rightarrow> ustr \<Rightarrow> search_result list \<Rightarrow> nat \<Rightarrow> search_diagnostics \<Rightarrow>
   ('a read_db_scheme, sql_error, unit) op" where
  "try_record_search_observability L ev project_id tool query results visible_limit d =
     (let flt = re_observe_faults ev; visible = take visible_limit results;
          trace_id = lit ''rust-search-'' @ show_int (re_nanos ev) @ [45] @ show_nat (length visible);
          ids_json = json_text L (JArr (map (\<lambda>r. JStr (re_id r)) visible)) (lit ''[]'');
          scores_json = json_text L (JArr (map (\<lambda>r. json_f64 (rounded_to 10000 (re_score r))) visible))
              (lit ''[]'');
          trace_json = json_text L (search_trace_payload ev trace_id project_id tool query visible d)
              (lit ''{}'')
      in op_bind (ensure_search_observability_schema flt) (\<lambda>_.
         op_bind (sql_exec (flt InsertQuery) (\<lambda>db. (db\<lparr>query_log := query_log db @
           [\<lparr>qr_timestamp = re_emitted_at ev, qr_query = query, qr_top_result_ids = ids_json,
             qr_top_scores = scores_json, qr_result_count = length visible\<rparr>]\<rparr>, ()))) (\<lambda>_.
         op_bind (op_each (insert_recall flt (re_emitted_at ev)) visible) (\<lambda>_.
         sql_exec (flt InsertTrace) (\<lambda>db. (db\<lparr>activation_trace_log := activation_trace_log db @
           [\<lparr>tr_trace_id = trace_id, tr_project_id = project_id, tr_tool = tool, tr_query = query,
             tr_emitted_at = re_emitted_at ev, tr_result_count = length visible,
             tr_activation_result_count = sg_activation_result_count d,
             tr_activation_max_depth = sg_activation_max_depth d,
             tr_dream_evidence_count = sg_activation_dream_evidence_count d,
             tr_latency_ms = re_latency_ms ev, tr_trace_json = trace_json\<rparr>]\<rparr>, ()))))))"

text \<open>A failure is a warning of the log.\<close>

definition record_search_observability ::
  "read_lib \<Rightarrow> read_env \<Rightarrow> ustr \<Rightarrow> ustr \<Rightarrow> ustr \<Rightarrow> search_result list \<Rightarrow> nat \<Rightarrow> search_diagnostics \<Rightarrow>
   'a read_db_scheme \<Rightarrow> 'a read_db_scheme" where
  "record_search_observability L ev project_id tool query results visible_limit d db =
     fst (try_record_search_observability L ev project_id tool query results visible_limit d db)"

section \<open>Searching\<close>

definition DEFAULT_MIN_SCORE :: f64 where "DEFAULT_MIN_SCORE = f64_lit 0.5"

definition or_else :: "'a option \<Rightarrow> 'a \<Rightarrow> 'a" where
  "or_else v otherwise = (case v of None \<Rightarrow> otherwise | Some x \<Rightarrow> x)"

record search_rules_params =
  sr_query :: ustr
  sr_limit :: "nat option"
  sr_min_score :: "f64 option"
  sr_search_mode :: "ustr option"
  sr_layer :: "ustr option"
  sr_category :: "ustr option"
  sr_include_constitution :: "bool option"
  sr_start_time :: "ustr option"
  sr_end_time :: "ustr option"
  sr_include_expired :: "bool option"
  sr_cross_project :: "bool option"
  sr_room :: "ustr option"

definition search_rules_request :: "ustr \<Rightarrow> search_rules_params \<Rightarrow> search_params" where
  "search_rules_request project_id p =
     \<lparr>pr_query = sr_query p, pr_limit = or_else (sr_limit p) 5, pr_layer = sr_layer p,
      pr_category = sr_category p, pr_only_active = True, pr_agent_id = None,
      pr_project_id = Some project_id, pr_start_time = sr_start_time p, pr_end_time = sr_end_time p,
      pr_include_expired = or_else (sr_include_expired p) False,
      pr_cross_project = or_else (sr_cross_project p) False, pr_search_mode = sr_search_mode p,
      pr_room = sr_room p, pr_min_score = Fin (or_else (sr_min_score p) DEFAULT_MIN_SCORE),
      pr_boost_categories = None,
      pr_include_constitution = or_else (sr_include_constitution p) False\<rparr>"

definition result_block :: "nat \<Rightarrow> search_result \<Rightarrow> ustr" where
  "result_block i r =
     show_nat (i + 1) @ lit ''. ['' @ re_layer r @ lit ''] (score: '' @ show_fixed 3 (re_score r) @
         lit '') '' @
     safe_text_prefix (re_content r) 300 @ [10] @
     part (lit ''   category: '') (\<lambda>s. s) [10] (re_category r) @
     part (lit ''   temperature: '') (\<lambda>s. s) [10] (re_temperature r) @
     (case association_trace (re_metadata r) of None \<Rightarrow> [] | Some t \<Rightarrow> association_output_line t) @ [10]"

definition search_rules_answer :: "read_env \<Rightarrow> search_result list \<Rightarrow> search_diagnostics \<Rightarrow> ustr" where
  "search_rules_answer ev results d =
     (if results = [] then
        if 0 < sg_dim_mismatch_skipped d then
          (lit ''No results found. '' @ [0x26A0, 0xFE0F, 32]) @ show_nat (sg_dim_mismatch_skipped d) @
          lit '' note(s) skipped due to embedding dim mismatch (legacy 384-dim rows predating the bge-m3 1024-dim migration). Run scripts/reembed_legacy.py to restore them. See TODO-REL-02.''
        else lit ''No results found.''
      else
        concat (map (\<lambda>(i, r). result_block i r) (enumerate 0 results)) @
        (if 0 < sg_dim_mismatch_skipped d then
           [0x26A0, 0xFE0F, 32] @ show_nat (sg_dim_mismatch_skipped d) @
           (lit '' additional note(s) skipped due to embedding dim mismatch (legacy 384-dim rows predating bge-m3 1024-dim). See TODO-REL-02.''
               @ [10])
         else []) @
        (if 0 < sg_activation_result_count d then
           ([0x1F9E0] @ lit '' activation diagnostics: results='') @ show_nat
               (sg_activation_result_count d) @
           lit '' max_depth='' @ show_nat (sg_activation_max_depth d) @
           lit '' dream_evidence='' @ show_nat (sg_activation_dream_evidence_count d) @
           lit '' latency_ms='' @ show_nat (re_latency_ms ev) @
           lit '' relation_types=['' @ join_with (lit '', '')
             (map (\<lambda>(k, n). k @ [58] @ show_nat n) (sg_activation_relation_type_counts d)) @ [93, 10]
         else []))"

definition search_rules ::
  "read_lib \<Rightarrow> read_env \<Rightarrow> ustr \<Rightarrow> search_rules_params \<Rightarrow> 'a read_db_scheme \<Rightarrow>
   ('a read_db_scheme \<times> ustr) option" where
  "search_rules L ev project_id p db =
     map_option (\<lambda>(results, d).
         (record_search_observability L ev project_id (lit ''search_rules'') (sr_query p) results
             (length results) d db,
          search_rules_answer ev results d))
       (search_with_diagnostics (cl_search (rl_context L)) (\<lambda>s. re_context_faults ev (SearchPart s)) db
          (search_rules_request project_id p))"

record manifest_params =
  mf_query :: ustr
  mf_candidate_limit :: "nat option"
  mf_selected_limit :: "nat option"
  mf_min_score :: "f64 option"
  mf_include_constitution :: "bool option"
  mf_cross_project :: "bool option"
  mf_search_mode :: "ustr option"
  mf_start_time :: "ustr option"
  mf_end_time :: "ustr option"
  mf_include_expired :: "bool option"

definition manifest_request :: "ustr \<Rightarrow> manifest_params \<Rightarrow> search_params" where
  "manifest_request project_id p =
     \<lparr>pr_query = mf_query p, pr_limit = clamp 1 20 (or_else (mf_candidate_limit p) 12), pr_layer = None,
      pr_category = None, pr_only_active = True, pr_agent_id = None, pr_project_id = Some project_id,
      pr_start_time = mf_start_time p, pr_end_time = mf_end_time p,
      pr_include_expired = or_else (mf_include_expired p) False,
      pr_cross_project = or_else (mf_cross_project p) False, pr_search_mode = mf_search_mode p,
      pr_room = None, pr_min_score = Fin (or_else (mf_min_score p) DEFAULT_MIN_SCORE),
      pr_boost_categories = None,
      pr_include_constitution = or_else (mf_include_constitution p) False\<rparr>"

definition manifest_item :: "ustr \<Rightarrow> search_result \<Rightarrow> bool \<Rightarrow> json" where
  "manifest_item query r include_content =
     (let needs_verification = (re_layer r \<noteq> lit ''identity_schema'');
          association = association_trace (re_metadata r);
          score = json_f64 (rounded_to 1000 (re_score r));
          item =
            [(lit ''id'', JStr (re_id r)),
             (lit ''hook'', JStr ([0x76F8, 0x5173, 0x8BB0, 0x5FC6, 58, 32] @ safe_text_prefix
                 (re_content r) 90 @
               (if needs_verification then [32, 124, 32, 0x9700, 0x9A8C, 0x8BC1] else []))),
             (lit ''memory_type'', opt_json (re_category r)),
             (lit ''feedback_kind'', opt_json (Option.bind (Option.bind (re_metadata r)
                (\<lambda>m. json_get m (lit ''feedback_kind''))) as_str)),
             (lit ''living_doc'', JBool False), (lit ''living_docs'', JArr []),
             (lit ''layer'', JStr (re_layer r)), (lit ''score'', score), (lit ''selection_score'',
                 score),
             (lit ''stale_risk'', JStr (if re_layer r = lit ''event_log'' then lit ''medium'' else
                 lit ''low'')),
             (lit ''needs_verification'', JBool needs_verification),
             (lit ''verification_hint'', JStr (if needs_verification then
                lit ''Rust manifest uses memory-search evidence; verify repo-derived claims before relying on them.''
              else [])),
             (lit ''selected_reason'', JStr (case association of
                None \<Rightarrow> lit ''Rust memory search result'' | Some t \<Rightarrow> association_selected_reason t)),
             (lit ''source_type'', JStr (if association \<noteq> None then lit ''memory_association'' else
                 lit ''memory'')),
             (lit ''experience_id'', JNull), (lit ''experience_kind'', JNull),
                 (lit ''experience_status'', JNull),
             (lit ''evidence_refs'', JArr [])];
          item = (case association of
            None \<Rightarrow> item
          | Some t \<Rightarrow>
              map_insert (lit ''evidence_refs'') (JArr
                ([JObj [(lit ''kind'', JStr (lit ''associated_from'')), (lit ''id'', JStr
                    (at_associated_from t)),
                        (lit ''relation_type'', JStr (at_relation_type t))]] @
                 (case at_dream_candidate_id t of
                    None \<Rightarrow> []
                  | Some c \<Rightarrow> [JObj [(lit ''kind'', JStr (lit ''dream_candidate'')), (lit ''id'', JStr
                      c)]])))
                (map_insert (lit ''association'') (association_manifest t) item))
      in JObj (if include_content then
           map_insert (lit ''how_to_apply'') (JStr
               (lit ''Use as context after checking freshness and scope.''))
             (map_insert (lit ''why'') (JStr (lit ''Matched query: '' @ query))
               (map_insert (lit ''content'') (JStr (re_content r)) item))
         else item))"

definition manifest_answer :: "read_env \<Rightarrow> ustr \<Rightarrow> nat \<Rightarrow> search_result list \<Rightarrow> search_diagnostics \<Rightarrow> json"
    where
  "manifest_answer ev query selected_limit results d =
     (let selected = take selected_limit results
      in JObj
        [(lit ''query'', JStr query), (lit ''candidate_count'', JInt (int (length results))),
         (lit ''selected_count'', JInt (int (length selected))),
         (lit ''manifest'', JArr (map (\<lambda>r. manifest_item query r False) results)),
         (lit ''selected_ids'', JArr (map (\<lambda>r. JStr (re_id r)) selected)),
         (lit ''selected'', JArr (map (\<lambda>r. manifest_item query r True) selected)),
         (lit ''diagnostics'', JObj
           [(lit ''dim_mismatch_skipped'', JInt (int (sg_dim_mismatch_skipped d))),
            (lit ''activation_result_count'', JInt (int (sg_activation_result_count d))),
            (lit ''activation_max_depth'', JInt (int (sg_activation_max_depth d))),
            (lit ''activation_relation_type_counts'',
             JObj (map (\<lambda>(k, n). (k, JInt (int n))) (sg_activation_relation_type_counts d))),
            (lit ''activation_dream_evidence_count'', JInt (int (sg_activation_dream_evidence_count
                d))),
            (lit ''activation_latency_ms'', JInt (int (re_latency_ms ev)))]),
         (lit ''rust_notes'', JObj
           [(lit ''experience_manifest_items'', JStr (lit ''not yet ported; memory results only''))])])"

definition SERIALIZE_FAILED :: ustr where
  "SERIALIZE_FAILED = error_text (lit ''serialize failed'')"

definition search_manifest ::
  "read_lib \<Rightarrow> read_env \<Rightarrow> ustr \<Rightarrow> manifest_params \<Rightarrow> 'a read_db_scheme \<Rightarrow>
   ('a read_db_scheme \<times> ustr) option" where
  "search_manifest L ev project_id p db =
     (let selected_limit = clamp 1 5 (or_else (mf_selected_limit p) 5)
      in map_option (\<lambda>(results, d).
           (record_search_observability L ev project_id (lit ''search_manifest'') (mf_query p) results
               selected_limit d db,
            read_pretty_or L SERIALIZE_FAILED (manifest_answer ev (mf_query p) selected_limit results
                d)))
         (search_with_diagnostics (cl_search (rl_context L)) (\<lambda>s. re_context_faults ev (SearchPart s))
             db
            (manifest_request project_id p)))"

section \<open>Rooms, checkpoints and snapshots\<close>

definition list_rooms_tool ::
  "read_env \<Rightarrow> ustr \<Rightarrow> ustr option \<Rightarrow> bool option \<Rightarrow> 'a read_db_scheme \<Rightarrow> ustr" where
  "list_rooms_tool ev project_id wanted include_null db =
     (let rooms = list_rooms (\<lambda>s. re_context_faults ev (SearchPart s)) (note_rows db)
                    (Some (or_else wanted project_id)) (or_else include_null False)
      in if rooms = [] then ([0x1F3E0, 32, 0x5F53, 0x524D, 0x9879, 0x76EE, 0x6CA1, 0x6709, 0x627E,
          0x5230, 0x4EFB, 0x4F55] @ lit '' room'' @ [0xFF08, 0x5C1D, 0x8BD5] @
          lit '' include_null=true '' @ [0x67E5, 0x770B, 0x672A, 0x5206, 0x7C7B, 0x8BA1, 0x6570,
          0xFF09])
         else join_with [10]
           ([([0x1F3E0] @ lit '' Palace Rooms'' @ [0xFF1A])] @
            map (\<lambda>e. lit ''  - '' @ or_else (ro_room e) ([40, 0x672A, 0x5206, 0x7C7B, 41]) @ lit '': ''
                @ show_nat (ro_count e) @
                  [32, 0x6761, 32, 40, 0x6700, 0x8FD1, 0x4F7F, 0x7528, 58, 32] @ or_else
                      (ro_last_used_at e) (lit ''-'') @ lit '')'') rooms @
            [[], ([0x1F4A1] @ lit '' AI '' @ [0x5728] @ lit '' add_rule '' @ [0x524D, 0x53EF, 0x5148,
                0x8C03] @ lit '' list_rooms '' @ [0x907F, 0x514D] @ lit '' room '' @ [0x547D, 0x540D,
                0x6F02, 0x79FB, 0x3002])]))"

definition meta_text :: "search_result \<Rightarrow> ustr \<Rightarrow> ustr option" where
  "meta_text r key = Option.bind (Option.bind (re_metadata r) (\<lambda>m. json_get m key)) as_str"

definition checkpoint_block :: "nat \<Rightarrow> search_result \<Rightarrow> ustr" where
  "checkpoint_block i r =
     (let task_status = or_else (meta_text r (lit ''task_status'')) (lit ''unknown'');
          status_icon = (if task_status = lit ''blocked'' then [0x1F534]
                         else if task_status = lit ''in_progress'' then [0x1F7E1]
                         else if task_status = lit ''completed'' then [0x1F7E2] else [0x26AA])
      in show_nat i @ lit ''. '' @ status_icon @ [32] @ or_else (meta_text r (lit ''task_id''))
          (lit ''unknown'') @
         [10, 32, 32, 32] @ safe_text_prefix (re_content r) 200 @ [10] @
         part ([32, 32, 32, 0x27A1, 0xFE0F, 32, 0x4E0B, 0x4E00, 0x6B65, 58, 32]) (\<lambda>s. safe_text_prefix s
             200) [10] (meta_text r (lit ''next_step'')) @
         part ([32, 32, 32, 0x274C, 32, 0x963B, 0x585E, 58, 32]) (\<lambda>s. safe_text_prefix s 200) [10]
             (meta_text r (lit ''blocker'')) @ [10])"

definition search_checkpoints_tool ::
  "read_lib \<Rightarrow> read_env \<Rightarrow> ustr \<Rightarrow> ustr option \<Rightarrow> ustr option \<Rightarrow> ustr option \<Rightarrow> nat option \<Rightarrow>
   'a read_db_scheme \<Rightarrow> ustr" where
  "search_checkpoints_tool L ev project_id query task_id task_status limit db =
     (let results = search_checkpoints_inner (cl_search (rl_context L)) (rl_json L)
            (\<lambda>s. re_context_faults ev (SearchPart s)) (note_rows db) query task_id task_status
            (Some project_id) (or_else limit 5)
      in if results = [] then lit ''No checkpoints found.''
         else concat (map (\<lambda>(i, r). checkpoint_block i r) (enumerate 0 results)))"

definition get_context_tool ::
  "read_lib \<Rightarrow> read_env \<Rightarrow> ustr \<Rightarrow> ustr option \<Rightarrow> 'a read_db_scheme \<Rightarrow> ustr" where
  "get_context_tool L ev project_id wanted db =
     (let mode = or_else wanted (lit ''wake'')
      in if mode = lit ''wake'' then
           read_pretty_or L (lit ''{}'')
             (get_context_wake_for_project (rl_context L) (re_context_faults ev) db (Some project_id))
         else if mode = lit ''full'' then
           read_pretty_or L (lit ''{}'')
             (get_context_full_for_project (rl_context L) (re_context_faults ev) db (Some project_id))
         else error_text (lit ''unknown mode: '' @ mode))"

section \<open>The experience store\<close>

definition unsupported_in_rust_json :: "read_lib \<Rightarrow> ustr \<Rightarrow> ustr" where
  "unsupported_in_rust_json L tool =
     read_pretty_or L (error_text (lit ''unsupported_in_rust'')) (JObj
       [(lit ''error'', JStr (lit ''unsupported_in_rust'')), (lit ''tool'', JStr tool),
        (lit ''message'', JStr
            (lit ''Rust MCP received an empty or incomplete probe payload; retry with a complete payload or use the documented rollback path explicitly.''))])"

definition missing_or_empty :: "ustr option \<Rightarrow> bool" where
  "missing_or_empty v = (case v of None \<Rightarrow> True | Some t \<Rightarrow> t = [])"

definition not_blank :: "ustr option \<Rightarrow> ustr option" where
  "not_blank v = (case v of None \<Rightarrow> None | Some t \<Rightarrow> if trim t = [] then None else Some t)"

definition search_experiences_tool ::
  "read_lib \<Rightarrow> read_env \<Rightarrow> ustr \<Rightarrow> ustr option \<Rightarrow> nat option \<Rightarrow> ustr list option \<Rightarrow> ustr option \<Rightarrow>
   'a read_db_scheme \<Rightarrow> ustr" where
  "search_experiences_tool L ev project_id query limit statuses kind db =
     (case not_blank query of
        None \<Rightarrow> unsupported_in_rust_json L (lit ''search_experiences'')
      | Some q \<Rightarrow>
          read_pretty_or L SERIALIZE_FAILED
            (search_experiences (rl_experience L) (re_faults ev) db project_id q (or_else limit 5)
                statuses kind))"

definition review_experience_tool ::
  "read_lib \<Rightarrow> read_env \<Rightarrow> ustr \<Rightarrow> ustr option \<Rightarrow> ustr option \<Rightarrow> bool option \<Rightarrow> 'a read_db_scheme \<Rightarrow>
   'a read_db_scheme \<times> ustr" where
  "review_experience_tool L ev project_id experience_id topic force db =
     (if missing_or_empty experience_id \<and> missing_or_empty topic
      then (db, unsupported_in_rust_json L (lit ''review_experience''))
      else
        (case review_experience (rl_experience L) (re_experience ev) (re_faults ev) project_id
            experience_id topic
           (or_else force False) db of
           (db1, answer) \<Rightarrow> (db1, read_pretty_or L SERIALIZE_FAILED answer)))"

definition get_experience_surfaces_tool ::
  "read_lib \<Rightarrow> read_env \<Rightarrow> ustr \<Rightarrow> ustr option \<Rightarrow> nat option \<Rightarrow> ustr option \<Rightarrow> bool option \<Rightarrow>
   'a read_db_scheme \<Rightarrow> ustr" where
  "get_experience_surfaces_tool L ev project_id target limit topic auto_topic db =
     read_pretty_or L SERIALIZE_FAILED
       (get_surfaces (rl_experience L) (re_faults ev) db project_id (or_else target (lit ''all''))
          (or_else limit 6) topic (or_else auto_topic False))"

definition build_experience_artifacts_tool ::
  "read_lib \<Rightarrow> read_env \<Rightarrow> ustr \<Rightarrow> ustr option \<Rightarrow> nat option \<Rightarrow> bool option \<Rightarrow> ustr option \<Rightarrow> bool option \<Rightarrow>
   'a read_db_scheme \<Rightarrow> 'a read_db_scheme \<times> ustr" where
  "build_experience_artifacts_tool L ev project_id target limit save topic auto_topic db =
     (if target = None \<and> limit = None \<and> save = None \<and> topic = None \<and> auto_topic = None
      then (db, unsupported_in_rust_json L (lit ''build_experience_artifacts''))
      else
        (case build_artifacts (rl_experience L) (re_experience ev) (re_faults ev) project_id
           (or_else target (lit ''all'')) (or_else limit 8) topic (or_else auto_topic False)
           (or_else save True) db of
           (db1, answer) \<Rightarrow> (db1, read_pretty_or L SERIALIZE_FAILED answer)))"

definition report_topic_feedback_tool ::
  "read_lib \<Rightarrow> read_env \<Rightarrow> ustr \<Rightarrow> ustr option \<Rightarrow> ustr option \<Rightarrow> ustr option \<Rightarrow> ustr option \<Rightarrow> ustr option \<Rightarrow>
   'a read_db_scheme \<Rightarrow> 'a read_db_scheme \<times> ustr" where
  "report_topic_feedback_tool L ev project_id topic verdict artifact_target source reason db =
     (case (not_blank topic, not_blank verdict) of
        (Some t, Some v) \<Rightarrow>
          (case record_topic_feedback (rl_experience L) (re_experience ev) (re_faults ev) project_id t v
             artifact_target (or_else source (lit ''user'')) reason None db of
             (db1, answer) \<Rightarrow> (db1, read_pretty_or L SERIALIZE_FAILED answer))
      | _ \<Rightarrow> (db, unsupported_in_rust_json L (lit ''report_topic_feedback'')))"

definition report_artifact_feedback_tool ::
  "read_lib \<Rightarrow> read_env \<Rightarrow> ustr \<Rightarrow> ustr option \<Rightarrow> ustr option \<Rightarrow> ustr option \<Rightarrow> ustr option \<Rightarrow> ustr option \<Rightarrow>
   'a read_db_scheme \<Rightarrow> 'a read_db_scheme \<times> ustr" where
  "report_artifact_feedback_tool L ev project_id feedback_token artifact_run_id verdict source reason db
      =
     (case not_blank verdict of
        None \<Rightarrow> (db, unsupported_in_rust_json L (lit ''report_artifact_feedback''))
      | Some v \<Rightarrow>
          (case report_artifact_feedback (rl_experience L) (re_experience ev) (re_faults ev) project_id
             feedback_token artifact_run_id v reason (or_else source (lit ''artifact'')) db of
             (db1, answer) \<Rightarrow> (db1, read_pretty_or L SERIALIZE_FAILED answer)))"

end
