(* ===== verification/Service_Read_Laws.thy ===== *)
theory Service_Read_Laws
  imports Service_Reads Recall_Laws Context_Laws Experience_Faults
begin

text \<open>
  What a search of the service leaves behind: its logs only grow, nothing else of the database
  changes, and what it showed is, to the next search, recalled at the time it was shown.
\<close>

section \<open>Row numbers\<close>

lemma next_row_id_greater: "r \<in> set rows \<Longrightarrow> fst r < next_row_id rows"
proof -
  have "r \<in> set rows \<Longrightarrow> fst r \<le> foldr (\<lambda>r m. max (fst r) m) rows (0::int)"
    by (induction rows) auto
  then show "r \<in> set rows \<Longrightarrow> fst r < next_row_id rows" by (simp add: next_row_id_def)
qed

definition add_recall :: "ustr \<Rightarrow> ustr \<Rightarrow> (int \<times> ustr \<times> ustr) list \<Rightarrow> (int \<times> ustr \<times> ustr) list" where
  "add_recall t n rows = rows @ [(next_row_id rows, n, t)]"

lemma add_recall_distinct: "distinct (map fst rows) \<Longrightarrow> distinct (map fst (add_recall t n rows))"
  using next_row_id_greater [of _ rows] by (fastforce simp: add_recall_def)

lemma add_recalls_distinct: "distinct (map fst rows) \<Longrightarrow> distinct (map fst (fold (add_recall t) ns rows))"
  by (induction ns arbitrary: rows) (simp_all add: add_recall_distinct)

text \<open>Among the rows of a note that was just shown the one with the highest number is new.\<close>

lemma add_recalls_newest:
  "n \<in> set ns \<Longrightarrow> \<exists>i. (i, n, t) \<in> set (fold (add_recall t) ns rows) \<and>
     (\<forall>(j, m, u) \<in> set (fold (add_recall t) ns rows). m = n \<longrightarrow> j \<le> i)"
proof (induction ns rule: rev_induct)
  case (snoc m ns)
  let ?rows = "fold (add_recall t) ns rows"
  have rows: "fold (add_recall t) (ns @ [m]) rows = ?rows @ [(next_row_id ?rows, m, t)]"
    by (simp add: add_recall_def)
  show ?case
  proof (cases "n = m")
    case True
    have "j \<le> next_row_id ?rows" if "(j, k, u) \<in> set ?rows" for j k u
      using next_row_id_greater [OF that] by simp
    with True show ?thesis unfolding rows by (intro exI [of _ "next_row_id ?rows"]) auto
  next
    case False
    with snoc obtain i where i: "(i, n, t) \<in> set ?rows" "\<forall>(j, m, u) \<in> set ?rows. m = n \<longrightarrow> j \<le> i"
      by auto
    with False show ?thesis unfolding rows by (intro exI [of _ i]) auto
  qed
qed simp

section \<open>What a search leaves behind\<close>

lemma recalls_after [simp]: "logged_recalls (db\<lparr>recall_log := Some rows\<rparr>) = rows"
  by (simp add: logged_recalls_def)

lemma insert_recalls_run:
  assumes "\<forall>s. flt s = None"
  shows "op_each (insert_recall flt t) rs db =
    (db\<lparr>recall_log := (if rs = [] then recall_log db else Some (fold (add_recall t) (map re_id rs)
        (logged_recalls db)))\<rparr>, Ok ())"
proof (induction rs arbitrary: db)
  case (Cons r rs)
  have "insert_recall flt t r db = (db\<lparr>recall_log := Some (add_recall t (re_id r) (logged_recalls db))\<rparr>,
      Ok ())"
    using assms by (simp add: insert_recall_def sql_exec_def add_recall_def)
  with Cons show ?case by (cases rs) (simp_all add: op_bind_def)
qed (simp add: op_return_def)

lemma recorded_recalls:
  assumes "\<forall>s. re_observe_faults ev s = None"
  shows "recall_log (record_search_observability L ev pid tool query results visible_limit d db) =
    Some (fold (add_recall (re_emitted_at ev)) (map re_id (take visible_limit results)) (logged_recalls
        db))"
  using assms
  by (simp add: record_search_observability_def try_record_search_observability_def Let_def op_bind_def
      ensure_search_observability_schema_def sql_exec_def insert_recalls_run logged_recalls_def
      split: option.splits)

text \<open>
  C24. What a search shows counts as recalled: after a search whose log is written, the next search finds
  for every note shown, when it is a candidate again, the time it was shown, whatever recalls the log
  held before.
\<close>

theorem shown_results_are_recalled:
  assumes "\<forall>s. re_observe_faults ev s = None"
    and "db' = record_search_observability L ev pid tool query results visible_limit d db"
    and "distinct (map fst (logged_recalls db))" "r \<in> set (take visible_limit results)"
    and "latest_recall_timestamps S flt db' cs = Ok found" "flt (TableStmt (lit ''recall_log'')) = None"
    and "re_id r \<in> ca_id ` set cs" "parse_recall_timestamp S (re_emitted_at ev) = Ok (dt, display)"
  shows "map_of found (re_id r) = Some display"
proof -
  let ?rows = "fold (add_recall (re_emitted_at ev)) (map re_id (take visible_limit results))
      (logged_recalls db)"
  have rows: "recall_log db' = Some ?rows" unfolding assms(2) by (rule recorded_recalls [OF assms(1)])
  have "re_id r \<in> set (map re_id (take visible_limit results))" using assms(4) by simp
  from add_recalls_newest [OF this] obtain i where
    "(i, re_id r, re_emitted_at ev) \<in> set ?rows" "\<forall>(j, m, u) \<in> set ?rows. m = re_id r \<longrightarrow> j \<le> i"
    by blast
  from latest_recall_newest [OF assms(5) rows assms(6) add_recalls_distinct [OF assms(3)] this]
  show ?thesis using assms(7,8) by simp
qed

definition memories_kept :: "'a read_db_scheme \<Rightarrow> 'a read_db_scheme \<Rightarrow> bool" where
  "memories_kept db db' \<longleftrightarrow>
     note_rows db' = note_rows db \<and> notes_fts db' = notes_fts db \<and> sessions db' = sessions db \<and>
     note_events db' = note_events db \<and> note_relations db' = note_relations db \<and>
     dream_candidates db' = dream_candidates db \<and> experience_records db' = experience_records db \<and>
     experience_reviews db' = experience_reviews db \<and> topic_feedback db' = topic_feedback db \<and>
     artifact_runs db' = artifact_runs db \<and>
     prefix (logged_recalls db) (logged_recalls db') \<and> prefix (query_log db) (query_log db') \<and>
     prefix (activation_trace_log db) (activation_trace_log db')"

lemma memories_kept_trans: "memories_kept a b \<Longrightarrow> memories_kept b c \<Longrightarrow> memories_kept a c"
  by (auto simp: memories_kept_def intro: prefix_order.trans)

lemma memories_kept_refl: "memories_kept a a"
  by (simp add: memories_kept_def)

lemma exec_keeps_memories:
  "(\<And>db. memories_kept db (fst (f db))) \<Longrightarrow> memories_kept db (fst (sql_exec flt f db))"
  by (auto simp: sql_exec_def memories_kept_refl split: option.splits prod.splits) (metis fst_conv)

lemma bind_keeps_memories:
  assumes "\<And>db. memories_kept db (fst (m db))" "\<And>x db. memories_kept db (fst (k x db))"
  shows "memories_kept db (fst (op_bind m k db))"
proof -
  obtain db1 r where m: "m db = (db1, r)" by fastforce
  have "memories_kept db db1" using assms(1) [of db] m by simp
  then show ?thesis
    using m memories_kept_trans [OF _ assms(2) [of db1]] by (cases r) (auto simp: op_bind_def)
qed

lemma each_keeps_memories:
  "(\<And>x db. memories_kept db (fst (f x db))) \<Longrightarrow> memories_kept db (fst (op_each f xs db))"
  by (induction xs arbitrary: db) (auto simp: op_return_def memories_kept_refl intro:
      bind_keeps_memories)

lemma recording_keeps_memories:
  "memories_kept db (record_search_observability L ev pid tool query results visible_limit d db)"
  unfolding record_search_observability_def try_record_search_observability_def Let_def
    ensure_search_observability_schema_def insert_recall_def
  by (intro bind_keeps_memories exec_keeps_memories each_keeps_memories)
     (simp_all add: memories_kept_def logged_recalls_def)

text \<open>
  C40. Searching is reading: whatever statements fail, a search through the service leaves every memory,
  relation and experience as it is, and the logs it writes only grow.
\<close>

theorem searching_leaves_memories_unchanged:
  assumes "search_rules L ev pid p db = Some (db', answer) \<or> search_manifest L ev pid q db = Some (db',
      answer)"
  shows "memories_kept db db'"
  using assms
proof
  assume "search_rules L ev pid p db = Some (db', answer)"
  then show ?thesis by (auto simp: search_rules_def recording_keeps_memories split: prod.splits)
next
  assume "search_manifest L ev pid q db = Some (db', answer)"
  then show ?thesis by (auto simp: search_manifest_def Let_def recording_keeps_memories split:
      prod.splits)
qed

text \<open>The theorems about searching through the service at concrete inputs.\<close>

definition read_demo_lib :: read_lib where
  "read_demo_lib =
     \<lparr>rl_context = sample_context, rl_experience = store_lib, rl_json = one_doc JNull, rl_pretty = (\<lambda>j.
         None)\<rparr>"

definition read_demo_env :: read_env where
  "read_demo_env =
     \<lparr>re_emitted_at = lit ''t2'', re_nanos = 7, re_latency_ms = 0, re_observe_faults = no_faults,
      re_faults = no_faults, re_context_faults = no_faults, re_experience = store_env\<rparr>"

definition read_demo_db :: read_db where
  "read_demo_db = experience_db.extend empty_store \<lparr>query_log = [], activation_trace_log = []\<rparr>"

definition rules_demo :: search_rules_params where
  "rules_demo =
     \<lparr>sr_query = [], sr_limit = None, sr_min_score = Some 0, sr_search_mode = None, sr_layer = None,
      sr_category = None, sr_include_constitution = None, sr_start_time = None, sr_end_time = None,
      sr_include_expired = None, sr_cross_project = None, sr_room = None\<rparr>"

lemma demo_search:
  "search_with_diagnostics (cl_search sample_context) no_faults read_demo_db
     (search_rules_request (lit ''alpha'') rules_demo) = Some ([], no_diagnostics)"
  by code_simp

definition after_search :: read_db where
  "after_search = record_search_observability read_demo_lib read_demo_env (lit ''alpha'')
      (lit ''search_rules'') [] [] 0
     no_diagnostics read_demo_db"

theorem searching_leaves_memories_unchanged_witness: "memories_kept read_demo_db after_search"
proof (rule searching_leaves_memories_unchanged)
  have "(\<lambda>s. re_context_faults read_demo_env (SearchPart s)) = no_faults"
    by (simp add: fun_eq_iff read_demo_env_def)
  then have "search_rules read_demo_lib read_demo_env (lit ''alpha'') rules_demo read_demo_db =
      Some (after_search, search_rules_answer read_demo_env [] no_diagnostics)"
    using demo_search
    by (simp add: search_rules_def after_search_def read_demo_lib_def rules_demo_def del: lit_simps)
  then show "search_rules read_demo_lib read_demo_env (lit ''alpha'') rules_demo read_demo_db =
      Some (after_search, search_rules_answer read_demo_env [] no_diagnostics) \<or>
    search_manifest read_demo_lib read_demo_env (lit ''alpha'') undefined read_demo_db =
      Some (after_search, search_rules_answer read_demo_env [] no_diagnostics)" ..
qed

definition shown_result :: search_result where
  "shown_result = fact_result\<lparr>re_id := lit ''a1''\<rparr>"

definition shown_before :: read_db where
  "shown_before = read_demo_db\<lparr>recall_log := Some [(4, lit ''a1'', lit ''bad'')]\<rparr>"

definition shown_after :: read_db where
  "shown_after = record_search_observability read_demo_lib read_demo_env (lit ''alpha'')
      (lit ''search_rules'') [] [shown_result] 1
     no_diagnostics shown_before"

theorem shown_results_are_recalled_witness:
  "\<exists>found. latest_recall_timestamps sample_lib no_faults shown_after [plain_candidate alpha_row] = Ok
      found \<and>
     map_of found (lit ''a1'') = Some (lit ''t2'')"
proof -
  let ?cs = "[plain_candidate alpha_row]"
  obtain found where found: "latest_recall_timestamps sample_lib no_faults shown_after ?cs = Ok found"
    by (cases "table_exists no_faults (lit ''recall_log'') (recall_log shown_after \<noteq> None)")
      (auto simp: latest_recall_timestamps_def Let_def simp del: lit_simps)
  have "map_of found (re_id shown_result) = Some (lit ''t2'')"
  proof (rule shown_results_are_recalled [OF _ shown_after_def _ _ found])
    show "re_id shown_result \<in> ca_id ` set ?cs"
      by (simp add: shown_result_def from_row_def alpha_views del: lit_simps)
    show "parse_recall_timestamp sample_lib (re_emitted_at read_demo_env) = Ok ((2, 0), lit ''t2'')"
      by (simp add: parse_recall_timestamp_def sample_lib_def read_demo_env_def)
  qed (simp_all add: read_demo_env_def shown_before_def logged_recalls_def)
  with found show ?thesis by (simp add: shown_result_def)
qed

end
