(* ===== verification/Consolidate_Base.thy ===== *)
theory Consolidate_Base
  imports Service_Reads Convo_Normalizer
begin

text \<open>
  What the consolidation commands of \<open>memra-server/src/cli/phase4.rs\<close> share: the tables with the
  columns only they read, the live notes and their lineage keys, vectors read from JSON, dates, and
  the events they log. Every statement commits on its own, so a command that fails keeps what it has
  done. \<open>stats_of\<close> holds the columns \<open>recall_count\<close>, \<open>support_count\<close> and \<open>last_verified\<close> of a note;
  in a database without one of them the statements that read it fail. \<open>maint_env\<close> is the clock of a
  run in the formats the commands use; a command reads it once or more.
\<close>

section \<open>Tables, clocks and libraries\<close>

record note_stats =
  ns_recall_count :: "int option"
  ns_support_count :: "int option"
  ns_last_verified :: "ustr option"

record maint_db = read_db +
  stats_of :: "ustr \<Rightarrow> note_stats"

record maint_lib =
  ml_score :: score_lib
  ml_json :: json_lib
  ml_strings :: "ustr \<Rightarrow> ustr list option"
  ml_epoch :: "ustr \<Rightarrow> int option"
  ml_json_set :: "ustr \<Rightarrow> ustr \<Rightarrow> ustr \<Rightarrow> (sql_error, ustr) result"

record maint_env =
  me_now :: "int \<times> nat"
  me_rfc3339 :: ustr
  me_sql_now :: ustr

datatype maint_stmt =
    SelectCanonical | CountSiblings ustr | SelectStrengthen | SetConfidence ustr | SetMetadata ustr
  | LogEvent ustr ustr | SelectPrune | SetState ustr | SelectStale | TrustColumns | ExpireCandidates
  | SelectChains | SelectChainRecords "ustr list" | SelectChainVectors | SetHead ustr | SetSuperseded
      ustr
  | SelectVectors | SelectOrphans | InsertSupports ustr ustr
  | SelectQueryLog | TrustStmtOf ustr | SelectPair ustr ustr | CountPair ustr ustr | SetPair ustr ustr
  | SelectWeak | DeleteWeak ustr ustr ustr | SelectLayer ustr | SelectPairs
  | SelectNumbers | SelectMigration | SelectCold | LastEvent ustr

type_synonym ('a, 'b) maint_op = "('a maint_db_scheme, sql_error, 'b) op"

section \<open>Live notes and their lineage\<close>

text \<open>\<open>is_active = 1 AND COALESCE(evolution_state, 'active') = 'active'\<close>.\<close>

definition live_note :: "note_row \<Rightarrow> bool" where
  "live_note r \<longleftrightarrow> nr_is_active r = 1 \<and>
     (case nr_evolution_state r of None \<Rightarrow> True | Some s \<Rightarrow> s = lit ''active'')"

text \<open>\<open>is_active = 1 AND evolution_state = 'active'\<close>: a NULL state does not match.\<close>

definition stated_live :: "note_row \<Rightarrow> bool" where
  "stated_live r \<longleftrightarrow> nr_is_active r = 1 \<and> nr_evolution_state r = Some (lit ''active'')"

definition lineage_group :: "note_row \<Rightarrow> ustr" where
  "lineage_group r =
     (let rk = trim (text_or_empty (nr_root_id r)); topic = trim (text_or_empty (nr_topic_key r))
      in if rk \<noteq> [] then lit ''root:'' @ rk
         else if topic \<noteq> [] then lit ''topic:'' @ topic
         else lit ''id:'' @ nr_id r)"

text \<open>The loop over \<open>seen_groups\<close>: the first row of each group.\<close>

fun first_of_groups :: "('r \<Rightarrow> 'k) \<Rightarrow> 'k set \<Rightarrow> 'r list \<Rightarrow> 'r list" where
  "first_of_groups key seen [] = []"
| "first_of_groups key seen (r # rs) =
     (if key r \<in> seen then first_of_groups key seen rs
      else r # first_of_groups key (insert (key r) seen) rs)"

definition newest_first :: "note_row list \<Rightarrow> note_row list" where
  "newest_first rows = sort_desc nr_created_at (sort_desc nr_id rows)"

definition canonical_notes :: "note_row list \<Rightarrow> note_row list" where
  "canonical_notes rows = first_of_groups lineage_group {} (newest_first (filter live_note rows))"

definition canonical_active_note_ids :: "maint_stmt faults \<Rightarrow> ('a, ustr set) maint_op" where
  "canonical_active_note_ids flt =
     sql_query (flt SelectCanonical) (\<lambda>db. set (map nr_id (canonical_notes (note_rows db))))"

definition note_has_active_lineage_siblings ::
  "maint_stmt faults \<Rightarrow> ustr \<Rightarrow> ustr option \<Rightarrow> ustr option \<Rightarrow> ('a, bool) maint_op" where
  "note_has_active_lineage_siblings flt note_id root_id topic_key =
     (case root_id of
        Some rk \<Rightarrow>
          sql_query (flt (CountSiblings note_id)) (\<lambda>db. 0 < row_count
            (\<lambda>r. nr_id r \<noteq> note_id \<and> live_note r \<and> nr_root_id r = Some rk) (note_rows db))
      | None \<Rightarrow>
          (case topic_key of
             Some topic \<Rightarrow>
               sql_query (flt (CountSiblings note_id)) (\<lambda>db. 0 < row_count
                 (\<lambda>r. nr_id r \<noteq> note_id \<and> live_note r \<and> nr_topic_key r = Some topic \<and>
                      text_or_empty (nr_root_id r) = []) (note_rows db))
           | None \<Rightarrow> op_return False))"

section \<open>Numbers, previews and dates\<close>

definition round4 :: "f64 \<Rightarrow> f64" where
  "round4 value = f64_div (f64_round (f64_mul value 10000)) 10000"

text \<open>The same on a similarity, which may be NaN.\<close>

fun xround4 :: "xf64 \<Rightarrow> xf64" where
  "xround4 (Fin x) = Fin (round4 x)"
| "xround4 x = x"

definition prefix_chars :: "ustr \<Rightarrow> nat \<Rightarrow> ustr" where
  "prefix_chars value n = take n value"

definition one_line :: "ustr \<Rightarrow> ustr" where
  "one_line t = map (\<lambda>c. if c = 10 then 32 else c) t"

definition parse_consolidation_datetime :: "maint_lib \<Rightarrow> ustr \<Rightarrow> (int \<times> nat) option" where
  "parse_consolidation_datetime M value =
     (case sl_parse_rfc3339 (ml_score M) (offset_spelling value) of
        Some dt \<Rightarrow> Some dt
      | None \<Rightarrow>
          (case sl_parse_naive (ml_score M) value (lit ''%Y-%m-%d %H:%M:%S'') of
             Some dt \<Rightarrow> Some dt
           | None \<Rightarrow> sl_parse_naive (ml_score M) value (lit ''%Y-%m-%dT%H:%M:%S'')))"

section \<open>Vectors in JSON\<close>

text \<open>\<open>as f32\<close> of a finite double: the nearest single, ties to even, its bits; past the largest
  single it is an infinity.\<close>

definition f32_magnitude :: "rat \<Rightarrow> int" where
  "f32_magnitude x =
     (let e = max (ilog2 x - 23) (- 149)
      in min ((e + 149) * 2 ^ 23 + round_half_even (x / two_pow e)) 0x7F800000)"

definition f32_of_f64 :: "f64 \<Rightarrow> f32" where
  "f32_of_f64 x =
     (if x = 0 then 0
      else word_of_int ((if x < 0 then 2 ^ 31 else 0) + f32_magnitude \<bar>x\<bar>))"

text \<open>The collection of the numbers of an array; None when an item is not a number.\<close>

fun json_floats :: "json list \<Rightarrow> f32 list option" where
  "json_floats [] = Some []"
| "json_floats (j # js) =
     (case as_f64 j of None \<Rightarrow> None | Some x \<Rightarrow> map_option (Cons (f32_of_f64 x)) (json_floats js))"

text \<open>The search of an object: the first array that is not empty; an array with anything but
  numbers ends the search.\<close>

fun first_vector :: "json list \<Rightarrow> f32 list option" where
  "first_vector [] = None"
| "first_vector (JArr items # rest) =
     (case json_floats items of
        None \<Rightarrow> None | Some v \<Rightarrow> if v \<noteq> [] then Some v else first_vector rest)"
| "first_vector (_ # rest) = first_vector rest"

definition parse_connect_vector :: "maint_lib \<Rightarrow> ustr \<Rightarrow> f32 list option" where
  "parse_connect_vector M raw =
     (case jl_parse (ml_json M) raw of
        Some (JArr items) \<Rightarrow>
          (case json_floats items of None \<Rightarrow> None | Some v \<Rightarrow> if v = [] then None else Some v)
      | Some (JObj kvs) \<Rightarrow>
          first_vector (List.map_filter (map_of kvs) [[], lit ''dense''] @
            map (\<lambda>k. the (map_of kvs k)) (map_keys kvs))
      | _ \<Rightarrow> None)"

definition stored_vector :: "maint_lib \<Rightarrow> note_row \<Rightarrow> f32 list option" where
  "stored_vector M r = Option.bind (nr_vector_json r) (parse_connect_vector M)"

section \<open>Statements\<close>

definition log_related_consolidation_event ::
  "maint_lib \<Rightarrow> maint_stmt faults \<Rightarrow> maint_env \<Rightarrow> ustr \<Rightarrow> ustr \<Rightarrow> ustr option \<Rightarrow> json \<Rightarrow> ('a, unit) maint_op"
      where
  "log_related_consolidation_event M flt ev note_id kind related payload =
     (case jl_print (ml_json M) payload of
        None \<Rightarrow> op_fail metadata_unserializable
      | Some t \<Rightarrow> sql_exec (flt (LogEvent note_id kind)) (\<lambda>db.
          (db\<lparr>note_events := note_events db @ [\<lparr>ne_note_id = note_id, ne_event_type = kind,
             ne_related_note_id = related, ne_payload_json = Some t, ne_created_at = me_sql_now ev\<rparr>]\<rparr>,
                 ())))"

definition log_consolidation_event ::
  "maint_lib \<Rightarrow> maint_stmt faults \<Rightarrow> maint_env \<Rightarrow> ustr \<Rightarrow> ustr \<Rightarrow> json \<Rightarrow> ('a, unit) maint_op" where
  "log_consolidation_event M flt ev note_id kind payload =
     log_related_consolidation_event M flt ev note_id kind None payload"

text \<open>An \<open>UPDATE notes\<close> of one row by its id.\<close>

definition update_note ::
  "sql_error option \<Rightarrow> ustr \<Rightarrow> (note_row \<Rightarrow> note_row) \<Rightarrow> ('a, unit) maint_op" where
  "update_note fault note_id f =
     sql_exec fault (\<lambda>db. (db\<lparr>note_rows := row_update (\<lambda>r. nr_id r = note_id) f (note_rows db)\<rparr>, ()))"

definition insert_supports ::
  "maint_stmt faults \<Rightarrow> ustr \<Rightarrow> ustr \<Rightarrow> f64 \<Rightarrow> ('a, unit) maint_op" where
  "insert_supports flt from_id to_id strength =
     insert_note_relation (\<lambda>s. flt (InsertSupports from_id to_id)) from_id to_id (lit ''supports'')
         strength"

end
