(* ===== verification/Consolidate_Notes.thy ===== *)
theory Consolidate_Notes
  imports Consolidate_Base
begin

text \<open>
  The consolidation commands that look at one note at a time (\<open>memra-server/src/cli/phase4.rs\<close>):
  strengthening what is recalled, pruning what is not, retiring stale events, and the expiry of
  unconfirmed candidates (\<open>storage/db.rs\<close>). Each gives its report; with \<open>apply\<close> it writes as well,
  statement by statement.
\<close>

section \<open>Strengthening\<close>

record strengthen_candidate =
  sc_id :: ustr
  sc_new_confidence :: f64
  sc_mark_core :: bool
  sc_metadata :: json_map
  sc_old_confidence :: f64
  sc_detail :: json

definition recalls_of :: "'a maint_db_scheme \<Rightarrow> note_row \<Rightarrow> int option" where
  "recalls_of db r = ns_recall_count (stats_of db (nr_id r))"

definition reaches :: "int option \<Rightarrow> int \<Rightarrow> bool" where
  "reaches n k = (case n of None \<Rightarrow> False | Some m \<Rightarrow> k \<le> m)"

definition stat_or_zero :: "int option \<Rightarrow> int" where
  "stat_or_zero n = (case n of None \<Rightarrow> 0 | Some m \<Rightarrow> m)"

definition strengthen_rows :: "'a maint_db_scheme \<Rightarrow> note_row list" where
  "strengthen_rows db =
     sort_desc (recalls_of db)
       (filter (\<lambda>r. reaches (recalls_of db r) 1 \<and> live_note r \<and> nr_layer r \<noteq> lit ''identity_schema'')
           (note_rows db))"

text \<open>The new confidence of a row: the floor of a recalled note, then the boost of a supported one.\<close>

definition recall_floor :: "int \<Rightarrow> f64 \<Rightarrow> f64" where
  "recall_floor recall_count old =
     (if 5 \<le> recall_count \<and> old < f64_lit 0.95 then f64_lit 0.95 else old)"

definition support_boost :: "f64 \<Rightarrow> f64" where
  "support_boost confidence = min (f64_add confidence (f64_lit 0.05)) (f64_lit 0.99)"

definition strengthened_confidence :: "int \<Rightarrow> int \<Rightarrow> f64 \<Rightarrow> f64" where
  "strengthened_confidence recall_count support_count old =
     (let c = recall_floor recall_count old
      in if 3 \<le> support_count \<and> c < support_boost c then support_boost c else c)"

definition strengthen_changes :: "int \<Rightarrow> int \<Rightarrow> f64 \<Rightarrow> bool \<Rightarrow> ustr list" where
  "strengthen_changes recall_count support_count old mark_core =
     (let c = recall_floor recall_count old
      in (if 5 \<le> recall_count \<and> old < f64_lit 0.95
          then [lit ''recall>=5: confidence '' @ show_fixed2 old @ lit ''->'' @ show_fixed2 c] else [])
              @
         (if 3 \<le> support_count \<and> c < support_boost c
          then [lit ''support>=3: confidence '' @ show_fixed2 c @ lit ''->'' @ show_fixed2
              (support_boost c)] else []) @
         (if mark_core then [lit ''recall>=10: core_memory=true''] else []))"

definition is_core :: "json_map \<Rightarrow> bool" where
  "is_core metadata = (Option.bind (map_of metadata (lit ''core_memory'')) as_bool = Some True)"

definition strengthen_row :: "maint_lib \<Rightarrow> 'a maint_db_scheme \<Rightarrow> note_row \<Rightarrow> strengthen_candidate option"
    where
  "strengthen_row M db r =
     (let metadata = parse_map (ml_json M) (nr_metadata_json r);
          recall_count = stat_or_zero (recalls_of db r);
          support_count = stat_or_zero (ns_support_count (stats_of db (nr_id r)));
          old = (case nr_confidence r of None \<Rightarrow> f64_lit 0.5 | Some c \<Rightarrow> c);
          new = strengthened_confidence recall_count support_count old;
          mark_core = (10 \<le> recall_count \<and> \<not> is_core metadata);
          changes = strengthen_changes recall_count support_count old mark_core
      in if changes = [] then None
         else Some
           \<lparr>sc_id = nr_id r, sc_new_confidence = new, sc_mark_core = mark_core, sc_metadata = metadata,
            sc_old_confidence = old,
            sc_detail = JObj
              [(lit ''id'', JStr (nr_id r)), (lit ''content_preview'', JStr (prefix_chars (one_line
                  (nr_content r)) 80)),
               (lit ''recall_count'', JInt recall_count), (lit ''support_count'', JInt support_count),
               (lit ''old_confidence'', JFloat old), (lit ''new_confidence'', JFloat (round4 new)),
               (lit ''core_memory'', JBool (mark_core \<or> is_core metadata)),
               (lit ''changes'', JArr (map JStr changes))]\<rparr>)"

definition strengthen_one ::
  "maint_lib \<Rightarrow> maint_stmt faults \<Rightarrow> maint_env \<Rightarrow> strengthen_candidate \<Rightarrow> ('a, unit) maint_op" where
  "strengthen_one M flt ev c =
     op_bind (update_note (flt (SetConfidence (sc_id c))) (sc_id c)
       (\<lambda>r. r\<lparr>nr_confidence := Some (sc_new_confidence c), nr_updated_at := Some (me_rfc3339 ev)\<rparr>)) (\<lambda>_.
     op_bind
       (if sc_mark_core c
        then case jl_print (ml_json M) (JObj (map_insert (lit ''core_memory'') (JBool True) (sc_metadata
            c))) of
               None \<Rightarrow> op_fail metadata_unserializable
             | Some t \<Rightarrow> update_note (flt (SetMetadata (sc_id c))) (sc_id c) (\<lambda>r. r\<lparr>nr_metadata_json :=
                 Some t\<rparr>)
        else op_return ()) (\<lambda>_.
     log_consolidation_event M flt ev (sc_id c) (lit ''consolidation_strengthen'') (JObj
       [(lit ''old_confidence'', JFloat (sc_old_confidence c)),
        (lit ''new_confidence'', JFloat (round4 (sc_new_confidence c))),
        (lit ''core_memory'', JBool (sc_mark_core c))])))"

definition phase_report :: "nat \<Rightarrow> nat \<Rightarrow> json list \<Rightarrow> json" where
  "phase_report candidates updated details =
     JObj [(lit ''candidates'', JInt (int candidates)), (lit ''updated'', JInt (int updated)),
           (lit ''details'', JArr details)]"

definition consolidate_strengthen ::
  "maint_lib \<Rightarrow> maint_stmt faults \<Rightarrow> maint_env \<Rightarrow> bool \<Rightarrow> nat \<Rightarrow> ('a, json) maint_op" where
  "consolidate_strengthen M flt ev apply_now max_count =
     op_bind (canonical_active_note_ids flt) (\<lambda>canonical.
     op_bind (sql_query (flt SelectStrengthen) (\<lambda>db. List.map_filter (strengthen_row M db)
       (filter (\<lambda>r. nr_id r \<in> canonical) (strengthen_rows db)))) (\<lambda>candidates.
     let todo = take max_count candidates;
         report = (\<lambda>n. phase_report (length candidates) n (map sc_detail todo))
     in if apply_now
        then op_bind (op_each (strengthen_one M flt ev) todo) (\<lambda>_. op_return (report (length todo)))
        else op_return (report 0)))"

section \<open>Pruning\<close>

definition prune_rows :: "'a maint_db_scheme \<Rightarrow> note_row list" where
  "prune_rows db =
     sort_key nr_created_at
       (filter (\<lambda>r. stat_or_zero (recalls_of db r) = 0 \<and> live_note r \<and>
          (case nr_confidence r of None \<Rightarrow> f64_lit 0.5 | Some c \<Rightarrow> c) < f64_lit 0.8 \<and>
          nr_layer r \<noteq> lit ''identity_schema'') (note_rows db))"

definition nonblank :: "ustr option \<Rightarrow> ustr option" where
  "nonblank v = (case v of None \<Rightarrow> None | Some t \<Rightarrow> if trim t = [] then None else Some (trim t))"

definition age_in_days :: "maint_lib \<Rightarrow> maint_env \<Rightarrow> ustr option \<Rightarrow> int option" where
  "age_in_days M ev created_at =
     map_option (days_between (me_now ev)) (Option.bind created_at (parse_consolidation_datetime M))"

definition prune_detail :: "note_row \<Rightarrow> int \<Rightarrow> json" where
  "prune_detail r age_days =
     JObj [(lit ''id'', JStr (nr_id r)), (lit ''content_preview'', JStr (prefix_chars (one_line
         (nr_content r)) 80)),
           (lit ''layer'', JStr (nr_layer r)),
           (lit ''confidence'', JFloat (case nr_confidence r of None \<Rightarrow> f64_lit 0.5 | Some c \<Rightarrow> c)),
           (lit ''age_days'', JInt age_days), (lit ''created_at'', JStr (text_or_empty (nr_created_at
               r)))]"

text \<open>The loop over the rows: what is canonical, alone in its lineage and older than 180 days.\<close>

fun prune_candidates ::
  "maint_lib \<Rightarrow> maint_stmt faults \<Rightarrow> maint_env \<Rightarrow> ustr set \<Rightarrow> note_row list \<Rightarrow> ('a, (ustr \<times> int \<times> json) list)
      maint_op"
      where
  "prune_candidates M flt ev canonical [] = op_return []"
| "prune_candidates M flt ev canonical (r # rows) =
     (if nr_id r \<notin> canonical then prune_candidates M flt ev canonical rows
      else op_bind (note_has_active_lineage_siblings flt (nr_id r) (nonblank (nr_root_id r)) (nonblank
          (nr_topic_key r)))
        (\<lambda>siblings.
         case age_in_days M ev (nr_created_at r) of
           Some age_days \<Rightarrow>
             if \<not> siblings \<and> 180 < age_days
             then op_bind (prune_candidates M flt ev canonical rows) (\<lambda>more_rows.
               op_return ((nr_id r, age_days, prune_detail r age_days) # more_rows))
             else prune_candidates M flt ev canonical rows
         | None \<Rightarrow> prune_candidates M flt ev canonical rows))"

text \<open>\<open>UPDATE notes SET evolution_state = 'deprecated'\<close> and its event.\<close>

definition deprecate_note ::
  "maint_lib \<Rightarrow> maint_stmt faults \<Rightarrow> maint_env \<Rightarrow> ustr \<Rightarrow> ustr \<Rightarrow> ustr \<times> int \<times> json \<Rightarrow> ('a, unit) maint_op"
      where
  "deprecate_note M flt ev kind reason c =
     (case c of (note_id, age_days, detail) \<Rightarrow>
        op_bind (update_note (flt (SetState note_id)) note_id
          (\<lambda>r. r\<lparr>nr_evolution_state := Some (lit ''deprecated''), nr_updated_at := Some (me_rfc3339
              ev)\<rparr>)) (\<lambda>_.
        log_consolidation_event M flt ev note_id kind (JObj
          [(lit ''age_days'', JInt age_days), (lit ''reason'', JStr reason)])))"

definition retire_report ::
  "maint_lib \<Rightarrow> maint_stmt faults \<Rightarrow> maint_env \<Rightarrow> ustr \<Rightarrow> ustr \<Rightarrow> bool \<Rightarrow> nat \<Rightarrow> (ustr \<times> int \<times> json) list \<Rightarrow>
   ('a, json) maint_op" where
  "retire_report M flt ev kind reason apply_now max_count candidates =
     (let todo = take max_count candidates;
          report = (\<lambda>n. phase_report (length candidates) n (map (\<lambda>(i, age, detail). detail) todo))
      in if apply_now
         then op_bind (op_each (deprecate_note M flt ev kind reason) todo) (\<lambda>_. op_return (report
             (length todo)))
         else op_return (report 0))"

definition consolidate_prune ::
  "maint_lib \<Rightarrow> maint_stmt faults \<Rightarrow> maint_env \<Rightarrow> bool \<Rightarrow> nat \<Rightarrow> ('a, json) maint_op" where
  "consolidate_prune M flt ev apply_now max_count =
     op_bind (canonical_active_note_ids flt) (\<lambda>canonical.
     op_bind (sql_query (flt SelectPrune) prune_rows) (\<lambda>rows.
     op_bind (prune_candidates M flt ev canonical rows) (\<lambda>candidates.
     retire_report M flt ev (lit ''consolidation_prune'')
         (lit ''recall_count==0, age>90d, confidence<0.8'')
       apply_now max_count candidates)))"

section \<open>Stale events\<close>

definition stale_rows :: "'a maint_db_scheme \<Rightarrow> note_row list" where
  "stale_rows db =
     sort_key nr_created_at
       (filter (\<lambda>r. nr_layer r = lit ''event_log'' \<and> live_note r \<and> stat_or_zero (recalls_of db r) = 0 \<and>
          (case nr_confidence r of None \<Rightarrow> f64_lit 0.5 | Some c \<Rightarrow> c) < f64_lit 0.85) (note_rows db))"

definition stale_row :: "maint_lib \<Rightarrow> maint_env \<Rightarrow> note_row \<Rightarrow> (ustr \<times> int \<times> json) option" where
  "stale_row M ev r =
     (case map_option (days_between (me_now ev)) (parse_consolidation_datetime M (text_or_empty
         (nr_created_at r))) of
        None \<Rightarrow> None
      | Some age_days \<Rightarrow>
          if age_days \<le> 180 then None
          else Some (nr_id r, age_days, JObj
            [(lit ''id'', JStr (nr_id r)), (lit ''content_preview'', JStr (prefix_chars (one_line
                (nr_content r)) 80)),
             (lit ''confidence'', JFloat (case nr_confidence r of None \<Rightarrow> f64_lit 0.5 | Some c \<Rightarrow> c)),
             (lit ''age_days'', JInt age_days), (lit ''created_at'', JStr (text_or_empty (nr_created_at
                 r)))]))"

definition detect_accuracy_stale_events ::
  "maint_lib \<Rightarrow> maint_stmt faults \<Rightarrow> maint_env \<Rightarrow> bool \<Rightarrow> nat \<Rightarrow> ('a, json) maint_op" where
  "detect_accuracy_stale_events M flt ev apply_now max_count =
     op_bind (sql_query (flt SelectStale) stale_rows) (\<lambda>rows.
     retire_report M flt ev (lit ''consolidation_accuracy_stale'')
       (lit ''event_log, recall_count==0, age>180d, confidence<0.85'')
       apply_now max_count (List.map_filter (stale_row M ev) rows))"

section \<open>Expiry of unconfirmed candidates\<close>

text \<open>The columns \<open>ensure_notes_trust_columns\<close> adds, in one transaction: all or none; without a
  table there is nothing to do.\<close>

definition ensure_notes_trust_columns :: "maint_stmt faults \<Rightarrow> ('a, unit) maint_op" where
  "ensure_notes_trust_columns flt =
     sql_exec (flt TrustColumns) (\<lambda>db.
       (if notes_columns db = [] then db
        else db\<lparr>notes_columns := notes_columns db @
          (if has_column (lit ''confirmed_at'') db then [] else [lit ''confirmed_at'']) @
          (if has_column (lit ''confirmed_by'') db then [] else [lit ''confirmed_by''])\<rparr>, ()))"

text \<open>SQLite's reading of \<open>created_at\<close> as seconds: a text of digits (the empty text too) is the
  number, clamped to 64 bits; another text is what \<open>strftime\<close> makes of it; NULL counts as 0.\<close>

definition created_epoch :: "maint_lib \<Rightarrow> ustr option \<Rightarrow> int" where
  "created_epoch M created_at =
     (case created_at of
        None \<Rightarrow> 0
      | Some t \<Rightarrow>
          if list_all is_ascii_digit t then min (digits_value t) (2 ^ 63 - 1)
          else case ml_epoch M t of None \<Rightarrow> 0 | Some s \<Rightarrow> s)"

definition expirable :: "maint_lib \<Rightarrow> 'a maint_db_scheme \<Rightarrow> int \<Rightarrow> note_row \<Rightarrow> bool" where
  "expirable M db cutoff r \<longleftrightarrow>
     (case nr_source r of None \<Rightarrow> False | Some s \<Rightarrow> s \<in> set AI_PROVISIONAL_SOURCES) \<and>
     nr_confirmed_at r = None \<and> stat_or_zero (recalls_of db r) = 0 \<and>
     created_epoch M (nr_created_at r) < cutoff"

definition expire_unconfirmed_candidates ::
  "maint_lib \<Rightarrow> maint_stmt faults \<Rightarrow> int \<Rightarrow> ('a, nat) maint_op" where
  "expire_unconfirmed_candidates M flt now_epoch =
     op_bind (ensure_notes_trust_columns flt) (\<lambda>_.
     sql_exec (flt ExpireCandidates) (\<lambda>db.
       let due = expirable M db (now_epoch - 7 * 86400)
       in (db\<lparr>note_rows := row_update due (\<lambda>r. r\<lparr>nr_is_active := 0\<rparr>) (note_rows db)\<rparr>,
           row_count due (note_rows db))))"

end
