(* ===== verification/Consolidate_Chain.thy ===== *)
theory Consolidate_Chain
  imports Consolidate_Base
begin

text \<open>
  Version chains (\<open>memra-server/src/cli/phase4.rs\<close>): notes that say the same are put in one lineage,
  the newest its head and the others superseded. Phase A takes the notes of one root or topic, phase
  B similar notes of a layer, phase C similar notes of lower confidence. \<open>ml_json_set\<close> is SQLite's
  \<open>json_set\<close>, an error on text that is not JSON. Groups of a \<open>GROUP BY\<close> come in the order of their
  keys, the rows of a group in table order.
\<close>

record chain_record =
  kr_id :: ustr
  kr_content :: ustr
  kr_vector :: "f32 list option"
  kr_created_at :: ustr
  kr_layer :: ustr
  kr_confidence :: f64
  kr_root_id :: "ustr option"

definition chain_record_from_row :: "maint_lib \<Rightarrow> bool \<Rightarrow> note_row \<Rightarrow> chain_record" where
  "chain_record_from_row M include_confidence r =
     \<lparr>kr_id = nr_id r, kr_content = nr_content r, kr_vector = stored_vector M r,
      kr_created_at = text_or_empty (nr_created_at r), kr_layer = nr_layer r,
      kr_confidence = (if include_confidence
                       then (case nr_confidence r of None \<Rightarrow> f64_lit 0.5 | Some c \<Rightarrow> c) else f64_lit 0.5),
      kr_root_id = nr_root_id r\<rparr>"

definition sort_chain_records :: "chain_record list \<Rightarrow> chain_record list" where
  "sort_chain_records records = sort_key kr_created_at (sort_key kr_id records)"

definition nonblank_root :: "chain_record \<Rightarrow> ustr option" where
  "nonblank_root r = (let t = trim (text_or_empty (kr_root_id r)) in if t = [] then None else Some t)"

definition distinct_nonempty_root_ids :: "chain_record list \<Rightarrow> ustr list" where
  "distinct_nonempty_root_ids records = remdups (List.map_filter nonblank_root records)"

definition canonical_chain_root_id :: "chain_record list \<Rightarrow> ustr" where
  "canonical_chain_root_id records =
     (case List.map_filter nonblank_root records of
        rk # _ \<Rightarrow> rk
      | [] \<Rightarrow> (case rev (sort_chain_records records) of [] \<Rightarrow> [] | r # _ \<Rightarrow> kr_id r))"

definition can_extend_chain_with :: "chain_record list \<Rightarrow> chain_record \<Rightarrow> bool" where
  "can_extend_chain_with records candidate = (length (distinct_nonempty_root_ids (records @
      [candidate])) \<le> 1)"

section \<open>One chain\<close>

definition set_chain_head ::
  "maint_stmt faults \<Rightarrow> maint_env \<Rightarrow> ustr \<Rightarrow> int \<Rightarrow> ustr \<Rightarrow> ('a, unit) maint_op" where
  "set_chain_head flt ev root_id version note_id =
     update_note (flt (SetHead note_id)) note_id
       (\<lambda>r. r\<lparr>nr_root_id := Some root_id, nr_version := Some version, nr_is_head := Some 1,
              nr_evolution_state := Some (lit ''active''), nr_updated_at := Some (me_rfc3339 ev)\<rparr>)"

text \<open>The statement fails where \<open>json_set\<close> does on the row it updates.\<close>

definition set_chain_superseded ::
  "maint_lib \<Rightarrow> maint_stmt faults \<Rightarrow> maint_env \<Rightarrow> ustr \<Rightarrow> int \<Rightarrow> ustr \<Rightarrow> ustr \<Rightarrow> ('a, unit) maint_op" where
  "set_chain_superseded M flt ev root_id version head_id note_id db =
     (case row_get nr_id note_id (note_rows db) of
        None \<Rightarrow> sql_exec (flt (SetSuperseded note_id)) (\<lambda>db. (db, ())) db
      | Some r \<Rightarrow>
          (case ml_json_set M (case nr_metadata_json r of None \<Rightarrow> lit ''{}'' | Some t \<Rightarrow> t)
                  (lit ''$.superseded_by'') head_id of
             Inl e \<Rightarrow> (db, Err e)
           | Inr meta \<Rightarrow>
               update_note (flt (SetSuperseded note_id)) note_id
                 (\<lambda>r. r\<lparr>nr_root_id := Some root_id, nr_version := Some version,
                        nr_evolution_state := Some (lit ''superseded''), nr_is_head := Some 0,
                        nr_metadata_json := Some meta, nr_updated_at := Some (me_rfc3339 ev)\<rparr>) db))"

definition chain_payload :: "ustr \<Rightarrow> ustr \<Rightarrow> ustr \<Rightarrow> int \<Rightarrow> json_map \<Rightarrow> json" where
  "chain_payload phase reason root_id version extra =
     JObj (fold (\<lambda>(k, v). map_insert k v) extra
       [(lit ''action'', JStr (lit ''superseded'')), (lit ''reason'', JStr reason), (lit ''phase'', JStr
           phase),
        (lit ''root_id'', JStr root_id), (lit ''assigned_version'', JInt version)])"

text \<open>The loop over the ordered records: versions count from 1, the head last.\<close>

fun chain_loop_from ::
  "maint_lib \<Rightarrow> maint_stmt faults \<Rightarrow> maint_env \<Rightarrow> ustr \<Rightarrow> ustr \<Rightarrow> (int \<Rightarrow> json) \<Rightarrow> int \<Rightarrow> chain_record list \<Rightarrow>
   ('a, ustr list) maint_op" where
  "chain_loop_from M flt ev head_id root_id payload version [] = op_return []"
| "chain_loop_from M flt ev head_id root_id payload version (record # records) =
     (if kr_id record = head_id
      then op_bind (set_chain_head flt ev root_id version (kr_id record)) (\<lambda>_.
           chain_loop_from M flt ev head_id root_id payload (version + 1) records)
      else op_bind (set_chain_superseded M flt ev root_id version head_id (kr_id record)) (\<lambda>_.
           op_bind (log_related_consolidation_event M flt ev (kr_id record)
               (lit ''consolidation_chain'')
             (Some head_id) (payload version)) (\<lambda>_.
           op_bind (chain_loop_from M flt ev head_id root_id payload (version + 1) records) (\<lambda>ids.
           op_return (kr_id record # ids)))))"

definition apply_chain_update ::
  "maint_lib \<Rightarrow> maint_stmt faults \<Rightarrow> maint_env \<Rightarrow> chain_record list \<Rightarrow> ustr \<Rightarrow> ustr \<Rightarrow> json_map \<Rightarrow>
   ('a, ustr \<times> ustr list \<times> ustr) maint_op" where
  "apply_chain_update M flt ev records phase reason extra =
     (if length records < 2 then op_fail (lit ''chain update requires at least two records'')
      else if 1 < length (distinct_nonempty_root_ids records)
      then op_fail (lit ''chain update cannot merge distinct canonical root_ids'')
      else
        let ordered = sort_chain_records records; head_id = kr_id (last ordered);
            root_id = canonical_chain_root_id records
        in op_bind (chain_loop_from M flt ev head_id root_id
             (\<lambda>version. chain_payload phase reason root_id version extra) 1 ordered) (\<lambda>superseded.
           op_return (head_id, superseded, root_id)))"

text \<open>What a phase reports of a chain without applying it, and the same after.\<close>

definition planned_chain :: "chain_record list \<Rightarrow> ustr \<times> ustr list \<times> ustr" where
  "planned_chain records =
     (let ordered = sort_chain_records records
      in (kr_id (last ordered), map kr_id (butlast ordered), canonical_chain_root_id records))"

definition settle_chain ::
  "maint_lib \<Rightarrow> maint_stmt faults \<Rightarrow> maint_env \<Rightarrow> bool \<Rightarrow> chain_record list \<Rightarrow> ustr \<Rightarrow> ustr \<Rightarrow> json_map \<Rightarrow>
   ('a, ustr \<times> ustr list \<times> ustr) maint_op" where
  "settle_chain M flt ev apply_now records phase reason extra =
     (if apply_now then apply_chain_update M flt ev records phase reason extra
      else op_return (planned_chain records))"

section \<open>Phase A: one root or topic\<close>

definition chain_key :: "note_row \<Rightarrow> ustr option" where
  "chain_key r =
     (case nr_root_id r of
        Some rk \<Rightarrow> Some (lit ''root:'' @ rk)
      | None \<Rightarrow> map_option (\<lambda>t. lit ''topic:'' @ t) (nr_topic_key r))"

definition chained_rows :: "note_row list \<Rightarrow> ustr \<Rightarrow> note_row list" where
  "chained_rows rows k = filter (\<lambda>r. stated_live r \<and> chain_key r = Some k) rows"

text \<open>The keys shared by two rows or more, each with \<open>GROUP_CONCAT(id)\<close>.\<close>

definition chain_groups :: "note_row list \<Rightarrow> (ustr \<times> ustr) list" where
  "chain_groups rows =
     map (\<lambda>k. (k, join_with (lit '','') (map nr_id (chained_rows rows k))))
       (filter (\<lambda>k. 1 < length (chained_rows rows k))
         (sort (remdups (List.map_filter chain_key (filter stated_live rows)))))"

definition load_chain_records_by_ids ::
  "maint_lib \<Rightarrow> maint_stmt faults \<Rightarrow> ustr list \<Rightarrow> bool \<Rightarrow> ('a, chain_record list) maint_op" where
  "load_chain_records_by_ids M flt ids include_confidence =
     (if ids = [] then op_return []
      else sql_query (flt (SelectChainRecords ids)) (\<lambda>db.
        map (chain_record_from_row M include_confidence)
          (sort_desc nr_created_at (filter (\<lambda>r. nr_id r \<in> set ids) (note_rows db)))))"

definition topic_chain ::
  "maint_lib \<Rightarrow> maint_stmt faults \<Rightarrow> maint_env \<Rightarrow> bool \<Rightarrow> ustr \<times> ustr \<Rightarrow> nat \<times> json list \<Rightarrow> ('a, nat \<times> json
      list) maint_op" where
  "topic_chain M flt ev apply_now g acc =
     (case (g, acc) of ((key, ids_raw), (total_superseded, made)) \<Rightarrow>
        op_bind (load_chain_records_by_ids M flt (split_on (\<lambda>c. c = 44) ids_raw) False) (\<lambda>records.
        if length records < 2 then op_return acc
        else
          let newest = last (sort_chain_records records)
          in op_bind (settle_chain M flt ev apply_now records (lit ''canonical_group'')
              (lit ''version_chain'')
               [(lit ''chain_key'', JStr key)]) (\<lambda>(head_id, superseded_ids, root_id).
             op_return (total_superseded + length superseded_ids, made @ [JObj
               [(lit ''chain_key'', JStr key), (lit ''root_id'', JStr root_id), (lit ''kept'', JStr
                   (kr_id newest)),
                (lit ''kept_preview'', JStr (prefix_chars (kr_content newest) 80)),
                (lit ''superseded'', JArr (map JStr superseded_ids))]]))))"

definition phase_a_topic_chains ::
  "maint_lib \<Rightarrow> maint_stmt faults \<Rightarrow> maint_env \<Rightarrow> bool \<Rightarrow> ('a, json) maint_op" where
  "phase_a_topic_chains M flt ev apply_now =
     op_bind (sql_query (flt SelectChains) (\<lambda>db. chain_groups (note_rows db))) (\<lambda>groups.
     op_bind (op_fold (topic_chain M flt ev apply_now) groups (0, [])) (\<lambda>(total_superseded, made).
     op_return (JObj
       [(lit ''topic_groups_found'', JInt (int (length groups))),
        (lit ''memories_superseded'', JInt (int total_superseded)), (lit ''chains'', JArr made)])))"

section \<open>Phase B: similar notes of a layer\<close>

definition load_chain_vector_candidates ::
  "maint_lib \<Rightarrow> maint_stmt faults \<Rightarrow> bool \<Rightarrow> ('a, chain_record list) maint_op" where
  "load_chain_vector_candidates M flt require_no_topic_key =
     sql_query (flt SelectChainVectors) (\<lambda>db.
       filter (\<lambda>k. kr_vector k \<noteq> None) (map (chain_record_from_row M True)
         (sort_desc nr_created_at (filter (\<lambda>r. live_note r \<and> nr_vector_json r \<noteq> None \<and>
            nr_layer r \<noteq> lit ''identity_schema'' \<and> (require_no_topic_key \<longrightarrow> nr_topic_key r = None))
           (note_rows db)))))"

text \<open>A \<open>BTreeMap\<close> from layers to the records in their order.\<close>

definition layer_groups :: "chain_record list \<Rightarrow> (ustr \<times> chain_record list) list" where
  "layer_groups records =
     map (\<lambda>l. (l, filter (\<lambda>k. kr_layer k = l) records)) (sort (remdups (map kr_layer records)))"

definition chain_similarity :: "chain_record \<Rightarrow> chain_record \<Rightarrow> xf64" where
  "chain_similarity a b =
     cosine_similarity (case kr_vector a of None \<Rightarrow> [] | Some v \<Rightarrow> v) (case kr_vector b of None \<Rightarrow> [] |
         Some v \<Rightarrow> v)"

definition extend_cluster ::
  "xf64 \<Rightarrow> bool \<Rightarrow> chain_record \<Rightarrow> chain_record \<Rightarrow> chain_record list \<times> ustr list \<Rightarrow> chain_record list \<times> ustr
      list" where
  "extend_cluster threshold full newer older acc =
     (case acc of (cluster, assigned) \<Rightarrow>
        if kr_id older \<in> set assigned \<or> full then acc
        else if xle threshold (chain_similarity newer older) \<and> can_extend_chain_with cluster older
        then (cluster @ [older], kr_id older # assigned)
        else acc)"

definition chain_entry :: "ustr \<times> ustr list \<times> ustr \<Rightarrow> (ustr \<times> json) list \<Rightarrow> json" where
  "chain_entry settled rest =
     (case settled of (head_id, superseded_ids, root_id) \<Rightarrow>
        JObj ([(lit ''kept'', JStr head_id), (lit ''superseded'', JArr (map JStr superseded_ids)),
               (lit ''root_id'', JStr root_id)] @ rest))"

definition chain_previews :: "chain_record list \<Rightarrow> (ustr \<times> json) list" where
  "chain_previews ordered =
     [(lit ''kept_preview'', JStr (prefix_chars (kr_content (last ordered)) 80)),
      (lit ''superseded_preview'', JStr (prefix_chars (kr_content (hd ordered)) 80))]"

fun vector_chains ::
  "maint_lib \<Rightarrow> maint_stmt faults \<Rightarrow> maint_env \<Rightarrow> xf64 \<Rightarrow> nat \<Rightarrow> bool \<Rightarrow> ustr \<Rightarrow> chain_record list \<Rightarrow> ustr list
      \<Rightarrow>
   nat \<times> json list \<Rightarrow> ('a, nat \<times> json list) maint_op" where
  "vector_chains M flt ev threshold max_chains apply_now layer [] assigned acc = op_return acc"
| "vector_chains M flt ev threshold max_chains apply_now layer (newer # rest) assigned (sofar, made) =
     (if kr_id newer \<in> set assigned \<or> max_chains \<le> sofar
      then vector_chains M flt ev threshold max_chains apply_now layer rest assigned (sofar, made)
      else
        case fold (extend_cluster threshold (max_chains \<le> sofar) newer) rest ([newer], kr_id newer #
            assigned) of
          (cluster, assigned1) \<Rightarrow>
            if length cluster < 2
            then vector_chains M flt ev threshold max_chains apply_now layer rest assigned1 (sofar,
                made)
            else op_bind (settle_chain M flt ev apply_now cluster (lit ''vector_similarity'')
                (lit ''version_chain'')
                   [(lit ''layer'', JStr layer)]) (\<lambda>settled.
                 vector_chains M flt ev threshold max_chains apply_now layer rest assigned1
                   (sofar + (length cluster - 1), made @ [chain_entry settled
                      ((lit ''layer'', JStr layer) # chain_previews (sort_chain_records cluster))])))"

text \<open>The loop over the layers, which ends when enough is superseded.\<close>

fun over_layers ::
  "nat \<Rightarrow> (ustr \<times> chain_record list \<Rightarrow> nat \<times> json list \<Rightarrow> ('a, nat \<times> json list) maint_op) \<Rightarrow>
   (ustr \<times> chain_record list) list \<Rightarrow> nat \<times> json list \<Rightarrow> ('a, nat \<times> json list) maint_op" where
  "over_layers limit f [] acc = op_return acc"
| "over_layers limit f (g # gs) acc =
     op_bind (f g acc) (\<lambda>acc1. if limit \<le> fst acc1 then op_return acc1 else over_layers limit f gs
         acc1)"

definition chains_report :: "nat \<Rightarrow> nat \<times> json list \<Rightarrow> json" where
  "chains_report scanned acc =
     (case acc of (sofar, made) \<Rightarrow>
        JObj [(lit ''candidates_scanned'', JInt (int scanned)), (lit ''chains_found'', JInt (int (length
            made))),
              (lit ''memories_superseded'', JInt (int sofar)), (lit ''sample_chains'', JArr (take 20
                  made))])"

definition phase_b_vector_chains ::
  "maint_lib \<Rightarrow> maint_stmt faults \<Rightarrow> maint_env \<Rightarrow> xf64 \<Rightarrow> nat \<Rightarrow> bool \<Rightarrow> ('a, json) maint_op" where
  "phase_b_vector_chains M flt ev threshold max_chains apply_now =
     op_bind (load_chain_vector_candidates M flt True) (\<lambda>candidates.
     op_bind (over_layers max_chains (\<lambda>(layer, group_records) acc.
         vector_chains M flt ev threshold max_chains apply_now layer group_records [] acc)
       (layer_groups candidates) (0, [])) (\<lambda>acc.
     op_return (chains_report (length candidates) acc)))"

section \<open>Phase C: similar notes of lower confidence\<close>

type_synonym head_chains = "(ustr \<times> chain_record list) list"

definition claim_older ::
  "xf64 \<Rightarrow> chain_record \<Rightarrow> chain_record \<Rightarrow> head_chains \<times> ustr list \<Rightarrow> head_chains \<times> ustr list" where
  "claim_older threshold newer older acc =
     (case acc of (made, claimed) \<Rightarrow>
        if kr_id older \<in> set claimed \<or> kr_confidence newer \<le> kr_confidence older \<or>
           \<not> xle threshold (chain_similarity newer older)
        then acc
        else
          let chain = (case map_of made (kr_id newer) of None \<Rightarrow> [newer] | Some c \<Rightarrow> c)
          in if can_extend_chain_with chain older \<and> \<not> list_ex (\<lambda>item. kr_id item = kr_id older) chain
             then (AList.update (kr_id newer) (chain @ [older]) made, kr_id older # claimed)
             else (AList.update (kr_id newer) chain made, claimed))"

text \<open>The loop over the group: \<open>total_superseded\<close> does not change in it.\<close>

fun head_chains_of :: "xf64 \<Rightarrow> chain_record list \<Rightarrow> head_chains \<times> ustr list \<Rightarrow> head_chains \<times> ustr list"
    where
  "head_chains_of threshold [] acc = acc"
| "head_chains_of threshold (newer # rest) acc =
     head_chains_of threshold rest
       (if kr_id newer \<in> set (snd acc) then acc else fold (claim_older threshold newer) rest acc)"

definition confidence_entry :: "chain_record list \<Rightarrow> ustr \<Rightarrow> ustr \<times> ustr list \<times> ustr \<Rightarrow> json" where
  "confidence_entry ordered layer settled =
     chain_entry settled
       ([(lit ''layer'', JStr layer), (lit ''kept_confidence'', JFloat (kr_confidence (last ordered))),
         (lit ''superseded_confidence'', JFloat (kr_confidence (hd ordered)))] @ chain_previews
             ordered)"

text \<open>The loop over the chains in the order of their heads' identifiers.\<close>

fun confidence_chains ::
  "maint_lib \<Rightarrow> maint_stmt faults \<Rightarrow> maint_env \<Rightarrow> nat \<Rightarrow> bool \<Rightarrow> ustr \<Rightarrow> chain_record list list \<Rightarrow> nat \<times> json
      list \<Rightarrow>
   ('a, nat \<times> json list) maint_op" where
  "confidence_chains M flt ev max_supersede apply_now layer [] acc = op_return acc"
| "confidence_chains M flt ev max_supersede apply_now layer (chain # made) (sofar, found) =
     (if length chain < 2 then confidence_chains M flt ev max_supersede apply_now layer made (sofar,
         found)
      else
        let ordered = sort_chain_records chain; total1 = sofar + (length chain - 1)
        in op_bind (settle_chain M flt ev apply_now chain (lit ''confidence_based'')
            (lit ''auto_supersede'')
             [(lit ''layer'', JStr layer), (lit ''newer_confidence'', JFloat (kr_confidence (last
                 ordered)))])
             (\<lambda>settled.
               let acc1 = (total1, found @ [confidence_entry ordered layer settled])
               in if max_supersede \<le> total1 then op_return acc1
                  else confidence_chains M flt ev max_supersede apply_now layer made acc1))"

definition phase_c_auto_supersede ::
  "maint_lib \<Rightarrow> maint_stmt faults \<Rightarrow> maint_env \<Rightarrow> xf64 \<Rightarrow> nat \<Rightarrow> bool \<Rightarrow> ('a, json) maint_op" where
  "phase_c_auto_supersede M flt ev threshold max_supersede apply_now =
     op_bind (load_chain_vector_candidates M flt False) (\<lambda>candidates.
     op_bind (over_layers max_supersede (\<lambda>(layer, group_records) acc.
         let made = (if max_supersede \<le> fst acc then [] else fst (head_chains_of threshold group_records
             ([], [])))
         in confidence_chains M flt ev max_supersede apply_now layer (map snd (sort_key fst made)) acc)
       (layer_groups candidates) (0, [])) (\<lambda>acc.
     op_return (chains_report (length candidates) acc)))"

section \<open>The command\<close>

definition run_consolidate_chain ::
  "maint_lib \<Rightarrow> maint_stmt faults \<Rightarrow> maint_env \<Rightarrow> xf64 \<Rightarrow> nat \<Rightarrow> bool \<Rightarrow> ('a, json) maint_op" where
  "run_consolidate_chain M flt ev threshold max_chains apply_now =
     op_bind (phase_a_topic_chains M flt ev apply_now) (\<lambda>phase_a.
     op_bind (phase_b_vector_chains M flt ev threshold max_chains apply_now) (\<lambda>phase_b.
     op_bind (phase_c_auto_supersede M flt ev (xlit 0.85) max_chains apply_now) (\<lambda>phase_c.
     op_return (JObj
       [(lit ''run_at'', JStr (me_rfc3339 ev)),
        (lit ''mode'', JStr (if apply_now then lit ''apply'' else lit ''dry-run'')),
        (lit ''parameters'', JObj
          [(lit ''threshold'', (case threshold of Fin x \<Rightarrow> JFloat x | _ \<Rightarrow> JNull)),
           (lit ''max_chains'', JInt (int max_chains))]),
        (lit ''phase_a'', phase_a), (lit ''phase_b'', phase_b), (lit ''phase_c'', phase_c)]))))"

end
