(* ===== verification/Consolidate_Links.thy ===== *)
theory Consolidate_Links
  imports Consolidate_Base
begin

text \<open>
  The consolidation commands on relations (\<open>memra-server/src/cli/phase4.rs\<close>): connecting notes that
  have none, and the synapses: relations of notes that are recalled together, the removal of weak
  ones, and bridges between events and facts. A query without \<open>ORDER BY\<close> gives the rows in table
  order; \<open>ml_strings\<close> reads a JSON array of strings. A similarity is clamped: it is a number of the
  unit interval or NaN, and NaN is above no threshold.
\<close>

section \<open>Vectors\<close>

record connect_record =
  cv_id :: ustr
  cv_layer :: ustr
  cv_vector :: "f32 list"

definition connect_record_of :: "maint_lib \<Rightarrow> note_row \<Rightarrow> connect_record option" where
  "connect_record_of M r =
     map_option (\<lambda>v. \<lparr>cv_id = nr_id r, cv_layer = nr_layer r, cv_vector = v\<rparr>) (stored_vector M r)"

text \<open>A \<open>BTreeMap\<close> by identifier of the newest note with a vector of each lineage.\<close>

definition load_connect_vectors :: "maint_lib \<Rightarrow> maint_stmt faults \<Rightarrow> ('a, connect_record list) maint_op"
    where
  "load_connect_vectors M flt =
     sql_query (flt SelectVectors) (\<lambda>db.
       sort_key cv_id (List.map_filter (connect_record_of M)
         (first_of_groups lineage_group {}
           (filter (\<lambda>r. stored_vector M r \<noteq> None)
             (newest_first (filter (\<lambda>r. stated_live r \<and> nr_layer r \<noteq> lit ''identity_schema'') (note_rows
                 db)))))))"

definition unrelated :: "relation_row list \<Rightarrow> ustr \<Rightarrow> bool" where
  "unrelated rels note_id \<longleftrightarrow> \<not> list_ex (\<lambda>e. rel_from e = note_id \<or> rel_to e = note_id) rels"

definition find_connect_orphans ::
  "maint_stmt faults \<Rightarrow> connect_record list \<Rightarrow> ('a, ustr list) maint_op" where
  "find_connect_orphans flt vectors =
     sql_query (flt SelectOrphans) (\<lambda>db.
       filter (\<lambda>i. i \<in> cv_id ` set vectors)
         (sort (remdups (map nr_id (filter (\<lambda>r. stated_live r \<and> nr_layer r \<noteq> lit ''identity_schema'' \<and>
            unrelated (note_relations db) (nr_id r)) (note_rows db))))))"

section \<open>Connecting\<close>

record proposed_link =
  pl_from :: ustr
  pl_to :: ustr
  pl_similarity :: f64
  pl_type :: ustr

record connect_options =
  co_same_threshold :: xf64
  co_cross_threshold :: xf64
  co_max_links_per_note :: nat
  co_max_total_links :: nat
  co_cross_layer :: bool
  co_apply :: bool
  co_batch_size :: nat

definition linkable :: "bool \<Rightarrow> connect_record \<Rightarrow> connect_record \<Rightarrow> bool" where
  "linkable cross_layer orphan candidate \<longleftrightarrow>
     cv_id candidate \<noteq> cv_id orphan \<and>
     (if cross_layer
      then cv_layer orphan \<in> {lit ''event_log'', lit ''verified_fact''} \<and>
           cv_layer candidate = (if cv_layer orphan = lit ''event_log'' then lit ''verified_fact'' else
               lit ''event_log'')
      else cv_layer candidate = cv_layer orphan)"

definition link_to ::
  "xf64 \<Rightarrow> bool \<Rightarrow> connect_record \<Rightarrow> connect_record \<Rightarrow> proposed_link option" where
  "link_to threshold cross_layer orphan candidate =
     (if \<not> linkable cross_layer orphan candidate then None
      else case xround4 (cosine_similarity (cv_vector orphan) (cv_vector candidate)) of
             Fin s \<Rightarrow>
               if xle threshold (Fin s)
               then Some \<lparr>pl_from = cv_id orphan, pl_to = cv_id candidate, pl_similarity = s,
                          pl_type = (if cross_layer then lit ''cross_layer'' else lit ''same_layer'')\<rparr>
               else None
           | _ \<Rightarrow> None)"

definition find_connect_links ::
  "connect_record \<Rightarrow> connect_record list \<Rightarrow> xf64 \<Rightarrow> nat \<Rightarrow> bool \<Rightarrow> proposed_link list" where
  "find_connect_links orphan vectors threshold max_links cross_layer =
     take max_links (sort_desc pl_similarity (List.map_filter (link_to threshold cross_layer orphan)
         vectors))"

definition orphan_links :: "connect_options \<Rightarrow> connect_record list \<Rightarrow> ustr \<Rightarrow> proposed_link list" where
  "orphan_links opts vectors orphan_id =
     (case row_get cv_id orphan_id vectors of
        None \<Rightarrow> []
      | Some orphan \<Rightarrow>
          find_connect_links orphan vectors (co_same_threshold opts) (co_max_links_per_note opts) False
              @
          (if co_cross_layer opts
           then find_connect_links orphan vectors (co_cross_threshold opts) (co_max_links_per_note opts)
               True
           else []))"

text \<open>\<open>chunks(n)\<close>; a batch holds one orphan at least.\<close>

fun batches :: "nat \<Rightarrow> 'b list \<Rightarrow> 'b list list" where
  "batches n [] = []"
| "batches n (x # xs) = (x # take (n - 1) xs) # batches n (drop (n - 1) xs)"

fun propose_links ::
  "connect_options \<Rightarrow> connect_record list \<Rightarrow> ustr list list \<Rightarrow> nat \<times> proposed_link list \<Rightarrow> nat \<times>
      proposed_link list"
    where
  "propose_links opts vectors [] acc = acc"
| "propose_links opts vectors (b # bs) (processed, proposed) =
     (let proposed1 = proposed @ concat (map (orphan_links opts vectors) b); processed1 = processed +
         length b
      in if co_max_total_links opts \<le> length proposed1 then (processed1, proposed1)
         else propose_links opts vectors bs (processed1, proposed1))"

definition strongest_links :: "nat \<Rightarrow> proposed_link list \<Rightarrow> proposed_link list" where
  "strongest_links n links = (if n < length links then take n (sort_desc pl_similarity links) else
      links)"

definition unordered_pair :: "ustr \<Rightarrow> ustr \<Rightarrow> ustr \<times> ustr" where
  "unordered_pair a b = (if a \<le> b then (a, b) else (b, a))"

definition connect_plan :: "connect_options \<Rightarrow> connect_record list \<Rightarrow> ustr list \<Rightarrow> nat \<times> proposed_link
    list" where
  "connect_plan opts vectors orphans =
     (case propose_links opts vectors (batches (co_batch_size opts) orphans) (0, []) of
        (processed, proposed) \<Rightarrow>
          (processed, strongest_links (co_max_total_links opts)
             (first_of_groups (\<lambda>l. unordered_pair (pl_from l) (pl_to l)) {}
               (strongest_links (co_max_total_links opts) proposed))))"

definition write_link ::
  "maint_lib \<Rightarrow> maint_stmt faults \<Rightarrow> maint_env \<Rightarrow> proposed_link \<Rightarrow> ('a, unit) maint_op" where
  "write_link M flt ev l =
     op_bind (insert_supports flt (pl_from l) (pl_to l) (pl_similarity l)) (\<lambda>_.
     log_related_consolidation_event M flt ev (pl_from l) (lit ''consolidation_connect'') (Some (pl_to
         l))
       (JObj [(lit ''similarity'', JFloat (pl_similarity l)), (lit ''link_type'', JStr (pl_type l)),
              (lit ''batch_run'', JStr (me_rfc3339 ev))]))"

definition opt_float :: "f64 option \<Rightarrow> json" where
  "opt_float v = (case v of None \<Rightarrow> JNull | Some x \<Rightarrow> JFloat (round4 x))"

definition similarity_summary :: "f64 list \<Rightarrow> json" where
  "similarity_summary ss =
     JObj [(lit ''min'', opt_float (case ss of [] \<Rightarrow> None | s # rest \<Rightarrow> Some (fold min rest s))),
           (lit ''max'', opt_float (case ss of [] \<Rightarrow> None | s # rest \<Rightarrow> Some (fold max rest s))),
           (lit ''mean'', opt_float (if ss = [] then None
              else Some (f64_div (foldl f64_add 0 ss) (round64 (of_nat (length ss))))))]"

definition xf64_json :: "xf64 \<Rightarrow> json" where
  "xf64_json x = (case x of Fin v \<Rightarrow> JFloat v | _ \<Rightarrow> JNull)"

definition connect_report ::
  "maint_env \<Rightarrow> connect_options \<Rightarrow> nat \<Rightarrow> nat \<Rightarrow> nat \<Rightarrow> nat \<Rightarrow> proposed_link list \<Rightarrow> json" where
  "connect_report ev opts memories orphans processed written links =
     JObj
       [(lit ''run_at'', JStr (me_rfc3339 ev)), (lit ''mode'', JStr (if co_apply opts then lit ''apply''
           else lit ''dry-run'')),
        (lit ''parameters'', JObj
          [(lit ''same_layer_threshold'', xf64_json (co_same_threshold opts)),
           (lit ''cross_layer_threshold'', xf64_json (co_cross_threshold opts)),
           (lit ''max_links_per_note'', JInt (int (co_max_links_per_note opts))),
           (lit ''max_total_links'', JInt (int (co_max_total_links opts))),
           (lit ''cross_layer_enabled'', JBool (co_cross_layer opts))]),
        (lit ''stats'', JObj
          [(lit ''total_active_memories'', JInt (int memories)), (lit ''total_orphans'', JInt (int
              orphans)),
           (lit ''orphans_with_vectors'', JInt (int orphans)), (lit ''orphans_processed'', JInt (int
               processed)),
           (lit ''candidates_found'', JInt (int (length links))),
           (lit ''same_layer_links'', JInt (int (length (filter (\<lambda>l. pl_type l = lit ''same_layer'')
               links)))),
           (lit ''cross_layer_links'', JInt (int (length (filter (\<lambda>l. pl_type l = lit ''cross_layer'')
               links)))),
           (lit ''links_written'', JInt (int written))]),
        (lit ''similarity_distribution'', similarity_summary (map pl_similarity links)),
        (lit ''sample_links'', JArr (map (\<lambda>l. JObj
          [(lit ''from'', JStr (prefix_chars (pl_from l) 12)), (lit ''to'', JStr (prefix_chars (pl_to l)
              12)),
           (lit ''sim'', JFloat (pl_similarity l)), (lit ''type'', JStr (pl_type l))]) (take 10
               links)))]"

definition process_connect_orphans ::
  "maint_lib \<Rightarrow> maint_stmt faults \<Rightarrow> maint_env \<Rightarrow> connect_options \<Rightarrow> connect_record list \<Rightarrow> ustr list \<Rightarrow>
   ('a, json) maint_op" where
  "process_connect_orphans M flt ev opts vectors orphans =
     (case connect_plan opts vectors orphans of
        (processed, links) \<Rightarrow>
          if co_apply opts
          then op_bind (op_each (write_link M flt ev) links) (\<lambda>_. op_return
            (connect_report ev opts (length vectors) (length orphans) processed (length links) links))
          else op_return (connect_report ev opts (length vectors) (length orphans) processed 0 links))"

definition run_consolidate_connect ::
  "maint_lib \<Rightarrow> maint_stmt faults \<Rightarrow> maint_env \<Rightarrow> connect_options \<Rightarrow> ('a, json) maint_op" where
  "run_consolidate_connect M flt ev opts =
     op_bind (load_connect_vectors M flt) (\<lambda>vectors.
       if vectors = [] then op_fail (lit ''No memories with vectors found.'')
       else op_bind (find_connect_orphans flt vectors) (\<lambda>orphans.
         if orphans = []
         then op_return (JObj [(lit ''run_at'', JStr (me_rfc3339 ev)), (lit ''mode'', JStr
             (lit ''dry-run'')),
           (lit ''stats'', JObj [(lit ''total_orphans'', JInt 0)]),
           (lit ''message'', JStr (lit ''No orphan memories found. All memories have relations.''))])
         else process_connect_orphans M flt ev opts vectors orphans))"

section \<open>Notes recalled together\<close>

fun pairs_of :: "ustr list \<Rightarrow> (ustr \<times> ustr) list" where
  "pairs_of [] = []"
| "pairs_of (x # xs) = map (unordered_pair x) xs @ pairs_of xs"

definition co_recalled :: "maint_lib \<Rightarrow> query_row list \<Rightarrow> (ustr \<times> ustr) list" where
  "co_recalled M rows =
     concat (map (\<lambda>q. case ml_strings M (qr_top_result_ids q) of None \<Rightarrow> [] | Some ids \<Rightarrow> pairs_of ids)
       (take 500 (sort_desc qr_timestamp rows)))"

definition pair_counts :: "(ustr \<times> ustr) list \<Rightarrow> ((ustr \<times> ustr) \<times> nat) list" where
  "pair_counts ps = map (\<lambda>p. (p, count_list ps p)) (sort_key fst (sort_key snd (remdups ps)))"

definition note_trusted_for_synapse :: "maint_stmt faults \<Rightarrow> ustr \<Rightarrow> ('a, bool) maint_op" where
  "note_trusted_for_synapse flt note_id =
     sql_query (flt (TrustStmtOf note_id)) (\<lambda>db.
       case row_get nr_id note_id (note_rows db) of
         None \<Rightarrow> False
       | Some r \<Rightarrow> allows_strengthening
           (if lit ''source'' \<in> set (notes_columns db) then nr_source r else None)
           (lit ''confirmed_at'' \<in> set (notes_columns db) \<and> nr_confirmed_at r \<noteq> None) True)"

fun trusted_pairs ::
  "maint_stmt faults \<Rightarrow> ((ustr \<times> ustr) \<times> nat) list \<Rightarrow> ('a, (ustr \<times> ustr \<times> nat) list) maint_op" where
  "trusted_pairs flt [] = op_return []"
| "trusted_pairs flt (((left, right), n) # ps) =
     (if n < 2 then trusted_pairs flt ps
      else op_bind (note_trusted_for_synapse flt left) (\<lambda>a.
        if \<not> a then trusted_pairs flt ps
        else op_bind (note_trusted_for_synapse flt right) (\<lambda>b.
          op_bind (trusted_pairs flt ps) (\<lambda>more_pairs.
            op_return (if b then (left, right, n) # more_pairs else more_pairs)))))"

text \<open>Without a \<open>query_log\<close> there are no pairs.\<close>

definition find_co_recalled_pairs ::
  "maint_lib \<Rightarrow> maint_stmt faults \<Rightarrow> nat \<Rightarrow> ('a, (ustr \<times> ustr \<times> nat) list) maint_op" where
  "find_co_recalled_pairs M flt max_pairs db =
     (if flt SelectQueryLog \<noteq> None then (db, Ok [])
      else op_bind (trusted_pairs flt (pair_counts (co_recalled M (query_log db))))
        (\<lambda>pairs. op_return (take max_pairs (sort_desc (\<lambda>(left, right, n). n) pairs))) db)"

definition joins :: "ustr \<Rightarrow> ustr \<Rightarrow> relation_row \<Rightarrow> bool" where
  "joins a b e \<longleftrightarrow> (rel_from e = a \<and> rel_to e = b) \<or> (rel_from e = b \<and> rel_to e = a)"

definition HEBBIAN_STRENGTH_DELTA :: f64 where "HEBBIAN_STRENGTH_DELTA = f64_lit 0.1"

definition initial_strength :: "nat \<Rightarrow> f64" where
  "initial_strength n =
     min (f64_add (f64_lit 0.3) (f64_mul (f64_sub (round64 (of_nat n)) 2) (f64_lit 0.05))) 1"

definition strengthen_pair ::
  "maint_lib \<Rightarrow> maint_stmt faults \<Rightarrow> maint_env \<Rightarrow> bool \<Rightarrow> ustr \<Rightarrow> ustr \<Rightarrow> nat \<Rightarrow> f64 \<Rightarrow> f64 \<Rightarrow> ('a, unit)
      maint_op" where
  "strengthen_pair M flt ev apply_now from_id to_id n old new =
     (if apply_now
      then op_bind (sql_exec (flt (SetPair from_id to_id)) (\<lambda>db.
             (db\<lparr>note_relations := row_update (joins from_id to_id) (\<lambda>e. e\<lparr>rel_strength := new\<rparr>)
                (note_relations db)\<rparr>, ()))) (\<lambda>_.
           log_related_consolidation_event M flt ev from_id (lit ''hebbian_strengthen'') (Some to_id)
               (JObj
             [(lit ''old_strength'', JFloat (round4 old)), (lit ''new_strength'', JFloat (round4 new)),
              (lit ''co_recall_count'', JInt (int n))]))
      else op_return ())"

definition create_pair ::
  "maint_lib \<Rightarrow> maint_stmt faults \<Rightarrow> maint_env \<Rightarrow> bool \<Rightarrow> ustr \<Rightarrow> ustr \<Rightarrow> nat \<Rightarrow> ('a, unit) maint_op" where
  "create_pair M flt ev apply_now from_id to_id n =
     (if apply_now
      then op_bind (insert_supports flt from_id to_id (initial_strength n)) (\<lambda>_.
           log_related_consolidation_event M flt ev from_id (lit ''hebbian_create'') (Some to_id) (JObj
             [(lit ''initial_strength'', JFloat (round4 (initial_strength n))),
                 (lit ''co_recall_count'', JInt (int n))]))
      else op_return ())"

type_synonym hebbian_tally = "nat \<times> nat \<times> json list"

definition hebbian_pair ::
  "maint_lib \<Rightarrow> maint_stmt faults \<Rightarrow> maint_env \<Rightarrow> bool \<Rightarrow> ustr \<times> ustr \<times> nat \<Rightarrow> hebbian_tally \<Rightarrow>
   ('a, hebbian_tally) maint_op" where
  "hebbian_pair M flt ev apply_now p tally =
     (case (p, tally) of ((from_id, to_id, n), (strengthened, created, details)) \<Rightarrow>
        op_bind (sql_query (flt (SelectPair from_id to_id)) (\<lambda>db. find (joins from_id to_id)
            (note_relations db)))
          (\<lambda>existing.
          case existing of
            Some e \<Rightarrow>
              (let new = min (f64_add (rel_strength e) HEBBIAN_STRENGTH_DELTA) 1
               in if rel_strength e < new
                  then op_bind (strengthen_pair M flt ev apply_now from_id to_id n (rel_strength e) new)
                      (\<lambda>_.
                    op_return (strengthened + 1, created, details @ [JObj
                      [(lit ''from_id'', JStr (prefix_chars (rel_from e) 12)),
                       (lit ''to_id'', JStr (prefix_chars (rel_to e) 12)),
                       (lit ''action'', JStr (lit ''strengthened'')), (lit ''old_strength'', JFloat
                           (round4 (rel_strength e))),
                       (lit ''new_strength'', JFloat (round4 new)), (lit ''co_recall_count'', JInt (int
                           n)),
                       (lit ''relation_type'', JStr (rel_type e))]]))
                  else op_return tally)
          | None \<Rightarrow>
              op_bind (sql_query (flt (CountPair from_id to_id)) (\<lambda>db.
                row_count (\<lambda>r. nr_id r \<in> {from_id, to_id} \<and> live_note r) (note_rows db))) (\<lambda>both_exist.
              if both_exist = 2
              then op_bind (create_pair M flt ev apply_now from_id to_id n) (\<lambda>_.
                op_return (strengthened, created + 1, details @ [JObj
                  [(lit ''from_id'', JStr (prefix_chars from_id 12)), (lit ''to_id'', JStr (prefix_chars
                      to_id 12)),
                   (lit ''action'', JStr (lit ''created'')), (lit ''strength'', JFloat (round4
                       (initial_strength n))),
                   (lit ''co_recall_count'', JInt (int n))]]))
              else op_return tally)))"

fun hebbian_pairs ::
  "maint_lib \<Rightarrow> maint_stmt faults \<Rightarrow> maint_env \<Rightarrow> bool \<Rightarrow> (ustr \<times> ustr \<times> nat) list \<Rightarrow> hebbian_tally \<Rightarrow>
   ('a, hebbian_tally) maint_op" where
  "hebbian_pairs M flt ev apply_now [] tally = op_return tally"
| "hebbian_pairs M flt ev apply_now (p # ps) tally =
     op_bind (hebbian_pair M flt ev apply_now p tally) (hebbian_pairs M flt ev apply_now ps)"

definition run_synapse_hebbian ::
  "maint_lib \<Rightarrow> maint_stmt faults \<Rightarrow> maint_env \<Rightarrow> nat \<Rightarrow> bool \<Rightarrow> ('a, json) maint_op" where
  "run_synapse_hebbian M flt ev max_pairs apply_now =
     op_bind (find_co_recalled_pairs M flt max_pairs) (\<lambda>pairs.
     op_bind (hebbian_pairs M flt ev apply_now pairs (0, 0, [])) (\<lambda>(strengthened, created, details).
     op_return (JObj [(lit ''pairs_found'', JInt (int (length pairs))), (lit ''strengthened'', JInt (int
         strengthened)),
       (lit ''created'', JInt (int created)), (lit ''details'', JArr details)])))"

section \<open>Weak relations\<close>

definition PRUNE_STRENGTH_THRESHOLD :: f64 where "PRUNE_STRENGTH_THRESHOLD = f64_lit 0.2"

definition weak_relations :: "nat \<Rightarrow> 'a maint_db_scheme \<Rightarrow> (relation_row \<times> ustr option \<times> ustr option)
    list" where
  "weak_relations limit db =
     map (\<lambda>e. (e, ns_last_verified (stats_of db (rel_from e)), ns_last_verified (stats_of db (rel_to
         e))))
       (take limit (sort_key rel_strength (filter (\<lambda>e. rel_strength e < PRUNE_STRENGTH_THRESHOLD \<and>
          row_get nr_id (rel_from e) (note_rows db) \<noteq> None \<and> row_get nr_id (rel_to e) (note_rows db) \<noteq>
              None)
        (note_relations db))))"

definition synapse_note_is_stale :: "maint_lib \<Rightarrow> maint_env \<Rightarrow> ustr option \<Rightarrow> bool" where
  "synapse_note_is_stale M ev last_verified =
     (case last_verified of
        None \<Rightarrow> True
      | Some t \<Rightarrow>
          if trim t = [] then True
          else case parse_consolidation_datetime M t of
                 None \<Rightarrow> True | Some dt \<Rightarrow> 60 \<le> days_between (me_now ev) dt)"

definition delete_relation ::
  "maint_lib \<Rightarrow> maint_stmt faults \<Rightarrow> maint_env \<Rightarrow> relation_row \<Rightarrow> ('a, unit) maint_op" where
  "delete_relation M flt ev e =
     op_bind (sql_exec (flt (DeleteWeak (rel_from e) (rel_to e) (rel_type e))) (\<lambda>db.
       (db\<lparr>note_relations := row_delete (\<lambda>x. rel_key x = rel_key e) (note_relations db)\<rparr>, ()))) (\<lambda>_.
     log_related_consolidation_event M flt ev (rel_from e) (lit ''synaptic_prune'') (Some (rel_to e))
         (JObj
       [(lit ''old_strength'', JFloat (round4 (rel_strength e))), (lit ''relation_type'', JStr (rel_type
           e)),
        (lit ''reason'', JStr (lit ''weak_and_unused''))]))"

text \<open>The loop over the rows: a row is counted as checked before the limit is looked at.\<close>

fun prune_weak ::
  "maint_lib \<Rightarrow> maint_stmt faults \<Rightarrow> maint_env \<Rightarrow> bool \<Rightarrow> nat \<Rightarrow> (relation_row \<times> ustr option \<times> ustr option)
      list \<Rightarrow>
   nat \<times> nat \<times> json list \<Rightarrow> ('a, nat \<times> nat \<times> json list) maint_op" where
  "prune_weak M flt ev apply_now max_pruned [] tally = op_return tally"
| "prune_weak M flt ev apply_now max_pruned ((e, from_last, to_last) # rows) (checked, pruned, details)
    =
     (if max_pruned \<le> pruned then op_return (checked + 1, pruned, details)
      else if \<not> synapse_note_is_stale M ev from_last \<or> \<not> synapse_note_is_stale M ev to_last
      then prune_weak M flt ev apply_now max_pruned rows (checked + 1, pruned, details)
      else op_bind (if apply_now then delete_relation M flt ev e else op_return ()) (\<lambda>_.
        prune_weak M flt ev apply_now max_pruned rows (checked + 1, pruned + 1, details @ [JObj
          [(lit ''from_id'', JStr (prefix_chars (rel_from e) 12)), (lit ''to_id'', JStr (prefix_chars
              (rel_to e) 12)),
           (lit ''strength'', JFloat (round4 (rel_strength e))), (lit ''relation_type'', JStr (rel_type
               e))]])))"

definition run_synapse_pruning ::
  "maint_lib \<Rightarrow> maint_stmt faults \<Rightarrow> maint_env \<Rightarrow> nat \<Rightarrow> bool \<Rightarrow> ('a, json) maint_op" where
  "run_synapse_pruning M flt ev max_pruned apply_now =
     op_bind (sql_query (flt SelectWeak) (weak_relations (max_pruned * 3))) (\<lambda>rows.
     op_bind (prune_weak M flt ev apply_now max_pruned rows (0, 0, [])) (\<lambda>(checked, pruned, details).
     op_return (JObj [(lit ''candidates_checked'', JInt (int checked)), (lit ''pruned'', JInt (int
         pruned)),
       (lit ''details'', JArr details)])))"

section \<open>Bridges\<close>

definition load_synapse_layer_vectors ::
  "maint_lib \<Rightarrow> maint_stmt faults \<Rightarrow> ustr \<Rightarrow> nat \<Rightarrow> ('a, connect_record list) maint_op" where
  "load_synapse_layer_vectors M flt layer limit =
     sql_query (flt (SelectLayer layer)) (\<lambda>db.
       List.map_filter (connect_record_of M)
         (take limit (filter (\<lambda>r. live_note r \<and> nr_vector_json r \<noteq> None \<and> nr_layer r = layer) (note_rows
             db))))"

definition bridge_step ::
  "nat \<Rightarrow> connect_record \<times> connect_record \<Rightarrow> (ustr \<times> ustr \<times> f64) list \<times> (ustr \<times> ustr) set \<Rightarrow>
   (ustr \<times> ustr \<times> f64) list \<times> (ustr \<times> ustr) set" where
  "bridge_step max_bridges p acc =
     (case (p, acc) of ((happened, known), (bridges, existing)) \<Rightarrow>
        let pair = unordered_pair (cv_id happened) (cv_id known)
        in if max_bridges \<le> length bridges \<or> pair \<in> existing then acc
           else case xround4 (cosine_similarity (cv_vector happened) (cv_vector known)) of
                  Fin s \<Rightarrow>
                    if f64_lit 0.6 \<le> s then (bridges @ [(cv_id happened, cv_id known, s)], insert pair
                        existing) else acc
                | _ \<Rightarrow> acc)"

definition find_bridges ::
  "nat \<Rightarrow> connect_record list \<Rightarrow> connect_record list \<Rightarrow> relation_row list \<Rightarrow> (ustr \<times> ustr \<times> f64) list" where
  "find_bridges max_bridges events facts rels =
     fst (fold (bridge_step max_bridges) (List.product events facts)
       ([], set (map (\<lambda>e. unordered_pair (rel_from e) (rel_to e)) rels)))"

definition write_bridge ::
  "maint_lib \<Rightarrow> maint_stmt faults \<Rightarrow> maint_env \<Rightarrow> ustr \<times> ustr \<times> f64 \<Rightarrow> ('a, unit) maint_op" where
  "write_bridge M flt ev b =
     (case b of (from_id, to_id, s) \<Rightarrow>
        op_bind (insert_supports flt from_id to_id (f64_lit 0.3)) (\<lambda>_.
        log_related_consolidation_event M flt ev from_id (lit ''cross_layer_bridge'') (Some to_id) (JObj
          [(lit ''similarity'', JFloat s), (lit ''initial_strength'', JFloat (f64_lit 0.3)),
           (lit ''from_layer'', JStr (lit ''event_log'')), (lit ''to_layer'', JStr
               (lit ''verified_fact''))])))"

definition run_synapse_bridging ::
  "maint_lib \<Rightarrow> maint_stmt faults \<Rightarrow> maint_env \<Rightarrow> nat \<Rightarrow> bool \<Rightarrow> ('a, json) maint_op" where
  "run_synapse_bridging M flt ev max_bridges apply_now =
     op_bind (load_synapse_layer_vectors M flt (lit ''event_log'') 500) (\<lambda>events.
     op_bind (load_synapse_layer_vectors M flt (lit ''verified_fact'') 500) (\<lambda>facts.
     if events = [] \<or> facts = []
     then op_return (JObj [(lit ''candidates_checked'', JInt 0), (lit ''bridges_created'', JInt 0),
         (lit ''details'', JArr [])])
     else op_bind (sql_query (flt SelectPairs) (\<lambda>db. find_bridges max_bridges events facts
         (note_relations db)))
       (\<lambda>bridges.
       op_bind (if apply_now then op_each (write_bridge M flt ev) bridges else op_return ()) (\<lambda>_.
       op_return (JObj
         [(lit ''candidates_checked'', JInt (int (length events * length facts))),
          (lit ''bridges_created'', JInt (int (length bridges))),
          (lit ''details'', JArr (map (\<lambda>(from_id, to_id, s). JObj
            [(lit ''from_id'', JStr (prefix_chars from_id 12)), (lit ''to_id'', JStr (prefix_chars to_id
                12)),
             (lit ''similarity'', JFloat s)]) (take 10 bridges)))])))))"

section \<open>The command\<close>

definition consolidate_synapse ::
  "maint_lib \<Rightarrow> maint_stmt faults \<Rightarrow> maint_env \<Rightarrow> nat \<Rightarrow> nat \<Rightarrow> nat \<Rightarrow> bool \<Rightarrow> ('a, json) maint_op" where
  "consolidate_synapse M flt ev max_hebbian max_pruned max_bridges apply_now =
     op_bind (run_synapse_hebbian M flt ev max_hebbian apply_now) (\<lambda>hebbian.
     op_bind (run_synapse_pruning M flt ev max_pruned apply_now) (\<lambda>pruning.
     op_bind (run_synapse_bridging M flt ev max_bridges apply_now) (\<lambda>bridging.
     op_return (JObj
       [(lit ''run_at'', JStr (me_rfc3339 ev)), (lit ''mode'', JStr (if apply_now then lit ''apply''
           else lit ''dry-run'')),
        (lit ''parameters'', JObj
          [(lit ''max_hebbian'', JInt (int max_hebbian)), (lit ''max_pruned'', JInt (int max_pruned)),
           (lit ''max_bridges'', JInt (int max_bridges)), (lit ''hebbian_window_seconds'', JInt 300),
           (lit ''prune_strength_threshold'', JFloat PRUNE_STRENGTH_THRESHOLD),
               (lit ''prune_days_inactive'', JInt 60),
           (lit ''bridge_cosine_threshold'', JFloat (f64_lit 0.6)),
           (lit ''bridge_initial_strength'', JFloat (f64_lit 0.3))]),
        (lit ''hebbian'', hebbian), (lit ''pruning'', pruning), (lit ''bridging'', bridging)]))))"

end
