(* ===== verification/Consolidate_Laws.thy ===== *)
theory Consolidate_Laws
  imports Consolidate_Notes Consolidate_Chain Consolidate_Links
begin

text \<open>
  What every consolidation command promises. A dry run writes nothing. The locale \<open>maint_invariant\<close>
  lifts a property of the tables, kept by the updates the commands make, to the commands; it is
  interpreted for the texts of the notes, for the strengths of the relations and for the rules of
  the constitution.
\<close>

section \<open>What an operation answers\<close>

text \<open>Whenever \<open>m\<close> runs where \<open>P\<close> holds and succeeds, its value satisfies \<open>Q\<close>.\<close>

definition op_gives :: "('s \<Rightarrow> bool) \<Rightarrow> ('s, 'e, 'a) op \<Rightarrow> ('a \<Rightarrow> bool) \<Rightarrow> bool" where
  "op_gives P m Q \<longleftrightarrow> (\<forall>s x. P s \<longrightarrow> snd (m s) = Inr x \<longrightarrow> Q x)"

lemma op_keeps_bind_given:
  assumes "op_keeps P m" "op_gives P m Q" "\<And>x. Q x \<Longrightarrow> op_keeps P (f x)"
  shows "op_keeps P (op_bind m f)"
  using assms by (auto simp: op_keeps_def op_gives_def op_bind_cases split: sum.splits)

lemma op_gives_query: "(\<And>s. P s \<Longrightarrow> Q (g s)) \<Longrightarrow> op_gives P (sql_query fault g) Q"
  by (cases fault) (auto simp: op_gives_def op_simps)

lemma op_gives_return: "Q x \<Longrightarrow> op_gives P (op_return x) Q"
  by (simp add: op_gives_def op_return_def)

lemma op_gives_bind:
  assumes "op_keeps P m" "op_gives P m R" "\<And>x. R x \<Longrightarrow> op_gives P (f x) Q"
  shows "op_gives P (op_bind m f) Q"
  unfolding op_gives_def
proof (intro allI impI)
  fix s y assume P: "P s" and y: "snd (op_bind m f s) = Inr y"
  then obtain x where x: "snd (m s) = Inr x" "snd (f x (fst (m s))) = Inr y"
    by (auto simp: op_bind_cases split: sum.splits)
  with assms(2) P have "R x" by (auto simp: op_gives_def)
  with assms(1,3) P x show "Q y" by (auto simp: op_keeps_def op_gives_def)
qed

lemma op_gives_any: "op_gives P m (\<lambda>x. True)"
  by (simp add: op_gives_def)

lemma op_keeps_each_in:
  "(\<And>x. x \<in> set xs \<Longrightarrow> op_keeps P (f x)) \<Longrightarrow> op_keeps P (op_each f xs)"
  by (induction xs) (simp_all add: keeps_intros)

lemma op_keeps_fold [keeps_intros]: "(\<And>x acc. op_keeps P (f x acc)) \<Longrightarrow> op_keeps P (op_fold f xs acc)"
  by (induction xs arbitrary: acc) (simp_all add: keeps_intros)

section \<open>Reading\<close>

lemma canonical_keeps [keeps_intros]: "op_keeps P (canonical_active_note_ids flt)"
  unfolding canonical_active_note_ids_def by (rule keeps_intros)

lemma siblings_keeps [keeps_intros]: "op_keeps P (note_has_active_lineage_siblings flt i rk topic)"
  unfolding note_has_active_lineage_siblings_def by (intro keeps_intros)

lemma prune_candidates_keeps [keeps_intros]: "op_keeps P (prune_candidates M flt ev canonical rows)"
  by (induction rows) (auto intro!: keeps_intros split: option.split)

lemma load_records_keeps [keeps_intros]: "op_keeps P (load_chain_records_by_ids M flt ids c)"
  unfolding load_chain_records_by_ids_def by (intro keeps_intros)

lemma load_vectors_keeps [keeps_intros]: "op_keeps P (load_chain_vector_candidates M flt b)"
  unfolding load_chain_vector_candidates_def by (intro keeps_intros)

lemma connect_vectors_keeps [keeps_intros]: "op_keeps P (load_connect_vectors M flt)"
  unfolding load_connect_vectors_def by (intro keeps_intros)

lemma orphans_keeps [keeps_intros]: "op_keeps P (find_connect_orphans flt vectors)"
  unfolding find_connect_orphans_def by (intro keeps_intros)

lemma trusted_keeps [keeps_intros]: "op_keeps P (note_trusted_for_synapse flt i)"
  unfolding note_trusted_for_synapse_def by (intro keeps_intros)

lemma trusted_pairs_keeps [keeps_intros]: "op_keeps P (trusted_pairs flt ps)"
  by (induction flt ps rule: trusted_pairs.induct) (auto intro!: keeps_intros)

lemma co_recalled_keeps [keeps_intros]: "op_keeps P (find_co_recalled_pairs M flt n)"
proof -
  have "op_keeps P (op_bind (trusted_pairs flt ps)
      (\<lambda>pairs. op_return (take n (sort_desc (\<lambda>(left, right, n). n) pairs))))" for ps
    by (intro keeps_intros)
  then show ?thesis by (simp add: op_keeps_def find_co_recalled_pairs_def)
qed

lemma layer_vectors_keeps [keeps_intros]: "op_keeps P (load_synapse_layer_vectors M flt l n)"
  unfolding load_synapse_layer_vectors_def by (intro keeps_intros)

section \<open>A dry run\<close>

lemma dry_chain [keeps_intros]: "op_keeps P (settle_chain M flt ev False records phase reason extra)"
  by (simp add: settle_chain_def keeps_intros)

lemma vector_chains_keeps:
  "(\<And>records phase reason extra. op_keeps P (settle_chain M flt ev ap records phase reason extra)) \<Longrightarrow>
   op_keeps P (vector_chains M flt ev threshold n ap layer records assigned acc)"
  by (induction M flt ev threshold n ap layer records assigned acc rule: vector_chains.induct)
    (auto intro!: keeps_intros split: prod.split)

lemma confidence_chains_keeps:
  "(\<And>records phase reason extra. op_keeps P (settle_chain M flt ev ap records phase reason extra)) \<Longrightarrow>
   op_keeps P (confidence_chains M flt ev n ap layer cs acc)"
  by (induction cs arbitrary: acc) (auto simp: Let_def split_paired_all intro!: keeps_intros)

lemma over_layers_keeps: "(\<And>g acc. op_keeps P (f g acc)) \<Longrightarrow> op_keeps P (over_layers n f gs acc)"
  by (induction gs arbitrary: acc) (auto intro!: keeps_intros)

lemma dry_hebbian [keeps_intros]: "op_keeps P (hebbian_pair M flt ev False p tally)"
  by (auto simp: hebbian_pair_def strengthen_pair_def create_pair_def Let_def split_beta
    intro!: keeps_intros)

lemma dry_hebbian_pairs [keeps_intros]: "op_keeps P (hebbian_pairs M flt ev False ps tally)"
  by (induction ps arbitrary: tally) (auto intro!: keeps_intros)

lemma dry_prune_weak [keeps_intros]: "op_keeps P (prune_weak M flt ev False n rows tally)"
  by (induction M flt ev False n rows tally rule: prune_weak.induct) (auto intro!: keeps_intros)

lemma dry_bridging [keeps_intros]: "op_keeps P (run_synapse_bridging M flt ev n False)"
  unfolding run_synapse_bridging_def if_False by (intro keeps_intros)

lemma dry_run:
  "op_keeps P (consolidate_strengthen M flt ev False n)"
  "op_keeps P (consolidate_prune M flt ev False n)"
  "op_keeps P (detect_accuracy_stale_events M flt ev False n)"
  "op_keeps P (run_consolidate_chain M flt ev threshold n False)"
  "op_keeps P (run_consolidate_connect M flt ev (opts\<lparr>co_apply := False\<rparr>))"
  "op_keeps P (consolidate_synapse M flt ev n m k False)"
  by (auto simp: consolidate_strengthen_def consolidate_prune_def detect_accuracy_stale_events_def
      retire_report_def run_consolidate_chain_def phase_a_topic_chains_def topic_chain_def
      phase_b_vector_chains_def phase_c_auto_supersede_def run_consolidate_connect_def
      process_connect_orphans_def consolidate_synapse_def run_synapse_hebbian_def
      run_synapse_pruning_def Let_def split_beta
    intro!: keeps_intros over_layers_keeps vector_chains_keeps confidence_chains_keeps)

text \<open>
  A dry run of a consolidation command only reports: without \<open>apply\<close>, whatever fails, every table
  is as it was.
\<close>

theorem dry_run_changes_nothing:
  "fst (consolidate_strengthen M flt ev False n db) = db \<and>
   fst (consolidate_prune M flt ev False n db) = db \<and>
   fst (detect_accuracy_stale_events M flt ev False n db) = db \<and>
   fst (run_consolidate_chain M flt ev threshold n False db) = db \<and>
   fst (run_consolidate_connect M flt ev (opts\<lparr>co_apply := False\<rparr>) db) = db \<and>
   fst (consolidate_synapse M flt ev n m k False db) = db"
  by (intro conjI op_keepsD [of "\<lambda>d. d = db"] dry_run refl)

section \<open>Invariants of the commands\<close>

text \<open>What no update of a command touches.\<close>

definition note_text ::
  "note_row \<Rightarrow> ustr \<times> ustr \<times> ustr \<times> ustr option \<times> ustr option \<times> ustr option \<times> int option \<times> ustr option"
      where
  "note_text r =
     (nr_id r, nr_content r, nr_layer r, nr_project_id r, nr_created_at r, nr_source r, nr_confirmed_at
         r,
      nr_vector_json r)"

definition text_update :: "(note_row \<Rightarrow> note_row) \<Rightarrow> bool" where
  "text_update f \<longleftrightarrow> (\<forall>r. note_text (f r) = note_text r)"

definition unit_strength :: "f64 \<Rightarrow> bool" where
  "unit_strength s \<longleftrightarrow> 0 \<le> s \<and> s \<le> 1"

lemma is_f64_small: "is_f64 2" "is_f64 10000"
proof -
  have "ilog2 2 = 1" "ilog2 10000 = 13" by (rule ilog2_unique; simp add: two_pow_def)+
  then have "round64 2 = 2" "round64 10000 = 10000"
    by (intro round64_grid [of _ 2 0] round64_grid [of _ 10000 0]; simp add: ulp_exp_def two_pow_def)+
  then show "is_f64 2" "is_f64 10000" by (simp_all add: is_f64_def)
qed

lemma round4_unit: "unit_strength x \<Longrightarrow> unit_strength (round4 x)"
proof -
  assume x: "unit_strength x"
  define y where "y = f64_mul x 10000"
  have y: "0 \<le> y" "y \<le> 10000"
    using x by (auto simp: y_def unit_strength_def f64_mul_def round64_nonneg intro!: round64_le
        is_f64_small)
  then have "\<lfloor>y + 1 / 2\<rfloor> \<le> 10000" "0 \<le> \<lfloor>y + 1 / 2\<rfloor>" by linarith+
  then have "(of_int \<lfloor>y + 1 / 2\<rfloor> :: rat) \<le> of_int 10000" "(0 :: rat) \<le> of_int \<lfloor>y + 1 / 2\<rfloor>"
    by (simp_all only: of_int_le_iff of_int_0_le_iff)
  then have "0 \<le> f64_round y / 10000" "f64_round y / 10000 \<le> 1" using y(1) by (simp_all add:
      f64_round_def)
  then show ?thesis
    by (simp add: unit_strength_def round4_def y_def [symmetric] f64_div_def round64_nonneg
        round64_le_1)
qed

lemma similarity_unit: "xround4 (cosine_similarity u v) = Fin s \<Longrightarrow> unit_strength s"
proof -
  have clamp: "unit_strength x" if "xclamp01 a = Fin x" for a x
    using that by (cases a) (auto simp: xclamp01_def unit_strength_def split: if_splits)
  have "unit_strength x" if "cosine_similarity u v = Fin x" for x
    using that by (auto simp: cosine_similarity_def unit_strength_def split: if_splits prod.splits
        dest!: clamp)
  then show "xround4 (cosine_similarity u v) = Fin s \<Longrightarrow> unit_strength s"
    by (cases "cosine_similarity u v") (auto intro: round4_unit)
qed

lemma initial_strength_unit: "2 \<le> n \<Longrightarrow> unit_strength (initial_strength n)"
proof -
  assume "2 \<le> n"
  then have "(2 :: rat) \<le> of_nat n" by (metis of_nat_le_iff of_nat_numeral)
  then have "2 \<le> round64 (of_nat n)" by (rule round64_ge [OF is_f64_small(1)])
  then have "0 \<le> f64_sub (round64 (of_nat n)) 2" by (simp add: f64_sub_def round64_nonneg)
  then have "0 \<le> f64_mul (f64_sub (round64 (of_nat n)) 2) (f64_lit 0.05)"
    using f64_lit_bounds(1) [of "0.05"] by (simp add: f64_mul_def round64_nonneg)
  then have "0 \<le> f64_add (f64_lit 0.3) (f64_mul (f64_sub (round64 (of_nat n)) 2) (f64_lit 0.05))"
    using f64_lit_bounds(1) [of "0.3"] by (simp add: f64_add_def round64_nonneg)
  then show ?thesis by (simp add: initial_strength_def unit_strength_def)
qed

text \<open>The links a plan proposes are links of its orphans.\<close>

lemma link_unit: "link_to threshold c orphan candidate = Some l \<Longrightarrow> unit_strength (pl_similarity l)"
  by (auto simp: link_to_def split: if_splits xf64.splits dest: similarity_unit)

lemma orphan_link_unit: "l \<in> set (orphan_links opts vectors i) \<Longrightarrow> unit_strength (pl_similarity l)"
  by (auto simp: orphan_links_def find_connect_links_def map_filter_def
    split: option.splits if_splits dest!: in_set_takeD; erule link_unit)

lemma proposed_from_orphans:
  "set (snd (propose_links opts vectors bs acc)) \<subseteq> set (snd acc) \<union>
     (\<Union>i \<in> set (concat bs). set (orphan_links opts vectors i))"
proof (induction bs arbitrary: acc)
  case (Cons b bs)
  obtain processed proposed where acc: "acc = (processed, proposed)" by (cases acc)
  let ?new = "proposed @ concat (map (orphan_links opts vectors) b)"
  have "propose_links opts vectors (b # bs) acc \<in>
      {(processed + length b, ?new), propose_links opts vectors bs (processed + length b, ?new)}"
    by (simp add: acc Let_def)
  with Cons [of "(processed + length b, ?new)"] show ?case by (auto simp: acc simp del:
      propose_links.simps)
qed (cases acc; simp)

lemma set_first_of_groups: "set (first_of_groups key seen rs) \<subseteq> set rs"
  by (induction rs arbitrary: seen) auto

lemma set_strongest: "set (strongest_links n ls) \<subseteq> set ls"
  by (auto simp: strongest_links_def dest: in_set_takeD)

lemma plan_from_orphans:
  assumes "l \<in> set (snd (connect_plan opts vectors orphans))"
  shows "\<exists>i \<in> set (concat (batches (co_batch_size opts) orphans)). l \<in> set (orphan_links opts vectors
      i)"
proof -
  have "l \<in> set (snd (propose_links opts vectors (batches (co_batch_size opts) orphans) (0, [])))"
    using assms by (auto simp: connect_plan_def split_beta
      dest!: subsetD [OF set_strongest] subsetD [OF set_first_of_groups])
  from subsetD [OF proposed_from_orphans this] show ?thesis by simp
qed

lemma bridge_units:
  "\<forall>b \<in> set (fst acc). unit_strength (snd (snd b)) \<Longrightarrow>
   \<forall>b \<in> set (fst (fold (bridge_step n) ps acc)). unit_strength (snd (snd b))"
proof (induction ps arbitrary: acc)
  case (Cons p ps)
  have "\<forall>b \<in> set (fst (bridge_step n p acc)). unit_strength (snd (snd b))"
    using Cons.prems
    by (auto simp: bridge_step_def Let_def split: prod.splits if_splits xf64.splits dest:
        similarity_unit)
  with Cons.IH show ?case by simp
qed simp

lemma trusted_pairs_twice: "op_gives P (trusted_pairs flt ps) (\<lambda>found. \<forall>(l, r, n) \<in> set found. 2 \<le> n)"
proof (induction ps)
  case Nil
  then show ?case by (simp add: op_gives_return)
next
  case (Cons p ps)
  obtain left right n where p: "p = ((left, right), n)" by (metis surj_pair)
  show ?case
  proof (cases "n < 2")
    case True
    with Cons p show ?thesis by simp
  next
    case False
    have "op_gives P (op_bind (trusted_pairs flt ps) (\<lambda>more_pairs.
        op_return (if b then (left, right, n) # more_pairs else more_pairs)))
        (\<lambda>found. \<forall>(l, r, n) \<in> set found. 2 \<le> n)" for b
      by (rule op_gives_bind [OF trusted_pairs_keeps Cons]) (use False in \<open>auto intro!:
          op_gives_return\<close>)
    with Cons False p show ?thesis
      by (auto intro!: op_gives_bind [OF trusted_keeps op_gives_any])
  qed
qed

lemma recalled_twice: "op_gives P (find_co_recalled_pairs M flt n) (\<lambda>found. \<forall>(l, r, k) \<in> set found. 2 \<le>
    k)"
proof -
  have "op_gives P (op_bind (trusted_pairs flt ps)
      (\<lambda>pairs. op_return (take n (sort_desc (\<lambda>(left, right, n). n) pairs))))
      (\<lambda>found. \<forall>(l, r, k) \<in> set found. 2 \<le> k)" for ps
    by (rule op_gives_bind [OF trusted_pairs_keeps trusted_pairs_twice])
      (auto intro!: op_gives_return dest!: in_set_takeD)
  then show ?thesis by (auto simp: op_gives_def find_co_recalled_pairs_def)
qed

lemma cluster_of_group:
  "set (fst (fold (extend_cluster threshold full newer) rest (cluster, assigned))) \<subseteq> set cluster \<union> set
      rest"
proof (induction rest arbitrary: cluster assigned)
  case (Cons r rest)
  obtain c a where step: "extend_cluster threshold full newer r (cluster, assigned) = (c, a)" by
      fastforce
  then have c: "set c \<subseteq> insert r (set cluster)" by (auto simp: extend_cluster_def split: if_splits)
  from Cons [of c a] c show ?case by (auto simp: step)
qed simp

lemma update_entries: "set (AList.update k v al) \<subseteq> insert (k, v) (set al)"
  by (induction al) auto

definition chains_within :: "chain_record set \<Rightarrow> head_chains \<times> ustr list \<Rightarrow> bool" where
  "chains_within R acc \<longleftrightarrow> (\<forall>(k, c) \<in> set (fst acc). set c \<subseteq> R)"

lemma claim_within:
  assumes "chains_within R acc" "newer \<in> R" "older \<in> R"
  shows "chains_within R (claim_older threshold newer older acc)"
proof -
  obtain cs claimed where acc: "acc = (cs, claimed)" by (cases acc)
  have chain: "set (case map_of cs (kr_id newer) of None \<Rightarrow> [newer] | Some c \<Rightarrow> c) \<subseteq> R"
    using assms acc by (auto simp: chains_within_def split: option.splits dest!: map_of_SomeD)
  have "chains_within R (AList.update (kr_id newer) c cs, x)" if "set c \<subseteq> R" for c x
    using that assms(1) update_entries [of "kr_id newer" c cs]
    unfolding acc chains_within_def by fastforce
  with chain assms show ?thesis
    by (auto simp: acc claim_older_def Let_def)
qed

lemma fold_claim_within:
  "chains_within R acc \<Longrightarrow> newer \<in> R \<Longrightarrow> set rest \<subseteq> R \<Longrightarrow>
   chains_within R (fold (claim_older threshold newer) rest acc)"
  by (induction rest arbitrary: acc) (simp_all add: claim_within)

lemma head_chains_within:
  "chains_within R acc \<Longrightarrow> set records \<subseteq> R \<Longrightarrow> chains_within R (head_chains_of threshold records acc)"
  by (induction records arbitrary: acc) (simp_all add: fold_claim_within)

text \<open>\<open>may\<close> says which notes the commands may update, \<open>ok\<close> which strengths they may write.\<close>

locale maint_invariant =
  fixes P :: "'a maint_db_scheme \<Rightarrow> bool"
    and may :: "ustr \<Rightarrow> bool"
    and ok :: "f64 \<Rightarrow> bool"
  assumes events: "P db \<Longrightarrow> P (db\<lparr>note_events := es\<rparr>)"
    and rows: "P db \<Longrightarrow> \<forall>r. Q r \<longrightarrow> may (nr_id r) \<Longrightarrow> text_update f \<Longrightarrow>
        P (db\<lparr>note_rows := row_update Q f (note_rows db)\<rparr>)"
    and relations: "P db \<Longrightarrow> \<forall>e \<in> set rels. ok (rel_strength e) \<Longrightarrow> P (db\<lparr>note_relations := rels\<rparr>)"
    and ok_read: "P db \<Longrightarrow> e \<in> set (note_relations db) \<Longrightarrow> ok (rel_strength e)"
    and ok_more: "ok s \<Longrightarrow> ok (min (f64_add s HEBBIAN_STRENGTH_DELTA) 1)"
    and ok_unit: "unit_strength s \<Longrightarrow> ok s"
    and may_read: "P db \<Longrightarrow> r \<in> set (note_rows db) \<Longrightarrow> nr_layer r \<noteq> lit ''identity_schema'' \<Longrightarrow> may (nr_id r)"
begin

lemma event_keeps [keeps_intros]: "op_keeps P (log_related_consolidation_event M flt ev i kind rel
    payload)"
  unfolding log_related_consolidation_event_def by (intro keeps_intros op_keeps_exec) (simp add: events)

lemma own_event_keeps [keeps_intros]: "op_keeps P (log_consolidation_event M flt ev i kind payload)"
  unfolding log_consolidation_event_def by (rule event_keeps)

lemma update_keeps: "may i \<Longrightarrow> text_update f \<Longrightarrow> op_keeps P (update_note fault i f)"
  unfolding update_note_def by (intro op_keeps_exec) (simp add: rows)

lemma supports_keeps: "ok s \<Longrightarrow> op_keeps P (insert_supports flt a b s)"
  unfolding insert_supports_def insert_note_relation_def
  by (intro op_keeps_exec) (auto simp: ok_read intro!: relations split: option.split)

subsection \<open>Notes one by one\<close>

lemma strengthen_keeps: "op_keeps P (consolidate_strengthen M flt ev apply_now n)"
proof -
  have one: "op_keeps P (strengthen_one M flt ev c)" if "may (sc_id c)" for c
    using that unfolding strengthen_one_def
    by (intro keeps_intros update_keeps) (simp_all add: text_update_def note_text_def)
  have ids: "may (sc_id c)" if "P db" "c \<in> set (List.map_filter (strengthen_row M db)
       (filter (\<lambda>r. nr_id r \<in> canonical) (strengthen_rows db)))" for db c canonical
    using that may_read [of db]
    by (auto simp: map_filter_def strengthen_row_def strengthen_rows_def Let_def split: if_splits)
  show ?thesis unfolding consolidate_strengthen_def Let_def
  proof (rule op_keeps_bind [OF canonical_keeps], rule op_keeps_bind_given [OF op_keeps_query])
    fix canonical
    show "op_gives P (sql_query (flt SelectStrengthen) (\<lambda>db. List.map_filter (strengthen_row M db)
       (filter (\<lambda>r. nr_id r \<in> canonical) (strengthen_rows db)))) (\<lambda>cs. \<forall>c \<in> set cs. may (sc_id c))"
      by (rule op_gives_query) (use ids in blast)
  next
    fix cs :: "strengthen_candidate list" assume "\<forall>c \<in> set cs. may (sc_id c)"
    then have "op_keeps P (op_each (strengthen_one M flt ev) (take n cs))"
      by (intro op_keeps_each_in one) (auto dest: in_set_takeD)
    then show "op_keeps P (if apply_now then op_bind (op_each (strengthen_one M flt ev) (take n cs))
        (\<lambda>_. op_return (phase_report (length cs) (length (take n cs)) (map sc_detail (take n cs))))
        else op_return (phase_report (length cs) 0 (map sc_detail (take n cs))))"
      by (cases apply_now) (auto intro!: op_keeps_bind op_keeps_return)
  qed
qed

lemma retire_keeps:
  assumes "\<forall>c \<in> set cs. may (fst c)"
  shows "op_keeps P (retire_report M flt ev kind reason apply_now n cs)"
proof -
  have one: "op_keeps P (deprecate_note M flt ev kind reason c)" if "may (fst c)" for c
    using that unfolding deprecate_note_def split_beta
    by (intro keeps_intros update_keeps) (simp_all add: text_update_def note_text_def)
  show ?thesis unfolding retire_report_def Let_def
    by (intro keeps_intros op_keeps_each_in one) (use assms in_set_takeD in fastforce)
qed

lemma prune_candidates_may:
  "op_gives P (prune_candidates M flt ev canonical rows) (\<lambda>cs. \<forall>c \<in> set cs. fst c \<in> nr_id ` set rows)"
proof (induction rows)
  case Nil
  then show ?case by (simp add: op_gives_return)
next
  case (Cons r rows)
  let ?Q = "\<lambda>cs. \<forall>c \<in> set cs. fst c = nr_id r \<or> fst c \<in> nr_id ` set rows"
  have more: "op_gives P (prune_candidates M flt ev canonical rows) ?Q"
    using Cons unfolding op_gives_def by fastforce
  have add: "op_gives P (op_bind (prune_candidates M flt ev canonical rows)
      (\<lambda>more_rows. op_return ((nr_id r, age, detail) # more_rows))) ?Q" for age detail
    by (rule op_gives_bind [OF prune_candidates_keeps more]) (auto intro!: op_gives_return)
  show ?case
    by (auto intro!: op_gives_bind [OF siblings_keeps op_gives_any] more add split: option.split)
qed

lemma prune_keeps: "op_keeps P (consolidate_prune M flt ev apply_now n)"
  unfolding consolidate_prune_def
proof (rule op_keeps_bind [OF canonical_keeps], rule op_keeps_bind_given [OF op_keeps_query])
  show "op_gives P (sql_query (flt SelectPrune) prune_rows) (\<lambda>rs. \<forall>r \<in> set rs. may (nr_id r))"
    by (rule op_gives_query) (auto simp: prune_rows_def intro: may_read)
next
  fix canonical and rs :: "note_row list" assume "\<forall>r \<in> set rs. may (nr_id r)"
  then show "op_keeps P (op_bind (prune_candidates M flt ev canonical rs) (\<lambda>candidates.
     retire_report M flt ev (lit ''consolidation_prune'')
         (lit ''recall_count==0, age>90d, confidence<0.8'')
       apply_now n candidates))"
    by (intro op_keeps_bind_given [OF prune_candidates_keeps prune_candidates_may] retire_keeps) auto
qed

lemma stale_keeps: "op_keeps P (detect_accuracy_stale_events M flt ev apply_now n)"
  unfolding detect_accuracy_stale_events_def
proof (rule op_keeps_bind_given [OF op_keeps_query])
  show "op_gives P (sql_query (flt SelectStale) stale_rows) (\<lambda>rs. \<forall>r \<in> set rs. may (nr_id r))"
    by (rule op_gives_query) (auto simp: stale_rows_def lit_inject simp del: lit_simps intro!: may_read)
next
  fix rs :: "note_row list" assume "\<forall>r \<in> set rs. may (nr_id r)"
  then show "op_keeps P (retire_report M flt ev (lit ''consolidation_accuracy_stale'')
       (lit ''event_log, recall_count==0, age>180d, confidence<0.85'')
       apply_now n (List.map_filter (stale_row M ev) rs))"
    by (intro retire_keeps) (auto simp: map_filter_def stale_row_def split: option.splits if_splits)
qed

subsection \<open>Chains\<close>

lemma superseded_keeps: "may i \<Longrightarrow> op_keeps P (set_chain_superseded M flt ev rk version head_id i)"
proof -
  assume may: "may i"
  have "op_keeps P (update_note fault i (\<lambda>r. r\<lparr>nr_root_id := a, nr_version := b,
      nr_evolution_state := c, nr_is_head := d, nr_metadata_json := e, nr_updated_at := g\<rparr>))" for fault
          a b c d e g
    by (intro update_keeps may) (simp add: text_update_def note_text_def)
  moreover have "op_keeps P (sql_exec fault (\<lambda>db. (db, ())))" for fault
    by (rule op_keeps_exec) simp
  ultimately show ?thesis
    by (auto simp: op_keeps_def set_chain_superseded_def split: option.split sum.split)
qed

lemma head_keeps: "may i \<Longrightarrow> op_keeps P (set_chain_head flt ev rk version i)"
  unfolding set_chain_head_def by (intro update_keeps) (simp_all add: text_update_def note_text_def)

lemma chain_keeps:
  "\<forall>r \<in> set records. may (kr_id r) \<Longrightarrow> op_keeps P (chain_loop_from M flt ev h rk payload version records)"
  by (induction records arbitrary: version) (auto intro!: keeps_intros head_keeps superseded_keeps)

lemma settle_keeps:
  assumes "\<forall>r \<in> set records. may (kr_id r)"
  shows "op_keeps P (settle_chain M flt ev apply_now records phase reason extra)"
proof -
  have "\<forall>r \<in> set (sort_chain_records records). may (kr_id r)"
    using assms by (simp add: sort_chain_records_def)
  then show ?thesis
    unfolding settle_chain_def apply_chain_update_def Let_def by (intro keeps_intros chain_keeps)
qed

lemma vector_chains_may:
  "\<forall>r \<in> set records. may (kr_id r) \<Longrightarrow>
   op_keeps P (vector_chains M flt ev threshold n apply_now layer records assigned acc)"
proof (induction records arbitrary: assigned acc)
  case Nil
  then show ?case by (cases acc) (auto intro: keeps_intros)
next
  case (Cons newer rest)
  obtain sofar made where acc: "acc = (sofar, made)" by (cases acc)
  obtain cluster assigned1 where c: "fold (extend_cluster threshold False newer) rest
      ([newer], kr_id newer # assigned) = (cluster, assigned1)" by fastforce
  from cluster_of_group [of threshold False newer rest "[newer]" "kr_id newer # assigned"]
  have "set cluster \<subseteq> set (newer # rest)" by (simp add: c)
  with Cons.prems have "\<forall>r \<in> set cluster. may (kr_id r)" by blast
  with Cons show ?case by (auto simp: acc c intro!: keeps_intros settle_keeps)
qed

lemma confidence_chains_may:
  "\<forall>c \<in> set cs. \<forall>r \<in> set c. may (kr_id r) \<Longrightarrow>
   op_keeps P (confidence_chains M flt ev n apply_now layer cs acc)"
proof (induction cs arbitrary: acc)
  case Nil
  then show ?case by (cases acc) (auto intro: keeps_intros)
next
  case (Cons c cs)
  then show ?case by (cases acc) (auto simp: Let_def intro!: keeps_intros settle_keeps)
qed

lemma over_layers_may:
  "\<forall>g \<in> set gs. \<forall>acc. op_keeps P (f g acc) \<Longrightarrow> op_keeps P (over_layers n f gs acc)"
  by (induction gs arbitrary: acc) (auto intro!: keeps_intros)

lemma candidates_may:
  "op_gives P (load_chain_vector_candidates M flt b) (\<lambda>ks. \<forall>k \<in> set ks. may (kr_id k))"
  unfolding load_chain_vector_candidates_def
  by (rule op_gives_query) (auto simp: chain_record_from_row_def intro!: may_read)

lemma layer_group_may: "\<forall>k \<in> set ks. may (kr_id k) \<Longrightarrow> g \<in> set (layer_groups ks) \<Longrightarrow>
   \<forall>k \<in> set (snd g). may (kr_id k)"
  by (auto simp: layer_groups_def)

lemma phase_b_keeps: "op_keeps P (phase_b_vector_chains M flt ev threshold n apply_now)"
  unfolding phase_b_vector_chains_def
proof (rule op_keeps_bind_given [OF load_vectors_keeps candidates_may])
  fix ks :: "chain_record list" assume ks: "\<forall>k \<in> set ks. may (kr_id k)"
  show "op_keeps P (op_bind (over_layers n (\<lambda>(layer, group_records) acc.
         vector_chains M flt ev threshold n apply_now layer group_records [] acc)
       (layer_groups ks) (0, [])) (\<lambda>acc. op_return (chains_report (length ks) acc)))"
    by (intro keeps_intros over_layers_may) (auto intro!: vector_chains_may dest!: layer_group_may [OF
        ks])
qed

lemma phase_c_keeps: "op_keeps P (phase_c_auto_supersede M flt ev threshold n apply_now)"
  unfolding phase_c_auto_supersede_def
proof (rule op_keeps_bind_given [OF load_vectors_keeps candidates_may])
  fix ks :: "chain_record list" assume ks: "\<forall>k \<in> set ks. may (kr_id k)"
  have "op_keeps P (confidence_chains M flt ev n apply_now layer (map snd (sort_key fst made)) acc)"
    if "(layer, rs) \<in> set (layer_groups ks)" "made = (if b then [] else fst (head_chains_of threshold rs
        ([], [])))"
    for layer rs made acc b
  proof (rule confidence_chains_may, intro ballI)
    fix c r assume "c \<in> set (map snd (sort_key fst made))" "r \<in> set c"
    moreover have "chains_within (set rs) (head_chains_of threshold rs ([], []))"
      by (rule head_chains_within) (simp_all add: chains_within_def)
    ultimately have "r \<in> set rs" using that(2) by (fastforce simp: chains_within_def split: if_splits)
    with layer_group_may [OF ks that(1)] show "may (kr_id r)" by simp
  qed
  then show "op_keeps P (op_bind (over_layers n (\<lambda>(layer, group_records) acc.
         let made = (if n \<le> fst acc then [] else fst (head_chains_of threshold group_records ([], [])))
         in confidence_chains M flt ev n apply_now layer (map snd (sort_key fst made)) acc)
       (layer_groups ks) (0, [])) (\<lambda>acc. op_return (chains_report (length ks) acc)))"
    unfolding Let_def by (intro keeps_intros over_layers_may) (auto simp del: sort_key_simps)
qed

lemma phase_a_keeps: "(\<And>i. may i) \<Longrightarrow> op_keeps P (phase_a_topic_chains M flt ev apply_now)"
  unfolding phase_a_topic_chains_def topic_chain_def split_beta Let_def
  by (intro keeps_intros settle_keeps) auto

lemma chain_command_keeps:
  "(\<And>i. may i) \<Longrightarrow> op_keeps P (run_consolidate_chain M flt ev threshold n apply_now)"
  unfolding run_consolidate_chain_def by (intro keeps_intros phase_a_keeps phase_b_keeps phase_c_keeps)

subsection \<open>Relations\<close>

lemma connect_keeps: "op_keeps P (run_consolidate_connect M flt ev opts)"
proof -
  have links: "op_keeps P (op_each (write_link M flt ev) (snd (connect_plan opts vectors orphans)))"
    for vectors orphans
    by (rule op_keeps_each_in)
      (auto simp: write_link_def intro!: keeps_intros supports_keeps ok_unit dest!: plan_from_orphans
        dest: orphan_link_unit)
  have "op_keeps P (process_connect_orphans M flt ev opts vectors orphans)" for vectors orphans
    using links [of vectors orphans] unfolding process_connect_orphans_def split_beta
    by (cases "co_apply opts") (auto intro!: op_keeps_bind op_keeps_return)
  then show ?thesis unfolding run_consolidate_connect_def by (intro keeps_intros)
qed

lemma create_keeps: "2 \<le> n \<Longrightarrow> op_keeps P (create_pair M flt ev apply_now a b n)"
  unfolding create_pair_def by (intro keeps_intros supports_keeps ok_unit initial_strength_unit)

lemma strengthen_pair_keeps: "ok new \<Longrightarrow> op_keeps P (strengthen_pair M flt ev apply_now a b n old new)"
  unfolding strengthen_pair_def
  by (intro keeps_intros op_keeps_exec) (auto simp: row_update_def intro!: relations intro: ok_read)

lemma hebbian_pair_keeps:
  assumes "2 \<le> n"
  shows "op_keeps P (hebbian_pair M flt ev apply_now (a, b, n) tally)"
proof -
  obtain i j ds where tally: "tally = (i, j, ds)" by (metis surj_pair)
  have found: "op_gives P (sql_query fault (\<lambda>db. find (joins a b) (note_relations db)))
      (\<lambda>e. \<forall>x. e = Some x \<longrightarrow> ok (rel_strength x))" for fault
    by (rule op_gives_query) (auto simp: find_Some_iff intro: ok_read)
  show ?thesis
    unfolding hebbian_pair_def tally prod.case
  proof (rule op_keeps_bind_given [OF op_keeps_query found])
    fix e :: "relation_row option" assume "\<forall>x. e = Some x \<longrightarrow> ok (rel_strength x)"
    then show "op_keeps P (case e of
        Some e \<Rightarrow>
          (let new = min (f64_add (rel_strength e) HEBBIAN_STRENGTH_DELTA) 1
           in if rel_strength e < new
              then op_bind (strengthen_pair M flt ev apply_now a b n (rel_strength e) new) (\<lambda>_.
                op_return (i + 1, j, ds @ [JObj
                  [(lit ''from_id'', JStr (prefix_chars (rel_from e) 12)),
                   (lit ''to_id'', JStr (prefix_chars (rel_to e) 12)),
                   (lit ''action'', JStr (lit ''strengthened'')), (lit ''old_strength'', JFloat (round4
                       (rel_strength e))),
                   (lit ''new_strength'', JFloat (round4 new)), (lit ''co_recall_count'', JInt (int n)),
                   (lit ''relation_type'', JStr (rel_type e))]]))
              else op_return (i, j, ds))
      | None \<Rightarrow>
          op_bind (sql_query (flt (CountPair a b)) (\<lambda>db.
            row_count (\<lambda>r. nr_id r \<in> {a, b} \<and> live_note r) (note_rows db))) (\<lambda>both_exist.
          if both_exist = 2
          then op_bind (create_pair M flt ev apply_now a b n) (\<lambda>_.
            op_return (i, j + 1, ds @ [JObj
              [(lit ''from_id'', JStr (prefix_chars a 12)), (lit ''to_id'', JStr (prefix_chars b 12)),
               (lit ''action'', JStr (lit ''created'')), (lit ''strength'', JFloat (round4
                   (initial_strength n))),
               (lit ''co_recall_count'', JInt (int n))]]))
          else op_return (i, j, ds)))"
      by (cases e) (auto simp: Let_def
        intro!: op_keeps_bind op_keeps_return op_keeps_query op_keeps_If strengthen_pair_keeps
            create_keeps assms ok_more)
  qed
qed

lemma hebbian_pairs_keeps:
  "\<forall>(a, b, n) \<in> set ps. 2 \<le> n \<Longrightarrow> op_keeps P (hebbian_pairs M flt ev apply_now ps tally)"
proof (induction ps arbitrary: tally)
  case (Cons p ps)
  obtain a b n where p: "p = (a, b, n)" by (metis surj_pair)
  with Cons.prems have "2 \<le> n" by simp
  with Cons p show ?case by (auto intro!: op_keeps_bind hebbian_pair_keeps)
qed (simp add: op_keeps_return)

lemma hebbian_keeps: "op_keeps P (run_synapse_hebbian M flt ev n apply_now)"
  unfolding run_synapse_hebbian_def
  by (rule op_keeps_bind_given [OF co_recalled_keeps recalled_twice]) (intro keeps_intros
      hebbian_pairs_keeps)

lemma delete_keeps: "op_keeps P (delete_relation M flt ev e)"
  unfolding delete_relation_def
  by (intro keeps_intros op_keeps_exec) (auto simp: row_delete_def intro!: relations intro: ok_read)

lemma prune_weak_keeps: "op_keeps P (prune_weak M flt ev apply_now n rows tally)"
  by (induction rows arbitrary: tally) (auto simp: split_paired_all intro!: keeps_intros delete_keeps)

lemma pruning_keeps: "op_keeps P (run_synapse_pruning M flt ev n apply_now)"
  unfolding run_synapse_pruning_def by (intro keeps_intros prune_weak_keeps)

lemma bridging_keeps: "op_keeps P (run_synapse_bridging M flt ev n apply_now)"
proof -
  have "op_keeps P (write_bridge M flt ev b)" for b
    using f64_lit_bounds [of "0.3"] unfolding write_bridge_def split_beta
    by (intro keeps_intros supports_keeps ok_unit) (simp add: unit_strength_def)
  then show ?thesis unfolding run_synapse_bridging_def by (intro keeps_intros)
qed

lemma synapse_keeps: "op_keeps P (consolidate_synapse M flt ev n m k apply_now)"
  unfolding consolidate_synapse_def by (intro keeps_intros hebbian_keeps pruning_keeps bridging_keeps)

end

section \<open>What the commands leave alone\<close>

interpretation texts: maint_invariant "\<lambda>db. map note_text (note_rows db) = ts" "\<lambda>i. True" "\<lambda>s. True" for
    ts
  by unfold_locales (auto simp: row_update_def text_update_def)

interpretation strengths: maint_invariant "\<lambda>db. \<forall>e \<in> set (note_relations db). unit_strength
    (rel_strength e)"
    "\<lambda>i. True" unit_strength
  using f64_lit_bounds [of "0.1"]
  by unfold_locales
    (auto simp: unit_strength_def HEBBIAN_STRENGTH_DELTA_def f64_add_def round64_nonneg min_def)

definition constitution :: "note_row list \<Rightarrow> note_row list" where
  "constitution rows = filter (\<lambda>r. nr_layer r = lit ''identity_schema'') rows"

definition constitution_is :: "note_row list \<Rightarrow> 'a notes_db_scheme \<Rightarrow> bool" where
  "constitution_is R db \<longleftrightarrow> keys_ok nr_id (note_rows db) \<and> constitution (note_rows db) = R"

lemma text_update_fields: "text_update f \<Longrightarrow> nr_id (f r) = nr_id r \<and> nr_layer (f r) = nr_layer r"
  by (simp add: text_update_def note_text_def)

lemma constitution_update:
  assumes "text_update f" "\<forall>r. Q r \<longrightarrow> nr_id r \<notin> nr_id ` set (constitution rows)"
  shows "constitution (row_update Q f rows) = constitution rows"
  using assms(2)
proof (induction rows)
  case (Cons r rows)
  then have rest: "constitution (row_update Q f rows) = constitution rows"
    by (auto simp: constitution_def split: if_splits)
  have "nr_layer r = lit ''identity_schema'' \<Longrightarrow> \<not> Q r" using Cons.prems by (auto simp: constitution_def)
  with rest show ?case
    using text_update_fields [OF assms(1), of r] by (simp add: constitution_def row_update_def del:
        lit_simps)
qed (simp add: constitution_def row_update_def)

lemma other_note_free:
  assumes "keys_ok nr_id rows" "r \<in> set rows" "nr_layer r \<noteq> lit ''identity_schema''"
  shows "nr_id r \<notin> nr_id ` set (constitution rows)"
proof
  assume "nr_id r \<in> nr_id ` set (constitution rows)"
  then obtain q where q: "q \<in> set rows" "nr_layer q = lit ''identity_schema''" "nr_id q = nr_id r"
    by (auto simp: constitution_def)
  with assms(1,2) have "q = r" by (metis keys_ok_def distinct_map inj_onD)
  with q(2) assms(3) show False by simp
qed

interpretation rules: maint_invariant "constitution_is R" "\<lambda>i. i \<notin> nr_id ` set R" "\<lambda>s. True" for R
proof
  fix db :: "'a maint_db_scheme" and Q :: "note_row \<Rightarrow> bool" and f
  assume db: "constitution_is R db" and free: "\<forall>r. Q r \<longrightarrow> nr_id r \<notin> nr_id ` set R" and f: "text_update f"
  have "keys_ok nr_id (row_update Q f (note_rows db))"
    using db text_update_fields [OF f] by (intro keys_ok_update) (auto simp: constitution_is_def)
  with db constitution_update [OF f, of Q "note_rows db"] free
  show "constitution_is R (db\<lparr>note_rows := row_update Q f (note_rows db)\<rparr>)"
    by (simp add: constitution_is_def)
next
  fix db :: "'a maint_db_scheme" and r
  assume "constitution_is R db" "r \<in> set (note_rows db)" "nr_layer r \<noteq> lit ''identity_schema''"
  then show "nr_id r \<notin> nr_id ` set R" using other_note_free by (auto simp: constitution_is_def)
qed (simp_all add: constitution_is_def)

lemma texts_of_update: "text_update f \<Longrightarrow> map note_text (row_update Q f rows) = map note_text rows"
  by (simp add: row_update_def text_update_def)

lemma expiry_keeps_texts:
  "map note_text (note_rows (fst (expire_unconfirmed_candidates M flt now db))) = map note_text
      (note_rows db)"
proof -
  have "op_keeps (\<lambda>d. map note_text (note_rows d) = map note_text (note_rows db))
      (expire_unconfirmed_candidates M flt now)"
    unfolding expire_unconfirmed_candidates_def ensure_notes_trust_columns_def Let_def
    by (intro op_keeps_bind op_keeps_exec) (simp_all add: texts_of_update text_update_def note_text_def)
  from op_keepsD [OF this refl] show ?thesis .
qed

text \<open>
  Consolidation never edits a memory: whatever a command does, applied or not and wherever it
  fails, the table has the same notes in the same order, each with its text, layer, project, source,
  date, confirmation and vector.
\<close>

theorem consolidation_keeps_every_text:
  fixes db :: "'a maint_db_scheme"
  shows "(\<lambda>d. map note_text (note_rows d)) `
    {fst (consolidate_strengthen M flt ev a n db), fst (consolidate_prune M flt ev a n db),
     fst (detect_accuracy_stale_events M flt ev a n db), fst (run_consolidate_chain M flt ev threshold n
         a db),
     fst (run_consolidate_connect M flt ev opts db), fst (consolidate_synapse M flt ev n m k a db),
     fst (expire_unconfirmed_candidates M flt now db)} = {map note_text (note_rows db)}"
proof -
  have kept: "map note_text (note_rows (fst (c db))) = map note_text (note_rows db)"
    if "op_keeps (\<lambda>d. map note_text (note_rows d) = map note_text (note_rows db)) c"
    for c :: "('a maint_db_scheme, sql_error, 'b) op"
    using op_keepsD [OF that] by simp
  show ?thesis
    by (simp add: expiry_keeps_texts kept texts.strengthen_keeps texts.prune_keeps texts.stale_keeps
      texts.chain_command_keeps texts.connect_keeps texts.synapse_keeps)
qed

text \<open>
  Where all relations have strengths in the unit interval, they do after any command, applied or
  not and wherever it fails.
\<close>

theorem consolidation_keeps_strengths_in_unit:
  fixes db :: "'a maint_db_scheme"
  assumes "\<forall>e \<in> set (note_relations db). unit_strength (rel_strength e)"
    and "db' \<in> {fst (run_consolidate_connect M flt ev opts db), fst (consolidate_synapse M flt ev n m k
        a db),
      fst (run_consolidate_chain M flt ev threshold n a db)}"
    and "e \<in> set (note_relations db')"
  shows "unit_strength (rel_strength e)"
proof -
  have "\<forall>e \<in> set (note_relations db'). unit_strength (rel_strength e)"
    using assms(2) op_keepsD [OF strengths.connect_keeps assms(1)] op_keepsD [OF strengths.synapse_keeps
        assms(1)]
      op_keepsD [OF strengths.chain_command_keeps assms(1)] by auto
  with assms(3) show ?thesis by blast
qed

text \<open>
  The constitution outlives consolidation, but for the chains of phase A: whatever the other
  commands do and wherever they fail, every rule of the layer is the row it was.
\<close>

theorem consolidation_spares_the_constitution:
  fixes db :: "'a maint_db_scheme"
  assumes "keys_ok nr_id (note_rows db)"
    and "db' \<in> {fst (consolidate_strengthen M flt ev a n db), fst (consolidate_prune M flt ev a n db),
      fst (detect_accuracy_stale_events M flt ev a n db), fst (phase_b_vector_chains M flt ev threshold
          n a db),
      fst (phase_c_auto_supersede M flt ev threshold n a db), fst (run_consolidate_connect M flt ev opts
          db),
      fst (consolidate_synapse M flt ev n m k a db)}"
  shows "constitution (note_rows db') = constitution (note_rows db)"
proof -
  have start: "constitution_is (constitution (note_rows db)) db" using assms(1) by (simp add:
      constitution_is_def)
  have "constitution_is (constitution (note_rows db)) db'"
    using assms(2) by (auto intro!: op_keepsD [where P = "constitution_is (constitution (note_rows
        db))"] start
      rules.strengthen_keeps rules.prune_keeps
      rules.stale_keeps rules.phase_b_keeps rules.phase_c_keeps rules.connect_keeps rules.synapse_keeps)
  then show ?thesis by (simp add: constitution_is_def)
qed

end
