(* ===== verification/Consolidate_Effects.thy ===== *)
theory Consolidate_Effects
  imports Consolidate_Laws
begin

text \<open>
  What single commands do: a chain gets one head and consecutive versions, strengthening only raises a
  confidence, pruning retires unused notes that stand alone, and new links join orphans to similar
  notes.
\<close>

section \<open>A chain has one head\<close>

text \<open>The row of a chained note after the update, with its version.\<close>

definition chained_row :: "maint_lib \<Rightarrow> maint_env \<Rightarrow> ustr \<Rightarrow> ustr \<Rightarrow> int \<Rightarrow> note_row \<Rightarrow> note_row" where
  "chained_row M ev head_id root_id version r =
     (if nr_id r = head_id
      then r\<lparr>nr_root_id := Some root_id, nr_version := Some version, nr_is_head := Some 1,
             nr_evolution_state := Some (lit ''active''), nr_updated_at := Some (me_rfc3339 ev)\<rparr>
      else case ml_json_set M (case nr_metadata_json r of None \<Rightarrow> lit ''{}'' | Some t \<Rightarrow> t)
                  (lit ''$.superseded_by'') head_id of
             Inl e \<Rightarrow> r
           | Inr meta \<Rightarrow>
               r\<lparr>nr_root_id := Some root_id, nr_version := Some version,
                 nr_evolution_state := Some (lit ''superseded''), nr_is_head := Some 0,
                 nr_metadata_json := Some meta, nr_updated_at := Some (me_rfc3339 ev)\<rparr>)"

lemma chained_row_id [simp]: "nr_id (chained_row M ev h rk v r) = nr_id r"
  by (simp add: chained_row_def split: sum.split)

text \<open>\<open>json_set\<close> works on the metadata of a row.\<close>

definition settable :: "maint_lib \<Rightarrow> ustr \<Rightarrow> note_row \<Rightarrow> bool" where
  "settable M head_id r \<longleftrightarrow>
     (\<exists>meta. ml_json_set M (case nr_metadata_json r of None \<Rightarrow> lit ''{}'' | Some t \<Rightarrow> t)
         (lit ''$.superseded_by'') head_id
        = Ok meta)"

lemma row_update_same:
  assumes "keys_ok nr_id rows" "row_get nr_id i rows = Some r" "f r = g r"
  shows "row_update (\<lambda>r. nr_id r = i) f rows = row_update (\<lambda>r. nr_id r = i) g rows"
proof -
  have "q = r" if "q \<in> set rows" "nr_id q = i" for q
    using row_get_in [OF assms(1) that(1)] that(2) assms(2) by simp
  with assms(3) show ?thesis by (auto simp: row_update_def)
qed

text \<open>The statements on one record, with no fault.\<close>

lemma superseded_runs:
  assumes "keys_ok nr_id (note_rows db)" "row_get nr_id i (note_rows db) = Some r" "settable M h r" "i \<noteq>
      h"
  shows "set_chain_superseded M no_faults ev rk v h i db =
    (db\<lparr>note_rows := row_update (\<lambda>r. nr_id r = i) (chained_row M ev h rk v) (note_rows db)\<rparr>, Ok ())"
proof -
  obtain meta where meta: "ml_json_set M (case nr_metadata_json r of None \<Rightarrow> lit ''{}'' | Some t \<Rightarrow> t)
      (lit ''$.superseded_by'') h = Ok meta"
    using assms(3) by (auto simp: settable_def)
  have "nr_id r = i" using row_get_SomeD [OF assms(2)] by simp
  let ?f = "\<lambda>r. r\<lparr>nr_root_id := Some rk, nr_version := Some v, nr_evolution_state := Some
      (lit ''superseded''),
        nr_is_head := Some 0, nr_metadata_json := Some meta, nr_updated_at := Some (me_rfc3339 ev)\<rparr>"
  from \<open>nr_id r = i\<close> meta assms(4) have "?f r = chained_row M ev h rk v r"
    by (simp add: chained_row_def del: lit_simps)
  with row_update_same [OF assms(1,2), of ?f "chained_row M ev h rk v"] meta show ?thesis
    by (simp add: set_chain_superseded_def assms(2) update_note_def no_faults_def op_simps del:
        lit_simps)
qed

lemma head_runs:
  assumes "keys_ok nr_id (note_rows db)"
  shows "set_chain_head no_faults ev rk v h db =
    (db\<lparr>note_rows := row_update (\<lambda>r. nr_id r = h) (chained_row M ev h rk v) (note_rows db)\<rparr>, Ok ())"
  by (auto simp: set_chain_head_def update_note_def no_faults_def op_simps row_update_def
      chained_row_def
    simp del: lit_simps)

fun chain_rows ::
  "maint_lib \<Rightarrow> maint_env \<Rightarrow> ustr \<Rightarrow> ustr \<Rightarrow> int \<Rightarrow> ustr list \<Rightarrow> note_row list \<Rightarrow> note_row list" where
  "chain_rows M ev h rk v [] rows = rows"
| "chain_rows M ev h rk v (i # ids) rows =
     chain_rows M ev h rk (v + 1) ids (row_update (\<lambda>r. nr_id r = i) (chained_row M ev h rk v) rows)"

definition chainable :: "maint_lib \<Rightarrow> ustr \<Rightarrow> ustr list \<Rightarrow> note_row list \<Rightarrow> bool" where
  "chainable M h ids rows \<longleftrightarrow>
     (\<forall>i \<in> set ids. \<exists>r. row_get nr_id i rows = Some r \<and> (i \<noteq> h \<longrightarrow> settable M h r))"

lemma chain_loop_runs:
  assumes "keys_ok nr_id (note_rows db)" "distinct (map kr_id records)"
    and "chainable M h (map kr_id records) (note_rows db)" "\<forall>j. jl_print (ml_json M) j \<noteq> None"
  shows "\<exists>db'. chain_loop_from M no_faults ev h rk payload v records db =
      (db', Ok (filter (\<lambda>i. i \<noteq> h) (map kr_id records))) \<and>
    note_rows db' = chain_rows M ev h rk v (map kr_id records) (note_rows db)"
  using assms(1-3)
proof (induction records arbitrary: v db)
  case Nil
  then show ?case by (simp add: op_return_def)
next
  case (Cons k records)
  let ?i = "kr_id k"
  let ?rows = "row_update (\<lambda>r. nr_id r = ?i) (chained_row M ev h rk v) (note_rows db)"
  have keys: "keys_ok nr_id ?rows" using Cons.prems(1) by (intro keys_ok_update) simp_all
  have "chainable M h (map kr_id records) ?rows"
    unfolding chainable_def
  proof
    fix j assume j: "j \<in> set (map kr_id records)"
    with Cons.prems(2) have "j \<noteq> ?i" by (metis distinct.simps(2) list.simps(9))
    with Cons.prems(3) j show "\<exists>r. row_get nr_id j ?rows = Some r \<and> (j \<noteq> h \<longrightarrow> settable M h r)"
      by (auto simp: chainable_def row_get_update_key)
  qed
  have rest: "distinct (map kr_id records)" using Cons.prems(2) by simp
  obtain r where r: "row_get nr_id ?i (note_rows db) = Some r" "?i \<noteq> h \<longrightarrow> settable M h r"
    using Cons.prems(3) by (auto simp: chainable_def)
  show ?case
  proof (cases "?i = h")
    case True
    let ?db = "db\<lparr>note_rows := ?rows\<rparr>"
    have "keys_ok nr_id (note_rows ?db)" "chainable M h (map kr_id records) (note_rows ?db)"
      "note_rows ?db = ?rows"
      using keys \<open>chainable M h (map kr_id records) ?rows\<close> by simp_all
    with Cons.IH [OF this(1) rest this(2), of "v + 1"] obtain db' where
      "chain_loop_from M no_faults ev h rk payload (v + 1) records ?db =
        (db', Ok (filter (\<lambda>i. i \<noteq> h) (map kr_id records)))"
      "note_rows db' = chain_rows M ev h rk (v + 1) (map kr_id records) ?rows"
      by metis
    with True head_runs [OF Cons.prems(1), of ev rk v h M] show ?thesis
      by (intro exI [of _ db']) (simp add: op_bind_def no_faults_def [abs_def])
  next
    case False
    obtain t where t: "jl_print (ml_json M) (payload v) = Some t" using assms(4) by blast
    let ?db = "db\<lparr>note_rows := ?rows, note_events := note_events db @ [\<lparr>ne_note_id = ?i,
       ne_event_type = lit ''consolidation_chain'', ne_related_note_id = Some h, ne_payload_json = Some
           t,
       ne_created_at = me_sql_now ev\<rparr>]\<rparr>"
    have "keys_ok nr_id (note_rows ?db)" "chainable M h (map kr_id records) (note_rows ?db)"
      "note_rows ?db = ?rows"
      using keys \<open>chainable M h (map kr_id records) ?rows\<close> by simp_all
    with Cons.IH [OF this(1) rest this(2), of "v + 1"] obtain db' where
      "chain_loop_from M no_faults ev h rk payload (v + 1) records ?db =
        (db', Ok (filter (\<lambda>i. i \<noteq> h) (map kr_id records)))"
      "note_rows db' = chain_rows M ev h rk (v + 1) (map kr_id records) ?rows"
      by metis
    with False superseded_runs [OF Cons.prems(1) r(1), of M h ev rk v] r(2) t show ?thesis
      by (intro exI [of _ db'])
        (simp add: op_bind_def log_related_consolidation_event_def no_faults_def [abs_def] op_simps
            op_return_def
          del: lit_simps)
  qed
qed

lemma chain_rows_other: "i \<notin> set ids \<Longrightarrow> row_get nr_id i (chain_rows M ev h rk v ids rows) = row_get nr_id
    i rows"
  by (induction ids arbitrary: v rows) (simp_all add: row_get_update_key)

lemma chain_rows_at:
  "distinct ids \<Longrightarrow> k < length ids \<Longrightarrow>
   row_get nr_id (ids ! k) (chain_rows M ev h rk v ids rows) =
     map_option (chained_row M ev h rk (v + int k)) (row_get nr_id (ids ! k) rows)"
proof (induction ids arbitrary: k v rows)
  case (Cons i ids)
  show ?case
  proof (cases k)
    case 0
    with Cons.prems show ?thesis by (simp add: chain_rows_other row_get_update_key)
  next
    case (Suc j)
    with Cons show ?thesis by (auto simp: row_get_update_key algebra_simps)
  qed
qed simp

text \<open>
  A chain gets one head: the newest record, and the identifiers break ties. Every other record is
  superseded by it; all share the root, their versions count from 1 in the order of their dates, and no
  other note is touched.
\<close>

theorem chain_update_leaves_one_head:
  fixes db :: "'a maint_db_scheme"
  assumes ids: "ids = map kr_id (sort_chain_records records)"
    and "keys_ok nr_id (note_rows db)" "distinct (map kr_id records)" "2 \<le> length records"
    and "length (distinct_nonempty_root_ids records) \<le> 1"
    and "chainable M (last ids) (map kr_id records) (note_rows db)" "\<forall>j. jl_print (ml_json M) j \<noteq> None"
  shows "\<exists>db'. apply_chain_update M no_faults ev records phase reason extra db =
      (db', Ok (last ids, butlast ids, canonical_chain_root_id records)) \<and>
    (\<forall>k r. k < length ids \<longrightarrow> row_get nr_id (ids ! k) (note_rows db) = Some r \<longrightarrow>
       row_get nr_id (ids ! k) (note_rows db') =
         Some (chained_row M ev (last ids) (canonical_chain_root_id records) (int k + 1) r)) \<and>
    (\<forall>i. i \<notin> set ids \<longrightarrow> row_get nr_id i (note_rows db') = row_get nr_id i (note_rows db))"
proof -
  let ?h = "last ids" and ?rk = "canonical_chain_root_id records"
  have set_ids: "set ids = set (map kr_id records)" by (simp add: ids sort_chain_records_def)
  have dist: "distinct ids"
    using assms(3) unfolding ids sort_chain_records_def distinct_map by (simp add: inj_on_def)
  have len: "length ids = length records" by (simp add: ids sort_chain_records_def)
  with assms(4) have "ids \<noteq> []" by auto
  then have last: "last ids = kr_id (last (sort_chain_records records))" by (simp add: ids last_map)
  have "ids = butlast ids @ [last ids]" using \<open>ids \<noteq> []\<close> by simp
  then obtain older h where snoc: "ids = older @ [h]" by blast
  with dist have "h \<notin> set older" by simp
  then have "filter (\<lambda>i. i \<noteq> h) older = older" by (auto intro: filter_True)
  with snoc have heads: "filter (\<lambda>i. i \<noteq> ?h) ids = butlast ids" by simp
  have chain: "chainable M ?h (map kr_id (sort_chain_records records)) (note_rows db)"
    using assms(6) set_ids unfolding chainable_def ids by simp
  have "\<exists>db'. chain_loop_from M no_faults ev ?h ?rk
      (\<lambda>version. chain_payload phase reason ?rk version extra) 1 (sort_chain_records records) db =
      (db', Ok (filter (\<lambda>i. i \<noteq> ?h) ids)) \<and> note_rows db' = chain_rows M ev ?h ?rk 1 ids (note_rows db)"
    unfolding ids by (rule chain_loop_runs [OF assms(2) dist [unfolded ids] chain [unfolded ids]
        assms(7)])
  then obtain db' where loop: "chain_loop_from M no_faults ev ?h ?rk
      (\<lambda>version. chain_payload phase reason ?rk version extra) 1 (sort_chain_records records) db =
      (db', Ok (butlast ids))" and rows: "note_rows db' = chain_rows M ev ?h ?rk 1 ids (note_rows db)"
    unfolding heads by blast
  have "apply_chain_update M no_faults ev records phase reason extra db = (db', Ok (?h, butlast ids,
      ?rk))"
    using loop assms(4,5) by (simp add: apply_chain_update_def Let_def last op_bind_def op_return_def)
  moreover have "row_get nr_id (ids ! k) (note_rows db') = Some (chained_row M ev ?h ?rk (int k + 1) r)"
    if "k < length ids" "row_get nr_id (ids ! k) (note_rows db) = Some r" for k r
    using chain_rows_at [OF dist that(1), of M ev ?h ?rk 1 "note_rows db"] that(2) by (simp add: rows
        add.commute)
  moreover have "row_get nr_id i (note_rows db') = row_get nr_id i (note_rows db)" if "i \<notin> set ids" for
      i
    using chain_rows_other [OF that] by (simp add: rows)
  ultimately show ?thesis by blast
qed

section \<open>Pruning retires old, lone, unused notes\<close>

text \<open>No other live note is in the lineage, as the command looks for them.\<close>

definition alone_in_lineage :: "note_row list \<Rightarrow> note_row \<Rightarrow> bool" where
  "alone_in_lineage rows r =
     (case nonblank (nr_root_id r) of
        Some rk \<Rightarrow> \<not> list_ex (\<lambda>q. nr_id q \<noteq> nr_id r \<and> live_note q \<and> nr_root_id q = Some rk) rows
      | None \<Rightarrow>
          (case nonblank (nr_topic_key r) of
             Some t \<Rightarrow> \<not> list_ex (\<lambda>q. nr_id q \<noteq> nr_id r \<and> live_note q \<and> nr_topic_key q = Some t \<and>
                           text_or_empty (nr_root_id q) = []) rows
           | None \<Rightarrow> True))"

definition prunable :: "maint_lib \<Rightarrow> maint_env \<Rightarrow> 'a maint_db_scheme \<Rightarrow> note_row \<Rightarrow> bool" where
  "prunable M ev db r \<longleftrightarrow>
     r \<in> set (note_rows db) \<and> live_note r \<and> nr_layer r \<noteq> lit ''identity_schema'' \<and> stat_or_zero
         (recalls_of db r) = 0 \<and>
     (case nr_confidence r of None \<Rightarrow> f64_lit 0.5 | Some c \<Rightarrow> c) < f64_lit 0.8 \<and>
     (\<exists>d. age_in_days M ev (nr_created_at r) = Some d \<and> 180 < d) \<and> alone_in_lineage (note_rows db) r"

definition changed_notes :: "'a notes_db_scheme \<Rightarrow> 'a notes_db_scheme \<Rightarrow> ustr set" where
  "changed_notes db db' = {i. row_get nr_id i (note_rows db') \<noteq> row_get nr_id i (note_rows db)}"

text \<open>The state after an operation that begins by reading.\<close>

lemma read_then:
  "op_keeps (\<lambda>d. d = s) m \<Longrightarrow>
   fst (op_bind m f s) = (case snd (m s) of Inl e \<Rightarrow> s | Inr x \<Rightarrow> fst (f x s))"
  using op_keepsD [of "\<lambda>d. d = s" m s] by (simp add: op_bind_cases split: sum.split)

lemma query_answer: "snd (sql_query fault g s) = Inr x \<Longrightarrow> x = g s"
  by (cases fault) (simp_all add: op_simps)

lemma deprecate_changes: "i \<noteq> fst c \<Longrightarrow>
   op_keeps (\<lambda>d. row_get nr_id i (note_rows d) = x) (deprecate_note M flt ev kind reason c)"
  unfolding deprecate_note_def update_note_def log_consolidation_event_def
    log_related_consolidation_event_def split_beta
  by (intro keeps_intros op_keeps_exec) (simp_all add: row_get_update_key)

lemma retire_changes:
  "changed_notes db (fst (retire_report M flt ev kind reason a n cs db)) \<subseteq> fst ` set (take n cs)"
proof
  fix i assume i: "i \<in> changed_notes db (fst (retire_report M flt ev kind reason a n cs db))"
  show "i \<in> fst ` set (take n cs)"
  proof (rule ccontr)
    assume "i \<notin> fst ` set (take n cs)"
    then have "op_keeps (\<lambda>d. row_get nr_id i (note_rows d) = row_get nr_id i (note_rows db))
        (retire_report M flt ev kind reason a n cs)"
      unfolding retire_report_def Let_def
      by (intro keeps_intros op_keeps_each_in deprecate_changes) auto
    from op_keepsD [OF this refl] i show False by (simp add: changed_notes_def)
  qed
qed

lemma siblings_alone:
  "op_gives (\<lambda>d. d = db)
     (note_has_active_lineage_siblings flt (nr_id r) (nonblank (nr_root_id r)) (nonblank (nr_topic_key
         r)))
     (\<lambda>b. \<not> b \<longrightarrow> alone_in_lineage (note_rows db) r)"
  by (auto simp: note_has_active_lineage_siblings_def alone_in_lineage_def row_count_0 list_ex_iff
    intro!: op_gives_query op_gives_return split: option.split)

lemma prune_candidates_prunable:
  assumes "\<forall>r \<in> set rows. r \<in> set (prune_rows db)"
  shows "op_gives (\<lambda>d. d = db) (prune_candidates M flt ev canonical rows)
    (\<lambda>cs. \<forall>c \<in> set cs. fst c \<in> nr_id ` {r. prunable M ev db r})"
  using assms
proof (induction rows)
  case Nil
  then show ?case by (simp add: op_gives_return)
next
  case (Cons r rows)
  let ?Q = "\<lambda>cs. \<forall>c \<in> set cs. fst c \<in> nr_id ` {r. prunable M ev db r}"
  have more: "op_gives (\<lambda>d. d = db) (prune_candidates M flt ev canonical rows) ?Q"
    using Cons by simp
  have add: "op_gives (\<lambda>d. d = db) (op_bind (prune_candidates M flt ev canonical rows)
      (\<lambda>more_rows. op_return ((nr_id r, age, detail) # more_rows))) ?Q"
    if "alone_in_lineage (note_rows db) r" "age_in_days M ev (nr_created_at r) = Some age" "180 < age"
        for age detail
  proof (rule op_gives_bind [OF prune_candidates_keeps more])
    have "prunable M ev db r" using that Cons.prems by (auto simp: prunable_def prune_rows_def)
    then show "op_gives (\<lambda>d. d = db) (op_return ((nr_id r, age, detail) # cs)) ?Q" if "?Q cs" for cs
      using that by (auto intro!: op_gives_return)
  qed
  show ?case
  proof (cases "nr_id r \<in> canonical")
    case True
    have "op_gives (\<lambda>d. d = db) (case age_in_days M ev (nr_created_at r) of
        Some age_days \<Rightarrow>
          if \<not> b \<and> 180 < age_days
          then op_bind (prune_candidates M flt ev canonical rows) (\<lambda>more_rows.
            op_return ((nr_id r, age_days, prune_detail r age_days) # more_rows))
          else prune_candidates M flt ev canonical rows
      | None \<Rightarrow> prune_candidates M flt ev canonical rows) ?Q"
      if "\<not> b \<longrightarrow> alone_in_lineage (note_rows db) r" for b
      using that more add by (cases "age_in_days M ev (nr_created_at r)") auto
    with True show ?thesis by (auto intro!: op_gives_bind [OF siblings_keeps siblings_alone])
  qed (use more in simp)
qed

text \<open>
  C29. Pruning retires nothing that is in use: whatever fails, the notes it changes are at most as many
  as asked for, and each was a live note outside the constitution, never recalled, of a confidence
  below 0.8, dated more than 180 days ago, and the only live note of its lineage.
\<close>

theorem pruning_retires_only_unused_notes:
  "card (changed_notes db (fst (consolidate_prune M flt ev a n db))) \<le> n \<and>
   changed_notes db (fst (consolidate_prune M flt ev a n db)) \<subseteq> nr_id ` {r. prunable M ev db r}"
proof -
  let ?db' = "fst (consolidate_prune M flt ev a n db)"
  consider "?db' = db" | canonical cs where "snd (prune_candidates M flt ev canonical (prune_rows db)
      db) = Inr cs"
      "?db' = fst (retire_report M flt ev (lit ''consolidation_prune'')
        (lit ''recall_count==0, age>90d, confidence<0.8'') a n cs db)"
  proof -
    note reads = read_then [OF canonical_keeps] read_then [OF op_keeps_query] read_then [OF
        prune_candidates_keeps]
    show ?thesis
    proof (cases "snd (canonical_active_note_ids flt db)")
      case (Inl e)
      then show ?thesis by (intro that(1)) (simp add: consolidate_prune_def reads)
    next
      case canonical: (Inr canonical)
      show ?thesis
      proof (cases "snd (sql_query (flt SelectPrune) prune_rows db)")
        case (Inl e)
        with canonical show ?thesis by (intro that(1)) (simp add: consolidate_prune_def reads)
      next
        case (Inr rows)
        have rows: "rows = prune_rows db" by (rule query_answer [OF Inr])
        show ?thesis
        proof (cases "snd (prune_candidates M flt ev canonical rows db)")
          case (Inl e)
          with canonical Inr show ?thesis by (intro that(1)) (simp add: consolidate_prune_def reads)
        next
          case found: (Inr cs)
          from found [unfolded rows] show ?thesis
            by (rule that(2)) (use canonical Inr found in \<open>simp add: consolidate_prune_def reads\<close>)
        qed
      qed
    qed
  qed
  then show ?thesis
  proof cases
    case 1
    then show ?thesis by (simp add: changed_notes_def)
  next
    case 2
    note sub = retire_changes [of db M flt ev "lit ''consolidation_prune''"
        "lit ''recall_count==0, age>90d, confidence<0.8''" a n cs, folded 2(2)]
    have "card (fst ` set (take n cs)) \<le> length (take n cs)" by (meson card_image_le card_length
        finite_set le_trans)
    with card_mono [OF _ sub] have "card (changed_notes db ?db') \<le> n" by simp
    moreover have "\<forall>c \<in> set cs. fst c \<in> nr_id ` {r. prunable M ev db r}"
      using prune_candidates_prunable [of "prune_rows db" db M flt ev canonical] 2(1)
      by (auto simp: op_gives_def)
    then have "fst ` set cs \<subseteq> nr_id ` {r. prunable M ev db r}" by (simp add: image_subset_iff)
    with sub have "changed_notes db ?db' \<subseteq> nr_id ` {r. prunable M ev db r}"
      by (meson image_mono set_take_subset subset_trans)
    ultimately show ?thesis by (rule conjI)
  qed
qed

section \<open>Strengthening only raises\<close>

definition confidence_of :: "note_row \<Rightarrow> f64" where
  "confidence_of r = (case nr_confidence r of None \<Rightarrow> f64_lit 0.5 | Some c \<Rightarrow> c)"

lemma strengthened_range:
  "old \<le> strengthened_confidence n k old \<and> strengthened_confidence n k old \<le> max old (f64_lit 0.99)"
proof -
  have "f64_lit 0.95 \<le> f64_lit 0.99" by (rule f64_lit_mono) simp
  then have "old \<le> recall_floor n old \<and> recall_floor n old \<le> max old (f64_lit 0.99)"
    by (auto simp: recall_floor_def)
  then show ?thesis by (auto simp: strengthened_confidence_def Let_def support_boost_def)
qed

lemma strengthen_one_keeps:
  assumes "\<forall>r. C r \<longrightarrow> nr_id r = sc_id c \<longrightarrow> C (r\<lparr>nr_confidence := Some (sc_new_confidence c), nr_updated_at
      := u\<rparr>)"
    and "\<forall>r t. C r \<longrightarrow> C (r\<lparr>nr_metadata_json := t\<rparr>)" "u = Some (me_rfc3339 ev)"
  shows "op_keeps (\<lambda>d. \<forall>r \<in> set (note_rows d). C r) (strengthen_one M flt ev c)"
  using assms
  unfolding strengthen_one_def update_note_def log_consolidation_event_def
      log_related_consolidation_event_def
  by (intro keeps_intros op_keeps_exec) (auto simp: row_update_def)

text \<open>
  Strengthening never lowers: whatever fails, after it a note has the confidence it had or a higher
  one, and above its old value at most 0.99.
\<close>

theorem strengthening_only_raises:
  assumes "keys_ok nr_id (note_rows db)" "r \<in> set (note_rows db)"
    and "q \<in> set (note_rows (fst (consolidate_strengthen M flt ev a n db)))" "nr_id q = nr_id r"
  shows "confidence_of r \<le> confidence_of q \<and> confidence_of q \<le> max (confidence_of r) (f64_lit 0.99)"
proof -
  let ?cands = "\<lambda>canonical. List.map_filter (strengthen_row M db)
       (filter (\<lambda>r. nr_id r \<in> canonical) (strengthen_rows db))"
  let ?C = "\<lambda>q. nr_id q = nr_id r \<longrightarrow>
    confidence_of r \<le> confidence_of q \<and> confidence_of q \<le> max (confidence_of r) (f64_lit 0.99)"
  have self: "p = r" if "p \<in> set (note_rows db)" "nr_id p = nr_id r" for p
    by (metis assms(1,2) row_get_in option.inject that)
  have new: "confidence_of r \<le> sc_new_confidence c \<and> sc_new_confidence c \<le> max (confidence_of r)
      (f64_lit 0.99)"
    if "c \<in> set (?cands canonical)" "sc_id c = nr_id r" for c canonical
  proof -
    from that(1) obtain p where p: "p \<in> set (note_rows db)" "strengthen_row M db p = Some c"
      by (auto simp: map_filter_def strengthen_rows_def)
    then have "nr_id p = nr_id r" using that(2) by (auto simp: strengthen_row_def Let_def split:
        if_splits)
    with self p(1) have "p = r" by blast
    with p(2) strengthened_range [of "confidence_of r"] show ?thesis
      by (auto simp: strengthen_row_def Let_def confidence_of_def split: if_splits)
  qed
  have one: "op_keeps (\<lambda>d. \<forall>q \<in> set (note_rows d). ?C q) (strengthen_one M flt ev c)"
    if "c \<in> set (?cands canonical)" for c canonical
    using new [OF that] by (intro strengthen_one_keeps) (auto simp: confidence_of_def)
  have each: "op_keeps (\<lambda>d. \<forall>q \<in> set (note_rows d). ?C q)
      (op_each (strengthen_one M flt ev) (take n (?cands canonical)))" for canonical
    by (rule op_keeps_each_in, rule one, erule in_set_takeD)
  have start: "\<forall>q \<in> set (note_rows db). ?C q" by (auto dest: self)
  have "\<forall>q \<in> set (note_rows (fst (consolidate_strengthen M flt ev a n db))). ?C q"
  proof (cases "snd (canonical_active_note_ids flt db)")
    case (Inl e)
    then have "fst (consolidate_strengthen M flt ev a n db) = db"
      by (simp only: consolidate_strengthen_def read_then [OF canonical_keeps] sum.case)
    with start show ?thesis by simp
  next
    case canonical: (Inr canonical)
    note reads = consolidate_strengthen_def read_then [OF canonical_keeps] read_then [OF op_keeps_query]
        Let_def
    show ?thesis
    proof (cases "snd (sql_query (flt SelectStrengthen) (\<lambda>db. List.map_filter (strengthen_row M db)
        (filter (\<lambda>r. nr_id r \<in> canonical) (strengthen_rows db))) db)")
      case (Inl e)
      then have "fst (consolidate_strengthen M flt ev a n db) = db" by (simp only: reads canonical
          sum.case)
      with start show ?thesis by simp
    next
      case (Inr cs)
      have cs: "cs = ?cands canonical" by (rule query_answer [OF Inr])
      have "op_keeps (\<lambda>d. \<forall>q \<in> set (note_rows d). ?C q) (if a
          then op_bind (op_each (strengthen_one M flt ev) (take n cs)) (\<lambda>_. op_return (h (length (take n
              cs))))
          else op_return (h 0))" for h :: "nat \<Rightarrow> json"
        unfolding cs using each by (cases a) (auto intro!: op_keeps_bind op_keeps_return)
      note done_all = op_keepsD [OF this start]
      have "fst (consolidate_strengthen M flt ev a n db) = fst ((if a
          then op_bind (op_each (strengthen_one M flt ev) (take n cs))
            (\<lambda>_. op_return (phase_report (length cs) (length (take n cs)) (map sc_detail (take n cs))))
          else op_return (phase_report (length cs) 0 (map sc_detail (take n cs)))) db)"
        by (simp only: reads canonical Inr sum.case)
      with done_all [of "\<lambda>k. phase_report (length cs) k (map sc_detail (take n cs))"] show ?thesis by
          simp
    qed
  qed
  with assms(3,4) show ?thesis by blast
qed

section \<open>New links\<close>

definition link_row :: "proposed_link \<Rightarrow> relation_row" where
  "link_row l = \<lparr>rel_from = pl_from l, rel_to = pl_to l, rel_type = lit ''supports'', rel_strength =
      pl_similarity l\<rparr>"

lemma write_link_relations:
  "set (note_relations (fst (write_link M flt ev l db))) \<subseteq> insert (link_row l) (set (note_relations db))
      \<and>
   length (note_relations (fst (write_link M flt ev l db))) \<le> length (note_relations db) + 1"
proof -
  let ?P = "\<lambda>d. set (note_relations d) \<subseteq> insert (link_row l) (set (note_relations db)) \<and>
    length (note_relations d) \<le> length (note_relations db) + 1"
  have logs: "op_keeps ?P (log_related_consolidation_event M flt ev i kind rel payload)" for i kind rel
      payload
    unfolding log_related_consolidation_event_def by (intro keeps_intros op_keeps_exec) simp
  have ins: "?P (fst (insert_supports flt (pl_from l) (pl_to l) (pl_similarity l) db))"
    by (auto simp: insert_supports_def insert_note_relation_def sql_exec_def link_row_def
      split: option.split simp del: lit_simps)
  show ?thesis
    using ins op_keepsD [OF logs ins] by (simp add: write_link_def op_bind_cases split: sum.split)
qed

lemma write_links_relations:
  "set (note_relations (fst (op_each (write_link M flt ev) ls db))) \<subseteq> link_row ` set ls \<union> set
      (note_relations db) \<and>
   length (note_relations (fst (op_each (write_link M flt ev) ls db))) \<le> length (note_relations db) +
       length ls"
proof (induction ls arbitrary: db)
  case (Cons l ls)
  let ?db1 = "fst (write_link M flt ev l db)"
  have "fst (op_each (write_link M flt ev) (l # ls) db) \<in> {?db1, fst (op_each (write_link M flt ev) ls
      ?db1)}"
    by (auto simp: op_bind_cases split: sum.split)
  with write_link_relations [of M flt ev l db] Cons.IH [of ?db1] show ?case by force
qed (simp add: op_return_def)

lemma plan_length: "length (snd (connect_plan opts vectors orphans)) \<le> co_max_total_links opts"
  by (simp add: connect_plan_def strongest_links_def split_beta)

lemma batches_all: "concat (batches n xs) = xs"
  by (induction n xs rule: batches.induct) simp_all

text \<open>What a link of the plan says of the tables it was made from.\<close>

definition joins_orphan_to_similar :: "maint_lib \<Rightarrow> connect_options \<Rightarrow> 'a maint_db_scheme \<Rightarrow> relation_row \<Rightarrow>
    bool"
    where
  "joins_orphan_to_similar M opts db e \<longleftrightarrow>
     (\<exists>a \<in> set (note_rows db). \<exists>b \<in> set (note_rows db). \<exists>u v.
        nr_id a = rel_from e \<and> nr_id b = rel_to e \<and> rel_from e \<noteq> rel_to e \<and> rel_type e =
            lit ''supports'' \<and>
        stated_live a \<and> stated_live b \<and>
        nr_layer a \<noteq> lit ''identity_schema'' \<and> nr_layer b \<noteq> lit ''identity_schema'' \<and>
        unrelated (note_relations db) (rel_from e) \<and> stored_vector M a = Some u \<and> stored_vector M b =
            Some v \<and>
        xround4 (cosine_similarity u v) = Fin (rel_strength e) \<and>
        (nr_layer b = nr_layer a \<and> xle (co_same_threshold opts) (Fin (rel_strength e)) \<or>
         co_cross_layer opts \<and> {nr_layer a, nr_layer b} = {lit ''event_log'', lit ''verified_fact''} \<and>
           xle (co_cross_threshold opts) (Fin (rel_strength e))))"

definition vectors_of :: "maint_lib \<Rightarrow> 'a maint_db_scheme \<Rightarrow> connect_record list \<Rightarrow> bool" where
  "vectors_of M db vectors \<longleftrightarrow>
     (\<forall>v \<in> set vectors. \<exists>r \<in> set (note_rows db). connect_record_of M r = Some v \<and> stated_live r \<and>
        nr_layer r \<noteq> lit ''identity_schema'')"

lemma loaded_vectors: "op_gives (\<lambda>d. d = db) (load_connect_vectors M flt) (vectors_of M db)"
  unfolding load_connect_vectors_def vectors_of_def
  by (rule op_gives_query)
    (fastforce simp: map_filter_def newest_first_def simp del: lit_simps dest!: subsetD [OF
        set_first_of_groups])

lemma loaded_orphans:
  "op_gives (\<lambda>d. d = db) (find_connect_orphans flt vectors) (\<lambda>os. \<forall>i \<in> set os. unrelated (note_relations
      db) i)"
  unfolding find_connect_orphans_def by (rule op_gives_query) auto

lemma vectors_ofE:
  assumes "vectors_of M db vectors" "x \<in> set vectors"
  obtains r v where "r \<in> set (note_rows db)" "stated_live r" "nr_layer r \<noteq> lit ''identity_schema''"
    "stored_vector M r = Some v" "cv_id x = nr_id r" "cv_layer x = nr_layer r" "cv_vector x = v"
proof -
  from assms obtain r where r: "r \<in> set (note_rows db)" "connect_record_of M r = Some x" "stated_live r"
      "nr_layer r \<noteq> lit ''identity_schema''"
    unfolding vectors_of_def by blast
  from r(2) obtain v where "stored_vector M r = Some v" "x = \<lparr>cv_id = nr_id r, cv_layer = nr_layer r,
      cv_vector = v\<rparr>"
    by (auto simp: connect_record_of_def)
  with r show thesis by (intro that [of r v]) simp_all
qed

lemma link_to_SomeD:
  assumes "link_to threshold c orphan candidate = Some l"
  shows "pl_from l = cv_id orphan" "pl_to l = cv_id candidate" "linkable c orphan candidate"
    "xround4 (cosine_similarity (cv_vector orphan) (cv_vector candidate)) = Fin (pl_similarity l)"
    "xle threshold (Fin (pl_similarity l))"
  using assms by (auto simp: link_to_def split: if_split_asm xf64.split_asm)

lemma orphan_link_joins:
  assumes "vectors_of M db vectors" "unrelated (note_relations db) i" "l \<in> set (orphan_links opts
      vectors i)"
  shows "joins_orphan_to_similar M opts db (link_row l)"
proof -
  obtain orphan candidate c where o: "row_get cv_id i vectors = Some orphan" and c: "candidate \<in> set
      vectors"
    and link: "link_to (if c then co_cross_threshold opts else co_same_threshold opts) c orphan
        candidate = Some l"
    and cross: "c \<longrightarrow> co_cross_layer opts"
  proof -
    from assms(3) obtain orphan where o: "row_get cv_id i vectors = Some orphan"
      by (cases "row_get cv_id i vectors") (auto simp: orphan_links_def)
    from assms(3) consider
        "l \<in> set (find_connect_links orphan vectors (co_same_threshold opts) (co_max_links_per_note
            opts) False)"
      | "co_cross_layer opts"
        "l \<in> set (find_connect_links orphan vectors (co_cross_threshold opts) (co_max_links_per_note
            opts) True)"
      by (auto simp: orphan_links_def o split: if_splits)
    then show ?thesis
    proof cases
      case 1
      then obtain x where "x \<in> set vectors"
          "link_to (co_same_threshold opts) False orphan x = Some l"
        by (auto simp: find_connect_links_def map_filter_def dest!: in_set_takeD)
      then show ?thesis by (intro that [OF o, of x False]) simp_all
    next
      case 2
      then obtain x where "x \<in> set vectors"
          "link_to (co_cross_threshold opts) True orphan x = Some l"
        by (auto simp: find_connect_links_def map_filter_def dest!: in_set_takeD)
      with 2 show ?thesis by (intro that [OF o, of x True]) simp_all
    qed
  qed
  from vectors_ofE [OF assms(1)] row_get_SomeD [OF o] obtain a u where
    a: "a \<in> set (note_rows db)" "stated_live a" "nr_layer a \<noteq> lit ''identity_schema''" "stored_vector M
        a = Some u"
      "cv_id orphan = nr_id a" "cv_layer orphan = nr_layer a" "cv_vector orphan = u" by blast
  from vectors_ofE [OF assms(1) c] obtain b v where
    b: "b \<in> set (note_rows db)" "stated_live b" "nr_layer b \<noteq> lit ''identity_schema''" "stored_vector M
        b = Some v"
      "cv_id candidate = nr_id b" "cv_layer candidate = nr_layer b" "cv_vector candidate = v" by blast
  have l: "pl_from l = nr_id a" "pl_to l = nr_id b" "linkable c orphan candidate"
    "xround4 (cosine_similarity u v) = Fin (pl_similarity l)"
    "xle (if c then co_cross_threshold opts else co_same_threshold opts) (Fin (pl_similarity l))"
    using link_to_SomeD [OF link] by (simp_all add: a(5,7) b(5,7))
  have "unrelated (note_relations db) (nr_id a)" using assms(2) row_get_SomeD [OF o] a(5) by simp
  moreover have "nr_layer b = nr_layer a \<and> xle (co_same_threshold opts) (Fin (pl_similarity l)) \<or>
      co_cross_layer opts \<and> {nr_layer a, nr_layer b} = {lit ''event_log'', lit ''verified_fact''} \<and>
        xle (co_cross_threshold opts) (Fin (pl_similarity l))"
  proof (cases c)
    case True
    with l(3,5) cross a(6) b(6) show ?thesis by (cases "nr_layer a = lit ''event_log''") (auto simp:
        linkable_def simp del: lit_simps)
  next
    case False
    with l(3,5) a(6) b(6) show ?thesis by (simp add: linkable_def del: lit_simps)
  qed
  moreover have "nr_id b \<noteq> nr_id a" using l(3) a(5) b(5) by (simp add: linkable_def)
  ultimately show ?thesis
    unfolding joins_orphan_to_similar_def link_row_def
    by (intro bexI [OF _ a(1)] bexI [OF _ b(1)] exI [of _ u] exI [of _ v])
      (simp add: a(2-4) b(2-4) l(1,2,4) a(3) [symmetric] del: lit_simps)
qed

text \<open>
  What \<open>connect\<close> adds: whatever fails, at most the number of relations asked for, each a support
  from a note that had no relation to another live note, neither of them a rule, whose vectors have
  that rounded similarity, which reaches the threshold of their layers.
\<close>

theorem new_links_join_orphans_to_similar_notes:
  "length (note_relations (fst (run_consolidate_connect M flt ev opts db)))
     \<le> length (note_relations db) + co_max_total_links opts \<and>
   set (note_relations (fst (run_consolidate_connect M flt ev opts db)))
     \<subseteq> set (note_relations db) \<union> {e. joins_orphan_to_similar M opts db e}"
proof -
  let ?ok = "\<lambda>d. length (note_relations d) \<le> length (note_relations db) + co_max_total_links opts \<and>
    set (note_relations d) \<subseteq> set (note_relations db) \<union> {e. joins_orphan_to_similar M opts db e}"
  have written: "?ok (fst (process_connect_orphans M flt ev opts vectors orphans db))"
    if vecs: "vectors_of M db vectors" and free: "\<forall>i \<in> set orphans. unrelated (note_relations db) i"
    for vectors orphans
  proof -
    let ?ls = "snd (connect_plan opts vectors orphans)"
    have "joins_orphan_to_similar M opts db (link_row l)" if l: "l \<in> set ?ls" for l
    proof -
      obtain i where "i \<in> set orphans" "l \<in> set (orphan_links opts vectors i)"
        using plan_from_orphans [OF l] by (auto simp: batches_all)
      with vecs free show ?thesis by (intro orphan_link_joins) auto
    qed
    then have "?ok (fst (op_each (write_link M flt ev) ?ls db))"
      using write_links_relations [of M flt ev ?ls db] plan_length [of opts vectors orphans] by
          fastforce
    then show ?thesis
      by (auto simp: process_connect_orphans_def split_beta op_bind_cases op_return_def split:
          sum.split)
  qed
  show ?thesis
  proof (cases "snd (load_connect_vectors M flt db)")
    case (Inl e)
    then show ?thesis by (simp add: run_consolidate_connect_def read_then [OF connect_vectors_keeps])
  next
    case (Inr vectors)
    with loaded_vectors have v: "vectors_of M db vectors" by (auto simp: op_gives_def)
    show ?thesis
    proof (cases "vectors \<noteq> [] \<and> (\<exists>orphans. snd (find_connect_orphans flt vectors db) = Inr orphans)")
      case True
      then obtain orphans where o: "snd (find_connect_orphans flt vectors db) = Inr orphans" by blast
      with loaded_orphans [of db flt vectors] have "\<forall>i \<in> set orphans. unrelated (note_relations db) i"
        by (simp add: op_gives_def)
      from written [OF v this] True o Inr show ?thesis
        by (auto simp: run_consolidate_connect_def read_then [OF connect_vectors_keeps]
          read_then [OF orphans_keeps] op_return_def)
    next
      case False
      with Inr show ?thesis
        by (cases "snd (find_connect_orphans flt vectors db)")
          (auto simp: run_consolidate_connect_def read_then [OF connect_vectors_keeps]
            read_then [OF orphans_keeps] op_fail_def)
    qed
  qed
qed

end
