(* ===== verification/Consolidate_Faults.thy ===== *)
theory Consolidate_Faults
  imports Consolidate_Effects
begin

text \<open>
  What the consolidation commands do that their names do not promise: notes that are roots of their
  own, as a note is that the store inserts without a root, are never chained, however similar they are.
\<close>

section \<open>Notes of their own root are never chained\<close>

definition own_root :: "note_row \<Rightarrow> bool" where
  "own_root r \<longleftrightarrow> nr_root_id r = Some (nr_id r) \<and> trim (nr_id r) \<noteq> []"

definition own_root_record :: "chain_record \<Rightarrow> bool" where
  "own_root_record k \<longleftrightarrow> nonblank_root k = Some (trim (kr_id k))"

lemma own_root_records: "own_root r \<Longrightarrow> own_root_record (chain_record_from_row M c r)"
  by (simp add: own_root_def own_root_record_def nonblank_root_def chain_record_from_row_def
      text_or_empty_def)

lemma own_roots_differ:
  assumes "own_root_record a" "own_root_record b" "trim (kr_id a) \<noteq> trim (kr_id b)"
  shows "\<not> can_extend_chain_with [a] b"
  using assms by (simp add: can_extend_chain_with_def distinct_nonempty_root_ids_def own_root_record_def
      map_filter_def)

definition own_roots :: "chain_record list \<Rightarrow> bool" where
  "own_roots ks \<longleftrightarrow> (\<forall>k \<in> set ks. own_root_record k) \<and> distinct (map (\<lambda>k. trim (kr_id k)) ks)"

lemma own_roots_simps [simp]:
  "own_roots []"
  "own_roots (k # ks) \<longleftrightarrow>
     own_root_record k \<and> (\<forall>x \<in> set ks. trim (kr_id x) \<noteq> trim (kr_id k)) \<and> own_roots ks"
  unfolding own_roots_def by (simp_all add: image_iff) (metis (no_types))

lemma own_roots_filter: "own_roots ks \<Longrightarrow> own_roots (filter Q ks)"
  by (auto simp: own_roots_def intro: distinct_map_filter)

lemma own_cluster:
  assumes "own_roots (newer # rest)"
  shows "fst (fold (extend_cluster threshold full newer) rest ([newer], assigned)) = [newer]"
  using assms
proof (induction rest arbitrary: assigned)
  case (Cons older rest)
  then have "\<not> can_extend_chain_with [newer] older" by (intro own_roots_differ) auto
  then have "extend_cluster threshold full newer older ([newer], assigned) = ([newer], assigned)"
    by (simp add: extend_cluster_def)
  with Cons show ?case by simp
qed simp

lemma own_vector_chains:
  "own_roots ks \<Longrightarrow> vector_chains M flt ev threshold n a layer ks assigned acc = op_return acc"
proof (induction ks arbitrary: assigned)
  case (Cons newer rest)
  obtain sofar made where acc: "acc = (sofar, made)" by fastforce
  obtain cluster assigned1 where c: "fold (extend_cluster threshold (n \<le> sofar) newer) rest
      ([newer], kr_id newer # assigned) = (cluster, assigned1)" by fastforce
  with own_cluster [OF Cons.prems, of threshold "n \<le> sofar" "kr_id newer # assigned"] have "cluster =
      [newer]" by simp
  with Cons c show ?case
    by (cases "kr_id newer \<in> set assigned \<or> n \<le> sofar") (auto simp: acc)
qed (cases acc, simp)

definition lone_chains :: "head_chains \<Rightarrow> bool" where
  "lone_chains made \<longleftrightarrow> (\<forall>(k, c) \<in> set made. \<exists>x. c = [x] \<and> kr_id x = k \<and> own_root_record x)"

lemma lone_update:
  assumes "lone_chains made" "own_root_record x"
  shows "lone_chains (AList.update (kr_id x) [x] made)"
  unfolding lone_chains_def
proof
  fix p assume "p \<in> set (AList.update (kr_id x) [x] made)"
  from subsetD [OF update_entries this] have "p = (kr_id x, [x]) \<or> p \<in> set made" by (simp only:
      insert_iff)
  with assms show "case p of (k, c) \<Rightarrow> \<exists>x. c = [x] \<and> kr_id x = k \<and> own_root_record x"
    by (auto simp: lone_chains_def)
qed

lemma own_claim:
  assumes "lone_chains (fst acc)" "own_root_record newer" "own_root_record older"
    "trim (kr_id older) \<noteq> trim (kr_id newer)"
  shows "lone_chains (fst (claim_older threshold newer older acc))"
proof -
  obtain made claimed where acc: "acc = (made, claimed)" by fastforce
  define chain where "chain = (case map_of made (kr_id newer) of None \<Rightarrow> [newer] | Some c \<Rightarrow> c)"
  obtain x where x: "chain = [x]" "kr_id x = kr_id newer" "own_root_record x"
  proof (cases "map_of made (kr_id newer)")
    case None
    with assms(2) that [of newer] show ?thesis by (simp add: chain_def)
  next
    case (Some c)
    then have "(kr_id newer, c) \<in> set made" by (rule map_of_SomeD)
    with assms(1) have "\<exists>x. c = [x] \<and> kr_id x = kr_id newer \<and> own_root_record x"
      unfolding lone_chains_def acc fst_conv by (simp only: Ball_def split_paired_All prod.case)
    with Some that show ?thesis by (auto simp: chain_def)
  qed
  with assms(3,4) have "\<not> can_extend_chain_with chain older" by (simp add: own_roots_differ)
  with lone_update [of made x] x assms(1) show ?thesis
    by (simp add: claim_older_def acc chain_def [symmetric] Let_def)
qed

lemma own_fold_claim:
  assumes "lone_chains (fst acc)" "own_roots (newer # rest)"
  shows "lone_chains (fst (fold (claim_older threshold newer) rest acc))"
  using assms
proof (induction rest arbitrary: acc)
  case (Cons older rest)
  then have "lone_chains (fst (claim_older threshold newer older acc))" by (intro own_claim) auto
  with Cons show ?case by simp
qed simp

lemma own_head_chains:
  "lone_chains (fst acc) \<Longrightarrow> own_roots ks \<Longrightarrow> lone_chains (fst (head_chains_of threshold ks acc))"
proof (induction ks arbitrary: acc)
  case (Cons newer rest)
  then show ?case using own_fold_claim [of acc newer rest threshold] by simp
qed simp

lemma own_confidence_chains:
  "\<forall>c \<in> set cs. length c < 2 \<Longrightarrow> confidence_chains M flt ev n a layer cs acc = op_return acc"
  by (induction cs) (cases acc, simp)+

lemma over_layers_idle: "(\<And>g acc. g \<in> set gs \<Longrightarrow> f g acc = op_return acc) \<Longrightarrow> over_layers n f gs acc =
    op_return acc"
  by (induction gs) (auto simp: op_bind_def op_return_def fun_eq_iff)

text \<open>The records the vector phases load have roots of their own.\<close>

definition rooted_apart :: "note_row list \<Rightarrow> bool" where
  "rooted_apart rows \<longleftrightarrow> (\<forall>r \<in> set rows. own_root r) \<and> distinct (map (\<lambda>r. trim (nr_id r)) rows)"

lemma rooted_records:
  assumes "rooted_apart rows"
  shows "own_roots (filter Q (map (chain_record_from_row M c) (sort_desc nr_created_at (filter R
      rows))))"
proof (rule own_roots_filter)
  let ?rs = "sort_desc nr_created_at (filter R rows)"
  have "mset ?rs = mset (filter R rows)" by (simp add: sort_desc_def)
  then have s: "set ?rs = set (filter R rows)" and
    d: "mset (map (\<lambda>r. trim (nr_id r)) ?rs) = mset (map (\<lambda>r. trim (nr_id r)) (filter R rows))"
    by (metis mset_eq_setD, simp)
  have "distinct (map (\<lambda>r. trim (nr_id r)) ?rs)"
    using assms mset_eq_imp_distinct_iff [OF d] by (auto simp: rooted_apart_def intro:
        distinct_map_filter)
  with s assms show "own_roots (map (chain_record_from_row M c) ?rs)"
    by (auto simp: own_roots_def rooted_apart_def o_def own_root_records)
      (simp add: chain_record_from_row_def o_def)
qed

lemma sublist_own: "own_roots ks \<Longrightarrow> (layer, rs) \<in> set (layer_groups ks) \<Longrightarrow> own_roots rs"
  by (auto simp: layer_groups_def own_roots_filter)

lemma load_own_roots:
  "rooted_apart (note_rows db) \<Longrightarrow> op_gives (\<lambda>d. d = db) (load_chain_vector_candidates M flt b) own_roots"
  unfolding load_chain_vector_candidates_def by (rule op_gives_query) (simp add: rooted_records)

lemma own_layers:
  "own_roots ks \<Longrightarrow> over_layers n (\<lambda>(layer, group_records) acc.
     vector_chains M flt ev threshold n a layer group_records [] acc) (layer_groups ks) acc = op_return
         acc"
  by (rule over_layers_idle) (auto dest: sublist_own simp: own_vector_chains)

lemma own_phase_b:
  assumes "rooted_apart (note_rows db)"
  shows "op_keeps (\<lambda>d. d = db) (phase_b_vector_chains M flt ev threshold n a)"
  unfolding phase_b_vector_chains_def
  by (rule op_keeps_bind_given [OF load_vectors_keeps load_own_roots [OF assms]])
    (simp only: own_layers, intro keeps_intros)

lemma lone_lengths: "lone_chains made \<Longrightarrow> \<forall>c \<in> set (map snd (sort_key fst made)). length c < 2"
  by (fastforce simp: lone_chains_def)

lemma own_head_layers:
  fixes acc :: "nat \<times> json list"
  assumes ks: "own_roots ks"
  shows "over_layers n (\<lambda>(layer, group_records) acc.
      let made = (if n \<le> fst acc then [] else fst (head_chains_of threshold group_records ([], [])))
      in confidence_chains M flt ev n a layer (map snd (sort_key fst made)) acc) (layer_groups ks) acc =
          op_return acc"
proof (rule over_layers_idle)
  fix g and acc :: "nat \<times> json list"
  assume g: "g \<in> set (layer_groups ks)"
  obtain layer rs where gl: "g = (layer, rs)" by fastforce
  have "lone_chains (fst (head_chains_of threshold rs ([], [])))"
    using sublist_own [OF ks g [unfolded gl]] by (intro own_head_chains) (simp_all add: lone_chains_def)
  then have "lone_chains (if n \<le> fst acc then [] else fst (head_chains_of threshold rs ([], [])))"
    by (simp add: lone_chains_def)
  from own_confidence_chains [OF lone_lengths [OF this]]
  show "(case g of (layer, group_records) \<Rightarrow> \<lambda>acc.
      let made = (if n \<le> fst acc then [] else fst (head_chains_of threshold group_records ([], [])))
      in confidence_chains M flt ev n a layer (map snd (sort_key fst made)) acc) acc = op_return acc"
    by (simp only: gl prod.case Let_def)
qed

lemma own_phase_c:
  assumes "rooted_apart (note_rows db)"
  shows "op_keeps (\<lambda>d. d = db) (phase_c_auto_supersede M flt ev threshold n a)"
  unfolding phase_c_auto_supersede_def
  by (rule op_keeps_bind_given [OF load_vectors_keeps load_own_roots [OF assms]])
    (simp only: own_head_layers, intro keeps_intros)

lemma own_keys: "own_root r \<Longrightarrow> chain_key r = Some (lit ''root:'' @ nr_id r)"
  by (simp add: own_root_def chain_key_def)

lemma own_groups:
  assumes "rooted_apart rows"
  shows "chain_groups rows = []"
proof -
  have short: "length (chained_rows rows k) \<le> 1" for k
  proof (rule ccontr)
    assume "\<not> length (chained_rows rows k) \<le> 1"
    then obtain x y zs where xy: "chained_rows rows k = x # y # zs"
      by (cases "chained_rows rows k" rule: remdups_adj.cases) auto
    have "distinct (map (\<lambda>r. trim (nr_id r)) (chained_rows rows k))"
      using assms by (auto simp: rooted_apart_def chained_rows_def intro: distinct_map_filter)
    then have differ: "nr_id x \<noteq> nr_id y" by (auto simp: xy)
    have "x \<in> set (chained_rows rows k)" "y \<in> set (chained_rows rows k)" by (simp_all add: xy)
    then have "chain_key x = Some k" "chain_key y = Some k" "own_root x" "own_root y"
      using assms by (auto simp: chained_rows_def rooted_apart_def)
    with differ show False by (auto simp: own_keys)
  qed
  then have "filter (\<lambda>k. 1 < length (chained_rows rows k)) ks = []" for ks
    by (simp add: filter_empty_conv not_less)
  then show ?thesis unfolding chain_groups_def by simp
qed

lemma own_phase_a:
  assumes "rooted_apart (note_rows db)"
  shows "op_keeps (\<lambda>d. d = db) (phase_a_topic_chains M flt ev a)"
  unfolding phase_a_topic_chains_def
proof (rule op_keeps_bind_given [OF op_keeps_query op_gives_query])
  show "chain_groups (note_rows d) = []" if "d = db" for d using that own_groups [OF assms] by simp
qed (simp add: keeps_intros)

text \<open>
  C34. When every note is the root of its own lineage, as the store makes a note that is inserted
  without one, the command that chains similar notes never changes anything, applied or not, whatever
      the threshold and
  however similar the notes are: two roots are never put in one chain.
\<close>

theorem notes_of_their_own_root_are_never_chained:
  assumes "rooted_apart (note_rows db)"
  shows "fst (run_consolidate_chain M flt ev threshold n a db) = db"
proof -
  have "op_keeps (\<lambda>d. d = db) (run_consolidate_chain M flt ev threshold n a)"
    unfolding run_consolidate_chain_def
    by (intro keeps_intros own_phase_a own_phase_b own_phase_c assms)
  from op_keepsD [OF this refl] show ?thesis .
qed

text \<open>Two notes with the same text and the same vector, as the store inserts them.\<close>

definition twin_row :: "string \<Rightarrow> note_row" where
  "twin_row name = inserted_row (lit ''1'') (note_insert_default\<lparr>ni_id := lit name, ni_content :=
      lit ''rust'',
     ni_layer := lit ''verified_fact'', ni_is_active := True, ni_is_head := True, ni_vector_json := Some
         (lit ''[1]'')\<rparr>)"

definition twin_db :: maint_db where
  "twin_db =
     \<lparr>note_rows = [twin_row ''a'', twin_row ''b''], notes_fts = [], sessions = [], note_events = [],
      note_relations = [], dream_candidates = None, notes_columns = [], recall_log = None, dream_columns
          = [],
      dream_texts = [], experience_records = [], experience_reviews = [], experience_actions = [],
      topic_feedback = [], artifact_runs = [], query_log = [], activation_trace_log = [],
      stats_of = (\<lambda>i. \<lparr>ns_recall_count = None, ns_support_count = None, ns_last_verified = None\<rparr>)\<rparr>"

definition twin_lib :: maint_lib where
  "twin_lib =
     \<lparr>ml_score = \<lparr>sl_lower = (\<lambda>s. s), sl_exp = (\<lambda>x. x), sl_ln = (\<lambda>x. x), sl_parse_rfc3339 = (\<lambda>s. None),
        sl_parse_naive = (\<lambda>s f. None), sl_now = (0, 0)\<rparr>,
      ml_json = \<lparr>jl_parse = (\<lambda>s. if s = lit ''[1]'' then Some (JArr [JFloat 1]) else None), jl_print =
          (\<lambda>v. Some []),
        jl_value_to_string = (\<lambda>v. []), jl_json_valid = (\<lambda>s. True), jl_extract_text = (\<lambda>s p. None)\<rparr>,
      ml_strings = (\<lambda>s. None), ml_epoch = (\<lambda>s. None), ml_json_set = (\<lambda>s p v. Ok s)\<rparr>"

theorem notes_of_their_own_root_are_never_chained_witness:
  "fst (run_consolidate_chain twin_lib no_faults \<lparr>me_now = (0, 0), me_rfc3339 = [], me_sql_now = []\<rparr>
      (Fin 0) 5 True
       twin_db) = twin_db \<and>
   live_note (twin_row ''a'') \<and> live_note (twin_row ''b'') \<and>
   nr_content (twin_row ''a'') = nr_content (twin_row ''b'') \<and>
   stored_vector twin_lib (twin_row ''a'') = Some [f32_of_f64 1] \<and>
   stored_vector twin_lib (twin_row ''b'') = Some [f32_of_f64 1]"
proof (intro conjI)
  have "rooted_apart (note_rows twin_db)" by code_simp
  then show "fst (run_consolidate_chain twin_lib no_faults \<lparr>me_now = (0, 0), me_rfc3339 = [], me_sql_now
      = []\<rparr>
      (Fin 0) 5 True twin_db) = twin_db"
    by (rule notes_of_their_own_root_are_never_chained)
  show "live_note (twin_row ''a'')" "live_note (twin_row ''b'')" by code_simp+
  show "nr_content (twin_row ''a'') = nr_content (twin_row ''b'')" by (simp add: twin_row_def
      inserted_row_def)
  show "stored_vector twin_lib (twin_row ''a'') = Some [f32_of_f64 1]"
    "stored_vector twin_lib (twin_row ''b'') = Some [f32_of_f64 1]"
    by (simp_all add: stored_vector_def twin_row_def inserted_row_def twin_lib_def
        parse_connect_vector_def lit_inject del: lit_simps)
qed

end
