(* ===== verification/Spec2Isabelle.thy ===== *)
theory Spec2Isabelle
  imports Idempotency Governance_Runs Memory_Policy Auto_Classifier Write_Witness Context_Laws Experience_Faults Convo_Laws Service_Laws Service_Read_Laws Consolidate_Faults
begin

text \<open>
  Memra is a memory server for AI agents: \<open>memra-core\<close> keeps notes in SQLite and decides what may
  be written, what retires what and what a search returns; \<open>memra-server\<close> puts it behind HTTP
  with bearer keys, session tokens, a rate gate, an idempotency ledger and an audit log, and offers
  its operator commands that maintain the store. This library models them as HOL functions and
  proves what makes their parts correct. It is read with the repository: each theory names the file
  under \<open>src/\<close> whose functions it follows, and a definition has the name of the function it models.

  \<^bold>\<open>Parts and how they meet.\<close> A request passes \<open>Auth\<close> (\<open>transport/auth.rs\<close>) and the session
  middleware in \<open>Session_Ids\<close> and \<open>Write_Tokens\<close> (\<open>transport/session.rs\<close>, \<open>session_open.rs\<close>,
  \<open>storage/session_tokens_writer.rs\<close>), the rate gate in \<open>Admission\<close> and the ledger in
  \<open>Idempotency\<close>, with \<open>Audit_Log\<close> recording rejections. The tools of the service (\<open>service.rs\<close>) are
  \<open>Service_Writes\<close> and \<open>Service_Reads\<close>: they check the write token, hold a permit of the admission
  gate and call the core. A write runs \<open>add_memory\<close>, \<open>save_checkpoint\<close> or \<open>report_outcome\<close> of
  \<open>Write_Orchestrator\<close>, which asks \<open>Memory_Policy\<close>, \<open>Auto_Classifier\<close> and \<open>Write_Support\<close>, reads
  duplicates and neighbours in \<open>Write_Dedup\<close>, archives in \<open>Cold_Storage\<close>, runs one transaction of
  \<open>Note_Store\<close> and \<open>Note_Feedback\<close> statements and finishes with the passes of \<open>Write_Links\<close>. Rules
  of the constitution change only through \<open>Governance\<close>; writer and governance are two connections on
  one database. A search (\<open>Search_Engine\<close>, \<open>retrieval/search.rs\<close>) reads its query with
  \<open>Search_Query\<close>, gathers candidates in \<open>Search_Recall\<close>, answers early by \<open>Search_Match\<close>, ranks them
  with \<open>Scoring\<close> and \<open>Scoring_Text\<close>, follows them to live heads with \<open>Canonical_Reader\<close> in
  \<open>Search_Activation\<close>, adds associations in \<open>Search_Spread\<close> and trims them with \<open>Search_Results\<close>;
  \<open>Context_Notes\<close> and \<open>Context_Snapshot\<close> are the snapshots an agent starts from. The experience
  store (\<open>experience.rs\<close>) is \<open>Experience_Text\<close>, \<open>Experience_Store\<close>, \<open>Experience_Refresh\<close>,
  \<open>Experience_Surfaces\<close> and \<open>Experience_Feedback\<close>. \<open>Convo_Normalizer\<close> reads exported conversations,
  \<open>Utf8_Lossy\<close> the decoding it relies on. \<open>Consolidate_Base\<close>, \<open>Consolidate_Notes\<close>,
  \<open>Consolidate_Chain\<close> and \<open>Consolidate_Links\<close> are the consolidation commands of \<open>cli/phase4.rs\<close>:
  strengthening, pruning, stale events, expiry, version chains, new links and synapses.

  \<^bold>\<open>Foundations.\<close> \<open>Memra_Prelude\<close>: Rust strings as lists of code points (\<open>ustr\<close>, literals
  \<open>lit\<close>), byte lengths, trimming and splitting, results as sums, SQL tables as lists of rows with
  unique keys, and \<open>op\<close>, a state transformer whose steps may fail. \<open>Sql_Conn\<close>: a connection as a
  durable database and the database of an open transaction; every statement, BEGIN, COMMIT and
  ROLLBACK fails when the argument \<open>flt\<close> says so, so each theorem about runs covers all failures.
  \<open>Sql_Order\<close>: ORDER BY. \<open>Float64\<close>: doubles as rationals rounded to 53 bits, ties to even;
  \<open>Similarity\<close> adds infinities and NaN, the bytes of vectors and the cosine. \<open>Json_Value\<close> and
  \<open>Http_Types\<close>: the data of serde\_json and http the program reads.

  \<^bold>\<open>Groups of lemmas.\<close> \<open>Note_Laws\<close>, \<open>Note_Outcomes\<close> and \<open>Canonical_Laws\<close>: the full-text table
  mirrors the notes, strengths stay in the unit interval, feedback moves confidences the right way,
  a retired note is never read again. \<open>Governance_Laws\<close> and \<open>Governance_Runs\<close>: an applied change
  has a quorum of distinct principals and labels, the number of votes decides whether an approval
  applies it, a failed approval changes nothing durable. \<open>Write_Laws\<close>: the laws of a transaction as
  the locale \<open>txn_body\<close>, interpreted for the two transactions of the writer. \<open>Write_Invariants\<close> and
  \<open>Write_Runs\<close>: locales that lift an invariant of rows to every statement and to every run of calls,
  interpreted in \<open>Write_Properties\<close> for the index, for the texts of the rules and for the rules in
  force. \<open>Write_Saves\<close> and \<open>Write_Checkpoints\<close>: what one call promises. \<open>Write_Faults\<close>: where the
  write path breaks what other code relies on. \<open>Service_Laws\<close>: in runs of the tools, who can apply a
  change and what can change the constitution; \<open>Service_Read_Laws\<close>: a search writes only its logs,
  and what it showed counts as recalled. \<open>Scoring_Laws\<close> and \<open>Result_Laws\<close>: what ranking and
  post-processing promise. \<open>Query_Laws\<close>: escaping, quoting, and the text cut at a character boundary.
  \<open>Spread_Laws\<close>: associations, by the locale \<open>spread_invariant\<close> over the hops. \<open>Search_Laws\<close>,
  \<open>Search_Scope\<close> (the locale \<open>candidate_channel\<close>, interpreted for each channel) and \<open>Recall_Laws\<close>:
  bounds and distinctness of results, where they come from, and what the shortcuts leave out.
  \<open>Context_Laws\<close>: a snapshot depends on its project alone. \<open>Experience_Laws\<close>, \<open>Experience_Rules\<close> and
  \<open>Experience_Faults\<close>: the store's keys, the conditions of promotion, and where a refresh crosses
  projects or stops. \<open>Convo_Laws\<close>: every input is answered, and a plain conversation is read back.
  \<open>Consolidate_Laws\<close> (the locale \<open>maint_invariant\<close>, interpreted for texts, strengths and rules),
  \<open>Consolidate_Effects\<close> and \<open>Consolidate_Faults\<close>: a dry run writes nothing, no text changes, what
  pruning, chaining and connecting may touch, and why notes of their own root never chain.
  \<open>Governance_Runs\<close>, \<open>Write_Witness\<close> and \<open>Search_Witness\<close> apply the properties to concrete runs.

  \<^bold>\<open>Arguments of the model.\<close> What the program takes from other crates is an argument: blake3,
  NFKC, the Unicode lower-case mapping, regular expressions, JSON parsing and printing, date parsing
  and printing, SQLite's JSON functions, \<open>strftime\<close> and full-text matching, the embedding model,
  \<open>exp\<close> and \<open>ln\<close>, the clock, random bytes, file errors, and the order in which a hash map is read
  where it matters. A property that needs a law of one of them states it as a hypothesis, and its
  witness gives a concrete function that satisfies it. Timestamps compared as text are ordered as
  times in years of four digits, \<open>rfc3339_ordered\<close> and \<open>four_digit_year\<close> of \<open>Write_Tokens\<close>.

  \<^bold>\<open>Loops, bounds and panics.\<close> Loops are total functions with structural or measured recursion;
  those whose end is a claim, \<open>boundary_loop\<close> of \<open>Query_Laws\<close> and \<open>chain_loop\<close> of
  \<open>Convo_Normalizer\<close>, are partial functions, proved to return. No definition uses fuel: the three
  hops of associations, the chunks of 900 bound values and the limits of lists are the program's own
  constants. A panic is the value None: a slice within a character (\<open>str_slice_to\<close>), or in
  \<open>Scoring\<close> a slice at a position found in a longer lower-case form. Integers are \<open>int\<close> or \<open>nat\<close>
  with the program's bounds written out (\<open>as_i32\<close>, saturating counts, \<open>i64\<close> parsing); vectors hold
  32-bit words.
  \<^bold>\<open>Not modelled.\<close> The rest of the operator command line (\<open>cli/\<close>: argument parsing, reports,
  evaluation, ingest and wiki files), the embedding backend and worker (calls to the model), the LLM
  clients (\<open>llm/mod.rs\<close>: HTTP calls and provider JSON), the schema and migrations of
  \<open>storage/db.rs\<close> (DDL text) but for the trust columns and the expiry of candidates, configuration,
  sockets and the router, and the construction of the service with its tool tables.
\<close>

end
